(* ===== verification/Prelude.thy ===== *)
theory Prelude
  imports Main "HOL-Library.Word" "HOL-Library.Monad_Syntax"
begin

text \<open>
  Shared vocabulary of the development: the machine integers of the C code, the abort
  monad in which every \<open>assert\<close> of the code is a branch, little-endian access to the byte
  memory, and the generic facts on words, lists and options that the component theories
  reuse.

  A C function that may run into a failing \<open>assert\<close> (or an \<open>exit\<close>) returns an
  \<open>option\<close>: \<open>None\<close> is the aborted process, \<open>Some\<close> the normal return. Errors that
  the code reports as values (\<open>Error\<close> structures) are values of the model as well, kept in
  the state they are kept in by the code.
\<close>

unbundle bit_operations_syntax

section \<open>Machine integers\<close>

type_synonym u8 = "8 word"
type_synonym u16 = "16 word"
type_synonym u32 = "32 word"
type_synonym u64 = "64 word"

text \<open>The address space: every address holds a byte.\<close>

type_synonym mem = "u64 \<Rightarrow> u8"

text \<open>
  The casts \<open>(int64_t)(int8_t)\<close>, \<open>(int64_t)(int16_t)\<close> and \<open>(int64_t)(int32_t)\<close> of the
  code, as sign extension of the low bits of a 64-bit value, and the truncating casts
  \<open>(uint8_t)\<close>, \<open>(uint16_t)\<close>, \<open>(uint32_t)\<close> read back as 64-bit values.
\<close>

definition sext8 :: "u64 \<Rightarrow> u64" where
  "sext8 v = scast (ucast v :: u8)"

definition sext16 :: "u64 \<Rightarrow> u64" where
  "sext16 v = scast (ucast v :: u16)"

definition sext32 :: "u64 \<Rightarrow> u64" where
  "sext32 v = scast (ucast v :: u32)"

definition trunc8 :: "u64 \<Rightarrow> u64" where
  "trunc8 v = ucast (ucast v :: u8)"

definition trunc16 :: "u64 \<Rightarrow> u64" where
  "trunc16 v = ucast (ucast v :: u16)"

definition trunc32 :: "u64 \<Rightarrow> u64" where
  "trunc32 v = ucast (ucast v :: u32)"

lemmas cast_defs = sext8_def sext16_def sext32_def trunc8_def trunc16_def trunc32_def

section \<open>Failing hard\<close>

text \<open>The \<open>assert\<close> macro: abort unless the condition holds.\<close>

definition c_assert :: "bool \<Rightarrow> unit option" where
  "c_assert b = (if b then Some () else None)"

lemma c_assert_True [simp]: "c_assert True = Some ()"
  by (simp add: c_assert_def)

lemma c_assert_False [simp]: "c_assert False = None"
  by (simp add: c_assert_def)

lemma c_assert_eq_Some [simp]: "c_assert b = Some u \<longleftrightarrow> b"
  by (simp add: c_assert_def)

lemma c_assert_eq_None [simp]: "c_assert b = None \<longleftrightarrow> \<not> b"
  by (simp add: c_assert_def)

lemma c_assert_bind: "Option.bind (c_assert b) f = (if b then f () else None)"
  by (simp add: c_assert_def)

lemma bind_SomeE:
  assumes "Option.bind m f = Some y"
  obtains x where "m = Some x" and "f x = Some y"
  using assms by (auto simp: bind_eq_Some_conv)

section \<open>Little-endian memory access\<close>

definition rd8 :: "mem \<Rightarrow> u64 \<Rightarrow> u64" where
  "rd8 m a = ucast (m a)"

definition rd16 :: "mem \<Rightarrow> u64 \<Rightarrow> u64" where
  "rd16 m a = ucast (m a) OR push_bit 8 (ucast (m (a + 1)))"

definition rd32 :: "mem \<Rightarrow> u64 \<Rightarrow> u64" where
  "rd32 m a = rd16 m a OR push_bit 16 (rd16 m (a + 2))"

definition rd64 :: "mem \<Rightarrow> u64 \<Rightarrow> u64" where
  "rd64 m a = rd32 m a OR push_bit 32 (rd32 m (a + 4))"

text \<open>The bytes a little-endian store of 1, 2, 4 or 8 bytes writes.\<close>

definition le8 :: "u64 \<Rightarrow> u8 list" where
  "le8 v = [ucast v]"

definition le16 :: "u64 \<Rightarrow> u8 list" where
  "le16 v = [ucast v, ucast (drop_bit 8 v)]"

definition le32 :: "u64 \<Rightarrow> u8 list" where
  "le32 v = le16 v @ le16 (drop_bit 16 v)"

definition le64 :: "u64 \<Rightarrow> u8 list" where
  "le64 v = le32 v @ le32 (drop_bit 32 v)"

text \<open>A byte sequence stands in memory at an address, and storing one there.\<close>

primrec bytes_at :: "mem \<Rightarrow> u64 \<Rightarrow> u8 list \<Rightarrow> bool" where
  "bytes_at m a [] = True"
| "bytes_at m a (b # bs) = (m a = b \<and> bytes_at m (a + 1) bs)"

primrec store_bytes :: "mem \<Rightarrow> u64 \<Rightarrow> u8 list \<Rightarrow> mem" where
  "store_bytes m a [] = m"
| "store_bytes m a (b # bs) = store_bytes (m(a := b)) (a + 1) bs"

lemma bytes_at_append [simp]:
  "bytes_at m a (xs @ ys) \<longleftrightarrow> bytes_at m a xs \<and> bytes_at m (a + of_nat (length xs)) ys"
  by (induction xs arbitrary: a) (simp_all add: add.assoc)

lemma length_le [simp]:
  "length (le8 v) = 1" "length (le16 v) = 2" "length (le32 v) = 4" "length (le64 v) = 8"
  by (simp_all add: le8_def le16_def le32_def le64_def)

lemma rd8_bytes_at: "bytes_at m a (le8 v) \<Longrightarrow> rd8 m a = trunc8 v"
  by (simp add: rd8_def le8_def trunc8_def)

lemma join16: "(ucast (ucast v :: u8) :: u64) OR push_bit 8 (ucast (ucast (drop_bit 8 v) :: u8))
    = trunc16 v"
  unfolding trunc16_def by (rule bit_word_eqI) (auto simp: bit_simps)

lemma rd16_bytes_at: "bytes_at m a (le16 v) \<Longrightarrow> rd16 m a = trunc16 v"
  by (simp add: rd16_def le16_def join16)

lemma join32: "trunc16 v OR push_bit 16 (trunc16 (drop_bit 16 v)) = trunc32 v"
  unfolding trunc16_def trunc32_def by (rule bit_word_eqI) (auto simp: bit_simps)

lemma join64: "trunc32 v OR push_bit 32 (trunc32 (drop_bit 32 v)) = v"
  unfolding trunc32_def by (rule bit_word_eqI) (auto simp: bit_simps)

lemma rd32_bytes_at:
  assumes "bytes_at m a (le32 v)"
  shows "rd32 m a = trunc32 v"
proof -
  from assms have "bytes_at m a (le16 v)" and "bytes_at m (a + 2) (le16 (drop_bit 16 v))"
    by (simp_all add: le32_def)
  then have "rd32 m a = trunc16 v OR push_bit 16 (trunc16 (drop_bit 16 v))"
    by (simp only: rd32_def rd16_bytes_at)
  then show ?thesis by (simp only: join32)
qed

lemma rd64_bytes_at:
  assumes "bytes_at m a (le64 v)"
  shows "rd64 m a = v"
proof -
  from assms have "bytes_at m a (le32 v)" and "bytes_at m (a + 4) (le32 (drop_bit 32 v))"
    by (simp_all add: le64_def)
  then have "rd64 m a = trunc32 v OR push_bit 32 (trunc32 (drop_bit 32 v))"
    by (simp only: rd64_def rd32_bytes_at)
  then show ?thesis by (simp only: join64)
qed

lemma store_bytes_outside:
  "(\<And>i. i < length bs \<Longrightarrow> x \<noteq> a + of_nat i) \<Longrightarrow> store_bytes m a bs x = m x"
proof (induction bs arbitrary: m a)
  case Nil
  then show ?case by simp
next
  case (Cons b bs)
  have "x \<noteq> a" using Cons.prems [of 0] by simp
  moreover have "x \<noteq> a + 1 + of_nat i" if "i < length bs" for i
    using Cons.prems [of "Suc i"] that by (simp add: add.assoc)
  ultimately show ?case by (simp add: Cons.IH)
qed

section \<open>Truncation and sign extension\<close>

lemma sint_ucast_self:
  fixes v :: u64
  assumes "- (2 ^ (LENGTH('b) - 1)) \<le> sint v" "sint v < 2 ^ (LENGTH('b) - 1)" "LENGTH('b::len) \<le> 64"
  shows "sint (ucast v :: 'b word) = sint v"
proof -
  have "sint (ucast v :: 'b word) = signed_take_bit (LENGTH('b) - 1) (uint v)"
    by transfer (simp add: signed_take_bit_take_bit min_def)
  also have "\<dots> = signed_take_bit (LENGTH('b) - 1) (sint v)"
    using assms(3)
    by transfer (simp add: signed_take_bit_signed_take_bit min_def signed_take_bit_take_bit, arith)
  also have "\<dots> = sint v" using assms by (intro signed_take_bit_int_eq_self) auto
  finally show ?thesis .
qed

text \<open>Sign extension restores a value that fits.\<close>

lemma sext_self:
  "-128 \<le> sint v \<Longrightarrow> sint v < 128 \<Longrightarrow> sext8 v = v"
  "-32768 \<le> sint v \<Longrightarrow> sint v < 32768 \<Longrightarrow> sext16 v = v"
  "- (2 ^ 31) \<le> sint v \<Longrightarrow> sint v < 2 ^ 31 \<Longrightarrow> sext32 v = v"
  using sint_ucast_self [where 'b = 8, of v] sint_ucast_self [where 'b = 16, of v]
    sint_ucast_self [where 'b = 32, of v]
  by (simp_all add: cast_defs scast_eq)

lemma ucast_down_up:
  "(ucast (ucast (w :: 'a::len word) :: 'b::len word) :: 'a word) = w" if "LENGTH('a) \<le> LENGTH('b)"
  using that by (intro bit_word_eqI) (auto simp: bit_simps)

lemma sext_trunc [simp]:
  "sext8 (trunc8 v) = sext8 v" "sext16 (trunc16 v) = sext16 v" "sext32 (trunc32 v) = sext32 v"
  by (simp_all add: cast_defs ucast_down_up)

lemma trunc_trunc [simp]:
  "trunc8 (trunc8 v) = trunc8 v" "trunc16 (trunc16 v) = trunc16 v" "trunc32 (trunc32 v) = trunc32 v"
  by (simp_all add: cast_defs ucast_down_up)

lemma trunc_less:
  "trunc8 v < 2 ^ 8" "trunc16 v < 2 ^ 16" "trunc32 v < 2 ^ 32"
  using uint_lt2p [of "ucast v :: u8"] uint_lt2p [of "ucast v :: u16"]
    uint_lt2p [of "ucast v :: u32"]
  by (simp_all add: cast_defs word_less_def uint_up_ucast is_up)

lemma ucast_up_down:
  "(ucast (ucast v :: 'b::len word) :: u64) = take_bit LENGTH('b) v" if "LENGTH('b) \<le> 64"
  using that by (intro bit_word_eqI) (auto simp: bit_simps)

lemma trunc_self:
  "v < 2 ^ 8 \<Longrightarrow> trunc8 v = v" "v < 2 ^ 16 \<Longrightarrow> trunc16 v = v" "v < 2 ^ 32 \<Longrightarrow> trunc32 v = v"
proof -
  have m: "take_bit n v = v" if "v < 2 ^ n" "n < 64" for n
    using less_mask_eq [OF that(1)] by (simp add: take_bit_eq_mask)
  show "v < 2 ^ 8 \<Longrightarrow> trunc8 v = v" using ucast_up_down [where 'b = 8, of v] m [of 8] by (simp add: trunc8_def)
  show "v < 2 ^ 16 \<Longrightarrow> trunc16 v = v" using ucast_up_down [where 'b = 16, of v] m [of 16] by (simp add: trunc16_def)
  show "v < 2 ^ 32 \<Longrightarrow> trunc32 v = v" using ucast_up_down [where 'b = 32, of v] m [of 32] by (simp add: trunc32_def)
qed

lemma le_trunc [simp]: "le8 (trunc8 v) = le8 v" "le16 (trunc16 v) = le16 v"
  "le32 (trunc32 v) = le32 v"
  unfolding le8_def le16_def le32_def cast_defs
  by (auto intro!: bit_word_eqI simp: bit_simps)

end
