(* ===== verification/InstrTypes.thy ===== *)
theory InstrTypes
  imports Prelude
begin

text \<open>
  The data of \<open>include/priv/instr.h\<close>: the enumerations and structures for x86-64
  registers, operands and decoded instructions. Enumerations whose members are only
  compared are datatypes; enumerations whose members are combined bitwise
  (\<open>PrefixSet\<close>) are words; register indexes (\<open>RegIndex\<close>, where the same number has several
  names) are natural numbers.
\<close>

section \<open>Enumerations\<close>

text \<open>
  \<open>InstrType\<close> has 190 members. They are grouped by what the code itself groups: the 16
  condition codes that occur three times (jump, conditional move, set), the SSE moves and
  integer operations, the SSE floating-point arithmetic, and the AVX instructions. Each
  member keeps its name as an abbreviation.
\<close>

datatype (plugins only: code size) cond =
    CC_O | CC_NO | CC_C | CC_NC | CC_Z | CC_NZ | CC_BE | CC_A
  | CC_S | CC_NS | CC_P | CC_NP | CC_L | CC_GE | CC_LE | CC_G

datatype (plugins only: code size) ssemov =
    S_MOVSS | S_MOVSD | S_MOVUPS | S_MOVUPD | S_MOVAPS | S_MOVAPD
  | S_MOVDQU | S_MOVDQA | S_MOVLPD | S_MOVLPS | S_MOVHPD | S_MOVHPS
  | S_UNPCKLPS | S_UNPCKLPD | S_UNPCKHPS | S_UNPCKHPD | S_PCMPEQB | S_PCMPEQW
  | S_PCMPEQD | S_PMINUB | S_PMOVMSKB | S_PXOR | S_PADDQ

datatype (plugins only: code size) ssefp =
    F_ADDSS | F_ADDSD | F_ADDPS | F_ADDPD | F_SUBSS | F_SUBSD
  | F_SUBPS | F_SUBPD | F_MULSS | F_MULSD | F_MULPS | F_MULPD
  | F_DIVSS | F_DIVSD | F_DIVPS | F_DIVPD | F_XORPS | F_XORPD
  | F_ORPS | F_ORPD | F_ANDPS | F_ANDPD | F_ANDNPS | F_ANDNPD
  | F_MAXSS | F_MAXSD | F_MAXPS | F_MAXPD | F_MINSS | F_MINSD
  | F_MINPS | F_MINPD | F_SQRTSS | F_SQRTSD | F_SQRTPS | F_SQRTPD
  | F_COMISS | F_COMISD | F_UCOMISS | F_UCOMISD | F_ADDSUBPS | F_ADDSUBPD
  | F_HADDPS | F_HADDPD | F_HSUBPS | F_HSUBPD | F_RCPSS | F_RCPPS
  | F_RSQRTSS | F_RSQRTPS

datatype (plugins only: code size) avxop =
    A_VMOVSS | A_VMOVSD | A_VMOVUPS | A_VMOVUPD | A_VMOVAPS | A_VMOVAPD
  | A_VMOVDQU | A_VMOVDQA | A_VMOVNTDQ | A_VADDSS | A_VADDSD | A_VADDPS
  | A_VADDPD | A_VMULSS | A_VMULSD | A_VMULPS | A_VMULPD | A_VXORPS
  | A_VXORPD | A_VZEROUPPER | A_VZEROALL

datatype (plugins only: code size) instrtype =
    IT_None | IT_Invalid | IT_HINT_CALL | IT_HINT_RET | IT_NOP | IT_CLTQ
  | IT_CWTL | IT_CQTO | IT_PUSH | IT_PUSHF | IT_PUSHFQ | IT_POP
  | IT_POPF | IT_POPFQ | IT_LEAVE | IT_MOV | IT_MOVD | IT_MOVQ
  | IT_MOVSX | IT_LEA | IT_MOVZX | IT_NEG | IT_NOT | IT_INC
  | IT_DEC | IT_ADD | IT_ADC | IT_SUB | IT_SBB | IT_IMUL
  | IT_IDIV1 | IT_MUL | IT_DIV | IT_XOR | IT_AND | IT_OR
  | IT_CMP | IT_TEST | IT_BSF | IT_SHL | IT_SHR | IT_SAR
  | IT_CALL | IT_RET | IT_JMP | IT_JMPI
  | IT_J cond | IT_CMOV cond | IT_SET cond
  | IT_SSEMOV ssemov | IT_SSEFP ssefp | IT_AVX avxop
  | IT_Max

abbreviation "IT_JO \<equiv> IT_J CC_O"
abbreviation "IT_JNO \<equiv> IT_J CC_NO"
abbreviation "IT_JC \<equiv> IT_J CC_C"
abbreviation "IT_JNC \<equiv> IT_J CC_NC"
abbreviation "IT_JZ \<equiv> IT_J CC_Z"
abbreviation "IT_JNZ \<equiv> IT_J CC_NZ"
abbreviation "IT_JBE \<equiv> IT_J CC_BE"
abbreviation "IT_JA \<equiv> IT_J CC_A"
abbreviation "IT_JS \<equiv> IT_J CC_S"
abbreviation "IT_JNS \<equiv> IT_J CC_NS"
abbreviation "IT_JP \<equiv> IT_J CC_P"
abbreviation "IT_JNP \<equiv> IT_J CC_NP"
abbreviation "IT_JL \<equiv> IT_J CC_L"
abbreviation "IT_JGE \<equiv> IT_J CC_GE"
abbreviation "IT_JLE \<equiv> IT_J CC_LE"
abbreviation "IT_JG \<equiv> IT_J CC_G"
abbreviation "IT_CMOVO \<equiv> IT_CMOV CC_O"
abbreviation "IT_CMOVNO \<equiv> IT_CMOV CC_NO"
abbreviation "IT_CMOVC \<equiv> IT_CMOV CC_C"
abbreviation "IT_CMOVNC \<equiv> IT_CMOV CC_NC"
abbreviation "IT_CMOVZ \<equiv> IT_CMOV CC_Z"
abbreviation "IT_CMOVNZ \<equiv> IT_CMOV CC_NZ"
abbreviation "IT_CMOVBE \<equiv> IT_CMOV CC_BE"
abbreviation "IT_CMOVA \<equiv> IT_CMOV CC_A"
abbreviation "IT_CMOVS \<equiv> IT_CMOV CC_S"
abbreviation "IT_CMOVNS \<equiv> IT_CMOV CC_NS"
abbreviation "IT_CMOVP \<equiv> IT_CMOV CC_P"
abbreviation "IT_CMOVNP \<equiv> IT_CMOV CC_NP"
abbreviation "IT_CMOVL \<equiv> IT_CMOV CC_L"
abbreviation "IT_CMOVGE \<equiv> IT_CMOV CC_GE"
abbreviation "IT_CMOVLE \<equiv> IT_CMOV CC_LE"
abbreviation "IT_CMOVG \<equiv> IT_CMOV CC_G"
abbreviation "IT_SETO \<equiv> IT_SET CC_O"
abbreviation "IT_SETNO \<equiv> IT_SET CC_NO"
abbreviation "IT_SETC \<equiv> IT_SET CC_C"
abbreviation "IT_SETNC \<equiv> IT_SET CC_NC"
abbreviation "IT_SETZ \<equiv> IT_SET CC_Z"
abbreviation "IT_SETNZ \<equiv> IT_SET CC_NZ"
abbreviation "IT_SETBE \<equiv> IT_SET CC_BE"
abbreviation "IT_SETA \<equiv> IT_SET CC_A"
abbreviation "IT_SETS \<equiv> IT_SET CC_S"
abbreviation "IT_SETNS \<equiv> IT_SET CC_NS"
abbreviation "IT_SETP \<equiv> IT_SET CC_P"
abbreviation "IT_SETNP \<equiv> IT_SET CC_NP"
abbreviation "IT_SETL \<equiv> IT_SET CC_L"
abbreviation "IT_SETGE \<equiv> IT_SET CC_GE"
abbreviation "IT_SETLE \<equiv> IT_SET CC_LE"
abbreviation "IT_SETG \<equiv> IT_SET CC_G"
abbreviation "IT_MOVSS \<equiv> IT_SSEMOV S_MOVSS"
abbreviation "IT_MOVSD \<equiv> IT_SSEMOV S_MOVSD"
abbreviation "IT_MOVUPS \<equiv> IT_SSEMOV S_MOVUPS"
abbreviation "IT_MOVUPD \<equiv> IT_SSEMOV S_MOVUPD"
abbreviation "IT_MOVAPS \<equiv> IT_SSEMOV S_MOVAPS"
abbreviation "IT_MOVAPD \<equiv> IT_SSEMOV S_MOVAPD"
abbreviation "IT_MOVDQU \<equiv> IT_SSEMOV S_MOVDQU"
abbreviation "IT_MOVDQA \<equiv> IT_SSEMOV S_MOVDQA"
abbreviation "IT_MOVLPD \<equiv> IT_SSEMOV S_MOVLPD"
abbreviation "IT_MOVLPS \<equiv> IT_SSEMOV S_MOVLPS"
abbreviation "IT_MOVHPD \<equiv> IT_SSEMOV S_MOVHPD"
abbreviation "IT_MOVHPS \<equiv> IT_SSEMOV S_MOVHPS"
abbreviation "IT_UNPCKLPS \<equiv> IT_SSEMOV S_UNPCKLPS"
abbreviation "IT_UNPCKLPD \<equiv> IT_SSEMOV S_UNPCKLPD"
abbreviation "IT_UNPCKHPS \<equiv> IT_SSEMOV S_UNPCKHPS"
abbreviation "IT_UNPCKHPD \<equiv> IT_SSEMOV S_UNPCKHPD"
abbreviation "IT_PCMPEQB \<equiv> IT_SSEMOV S_PCMPEQB"
abbreviation "IT_PCMPEQW \<equiv> IT_SSEMOV S_PCMPEQW"
abbreviation "IT_PCMPEQD \<equiv> IT_SSEMOV S_PCMPEQD"
abbreviation "IT_PMINUB \<equiv> IT_SSEMOV S_PMINUB"
abbreviation "IT_PMOVMSKB \<equiv> IT_SSEMOV S_PMOVMSKB"
abbreviation "IT_PXOR \<equiv> IT_SSEMOV S_PXOR"
abbreviation "IT_PADDQ \<equiv> IT_SSEMOV S_PADDQ"
abbreviation "IT_ADDSS \<equiv> IT_SSEFP F_ADDSS"
abbreviation "IT_ADDSD \<equiv> IT_SSEFP F_ADDSD"
abbreviation "IT_ADDPS \<equiv> IT_SSEFP F_ADDPS"
abbreviation "IT_ADDPD \<equiv> IT_SSEFP F_ADDPD"
abbreviation "IT_SUBSS \<equiv> IT_SSEFP F_SUBSS"
abbreviation "IT_SUBSD \<equiv> IT_SSEFP F_SUBSD"
abbreviation "IT_SUBPS \<equiv> IT_SSEFP F_SUBPS"
abbreviation "IT_SUBPD \<equiv> IT_SSEFP F_SUBPD"
abbreviation "IT_MULSS \<equiv> IT_SSEFP F_MULSS"
abbreviation "IT_MULSD \<equiv> IT_SSEFP F_MULSD"
abbreviation "IT_MULPS \<equiv> IT_SSEFP F_MULPS"
abbreviation "IT_MULPD \<equiv> IT_SSEFP F_MULPD"
abbreviation "IT_DIVSS \<equiv> IT_SSEFP F_DIVSS"
abbreviation "IT_DIVSD \<equiv> IT_SSEFP F_DIVSD"
abbreviation "IT_DIVPS \<equiv> IT_SSEFP F_DIVPS"
abbreviation "IT_DIVPD \<equiv> IT_SSEFP F_DIVPD"
abbreviation "IT_XORPS \<equiv> IT_SSEFP F_XORPS"
abbreviation "IT_XORPD \<equiv> IT_SSEFP F_XORPD"
abbreviation "IT_ORPS \<equiv> IT_SSEFP F_ORPS"
abbreviation "IT_ORPD \<equiv> IT_SSEFP F_ORPD"
abbreviation "IT_ANDPS \<equiv> IT_SSEFP F_ANDPS"
abbreviation "IT_ANDPD \<equiv> IT_SSEFP F_ANDPD"
abbreviation "IT_ANDNPS \<equiv> IT_SSEFP F_ANDNPS"
abbreviation "IT_ANDNPD \<equiv> IT_SSEFP F_ANDNPD"
abbreviation "IT_MAXSS \<equiv> IT_SSEFP F_MAXSS"
abbreviation "IT_MAXSD \<equiv> IT_SSEFP F_MAXSD"
abbreviation "IT_MAXPS \<equiv> IT_SSEFP F_MAXPS"
abbreviation "IT_MAXPD \<equiv> IT_SSEFP F_MAXPD"
abbreviation "IT_MINSS \<equiv> IT_SSEFP F_MINSS"
abbreviation "IT_MINSD \<equiv> IT_SSEFP F_MINSD"
abbreviation "IT_MINPS \<equiv> IT_SSEFP F_MINPS"
abbreviation "IT_MINPD \<equiv> IT_SSEFP F_MINPD"
abbreviation "IT_SQRTSS \<equiv> IT_SSEFP F_SQRTSS"
abbreviation "IT_SQRTSD \<equiv> IT_SSEFP F_SQRTSD"
abbreviation "IT_SQRTPS \<equiv> IT_SSEFP F_SQRTPS"
abbreviation "IT_SQRTPD \<equiv> IT_SSEFP F_SQRTPD"
abbreviation "IT_COMISS \<equiv> IT_SSEFP F_COMISS"
abbreviation "IT_COMISD \<equiv> IT_SSEFP F_COMISD"
abbreviation "IT_UCOMISS \<equiv> IT_SSEFP F_UCOMISS"
abbreviation "IT_UCOMISD \<equiv> IT_SSEFP F_UCOMISD"
abbreviation "IT_ADDSUBPS \<equiv> IT_SSEFP F_ADDSUBPS"
abbreviation "IT_ADDSUBPD \<equiv> IT_SSEFP F_ADDSUBPD"
abbreviation "IT_HADDPS \<equiv> IT_SSEFP F_HADDPS"
abbreviation "IT_HADDPD \<equiv> IT_SSEFP F_HADDPD"
abbreviation "IT_HSUBPS \<equiv> IT_SSEFP F_HSUBPS"
abbreviation "IT_HSUBPD \<equiv> IT_SSEFP F_HSUBPD"
abbreviation "IT_RCPSS \<equiv> IT_SSEFP F_RCPSS"
abbreviation "IT_RCPPS \<equiv> IT_SSEFP F_RCPPS"
abbreviation "IT_RSQRTSS \<equiv> IT_SSEFP F_RSQRTSS"
abbreviation "IT_RSQRTPS \<equiv> IT_SSEFP F_RSQRTPS"
abbreviation "IT_VMOVSS \<equiv> IT_AVX A_VMOVSS"
abbreviation "IT_VMOVSD \<equiv> IT_AVX A_VMOVSD"
abbreviation "IT_VMOVUPS \<equiv> IT_AVX A_VMOVUPS"
abbreviation "IT_VMOVUPD \<equiv> IT_AVX A_VMOVUPD"
abbreviation "IT_VMOVAPS \<equiv> IT_AVX A_VMOVAPS"
abbreviation "IT_VMOVAPD \<equiv> IT_AVX A_VMOVAPD"
abbreviation "IT_VMOVDQU \<equiv> IT_AVX A_VMOVDQU"
abbreviation "IT_VMOVDQA \<equiv> IT_AVX A_VMOVDQA"
abbreviation "IT_VMOVNTDQ \<equiv> IT_AVX A_VMOVNTDQ"
abbreviation "IT_VADDSS \<equiv> IT_AVX A_VADDSS"
abbreviation "IT_VADDSD \<equiv> IT_AVX A_VADDSD"
abbreviation "IT_VADDPS \<equiv> IT_AVX A_VADDPS"
abbreviation "IT_VADDPD \<equiv> IT_AVX A_VADDPD"
abbreviation "IT_VMULSS \<equiv> IT_AVX A_VMULSS"
abbreviation "IT_VMULSD \<equiv> IT_AVX A_VMULSD"
abbreviation "IT_VMULPS \<equiv> IT_AVX A_VMULPS"
abbreviation "IT_VMULPD \<equiv> IT_AVX A_VMULPD"
abbreviation "IT_VXORPS \<equiv> IT_AVX A_VXORPS"
abbreviation "IT_VXORPD \<equiv> IT_AVX A_VXORPD"
abbreviation "IT_VZEROUPPER \<equiv> IT_AVX A_VZEROUPPER"
abbreviation "IT_VZEROALL \<equiv> IT_AVX A_VZEROALL"

text \<open>The conditional jumps in the order of the enumeration, for \<open>IT_JO + k\<close>.\<close>

definition jcc_list :: "instrtype list" where
  "jcc_list = [IT_JO, IT_JNO, IT_JC, IT_JNC, IT_JZ, IT_JNZ, IT_JBE, IT_JA,
     IT_JS, IT_JNS, IT_JP, IT_JNP, IT_JL, IT_JGE, IT_JLE, IT_JG]"

datatype (plugins only: code size) regtype =
    RT_None | RT_GP8Leg | RT_GP8 | RT_GP16 | RT_GP32 | RT_GP64
  | RT_Flag | RT_IP | RT_X87 | RT_MMX | RT_XMM | RT_YMM | RT_ZMM | RT_Max

datatype (plugins only: code size) valtype =
    VT_None | VT_1 | VT_8 | VT_16 | VT_32 | VT_64 | VT_80 | VT_128 | VT_256 | VT_512
  | VT_Implicit | VT_Def | VT_Implicit_REXW | VT_Max

datatype (plugins only: code size) optype =
    OT_None | OT_Imm8 | OT_Imm16 | OT_Imm32 | OT_Imm64
  | OT_Reg8 | OT_Reg16 | OT_Reg32 | OT_Reg64 | OT_Reg128 | OT_Reg256 | OT_Reg512
  | OT_Ind8 | OT_Ind16 | OT_Ind32 | OT_Ind64 | OT_Ind128 | OT_Ind256 | OT_Ind512
  | OT_MAX

datatype (plugins only: code size) opsegoverride = OSO_None | OSO_UseFS | OSO_UseGS

datatype (plugins only: code size) vexprefix = VEX_No | VEX_128 | VEX_256 | VEX_LIG

datatype (plugins only: code size) operandencoding =
    OE_Invalid | OE_None | OE_MR | OE_RM | OE_RMI | OE_RVM

datatype (plugins only: code size) operandform = OF_None | OF_0 | OF_1 | OF_2 | OF_3 | OF_Max

datatype (plugins only: code size) statechange = SC_None | SC_dstDyn

text \<open>\<open>PrefixSet\<close>: a bit set.\<close>

type_synonym prefixset = u32

abbreviation "PS_No \<equiv> (0 :: prefixset)"
abbreviation "PS_66 \<equiv> (2 :: prefixset)"
abbreviation "PS_F2 \<equiv> (4 :: prefixset)"
abbreviation "PS_F3 \<equiv> (8 :: prefixset)"
abbreviation "PS_2E \<equiv> (16 :: prefixset)"
abbreviation "PS_REXW \<equiv> (32 :: prefixset)"

text \<open>The bits of a REX prefix (\<open>REX_MASK_x\<close> in \<open>common.h\<close>); \<open>rex\<close> is a C \<open>int\<close>.\<close>

abbreviation "REX_MASK_B \<equiv> (1 :: u32)"
abbreviation "REX_MASK_X \<equiv> (2 :: u32)"
abbreviation "REX_MASK_R \<equiv> (4 :: u32)"
abbreviation "REX_MASK_W \<equiv> (8 :: u32)"

text \<open>\<open>RegIndex\<close>.\<close>

type_synonym regindex = nat

abbreviation "RI_None \<equiv> (100 :: regindex)"
abbreviation "RI_A \<equiv> (0 :: regindex)"
abbreviation "RI_C \<equiv> (1 :: regindex)"
abbreviation "RI_D \<equiv> (2 :: regindex)"
abbreviation "RI_B \<equiv> (3 :: regindex)"
abbreviation "RI_SP \<equiv> (4 :: regindex)"
abbreviation "RI_BP \<equiv> (5 :: regindex)"
abbreviation "RI_SI \<equiv> (6 :: regindex)"
abbreviation "RI_DI \<equiv> (7 :: regindex)"
abbreviation "RI_8 \<equiv> (8 :: regindex)"
abbreviation "RI_9 \<equiv> (9 :: regindex)"
abbreviation "RI_10 \<equiv> (10 :: regindex)"
abbreviation "RI_11 \<equiv> (11 :: regindex)"
abbreviation "RI_12 \<equiv> (12 :: regindex)"
abbreviation "RI_13 \<equiv> (13 :: regindex)"
abbreviation "RI_14 \<equiv> (14 :: regindex)"
abbreviation "RI_15 \<equiv> (15 :: regindex)"
abbreviation "RI_GPMax \<equiv> (16 :: regindex)"
abbreviation "RI_MMMax \<equiv> (8 :: regindex)"
abbreviation "RI_XMMMax \<equiv> (16 :: regindex)"
abbreviation "RI_ZMMMax \<equiv> (32 :: regindex)"

section \<open>Structures\<close>

record reg =
  rt :: regtype
  ri :: regindex

record operand =
  oval :: u64
  otype :: optype
  oreg :: reg
  oireg :: reg
  oscale :: nat
  oseg :: opsegoverride

record instr =
  itype :: instrtype
  iform :: operandform
  ivtype :: valtype
  idst :: operand
  isrc :: operand
  isrc2 :: operand
  iaddr :: u64
  ilen :: nat
  ptLen :: nat
  ptVexP :: vexprefix
  ptPSet :: prefixset
  ptOpc :: "u8 list"
  ptEnc :: operandencoding
  ptSChange :: statechange

text \<open>
  Zeroed structures. Static and freshly allocated structures start from these; the code
  overwrites every member that it later reads.
\<close>

definition reg0 :: reg where
  "reg0 = \<lparr>rt = RT_None, ri = 0\<rparr>"

definition op0 :: operand where
  "op0 = \<lparr>oval = 0, otype = OT_None, oreg = reg0, oireg = reg0, oscale = 0, oseg = OSO_None\<rparr>"

definition instr0 :: instr where
  "instr0 = \<lparr>itype = IT_None, iform = OF_None, ivtype = VT_None, idst = op0, isrc = op0,
     isrc2 = op0, iaddr = 0, ilen = 0, ptLen = 0, ptVexP = VEX_No, ptPSet = PS_No,
     ptOpc = [0, 0, 0], ptEnc = OE_Invalid, ptSChange = SC_None\<rparr>"

end
