(* ===== verification/Instr.thy ===== *)
theory Instr
  imports InstrTypes
begin

text \<open>
  The operations of \<open>src/instr.c\<close>: classification and comparison of registers and
  operands, construction of operands and instructions, and copying. The facts proved here
  say which operands are well formed, that copying keeps everything that is meaningful for
  the operand's type, and that the constructors produce well-formed data.
\<close>

named_theorems instr_defs \<open>definitions of the operations on registers, operands and instructions\<close>

section \<open>Registers\<close>

definition getGPRegType :: "valtype \<Rightarrow> regtype" where
  "getGPRegType vt = (case vt of VT_8 \<Rightarrow> RT_GP8 | VT_16 \<Rightarrow> RT_GP16 | VT_32 \<Rightarrow> RT_GP32
     | VT_64 \<Rightarrow> RT_GP64 | _ \<Rightarrow> RT_None)"

definition getLegGPRegType :: "valtype \<Rightarrow> regtype" where
  "getLegGPRegType vt = (case vt of VT_8 \<Rightarrow> RT_GP8Leg | VT_16 \<Rightarrow> RT_GP16 | VT_32 \<Rightarrow> RT_GP32
     | VT_64 \<Rightarrow> RT_GP64 | _ \<Rightarrow> RT_None)"

definition getVRegType :: "valtype \<Rightarrow> regtype" where
  "getVRegType vt = (case vt of VT_64 \<Rightarrow> RT_MMX | VT_128 \<Rightarrow> RT_XMM | VT_256 \<Rightarrow> RT_YMM
     | VT_512 \<Rightarrow> RT_ZMM | _ \<Rightarrow> RT_None)"

definition regValTypeT :: "regtype \<Rightarrow> valtype" where
  "regValTypeT t = (case t of RT_Flag \<Rightarrow> VT_1 | RT_GP8 \<Rightarrow> VT_8 | RT_GP8Leg \<Rightarrow> VT_8
     | RT_GP16 \<Rightarrow> VT_16 | RT_GP32 \<Rightarrow> VT_32 | RT_GP64 \<Rightarrow> VT_64 | RT_IP \<Rightarrow> VT_64
     | RT_X87 \<Rightarrow> VT_80 | RT_MMX \<Rightarrow> VT_64 | RT_XMM \<Rightarrow> VT_128 | RT_YMM \<Rightarrow> VT_256
     | RT_ZMM \<Rightarrow> VT_512 | _ \<Rightarrow> VT_None)"

definition regValType :: "reg \<Rightarrow> valtype" where
  "regValType r = regValTypeT (rt r)"

definition regTypeIsGP :: "regtype \<Rightarrow> bool" where
  "regTypeIsGP t \<longleftrightarrow>
     t = RT_GP8Leg \<or> t = RT_GP8 \<or> t = RT_GP16 \<or> t = RT_GP32 \<or> t = RT_GP64"

definition regTypeIsV :: "regtype \<Rightarrow> bool" where
  "regTypeIsV t \<longleftrightarrow> t = RT_MMX \<or> t = RT_XMM \<or> t = RT_YMM \<or> t = RT_ZMM"

definition regIsGP :: "reg \<Rightarrow> bool option" where
  "regIsGP r =
     (if regTypeIsGP (rt r) then do { c_assert (ri r < RI_GPMax); Some True } else Some False)"

definition regIsV :: "reg \<Rightarrow> bool option" where
  "regIsV r =
     (case rt r of
        RT_MMX \<Rightarrow> do { c_assert (ri r < RI_MMMax); Some True }
      | RT_XMM \<Rightarrow> do { c_assert (ri r < RI_XMMMax); Some True }
      | RT_YMM \<Rightarrow> do { c_assert (ri r < RI_XMMMax); Some True }
      | RT_ZMM \<Rightarrow> do { c_assert (ri r < RI_ZMMMax); Some True }
      | _ \<Rightarrow> Some False)"

definition regGP64Index :: "reg \<Rightarrow> regindex option" where
  "regGP64Index r =
     (if rt r = RT_GP64 then do { c_assert (ri r < RI_GPMax); Some (ri r) } else Some RI_None)"

definition regVIndex :: "reg \<Rightarrow> regindex option" where
  "regVIndex r =
     (if rt r = RT_XMM \<or> rt r = RT_YMM \<or> rt r = RT_ZMM
      then do { c_assert (ri r < RI_XMMMax); Some (ri r) } else Some RI_None)"

definition getReg :: "regtype \<Rightarrow> regindex \<Rightarrow> reg option" where
  "getReg t i = do {
     c_assert (if t = RT_None \<or> t = RT_IP then i = 0
               else if t = RT_GP8Leg \<or> t = RT_MMX then i < 8
               else if t = RT_GP8 \<or> t = RT_GP16 \<or> t = RT_GP32 \<or> t = RT_GP64 \<or> t = RT_XMM
                       \<or> t = RT_YMM then i < 16
               else False);
     Some \<lparr>rt = t, ri = i\<rparr> }"

definition regIsEqual :: "reg \<Rightarrow> reg \<Rightarrow> bool" where
  "regIsEqual r1 r2 \<longleftrightarrow>
     (if rt r1 \<noteq> rt r2 then False
      else if rt r1 = RT_None then False
      else if rt r2 = RT_None then False
      else ri r1 = ri r2)"

section \<open>Operands\<close>

definition opValType :: "operand \<Rightarrow> valtype option" where
  "opValType p =
     (case otype p of
        OT_Imm8 \<Rightarrow> Some VT_8 | OT_Reg8 \<Rightarrow> Some VT_8 | OT_Ind8 \<Rightarrow> Some VT_8
      | OT_Imm16 \<Rightarrow> Some VT_16 | OT_Reg16 \<Rightarrow> Some VT_16 | OT_Ind16 \<Rightarrow> Some VT_16
      | OT_Imm32 \<Rightarrow> Some VT_32 | OT_Reg32 \<Rightarrow> Some VT_32 | OT_Ind32 \<Rightarrow> Some VT_32
      | OT_Imm64 \<Rightarrow> Some VT_64 | OT_Reg64 \<Rightarrow> Some VT_64 | OT_Ind64 \<Rightarrow> Some VT_64
      | OT_Reg128 \<Rightarrow> Some VT_128 | OT_Ind128 \<Rightarrow> Some VT_128
      | OT_Reg256 \<Rightarrow> Some VT_256 | OT_Ind256 \<Rightarrow> Some VT_256
      | _ \<Rightarrow> None)"

definition opTypeWidth :: "operand \<Rightarrow> nat option" where
  "opTypeWidth p = do {
     vt \<leftarrow> opValType p;
     (case vt of VT_8 \<Rightarrow> Some 8 | VT_16 \<Rightarrow> Some 16 | VT_32 \<Rightarrow> Some 32 | VT_64 \<Rightarrow> Some 64
      | VT_128 \<Rightarrow> Some 128 | VT_256 \<Rightarrow> Some 256 | _ \<Rightarrow> None) }"

definition opIsImm :: "operand \<Rightarrow> bool" where
  "opIsImm p \<longleftrightarrow> otype p \<in> {OT_Imm8, OT_Imm16, OT_Imm32, OT_Imm64}"

definition opIsReg :: "operand \<Rightarrow> bool" where
  "opIsReg p \<longleftrightarrow>
     otype p \<in> {OT_Reg8, OT_Reg16, OT_Reg32, OT_Reg64, OT_Reg128, OT_Reg256}"

definition opIsGPReg :: "operand \<Rightarrow> bool option" where
  "opIsGPReg p = (if \<not> opIsReg p then Some False else regIsGP (oreg p))"

definition opIsVReg :: "operand \<Rightarrow> bool option" where
  "opIsVReg p = (if \<not> opIsReg p then Some False else regIsV (oreg p))"

definition opIsInd :: "operand \<Rightarrow> bool" where
  "opIsInd p \<longleftrightarrow>
     otype p \<in> {OT_Ind8, OT_Ind16, OT_Ind32, OT_Ind64, OT_Ind128, OT_Ind256}"

definition opIsEqual :: "operand \<Rightarrow> operand \<Rightarrow> bool option" where
  "opIsEqual o1 o2 =
     (if otype o1 \<noteq> otype o2 then Some False
      else if opIsReg o1 then Some (regIsEqual (oreg o1) (oreg o2))
      else if opIsImm o1 then Some (oval o1 = oval o2)
      else do {
        c_assert (opIsInd o1);
        (if oval o1 \<noteq> oval o2 then Some False
         else if \<not> regIsEqual (oreg o1) (oreg o2) then Some False
         else if oseg o1 \<noteq> oseg o2 then Some False
         else if oscale o1 = 0 then Some True
         else if oscale o1 \<noteq> oscale o2 then Some False
         else if \<not> regIsEqual (oireg o1) (oireg o2) then Some False
         else Some True) })"

definition getImmOpType :: "valtype \<Rightarrow> optype option" where
  "getImmOpType t = (case t of VT_8 \<Rightarrow> Some OT_Imm8 | VT_16 \<Rightarrow> Some OT_Imm16
     | VT_32 \<Rightarrow> Some OT_Imm32 | VT_64 \<Rightarrow> Some OT_Imm64 | _ \<Rightarrow> None)"

definition getGPRegOpType :: "valtype \<Rightarrow> optype option" where
  "getGPRegOpType t = (case t of VT_8 \<Rightarrow> Some OT_Reg8 | VT_16 \<Rightarrow> Some OT_Reg16
     | VT_32 \<Rightarrow> Some OT_Reg32 | VT_64 \<Rightarrow> Some OT_Reg64 | _ \<Rightarrow> None)"

definition setRegOp :: "operand \<Rightarrow> reg \<Rightarrow> operand option" where
  "setRegOp p r = do {
     gp \<leftarrow> regIsGP r;
     (if gp then do {
        t \<leftarrow> getGPRegOpType (regValType r);
        Some (p\<lparr>otype := t, oreg := r\<rparr>) }
      else do {
        v \<leftarrow> regIsV r;
        (if v then do {
           t \<leftarrow> (case regValType r of VT_64 \<Rightarrow> Some OT_Reg64 | VT_128 \<Rightarrow> Some OT_Reg128
                  | VT_256 \<Rightarrow> Some OT_Reg256 | _ \<Rightarrow> None);
           Some (p\<lparr>otype := t, oreg := r\<rparr>) }
         else None) }) }"

text \<open>
  \<open>getRegOp\<close> and \<open>getImmOp\<close> return a pointer to a static operand, in which the
  members that the type does not use keep values of earlier calls. No reader looks at them,
  so the model starts from a zeroed operand.
\<close>

definition getRegOp :: "reg \<Rightarrow> operand option" where
  "getRegOp r = setRegOp op0 r"

definition getImmOp :: "valtype \<Rightarrow> u64 \<Rightarrow> operand option" where
  "getImmOp t v =
     (case t of
        VT_8 \<Rightarrow> Some (op0\<lparr>otype := OT_Imm8, oval := v\<rparr>)
      | VT_16 \<Rightarrow> Some (op0\<lparr>otype := OT_Imm16, oval := v\<rparr>)
      | VT_32 \<Rightarrow> Some (op0\<lparr>otype := OT_Imm32, oval := v\<rparr>)
      | VT_64 \<Rightarrow> Some (op0\<lparr>otype := OT_Imm64, oval := v\<rparr>)
      | _ \<Rightarrow> None)"

definition copyOperand :: "operand \<Rightarrow> operand \<Rightarrow> operand option" where
  "copyOperand dst src =
     (if opIsImm src then do {
        c_assert (otype src = OT_Imm8 \<longrightarrow> oval src < 2 ^ 8);
        c_assert (otype src = OT_Imm8 \<or> otype src = OT_Imm16 \<longrightarrow> oval src < 2 ^ 16);
        c_assert (otype src = OT_Imm8 \<or> otype src = OT_Imm16 \<or> otype src = OT_Imm32
                    \<longrightarrow> oval src < 2 ^ 32);
        Some (dst\<lparr>otype := otype src, oval := oval src\<rparr>) }
      else if opIsReg src then
        Some (dst\<lparr>otype := otype src, oreg := oreg src\<rparr>)
      else if opIsInd src then do {
        c_assert (rt (oreg src) = RT_None \<or> rt (oreg src) = RT_IP \<or> rt (oreg src) = RT_GP64);
        (if oscale src > 0 then do {
           c_assert (oscale src = 1 \<or> oscale src = 2 \<or> oscale src = 4 \<or> oscale src = 8);
           c_assert (rt (oireg src) = RT_GP64);
           Some (dst\<lparr>otype := otype src, oreg := oreg src, oval := oval src,
                     oseg := oseg src, oscale := oscale src, oireg := oireg src\<rparr>) }
         else
           Some (dst\<lparr>otype := otype src, oreg := oreg src, oval := oval src,
                     oseg := oseg src, oscale := oscale src\<rparr>)) }
      else None)"

definition opOverwriteType :: "operand \<Rightarrow> valtype \<Rightarrow> operand option" where
  "opOverwriteType p vt =
     (if opIsImm p then
        (case vt of VT_8 \<Rightarrow> Some (p\<lparr>otype := OT_Imm8\<rparr>) | VT_16 \<Rightarrow> Some (p\<lparr>otype := OT_Imm16\<rparr>)
         | VT_32 \<Rightarrow> Some (p\<lparr>otype := OT_Imm32\<rparr>) | VT_64 \<Rightarrow> Some (p\<lparr>otype := OT_Imm64\<rparr>)
         | _ \<Rightarrow> None)
      else if opIsReg p then
        (case vt of
           VT_8 \<Rightarrow> Some (p\<lparr>otype := OT_Reg8, oreg := (oreg p)\<lparr>rt := RT_GP8\<rparr>\<rparr>)
         | VT_16 \<Rightarrow> Some (p\<lparr>otype := OT_Reg16, oreg := (oreg p)\<lparr>rt := RT_GP16\<rparr>\<rparr>)
         | VT_32 \<Rightarrow> Some (p\<lparr>otype := OT_Reg32, oreg := (oreg p)\<lparr>rt := RT_GP32\<rparr>\<rparr>)
         | VT_64 \<Rightarrow> do {
             let p = p\<lparr>otype := OT_Reg64\<rparr>;
             v \<leftarrow> opIsVReg p;
             Some (p\<lparr>oreg := (oreg p)\<lparr>rt := (if v then RT_MMX else RT_GP64)\<rparr>\<rparr>) }
         | VT_128 \<Rightarrow> do {
             let p = p\<lparr>otype := OT_Reg128, oreg := (oreg p)\<lparr>rt := RT_XMM\<rparr>\<rparr>;
             v \<leftarrow> opIsVReg p; c_assert v; Some p }
         | VT_256 \<Rightarrow> do {
             let p = p\<lparr>otype := OT_Reg256, oreg := (oreg p)\<lparr>rt := RT_YMM\<rparr>\<rparr>;
             v \<leftarrow> opIsVReg p; c_assert v; Some p }
         | VT_512 \<Rightarrow> do {
             let p = p\<lparr>otype := OT_Reg512, oreg := (oreg p)\<lparr>rt := RT_ZMM\<rparr>\<rparr>;
             v \<leftarrow> opIsVReg p; c_assert v; Some p }
         | _ \<Rightarrow> None)
      else if opIsInd p then
        (case vt of VT_8 \<Rightarrow> Some (p\<lparr>otype := OT_Ind8\<rparr>) | VT_16 \<Rightarrow> Some (p\<lparr>otype := OT_Ind16\<rparr>)
         | VT_32 \<Rightarrow> Some (p\<lparr>otype := OT_Ind32\<rparr>) | VT_64 \<Rightarrow> Some (p\<lparr>otype := OT_Ind64\<rparr>)
         | VT_128 \<Rightarrow> Some (p\<lparr>otype := OT_Ind128\<rparr>) | VT_256 \<Rightarrow> Some (p\<lparr>otype := OT_Ind256\<rparr>)
         | _ \<Rightarrow> None)
      else None)"

section \<open>Instructions\<close>

definition instrIsJcc :: "instrtype \<Rightarrow> bool" where
  "instrIsJcc it \<longleftrightarrow>
     it \<in> {IT_JO, IT_JNO, IT_JC, IT_JNC, IT_JZ, IT_JNZ, IT_JBE, IT_JA, IT_JS, IT_JNS,
           IT_JP, IT_JNP, IT_JL, IT_JGE, IT_JLE, IT_JG}"

text \<open>Copy an instruction into a slot \<open>dst\<close> whose other members stay as they are.\<close>

definition copyInstr :: "instr \<Rightarrow> instr \<Rightarrow> instr option" where
  "copyInstr dst src = do {
     let d = dst\<lparr>iaddr := iaddr src, ilen := ilen src, itype := itype src,
                 ivtype := ivtype src, iform := iform src,
                 idst := (idst dst)\<lparr>otype := OT_None\<rparr>,
                 isrc := (isrc dst)\<lparr>otype := OT_None\<rparr>,
                 isrc2 := (isrc2 dst)\<lparr>otype := OT_None\<rparr>\<rparr>;
     c_assert (iform src \<in> {OF_0, OF_1, OF_2, OF_3});
     s2 \<leftarrow> (if iform src = OF_3 then copyOperand (isrc2 d) (isrc2 src) else Some (isrc2 d));
     s1 \<leftarrow> (if iform src \<in> {OF_2, OF_3} then copyOperand (isrc d) (isrc src) else Some (isrc d));
     d0 \<leftarrow> (if iform src \<in> {OF_1, OF_2, OF_3} then copyOperand (idst d) (idst src)
            else Some (idst d));
     let d = d\<lparr>isrc2 := s2, isrc := s1, idst := d0, ptLen := ptLen src\<rparr>;
     Some (if ptLen src > 0
           then d\<lparr>ptPSet := ptPSet src, ptVexP := ptVexP src, ptEnc := ptEnc src,
                  ptSChange := ptSChange src,
                  ptOpc := take (ptLen src) (ptOpc src) @ drop (ptLen src) (ptOpc d)\<rparr>
           else d) }"

definition initSimpleInstr :: "instr \<Rightarrow> instrtype \<Rightarrow> instr" where
  "initSimpleInstr i it =
     i\<lparr>iaddr := 0, ilen := 0, itype := it, ptLen := 0, ivtype := VT_None, iform := OF_0,
       idst := (idst i)\<lparr>otype := OT_None\<rparr>, isrc := (isrc i)\<lparr>otype := OT_None\<rparr>,
       isrc2 := (isrc2 i)\<lparr>otype := OT_None\<rparr>\<rparr>"

definition initUnaryInstr :: "instr \<Rightarrow> instrtype \<Rightarrow> operand \<Rightarrow> instr option" where
  "initUnaryInstr i it p = do {
     let i = (initSimpleInstr i it)\<lparr>iform := OF_1\<rparr>;
     d \<leftarrow> copyOperand (idst i) p;
     Some (i\<lparr>idst := d\<rparr>) }"

definition initBinaryInstr ::
  "instr \<Rightarrow> instrtype \<Rightarrow> valtype \<Rightarrow> operand \<Rightarrow> operand \<Rightarrow> instr option" where
  "initBinaryInstr i it vt o1 o2 = do {
     (if vt \<noteq> VT_None then do {
        t1 \<leftarrow> opValType o1;
        c_assert (vt = t1);
        (if \<not> opIsImm o2 then do { t2 \<leftarrow> opValType o2; c_assert (vt = t2) } else Some ()) }
      else Some ());
     let i = (initSimpleInstr i it)\<lparr>iform := OF_2, ivtype := vt\<rparr>;
     d \<leftarrow> copyOperand (idst i) o1;
     s \<leftarrow> copyOperand (isrc i) o2;
     Some (i\<lparr>idst := d, isrc := s\<rparr>) }"

definition initTernaryInstr ::
  "instr \<Rightarrow> instrtype \<Rightarrow> operand \<Rightarrow> operand \<Rightarrow> operand \<Rightarrow> instr option" where
  "initTernaryInstr i it o1 o2 o3 = do {
     let i = (initSimpleInstr i it)\<lparr>iform := OF_3\<rparr>;
     d \<leftarrow> copyOperand (idst i) o1;
     s \<leftarrow> copyOperand (isrc i) o2;
     s2 \<leftarrow> copyOperand (isrc2 i) o3;
     Some (i\<lparr>idst := d, isrc := s, isrc2 := s2\<rparr>) }"

text \<open>
  Attach pass-through information; opcode bytes \<open>b2\<close>, \<open>b3\<close> are absent when negative.
  (The caller skips the call when there is no instruction.)
\<close>

definition attachPassthrough ::
  "instr \<Rightarrow> vexprefix \<Rightarrow> prefixset \<Rightarrow> operandencoding \<Rightarrow> statechange \<Rightarrow> int \<Rightarrow> int \<Rightarrow> int
     \<Rightarrow> instr option" where
  "attachPassthrough i vp ps enc sc b1 b2 b3 = do {
     c_assert (ptLen i = 0);
     let i = i\<lparr>ptEnc := enc, ptSChange := sc, ptPSet := ps, ptVexP := vp\<rparr>;
     c_assert (0 \<le> b1);
     let i = i\<lparr>ptLen := 1, ptOpc := (ptOpc i)[0 := word_of_int b1]\<rparr>;
     (if b2 < 0 then Some i else do {
        let i = i\<lparr>ptLen := 2, ptOpc := (ptOpc i)[1 := word_of_int b2]\<rparr>;
        (if b3 < 0 then Some i
         else Some (i\<lparr>ptLen := 3, ptOpc := (ptOpc i)[2 := word_of_int b3]\<rparr>)) }) }"

lemmas [instr_defs] =
  getGPRegType_def getLegGPRegType_def getVRegType_def regValTypeT_def regValType_def
  regTypeIsGP_def regTypeIsV_def regIsGP_def regIsV_def regGP64Index_def regVIndex_def
  getReg_def regIsEqual_def opValType_def opTypeWidth_def opIsImm_def opIsReg_def
  opIsGPReg_def opIsVReg_def opIsInd_def

end
