(* ===== verification/Digits.thy ===== *)
theory Digits
  imports Prelude
begin

text \<open>
  Numbers as the \<open>printf\<close> family prints them: \<open>%d\<close>, \<open>%lx\<close> and \<open>%02x\<close>, and the fact
  that a decimal or hexadecimal text determines its number.
\<close>

section \<open>Conversions\<close>

text \<open>\<open>%d\<close> of a non-negative number.\<close>

fun nat_digits :: "nat \<Rightarrow> string" where
  "nat_digits n =
     (if n < 10 then [char_of (48 + n)]
      else nat_digits (n div 10) @ [char_of (48 + n mod 10)])"

declare nat_digits.simps [simp del]

definition int_digits :: "int \<Rightarrow> string" where
  "int_digits v = (if v < 0 then CHR ''-'' # nat_digits (nat (- v)) else nat_digits (nat v))"

definition hex_digit :: "int \<Rightarrow> char" where
  "hex_digit d = (if d < 10 then char_of (48 + nat d) else char_of (87 + nat d))"

text \<open>\<open>%02x\<close> of a byte value.\<close>

definition hex2 :: "int \<Rightarrow> string" where
  "hex2 v = [hex_digit (v div 16 mod 16), hex_digit (v mod 16)]"

text \<open>\<open>%lx\<close>.\<close>

fun hex_digits :: "nat \<Rightarrow> string" where
  "hex_digits n =
     (if n < 16 then [hex_digit (int n)]
      else hex_digits (n div 16) @ [hex_digit (int (n mod 16))])"

declare hex_digits.simps [simp del]

definition hex64 :: "u64 \<Rightarrow> string" where
  "hex64 v = hex_digits (unat v)"

section \<open>Reading back\<close>

definition digit_val :: "char \<Rightarrow> nat" where
  "digit_val c = (if of_char c < (58 :: nat) then of_char c - 48 else of_char c - 87)"

definition read_digits :: "nat \<Rightarrow> string \<Rightarrow> nat" where
  "read_digits b s = foldl (\<lambda>n c. n * b + digit_val c) 0 s"

lemma of_char_char_of_small: "n < 256 \<Longrightarrow> (of_char (char_of n) :: nat) = n"
  by simp

lemma digit_val_nat: "n < 10 \<Longrightarrow> digit_val (char_of (48 + n)) = n"
  unfolding digit_val_def by (subst of_char_char_of_small; simp)+

lemma digit_val_hex: "n < 16 \<Longrightarrow> digit_val (hex_digit (int n)) = n"
  unfolding digit_val_def hex_digit_def
  by (cases "n < 10"; simp only: nat_int if_True if_False of_nat_less_numeral_iff;
      subst of_char_char_of_small; simp)+

lemma read_digits_snoc: "read_digits b (s @ [c]) = read_digits b s * b + digit_val c"
  by (simp add: read_digits_def)

lemma read_nat_digits: "read_digits 10 (nat_digits n) = n"
proof (induction n rule: nat_digits.induct)
  case (1 n)
  show ?case
  proof (cases "n < 10")
    case True
    then show ?thesis
      by (subst nat_digits.simps) (simp add: read_digits_def digit_val_nat del: char_of_eq_iff)
  next
    case False
    then have "read_digits 10 (nat_digits n)
        = read_digits 10 (nat_digits (n div 10)) * 10 + digit_val (char_of (48 + n mod 10))"
      by (subst nat_digits.simps) (simp add: read_digits_snoc)
    also have "\<dots> = n" using 1 False by (simp only: digit_val_nat [of "n mod 10"]) simp
    finally show ?thesis .
  qed
qed

lemma read_hex_digits: "read_digits 16 (hex_digits n) = n"
proof (induction n rule: hex_digits.induct)
  case (1 n)
  show ?case
  proof (cases "n < 16")
    case True
    then show ?thesis
      by (subst hex_digits.simps) (simp add: read_digits_def digit_val_hex)
  next
    case False
    then have "read_digits 16 (hex_digits n)
        = read_digits 16 (hex_digits (n div 16)) * 16 + digit_val (hex_digit (int (n mod 16)))"
      by (subst hex_digits.simps) (simp add: read_digits_snoc)
    also have "\<dots> = n" using 1 False by (simp only: digit_val_hex [of "n mod 16"]) simp
    finally show ?thesis .
  qed
qed

lemma nat_digits_inject: "nat_digits m = nat_digits n \<longleftrightarrow> m = n"
  using read_nat_digits by metis

lemma hex64_inject: "hex64 v = hex64 w \<longleftrightarrow> v = w"
  unfolding hex64_def using read_hex_digits by (metis word_unat_eq_iff)

end
