(* ===== verification/Expr.thy ===== *)
theory Expr
  imports Digits
begin

text \<open>
  The expression pool of \<open>src/expr.c\<close>, which names the origin of values: constants,
  parameters, scaled values, references and sums. A pool is an array with a fixed number of
  nodes; a node refers to others of its pool by index. The model holds the used part of the
  array, so \<open>p->used\<close> is its length. Members of a node that its type does not use are 0.
\<close>

section \<open>The pool\<close>

datatype (plugins only: code size) nodetype =
    NT_Invalid | NT_Const | NT_Sum | NT_Scaled | NT_Par | NT_Ref

record exprnode =
  n_type :: nodetype
  n_ival :: int
  n_ptr :: u64
  n_left :: nat
  n_right :: nat
  n_name :: string

record exprpool =
  ep_size :: nat
  ep_nodes :: "exprnode list"

abbreviation "EN_NAMELEN \<equiv> (8 :: nat)"

definition expr_allocPool :: "nat \<Rightarrow> exprpool" where
  "expr_allocPool s = \<lparr>ep_size = s, ep_nodes = []\<rparr>"

text \<open>\<open>expr_newNode\<close>: the index of the new node. A null pool is \<open>None\<close>.\<close>

definition expr_newNode :: "exprpool option \<Rightarrow> nodetype \<Rightarrow> (nat \<times> exprpool) option" where
  "expr_newNode pool t = do {
     p \<leftarrow> pool;
     c_assert (length (ep_nodes p) < ep_size p);
     Some (length (ep_nodes p), p\<lparr>ep_nodes := ep_nodes p @
       [\<lparr>n_type = t, n_ival = 0, n_ptr = 0, n_left = 0, n_right = 0, n_name = []\<rparr>]\<rparr>) }"

definition updNode :: "nat \<Rightarrow> (exprnode \<Rightarrow> exprnode) \<Rightarrow> exprpool \<Rightarrow> exprpool" where
  "updNode k g p = p\<lparr>ep_nodes := (ep_nodes p)[k := g (ep_nodes p ! k)]\<rparr>"

text \<open>The name in a node: at most 7 characters.\<close>

definition nodeName :: "string option \<Rightarrow> string" where
  "nodeName n = (case n of Some s \<Rightarrow> take (EN_NAMELEN - 1) s | None \<Rightarrow> [])"

definition expr_newConst :: "exprpool option \<Rightarrow> int \<Rightarrow> (nat \<times> exprpool) option" where
  "expr_newConst pool v = do {
     (k, p) \<leftarrow> expr_newNode pool NT_Const;
     Some (k, updNode k (\<lambda>n. n\<lparr>n_ival := v\<rparr>) p) }"

definition expr_newPar :: "exprpool option \<Rightarrow> int \<Rightarrow> string option \<Rightarrow> (nat \<times> exprpool) option" where
  "expr_newPar pool no s = do {
     (k, p) \<leftarrow> expr_newNode pool NT_Par;
     Some (k, updNode k (\<lambda>n. n\<lparr>n_ival := no, n_name := nodeName s\<rparr>) p) }"

definition expr_newScaled :: "exprpool option \<Rightarrow> int \<Rightarrow> nat \<Rightarrow> (nat \<times> exprpool) option" where
  "expr_newScaled pool factor e = do {
     (k, p) \<leftarrow> expr_newNode pool NT_Scaled;
     Some (k, updNode k (\<lambda>n. n\<lparr>n_ival := factor, n_left := e\<rparr>) p) }"

definition expr_newRef ::
  "exprpool option \<Rightarrow> u64 \<Rightarrow> string option \<Rightarrow> nat \<Rightarrow> (nat \<times> exprpool) option" where
  "expr_newRef pool ptr s idx = do {
     (k, p) \<leftarrow> expr_newNode pool NT_Ref;
     Some (k, updNode k (\<lambda>n. n\<lparr>n_ptr := ptr, n_left := idx, n_name := nodeName s\<rparr>) p) }"

definition expr_newSum :: "exprpool option \<Rightarrow> nat \<Rightarrow> nat \<Rightarrow> (nat \<times> exprpool) option" where
  "expr_newSum pool l r = do {
     (k, p) \<leftarrow> expr_newNode pool NT_Sum;
     Some (k, updNode k (\<lambda>n. n\<lparr>n_left := l, n_right := r\<rparr>) p) }"

section \<open>Printing\<close>

text \<open>
  \<open>appendExpr\<close> writes behind a position of a character buffer. The model returns the
  characters it wrote from there on, with the 0 that ends each string, and the number of
  characters by which the code moves on. \<open>overwrite\<close> writes over a part of what was there.
\<close>

definition overwrite :: "string \<Rightarrow> nat \<Rightarrow> string \<Rightarrow> string" where
  "overwrite b off s = take off b @ s @ drop (off + length s) b"

abbreviation "NUL \<equiv> (char_of (0 :: nat))"

definition asString :: "string \<Rightarrow> string" where
  "asString b = takeWhile (\<lambda>c. c \<noteq> NUL) b"

partial_function (option) appendExpr :: "exprnode list \<Rightarrow> exprnode \<Rightarrow> (string \<times> nat) option" where
  "appendExpr ns e =
     (if n_type e = NT_Const then
        (let t = int_digits (n_ival e) in Some (t @ [NUL], length t))
      else if n_type e = NT_Par then
        (let t = (if n_name e \<noteq> [] then n_name e else ''par'' @ int_digits (n_ival e))
         in Some (t @ [NUL], length t))
      else if n_type e = NT_Ref then
        (let t = (if n_name e \<noteq> [] then n_name e else hex64 (n_ptr e)) in do {
           (s, n) \<leftarrow> appendExpr ns (ns ! n_left e);
           let b = overwrite (overwrite (t @ [NUL]) (length t) ''['') (length t) s;
           Some (overwrite b 0 (CHR '']'' # [NUL]), length t + n + 1) })
      else if n_type e = NT_Scaled then
        (let t = int_digits (n_ival e) @ '' * '' in do {
           (s, n) \<leftarrow> appendExpr ns (ns ! n_left e);
           Some (overwrite (t @ [NUL]) (length t) s, length t + n) })
      else if n_type e = NT_Sum then do {
        (s, n) \<leftarrow> appendExpr ns (ns ! n_left e);
        let b = overwrite s n ('' + '' @ [NUL]);
        (s2, n2) \<leftarrow> appendExpr ns (ns ! n_right e);
        Some (overwrite b (n + 3) s2, n + 3 + n2) }
      else None)"

definition expr_toString :: "exprnode list \<Rightarrow> exprnode \<Rightarrow> string option" where
  "expr_toString ns e = do {
     (b, n) \<leftarrow> appendExpr ns e;
     c_assert (n < 200);
     Some (asString b) }"

section \<open>Facts\<close>

text \<open>Nodes refer to older nodes of their pool.\<close>

definition poolOk :: "exprpool \<Rightarrow> bool" where
  "poolOk p \<longleftrightarrow> length (ep_nodes p) \<le> ep_size p \<and> (\<forall>k < length (ep_nodes p).
     (n_type (ep_nodes p ! k) \<in> {NT_Ref, NT_Scaled, NT_Sum} \<longrightarrow> n_left (ep_nodes p ! k) < k)
     \<and> (n_type (ep_nodes p ! k) = NT_Sum \<longrightarrow> n_right (ep_nodes p ! k) < k)
     \<and> n_type (ep_nodes p ! k) \<noteq> NT_Invalid)"

lemma expr_newNode_room:
  "length (ep_nodes p) < ep_size p \<Longrightarrow> expr_newNode (Some p) t = Some (length (ep_nodes p),
     p\<lparr>ep_nodes := ep_nodes p @
       [\<lparr>n_type = t, n_ival = 0, n_ptr = 0, n_left = 0, n_right = 0, n_name = []\<rparr>]\<rparr>)"
  by (simp add: expr_newNode_def)

lemma expr_newNode_full: "ep_size p \<le> length (ep_nodes p) \<Longrightarrow> expr_newNode (Some p) t = None"
  by (simp add: expr_newNode_def)

lemma poolOk_alloc: "poolOk (expr_allocPool s)"
  by (simp add: poolOk_def expr_allocPool_def)

lemma poolOk_append:
  assumes "poolOk p" and "length (ep_nodes p) < ep_size p"
    and "n_type n \<in> {NT_Ref, NT_Scaled, NT_Sum} \<Longrightarrow> n_left n < length (ep_nodes p)"
    and "n_type n = NT_Sum \<Longrightarrow> n_right n < length (ep_nodes p)" and "n_type n \<noteq> NT_Invalid"
  shows "poolOk (p\<lparr>ep_nodes := ep_nodes p @ [n]\<rparr>)"
  using assms by (auto simp: poolOk_def nth_append less_Suc_eq)

lemma poolOk_new:
  assumes "poolOk p"
  shows "expr_newConst (Some p) v = Some (k, q) \<Longrightarrow> poolOk q"
    and "expr_newPar (Some p) v s = Some (k, q) \<Longrightarrow> poolOk q"
    and "expr_newScaled (Some p) v e = Some (k, q) \<Longrightarrow> e < length (ep_nodes p) \<Longrightarrow> poolOk q"
    and "expr_newRef (Some p) a s e = Some (k, q) \<Longrightarrow> e < length (ep_nodes p) \<Longrightarrow> poolOk q"
    and "expr_newSum (Some p) e f = Some (k, q) \<Longrightarrow> e < length (ep_nodes p)
      \<Longrightarrow> f < length (ep_nodes p) \<Longrightarrow> poolOk q"
  by (auto simp: expr_newConst_def expr_newPar_def expr_newScaled_def expr_newRef_def
      expr_newSum_def expr_newNode_def updNode_def nth_append elim!: bind_SomeE intro!: poolOk_append [OF assms])

text \<open>Printing a node of such a pool comes to an end.\<close>

lemma appendExpr_total:
  assumes "poolOk p"
  shows "k < length (ep_nodes p) \<Longrightarrow> \<exists>b n. appendExpr (ep_nodes p) (ep_nodes p ! k) = Some (b, n)"
proof (induction k rule: less_induct)
  case (less k)
  let ?e = "ep_nodes p ! k"
  have l: "n_type ?e \<in> {NT_Ref, NT_Scaled, NT_Sum} \<Longrightarrow> n_left ?e < k"
    "n_type ?e = NT_Sum \<Longrightarrow> n_right ?e < k" "n_type ?e \<noteq> NT_Invalid"
    using assms less.prems by (auto simp: poolOk_def)
  have left: "\<exists>b n. appendExpr (ep_nodes p) (ep_nodes p ! n_left ?e) = Some (b, n)"
    if "n_type ?e \<in> {NT_Ref, NT_Scaled, NT_Sum}"
    using l(1) [OF that] less by simp
  have right: "\<exists>b n. appendExpr (ep_nodes p) (ep_nodes p ! n_right ?e) = Some (b, n)"
    if "n_type ?e = NT_Sum"
    using l(2) [OF that] less by simp
  show ?case
    using left right l(3) by (subst appendExpr.simps, cases "n_type ?e") (auto simp: Let_def)
qed

end
