(* ===== verification/Common.thy ===== *)
theory Common
  imports Instr Expr
begin

text \<open>
  The structures of \<open>include/priv/common.h\<close> and \<open>include/priv/error.h\<close> and the error
  values of \<open>src/error.c\<close>: decoded and captured basic blocks, the capture
  configuration, the emulator state and the rewriter that owns them all.

  Pointers into arrays that the rewriter owns are indexes into the model's lists
  (\<open>decInstr\<close>, \<open>decBB\<close>, \<open>capInstr\<close>, \<open>capBB\<close>); the lists hold the used part of the
  arrays, so \<open>decInstrCount\<close> and its like are their lengths. A pointer that may be null is
  an \<open>option\<close>. The debug switches (\<open>showDecoding\<close> and its like) only print and have no
  member here. \<open>r_mem\<close> is the memory of the process, which the decoder reads and the
  code generator and the emulated stores write; \<open>r_fsmem\<close> is the memory behind the segment
  register \<open>fs\<close>.
\<close>

section \<open>Errors\<close>

datatype (plugins only: code size) errormodule =
    EM_Unknown | EM_Decoder | EM_Emulator | EM_Generator | EM_Capture | EM_Rewriter | EM_Max

datatype (plugins only: code size) errortype =
    ET_NoError | ET_Unknown | ET_InvalidRequest | ET_BufferOverflow
  | ET_UnsupportedInstr | ET_UnsupportedOperands | ET_BadPrefix | ET_BadOpcode
  | ET_BadOperands | ET_Max

record error =
  em :: errormodule
  et :: errortype
  desc :: "string option"

text \<open>\<open>DecodeError\<close> and \<open>GenerateError\<close> extend an error by the place it happened.\<close>

record decodeerror = error +
  de_dbb :: "nat option"
  de_offset :: int

record generateerror = error +
  ge_cbb :: "nat option"
  ge_offset :: int

definition setErrorNone :: "'a error_scheme \<Rightarrow> 'a error_scheme" where
  "setErrorNone e = e\<lparr>et := ET_NoError\<rparr>"

definition isErrorSet :: "'a error_scheme \<Rightarrow> bool" where
  "isErrorSet e \<longleftrightarrow> et e \<noteq> ET_NoError"

definition setError ::
  "'a error_scheme \<Rightarrow> errortype \<Rightarrow> errormodule \<Rightarrow> string option \<Rightarrow> 'a error_scheme" where
  "setError e t m d = e\<lparr>et := t, em := m, desc := d\<rparr>"

definition initError :: "'a error_scheme \<Rightarrow> 'a error_scheme" where
  "initError e = setError e ET_Unknown EM_Unknown None"

definition setDecodeError ::
  "decodeerror \<Rightarrow> string option \<Rightarrow> errortype \<Rightarrow> nat option \<Rightarrow> int \<Rightarrow> decodeerror" where
  "setDecodeError de d t dbb off =
     (setError de t EM_Decoder d)\<lparr>de_dbb := dbb, de_offset := off\<rparr>"

definition setGenerateError ::
  "generateerror \<Rightarrow> string option \<Rightarrow> errortype \<Rightarrow> nat option \<Rightarrow> int \<Rightarrow> generateerror" where
  "setGenerateError ge d t cbb off =
     (setError ge t EM_Decoder d)\<lparr>ge_cbb := cbb, ge_offset := off\<rparr>"

text \<open>The heading of an error text: the module named, or none.\<close>

definition errorModuleName :: "errormodule \<Rightarrow> string option option" where
  "errorModuleName m =
     (case m of EM_Decoder \<Rightarrow> Some (Some ''Decoder'') | EM_Generator \<Rightarrow> Some (Some ''Generator'')
      | EM_Emulator \<Rightarrow> Some (Some ''Emulator'') | EM_Rewriter \<Rightarrow> Some (Some ''Rewriter'')
      | EM_Capture \<Rightarrow> Some (Some ''Capturing'') | EM_Unknown \<Rightarrow> Some None | EM_Max \<Rightarrow> None)"

text \<open>
  \<open>errorString\<close>. The context text, which only decoder and generator errors have, is made
  by \<open>decodeErrorContext\<close> and \<open>generateErrorContext\<close> and passed in as \<open>detail\<close>.
\<close>

definition errorString :: "string option \<Rightarrow> 'a error_scheme \<Rightarrow> string option" where
  "errorString detail e =
     (if et e = ET_NoError then Some [] else do {
        m \<leftarrow> errorModuleName (em e);
        let d = (if em e = EM_Decoder \<or> em e = EM_Generator then detail else None);
        Some ((case m of Some n \<Rightarrow> n @ '' error'' | None \<Rightarrow> ''Error'')
              @ (case d of Some t \<Rightarrow> '' at '' @ t | None \<Rightarrow> [])
              @ (case desc e of Some t \<Rightarrow> '': '' @ t | None \<Rightarrow> '': no description'')) })"

section \<open>Basic blocks\<close>

record dbb =
  dbb_addr :: u64
  dbb_fc :: "nat option"
  dbb_size :: nat
  dbb_count :: nat
  dbb_instr :: nat

record cbb =
  dec_addr :: u64
  esID :: int
  cbb_fc :: "nat option"
  cbb_count :: nat
  cbb_instr :: "nat option"
  nextBranch :: "nat option"
  nextFallThrough :: "nat option"
  endType :: instrtype
  preferBranch :: bool
  cbb_size :: int
  addr1 :: u64
  addr2 :: u64
  genJcc8 :: bool
  genJump :: bool

section \<open>Capture states and configuration\<close>

datatype (plugins only: code size) capturestate =
    CS_DEAD | CS_DYNAMIC | CS_STATIC | CS_STACKRELATIVE | CS_STATIC2

text \<open>Expression nodes are indexes into the rewriter's expression pool.\<close>

record metastate =
  cState :: capturestate
  ms_range :: "nat option"
  parDep :: "nat option"

definition initMetaState :: "capturestate \<Rightarrow> metastate" where
  "initMetaState cs = \<lparr>cState = cs, ms_range = None, parDep = None\<rparr>"

datatype (plugins only: code size) memrangetype =
    MR_Unknown | MR_Invalid | MR_ConstantData | MR_MutableData | MR_Function

record memrangeconfig =
  mr_type :: memrangetype
  mr_name :: "string option"
  mr_start :: u64
  mr_size :: int

record captureconfig =
  par_state :: "metastate list"
  par_name :: "string option list"
  hasReturnFP :: bool
  parCount :: int
  force_unknown :: "bool list"
  branches_known :: bool
  range_configs :: "memrangeconfig list"

abbreviation "CC_MAXPARAM \<equiv> (6 :: nat)"
abbreviation "CC_MAXCALLDEPTH \<equiv> (5 :: nat)"

datatype (plugins only: code size) vectorizereq =
    VR_None | VR_DoubleX2_RV | VR_DoubleX2_RVV | VR_DoubleX2_RP
  | VR_DoubleX4_RV | VR_DoubleX4_RVV | VR_DoubleX4_RP

section \<open>Emulator state\<close>

datatype (plugins only: code size) flagtype =
    FT_Carry | FT_Zero | FT_Sign | FT_Overflow | FT_Parity

record emuvalue =
  ev_val :: u64
  ev_type :: valtype
  ev_state :: metastate

text \<open>
  Registers are a function on indexes (16 are used), flags a function on \<open>FlagType\<close>. The
  stack bytes and their states are lists of length \<open>stackSize\<close>; \<open>parent\<close> names the state
  this one was cloned from (\<open>Some 0\<close> is the rewriter's own state \<open>r->es\<close>).
\<close>

record emustate =
  es_parent :: "nat option"
  es_reg :: "regindex \<Rightarrow> u64"
  reg_state :: "regindex \<Rightarrow> metastate"
  regIP :: u64
  regIP_state :: metastate
  es_flag :: "flagtype \<Rightarrow> bool"
  flag_state :: "flagtype \<Rightarrow> metastate"
  es_stack :: "u8 list"
  stackState :: "metastate list"
  stackStart :: u64
  stackAccessed :: u64
  stackTop :: u64
  ret_stack :: "u64 list"
  depth :: int

abbreviation stackSize :: "emustate \<Rightarrow> nat" where
  "stackSize es \<equiv> length (es_stack es)"

abbreviation "MAX_CALLDEPTH \<equiv> (5 :: int)"

section \<open>Code storage and rewriter\<close>

record codestorage =
  cs_size :: int
  cs_fullsize :: int
  cs_used :: int
  cs_buf :: u64

text \<open>
  \<open>r_next\<close> is the list of related rewriters, which the code links by \<open>next\<close>: of each only what
  was vectorized, the function and the address of the new code are used.
  \<open>dec_alloc\<close> and \<open>cap_alloc\<close> say whether the two decoding arrays, and the two capture
  arrays, are allocated: the code allocates and frees the arrays of a pair together.
  \<open>capStack\<close> is the stack of unfinished blocks, its top first, so that \<open>capStackTop\<close> is
  its length minus one.
\<close>

record rewriter =
  r_mem :: mem
  dec_alloc :: bool
  decInstrCapacity :: nat
  decInstr :: "instr list"
  decBBCapacity :: nat
  decBB :: "dbb list"
  cap_alloc :: bool
  capInstrCapacity :: nat
  capInstr :: "instr list"
  capBBCapacity :: nat
  capBB :: "cbb list"
  currentCapBB :: "nat option"
  r_func :: u64
  capCodeCapacity :: nat
  r_cs :: "codestorage option"
  generatedCodeAddr :: u64
  generatedCodeSize :: int
  vreq :: vectorizereq
  vectorsize :: nat
  r_cc :: "captureconfig option"
  r_es :: "emustate option"
  savedState :: "emustate list"
  capStack :: "nat list"
  genOrder :: "nat list"
  addInliningHints :: bool
  doCopyPass :: bool
  r_fsmem :: mem
  ePool :: "exprpool option"
  r_next :: "(vectorizereq \<times> u64 \<times> u64) list"

abbreviation "SAVEDSTATE_MAX \<equiv> (20 :: nat)"
abbreviation "CAPTURESTACK_LEN \<equiv> (20 :: nat)"
abbreviation "GENORDER_MAX \<equiv> (20 :: nat)"

text \<open>\<open>allocRewriter\<close>: a rewriter in a process whose memory is \<open>m\<close>, and \<open>fs\<close> as seen
  through the segment register \<open>fs\<close>.\<close>

definition allocRewriter :: "mem \<Rightarrow> mem \<Rightarrow> rewriter" where
  "allocRewriter m fs = \<lparr>r_mem = m, dec_alloc = False, decInstrCapacity = 0, decInstr = [],
     decBBCapacity = 0, decBB = [], cap_alloc = False, capInstrCapacity = 0, capInstr = [],
     capBBCapacity = 0, capBB = [], currentCapBB = None, r_func = 0, capCodeCapacity = 0,
     r_cs = None, generatedCodeAddr = 0, generatedCodeSize = 0, vreq = VR_None,
     vectorsize = 16, r_cc = None, r_es = None, savedState = [], capStack = [], genOrder = [],
     addInliningHints = True, doCopyPass = True,
     r_fsmem = fs, ePool = None, r_next = []\<rparr>"

end
