(* ===== verification/GenPrim.thy ===== *)
theory GenPrim
  imports Common
begin

text \<open>
  The primitives of the code generator \<open>src/generate.c\<close>: ModRM and SIB bytes, prefixes,
  opcodes, immediates, and the reduction of immediates to shorter encodings.

  The code writes into the buffer \<open>c->buf\<close> and returns the number of bytes; here a
  primitive returns the bytes. The partly generated bytes \<open>b[0..blen-1]\<close> are a list. A byte
  value held in an \<open>int\<close> (\<open>modrm\<close>, \<open>sib\<close>) is a \<open>u8\<close>, as all its bits are below 256.
\<close>

named_theorems gen_defs \<open>definitions of the code generator's primitives\<close>

section \<open>Context\<close>

record gctx =
  g_instr :: instr
  g_vp :: vexprefix
  g_vvvv :: nat
  g_ps :: prefixset
  g_rex :: u32
  g_so :: opsegoverride
  g_b :: "u8 list"
  g_opc :: nat
  g_oe :: operandencoding
  g_vt :: valtype
  g_flags :: u32

text \<open>The result of a generator function: the bytes, or -1 for unsupported operands.\<close>

datatype (plugins only: code size) genres = GenErr | GenBytes "u8 list"

abbreviation "GEN_66OnVT16 \<equiv> (1 :: u32)"
abbreviation "GEN_DefOpVT64 \<equiv> (2 :: u32)"

text \<open>\<open>initGContext\<close>. The opcode starts as -1 in the code and is set before it is read;
  it is a natural number here.\<close>

definition initGContext :: "instr \<Rightarrow> gctx" where
  "initGContext i = \<lparr>g_instr = i, g_vp = VEX_No, g_vvvv = 0, g_ps = PS_No, g_rex = 0,
     g_so = OSO_None, g_b = [], g_opc = 0, g_oe = OE_Invalid, g_vt = VT_None, g_flags = 0\<rparr>"

definition or_rex :: "u32 \<Rightarrow> gctx \<Rightarrow> gctx" where
  "or_rex m c = c\<lparr>g_rex := g_rex c OR m\<rparr>"

section \<open>Register numbers\<close>

definition GPRegEncoding :: "reg \<Rightarrow> nat option" where
  "GPRegEncoding r = do { g \<leftarrow> regIsGP r; c_assert g; Some (ri r) }"

definition GP64RegEncoding :: "reg \<Rightarrow> nat option" where
  "GP64RegEncoding r = do { c_assert (rt r = RT_GP64); c_assert (ri r < RI_GPMax); Some (ri r) }"

definition VRegEncoding :: "reg \<Rightarrow> nat option" where
  "VRegEncoding r = do { v \<leftarrow> regIsV r; c_assert v; Some (ri r) }"

text \<open>\<open>r & 8\<close> and \<open>r & 7\<close>.\<close>

definition high_reg :: "nat \<Rightarrow> bool" where
  "high_reg r = odd (r div 8)"

definition low_reg :: "nat \<Rightarrow> u8" where
  "low_reg r = of_nat (r mod 8)"

text \<open>The registers SPL, BPL, SIL and DIL need an empty REX prefix.\<close>

definition needs_rex :: "reg \<Rightarrow> bool" where
  "needs_rex r \<longleftrightarrow> rt r = RT_GP8 \<and> 4 \<le> ri r \<and> ri r < 8"

section \<open>ModRM, SIB and displacement\<close>

text \<open>
  The memory form. \<open>modrm\<close> has the digit in bits 3 to 5. \<open>calcMemPlain\<close> is the branch
  without SIB byte (except for an absolute address), \<open>calcMemSIB\<close> the branch with one. Both
  return ModRM, SIB, whether each displacement is used, and the context.
\<close>

type_synonym memenc = "u8 \<times> u8 option \<times> bool \<times> bool \<times> gctx"

definition calcMemPlain :: "gctx \<Rightarrow> operand \<Rightarrow> u8 \<Rightarrow> u8 \<Rightarrow> bool \<Rightarrow> bool \<Rightarrow> memenc option" where
  "calcMemPlain c p modrm md d8 d32 =
     (if rt (oreg p) = RT_None then Some (modrm, Some 0x25, False, True, c)
      else if rt (oreg p) = RT_IP then None
      else do {
        r1 \<leftarrow> GP64RegEncoding (oreg p);
        let force = ((r1 = RI_BP \<or> r1 = RI_13) \<and> oval p = 0);
        c_assert (force \<longrightarrow> md = 0);
        let md = (if force then 64 else md);
        let c = (if high_reg r1 then or_rex REX_MASK_B c else c);
        Some (modrm OR md OR low_reg r1, None, d8 \<or> force, d32, c) })"

definition sibScale :: "nat \<Rightarrow> u8 option" where
  "sibScale s = (if s = 2 then Some 64 else if s = 4 then Some 128 else if s = 8 then Some 192
     else if s = 0 \<or> s = 1 then Some 0 else None)"

definition calcMemSIB :: "gctx \<Rightarrow> operand \<Rightarrow> u8 \<Rightarrow> u8 \<Rightarrow> bool \<Rightarrow> bool \<Rightarrow> memenc option" where
  "calcMemSIB c p modrm md d8 d32 = do {
     sib \<leftarrow> sibScale (oscale p);
     (sib, c) \<leftarrow>
       (if oscale p = 0 \<or> rt (oireg p) = RT_None then Some (sib OR 32, c)
        else do {
          i \<leftarrow> GP64RegEncoding (oireg p);
          c_assert (i \<noteq> 4);
          Some (sib OR push_bit 3 (low_reg i), if high_reg i then or_rex REX_MASK_X c else c) });
     (if rt (oreg p) = RT_None then Some (modrm, Some (sib OR 5), False, True, c)
      else do {
        b \<leftarrow> regGP64Index (oreg p);
        let force = ((b = RI_BP \<or> b = RI_13) \<and> md = 0);
        let md = (if force then 64 else md);
        rb \<leftarrow> GP64RegEncoding (oreg p);
        let c = (if high_reg rb then or_rex REX_MASK_B c else c);
        Some (modrm OR md, Some (sib OR low_reg rb), d8 \<or> force, d32, c) }) }"

definition calcMem :: "gctx \<Rightarrow> operand \<Rightarrow> u8 \<Rightarrow> gctx option" where
  "calcMem c p modrm = do {
     let v = oval p;
     let d8 = (v \<noteq> 0 \<and> -128 \<le> sint v \<and> sint v < 128);
     let d32 = (v \<noteq> 0 \<and> \<not> d8 \<and> - (2 ^ 31) \<le> sint v \<and> sint v < 2 ^ 31);
     c_assert (v = 0 \<or> d8 \<or> d32);
     let md = (if d8 then 64 else if d32 then 128 else 0);
     let c = c\<lparr>g_so := oseg p\<rparr>;
     i \<leftarrow> regGP64Index (oreg p);
     (modrm, sib, d8, d32, c) \<leftarrow>
       (if oscale p = 0 \<and> i \<noteq> RI_SP \<and> i \<noteq> RI_12 then calcMemPlain c p modrm md d8 d32
        else calcMemSIB c p modrm md d8 d32);
     Some (c\<lparr>g_b := (case sib of None \<Rightarrow> [modrm] | Some s \<Rightarrow> [modrm OR 4, s])
       @ (if d8 then le8 v else []) @ (if d32 then le32 v else [])\<rparr>) }"

definition calcModRMDigit :: "gctx \<Rightarrow> operand \<Rightarrow> nat \<Rightarrow> u32 \<Rightarrow> gctx option" where
  "calcModRMDigit c p digit flags = do {
     c_assert (digit < 8);
     c_assert (opIsReg p \<or> opIsInd p);
     vt \<leftarrow> opValType p;
     let c = (if flags AND GEN_DefOpVT64 = 0 \<and> vt = VT_64 then or_rex REX_MASK_W c else c);
     let modrm = (push_bit 3 (of_nat digit) :: u8);
     (if opIsReg p then do {
        gp \<leftarrow> opIsGPReg p;
        (r1, c) \<leftarrow>
          (if gp then do {
             r1 \<leftarrow> GPRegEncoding (oreg p);
             Some (r1, if needs_rex (oreg p) then or_rex 0x40 c else c) }
           else do {
             v \<leftarrow> opIsVReg p;
             c_assert v;
             r1 \<leftarrow> VRegEncoding (oreg p);
             Some (r1, c) });
        let c = (if high_reg r1 then or_rex REX_MASK_B c else c);
        Some (c\<lparr>g_b := [modrm OR 192 OR low_reg r1]\<rparr>) }
      else calcMem c p modrm) }"

definition calcModRM :: "gctx \<Rightarrow> operand \<Rightarrow> operand \<Rightarrow> gctx option" where
  "calcModRM c p1 p2 = do {
     t1 \<leftarrow> opValType p1;
     t2 \<leftarrow> opValType p2;
     c_assert (t1 = t2);
     gp \<leftarrow> opIsGPReg p2;
     (r2, c) \<leftarrow>
       (if gp then do {
          c_assert (opIsReg p1 \<or> opIsInd p1);
          r2 \<leftarrow> GPRegEncoding (oreg p2);
          Some (r2, if needs_rex (oreg p2) then or_rex 0x40 c else c) }
        else do {
          v \<leftarrow> opIsVReg p2;
          c_assert v;
          c_assert (opIsReg p1 \<or> opIsInd p1);
          r2 \<leftarrow> VRegEncoding (oreg p2);
          Some (r2, c) });
     let c = (if high_reg r2 then or_rex REX_MASK_R c else c);
     calcModRMDigit c p1 (r2 mod 8) 0 }"

section \<open>Prefixes and opcodes\<close>

definition genPrefix :: "gctx \<Rightarrow> (u8 list \<times> gctx) option" where
  "genPrefix c = do {
     let seg = (if g_so c = OSO_UseFS then [0x64] else if g_so c = OSO_UseGS then [0x65] else []);
     let c = (if g_ps c AND PS_REXW \<noteq> 0
              then (or_rex REX_MASK_W c)\<lparr>g_ps := g_ps c AND NOT PS_REXW\<rparr> else c);
     (if g_vp c = VEX_No then
        Some (seg
          @ (if g_ps c AND PS_66 \<noteq> 0 then [0x66] else [])
          @ (if g_ps c AND PS_F2 \<noteq> 0 then [0xF2] else [])
          @ (if g_ps c AND PS_F3 \<noteq> 0 then [0xF3] else [])
          @ (if g_rex c \<noteq> 0 then [0x40 OR ucast (g_rex c)] else []), c)
      else do {
        c_assert (g_vp c = VEX_128 \<or> g_vp c = VEX_256);
        c_assert (g_opc c div 256 mod 256 = 0x0F);
        let c = c\<lparr>g_opc := g_opc c mod 256\<rparr>;
        let b = (push_bit 3 (15 - of_nat (g_vvvv c)) OR (if g_vp c = VEX_128 then 0 else 4) :: u8);
        pp \<leftarrow> (if g_ps c = PS_66 then Some 1 else if g_ps c = PS_F3 then Some 2
              else if g_ps c = PS_F2 then Some 3 else if g_ps c = PS_No then Some 0 else None);
        let b = b OR pp;
        let r = (if g_rex c AND REX_MASK_R \<noteq> 0 then 0 else (128 :: u8));
        (if g_rex c AND (REX_MASK_X OR REX_MASK_B OR REX_MASK_W) = 0
         then Some (seg @ [0xC5, b OR r], c)
         else
           Some (seg @ [0xC4,
              1 OR r OR (if g_rex c AND REX_MASK_X \<noteq> 0 then 0 else 64)
                OR (if g_rex c AND REX_MASK_B \<noteq> 0 then 0 else 32),
              b OR (if g_rex c AND REX_MASK_W \<noteq> 0 then 0 else 128)], c)) }) }"

definition appendOO :: "gctx \<Rightarrow> u8 list option" where
  "appendOO c =
     (if g_opc c > 255 then do {
        c_assert (g_opc c < 65536);
        Some ([of_nat (g_opc c div 256), of_nat (g_opc c mod 256)] @ g_b c) }
      else Some (of_nat (g_opc c) # g_b c))"

definition appendI :: "operand \<Rightarrow> u8 list option" where
  "appendI p =
     (case otype p of
        OT_Imm8 \<Rightarrow> Some (le8 (oval p))
      | OT_Imm16 \<Rightarrow> Some (le16 (oval p))
      | OT_Imm32 \<Rightarrow> Some (le32 (oval p))
      | OT_Imm64 \<Rightarrow> Some (le64 (oval p))
      | _ \<Rightarrow> None)"

text \<open>The operand size prefix, if asked for.\<close>

definition size66 :: "gctx \<Rightarrow> operand \<Rightarrow> u32 \<Rightarrow> gctx option" where
  "size66 c p flags =
     (if flags AND GEN_66OnVT16 \<noteq> 0 then do {
        t \<leftarrow> opValType p;
        Some (if t = VT_16 then c\<lparr>g_ps := g_ps c OR PS_66\<rparr> else c) }
      else Some c)"

text \<open>Opcode, prefixes and operand bytes together.\<close>

definition finish :: "gctx \<Rightarrow> nat \<Rightarrow> u8 list option" where
  "finish c opc = do {
     (pre, c) \<leftarrow> genPrefix (c\<lparr>g_opc := opc\<rparr>);
     oo \<leftarrow> appendOO c;
     Some (pre @ oo) }"

section \<open>Operand encodings\<close>

definition genModRM ::
  "gctx \<Rightarrow> nat \<Rightarrow> operand \<Rightarrow> operand \<Rightarrow> valtype \<Rightarrow> u32 \<Rightarrow> u8 list option" where
  "genModRM c opc p1 p2 vt flags = do {
     c \<leftarrow> calcModRM c p1 p2;
     let c = (if vt = VT_Implicit \<and> g_ps c AND PS_REXW = 0
              then c\<lparr>g_rex := g_rex c AND NOT REX_MASK_W\<rparr> else c);
     c \<leftarrow> size66 c p1 flags;
     finish c opc }"

definition genDigitRM :: "gctx \<Rightarrow> nat \<Rightarrow> nat \<Rightarrow> operand \<Rightarrow> u32 \<Rightarrow> u8 list option" where
  "genDigitRM c opc digit p1 flags = do {
     c \<leftarrow> calcModRMDigit c p1 digit flags;
     c \<leftarrow> size66 c p1 flags;
     finish c opc }"

definition genModRMI ::
  "gctx \<Rightarrow> nat \<Rightarrow> operand \<Rightarrow> operand \<Rightarrow> operand \<Rightarrow> u32 \<Rightarrow> u8 list option" where
  "genModRMI c opc p1 p2 p3 flags = do {
     c \<leftarrow> calcModRM c p1 p2;
     c \<leftarrow> size66 c p1 flags;
     bs \<leftarrow> finish c opc;
     im \<leftarrow> appendI p3;
     Some (bs @ im) }"

definition genDigitMI ::
  "gctx \<Rightarrow> nat \<Rightarrow> nat \<Rightarrow> operand \<Rightarrow> operand \<Rightarrow> u32 \<Rightarrow> u8 list option" where
  "genDigitMI c opc digit p1 p2 flags = do {
     c_assert (opIsImm p2);
     c \<leftarrow> calcModRMDigit c p1 digit flags;
     c \<leftarrow> size66 c p1 flags;
     bs \<leftarrow> finish c opc;
     im \<leftarrow> appendI p2;
     Some (bs @ im) }"

definition genOI :: "gctx \<Rightarrow> nat \<Rightarrow> operand \<Rightarrow> operand \<Rightarrow> u32 \<Rightarrow> u8 list option" where
  "genOI c opc p1 p2 flags = do {
     c_assert (opIsReg p1);
     c_assert (opIsImm p2);
     r \<leftarrow> GPRegEncoding (oreg p1);
     let c = (if high_reg r then or_rex REX_MASK_B c else c);
     t \<leftarrow> opValType p1;
     let c = (if t = VT_64 then or_rex REX_MASK_W c else c);
     c \<leftarrow> size66 c p1 flags;
     c_assert (opc < 256 \<and> opc mod 8 = 0);
     bs \<leftarrow> finish c (opc + r mod 8);
     im \<leftarrow> appendI p2;
     Some (bs @ im) }"

section \<open>Reducing immediates\<close>

definition reduceImm64to32 :: "operand \<Rightarrow> operand" where
  "reduceImm64to32 p =
     (if otype p = OT_Imm64 \<and> - (2 ^ 31) < sint (oval p) \<and> sint (oval p) < 2 ^ 31
      then op0\<lparr>otype := OT_Imm32, oval := trunc32 (oval p)\<rparr> else p)"

definition reduceImm16to8 :: "operand \<Rightarrow> operand" where
  "reduceImm16to8 p =
     (let v = sint (ucast (oval p) :: u16) in
      if otype p = OT_Imm16 \<and> - (2 ^ 7) < v \<and> v < 2 ^ 7
      then op0\<lparr>otype := OT_Imm8, oval := trunc8 (oval p)\<rparr> else p)"

definition reduceImm32to8 :: "operand \<Rightarrow> operand" where
  "reduceImm32to8 p =
     (let v = sint (ucast (oval p) :: u32) in
      if otype p = OT_Imm32 \<and> - (2 ^ 7) < v \<and> v < 2 ^ 7
      then op0\<lparr>otype := OT_Imm8, oval := trunc8 (oval p)\<rparr> else p)"

lemmas [gen_defs] = GPRegEncoding_def GP64RegEncoding_def VRegEncoding_def high_reg_def low_reg_def
  needs_rex_def or_rex_def calcModRM_def calcModRMDigit_def calcMem_def calcMemPlain_def
  calcMemSIB_def sibScale_def genPrefix_def appendOO_def appendI_def size66_def finish_def
  genModRM_def genDigitRM_def genModRMI_def genDigitMI_def genOI_def reduceImm64to32_def
  reduceImm16to8_def reduceImm32to8_def initGContext_def

end
