(* ===== verification/DecodeContext.thy ===== *)
theory DecodeContext
  imports Common
begin

text \<open>
  The decode context of \<open>src/decode.c\<close> and its primitive operations: appending decoded
  instructions to the rewriter's buffer, parsing ModRM operands and immediates, and
  recognising legacy, REX and VEX prefixes.

  The context carries the rewriter it decodes for (\<open>c->r\<close>); code bytes are read from the
  process memory at \<open>c->f + c->off\<close>. A step of the decoder is a function from contexts to
  optional contexts.
\<close>

named_theorems dec_defs \<open>definitions of the decoder's primitive steps\<close>

section \<open>Context\<close>

record dctx =
  d_r :: rewriter
  d_dbb :: nat
  d_f :: u64
  d_off :: nat
  d_iaddr :: u64
  d_vex :: vexprefix
  vex_vvvv :: int
  hasRex :: bool
  rex :: u32
  ps :: prefixset
  segOv :: opsegoverride
  d_vt :: valtype
  opc1 :: int
  opc2 :: int
  o1 :: operand
  o2 :: operand
  o3 :: operand
  d_oe :: operandencoding
  digit :: nat
  d_it :: instrtype
  d_ii :: "nat option"
  d_exit :: bool
  d_err :: decodeerror

type_synonym dechandler = "dctx \<Rightarrow> dctx option"

abbreviation "d_mem c \<equiv> r_mem (d_r c)"
abbreviation "d_ptr c \<equiv> d_f c + of_nat (d_off c)"
abbreviation "decInstrCount c \<equiv> length (decInstr (d_r c))"

definition skip_bytes :: "nat \<Rightarrow> dctx \<Rightarrow> dctx" where
  "skip_bytes n c = c\<lparr>d_off := d_off c + n\<rparr>"

section \<open>Appending instructions\<close>

text \<open>
  \<open>nextInstr\<close>: the new slot and the grown buffer, or no slot when the buffer is full.
\<close>

definition nextInstr :: "rewriter \<Rightarrow> u64 \<Rightarrow> nat \<Rightarrow> nat option \<times> rewriter" where
  "nextInstr r a len =
     (if length (decInstr r) \<ge> decInstrCapacity r then (None, r)
      else (Some (length (decInstr r)),
            r\<lparr>decInstr := decInstr r @
               [instr0\<lparr>iaddr := a, ilen := len, ptLen := 0, ivtype := VT_None, iform := OF_None\<rparr>]\<rparr>))"

definition nextInstrForDContext :: "dctx \<Rightarrow> nat option \<times> dctx" where
  "nextInstrForDContext c =
     (let len = unat (d_ptr c - d_iaddr c);
          (i, r) = nextInstr (d_r c) (d_iaddr c) len
      in case i of
           Some k \<Rightarrow> (Some k, c\<lparr>d_r := r\<rparr>)
         | None \<Rightarrow> (None, c\<lparr>d_err := setDecodeError (d_err c)
                      (Some (''decode buffer full (size: '' @ nat_digits (decInstrCapacity r)
                             @ '' instrs)''))
                      ET_BufferOverflow (Some (d_dbb c)) (int (d_off c))\<rparr>))"

text \<open>Write to the instruction slot \<open>k\<close> of the decode buffer.\<close>

definition setDecInstr :: "nat \<Rightarrow> instr \<Rightarrow> dctx \<Rightarrow> dctx" where
  "setDecInstr k i c = c\<lparr>d_r := (d_r c)\<lparr>decInstr := (decInstr (d_r c))[k := i]\<rparr>\<rparr>"

definition addSimple :: "instrtype \<Rightarrow> valtype \<Rightarrow> dctx \<Rightarrow> (nat option \<times> dctx) option" where
  "addSimple it vt c =
     (case nextInstrForDContext c of
        (None, c) \<Rightarrow> Some (None, c)
      | (Some k, c) \<Rightarrow>
          Some (Some k, setDecInstr k ((decInstr (d_r c) ! k)
            \<lparr>itype := it, ivtype := vt, iform := OF_0\<rparr>) c))"

definition addUnaryOp :: "instrtype \<Rightarrow> operand \<Rightarrow> dctx \<Rightarrow> (nat option \<times> dctx) option" where
  "addUnaryOp it p c =
     (case nextInstrForDContext c of
        (None, c) \<Rightarrow> Some (None, c)
      | (Some k, c) \<Rightarrow> do {
          let i = (decInstr (d_r c) ! k)\<lparr>itype := it, iform := OF_1\<rparr>;
          d \<leftarrow> copyOperand (idst i) p;
          Some (Some k, setDecInstr k (i\<lparr>idst := d\<rparr>) c) })"

definition addBinaryOp ::
  "instrtype \<Rightarrow> valtype \<Rightarrow> operand \<Rightarrow> operand \<Rightarrow> dctx \<Rightarrow> (nat option \<times> dctx) option" where
  "addBinaryOp it vt p1 p2 c = do {
     (if vt \<noteq> VT_None \<and> vt \<noteq> VT_Implicit
      then do { t \<leftarrow> opValType p1; c_assert (vt = t) } else Some ());
     (case nextInstrForDContext c of
        (None, c) \<Rightarrow> Some (None, c)
      | (Some k, c) \<Rightarrow> do {
          let i = (decInstr (d_r c) ! k)\<lparr>itype := it, iform := OF_2, ivtype := vt\<rparr>;
          d \<leftarrow> copyOperand (idst i) p1;
          s \<leftarrow> copyOperand (isrc i) p2;
          Some (Some k, setDecInstr k (i\<lparr>idst := d, isrc := s\<rparr>) c) }) }"

definition addTernaryOp ::
  "instrtype \<Rightarrow> valtype \<Rightarrow> operand \<Rightarrow> operand \<Rightarrow> operand \<Rightarrow> dctx
     \<Rightarrow> (nat option \<times> dctx) option" where
  "addTernaryOp it vt p1 p2 p3 c = do {
     (if vt \<noteq> VT_None \<and> vt \<noteq> VT_Implicit
      then do { t \<leftarrow> opValType p1; c_assert (vt = t) } else Some ());
     (case nextInstrForDContext c of
        (None, c) \<Rightarrow> Some (None, c)
      | (Some k, c) \<Rightarrow> do {
          let i = (decInstr (d_r c) ! k)\<lparr>itype := it, iform := OF_3, ivtype := vt\<rparr>;
          d \<leftarrow> copyOperand (idst i) p1;
          s \<leftarrow> copyOperand (isrc i) p2;
          s2 \<leftarrow> copyOperand (isrc2 i) p3;
          Some (Some k, setDecInstr k (i\<lparr>idst := d, isrc := s, isrc2 := s2\<rparr>) c) }) }"

section \<open>ModRM operands\<close>

text \<open>
  \<open>RegTypes\<close>: the register class of operand 1 in bits 0 to 2 and of operand 2 in bits 3
  to 5; class 0 is general purpose, 4 to 7 are MMX, XMM, YMM and ZMM.
\<close>

type_synonym regtypes = u32

abbreviation "RTS_Op1Mask \<equiv> (7 :: regtypes)"
abbreviation "RTS_Op2Mask \<equiv> (56 :: regtypes)"
abbreviation "RTS_Op1VM \<equiv> (4 :: regtypes)"
abbreviation "RTS_Op1VX \<equiv> (5 :: regtypes)"
abbreviation "RTS_Op1VY \<equiv> (6 :: regtypes)"
abbreviation "RTS_Op1VZ \<equiv> (7 :: regtypes)"
abbreviation "RTS_Op2VM \<equiv> (32 :: regtypes)"
abbreviation "RTS_Op2VX \<equiv> (40 :: regtypes)"
abbreviation "RTS_Op2VY \<equiv> (48 :: regtypes)"
abbreviation "RTS_Op2VZ \<equiv> (56 :: regtypes)"
abbreviation "RTS_G \<equiv> (0 :: regtypes)"
abbreviation "RTS_G_G \<equiv> (0 :: regtypes)"
abbreviation "RTS_G_VX \<equiv> (40 :: regtypes)"
abbreviation "RTS_VX_G \<equiv> (5 :: regtypes)"
abbreviation "RTS_VM_VM \<equiv> (36 :: regtypes)"
abbreviation "RTS_VX_VX \<equiv> (45 :: regtypes)"
abbreviation "RTS_VY_VY \<equiv> (54 :: regtypes)"

text \<open>The operand type for a value type: register and memory form, with their asserts.\<close>

definition modrmRegOpType :: "valtype \<Rightarrow> regtypes \<Rightarrow> optype option" where
  "modrmRegOpType vt rts =
     (case vt of
        VT_8 \<Rightarrow> Some OT_Reg8 | VT_16 \<Rightarrow> Some OT_Reg16 | VT_32 \<Rightarrow> Some OT_Reg32
      | VT_64 \<Rightarrow> Some OT_Reg64
      | VT_128 \<Rightarrow> do { c_assert (rts AND RTS_Op2VX \<noteq> 0); Some OT_Reg128 }
      | VT_256 \<Rightarrow> do { c_assert (rts AND RTS_Op2VY \<noteq> 0); Some OT_Reg256 }
      | VT_512 \<Rightarrow> do { c_assert (rts AND RTS_Op2VZ \<noteq> 0); Some OT_Reg512 }
      | _ \<Rightarrow> None)"

definition modrmIndOpType :: "valtype \<Rightarrow> regtypes \<Rightarrow> optype option" where
  "modrmIndOpType vt rts =
     (case vt of
        VT_8 \<Rightarrow> Some OT_Ind8 | VT_16 \<Rightarrow> Some OT_Ind16 | VT_32 \<Rightarrow> Some OT_Ind32
      | VT_64 \<Rightarrow> Some OT_Ind64
      | VT_128 \<Rightarrow> do { c_assert (rts AND RTS_Op1VX \<noteq> 0); Some OT_Ind128 }
      | VT_256 \<Rightarrow> do { c_assert (rts AND RTS_Op1VY \<noteq> 0); Some OT_Ind256 }
      | VT_512 \<Rightarrow> do { c_assert (rts AND RTS_Op1VZ \<noteq> 0); Some OT_Ind512 }
      | _ \<Rightarrow> None)"

text \<open>The two register-class switches of \<open>parseModRM\<close>, on operand 2 and on operand 1.\<close>

definition modrmOp2RegType :: "dctx \<Rightarrow> valtype \<Rightarrow> regtypes \<Rightarrow> regtype" where
  "modrmOp2RegType c vt rts =
     (let k = rts AND RTS_Op2Mask in
      if k = RTS_Op2VM then getVRegType VT_64
      else if k = RTS_Op2VX then getVRegType VT_128
      else if k = RTS_Op2VY then getVRegType VT_256
      else if k = RTS_Op2VZ then getVRegType VT_512
      else if hasRex c then getGPRegType vt else getLegGPRegType vt)"

definition modrmOp1RegType :: "dctx \<Rightarrow> valtype \<Rightarrow> regtypes \<Rightarrow> regtype" where
  "modrmOp1RegType c vt rts =
     (let k = rts AND RTS_Op1Mask in
      if k = RTS_Op1VM then getVRegType VT_64
      else if k = RTS_Op1VX then getVRegType VT_128
      else if k = RTS_Op1VY then getVRegType VT_256
      else if k = RTS_Op1VZ then getVRegType VT_512
      else if hasRex c then getGPRegType vt else getLegGPRegType vt)"

definition rexbit :: "dctx \<Rightarrow> u32 \<Rightarrow> bool" where
  "rexbit c m \<longleftrightarrow> rex c AND m \<noteq> 0"

text \<open>
  The memory form (\<open>mod\<close> other than 3): optional SIB byte, displacement of 0, 1 or 4
  bytes, and the base and index registers.
\<close>

definition parseMem ::
  "nat \<Rightarrow> nat \<Rightarrow> valtype \<Rightarrow> regtypes \<Rightarrow> operand \<Rightarrow> dctx \<Rightarrow> (operand \<times> dctx) option" where
  "parseMem md rm vt rts p c = do {
     let hasDisp8 = (md = 1);
     let hasDisp32 = (md = 2 \<or> (md = 0 \<and> rm = 5));
     let sib = d_mem c (d_ptr c);
     let scale = (if rm = 4 then 2 ^ unat (drop_bit 6 (sib AND 192)) else 0);
     let idx = unat (drop_bit 3 (sib AND 56)) + (if rexbit c REX_MASK_X then 8 else 0);
     let base = unat (sib AND 7);
     let hasDisp32 = (hasDisp32 \<or> (rm = 4 \<and> base = 5 \<and> md = 0));
     let c = (if rm = 4 then skip_bytes 1 c else c);
     let disp = (if hasDisp8 then sext8 (rd8 (d_mem c) (d_ptr c)) else 0);
     let c = (if hasDisp8 then skip_bytes 1 c else c);
     let disp = (if hasDisp32 then sext32 (rd32 (d_mem c) (d_ptr c)) else disp);
     let c = (if hasDisp32 then skip_bytes 4 c else c);
     ot \<leftarrow> modrmIndOpType vt rts;
     let p = p\<lparr>otype := ot, oseg := segOv c, oscale := scale, oval := disp\<rparr>;
     (if scale = 0 then
        (if md = 0 \<and> rm = 5 then do {
           b \<leftarrow> getReg RT_IP 0;
           Some (p\<lparr>oreg := b\<rparr>, c) }
         else do {
           b \<leftarrow> getReg RT_GP64 (rm + (if rexbit c REX_MASK_B then 8 else 0));
           Some (p\<lparr>oreg := b\<rparr>, c) })
      else do {
        p \<leftarrow> (if idx = 4 then do {
                i \<leftarrow> getReg RT_None 0;
                Some (p\<lparr>oireg := i, oscale := 0\<rparr>) }
              else do {
                i \<leftarrow> getReg RT_GP64 idx;
                Some (p\<lparr>oireg := i\<rparr>) });
        b \<leftarrow> (if base = 5 \<and> md = 0 then getReg RT_None 0
              else getReg RT_GP64 (base + (if rexbit c REX_MASK_B then 8 else 0)));
        Some (p\<lparr>oreg := b\<rparr>, c) }) }"

text \<open>
  \<open>parseModRM c vt rts p1 has2 p2\<close>: \<open>p1\<close> and \<open>p2\<close> are the operands pointed to by \<open>o1\<close>
  and \<open>o2\<close>, \<open>has2\<close> tells whether \<open>o2\<close> is not null. The result has the updated operands,
  the digit and the context after the parsed bytes.
\<close>

definition parseModRM ::
  "dctx \<Rightarrow> valtype \<Rightarrow> regtypes \<Rightarrow> operand \<Rightarrow> bool \<Rightarrow> operand
     \<Rightarrow> (operand \<times> operand \<times> nat \<times> dctx) option" where
  "parseModRM c vt rts p1 has2 p2 = do {
     let modrm = d_mem c (d_ptr c);
     let c = skip_bytes 1 c;
     let md = unat (drop_bit 6 (modrm AND 192));
     let r = unat (drop_bit 3 (modrm AND 56));
     let rm = unat (modrm AND 7);
     let vt = (if vt = VT_None then if rexbit c REX_MASK_W then VT_64 else VT_32 else vt);
     ot \<leftarrow> modrmRegOpType vt rts;
     p2 \<leftarrow> (if has2 then do {
              b \<leftarrow> getReg (modrmOp2RegType c vt rts)
                     (r + (if rexbit c REX_MASK_R then 8 else 0));
              Some (p2\<lparr>otype := ot, oreg := b\<rparr>) }
            else Some p2);
     (if md = 3 then do {
        b \<leftarrow> getReg (modrmOp1RegType c vt rts)
               (rm + (if rexbit c REX_MASK_B then 8 else 0));
        Some (p1\<lparr>otype := ot, oreg := b\<rparr>, p2, r, c) }
      else do {
        (p1, c) \<leftarrow> parseMem md rm vt rts p1 c;
        Some (p1, p2, r, c) }) }"

section \<open>Immediates\<close>

definition parseImm :: "valtype \<Rightarrow> bool \<Rightarrow> operand \<Rightarrow> dctx \<Rightarrow> (operand \<times> dctx) option" where
  "parseImm vt realImm64 p c =
     (let m = d_mem c; a = d_ptr c in
      case vt of
        VT_8 \<Rightarrow> Some (p\<lparr>otype := OT_Imm8, oval := rd8 m a\<rparr>, skip_bytes 1 c)
      | VT_16 \<Rightarrow> Some (p\<lparr>otype := OT_Imm16, oval := rd16 m a\<rparr>, skip_bytes 2 c)
      | VT_32 \<Rightarrow> Some (p\<lparr>otype := OT_Imm32, oval := rd32 m a\<rparr>, skip_bytes 4 c)
      | VT_64 \<Rightarrow>
          (if realImm64 then Some (p\<lparr>otype := OT_Imm64, oval := rd64 m a\<rparr>, skip_bytes 8 c)
           else Some (p\<lparr>otype := OT_Imm64, oval := sext32 (rd32 m a)\<rparr>, skip_bytes 4 c))
      | _ \<Rightarrow> None)"

section \<open>Prefixes\<close>

definition decodeVexPS :: "u8 \<Rightarrow> prefixset \<Rightarrow> prefixset" where
  "decodeVexPS b p =
     (let k = b AND 3 in
      if k = 1 then p OR PS_66 else if k = 2 then p OR PS_F3 else if k = 3 then p OR PS_F2 else p)"

definition decodeVex2 :: "u8 \<Rightarrow> dctx \<Rightarrow> dctx" where
  "decodeVex2 b c =
     c\<lparr>d_vex := (if b AND 4 \<noteq> 0 then VEX_256 else VEX_128),
       ps := decodeVexPS b (ps c),
       vex_vvvv := 15 - uint (drop_bit 3 b AND 15),
       rex := (if b AND 128 = 0 then rex c OR REX_MASK_R else rex c),
       hasRex := True,
       opc1 := 0x0F\<rparr>"

definition decodeVex3 :: "u8 \<Rightarrow> u8 \<Rightarrow> dctx \<Rightarrow> dctx option" where
  "decodeVex3 b1 b2 c = do {
     let x = rex c;
     let x = (if b1 AND 128 = 0 then x OR REX_MASK_R else x);
     let x = (if b1 AND 64 = 0 then x OR REX_MASK_X else x);
     let x = (if b1 AND 32 = 0 then x OR REX_MASK_B else x);
     let x = (if b2 AND 128 = 0 then x OR REX_MASK_W else x);
     c_assert (b1 AND 31 = 1);
     Some (c\<lparr>d_vex := (if b2 AND 4 \<noteq> 0 then VEX_256 else VEX_128),
             ps := decodeVexPS b2 (ps c),
             vex_vvvv := 15 - uint (drop_bit 3 b2 AND 15),
             rex := x, hasRex := True, opc1 := 0x0F\<rparr>) }"

text \<open>One legacy or REX prefix byte: the context with the prefix noted, or none.\<close>

definition legacyPrefix :: "u8 \<Rightarrow> dctx \<Rightarrow> dctx option" where
  "legacyPrefix b c =
     (if 0x40 \<le> b \<and> b \<le> 0x4F then Some (c\<lparr>rex := ucast (b AND 15), hasRex := True\<rparr>)
      else if b = 0xF2 then Some (c\<lparr>ps := ps c OR PS_F2\<rparr>)
      else if b = 0xF3 then Some (c\<lparr>ps := ps c OR PS_F3\<rparr>)
      else if b = 0x66 then Some (c\<lparr>ps := ps c OR PS_66\<rparr>)
      else if b = 0x64 then Some (c\<lparr>segOv := OSO_UseFS\<rparr>)
      else if b = 0x65 then Some (c\<lparr>segOv := OSO_UseGS\<rparr>)
      else if b = 0x2E then Some (c\<lparr>ps := ps c OR PS_2E\<rparr>)
      else None)"

text \<open>
  The prefix loop. It ends at the first byte that is no prefix, or after a VEX prefix; a
  memory that holds nothing but prefixes keeps it running, which the option type shows.
\<close>

partial_function (option) decodePrefixLoop :: "dctx \<Rightarrow> dctx option" where
  "decodePrefixLoop c =
     (let b = d_mem c (d_ptr c) in
      if b = 0xC5 then
        (let c = skip_bytes 1 c in
         Some (decodeVex2 (d_mem c (d_ptr c)) (skip_bytes 1 c)))
      else if b = 0xC4 then
        (let c = skip_bytes 1 c;
             b1 = d_mem c (d_ptr c);
             c = skip_bytes 1 c;
             b2 = d_mem c (d_ptr c)
         in decodeVex3 b1 b2 (skip_bytes 1 c))
      else (case legacyPrefix b c of
              None \<Rightarrow> Some c
            | Some c \<Rightarrow> decodePrefixLoop (skip_bytes 1 c)))"

definition startInstr :: "dctx \<Rightarrow> dctx" where
  "startInstr c =
     c\<lparr>d_iaddr := d_ptr c, rex := 0, hasRex := False, segOv := OSO_None, ps := PS_No,
       d_vex := VEX_No, vex_vvvv := -1, d_oe := OE_None, opc1 := -1, opc2 := -1,
       d_exit := False\<rparr>"

definition decodePrefixes :: "dctx \<Rightarrow> dctx option" where
  "decodePrefixes c = do {
     c_assert (et (d_err c) = ET_NoError);
     decodePrefixLoop (startInstr c) }"

lemmas [dec_defs] =
  skip_bytes_def nextInstr_def nextInstrForDContext_def setDecInstr_def addSimple_def
  addUnaryOp_def addBinaryOp_def addTernaryOp_def

end
