(* ===== verification/ModRM.thy ===== *)
theory ModRM
  imports GenPrim DecodeContext
begin

text \<open>
  The ModRM encoding of \<open>src/generate.c\<close> and the ModRM parser of \<open>src/decode.c\<close> are
  inverse to each other: for every well-formed register or memory operand, the bytes that
  \<open>calcModRMDigit\<close> and \<open>calcModRM\<close> produce are parsed back into the same operand. This
  includes the irregular encodings: RSP and R12 as base need a SIB byte, RBP and R13 a
  displacement, an absolute address a SIB byte without base and index.
\<close>

section \<open>Fields of ModRM and SIB bytes\<close>

text \<open>A byte with fields of two, three and three bits.\<close>

definition mrb :: "nat \<Rightarrow> nat \<Rightarrow> nat \<Rightarrow> u8" where
  "mrb a b c = of_nat (64 * a + 8 * b + c)"

lemma all_less_4: "(\<forall>n < 4. P n) \<longleftrightarrow> P 0 \<and> P 1 \<and> P 2 \<and> P (3 :: nat)"
  by (simp add: numeral_eq_Suc All_less_Suc2)

lemma all_less_8: "(\<forall>n < 8. P n) \<longleftrightarrow>
    P 0 \<and> P 1 \<and> P 2 \<and> P 3 \<and> P 4 \<and> P 5 \<and> P 6 \<and> P (7 :: nat)"
  by (simp add: numeral_eq_Suc All_less_Suc2)

lemma mrb_fields:
  assumes "a < 4" "b < 8" "c < 8"
  shows "unat (drop_bit 6 (mrb a b c AND 192)) = a"
    and "unat (drop_bit 3 (mrb a b c AND 56)) = b"
    and "unat (mrb a b c AND 7) = c"
proof -
  have "\<forall>a < 4. \<forall>b < 8. \<forall>c < 8. unat (drop_bit 6 (mrb a b c AND 192)) = a
    \<and> unat (drop_bit 3 (mrb a b c AND 56)) = b \<and> unat (mrb a b c AND 7) = c"
    by (simp add: mrb_def all_less_4 all_less_8)
  then show "unat (drop_bit 6 (mrb a b c AND 192)) = a"
    "unat (drop_bit 3 (mrb a b c AND 56)) = b" "unat (mrb a b c AND 7) = c"
    using assms by blast+
qed

text \<open>How the generator puts the fields together.\<close>

lemma mrb_or:
  assumes "b < 8" "c < 8"
  shows "push_bit 3 (of_nat b) OR of_nat c = mrb 0 b c"
    and "push_bit 3 (of_nat b) OR 64 OR of_nat c = mrb 1 b c"
    and "push_bit 3 (of_nat b) OR 128 OR of_nat c = mrb 2 b c"
    and "push_bit 3 (of_nat b) OR 192 OR of_nat c = mrb 3 b c"
proof -
  have "\<forall>b < 8. \<forall>c < 8. push_bit 3 (of_nat b) OR of_nat c = mrb 0 b c
    \<and> push_bit 3 (of_nat b) OR 64 OR of_nat c = mrb 1 b c
    \<and> push_bit 3 (of_nat b) OR 128 OR of_nat c = mrb 2 b c
    \<and> push_bit 3 (of_nat b) OR 192 OR of_nat c = mrb 3 b c"
    by (simp add: mrb_def all_less_8)
  then show "push_bit 3 (of_nat b) OR of_nat c = mrb 0 b c"
    "push_bit 3 (of_nat b) OR 64 OR of_nat c = mrb 1 b c"
    "push_bit 3 (of_nat b) OR 128 OR of_nat c = mrb 2 b c"
    "push_bit 3 (of_nat b) OR 192 OR of_nat c = mrb 3 b c"
    using assms by blast+
qed

lemma mod8_less [simp]: "r mod 8 < (8 :: nat)"
  by simp

lemma high_reg_iff: "r < 16 \<Longrightarrow> high_reg r \<longleftrightarrow> 8 \<le> r"
  using div_nat_eqI [of 8 1 r] by (cases "r < 8") (auto simp: high_reg_def)

section \<open>Memory operands\<close>

text \<open>Memory operands that have an encoding.\<close>

definition wfMem :: "operand \<Rightarrow> bool" where
  "wfMem p \<longleftrightarrow>
     (rt (oreg p) = RT_None \<and> ri (oreg p) = 0 \<or> rt (oreg p) = RT_GP64 \<and> ri (oreg p) < 16) \<and>
     (oscale p = 0 \<or> oscale p = 1 \<or> oscale p = 2 \<or> oscale p = 4 \<or> oscale p = 8) \<and>
     (oscale p \<noteq> 0 \<longrightarrow> rt (oireg p) = RT_GP64 \<and> ri (oireg p) < 16 \<and> ri (oireg p) \<noteq> 4) \<and>
     - (2 ^ 31) \<le> sint (oval p) \<and> sint (oval p) < 2 ^ 31"

text \<open>
  The encoding as the instruction set reference gives it: mode, register fields, SIB byte,
  displacement, and the REX bits B and X.
\<close>

definition memAbs :: "operand \<Rightarrow> bool" where
  "memAbs p \<longleftrightarrow> rt (oreg p) = RT_None"

definition memFits8 :: "operand \<Rightarrow> bool" where
  "memFits8 p \<longleftrightarrow> -128 \<le> sint (oval p) \<and> sint (oval p) < 128"

definition memMode :: "operand \<Rightarrow> nat" where
  "memMode p =
     (if memAbs p then 0
      else if oval p = 0 \<and> ri (oreg p) \<noteq> RI_BP \<and> ri (oreg p) \<noteq> RI_13 then 0
      else if memFits8 p then 1 else 2)"

definition memHasSIB :: "operand \<Rightarrow> bool" where
  "memHasSIB p \<longleftrightarrow> oscale p \<noteq> 0 \<or> memAbs p \<or> ri (oreg p) = RI_SP \<or> ri (oreg p) = RI_12"

definition memSIB :: "operand \<Rightarrow> u8" where
  "memSIB p = mrb (if oscale p = 2 then 1 else if oscale p = 4 then 2 else if oscale p = 8 then 3 else 0)
     (if oscale p = 0 then 4 else ri (oireg p) mod 8)
     (if memAbs p then 5 else ri (oreg p) mod 8)"

definition memDisp :: "operand \<Rightarrow> u8 list" where
  "memDisp p = (if memAbs p \<or> memMode p = 2 then le32 (oval p)
     else if memMode p = 1 then le8 (oval p) else [])"

definition memBytes :: "nat \<Rightarrow> operand \<Rightarrow> u8 list" where
  "memBytes dg p = mrb (memMode p) dg (if memHasSIB p then 4 else ri (oreg p) mod 8)
     # (if memHasSIB p then [memSIB p] else []) @ memDisp p"

definition memRex :: "operand \<Rightarrow> u32" where
  "memRex p = (if oscale p \<noteq> 0 \<and> 8 \<le> ri (oireg p) then REX_MASK_X else 0)
     OR (if \<not> memAbs p \<and> 8 \<le> ri (oreg p) then REX_MASK_B else 0)"

lemmas mem_defs = memAbs_def memMode_def memHasSIB_def memSIB_def memDisp_def memBytes_def memRex_def

lemma mrb_consts:
  assumes "b < 8"
  shows "push_bit 3 (of_nat b) OR 4 = mrb 0 b 4"
    and "push_bit 3 (of_nat b) OR 68 = mrb 1 b 4"
    and "push_bit 3 (of_nat b) OR 132 = mrb 2 b 4"
    and "push_bit 3 (of_nat b) OR 5 = mrb 0 b 5"
    and "push_bit 3 (of_nat b) OR 69 = mrb 1 b 5"
    and "32 OR of_nat b = mrb 0 4 b"
  using mrb_or [OF assms, of 4] mrb_or [OF assms, of 5] mrb_or [of 4 b] assms by simp_all

lemma mrb_sib:
  assumes "b < 8"
  shows "push_bit 3 (of_nat b) OR 4 = mrb 0 b 4"
    and "(push_bit 3 (of_nat b) OR 64) OR 4 = mrb 1 b 4"
    and "(push_bit 3 (of_nat b) OR 128) OR 4 = mrb 2 b 4"
  using mrb_consts [OF assms] by (simp_all add: or.assoc)

lemma mrb_high:
  assumes "b < 8" "c < 8"
  shows "64 OR mrb 0 b c = mrb 1 b c" "128 OR mrb 0 b c = mrb 2 b c" "192 OR mrb 0 b c = mrb 3 b c"
proof -
  have "\<forall>b < 8. \<forall>c < 8. 64 OR mrb 0 b c = mrb 1 b c \<and> 128 OR mrb 0 b c = mrb 2 b c
      \<and> 192 OR mrb 0 b c = mrb 3 b c"
    by (simp add: mrb_def all_less_8)
  then show "64 OR mrb 0 b c = mrb 1 b c" "128 OR mrb 0 b c = mrb 2 b c"
    "192 OR mrb 0 b c = mrb 3 b c"
    using assms by blast+
qed

lemma mrb_37: "37 = mrb 0 4 5"
  by (simp add: mrb_def)

lemmas mrb_simps = mrb_or mrb_consts mrb_high or.assoc

text \<open>The SIB byte and its REX bits.\<close>

lemma calcMemSIB_eq:
  assumes wf: "wfMem p"
  shows "calcMemSIB c p modrm md d8 d32 =
    (if memAbs p then Some (modrm, Some (memSIB p), False, True, c\<lparr>g_rex := g_rex c OR memRex p\<rparr>)
     else
       (let force = ((ri (oreg p) = RI_BP \<or> ri (oreg p) = RI_13) \<and> md = 0) in
        Some (modrm OR (if force then 64 else md), Some (memSIB p), d8 \<or> force, d32,
              c\<lparr>g_rex := g_rex c OR memRex p\<rparr>)))"
proof -
  have idx: "oscale p = 0 \<or> rt (oireg p) = RT_GP64 \<and> ri (oireg p) < 16 \<and> ri (oireg p) \<noteq> 4"
    using wf by (auto simp: wfMem_def)
  have sc: "oscale p = 0 \<or> oscale p = 1 \<or> oscale p = 2 \<or> oscale p = 4 \<or> oscale p = 8"
    using wf by (auto simp: wfMem_def)
  show ?thesis
  proof (cases "memAbs p")
    case True
    then have none: "rt (oreg p) = RT_None" by (simp add: memAbs_def)
    from idx show ?thesis
    proof
      assume "oscale p = 0"
      with True none show ?thesis
        by (simp add: calcMemSIB_def Let_def memSIB_def memRex_def mrb_37 sibScale_def)
    next
      assume i: "rt (oireg p) = RT_GP64 \<and> ri (oireg p) < 16 \<and> ri (oireg p) \<noteq> 4"
      from sc True none i show ?thesis
        by (elim disjE; simp add: calcMemSIB_def Let_def memSIB_def memRex_def mrb_simps mrb_37
            sibScale_def GP64RegEncoding_def low_reg_def high_reg_iff or_rex_def)
    qed
  next
    case False
    then have gp: "rt (oreg p) = RT_GP64" "ri (oreg p) < 16"
      using wf by (auto simp: wfMem_def memAbs_def)
    from idx show ?thesis
    proof
      assume "oscale p = 0"
      with gp show ?thesis
        by (simp add: calcMemSIB_def Let_def memAbs_def memSIB_def memRex_def mrb_simps sibScale_def
            GP64RegEncoding_def regGP64Index_def low_reg_def high_reg_iff or_rex_def)
    next
      assume i: "rt (oireg p) = RT_GP64 \<and> ri (oireg p) < 16 \<and> ri (oireg p) \<noteq> 4"
      from sc gp i show ?thesis
        by (elim disjE; simp add: calcMemSIB_def Let_def memAbs_def memSIB_def memRex_def mrb_simps
            sibScale_def GP64RegEncoding_def regGP64Index_def low_reg_def high_reg_iff or_rex_def)
    qed
  qed
qed

lemma calcMemPlain_eq:
  assumes wf: "wfMem p" and "oscale p = 0" and abs: "\<not> memAbs p"
    and md: "md = 0 \<or> oval p \<noteq> 0"
  shows "calcMemPlain c p modrm md d8 d32 =
       (let force = ((ri (oreg p) = RI_BP \<or> ri (oreg p) = RI_13) \<and> oval p = 0) in
        Some (modrm OR (if force then 64 else md) OR of_nat (ri (oreg p) mod 8), None, d8 \<or> force,
              d32, c\<lparr>g_rex := g_rex c OR memRex p\<rparr>))"
proof -
  have "rt (oreg p) = RT_GP64" "ri (oreg p) < 16"
    using wf abs by (auto simp: wfMem_def memAbs_def)
  with assms show ?thesis
    by (auto simp: calcMemPlain_def Let_def memAbs_def memRex_def GP64RegEncoding_def low_reg_def
        high_reg_iff or_rex_def c_assert_bind)
qed

text \<open>The choice of the displacement, apart from its range checks.\<close>

lemma calcMem_choose:
  assumes wf: "wfMem p"
  shows "calcMem c p modrm =
    (let d8 = (oval p \<noteq> 0 \<and> memFits8 p); d32 = (oval p \<noteq> 0 \<and> \<not> memFits8 p);
         md = (if d8 then 64 else if d32 then 128 else 0); c = c\<lparr>g_so := oseg p\<rparr> in do {
       (modrm, sib, d8, d32, c) \<leftarrow>
         (if oscale p = 0 \<and> (memAbs p \<or> ri (oreg p) \<noteq> RI_SP \<and> ri (oreg p) \<noteq> RI_12)
          then calcMemPlain c p modrm md d8 d32 else calcMemSIB c p modrm md d8 d32);
       Some (c\<lparr>g_b := (case sib of None \<Rightarrow> [modrm] | Some s \<Rightarrow> [modrm OR 4, s])
         @ (if d8 then le8 (oval p) else []) @ (if d32 then le32 (oval p) else [])\<rparr>) })"
proof -
  have idx: "regGP64Index (oreg p) = Some (if memAbs p then RI_None else ri (oreg p))"
    using wf by (auto simp: wfMem_def regGP64Index_def memAbs_def)
  have f8: "(oval p \<noteq> 0 \<and> - 128 \<le> sint (oval p) \<and> sint (oval p) < 128) = (oval p \<noteq> 0 \<and> memFits8 p)"
    by (simp add: memFits8_def)
  have f32: "(oval p \<noteq> 0 \<and> \<not> (oval p \<noteq> 0 \<and> memFits8 p) \<and> - (2 ^ 31) \<le> sint (oval p)
      \<and> sint (oval p) < 2 ^ 31) = (oval p \<noteq> 0 \<and> \<not> memFits8 p)"
    using wf by (auto simp: wfMem_def)
  have "(oval p = 0 \<or> (oval p \<noteq> 0 \<and> memFits8 p) \<or> (oval p \<noteq> 0 \<and> \<not> memFits8 p)) = True" by blast
  then show ?thesis
    unfolding calcMem_def Let_def f8 f32 idx by simp
qed

text \<open>The four cases of mode and displacement.\<close>

lemma memMode_cases:
  assumes "\<not> memAbs p"
  obtains (none) "oval p = 0" "(ri (oreg p) = RI_BP \<or> ri (oreg p) = RI_13) = False"
      "memMode p = 0" "memDisp p = []"
    | (force) "oval p = 0" "(ri (oreg p) = RI_BP \<or> ri (oreg p) = RI_13) = True"
      "memMode p = 1" "memDisp p = le8 (oval p)"
    | (disp8) "oval p \<noteq> 0" "memFits8 p" "memMode p = 1" "memDisp p = le8 (oval p)"
    | (disp32) "oval p \<noteq> 0" "\<not> memFits8 p" "memMode p = 2" "memDisp p = le32 (oval p)"
proof -
  have z: "memFits8 p" if "oval p = 0" using that by (simp add: memFits8_def)
  note m = memMode_def memDisp_def
  consider "oval p = 0" "ri (oreg p) \<noteq> RI_BP" "ri (oreg p) \<noteq> RI_13"
    | "oval p = 0" "ri (oreg p) = RI_BP \<or> ri (oreg p) = RI_13"
    | "oval p \<noteq> 0" "memFits8 p" | "oval p \<noteq> 0" "\<not> memFits8 p"
    by blast
  then show thesis
  proof cases
    case 1
    then show thesis using assms by (intro none) (simp_all add: m)
  next
    case 2
    then show thesis using assms z by (intro force) (auto simp: m)
  next
    case 3
    then show thesis using assms by (intro disp8) (simp_all add: m)
  next
    case 4
    then show thesis using assms by (intro disp32) (simp_all add: m)
  qed
qed

text \<open>The generator's branches agree with the reference encoding.\<close>

lemma calcMem_memBytes:
  assumes wf: "wfMem p" and dg: "dg < 8"
  shows "calcMem c p (push_bit 3 (of_nat dg))
    = Some (c\<lparr>g_so := oseg p, g_rex := g_rex c OR memRex p, g_b := memBytes dg p\<rparr>)"
proof (cases "memAbs p")
  case True
  then have none: "rt (oreg p) = RT_None" by (simp add: memAbs_def)
  show ?thesis
  proof (cases "oscale p = 0")
    case s: True
    with True none dg show ?thesis
      by (simp add: calcMem_choose [OF wf] calcMemPlain_def Let_def memMode_def memDisp_def
        memBytes_def memSIB_def memRex_def memHasSIB_def mrb_simps mrb_37)
  next
    case s: False
    with True dg show ?thesis
      by (simp add: calcMem_choose [OF wf] calcMemSIB_eq [OF wf] Let_def memMode_def memDisp_def
        memBytes_def memHasSIB_def mrb_simps)
  qed
next
  case False
  let ?plain = "oscale p = 0 \<and> ri (oreg p) \<noteq> RI_SP \<and> ri (oreg p) \<noteq> RI_12"
  have sib: "memHasSIB p \<longleftrightarrow> \<not> ?plain" using False by (auto simp: memHasSIB_def)
  have cs: "((64 :: u8) = 0) = False" "((128 :: u8) = 0) = False" by simp_all
  note eqs = calcMem_choose [OF wf] calcMemPlain_eq [OF wf] calcMemSIB_eq [OF wf] Let_def
    memBytes_def False cs mrb_or [OF dg] mrb_sib [OF dg] mod8_less simp_thms if_True if_False
    bind.bind_lunit prod.case option.case append.simps append_Nil2 or.left_neutral or.right_neutral
    gctx.simps
  show ?thesis
  proof (cases ?plain)
    case p: True
    then have s: "memHasSIB p = False" using sib by simp
    from False show ?thesis
      by (cases rule: memMode_cases) (simp_all only: eqs s p, simp_all)
  next
    case p: False
    then have s: "memHasSIB p = True" using sib by simp
    from False show ?thesis
      by (cases rule: memMode_cases) (simp_all only: eqs s p, simp_all)
  qed
qed

section \<open>Parsing memory operands\<close>

text \<open>Memory operands that mean the same: without scale, the index register is ignored.\<close>

definition sameMem :: "operand \<Rightarrow> operand \<Rightarrow> bool" where
  "sameMem q p \<longleftrightarrow> otype q = otype p \<and> oval q = oval p \<and> oreg q = oreg p \<and> oseg q = oseg p
     \<and> oscale q = oscale p \<and> (oscale p \<noteq> 0 \<longrightarrow> oireg q = oireg p)"

text \<open>The decoder has noted the REX bits and the segment that the generator asked for.\<close>

definition seesMem :: "dctx \<Rightarrow> operand \<Rightarrow> bool" where
  "seesMem d p \<longleftrightarrow> (rexbit d REX_MASK_B \<longleftrightarrow> \<not> memAbs p \<and> 8 \<le> ri (oreg p))
     \<and> (rexbit d REX_MASK_X \<longleftrightarrow> oscale p \<noteq> 0 \<and> 8 \<le> ri (oireg p)) \<and> segOv d = oseg p"

lemma rexbit_skip [simp]: "rexbit (skip_bytes n d) m = rexbit d m"
  by (simp add: rexbit_def skip_bytes_def)

lemma skip_ctx [simp]: "d_mem (skip_bytes n d) = d_mem d" "segOv (skip_bytes n d) = segOv d"
  "d_ptr (skip_bytes n d) = d_ptr d + of_nat n" "hasRex (skip_bytes n d) = hasRex d"
  by (simp_all add: skip_bytes_def)

lemma skip_bytes_add [simp]: "skip_bytes m (skip_bytes n d) = skip_bytes (m + n) d"
  by (simp add: skip_bytes_def)

lemma skip_bytes_0 [simp]: "skip_bytes 0 d = d"
  by (simp add: skip_bytes_def)

lemma reg_split: "r < 16 \<Longrightarrow> r mod 8 + (if 8 \<le> r then 8 else 0) = (r :: nat)"
  using div_nat_eqI [of 8 1 r] div_mult_mod_eq [of r 8] by (cases "8 \<le> r") auto

lemma getReg_GP64: "r < 16 \<Longrightarrow> getReg RT_GP64 r = Some \<lparr>rt = RT_GP64, ri = r\<rparr>"
  by (simp add: getReg_def)

lemma reg_eta: "rt r = t \<Longrightarrow> ri r = i \<Longrightarrow> \<lparr>rt = t, ri = i\<rparr> = (r :: reg)"
  by simp

text \<open>Displacement and length, in all modes.\<close>

definition dispRead :: "operand \<Rightarrow> nat" where
  "dispRead p = length (memDisp p)"

lemma dispRead_simps:
  "dispRead p = (if memAbs p \<or> memMode p = 2 then 4 else if memMode p = 1 then 1 else 0)"
  by (simp add: dispRead_def memDisp_def)

lemma disp_parsed:
  assumes wf: "wfMem p" and bytes: "bytes_at m a (memDisp p)"
  shows "(if memAbs p \<or> memMode p = 2 then sext32 (rd32 m a)
          else if memMode p = 1 then sext8 (rd8 m a) else 0) = oval p"
proof -
  have rng: "- (2 ^ 31) \<le> sint (oval p)" "sint (oval p) < 2 ^ 31" using wf by (auto simp: wfMem_def)
  then have s32: "sext32 (oval p) = oval p" by (rule sext_self(3))
  have s8: "sext8 (oval p) = oval p" if "memMode p = 1"
    using that by (intro sext_self(1)) (auto simp: memMode_def memFits8_def split: if_splits)
  have z: "oval p = 0" if "\<not> memAbs p" "memMode p \<noteq> 2" "memMode p \<noteq> 1"
    using that by (auto simp: memMode_def split: if_splits)
  show ?thesis
    using bytes s32 s8 z by (auto simp: memDisp_def rd32_bytes_at rd8_bytes_at split: if_splits)
qed

lemma memMode_abs [simp]: "memAbs p \<Longrightarrow> memMode p = 0"
  by (simp add: memMode_def)

lemma memMode_less: "memMode p < 3"
  by (simp add: memMode_def)

lemma memMode_BP:
  "\<not> memAbs p \<Longrightarrow> wfMem p \<Longrightarrow> memMode p = 0 \<Longrightarrow> ri (oreg p) mod 8 \<noteq> 5"
proof -
  assume a: "\<not> memAbs p" "wfMem p" "memMode p = 0"
  then have r: "ri (oreg p) < 16" and "ri (oreg p) \<noteq> 5" "ri (oreg p) \<noteq> 13"
    by (auto simp: memMode_def wfMem_def memAbs_def split: if_splits)
  then show "ri (oreg p) mod 8 \<noteq> 5" using reg_split [OF r] by (auto split: if_splits)
qed

lemma memNoSIB_SP: "\<not> memHasSIB p \<Longrightarrow> wfMem p \<Longrightarrow> ri (oreg p) mod 8 \<noteq> 4"
proof -
  assume a: "\<not> memHasSIB p" "wfMem p"
  then have r: "ri (oreg p) < 16" and "ri (oreg p) \<noteq> 4" "ri (oreg p) \<noteq> 12"
    by (auto simp: memHasSIB_def wfMem_def memAbs_def split: if_splits)
  then show "ri (oreg p) mod 8 \<noteq> 4" using reg_split [OF r] by (auto split: if_splits)
qed

lemma parseMem_noSIB:
  assumes wf: "wfMem p" and s: "\<not> memHasSIB p" and sees: "seesMem d p"
    and ot: "modrmIndOpType vt rts = Some (otype p)"
    and bytes: "bytes_at (d_mem d) (d_ptr d) (memDisp p)"
  shows "\<exists>q'. parseMem (memMode p) (ri (oreg p) mod 8) vt rts q d
      = Some (q', skip_bytes (dispRead p) d) \<and> sameMem q' p"
proof -
  have abs: "\<not> memAbs p" and sc: "oscale p = 0" using s by (auto simp: memHasSIB_def)
  then have gp: "rt (oreg p) = RT_GP64" "ri (oreg p) < 16" using wf by (auto simp: wfMem_def memAbs_def)
  have n4: "ri (oreg p) mod 8 \<noteq> 4" by (rule memNoSIB_SP [OF s wf])
  have n5: "memMode p = 0 \<longrightarrow> ri (oreg p) mod 8 \<noteq> 5" using memMode_BP [OF abs wf] by blast
  have base: "getReg RT_GP64 (ri (oreg p) mod 8 + (if rexbit d REX_MASK_B then 8 else 0))
      = Some (oreg p)"
    using sees abs gp reg_split [OF gp(2)] by (simp add: seesMem_def getReg_GP64 reg_eta)
  have seg: "segOv d = oseg p" using sees by (simp add: seesMem_def)
  note disp = disp_parsed [OF wf bytes]
  have m: "memMode p = 0 \<or> memMode p = 1 \<or> memMode p = 2" using memMode_less [of p] by auto
  then show ?thesis
    by (elim disjE; use disp n4 n5 base seg ot sc abs in
      \<open>simp add: parseMem_def Let_def dispRead_simps sameMem_def\<close>)
qed

lemma memSIB_fields:
  assumes "wfMem p"
  shows "2 ^ unat (drop_bit 6 (memSIB p AND 192)) = (if oscale p = 0 then 1 else oscale p)"
    and "unat (drop_bit 3 (memSIB p AND 56)) = (if oscale p = 0 then 4 else ri (oireg p) mod 8)"
    and "unat (memSIB p AND 7) = (if memAbs p then 5 else ri (oreg p) mod 8)"
proof -
  have sc: "oscale p = 0 \<or> oscale p = 1 \<or> oscale p = 2 \<or> oscale p = 4 \<or> oscale p = 8"
    using assms by (simp add: wfMem_def)
  show "2 ^ unat (drop_bit 6 (memSIB p AND 192)) = (if oscale p = 0 then 1 else oscale p)"
    unfolding memSIB_def using sc by (subst mrb_fields(1)) auto
  show "unat (drop_bit 3 (memSIB p AND 56)) = (if oscale p = 0 then 4 else ri (oireg p) mod 8)"
    unfolding memSIB_def by (subst mrb_fields(2)) auto
  show "unat (memSIB p AND 7) = (if memAbs p then 5 else ri (oreg p) mod 8)"
    unfolding memSIB_def by (subst mrb_fields(3)) auto
qed

lemma parseMem_SIB:
  assumes wf: "wfMem p" and s: "memHasSIB p" and sees: "seesMem d p"
    and ot: "modrmIndOpType vt rts = Some (otype p)"
    and sib: "d_mem d (d_ptr d) = memSIB p"
    and bytes: "bytes_at (d_mem d) (d_ptr d + 1) (memDisp p)"
  shows "\<exists>q'. parseMem (memMode p) 4 vt rts q d
      = Some (q', skip_bytes (1 + dispRead p) d) \<and> sameMem q' p"
proof -
  have seg: "segOv d = oseg p" using sees by (simp add: seesMem_def)
  note disp = disp_parsed [OF wf bytes]
  have m: "memMode p = 0 \<or> memMode p = 1 \<or> memMode p = 2" using memMode_less [of p] by auto
  have sc: "oscale p = 0 \<and> \<not> rexbit d REX_MASK_X \<or>
      oscale p \<noteq> 0 \<and> ri (oireg p) mod 8 + (if rexbit d REX_MASK_X then 8 else 0) = ri (oireg p)
      \<and> ri (oireg p) \<noteq> 4 \<and> getReg RT_GP64 (ri (oireg p)) = Some (oireg p)"
    using wf sees reg_split [of "ri (oireg p)"]
    by (auto simp: wfMem_def seesMem_def getReg_GP64 reg_eta)
  have none: "getReg RT_None 0 = Some \<lparr>rt = RT_None, ri = 0\<rparr>" by (simp add: getReg_def)
  note defs = parseMem_def Let_def sib memSIB_fields [OF wf, simplified] seg dispRead_simps sameMem_def
  show ?thesis
  proof (cases "memAbs p")
    case True
    then have "oreg p = \<lparr>rt = RT_None, ri = 0\<rparr>" using wf by (simp add: wfMem_def memAbs_def)
    with True sc disp ot none show ?thesis by (elim disjE) (simp_all add: defs)
  next
    case False
    then have gp: "rt (oreg p) = RT_GP64" "ri (oreg p) < 16" using wf by (auto simp: wfMem_def memAbs_def)
    then have base: "getReg RT_GP64 (ri (oreg p) mod 8 + (if rexbit d REX_MASK_B then 8 else 0))
        = Some (oreg p)"
      using sees False reg_split [OF gp(2)] by (simp add: seesMem_def getReg_GP64 reg_eta)
    have n5: "memMode p = 0 \<longrightarrow> ri (oreg p) mod 8 \<noteq> 5" using memMode_BP [OF False wf] by blast
    from sc m False disp ot none base n5 show ?thesis by (elim disjE) (simp_all add: defs)
  qed
qed

section \<open>Register or memory operands\<close>

text \<open>Register operands that exist, and operands of the \<open>r/m\<close> kind.\<close>

definition wfRegOp :: "operand \<Rightarrow> bool" where
  "wfRegOp p \<longleftrightarrow> opIsReg p \<and> (regTypeIsGP (rt (oreg p)) \<or> regTypeIsV (rt (oreg p)))
     \<and> getReg (rt (oreg p)) (ri (oreg p)) = Some (oreg p)"

definition wfRM :: "operand \<Rightarrow> bool" where
  "wfRM p \<longleftrightarrow> wfRegOp p \<or> opIsInd p \<and> wfMem p"

definition rexIf :: "bool \<Rightarrow> u32 \<Rightarrow> u32" where
  "rexIf b m = (if b then m else 0)"

definition rmBytes :: "nat \<Rightarrow> operand \<Rightarrow> u8 list" where
  "rmBytes dg p = (if opIsReg p then [mrb 3 dg (ri (oreg p) mod 8)] else memBytes dg p)"

definition rmRex :: "operand \<Rightarrow> u32" where
  "rmRex p = (if opIsReg p
     then rexIf (needs_rex (oreg p)) 0x40 OR rexIf (8 \<le> ri (oreg p)) REX_MASK_B else memRex p)"

definition regRex :: "operand \<Rightarrow> u32" where
  "regRex p = rexIf (needs_rex (oreg p)) 0x40 OR rexIf (8 \<le> ri (oreg p)) REX_MASK_R"

text \<open>Operands that mean the same.\<close>

definition sameOp :: "operand \<Rightarrow> operand \<Rightarrow> bool" where
  "sameOp q p \<longleftrightarrow> (if opIsReg p then otype q = otype p \<and> oreg q = oreg p else sameMem q p)"

lemma wfRegOp_index:
  assumes "wfRegOp p"
  shows "ri (oreg p) < 16" and "opIsReg p"
    and "regIsGP (oreg p) = Some (regTypeIsGP (rt (oreg p)))"
    and "\<not> regTypeIsGP (rt (oreg p)) \<Longrightarrow> regIsV (oreg p) = Some True"
  using assms
  by (cases "rt (oreg p)"; auto simp: wfRegOp_def getReg_def regTypeIsGP_def regTypeIsV_def
      regIsGP_def regIsV_def c_assert_bind split: if_splits)+

lemma or_rex_id [simp]: "or_rex 0 c = c"
  by (simp add: or_rex_def)

lemma needs_rex_V: "\<not> regTypeIsGP (rt r) \<Longrightarrow> \<not> needs_rex r"
  by (auto simp: needs_rex_def regTypeIsGP_def)

lemma calcModRMDigit_eq:
  assumes wf: "wfRM p" and dg: "dg < 8" and vt: "opValType p = Some vt"
  shows "calcModRMDigit c p dg flags =
    Some (c\<lparr>g_so := (if opIsReg p then g_so c else oseg p),
      g_rex := (g_rex c OR rexIf (flags AND GEN_DefOpVT64 = 0 \<and> vt = VT_64) REX_MASK_W) OR rmRex p,
      g_b := rmBytes dg p\<rparr>)"
proof (cases "opIsReg p")
  case True
  then have r: "wfRegOp p" using wf by (auto simp: wfRM_def opIsReg_def opIsInd_def)
  note ix = wfRegOp_index [OF r]
  have b: "push_bit 3 (of_nat dg) OR 192 OR low_reg (ri (oreg p)) = mrb 3 dg (ri (oreg p) mod 8)"
    using dg by (simp add: low_reg_def mrb_or)
  show ?thesis
  proof (cases "regTypeIsGP (rt (oreg p))")
    case gp: True
    then show ?thesis using True dg vt ix(1,3)
      by (simp add: calcModRMDigit_def Let_def opIsGPReg_def GPRegEncoding_def rmRex_def rmBytes_def
          rexIf_def or_rex_def high_reg_iff b or.assoc)
  next
    case v: False
    then show ?thesis using True dg vt ix(1,3,4) needs_rex_V [OF v]
      by (simp add: calcModRMDigit_def Let_def opIsGPReg_def opIsVReg_def VRegEncoding_def rmRex_def
          rmBytes_def rexIf_def or_rex_def high_reg_iff b or.assoc)
  qed
next
  case False
  then have m: "opIsInd p" "wfMem p" using wf by (auto simp: wfRM_def wfRegOp_def)
  then show ?thesis using False dg vt
    by (simp add: calcModRMDigit_def Let_def calcMem_memBytes rmRex_def rmBytes_def rexIf_def
        or_rex_def)
qed

lemma calcModRM_eq:
  assumes wf: "wfRM p1" "wfRegOp p2" and vt: "opValType p1 = Some vt" "opValType p2 = Some vt"
  shows "calcModRM c p1 p2 =
    Some (c\<lparr>g_so := (if opIsReg p1 then g_so c else oseg p1),
      g_rex := ((g_rex c OR regRex p2) OR rexIf (vt = VT_64) REX_MASK_W) OR rmRex p1,
      g_b := rmBytes (ri (oreg p2) mod 8) p1\<rparr>)"
proof -
  note ix = wfRegOp_index [OF wf(2)]
  have rm: "opIsReg p1 \<or> opIsInd p1" using wf(1) by (auto simp: wfRM_def wfRegOp_def)
  show ?thesis
  proof (cases "regTypeIsGP (rt (oreg p2))")
    case gp: True
    then show ?thesis using vt rm ix
      by (simp add: calcModRM_def opIsGPReg_def GPRegEncoding_def Let_def high_reg_iff
          calcModRMDigit_eq [OF wf(1)] regRex_def rexIf_def or_rex_def or.assoc)
  next
    case v: False
    then show ?thesis using vt rm ix needs_rex_V [OF v]
      by (simp add: calcModRM_def opIsGPReg_def opIsVReg_def VRegEncoding_def Let_def high_reg_iff
          calcModRMDigit_eq [OF wf(1)] regRex_def rexIf_def or_rex_def or.assoc)
  qed
qed

lemma modrmRegType_skip [simp]:
  "modrmOp1RegType (skip_bytes n d) = modrmOp1RegType d"
  "modrmOp2RegType (skip_bytes n d) = modrmOp2RegType d"
  by (simp_all add: modrmOp1RegType_def modrmOp2RegType_def fun_eq_iff)

text \<open>The decoder has noted the REX bits that belong to the \<open>r/m\<close> operand.\<close>

definition seesRM :: "dctx \<Rightarrow> valtype \<Rightarrow> regtypes \<Rightarrow> operand \<Rightarrow> bool" where
  "seesRM d vt rts p \<longleftrightarrow>
     (if opIsReg p then (rexbit d REX_MASK_B \<longleftrightarrow> 8 \<le> ri (oreg p))
        \<and> modrmRegOpType vt rts = Some (otype p) \<and> rt (oreg p) = modrmOp1RegType d vt rts
      else seesMem d p \<and> modrmIndOpType vt rts = Some (otype p))"

lemma seesMem_skip [simp]: "seesMem (skip_bytes n d) p = seesMem d p"
  by (simp add: seesMem_def)

lemma memBytes_split:
  "memBytes dg p = mrb (memMode p) dg (if memHasSIB p then 4 else ri (oreg p) mod 8)
     # (if memHasSIB p then memSIB p # memDisp p else memDisp p)"
  by (simp add: memBytes_def)

lemma length_memBytes:
  "length (memBytes dg p) = 1 + ((if memHasSIB p then 1 else 0) + dispRead p)"
  by (simp add: memBytes_def dispRead_def)

lemma parseModRM_default:
  "parseModRM d VT_None rts q1 has2 q2
    = parseModRM d (if rexbit d REX_MASK_W then VT_64 else VT_32) rts q1 has2 q2"
  by (simp add: parseModRM_def Let_def)

text \<open>
  The round trip of ModRM operands: parsing the bytes of an operand yields an operand that
  means the same, the digit or register number, and moves behind the bytes.
\<close>

lemma parseModRM_rmBytes:
  assumes wf: "wfRM p" and dg: "dg < 8"
    and bytes: "bytes_at (d_mem d) (d_ptr d) (rmBytes dg p)"
    and vt: "vt' = (if vt = VT_None then if rexbit d REX_MASK_W then VT_64 else VT_32 else vt)"
    and ot: "modrmRegOpType vt' rts = Some ot"
    and reg2: "has2 \<Longrightarrow> getReg (modrmOp2RegType d vt' rts)
      (dg + (if rexbit d REX_MASK_R then 8 else 0)) = Some r2"
    and sees: "seesRM d vt' rts p"
  shows "\<exists>q. parseModRM d vt rts q1 has2 q2
    = Some (q, if has2 then q2\<lparr>otype := ot, oreg := r2\<rparr> else q2, dg,
        skip_bytes (length (rmBytes dg p)) d) \<and> sameOp q p"
proof -
  have n: "vt' \<noteq> VT_None" using ot by (auto simp: modrmRegOpType_def)
  have un: "parseModRM d vt rts q1 has2 q2 = parseModRM d vt' rts q1 has2 q2"
    using vt parseModRM_default [of d rts q1 has2 q2] by (auto split: if_splits)
  have "\<exists>q. parseModRM d vt' rts q1 has2 q2
    = Some (q, if has2 then q2\<lparr>otype := ot, oreg := r2\<rparr> else q2, dg,
        skip_bytes (length (rmBytes dg p)) d) \<and> sameOp q p"
  proof (cases "opIsReg p")
    case True
    then have r: "wfRegOp p" using wf by (auto simp: wfRM_def opIsReg_def opIsInd_def)
    note ix = wfRegOp_index [OF r]
    have m: "d_mem d (d_ptr d) = mrb 3 dg (ri (oreg p) mod 8)" using bytes True by (simp add: rmBytes_def)
    have b: "getReg (modrmOp1RegType d vt' rts) (ri (oreg p) mod 8 + (if rexbit d REX_MASK_B then 8 else 0))
        = Some (oreg p)"
      using sees True r reg_split [OF ix(1)] by (simp add: seesRM_def wfRegOp_def)
    have f: "unat (drop_bit 6 (mrb 3 dg (ri (oreg p) mod 8) AND 192)) = 3"
      "unat (drop_bit 3 (mrb 3 dg (ri (oreg p) mod 8) AND 56)) = dg"
      "unat (mrb 3 dg (ri (oreg p) mod 8) AND 7) = ri (oreg p) mod 8"
      by (rule mrb_fields [OF _ dg mod8_less]; simp)+
    have "ot = otype p" using sees ot True by (simp add: seesRM_def)
    then show ?thesis using True ot reg2 b
      by (cases has2) (simp_all add: parseModRM_def Let_def m f [simplified] n rmBytes_def
          sameOp_def)
  next
    case False
    then have wm: "wfMem p" using wf by (auto simp: wfRM_def wfRegOp_def)
    let ?rm = "if memHasSIB p then 4 else ri (oreg p) mod 8"
    have m: "d_mem d (d_ptr d) = mrb (memMode p) dg ?rm"
      using bytes False by (simp add: rmBytes_def memBytes_split)
    have md: "memMode p < 4" "memMode p \<noteq> 3" using memMode_less [of p] by auto
    have rm8: "?rm < 8" by simp
    have f: "unat (drop_bit 6 (mrb (memMode p) dg ?rm AND 192)) = memMode p"
      "unat (drop_bit 3 (mrb (memMode p) dg ?rm AND 56)) = dg"
      "unat (mrb (memMode p) dg ?rm AND 7) = ?rm"
      by (rule mrb_fields [OF md(1) dg rm8])+
    have sm: "seesMem (skip_bytes 1 d) p" and it: "modrmIndOpType vt' rts = Some (otype p)"
      using sees False by (simp_all add: seesRM_def)
    have "\<exists>q. parseMem (memMode p) ?rm vt' rts q1 (skip_bytes 1 d)
        = Some (q, skip_bytes (length (rmBytes dg p)) d) \<and> sameMem q p"
    proof (cases "memHasSIB p")
      case True
      with bytes False have "d_mem d (d_ptr d + 1) = memSIB p"
        "bytes_at (d_mem d) (d_ptr d + 2) (memDisp p)"
        by (simp_all add: rmBytes_def memBytes_split add.assoc)
      then show ?thesis
        using parseMem_SIB [OF wm True sm it, of q1] False True
        by (simp add: rmBytes_def length_memBytes add.assoc)
    next
      case ns: False
      with bytes False have "bytes_at (d_mem d) (d_ptr d + 1) (memDisp p)"
        by (simp add: rmBytes_def memBytes_split)
      then show ?thesis
        using parseMem_noSIB [OF wm ns sm it, of q1] False ns
        by (simp add: rmBytes_def length_memBytes)
    qed
    then obtain q where q: "parseMem (memMode p) ?rm vt' rts q1 (skip_bytes 1 d)
        = Some (q, skip_bytes (length (rmBytes dg p)) d)" "sameMem q p" by blast
    then show ?thesis using False ot reg2 md
      by (cases has2) (simp_all add: parseModRM_def Let_def m f [simplified] n sameOp_def)
  qed
  then show ?thesis by (simp only: un)
qed

end
