(* ===== verification/OpcodeTable.thy ===== *)
theory OpcodeTable
  imports Common
begin

text \<open>
  The opcode tables of \<open>src/decode.c\<close>: four arrays of \<open>OpcInfo\<close> indexed by opcode byte,
  which refer to runs of entries (one, four or eight) in one shared array \<open>opcEntry\<close>.
  Entries are allocated on the first registration of an opcode. The theory is generic in
  the type \<open>'h\<close> of handlers.

  What a client of the tables relies on is the interface \<open>handler_table\<close>: registering
  behaves as updating a map. The interpretation at the end shows that the packed arrays
  provide it, because the entry runs of different opcodes never overlap.
\<close>

section \<open>The interface\<close>

locale handler_table =
  fixes install :: "'k \<Rightarrow> 'v \<Rightarrow> 't \<Rightarrow> 't option"
    and lookup :: "'t \<Rightarrow> 'k \<Rightarrow> 'v option"
    and inv :: "'t \<Rightarrow> bool"
  assumes inv_install: "inv t \<Longrightarrow> install k v t = Some t' \<Longrightarrow> inv t'"
    and lookup_install: "inv t \<Longrightarrow> install k v t = Some t' \<Longrightarrow> lookup t' = (lookup t)(k \<mapsto> v)"
begin

text \<open>Registering a list of entries in order, and what the table then holds.\<close>

primrec install_all :: "('k \<times> 'v) list \<Rightarrow> 't \<Rightarrow> 't option" where
  "install_all [] t = Some t"
| "install_all (e # es) t = Option.bind (install (fst e) (snd e) t) (install_all es)"

lemma inv_install_all: "inv t \<Longrightarrow> install_all es t = Some t' \<Longrightarrow> inv t'"
  by (induction es arbitrary: t) (auto simp: bind_eq_Some_conv dest: inv_install)

lemma lookup_install_all:
  "inv t \<Longrightarrow> install_all es t = Some t' \<Longrightarrow> lookup t' = lookup t ++ map_of (rev es)"
proof (induction es arbitrary: t)
  case Nil
  then show ?case by simp
next
  case (Cons e es)
  then obtain u where u: "install (fst e) (snd e) t = Some u" and rest: "install_all es u = Some t'"
    by (auto simp: bind_eq_Some_conv)
  have "lookup t' = lookup u ++ map_of (rev es)"
    using Cons.IH [OF inv_install [OF Cons.prems(1) u] rest] .
  also have "lookup u = (lookup t)(fst e \<mapsto> snd e)"
    by (rule lookup_install [OF Cons.prems(1) u])
  finally show ?case
    by (simp add: map_add_def fun_eq_iff split: option.split)
qed

end

section \<open>The packed tables\<close>

datatype (plugins only: code size) opctype = OT_Invalid | OT_Single | OT_Four | OT_Group

record opcinfo =
  oi_t :: opctype
  oi_opc :: nat
  oi_eStart :: nat

record 'h opcentry =
  oe_h1 :: "'h option"
  oe_h2 :: "'h option"
  oe_h3 :: "'h option"
  oe_vt :: valtype
  oe_it :: instrtype

text \<open>The four arrays \<open>opcTable\<close>, \<open>opcTable0F\<close>, \<open>opcTable0F_V128\<close> and \<open>opcTable0F_V256\<close>.\<close>

datatype (plugins only: code size) tableid = TAB | TAB_0F | TAB_0F_V128 | TAB_0F_V256

record 'h opctables =
  opcTables :: "tableid \<Rightarrow> nat \<Rightarrow> opcinfo"
  opcEntry :: "nat \<Rightarrow> 'h opcentry"
  opcUsed :: nat

abbreviation "OPCENTRY_SIZE \<equiv> (1000 :: nat)"

definition opcCount :: "opctype \<Rightarrow> nat option" where
  "opcCount t = (case t of OT_Single \<Rightarrow> Some 1 | OT_Four \<Rightarrow> Some 4 | OT_Group \<Rightarrow> Some 8
     | OT_Invalid \<Rightarrow> None)"

definition opcSlot :: "vexprefix \<Rightarrow> nat \<Rightarrow> (tableid \<times> nat) option" where
  "opcSlot vp opc =
     (if opc \<le> 0xFF then do { c_assert (opc \<noteq> 0x0F); Some (TAB, opc) }
      else if 0x0F00 \<le> opc \<and> opc \<le> 0x0FFF then
        Some (if vp = VEX_128 then (TAB_0F_V128, opc - 0x0F00)
              else if vp = VEX_256 then (TAB_0F_V256, opc - 0x0F00)
              else (TAB_0F, opc - 0x0F00))
      else None)"

definition setOpcInfo ::
  "vexprefix \<Rightarrow> nat \<Rightarrow> opctype \<Rightarrow> 'h opctables \<Rightarrow> (nat \<times> 'h opctables) option" where
  "setOpcInfo vp opc t tb = do {
     (a, k) \<leftarrow> opcSlot vp opc;
     let oi = opcTables tb a k;
     let used = opcUsed tb;
     (if oi_t oi = OT_Invalid then do {
        n \<leftarrow> opcCount t;
        c_assert (used + n \<le> OPCENTRY_SIZE);
        Some (used,
          tb\<lparr>opcTables := (opcTables tb)(a := (opcTables tb a)
               (k := \<lparr>oi_t = t, oi_opc = opc, oi_eStart = used\<rparr>)),
             opcEntry := (\<lambda>i. if used \<le> i \<and> i < used + n
               then (opcEntry tb i)\<lparr>oe_h1 := None\<rparr> else opcEntry tb i),
             opcUsed := used + n\<rparr>) }
      else do {
        c_assert (oi_t oi = t);
        Some (oi_eStart oi, tb) }) }"

definition getOpcEntry ::
  "vexprefix \<Rightarrow> nat \<Rightarrow> opctype \<Rightarrow> nat \<Rightarrow> 'h opctables \<Rightarrow> (nat \<times> 'h opctables) option" where
  "getOpcEntry vp opc t off tb = do {
     (start, tb) \<leftarrow> setOpcInfo vp opc t tb;
     count \<leftarrow> opcCount t;
     c_assert (off < count);
     Some (start + off, tb) }"

text \<open>What one registration call provides: instruction type, value type and handlers.\<close>

type_synonym 'h opcspec = "instrtype \<times> valtype \<times> 'h \<times> 'h option \<times> 'h option"

definition initOpcEntry :: "'h opcspec \<Rightarrow> 'h opcentry" where
  "initOpcEntry sp = (case sp of (it, vt, ha, hb, hc) \<Rightarrow>
     \<lparr>oe_h1 = Some ha, oe_h2 = hb, oe_h3 = hc, oe_vt = vt, oe_it = it\<rparr>)"

definition setEntry ::
  "vexprefix \<times> nat \<times> opctype \<times> nat \<Rightarrow> 'h opcspec \<Rightarrow> 'h opctables \<Rightarrow> 'h opctables option" where
  "setEntry key sp tb = (case key of (vp, opc, t, off) \<Rightarrow> do {
     (e, tb) \<leftarrow> getOpcEntry vp opc t off tb;
     Some (tb\<lparr>opcEntry := (opcEntry tb)(e := initOpcEntry sp)\<rparr>) })"

definition opcTables0 :: "'h opctables" where
  "opcTables0 = \<lparr>opcTables = (\<lambda>_ _. \<lparr>oi_t = OT_Invalid, oi_opc = 0, oi_eStart = 0\<rparr>),
     opcEntry = (\<lambda>_. \<lparr>oe_h1 = None, oe_h2 = None, oe_h3 = None, oe_vt = VT_None,
                       oe_it = IT_None\<rparr>),
     opcUsed = 0\<rparr>"

section \<open>The tables as a map\<close>

text \<open>
  A key is a table, an opcode byte, the kind of entry and the offset in its run. Its value
  is the entry, when the opcode is registered with this kind and the entry has a handler.
\<close>

type_synonym opckey = "tableid \<times> nat \<times> opctype \<times> nat"

definition entrySpec :: "'h opcentry \<Rightarrow> 'h opcspec option" where
  "entrySpec e = (case oe_h1 e of None \<Rightarrow> None
     | Some ha \<Rightarrow> Some (oe_it e, oe_vt e, ha, oe_h2 e, oe_h3 e))"

definition lookupOpc :: "'h opctables \<Rightarrow> opckey \<Rightarrow> 'h opcspec option" where
  "lookupOpc tb key = (case key of (a, k, t, off) \<Rightarrow>
     (let oi = opcTables tb a k in
      if oi_t oi = t \<and> (case opcCount t of None \<Rightarrow> False | Some n \<Rightarrow> off < n)
      then entrySpec (opcEntry tb (oi_eStart oi + off)) else None))"

definition installOpc :: "opckey \<Rightarrow> 'h opcspec \<Rightarrow> 'h opctables \<Rightarrow> 'h opctables option" where
  "installOpc key sp tb = (case key of (a, k, t, off) \<Rightarrow> do {
     c_assert (k \<le> 0xFF);
     setEntry (case a of TAB_0F_V128 \<Rightarrow> VEX_128 | TAB_0F_V256 \<Rightarrow> VEX_256 | _ \<Rightarrow> VEX_No,
               (if a = TAB then k else 0x0F00 + k), t, off) sp tb })"

text \<open>The entry run of a registered opcode, and the invariant: runs lie in the used part
  of the entry array and the runs of two opcodes are disjoint.\<close>

definition opcRun :: "opcinfo \<Rightarrow> nat set" where
  "opcRun oi = (case opcCount (oi_t oi) of None \<Rightarrow> {} | Some n \<Rightarrow> {oi_eStart oi ..< oi_eStart oi + n})"

definition opcInv :: "'h opctables \<Rightarrow> bool" where
  "opcInv tb \<longleftrightarrow>
     (\<forall>a k. opcRun (opcTables tb a k) \<subseteq> {..< opcUsed tb}) \<and>
     (\<forall>a k a' k'. (a, k) \<noteq> (a', k') \<longrightarrow>
        opcRun (opcTables tb a k) \<inter> opcRun (opcTables tb a' k') = {}) \<and>
     opcUsed tb \<le> OPCENTRY_SIZE"

lemma opcInv_opcTables0: "opcInv opcTables0"
  by (simp add: opcInv_def opcTables0_def opcRun_def opcCount_def)

lemma lookupOpc_opcTables0: "lookupOpc opcTables0 = Map.empty"
  by (auto simp: lookupOpc_def opcTables0_def entrySpec_def fun_eq_iff Let_def)

lemma entrySpec_initOpcEntry [simp]: "entrySpec (initOpcEntry sp) = Some sp"
  by (cases sp) (simp add: entrySpec_def initOpcEntry_def)

section \<open>The interpretation\<close>

text \<open>What \<open>setOpcInfo\<close> returns, and what it changes: nothing for a registered opcode, one
  fresh run for a new one.\<close>

lemma setOpcInfo_cases:
  assumes "setOpcInfo vp opc t tb = Some (start, tb')"
  obtains (old) a k n where "opcSlot vp opc = Some (a, k)" "opcCount t = Some n"
      "oi_t (opcTables tb a k) = t" "start = oi_eStart (opcTables tb a k)" "tb' = tb"
  | (new) a k n where "opcSlot vp opc = Some (a, k)" "opcCount t = Some n"
      "oi_t (opcTables tb a k) = OT_Invalid" "start = opcUsed tb" "opcUsed tb + n \<le> OPCENTRY_SIZE"
      "opcTables tb' = (opcTables tb)(a := (opcTables tb a)
         (k := \<lparr>oi_t = t, oi_opc = opc, oi_eStart = opcUsed tb\<rparr>))"
      "opcEntry tb' = (\<lambda>i. if opcUsed tb \<le> i \<and> i < opcUsed tb + n
         then (opcEntry tb i)\<lparr>oe_h1 := None\<rparr> else opcEntry tb i)"
      "opcUsed tb' = opcUsed tb + n"
proof -
  obtain a k where s: "opcSlot vp opc = Some (a, k)"
    using assms by (auto simp: setOpcInfo_def bind_eq_Some_conv)
  show thesis
  proof (cases "oi_t (opcTables tb a k) = OT_Invalid")
    case True
    then show thesis
      using assms s
      by (auto simp: setOpcInfo_def bind_eq_Some_conv Let_def intro!: new [OF s])
  next
    case False
    then have t: "oi_t (opcTables tb a k) = t"
      using assms s by (auto simp: setOpcInfo_def bind_eq_Some_conv Let_def split: if_splits)
    then have "\<exists>n. opcCount t = Some n"
      using False by (cases t) (simp_all add: opcCount_def)
    then show thesis
      using assms s False t by (auto simp: setOpcInfo_def bind_eq_Some_conv intro: old [OF s])
  qed
qed

lemma opcInvD:
  assumes "opcInv tb"
  shows "opcRun (opcTables tb a k) \<subseteq> {..< opcUsed tb}"
    and "(a, k) \<noteq> (a', k') \<Longrightarrow> opcRun (opcTables tb a k) \<inter> opcRun (opcTables tb a' k') = {}"
  using assms unfolding opcInv_def by blast+

lemma installOpc_slot:
  assumes "installOpc (a, k, t, off) sp tb = Some tb'"
  obtains vp opc where "opcSlot vp opc = Some (a, k)"
    and "setEntry (vp, opc, t, off) sp tb = Some tb'"
proof -
  let ?vp = "case a of TAB_0F_V128 \<Rightarrow> VEX_128 | TAB_0F_V256 \<Rightarrow> VEX_256 | _ \<Rightarrow> VEX_No"
  let ?opc = "if a = TAB then k else 0x0F00 + k"
  have k: "k \<le> 0xFF" and st: "setEntry (?vp, ?opc, t, off) sp tb = Some tb'"
    using assms by (auto simp: installOpc_def bind_eq_Some_conv)
  have "opcSlot ?vp ?opc \<noteq> None"
    using st by (auto simp: setEntry_def getOpcEntry_def setOpcInfo_def bind_eq_Some_conv)
  with k have "opcSlot ?vp ?opc = Some (a, k)"
    by (cases a) (auto simp: opcSlot_def bind_eq_Some_conv c_assert_bind split: if_splits)
  then show thesis using st by (rule that)
qed

lemma setEntry_cases:
  assumes "setEntry (vp, opc, t, off) sp tb = Some tb'"
  obtains start tb1 n where "setOpcInfo vp opc t tb = Some (start, tb1)" "opcCount t = Some n"
    "off < n" "tb' = tb1\<lparr>opcEntry := (opcEntry tb1)(start + off := initOpcEntry sp)\<rparr>"
  using assms by (auto simp: setEntry_def getOpcEntry_def bind_eq_Some_conv)

lemma opcInv_setOpcInfo:
  assumes inv: "opcInv tb" and st: "setOpcInfo vp opc t tb = Some (start, tb')"
  shows "opcInv tb'"
  using st
proof (cases rule: setOpcInfo_cases)
  case old
  then show ?thesis using inv by simp
next
  case (new a k n)
  have run: "opcRun (opcTables tb' x y) =
      (if (x, y) = (a, k) then {opcUsed tb ..< opcUsed tb + n} else opcRun (opcTables tb x y))" for x y
  proof (cases "(x, y) = (a, k)")
    case True
    then show ?thesis using new(2,6) by (simp add: opcRun_def)
  next
    case False
    then have "opcTables tb' x y = opcTables tb x y" using new(6) by auto
    then have "opcRun (opcTables tb' x y) = opcRun (opcTables tb x y)" by simp
    then show ?thesis by (simp only: False if_False)
  qed
  have old_run: "opcRun (opcTables tb x y) \<subseteq> {..< opcUsed tb}" for x y
    by (rule opcInvD(1) [OF inv])
  have sep: "opcRun (opcTables tb x y) \<inter> {opcUsed tb ..< opcUsed tb + n} = {}" for x y
    using old_run [of x y] by fastforce
  have "opcRun (opcTables tb' x y) \<subseteq> {..< opcUsed tb'}" for x y
    using old_run [of x y] new(8) by (auto simp: run)
  moreover have "opcRun (opcTables tb' x y) \<inter> opcRun (opcTables tb' x' y') = {}"
    if "(x, y) \<noteq> (x', y')" for x y x' y'
    using opcInvD(2) [OF inv that] sep [of x y] sep [of x' y'] that
    by (auto simp: run simp del: Pair_inject)
  ultimately show ?thesis using new(5,8) unfolding opcInv_def by auto
qed

lemma opcInv_installOpc:
  assumes inv: "opcInv tb" and st: "installOpc key sp tb = Some tb'"
  shows "opcInv tb'"
proof -
  obtain a k t off where key: "key = (a, k, t, off)" by (cases key)
  obtain vp opc where "setEntry (vp, opc, t, off) sp tb = Some tb'"
    using installOpc_slot [OF st [unfolded key]] .
  then obtain start tb1 where "setOpcInfo vp opc t tb = Some (start, tb1)"
    and "tb' = tb1\<lparr>opcEntry := (opcEntry tb1)(start + off := initOpcEntry sp)\<rparr>"
    by (rule setEntry_cases)
  with opcInv_setOpcInfo [OF inv] show ?thesis by (fastforce simp: opcInv_def)
qed

text \<open>Opening a run does not change what the tables hold.\<close>

lemma lookupOpc_setOpcInfo:
  assumes inv: "opcInv tb" and st: "setOpcInfo vp opc t tb = Some (start, tb')"
  shows "lookupOpc tb' = lookupOpc tb"
  using st
proof (cases rule: setOpcInfo_cases)
  case old
  then show ?thesis by simp
next
  case (new a k n)
  have "lookupOpc tb' (x, y, s, off) = lookupOpc tb (x, y, s, off)" for x y s off
  proof (cases "(x, y) = (a, k)")
    case True
    then show ?thesis using new
      by (auto simp: lookupOpc_def Let_def entrySpec_def opcCount_def split: option.splits)
  next
    case False
    then have same: "opcTables tb' x y = opcTables tb x y" using new(6) by auto
    show ?thesis
    proof (cases "oi_t (opcTables tb x y) = s \<and> (\<exists>m. opcCount s = Some m \<and> off < m)")
      case True
      then have "oi_eStart (opcTables tb x y) + off \<in> opcRun (opcTables tb x y)"
        by (auto simp: opcRun_def)
      then have "oi_eStart (opcTables tb x y) + off < opcUsed tb"
        using opcInvD(1) [OF inv] by blast
      then have "opcEntry tb' (oi_eStart (opcTables tb x y) + off)
          = opcEntry tb (oi_eStart (opcTables tb x y) + off)"
        using new(7) by simp
      then show ?thesis by (simp add: lookupOpc_def same Let_def)
    next
      case False
      then show ?thesis by (auto simp: lookupOpc_def same Let_def split: option.splits)
    qed
  qed
  then show ?thesis by (simp add: fun_eq_iff)
qed

text \<open>Writing the entry \<open>off\<close> of a run changes the value of that key only.\<close>

lemma lookupOpc_write:
  assumes inv: "opcInv tb" and t: "oi_t (opcTables tb a k) = t" and n: "opcCount t = Some n"
    and off: "off < n"
  shows "lookupOpc (tb\<lparr>opcEntry := (opcEntry tb)
             (oi_eStart (opcTables tb a k) + off := initOpcEntry sp)\<rparr>)
    = (lookupOpc tb)((a, k, t, off) \<mapsto> sp)"
    (is "lookupOpc ?tb' = _")
proof -
  let ?e = "oi_eStart (opcTables tb a k) + off"
  have e: "?e \<in> opcRun (opcTables tb a k)" using t n off by (auto simp: opcRun_def)
  have "lookupOpc ?tb' (x, y, s, o') = ((lookupOpc tb)((a, k, t, off) \<mapsto> sp)) (x, y, s, o')"
    for x y s o'
  proof (cases "oi_t (opcTables tb x y) = s \<and> (\<exists>m. opcCount s = Some m \<and> o' < m)")
    case True
    then have e': "oi_eStart (opcTables tb x y) + o' \<in> opcRun (opcTables tb x y)"
      by (auto simp: opcRun_def)
    show ?thesis
    proof (cases "(x, y) = (a, k)")
      case True
      then show ?thesis using t n off by (auto simp: lookupOpc_def Let_def split: option.splits)
    next
      case False
      then have "oi_eStart (opcTables tb x y) + o' \<noteq> ?e"
        using opcInvD(2) [OF inv False] e e' by auto
      then show ?thesis using False by (auto simp: lookupOpc_def Let_def)
    qed
  next
    case False
    then have "(x, y, s, o') \<noteq> (a, k, t, off)" using t n off by auto
    with False show ?thesis by (auto simp: lookupOpc_def Let_def split: option.splits)
  qed
  then show ?thesis by (simp add: fun_eq_iff)
qed

lemma lookupOpc_installOpc:
  assumes inv: "opcInv tb" and st: "installOpc key sp tb = Some tb'"
  shows "lookupOpc tb' = (lookupOpc tb)(key \<mapsto> sp)"
proof -
  obtain a k t off where key: "key = (a, k, t, off)" by (cases key)
  obtain vp opc where slot: "opcSlot vp opc = Some (a, k)"
    and se: "setEntry (vp, opc, t, off) sp tb = Some tb'"
    using installOpc_slot [OF st [unfolded key]] .
  from se obtain start tb1 n where oi: "setOpcInfo vp opc t tb = Some (start, tb1)"
    and n: "opcCount t = Some n" and off: "off < n"
    and tb': "tb' = tb1\<lparr>opcEntry := (opcEntry tb1)(start + off := initOpcEntry sp)\<rparr>"
    by (rule setEntry_cases)
  have "oi_t (opcTables tb1 a k) = t" and start: "start = oi_eStart (opcTables tb1 a k)"
    using oi slot by (auto elim!: setOpcInfo_cases)
  then have "lookupOpc tb' = (lookupOpc tb1)(key \<mapsto> sp)"
    unfolding key tb' start
    by (intro lookupOpc_write [OF opcInv_setOpcInfo [OF inv oi] _ n off]) simp
  then show ?thesis by (simp add: lookupOpc_setOpcInfo [OF inv oi])
qed

interpretation opc: handler_table installOpc lookupOpc opcInv
  by unfold_locales (auto intro: opcInv_installOpc lookupOpc_installOpc)

end
