(* ===== verification/DecodeHandlers.thy ===== *)
theory DecodeHandlers
  imports DecodeContext
begin

text \<open>
  The opcode handlers of \<open>src/decode.c\<close>: the operand-parsing and appending handlers that
  table entries combine, and the handlers for single opcodes. Every handler is a function
  from decode contexts to optional contexts.
\<close>

section \<open>Primitive steps on a context\<close>

text \<open>
  The calls \<open>parseModRM(c, vt, rts, &c->o2, &c->o1, 0)\<close> and its variants, by the operands
  they fill: first the \<open>r/m\<close> operand, then the register operand.
\<close>

definition modrm_o2_o1 :: "valtype \<Rightarrow> regtypes \<Rightarrow> dechandler" where
  "modrm_o2_o1 vt rts c = do {
     (p, q, _, c') \<leftarrow> parseModRM c vt rts (o2 c) True (o1 c);
     Some (c'\<lparr>o2 := p, o1 := q\<rparr>) }"

definition modrm_o1_o2 :: "valtype \<Rightarrow> regtypes \<Rightarrow> dechandler" where
  "modrm_o1_o2 vt rts c = do {
     (p, q, _, c') \<leftarrow> parseModRM c vt rts (o1 c) True (o2 c);
     Some (c'\<lparr>o1 := p, o2 := q\<rparr>) }"

definition modrm_o3_o1 :: "valtype \<Rightarrow> regtypes \<Rightarrow> dechandler" where
  "modrm_o3_o1 vt rts c = do {
     (p, q, _, c') \<leftarrow> parseModRM c vt rts (o3 c) True (o1 c);
     Some (c'\<lparr>o3 := p, o1 := q\<rparr>) }"

definition modrm_o1 :: "valtype \<Rightarrow> regtypes \<Rightarrow> dechandler" where
  "modrm_o1 vt rts c = do {
     (p, _, _, c') \<leftarrow> parseModRM c vt rts (o1 c) False op0;
     Some (c'\<lparr>o1 := p\<rparr>) }"

definition modrm_o1_digit :: "valtype \<Rightarrow> regtypes \<Rightarrow> dechandler" where
  "modrm_o1_digit vt rts c = do {
     (p, _, d, c') \<leftarrow> parseModRM c vt rts (o1 c) False op0;
     Some (c'\<lparr>o1 := p, digit := d\<rparr>) }"

definition imm_o1 :: "valtype \<Rightarrow> bool \<Rightarrow> dechandler" where
  "imm_o1 vt real64 c = do { (p, c') \<leftarrow> parseImm vt real64 (o1 c) c; Some (c'\<lparr>o1 := p\<rparr>) }"

definition imm_o2 :: "valtype \<Rightarrow> bool \<Rightarrow> dechandler" where
  "imm_o2 vt real64 c = do { (p, c') \<leftarrow> parseImm vt real64 (o2 c) c; Some (c'\<lparr>o2 := p\<rparr>) }"

definition imm_o3 :: "valtype \<Rightarrow> bool \<Rightarrow> dechandler" where
  "imm_o3 vt real64 c = do { (p, c') \<leftarrow> parseImm vt real64 (o3 c) c; Some (c'\<lparr>o3 := p\<rparr>) }"

definition retype_o1 :: "valtype \<Rightarrow> dechandler" where
  "retype_o1 vt c = do { p \<leftarrow> opOverwriteType (o1 c) vt; Some (c\<lparr>o1 := p\<rparr>) }"

definition retype_o2 :: "valtype \<Rightarrow> dechandler" where
  "retype_o2 vt c = do { p \<leftarrow> opOverwriteType (o2 c) vt; Some (c\<lparr>o2 := p\<rparr>) }"

text \<open>Appending, with the new instruction stored in \<open>c->ii\<close> or not.\<close>

definition addS :: "instrtype \<Rightarrow> valtype \<Rightarrow> dechandler" where
  "addS it vt c = do { (_, c') \<leftarrow> addSimple it vt c; Some c' }"

definition addU :: "instrtype \<Rightarrow> operand \<Rightarrow> dechandler" where
  "addU it p c = do { (_, c') \<leftarrow> addUnaryOp it p c; Some c' }"

definition addB :: "instrtype \<Rightarrow> valtype \<Rightarrow> dechandler" where
  "addB it vt c = do { (_, c') \<leftarrow> addBinaryOp it vt (o1 c) (o2 c) c; Some c' }"

definition addS_ii :: "instrtype \<Rightarrow> valtype \<Rightarrow> dechandler" where
  "addS_ii it vt c = do { (i, c') \<leftarrow> addSimple it vt c; Some (c'\<lparr>d_ii := i\<rparr>) }"

definition addU_ii :: "instrtype \<Rightarrow> operand \<Rightarrow> dechandler" where
  "addU_ii it p c = do { (i, c') \<leftarrow> addUnaryOp it p c; Some (c'\<lparr>d_ii := i\<rparr>) }"

definition addB_ii :: "instrtype \<Rightarrow> valtype \<Rightarrow> dechandler" where
  "addB_ii it vt c = do {
     (i, c') \<leftarrow> addBinaryOp it vt (o1 c) (o2 c) c; Some (c'\<lparr>d_ii := i\<rparr>) }"

definition addT_ii :: "instrtype \<Rightarrow> valtype \<Rightarrow> dechandler" where
  "addT_ii it vt c = do {
     (i, c') \<leftarrow> addTernaryOp it vt (o1 c) (o2 c) (o3 c) c; Some (c'\<lparr>d_ii := i\<rparr>) }"

text \<open>\<open>attachPassthrough(c->ii, ...)\<close>: nothing happens for a null instruction.\<close>

definition attachII ::
  "vexprefix \<Rightarrow> prefixset \<Rightarrow> operandencoding \<Rightarrow> statechange \<Rightarrow> int \<Rightarrow> int \<Rightarrow> int \<Rightarrow> dechandler" where
  "attachII vp p enc sc b1 b2 b3 c =
     (case d_ii c of
        None \<Rightarrow> Some c
      | Some k \<Rightarrow> do {
          i \<leftarrow> attachPassthrough (decInstr (d_r c) ! k) vp p enc sc b1 b2 b3;
          Some (setDecInstr k i c) })"

text \<open>\<open>c->ii->vtype = vt\<close>: a null \<open>c->ii\<close> is dereferenced, the model aborts.\<close>

definition setIIvtype :: "valtype \<Rightarrow> dechandler" where
  "setIIvtype vt c =
     (case d_ii c of
        None \<Rightarrow> None
      | Some k \<Rightarrow> Some (setDecInstr k ((decInstr (d_r c) ! k)\<lparr>ivtype := vt\<rparr>) c))"

section \<open>Reporting unsupported opcodes\<close>

text \<open>The text that \<open>markDecodeError\<close> prints into its buffer.\<close>

definition decodeErrorText :: "dctx \<Rightarrow> bool \<Rightarrow> errortype \<Rightarrow> string option" where
  "decodeErrorText c showDigit e = do {
     s \<leftarrow> (if e = ET_BadOpcode then Some ''unsupported opcode''
          else if e = ET_BadPrefix then Some ''unsupported prefix for opcode''
          else if e = ET_BadOperands then Some ''unsupported operand size for opcode''
          else None);
     Some (s
       @ (if d_vex c = VEX_128 then '' Vex128'' else [])
       @ (if d_vex c = VEX_256 then '' Vex256'' else [])
       @ (if ps c AND PS_66 \<noteq> 0 then '' 0x66'' else [])
       @ (if ps c AND PS_F2 \<noteq> 0 then '' 0xF2'' else [])
       @ (if ps c AND PS_F3 \<noteq> 0 then '' 0xF3'' else [])
       @ (if ps c AND PS_2E \<noteq> 0 then '' 0x2E'' else [])
       @ '' 0x'' @ hex2 (opc1 c)
       @ (if opc2 c \<ge> 0 then '' 0x'' @ hex2 (opc2 c) else [])
       @ (if showDigit then '' / '' @ nat_digits (digit c) else [])) }"

definition markDecodeError :: "bool \<Rightarrow> errortype \<Rightarrow> dechandler" where
  "markDecodeError showDigit e c = do {
     txt \<leftarrow> decodeErrorText c showDigit e;
     c \<leftarrow> addS IT_Invalid VT_None c;
     Some (c\<lparr>d_err := setDecodeError (d_err c) (Some txt) e (Some (d_dbb c)) (int (d_off c))\<rparr>) }"

section \<open>Operand processing handlers\<close>

definition parseRM :: dechandler where
  "parseRM c = modrm_o2_o1 (d_vt c) RTS_G_G c"

definition parseMR :: dechandler where
  "parseMR c = modrm_o1_o2 (d_vt c) RTS_G_G c"

text \<open>Vector handlers parse 32 and 64 bit operands as 128 bit ones.\<close>

definition vecVT :: "valtype \<Rightarrow> valtype" where
  "vecVT vt = (if vt = VT_32 \<or> vt = VT_64 then VT_128 else vt)"

definition parseRMVV :: dechandler where
  "parseRMVV c = do {
     let vt = vecVT (d_vt c);
     c \<leftarrow> modrm_o2_o1 vt (if vt = VT_128 then RTS_VX_VX else RTS_VY_VY) c;
     Some (c\<lparr>d_oe := OE_RM\<rparr>) }"

definition parseMRVV :: dechandler where
  "parseMRVV c = do {
     let vt = vecVT (d_vt c);
     c \<leftarrow> modrm_o1_o2 vt (if vt = VT_128 then RTS_VX_VX else RTS_VY_VY) c;
     Some (c\<lparr>d_oe := OE_MR\<rparr>) }"

definition parseRVM :: dechandler where
  "parseRVM c = do {
     let vt = vecVT (d_vt c);
     (rts, c) \<leftarrow>
       (if vt = VT_128 then do {
          c_assert (0 \<le> vex_vvvv c);
          r \<leftarrow> getReg RT_XMM (nat (vex_vvvv c));
          Some (RTS_VX_VX, c\<lparr>o2 := (o2 c)\<lparr>otype := OT_Reg128, oreg := r\<rparr>\<rparr>) }
        else if d_vt c = VT_256 then do {
          c_assert (0 \<le> vex_vvvv c);
          r \<leftarrow> getReg RT_YMM (nat (vex_vvvv c));
          Some (RTS_VY_VY, c\<lparr>o2 := (o2 c)\<lparr>otype := OT_Reg256, oreg := r\<rparr>\<rparr>) }
        else None);
     c \<leftarrow> modrm_o3_o1 vt rts c;
     Some (c\<lparr>d_oe := OE_RVM\<rparr>) }"

definition parseI2 :: dechandler where
  "parseI2 c = imm_o2 (d_vt c) False c"

definition parseI3 :: dechandler where
  "parseI3 c = imm_o3 (d_vt c) False c"

definition parseI3_8se :: dechandler where
  "parseI3_8se c = do {
     c \<leftarrow> imm_o3 VT_8 False c;
     let c = c\<lparr>o3 := (o3 c)\<lparr>oval := sext8 (oval (o3 c))\<rparr>\<rparr>;
     t \<leftarrow> getImmOpType (d_vt c);
     Some (c\<lparr>o3 := (o3 c)\<lparr>otype := t\<rparr>\<rparr>) }"

definition setO1RegA :: dechandler where
  "setO1RegA c = do {
     r \<leftarrow> getReg (getGPRegType (d_vt c)) RI_A;
     p \<leftarrow> setRegOp (o1 c) r;
     Some (c\<lparr>o1 := p\<rparr>) }"

definition parseMI :: dechandler where
  "parseMI c = do {
     c \<leftarrow> modrm_o1 (d_vt c) RTS_G c;
     imm_o2 (d_vt c) False c }"

definition parseMI_8se :: dechandler where
  "parseMI_8se c = do {
     c \<leftarrow> modrm_o1 (d_vt c) RTS_G c;
     c \<leftarrow> imm_o2 VT_8 False c;
     let v = oval (o2 c);
     v \<leftarrow> (if d_vt c = VT_64 then Some (sext8 v)
          else if d_vt c = VT_32 then Some (trunc32 (sext8 v))
          else if d_vt c = VT_16 then Some (trunc16 (sext8 v))
          else None);
     t \<leftarrow> getImmOpType (d_vt c);
     Some (c\<lparr>o2 := (o2 c)\<lparr>oval := v, otype := t\<rparr>\<rparr>) }"

section \<open>Appending handlers\<close>

definition addSInstr :: dechandler where
  "addSInstr c = addS_ii (d_it c) (d_vt c) c"

definition addBInstr :: dechandler where
  "addBInstr c = addB_ii (d_it c) (d_vt c) c"

definition addBInsImp :: dechandler where
  "addBInsImp c = addB_ii (d_it c) VT_Implicit c"

definition addTInstr :: dechandler where
  "addTInstr c = addT_ii (d_it c) (d_vt c) c"

definition addTInsImp :: dechandler where
  "addTInsImp c = addT_ii (d_it c) VT_Implicit c"

definition reqExit :: dechandler where
  "reqExit c = Some (c\<lparr>d_exit := True\<rparr>)"

definition attach :: dechandler where
  "attach c = attachII (d_vex c) (ps c) (d_oe c) SC_None (opc1 c) (opc2 c) (-1) c"

section \<open>Handlers for opcodes starting with 0x0F\<close>

text \<open>
  The common tail of the SSE handlers: append with implicit operand type, then attach the
  pass-through information for the opcode \<open>0F b2\<close>.
\<close>

definition addB_sse :: "instrtype \<Rightarrow> prefixset \<Rightarrow> operandencoding \<Rightarrow> statechange \<Rightarrow> int \<Rightarrow> dechandler" where
  "addB_sse it p enc sc b2 c = do {
     c \<leftarrow> addB_ii it VT_Implicit c;
     attachII VEX_No p enc sc 0x0F b2 (-1) c }"

definition decode0F_12 :: dechandler where
  "decode0F_12 c =
     (if ps c = PS_66 \<or> ps c = PS_No then do {
        let c = c\<lparr>d_it := (if ps c = PS_66 then IT_MOVLPD else IT_MOVLPS)\<rparr>;
        c \<leftarrow> modrm_o2_o1 VT_64 RTS_VX_VX c;
        addB_sse (d_it c) (ps c) OE_RM SC_None 0x12 c }
      else markDecodeError False ET_BadPrefix c)"

definition decode0F_13 :: dechandler where
  "decode0F_13 c =
     (if ps c = PS_66 \<or> ps c = PS_No then do {
        let c = c\<lparr>d_it := (if ps c = PS_66 then IT_MOVLPD else IT_MOVLPS)\<rparr>;
        c \<leftarrow> modrm_o1_o2 VT_64 RTS_VX_VX c;
        addB_sse (d_it c) (ps c) OE_MR SC_None 0x13 c }
      else markDecodeError False ET_BadPrefix c)"

definition decode0F_14 :: dechandler where
  "decode0F_14 c =
     (if ps c = PS_66 \<or> ps c = PS_No then do {
        let c = c\<lparr>d_it := (if ps c = PS_66 then IT_UNPCKLPD else IT_UNPCKLPS)\<rparr>;
        c \<leftarrow> modrm_o2_o1 VT_128 RTS_VX_VX c;
        addB_sse (d_it c) (ps c) OE_RM SC_None 0x14 c }
      else markDecodeError False ET_BadPrefix c)"

definition decode0F_15 :: dechandler where
  "decode0F_15 c =
     (if ps c = PS_66 \<or> ps c = PS_No then do {
        let c = c\<lparr>d_it := (if ps c = PS_66 then IT_UNPCKHPD else IT_UNPCKHPS)\<rparr>;
        c \<leftarrow> modrm_o2_o1 VT_128 RTS_VX_VX c;
        addB_sse (d_it c) (ps c) OE_RM SC_None 0x15 c }
      else markDecodeError False ET_BadPrefix c)"

definition decode0F_16 :: dechandler where
  "decode0F_16 c =
     (if ps c = PS_66 \<or> ps c = PS_No then do {
        let c = c\<lparr>d_it := (if ps c = PS_66 then IT_MOVHPD else IT_MOVHPS)\<rparr>;
        c \<leftarrow> modrm_o2_o1 VT_128 RTS_VX_VX c;
        addB_sse (d_it c) (ps c) OE_RM SC_None 0x16 c }
      else markDecodeError False ET_BadPrefix c)"

definition decode0F_17 :: dechandler where
  "decode0F_17 c =
     (if ps c = PS_66 \<or> ps c = PS_No then do {
        let c = c\<lparr>d_it := (if ps c = PS_66 then IT_MOVHPD else IT_MOVHPS)\<rparr>;
        c \<leftarrow> modrm_o1_o2 VT_128 RTS_VX_VX c;
        addB_sse (d_it c) (ps c) OE_MR SC_None 0x17 c }
      else markDecodeError False ET_BadPrefix c)"

definition decode0F_1F :: dechandler where
  "decode0F_1F c = do {
     c \<leftarrow> modrm_o1_digit (d_vt c) RTS_G c;
     (if digit c = 0 then
        (if d_vt c = VT_16 \<or> d_vt c = VT_32 then addU IT_NOP (o1 c) c
         else markDecodeError True ET_BadOperands c)
      else markDecodeError True ET_BadOpcode c) }"

definition decode0F_28 :: dechandler where
  "decode0F_28 c =
     (if ps c = PS_No \<or> ps c = PS_66 then do {
        let c = c\<lparr>d_vt := VT_128, d_it := (if ps c = PS_No then IT_MOVAPS else IT_MOVAPD)\<rparr>;
        c \<leftarrow> modrm_o2_o1 (d_vt c) RTS_VX_VX c;
        addB_sse (d_it c) (ps c) OE_RM SC_None 0x28 c }
      else markDecodeError False ET_BadPrefix c)"

definition decode0F_29 :: dechandler where
  "decode0F_29 c =
     (if ps c = PS_No \<or> ps c = PS_66 then do {
        let c = c\<lparr>d_vt := VT_128, d_it := (if ps c = PS_No then IT_MOVAPS else IT_MOVAPD)\<rparr>;
        c \<leftarrow> modrm_o1_o2 (d_vt c) RTS_VX_VX c;
        addB_sse (d_it c) (ps c) OE_MR SC_None 0x29 c }
      else markDecodeError False ET_BadPrefix c)"

definition decode0F_2E :: dechandler where
  "decode0F_2E c = do {
     c_assert (ps c AND PS_66 \<noteq> 0);
     c \<leftarrow> modrm_o2_o1 VT_64 RTS_VX_VX c;
     addB_sse IT_UCOMISD PS_66 OE_RM SC_None 0x2E c }"

text \<open>The switch on the second opcode byte: \<open>0x40 + k\<close> is the conditional move \<open>k\<close>.\<close>

definition cond_list :: "cond list" where
  "cond_list = [CC_O, CC_NO, CC_C, CC_NC, CC_Z, CC_NZ, CC_BE, CC_A, CC_S, CC_NS, CC_P, CC_NP,
     CC_L, CC_GE, CC_LE, CC_G]"

definition opcCond :: "int \<Rightarrow> int \<Rightarrow> cond option" where
  "opcCond base opc = (if base \<le> opc \<and> opc < base + 16 then Some (cond_list ! nat (opc - base)) else None)"

definition decode0F_40 :: dechandler where
  "decode0F_40 c = do {
     k \<leftarrow> opcCond 0x40 (opc2 c);
     let c = c\<lparr>d_it := IT_CMOV k\<rparr>;
     c \<leftarrow> modrm_o2_o1 (d_vt c) RTS_G_G c;
     addB (d_it c) (d_vt c) c }"

definition decode0F_6E_P66 :: dechandler where
  "decode0F_6E_P66 c = do {
     let w = rexbit c REX_MASK_W;
     let c = c\<lparr>d_vt := (if w then VT_64 else VT_32), d_it := (if w then IT_MOVQ else IT_MOVD)\<rparr>;
     c \<leftarrow> modrm_o2_o1 (d_vt c) RTS_G_VX c;
     c \<leftarrow> addB_ii (d_it c) VT_Implicit c;
     let c = (if w then c\<lparr>ps := ps c OR PS_REXW\<rparr> else c);
     attachII VEX_No (ps c) OE_RM SC_dstDyn 0x0F 0x6E (-1) c }"

definition decode0F_74 :: dechandler where
  "decode0F_74 c =
     (if ps c = PS_66 \<or> ps c = PS_No then do {
        let c = c\<lparr>d_vt := (if ps c = PS_66 then VT_128 else VT_64)\<rparr>;
        c \<leftarrow> modrm_o2_o1 (d_vt c) RTS_VX_VX c;
        addB_sse IT_PCMPEQB (ps c) OE_RM SC_None 0x74 c }
      else markDecodeError False ET_BadPrefix c)"

definition decode0F_7E :: dechandler where
  "decode0F_7E c =
     (let w = rexbit c REX_MASK_W in
      if ps c = PS_66 \<or> ps c = PS_F3 then do {
        c \<leftarrow> (if ps c = PS_66 then
                modrm_o1_o2 (if w then VT_64 else VT_32) RTS_G_VX
                  (c\<lparr>d_oe := OE_MR, d_vt := (if w then VT_64 else VT_32),
                     d_it := (if w then IT_MOVQ else IT_MOVD)\<rparr>)
              else
                modrm_o2_o1 VT_64 RTS_VX_VX (c\<lparr>d_oe := OE_RM, d_vt := VT_64, d_it := IT_MOVQ\<rparr>));
        c \<leftarrow> addB_ii (d_it c) VT_Implicit c;
        let c = (if w then c\<lparr>ps := ps c OR PS_REXW\<rparr> else c);
        attachII VEX_No (ps c) (d_oe c) SC_dstDyn 0x0F 0x7E (-1) c }
      else markDecodeError False ET_BadPrefix c)"

definition decode0F_7F :: dechandler where
  "decode0F_7F c =
     (if ps c = PS_F3 \<or> ps c = PS_66 then do {
        let c = c\<lparr>d_vt := VT_128, d_it := (if ps c = PS_F3 then IT_MOVDQU else IT_MOVDQA)\<rparr>;
        c \<leftarrow> modrm_o1_o2 (d_vt c) RTS_VX_VX c;
        addB_sse (d_it c) (ps c) OE_MR SC_None 0x7F c }
      else markDecodeError False ET_BadPrefix c)"

text \<open>Relative jump targets: displacement of one or four bytes from the next instruction.\<close>

definition rel32_o1 :: "dctx \<Rightarrow> dctx" where
  "rel32_o1 c = skip_bytes 4
     (c\<lparr>o1 := (o1 c)\<lparr>otype := OT_Imm64, oval := d_ptr c + 4 + sext32 (rd32 (d_mem c) (d_ptr c))\<rparr>\<rparr>)"

definition rel8_o1 :: "dctx \<Rightarrow> dctx" where
  "rel8_o1 c = skip_bytes 1
     (c\<lparr>o1 := (o1 c)\<lparr>otype := OT_Imm64, oval := d_ptr c + 1 + sext8 (rd8 (d_mem c) (d_ptr c))\<rparr>\<rparr>)"

definition decode0F_80 :: dechandler where
  "decode0F_80 c = do {
     let c = rel32_o1 c;
     _ \<leftarrow> opcCond 0x80 (opc2 c);
     let c = c\<lparr>d_it := jcc_list ! nat (opc2 c mod 16)\<rparr>;
     c \<leftarrow> addU_ii (d_it c) (o1 c) c;
     c \<leftarrow> setIIvtype VT_Implicit c;
     Some (c\<lparr>d_exit := True\<rparr>) }"

definition decode0F_B6 :: dechandler where
  "decode0F_B6 c = do {
     c \<leftarrow> modrm_o2_o1 (d_vt c) RTS_G_G c;
     c \<leftarrow> retype_o2 VT_8 c;
     addB IT_MOVZX (d_vt c) c }"

definition decode0F_B7 :: dechandler where
  "decode0F_B7 c = do {
     c_assert (d_vt c = VT_32 \<or> d_vt c = VT_64);
     c \<leftarrow> modrm_o2_o1 (d_vt c) RTS_G_G c;
     c \<leftarrow> retype_o2 VT_16 c;
     addB IT_MOVZX (d_vt c) c }"

definition decode0F_BE :: dechandler where
  "decode0F_BE c = do {
     c \<leftarrow> modrm_o2_o1 (d_vt c) RTS_G_G c;
     c \<leftarrow> retype_o2 VT_8 c;
     addB IT_MOVSX (d_vt c) c }"

definition decode0F_BF :: dechandler where
  "decode0F_BF c = do {
     c_assert (d_vt c = VT_32 \<or> d_vt c = VT_64);
     c \<leftarrow> modrm_o2_o1 (d_vt c) RTS_G_G c;
     c \<leftarrow> retype_o2 VT_16 c;
     addB IT_MOVSX (d_vt c) c }"

definition mmx_or_xmm :: "dctx \<Rightarrow> valtype" where
  "mmx_or_xmm c = (if ps c AND PS_66 \<noteq> 0 then VT_128 else VT_64)"

definition decode0F_D4 :: dechandler where
  "decode0F_D4 c = do {
     let c = c\<lparr>d_vt := mmx_or_xmm c\<rparr>;
     c \<leftarrow> modrm_o2_o1 (d_vt c) RTS_VX_VX c;
     addB_sse IT_PADDQ (ps c) OE_RM SC_None 0xD4 c }"

definition decode0F_D6 :: dechandler where
  "decode0F_D6 c = do {
     c_assert (ps c = PS_66);
     c \<leftarrow> modrm_o1_o2 VT_64 RTS_VX_VX c;
     addB_sse IT_MOVQ (ps c) OE_MR SC_None 0xD6 c }"

definition decode0F_D7 :: dechandler where
  "decode0F_D7 c = do {
     let c = c\<lparr>d_vt := mmx_or_xmm c\<rparr>;
     c \<leftarrow> modrm_o2_o1 (d_vt c) RTS_VX_G c;
     c \<leftarrow> retype_o1 VT_32 c;
     c \<leftarrow> addB_ii IT_PMOVMSKB VT_32 c;
     attachII VEX_No (ps c AND PS_66) OE_RM SC_dstDyn 0x0F 0xD7 (-1) c }"

definition decode0F_DA :: dechandler where
  "decode0F_DA c = do {
     let c = c\<lparr>d_vt := mmx_or_xmm c\<rparr>;
     c \<leftarrow> modrm_o2_o1 (d_vt c) RTS_VX_VX c;
     addB_sse IT_PMINUB (ps c AND PS_66) OE_RM SC_None 0xDA c }"

definition decode0F_EF :: dechandler where
  "decode0F_EF c = do {
     let rts = (if ps c AND PS_66 \<noteq> 0 then RTS_VX_VX else RTS_VM_VM);
     let c = c\<lparr>d_vt := mmx_or_xmm c\<rparr>;
     c \<leftarrow> modrm_o2_o1 (d_vt c) rts c;
     addB_sse IT_PXOR (ps c AND PS_66) OE_RM SC_None 0xEF c }"

section \<open>Handlers for single-byte opcodes\<close>

text \<open>The register encoded in the low bits of an opcode starting at \<open>base\<close>, with REX.B.\<close>

definition opcReg :: "regtype \<Rightarrow> int \<Rightarrow> dctx \<Rightarrow> reg option" where
  "opcReg t base c = do {
     let k = opc1 c - base + (if rexbit c REX_MASK_B then 8 else 0);
     c_assert (0 \<le> k);
     getReg t (nat k) }"

definition decode_50 :: dechandler where
  "decode_50 c = do {
     let c = c\<lparr>d_vt := (if ps c AND PS_66 \<noteq> 0 then VT_16 else VT_64)\<rparr>;
     r \<leftarrow> opcReg (getGPRegType (d_vt c)) 0x50 c;
     p \<leftarrow> getRegOp r;
     addU IT_PUSH p c }"

definition decode_58 :: dechandler where
  "decode_58 c = do {
     let c = c\<lparr>d_vt := (if ps c AND PS_66 \<noteq> 0 then VT_16 else VT_64)\<rparr>;
     r \<leftarrow> opcReg (getGPRegType (d_vt c)) 0x58 c;
     p \<leftarrow> getRegOp r;
     addU IT_POP p c }"

definition decode_63 :: dechandler where
  "decode_63 c = do {
     c_assert (rexbit c REX_MASK_W);
     c \<leftarrow> modrm_o2_o1 VT_None RTS_G_G c;
     c \<leftarrow> retype_o2 VT_32 c;
     addB IT_MOVSX VT_None c }"

text \<open>
  \<open>addPushImm\<close> writes the value type through the returned pointer, which is null when the
  decode buffer is full.
\<close>

definition addPushImm :: "valtype \<Rightarrow> dechandler" where
  "addPushImm imm_vt c = do {
     c \<leftarrow> imm_o1 imm_vt False c;
     (i, c) \<leftarrow> addUnaryOp IT_PUSH (o1 c) c;
     k \<leftarrow> i;
     Some (setDecInstr k ((decInstr (d_r c) ! k)\<lparr>ivtype := d_vt c\<rparr>) c) }"

definition decode_68 :: dechandler where
  "decode_68 c =
     (if d_vt c = VT_32 then addPushImm VT_32 (c\<lparr>d_vt := VT_64\<rparr>)
      else if d_vt c = VT_16 then addPushImm VT_16 c
      else None)"

definition decode_6A :: dechandler where
  "decode_6A c =
     (if d_vt c = VT_32 then addPushImm VT_8 (c\<lparr>d_vt := VT_64\<rparr>)
      else if d_vt c = VT_16 then addPushImm VT_8 c
      else None)"

definition decode_70 :: dechandler where
  "decode_70 c = do {
     let c = rel8_o1 c;
     k \<leftarrow> opcCond 0x70 (opc1 c);
     let c = c\<lparr>d_it := IT_J k\<rparr>;
     c \<leftarrow> addU_ii (d_it c) (o1 c) c;
     c \<leftarrow> setIIvtype VT_Implicit c;
     Some (c\<lparr>d_exit := True\<rparr>) }"

definition decode_8D :: dechandler where
  "decode_8D c = do {
     c \<leftarrow> modrm_o2_o1 (d_vt c) RTS_G_G c;
     c_assert (opIsInd (o2 c));
     addB IT_LEA (d_vt c) c }"

text \<open>\<open>pop\<close> and \<open>push\<close> of a memory operand: 64 bit where others have 32 bit.\<close>

definition stackOp_o1 :: dechandler where
  "stackOp_o1 c =
     (if d_vt c = VT_32 then retype_o1 VT_64 c
      else do { c_assert (d_vt c = VT_16); Some c })"

definition decode_8F_0 :: dechandler where
  "decode_8F_0 c = do {
     c \<leftarrow> modrm_o1 (d_vt c) RTS_G c;
     c \<leftarrow> stackOp_o1 c;
     addU IT_POP (o1 c) c }"

definition decode_98 :: dechandler where
  "decode_98 c =
     (if rexbit c REX_MASK_W then addS IT_CLTQ VT_None c else addS IT_CWTL VT_None c)"

definition decode_99 :: dechandler where
  "decode_99 c =
     (let c = c\<lparr>d_vt := (if rexbit c REX_MASK_W then VT_128 else VT_64)\<rparr>
      in addS IT_CQTO (d_vt c) c)"

definition decode_9C :: dechandler where
  "decode_9C c =
     (if ps c AND PS_66 \<noteq> 0 then addS IT_PUSHF VT_Implicit c else addS IT_PUSHFQ VT_Implicit c)"

definition decode_9D :: dechandler where
  "decode_9D c =
     (if ps c AND PS_66 \<noteq> 0 then addS IT_POPF VT_Implicit c else addS IT_POPFQ VT_Implicit c)"

definition decode_B0 :: dechandler where
  "decode_B0 c = do {
     let c = (if 0xB0 \<le> opc1 c \<and> opc1 c \<le> 0xB7 then c\<lparr>d_vt := VT_8\<rparr> else c);
     let t = (if hasRex c then getGPRegType (d_vt c) else getLegGPRegType (d_vt c));
     r \<leftarrow> getReg t (nat (opc1 c mod 8) + (if rexbit c REX_MASK_B then 8 else 0));
     ot \<leftarrow> getGPRegOpType (d_vt c);
     let c = c\<lparr>o1 := (o1 c)\<lparr>oreg := r, otype := ot\<rparr>\<rparr>;
     c \<leftarrow> imm_o2 (d_vt c) True c;
     addB IT_MOV (d_vt c) c }"

text \<open>The shift groups: digits 4, 5 and 7 are supported.\<close>

definition shiftType :: "nat \<Rightarrow> instrtype option" where
  "shiftType d = (if d = 4 then Some IT_SHL else if d = 5 then Some IT_SHR
     else if d = 7 then Some IT_SAR else None)"

definition addShiftB :: dechandler where
  "addShiftB c = (case shiftType (digit c) of Some it \<Rightarrow> addB it (d_vt c) c
     | None \<Rightarrow> markDecodeError True ET_BadOpcode c)"

definition addShiftU :: dechandler where
  "addShiftU c = (case shiftType (digit c) of Some it \<Rightarrow> addU it (o1 c) c
     | None \<Rightarrow> markDecodeError True ET_BadOpcode c)"

definition decode_C0 :: dechandler where
  "decode_C0 c = do {
     let c = c\<lparr>d_vt := VT_8\<rparr>;
     c \<leftarrow> modrm_o1_digit (d_vt c) RTS_G c;
     c \<leftarrow> imm_o2 VT_8 False c;
     addShiftB c }"

definition decode_C1 :: dechandler where
  "decode_C1 c = do {
     c \<leftarrow> modrm_o1_digit (d_vt c) RTS_G c;
     c \<leftarrow> imm_o2 VT_8 False c;
     addShiftB c }"

definition decode_C6 :: dechandler where
  "decode_C6 c = do {
     let c = c\<lparr>d_vt := VT_8\<rparr>;
     c \<leftarrow> modrm_o1_digit (d_vt c) RTS_G c;
     (if digit c = 0 then do { c \<leftarrow> imm_o2 (d_vt c) False c; addB IT_MOV (d_vt c) c }
      else markDecodeError True ET_BadOpcode c) }"

definition decode_C7 :: dechandler where
  "decode_C7 c = do {
     c \<leftarrow> modrm_o1_digit (d_vt c) RTS_G c;
     (if digit c = 0 then do { c \<leftarrow> imm_o2 (d_vt c) False c; addB IT_MOV (d_vt c) c }
      else markDecodeError True ET_BadOpcode c) }"

definition decode_D0 :: dechandler where
  "decode_D0 c = do {
     let c = c\<lparr>d_vt := VT_8\<rparr>;
     c \<leftarrow> modrm_o1_digit (d_vt c) RTS_G c;
     addShiftU c }"

definition decode_D1 :: dechandler where
  "decode_D1 c = do {
     c \<leftarrow> modrm_o1_digit (d_vt c) RTS_G c;
     addShiftU c }"

definition set_o2_cl :: dechandler where
  "set_o2_cl c = do {
     r \<leftarrow> getReg RT_GP8 RI_C;
     p \<leftarrow> setRegOp (o2 c) r;
     Some (c\<lparr>o2 := p\<rparr>) }"

definition decode_D2 :: dechandler where
  "decode_D2 c = do {
     let c = c\<lparr>d_vt := VT_8\<rparr>;
     c \<leftarrow> modrm_o1_digit (d_vt c) RTS_G c;
     c \<leftarrow> set_o2_cl c;
     addShiftB c }"

definition decode_D3 :: dechandler where
  "decode_D3 c = do {
     c \<leftarrow> modrm_o1_digit (d_vt c) RTS_G c;
     c \<leftarrow> set_o2_cl c;
     addShiftB c }"

definition decode_E8 :: dechandler where
  "decode_E8 c = do {
     let c = rel32_o1 c;
     c \<leftarrow> addU IT_CALL (o1 c) c;
     Some (c\<lparr>d_exit := True\<rparr>) }"

definition decode_E9 :: dechandler where
  "decode_E9 c = do {
     let c = rel32_o1 c;
     c \<leftarrow> addU IT_JMP (o1 c) c;
     Some (c\<lparr>d_exit := True\<rparr>) }"

definition decode_EB :: dechandler where
  "decode_EB c = do {
     let c = rel8_o1 c;
     c \<leftarrow> addU IT_JMP (o1 c) c;
     Some (c\<lparr>d_exit := True\<rparr>) }"

text \<open>The switch of the groups \<open>F6\<close> and \<open>F7\<close>, which they share.\<close>

definition group3 :: dechandler where
  "group3 c =
     (if digit c = 0 then do { c \<leftarrow> imm_o2 (d_vt c) False c; addB IT_TEST (d_vt c) c }
      else if digit c = 2 then addU IT_NOT (o1 c) c
      else if digit c = 3 then addU IT_NEG (o1 c) c
      else if digit c = 4 then addU IT_MUL (o1 c) c
      else if digit c = 5 then addU IT_IMUL (o1 c) c
      else if digit c = 6 then addU IT_DIV (o1 c) c
      else if digit c = 7 then addU IT_IDIV1 (o1 c) c
      else markDecodeError True ET_BadOpcode c)"

definition decode_F6 :: dechandler where
  "decode_F6 c = do {
     let c = c\<lparr>d_vt := VT_8\<rparr>;
     c \<leftarrow> modrm_o1_digit (d_vt c) RTS_G c;
     group3 c }"

definition decode_F7 :: dechandler where
  "decode_F7 c = do {
     c \<leftarrow> modrm_o1_digit (d_vt c) RTS_G_G c;
     group3 c }"

definition decode_FE :: dechandler where
  "decode_FE c = do {
     c \<leftarrow> modrm_o1_digit VT_8 RTS_G c;
     (if digit c = 0 then addU IT_INC (o1 c) c
      else if digit c = 1 then addU IT_DEC (o1 c) c
      else markDecodeError True ET_BadOpcode c) }"

definition decode_FF :: dechandler where
  "decode_FF c = do {
     c \<leftarrow> modrm_o1_digit (d_vt c) RTS_G c;
     (if digit c = 0 then addU IT_INC (o1 c) c
      else if digit c = 1 then addU IT_DEC (o1 c) c
      else if digit c = 2 then do {
        c \<leftarrow> retype_o1 VT_64 c;
        c \<leftarrow> addU IT_CALL (o1 c) c;
        Some (c\<lparr>d_exit := True\<rparr>) }
      else if digit c = 4 then do {
        c \<leftarrow> retype_o1 VT_64 c;
        c \<leftarrow> addU IT_JMPI (o1 c) c;
        Some (c\<lparr>d_exit := True\<rparr>) }
      else if digit c = 6 then do {
        c \<leftarrow> stackOp_o1 c;
        addU IT_PUSH (o1 c) c }
      else markDecodeError True ET_BadOpcode c) }"

end
