(* ===== verification/DecodeTables.thy ===== *)
theory DecodeTables
  imports OpcodeTable DecodeHandlers
begin

text \<open>
  The contents of the opcode tables: \<open>initDecodeTables\<close> of \<open>src/decode.c\<close> with its
  registration helpers \<open>setOpc\<close>, \<open>setOpcPV\<close>, \<open>setOpcG\<close> and their variants. A helper yields
  the list of entries that it writes; the program's registrations are run in their order
  on empty tables.

  Shown here: the registrations run through without a failing assertion, every lookup in
  the resulting tables is a lookup in the list of registrations.
\<close>

section \<open>Registration helpers\<close>

type_synonym registration = "(vexprefix \<times> nat \<times> opctype \<times> nat) \<times> dechandler opcspec"

definition setOpc ::
  "nat \<Rightarrow> instrtype \<Rightarrow> valtype \<Rightarrow> dechandler \<Rightarrow> dechandler option \<Rightarrow> dechandler option
     \<Rightarrow> registration list" where
  "setOpc opc it vt h1 h2 h3 = [((VEX_No, opc, OT_Single, 0), (it, vt, h1, h2, h3))]"

text \<open>The offset for a prefix. Other prefixes get an offset that the assertion of
  \<open>getOpcEntry\<close> refuses, as the assertion in the code does.\<close>

definition psOffset :: "prefixset \<Rightarrow> nat" where
  "psOffset p = (if p = PS_No then 0 else if p = PS_66 then 1 else if p = PS_F3 then 2
     else if p = PS_F2 then 3 else 4)"

text \<open>For \<open>VEX_LIG\<close> the code installs the entry twice, both times in the table for
  128 bit.\<close>

definition setOpcPV ::
  "vexprefix \<Rightarrow> nat \<Rightarrow> prefixset \<Rightarrow> instrtype \<Rightarrow> valtype \<Rightarrow> dechandler \<Rightarrow> dechandler option
     \<Rightarrow> dechandler option \<Rightarrow> registration list" where
  "setOpcPV vp opc p it vt h1 h2 h3 =
     (let off = psOffset p; sp = (it, vt, h1, h2, h3) in
      if vp = VEX_LIG then [((VEX_128, opc, OT_Four, off), sp), ((VEX_128, opc, OT_Four, off), sp)]
      else [((vp, opc, OT_Four, off), sp)])"

definition setOpcP ::
  "nat \<Rightarrow> prefixset \<Rightarrow> instrtype \<Rightarrow> valtype \<Rightarrow> dechandler \<Rightarrow> dechandler option
     \<Rightarrow> dechandler option \<Rightarrow> registration list" where
  "setOpcP opc p it vt h1 h2 h3 = setOpcPV VEX_No opc p it vt h1 h2 h3"

definition setOpcPH :: "nat \<Rightarrow> prefixset \<Rightarrow> dechandler \<Rightarrow> registration list" where
  "setOpcPH opc p h = setOpcP opc p IT_None VT_Def h None None"

definition setOpcH :: "nat \<Rightarrow> dechandler \<Rightarrow> registration list" where
  "setOpcH opc h = setOpc opc IT_None VT_Def h None None"

definition setOpcGV ::
  "vexprefix \<Rightarrow> nat \<Rightarrow> nat \<Rightarrow> instrtype \<Rightarrow> valtype \<Rightarrow> dechandler \<Rightarrow> dechandler option
     \<Rightarrow> dechandler option \<Rightarrow> registration list" where
  "setOpcGV vp opc dg it vt h1 h2 h3 = [((vp, opc, OT_Group, dg), (it, vt, h1, h2, h3))]"

definition setOpcG ::
  "nat \<Rightarrow> nat \<Rightarrow> instrtype \<Rightarrow> valtype \<Rightarrow> dechandler \<Rightarrow> dechandler option
     \<Rightarrow> dechandler option \<Rightarrow> registration list" where
  "setOpcG opc dg it vt h1 h2 h3 = setOpcGV VEX_No opc dg it vt h1 h2 h3"

definition setOpcGH :: "nat \<Rightarrow> nat \<Rightarrow> dechandler \<Rightarrow> registration list" where
  "setOpcGH opc dg h = setOpcG opc dg IT_None VT_Def h None None"

lemmas register_defs = setOpc_def setOpcH_def setOpcP_def setOpcPV_def setOpcPH_def setOpcG_def
  setOpcGV_def setOpcGH_def psOffset_def

section \<open>The registrations\<close>

definition registerAlu :: "registration list" where
  "registerAlu = concat [
     setOpc 0x00 IT_ADD VT_8 parseMR (Some addBInstr) None,
     setOpc 0x01 IT_ADD VT_Def parseMR (Some addBInstr) None,
     setOpc 0x02 IT_ADD VT_8 parseRM (Some addBInstr) None,
     setOpc 0x03 IT_ADD VT_Def parseRM (Some addBInstr) None,
     setOpc 0x04 IT_ADD VT_8 setO1RegA (Some parseI2) (Some addBInstr),
     setOpc 0x05 IT_ADD VT_Def setO1RegA (Some parseI2) (Some addBInstr),
     setOpc 0x08 IT_OR VT_8 parseMR (Some addBInstr) None,
     setOpc 0x09 IT_OR VT_Def parseMR (Some addBInstr) None,
     setOpc 0x0A IT_OR VT_8 parseRM (Some addBInstr) None,
     setOpc 0x0B IT_OR VT_Def parseRM (Some addBInstr) None,
     setOpc 0x0C IT_OR VT_8 setO1RegA (Some parseI2) (Some addBInstr),
     setOpc 0x0D IT_OR VT_Def setO1RegA (Some parseI2) (Some addBInstr),
     setOpc 0x10 IT_ADC VT_8 parseMR (Some addBInstr) None,
     setOpc 0x11 IT_ADC VT_Def parseMR (Some addBInstr) None,
     setOpc 0x12 IT_ADC VT_8 parseRM (Some addBInstr) None,
     setOpc 0x13 IT_ADC VT_Def parseRM (Some addBInstr) None,
     setOpc 0x14 IT_ADC VT_8 setO1RegA (Some parseI2) (Some addBInstr),
     setOpc 0x15 IT_ADC VT_Def setO1RegA (Some parseI2) (Some addBInstr),
     setOpc 0x18 IT_SBB VT_8 parseMR (Some addBInstr) None,
     setOpc 0x19 IT_SBB VT_Def parseMR (Some addBInstr) None,
     setOpc 0x1A IT_SBB VT_8 parseRM (Some addBInstr) None,
     setOpc 0x1B IT_SBB VT_Def parseRM (Some addBInstr) None,
     setOpc 0x1C IT_SBB VT_8 setO1RegA (Some parseI2) (Some addBInstr),
     setOpc 0x1D IT_SBB VT_Def setO1RegA (Some parseI2) (Some addBInstr),
     setOpc 0x20 IT_AND VT_8 parseMR (Some addBInstr) None,
     setOpc 0x21 IT_AND VT_Def parseMR (Some addBInstr) None,
     setOpc 0x22 IT_AND VT_8 parseRM (Some addBInstr) None,
     setOpc 0x23 IT_AND VT_Def parseRM (Some addBInstr) None,
     setOpc 0x24 IT_AND VT_8 setO1RegA (Some parseI2) (Some addBInstr),
     setOpc 0x25 IT_AND VT_Def setO1RegA (Some parseI2) (Some addBInstr),
     setOpc 0x28 IT_SUB VT_8 parseMR (Some addBInstr) None,
     setOpc 0x29 IT_SUB VT_Def parseMR (Some addBInstr) None,
     setOpc 0x2A IT_SUB VT_8 parseRM (Some addBInstr) None,
     setOpc 0x2B IT_SUB VT_Def parseRM (Some addBInstr) None,
     setOpc 0x2C IT_SUB VT_8 setO1RegA (Some parseI2) (Some addBInstr),
     setOpc 0x2D IT_SUB VT_Def setO1RegA (Some parseI2) (Some addBInstr),
     setOpc 0x30 IT_XOR VT_8 parseMR (Some addBInstr) None,
     setOpc 0x31 IT_XOR VT_Def parseMR (Some addBInstr) None,
     setOpc 0x32 IT_XOR VT_8 parseRM (Some addBInstr) None,
     setOpc 0x33 IT_XOR VT_Def parseRM (Some addBInstr) None,
     setOpc 0x34 IT_XOR VT_8 setO1RegA (Some parseI2) (Some addBInstr),
     setOpc 0x35 IT_XOR VT_Def setO1RegA (Some parseI2) (Some addBInstr),
     setOpc 0x38 IT_CMP VT_8 parseMR (Some addBInstr) None,
     setOpc 0x39 IT_CMP VT_Def parseMR (Some addBInstr) None,
     setOpc 0x3A IT_CMP VT_8 parseRM (Some addBInstr) None,
     setOpc 0x3B IT_CMP VT_Def parseRM (Some addBInstr) None,
     setOpc 0x3C IT_CMP VT_8 setO1RegA (Some parseI2) (Some addBInstr),
     setOpc 0x3D IT_CMP VT_Def setO1RegA (Some parseI2) (Some addBInstr)]"

definition registerStackJcc :: "registration list" where
  "registerStackJcc = concat [
     setOpcH 0x50 decode_50,
     setOpcH 0x51 decode_50,
     setOpcH 0x52 decode_50,
     setOpcH 0x53 decode_50,
     setOpcH 0x54 decode_50,
     setOpcH 0x55 decode_50,
     setOpcH 0x56 decode_50,
     setOpcH 0x57 decode_50,
     setOpcH 0x58 decode_58,
     setOpcH 0x59 decode_58,
     setOpcH 0x5A decode_58,
     setOpcH 0x5B decode_58,
     setOpcH 0x5C decode_58,
     setOpcH 0x5D decode_58,
     setOpcH 0x5E decode_58,
     setOpcH 0x5F decode_58,
     setOpcH 0x63 decode_63,
     setOpcH 0x68 decode_68,
     setOpcH 0x6A decode_6A,
     setOpc 0x69 IT_IMUL VT_Def parseRM (Some parseI3) (Some addTInstr),
     setOpc 0x6B IT_IMUL VT_Def parseRM (Some parseI3_8se) (Some addTInstr),
     setOpcH 0x70 decode_70,
     setOpcH 0x71 decode_70,
     setOpcH 0x72 decode_70,
     setOpcH 0x73 decode_70,
     setOpcH 0x74 decode_70,
     setOpcH 0x75 decode_70,
     setOpcH 0x76 decode_70,
     setOpcH 0x77 decode_70,
     setOpcH 0x78 decode_70,
     setOpcH 0x79 decode_70,
     setOpcH 0x7A decode_70,
     setOpcH 0x7B decode_70,
     setOpcH 0x7C decode_70,
     setOpcH 0x7D decode_70,
     setOpcH 0x7E decode_70,
     setOpcH 0x7F decode_70]"

definition registerMov :: "registration list" where
  "registerMov = concat [
     setOpcG 0x80 0 IT_ADD VT_8 parseMI (Some addBInstr) None,
     setOpcG 0x80 1 IT_OR VT_8 parseMI (Some addBInstr) None,
     setOpcG 0x80 2 IT_ADC VT_8 parseMI (Some addBInstr) None,
     setOpcG 0x80 3 IT_SBB VT_8 parseMI (Some addBInstr) None,
     setOpcG 0x80 4 IT_AND VT_8 parseMI (Some addBInstr) None,
     setOpcG 0x80 5 IT_SUB VT_8 parseMI (Some addBInstr) None,
     setOpcG 0x80 6 IT_XOR VT_8 parseMI (Some addBInstr) None,
     setOpcG 0x80 7 IT_CMP VT_8 parseMI (Some addBInstr) None,
     setOpcG 0x81 0 IT_ADD VT_Def parseMI (Some addBInstr) None,
     setOpcG 0x81 1 IT_OR VT_Def parseMI (Some addBInstr) None,
     setOpcG 0x81 2 IT_ADC VT_Def parseMI (Some addBInstr) None,
     setOpcG 0x81 3 IT_SBB VT_Def parseMI (Some addBInstr) None,
     setOpcG 0x81 4 IT_AND VT_Def parseMI (Some addBInstr) None,
     setOpcG 0x81 5 IT_SUB VT_Def parseMI (Some addBInstr) None,
     setOpcG 0x81 6 IT_XOR VT_Def parseMI (Some addBInstr) None,
     setOpcG 0x81 7 IT_CMP VT_Def parseMI (Some addBInstr) None,
     setOpcG 0x83 0 IT_ADD VT_Def parseMI_8se (Some addBInstr) None,
     setOpcG 0x83 1 IT_OR VT_Def parseMI_8se (Some addBInstr) None,
     setOpcG 0x83 2 IT_ADC VT_Def parseMI_8se (Some addBInstr) None,
     setOpcG 0x83 3 IT_SBB VT_Def parseMI_8se (Some addBInstr) None,
     setOpcG 0x83 4 IT_AND VT_Def parseMI_8se (Some addBInstr) None,
     setOpcG 0x83 5 IT_SUB VT_Def parseMI_8se (Some addBInstr) None,
     setOpcG 0x83 6 IT_XOR VT_Def parseMI_8se (Some addBInstr) None,
     setOpcG 0x83 7 IT_CMP VT_Def parseMI_8se (Some addBInstr) None,
     setOpc 0x84 IT_TEST VT_8 parseMR (Some addBInstr) None,
     setOpc 0x85 IT_TEST VT_Def parseMR (Some addBInstr) None,
     setOpc 0x88 IT_MOV VT_8 parseMR (Some addBInstr) None,
     setOpc 0x89 IT_MOV VT_Def parseMR (Some addBInstr) None,
     setOpc 0x8A IT_MOV VT_8 parseRM (Some addBInstr) None,
     setOpc 0x8B IT_MOV VT_Def parseRM (Some addBInstr) None,
     setOpcH 0x8D decode_8D,
     setOpcGH 0x8F 0 decode_8F_0,
     setOpc 0x90 IT_NOP VT_None addSInstr None None,
     setOpcH 0x98 decode_98,
     setOpcH 0x99 decode_99,
     setOpcH 0x9C decode_9C,
     setOpcH 0x9D decode_9D,
     setOpc 0xA8 IT_TEST VT_8 setO1RegA (Some parseI2) (Some addBInstr),
     setOpc 0xA9 IT_TEST VT_Def setO1RegA (Some parseI2) (Some addBInstr),
     setOpcH 0xB0 decode_B0,
     setOpcH 0xB1 decode_B0,
     setOpcH 0xB2 decode_B0,
     setOpcH 0xB3 decode_B0,
     setOpcH 0xB4 decode_B0,
     setOpcH 0xB5 decode_B0,
     setOpcH 0xB6 decode_B0,
     setOpcH 0xB7 decode_B0,
     setOpcH 0xB8 decode_B0,
     setOpcH 0xB9 decode_B0,
     setOpcH 0xBA decode_B0,
     setOpcH 0xBB decode_B0,
     setOpcH 0xBC decode_B0,
     setOpcH 0xBD decode_B0,
     setOpcH 0xBE decode_B0,
     setOpcH 0xBF decode_B0,
     setOpcH 0xC0 decode_C0,
     setOpcH 0xC1 decode_C1,
     setOpc 0xC3 IT_RET VT_None addSInstr (Some reqExit) None,
     setOpcH 0xC6 decode_C6,
     setOpcH 0xC7 decode_C7,
     setOpc 0xC9 IT_LEAVE VT_None addSInstr None None,
     setOpcH 0xD0 decode_D0,
     setOpcH 0xD1 decode_D1,
     setOpcH 0xD2 decode_D2,
     setOpcH 0xD3 decode_D3,
     setOpcH 0xE8 decode_E8,
     setOpcH 0xE9 decode_E9,
     setOpcH 0xEB decode_EB,
     setOpcH 0xF6 decode_F6,
     setOpcH 0xF7 decode_F7,
     setOpcH 0xFE decode_FE,
     setOpcH 0xFF decode_FF]"

definition registerSseMov :: "registration list" where
  "registerSseMov = concat [
     setOpcP 0x0F10 PS_F3 IT_MOVSS VT_32 parseRMVV (Some addBInsImp) (Some attach),
     setOpcP 0x0F10 PS_F2 IT_MOVSD VT_64 parseRMVV (Some addBInsImp) (Some attach),
     setOpcP 0x0F10 PS_No IT_MOVUPS VT_128 parseRMVV (Some addBInsImp) (Some attach),
     setOpcP 0x0F10 PS_66 IT_MOVUPD VT_128 parseRMVV (Some addBInsImp) (Some attach),
     setOpcPV VEX_LIG 0x0F10 PS_F3 IT_VMOVSS VT_64 parseRMVV (Some addBInsImp) (Some attach),
     setOpcPV VEX_LIG 0x0F10 PS_F2 IT_VMOVSD VT_64 parseRMVV (Some addBInsImp) (Some attach),
     setOpcPV VEX_128 0x0F10 PS_No IT_VMOVUPS VT_128 parseRMVV (Some addBInsImp) (Some attach),
     setOpcPV VEX_128 0x0F10 PS_66 IT_VMOVUPD VT_128 parseRMVV (Some addBInsImp) (Some attach),
     setOpcPV VEX_256 0x0F10 PS_No IT_VMOVUPS VT_256 parseRMVV (Some addBInsImp) (Some attach),
     setOpcPV VEX_256 0x0F10 PS_66 IT_VMOVUPD VT_256 parseRMVV (Some addBInsImp) (Some attach),
     setOpcP 0x0F11 PS_No IT_MOVUPS VT_128 parseMRVV (Some addBInsImp) (Some attach),
     setOpcP 0x0F11 PS_66 IT_MOVUPD VT_128 parseMRVV (Some addBInsImp) (Some attach),
     setOpcP 0x0F11 PS_F3 IT_MOVSS VT_32 parseMRVV (Some addBInsImp) (Some attach),
     setOpcP 0x0F11 PS_F2 IT_MOVSD VT_64 parseMRVV (Some addBInsImp) (Some attach),
     setOpcPV VEX_LIG 0x0F11 PS_F3 IT_VMOVSS VT_64 parseMRVV (Some addBInsImp) (Some attach),
     setOpcPV VEX_LIG 0x0F11 PS_F2 IT_VMOVSD VT_64 parseMRVV (Some addBInsImp) (Some attach),
     setOpcPV VEX_128 0x0F11 PS_No IT_VMOVUPS VT_128 parseMRVV (Some addBInsImp) (Some attach),
     setOpcPV VEX_128 0x0F11 PS_66 IT_VMOVUPD VT_128 parseMRVV (Some addBInsImp) (Some attach),
     setOpcPV VEX_256 0x0F11 PS_No IT_VMOVUPS VT_256 parseMRVV (Some addBInsImp) (Some attach),
     setOpcPV VEX_256 0x0F11 PS_66 IT_VMOVUPD VT_256 parseMRVV (Some addBInsImp) (Some attach),
     setOpcH 0x0F12 decode0F_12,
     setOpcH 0x0F13 decode0F_13,
     setOpcH 0x0F14 decode0F_14,
     setOpcH 0x0F15 decode0F_15,
     setOpcH 0x0F16 decode0F_16,
     setOpcH 0x0F17 decode0F_17,
     setOpcH 0x0F1F decode0F_1F,
     setOpcH 0x0F28 decode0F_28,
     setOpcPV VEX_128 0x0F28 PS_No IT_VMOVAPS VT_128 parseRMVV (Some addBInsImp) (Some attach),
     setOpcPV VEX_128 0x0F28 PS_66 IT_VMOVAPD VT_128 parseRMVV (Some addBInsImp) (Some attach),
     setOpcPV VEX_256 0x0F28 PS_No IT_VMOVAPS VT_256 parseRMVV (Some addBInsImp) (Some attach),
     setOpcPV VEX_256 0x0F28 PS_66 IT_VMOVAPD VT_256 parseRMVV (Some addBInsImp) (Some attach),
     setOpcH 0x0F29 decode0F_29,
     setOpcPV VEX_128 0x0F29 PS_No IT_VMOVAPS VT_128 parseMRVV (Some addBInsImp) (Some attach),
     setOpcPV VEX_128 0x0F29 PS_66 IT_VMOVAPD VT_128 parseMRVV (Some addBInsImp) (Some attach),
     setOpcPV VEX_256 0x0F29 PS_No IT_VMOVAPS VT_256 parseMRVV (Some addBInsImp) (Some attach),
     setOpcPV VEX_256 0x0F29 PS_66 IT_VMOVAPD VT_256 parseMRVV (Some addBInsImp) (Some attach),
     setOpcH 0x0F2E decode0F_2E,
     setOpcH 0x0F40 decode0F_40,
     setOpcH 0x0F41 decode0F_40,
     setOpcH 0x0F42 decode0F_40,
     setOpcH 0x0F43 decode0F_40,
     setOpcH 0x0F44 decode0F_40,
     setOpcH 0x0F45 decode0F_40,
     setOpcH 0x0F46 decode0F_40,
     setOpcH 0x0F47 decode0F_40,
     setOpcH 0x0F48 decode0F_40,
     setOpcH 0x0F49 decode0F_40,
     setOpcH 0x0F4A decode0F_40,
     setOpcH 0x0F4B decode0F_40,
     setOpcH 0x0F4C decode0F_40,
     setOpcH 0x0F4D decode0F_40,
     setOpcH 0x0F4E decode0F_40,
     setOpcH 0x0F4F decode0F_40]"

definition registerSseArith :: "registration list" where
  "registerSseArith = concat [
     setOpcP 0x0F51 PS_F3 IT_SQRTSS VT_32 parseRMVV (Some addBInsImp) (Some attach),
     setOpcP 0x0F51 PS_F2 IT_SQRTSD VT_64 parseRMVV (Some addBInsImp) (Some attach),
     setOpcP 0x0F51 PS_No IT_SQRTPS VT_128 parseRMVV (Some addBInsImp) (Some attach),
     setOpcP 0x0F51 PS_66 IT_SQRTPD VT_128 parseRMVV (Some addBInsImp) (Some attach),
     setOpcP 0x0F52 PS_F3 IT_RSQRTSS VT_32 parseRMVV (Some addBInsImp) (Some attach),
     setOpcP 0x0F52 PS_No IT_RSQRTPS VT_128 parseRMVV (Some addBInsImp) (Some attach),
     setOpcP 0x0F53 PS_F3 IT_RCPSS VT_32 parseRMVV (Some addBInsImp) (Some attach),
     setOpcP 0x0F53 PS_No IT_RCPPS VT_128 parseRMVV (Some addBInsImp) (Some attach),
     setOpcP 0x0F54 PS_No IT_ANDPS VT_128 parseRMVV (Some addBInsImp) (Some attach),
     setOpcP 0x0F54 PS_66 IT_ANDPD VT_128 parseRMVV (Some addBInsImp) (Some attach),
     setOpcP 0x0F55 PS_No IT_ANDNPS VT_128 parseRMVV (Some addBInsImp) (Some attach),
     setOpcP 0x0F55 PS_66 IT_ANDNPD VT_128 parseRMVV (Some addBInsImp) (Some attach),
     setOpcP 0x0F56 PS_No IT_ORPS VT_128 parseRMVV (Some addBInsImp) (Some attach),
     setOpcP 0x0F56 PS_66 IT_ORPD VT_128 parseRMVV (Some addBInsImp) (Some attach),
     setOpcP 0x0F57 PS_No IT_XORPS VT_128 parseRMVV (Some addBInsImp) (Some attach),
     setOpcP 0x0F57 PS_66 IT_XORPD VT_128 parseRMVV (Some addBInsImp) (Some attach),
     setOpcPV VEX_128 0x0F57 PS_No IT_VXORPS VT_128 parseRVM (Some addTInsImp) (Some attach),
     setOpcPV VEX_256 0x0F57 PS_No IT_VXORPS VT_256 parseRVM (Some addTInsImp) (Some attach),
     setOpcPV VEX_128 0x0F57 PS_66 IT_VXORPD VT_128 parseRVM (Some addTInsImp) (Some attach),
     setOpcPV VEX_256 0x0F57 PS_66 IT_VXORPD VT_256 parseRVM (Some addTInsImp) (Some attach),
     setOpcP 0x0F58 PS_F3 IT_ADDSS VT_32 parseRMVV (Some addBInsImp) None,
     setOpcP 0x0F58 PS_F2 IT_ADDSD VT_64 parseRMVV (Some addBInsImp) None,
     setOpcP 0x0F58 PS_No IT_ADDPS VT_128 parseRMVV (Some addBInsImp) None,
     setOpcP 0x0F58 PS_66 IT_ADDPD VT_128 parseRMVV (Some addBInsImp) None,
     setOpcPV VEX_LIG 0x0F58 PS_F3 IT_VADDSS VT_32 parseRVM (Some addTInsImp) (Some attach),
     setOpcPV VEX_LIG 0x0F58 PS_F2 IT_VADDSD VT_64 parseRVM (Some addTInsImp) (Some attach),
     setOpcPV VEX_128 0x0F58 PS_No IT_VADDPS VT_128 parseRVM (Some addTInsImp) (Some attach),
     setOpcPV VEX_256 0x0F58 PS_No IT_VADDPS VT_256 parseRVM (Some addTInsImp) (Some attach),
     setOpcPV VEX_128 0x0F58 PS_66 IT_VADDPD VT_128 parseRVM (Some addTInsImp) (Some attach),
     setOpcPV VEX_256 0x0F58 PS_66 IT_VADDPD VT_256 parseRVM (Some addTInsImp) (Some attach),
     setOpcP 0x0F59 PS_F3 IT_MULSS VT_32 parseRMVV (Some addBInsImp) (Some attach),
     setOpcP 0x0F59 PS_F2 IT_MULSD VT_64 parseRMVV (Some addBInsImp) (Some attach),
     setOpcP 0x0F59 PS_No IT_MULPS VT_128 parseRMVV (Some addBInsImp) (Some attach),
     setOpcP 0x0F59 PS_66 IT_MULPD VT_128 parseRMVV (Some addBInsImp) (Some attach),
     setOpcPV VEX_LIG 0x0F59 PS_F3 IT_VMULSS VT_32 parseRVM (Some addTInsImp) (Some attach),
     setOpcPV VEX_LIG 0x0F59 PS_F2 IT_VMULSD VT_64 parseRVM (Some addTInsImp) (Some attach),
     setOpcPV VEX_128 0x0F59 PS_No IT_VMULPS VT_128 parseRVM (Some addTInsImp) (Some attach),
     setOpcPV VEX_256 0x0F59 PS_No IT_VMULPS VT_256 parseRVM (Some addTInsImp) (Some attach),
     setOpcPV VEX_128 0x0F59 PS_66 IT_VMULPD VT_128 parseRVM (Some addTInsImp) (Some attach),
     setOpcPV VEX_256 0x0F59 PS_66 IT_VMULPD VT_256 parseRVM (Some addTInsImp) (Some attach),
     setOpcP 0x0F5C PS_F3 IT_SUBSS VT_32 parseRMVV (Some addBInsImp) (Some attach),
     setOpcP 0x0F5C PS_F2 IT_SUBSD VT_64 parseRMVV (Some addBInsImp) (Some attach),
     setOpcP 0x0F5C PS_No IT_SUBPS VT_128 parseRMVV (Some addBInsImp) (Some attach),
     setOpcP 0x0F5C PS_66 IT_SUBPD VT_128 parseRMVV (Some addBInsImp) (Some attach),
     setOpcP 0x0F5D PS_F3 IT_MINSS VT_32 parseRMVV (Some addBInsImp) (Some attach),
     setOpcP 0x0F5D PS_F2 IT_MINSD VT_64 parseRMVV (Some addBInsImp) (Some attach),
     setOpcP 0x0F5D PS_No IT_MINPS VT_128 parseRMVV (Some addBInsImp) (Some attach),
     setOpcP 0x0F5D PS_66 IT_MINPD VT_128 parseRMVV (Some addBInsImp) (Some attach),
     setOpcP 0x0F5E PS_F3 IT_DIVSS VT_32 parseRMVV (Some addBInsImp) (Some attach),
     setOpcP 0x0F5E PS_F2 IT_DIVSD VT_64 parseRMVV (Some addBInsImp) (Some attach),
     setOpcP 0x0F5E PS_No IT_DIVPS VT_128 parseRMVV (Some addBInsImp) (Some attach),
     setOpcP 0x0F5E PS_66 IT_DIVPD VT_128 parseRMVV (Some addBInsImp) (Some attach),
     setOpcP 0x0F5F PS_F3 IT_MAXSS VT_32 parseRMVV (Some addBInsImp) (Some attach),
     setOpcP 0x0F5F PS_F2 IT_MAXSD VT_64 parseRMVV (Some addBInsImp) (Some attach),
     setOpcP 0x0F5F PS_No IT_MAXPS VT_128 parseRMVV (Some addBInsImp) (Some attach),
     setOpcP 0x0F5F PS_66 IT_MAXPD VT_128 parseRMVV (Some addBInsImp) (Some attach)]"

definition registerSseInt :: "registration list" where
  "registerSseInt = concat [
     setOpcPH 0x0F6E PS_66 decode0F_6E_P66,
     setOpcP 0x0F6F PS_F3 IT_MOVDQU VT_128 parseRMVV (Some addBInsImp) (Some attach),
     setOpcP 0x0F6F PS_66 IT_MOVDQA VT_128 parseRMVV (Some addBInsImp) (Some attach),
     setOpcP 0x0F6F PS_No IT_MOVQ VT_64 parseRMVV (Some addBInsImp) (Some attach),
     setOpcPV VEX_128 0x0F6F PS_66 IT_VMOVDQA VT_128 parseRMVV (Some addBInsImp) (Some attach),
     setOpcPV VEX_128 0x0F7F PS_66 IT_VMOVDQA VT_128 parseMRVV (Some addBInsImp) (Some attach),
     setOpcPV VEX_256 0x0F6F PS_66 IT_VMOVDQA VT_256 parseRMVV (Some addBInsImp) (Some attach),
     setOpcPV VEX_256 0x0F7F PS_66 IT_VMOVDQA VT_256 parseMRVV (Some addBInsImp) (Some attach),
     setOpcPV VEX_128 0x0F6F PS_F3 IT_VMOVDQU VT_128 parseRMVV (Some addBInsImp) (Some attach),
     setOpcPV VEX_128 0x0F7F PS_F3 IT_VMOVDQU VT_128 parseMRVV (Some addBInsImp) (Some attach),
     setOpcPV VEX_256 0x0F6F PS_F3 IT_VMOVDQU VT_256 parseRMVV (Some addBInsImp) (Some attach),
     setOpcPV VEX_256 0x0F7F PS_F3 IT_VMOVDQU VT_256 parseMRVV (Some addBInsImp) (Some attach),
     setOpcH 0x0F74 decode0F_74,
     setOpcPV VEX_128 0x0F77 PS_No IT_VZEROUPPER VT_None addSInstr (Some attach) None,
     setOpcPV VEX_256 0x0F77 PS_No IT_VZEROALL VT_None addSInstr (Some attach) None,
     setOpcP 0x0F7C PS_66 IT_HADDPD VT_128 parseRMVV (Some addBInsImp) (Some attach),
     setOpcP 0x0F7C PS_F2 IT_HADDPS VT_128 parseRMVV (Some addBInsImp) (Some attach),
     setOpcP 0x0F7D PS_66 IT_HSUBPD VT_128 parseRMVV (Some addBInsImp) (Some attach),
     setOpcP 0x0F7D PS_F2 IT_HSUBPS VT_128 parseRMVV (Some addBInsImp) (Some attach),
     setOpcH 0x0F7E decode0F_7E,
     setOpcH 0x0F7F decode0F_7F,
     setOpcH 0x0F80 decode0F_80,
     setOpcH 0x0F81 decode0F_80,
     setOpcH 0x0F82 decode0F_80,
     setOpcH 0x0F83 decode0F_80,
     setOpcH 0x0F84 decode0F_80,
     setOpcH 0x0F85 decode0F_80,
     setOpcH 0x0F86 decode0F_80,
     setOpcH 0x0F87 decode0F_80,
     setOpcH 0x0F88 decode0F_80,
     setOpcH 0x0F89 decode0F_80,
     setOpcH 0x0F8A decode0F_80,
     setOpcH 0x0F8B decode0F_80,
     setOpcH 0x0F8C decode0F_80,
     setOpcH 0x0F8D decode0F_80,
     setOpcH 0x0F8E decode0F_80,
     setOpcH 0x0F8F decode0F_80,
     setOpc 0x0FAF IT_IMUL VT_Def parseRM (Some addBInstr) None,
     setOpcH 0x0FB6 decode0F_B6,
     setOpcH 0x0FB7 decode0F_B7,
     setOpc 0x0FBC IT_BSF VT_Def parseRM (Some addBInstr) None,
     setOpcH 0x0FBE decode0F_BE,
     setOpcH 0x0FBF decode0F_BF,
     setOpcP 0x0FD0 PS_66 IT_ADDSUBPD VT_128 parseRMVV (Some addBInsImp) (Some attach),
     setOpcP 0x0FD0 PS_F2 IT_ADDSUBPS VT_128 parseRMVV (Some addBInsImp) (Some attach),
     setOpcH 0x0FD4 decode0F_D4,
     setOpcH 0x0FD6 decode0F_D6,
     setOpcH 0x0FD7 decode0F_D7,
     setOpcH 0x0FDA decode0F_DA,
     setOpcPV VEX_128 0x0FE7 PS_66 IT_VMOVNTDQ VT_128 parseMRVV (Some addBInsImp) (Some attach),
     setOpcPV VEX_256 0x0FE7 PS_66 IT_VMOVNTDQ VT_256 parseMRVV (Some addBInsImp) (Some attach),
     setOpcH 0x0FEF decode0F_EF]"

definition registrations :: "registration list" where
  "registrations = registerAlu @ registerStackJcc @ registerMov @ registerSseMov
     @ registerSseArith @ registerSseInt"

primrec runRegistrations ::
  "registration list \<Rightarrow> dechandler opctables \<Rightarrow> dechandler opctables option" where
  "runRegistrations [] tb = Some tb"
| "runRegistrations (e # es) tb =
     Option.bind (setEntry (fst e) (snd e) tb) (runRegistrations es)"

text \<open>\<open>initDecodeTables\<close>. The code runs it once, before the first block is decoded, and
  nothing else writes the tables.\<close>

definition initDecodeTables :: "dechandler opctables option" where
  "initDecodeTables = runRegistrations registrations opcTables0"

section \<open>Running the registrations\<close>

text \<open>The key of a registration in the tables as a map.\<close>

definition regKey :: "vexprefix \<times> nat \<times> opctype \<times> nat \<Rightarrow> opckey option" where
  "regKey x = (case x of (vp, opc, t, off) \<Rightarrow>
     map_option (\<lambda>(a, k). (a, k, t, off)) (opcSlot vp opc))"

text \<open>The kind of entry that each opcode is registered with.\<close>

definition slotType :: "tableid \<Rightarrow> nat \<Rightarrow> opctype" where
  "slotType a k =
     (case a of
        TAB \<Rightarrow> if k = 0x80 \<or> k = 0x81 \<or> k = 0x83 \<or> k = 0x8F then OT_Group else OT_Single
      | TAB_0F \<Rightarrow> if k = 0x10 \<or> k = 0x11 \<or> (0x51 \<le> k \<and> k \<le> 0x6F) \<or> k = 0x7C \<or> k = 0x7D \<or> k = 0xD0
                  then OT_Four else OT_Single
      | _ \<Rightarrow> OT_Four)"

definition regOk :: "registration \<Rightarrow> bool" where
  "regOk e = (case fst e of (vp, opc, t, off) \<Rightarrow>
     (case opcSlot vp opc of None \<Rightarrow> False
      | Some (a, k) \<Rightarrow> t = slotType a k \<and> (case opcCount t of None \<Rightarrow> False | Some n \<Rightarrow> off < n)))"

definition regWeight :: "registration list \<Rightarrow> nat" where
  "regWeight es = sum_list (map (\<lambda>e. the (opcCount (fst (snd (snd (fst e)))))) es)"

lemma opcSlot_bound: "opcSlot vp opc = Some (a, k) \<Longrightarrow> k \<le> 0xFF"
  by (auto simp: opcSlot_def bind_eq_Some_conv split: if_splits)

lemma setOpcInfo_slot:
  assumes "opcSlot vp opc = Some s" "opcSlot vp' opc = Some s"
  shows "setOpcInfo vp opc = setOpcInfo vp' opc"
  using assms by (auto simp: setOpcInfo_def fun_eq_iff)

lemma setEntry_installOpc:
  assumes s: "opcSlot vp opc = Some (a, k)"
  shows "setEntry (vp, opc, t, off) sp tb = installOpc (a, k, t, off) sp tb"
proof -
  let ?vp = "case a of TAB_0F_V128 \<Rightarrow> VEX_128 | TAB_0F_V256 \<Rightarrow> VEX_256 | _ \<Rightarrow> VEX_No"
  have opc: "opc = (if a = TAB then k else 0x0F00 + k)" and "opcSlot ?vp opc = Some (a, k)"
    using s by (auto simp: opcSlot_def bind_eq_Some_conv split: if_splits)
  then have eq: "setOpcInfo vp opc = setOpcInfo vp' opc" if "vp' = ?vp" for vp'
    using s that by (intro setOpcInfo_slot) simp_all
  have "setEntry (vp, opc, t, off) sp tb = setEntry (vp', opc, t, off) sp tb" if "vp' = ?vp" for vp'
    by (simp add: setEntry_def getOpcEntry_def eq [OF that])
  then show ?thesis using opcSlot_bound [OF s] opc by (simp add: installOpc_def)
qed

text \<open>Invariant of the run: the tables only hold opcodes with their expected kind.\<close>

definition typesOk :: "dechandler opctables \<Rightarrow> bool" where
  "typesOk tb \<longleftrightarrow> (\<forall>a k. oi_t (opcTables tb a k) \<in> {OT_Invalid, slotType a k})"

lemma setEntry_total:
  assumes ok: "regOk e" and ty: "typesOk tb" and used: "opcUsed tb + regWeight [e] \<le> OPCENTRY_SIZE"
  shows "\<exists>tb'. setEntry (fst e) (snd e) tb = Some tb' \<and> typesOk tb'
    \<and> opcUsed tb' \<le> opcUsed tb + regWeight [e]"
proof -
  obtain vp opc t off sp where e: "e = ((vp, opc, t, off), sp)" by (cases e) auto
  from ok e obtain a k n where s: "opcSlot vp opc = Some (a, k)" and t: "t = slotType a k"
    and n: "opcCount t = Some n" and off: "off < n"
    by (auto simp: regOk_def split: option.splits)
  have w: "regWeight [e] = n" by (simp add: regWeight_def e n)
  have inv: "oi_t (opcTables tb a k) = OT_Invalid \<or> oi_t (opcTables tb a k) = t"
    using ty t unfolding typesOk_def by blast
  have t0: "t \<noteq> OT_Invalid" using n by (auto simp: opcCount_def)
  have used': "opcUsed tb + n \<le> OPCENTRY_SIZE" using used by (simp only: w)
  show ?thesis
  proof (cases "oi_t (opcTables tb a k) = OT_Invalid")
    case True
    then show ?thesis using ty used' n off t w
      by (auto simp: e setEntry_def getOpcEntry_def setOpcInfo_def s typesOk_def Let_def)
  next
    case False
    then show ?thesis using inv ty n off t0
      by (auto simp: e setEntry_def getOpcEntry_def setOpcInfo_def s typesOk_def)
  qed
qed

lemma regWeight_Cons: "regWeight (e # es) = regWeight [e] + regWeight es"
  by (simp add: regWeight_def)

lemma regWeight_append: "regWeight (es @ es') = regWeight es + regWeight es'"
  by (simp add: regWeight_def)

lemma runRegistrations_total:
  assumes "list_all regOk es" "typesOk tb" "opcUsed tb + regWeight es \<le> OPCENTRY_SIZE"
  shows "\<exists>tb'. runRegistrations es tb = Some tb'"
  using assms
proof (induction es arbitrary: tb)
  case Nil
  then show ?case by simp
next
  case (Cons e es)
  then obtain tb' where tb': "setEntry (fst e) (snd e) tb = Some tb'" "typesOk tb'"
    "opcUsed tb' \<le> opcUsed tb + regWeight [e]"
    using setEntry_total [of e tb] by (auto simp: regWeight_Cons [of e es])
  then have "\<exists>tb''. runRegistrations es tb' = Some tb''"
    using Cons.prems by (intro Cons.IH) (auto simp: regWeight_Cons [of e es])
  with tb' show ?case by simp
qed

lemma runRegistrations_install:
  assumes "list_all regOk es"
  shows "runRegistrations es tb
    = opc.install_all (map (\<lambda>e. (the (regKey (fst e)), snd e)) es) tb"
  using assms
proof (induction es arbitrary: tb)
  case Nil
  then show ?case by simp
next
  case (Cons e es)
  obtain vp opc t off sp where e: "e = ((vp, opc, t, off), sp)" by (cases e) auto
  from Cons.prems e obtain a k where s: "opcSlot vp opc = Some (a, k)"
    by (auto simp: regOk_def split: option.splits)
  have "setEntry (fst e) (snd e) tb = installOpc (the (regKey (fst e))) (snd e) tb"
    by (simp add: e regKey_def s setEntry_installOpc [OF s])
  moreover have "runRegistrations es
      = opc.install_all (map (\<lambda>e. (the (regKey (fst e)), snd e)) es)"
    using Cons by (simp add: fun_eq_iff)
  ultimately show ?case by simp
qed

lemma regOk_registerAlu: "list_all regOk registerAlu"
  by (simp add: registerAlu_def register_defs Let_def regOk_def opcSlot_def slotType_def opcCount_def)

lemma regOk_registerStackJcc: "list_all regOk registerStackJcc"
  by (simp add: registerStackJcc_def register_defs Let_def regOk_def opcSlot_def slotType_def opcCount_def)

lemma regOk_registerMov: "list_all regOk registerMov"
  by (simp add: registerMov_def register_defs Let_def regOk_def opcSlot_def slotType_def opcCount_def)

lemma regOk_registerSseMov: "list_all regOk registerSseMov"
  by (simp add: registerSseMov_def register_defs Let_def regOk_def opcSlot_def slotType_def opcCount_def)

lemma regOk_registerSseArith: "list_all regOk registerSseArith"
  by (simp add: registerSseArith_def register_defs Let_def regOk_def opcSlot_def slotType_def opcCount_def)

lemma regOk_registerSseInt: "list_all regOk registerSseInt"
  by (simp add: registerSseInt_def register_defs Let_def regOk_def opcSlot_def slotType_def opcCount_def)

lemma regOk_registrations: "list_all regOk registrations"
  by (simp add: registrations_def regOk_registerAlu regOk_registerStackJcc regOk_registerMov
      regOk_registerSseMov regOk_registerSseArith regOk_registerSseInt)

lemma regWeight_parts:
  "regWeight registerAlu = 48" "regWeight registerStackJcc = 37" "regWeight registerMov = 247"
  "regWeight registerSseMov \<le> 200" "regWeight registerSseArith \<le> 300"
  "regWeight registerSseInt \<le> 168"
  by (simp_all add: regWeight_def registerAlu_def registerStackJcc_def registerMov_def
      registerSseMov_def registerSseArith_def registerSseInt_def register_defs Let_def opcCount_def)

lemma regWeight_registrations: "regWeight registrations \<le> OPCENTRY_SIZE"
  using regWeight_parts by (simp add: registrations_def regWeight_append)

lemma initDecodeTables_total: "\<exists>tb. initDecodeTables = Some tb"
  unfolding initDecodeTables_def
  by (rule runRegistrations_total [OF regOk_registrations])
    (use regWeight_registrations in \<open>simp_all add: typesOk_def opcTables0_def\<close>)

text \<open>The registrations as a list of map entries.\<close>

definition registrationMap :: "(opckey \<times> dechandler opcspec) list" where
  "registrationMap = map (\<lambda>e. (the (regKey (fst e)), snd e)) registrations"

lemma lookup_initDecodeTables:
  assumes "initDecodeTables = Some tb"
  shows "lookupOpc tb = map_of (rev registrationMap)" and "opcInv tb"
proof -
  have run: "opc.install_all registrationMap opcTables0 = Some tb"
    using assms runRegistrations_install [OF regOk_registrations]
    by (simp add: initDecodeTables_def registrationMap_def)
  show "lookupOpc tb = map_of (rev registrationMap)"
    using opc.lookup_install_all [OF opcInv_opcTables0 run] by (simp add: lookupOpc_opcTables0)
  show "opcInv tb"
    by (rule opc.inv_install_all [OF opcInv_opcTables0 run])
qed

section \<open>The property\<close>

text \<open>C20. Filling the opcode tables succeeds. It implements the map in which every opcode
  has the last of its registrations: no registration spoils the handlers of another opcode,
  although all share one array of entries.\<close>

theorem opcode_tables_map:
  "\<exists>tb. initDecodeTables = Some tb \<and> lookupOpc tb = map_of (rev registrationMap) \<and> opcInv tb"
  using initDecodeTables_total lookup_initDecodeTables by blast

end
