(* ===== verification/Config.thy ===== *)
theory Config
  imports Common
begin

text \<open>
  The configuration of a rewriter (\<open>src/config.c\<close>): parameter states, function and memory
  range descriptions. The list \<open>range_configs\<close> has the newest entry first, as the linked
  list of the code. An entry is referred to by its age, the number of older entries, which
  stays valid when newer entries are put in front.
\<close>

section \<open>Configurations\<close>

definition cc_init :: captureconfig where
  "cc_init = \<lparr>par_state = replicate CC_MAXPARAM (initMetaState CS_DYNAMIC),
     par_name = replicate CC_MAXPARAM None, hasReturnFP = False, parCount = -1,
     force_unknown = replicate CC_MAXCALLDEPTH False, branches_known = False,
     range_configs = []\<rparr>"

definition cc_get :: "rewriter \<Rightarrow> captureconfig \<times> rewriter" where
  "cc_get r = (case r_cc r of Some cc \<Rightarrow> (cc, r) | None \<Rightarrow> (cc_init, r\<lparr>r_cc := Some cc_init\<rparr>))"

definition mrc_new :: "memrangetype \<Rightarrow> string option \<Rightarrow> u64 \<Rightarrow> int \<Rightarrow> memrangeconfig" where
  "mrc_new t name start sz = \<lparr>mr_type = t, mr_name = name, mr_start = start, mr_size = sz\<rparr>"

definition mrc_matches :: "memrangetype \<Rightarrow> u64 \<Rightarrow> memrangeconfig \<Rightarrow> bool" where
  "mrc_matches t a m \<longleftrightarrow>
     (t = MR_Unknown \<or> mr_type m = t) \<and>
     (a = mr_start m \<or> (mr_start m < a \<and> a < mr_start m + of_int (mr_size m)))"

text \<open>The first match in the list, as its age and the entry.\<close>

primrec mrc_findList :: "memrangetype \<Rightarrow> u64 \<Rightarrow> memrangeconfig list \<Rightarrow> nat option" where
  "mrc_findList t a [] = None"
| "mrc_findList t a (m # ms) =
     (if mrc_matches t a m then Some (length ms) else mrc_findList t a ms)"

definition mrc_at :: "captureconfig \<Rightarrow> nat \<Rightarrow> memrangeconfig" where
  "mrc_at cc k = rev (range_configs cc) ! k"

definition mrc_find :: "captureconfig \<Rightarrow> memrangetype \<Rightarrow> u64 \<Rightarrow> nat option" where
  "mrc_find cc t a = mrc_findList t a (range_configs cc)"

definition fc_get :: "captureconfig \<Rightarrow> u64 \<Rightarrow> (nat \<times> captureconfig) option" where
  "fc_get cc f =
     (let (k, cc) = (case mrc_find cc MR_Function f of
          Some k \<Rightarrow> (k, cc)
        | None \<Rightarrow> (length (range_configs cc),
            cc\<lparr>range_configs := mrc_new MR_Function None f 0 # range_configs cc\<rparr>))
      in do { c_assert (mr_type (mrc_at cc k) = MR_Function); Some (k, cc) })"

definition mrc_update ::
  "nat \<Rightarrow> (memrangeconfig \<Rightarrow> memrangeconfig) \<Rightarrow> captureconfig \<Rightarrow> captureconfig" where
  "mrc_update k g cc = cc\<lparr>range_configs := rev ((rev (range_configs cc))[k := g (mrc_at cc k)])\<rparr>"

definition config_find_function :: "rewriter \<Rightarrow> u64 \<Rightarrow> (nat option \<times> rewriter) option" where
  "config_find_function r f =
     (let (cc, r) = cc_get r in
      case mrc_find cc MR_Function f of
        Some k \<Rightarrow> do { c_assert (mr_type (mrc_at cc k) = MR_Function); Some (Some k, r) }
      | None \<Rightarrow> Some (None, r))"

section \<open>The interface of the library\<close>

definition with_cc :: "rewriter \<Rightarrow> (captureconfig \<Rightarrow> captureconfig option) \<Rightarrow> rewriter option" where
  "with_cc r g = (let (cc, r) = cc_get r in do { cc \<leftarrow> g cc; Some (r\<lparr>r_cc := Some cc\<rparr>) })"

definition dbrew_config_reset :: "rewriter \<Rightarrow> rewriter" where
  "dbrew_config_reset r = r\<lparr>r_cc := Some cc_init\<rparr>"

definition dbrew_config_staticpar :: "rewriter \<Rightarrow> int \<Rightarrow> rewriter option" where
  "dbrew_config_staticpar r par = with_cc r (\<lambda>cc. do {
     c_assert (0 \<le> par \<and> par < int CC_MAXPARAM);
     Some (cc\<lparr>par_state := (par_state cc)[nat par := initMetaState CS_STATIC2]\<rparr>) })"

definition dbrew_config_par_setname :: "rewriter \<Rightarrow> int \<Rightarrow> string \<Rightarrow> rewriter option" where
  "dbrew_config_par_setname r par name = with_cc r (\<lambda>cc. do {
     c_assert (0 \<le> par \<and> par < int CC_MAXPARAM);
     Some (cc\<lparr>par_name := (par_name cc)[nat par := Some name]\<rparr>) })"

definition dbrew_config_force_unknown :: "rewriter \<Rightarrow> int \<Rightarrow> rewriter option" where
  "dbrew_config_force_unknown r d = with_cc r (\<lambda>cc. do {
     c_assert (0 \<le> d \<and> d < int CC_MAXCALLDEPTH);
     Some (cc\<lparr>force_unknown := (force_unknown cc)[nat d := True]\<rparr>) })"

definition dbrew_config_returnfp :: "rewriter \<Rightarrow> rewriter option" where
  "dbrew_config_returnfp r = with_cc r (\<lambda>cc. Some (cc\<lparr>hasReturnFP := True\<rparr>))"

definition dbrew_config_parcount :: "rewriter \<Rightarrow> int \<Rightarrow> rewriter option" where
  "dbrew_config_parcount r n = with_cc r (\<lambda>cc. Some (cc\<lparr>parCount := n\<rparr>))"

definition dbrew_config_branches_known :: "rewriter \<Rightarrow> bool \<Rightarrow> rewriter option" where
  "dbrew_config_branches_known r b = with_cc r (\<lambda>cc. Some (cc\<lparr>branches_known := b\<rparr>))"

definition dbrew_config_function_setname :: "rewriter \<Rightarrow> u64 \<Rightarrow> string \<Rightarrow> rewriter option" where
  "dbrew_config_function_setname r f name = with_cc r (\<lambda>cc. do {
     (k, cc) \<leftarrow> fc_get cc f;
     Some (mrc_update k (\<lambda>m. m\<lparr>mr_name := Some name\<rparr>) cc) })"

definition dbrew_config_function_setsize :: "rewriter \<Rightarrow> u64 \<Rightarrow> int \<Rightarrow> rewriter option" where
  "dbrew_config_function_setsize r f sz = with_cc r (\<lambda>cc. do {
     (k, cc) \<leftarrow> fc_get cc f;
     Some (mrc_update k (\<lambda>m. m\<lparr>mr_size := sz\<rparr>) cc) })"

definition dbrew_config_set_memrange ::
  "rewriter \<Rightarrow> string option \<Rightarrow> bool \<Rightarrow> u64 \<Rightarrow> int \<Rightarrow> rewriter option" where
  "dbrew_config_set_memrange r name isWritable start sz = with_cc r (\<lambda>cc.
     Some (cc\<lparr>range_configs :=
       mrc_new (if isWritable then MR_MutableData else MR_ConstantData) name start sz
         # range_configs cc\<rparr>))"

section \<open>Searching\<close>

lemma mrc_findList_Some:
  "mrc_findList t a ms = Some k \<Longrightarrow> k < length ms \<and> mrc_matches t a (rev ms ! k)
     \<and> (\<forall>j. k < j \<longrightarrow> j < length ms \<longrightarrow> \<not> mrc_matches t a (rev ms ! j))"
  by (induction ms) (auto simp: nth_append split: if_splits)

lemma mrc_findList_None:
  "mrc_findList t a ms = None \<longleftrightarrow> (\<forall>m \<in> set ms. \<not> mrc_matches t a m)"
  by (induction ms) auto

text \<open>Entries referred to by their age are not moved by updates and additions.\<close>

lemma mrc_find_type:
  "mrc_find cc MR_Function f = Some k \<Longrightarrow> mr_type (mrc_at cc k) = MR_Function"
  using mrc_findList_Some [of MR_Function f "range_configs cc" k]
  by (auto simp: mrc_find_def mrc_at_def mrc_matches_def)

lemma config_find_function_total: "\<exists>k r'. config_find_function r f = Some (k, r')"
  by (auto simp: config_find_function_def split: prod.splits option.splits dest: mrc_find_type)

lemma config_find_function_frame:
  "config_find_function r f = Some (k, r') \<Longrightarrow> r' = r\<lparr>r_cc := Some (fst (cc_get r))\<rparr>"
  by (cases "r_cc r")
    (auto simp: config_find_function_def cc_get_def bind_eq_Some_conv split: option.splits)

lemma mrc_findList_update:
  assumes "mrc_findList t a ms = Some k" and "\<And>m. mrc_matches t a (g m) = mrc_matches t a m"
  shows "mrc_findList t a (rev ((rev ms)[k := g (rev ms ! k)])) = Some k"
  using assms(1)
proof (induction ms)
  case Nil
  then show ?case by simp
next
  case (Cons m ms)
  show ?case
  proof (cases "mrc_matches t a m")
    case True
    then show ?thesis using Cons.prems assms(2) by (auto simp: nth_append list_update_append)
  next
    case False
    then have "mrc_findList t a ms = Some k" using Cons.prems by simp
    moreover have "k < length ms" using mrc_findList_Some [OF calculation] by simp
    ultimately show ?thesis using Cons.IH False by (simp add: nth_append list_update_append)
  qed
qed

lemma fc_get_find:
  assumes "fc_get cc f = Some (k, cc')"
  shows "mrc_find cc' MR_Function f = Some k" and "k < length (range_configs cc')"
proof -
  show "mrc_find cc' MR_Function f = Some k"
    using assms by (auto simp: fc_get_def bind_eq_Some_conv mrc_find_def mrc_new_def mrc_matches_def
        split: option.splits)
  then show "k < length (range_configs cc')"
    using mrc_findList_Some by (auto simp: mrc_find_def)
qed

lemma fc_get_total: "\<exists>k cc'. fc_get cc f = Some (k, cc')"
  by (auto simp: fc_get_def mrc_new_def mrc_at_def nth_append split: option.splits
      dest: mrc_find_type [unfolded mrc_at_def])

lemma mrc_at_update:
  "k < length (range_configs cc) \<Longrightarrow> mrc_at (mrc_update k g cc) k = g (mrc_at cc k)"
  by (simp add: mrc_at_def mrc_update_def)

lemma mrc_find_rename:
  assumes "mrc_find cc MR_Function f = Some k"
  shows "mrc_find (mrc_update k (\<lambda>m. m\<lparr>mr_name := name\<rparr>) cc) MR_Function f = Some k"
  using assms by (simp add: mrc_find_def mrc_update_def mrc_at_def mrc_findList_update mrc_matches_def)

section \<open>The property\<close>

text \<open>C22. Naming a function always succeeds, and the decoder then finds the function at
  this address under the name given last, without another change of the configuration.\<close>

theorem config_setname_find:
  "\<exists>r' k. dbrew_config_function_setname r f name = Some r'
    \<and> config_find_function r' f = Some (Some k, r')
    \<and> mr_name (mrc_at (the (r_cc r')) k) = Some name"
proof -
  obtain k cc where fc: "fc_get (fst (cc_get r)) f = Some (k, cc)" using fc_get_total by blast
  let ?cc = "mrc_update k (\<lambda>m. m\<lparr>mr_name := Some name\<rparr>) cc"
  have find: "mrc_find ?cc MR_Function f = Some k"
    by (rule mrc_find_rename [OF fc_get_find(1) [OF fc]])
  have "mr_name (mrc_at ?cc k) = Some name"
    by (simp add: mrc_at_update [OF fc_get_find(2) [OF fc]])
  moreover have "dbrew_config_function_setname r f name = Some ((snd (cc_get r))\<lparr>r_cc := Some ?cc\<rparr>)"
    using fc by (cases "cc_get r") (simp add: dbrew_config_function_setname_def with_cc_def)
  ultimately show ?thesis
    by (auto simp: config_find_function_def cc_get_def find mrc_find_type [OF find])
qed

end
