(* ===== verification/Decode.thy ===== *)
theory Decode
  imports DecodeTables Config
begin

text \<open>
  Decoding a basic block: \<open>processOpc\<close> and \<open>dbrew_decode\<close> of \<open>src/decode.c\<close>, with the
  lazy allocation of \<open>initRewriter\<close> (\<open>src/engine.c\<close>).

  The loop of \<open>dbrew_decode\<close> runs until a handler requests the exit or an error is set. It
  is a partial function here; \<open>DecodeLoop\<close> shows that it never runs forever
  because each turn uses up a slot of the decode buffer.
\<close>

section \<open>Allocation\<close>

text \<open>\<open>initRewriter\<close>: allocate missing arrays with default capacities and reset all
  counts. \<open>mmap_result\<close> is the region a new code storage would get.\<close>

definition initRewriter :: "u64 option \<Rightarrow> rewriter \<Rightarrow> rewriter option" where
  "initRewriter mmap_result r = do {
     let r = (if \<not> dec_alloc r
       then r\<lparr>decInstrCapacity := (if decInstrCapacity r = 0 then 500 else decInstrCapacity r),
              decBBCapacity := (if decBBCapacity r = 0 then 50 else decBBCapacity r),
              dec_alloc := True\<rparr>
       else r);
     let r = r\<lparr>decInstr := [], decBB := []\<rparr>;
     let r = (if \<not> cap_alloc r
       then r\<lparr>capInstrCapacity := (if capInstrCapacity r = 0 then 500 else capInstrCapacity r),
              capBBCapacity := (if capBBCapacity r = 0 then 50 else capBBCapacity r),
              cap_alloc := True\<rparr>
       else r);
     let r = r\<lparr>capInstr := [], capBB := [], currentCapBB := None, genOrder := []\<rparr>;
     r \<leftarrow> (if r_cs r = None then do {
             let r = (if capCodeCapacity r = 0 then r\<lparr>capCodeCapacity := 3000\<rparr> else r);
             buf \<leftarrow> mmap_result;
             Some (r\<lparr>r_cs := Some \<lparr>cs_size = int (capCodeCapacity r),
               cs_fullsize = (int (capCodeCapacity r) + 4095) div 4096 * 4096,
               cs_used = 0, cs_buf = buf\<rparr>\<rparr>) }
           else Some r);
     let r = r\<lparr>r_cs := map_option (cs_used_update (\<lambda>_. 0)) (r_cs r),
             generatedCodeAddr := 0, generatedCodeSize := 0\<rparr>;
     Some (if ePool r = None then r\<lparr>ePool := Some (expr_allocPool 1000)\<rparr> else r) }"

section \<open>One instruction\<close>

definition defaultVT :: "dctx \<Rightarrow> valtype" where
  "defaultVT c = (if ps c AND PS_66 \<noteq> 0 then VT_16
     else if rexbit c REX_MASK_W then VT_64 else VT_32)"

text \<open>Run the handlers of an entry until one sets an error.\<close>

definition runHandlers ::
  "dechandler \<Rightarrow> dechandler option \<Rightarrow> dechandler option \<Rightarrow> dechandler" where
  "runHandlers h1 h2 h3 c = do {
     c \<leftarrow> h1 c;
     (if isErrorSet (d_err c) then Some c
      else (case h2 of None \<Rightarrow> Some c
        | Some h2 \<Rightarrow> do {
            c \<leftarrow> h2 c;
            (if isErrorSet (d_err c) then Some c
             else (case h3 of None \<Rightarrow> Some c | Some h3 \<Rightarrow> h3 c)) })) }"

definition runEntry :: "dechandler opcentry \<Rightarrow> dechandler" where
  "runEntry e c = do {
     h1 \<leftarrow> oe_h1 e;
     let c = c\<lparr>d_it := oe_it e,
               d_vt := (if oe_vt e = VT_Def then defaultVT c else oe_vt e)\<rparr>;
     runHandlers h1 (oe_h2 e) (oe_h3 e) c }"

definition processOpc :: "dechandler opctables \<Rightarrow> opcinfo \<Rightarrow> dechandler" where
  "processOpc tb oi c =
     (case oi_t oi of
        OT_Invalid \<Rightarrow> markDecodeError False ET_BadOpcode c
      | OT_Single \<Rightarrow> runEntry (opcEntry tb (oi_eStart oi)) c
      | OT_Four \<Rightarrow>
          (let off = psOffset (ps c) in
           if off < 4 then
             (let e = opcEntry tb (oi_eStart oi + off) in
              if oe_h1 e = None then markDecodeError False ET_BadPrefix c else runEntry e c)
           else None)
      | OT_Group \<Rightarrow>
          (let off = unat (drop_bit 3 (d_mem c (d_ptr c) AND 56));
               e = opcEntry tb (oi_eStart oi + off) in
           if oe_h1 e = None then markDecodeError True ET_BadOpcode c else runEntry e c))"

definition fetch :: "dctx \<Rightarrow> nat \<times> dctx" where
  "fetch c = (unat (d_mem c (d_ptr c)), skip_bytes 1 c)"

text \<open>The opcode bytes select the table; the loop body of \<open>dbrew_decode\<close>.\<close>

definition decodeOpcode :: "dechandler opctables \<Rightarrow> dechandler" where
  "decodeOpcode tb c =
     (if d_vex c = VEX_128 \<or> d_vex c = VEX_256 then do {
        c_assert (opc1 c = 0x0F);
        let (b, c) = fetch c;
        let c = c\<lparr>opc2 := int b\<rparr>;
        processOpc tb (opcTables tb (if d_vex c = VEX_128 then TAB_0F_V128 else TAB_0F_V256) b) c }
      else
        (let (b, c) = fetch c; c = c\<lparr>opc1 := int b\<rparr> in
         if b = 0x0F then
           (let (b, c) = fetch c; c = c\<lparr>opc2 := int b\<rparr> in
            processOpc tb (opcTables tb TAB_0F b) c)
         else processOpc tb (opcTables tb TAB b) c))"

definition decodeStep :: "dechandler opctables \<Rightarrow> dechandler" where
  "decodeStep tb c = do { c \<leftarrow> decodePrefixes c; decodeOpcode tb c }"

section \<open>A basic block\<close>

partial_function (option) decodeLoop ::
  "dechandler opctables \<Rightarrow> dctx \<Rightarrow> dctx option" where
  "decodeLoop tb c =
     (if d_exit c then Some c
      else do {
        c \<leftarrow> decodeStep tb c;
        (if isErrorSet (d_err c) then Some c else decodeLoop tb c) })"

definition dctx0 :: "rewriter \<Rightarrow> nat \<Rightarrow> u64 \<Rightarrow> dctx" where
  "dctx0 r bb f = \<lparr>d_r = r, d_dbb = bb, d_f = f, d_off = 0, d_iaddr = 0, d_vex = VEX_No,
     vex_vvvv = -1, hasRex = False, rex = 0, ps = PS_No, segOv = OSO_None, d_vt = VT_None,
     opc1 = -1, opc2 = -1, o1 = op0, o2 = op0, o3 = op0, d_oe = OE_Invalid, digit = 0,
     d_it = IT_None, d_ii = None, d_exit = False,
     d_err = \<lparr>em = EM_Unknown, et = ET_NoError, desc = None, de_dbb = None, de_offset = 0\<rparr>\<rparr>"

text \<open>
  \<open>initDContext\<close>. The members that the code leaves uninitialised are zero in \<open>dctx0\<close>; a
  handler writes them before it reads them, except for \<open>digit\<close>, which may appear in the
  text of an error.
\<close>

definition initDContext :: "rewriter \<Rightarrow> nat \<Rightarrow> u64 \<Rightarrow> dctx" where
  "initDContext r bb f = dctx0 r bb f"

text \<open>The index of the block that starts at \<open>f\<close>, if it was decoded before.\<close>

primrec findDBB :: "u64 \<Rightarrow> dbb list \<Rightarrow> nat option" where
  "findDBB f [] = None"
| "findDBB f (b # bs) = (if dbb_addr b = f then Some 0 else map_option Suc (findDBB f bs))"

text \<open>
  \<open>dbrew_decode\<close>: no block for address 0, the known block for an address seen before, a
  new block otherwise. The result carries the decode context's error for the caller of the
  model; the code only prints it.
\<close>

definition dbrew_decode ::
  "dechandler opctables \<Rightarrow> u64 option \<Rightarrow> rewriter \<Rightarrow> u64
     \<Rightarrow> (nat option \<times> decodeerror option \<times> rewriter) option" where
  "dbrew_decode tb mmap_result r f =
     (if f = 0 then Some (None, None, r) else do {
        r \<leftarrow> (if dec_alloc r then Some r else initRewriter mmap_result r);
        (case findDBB f (decBB r) of
           Some k \<Rightarrow> Some (Some k, None, r)
         | None \<Rightarrow> do {
             c_assert (length (decBB r) < decBBCapacity r);
             let bb = length (decBB r);
             let old_icount = length (decInstr r);
             (fc, r) \<leftarrow> config_find_function r f;
             let r = r\<lparr>decBB := decBB r @
               [\<lparr>dbb_addr = f, dbb_fc = fc, dbb_size = 0, dbb_count = 0, dbb_instr = old_icount\<rparr>]\<rparr>;
             c \<leftarrow> decodeLoop tb (initDContext r bb f);
             let r = d_r c;
             c_assert (old_icount < length (decInstr r) \<and> iaddr (decInstr r ! old_icount) = f);
             Some (Some bb, (if isErrorSet (d_err c) then Some (d_err c) else None),
               r\<lparr>decBB := (decBB r)[bb := (decBB r ! bb)
                   \<lparr>dbb_count := length (decInstr r) - old_icount, dbb_size := d_off c\<rparr>]\<rparr>) }) })"

end
