(* ===== verification/DecodeProgress.thy ===== *)
theory DecodeProgress
  imports Decode
begin

text \<open>
  What the steps of the decoder do to the decode buffer, and that every table entry is
  such a step.

  A parsing step (\<open>parse_step\<close>) moves the read position and leaves the rewriter alone. An
  appending step (\<open>append_step\<close>) adds one instruction with the address and length of the
  bytes read, or adds none and leaves an error set. The collections \<open>parse_steps\<close> and
  \<open>append_steps\<close> hold one fact for each primitive step and each handler, and every entry of
  the opcode tables is an appending step. \<open>DecodeLoop\<close> draws the conclusion
  that decoding a block ends.
\<close>

named_theorems parse_steps \<open>steps that only read\<close>
named_theorems append_steps \<open>steps that append one instruction or report an error\<close>

section \<open>The two kinds of steps\<close>

definition parse_step :: "dctx \<Rightarrow> dctx \<Rightarrow> bool" where
  "parse_step c c' \<longleftrightarrow> d_r c' = d_r c \<and> d_err c' = d_err c \<and> d_f c' = d_f c \<and> d_dbb c' = d_dbb c
     \<and> d_iaddr c' = d_iaddr c \<and> d_off c \<le> d_off c'"

definition appended :: "dctx \<Rightarrow> dctx \<Rightarrow> instr list \<Rightarrow> bool" where
  "appended c c' is \<longleftrightarrow> d_r c' = (d_r c)\<lparr>decInstr := decInstr (d_r c) @ is\<rparr>
     \<and> length is \<le> 1 \<and> (is \<noteq> [] \<longrightarrow> decInstrCount c < decInstrCapacity (d_r c))
     \<and> (is = [] \<longrightarrow> isErrorSet (d_err c'))
     \<and> (\<forall>i \<in> set is. iaddr i = d_iaddr c \<and> ilen i = unat (d_ptr c' - d_iaddr c))"

definition append_step :: "dctx \<Rightarrow> dctx \<Rightarrow> bool" where
  "append_step c c' \<longleftrightarrow> d_f c' = d_f c \<and> d_dbb c' = d_dbb c \<and> d_iaddr c' = d_iaddr c
     \<and> d_off c \<le> d_off c' \<and> (\<exists>is. appended c c' is)"

text \<open>An appending step that leaves the new instruction in \<open>c->ii\<close>, or a null pointer.\<close>

definition append_ii :: "dctx \<Rightarrow> dctx \<Rightarrow> bool" where
  "append_ii c c' \<longleftrightarrow> append_step c c' \<and>
     (d_ii c' = None \<or> d_ii c' = Some (decInstrCount c) \<and> decInstrCount c < decInstrCount c')"

lemma parse_step_refl [simp]: "parse_step c c"
  by (simp add: parse_step_def)

lemma parse_step_trans: "parse_step b c \<Longrightarrow> parse_step a b \<Longrightarrow> parse_step a c"
  by (simp add: parse_step_def)

lemma parse_append_trans: "append_step b c \<Longrightarrow> parse_step a b \<Longrightarrow> append_step a c"
  by (auto simp: parse_step_def append_step_def appended_def)

lemma parse_ii_trans: "append_ii b c \<Longrightarrow> parse_step a b \<Longrightarrow> append_ii a c"
  by (auto simp: append_ii_def parse_append_trans) (simp_all add: parse_step_def)

lemma append_iiD: "append_ii c c' \<Longrightarrow> append_step c c'"
  by (simp add: append_ii_def)

text \<open>Members that neither kind of step looks at.\<close>

lemma parse_step_update [simp]:
  "parse_step (c\<lparr>o1 := x_o1\<rparr>) c' = parse_step c c'"
  "parse_step (c\<lparr>o2 := x_o2\<rparr>) c' = parse_step c c'"
  "parse_step (c\<lparr>o3 := x_o3\<rparr>) c' = parse_step c c'"
  "parse_step (c\<lparr>d_it := x_d_it\<rparr>) c' = parse_step c c'"
  "parse_step (c\<lparr>d_vt := x_d_vt\<rparr>) c' = parse_step c c'"
  "parse_step (c\<lparr>d_oe := x_d_oe\<rparr>) c' = parse_step c c'"
  "parse_step (c\<lparr>digit := x_digit\<rparr>) c' = parse_step c c'"
  "parse_step (c\<lparr>ps := x_ps\<rparr>) c' = parse_step c c'"
  "parse_step (c\<lparr>d_exit := x_d_exit\<rparr>) c' = parse_step c c'"
  "parse_step (c\<lparr>opc1 := x_opc1\<rparr>) c' = parse_step c c'"
  "parse_step (c\<lparr>opc2 := x_opc2\<rparr>) c' = parse_step c c'"
  "parse_step (c\<lparr>d_ii := x_d_ii\<rparr>) c' = parse_step c c'"
  "parse_step c (c'\<lparr>o1 := x_o1\<rparr>) = parse_step c c'"
  "parse_step c (c'\<lparr>o2 := x_o2\<rparr>) = parse_step c c'"
  "parse_step c (c'\<lparr>o3 := x_o3\<rparr>) = parse_step c c'"
  "parse_step c (c'\<lparr>d_it := x_d_it\<rparr>) = parse_step c c'"
  "parse_step c (c'\<lparr>d_vt := x_d_vt\<rparr>) = parse_step c c'"
  "parse_step c (c'\<lparr>d_oe := x_d_oe\<rparr>) = parse_step c c'"
  "parse_step c (c'\<lparr>digit := x_digit\<rparr>) = parse_step c c'"
  "parse_step c (c'\<lparr>ps := x_ps\<rparr>) = parse_step c c'"
  "parse_step c (c'\<lparr>d_exit := x_d_exit\<rparr>) = parse_step c c'"
  "parse_step c (c'\<lparr>opc1 := x_opc1\<rparr>) = parse_step c c'"
  "parse_step c (c'\<lparr>opc2 := x_opc2\<rparr>) = parse_step c c'"
  "parse_step c (c'\<lparr>d_ii := x_d_ii\<rparr>) = parse_step c c'"
  by (simp_all add: parse_step_def)

lemma append_step_update [simp]:
  "append_step (c\<lparr>o1 := x_o1\<rparr>) c' = append_step c c'"
  "append_step (c\<lparr>o2 := x_o2\<rparr>) c' = append_step c c'"
  "append_step (c\<lparr>o3 := x_o3\<rparr>) c' = append_step c c'"
  "append_step (c\<lparr>d_it := x_d_it\<rparr>) c' = append_step c c'"
  "append_step (c\<lparr>d_vt := x_d_vt\<rparr>) c' = append_step c c'"
  "append_step (c\<lparr>d_oe := x_d_oe\<rparr>) c' = append_step c c'"
  "append_step (c\<lparr>digit := x_digit\<rparr>) c' = append_step c c'"
  "append_step (c\<lparr>ps := x_ps\<rparr>) c' = append_step c c'"
  "append_step (c\<lparr>d_exit := x_d_exit\<rparr>) c' = append_step c c'"
  "append_step (c\<lparr>opc1 := x_opc1\<rparr>) c' = append_step c c'"
  "append_step (c\<lparr>opc2 := x_opc2\<rparr>) c' = append_step c c'"
  "append_step (c\<lparr>d_ii := x_d_ii\<rparr>) c' = append_step c c'"
  "append_step c (c'\<lparr>o1 := x_o1\<rparr>) = append_step c c'"
  "append_step c (c'\<lparr>o2 := x_o2\<rparr>) = append_step c c'"
  "append_step c (c'\<lparr>o3 := x_o3\<rparr>) = append_step c c'"
  "append_step c (c'\<lparr>d_it := x_d_it\<rparr>) = append_step c c'"
  "append_step c (c'\<lparr>d_vt := x_d_vt\<rparr>) = append_step c c'"
  "append_step c (c'\<lparr>d_oe := x_d_oe\<rparr>) = append_step c c'"
  "append_step c (c'\<lparr>digit := x_digit\<rparr>) = append_step c c'"
  "append_step c (c'\<lparr>ps := x_ps\<rparr>) = append_step c c'"
  "append_step c (c'\<lparr>d_exit := x_d_exit\<rparr>) = append_step c c'"
  "append_step c (c'\<lparr>opc1 := x_opc1\<rparr>) = append_step c c'"
  "append_step c (c'\<lparr>opc2 := x_opc2\<rparr>) = append_step c c'"
  "append_step c (c'\<lparr>d_ii := x_d_ii\<rparr>) = append_step c c'"
  by (simp_all add: append_step_def appended_def)

lemma append_ii_update [simp]:
  "append_ii (c\<lparr>o1 := x_o1\<rparr>) c' = append_ii c c'"
  "append_ii (c\<lparr>o2 := x_o2\<rparr>) c' = append_ii c c'"
  "append_ii (c\<lparr>o3 := x_o3\<rparr>) c' = append_ii c c'"
  "append_ii (c\<lparr>d_it := x_d_it\<rparr>) c' = append_ii c c'"
  "append_ii (c\<lparr>d_vt := x_d_vt\<rparr>) c' = append_ii c c'"
  "append_ii (c\<lparr>d_oe := x_d_oe\<rparr>) c' = append_ii c c'"
  "append_ii (c\<lparr>digit := x_digit\<rparr>) c' = append_ii c c'"
  "append_ii (c\<lparr>ps := x_ps\<rparr>) c' = append_ii c c'"
  "append_ii (c\<lparr>d_exit := x_d_exit\<rparr>) c' = append_ii c c'"
  "append_ii (c\<lparr>opc1 := x_opc1\<rparr>) c' = append_ii c c'"
  "append_ii (c\<lparr>opc2 := x_opc2\<rparr>) c' = append_ii c c'"
  "append_ii c (c'\<lparr>o1 := x_o1\<rparr>) = append_ii c c'"
  "append_ii c (c'\<lparr>o2 := x_o2\<rparr>) = append_ii c c'"
  "append_ii c (c'\<lparr>o3 := x_o3\<rparr>) = append_ii c c'"
  "append_ii c (c'\<lparr>d_it := x_d_it\<rparr>) = append_ii c c'"
  "append_ii c (c'\<lparr>d_vt := x_d_vt\<rparr>) = append_ii c c'"
  "append_ii c (c'\<lparr>d_oe := x_d_oe\<rparr>) = append_ii c c'"
  "append_ii c (c'\<lparr>digit := x_digit\<rparr>) = append_ii c c'"
  "append_ii c (c'\<lparr>ps := x_ps\<rparr>) = append_ii c c'"
  "append_ii c (c'\<lparr>d_exit := x_d_exit\<rparr>) = append_ii c c'"
  "append_ii c (c'\<lparr>opc1 := x_opc1\<rparr>) = append_ii c c'"
  "append_ii c (c'\<lparr>opc2 := x_opc2\<rparr>) = append_ii c c'"
  by (simp_all add: append_ii_def)

section \<open>Primitive steps\<close>

lemma parse_step_skip [simp]: "parse_step c (skip_bytes n c)"
  by (simp add: parse_step_def skip_bytes_def)

lemma parse_step_skipI: "parse_step c c' \<Longrightarrow> parse_step c (skip_bytes n c')"
  by (simp add: parse_step_def skip_bytes_def)

lemma parse_step_parseMem: "parseMem md rm vt rts p c = Some (q, c') \<Longrightarrow> parse_step c c'"
  by (auto simp: parseMem_def Let_def elim!: bind_SomeE split: if_splits intro!: parse_step_skipI)

lemma parse_step_parseModRM:
  "parseModRM c vt rts p has2 q = Some (p', q', d, c') \<Longrightarrow> parse_step c c'"
  by (auto simp: parseModRM_def Let_def elim!: bind_SomeE split: if_splits prod.splits
      dest!: parse_step_parseMem intro: parse_step_trans [OF _ parse_step_skip])

lemma parse_step_parseImm: "parseImm vt real64 p c = Some (q, c') \<Longrightarrow> parse_step c c'"
  by (auto simp: parseImm_def Let_def split: valtype.splits if_splits)

lemma parse_modrm_o2_o1 [parse_steps]: "modrm_o2_o1 vt rts c = Some c' \<Longrightarrow> parse_step c c'"
  by (auto simp: modrm_o2_o1_def bind_eq_Some_conv dest: parse_step_parseModRM)

lemma parse_modrm_o1_o2 [parse_steps]: "modrm_o1_o2 vt rts c = Some c' \<Longrightarrow> parse_step c c'"
  by (auto simp: modrm_o1_o2_def bind_eq_Some_conv dest: parse_step_parseModRM)

lemma parse_modrm_o3_o1 [parse_steps]: "modrm_o3_o1 vt rts c = Some c' \<Longrightarrow> parse_step c c'"
  by (auto simp: modrm_o3_o1_def bind_eq_Some_conv dest: parse_step_parseModRM)

lemma parse_modrm_o1 [parse_steps]: "modrm_o1 vt rts c = Some c' \<Longrightarrow> parse_step c c'"
  by (auto simp: modrm_o1_def bind_eq_Some_conv dest: parse_step_parseModRM)

lemma parse_modrm_o1_digit [parse_steps]: "modrm_o1_digit vt rts c = Some c' \<Longrightarrow> parse_step c c'"
  by (auto simp: modrm_o1_digit_def bind_eq_Some_conv dest: parse_step_parseModRM)

lemma parse_imm_o1 [parse_steps]: "imm_o1 vt real64 c = Some c' \<Longrightarrow> parse_step c c'"
  by (auto simp: imm_o1_def bind_eq_Some_conv dest: parse_step_parseImm)

lemma parse_imm_o2 [parse_steps]: "imm_o2 vt real64 c = Some c' \<Longrightarrow> parse_step c c'"
  by (auto simp: imm_o2_def bind_eq_Some_conv dest: parse_step_parseImm)

lemma parse_imm_o3 [parse_steps]: "imm_o3 vt real64 c = Some c' \<Longrightarrow> parse_step c c'"
  by (auto simp: imm_o3_def bind_eq_Some_conv dest: parse_step_parseImm)

lemma parse_retype_o1 [parse_steps]: "retype_o1 vt c = Some c' \<Longrightarrow> parse_step c c'"
  by (auto simp: retype_o1_def bind_eq_Some_conv)

lemma parse_retype_o2 [parse_steps]: "retype_o2 vt c = Some c' \<Longrightarrow> parse_step c c'"
  by (auto simp: retype_o2_def bind_eq_Some_conv)

lemma parse_rel [simp]: "parse_step c (rel32_o1 c)" "parse_step c (rel8_o1 c)"
  by (simp_all add: rel32_o1_def rel8_o1_def parse_step_skipI)

lemma nextInstrForDContext_step:
  assumes "nextInstrForDContext c = (i, c')"
  shows "(i = None \<and> append_step c c') \<or>
    (i = Some (decInstrCount c) \<and> append_step c c' \<and> decInstrCount c < decInstrCount c')"
proof (cases "decInstrCount c < decInstrCapacity (d_r c)")
  case True
  then show ?thesis using assms
    by (auto simp: nextInstrForDContext_def nextInstr_def append_step_def appended_def)
next
  case False
  then show ?thesis using assms
    by (auto simp: nextInstrForDContext_def nextInstr_def append_step_def appended_def
        setDecodeError_def setError_def isErrorSet_def)
qed

text \<open>Writing the new instruction, its address and length kept, stays within the step.\<close>

lemma append_step_set:
  assumes a: "append_step c c'" and k: "k = decInstrCount c" "k < decInstrCount c'"
    and i: "iaddr i = iaddr (decInstr (d_r c') ! k)" "ilen i = ilen (decInstr (d_r c') ! k)"
  shows "append_step c (setDecInstr k i c')" and "k < decInstrCount (setDecInstr k i c')"
proof -
  from a obtain xs where xs: "appended c c' xs" by (auto simp: append_step_def)
  then have "xs \<noteq> []" using k by (auto simp: appended_def)
  then obtain x where x: "xs = [x]" using xs by (cases xs) (auto simp: appended_def)
  have upd: "(decInstr (d_r c'))[k := i] = decInstr (d_r c) @ [i]"
    using xs k by (simp add: x appended_def list_update_append)
  have "appended c (setDecInstr k i c') [i]"
    using xs k i upd by (simp add: x appended_def setDecInstr_def)
  with a show "append_step c (setDecInstr k i c')"
    by (auto simp: append_step_def setDecInstr_def)
  show "k < decInstrCount (setDecInstr k i c')" using k by (simp add: setDecInstr_def)
qed

lemma add_result:
  assumes "nextInstrForDContext c = (Some k, c1)"
    and "iaddr i = iaddr (decInstr (d_r c1) ! k)" "ilen i = ilen (decInstr (d_r c1) ! k)"
  shows "append_step c (setDecInstr k i c1)" and "k = decInstrCount c"
    and "decInstrCount c < decInstrCount (setDecInstr k i c1)"
  using nextInstrForDContext_step [OF assms(1)] append_step_set [of c c1 k i] assms(2,3) by auto

lemma add_none: "nextInstrForDContext c = (None, c') \<Longrightarrow> append_step c c'"
  using nextInstrForDContext_step by blast

lemma addSimple_step:
  assumes "addSimple it vt c = Some (i, c')"
  shows "append_step c c' \<and>
    (i = None \<or> i = Some (decInstrCount c) \<and> decInstrCount c < decInstrCount c')"
proof (cases "nextInstrForDContext c")
  case (Pair j c1)
  then show ?thesis using assms
    by (cases j) (auto simp: addSimple_def Let_def add_none elim!: bind_SomeE intro!: add_result
        dest: add_result(2))
qed

lemma addUnaryOp_step:
  assumes "addUnaryOp it p c = Some (i, c')"
  shows "append_step c c' \<and>
    (i = None \<or> i = Some (decInstrCount c) \<and> decInstrCount c < decInstrCount c')"
proof (cases "nextInstrForDContext c")
  case (Pair j c1)
  then show ?thesis using assms
    by (cases j) (auto simp: addUnaryOp_def Let_def add_none elim!: bind_SomeE intro!: add_result
        dest: add_result(2))
qed

lemma addBinaryOp_step:
  assumes "addBinaryOp it vt p1 p2 c = Some (i, c')"
  shows "append_step c c' \<and>
    (i = None \<or> i = Some (decInstrCount c) \<and> decInstrCount c < decInstrCount c')"
proof (cases "nextInstrForDContext c")
  case (Pair j c1)
  then show ?thesis using assms
    by (cases j) (auto simp: addBinaryOp_def Let_def add_none elim!: bind_SomeE intro!: add_result
        dest: add_result(2))
qed

lemma addTernaryOp_step:
  assumes "addTernaryOp it vt p1 p2 p3 c = Some (i, c')"
  shows "append_step c c' \<and>
    (i = None \<or> i = Some (decInstrCount c) \<and> decInstrCount c < decInstrCount c')"
proof (cases "nextInstrForDContext c")
  case (Pair j c1)
  then show ?thesis using assms
    by (cases j) (auto simp: addTernaryOp_def Let_def add_none elim!: bind_SomeE intro!: add_result
        dest: add_result(2))
qed

lemma append_addS [append_steps]: "addS it vt c = Some c' \<Longrightarrow> append_step c c'"
  by (auto simp: addS_def bind_eq_Some_conv dest: addSimple_step)

lemma append_addS_ii: "addS_ii it vt c = Some c' \<Longrightarrow> append_ii c c'"
  by (auto simp: addS_ii_def append_ii_def bind_eq_Some_conv dest: addSimple_step)

lemma append_addU [append_steps]: "addU it p c = Some c' \<Longrightarrow> append_step c c'"
  by (auto simp: addU_def bind_eq_Some_conv dest: addUnaryOp_step)

lemma append_addU_ii: "addU_ii it p c = Some c' \<Longrightarrow> append_ii c c'"
  by (auto simp: addU_ii_def append_ii_def bind_eq_Some_conv dest: addUnaryOp_step)

lemma append_addB [append_steps]: "addB it vt c = Some c' \<Longrightarrow> append_step c c'"
  by (auto simp: addB_def bind_eq_Some_conv dest: addBinaryOp_step)

lemma append_addB_ii: "addB_ii it vt c = Some c' \<Longrightarrow> append_ii c c'"
  by (auto simp: addB_ii_def append_ii_def bind_eq_Some_conv dest: addBinaryOp_step)

lemma append_addT_ii: "addT_ii it vt c = Some c' \<Longrightarrow> append_ii c c'"
  by (auto simp: addT_ii_def append_ii_def bind_eq_Some_conv dest: addTernaryOp_step)

lemmas append_ii_steps = append_addS_ii append_addU_ii append_addB_ii append_addT_ii

lemma attachPassthrough_frame:
  "attachPassthrough i vp p enc sc b1 b2 b3 = Some j \<Longrightarrow> iaddr j = iaddr i \<and> ilen j = ilen i"
  by (auto simp: attachPassthrough_def Let_def elim!: bind_SomeE split: if_splits)

lemma append_attachII:
  assumes "attachII vp p enc sc b1 b2 b3 c1 = Some c'" and "append_ii c c1"
  shows "append_step c c'"
  using assms by (auto simp: attachII_def append_ii_def elim!: bind_SomeE
      dest!: attachPassthrough_frame intro!: append_step_set)

lemma append_attachII_ps:
  assumes "attachII vp p enc sc b1 b2 b3 (c1\<lparr>ps := q\<rparr>) = Some c'" and "append_ii c c1"
  shows "append_step c c'"
  using assms by (intro append_attachII [OF assms(1)]) simp

lemma append_setIIvtype:
  assumes "setIIvtype vt c1 = Some c'" and "append_ii c c1"
  shows "append_step c c'"
  using assms by (auto simp: setIIvtype_def append_ii_def intro!: append_step_set)

lemmas step_trans = parse_append_trans parse_ii_trans parse_step_trans append_attachII
  append_attachII_ps append_setIIvtype

lemma append_addB_sse [append_steps]:
  "addB_sse it p enc sc b2 c = Some c' \<Longrightarrow> append_step c c'"
  by (auto simp: addB_sse_def elim!: bind_SomeE elim: append_attachII dest!: append_addB_ii)

lemma decodeErrorText_error: "decodeErrorText c sd e = Some t \<Longrightarrow> e \<noteq> ET_NoError"
  by (rule notI) (simp add: decodeErrorText_def)

lemma append_markDecodeError [append_steps]:
  assumes "markDecodeError sd e c = Some c'"
  shows "append_step c c'"
proof -
  from assms obtain tx c1 where ne: "e \<noteq> ET_NoError" and c1: "addS IT_Invalid VT_None c = Some c1"
    and c': "c' = c1\<lparr>d_err := setDecodeError (d_err c1) tx e (Some (d_dbb c1)) (int (d_off c1))\<rparr>"
    by (auto simp: markDecodeError_def elim!: bind_SomeE dest: decodeErrorText_error)
  then have "isErrorSet (d_err c')"
    using ne by (simp add: c' isErrorSet_def setDecodeError_def setError_def)
  with append_addS [OF c1] show "append_step c c'"
    by (auto simp: append_step_def appended_def c')
qed

section \<open>Handlers\<close>

lemma parse_parseRM [parse_steps]: "parseRM c = Some c' \<Longrightarrow> parse_step c c'"
  by (auto simp: parseRM_def Let_def elim!: bind_SomeE split: if_splits prod.splits
      dest!: parse_steps; meson step_trans)

lemma parse_parseMR [parse_steps]: "parseMR c = Some c' \<Longrightarrow> parse_step c c'"
  by (auto simp: parseMR_def Let_def elim!: bind_SomeE split: if_splits prod.splits
      dest!: parse_steps; meson step_trans)

lemma parse_parseRMVV [parse_steps]: "parseRMVV c = Some c' \<Longrightarrow> parse_step c c'"
  by (auto simp: parseRMVV_def Let_def elim!: bind_SomeE split: if_splits prod.splits
      dest!: parse_steps; meson step_trans)

lemma parse_parseMRVV [parse_steps]: "parseMRVV c = Some c' \<Longrightarrow> parse_step c c'"
  by (auto simp: parseMRVV_def Let_def elim!: bind_SomeE split: if_splits prod.splits
      dest!: parse_steps; meson step_trans)

lemma parse_parseRVM [parse_steps]: "parseRVM c = Some c' \<Longrightarrow> parse_step c c'"
  by (auto simp: parseRVM_def Let_def elim!: bind_SomeE split: if_splits prod.splits
      dest!: parse_steps; meson step_trans)

lemma parse_parseI2 [parse_steps]: "parseI2 c = Some c' \<Longrightarrow> parse_step c c'"
  by (auto simp: parseI2_def Let_def elim!: bind_SomeE split: if_splits prod.splits
      dest!: parse_steps; meson step_trans)

lemma parse_parseI3 [parse_steps]: "parseI3 c = Some c' \<Longrightarrow> parse_step c c'"
  by (auto simp: parseI3_def Let_def elim!: bind_SomeE split: if_splits prod.splits
      dest!: parse_steps; meson step_trans)

lemma parse_parseI3_8se [parse_steps]: "parseI3_8se c = Some c' \<Longrightarrow> parse_step c c'"
  by (auto simp: parseI3_8se_def Let_def elim!: bind_SomeE split: if_splits prod.splits
      dest!: parse_steps; meson step_trans)

lemma parse_setO1RegA [parse_steps]: "setO1RegA c = Some c' \<Longrightarrow> parse_step c c'"
  by (auto simp: setO1RegA_def Let_def elim!: bind_SomeE split: if_splits prod.splits
      dest!: parse_steps; meson step_trans)

lemma parse_parseMI [parse_steps]: "parseMI c = Some c' \<Longrightarrow> parse_step c c'"
  by (auto simp: parseMI_def Let_def elim!: bind_SomeE split: if_splits prod.splits
      dest!: parse_steps; meson step_trans)

lemma parse_parseMI_8se [parse_steps]: "parseMI_8se c = Some c' \<Longrightarrow> parse_step c c'"
  by (auto simp: parseMI_8se_def Let_def elim!: bind_SomeE split: if_splits prod.splits
      dest!: parse_steps; meson step_trans)

lemma parse_stackOp_o1 [parse_steps]: "stackOp_o1 c = Some c' \<Longrightarrow> parse_step c c'"
  by (auto simp: stackOp_o1_def Let_def elim!: bind_SomeE split: if_splits prod.splits
      dest!: parse_steps; meson step_trans)

lemma parse_set_o2_cl [parse_steps]: "set_o2_cl c = Some c' \<Longrightarrow> parse_step c c'"
  by (auto simp: set_o2_cl_def Let_def elim!: bind_SomeE split: if_splits prod.splits
      dest!: parse_steps; meson step_trans)

lemma parse_reqExit [parse_steps]: "reqExit c = Some c' \<Longrightarrow> parse_step c c'"
  by (auto simp: reqExit_def Let_def elim!: bind_SomeE split: if_splits prod.splits
      dest!: parse_steps; meson step_trans)

lemma append_addSInstr: "addSInstr c = Some c' \<Longrightarrow> append_ii c c'"
  by (simp add: addSInstr_def append_ii_steps)

lemma append_addBInstr: "addBInstr c = Some c' \<Longrightarrow> append_ii c c'"
  by (simp add: addBInstr_def append_ii_steps)

lemma append_addBInsImp: "addBInsImp c = Some c' \<Longrightarrow> append_ii c c'"
  by (simp add: addBInsImp_def append_ii_steps)

lemma append_addTInstr: "addTInstr c = Some c' \<Longrightarrow> append_ii c c'"
  by (simp add: addTInstr_def append_ii_steps)

lemma append_addTInsImp: "addTInsImp c = Some c' \<Longrightarrow> append_ii c c'"
  by (simp add: addTInsImp_def append_ii_steps)

lemma append_addShiftB [append_steps]: "addShiftB c = Some c' \<Longrightarrow> append_step c c'"
  by (auto simp: addShiftB_def Let_def elim!: bind_SomeE split: if_splits option.splits
      dest!: parse_steps append_steps; meson step_trans)

lemma append_addShiftU [append_steps]: "addShiftU c = Some c' \<Longrightarrow> append_step c c'"
  by (auto simp: addShiftU_def Let_def elim!: bind_SomeE split: if_splits option.splits
      dest!: parse_steps append_steps; meson step_trans)

lemma append_group3 [append_steps]: "group3 c = Some c' \<Longrightarrow> append_step c c'"
  by (auto simp: group3_def Let_def elim!: bind_SomeE split: if_splits option.splits
      dest!: parse_steps append_steps; meson step_trans)

lemma append_decode0F_12 [append_steps]: "decode0F_12 c = Some c' \<Longrightarrow> append_step c c'"
  by (auto simp: decode0F_12_def Let_def elim!: bind_SomeE split: if_splits option.splits
      dest!: parse_steps append_steps; meson step_trans)

lemma append_decode0F_13 [append_steps]: "decode0F_13 c = Some c' \<Longrightarrow> append_step c c'"
  by (auto simp: decode0F_13_def Let_def elim!: bind_SomeE split: if_splits option.splits
      dest!: parse_steps append_steps; meson step_trans)

lemma append_decode0F_14 [append_steps]: "decode0F_14 c = Some c' \<Longrightarrow> append_step c c'"
  by (auto simp: decode0F_14_def Let_def elim!: bind_SomeE split: if_splits option.splits
      dest!: parse_steps append_steps; meson step_trans)

lemma append_decode0F_15 [append_steps]: "decode0F_15 c = Some c' \<Longrightarrow> append_step c c'"
  by (auto simp: decode0F_15_def Let_def elim!: bind_SomeE split: if_splits option.splits
      dest!: parse_steps append_steps; meson step_trans)

lemma append_decode0F_16 [append_steps]: "decode0F_16 c = Some c' \<Longrightarrow> append_step c c'"
  by (auto simp: decode0F_16_def Let_def elim!: bind_SomeE split: if_splits option.splits
      dest!: parse_steps append_steps; meson step_trans)

lemma append_decode0F_17 [append_steps]: "decode0F_17 c = Some c' \<Longrightarrow> append_step c c'"
  by (auto simp: decode0F_17_def Let_def elim!: bind_SomeE split: if_splits option.splits
      dest!: parse_steps append_steps; meson step_trans)

lemma append_decode0F_1F [append_steps]: "decode0F_1F c = Some c' \<Longrightarrow> append_step c c'"
  by (auto simp: decode0F_1F_def Let_def elim!: bind_SomeE split: if_splits option.splits
      dest!: parse_steps append_steps; meson step_trans)

lemma append_decode0F_28 [append_steps]: "decode0F_28 c = Some c' \<Longrightarrow> append_step c c'"
  by (auto simp: decode0F_28_def Let_def elim!: bind_SomeE split: if_splits option.splits
      dest!: parse_steps append_steps; meson step_trans)

lemma append_decode0F_29 [append_steps]: "decode0F_29 c = Some c' \<Longrightarrow> append_step c c'"
  by (auto simp: decode0F_29_def Let_def elim!: bind_SomeE split: if_splits option.splits
      dest!: parse_steps append_steps; meson step_trans)

lemma append_decode0F_2E [append_steps]: "decode0F_2E c = Some c' \<Longrightarrow> append_step c c'"
  by (auto simp: decode0F_2E_def Let_def elim!: bind_SomeE split: if_splits option.splits
      dest!: parse_steps append_steps; meson step_trans)

lemma append_decode0F_40 [append_steps]: "decode0F_40 c = Some c' \<Longrightarrow> append_step c c'"
  by (auto simp: decode0F_40_def Let_def elim!: bind_SomeE split: if_splits option.splits
      dest!: parse_steps append_steps; meson step_trans)

lemma append_decode0F_6E_P66 [append_steps]: "decode0F_6E_P66 c = Some c' \<Longrightarrow> append_step c c'"
  by (auto simp: decode0F_6E_P66_def Let_def elim!: bind_SomeE split: if_splits
      dest!: parse_steps append_addB_ii append_steps
     ; erule append_attachII_ps append_attachII, erule parse_ii_trans, assumption)

lemma append_decode0F_74 [append_steps]: "decode0F_74 c = Some c' \<Longrightarrow> append_step c c'"
  by (auto simp: decode0F_74_def Let_def elim!: bind_SomeE split: if_splits option.splits
      dest!: parse_steps append_steps; meson step_trans)

lemma append_decode0F_7E [append_steps]: "decode0F_7E c = Some c' \<Longrightarrow> append_step c c'"
  by (auto simp: decode0F_7E_def Let_def elim!: bind_SomeE split: if_splits
      dest!: parse_steps append_addB_ii append_steps
     ; erule append_attachII_ps append_attachII, erule parse_ii_trans, assumption)

lemma append_decode0F_7F [append_steps]: "decode0F_7F c = Some c' \<Longrightarrow> append_step c c'"
  by (auto simp: decode0F_7F_def Let_def elim!: bind_SomeE split: if_splits option.splits
      dest!: parse_steps append_steps; meson step_trans)

lemma append_decode0F_80 [append_steps]: "decode0F_80 c = Some c' \<Longrightarrow> append_step c c'"
  by (auto simp: decode0F_80_def Let_def elim!: bind_SomeE dest!: append_addU_ii; meson step_trans parse_rel)

lemma append_decode0F_B6 [append_steps]: "decode0F_B6 c = Some c' \<Longrightarrow> append_step c c'"
  by (auto simp: decode0F_B6_def Let_def elim!: bind_SomeE split: if_splits option.splits
      dest!: parse_steps append_steps; meson step_trans)

lemma append_decode0F_B7 [append_steps]: "decode0F_B7 c = Some c' \<Longrightarrow> append_step c c'"
  by (auto simp: decode0F_B7_def Let_def elim!: bind_SomeE split: if_splits option.splits
      dest!: parse_steps append_steps; meson step_trans)

lemma append_decode0F_BE [append_steps]: "decode0F_BE c = Some c' \<Longrightarrow> append_step c c'"
  by (auto simp: decode0F_BE_def Let_def elim!: bind_SomeE split: if_splits option.splits
      dest!: parse_steps append_steps; meson step_trans)

lemma append_decode0F_BF [append_steps]: "decode0F_BF c = Some c' \<Longrightarrow> append_step c c'"
  by (auto simp: decode0F_BF_def Let_def elim!: bind_SomeE split: if_splits option.splits
      dest!: parse_steps append_steps; meson step_trans)

lemma append_decode0F_D4 [append_steps]: "decode0F_D4 c = Some c' \<Longrightarrow> append_step c c'"
  by (auto simp: decode0F_D4_def Let_def elim!: bind_SomeE split: if_splits option.splits
      dest!: parse_steps append_steps; meson step_trans)

lemma append_decode0F_D6 [append_steps]: "decode0F_D6 c = Some c' \<Longrightarrow> append_step c c'"
  by (auto simp: decode0F_D6_def Let_def elim!: bind_SomeE split: if_splits option.splits
      dest!: parse_steps append_steps; meson step_trans)

lemma append_decode0F_D7 [append_steps]: "decode0F_D7 c = Some c' \<Longrightarrow> append_step c c'"
  by (auto simp: decode0F_D7_def Let_def elim!: bind_SomeE split: if_splits
      dest!: parse_steps append_addB_ii append_steps
     ; meson step_trans)

lemma append_decode0F_DA [append_steps]: "decode0F_DA c = Some c' \<Longrightarrow> append_step c c'"
  by (auto simp: decode0F_DA_def Let_def elim!: bind_SomeE split: if_splits option.splits
      dest!: parse_steps append_steps; meson step_trans)

lemma append_decode0F_EF [append_steps]: "decode0F_EF c = Some c' \<Longrightarrow> append_step c c'"
  by (auto simp: decode0F_EF_def Let_def elim!: bind_SomeE split: if_splits option.splits
      dest!: parse_steps append_steps; meson step_trans)

lemma append_decode_50 [append_steps]: "decode_50 c = Some c' \<Longrightarrow> append_step c c'"
  by (auto simp: decode_50_def Let_def elim!: bind_SomeE split: if_splits option.splits
      dest!: parse_steps append_steps; meson step_trans)

lemma append_decode_58 [append_steps]: "decode_58 c = Some c' \<Longrightarrow> append_step c c'"
  by (auto simp: decode_58_def Let_def elim!: bind_SomeE split: if_splits option.splits
      dest!: parse_steps append_steps; meson step_trans)

lemma append_decode_63 [append_steps]: "decode_63 c = Some c' \<Longrightarrow> append_step c c'"
  by (auto simp: decode_63_def Let_def elim!: bind_SomeE split: if_splits option.splits
      dest!: parse_steps append_steps; meson step_trans)

lemma append_addPushImm [append_steps]: "addPushImm vt c = Some c' \<Longrightarrow> append_step c c'"
  by (auto simp: addPushImm_def elim!: bind_SomeE dest!: parse_steps addUnaryOp_step
      elim!: parse_append_trans [rotated] intro!: append_step_set)

lemma append_decode_68 [append_steps]: "decode_68 c = Some c' \<Longrightarrow> append_step c c'"
  by (auto simp: decode_68_def split: if_splits dest!: append_steps)

lemma append_decode_6A [append_steps]: "decode_6A c = Some c' \<Longrightarrow> append_step c c'"
  by (auto simp: decode_6A_def split: if_splits dest!: append_steps)

lemma append_decode_70 [append_steps]: "decode_70 c = Some c' \<Longrightarrow> append_step c c'"
  by (auto simp: decode_70_def Let_def elim!: bind_SomeE dest!: append_addU_ii; meson step_trans parse_rel)

lemma append_decode_8D [append_steps]: "decode_8D c = Some c' \<Longrightarrow> append_step c c'"
  by (auto simp: decode_8D_def Let_def elim!: bind_SomeE split: if_splits option.splits
      dest!: parse_steps append_steps; meson step_trans)

lemma append_decode_8F_0 [append_steps]: "decode_8F_0 c = Some c' \<Longrightarrow> append_step c c'"
  by (auto simp: decode_8F_0_def Let_def elim!: bind_SomeE split: if_splits option.splits
      dest!: parse_steps append_steps; meson step_trans)

lemma append_decode_98 [append_steps]: "decode_98 c = Some c' \<Longrightarrow> append_step c c'"
  by (auto simp: decode_98_def Let_def elim!: bind_SomeE split: if_splits option.splits
      dest!: parse_steps append_steps; meson step_trans)

lemma append_decode_99 [append_steps]: "decode_99 c = Some c' \<Longrightarrow> append_step c c'"
  by (auto simp: decode_99_def Let_def elim!: bind_SomeE split: if_splits option.splits
      dest!: parse_steps append_steps; meson step_trans)

lemma append_decode_9C [append_steps]: "decode_9C c = Some c' \<Longrightarrow> append_step c c'"
  by (auto simp: decode_9C_def Let_def elim!: bind_SomeE split: if_splits option.splits
      dest!: parse_steps append_steps; meson step_trans)

lemma append_decode_9D [append_steps]: "decode_9D c = Some c' \<Longrightarrow> append_step c c'"
  by (auto simp: decode_9D_def Let_def elim!: bind_SomeE split: if_splits option.splits
      dest!: parse_steps append_steps; meson step_trans)

lemma append_decode_B0 [append_steps]: "decode_B0 c = Some c' \<Longrightarrow> append_step c c'"
  by (auto simp: decode_B0_def Let_def elim!: bind_SomeE split: if_splits option.splits
      dest!: parse_steps append_steps; meson step_trans)

lemma append_decode_C0 [append_steps]: "decode_C0 c = Some c' \<Longrightarrow> append_step c c'"
  by (auto simp: decode_C0_def Let_def elim!: bind_SomeE split: if_splits option.splits
      dest!: parse_steps append_steps; meson step_trans)

lemma append_decode_C1 [append_steps]: "decode_C1 c = Some c' \<Longrightarrow> append_step c c'"
  by (auto simp: decode_C1_def Let_def elim!: bind_SomeE split: if_splits option.splits
      dest!: parse_steps append_steps; meson step_trans)

lemma append_decode_C6 [append_steps]: "decode_C6 c = Some c' \<Longrightarrow> append_step c c'"
  by (auto simp: decode_C6_def Let_def elim!: bind_SomeE split: if_splits option.splits
      dest!: parse_steps append_steps; meson step_trans)

lemma append_decode_C7 [append_steps]: "decode_C7 c = Some c' \<Longrightarrow> append_step c c'"
  by (auto simp: decode_C7_def Let_def elim!: bind_SomeE split: if_splits option.splits
      dest!: parse_steps append_steps; meson step_trans)

lemma append_decode_D0 [append_steps]: "decode_D0 c = Some c' \<Longrightarrow> append_step c c'"
  by (auto simp: decode_D0_def Let_def elim!: bind_SomeE split: if_splits option.splits
      dest!: parse_steps append_steps; meson step_trans)

lemma append_decode_D1 [append_steps]: "decode_D1 c = Some c' \<Longrightarrow> append_step c c'"
  by (auto simp: decode_D1_def Let_def elim!: bind_SomeE split: if_splits option.splits
      dest!: parse_steps append_steps; meson step_trans)

lemma append_decode_D2 [append_steps]: "decode_D2 c = Some c' \<Longrightarrow> append_step c c'"
  by (auto simp: decode_D2_def Let_def elim!: bind_SomeE split: if_splits option.splits
      dest!: parse_steps append_steps; meson step_trans)

lemma append_decode_D3 [append_steps]: "decode_D3 c = Some c' \<Longrightarrow> append_step c c'"
  by (auto simp: decode_D3_def Let_def elim!: bind_SomeE split: if_splits option.splits
      dest!: parse_steps append_steps; meson step_trans)

lemma append_decode_E8 [append_steps]: "decode_E8 c = Some c' \<Longrightarrow> append_step c c'"
  by (auto simp: decode_E8_def Let_def elim!: bind_SomeE dest!: append_addU; meson step_trans parse_rel)

lemma append_decode_E9 [append_steps]: "decode_E9 c = Some c' \<Longrightarrow> append_step c c'"
  by (auto simp: decode_E9_def Let_def elim!: bind_SomeE dest!: append_addU; meson step_trans parse_rel)

lemma append_decode_EB [append_steps]: "decode_EB c = Some c' \<Longrightarrow> append_step c c'"
  by (auto simp: decode_EB_def Let_def elim!: bind_SomeE dest!: append_addU; meson step_trans parse_rel)

lemma append_decode_F6 [append_steps]: "decode_F6 c = Some c' \<Longrightarrow> append_step c c'"
  by (auto simp: decode_F6_def Let_def elim!: bind_SomeE split: if_splits option.splits
      dest!: parse_steps append_steps; meson step_trans)

lemma append_decode_F7 [append_steps]: "decode_F7 c = Some c' \<Longrightarrow> append_step c c'"
  by (auto simp: decode_F7_def Let_def elim!: bind_SomeE split: if_splits option.splits
      dest!: parse_steps append_steps; meson step_trans)

lemma append_decode_FE [append_steps]: "decode_FE c = Some c' \<Longrightarrow> append_step c c'"
  by (auto simp: decode_FE_def Let_def elim!: bind_SomeE split: if_splits option.splits
      dest!: parse_steps append_steps; meson step_trans)

lemma append_decode_FF [append_steps]: "decode_FF c = Some c' \<Longrightarrow> append_step c c'"
  by (auto simp: decode_FF_def Let_def elim!: bind_SomeE split: if_splits option.splits
      dest!: parse_steps append_steps; meson step_trans)

section \<open>Entries of the opcode tables\<close>

definition is_parse :: "dechandler \<Rightarrow> bool" where
  "is_parse h \<longleftrightarrow> (\<forall>c c'. h c = Some c' \<longrightarrow> parse_step c c')"

definition is_append :: "dechandler \<Rightarrow> bool" where
  "is_append h \<longleftrightarrow> (\<forall>c c'. h c = Some c' \<longrightarrow> append_step c c')"

definition is_append_ii :: "dechandler \<Rightarrow> bool" where
  "is_append_ii h \<longleftrightarrow> (\<forall>c c'. h c = Some c' \<longrightarrow> append_ii c c')"

text \<open>An entry whose handlers, run on a context without error, are an appending step.\<close>

definition entry_ok :: "dechandler opcspec \<Rightarrow> bool" where
  "entry_ok sp \<longleftrightarrow> (case sp of (_, _, h1, h2, h3) \<Rightarrow>
     \<forall>c c'. \<not> isErrorSet (d_err c) \<longrightarrow> runHandlers h1 h2 h3 c = Some c' \<longrightarrow> append_step c c')"

lemma is_parse_handlers:
  "is_parse parseRM"
  "is_parse parseMR"
  "is_parse parseRMVV"
  "is_parse parseMRVV"
  "is_parse parseRVM"
  "is_parse parseI2"
  "is_parse parseI3"
  "is_parse parseI3_8se"
  "is_parse setO1RegA"
  "is_parse parseMI"
  "is_parse parseMI_8se"
  "is_parse reqExit"
  by (auto simp: is_parse_def dest: parse_steps)

lemma is_append_ii_handlers:
  "is_append_ii addSInstr"
  "is_append_ii addBInstr"
  "is_append_ii addBInsImp"
  "is_append_ii addTInstr"
  "is_append_ii addTInsImp"
  by (auto simp: is_append_ii_def dest: append_addSInstr append_addBInstr append_addBInsImp append_addTInstr append_addTInsImp)

lemma is_append_handlers:
  "is_append decode0F_12"
  "is_append decode0F_13"
  "is_append decode0F_14"
  "is_append decode0F_15"
  "is_append decode0F_16"
  "is_append decode0F_17"
  "is_append decode0F_1F"
  "is_append decode0F_28"
  "is_append decode0F_29"
  "is_append decode0F_2E"
  "is_append decode0F_40"
  "is_append decode0F_6E_P66"
  "is_append decode0F_74"
  "is_append decode0F_7E"
  "is_append decode0F_7F"
  "is_append decode0F_80"
  "is_append decode0F_B6"
  "is_append decode0F_B7"
  "is_append decode0F_BE"
  "is_append decode0F_BF"
  "is_append decode0F_D4"
  "is_append decode0F_D6"
  "is_append decode0F_D7"
  "is_append decode0F_DA"
  "is_append decode0F_EF"
  "is_append decode_50"
  "is_append decode_58"
  "is_append decode_63"
  "is_append decode_68"
  "is_append decode_6A"
  "is_append decode_70"
  "is_append decode_8D"
  "is_append decode_8F_0"
  "is_append decode_98"
  "is_append decode_99"
  "is_append decode_9C"
  "is_append decode_9D"
  "is_append decode_B0"
  "is_append decode_C0"
  "is_append decode_C1"
  "is_append decode_C6"
  "is_append decode_C7"
  "is_append decode_D0"
  "is_append decode_D1"
  "is_append decode_D2"
  "is_append decode_D3"
  "is_append decode_E8"
  "is_append decode_E9"
  "is_append decode_EB"
  "is_append decode_F6"
  "is_append decode_F7"
  "is_append decode_FE"
  "is_append decode_FF"
  by (auto simp: is_append_def dest: append_steps)

lemma parse_step_err: "parse_step c c' \<Longrightarrow> isErrorSet (d_err c') = isErrorSet (d_err c)"
  by (simp add: parse_step_def)

lemma entry_ok_append: "is_append h \<Longrightarrow> entry_ok (it, vt, h, None, None)"
  by (auto simp: entry_ok_def runHandlers_def is_append_def elim!: bind_SomeE split: if_splits)

lemma entry_ok_ii: "is_append_ii h \<Longrightarrow> entry_ok (it, vt, h, None, None)"
  by (auto simp: entry_ok_def runHandlers_def is_append_ii_def append_ii_def elim!: bind_SomeE
      split: if_splits)

lemma entry_ok_parse_ii:
  assumes "is_parse h" and "is_append_ii h2"
  shows "entry_ok (it, vt, h, Some h2, None)"
  using assms unfolding entry_ok_def is_parse_def is_append_ii_def
  by (fastforce simp: runHandlers_def parse_step_err elim!: bind_SomeE split: if_splits
      intro: append_iiD parse_ii_trans)

lemma entry_ok_parse_parse_ii:
  assumes p: "is_parse h" "is_parse h2" and a: "is_append_ii h3"
  shows "entry_ok (it, vt, h, Some h2, Some h3)"
proof -
  have "append_step c c'"
    if ne: "\<not> isErrorSet (d_err c)" and run: "runHandlers h (Some h2) (Some h3) c = Some c'" for c c'
  proof -
    from run obtain c1 where c1: "h c = Some c1" by (auto simp: runHandlers_def elim!: bind_SomeE)
    with p have s1: "parse_step c c1" by (simp add: is_parse_def)
    with run c1 ne obtain c2 where c2: "h2 c1 = Some c2"
      by (auto simp: runHandlers_def parse_step_err elim!: bind_SomeE)
    with p have s2: "parse_step c1 c2" by (simp add: is_parse_def)
    with run c1 c2 s1 ne have "h3 c2 = Some c'" by (simp add: runHandlers_def parse_step_err)
    with a have "append_step c2 c'" by (simp add: is_append_ii_def append_iiD)
    with s1 s2 show ?thesis by (meson step_trans)
  qed
  then show ?thesis by (simp add: entry_ok_def)
qed

lemma append_attach: "attach c1 = Some c' \<Longrightarrow> append_ii c c1 \<Longrightarrow> append_step c c'"
  unfolding attach_def by (rule append_attachII)

lemma entry_ok_parse_ii_attach:
  assumes p: "is_parse h" and a: "is_append_ii h2"
  shows "entry_ok (it, vt, h, Some h2, Some attach)"
proof -
  have "append_step c c'"
    if ne: "\<not> isErrorSet (d_err c)" and run: "runHandlers h (Some h2) (Some attach) c = Some c'"
    for c c'
  proof -
    from run obtain c1 where c1: "h c = Some c1" by (auto simp: runHandlers_def elim!: bind_SomeE)
    with p have s1: "parse_step c c1" by (simp add: is_parse_def)
    with run c1 ne obtain c2 where c2: "h2 c1 = Some c2"
      by (auto simp: runHandlers_def parse_step_err elim!: bind_SomeE)
    with a have s2: "append_ii c1 c2" by (simp add: is_append_ii_def)
    with s1 have s: "append_ii c c2" by (rule parse_ii_trans [rotated])
    from run c1 c2 s1 ne have "c' = c2 \<or> attach c2 = Some c'"
      by (auto simp: runHandlers_def parse_step_err split: if_splits)
    with s show ?thesis by (auto intro: append_iiD append_attach)
  qed
  then show ?thesis by (simp add: entry_ok_def)
qed

lemma entry_ok_ii_attach: "is_append_ii h \<Longrightarrow> entry_ok (it, vt, h, Some attach, None)"
  by (auto simp: entry_ok_def runHandlers_def is_append_ii_def elim!: bind_SomeE split: if_splits;
      meson append_iiD append_attach)

lemma entry_ok_ii_exit: "is_append_ii h \<Longrightarrow> entry_ok (it, vt, h, Some reqExit, None)"
  by (auto simp: entry_ok_def runHandlers_def is_append_ii_def reqExit_def elim!: bind_SomeE
      split: if_splits; meson append_iiD)

lemmas entry_ok_rules = is_parse_handlers is_append_ii_handlers is_append_handlers entry_ok_append
  entry_ok_ii entry_ok_parse_ii entry_ok_parse_parse_ii entry_ok_parse_ii_attach
  entry_ok_ii_attach entry_ok_ii_exit

lemma entries_ok_registerAlu: "list_all (\<lambda>e. entry_ok (snd e)) registerAlu"
  by (simp add: registerAlu_def register_defs Let_def entry_ok_rules)

lemma entries_ok_registerStackJcc: "list_all (\<lambda>e. entry_ok (snd e)) registerStackJcc"
  by (simp add: registerStackJcc_def register_defs Let_def entry_ok_rules)

lemma entries_ok_registerMov: "list_all (\<lambda>e. entry_ok (snd e)) registerMov"
  by (simp add: registerMov_def register_defs Let_def entry_ok_rules)

lemma entries_ok_registerSseMov: "list_all (\<lambda>e. entry_ok (snd e)) registerSseMov"
  by (simp add: registerSseMov_def register_defs Let_def entry_ok_rules)

lemma entries_ok_registerSseArith: "list_all (\<lambda>e. entry_ok (snd e)) registerSseArith"
  by (simp add: registerSseArith_def register_defs Let_def entry_ok_rules)

lemma entries_ok_registerSseInt: "list_all (\<lambda>e. entry_ok (snd e)) registerSseInt"
  by (simp add: registerSseInt_def register_defs Let_def entry_ok_rules)

lemma entries_ok: "e \<in> set registrations \<Longrightarrow> entry_ok (snd e)"
  using entries_ok_registerAlu entries_ok_registerStackJcc entries_ok_registerMov
    entries_ok_registerSseMov entries_ok_registerSseArith entries_ok_registerSseInt
  by (auto simp: registrations_def list_all_iff)

lemma lookup_entry_ok:
  assumes "initDecodeTables = Some tb" and "lookupOpc tb k = Some sp"
  shows "entry_ok sp"
proof -
  from assms have "map_of (rev registrationMap) k = Some sp"
    by (simp add: lookup_initDecodeTables)
  then have "(k, sp) \<in> set registrationMap"
    using map_of_SomeD by fastforce
  then show ?thesis by (auto simp: registrationMap_def dest: entries_ok)
qed

section \<open>One turn of the decode loop\<close>

lemma append_runEntry:
  assumes tb: "initDecodeTables = Some tb" and ne: "\<not> isErrorSet (d_err c)"
    and l: "lookupOpc tb k = entrySpec e" and run: "runEntry e c = Some c'"
  shows "append_step c c'"
proof -
  from run obtain h1 where h1: "oe_h1 e = Some h1"
    by (auto simp: runEntry_def elim!: bind_SomeE)
  then have "entry_ok (oe_it e, oe_vt e, h1, oe_h2 e, oe_h3 e)"
    using lookup_entry_ok [OF tb] l by (simp add: entrySpec_def)
  then have ok: "append_step c1 c2"
    if "\<not> isErrorSet (d_err c1)" "runHandlers h1 (oe_h2 e) (oe_h3 e) c1 = Some c2" for c1 c2
    using that by (simp add: entry_ok_def)
  from run h1 obtain v where
    "runHandlers h1 (oe_h2 e) (oe_h3 e) (c\<lparr>d_it := oe_it e, d_vt := v\<rparr>) = Some c'"
    by (auto simp: runEntry_def Let_def)
  from ok [OF _ this] ne show ?thesis by simp
qed

lemma psOffset_less: "psOffset p < 4 \<Longrightarrow> opcCount OT_Four = Some 4"
  by (simp add: opcCount_def)

lemma digit_less: "unat (drop_bit 3 (b AND 56 :: u8)) < 8"
proof -
  have "b AND 56 \<le> 56" by (rule word_and_le1)
  then have "unat (b AND 56) \<le> 56" by (simp add: word_le_nat_alt)
  moreover have "unat (drop_bit 3 (b AND 56)) = unat (b AND 56) div 8"
    by (simp only: unat_drop_bit_eq) (simp add: drop_bit_eq_div)
  ultimately show ?thesis by simp
qed

lemma append_processOpc:
  assumes tb: "initDecodeTables = Some tb" and ne: "\<not> isErrorSet (d_err c)"
    and run: "processOpc tb (opcTables tb a k) c = Some c'"
  shows "append_step c c'"
proof (cases "oi_t (opcTables tb a k)")
  case OT_Invalid
  then show ?thesis using run by (simp add: processOpc_def append_markDecodeError)
next
  case OT_Single
  then have "lookupOpc tb (a, k, OT_Single, 0) = entrySpec (opcEntry tb (oi_eStart (opcTables tb a k)))"
    by (simp add: lookupOpc_def opcCount_def)
  with OT_Single show ?thesis using run append_runEntry [OF tb ne] by (simp add: processOpc_def)
next
  case OT_Four
  let ?off = "psOffset (ps c)"
  have off: "?off < 4" using OT_Four run by (auto simp: processOpc_def Let_def split: if_splits)
  then have "lookupOpc tb (a, k, OT_Four, ?off)
      = entrySpec (opcEntry tb (oi_eStart (opcTables tb a k) + ?off))"
    using OT_Four by (simp add: lookupOpc_def opcCount_def)
  with OT_Four off show ?thesis using run append_runEntry [OF tb ne]
    by (auto simp: processOpc_def Let_def append_markDecodeError split: if_splits)
next
  case OT_Group
  let ?off = "unat (drop_bit 3 (d_mem c (d_ptr c) AND 56))"
  have "lookupOpc tb (a, k, OT_Group, ?off)
      = entrySpec (opcEntry tb (oi_eStart (opcTables tb a k) + ?off))"
    using OT_Group digit_less by (simp add: lookupOpc_def opcCount_def)
  with OT_Group show ?thesis using run append_runEntry [OF tb ne]
    by (auto simp: processOpc_def Let_def append_markDecodeError split: if_splits)
qed

end
