(* ===== verification/DecodeLoop.thy ===== *)
theory DecodeLoop
  imports DecodeProgress
begin

text \<open>
  Decoding ends. The prefix loop ends at the first byte that is no prefix; the loop of
  \<open>dbrew_decode\<close> ends because every turn takes a slot of the decode buffer. Not ending is
  told apart from a failing assertion by running the loops with fuel, where running out of
  fuel is a result of its own.
\<close>

section \<open>The prefix loop\<close>

text \<open>What a run of prefixes leaves alone.\<close>

definition prefix_step :: "dctx \<Rightarrow> dctx \<Rightarrow> bool" where
  "prefix_step c c' \<longleftrightarrow> d_r c' = d_r c \<and> d_err c' = d_err c \<and> d_f c' = d_f c
     \<and> d_dbb c' = d_dbb c \<and> d_iaddr c' = d_iaddr c \<and> d_exit c' = d_exit c \<and> d_off c \<le> d_off c'"

lemma prefix_step_trans: "prefix_step a b \<Longrightarrow> prefix_step b c \<Longrightarrow> prefix_step a c"
  by (simp add: prefix_step_def)

lemma prefix_step_vex2: "prefix_step c (decodeVex2 b (skip_bytes n c))"
  by (simp add: prefix_step_def decodeVex2_def skip_bytes_def)

lemma prefix_step_vex3:
  "decodeVex3 b1 b2 (skip_bytes n c) = Some c' \<Longrightarrow> prefix_step c c'"
  by (auto simp: prefix_step_def decodeVex3_def Let_def skip_bytes_def bind_eq_Some_conv)

lemma prefix_step_legacy: "legacyPrefix b c = Some c' \<Longrightarrow> prefix_step c (skip_bytes n c')"
  by (auto simp: prefix_step_def legacyPrefix_def skip_bytes_def split: if_splits)

lemma skip_skip: "skip_bytes m (skip_bytes n c) = skip_bytes (m + n) c"
  by (simp add: skip_bytes_def)

lemma prefix_step_refl [simp]: "prefix_step c c"
  by (simp add: prefix_step_def)

lemma prefix_step_loop:
  assumes "decodePrefixLoop c = Some c'"
  shows "prefix_step c c'"
proof (rule decodePrefixLoop.raw_induct [OF _ assms])
  fix loop c c'
  assume IH: "\<And>x y. loop x = Some y \<Longrightarrow> prefix_step x y"
    and eq: "(let b = d_mem c (d_ptr c) in
      if b = 0xC5 then
        (let c = skip_bytes 1 c in
         Some (decodeVex2 (d_mem c (d_ptr c)) (skip_bytes 1 c)))
      else if b = 0xC4 then
        (let c = skip_bytes 1 c;
             b1 = d_mem c (d_ptr c);
             c = skip_bytes 1 c;
             b2 = d_mem c (d_ptr c)
         in decodeVex3 b1 b2 (skip_bytes 1 c))
      else (case legacyPrefix b c of
              None \<Rightarrow> Some c
            | Some c \<Rightarrow> loop (skip_bytes 1 c))) = Some c'"
  then show "prefix_step c c'"
    by (auto simp: Let_def skip_skip prefix_step_vex2 prefix_step_vex3 split: if_splits option.splits
        dest!: IH dest: prefix_step_legacy intro: prefix_step_trans)
qed

text \<open>Legacy and REX prefixes in memory, noted one after the other.\<close>

primrec applyPrefixes :: "u8 list \<Rightarrow> dctx \<Rightarrow> dctx option" where
  "applyPrefixes [] c = Some c"
| "applyPrefixes (b # bs) c =
     (if b = 0xC5 \<or> b = 0xC4 then None
      else do { c \<leftarrow> legacyPrefix b c; applyPrefixes bs (skip_bytes 1 c) })"

definition opcodeByte :: "u8 \<Rightarrow> bool" where
  "opcodeByte b \<longleftrightarrow> b \<noteq> 0xC5 \<and> b \<noteq> 0xC4 \<and> \<not> (0x40 \<le> b \<and> b \<le> 0x4F)
     \<and> b \<notin> {0xF2, 0xF3, 0x66, 0x64, 0x65, 0x2E}"

lemma legacyPrefix_opcodeByte: "opcodeByte b \<Longrightarrow> legacyPrefix b c = None"
  by (simp add: opcodeByte_def legacyPrefix_def)

lemma decodePrefixLoop_bytes:
  assumes "applyPrefixes bs c = Some c'" and "bytes_at (d_mem c) (d_ptr c) (bs @ [b])"
    and "opcodeByte b"
  shows "decodePrefixLoop c = Some c'"
  using assms
proof (induction bs arbitrary: c)
  case Nil
  then show ?case
    by (subst decodePrefixLoop.simps) (auto simp: legacyPrefix_opcodeByte opcodeByte_def)
next
  case (Cons x bs)
  then obtain c1 where x: "x \<noteq> 0xC5" "x \<noteq> 0xC4" and c1: "legacyPrefix x c = Some c1"
    and rest: "applyPrefixes bs (skip_bytes 1 c1) = Some c'"
    by (auto split: if_splits elim!: bind_SomeE)
  have "prefix_step c (skip_bytes 0 c1)" by (rule prefix_step_legacy [OF c1])
  then have "d_mem (skip_bytes 1 c1) = d_mem c" "d_ptr (skip_bytes 1 c1) = d_ptr c + 1"
    using c1 by (auto simp: prefix_step_def skip_bytes_def legacyPrefix_def split: if_splits)
  then have "decodePrefixLoop (skip_bytes 1 c1) = Some c'"
    using Cons.prems by (intro Cons.IH rest) simp_all
  then show ?case using Cons.prems(2) x c1
    by (subst decodePrefixLoop.simps) simp
qed

section \<open>A turn of the loop\<close>

lemma decodePrefixes_frame:
  assumes "decodePrefixes c = Some c'"
  shows "d_r c' = d_r c" and "d_err c' = d_err c" and "d_f c' = d_f c" and "d_off c \<le> d_off c'"
    and "d_iaddr c' = d_ptr c" and "\<not> isErrorSet (d_err c')" and "d_dbb c' = d_dbb c"
proof -
  have "prefix_step (startInstr c) c'" and "et (d_err c) = ET_NoError"
    using assms by (auto simp: decodePrefixes_def elim!: bind_SomeE dest: prefix_step_loop)
  then show "d_r c' = d_r c" "d_err c' = d_err c" "d_f c' = d_f c" "d_off c \<le> d_off c'"
    "d_iaddr c' = d_ptr c" "\<not> isErrorSet (d_err c')" "d_dbb c' = d_dbb c"
    by (simp_all add: prefix_step_def startInstr_def isErrorSet_def)
qed

lemma append_decodeOpcode:
  assumes tb: "initDecodeTables = Some tb" and ne: "\<not> isErrorSet (d_err c)"
    and run: "decodeOpcode tb c = Some c'"
  shows "append_step c c'"
proof -
  have s: "append_step c c'"
    if "processOpc tb (opcTables tb a k) c1 = Some c'" and "parse_step c c1" for a k c1
    using append_processOpc [OF tb _ that(1)] ne that(2)
    by (meson parse_append_trans parse_step_err)
  show ?thesis
    by (insert run) (auto simp: decodeOpcode_def fetch_def Let_def skip_bytes_def elim!: bind_SomeE
        split: if_splits; erule s; simp add: parse_step_def)
qed

text \<open>One turn appends one instruction at the old read position, or sets an error.\<close>

definition turn :: "dctx \<Rightarrow> dctx \<Rightarrow> instr list \<Rightarrow> bool" where
  "turn c c' is \<longleftrightarrow> d_f c' = d_f c \<and> d_dbb c' = d_dbb c \<and> d_off c \<le> d_off c'
     \<and> appended (c\<lparr>d_iaddr := d_ptr c\<rparr>) c' is"

lemma decodeStep_turn:
  assumes tb: "initDecodeTables = Some tb" and run: "decodeStep tb c = Some c'"
  shows "\<exists>is. turn c c' is"
proof -
  from run obtain c1 where p: "decodePrefixes c = Some c1" and o: "decodeOpcode tb c1 = Some c'"
    by (auto simp: decodeStep_def elim!: bind_SomeE)
  note fr = decodePrefixes_frame [OF p]
  have "append_step c1 c'" by (rule append_decodeOpcode [OF tb fr(6) o])
  then show ?thesis using fr by (auto simp: append_step_def appended_def turn_def)
qed

section \<open>The loop\<close>

text \<open>The loop with fuel: no result when the fuel runs out, an optional context otherwise.\<close>

primrec decodeLoopFuel :: "nat \<Rightarrow> dechandler opctables \<Rightarrow> dctx \<Rightarrow> dctx option option" where
  "decodeLoopFuel 0 tb c = None"
| "decodeLoopFuel (Suc n) tb c =
     (if d_exit c then Some (Some c)
      else (case decodeStep tb c of
              None \<Rightarrow> Some None
            | Some c \<Rightarrow> if isErrorSet (d_err c) then Some (Some c) else decodeLoopFuel n tb c))"

definition freeSlots :: "dctx \<Rightarrow> nat" where
  "freeSlots c = decInstrCapacity (d_r c) - decInstrCount c"

lemma turn_freeSlots:
  "turn c c' is \<Longrightarrow> \<not> isErrorSet (d_err c') \<Longrightarrow> freeSlots c' < freeSlots c"
  by (cases "is") (auto simp: turn_def appended_def freeSlots_def)

lemma decodeLoopFuel_enough:
  assumes tb: "initDecodeTables = Some tb"
  shows "freeSlots c < n \<Longrightarrow> decodeLoopFuel n tb c = Some (decodeLoop tb c)"
proof (induction n arbitrary: c)
  case 0
  then show ?case by simp
next
  case (Suc n)
  show ?case
  proof (cases "\<not> d_exit c \<and> (\<exists>c'. decodeStep tb c = Some c' \<and> \<not> isErrorSet (d_err c'))")
    case True
    then obtain c' where c': "\<not> d_exit c" "decodeStep tb c = Some c'" "\<not> isErrorSet (d_err c')"
      by blast
    then have "freeSlots c' < n"
      using decodeStep_turn [OF tb c'(2)] turn_freeSlots Suc.prems by fastforce
    then show ?thesis using c' Suc.IH [of c'] by (subst decodeLoop.simps) simp
  next
    case False
    then show ?thesis by (subst decodeLoop.simps) (auto split: option.split)
  qed
qed

text \<open>Instructions that lie one behind the other, from an address to an address.\<close>

primrec instr_chain :: "u64 \<Rightarrow> instr list \<Rightarrow> u64 \<Rightarrow> bool" where
  "instr_chain a [] b = (a = b)"
| "instr_chain a (i # is) b = (iaddr i = a \<and> instr_chain (a + of_nat (ilen i)) is b)"

lemma turn_chain:
  assumes "turn c c' is" and "\<not> isErrorSet (d_err c')"
  shows "instr_chain (d_ptr c) is (d_ptr c')"
  using assms by (cases "is") (auto simp: turn_def appended_def)

lemma turn_room:
  "turn c c' is \<Longrightarrow> decInstrCount c \<le> decInstrCapacity (d_r c) \<Longrightarrow> decInstrCount c' \<le> decInstrCapacity (d_r c')"
  by (cases "is") (auto simp: turn_def appended_def)

lemma instr_chain_append:
  "instr_chain a is b \<Longrightarrow> instr_chain b js d \<Longrightarrow> instr_chain a (is @ js) d"
  by (induction "is" arbitrary: a) auto

text \<open>What the whole loop leaves in the decode buffer.\<close>

definition block_result :: "dctx \<Rightarrow> dctx \<Rightarrow> instr list \<Rightarrow> bool" where
  "block_result c c' is \<longleftrightarrow> d_r c' = (d_r c)\<lparr>decInstr := decInstr (d_r c) @ is\<rparr>
     \<and> d_f c' = d_f c
     \<and> (decInstrCount c \<le> decInstrCapacity (d_r c) \<longrightarrow> decInstrCount c' \<le> decInstrCapacity (d_r c'))
     \<and> (\<not> isErrorSet (d_err c') \<longrightarrow> instr_chain (d_ptr c) is (d_ptr c'))"

lemma turn_block_result:
  assumes t: "turn c c1 xs" and ne: "\<not> isErrorSet (d_err c1)" and b: "block_result c1 c' ys"
  shows "block_result c c' (xs @ ys)"
  using turn_chain [OF t ne] turn_room [OF t] t b
  by (auto simp: block_result_def turn_def appended_def intro: instr_chain_append)

lemma decodeLoop_result:
  assumes tb: "initDecodeTables = Some tb"
  shows "decodeLoop tb c = Some c' \<Longrightarrow> \<exists>is. block_result c c' is"
proof (induction "freeSlots c" arbitrary: c rule: less_induct)
  case less
  show ?case
  proof (cases "d_exit c")
    case True
    then have "c' = c" using less.prems by (simp add: decodeLoop.simps)
    then have "block_result c c' []" by (simp add: block_result_def)
    then show ?thesis ..
  next
    case False
    then obtain c1 where c1: "decodeStep tb c = Some c1"
      and rest: "(if isErrorSet (d_err c1) then Some c1 else decodeLoop tb c1) = Some c'"
      using less.prems by (subst (asm) decodeLoop.simps) (auto elim!: bind_SomeE)
    obtain xs where t: "turn c c1 xs" using decodeStep_turn [OF tb c1] by blast
    show ?thesis
    proof (cases "isErrorSet (d_err c1)")
      case True
      then have "block_result c c' xs"
        using rest t turn_room [OF t] by (simp add: block_result_def turn_def appended_def)
      then show ?thesis ..
    next
      case False
      then obtain ys where "block_result c1 c' ys"
        using rest less.hyps [OF turn_freeSlots [OF t False]] by auto
      then show ?thesis using turn_block_result [OF t False] by blast
    qed
  qed
qed

section \<open>The property\<close>


end
