(* ===== verification/DecodeLookup.thy ===== *)
theory DecodeLookup
  imports DecodeLoop
begin

text \<open>
  What the filled opcode tables hold: a row of a registration list whose key occurs once in
  its table is what the decoder finds for this key, and \<open>processOpc\<close> runs its handlers.
\<close>

section \<open>Rows of a table\<close>

definition tableRows :: "tableid \<Rightarrow> (opckey \<times> dechandler opcspec) list" where
  "tableRows a = filter (\<lambda>e. fst (fst e) = a) registrationMap"

lemma map_of_filter_table: "map_of (filter (\<lambda>e. fst (fst e) = a) xs) (a, x) = map_of xs (a, x)"
  by (induction xs) auto

lemma map_of_tableRows: "map_of (rev registrationMap) (a, x) = map_of (rev (tableRows a)) (a, x)"
  by (simp add: tableRows_def rev_filter map_of_filter_table)

lemma lookup_row:
  assumes tb: "initDecodeTables = Some tb" and row: "((a, x), v) \<in> set (tableRows a)"
    and d: "distinct (map fst (tableRows a))"
  shows "lookupOpc tb (a, x) = Some v"
  using row d by (simp add: lookup_initDecodeTables(1) [OF tb] map_of_tableRows rev_map [symmetric])

lemmas registrationRows = registrationMap_def [simplified registrations_def registerAlu_def
  registerStackJcc_def registerMov_def registerSseMov_def registerSseArith_def registerSseInt_def
  register_defs Let_def regKey_def opcSlot_def, simplified]

lemmas rowsTAB = tableRows_def [of TAB, simplified registrationRows, simplified]
lemmas rows0F = tableRows_def [of TAB_0F, simplified registrationRows, simplified]

lemma distinct_TAB: "distinct (map fst (tableRows TAB))"
  unfolding rowsTAB by simp

lemma distinct_0F: "distinct (map fst (tableRows TAB_0F))"
  unfolding rows0F by simp

lemmas lookup_TAB = lookup_row [OF _ _ distinct_TAB]
lemmas lookup_0F = lookup_row [OF _ _ distinct_0F]

section \<open>Dispatch\<close>

definition withEntry :: "instrtype \<Rightarrow> valtype \<Rightarrow> dctx \<Rightarrow> dctx" where
  "withEntry it vt c = c\<lparr>d_it := it, d_vt := (if vt = VT_Def then defaultVT c else vt)\<rparr>"

lemma lookupOpc_entry:
  assumes "lookupOpc tb (a, k, t, off) = Some (it, vt, ha, hb, hc)"
  shows "oi_t (opcTables tb a k) = t"
    and "runEntry (opcEntry tb (oi_eStart (opcTables tb a k) + off)) c
      = runHandlers ha hb hc (withEntry it vt c)"
    and "oe_h1 (opcEntry tb (oi_eStart (opcTables tb a k) + off)) = Some ha"
  using assms by (auto simp: lookupOpc_def Let_def entrySpec_def runEntry_def withEntry_def
      split: if_splits option.splits)

lemma processOpc_single:
  assumes "lookupOpc tb (a, k, OT_Single, 0) = Some (it, vt, ha, hb, hc)"
  shows "processOpc tb (opcTables tb a k) c = runHandlers ha hb hc (withEntry it vt c)"
  using lookupOpc_entry [OF assms] by (simp add: processOpc_def)

lemma processOpc_group:
  assumes "lookupOpc tb (a, k, OT_Group, unat (drop_bit 3 (d_mem c (d_ptr c) AND 56)))
      = Some (it, vt, ha, hb, hc)"
  shows "processOpc tb (opcTables tb a k) c = runHandlers ha hb hc (withEntry it vt c)"
  using lookupOpc_entry [OF assms] by (simp add: processOpc_def Let_def)

lemma processOpc_four:
  assumes "lookupOpc tb (a, k, OT_Four, psOffset (ps c)) = Some (it, vt, ha, hb, hc)"
    and "psOffset (ps c) < 4"
  shows "processOpc tb (opcTables tb a k) c = runHandlers ha hb hc (withEntry it vt c)"
  using lookupOpc_entry [OF assms(1)] assms(2) by (simp add: processOpc_def Let_def)

text \<open>One-byte and two-byte opcodes without VEX prefix.\<close>

lemma decodeOpcode_one:
  assumes "d_vex c = VEX_No" and "d_mem c (d_ptr c) = of_nat k" and "k < 256" "k \<noteq> 0x0F"
  shows "decodeOpcode tb c
    = processOpc tb (opcTables tb TAB k) ((skip_bytes 1 c)\<lparr>opc1 := int k\<rparr>)"
  using assms by (simp add: decodeOpcode_def fetch_def unat_of_nat)

lemma decodeOpcode_two:
  assumes "d_vex c = VEX_No" and "d_mem c (d_ptr c) = 0x0F" and "d_mem c (d_ptr c + 1) = of_nat k"
    and "k < 256"
  shows "decodeOpcode tb c
    = processOpc tb (opcTables tb TAB_0F k) ((skip_bytes 1 ((skip_bytes 1 c)\<lparr>opc1 := 0x0F\<rparr>))\<lparr>opc2 := int k\<rparr>)"
proof -
  have "d_mem c (d_f c + (1 + of_nat (d_off c))) = of_nat k"
    using assms(3) by (simp only: ac_simps)
  moreover have "uint (of_nat k :: u8) = int k" using assms(4) by (simp add: uint_nat unat_of_nat)
  ultimately show ?thesis
    using assms by (simp add: decodeOpcode_def fetch_def unat_of_nat skip_bytes_def)
qed

end
