(* ===== verification/PrefixRoundTrip.thy ===== *)
theory PrefixRoundTrip
  imports ModRM DecodeLookup
begin

text \<open>
  The prefix bytes that \<open>genPrefix\<close> writes are what \<open>decodePrefixes\<close> reads: segment
  override, operand size and repeat prefixes, and the REX byte with the bits that the
  operands ask for. The section on the REX byte says which bits these are.
\<close>

section \<open>The REX byte\<close>

text \<open>A REX byte by its bits: present without bits, W, R, X, B.\<close>

definition rexOf :: "bool \<Rightarrow> bool \<Rightarrow> bool \<Rightarrow> bool \<Rightarrow> bool \<Rightarrow> u32" where
  "rexOf e w r x b = rexIf e 0x40 OR (rexIf w REX_MASK_W OR (rexIf r REX_MASK_R
     OR (rexIf x REX_MASK_X OR rexIf b REX_MASK_B)))"

lemma rexIf_simps [simp]: "rexIf False m = 0" "rexIf True m = m"
  by (simp_all add: rexIf_def)

lemma rexIf_or: "rexIf a m OR rexIf b m = rexIf (a \<or> b) m"
  by (simp add: rexIf_def)

lemma rexIf_or_left: "rexIf a m OR (rexIf b m OR v) = rexIf (a \<or> b) m OR v"
  by (simp add: rexIf_or flip: or.assoc)

lemma rexOf_or:
  "rexOf e w r x b OR rexOf e' w' r' x' b'
    = rexOf (e \<or> e') (w \<or> w') (r \<or> r') (x \<or> x') (b \<or> b')"
proof -
  have "rexOf e w r x b OR rexOf e' w' r' x' b'
    = (rexIf e 0x40 OR rexIf e' 0x40) OR ((rexIf w REX_MASK_W OR rexIf w' REX_MASK_W)
      OR ((rexIf r REX_MASK_R OR rexIf r' REX_MASK_R) OR ((rexIf x REX_MASK_X OR rexIf x' REX_MASK_X)
      OR (rexIf b REX_MASK_B OR rexIf b' REX_MASK_B))))"
    by (simp only: rexOf_def or.assoc or.left_commute)
  then show ?thesis by (simp only: rexOf_def rexIf_or)
qed

lemma rexOf_W: "rexIf w REX_MASK_W = rexOf False w False False False"
  by (simp add: rexOf_def)

lemma regRex_rexOf: "regRex p = rexOf (needs_rex (oreg p)) False (8 \<le> ri (oreg p)) False False"
  by (simp add: regRex_def rexOf_def)

text \<open>The bits X and B of the \<open>r/m\<close> operand.\<close>

definition rmX :: "operand \<Rightarrow> bool" where
  "rmX p \<longleftrightarrow> \<not> opIsReg p \<and> oscale p \<noteq> 0 \<and> 8 \<le> ri (oireg p)"

definition rmB :: "operand \<Rightarrow> bool" where
  "rmB p \<longleftrightarrow> (opIsReg p \<or> \<not> memAbs p) \<and> 8 \<le> ri (oreg p)"

lemma rmRex_rexOf:
  "rmRex p = rexOf (opIsReg p \<and> needs_rex (oreg p)) False False (rmX p) (rmB p)"
  by (simp add: rmRex_def rexOf_def memRex_def rmX_def rmB_def rexIf_def)

text \<open>What the decoder notes of a REX byte that was written for the bits \<open>v\<close>.\<close>

definition rexNoted :: "u32 \<Rightarrow> u32" where
  "rexNoted v = ucast ((0x40 OR ucast v :: u8) AND 15)"

lemma rexNoted_bits:
  "(rexNoted (rexOf e w r x b) AND REX_MASK_W \<noteq> 0) = w"
  "(rexNoted (rexOf e w r x b) AND REX_MASK_R \<noteq> 0) = r"
  "(rexNoted (rexOf e w r x b) AND REX_MASK_X \<noteq> 0) = x"
  "(rexNoted (rexOf e w r x b) AND REX_MASK_B \<noteq> 0) = b"
  by (cases e; cases w; cases r; cases x; cases b; simp add: rexNoted_def rexOf_def)+

lemma rexOf_byte:
  "0x40 \<le> (0x40 OR ucast (rexOf e w r x b) :: u8)" "(0x40 OR ucast (rexOf e w r x b) :: u8) \<le> 0x4F"
  by (cases e; cases w; cases r; cases x; cases b; simp add: rexOf_def)+

lemma rexOf_0: "rexOf e w r x b = 0 \<longleftrightarrow> \<not> e \<and> \<not> w \<and> \<not> r \<and> \<not> x \<and> \<not> b"
  by (cases e; cases w; cases r; cases x; cases b; simp add: rexOf_def)

section \<open>The prefix bytes\<close>

definition psOf :: "bool \<Rightarrow> bool \<Rightarrow> bool \<Rightarrow> prefixset" where
  "psOf p66 pF2 pF3 = (if p66 then PS_66 else 0) OR (if pF2 then PS_F2 else 0)
     OR (if pF3 then PS_F3 else 0)"

lemma psOf_bits:
  "(psOf a b d AND PS_66 \<noteq> 0) = a" "(psOf a b d AND PS_F2 \<noteq> 0) = b"
  "(psOf a b d AND PS_F3 \<noteq> 0) = d" "psOf a b d AND PS_REXW = 0"
  by (cases a; cases b; cases d; simp add: psOf_def)+

definition segBytes :: "opsegoverride \<Rightarrow> u8 list" where
  "segBytes so = (case so of OSO_None \<Rightarrow> [] | OSO_UseFS \<Rightarrow> [0x64] | OSO_UseGS \<Rightarrow> [0x65])"

definition prefixBytes :: "opsegoverride \<Rightarrow> bool \<Rightarrow> bool \<Rightarrow> bool \<Rightarrow> u32 \<Rightarrow> u8 list" where
  "prefixBytes so p66 pF2 pF3 v = segBytes so @ (if p66 then [0x66] else [])
     @ (if pF2 then [0xF2] else []) @ (if pF3 then [0xF3] else [])
     @ (if v = 0 then [] else [0x40 OR ucast v])"

lemma genPrefix_prefixBytes:
  assumes "g_vp c = VEX_No" and "g_ps c = psOf a b d"
  shows "genPrefix c = Some (prefixBytes (g_so c) a b d (g_rex c), c)"
  using assms by (cases "g_so c") (simp_all add: genPrefix_def prefixBytes_def segBytes_def psOf_bits)

definition opcBytes :: "nat \<Rightarrow> u8 list" where
  "opcBytes opc = (if opc > 255 then [of_nat (opc div 256), of_nat (opc mod 256)] else [of_nat opc])"

lemma finish_bytes:
  assumes "g_vp c = VEX_No" and "g_ps c = psOf a b d" and "opc < 65536"
  shows "finish c opc = Some (prefixBytes (g_so c) a b d (g_rex c) @ opcBytes opc @ g_b c)"
  using assms by (simp add: finish_def genPrefix_prefixBytes appendOO_def opcBytes_def)

text \<open>The decode context behind the prefixes.\<close>

definition afterPrefix ::
  "opsegoverride \<Rightarrow> bool \<Rightarrow> bool \<Rightarrow> bool \<Rightarrow> u32 \<Rightarrow> dctx \<Rightarrow> dctx" where
  "afterPrefix so p66 pF2 pF3 v d =
     (startInstr d)\<lparr>d_off := d_off d + length (prefixBytes so p66 pF2 pF3 v),
       segOv := so, ps := psOf p66 pF2 pF3, rex := (if v = 0 then 0 else rexNoted v),
       hasRex := (v \<noteq> 0)\<rparr>"

text \<open>One prefix of each kind, when it is present.\<close>

lemma applyPrefixes_append:
  "applyPrefixes (xs @ ys) c = do { c \<leftarrow> applyPrefixes xs c; applyPrefixes ys c }"
  by (induction xs arbitrary: c) (simp_all add: bind_assoc split: option.splits)

lemma applyPrefixes_parts:
  "applyPrefixes (segBytes so) c
    = Some (if so = OSO_None then c else (skip_bytes 1 c)\<lparr>segOv := so\<rparr>)"
  "applyPrefixes (if p66 then [0x66] else []) c
    = Some (if p66 then (skip_bytes 1 c)\<lparr>ps := ps c OR PS_66\<rparr> else c)"
  "applyPrefixes (if pF2 then [0xF2] else []) c
    = Some (if pF2 then (skip_bytes 1 c)\<lparr>ps := ps c OR PS_F2\<rparr> else c)"
  "applyPrefixes (if pF3 then [0xF3] else []) c
    = Some (if pF3 then (skip_bytes 1 c)\<lparr>ps := ps c OR PS_F3\<rparr> else c)"
  by (cases so; simp add: segBytes_def legacyPrefix_def skip_bytes_def)
    (simp_all add: legacyPrefix_def skip_bytes_def)

lemma applyPrefixes_rex:
  assumes "v = rexOf e w r x b"
  shows "applyPrefixes (if v = 0 then [] else [0x40 OR ucast v]) c
    = Some (if v = 0 then c else (skip_bytes 1 c)\<lparr>rex := rexNoted v, hasRex := True\<rparr>)"
proof -
  have "(0x40 OR ucast v :: u8) \<noteq> 0xC5" "(0x40 OR ucast v :: u8) \<noteq> 0xC4"
    using rexOf_byte(2) [of e w r x b] by (auto simp: assms)
  then show ?thesis using rexOf_byte [of e w r x b]
    by (simp add: assms legacyPrefix_def rexNoted_def skip_bytes_def)
qed

lemma applyPrefixes_prefixBytes:
  assumes v: "v = rexOf e w r x b"
  shows "applyPrefixes (prefixBytes so p66 pF2 pF3 v) (startInstr d)
    = Some (afterPrefix so p66 pF2 pF3 v d)"
  unfolding prefixBytes_def applyPrefixes_append applyPrefixes_parts applyPrefixes_rex [OF v]
  by (cases so; cases p66; cases pF2; cases pF3; cases "v = 0")
    (simp_all add: afterPrefix_def prefixBytes_def segBytes_def psOf_def skip_bytes_def
      startInstr_def)

lemma decodePrefixes_prefixBytes:
  assumes v: "v = rexOf e w r x b" and ne: "\<not> isErrorSet (d_err d)" and nx: "opcodeByte k"
    and bytes: "bytes_at (d_mem d) (d_ptr d) (prefixBytes so p66 pF2 pF3 v @ [k])"
  shows "decodePrefixes d = Some (afterPrefix so p66 pF2 pF3 v d)"
proof -
  have "bytes_at (d_mem (startInstr d)) (d_ptr (startInstr d)) (prefixBytes so p66 pF2 pF3 v @ [k])"
    using bytes by (simp add: startInstr_def)
  then have "decodePrefixLoop (startInstr d) = Some (afterPrefix so p66 pF2 pF3 v d)"
    by (rule decodePrefixLoop_bytes [OF applyPrefixes_prefixBytes [OF v]]) (rule nx)
  then show ?thesis using ne by (simp add: decodePrefixes_def isErrorSet_def)
qed

end
