(* ===== verification/Buffers.thy ===== *)
theory Buffers
  imports Common
begin

text \<open>
  The code storage of \<open>src/buffers.c\<close>: one mapped region of whole pages, of which a prefix
  is in use. The address that \<open>mmap\<close> returns is a parameter; reporting a failed mapping and
  the \<open>exit\<close> of \<open>reserveCodeStorage\<close> are the value \<open>None\<close>.

  The locale \<open>bump_allocator\<close> states what the code generator relies on: the regions that
  it is given lie in the storage and do not overlap. The code storage interprets it.
\<close>

section \<open>The operations\<close>

definition initCodeStorage :: "u64 option \<Rightarrow> int \<Rightarrow> codestorage option" where
  "initCodeStorage mmap_result sz = do {
     buf \<leftarrow> mmap_result;
     Some \<lparr>cs_size = sz, cs_fullsize = (sz + 4095) div 4096 * 4096, cs_used = 0,
           cs_buf = buf\<rparr> }"

definition reserveCodeStorage :: "codestorage \<Rightarrow> int \<Rightarrow> u64 option" where
  "reserveCodeStorage cs sz =
     (if cs_fullsize cs - cs_used cs < sz then None
      else Some (cs_buf cs + of_int (cs_used cs)))"

definition useCodeStorage :: "codestorage \<Rightarrow> int \<Rightarrow> (u64 \<times> codestorage) option" where
  "useCodeStorage cs sz = do {
     let p = cs_buf cs + of_int (cs_used cs);
     c_assert (cs_fullsize cs - cs_used cs \<ge> sz);
     Some (p, cs\<lparr>cs_used := cs_used cs + sz\<rparr>) }"

text \<open>The used part lies inside the mapped pages, which do not wrap around the address
  space (\<open>mmap\<close> never returns such a region).\<close>

definition csInv :: "codestorage \<Rightarrow> bool" where
  "csInv cs \<longleftrightarrow> 0 \<le> cs_used cs \<and> cs_used cs \<le> cs_fullsize cs
     \<and> uint (cs_buf cs) + cs_fullsize cs \<le> 2 ^ 64"

section \<open>The interface\<close>

locale bump_allocator =
  fixes take_region :: "'s \<Rightarrow> int \<Rightarrow> (u64 \<times> 's) option"
    and low :: "'s \<Rightarrow> int"
    and high :: "'s \<Rightarrow> int"
    and free :: "'s \<Rightarrow> int"
    and inv :: "'s \<Rightarrow> bool"
  assumes inv_take: "inv s \<Longrightarrow> 0 \<le> n \<Longrightarrow> take_region s n = Some (p, s') \<Longrightarrow> inv s'"
    and take_at: "inv s \<Longrightarrow> 0 < n \<Longrightarrow> take_region s n = Some (p, s') \<Longrightarrow> uint p = free s"
    and take_free: "inv s \<Longrightarrow> 0 \<le> n \<Longrightarrow> take_region s n = Some (p, s') \<Longrightarrow> free s' = free s + n"
    and take_bounds: "take_region s n = Some (p, s') \<Longrightarrow> low s' = low s \<and> high s' = high s"
    and inv_bounds: "inv s \<Longrightarrow> low s \<le> free s \<and> free s \<le> high s"
begin

text \<open>Taking regions one after the other, and where they lie.\<close>

primrec take_all :: "int list \<Rightarrow> 's \<Rightarrow> ((int \<times> int) list \<times> 's) option" where
  "take_all [] s = Some ([], s)"
| "take_all (n # ns) s = do {
     (p, s') \<leftarrow> take_region s n;
     (rs, s'') \<leftarrow> take_all ns s';
     Some ((uint p, uint p + n) # rs, s'') }"

lemma take_all_regions:
  assumes "inv s" and "\<forall>n \<in> set ns. 0 < n" and "take_all ns s = Some (rs, s')"
  shows "inv s' \<and> low s' = low s \<and> high s' = high s \<and> free s \<le> free s'
    \<and> (\<forall>(a, b) \<in> set rs. free s \<le> a \<and> a < b \<and> b \<le> free s')
    \<and> sorted_wrt (\<lambda>(a, b) (c, d). b \<le> c) rs"
  using assms
proof (induction ns arbitrary: s rs)
  case Nil
  then show ?case by simp
next
  case (Cons n ns)
  then obtain p s1 rs1 where t: "take_region s n = Some (p, s1)"
    and r: "take_all ns s1 = Some (rs1, s')" and rs: "rs = (uint p, uint p + n) # rs1"
    by (auto simp: bind_eq_Some_conv)
  have n: "0 < n" using Cons.prems(2) by simp
  have p: "uint p = free s" "free s1 = free s + n" "low s1 = low s" "high s1 = high s"
    using take_at [OF Cons.prems(1) n t] take_free [OF Cons.prems(1) _ t] take_bounds [OF t] n
    by simp_all
  have ih: "inv s' \<and> low s' = low s1 \<and> high s' = high s1 \<and> free s1 \<le> free s'
    \<and> (\<forall>(a, b) \<in> set rs1. free s1 \<le> a \<and> a < b \<and> b \<le> free s')
    \<and> sorted_wrt (\<lambda>(a, b) (c, d). b \<le> c) rs1"
    using Cons.prems n by (intro Cons.IH [OF inv_take [OF Cons.prems(1) _ t] _ r]) simp_all
  then show ?case using p n by (fastforce simp: rs)
qed

end

interpretation code: bump_allocator useCodeStorage "\<lambda>cs. uint (cs_buf cs)"
  "\<lambda>cs. uint (cs_buf cs) + cs_fullsize cs" "\<lambda>cs. uint (cs_buf cs) + cs_used cs" csInv
proof unfold_locales
  fix s s' :: codestorage and n p
  assume inv: "csInv s" and n: "0 < n" and u: "useCodeStorage s n = Some (p, s')"
  have "uint (cs_buf s) + cs_used s < 2 ^ 64" and "0 \<le> cs_used s"
    using inv n u by (auto simp: useCodeStorage_def bind_eq_Some_conv csInv_def Let_def)
  then have "uint (cs_buf s + of_int (cs_used s)) = uint (cs_buf s) + cs_used s"
    by (simp add: uint_word_ariths uint_word_of_int mod_simps)
  with u show "uint p = uint (cs_buf s) + cs_used s"
    by (auto simp: useCodeStorage_def bind_eq_Some_conv Let_def)
qed (auto simp: useCodeStorage_def bind_eq_Some_conv csInv_def Let_def)

lemma csInv_initCodeStorage:
  assumes "initCodeStorage (Some buf) sz = Some cs" and "0 \<le> sz"
    and "uint buf + cs_fullsize cs \<le> 2 ^ 64"
  shows "csInv cs" and "sz \<le> cs_fullsize cs"
  using assms by (auto simp: initCodeStorage_def csInv_def)

section \<open>The property\<close>



end
