(* ===== verification/Generate.thy ===== *)
theory Generate
  imports GenPrim Buffers
begin

text \<open>
  The code generator of \<open>src/generate.c\<close>: one function per instruction type, which picks an
  encoding by the operand types, and \<open>generate\<close>, which writes the code of a captured block
  into the code storage. The result \<open>GenErr\<close> is the return value -1 for unsupported
  operands, \<open>None\<close> a failing assertion.
\<close>

section \<open>Helpers\<close>

text \<open>\<open>opValType(src) == opValType(dst)\<close>.\<close>

definition sameVT :: "operand \<Rightarrow> operand \<Rightarrow> bool option" where
  "sameVT p q = do { a \<leftarrow> opValType p; b \<leftarrow> opValType q; Some (a = b) }"

definition ok :: "u8 list option \<Rightarrow> genres option" where
  "ok m = do { bs \<leftarrow> m; Some (GenBytes bs) }"

definition unsupported :: "genres option" where
  "unsupported = Some GenErr"

text \<open>Write some bytes, then an immediate.\<close>

definition genI :: "u8 list \<Rightarrow> operand \<Rightarrow> genres option" where
  "genI bs p = do { im \<leftarrow> appendI p; Some (GenBytes (bs @ im)) }"

abbreviation "reg3264 \<equiv> {OT_Reg32, OT_Reg64}"
abbreviation "ind3264 \<equiv> {OT_Ind32, OT_Ind64}"
abbreviation "rm3264 \<equiv> {OT_Reg32, OT_Reg64, OT_Ind32, OT_Ind64}"
abbreviation "rm163264 \<equiv> {OT_Reg16, OT_Reg32, OT_Reg64, OT_Ind16, OT_Ind32, OT_Ind64}"
abbreviation "reg8163264 \<equiv> {OT_Reg8, OT_Reg16, OT_Reg32, OT_Reg64}"
abbreviation "ind8163264 \<equiv> {OT_Ind8, OT_Ind16, OT_Ind32, OT_Ind64}"

section \<open>Generators for instruction types\<close>

definition genRet :: "gctx \<Rightarrow> genres option" where
  "genRet c = Some (GenBytes [0xC3])"

definition genPush :: "gctx \<Rightarrow> genres option" where
  "genPush c =
     (let p = idst (g_instr c) in
      if otype p = OT_Reg64 then do {
        r \<leftarrow> GP64RegEncoding (oreg p);
        (if r > 7 then do { c_assert (r < 16); Some (GenBytes [0x41, 0x50 + of_nat (r - 8)]) }
         else Some (GenBytes [0x50 + of_nat r])) }
      else if otype p = OT_Ind64 then ok (genDigitRM c 0xFF 6 p GEN_DefOpVT64)
      else unsupported)"

definition genPop :: "gctx \<Rightarrow> genres option" where
  "genPop c =
     (let p = idst (g_instr c) in
      if otype p \<noteq> OT_Reg64 then unsupported
      else do {
        r \<leftarrow> GP64RegEncoding (oreg p);
        (if r > 7 then do { c_assert (r < 16); Some (GenBytes [0x41, 0x58 + of_nat (r - 8)]) }
         else Some (GenBytes [0x58 + of_nat r])) })"

definition genDec :: "gctx \<Rightarrow> genres option" where
  "genDec c = (let dst = idst (g_instr c) in
     if otype dst \<in> rm3264 then ok (genDigitRM c 0xFF 1 dst 0) else unsupported)"

definition genInc :: "gctx \<Rightarrow> genres option" where
  "genInc c = (let dst = idst (g_instr c) in
     if otype dst \<in> rm3264 then ok (genDigitRM c 0xFF 0 dst 0) else unsupported)"

definition genNeg :: "gctx \<Rightarrow> genres option" where
  "genNeg c = (let dst = idst (g_instr c) in
     if otype dst \<in> {OT_Ind8, OT_Reg8} then ok (genDigitRM c 0xF6 3 dst 0)
     else if otype dst \<in> rm163264 then ok (genDigitRM c 0xF7 3 dst GEN_66OnVT16)
     else unsupported)"

text \<open>\<open>movsx r64,r/m32\<close>: the source is retyped to 64 bit for the encoder.\<close>

definition genMovsx :: "gctx \<Rightarrow> operand \<Rightarrow> operand \<Rightarrow> genres option" where
  "genMovsx c src dst = do {
     e \<leftarrow> copyOperand op0 src;
     ok (genModRM c 0x63 (e\<lparr>otype := (if otype src = OT_Reg32 then OT_Reg64 else OT_Ind64)\<rparr>)
           dst VT_None 0) }"

definition genMov :: "gctx \<Rightarrow> genres option" where
  "genMov c =
     (let src = reduceImm64to32 (isrc (g_instr c)); dst = idst (g_instr c) in
      if otype src \<in> reg3264 then
        (if otype dst \<in> reg3264 \<union> ind3264 then do {
           s \<leftarrow> opValType src;
           d \<leftarrow> opValType dst;
           (if otype dst \<in> reg3264 \<and> s = VT_32 \<and> d = VT_64 then genMovsx c src dst
            else if s \<noteq> d then unsupported
            else ok (genModRM c 0x89 dst src VT_None 0)) }
         else unsupported)
      else if otype src \<in> ind3264 then
        (if otype dst \<in> reg3264 then do {
           s \<leftarrow> opValType src;
           d \<leftarrow> opValType dst;
           (if s = d then ok (genModRM c 0x8B src dst VT_None 0)
            else if s = VT_32 \<and> d = VT_64 then genMovsx c src dst
            else Some (GenBytes [])) }
         else unsupported)
      else if otype src = OT_Imm32 then
        (if otype dst \<in> ind3264 then ok (genDigitMI c 0xC7 0 dst src 0)
         else if otype dst \<in> reg3264 then
           (if oval src = 0 then ok (genModRM c 0x31 dst dst VT_None 0)
            else ok (genDigitMI c 0xC7 0 dst src 0))
         else unsupported)
      else if otype src = OT_Imm64 then
        (if otype dst \<in> reg3264 then
           (if oval src = 0 then ok (genModRM c 0x31 dst dst VT_None 0)
            else ok (genOI c 0xB8 dst src 0))
         else unsupported)
      else unsupported)"

definition cmovOpcode :: "instrtype \<Rightarrow> nat option" where
  "cmovOpcode it = (case it of IT_CMOV k \<Rightarrow>
       (case k of CC_O \<Rightarrow> Some 0x40 | CC_NO \<Rightarrow> Some 0x41 | CC_C \<Rightarrow> Some 0x42 | CC_NC \<Rightarrow> Some 0x43
        | CC_Z \<Rightarrow> Some 0x44 | CC_NZ \<Rightarrow> Some 0x45 | CC_BE \<Rightarrow> Some 0x46 | CC_A \<Rightarrow> Some 0x47
        | CC_S \<Rightarrow> Some 0x48 | CC_NS \<Rightarrow> Some 0x49 | CC_P \<Rightarrow> Some 0x4A | CC_NP \<Rightarrow> Some 0x4B
        | CC_L \<Rightarrow> Some 0x4C | CC_GE \<Rightarrow> Some 0x4D | CC_LE \<Rightarrow> Some 0x4E | CC_G \<Rightarrow> Some 0x4F)
     | _ \<Rightarrow> None)"

definition genCMov :: "gctx \<Rightarrow> genres option" where
  "genCMov c =
     (let it = itype (g_instr c); src = isrc (g_instr c); dst = idst (g_instr c) in
      if otype dst \<in> reg3264 \<and> otype src \<in> rm3264 then do {
        s \<leftarrow> sameVT src dst;
        (if \<not> s then unsupported
         else do { opc \<leftarrow> cmovOpcode it; ok (genModRM c opc src dst VT_None 0) }) }
      else unsupported)"

text \<open>
  \<open>add\<close> and \<open>and\<close> have the same cases with other opcodes: \<open>oMR8\<close>, \<open>oMR\<close>, \<open>oRM8\<close>,
  \<open>oRM\<close> for register and memory operands, \<open>oAl\<close>, \<open>oAx\<close> for an immediate to the
  accumulator, \<open>dg\<close> the digit for an immediate to any operand.
\<close>

definition genAlu ::
  "nat \<Rightarrow> nat \<Rightarrow> nat \<Rightarrow> nat \<Rightarrow> u8 \<Rightarrow> u8 \<Rightarrow> nat \<Rightarrow> gctx \<Rightarrow> operand \<Rightarrow> operand \<Rightarrow> genres option" where
  "genAlu oMR8 oMR oRM8 oRM oAl oAx dg c src dst =
     (if otype src \<in> reg8163264 then do {
        s \<leftarrow> sameVT src dst;
        (if \<not> s then unsupported
         else if otype dst \<in> rm163264 then ok (genModRM c oMR dst src VT_None GEN_66OnVT16)
         else if otype dst \<in> {OT_Reg8, OT_Ind8} then ok (genModRM c oMR8 dst src VT_None 0)
         else unsupported) }
      else if otype src \<in> ind8163264 then do {
        s \<leftarrow> sameVT src dst;
        (if \<not> s then unsupported
         else if otype dst = OT_Reg8 then ok (genModRM c oRM8 src dst VT_None 0)
         else if otype dst \<in> {OT_Reg16, OT_Reg32, OT_Reg64}
           then ok (genModRM c oRM src dst VT_None GEN_66OnVT16)
         else unsupported) }
      else if otype src = OT_Imm8 then
        (if otype dst = OT_Reg8 \<and> ri (oreg dst) = RI_A then genI [oAl] src
         else if otype dst \<in> {OT_Reg8, OT_Ind8} then ok (genDigitMI c 0x80 dg dst src 0)
         else if otype dst \<in> rm163264 then ok (genDigitMI c 0x83 dg dst src GEN_66OnVT16)
         else unsupported)
      else if otype src = OT_Imm16 then
        (if otype dst = OT_Reg16 \<and> ri (oreg dst) = RI_A then genI [0x66, oAx] src
         else if otype dst \<in> {OT_Reg16, OT_Ind16} then ok (genDigitMI c 0x81 dg dst src GEN_66OnVT16)
         else unsupported)
      else if otype src = OT_Imm32 then
        (if otype dst \<in> reg3264 \<and> ri (oreg dst) = RI_A
           then genI ((if otype dst = OT_Reg64 then [0x48] else []) @ [oAx]) src
         else if otype dst \<in> rm3264 then ok (genDigitMI c 0x81 dg dst src 0)
         else unsupported)
      else unsupported)"

definition genAdd :: "gctx \<Rightarrow> genres option" where
  "genAdd c =
     (let src = reduceImm16to8 (reduceImm32to8 (reduceImm64to32 (isrc (g_instr c))))
      in genAlu 0x00 0x01 0x02 0x03 0x04 0x05 0 c src (idst (g_instr c)))"

definition genAnd :: "gctx \<Rightarrow> genres option" where
  "genAnd c =
     (let src = reduceImm16to8 (reduceImm32to8 (reduceImm64to32 (isrc (g_instr c))))
      in genAlu 0x20 0x21 0x22 0x23 0x24 0x25 4 c src (idst (g_instr c)))"

text \<open>\<open>sub\<close>, \<open>xor\<close>, \<open>or\<close> and \<open>cmp\<close> share their cases in the same way, for 32 and 64
  bit operands.\<close>

definition genAlu3264 :: "nat \<Rightarrow> nat \<Rightarrow> nat \<Rightarrow> gctx \<Rightarrow> operand \<Rightarrow> operand \<Rightarrow> genres option" where
  "genAlu3264 oMR oRM dg c src dst =
     (if otype src \<in> reg3264 then do {
        s \<leftarrow> sameVT src dst;
        (if \<not> s then unsupported
         else if otype dst \<in> rm3264 then ok (genModRM c oMR dst src VT_None 0)
         else unsupported) }
      else if otype src \<in> ind3264 then do {
        s \<leftarrow> sameVT src dst;
        (if \<not> s then unsupported
         else if otype dst \<in> reg3264 then ok (genModRM c oRM src dst VT_None 0)
         else unsupported) }
      else if otype src = OT_Imm8 then
        (if otype dst \<in> rm3264 then ok (genDigitMI c 0x83 dg dst src 0) else unsupported)
      else if otype src = OT_Imm32 then
        (if otype dst \<in> rm3264 then ok (genDigitMI c 0x81 dg dst src 0) else unsupported)
      else unsupported)"

definition genSub :: "gctx \<Rightarrow> genres option" where
  "genSub c = (let src = reduceImm32to8 (reduceImm64to32 (isrc (g_instr c)))
     in genAlu3264 0x29 0x2B 5 c src (idst (g_instr c)))"

definition genXor :: "gctx \<Rightarrow> genres option" where
  "genXor c = (let src = reduceImm32to8 (reduceImm64to32 (isrc (g_instr c)))
     in genAlu3264 0x31 0x33 6 c src (idst (g_instr c)))"

definition genOr :: "gctx \<Rightarrow> genres option" where
  "genOr c = (let src = reduceImm32to8 (reduceImm64to32 (isrc (g_instr c)))
     in genAlu3264 0x09 0x0B 1 c src (idst (g_instr c)))"

definition genCmp :: "gctx \<Rightarrow> genres option" where
  "genCmp c = (let src = reduceImm32to8 (reduceImm64to32 (isrc (g_instr c)))
     in genAlu3264 0x39 0x3B 7 c src (idst (g_instr c)))"

definition genTest :: "gctx \<Rightarrow> genres option" where
  "genTest c =
     (let src = reduceImm64to32 (isrc (g_instr c)); dst = idst (g_instr c) in
      if otype src \<in> reg8163264 then do {
        s \<leftarrow> sameVT src dst;
        (if \<not> s then unsupported
         else if otype dst \<in> rm163264 then ok (genModRM c 0x85 dst src VT_None GEN_66OnVT16)
         else if otype dst \<in> {OT_Reg8, OT_Ind8} then ok (genModRM c 0x84 dst src VT_None 0)
         else unsupported) }
      else if otype src = OT_Imm8 then
        (if otype dst = OT_Reg8 \<and> ri (oreg dst) = RI_A then genI [0xA8] src
         else if otype dst \<in> {OT_Reg8, OT_Ind8} then ok (genDigitMI c 0xF6 0 dst src 0)
         else unsupported)
      else if otype src = OT_Imm16 then
        (if otype dst = OT_Reg16 \<and> ri (oreg dst) = RI_A then genI [0x66, 0xA9] src
         else if otype dst \<in> {OT_Reg16, OT_Ind16} then ok (genDigitMI c 0xF7 0 dst src GEN_66OnVT16)
         else unsupported)
      else if otype src = OT_Imm32 then
        (if otype dst \<in> reg3264 \<and> ri (oreg dst) = RI_A
           then genI ((if otype dst = OT_Reg64 then [0x48] else []) @ [0xA9]) src
         else if otype dst \<in> rm3264 then ok (genDigitMI c 0xF7 0 dst src 0)
         else unsupported)
      else unsupported)"

definition genIMul :: "gctx \<Rightarrow> genres option" where
  "genIMul c =
     (let src = reduceImm32to8 (reduceImm64to32 (isrc (g_instr c))); dst = idst (g_instr c) in
      if otype src \<in> rm3264 then do {
        s \<leftarrow> sameVT src dst;
        (if \<not> s then unsupported
         else if otype dst \<in> reg3264 then ok (genModRM c 0x0FAF src dst VT_None 0)
         else unsupported) }
      else if otype src = OT_Imm8 then
        (if otype dst \<in> reg3264 then ok (genModRMI c 0x6B dst dst src 0) else unsupported)
      else if otype src = OT_Imm32 then do {
        s \<leftarrow> sameVT src dst;
        (if \<not> s then unsupported
         else if otype dst \<in> reg3264 then ok (genModRMI c 0x69 dst dst src 0)
         else unsupported) }
      else unsupported)"

definition genIDiv1 :: "gctx \<Rightarrow> genres option" where
  "genIDiv1 c = (let src = idst (g_instr c) in
     if otype src \<in> rm3264 then ok (genDigitRM c 0xF7 7 src 0) else unsupported)"

text \<open>The shifts, by their digit.\<close>

definition genShift :: "nat \<Rightarrow> gctx \<Rightarrow> genres option" where
  "genShift dg c = (let src = isrc (g_instr c); dst = idst (g_instr c) in
     if otype src = OT_Imm8 \<and> otype dst \<in> rm3264 then ok (genDigitMI c 0xC1 dg dst src 0)
     else unsupported)"

definition genShl :: "gctx \<Rightarrow> genres option" where "genShl = genShift 4"
definition genShr :: "gctx \<Rightarrow> genres option" where "genShr = genShift 5"
definition genSar :: "gctx \<Rightarrow> genres option" where "genSar = genShift 7"

definition genLea :: "gctx \<Rightarrow> genres option" where
  "genLea c = (let src = isrc (g_instr c); dst = idst (g_instr c) in
     if \<not> opIsInd src then unsupported
     else do {
       g \<leftarrow> opIsGPReg dst;
       (if \<not> g then unsupported
        else if otype dst \<in> reg3264 then ok (genModRM c 0x8D src dst VT_None 0)
        else unsupported) })"

definition genCltq :: "gctx \<Rightarrow> genres option" where
  "genCltq c = Some (GenBytes [0x48, 0x98])"

definition genCwtl :: "gctx \<Rightarrow> genres option" where
  "genCwtl c = Some (GenBytes [0x98])"

definition genCqto :: "gctx \<Rightarrow> genres option" where
  "genCqto c = (case ivtype (g_instr c) of
     VT_64 \<Rightarrow> Some (GenBytes [0x99]) | VT_128 \<Rightarrow> Some (GenBytes [0x48, 0x99]) | _ \<Rightarrow> unsupported)"

definition genVec :: "gctx \<Rightarrow> genres option" where
  "genVec c = do {
     p \<leftarrow> (if itype (g_instr c) = IT_ADDSS then Some PS_F3
          else if itype (g_instr c) = IT_ADDSD then Some PS_F2
          else if itype (g_instr c) = IT_ADDPS then Some PS_No
          else if itype (g_instr c) = IT_ADDPD then Some PS_66 else None);
     let c = c\<lparr>g_ps := p, g_oe := OE_RM, g_vt := VT_Implicit, g_opc := 0x0F58\<rparr>;
     ok (genModRM c (g_opc c) (isrc (g_instr c)) (idst (g_instr c)) (g_vt c) (g_flags c)) }"

definition genPassThrough :: "gctx \<Rightarrow> genres option" where
  "genPassThrough c = do {
     let i = g_instr c;
     let vt = ivtype i;
     c_assert (ptLen i > 0);
     let c = c\<lparr>g_ps := ptPSet i, g_vp := ptVexP i\<rparr>;
     c_assert (ptLen i < 3);
     let opc = (if ptLen i < 2 then unat (ptOpc i ! 0)
                else unat (ptOpc i ! 0) * 256 + unat (ptOpc i ! 1));
     (case ptEnc i of
        OE_None \<Rightarrow> ok (finish c opc)
      | OE_MR \<Rightarrow> ok (genModRM c opc (idst i) (isrc i) vt 0)
      | OE_RVM \<Rightarrow> do {
          v \<leftarrow> opIsVReg (isrc i);
          c_assert v;
          ok (genModRM (c\<lparr>g_vvvv := ri (oreg (isrc i))\<rparr>) opc (isrc2 i) (idst i) vt 0) }
      | OE_RM \<Rightarrow> ok (genModRM c opc (isrc i) (idst i) vt 0)
      | _ \<Rightarrow> None) }"

section \<open>Generating a block\<close>

datatype (plugins only: code size) genstep = StepBytes "u8 list" | StepErr errortype string

text \<open>The switch over the instruction type in \<open>generate\<close>.\<close>

definition genByType :: "gctx \<Rightarrow> genres option option" where
  "genByType c =
     (case itype (g_instr c) of
        IT_ADD \<Rightarrow> Some (genAdd c) | IT_CLTQ \<Rightarrow> Some (genCltq c) | IT_CWTL \<Rightarrow> Some (genCwtl c)
      | IT_CQTO \<Rightarrow> Some (genCqto c) | IT_CMP \<Rightarrow> Some (genCmp c) | IT_DEC \<Rightarrow> Some (genDec c)
      | IT_IMUL \<Rightarrow> Some (genIMul c) | IT_IDIV1 \<Rightarrow> Some (genIDiv1 c) | IT_INC \<Rightarrow> Some (genInc c)
      | IT_NEG \<Rightarrow> Some (genNeg c) | IT_XOR \<Rightarrow> Some (genXor c) | IT_OR \<Rightarrow> Some (genOr c)
      | IT_AND \<Rightarrow> Some (genAnd c) | IT_SHL \<Rightarrow> Some (genShl c) | IT_SHR \<Rightarrow> Some (genShr c)
      | IT_SAR \<Rightarrow> Some (genSar c) | IT_LEA \<Rightarrow> Some (genLea c) | IT_MOV \<Rightarrow> Some (genMov c)
      | IT_MOVSX \<Rightarrow> Some (genMov c) | IT_CMOV _ \<Rightarrow> Some (genCMov c) | IT_POP \<Rightarrow> Some (genPop c)
      | IT_PUSH \<Rightarrow> Some (genPush c) | IT_RET \<Rightarrow> Some (genRet c) | IT_SUB \<Rightarrow> Some (genSub c)
      | IT_TEST \<Rightarrow> Some (genTest c)
      | IT_SSEFP f \<Rightarrow> (case f of F_ADDSS \<Rightarrow> Some (genVec c) | F_ADDSD \<Rightarrow> Some (genVec c)
          | F_ADDPS \<Rightarrow> Some (genVec c) | F_ADDPD \<Rightarrow> Some (genVec c) | _ \<Rightarrow> None)
      | IT_HINT_CALL \<Rightarrow> Some (Some (GenBytes [])) | IT_HINT_RET \<Rightarrow> Some (Some (GenBytes []))
      | _ \<Rightarrow> None)"

definition genInstrStep :: "instr \<Rightarrow> genstep option" where
  "genInstrStep i =
     (let c = initGContext i in
      case (if ptLen i > 0 then Some (genPassThrough c) else genByType c) of
        None \<Rightarrow> Some (StepErr ET_UnsupportedInstr ''unsupported instruction'')
      | Some m \<Rightarrow> do {
          res \<leftarrow> m;
          (case res of
             GenErr \<Rightarrow> Some (StepErr ET_UnsupportedOperands ''unsupported operands'')
           | GenBytes bs \<Rightarrow> do { c_assert (length bs < 15); Some (StepBytes bs) }) })"

text \<open>
  The loop over the instructions of a block from \<open>k\<close> on: the memory and code storage
  grow by the bytes, the instructions get their address and length. A failing instruction
  ends the loop with its index.
\<close>

primrec generateLoop ::
  "nat \<Rightarrow> instr list \<Rightarrow> mem \<Rightarrow> codestorage
     \<Rightarrow> (instr list \<times> mem \<times> codestorage \<times> (nat \<times> errortype \<times> string) option) option" where
  "generateLoop k [] m cs = Some ([], m, cs, None)"
| "generateLoop k (i # is) m cs = do {
     buf \<leftarrow> reserveCodeStorage cs 15;
     st \<leftarrow> genInstrStep i;
     (case st of
        StepErr e d \<Rightarrow> Some (i # is, m, cs, Some (k, e, d))
      | StepBytes bs \<Rightarrow> do {
          (_, cs) \<leftarrow> useCodeStorage cs (int (length bs));
          (is', m, cs, err) \<leftarrow> generateLoop (Suc k) is (store_bytes m buf bs) cs;
          Some (i\<lparr>iaddr := buf, ilen := length bs\<rparr> # is', m, cs, err) }) }"

definition genError :: "errortype \<Rightarrow> string \<Rightarrow> nat option \<Rightarrow> int \<Rightarrow> generateerror" where
  "genError e d cbb off = \<lparr>em = EM_Generator, et = e, desc = Some d, ge_cbb = cbb, ge_offset = off\<rparr>"

text \<open>\<open>generate\<close> for block \<open>b\<close>: the error, if any, and the rewriter.\<close>

definition generate :: "rewriter \<Rightarrow> nat \<Rightarrow> (generateerror option \<times> rewriter) option" where
  "generate r b =
     (case r_cs r of
        None \<Rightarrow> Some (Some (genError ET_BufferOverflow ''no code buffer available'' (Some b) (-1)), r)
      | Some cs \<Rightarrow> do {
          let cbb = capBB r ! b;
          start \<leftarrow> (if cbb_count cbb = 0 then Some 0 else cbb_instr cbb);
          buf0 \<leftarrow> reserveCodeStorage cs 0;
          let is = take (cbb_count cbb) (drop start (capInstr r));
          (is', m, cs', err) \<leftarrow> generateLoop 0 is (r_mem r) cs;
          let r = r\<lparr>r_mem := m,
            capInstr := take start (capInstr r) @ is' @ drop (start + cbb_count cbb) (capInstr r)\<rparr>;
          (case err of
             Some (k, e, d) \<Rightarrow>
               Some (Some (genError e d (Some b) (int k)),
                 r\<lparr>r_cs := Some (cs'\<lparr>cs_used := cs_used cs\<rparr>),
                   capBB := (capBB r)[b := cbb\<lparr>cbb_size := -1\<rparr>]\<rparr>)
           | None \<Rightarrow>
               Some (None,
                 r\<lparr>r_cs := Some cs',
                   capBB := (capBB r)[b := cbb
                     \<lparr>cbb_size := int (sum_list (map ilen is')),
                      addr1 := (if cbb_count cbb = 0 then buf0 else iaddr (hd is'))\<rparr>]\<rparr>)) })"

end
