(* ===== verification/RoundTrip.thy ===== *)
theory RoundTrip
  imports PrefixRoundTrip Generate
begin

text \<open>
  The generator and the decoder are inverse on whole instructions: when \<open>generate\<close> writes
  bytes for an instruction with well-formed operands, \<open>dbrew_decode\<close> reads these bytes as
  one instruction of the same type with the same operands. An immediate may come back in
  another width, with the same value after sign extension to the width of the operation.
\<close>

section \<open>General purpose operands\<close>

text \<open>Register operands and \<open>r/m\<close> operands of a value type.\<close>

definition gpVT :: "valtype \<Rightarrow> bool" where
  "gpVT vt \<longleftrightarrow> vt = VT_16 \<or> vt = VT_32 \<or> vt = VT_64"

definition gpReg :: "valtype \<Rightarrow> operand \<Rightarrow> bool" where
  "gpReg vt p \<longleftrightarrow> gpVT vt \<and> getGPRegOpType vt = Some (otype p) \<and> rt (oreg p) = getGPRegType vt
     \<and> ri (oreg p) < 16"

definition gpMem :: "valtype \<Rightarrow> operand \<Rightarrow> bool" where
  "gpMem vt p \<longleftrightarrow> gpVT vt \<and> modrmIndOpType vt RTS_G_G = Some (otype p) \<and> wfMem p"

definition gpRM :: "valtype \<Rightarrow> operand \<Rightarrow> bool" where
  "gpRM vt p \<longleftrightarrow> gpReg vt p \<or> gpMem vt p"

lemma gpReg_facts:
  assumes "gpReg vt p"
  shows "wfRegOp p" "opValType p = Some vt" "opIsReg p" "\<not> needs_rex (oreg p)"
    "modrmRegOpType vt RTS_G_G = Some (otype p)" "ri (oreg p) < 16" "gpVT vt"
    "rt (oreg p) = getGPRegType vt" "rt (oreg p) = getLegGPRegType vt"
    "getReg (getGPRegType vt) (ri (oreg p)) = Some (oreg p)" "\<not> opIsInd p" "\<not> opIsImm p"
  using assms
  by (auto simp: gpReg_def gpVT_def wfRegOp_def getGPRegOpType_def getGPRegType_def
      getLegGPRegType_def opIsReg_def opIsInd_def opIsImm_def getReg_def regTypeIsGP_def
      opValType_def needs_rex_def modrmRegOpType_def)

lemma gpMem_facts:
  assumes "gpMem vt p"
  shows "wfMem p" "opValType p = Some vt" "\<not> opIsReg p" "opIsInd p" "\<not> opIsImm p" "gpVT vt"
    "modrmIndOpType vt RTS_G_G = Some (otype p)"
  using assms
  by (auto simp: gpMem_def gpVT_def modrmIndOpType_def opIsReg_def opIsInd_def opIsImm_def
      opValType_def)

lemma gpRM_facts:
  assumes "gpRM vt p"
  shows "wfRM p" "opValType p = Some vt" "\<not> opIsImm p" "gpVT vt"
    "(opIsReg p \<and> needs_rex (oreg p)) = False"
  using assms gpReg_facts gpMem_facts by (auto simp: gpRM_def wfRM_def)

text \<open>A decode context that has noted the bits of an \<open>r/m\<close> operand and its segment.\<close>

definition noted :: "operand \<Rightarrow> dctx \<Rightarrow> bool" where
  "noted p d \<longleftrightarrow> (rexbit d REX_MASK_X \<longleftrightarrow> rmX p) \<and> (rexbit d REX_MASK_B \<longleftrightarrow> rmB p)
     \<and> (\<not> opIsReg p \<longrightarrow> segOv d = oseg p)"

lemma noted_seesRM:
  assumes "gpRM vt p" and "noted p d"
  shows "seesRM d vt RTS_G_G p"
proof (cases "opIsReg p")
  case True
  then have r: "gpReg vt p" using assms(1) gpMem_facts by (auto simp: gpRM_def)
  from True gpReg_facts [OF r] assms(2) show ?thesis
    by (simp add: seesRM_def noted_def rmB_def modrmOp1RegType_def)
next
  case False
  then have m: "gpMem vt p" using assms(1) gpReg_facts by (auto simp: gpRM_def)
  from False gpMem_facts [OF m] assms(2) show ?thesis
    by (auto simp: seesRM_def seesMem_def noted_def rmB_def rmX_def memAbs_def)
qed

section \<open>Bytes of the generator\<close>

text \<open>The segment and the REX bits that an \<open>r/m\<close> operand contributes.\<close>

definition rmSeg :: "operand \<Rightarrow> opsegoverride" where
  "rmSeg p = (if opIsReg p then OSO_None else oseg p)"

lemma size66_eq:
  assumes "opValType p = Some vt"
  shows "size66 c p flags = Some (if flags AND GEN_66OnVT16 \<noteq> 0 \<and> vt = VT_16
    then c\<lparr>g_ps := g_ps c OR PS_66\<rparr> else c)"
  using assms by (simp add: size66_def)

definition modrmBytes :: "valtype \<Rightarrow> nat \<Rightarrow> u32 \<Rightarrow> nat \<Rightarrow> operand \<Rightarrow> u8 list" where
  "modrmBytes vt opc v dg p
    = prefixBytes (rmSeg p) (vt = VT_16) False False v @ opcBytes opc @ rmBytes dg p"

text \<open>16 bit operands are only encoded right with the operand size prefix.\<close>

definition flagsOk :: "u32 \<Rightarrow> valtype \<Rightarrow> bool" where
  "flagsOk flags vt \<longleftrightarrow> (vt = VT_16 \<longrightarrow> flags AND GEN_66OnVT16 \<noteq> 0)"

lemma size66_finish:
  assumes vt: "opValType p = Some vt" and fl: "flagsOk flags vt" and opc: "opc < 65536"
    and c: "g_ps c = PS_No" "g_vp c = VEX_No"
  shows "do { c \<leftarrow> size66 c p flags; finish c opc }
    = Some (prefixBytes (g_so c) (vt = VT_16) False False (g_rex c) @ opcBytes opc @ g_b c)"
proof -
  have "PS_No = psOf False False False" "(PS_No OR PS_66) = psOf True False False"
    by (simp_all add: psOf_def)
  then show ?thesis
    using assms by (auto simp: size66_eq [OF vt] flagsOk_def finish_bytes)
qed

lemma genModRM_bytes:
  assumes p1: "gpRM vt p1" and p2: "gpReg vt p2" and opc: "opc < 65536" and fl: "flagsOk flags vt"
  shows "genModRM (initGContext i) opc p1 p2 VT_None flags
    = Some (modrmBytes vt opc (rexOf False (vt = VT_64) (8 \<le> ri (oreg p2)) (rmX p1) (rmB p1))
        (ri (oreg p2) mod 8) p1)"
proof -
  note r = gpReg_facts [OF p2] and m = gpRM_facts [OF p1]
  have rx: "((0 OR regRex p2) OR rexIf (vt = VT_64) REX_MASK_W) OR rmRex p1
      = rexOf False (vt = VT_64) (8 \<le> ri (oreg p2)) (rmX p1) (rmB p1)"
    using r(4) by (simp only: regRex_rexOf rexOf_W rmRex_rexOf rexOf_or or.left_neutral m(5)) simp
  show ?thesis
    using size66_finish [OF m(2) fl opc]
    by (simp add: genModRM_def calcModRM_eq [OF m(1) r(1) m(2) r(2)] modrmBytes_def rmSeg_def
        initGContext_def rx [simplified])
qed

lemma genDigitRM_bytes:
  assumes p1: "gpRM vt p1" and opc: "opc < 65536" and dg: "dg < 8" and fl: "flagsOk flags vt"
  shows "genDigitRM (initGContext i) opc dg p1 flags
    = Some (modrmBytes vt opc (rexOf False (flags AND GEN_DefOpVT64 = 0 \<and> vt = VT_64) False
        (rmX p1) (rmB p1)) dg p1)"
proof -
  note m = gpRM_facts [OF p1]
  have rx: "(0 OR rexIf w REX_MASK_W) OR rmRex p1 = rexOf False w False (rmX p1) (rmB p1)" for w
    by (simp only: rexOf_W rmRex_rexOf rexOf_or or.left_neutral m(5)) simp
  show ?thesis
    using size66_finish [OF m(2) fl opc]
    by (simp add: genDigitRM_def calcModRMDigit_eq [OF m(1) dg m(2)] modrmBytes_def rmSeg_def
        initGContext_def rx [simplified])
qed

lemma genDigitMI_bytes:
  assumes p1: "gpRM vt p1" and opc: "opc < 65536" and dg: "dg < 8" and fl: "flagsOk flags vt"
    and im: "opIsImm q"
  shows "genDigitMI (initGContext i) opc dg p1 q flags = do {
    im \<leftarrow> appendI q;
    Some (modrmBytes vt opc (rexOf False (flags AND GEN_DefOpVT64 = 0 \<and> vt = VT_64) False
        (rmX p1) (rmB p1)) dg p1 @ im) }"
proof -
  have "genDigitMI (initGContext i) opc dg p1 q flags = do {
    bs \<leftarrow> genDigitRM (initGContext i) opc dg p1 flags; im \<leftarrow> appendI q; Some (bs @ im) }"
    using im by (simp add: genDigitMI_def genDigitRM_def bind_assoc)
  then show ?thesis by (simp add: genDigitRM_bytes [OF p1 opc dg fl])
qed

section \<open>Reading the bytes back\<close>

text \<open>The context in which the handlers of an opcode run.\<close>

definition atOpcode :: "valtype \<Rightarrow> u32 \<Rightarrow> nat \<Rightarrow> operand \<Rightarrow> dctx \<Rightarrow> dctx" where
  "atOpcode vt v opc p d =
     (let c = afterPrefix (rmSeg p) (vt = VT_16) False False v d in
      if opc > 255 then (skip_bytes 1 ((skip_bytes 1 c)\<lparr>opc1 := int (opc div 256)\<rparr>))
        \<lparr>opc2 := int (opc mod 256)\<rparr>
      else (skip_bytes 1 c)\<lparr>opc1 := int opc\<rparr>)"

text \<open>Opcodes of one byte and of two bytes, and the table that holds them.\<close>

definition plainOpcode :: "nat \<Rightarrow> bool" where
  "plainOpcode opc \<longleftrightarrow> opc < 256 \<and> opc \<noteq> 0x0F \<and> opcodeByte (of_nat opc) \<or> opc div 256 = 0x0F"

definition opcTable :: "nat \<Rightarrow> tableid" where
  "opcTable opc = (if opc > 255 then TAB_0F else TAB)"

lemma opcodeByte_0F: "opcodeByte 0x0F"
  by (simp add: opcodeByte_def)

lemma afterPrefix_simps [simp]:
  "d_r (afterPrefix so p66 pF2 pF3 v d) = d_r d"
  "d_f (afterPrefix so p66 pF2 pF3 v d) = d_f d"
  "d_off (afterPrefix so p66 pF2 pF3 v d) = d_off d + length (prefixBytes so p66 pF2 pF3 v)"
  "d_vex (afterPrefix so p66 pF2 pF3 v d) = VEX_No"
  "d_err (afterPrefix so p66 pF2 pF3 v d) = d_err d"
  "ps (afterPrefix so p66 pF2 pF3 v d) = psOf p66 pF2 pF3"
  "segOv (afterPrefix so p66 pF2 pF3 v d) = so"
  "rex (afterPrefix so p66 pF2 pF3 v d) = (if v = 0 then 0 else rexNoted v)"
  "hasRex (afterPrefix so p66 pF2 pF3 v d) = (v \<noteq> 0)"
  "d_iaddr (afterPrefix so p66 pF2 pF3 v d) = d_ptr d"
  "d_exit (afterPrefix so p66 pF2 pF3 v d) = False"
  by (simp_all add: afterPrefix_def startInstr_def)

lemma decodeStep_opcode:
  assumes v: "v = rexOf e w r x b" and ne: "\<not> isErrorSet (d_err d)" and opc: "plainOpcode opc"
    and bytes: "bytes_at (d_mem d) (d_ptr d)
      (prefixBytes (rmSeg p) (vt = VT_16) False False v @ opcBytes opc)"
  shows "decodeStep tb d = processOpc tb (opcTables tb (opcTable opc) (opc mod 256)) (atOpcode vt v opc p d)"
proof -
  let ?c = "afterPrefix (rmSeg p) (vt = VT_16) False False v d"
  let ?pre = "prefixBytes (rmSeg p) (vt = VT_16) False False v"
  have pre: "bytes_at (d_mem d) (d_ptr d) ?pre"
    and ob: "bytes_at (d_mem d) (d_ptr d + of_nat (length ?pre)) (opcBytes opc)"
    using bytes by simp_all
  have step: "decodeStep tb d = decodeOpcode tb ?c" if "opcBytes opc = k # ks" "opcodeByte k" for k ks
  proof -
    have "decodePrefixes d = Some ?c"
      using that pre ob by (intro decodePrefixes_prefixBytes [OF v ne that(2)]) simp
    then show ?thesis by (simp add: decodeStep_def)
  qed
  show ?thesis
  proof (cases "opc > 255")
    case False
    then have o: "opc < 256" "opc \<noteq> 0x0F" "opcodeByte (of_nat opc)"
      using opc by (auto simp: plainOpcode_def)
    have m: "d_mem ?c (d_ptr ?c) = of_nat opc" using ob False by (simp add: opcBytes_def ac_simps)
    have "decodeStep tb d = decodeOpcode tb ?c" using o False by (intro step) (auto simp: opcBytes_def)
    then show ?thesis using o False decodeOpcode_one [OF _ m o(1,2)]
      by (simp add: atOpcode_def opcTable_def)
  next
    case True
    then have o: "opc div 256 = 0x0F" using opc by (auto simp: plainOpcode_def)
    have m: "d_mem ?c (d_ptr ?c) = 0x0F" "d_mem ?c (d_ptr ?c + 1) = of_nat (opc mod 256)"
      using ob True o by (simp_all add: opcBytes_def ac_simps)
    have "decodeStep tb d = decodeOpcode tb ?c"
      using o True opcodeByte_0F by (intro step) (auto simp: opcBytes_def)
    then show ?thesis using o True decodeOpcode_two [OF _ m]
      by (simp add: atOpcode_def opcTable_def)
  qed
qed

lemma decodeStep_modrmBytes:
  assumes "v = rexOf e w r x b" and "\<not> isErrorSet (d_err d)" and "plainOpcode opc"
    and "bytes_at (d_mem d) (d_ptr d) (modrmBytes vt opc v dg p)"
  shows "decodeStep tb d = processOpc tb (opcTables tb (opcTable opc) (opc mod 256)) (atOpcode vt v opc p d)"
  using assms(4) by (intro decodeStep_opcode [OF assms(1-3)]) (simp add: modrmBytes_def)

text \<open>What this context says about the operands.\<close>

lemma atOpcode_simps:
  "d_r (atOpcode vt v opc p d) = d_r d" "d_err (atOpcode vt v opc p d) = d_err d"
  "d_ptr (atOpcode vt v opc p d) = d_ptr d + of_nat (length (prefixBytes (rmSeg p) (vt = VT_16)
     False False v) + length (opcBytes opc))"
  "rex (atOpcode vt v opc p d) = (if v = 0 then 0 else rexNoted v)"
  "ps (atOpcode vt v opc p d) = psOf (vt = VT_16) False False"
  "segOv (atOpcode vt v opc p d) = rmSeg p"
  "d_iaddr (atOpcode vt v opc p d) = d_ptr d"
  by (auto simp: atOpcode_def Let_def skip_bytes_def opcBytes_def)

lemma rexbit_atOpcode:
  assumes v: "v = rexOf e w r x b"
  shows "rexbit (atOpcode vt v opc p d) REX_MASK_W = w" "rexbit (atOpcode vt v opc p d) REX_MASK_R = r"
    "rexbit (atOpcode vt v opc p d) REX_MASK_X = x" "rexbit (atOpcode vt v opc p d) REX_MASK_B = b"
  using rexNoted_bits [of e w r x b] rexOf_0 [of e w r x b]
  by (auto simp: rexbit_def atOpcode_simps v)

lemma defaultVT_atOpcode:
  assumes "v = rexOf e w r x b"
  shows "defaultVT (atOpcode vt v opc p d) = (if vt = VT_16 then VT_16 else if w then VT_64 else VT_32)"
  using rexbit_atOpcode(1) [OF assms] by (simp add: defaultVT_def atOpcode_simps psOf_bits)

lemma withEntry_simps [simp]:
  "d_r (withEntry it vt c) = d_r c" "d_err (withEntry it vt c) = d_err c"
  "d_f (withEntry it vt c) = d_f c" "d_off (withEntry it vt c) = d_off c"
  "rexbit (withEntry it vt c) m = rexbit c m" "segOv (withEntry it vt c) = segOv c"
  "d_it (withEntry it vt c) = it" "d_iaddr (withEntry it vt c) = d_iaddr c"
  "d_vt (withEntry it vt c) = (if vt = VT_Def then defaultVT c else vt)"
  "ps (withEntry it vt c) = ps c" "noted p (withEntry it vt c) = noted p c"
  by (simp_all add: withEntry_def rexbit_def noted_def)

lemma noted_atOpcode:
  "v = rexOf e w r (rmX p) (rmB p) \<Longrightarrow> noted p (atOpcode vt v opc p d)"
  by (simp add: noted_def rexbit_atOpcode atOpcode_simps rmSeg_def)

subsection \<open>Operand handlers\<close>

lemma parse_gp:
  assumes p1: "gpRM vt p1" and n: "noted p1 c" and dg: "dg < 8"
    and bytes: "bytes_at (d_mem c) (d_ptr c) (rmBytes dg p1)"
    and reg2: "has2 \<Longrightarrow> getReg (modrmOp2RegType c vt RTS_G_G)
      (dg + (if rexbit c REX_MASK_R then 8 else 0)) = Some r2"
  shows "\<exists>q ot. sameOp q p1 \<and> modrmRegOpType vt RTS_G_G = Some ot
    \<and> parseModRM c vt RTS_G_G q1 has2 q2
      = Some (q, if has2 then q2\<lparr>otype := ot, oreg := r2\<rparr> else q2, dg,
          skip_bytes (length (rmBytes dg p1)) c)"
proof -
  note m = gpRM_facts [OF p1]
  obtain ot where ot: "modrmRegOpType vt RTS_G_G = Some ot"
    using m(4) by (auto simp: gpVT_def modrmRegOpType_def)
  have vt: "vt = (if vt = VT_None then if rexbit c REX_MASK_W then VT_64 else VT_32 else vt)"
    using m(4) by (auto simp: gpVT_def)
  from parseModRM_rmBytes [OF m(1) dg bytes vt ot reg2 noted_seesRM [OF p1 n], of has2 q1 q2]
  show ?thesis using ot by blast
qed

text \<open>The register operand of the pair.\<close>

lemma gpReg_op2:
  assumes "gpReg vt p2" and "rexbit c REX_MASK_R = (8 \<le> ri (oreg p2))"
  shows "getReg (modrmOp2RegType c vt RTS_G_G)
      (ri (oreg p2) mod 8 + (if rexbit c REX_MASK_R then 8 else 0)) = Some (oreg p2)"
  using gpReg_facts [OF assms(1)] assms(2) reg_split [of "ri (oreg p2)"]
  by (simp add: modrmOp2RegType_def)

lemma parse_gp2:
  assumes p1: "gpRM vt p1" and p2: "gpReg vt p2" and n: "noted p1 c"
    and r: "rexbit c REX_MASK_R = (8 \<le> ri (oreg p2))"
    and bytes: "bytes_at (d_mem c) (d_ptr c) (rmBytes (ri (oreg p2) mod 8) p1)"
  shows "\<exists>q. sameOp q p1 \<and> parseModRM c vt RTS_G_G q1 True q2
      = Some (q, q2\<lparr>otype := otype p2, oreg := oreg p2\<rparr>, ri (oreg p2) mod 8,
          skip_bytes (length (rmBytes (ri (oreg p2) mod 8) p1)) c)"
  using parse_gp [OF p1 n mod8_less bytes gpReg_op2 [OF p2 r], of q1 True q2]
    gpReg_facts(5) [OF p2] by auto

subsection \<open>Appended instructions\<close>

lemma sameOp_valType: "sameOp q p \<Longrightarrow> opValType q = opValType p"
  by (auto simp: sameOp_def sameMem_def opValType_def split: if_splits)

lemma copyOperand_sameOp:
  assumes "gpRM vt p" and "sameOp q p"
  shows "\<exists>a. copyOperand op0 q = Some a \<and> sameOp a p"
proof (cases "opIsReg p")
  case True
  then have "otype q = otype p" "oreg q = oreg p" using assms(2) by (simp_all add: sameOp_def)
  moreover have "opIsReg q" "\<not> opIsImm q" using True calculation
    by (auto simp: opIsReg_def opIsImm_def)
  ultimately show ?thesis using True by (simp add: copyOperand_def sameOp_def opIsReg_def)
next
  case False
  then have m: "gpMem vt p" using assms(1) gpReg_facts(3) by (auto simp: gpRM_def)
  note f = gpMem_facts [OF m]
  have s: "sameMem q p" using False assms(2) by (simp add: sameOp_def)
  then have t: "opIsInd q" "\<not> opIsReg q" "\<not> opIsImm q"
    using f(3-5) by (auto simp: sameMem_def opIsInd_def opIsReg_def opIsImm_def)
  show ?thesis using f(1) s False t
    by (auto simp: copyOperand_def sameMem_def wfMem_def sameOp_def c_assert_bind)
qed

definition newInstr :: "dctx \<Rightarrow> dctx \<Rightarrow> instr \<Rightarrow> bool" where
  "newInstr c c' i \<longleftrightarrow> d_r c' = (d_r c)\<lparr>decInstr := decInstr (d_r c) @ [i]\<rparr> \<and> d_err c' = d_err c
     \<and> d_f c' = d_f c \<and> d_off c' = d_off c \<and> iaddr i = d_iaddr c
     \<and> ilen i = unat (d_ptr c - d_iaddr c) \<and> ptLen i = 0"

definition roomy :: "dctx \<Rightarrow> bool" where
  "roomy c \<longleftrightarrow> decInstrCount c < decInstrCapacity (d_r c)"

definition freshInstr :: "dctx \<Rightarrow> instr" where
  "freshInstr c = instr0\<lparr>iaddr := d_iaddr c, ilen := unat (d_ptr c - d_iaddr c)\<rparr>"

lemma nextInstrForDContext_room:
  "roomy c \<Longrightarrow> nextInstrForDContext c = (Some (decInstrCount c),
     c\<lparr>d_r := (d_r c)\<lparr>decInstr := decInstr (d_r c) @ [freshInstr c]\<rparr>\<rparr>)"
  by (simp add: nextInstrForDContext_def nextInstr_def roomy_def Let_def freshInstr_def instr0_def)

lemma setDecInstr_last:
  "setDecInstr (decInstrCount c) i (c\<lparr>d_r := (d_r c)\<lparr>decInstr := decInstr (d_r c) @ [j]\<rparr>\<rparr>)
    = c\<lparr>d_r := (d_r c)\<lparr>decInstr := decInstr (d_r c) @ [i]\<rparr>\<rparr>"
  by (simp add: setDecInstr_def)

lemma newInstr_intro:
  "newInstr c (c\<lparr>d_r := (d_r c)\<lparr>decInstr := decInstr (d_r c) @ [j]\<rparr>\<rparr>) i
    \<longleftrightarrow> i = j \<and> iaddr i = d_iaddr c \<and> ilen i = unat (d_ptr c - d_iaddr c) \<and> ptLen i = 0"
proof -
  have "(d_r c)\<lparr>decInstr := decInstr (d_r c) @ [j]\<rparr> = (d_r c)\<lparr>decInstr := decInstr (d_r c) @ [i]\<rparr>
      \<longleftrightarrow> i = j"
    by (metis append1_eq_conv rewriter.select_convs(4) rewriter.surjective rewriter.update_convs(4))
  then show ?thesis by (auto simp: newInstr_def)
qed

lemma newInstr_ii [simp]: "newInstr c (c'\<lparr>d_ii := k\<rparr>) i = newInstr c c' i"
  by (simp add: newInstr_def)

lemma freshInstr_simps [simp]:
  "iaddr (freshInstr c) = d_iaddr c" "ilen (freshInstr c) = unat (d_ptr c - d_iaddr c)"
  "ptLen (freshInstr c) = 0" "idst (freshInstr c) = op0" "isrc (freshInstr c) = op0"
  "isrc2 (freshInstr c) = op0"
  by (simp_all add: freshInstr_def instr0_def)

definition binInstr :: "instrtype \<Rightarrow> valtype \<Rightarrow> operand \<Rightarrow> operand \<Rightarrow> instr \<Rightarrow> bool" where
  "binInstr it vt a b i \<longleftrightarrow> itype i = it \<and> iform i = OF_2 \<and> ivtype i = vt \<and> idst i = a \<and> isrc i = b"

definition unInstr :: "instrtype \<Rightarrow> operand \<Rightarrow> instr \<Rightarrow> bool" where
  "unInstr it a i \<longleftrightarrow> itype i = it \<and> iform i = OF_1 \<and> idst i = a"

lemma addB_ii_new:
  assumes r: "roomy c" and vt: "vt = VT_Implicit \<or> opValType (o1 c) = Some vt"
    and a: "copyOperand op0 (o1 c) = Some a" and b: "copyOperand op0 (o2 c) = Some b"
  shows "\<exists>c' i. addB_ii it vt c = Some c' \<and> newInstr c c' i \<and> binInstr it vt a b i
    \<and> d_ii c' = Some (decInstrCount c)"
proof -
  have "addB_ii it vt c = Some (c\<lparr>d_r := (d_r c)\<lparr>decInstr := decInstr (d_r c) @
      [(freshInstr c)\<lparr>itype := it, iform := OF_2, ivtype := vt, idst := a, isrc := b\<rparr>]\<rparr>,
      d_ii := Some (decInstrCount c)\<rparr>)"
    using vt a b by (auto simp: addB_ii_def addBinaryOp_def nextInstrForDContext_room [OF r]
        setDecInstr_last)
  then show ?thesis by (simp add: newInstr_intro binInstr_def)
qed

lemma addB_new:
  assumes r: "roomy c" and vt: "vt = VT_Implicit \<or> opValType (o1 c) = Some vt"
    and a: "copyOperand op0 (o1 c) = Some a" and b: "copyOperand op0 (o2 c) = Some b"
  shows "\<exists>c' i. addB it vt c = Some c' \<and> newInstr c c' i \<and> binInstr it vt a b i"
proof -
  have "addB it vt c = Some (c\<lparr>d_r := (d_r c)\<lparr>decInstr := decInstr (d_r c) @
      [(freshInstr c)\<lparr>itype := it, iform := OF_2, ivtype := vt, idst := a, isrc := b\<rparr>]\<rparr>\<rparr>)"
    using vt a b by (auto simp: addB_def addBinaryOp_def nextInstrForDContext_room [OF r]
        setDecInstr_last)
  then show ?thesis by (simp add: newInstr_intro binInstr_def)
qed

lemma addU_new:
  assumes r: "roomy c" and a: "copyOperand op0 p = Some a"
  shows "\<exists>c' i. addU it p c = Some c' \<and> newInstr c c' i \<and> unInstr it a i"
proof -
  have "addU it p c = Some (c\<lparr>d_r := (d_r c)\<lparr>decInstr := decInstr (d_r c) @
      [(freshInstr c)\<lparr>itype := it, iform := OF_1, idst := a\<rparr>]\<rparr>\<rparr>)"
    using a by (simp add: addU_def addUnaryOp_def nextInstrForDContext_room [OF r] setDecInstr_last)
  then show ?thesis by (simp add: newInstr_intro unInstr_def)
qed

section \<open>One instruction\<close>

text \<open>Decoding at \<open>d\<close> reads exactly \<open>n\<close> bytes and appends one instruction with property \<open>P\<close>.\<close>

definition decodesAs :: "dechandler opctables \<Rightarrow> dctx \<Rightarrow> nat \<Rightarrow> (instr \<Rightarrow> bool) \<Rightarrow> bool" where
  "decodesAs tb d n P \<longleftrightarrow> (\<exists>d' i. decodeStep tb d = Some d'
     \<and> d_r d' = (d_r d)\<lparr>decInstr := decInstr (d_r d) @ [i]\<rparr>
     \<and> d_err d' = d_err d \<and> d_f d' = d_f d \<and> d_off d' = d_off d + n
     \<and> iaddr i = d_ptr d \<and> ilen i = n \<and> ptLen i = 0 \<and> P i)"

lemma decodesAs_mono: "decodesAs tb d n P \<Longrightarrow> (\<And>i. P i \<Longrightarrow> Q i) \<Longrightarrow> decodesAs tb d n Q"
  unfolding decodesAs_def by blast

text \<open>A clean context with room for an instruction.\<close>

definition ready :: "dctx \<Rightarrow> bool" where
  "ready d \<longleftrightarrow> \<not> isErrorSet (d_err d) \<and> roomy d"

lemma decodesAs_new:
  assumes step: "decodeStep tb d = Some d'" and new: "newInstr c d' i" and p: "P i"
    and c: "d_r c = d_r d" "d_err c = d_err d" "d_f c = d_f d" "d_off c = d_off d + n"
      "d_iaddr c = d_ptr d" and n: "n < 2 ^ 64"
  shows "decodesAs tb d n P"
proof -
  have "unat (d_ptr c - d_iaddr c) = n" using n by (simp add: c unat_of_nat)
  then show ?thesis using step new p c by (auto simp: decodesAs_def newInstr_def)
qed

lemma rmBytes_digit:
  assumes "dg < 8" and "bytes_at m a (rmBytes dg p)"
  shows "unat (drop_bit 3 (m a AND 56)) = dg"
proof -
  let ?a = "if opIsReg p then 3 else memMode p"
  let ?b = "if opIsReg p \<or> \<not> memHasSIB p then ri (oreg p) mod 8 else 4"
  have lt: "?a < 4" "?b < 8" using memMode_less [of p] by auto
  have "rmBytes dg p = mrb ?a dg ?b # tl (rmBytes dg p)" by (simp add: rmBytes_def memBytes_def)
  then have "m a = mrb ?a dg ?b" using assms(2) by (metis bytes_at.simps(2))
  then show ?thesis using mrb_fields(2) [OF lt(1) assms(1) lt(2)] by (simp only:)
qed

lemma length_modrmBytes: "length (modrmBytes vt opc v dg p) \<le> 13"
  by (simp add: modrmBytes_def prefixBytes_def segBytes_def opcBytes_def rmBytes_def length_memBytes
      dispRead_simps split: opsegoverride.split)

lemma at_operands:
  assumes "bytes_at (d_mem d) (d_ptr d) (modrmBytes vt opc v dg p)"
  shows "bytes_at (d_mem (atOpcode vt v opc p d)) (d_ptr (atOpcode vt v opc p d)) (rmBytes dg p)"
  using assms by (simp add: modrmBytes_def atOpcode_simps ac_simps)

lemma dispatch:
  assumes v: "v = rexOf e w r x b" and rd: "ready d" and opc: "plainOpcode opc" and dg: "dg < 8"
    and bytes: "bytes_at (d_mem d) (d_ptr d) (modrmBytes vt opc v dg p)"
    and look: "lookupOpc tb (opcTable opc, opc mod 256, t, off) = Some (it, ent, ha, hb, hc)"
      "(t, off) = (OT_Single, 0) \<or> (t, off) = (OT_Group, dg)"
  shows "decodeStep tb d = runHandlers ha hb hc (withEntry it ent (atOpcode vt v opc p d))"
proof -
  have ne: "\<not> isErrorSet (d_err d)" using rd by (simp add: ready_def)
  note st = decodeStep_modrmBytes [OF v ne opc bytes, of tb]
  from look(2) show ?thesis
  proof
    assume "(t, off) = (OT_Single, 0)"
    then show ?thesis using look(1) st by (simp add: processOpc_single)
  next
    assume t: "(t, off) = (OT_Group, dg)"
    then show ?thesis
      using look(1) st processOpc_group rmBytes_digit [OF dg at_operands [OF bytes]] by simp
  qed
qed

lemma runHandlers_two:
  assumes "ha c = Some c'" and "d_err c' = d_err c" and "\<not> isErrorSet (d_err c)"
  shows "runHandlers ha (Some hb) None c = hb c'"
  using assms by (cases "hb c'") (simp_all add: runHandlers_def)

text \<open>A context before the handlers of an opcode that belongs to \<open>d\<close>; \<open>k\<close> bytes were read.\<close>

definition belongs :: "dctx \<Rightarrow> nat \<Rightarrow> dctx \<Rightarrow> bool" where
  "belongs d k c \<longleftrightarrow> d_r c = d_r d \<and> d_err c = d_err d \<and> d_f c = d_f d \<and> d_off c = d_off d + k
     \<and> d_iaddr c = d_ptr d"

text \<open>A decoding step up to the operands of an opcode with a \<open>r/m\<close> operand.\<close>

lemma reach_operands:
  assumes v: "v = rexOf e w r (rmX p) (rmB p)" and rd: "ready d" and opc: "plainOpcode opc"
    and dg: "dg < 8" and bytes: "bytes_at (d_mem d) (d_ptr d) (modrmBytes vt opc v dg p)"
    and look: "lookupOpc tb (opcTable opc, opc mod 256, t, off) = Some (it, ent, ha, hb, hc)"
      "(t, off) = (OT_Single, 0) \<or> (t, off) = (OT_Group, dg)"
  shows "\<exists>c k. decodeStep tb d = runHandlers ha hb hc c \<and> belongs d k c
    \<and> k + length (rmBytes dg p) = length (modrmBytes vt opc v dg p)
    \<and> noted p c \<and> rexbit c REX_MASK_R = r \<and> bytes_at (d_mem c) (d_ptr c) (rmBytes dg p)
    \<and> d_it c = it
    \<and> d_vt c = (if ent = VT_Def then if vt = VT_16 then VT_16 else if w then VT_64 else VT_32 else ent)"
proof -
  let ?k = "length (prefixBytes (rmSeg p) (vt = VT_16) False False v) + length (opcBytes opc)"
  let ?a = "atOpcode vt v opc p d"
  have off: "d_off ?a = d_off d + ?k" "d_f ?a = d_f d"
    by (auto simp: atOpcode_def Let_def skip_bytes_def opcBytes_def)
  have "belongs d ?k (withEntry it ent ?a)"
    by (simp add: belongs_def off) (simp add: atOpcode_simps)
  moreover have "?k + length (rmBytes dg p) = length (modrmBytes vt opc v dg p)"
    by (simp add: modrmBytes_def)
  moreover have "bytes_at (d_mem (withEntry it ent ?a)) (d_ptr (withEntry it ent ?a)) (rmBytes dg p)"
    using at_operands [OF bytes] by simp
  ultimately show ?thesis
    using dispatch [OF v rd opc dg bytes look] noted_atOpcode [OF v] rexbit_atOpcode(2) [OF v]
      defaultVT_atOpcode [OF v] by (intro exI [of _ "withEntry it ent ?a"] exI [of _ ?k]) simp
qed

subsection \<open>Register and memory forms\<close>

text \<open>The bits of a pair of operands.\<close>

abbreviation rexPair :: "valtype \<Rightarrow> operand \<Rightarrow> operand \<Rightarrow> u32" where
  "rexPair vt p1 p2 \<equiv> rexOf False (vt = VT_64) (8 \<le> ri (oreg p2)) (rmX p1) (rmB p1)"

abbreviation pairBytes :: "valtype \<Rightarrow> nat \<Rightarrow> operand \<Rightarrow> operand \<Rightarrow> u8 list" where
  "pairBytes vt opc p1 p2 \<equiv> modrmBytes vt opc (rexPair vt p1 p2) (ri (oreg p2) mod 8) p1"

definition likeBin ::
  "instrtype \<Rightarrow> valtype \<Rightarrow> (operand \<Rightarrow> bool) \<Rightarrow> (operand \<Rightarrow> bool) \<Rightarrow> instr \<Rightarrow> bool" where
  "likeBin it vt P Q i \<longleftrightarrow> itype i = it \<and> iform i = OF_2 \<and> ivtype i = vt \<and> P (idst i) \<and> Q (isrc i)"

lemma gpReg_gpRM: "gpReg vt p \<Longrightarrow> gpRM vt p"
  by (simp add: gpRM_def)

lemma sameOp_reg:
  assumes "gpReg vt p"
  shows "sameOp (q\<lparr>otype := otype p, oreg := oreg p\<rparr>) p"
  using gpReg_facts(3) [OF assms] by (simp add: sameOp_def)

text \<open>A context after parsing \<open>n\<close> bytes of operands.\<close>

definition parsed :: "nat \<Rightarrow> dctx \<Rightarrow> dctx \<Rightarrow> bool" where
  "parsed n c c1 \<longleftrightarrow> d_r c1 = d_r c \<and> d_err c1 = d_err c \<and> d_f c1 = d_f c \<and> d_off c1 = d_off c + n
     \<and> d_iaddr c1 = d_iaddr c \<and> d_it c1 = d_it c \<and> d_vt c1 = d_vt c"

lemma parsed_roomy: "parsed n c c1 \<Longrightarrow> roomy c1 = roomy c"
  by (simp add: parsed_def roomy_def)

lemma bin_decodes:
  assumes step: "decodeStep tb d = runHandlers ha (Some addBInstr) None c" and rd: "ready d"
    and c: "belongs d k c" and run: "ha c = Some c1" "parsed n c c1" and N: "k + n < 2 ^ 64"
    and vt: "opValType (o1 c1) = Some (d_vt c)"
    and a: "copyOperand op0 (o1 c1) = Some a" "P a" and b: "copyOperand op0 (o2 c1) = Some b" "Q b"
  shows "decodesAs tb d (k + n) (likeBin (d_it c) (d_vt c) P Q)"
proof -
  have "roomy c1" using rd c parsed_roomy [OF run(2)] by (simp add: ready_def belongs_def roomy_def)
  then obtain c' i where new: "addBInstr c1 = Some c'" "newInstr c1 c' i"
      "binInstr (d_it c) (d_vt c) a b i"
    using addB_ii_new [of c1 "d_vt c" a b "d_it c"] vt a b run(2)
    by (auto simp: addBInstr_def parsed_def)
  have "\<not> isErrorSet (d_err c)" using rd c by (simp add: ready_def belongs_def)
  then have "decodeStep tb d = Some c'"
    using run new(1) by (simp add: step runHandlers_two [of ha c c1] parsed_def)
  then show ?thesis
    by (rule decodesAs_new [OF _ new(2)])
      (use new(3) a b c run(2) N in \<open>simp_all add: likeBin_def binInstr_def belongs_def parsed_def\<close>)
qed

text \<open>The operand handlers.\<close>

lemma parseMR_parsed:
  assumes p1: "gpRM vt p1" and p2: "gpReg vt p2" and n: "noted p1 c" and vt: "d_vt c = vt"
    and r: "rexbit c REX_MASK_R = (8 \<le> ri (oreg p2))"
    and bytes: "bytes_at (d_mem c) (d_ptr c) (rmBytes (ri (oreg p2) mod 8) p1)"
  shows "\<exists>c1. parseMR c = Some c1 \<and> parsed (length (rmBytes (ri (oreg p2) mod 8) p1)) c c1
    \<and> sameOp (o1 c1) p1 \<and> sameOp (o2 c1) p2"
  using parse_gp2 [OF p1 p2 n r bytes, of "o1 c" "o2 c"] sameOp_reg [OF p2, of "o2 c"]
  by (auto simp: parseMR_def modrm_o1_o2_def vt parsed_def skip_bytes_def)

lemma parseRM_parsed:
  assumes p1: "gpRM vt p1" and p2: "gpReg vt p2" and n: "noted p1 c" and vt: "d_vt c = vt"
    and r: "rexbit c REX_MASK_R = (8 \<le> ri (oreg p2))"
    and bytes: "bytes_at (d_mem c) (d_ptr c) (rmBytes (ri (oreg p2) mod 8) p1)"
  shows "\<exists>c1. parseRM c = Some c1 \<and> parsed (length (rmBytes (ri (oreg p2) mod 8) p1)) c c1
    \<and> sameOp (o1 c1) p2 \<and> sameOp (o2 c1) p1"
  using parse_gp2 [OF p1 p2 n r bytes, of "o2 c" "o1 c"] sameOp_reg [OF p2, of "o1 c"]
  by (auto simp: parseRM_def modrm_o2_o1_def vt parsed_def skip_bytes_def)

text \<open>An instruction with two operands, after its operand handler.\<close>

lemma like_decodes:
  assumes step: "decodeStep tb d = runHandlers ha (Some addBInstr) None c" and rd: "ready d"
    and c: "belongs d k c" "d_vt c = vt" and run: "ha c = Some c1" "parsed n c c1"
    and N: "k + n < 2 ^ 64" and p: "gpRM vt p" "sameOp (o1 c1) p" and q: "gpRM vt q" "sameOp (o2 c1) q"
  shows "decodesAs tb d (k + n) (likeBin (d_it c) vt (\<lambda>a. sameOp a p) (\<lambda>b. sameOp b q))"
proof -
  obtain a b where a: "copyOperand op0 (o1 c1) = Some a" "sameOp a p"
    and b: "copyOperand op0 (o2 c1) = Some b" "sameOp b q"
    using copyOperand_sameOp [OF p] copyOperand_sameOp [OF q] by blast
  have "opValType (o1 c1) = Some (d_vt c)"
    using sameOp_valType [OF p(2)] gpRM_facts(2) [OF p(1)] c(2) by simp
  from bin_decodes [where P = "\<lambda>a. sameOp a p" and Q = "\<lambda>b. sameOp b q", OF step rd c(1) run N this a b]
  show ?thesis by (simp only: c(2))
qed

lemma length_bound: "length (modrmBytes vt opc v dg p) < 2 ^ 64"
  using length_modrmBytes [of vt opc v dg p] by simp

lemma MR_decodes:
  assumes look: "lookupOpc tb (opcTable opc, opc mod 256, OT_Single, 0)
      = Some (it, VT_Def, parseMR, Some addBInstr, None)"
    and opc: "plainOpcode opc" and rd: "ready d" and p1: "gpRM vt p1" and p2: "gpReg vt p2"
    and bytes: "bytes_at (d_mem d) (d_ptr d) (pairBytes vt opc p1 p2)"
  shows "decodesAs tb d (length (pairBytes vt opc p1 p2))
    (likeBin it vt (\<lambda>a. sameOp a p1) (\<lambda>b. sameOp b p2))"
proof -
  obtain c k where c: "decodeStep tb d = runHandlers parseMR (Some addBInstr) None c" "belongs d k c"
    "k + length (rmBytes (ri (oreg p2) mod 8) p1) = length (pairBytes vt opc p1 p2)" "noted p1 c"
    "rexbit c REX_MASK_R = (8 \<le> ri (oreg p2))"
    "bytes_at (d_mem c) (d_ptr c) (rmBytes (ri (oreg p2) mod 8) p1)" "d_it c = it" "d_vt c = vt"
    using reach_operands [OF refl rd opc mod8_less bytes look] gpRM_facts(4) [OF p1]
    by (auto simp: gpVT_def)
  obtain c1 where c1: "parseMR c = Some c1" "parsed (length (rmBytes (ri (oreg p2) mod 8) p1)) c c1"
    "sameOp (o1 c1) p1" "sameOp (o2 c1) p2"
    using parseMR_parsed [OF p1 p2 c(4,8,5,6)] by blast
  show ?thesis
    using like_decodes [OF c(1) rd c(2,8) c1(1,2) _ p1 c1(3) gpReg_gpRM [OF p2] c1(4)]
    by (simp only: c(3,7) length_bound)
qed

lemma RM_decodes:
  assumes look: "lookupOpc tb (opcTable opc, opc mod 256, OT_Single, 0)
      = Some (it, VT_Def, parseRM, Some addBInstr, None)"
    and opc: "plainOpcode opc" and rd: "ready d" and p1: "gpRM vt p1" and p2: "gpReg vt p2"
    and bytes: "bytes_at (d_mem d) (d_ptr d) (pairBytes vt opc p1 p2)"
  shows "decodesAs tb d (length (pairBytes vt opc p1 p2))
    (likeBin it vt (\<lambda>a. sameOp a p2) (\<lambda>b. sameOp b p1))"
proof -
  obtain c k where c: "decodeStep tb d = runHandlers parseRM (Some addBInstr) None c" "belongs d k c"
    "k + length (rmBytes (ri (oreg p2) mod 8) p1) = length (pairBytes vt opc p1 p2)" "noted p1 c"
    "rexbit c REX_MASK_R = (8 \<le> ri (oreg p2))"
    "bytes_at (d_mem c) (d_ptr c) (rmBytes (ri (oreg p2) mod 8) p1)" "d_it c = it" "d_vt c = vt"
    using reach_operands [OF refl rd opc mod8_less bytes look] gpRM_facts(4) [OF p1]
    by (auto simp: gpVT_def)
  obtain c1 where c1: "parseRM c = Some c1" "parsed (length (rmBytes (ri (oreg p2) mod 8) p1)) c c1"
    "sameOp (o1 c1) p2" "sameOp (o2 c1) p1"
    using parseRM_parsed [OF p1 p2 c(4,8,5,6)] by blast
  show ?thesis
    using like_decodes [OF c(1) rd c(2,8) c1(1,2) _ gpReg_gpRM [OF p2] c1(3) p1 c1(4)]
    by (simp only: c(3,7) length_bound)
qed

subsection \<open>Immediates\<close>

text \<open>The value of an immediate, and this value in the width of an operation.\<close>

definition immVal :: "operand \<Rightarrow> u64" where
  "immVal q = (case otype q of OT_Imm8 \<Rightarrow> sext8 (oval q) | OT_Imm16 \<Rightarrow> sext16 (oval q)
     | OT_Imm32 \<Rightarrow> sext32 (oval q) | _ \<Rightarrow> oval q)"

definition immAt :: "valtype \<Rightarrow> u64 \<Rightarrow> u64" where
  "immAt vt v = (case vt of VT_8 \<Rightarrow> trunc8 v | VT_16 \<Rightarrow> trunc16 v | VT_32 \<Rightarrow> trunc32 v | _ \<Rightarrow> v)"

definition sameImm :: "valtype \<Rightarrow> operand \<Rightarrow> operand \<Rightarrow> bool" where
  "sameImm vt q p \<longleftrightarrow> getImmOpType vt = Some (otype q) \<and> oval q = immAt vt (immVal p)"

lemma trunc_bounds: "trunc8 v < 2 ^ 8" "trunc16 v < 2 ^ 16" "trunc32 v < 2 ^ 32"
  by (rule trunc_less)+

lemma ucast_scast_up:
  "(ucast (scast (w :: 'a::len word) :: u64) :: 'a word) = w" if "LENGTH('a) \<le> 64"
  using that by (intro bit_word_eqI) (auto simp: bit_simps)

lemma trunc_sext: "trunc8 (sext8 v) = trunc8 v" "trunc16 (sext16 v) = trunc16 v"
  "trunc32 (sext32 v) = trunc32 v"
  by (simp_all add: cast_defs ucast_scast_up)

lemma copyOperand_imm:
  assumes t: "getImmOpType vt = Some (otype q)" and v: "oval q = immAt vt v"
  shows "copyOperand op0 q = Some (op0\<lparr>otype := otype q, oval := oval q\<rparr>)"
proof -
  have "trunc8 v < 2 ^ 16" "trunc8 v < 2 ^ 32" "trunc16 v < 2 ^ 32"
    by (rule less_le_trans [OF trunc_less(1)], simp, rule less_le_trans [OF trunc_less(1)], simp,
        rule less_le_trans [OF trunc_less(2)], simp)
  note b = this trunc_less [of v]
  show ?thesis using t v b [simplified]
    by (cases vt) (simp_all add: getImmOpType_def copyOperand_def opIsImm_def immAt_def split: optype.splits)
qed

text \<open>Reading back an immediate of the operation's own width, or 32 bits of 64.\<close>

lemma parseImm_appendI:
  assumes vt: "vt = VT_16 \<and> otype q = OT_Imm16 \<or> (vt = VT_32 \<or> vt = VT_64) \<and> otype q = OT_Imm32
      \<or> vt = VT_8 \<and> otype q = OT_Imm8"
    and im: "appendI q = Some im" and bytes: "bytes_at (d_mem c) (d_ptr c) im"
  shows "\<exists>t. parseImm vt False p c = Some (p\<lparr>otype := t, oval := immAt vt (immVal q)\<rparr>,
      skip_bytes (length im) c) \<and> getImmOpType vt = Some t"
  using vt
proof (elim disjE conjE)
  assume t: "vt = VT_16" "otype q = OT_Imm16"
  then have i: "im = le16 (oval q)" using im by (simp add: appendI_def)
  show ?thesis using t rd16_bytes_at [OF bytes [unfolded i]]
    by (simp add: i parseImm_def Let_def getImmOpType_def immAt_def immVal_def trunc_sext)
next
  assume t: "vt = VT_32" "otype q = OT_Imm32"
  then have i: "im = le32 (oval q)" using im by (simp add: appendI_def)
  show ?thesis using t rd32_bytes_at [OF bytes [unfolded i]]
    by (simp add: i parseImm_def Let_def getImmOpType_def immAt_def immVal_def trunc_sext)
next
  assume t: "vt = VT_64" "otype q = OT_Imm32"
  then have i: "im = le32 (oval q)" using im by (simp add: appendI_def)
  show ?thesis using t rd32_bytes_at [OF bytes [unfolded i]]
    by (simp add: i parseImm_def Let_def getImmOpType_def immAt_def immVal_def)
next
  assume t: "vt = VT_8" "otype q = OT_Imm8"
  then have i: "im = le8 (oval q)" using im by (simp add: appendI_def)
  show ?thesis using t rd8_bytes_at [OF bytes [unfolded i]]
    by (simp add: i parseImm_def Let_def getImmOpType_def immAt_def immVal_def trunc_sext)
qed

text \<open>The immediate of an instruction with operands of width \<open>vt\<close>, not reduced to 8 bits.\<close>

definition wideImm :: "valtype \<Rightarrow> operand \<Rightarrow> bool" where
  "wideImm vt q \<longleftrightarrow> otype q = (if vt = VT_16 then OT_Imm16 else OT_Imm32)"

text \<open>A \<open>r/m\<close> operand and an immediate behind it.\<close>

lemma modrm_o1_parsed:
  assumes p: "gpRM vt p" and n: "noted p c" and dg: "dg < 8"
    and bytes: "bytes_at (d_mem c) (d_ptr c) (rmBytes dg p)"
  shows "\<exists>r. sameOp r p \<and> modrm_o1 vt RTS_G_G c
      = Some ((skip_bytes (length (rmBytes dg p)) c)\<lparr>o1 := r\<rparr>)
    \<and> modrm_o1_digit vt RTS_G_G c
      = Some ((skip_bytes (length (rmBytes dg p)) c)\<lparr>o1 := r, digit := dg\<rparr>)"
  using parse_gp [OF p n dg bytes, of False undefined "o1 c" op0]
  by (auto simp: modrm_o1_def modrm_o1_digit_def)

lemma parseMI_parsed:
  assumes p: "gpRM vt p" and n: "noted p c" and vt: "d_vt c = vt" and dg: "dg < 8"
    and q: "wideImm vt q" and im: "appendI q = Some im"
    and bytes: "bytes_at (d_mem c) (d_ptr c) (rmBytes dg p @ im)"
  shows "\<exists>c1. parseMI c = Some c1 \<and> parsed (length (rmBytes dg p @ im)) c c1
    \<and> sameOp (o1 c1) p \<and> sameImm vt (o2 c1) q"
proof -
  obtain r where r: "sameOp r p"
    "modrm_o1 vt RTS_G_G c = Some ((skip_bytes (length (rmBytes dg p)) c)\<lparr>o1 := r\<rparr>)"
    using modrm_o1_parsed [OF p n dg] bytes by auto
  let ?c = "(skip_bytes (length (rmBytes dg p)) c)\<lparr>o1 := r\<rparr>"
  have b: "bytes_at (d_mem ?c) (d_ptr ?c) im" using bytes by (simp add: skip_bytes_def add.assoc)
  have t: "vt = VT_16 \<and> otype q = OT_Imm16 \<or> (vt = VT_32 \<or> vt = VT_64) \<and> otype q = OT_Imm32
      \<or> vt = VT_8 \<and> otype q = OT_Imm8"
    using q gpRM_facts(4) [OF p] by (auto simp: wideImm_def gpVT_def)
  show ?thesis using parseImm_appendI [OF t im b, of "o2 ?c"] r
    by (auto simp: parseMI_def vt imm_o2_def parsed_def skip_bytes_def sameImm_def)
qed

lemma parseMI_8se_parsed:
  assumes p: "gpRM vt p" and n: "noted p c" and vt: "d_vt c = vt" and dg: "dg < 8"
    and q: "otype q = OT_Imm8" and im: "appendI q = Some im"
    and bytes: "bytes_at (d_mem c) (d_ptr c) (rmBytes dg p @ im)"
  shows "\<exists>c1. parseMI_8se c = Some c1 \<and> parsed (length (rmBytes dg p @ im)) c c1
    \<and> sameOp (o1 c1) p \<and> sameImm vt (o2 c1) q"
proof -
  obtain r where r: "sameOp r p"
    "modrm_o1 vt RTS_G_G c = Some ((skip_bytes (length (rmBytes dg p)) c)\<lparr>o1 := r\<rparr>)"
    using modrm_o1_parsed [OF p n dg] bytes by auto
  let ?c = "(skip_bytes (length (rmBytes dg p)) c)\<lparr>o1 := r\<rparr>"
  have b: "bytes_at (d_mem ?c) (d_ptr ?c) im" using bytes by (simp add: skip_bytes_def add.assoc)
  have i: "im = le8 (oval q)" using im q by (simp add: appendI_def)
  have v: "rd8 (d_mem ?c) (d_ptr ?c) = trunc8 (oval q)" using b by (intro rd8_bytes_at) (simp add: i)
  have iv: "immVal q = sext8 (oval q)" using q by (simp add: immVal_def)
  have "gpVT vt" by (rule gpRM_facts(4) [OF p])
  then show ?thesis using v r
    by (auto simp: parseMI_8se_def vt imm_o2_def parseImm_def parsed_def skip_bytes_def sameImm_def
        gpVT_def getImmOpType_def immAt_def iv i)
qed

abbreviation digitBytes :: "valtype \<Rightarrow> nat \<Rightarrow> nat \<Rightarrow> operand \<Rightarrow> u8 list" where
  "digitBytes vt opc dg p \<equiv> modrmBytes vt opc (rexOf False (vt = VT_64) False (rmX p) (rmB p)) dg p"

lemma length_appendI: "appendI q = Some im \<Longrightarrow> length im \<le> 8"
  by (auto simp: appendI_def split: optype.splits)

lemma digit_length_bound: "appendI q = Some im \<Longrightarrow> length (digitBytes vt opc dg p @ im) < 2 ^ 64"
  using length_modrmBytes [of vt opc "rexOf False (vt = VT_64) False (rmX p) (rmB p)" dg p]
    length_appendI [of q im] by simp

lemma sameImm_copy:
  assumes "sameImm vt a q"
  shows "\<exists>b. copyOperand op0 a = Some b \<and> sameImm vt b q"
  using assms copyOperand_imm [of vt a] by (auto simp: sameImm_def)

text \<open>The bytes of an operand with a digit, and an immediate.\<close>

lemma reach_digit:
  assumes rd: "ready d" and opc: "plainOpcode opc" and dg: "dg < 8" and p: "gpRM vt p"
    and bytes: "bytes_at (d_mem d) (d_ptr d) (digitBytes vt opc dg p @ im)"
    and look: "lookupOpc tb (opcTable opc, opc mod 256, t, off) = Some (it, VT_Def, ha, hb, hc)"
      "(t, off) = (OT_Single, 0) \<or> (t, off) = (OT_Group, dg)"
  shows "\<exists>c k. decodeStep tb d = runHandlers ha hb hc c \<and> belongs d k c
    \<and> k + length (rmBytes dg p @ im) = length (digitBytes vt opc dg p @ im)
    \<and> noted p c \<and> bytes_at (d_mem c) (d_ptr c) (rmBytes dg p @ im)
    \<and> d_it c = it \<and> d_vt c = vt"
proof -
  have b: "bytes_at (d_mem d) (d_ptr d) (digitBytes vt opc dg p)" using bytes by simp
  obtain c k where c: "decodeStep tb d = runHandlers ha hb hc c" "belongs d k c"
    "k + length (rmBytes dg p) = length (digitBytes vt opc dg p)" "noted p c"
    "bytes_at (d_mem c) (d_ptr c) (rmBytes dg p)" "d_it c = it" "d_vt c = vt"
    using reach_operands [OF refl rd opc dg b look] gpRM_facts(4) [OF p] by (auto simp: gpVT_def)
  have "d_ptr c + of_nat (length (rmBytes dg p)) = d_ptr d + of_nat (length (digitBytes vt opc dg p))"
    using c(2) by (simp add: belongs_def flip: c(3))
  moreover have "d_mem c = d_mem d" using c(2) by (simp add: belongs_def)
  ultimately have "bytes_at (d_mem c) (d_ptr c + of_nat (length (rmBytes dg p))) im"
    using bytes by simp
  then show ?thesis using c by auto
qed

lemma MI_decodes:
  assumes look: "lookupOpc tb (opcTable opc, opc mod 256, OT_Group, dg)
      = Some (it, VT_Def, ha, Some addBInstr, None)"
    and opc: "plainOpcode opc" and rd: "ready d" and dg: "dg < 8" and p: "gpRM vt p"
    and im: "appendI q = Some im"
    and ha: "\<And>c. noted p c \<Longrightarrow> d_vt c = vt \<Longrightarrow> bytes_at (d_mem c) (d_ptr c) (rmBytes dg p @ im)
      \<Longrightarrow> \<exists>c1. ha c = Some c1 \<and> parsed (length (rmBytes dg p @ im)) c c1
        \<and> sameOp (o1 c1) p \<and> sameImm vt (o2 c1) q"
    and bytes: "bytes_at (d_mem d) (d_ptr d) (digitBytes vt opc dg p @ im)"
  shows "decodesAs tb d (length (digitBytes vt opc dg p @ im))
    (likeBin it vt (\<lambda>a. sameOp a p) (\<lambda>b. sameImm vt b q))"
proof -
  obtain c k where c: "decodeStep tb d = runHandlers ha (Some addBInstr) None c" "belongs d k c"
    "k + length (rmBytes dg p @ im) = length (digitBytes vt opc dg p @ im)" "noted p c"
    "bytes_at (d_mem c) (d_ptr c) (rmBytes dg p @ im)" "d_it c = it" "d_vt c = vt"
    using reach_digit [OF rd opc dg p bytes look] by auto
  obtain c1 where c1: "ha c = Some c1" "parsed (length (rmBytes dg p @ im)) c c1"
    "sameOp (o1 c1) p" "sameImm vt (o2 c1) q"
    using ha [OF c(4,7,5)] by blast
  obtain a where a: "copyOperand op0 (o1 c1) = Some a" "sameOp a p"
    using copyOperand_sameOp [OF p c1(3)] by blast
  obtain b where b: "copyOperand op0 (o2 c1) = Some b" "sameImm vt b q"
    using sameImm_copy [OF c1(4)] by blast
  have vt: "opValType (o1 c1) = Some (d_vt c)"
    using sameOp_valType [OF c1(3)] gpRM_facts(2) [OF p] c(7) by simp
  have N: "k + length (rmBytes dg p @ im) < 2 ^ 64"
    by (simp only: c(3) digit_length_bound [OF im])
  from bin_decodes [where P = "\<lambda>a. sameOp a p" and Q = "\<lambda>b. sameImm vt b q",
      OF c(1) rd c(2) c1(1,2) N vt a b]
  show ?thesis by (simp only: c(3,6,7))
qed

lemma MI8_decodes:
  assumes look: "lookupOpc tb (opcTable opc, opc mod 256, OT_Group, dg)
      = Some (it, VT_Def, parseMI_8se, Some addBInstr, None)"
    and opc: "plainOpcode opc" and rd: "ready d" and dg: "dg < 8" and p: "gpRM vt p"
    and q: "otype q = OT_Imm8" and im: "appendI q = Some im"
    and bytes: "bytes_at (d_mem d) (d_ptr d) (digitBytes vt opc dg p @ im)"
  shows "decodesAs tb d (length (digitBytes vt opc dg p @ im))
    (likeBin it vt (\<lambda>a. sameOp a p) (\<lambda>b. sameImm vt b q))"
  by (rule MI_decodes [OF look opc rd dg p im parseMI_8se_parsed [OF p _ _ dg q im] bytes])

lemma MIw_decodes:
  assumes look: "lookupOpc tb (opcTable opc, opc mod 256, OT_Group, dg)
      = Some (it, VT_Def, parseMI, Some addBInstr, None)"
    and opc: "plainOpcode opc" and rd: "ready d" and dg: "dg < 8" and p: "gpRM vt p"
    and q: "wideImm vt q" and im: "appendI q = Some im"
    and bytes: "bytes_at (d_mem d) (d_ptr d) (digitBytes vt opc dg p @ im)"
  shows "decodesAs tb d (length (digitBytes vt opc dg p @ im))
    (likeBin it vt (\<lambda>a. sameOp a p) (\<lambda>b. sameImm vt b q))"
  by (rule MI_decodes [OF look opc rd dg p im parseMI_parsed [OF p _ _ dg q im] bytes])

subsection \<open>Single handlers with a digit\<close>

lemma runHandlers_one: "runHandlers h None None c = h c"
  by (cases "h c") (simp_all add: runHandlers_def)

text \<open>\<open>test\<close> and \<open>mov\<close> with an immediate: \<open>F7 /0\<close> and \<open>C7 /0\<close>.\<close>

lemma skip_vt [simp]: "d_vt (skip_bytes n c) = d_vt c"
  by (simp add: skip_bytes_def)

lemma digitImm_decodes:
  assumes look: "lookupOpc tb (opcTable opc, opc mod 256, OT_Single, 0) = Some (it', VT_Def, h, None, None)"
    and h: "\<And>c. h c = do { c \<leftarrow> modrm_o1_digit (d_vt c) RTS_G_G c; g c }"
    and g: "\<And>c. digit c = dg \<Longrightarrow> g c = do { c \<leftarrow> imm_o2 (d_vt c) False c; addB it (d_vt c) c }"
    and opc: "plainOpcode opc" and rd: "ready d" and dg: "dg < 8" and p: "gpRM vt p"
    and q: "wideImm vt q" and im: "appendI q = Some im"
    and bytes: "bytes_at (d_mem d) (d_ptr d) (digitBytes vt opc dg p @ im)"
  shows "decodesAs tb d (length (digitBytes vt opc dg p @ im))
    (likeBin it vt (\<lambda>a. sameOp a p) (\<lambda>b. sameImm vt b q))"
proof -
  obtain c k where c: "decodeStep tb d = runHandlers h None None c" "belongs d k c"
    "k + length (rmBytes dg p @ im) = length (digitBytes vt opc dg p @ im)" "noted p c"
    "bytes_at (d_mem c) (d_ptr c) (rmBytes dg p @ im)" "d_vt c = vt"
    using reach_digit [OF rd opc dg p bytes look] by auto
  obtain r where r: "sameOp r p" "modrm_o1_digit vt RTS_G_G c
      = Some ((skip_bytes (length (rmBytes dg p)) c)\<lparr>o1 := r, digit := dg\<rparr>)"
    using modrm_o1_parsed [OF p c(4) dg] c(5) by auto
  let ?c = "(skip_bytes (length (rmBytes dg p)) c)\<lparr>o1 := r, digit := dg\<rparr>"
  have b: "bytes_at (d_mem ?c) (d_ptr ?c) im" using c(5) by (simp add: skip_bytes_def add.assoc)
  have t: "vt = VT_16 \<and> otype q = OT_Imm16 \<or> (vt = VT_32 \<or> vt = VT_64) \<and> otype q = OT_Imm32
      \<or> vt = VT_8 \<and> otype q = OT_Imm8"
    using q gpRM_facts(4) [OF p] by (auto simp: wideImm_def gpVT_def)
  obtain ot where ot: "parseImm vt False (o2 ?c) ?c = Some ((o2 ?c)\<lparr>otype := ot,
      oval := immAt vt (immVal q)\<rparr>, skip_bytes (length im) ?c)" "getImmOpType vt = Some ot"
    using parseImm_appendI [OF t im b] by blast
  let ?c1 = "(skip_bytes (length im) ?c)\<lparr>o2 := (o2 ?c)\<lparr>otype := ot, oval := immAt vt (immVal q)\<rparr>\<rparr>"
  have par: "parsed (length (rmBytes dg p @ im)) c ?c1" by (simp add: parsed_def skip_bytes_def)
  have room: "roomy ?c1" using rd c(2) by (simp add: ready_def belongs_def roomy_def skip_bytes_def)
  obtain a where a: "copyOperand op0 r = Some a" "sameOp a p"
    using copyOperand_sameOp [OF p r(1)] by blast
  have im2: "sameImm vt (o2 ?c1) q" using ot(2) by (simp add: sameImm_def)
  then obtain b where b: "copyOperand op0 (o2 ?c1) = Some b" "sameImm vt b q"
    using sameImm_copy by blast
  have "opValType (o1 ?c1) = Some vt"
    using sameOp_valType [OF r(1)] gpRM_facts(2) [OF p] by (simp add: skip_bytes_def)
  then obtain c' i where new: "addB it vt ?c1 = Some c'" "newInstr ?c1 c' i" "binInstr it vt a b i"
    using addB_new [OF room _ _ b(1), of vt a it] a(1) by (auto simp: skip_bytes_def)
  have "decodeStep tb d = Some c'"
    using new(1) r(2) ot(1) c(6) by (simp add: c(1) runHandlers_one h g imm_o2_def)
  then show ?thesis
  proof (rule decodesAs_new [OF _ new(2)])
    show "likeBin it vt (\<lambda>a. sameOp a p) (\<lambda>b. sameImm vt b q) i"
      using new(3) a(2) b(2) by (simp add: likeBin_def binInstr_def)
    show "length (digitBytes vt opc dg p @ im) < 2 ^ 64" by (rule digit_length_bound [OF im])
    show "d_off ?c1 = d_off d + length (digitBytes vt opc dg p @ im)"
      using c(2,3) by (simp add: belongs_def skip_bytes_def)
  qed (use c(2) in \<open>simp_all add: belongs_def skip_bytes_def\<close>)
qed

text \<open>Instructions with one operand: \<open>inc\<close>, \<open>dec\<close>, \<open>neg\<close>, \<open>idiv\<close>.\<close>

definition likeUn :: "instrtype \<Rightarrow> (operand \<Rightarrow> bool) \<Rightarrow> instr \<Rightarrow> bool" where
  "likeUn it P i \<longleftrightarrow> itype i = it \<and> iform i = OF_1 \<and> P (idst i)"

lemma digit_decodes:
  assumes look: "lookupOpc tb (opcTable opc, opc mod 256, OT_Single, 0) = Some (it', VT_Def, h, None, None)"
    and h: "\<And>c. h c = do { c \<leftarrow> modrm_o1_digit (d_vt c) RTS_G_G c; g c }"
    and g: "\<And>c. digit c = dg \<Longrightarrow> g c = addU it (o1 c) c"
    and opc: "plainOpcode opc" and rd: "ready d" and dg: "dg < 8" and p: "gpRM vt p"
    and bytes: "bytes_at (d_mem d) (d_ptr d) (digitBytes vt opc dg p)"
  shows "decodesAs tb d (length (digitBytes vt opc dg p)) (likeUn it (\<lambda>a. sameOp a p))"
proof -
  have "bytes_at (d_mem d) (d_ptr d) (digitBytes vt opc dg p @ [])" using bytes by simp
  from reach_digit [OF rd opc dg p this look]
  obtain c k where c: "decodeStep tb d = runHandlers h None None c" "belongs d k c"
    "k + length (rmBytes dg p) = length (digitBytes vt opc dg p)" "noted p c"
    "bytes_at (d_mem c) (d_ptr c) (rmBytes dg p)" "d_vt c = vt"
    by auto
  obtain r where r: "sameOp r p" "modrm_o1_digit vt RTS_G_G c
      = Some ((skip_bytes (length (rmBytes dg p)) c)\<lparr>o1 := r, digit := dg\<rparr>)"
    using modrm_o1_parsed [OF p c(4) dg c(5)] by auto
  let ?c1 = "(skip_bytes (length (rmBytes dg p)) c)\<lparr>o1 := r, digit := dg\<rparr>"
  have room: "roomy ?c1" using rd c(2) by (simp add: ready_def belongs_def roomy_def skip_bytes_def)
  obtain a where a: "copyOperand op0 r = Some a" "sameOp a p"
    using copyOperand_sameOp [OF p r(1)] by blast
  obtain c' i where new: "addU it r ?c1 = Some c'" "newInstr ?c1 c' i" "unInstr it a i"
    using addU_new [OF room a(1)] by blast
  have "decodeStep tb d = Some c'"
    using new(1) r(2) c(6) by (simp add: c(1) runHandlers_one h g)
  then show ?thesis
    by (rule decodesAs_new [OF _ new(2)])
      (use new(3) a(2) c(2,3) length_bound [of vt opc _ dg p] in
        \<open>simp_all add: likeUn_def unInstr_def belongs_def skip_bytes_def\<close>)
qed

text \<open>Shifts by an immediate: \<open>C1\<close>. The count keeps its 8 bits.\<close>

lemma shift_decodes:
  assumes look: "lookupOpc tb (TAB, 0xC1, OT_Single, 0) = Some (it', VT_Def, decode_C1, None, None)"
    and it: "shiftType dg = Some it" and rd: "ready d" and p: "gpRM vt p"
    and q: "otype q = OT_Imm8" and im: "appendI q = Some im"
    and bytes: "bytes_at (d_mem d) (d_ptr d) (digitBytes vt 0xC1 dg p @ im)"
  shows "decodesAs tb d (length (digitBytes vt 0xC1 dg p @ im))
    (likeBin it vt (\<lambda>a. sameOp a p) (\<lambda>b. sameImm VT_8 b q))"
proof -
  have dg: "dg < 8" using it by (auto simp: shiftType_def split: if_splits)
  have opc: "plainOpcode 0xC1" by (simp add: plainOpcode_def opcodeByte_def)
  have "lookupOpc tb (opcTable 0xC1, 0xC1 mod 256, OT_Single, 0) = Some (it', VT_Def, decode_C1, None, None)"
    using look by (simp add: opcTable_def)
  from reach_digit [OF rd opc dg p bytes this]
  obtain c k where c: "decodeStep tb d = runHandlers decode_C1 None None c" "belongs d k c"
    "k + length (rmBytes dg p @ im) = length (digitBytes vt 0xC1 dg p @ im)" "noted p c"
    "bytes_at (d_mem c) (d_ptr c) (rmBytes dg p @ im)" "d_vt c = vt"
    by auto
  obtain r where r: "sameOp r p" "modrm_o1_digit vt RTS_G_G c
      = Some ((skip_bytes (length (rmBytes dg p)) c)\<lparr>o1 := r, digit := dg\<rparr>)"
    using modrm_o1_parsed [OF p c(4) dg] c(5) by auto
  let ?c = "(skip_bytes (length (rmBytes dg p)) c)\<lparr>o1 := r, digit := dg\<rparr>"
  have b: "bytes_at (d_mem ?c) (d_ptr ?c) im" using c(5) by (simp add: skip_bytes_def add.assoc)
  obtain ot where ot: "parseImm VT_8 False (o2 ?c) ?c = Some ((o2 ?c)\<lparr>otype := ot,
      oval := immAt VT_8 (immVal q)\<rparr>, skip_bytes (length im) ?c)" "getImmOpType VT_8 = Some ot"
    using parseImm_appendI [OF _ im b, of VT_8] q by blast
  let ?c1 = "(skip_bytes (length im) ?c)\<lparr>o2 := (o2 ?c)\<lparr>otype := ot, oval := immAt VT_8 (immVal q)\<rparr>\<rparr>"
  have room: "roomy ?c1" using rd c(2) by (simp add: ready_def belongs_def roomy_def skip_bytes_def)
  obtain a where a: "copyOperand op0 r = Some a" "sameOp a p"
    using copyOperand_sameOp [OF p r(1)] by blast
  have im2: "sameImm VT_8 (o2 ?c1) q" using ot(2) by (simp add: sameImm_def)
  then obtain b where b: "copyOperand op0 (o2 ?c1) = Some b" "sameImm VT_8 b q"
    using sameImm_copy by blast
  have "opValType (o1 ?c1) = Some vt"
    using sameOp_valType [OF r(1)] gpRM_facts(2) [OF p] by (simp add: skip_bytes_def)
  then obtain c' i where new: "addB it vt ?c1 = Some c'" "newInstr ?c1 c' i" "binInstr it vt a b i"
    using addB_new [OF room _ _ b(1), of vt a it] a(1) by (auto simp: skip_bytes_def)
  have "addShiftB ?c1 = addB it vt ?c1"
    using it c(6) by (simp add: addShiftB_def skip_bytes_def)
  then have "decodeStep tb d = Some c'"
    using new(1) r(2) ot(1) c(6) by (simp add: c(1) runHandlers_one decode_C1_def imm_o2_def)
  then show ?thesis
  proof (rule decodesAs_new [OF _ new(2)])
    show "length (digitBytes vt 0xC1 dg p @ im) < 2 ^ 64" by (rule digit_length_bound [OF im])
  qed (use new(3) a(2) b(2) c(2,3) in
      \<open>simp_all add: likeBin_def binInstr_def belongs_def skip_bytes_def\<close>)
qed

subsection \<open>Opcodes without ModRM byte\<close>

text \<open>The context behind an opcode, and how far it is.\<close>

lemma reach_plain:
  assumes v: "v = rexOf e w r x b" and rd: "ready d" and opc: "plainOpcode opc" and p: "rmSeg p = OSO_None"
    and bytes: "bytes_at (d_mem d) (d_ptr d)
      (prefixBytes OSO_None (vt = VT_16) False False v @ opcBytes opc @ im)"
    and look: "lookupOpc tb (opcTable opc, opc mod 256, OT_Single, 0) = Some (it, ent, ha, hb, hc)"
  shows "\<exists>c k. decodeStep tb d = runHandlers ha hb hc c \<and> belongs d k c
    \<and> k = length (prefixBytes OSO_None (vt = VT_16) False False v) + length (opcBytes opc)
    \<and> c = withEntry it ent (atOpcode vt v opc p d) \<and> rexbit c REX_MASK_W = w \<and> rexbit c REX_MASK_B = b
    \<and> bytes_at (d_mem c) (d_ptr c) im \<and> d_it c = it
    \<and> d_vt c = (if ent = VT_Def then if vt = VT_16 then VT_16 else if w then VT_64 else VT_32 else ent)"
proof -
  let ?k = "length (prefixBytes OSO_None (vt = VT_16) False False v) + length (opcBytes opc)"
  let ?a = "atOpcode vt v opc p d"
  have ne: "\<not> isErrorSet (d_err d)" using rd by (simp add: ready_def)
  have "decodeStep tb d = processOpc tb (opcTables tb (opcTable opc) (opc mod 256)) ?a"
    using bytes by (intro decodeStep_opcode [OF v ne opc]) (simp add: p)
  then have step: "decodeStep tb d = runHandlers ha hb hc (withEntry it ent ?a)"
    using look by (simp add: processOpc_single)
  have off: "d_off ?a = d_off d + ?k" "d_f ?a = d_f d"
    using p by (auto simp: atOpcode_def Let_def skip_bytes_def opcBytes_def)
  have bel: "belongs d ?k (withEntry it ent ?a)"
    by (simp add: belongs_def off) (simp add: atOpcode_simps)
  have "bytes_at (d_mem (withEntry it ent ?a)) (d_ptr (withEntry it ent ?a)) im"
    using bytes by (simp add: off add.assoc) (simp add: atOpcode_simps)
  with step bel show ?thesis
    using rexbit_atOpcode [OF v] defaultVT_atOpcode [OF v]
    by (intro exI [of _ "withEntry it ent ?a"] exI [of _ ?k]) simp
qed

end
