(* ===== verification/GenRoundTrip.thy ===== *)
theory GenRoundTrip
  imports RoundTrip
begin

text \<open>
  The round trip theorems: for each group of instruction types, the generator succeeds on
  well-formed operands, its bytes fit into the 15 bytes it reserves, and the decoder reads
  them back as the same instruction.
\<close>

section \<open>Entries of the opcode tables\<close>

text \<open>Opcodes and digits of the arithmetic instructions.\<close>

definition aluOp :: "instrtype \<Rightarrow> (nat \<times> nat \<times> nat) option" where
  "aluOp it = (if it = IT_ADD then Some (0x01, 0x03, 0) else if it = IT_OR then Some (0x09, 0x0B, 1)
     else if it = IT_AND then Some (0x21, 0x23, 4) else if it = IT_SUB then Some (0x29, 0x2B, 5)
     else if it = IT_XOR then Some (0x31, 0x33, 6) else if it = IT_CMP then Some (0x39, 0x3B, 7)
     else None)"

lemma aluOp_cases:
  assumes "aluOp it = Some (mr, rm, dg)"
  obtains "it = IT_ADD" "mr = 0x01" "rm = 0x03" "dg = 0" | "it = IT_OR" "mr = 0x09" "rm = 0x0B" "dg = 1"
    | "it = IT_AND" "mr = 0x21" "rm = 0x23" "dg = 4" | "it = IT_SUB" "mr = 0x29" "rm = 0x2B" "dg = 5"
    | "it = IT_XOR" "mr = 0x31" "rm = 0x33" "dg = 6" | "it = IT_CMP" "mr = 0x39" "rm = 0x3B" "dg = 7"
  using assms by (auto simp: aluOp_def split: if_splits)

lemma alu_rows:
  assumes tb: "initDecodeTables = Some tb" and it: "aluOp it = Some (mr, rm, dg)"
  shows "lookupOpc tb (TAB, mr, OT_Single, 0) = Some (it, VT_Def, parseMR, Some addBInstr, None)"
    and "lookupOpc tb (TAB, rm, OT_Single, 0) = Some (it, VT_Def, parseRM, Some addBInstr, None)"
    and "lookupOpc tb (TAB, 0x81, OT_Group, dg) = Some (it, VT_Def, parseMI, Some addBInstr, None)"
    and "lookupOpc tb (TAB, 0x83, OT_Group, dg) = Some (it, VT_Def, parseMI_8se, Some addBInstr, None)"
  by (rule lookup_TAB [OF tb], cases rule: aluOp_cases [OF it]; simp add: rowsTAB)+

section \<open>Lengths\<close>

lemma length_rmBytes: "length (rmBytes dg p) \<le> 6"
  by (simp add: rmBytes_def length_memBytes dispRead_simps)

lemma length_modrmBytes_tight:
  "length (modrmBytes vt opc v dg p)
    \<le> 8 + (if vt = VT_16 then 1 else 0) + (if opc > 255 then 2 else 1)"
  using length_rmBytes [of dg p]
  by (simp add: modrmBytes_def prefixBytes_def segBytes_def opcBytes_def split: opsegoverride.split)

section \<open>Immediates\<close>

text \<open>Immediates that the generator accepts for operands of width \<open>vt\<close>: of the width
  itself or of 8 bits, and 64 bit ones that fit into 32 bits.\<close>

definition fits32 :: "u64 \<Rightarrow> bool" where
  "fits32 v \<longleftrightarrow> - (2 ^ 31) < sint v \<and> sint v < 2 ^ 31"

definition immArg :: "valtype \<Rightarrow> operand \<Rightarrow> bool" where
  "immArg vt q \<longleftrightarrow> otype q = OT_Imm8 \<or> wideImm vt q
     \<or> vt \<noteq> VT_16 \<and> otype q = OT_Imm64 \<and> fits32 (oval q)"

lemma sint_sext: "sint (sext32 v) = sint (ucast v :: u32)" "sint (sext16 v) = sint (ucast v :: u16)"
  by (simp_all add: cast_defs sint_up_scast is_up)

lemma sext_sext: "sext8 (sext32 v) = sext8 v" "sext8 (sext16 v) = sext8 v"
proof -
  have "ucast (scast (ucast v :: u32) :: u64) = (ucast v :: u8)"
    "ucast (scast (ucast v :: u16) :: u64) = (ucast v :: u8)"
    by (intro bit_word_eqI; simp add: bit_simps)+
  then show "sext8 (sext32 v) = sext8 v" "sext8 (sext16 v) = sext8 v"
    by (simp_all add: cast_defs)
qed

lemma sext_narrow:
  "- (2 ^ 7) < sint (ucast v :: u32) \<Longrightarrow> sint (ucast v :: u32) < 2 ^ 7 \<Longrightarrow> sext8 v = sext32 v"
  "- (2 ^ 7) < sint (ucast v :: u16) \<Longrightarrow> sint (ucast v :: u16) < 2 ^ 7 \<Longrightarrow> sext8 v = sext16 v"
  using sext_self(1) [of "sext32 v"] sext_self(1) [of "sext16 v"]
  by (simp_all add: sint_sext sext_sext)

lemma reduceImm64to32_val: "immVal (reduceImm64to32 q) = immVal q"
  using sext_self(3) [of "oval q"] by (simp add: reduceImm64to32_def immVal_def)

lemma reduceImm32to8_val: "immVal (reduceImm32to8 q) = immVal q"
  using sext_narrow(1) [of "oval q"] by (simp add: reduceImm32to8_def immVal_def Let_def)

lemma reduceImm16to8_val: "immVal (reduceImm16to8 q) = immVal q"
  using sext_narrow(2) [of "oval q"] by (simp add: reduceImm16to8_def immVal_def Let_def)

lemma reduceImm_other:
  "otype q \<noteq> OT_Imm64 \<Longrightarrow> reduceImm64to32 q = q" "otype q \<noteq> OT_Imm32 \<Longrightarrow> reduceImm32to8 q = q"
  "otype q \<noteq> OT_Imm16 \<Longrightarrow> reduceImm16to8 q = q"
  by (simp_all add: reduceImm64to32_def reduceImm32to8_def reduceImm16to8_def Let_def)

lemma reduceImm_type:
  "otype (reduceImm64to32 q) = (if otype q = OT_Imm64 \<and> fits32 (oval q) then OT_Imm32 else otype q)"
  "otype (reduceImm32to8 q) \<in> (if otype q = OT_Imm32 then {OT_Imm8, OT_Imm32} else {otype q})"
  "otype (reduceImm16to8 q) \<in> (if otype q = OT_Imm16 then {OT_Imm8, OT_Imm16} else {otype q})"
  by (simp_all add: reduceImm64to32_def reduceImm32to8_def reduceImm16to8_def Let_def fits32_def)

text \<open>What is left of an accepted immediate: 8 bits, or the width of an instruction's
  immediate, with the same value.\<close>

definition reduced :: "valtype \<Rightarrow> operand \<Rightarrow> operand \<Rightarrow> bool" where
  "reduced vt q q' \<longleftrightarrow> (otype q' = OT_Imm8 \<or> wideImm vt q') \<and> immVal q' = immVal q"

lemma reduced_32:
  assumes "immArg vt q" and "vt \<noteq> VT_16"
  shows "reduced vt q (reduceImm32to8 (reduceImm64to32 q))"
  using assms reduceImm_type(1) [of q] reduceImm_type(2) [of "reduceImm64to32 q"]
  by (auto simp: reduced_def immArg_def wideImm_def reduceImm32to8_val reduceImm64to32_val
      split: if_splits)

lemma reduced_16:
  assumes "immArg vt q"
  shows "reduced vt q (reduceImm16to8 (reduceImm32to8 (reduceImm64to32 q)))"
  using assms reduceImm_type(1) [of q] reduceImm_type(2) [of "reduceImm64to32 q"]
    reduceImm_type(3) [of "reduceImm32to8 (reduceImm64to32 q)"]
  by (auto simp: reduced_def immArg_def wideImm_def reduceImm16to8_val reduceImm32to8_val
      reduceImm64to32_val split: if_splits)

lemma sameImm_reduced: "reduced vt q q' \<Longrightarrow> sameImm w b q' = sameImm w b q"
  by (simp add: sameImm_def reduced_def)

lemma reduceImm_nonImm:
  assumes "\<not> opIsImm q"
  shows "reduceImm64to32 q = q" "reduceImm32to8 q = q" "reduceImm16to8 q = q"
  using assms by (auto simp: opIsImm_def intro: reduceImm_other)

section \<open>Arithmetic\<close>

text \<open>The operands of an instruction with two operands: register or memory to register,
  register to memory, or an immediate.\<close>

definition aluArgs :: "valtype \<Rightarrow> operand \<Rightarrow> operand \<Rightarrow> bool" where
  "aluArgs vt dst src \<longleftrightarrow> gpRM vt dst \<and> gpReg vt src \<or> gpReg vt dst \<and> gpMem vt src
     \<or> gpRM vt dst \<and> immArg vt src"

definition sameArg :: "valtype \<Rightarrow> operand \<Rightarrow> operand \<Rightarrow> bool" where
  "sameArg vt q p \<longleftrightarrow> (if opIsImm p then sameImm vt q p else sameOp q p)"

text \<open>The bytes decode to an instruction of a kind, wherever they stand.\<close>

definition decodesTo :: "dechandler opctables \<Rightarrow> u8 list \<Rightarrow> (instr \<Rightarrow> bool) \<Rightarrow> bool" where
  "decodesTo tb bs P \<longleftrightarrow>
     (\<forall>d. ready d \<longrightarrow> bytes_at (d_mem d) (d_ptr d) bs \<longrightarrow> decodesAs tb d (length bs) P)"

lemma decodesTo_mono: "decodesTo tb bs P \<Longrightarrow> (\<And>i. P i \<Longrightarrow> Q i) \<Longrightarrow> decodesTo tb bs Q"
  unfolding decodesTo_def by (blast intro: decodesAs_mono)

lemma gp_types:
  "gpReg vt p \<Longrightarrow> vt = VT_32 \<or> vt = VT_64 \<Longrightarrow> otype p \<in> reg3264"
  "gpMem vt p \<Longrightarrow> vt = VT_32 \<or> vt = VT_64 \<Longrightarrow> otype p \<in> ind3264"
  "gpReg vt p \<Longrightarrow> otype p \<in> {OT_Reg16, OT_Reg32, OT_Reg64}"
  "gpMem vt p \<Longrightarrow> otype p \<in> {OT_Ind16, OT_Ind32, OT_Ind64}"
  by (auto simp: gpReg_def gpMem_def gpVT_def getGPRegOpType_def modrmIndOpType_def)

lemma plainOpcode_consts:
  "plainOpcode 0x81" "plainOpcode 0x83" "plainOpcode 0x01" "plainOpcode 0x03" "plainOpcode 0x09"
  "plainOpcode 0x0B" "plainOpcode 0x21" "plainOpcode 0x23" "plainOpcode 0x29" "plainOpcode 0x2B"
  "plainOpcode 0x31" "plainOpcode 0x33" "plainOpcode 0x39" "plainOpcode 0x3B"
  by (simp_all add: plainOpcode_def opcodeByte_def word_le_nat_alt)

lemma plainOpcode_alu:
  assumes "aluOp it = Some (mr, rm, dg)"
  shows "plainOpcode mr" "plainOpcode rm" "dg < 8" "mr < 256" "rm < 256"
  by (rule aluOp_cases [OF assms]; simp add: plainOpcode_consts del: One_nat_def)+

lemma appendI_Imm: "opIsImm q \<Longrightarrow> \<exists>im. appendI q = Some im"
  by (auto simp: appendI_def opIsImm_def)

lemma opcTable_one: "opc < 256 \<Longrightarrow> opcTable opc = TAB \<and> opc mod 256 = opc"
  by (simp add: opcTable_def)

lemma alu_decodesTo:
  assumes tb: "initDecodeTables = Some tb" and it: "aluOp it = Some (mr, rm, dg)"
  shows "gpRM vt p \<Longrightarrow> gpReg vt q
      \<Longrightarrow> decodesTo tb (pairBytes vt mr p q) (likeBin it vt (\<lambda>a. sameOp a p) (\<lambda>b. sameOp b q))"
    and "gpRM vt p \<Longrightarrow> gpReg vt q
      \<Longrightarrow> decodesTo tb (pairBytes vt rm p q) (likeBin it vt (\<lambda>a. sameOp a q) (\<lambda>b. sameOp b p))"
    and "gpRM vt p \<Longrightarrow> otype r = OT_Imm8 \<Longrightarrow> appendI r = Some im
      \<Longrightarrow> decodesTo tb (digitBytes vt 0x83 dg p @ im) (likeBin it vt (\<lambda>a. sameOp a p) (\<lambda>b. sameImm vt b r))"
    and "gpRM vt p \<Longrightarrow> wideImm vt r \<Longrightarrow> appendI r = Some im
      \<Longrightarrow> decodesTo tb (digitBytes vt 0x81 dg p @ im) (likeBin it vt (\<lambda>a. sameOp a p) (\<lambda>b. sameImm vt b r))"
proof -
  note rows = alu_rows [OF tb it] and pl = plainOpcode_alu [OF it]
  have t: "opcTable mr = TAB \<and> mr mod 256 = mr" "opcTable rm = TAB \<and> rm mod 256 = rm"
    "opcTable 0x81 = TAB \<and> (0x81 :: nat) mod 256 = 0x81" "opcTable 0x83 = TAB \<and> (0x83 :: nat) mod 256 = 0x83"
    using pl(4,5) by (simp_all add: opcTable_one)
  show "gpRM vt p \<Longrightarrow> gpReg vt q
      \<Longrightarrow> decodesTo tb (pairBytes vt mr p q) (likeBin it vt (\<lambda>a. sameOp a p) (\<lambda>b. sameOp b q))"
    unfolding decodesTo_def using rows(1) t(1) by (auto intro!: MR_decodes pl(1))
  show "gpRM vt p \<Longrightarrow> gpReg vt q
      \<Longrightarrow> decodesTo tb (pairBytes vt rm p q) (likeBin it vt (\<lambda>a. sameOp a q) (\<lambda>b. sameOp b p))"
    unfolding decodesTo_def using rows(2) t(2) by (auto intro!: RM_decodes pl(2))
  show "decodesTo tb (digitBytes vt 0x83 dg p @ im) (likeBin it vt (\<lambda>a. sameOp a p) (\<lambda>b. sameImm vt b r))"
    if "gpRM vt p" "otype r = OT_Imm8" "appendI r = Some im"
    unfolding decodesTo_def using that rows(4) t(4)
    by (intro allI impI MI8_decodes plainOpcode_consts pl(3)) auto
  show "decodesTo tb (digitBytes vt 0x81 dg p @ im) (likeBin it vt (\<lambda>a. sameOp a p) (\<lambda>b. sameImm vt b r))"
    if "gpRM vt p" "wideImm vt r" "appendI r = Some im"
    unfolding decodesTo_def using that rows(3) t(3)
    by (intro allI impI MIw_decodes plainOpcode_consts pl(3)) auto
qed

text \<open>The result of a generator that succeeds, with the bound that \<open>generate\<close> asserts.\<close>

definition goodGen :: "dechandler opctables \<Rightarrow> genres option \<Rightarrow> (instr \<Rightarrow> bool) \<Rightarrow> bool" where
  "goodGen tb m P \<longleftrightarrow> (\<exists>bs. m = Some (GenBytes bs) \<and> length bs < 15 \<and> decodesTo tb bs P)"

lemma goodGen_ok: "m = Some bs \<Longrightarrow> length bs < 15 \<Longrightarrow> decodesTo tb bs P \<Longrightarrow> goodGen tb (ok m) P"
  by (simp add: goodGen_def ok_def)

lemma length_modrm_one: "opc < 256 \<Longrightarrow> length (modrmBytes vt opc v dg p) \<le> 10"
  using length_modrmBytes_tight [of vt opc v dg p] by (simp split: if_splits)

lemma length_imm:
  assumes "appendI q = Some im" and "otype q = OT_Imm8 \<or> wideImm vt q"
  shows "length im \<le> 4"
  using assms by (auto simp: appendI_def wideImm_def split: if_splits)

lemma genModRM_good:
  assumes "gpRM vt p1" "gpReg vt p2" "opc < 256" "flagsOk flags vt"
    and "decodesTo tb (pairBytes vt opc p1 p2) P"
  shows "goodGen tb (ok (genModRM (initGContext i) opc p1 p2 VT_None flags)) P"
  using assms length_modrm_one [OF assms(3), of vt "rexPair vt p1 p2" "ri (oreg p2) mod 8" p1]
  by (intro goodGen_ok [OF genModRM_bytes]) simp_all

lemma genDigitMI_good:
  assumes p: "gpRM vt p" and q: "otype q = OT_Imm8 \<or> wideImm vt q" and opc: "opc < 256" and dg: "dg < 8"
    and fl: "flagsOk flags vt" "flags AND GEN_DefOpVT64 = 0"
    and dec: "\<And>im. appendI q = Some im \<Longrightarrow> decodesTo tb (digitBytes vt opc dg p @ im) P"
  shows "goodGen tb (ok (genDigitMI (initGContext i) opc dg p q flags)) P"
proof -
  have im: "opIsImm q" using q by (auto simp: opIsImm_def wideImm_def split: if_splits)
  obtain bs where bs: "appendI q = Some bs" using appendI_Imm [OF im] by blast
  have o: "opc < 65536" using opc by simp
  show ?thesis
    using genDigitMI_bytes [OF p o dg fl(1) im, of i] fl(2) length_imm [OF bs q]
      length_modrm_one [OF opc, of vt "rexOf False (vt = VT_64) False (rmX p) (rmB p)" dg p]
    by (intro goodGen_ok [OF _ _ dec [OF bs]]) (simp_all add: bs)
qed

lemma sameVT_gp:
  assumes "gpRM vt p" "gpRM vt q"
  shows "sameVT p q = Some True"
  using gpRM_facts(2) assms by (simp add: sameVT_def)

lemma gpMem_gpRM: "gpMem vt p \<Longrightarrow> gpRM vt p"
  by (simp add: gpRM_def)

text \<open>The two kinds of source, once immediates are reduced.\<close>

definition sourceOk :: "valtype \<Rightarrow> operand \<Rightarrow> operand \<Rightarrow> bool" where
  "sourceOk vt dst src \<longleftrightarrow> gpRM vt dst \<and> gpReg vt src \<or> gpReg vt dst \<and> gpMem vt src
     \<or> gpRM vt dst \<and> (otype src = OT_Imm8 \<or> wideImm vt src)"

lemma wideImm_Imm: "otype q = OT_Imm8 \<or> wideImm vt q \<Longrightarrow> opIsImm q"
  by (auto simp: opIsImm_def wideImm_def split: if_splits)

definition likeAlu :: "instrtype \<Rightarrow> valtype \<Rightarrow> operand \<Rightarrow> operand \<Rightarrow> instr \<Rightarrow> bool" where
  "likeAlu it vt dst src = likeBin it vt (\<lambda>a. sameOp a dst) (\<lambda>b. sameArg vt b src)"

lemma likeAlu_cases:
  "gpRM vt src \<Longrightarrow> likeAlu it vt dst src = likeBin it vt (\<lambda>a. sameOp a dst) (\<lambda>b. sameOp b src)"
  "opIsImm src \<Longrightarrow> likeAlu it vt dst src = likeBin it vt (\<lambda>a. sameOp a dst) (\<lambda>b. sameImm vt b src)"
  using gpRM_facts(3) by (auto simp: likeAlu_def sameArg_def)

lemma flagsOk_simps: "vt = VT_32 \<or> vt = VT_64 \<Longrightarrow> flagsOk flags vt" "flagsOk GEN_66OnVT16 vt"
  by (auto simp: flagsOk_def)

lemma rm_types:
  assumes "gpRM vt p" and "vt = VT_32 \<or> vt = VT_64"
  shows "otype p \<in> rm3264"
  using assms gp_types by (fastforce simp: gpRM_def)

lemma genAlu3264_good:
  assumes tb: "initDecodeTables = Some tb" and it: "aluOp it = Some (mr, rm, dg)"
    and vt: "vt = VT_32 \<or> vt = VT_64" and src: "sourceOk vt dst src"
  shows "goodGen tb (genAlu3264 mr rm dg (initGContext i) src dst) (likeAlu it vt dst src)"
proof -
  note dec = alu_decodesTo [OF tb it] and pl = plainOpcode_alu [OF it]
  from src consider (mr) "gpRM vt dst" "gpReg vt src" | (rm) "gpReg vt dst" "gpMem vt src"
    | (im) "gpRM vt dst" "otype src = OT_Imm8 \<or> wideImm vt src"
    unfolding sourceOk_def by blast
  then show ?thesis
  proof cases
    case mr
    then have "genAlu3264 mr rm dg (initGContext i) src dst
        = ok (genModRM (initGContext i) mr dst src VT_None 0)"
      using gp_types(1) [OF mr(2) vt] rm_types [OF mr(1) vt] sameVT_gp [OF gpReg_gpRM [OF mr(2)] mr(1)]
      by (auto simp: genAlu3264_def)
    then show ?thesis
      using genModRM_good [OF mr pl(4) flagsOk_simps(1) [OF vt] dec(1) [OF mr]]
      by (simp add: likeAlu_cases(1) [OF gpReg_gpRM [OF mr(2)]])
  next
    case rm
    then have "genAlu3264 mr rm dg (initGContext i) src dst
        = ok (genModRM (initGContext i) rm src dst VT_None 0)"
      using gp_types(2) [OF rm(2) vt] gp_types(1) [OF rm(1) vt]
        sameVT_gp [OF gpMem_gpRM [OF rm(2)] gpReg_gpRM [OF rm(1)]]
      by (auto simp: genAlu3264_def)
    then show ?thesis
      using genModRM_good [OF gpMem_gpRM [OF rm(2)] rm(1) pl(5) flagsOk_simps(1) [OF vt]
          dec(2) [OF gpMem_gpRM [OF rm(2)] rm(1)]]
      by (simp add: likeAlu_cases(1) [OF gpMem_gpRM [OF rm(2)]])
  next
    case im
    then have g: "genAlu3264 mr rm dg (initGContext i) src dst
        = ok (genDigitMI (initGContext i) (if otype src = OT_Imm8 then 0x83 else 0x81) dg dst src 0)"
      using rm_types [OF im(1) vt] vt by (auto simp: genAlu3264_def wideImm_def)
    have "goodGen tb (ok (genDigitMI (initGContext i) (if otype src = OT_Imm8 then 0x83 else 0x81)
        dg dst src 0)) (likeBin it vt (\<lambda>a. sameOp a dst) (\<lambda>b. sameImm vt b src))"
      using dec(3,4) [OF im(1)] im pl(3) flagsOk_simps(1) [OF vt, of 0]
      by (intro genDigitMI_good) auto
    then show ?thesis by (simp add: g likeAlu_cases(2) [OF wideImm_Imm [OF im(2)]])
  qed
qed

text \<open>The accumulator form of \<open>add\<close>, \<open>and\<close> and \<open>test\<close>.\<close>

definition accBytes :: "valtype \<Rightarrow> nat \<Rightarrow> u8 list \<Rightarrow> u8 list" where
  "accBytes vt opc im = (if vt = VT_16 then [0x66] else []) @ (if vt = VT_64 then [0x48] else [])
     @ of_nat opc # im"

lemma accBytes_prefix:
  assumes "opc < 256"
  shows "accBytes vt opc im
    = prefixBytes OSO_None (vt = VT_16) False False (rexOf False (vt = VT_64) False False False)
      @ opcBytes opc @ im"
  using assms by (auto simp: accBytes_def prefixBytes_def segBytes_def rexOf_def opcBytes_def)

lemma setO1RegA_eq:
  assumes "gpReg vt p" and "ri (oreg p) = RI_A" and "d_vt c = vt"
  shows "setO1RegA c = Some (c\<lparr>o1 := (o1 c)\<lparr>otype := otype p, oreg := oreg p\<rparr>\<rparr>)"
proof -
  note f = gpReg_facts [OF assms(1)]
  have "getReg (getGPRegType vt) 0 = Some (oreg p)" using f(10) assms(2) by simp
  moreover have "regIsGP (oreg p) = Some True" "regValType (oreg p) = vt"
    using f(7,8) assms(2) by (auto simp: regIsGP_def regValType_def regValTypeT_def gpVT_def
        getGPRegType_def regTypeIsGP_def)
  ultimately show ?thesis using assms(1,3) by (simp add: setO1RegA_def setRegOp_def gpReg_def)
qed

lemma acc_decodesTo:
  assumes look: "lookupOpc tb (TAB, opc, OT_Single, 0)
      = Some (it, VT_Def, setO1RegA, Some parseI2, Some addBInstr)"
    and opc: "opc < 256" "plainOpcode opc" and p: "gpReg vt p" "ri (oreg p) = RI_A"
    and q: "wideImm vt q" and im: "appendI q = Some im"
  shows "decodesTo tb (accBytes vt opc im) (likeBin it vt (\<lambda>a. sameOp a p) (\<lambda>b. sameImm vt b q))"
  unfolding decodesTo_def
proof (intro allI impI)
  fix d assume rd: "ready d" and bytes: "bytes_at (d_mem d) (d_ptr d) (accBytes vt opc im)"
  note f = gpReg_facts [OF p(1)]
  let ?w = "vt = VT_64"
  let ?pre = "prefixBytes OSO_None (vt = VT_16) False False (rexOf False ?w False False False)"
  have seg: "rmSeg p = OSO_None" using f(3) by (simp add: rmSeg_def)
  have l: "lookupOpc tb (opcTable opc, opc mod 256, OT_Single, 0)
      = Some (it, VT_Def, setO1RegA, Some parseI2, Some addBInstr)"
    using look opc(1) by (simp add: opcTable_one)
  obtain c k where c: "decodeStep tb d = runHandlers setO1RegA (Some parseI2) (Some addBInstr) c"
      "belongs d k c" "k = length ?pre + length (opcBytes opc)" "bytes_at (d_mem c) (d_ptr c) im"
      "d_it c = it" "d_vt c = vt"
    using reach_plain [OF refl rd opc(2) seg bytes [unfolded accBytes_prefix [OF opc(1)]] l] f(7)
    by (auto simp: gpVT_def)
  let ?c = "c\<lparr>o1 := (o1 c)\<lparr>otype := otype p, oreg := oreg p\<rparr>\<rparr>"
  have t: "vt = VT_16 \<and> otype q = OT_Imm16 \<or> (vt = VT_32 \<or> vt = VT_64) \<and> otype q = OT_Imm32
      \<or> vt = VT_8 \<and> otype q = OT_Imm8"
    using q f(7) by (auto simp: wideImm_def gpVT_def)
  have b: "bytes_at (d_mem ?c) (d_ptr ?c) im" using c(4) by simp
  obtain ot where ot: "parseImm vt False (o2 ?c) ?c = Some ((o2 ?c)\<lparr>otype := ot,
      oval := immAt vt (immVal q)\<rparr>, skip_bytes (length im) ?c)" "getImmOpType vt = Some ot"
    using parseImm_appendI [OF t im b] by blast
  let ?c1 = "(skip_bytes (length im) ?c)\<lparr>o2 := (o2 ?c)\<lparr>otype := ot, oval := immAt vt (immVal q)\<rparr>\<rparr>"
  have ne: "\<not> isErrorSet (d_err c)" using rd c(2) by (simp add: ready_def belongs_def)
  have room: "roomy ?c1" using rd c(2) by (simp add: ready_def belongs_def roomy_def skip_bytes_def)
  have s: "sameOp (o1 ?c1) p" by (simp add: skip_bytes_def sameOp_reg [OF p(1)])
  obtain a where a: "copyOperand op0 (o1 ?c1) = Some a" "sameOp a p"
    using copyOperand_sameOp [OF gpReg_gpRM [OF p(1)] s] by blast
  have im2: "sameImm vt (o2 ?c1) q" using ot(2) by (simp add: sameImm_def)
  then obtain b where b: "copyOperand op0 (o2 ?c1) = Some b" "sameImm vt b q"
    using sameImm_copy by blast
  have "opValType (o1 ?c1) = Some vt" using sameOp_valType [OF s] f(2) by simp
  then obtain c' i where new: "addB_ii it vt ?c1 = Some c'" "newInstr ?c1 c' i" "binInstr it vt a b i"
    using addB_ii_new [OF room _ a(1) b(1), of vt it] by auto
  have "decodeStep tb d = Some c'"
    using new(1) ot(1) c(5,6) ne
    by (simp add: c(1) runHandlers_def setO1RegA_eq [OF p c(6)] parseI2_def imm_o2_def skip_bytes_def
        addBInstr_def)
  then show "decodesAs tb d (length (accBytes vt opc im))
      (likeBin it vt (\<lambda>a. sameOp a p) (\<lambda>b. sameImm vt b q))"
    by (rule decodesAs_new [OF _ new(2)])
      (use new(3) a(2) b(2) c(2,3) length_appendI [OF im] in \<open>simp_all add: likeBin_def binInstr_def
        belongs_def skip_bytes_def accBytes_prefix [OF opc(1)] prefixBytes_def segBytes_def opcBytes_def\<close>)
qed

lemma rm16_types: "gpRM vt p \<Longrightarrow> otype p \<in> rm163264"
  using gp_types(3,4) [of vt p] by (auto simp: gpRM_def)

lemma genI_good:
  assumes "appendI q = Some im" and "wideImm vt q" and "decodesTo tb (accBytes vt opc im) P"
    and "pre = (if vt = VT_16 then [0x66] else []) @ (if vt = VT_64 then [0x48] else []) @ [of_nat opc]"
  shows "goodGen tb (genI pre q) P"
  using assms length_imm [OF assms(1), of vt]
  by (auto simp: goodGen_def genI_def accBytes_def)

lemma rm_exact:
  assumes "gpRM vt p"
  shows "vt = VT_16 \<and> otype p = OT_Reg16 \<or> vt = VT_16 \<and> otype p = OT_Ind16
    \<or> vt = VT_32 \<and> otype p = OT_Reg32 \<or> vt = VT_32 \<and> otype p = OT_Ind32
    \<or> vt = VT_64 \<and> otype p = OT_Reg64 \<or> vt = VT_64 \<and> otype p = OT_Ind64"
  using assms by (auto simp: gpRM_def gpReg_def gpMem_def gpVT_def getGPRegOpType_def
      modrmIndOpType_def)

text \<open>\<open>add\<close> and \<open>and\<close>, where \<open>oAx\<close> is the opcode for the accumulator.\<close>

lemma genAlu_good:
  assumes tb: "initDecodeTables = Some tb" and it: "aluOp it = Some (mr, rm, dg)"
    and acc: "lookupOpc tb (TAB, unat oAx, OT_Single, 0) = Some (it, VT_Def, setO1RegA, Some parseI2, Some addBInstr)"
    and pax: "plainOpcode (unat oAx)" and src: "sourceOk vt dst src"
  shows "goodGen tb (genAlu oMR8 mr oRM8 rm oAl oAx dg (initGContext i) src dst) (likeAlu it vt dst src)"
proof -
  let ?gen = "genAlu oMR8 mr oRM8 rm oAl oAx dg (initGContext i) src dst"
  note dec = alu_decodesTo [OF tb it] and pl = plainOpcode_alu [OF it]
  have ax: "unat oAx < 256" "of_nat (unat oAx) = oAx" using unsigned_less [of oAx] by simp_all
  from src consider (mr) "gpRM vt dst" "gpReg vt src" | (rm) "gpReg vt dst" "gpMem vt src"
    | (acc) "gpReg vt dst" "ri (oreg dst) = RI_A" "wideImm vt src"
    | (im) "gpRM vt dst" "otype src = OT_Imm8 \<or> wideImm vt src"
      "otype src = OT_Imm8 \<or> \<not> (gpReg vt dst \<and> ri (oreg dst) = RI_A)"
    unfolding sourceOk_def by metis
  then show ?thesis
  proof cases
    case mr
    then have "?gen = ok (genModRM (initGContext i) mr dst src VT_None GEN_66OnVT16)"
      using gp_types(3) [OF mr(2)] rm16_types [OF mr(1)] sameVT_gp [OF gpReg_gpRM [OF mr(2)] mr(1)]
      by (auto simp: genAlu_def)
    then show ?thesis
      using genModRM_good [OF mr pl(4) flagsOk_simps(2) dec(1) [OF mr]]
      by (simp add: likeAlu_cases(1) [OF gpReg_gpRM [OF mr(2)]])
  next
    case rm
    then have "?gen = ok (genModRM (initGContext i) rm src dst VT_None GEN_66OnVT16)"
      using gp_types(4) [OF rm(2)] gp_types(3) [OF rm(1)]
        sameVT_gp [OF gpMem_gpRM [OF rm(2)] gpReg_gpRM [OF rm(1)]]
      by (auto simp: genAlu_def)
    then show ?thesis
      using genModRM_good [OF gpMem_gpRM [OF rm(2)] rm(1) pl(5) flagsOk_simps(2)
          dec(2) [OF gpMem_gpRM [OF rm(2)] rm(1)]]
      by (simp add: likeAlu_cases(1) [OF gpMem_gpRM [OF rm(2)]])
  next
    case acc
    obtain im where im: "appendI src = Some im"
      using appendI_Imm wideImm_Imm acc(3) by blast
    let ?pre = "(if vt = VT_16 then [0x66] else []) @ (if vt = VT_64 then [0x48] else []) @ [of_nat (unat oAx)]"
    have g: "?gen = genI ?pre src"
      using acc gp_types(3) [OF acc(1)] gpReg_facts(2,7) [OF acc(1)] ax(2)
      by (auto simp: genAlu_def wideImm_def gpVT_def opValType_def)
    have "goodGen tb (genI ?pre src) (likeBin it vt (\<lambda>a. sameOp a dst) (\<lambda>b. sameImm vt b src))"
      by (rule genI_good [OF im acc(3) acc_decodesTo [OF assms(3) ax(1) pax acc(1,2,3) im]]) simp
    then show ?thesis unfolding g by (simp add: likeAlu_cases(2) [OF wideImm_Imm [OF disjI2 [OF acc(3)]]])
  next
    case im
    have g: "?gen = ok (genDigitMI (initGContext i) (if otype src = OT_Imm8 then 0x83 else 0x81)
        dg dst src (if otype src = OT_Imm8 \<or> vt = VT_16 then GEN_66OnVT16 else 0))"
    proof (cases "otype src = OT_Imm8")
      case True
      have "otype dst \<noteq> OT_Reg8" "otype dst \<noteq> OT_Ind8" using rm16_types [OF im(1)] by auto
      then show ?thesis using True rm16_types [OF im(1)] by (simp add: genAlu_def)
    next
      case False
      then have w: "wideImm vt src" and na: "gpReg vt dst \<Longrightarrow> ri (oreg dst) \<noteq> RI_A"
        using im(2,3) by simp_all
      have nr: "\<not> (ri (oreg dst) = RI_A \<and> opIsReg dst)"
        using na im(1) gpMem_facts(3) by (auto simp: gpRM_def)
      from rm_exact [OF im(1)] show ?thesis
        by (elim disjE conjE; insert w nr; simp add: genAlu_def wideImm_def opIsReg_def)
    qed
    have "goodGen tb (ok (genDigitMI (initGContext i) (if otype src = OT_Imm8 then 0x83 else 0x81)
        dg dst src (if otype src = OT_Imm8 \<or> vt = VT_16 then GEN_66OnVT16 else 0)))
        (likeBin it vt (\<lambda>a. sameOp a dst) (\<lambda>b. sameImm vt b src))"
      using dec(3,4) [OF im(1)] im pl(3) by (intro genDigitMI_good) (auto simp: flagsOk_def)
    then show ?thesis by (simp add: g likeAlu_cases(2) [OF wideImm_Imm [OF im(2)]])
  qed
qed

lemma acc_rows:
  assumes tb: "initDecodeTables = Some tb"
  shows "lookupOpc tb (TAB, 0x05, OT_Single, 0) = Some (IT_ADD, VT_Def, setO1RegA, Some parseI2, Some addBInstr)"
    and "lookupOpc tb (TAB, 0x25, OT_Single, 0) = Some (IT_AND, VT_Def, setO1RegA, Some parseI2, Some addBInstr)"
    and "lookupOpc tb (TAB, 0xA9, OT_Single, 0) = Some (IT_TEST, VT_Def, setO1RegA, Some parseI2, Some addBInstr)"
  by (rule lookup_TAB [OF tb], simp add: rowsTAB)+

lemma plainOpcode_acc: "plainOpcode 0x05" "plainOpcode 0x25" "plainOpcode 0xA9"
  by (simp_all add: plainOpcode_def opcodeByte_def word_le_nat_alt)

text \<open>Reduced and original source.\<close>

lemma aluArgs_reduced:
  assumes args: "aluArgs vt dst src"
    and r: "immArg vt src \<Longrightarrow> reduced vt src src'" and n: "\<not> opIsImm src \<Longrightarrow> src' = src"
  shows "sourceOk vt dst src'" and "likeAlu it vt dst src' = likeAlu it vt dst src"
proof -
  have nr: "\<not> opIsImm src" if "gpReg vt src \<or> gpMem vt src"
    using that gpReg_facts(12) gpMem_facts(5) by blast
  show "sourceOk vt dst src'"
    using args r n nr unfolding aluArgs_def sourceOk_def reduced_def by metis
  show "likeAlu it vt dst src' = likeAlu it vt dst src"
  proof (cases "opIsImm src")
    case True
    then have "immArg vt src" using args nr by (auto simp: aluArgs_def)
    then have red: "reduced vt src src'" by (rule r)
    then have "opIsImm src'" using wideImm_Imm by (auto simp: reduced_def)
    then show ?thesis using True sameImm_reduced [OF red] by (simp add: likeAlu_cases(2))
  qed (simp add: n)
qed

lemma genInstrStep_good:
  assumes "ptLen i = 0" and "genByType (initGContext i) = Some m" and "goodGen tb m P"
  shows "\<exists>bs. genInstrStep i = Some (StepBytes bs) \<and> decodesTo tb bs P"
  using assms by (auto simp: genInstrStep_def goodGen_def Let_def)

text \<open>The generator's table of these instruction types.\<close>

lemma alu_round:
  assumes tb: "initDecodeTables = Some tb" and it: "aluOp (itype i) = Some (mr, rm, dg)"
    and pt: "ptLen i = 0" and args: "aluArgs vt (idst i) (isrc i)"
    and vt: "vt = VT_32 \<or> vt = VT_64 \<or> itype i = IT_ADD \<or> itype i = IT_AND"
  shows "\<exists>bs. genInstrStep i = Some (StepBytes bs)
    \<and> decodesTo tb bs (likeAlu (itype i) vt (idst i) (isrc i))"
proof -
  let ?c = "initGContext i" and ?src = "isrc i" and ?dst = "idst i"
  let ?s2 = "reduceImm32to8 (reduceImm64to32 ?src)" and ?s3 = "reduceImm16to8 (reduceImm32to8 (reduceImm64to32 ?src))"
  note r3 = aluArgs_reduced [OF args reduced_16]
  have s3: "sourceOk vt ?dst ?s3" "likeAlu (itype i) vt ?dst ?s3 = likeAlu (itype i) vt ?dst ?src"
    using r3 reduceImm_nonImm by simp_all
  have c: "g_instr ?c = i" by (simp add: initGContext_def)
  have add: "goodGen tb (genAdd ?c) (likeAlu (itype i) vt ?dst ?src)" if "itype i = IT_ADD"
  proof -
    have o: "aluOp (itype i) = Some (0x01, 0x03, 0)" using that by (simp add: aluOp_def)
    show ?thesis
      using genAlu_good [OF tb o, of 5 vt ?dst ?s3 0 2 4 i] acc_rows(1) [OF tb] that s3 plainOpcode_acc(1)
      by (simp add: genAdd_def c Let_def)
  qed
  have anda: "goodGen tb (genAnd ?c) (likeAlu (itype i) vt ?dst ?src)" if "itype i = IT_AND"
  proof -
    have o: "aluOp (itype i) = Some (0x21, 0x23, 4)" using that by (simp add: aluOp_def)
    show ?thesis
      using genAlu_good [OF tb o, of "0x25" vt ?dst ?s3 "0x20" "0x22" "0x24" i] acc_rows(2) [OF tb] that s3
        plainOpcode_acc(2)
      by (simp add: genAnd_def c Let_def)
  qed
  have other: "goodGen tb (genAlu3264 mr rm dg ?c ?s2 ?dst) (likeAlu (itype i) vt ?dst ?src)"
    if v: "vt = VT_32 \<or> vt = VT_64"
  proof -
    have "immArg vt ?src \<Longrightarrow> reduced vt ?src ?s2" using v by (intro reduced_32) auto
    note r2 = aluArgs_reduced [OF args this]
    show ?thesis using genAlu3264_good [OF tb it v, of ?dst ?s2 i] r2 reduceImm_nonImm by simp
  qed
  have "\<exists>m. genByType ?c = Some m \<and> goodGen tb m (likeAlu (itype i) vt ?dst ?src)"
    using it
  proof (cases rule: aluOp_cases)
    case 1 then show ?thesis using add by (simp add: genByType_def c)
  next
    case 2 then show ?thesis using other vt by (simp add: genByType_def c genOr_def Let_def)
  next
    case 3 then show ?thesis using anda by (simp add: genByType_def c)
  next
    case 4 then show ?thesis using other vt by (simp add: genByType_def c genSub_def Let_def)
  next
    case 5 then show ?thesis using other vt by (simp add: genByType_def c genXor_def Let_def)
  next
    case 6 then show ?thesis using other vt by (simp add: genByType_def c genCmp_def Let_def)
  qed
  then show ?thesis using genInstrStep_good [OF pt] by blast
qed

end
