(* ===== verification/MoveRoundTrip.thy ===== *)
theory MoveRoundTrip
  imports GenRoundTrip
begin

text \<open>
  The round trip theorems for moves, tests, multiplications, shifts, stack operations and
  instructions without operands, in the way of \<open>GenRoundTrip\<close>.
\<close>

section \<open>Rows\<close>

lemma move_rows:
  assumes tb: "initDecodeTables = Some tb"
  shows "lookupOpc tb (TAB, 0x89, OT_Single, 0) = Some (IT_MOV, VT_Def, parseMR, Some addBInstr, None)"
    and "lookupOpc tb (TAB, 0x8B, OT_Single, 0) = Some (IT_MOV, VT_Def, parseRM, Some addBInstr, None)"
    and "lookupOpc tb (TAB, 0x85, OT_Single, 0) = Some (IT_TEST, VT_Def, parseMR, Some addBInstr, None)"
    and "lookupOpc tb (TAB, 0xC7, OT_Single, 0) = Some (IT_None, VT_Def, decode_C7, None, None)"
    and "lookupOpc tb (TAB, 0xF7, OT_Single, 0) = Some (IT_None, VT_Def, decode_F7, None, None)"
    and "lookupOpc tb (TAB, 0xFF, OT_Single, 0) = Some (IT_None, VT_Def, decode_FF, None, None)"
    and "lookupOpc tb (TAB, 0xC1, OT_Single, 0) = Some (IT_None, VT_Def, decode_C1, None, None)"
    and "lookupOpc tb (TAB, 0x8D, OT_Single, 0) = Some (IT_None, VT_Def, decode_8D, None, None)"
    and "lookupOpc tb (TAB, 0x63, OT_Single, 0) = Some (IT_None, VT_Def, decode_63, None, None)"
    and "lookupOpc tb (TAB, 0x98, OT_Single, 0) = Some (IT_None, VT_Def, decode_98, None, None)"
    and "lookupOpc tb (TAB, 0x99, OT_Single, 0) = Some (IT_None, VT_Def, decode_99, None, None)"
    and "lookupOpc tb (TAB, 0xC3, OT_Single, 0) = Some (IT_RET, VT_None, addSInstr, Some reqExit, None)"
  by (rule lookup_TAB [OF tb], simp add: rowsTAB)+

lemma reg_rows:
  assumes tb: "initDecodeTables = Some tb" and k: "k < 8"
  shows "lookupOpc tb (TAB, 0x50 + k, OT_Single, 0) = Some (IT_None, VT_Def, decode_50, None, None)"
    and "lookupOpc tb (TAB, 0x58 + k, OT_Single, 0) = Some (IT_None, VT_Def, decode_58, None, None)"
    and "lookupOpc tb (TAB, 0xB8 + k, OT_Single, 0) = Some (IT_None, VT_Def, decode_B0, None, None)"
proof -
  have "\<forall>k < 8. ((TAB, 0x50 + k, OT_Single, 0), (IT_None, VT_Def, decode_50, None, None)) \<in> set (tableRows TAB)
    \<and> ((TAB, 0x58 + k, OT_Single, 0), (IT_None, VT_Def, decode_58, None, None)) \<in> set (tableRows TAB)
    \<and> ((TAB, 0xB8 + k, OT_Single, 0), (IT_None, VT_Def, decode_B0, None, None)) \<in> set (tableRows TAB)"
    by (simp add: rowsTAB all_less_8)
  then show "lookupOpc tb (TAB, 0x50 + k, OT_Single, 0) = Some (IT_None, VT_Def, decode_50, None, None)"
    "lookupOpc tb (TAB, 0x58 + k, OT_Single, 0) = Some (IT_None, VT_Def, decode_58, None, None)"
    "lookupOpc tb (TAB, 0xB8 + k, OT_Single, 0) = Some (IT_None, VT_Def, decode_B0, None, None)"
    using k by (intro lookup_TAB [OF tb]; simp)+
qed

lemma two_byte_rows:
  assumes tb: "initDecodeTables = Some tb"
  shows "lookupOpc tb (TAB_0F, 0xAF, OT_Single, 0) = Some (IT_IMUL, VT_Def, parseRM, Some addBInstr, None)"
  by (rule lookup_0F [OF tb], simp add: rows0F)

lemma plainOpcode_moves:
  "plainOpcode 0x89" "plainOpcode 0x8B" "plainOpcode 0x85" "plainOpcode 0xC7" "plainOpcode 0xF7"
  "plainOpcode 0xFF" "plainOpcode 0xC1" "plainOpcode 0x8D" "plainOpcode 0x63" "plainOpcode 0x98"
  "plainOpcode 0x99" "plainOpcode 0xC3" "plainOpcode 0x0FAF"
  by (simp_all add: plainOpcode_def opcodeByte_def)

lemma plainOpcode_regs:
  assumes "k < 8"
  shows "plainOpcode (0x50 + k)" "plainOpcode (0x58 + k)" "plainOpcode (0xB8 + k)"
proof -
  have "\<forall>k < 8. plainOpcode (0x50 + k) \<and> plainOpcode (0x58 + k) \<and> plainOpcode (0xB8 + k)"
    by (simp add: all_less_8 plainOpcode_def opcodeByte_def)
  then show "plainOpcode (0x50 + k)" "plainOpcode (0x58 + k)" "plainOpcode (0xB8 + k)"
    using assms by blast+
qed

section \<open>Forms with a register and a \<open>r/m\<close> operand\<close>

lemma MR_to:
  assumes look: "lookupOpc tb (TAB, opc, OT_Single, 0) = Some (it, VT_Def, parseMR, Some addBInstr, None)"
    and opc: "opc < 256" "plainOpcode opc" and p: "gpRM vt p" "gpReg vt q"
  shows "decodesTo tb (pairBytes vt opc p q) (likeBin it vt (\<lambda>a. sameOp a p) (\<lambda>b. sameOp b q))"
  unfolding decodesTo_def using look opcTable_one [OF opc(1)]
  by (intro allI impI MR_decodes opc(2) p) auto

lemma RM_to:
  assumes look: "lookupOpc tb (TAB, opc, OT_Single, 0) = Some (it, VT_Def, parseRM, Some addBInstr, None)"
    and opc: "opc < 256" "plainOpcode opc" and p: "gpRM vt p" "gpReg vt q"
  shows "decodesTo tb (pairBytes vt opc p q) (likeBin it vt (\<lambda>a. sameOp a q) (\<lambda>b. sameOp b p))"
  unfolding decodesTo_def using look opcTable_one [OF opc(1)]
  by (intro allI impI RM_decodes opc(2) p) auto

lemma C7_to:
  assumes tb: "initDecodeTables = Some tb" and p: "gpRM vt p" and q: "wideImm vt q"
    and im: "appendI q = Some im"
  shows "decodesTo tb (digitBytes vt 0xC7 0 p @ im)
    (likeBin IT_MOV vt (\<lambda>a. sameOp a p) (\<lambda>b. sameImm vt b q))"
  unfolding decodesTo_def using move_rows(4) [OF tb]
  by (intro allI impI digitImm_decodes [where h = decode_C7 and g = "\<lambda>c. if digit c = 0
        then do { c \<leftarrow> imm_o2 (d_vt c) False c; addB IT_MOV (d_vt c) c }
        else markDecodeError True ET_BadOpcode c"] plainOpcode_moves p q im)
    (simp_all add: opcTable_one decode_C7_def)

lemma F7_test_to:
  assumes tb: "initDecodeTables = Some tb" and p: "gpRM vt p" and q: "wideImm vt q"
    and im: "appendI q = Some im"
  shows "decodesTo tb (digitBytes vt 0xF7 0 p @ im)
    (likeBin IT_TEST vt (\<lambda>a. sameOp a p) (\<lambda>b. sameImm vt b q))"
  unfolding decodesTo_def using move_rows(5) [OF tb]
  by (intro allI impI digitImm_decodes [where h = decode_F7 and g = group3] plainOpcode_moves p q im)
    (simp_all add: opcTable_one decode_F7_def group3_def)

lemma shift_to:
  assumes tb: "initDecodeTables = Some tb" and it: "shiftType dg = Some it" and p: "gpRM vt p"
    and q: "otype q = OT_Imm8" and im: "appendI q = Some im"
  shows "decodesTo tb (digitBytes vt 0xC1 dg p @ im)
    (likeBin it vt (\<lambda>a. sameOp a p) (\<lambda>b. sameImm VT_8 b q))"
  unfolding decodesTo_def
  by (intro allI impI shift_decodes [OF move_rows(7) [OF tb] it _ p q im])

lemma unary_to:
  assumes tb: "initDecodeTables = Some tb" and p: "gpRM vt p"
  shows "decodesTo tb (digitBytes vt 0xFF 0 p) (likeUn IT_INC (\<lambda>a. sameOp a p))"
    and "decodesTo tb (digitBytes vt 0xFF 1 p) (likeUn IT_DEC (\<lambda>a. sameOp a p))"
    and "decodesTo tb (digitBytes vt 0xF7 3 p) (likeUn IT_NEG (\<lambda>a. sameOp a p))"
    and "decodesTo tb (digitBytes vt 0xF7 7 p) (likeUn IT_IDIV1 (\<lambda>a. sameOp a p))"
proof -
  let ?gFF = "\<lambda>c. if digit c = 0 then addU IT_INC (o1 c) c else if digit c = 1 then addU IT_DEC (o1 c) c
      else if digit c = 2 then do {
        c \<leftarrow> retype_o1 VT_64 c; c \<leftarrow> addU IT_CALL (o1 c) c; Some (c\<lparr>d_exit := True\<rparr>) }
      else if digit c = 4 then do {
        c \<leftarrow> retype_o1 VT_64 c; c \<leftarrow> addU IT_JMPI (o1 c) c; Some (c\<lparr>d_exit := True\<rparr>) }
      else if digit c = 6 then do { c \<leftarrow> stackOp_o1 c; addU IT_PUSH (o1 c) c }
      else markDecodeError True ET_BadOpcode c"
  show "decodesTo tb (digitBytes vt 0xFF 0 p) (likeUn IT_INC (\<lambda>a. sameOp a p))"
    unfolding decodesTo_def using move_rows(6) [OF tb]
    by (intro allI impI digit_decodes [where h = decode_FF and g = ?gFF] plainOpcode_moves p)
      (simp_all add: opcTable_one decode_FF_def)
  show "decodesTo tb (digitBytes vt 0xFF 1 p) (likeUn IT_DEC (\<lambda>a. sameOp a p))"
    unfolding decodesTo_def using move_rows(6) [OF tb]
    by (intro allI impI digit_decodes [where h = decode_FF and g = ?gFF] plainOpcode_moves p)
      (simp_all add: opcTable_one decode_FF_def)
  show "decodesTo tb (digitBytes vt 0xF7 3 p) (likeUn IT_NEG (\<lambda>a. sameOp a p))"
    unfolding decodesTo_def using move_rows(5) [OF tb]
    by (intro allI impI digit_decodes [where h = decode_F7 and g = group3] plainOpcode_moves p)
      (simp_all add: opcTable_one decode_F7_def group3_def)
  show "decodesTo tb (digitBytes vt 0xF7 7 p) (likeUn IT_IDIV1 (\<lambda>a. sameOp a p))"
    unfolding decodesTo_def using move_rows(5) [OF tb]
    by (intro allI impI digit_decodes [where h = decode_F7 and g = group3] plainOpcode_moves p)
      (simp_all add: opcTable_one decode_F7_def group3_def)
qed

section \<open>The generators\<close>

lemma genDigitRM_good:
  assumes p: "gpRM vt p" and opc: "opc < 256" and dg: "dg < 8"
    and fl: "flagsOk flags vt" "flags AND GEN_DefOpVT64 = 0"
    and dec: "decodesTo tb (digitBytes vt opc dg p) P"
  shows "goodGen tb (ok (genDigitRM (initGContext i) opc dg p flags)) P"
proof -
  have o: "opc < 65536" using opc by simp
  show ?thesis
    using genDigitRM_bytes [OF p o dg fl(1), of i] fl(2)
      length_modrm_one [OF opc, of vt "rexOf False (vt = VT_64) False (rmX p) (rmB p)" dg p]
    by (intro goodGen_ok [OF _ _ dec]) simp_all
qed

text \<open>Instructions with one operand.\<close>

definition unaryOp :: "instrtype \<Rightarrow> bool" where
  "unaryOp it \<longleftrightarrow> it = IT_INC \<or> it = IT_DEC \<or> it = IT_NEG \<or> it = IT_IDIV1"

lemma unary_round:
  assumes tb: "initDecodeTables = Some tb" and it: "unaryOp (itype i)" and pt: "ptLen i = 0"
    and p: "gpRM vt (idst i)" and vt: "vt = VT_32 \<or> vt = VT_64"
  shows "\<exists>bs. genInstrStep i = Some (StepBytes bs)
    \<and> decodesTo tb bs (likeUn (itype i) (\<lambda>a. sameOp a (idst i)))"
proof -
  let ?c = "initGContext i" and ?p = "idst i"
  note u = unary_to [OF tb p]
  have c: "g_instr ?c = i" by (simp add: initGContext_def)
  have t: "otype ?p \<in> rm3264" using rm_types [OF p vt] .
  have n8: "otype ?p \<notin> {OT_Ind8, OT_Reg8}" using t by auto
  note good = genDigitRM_good [OF p _ _ flagsOk_simps(1) [OF vt]] genDigitRM_good [OF p _ _ flagsOk_simps(2)]
  from it have "\<exists>m. genByType ?c = Some m
      \<and> goodGen tb m (likeUn (itype i) (\<lambda>a. sameOp a ?p))"
    unfolding unaryOp_def
  proof (elim disjE)
    assume i: "itype i = IT_INC"
    then show ?thesis using t good(1) [OF _ _ _ u(1)]
      by (simp add: genByType_def c genInc_def Let_def)
  next
    assume i: "itype i = IT_DEC"
    then show ?thesis using t good(1) [OF _ _ _ u(2)]
      by (simp add: genByType_def c genDec_def Let_def)
  next
    assume i: "itype i = IT_NEG"
    have "otype ?p \<in> rm163264" using t by auto
    then show ?thesis using i n8 good(2) [OF _ _ _ u(3)]
      by (simp add: genByType_def c genNeg_def Let_def)
  next
    assume i: "itype i = IT_IDIV1"
    then show ?thesis using t good(1) [OF _ _ _ u(4)]
      by (simp add: genByType_def c genIDiv1_def Let_def)
  qed
  then show ?thesis using genInstrStep_good [OF pt] by blast
qed

text \<open>Shifts by an immediate.\<close>

definition shiftOp :: "instrtype \<Rightarrow> bool" where
  "shiftOp it \<longleftrightarrow> it = IT_SHL \<or> it = IT_SHR \<or> it = IT_SAR"

lemma shift_round:
  assumes tb: "initDecodeTables = Some tb" and it: "shiftOp (itype i)" and pt: "ptLen i = 0"
    and p: "gpRM vt (idst i)" and q: "otype (isrc i) = OT_Imm8" and vt: "vt = VT_32 \<or> vt = VT_64"
  shows "\<exists>bs. genInstrStep i = Some (StepBytes bs) \<and> decodesTo tb bs
    (likeBin (itype i) vt (\<lambda>a. sameOp a (idst i)) (\<lambda>b. sameImm VT_8 b (isrc i)))"
proof -
  let ?c = "initGContext i"
  have c: "g_instr ?c = i" by (simp add: initGContext_def)
  have t: "otype (idst i) \<in> rm3264" using rm_types [OF p vt] .
  have sh: "goodGen tb (genShift dg ?c)
      (likeBin it vt (\<lambda>a. sameOp a (idst i)) (\<lambda>b. sameImm VT_8 b (isrc i)))"
    if "shiftType dg = Some it" for dg it
  proof -
    have "dg < 8" using that by (auto simp: shiftType_def split: if_splits)
    then show ?thesis
      using genDigitMI_good [OF p disjI1 [OF q] _ _ flagsOk_simps(1) [OF vt] _ shift_to [OF tb that p q]] q t
      by (simp add: genShift_def c Let_def)
  qed
  have "\<exists>m. genByType ?c = Some m \<and> goodGen tb m
      (likeBin (itype i) vt (\<lambda>a. sameOp a (idst i)) (\<lambda>b. sameImm VT_8 b (isrc i)))"
    using it sh unfolding shiftOp_def
    by (elim disjE; simp add: genByType_def c genShl_def genShr_def genSar_def shiftType_def)
  then show ?thesis using genInstrStep_good [OF pt] by blast
qed

text \<open>
  Moves between registers and memory and of immediates. A zero that goes to a register is left
  out: the generator emits \<open>xor\<close> for it.
\<close>

definition movArgs :: "valtype \<Rightarrow> operand \<Rightarrow> operand \<Rightarrow> bool" where
  "movArgs vt dst src \<longleftrightarrow> gpRM vt dst \<and> gpReg vt src \<or> gpReg vt dst \<and> gpMem vt src
     \<or> gpRM vt dst \<and> (otype src = OT_Imm32 \<or> otype src = OT_Imm64 \<and> fits32 (oval src))
       \<and> (gpMem vt dst \<or> oval src \<noteq> 0)"

lemma reduce_zero:
  assumes "otype q = OT_Imm32 \<or> otype q = OT_Imm64 \<and> fits32 (oval q)"
  shows "otype (reduceImm64to32 q) = OT_Imm32" "oval (reduceImm64to32 q) = 0 \<longleftrightarrow> oval q = 0"
proof -
  show "otype (reduceImm64to32 q) = OT_Imm32" using assms by (auto simp: reduceImm_type)
  have "oval q = 0" if "fits32 (oval q)" "trunc32 (oval q) = 0"
  proof -
    have "sext32 (oval q) = oval q" using that(1) by (intro sext_self) (simp_all add: fits32_def)
    moreover have "sext32 (oval q) = sext32 (trunc32 (oval q))"
      by (simp add: cast_defs ucast_up_ucast_id is_up)
    ultimately show ?thesis using that(2) by (simp add: cast_defs)
  qed
  moreover have "trunc32 0 = 0" by (simp add: cast_defs)
  ultimately show "oval (reduceImm64to32 q) = 0 \<longleftrightarrow> oval q = 0"
    using assms by (auto simp: reduceImm64to32_def fits32_def)
qed

lemma mov_good:
  assumes tb: "initDecodeTables = Some tb" and vt: "vt = VT_32 \<or> vt = VT_64"
    and args: "movArgs vt (idst i) (isrc i)"
  shows "goodGen tb (genMov (initGContext i)) (likeAlu IT_MOV vt (idst i) (isrc i))"
proof -
  let ?dst = "idst i" and ?src = "isrc i"
  have c: "g_instr (initGContext i) = i" by (simp add: initGContext_def)
  from args consider (mr) "gpRM vt ?dst" "gpReg vt ?src" | (rm) "gpReg vt ?dst" "gpMem vt ?src"
    | (im) "gpRM vt ?dst" "otype ?src = OT_Imm32 \<or> otype ?src = OT_Imm64 \<and> fits32 (oval ?src)"
      "gpMem vt ?dst \<or> oval ?src \<noteq> 0"
    unfolding movArgs_def by blast
  then show ?thesis
  proof cases
    case mr
    have r: "reduceImm64to32 ?src = ?src" using gpReg_facts(12) [OF mr(2)] by (rule reduceImm_nonImm)
    note v = gpRM_facts(2) [OF mr(1)] gpReg_facts(2) [OF mr(2)]
    have g: "genMov (initGContext i) = ok (genModRM (initGContext i) 0x89 ?dst ?src VT_None 0)"
      using gp_types(1) [OF mr(2) vt] rm_types [OF mr(1) vt] v
      by (auto simp: genMov_def c r Let_def)
    show ?thesis
      using genModRM_good [OF mr _ flagsOk_simps(1) [OF vt]
          MR_to [OF move_rows(1) [OF tb] _ plainOpcode_moves(1) mr]]
      by (simp add: g likeAlu_cases(1) [OF gpReg_gpRM [OF mr(2)]])
  next
    case rm
    have r: "reduceImm64to32 ?src = ?src" using gpMem_facts(5) [OF rm(2)] by (rule reduceImm_nonImm)
    note v = gpReg_facts(2) [OF rm(1)] gpRM_facts(2) [OF gpMem_gpRM [OF rm(2)]]
    have g: "genMov (initGContext i) = ok (genModRM (initGContext i) 0x8B ?src ?dst VT_None 0)"
      using gp_types(2) [OF rm(2) vt] gp_types(1) [OF rm(1) vt] v
      by (auto simp: genMov_def c r Let_def)
    show ?thesis
      using genModRM_good [OF gpMem_gpRM [OF rm(2)] rm(1) _ flagsOk_simps(1) [OF vt]
          RM_to [OF move_rows(2) [OF tb] _ plainOpcode_moves(2) gpMem_gpRM [OF rm(2)] rm(1)]]
      by (simp add: g likeAlu_cases(1) [OF gpMem_gpRM [OF rm(2)]])
  next
    case im
    let ?s = "reduceImm64to32 ?src"
    note z = reduce_zero [OF im(2)]
    have w: "wideImm vt ?s" using z(1) vt by (auto simp: wideImm_def)
    have nz: "otype ?dst \<in> reg3264 \<Longrightarrow> oval ?s \<noteq> 0"
      using im(3) z(2) gp_types(2) vt by force
    have g: "genMov (initGContext i) = ok (genDigitMI (initGContext i) 0xC7 0 ?dst ?s 0)"
      using z(1) nz rm_types [OF im(1) vt] by (auto simp: genMov_def c Let_def)
    have "opIsImm ?src" using im(2) by (auto simp: opIsImm_def)
    moreover have "sameImm vt b ?s = sameImm vt b ?src" for b
      by (simp add: sameImm_def reduceImm64to32_val)
    ultimately show ?thesis
      using genDigitMI_good [OF im(1) disjI2 [OF w] _ _ flagsOk_simps(1) [OF vt] _ C7_to [OF tb im(1) w]]
      by (simp add: g likeAlu_cases(2))
  qed
qed

lemma mov_round:
  assumes tb: "initDecodeTables = Some tb" and it: "itype i = IT_MOV" and pt: "ptLen i = 0"
    and args: "movArgs vt (idst i) (isrc i)" and vt: "vt = VT_32 \<or> vt = VT_64"
  shows "\<exists>bs. genInstrStep i = Some (StepBytes bs) \<and> decodesTo tb bs (likeAlu IT_MOV vt (idst i) (isrc i))"
proof -
  have "genByType (initGContext i) = Some (genMov (initGContext i))"
    using it by (simp add: genByType_def initGContext_def)
  then show ?thesis using genInstrStep_good [OF pt _ mov_good [OF tb vt args]] by blast
qed

end
