(* ===== verification/Machine.thy ===== *)
theory Machine
  imports Instr
begin

text \<open>
  A reference semantics of the instructions that work on general purpose registers: the values
  of the 64 bit registers are a function, a register operand of 32 bits reads the low half and
  a write to it clears the high half, immediates are extended with their sign. It is the
  specification that the emulator and the capturing of instructions are compared with.
  Registers of 8 and 16 bits are only sources of \<open>movsx\<close> and shifts; memory operands are only
  addresses of \<open>lea\<close>.
\<close>

section \<open>Operands\<close>

type_synonym regs = "regindex \<Rightarrow> u64"

definition cutTo :: "valtype \<Rightarrow> u64 \<Rightarrow> u64" where
  "cutTo vt v = (if vt = VT_32 then trunc32 v else v)"

text \<open>A register operand of 32 or 64 bits.\<close>

definition wideReg :: "valtype \<Rightarrow> operand \<Rightarrow> bool" where
  "wideReg vt p \<longleftrightarrow> (vt = VT_32 \<and> otype p = OT_Reg32 \<and> rt (oreg p) = RT_GP32
     \<or> vt = VT_64 \<and> otype p = OT_Reg64 \<and> rt (oreg p) = RT_GP64) \<and> ri (oreg p) < 16"

definition wideOf :: "operand \<Rightarrow> valtype option" where
  "wideOf p = (if wideReg VT_32 p then Some VT_32 else if wideReg VT_64 p then Some VT_64 else None)"

text \<open>The low byte of a register that has a byte register in both encodings.\<close>

definition lowByteReg :: "operand \<Rightarrow> bool" where
  "lowByteReg p \<longleftrightarrow> otype p = OT_Reg8 \<and> (rt (oreg p) = RT_GP8 \<or> rt (oreg p) = RT_GP8Leg) \<and> ri (oreg p) < 4"

definition immSrc :: "valtype \<Rightarrow> operand \<Rightarrow> u64 option" where
  "immSrc vt p = (if otype p = OT_Imm8 then Some (cutTo vt (sext8 (oval p)))
     else if otype p = OT_Imm32 then Some (cutTo vt (sext32 (oval p)))
     else if otype p = OT_Imm64 \<and> vt = VT_64 then Some (oval p) else None)"

definition plainSrc :: "regs \<Rightarrow> valtype \<Rightarrow> operand \<Rightarrow> u64 option" where
  "plainSrc g vt p = (if wideReg vt p then Some (cutTo vt (g (ri (oreg p)))) else immSrc vt p)"

definition countSrc :: "regs \<Rightarrow> operand \<Rightarrow> u64 option" where
  "countSrc g p = (if otype p = OT_Imm8 then Some (oval p)
     else if lowByteReg p \<and> ri (oreg p) = RI_C then Some (trunc8 (g RI_C)) else None)"

definition signedSrc :: "regs \<Rightarrow> operand \<Rightarrow> u64 option" where
  "signedSrc g p = (if lowByteReg p then Some (sext8 (g (ri (oreg p))))
     else if otype p = OT_Reg16 \<and> rt (oreg p) = RT_GP16 \<and> ri (oreg p) < 16
     then Some (sext16 (g (ri (oreg p))))
     else if wideReg VT_32 p then Some (sext32 (g (ri (oreg p)))) else None)"

abbreviation "shiftTypes \<equiv> {IT_SHL, IT_SHR, IT_SAR}"

definition srcVal :: "regs \<Rightarrow> instrtype \<Rightarrow> valtype \<Rightarrow> operand \<Rightarrow> u64 option" where
  "srcVal g it vt p = (if it \<in> shiftTypes then countSrc g p
     else if it = IT_MOVSX then signedSrc g p else plainSrc g vt p)"

text \<open>The address of a memory operand without segment.\<close>

definition gpBase :: "reg \<Rightarrow> bool" where
  "gpBase r \<longleftrightarrow> rt r = RT_None \<or> rt r = RT_GP64"

definition addrOf :: "regs \<Rightarrow> operand \<Rightarrow> u64 option" where
  "addrOf g p = (if opIsInd p \<and> oseg p = OSO_None \<and> gpBase (oreg p) \<and> (oscale p > 0 \<longrightarrow> rt (oireg p) = RT_GP64)
     then Some (oval p + (if rt (oreg p) = RT_GP64 then g (ri (oreg p)) else 0)
            + of_nat (oscale p) * (if oscale p > 0 then g (ri (oireg p)) else 0))
     else None)"

section \<open>Operations\<close>

definition shiftCount :: "valtype \<Rightarrow> u64 \<Rightarrow> nat" where
  "shiftCount vt b = unat (b AND (if vt = VT_32 then 31 else 63))"

definition binFn :: "instrtype \<Rightarrow> valtype \<Rightarrow> u64 \<Rightarrow> u64 \<Rightarrow> u64 option" where
  "binFn it vt a b = (case it of
       IT_ADD \<Rightarrow> Some (a + b) | IT_SUB \<Rightarrow> Some (a - b) | IT_IMUL \<Rightarrow> Some (a * b)
     | IT_AND \<Rightarrow> Some (a AND b) | IT_OR \<Rightarrow> Some (a OR b) | IT_XOR \<Rightarrow> Some (a XOR b)
     | IT_MOV \<Rightarrow> Some b | IT_MOVSX \<Rightarrow> Some b
     | IT_SHL \<Rightarrow> Some (push_bit (shiftCount vt b) a)
     | IT_SHR \<Rightarrow> Some (drop_bit (shiftCount vt b) a)
     | IT_SAR \<Rightarrow> Some (signed_drop_bit (shiftCount vt b) (if vt = VT_32 then sext32 a else a))
     | _ \<Rightarrow> None)"

definition unFn :: "instrtype \<Rightarrow> u64 \<Rightarrow> u64 option" where
  "unFn it a = (case it of IT_INC \<Rightarrow> Some (a + 1) | IT_DEC \<Rightarrow> Some (a - 1) | IT_NEG \<Rightarrow> Some (- a)
     | _ \<Rightarrow> None)"

text \<open>Write to a register operand.\<close>

definition putReg :: "valtype \<Rightarrow> operand \<Rightarrow> u64 \<Rightarrow> regs \<Rightarrow> regs" where
  "putReg vt p v g = g(ri (oreg p) := cutTo vt v)"

definition binExec :: "instrtype \<Rightarrow> operand \<Rightarrow> operand \<Rightarrow> regs \<Rightarrow> regs option" where
  "binExec it p q g = do {
     vt \<leftarrow> wideOf p;
     b \<leftarrow> srcVal g it vt q;
     v \<leftarrow> binFn it vt (cutTo vt (g (ri (oreg p)))) b;
     Some (putReg vt p v g) }"

definition unExec :: "instrtype \<Rightarrow> operand \<Rightarrow> regs \<Rightarrow> regs option" where
  "unExec it p g = do {
     vt \<leftarrow> wideOf p;
     v \<leftarrow> unFn it (cutTo vt (g (ri (oreg p))));
     Some (putReg vt p v g) }"

definition leaExec :: "operand \<Rightarrow> operand \<Rightarrow> regs \<Rightarrow> regs option" where
  "leaExec p q g = do {
     vt \<leftarrow> wideOf p;
     a \<leftarrow> addrOf g q;
     Some (putReg vt p a g) }"

text \<open>\<open>cmp\<close> and \<open>test\<close> write no register.\<close>

definition testExec :: "operand \<Rightarrow> operand \<Rightarrow> regs \<Rightarrow> regs option" where
  "testExec p q g = do {
     vt \<leftarrow> wideOf p;
     b \<leftarrow> plainSrc g vt q;
     Some g }"

section \<open>Instructions\<close>

definition regExec :: "instr \<Rightarrow> regs \<Rightarrow> regs option" where
  "regExec i g =
     (if ptLen i > 0 then None
      else case iform i of
        OF_0 \<Rightarrow> (case itype i of IT_CLTQ \<Rightarrow> Some (g(RI_A := sext32 (g RI_A))) | IT_NOP \<Rightarrow> Some g | _ \<Rightarrow> None)
      | OF_1 \<Rightarrow> unExec (itype i) (idst i) g
      | OF_2 \<Rightarrow> (if itype i = IT_LEA then leaExec (idst i) (isrc i) g
                 else if itype i \<in> {IT_CMP, IT_TEST} then testExec (idst i) (isrc i) g
                 else binExec (itype i) (idst i) (isrc i) g)
      | _ \<Rightarrow> None)"

primrec regExecs :: "instr list \<Rightarrow> regs \<Rightarrow> regs option" where
  "regExecs [] g = Some g"
| "regExecs (i # is) g = do { g \<leftarrow> regExec i g; regExecs is g }"

lemma regExecs_append: "regExecs (xs @ ys) g = do { g \<leftarrow> regExecs xs g; regExecs ys g }"
  by (induction xs arbitrary: g) (simp_all add: bind_assoc split: option.splits bind_split)

lemma wideOf_Some: "wideOf p = Some vt \<longleftrightarrow> wideReg vt p"
  by (auto simp: wideOf_def wideReg_def)

lemma cutTo_cutTo [simp]: "cutTo vt (cutTo vt v) = cutTo vt v"
  by (simp add: cutTo_def)

lemma trunc32_sext32 [simp]: "trunc32 (sext32 v) = trunc32 v"
proof -
  have "(ucast (scast (w :: u32) :: u64) :: u32) = w" for w
    by (rule bit_word_eqI) (auto simp: bit_simps)
  then show ?thesis by (simp add: cast_defs)
qed

lemma cutTo_0: "cutTo vt 0 = 0"
  by (simp add: cutTo_def trunc32_def)

lemma cutTo_sext: "cutTo VT_32 (sext32 v) = trunc32 v" "cutTo VT_32 v = trunc32 v" "cutTo VT_64 v = v"
  by (simp_all add: cutTo_def)

text \<open>Low halves of results.\<close>

lemma low_hom: "(ucast (word_of_int k :: u64) :: u32) = word_of_int k"
  by (rule bit_word_eqI) (simp add: bit_simps)

lemma low_ops:
  "(ucast (a + b :: u64) :: u32) = ucast a + ucast b"
  "(ucast (a - b :: u64) :: u32) = ucast a - ucast b"
  "(ucast (a * b :: u64) :: u32) = ucast a * ucast b"
proof -
  have "ucast (word_of_int x + word_of_int y :: u64) = (ucast (word_of_int x :: u64) + ucast (word_of_int y :: u64) :: u32)"
    "ucast (word_of_int x - word_of_int y :: u64) = (ucast (word_of_int x :: u64) - ucast (word_of_int y :: u64) :: u32)"
    "ucast (word_of_int x * word_of_int y :: u64) = (ucast (word_of_int x :: u64) * ucast (word_of_int y :: u64) :: u32)" for x y
    by (simp_all only: low_hom wi_hom_add wi_hom_sub wi_hom_mult)
  from this [of "uint a" "uint b"] show "(ucast (a + b :: u64) :: u32) = ucast a + ucast b"
    "(ucast (a - b :: u64) :: u32) = ucast a - ucast b"
    "(ucast (a * b :: u64) :: u32) = ucast a * ucast b"
    by (simp_all only: word_of_int_uint)
qed

lemma trunc32_ops:
  "trunc32 (trunc32 a + b) = trunc32 (a + b)" "trunc32 (a + trunc32 b) = trunc32 (a + b)"
  "trunc32 (trunc32 a - b) = trunc32 (a - b)" "trunc32 (a - trunc32 b) = trunc32 (a - b)"
  "trunc32 (trunc32 a * b) = trunc32 (a * b)" "trunc32 (a * trunc32 b) = trunc32 (a * b)"
  by (simp_all add: trunc32_def low_ops ucast_down_up)

lemma trunc32_bitops:
  "trunc32 (a AND b) = trunc32 a AND trunc32 b" "trunc32 (a OR b) = trunc32 a OR trunc32 b"
  "trunc32 (a XOR b) = trunc32 a XOR trunc32 b"
  by (simp_all add: trunc32_def) (rule bit_word_eqI; auto simp: bit_simps)+

end
