(* ===== verification/EmuState.thy ===== *)
theory EmuState
  imports Common
begin

text \<open>
  The state of the capturing emulator (first part of \<open>src/emulate.c\<close>): values with their
  capture states, resetting, comparing, copying and cloning emulator states, and the list of
  saved states that the rewriter keeps to go back to a branch.

  The stack of a state is real memory in the code. Its address, which \<open>malloc\<close> returns, is
  a parameter of \<open>resetEmuState\<close>. The bytes and their capture states are lists of the same
  length.
\<close>

named_theorems emu_defs \<open>definitions of the emulator's small operations\<close>

section \<open>Capture states and values\<close>

definition csIsStatic :: "capturestate \<Rightarrow> bool" where
  "csIsStatic cs \<longleftrightarrow> cs = CS_STATIC \<or> cs = CS_STATIC2"

definition msIsStatic :: "metastate \<Rightarrow> bool" where
  "msIsStatic ms \<longleftrightarrow> cState ms = CS_STATIC \<or> cState ms = CS_STATIC2"

definition msIsDynamic :: "metastate \<Rightarrow> bool" where
  "msIsDynamic ms \<longleftrightarrow> cState ms = CS_DYNAMIC"

definition emuValue :: "u64 \<Rightarrow> valtype \<Rightarrow> metastate \<Rightarrow> emuvalue" where
  "emuValue v t s = \<lparr>ev_val = v, ev_type = t, ev_state = s\<rparr>"

definition staticEmuValue :: "u64 \<Rightarrow> valtype \<Rightarrow> emuvalue" where
  "staticEmuValue v t = \<lparr>ev_val = v, ev_type = t, ev_state = initMetaState CS_STATIC\<rparr>"

section \<open>Allocation and reset\<close>

definition calleeSave :: "regindex list" where
  "calleeSave = [RI_BP, RI_B, RI_12, RI_13, RI_14, RI_15]"

text \<open>\<open>allocEmuState\<close>: the members other than the arrays are not initialised; they are 0 here.\<close>

definition allocEmuState :: "nat \<Rightarrow> emustate" where
  "allocEmuState sz = \<lparr>es_parent = None, es_reg = \<lambda>_. 0, reg_state = \<lambda>_. initMetaState CS_DEAD,
     regIP = 0, regIP_state = initMetaState CS_DEAD, es_flag = \<lambda>_. False,
     flag_state = \<lambda>_. initMetaState CS_DEAD, es_stack = replicate sz 0,
     stackState = replicate sz (initMetaState CS_DEAD), stackStart = 0, stackAccessed = 0,
     stackTop = 0, ret_stack = replicate (nat MAX_CALLDEPTH) 0, depth = 0\<rparr>"

definition resetEmuState :: "u64 \<Rightarrow> emustate \<Rightarrow> emustate" where
  "resetEmuState stack_addr es = es\<lparr>es_parent := None,
     es_reg := \<lambda>_. 0,
     reg_state := \<lambda>i. initMetaState (if i \<in> set calleeSave then CS_DYNAMIC else CS_DEAD),
     es_flag := \<lambda>_. False,
     flag_state := \<lambda>_. initMetaState CS_DEAD,
     es_stack := replicate (stackSize es) 0,
     stackState := replicate (stackSize es) (initMetaState CS_DEAD),
     stackStart := stack_addr,
     stackTop := stack_addr + of_nat (stackSize es),
     stackAccessed := stack_addr + of_nat (stackSize es),
     regIP_state := initMetaState CS_STATIC,
     depth := 0\<rparr>"

definition freeEmuState :: "rewriter \<Rightarrow> rewriter" where
  "freeEmuState r = r\<lparr>r_es := None\<rparr>"

section \<open>Comparing states\<close>

text \<open>\<open>CS_STATIC2\<close> counts as \<open>CS_STATIC\<close>.\<close>

definition normCS :: "capturestate \<Rightarrow> capturestate" where
  "normCS s = (if s = CS_STATIC2 then CS_STATIC else s)"

definition csIsEqual ::
  "emustate \<Rightarrow> capturestate \<Rightarrow> u64 \<Rightarrow> emustate \<Rightarrow> capturestate \<Rightarrow> u64 \<Rightarrow> bool" where
  "csIsEqual es1 s1 v1 es2 s2 v2 \<longleftrightarrow>
     (if normCS s1 \<noteq> normCS s2 then False
      else case normCS s1 of
        CS_STATIC \<Rightarrow> v1 = v2
      | CS_STACKRELATIVE \<Rightarrow> if es_parent es1 \<noteq> es_parent es2 then False else v1 = v2
      | _ \<Rightarrow> True)"

definition all_flags :: "flagtype list" where
  "all_flags = [FT_Carry, FT_Zero, FT_Sign, FT_Overflow, FT_Parity]"

definition flagVal :: "bool \<Rightarrow> u64" where
  "flagVal b = (if b then 1 else 0)"

text \<open>The stacks are compared from the top: a larger one must not be static below.\<close>

definition stackIsEqual :: "emustate \<Rightarrow> emustate \<Rightarrow> bool" where
  "stackIsEqual es1 es2 \<longleftrightarrow>
     (let d1 = stackSize es1 - stackSize es2; d2 = stackSize es2 - stackSize es1 in
      (\<forall>i < d1. \<not> msIsStatic (stackState es1 ! i)) \<and> (\<forall>i < d2. \<not> msIsStatic (stackState es2 ! i))
      \<and> (\<forall>i < min (stackSize es1) (stackSize es2).
           csIsEqual es1 (cState (stackState es1 ! (i + d1))) (ucast (es_stack es1 ! (i + d1)))
             es2 (cState (stackState es2 ! (i + d2))) (ucast (es_stack es2 ! (i + d2)))))"

definition esIsEqual :: "emustate \<Rightarrow> emustate \<Rightarrow> bool" where
  "esIsEqual es1 es2 \<longleftrightarrow>
     (\<forall>i < RI_GPMax. csIsEqual es1 (cState (reg_state es1 i)) (es_reg es1 i)
        es2 (cState (reg_state es2 i)) (es_reg es2 i))
     \<and> (\<forall>f \<in> set all_flags. csIsEqual es1 (cState (flag_state es1 f)) (flagVal (es_flag es1 f))
        es2 (cState (flag_state es2 f)) (flagVal (es_flag es2 f)))
     \<and> depth es1 = depth es2 \<and> stackIsEqual es1 es2"

section \<open>Copying states\<close>

text \<open>The stack part of \<open>copyEmuState\<close>: the top parts match, a larger destination is filled with
  dead bytes, the accessed part of a larger source has to fit.\<close>

definition copyStack :: "emustate \<Rightarrow> emustate \<Rightarrow> emustate option" where
  "copyStack dst src =
     (if stackSize src < stackSize dst then
        (let diff = stackSize dst - stackSize src in
         Some (dst\<lparr>stackStart := stackStart src - of_nat diff,
           es_stack := replicate diff 0 @ es_stack src,
           stackState := replicate diff (initMetaState CS_DEAD) @ stackState src\<rparr>))
      else
        (let diff = stackSize src - stackSize dst in do {
           c_assert (stackAccessed src - stackStart src \<ge> of_nat diff);
           Some (dst\<lparr>stackStart := stackStart src + of_nat diff,
             es_stack := drop diff (es_stack src),
             stackState := drop diff (stackState src)\<rparr>) }))"

definition copyEmuState :: "emustate \<Rightarrow> emustate \<Rightarrow> emustate option" where
  "copyEmuState dst src = do {
     let dst = dst\<lparr>es_parent := es_parent src, es_reg := es_reg src, reg_state := reg_state src,
       es_flag := es_flag src, flag_state := flag_state src, stackTop := stackTop src,
       stackAccessed := stackAccessed src\<rparr>;
     dst \<leftarrow> copyStack dst src;
     c_assert (stackTop dst = stackStart dst + of_nat (stackSize dst));
     Some (dst\<lparr>depth := depth src,
       ret_stack := take (nat (depth src)) (ret_stack src) @ drop (nat (depth src)) (ret_stack dst)\<rparr>) }"

text \<open>
  \<open>cloneEmuState\<close> is only called for the rewriter's own state, which is the parent \<open>Some 0\<close>
  of its clones. Only the accessed part of the stack is kept.
\<close>

definition cloneEmuState :: "emustate \<Rightarrow> emustate option" where
  "cloneEmuState src = do {
     dst \<leftarrow> copyEmuState (allocEmuState (unat (stackTop src - stackAccessed src))) src;
     Some (dst\<lparr>es_parent := Some 0\<rparr>) }"

section \<open>The context of a rewriting\<close>

text \<open>\<open>RContext\<close>.\<close>

record rctx =
  rc_r :: rewriter
  rc_exit :: u64
  rc_e :: "error option"

definition mkError :: "errortype \<Rightarrow> errormodule \<Rightarrow> string option \<Rightarrow> error" where
  "mkError t m d = setError \<lparr>em = EM_Unknown, et = ET_NoError, desc = None\<rparr> t m d"

definition with_r :: "rewriter \<Rightarrow> rctx \<Rightarrow> rctx" where
  "with_r r c = c\<lparr>rc_r := r\<rparr>"

definition with_error :: "errortype \<Rightarrow> errormodule \<Rightarrow> string option \<Rightarrow> rctx \<Rightarrow> rctx" where
  "with_error t m d c = c\<lparr>rc_e := Some (mkError t m d)\<rparr>"

section \<open>Saved states\<close>

text \<open>The index of the first saved state that equals a state.\<close>

primrec findState :: "emustate \<Rightarrow> emustate list \<Rightarrow> nat option" where
  "findState es [] = None"
| "findState es (s # ss) = (if esIsEqual es s then Some 0 else map_option Suc (findState es ss))"

text \<open>\<open>saveEmuState\<close>: the ID of the state, or -1 with an error.\<close>

definition saveEmuState :: "rctx \<Rightarrow> (int \<times> rctx) option" where
  "saveEmuState c = do {
     es \<leftarrow> r_es (rc_r c);
     let r = rc_r c;
     (case findState es (savedState r) of
        Some k \<Rightarrow> Some (int k, c)
      | None \<Rightarrow>
          if length (savedState r) \<ge> SAVEDSTATE_MAX
          then Some (-1, with_error ET_BufferOverflow EM_Rewriter
                 (Some ''Too many different emulation states'') c)
          else do {
            s \<leftarrow> cloneEmuState es;
            Some (int (length (savedState r)), with_r (r\<lparr>savedState := savedState r @ [s]\<rparr>) c) }) }"

definition restoreEmuState :: "rewriter \<Rightarrow> int \<Rightarrow> rewriter option" where
  "restoreEmuState r k = do {
     c_assert (0 \<le> k \<and> k < int (length (savedState r)));
     es \<leftarrow> r_es r;
     es \<leftarrow> copyEmuState es (savedState r ! nat k);
     Some (r\<lparr>r_es := Some es\<rparr>) }"

lemmas [emu_defs] = csIsStatic_def msIsStatic_def msIsDynamic_def emuValue_def staticEmuValue_def
  initMetaState_def normCS_def flagVal_def mkError_def with_r_def with_error_def

end
