(* ===== verification/EmuFlags.thy ===== *)
theory EmuFlags
  imports EmuState
begin

text \<open>
  Combining capture states and setting the flags of the emulator (\<open>combineState\<close> to
  \<open>setFlagsBit\<close> of \<open>src/emulate.c\<close>).
\<close>

section \<open>Combining capture states\<close>

definition combineState :: "capturestate \<Rightarrow> capturestate \<Rightarrow> bool \<Rightarrow> capturestate" where
  "combineState s1 s2 isSameValue =
     (if s1 = CS_DEAD \<or> s2 = CS_DEAD then CS_DEAD
      else if csIsStatic s1 \<and> csIsStatic s2
      then (if s1 = CS_STATIC2 \<or> s2 = CS_STATIC2 then CS_STATIC2 else CS_STATIC)
      else if isSameValue \<and> s1 = CS_STACKRELATIVE \<and> s2 = CS_STACKRELATIVE then CS_STACKRELATIVE
      else if \<not> isSameValue \<and> s1 = CS_STACKRELATIVE \<and> csIsStatic s2 then CS_STACKRELATIVE
      else if \<not> isSameValue \<and> csIsStatic s1 \<and> s2 = CS_STACKRELATIVE then CS_STACKRELATIVE
      else CS_DYNAMIC)"

definition combineState4Flags :: "capturestate \<Rightarrow> capturestate \<Rightarrow> capturestate" where
  "combineState4Flags s1 s2 =
     (let s = combineState s1 s2 False;
          s = (if s = CS_STACKRELATIVE then CS_DYNAMIC else s)
      in if s = CS_STATIC2 then CS_STATIC else s)"

section \<open>Flags\<close>

text \<open>The table of \<open>PARITY\<close>: its bits say whether a byte has an odd number of bits.\<close>

definition parity_tab :: "u32 list" where
  "parity_tab = [0x96696996, 0x69969669, 0x69969669, 0x96696996,
     0x69969669, 0x96696996, 0x96696996, 0x69969669]"

definition PARITY :: "nat \<Rightarrow> bool" where
  "PARITY x \<longleftrightarrow> \<not> bit (parity_tab ! (x div 32)) (x mod 32)"

definition parity64 :: "u64 \<Rightarrow> bool" where
  "parity64 r = PARITY (unat (r AND 0xFF))"

definition setFlagsState :: "flagtype set \<Rightarrow> capturestate \<Rightarrow> emustate \<Rightarrow> emustate" where
  "setFlagsState fs cs es =
     es\<lparr>flag_state := \<lambda>f. if f \<in> fs then initMetaState cs else flag_state es f\<rparr>"

abbreviation "FS_CZSOP \<equiv> {FT_Carry, FT_Zero, FT_Sign, FT_Overflow, FT_Parity}"
abbreviation "FS_ZSP \<equiv> {FT_Zero, FT_Sign, FT_Parity}"
abbreviation "FS_CO \<equiv> {FT_Carry, FT_Overflow}"

text \<open>Set all flags of a state.\<close>

definition putFlags :: "bool \<Rightarrow> bool \<Rightarrow> bool \<Rightarrow> bool \<Rightarrow> bool \<Rightarrow> emustate \<Rightarrow> emustate" where
  "putFlags c z s v p es = es\<lparr>es_flag := (\<lambda>f. case f of FT_Carry \<Rightarrow> c | FT_Zero \<Rightarrow> z
     | FT_Sign \<Rightarrow> s | FT_Overflow \<Rightarrow> v | FT_Parity \<Rightarrow> p)\<rparr>"

text \<open>The bit above which a value of a type ends: 7, 31 or 63. Other types fail.\<close>

definition topBit :: "valtype \<Rightarrow> nat option" where
  "topBit vt = (case vt of VT_8 \<Rightarrow> Some 7 | VT_32 \<Rightarrow> Some 31 | VT_64 \<Rightarrow> Some 63 | _ \<Rightarrow> None)"

text \<open>The flags of \<open>v1 - v2\<close>, and their capture state. \<open>XOR2(bc >> (n-1))\<close> compares the bits
  \<open>n\<close> and \<open>n-1\<close>.\<close>

definition setFlagsSub :: "emustate \<Rightarrow> emuvalue \<Rightarrow> emuvalue \<Rightarrow> (capturestate \<times> emustate) option" where
  "setFlagsSub es v1 v2 = do {
     let st = combineState4Flags (cState (ev_state v1)) (cState (ev_state v2));
     let es = setFlagsState FS_CZSOP st es;
     c_assert (ev_type v1 = ev_type v2);
     let d = ev_val v1;
     let s = ev_val v2;
     let r = d - s;
     let bc = (r AND (NOT d OR s)) OR (NOT d AND s);
     n \<leftarrow> topBit (ev_type v1);
     Some (st, putFlags (bit bc n) (d = s) (bit r n) (bit bc n \<noteq> bit bc (n - 1)) (parity64 r) es) }"

text \<open>The flags of \<open>v1 + v2\<close>.\<close>

definition setFlagsAdd :: "emustate \<Rightarrow> emuvalue \<Rightarrow> emuvalue \<Rightarrow> emustate option" where
  "setFlagsAdd es v1 v2 = do {
     let st = combineState4Flags (cState (ev_state v1)) (cState (ev_state v2));
     let es = setFlagsState FS_CZSOP st es;
     c_assert (ev_type v1 = ev_type v2);
     let d = ev_val v1;
     let s = ev_val v2;
     let r = d + s;
     let cc = (r AND (NOT d OR s)) OR (NOT d AND s);
     n \<leftarrow> topBit (ev_type v1);
     Some (putFlags (bit cc n) (take_bit (Suc n) r = 0) (bit r n)
       (bit cc n \<noteq> bit cc (n - 1)) (parity64 r) es) }"

definition bitOp :: "instrtype \<Rightarrow> u64 \<Rightarrow> u64 \<Rightarrow> u64 option" where
  "bitOp it a b = (case it of IT_AND \<Rightarrow> Some (a AND b) | IT_XOR \<Rightarrow> Some (a XOR b)
     | IT_OR \<Rightarrow> Some (a OR b) | _ \<Rightarrow> None)"

text \<open>The flags of bitwise operations.\<close>

definition setFlagsBit ::
  "emustate \<Rightarrow> instrtype \<Rightarrow> emuvalue \<Rightarrow> emuvalue \<Rightarrow> bool \<Rightarrow> (capturestate \<times> emustate) option" where
  "setFlagsBit es it v1 v2 sameOperands = do {
     c_assert (ev_type v1 = ev_type v2);
     let s = combineState4Flags (cState (ev_state v1)) (cState (ev_state v2));
     let s = (if it = IT_XOR \<and> sameOperands then CS_STATIC else s);
     let s = (if it = IT_AND \<and> (msIsStatic (ev_state v1) \<and> ev_val v1 = 0
                                  \<or> msIsStatic (ev_state v2) \<and> ev_val v2 = 0)
              then CS_STATIC else s);
     let es = setFlagsState FS_ZSP s (setFlagsState FS_CO CS_STATIC es);
     res \<leftarrow> bitOp it (ev_val v1) (ev_val v2);
     n \<leftarrow> topBit (ev_type v1);
     Some (s, putFlags False (take_bit (Suc n) res = 0) (bit res n) False (parity64 res) es) }"

lemmas [emu_defs] = setFlagsState_def putFlags_def topBit_def bitOp_def

end
