(* ===== verification/EmuMem.thy ===== *)
theory EmuMem
  imports EmuFlags
begin

text \<open>
  Access to registers, stack, memory and operands in the emulator (\<open>getStackOffset\<close> to
  \<open>applyStaticToInd\<close> of \<open>src/emulate.c\<close>).

  Addresses in the range of the emulated stack go to the stack of the state, all others to the
  memory of the process. An access that starts in the stack and reaches over its end, which
  leaves the array in the code, is \<open>None\<close> like a failing assertion.
\<close>

section \<open>The emulated stack\<close>

definition vtSize :: "valtype \<Rightarrow> nat option" where
  "vtSize vt = (case vt of VT_8 \<Rightarrow> Some 1 | VT_16 \<Rightarrow> Some 2 | VT_32 \<Rightarrow> Some 4 | VT_64 \<Rightarrow> Some 8
     | _ \<Rightarrow> None)"

text \<open>The little-endian value of bytes, and the bytes of a value.\<close>

definition leVal :: "u8 list \<Rightarrow> u64" where
  "leVal bs = foldr (\<lambda>b v. ucast b OR push_bit 8 v) bs 0"

definition leBytes :: "nat \<Rightarrow> u64 \<Rightarrow> u8 list" where
  "leBytes n v = map (\<lambda>k. ucast (drop_bit (8 * k) v)) [0..<n]"

definition overlay :: "'a list \<Rightarrow> nat \<Rightarrow> 'a list \<Rightarrow> 'a list" where
  "overlay xs k ys = take k xs @ ys @ drop (k + length ys) xs"

text \<open>\<open>getStackOffset\<close>: the offset of a stack address. It is static if the address is
  stack-relative.\<close>

definition getStackOffset :: "emustate \<Rightarrow> emuvalue \<Rightarrow> emuvalue option" where
  "getStackOffset es addr =
     (if stackStart es \<le> ev_val addr \<and> ev_val addr < stackTop es
      then Some \<lparr>ev_val = ev_val addr - stackStart es, ev_type = VT_32,
             ev_state = initMetaState (if cState (ev_state addr) = CS_STACKRELATIVE
                                       then CS_STATIC else CS_DYNAMIC)\<rparr>
      else None)"

definition getStackState :: "emustate \<Rightarrow> emuvalue \<Rightarrow> capturestate option" where
  "getStackState es off =
     (if cState (ev_state off) = CS_STATIC then
        (if ev_val off < stackAccessed es - stackStart es then Some CS_DEAD
         else do {
           c_assert (unat (ev_val off) < stackSize es);
           Some (cState (stackState es ! unat (ev_val off))) })
      else Some CS_DYNAMIC)"

definition getStackValue :: "emustate \<Rightarrow> valtype \<Rightarrow> emuvalue \<Rightarrow> emuvalue option" where
  "getStackValue es t off = do {
     let k = unat (ev_val off);
     c_assert (k < stackSize es);
     c_assert (t \<noteq> VT_8);
     n \<leftarrow> vtSize t;
     c_assert (k + n \<le> stackSize es);
     s \<leftarrow> (if cState (ev_state off) = CS_STATIC then do {
             s \<leftarrow> getStackState es off;
             Some (foldl (\<lambda>s j. combineState s (cState (stackState es ! (k + j))) True) s [1..<n]) }
           else Some CS_DYNAMIC);
     Some \<lparr>ev_val = leVal (take n (drop k (es_stack es))), ev_type = t, ev_state = initMetaState s\<rparr> }"

definition touchStack :: "u64 \<Rightarrow> emustate \<Rightarrow> emustate" where
  "touchStack off es =
     (if stackStart es + off < stackAccessed es then es\<lparr>stackAccessed := stackStart es + off\<rparr> else es)"

definition setStackState :: "emustate \<Rightarrow> emuvalue \<Rightarrow> valtype \<Rightarrow> metastate \<Rightarrow> emustate option" where
  "setStackState es off vt ms = do {
     c_assert (msIsStatic (ev_state off));
     n \<leftarrow> vtSize vt;
     let k = unat (ev_val off);
     c_assert (k + n \<le> stackSize es);
     Some (touchStack (ev_val off) (es\<lparr>stackState := overlay (stackState es) k (replicate n ms)\<rparr>)) }"

definition setStackValue :: "emustate \<Rightarrow> emuvalue \<Rightarrow> emuvalue \<Rightarrow> emustate option" where
  "setStackValue es v off = do {
     c_assert (ev_type v \<noteq> VT_8);
     n \<leftarrow> vtSize (ev_type v);
     let k = unat (ev_val off);
     c_assert (k + n \<le> stackSize es);
     Some (touchStack (ev_val off) (es\<lparr>es_stack := overlay (es_stack es) k (leBytes n (ev_val v))\<rparr>)) }"

section \<open>Registers and memory\<close>

definition getRegValue :: "emustate \<Rightarrow> reg \<Rightarrow> valtype \<Rightarrow> emuvalue option" where
  "getRegValue es r t = do {
     g \<leftarrow> regIsGP r;
     c_assert g;
     c_assert (regValType r = t);
     Some \<lparr>ev_val = es_reg es (ri r), ev_type = t, ev_state = reg_state es (ri r)\<rparr> }"

definition readMem :: "mem \<Rightarrow> valtype \<Rightarrow> u64 \<Rightarrow> u64 option" where
  "readMem m t a = (case t of VT_8 \<Rightarrow> Some (rd8 m a) | VT_16 \<Rightarrow> Some (rd16 m a)
     | VT_32 \<Rightarrow> Some (rd32 m a) | VT_64 \<Rightarrow> Some (rd64 m a) | _ \<Rightarrow> None)"

definition getMemValue ::
  "mem \<Rightarrow> emuvalue \<Rightarrow> emustate \<Rightarrow> valtype \<Rightarrow> bool \<Rightarrow> emuvalue option" where
  "getMemValue m addr es t shouldBeStack =
     (case getStackOffset es addr of
        Some off \<Rightarrow> getStackValue es t off
      | None \<Rightarrow> do {
          c_assert (\<not> shouldBeStack);
          v \<leftarrow> readMem m t (ev_val addr);
          Some \<lparr>ev_val = v, ev_type = t,
            ev_state = initMetaState (if cState (ev_state addr) = CS_STATIC2
                                      then CS_STATIC2 else CS_DYNAMIC)\<rparr> })"

text \<open>Reading behind the segment register \<open>fs\<close>, whose memory is \<open>fs\<close>.\<close>

definition getSegMemValue :: "mem \<Rightarrow> emuvalue \<Rightarrow> valtype \<Rightarrow> opsegoverride \<Rightarrow> emuvalue option" where
  "getSegMemValue fs addr t s = do {
     c_assert (s = OSO_UseFS);
     c_assert (t = VT_8 \<or> t = VT_32 \<or> t = VT_64);
     v \<leftarrow> readMem fs t (ev_val addr);
     Some \<lparr>ev_val = v, ev_type = t, ev_state = initMetaState CS_DYNAMIC\<rparr> }"

definition setMemValue ::
  "mem \<Rightarrow> emuvalue \<Rightarrow> emuvalue \<Rightarrow> emustate \<Rightarrow> valtype \<Rightarrow> bool \<Rightarrow> (mem \<times> emustate) option" where
  "setMemValue m v addr es t shouldBeStack = do {
     c_assert (ev_type v = t);
     (case getStackOffset es addr of
        Some off \<Rightarrow> do { es \<leftarrow> setStackValue es v off; Some (m, es) }
      | None \<Rightarrow> do {
          c_assert (\<not> shouldBeStack);
          bs \<leftarrow> (case t of VT_16 \<Rightarrow> Some (le16 (ev_val v)) | VT_32 \<Rightarrow> Some (le32 (ev_val v))
                 | VT_64 \<Rightarrow> Some (le64 (ev_val v)) | _ \<Rightarrow> None);
          Some (store_bytes m (ev_val addr) bs, es) }) }"

definition setMemState ::
  "emustate \<Rightarrow> emuvalue \<Rightarrow> valtype \<Rightarrow> metastate \<Rightarrow> bool \<Rightarrow> emustate option" where
  "setMemState es addr t ms shouldBeStack =
     (case getStackOffset es addr of
        Some off \<Rightarrow> setStackState es off t ms
      | None \<Rightarrow> do { c_assert (\<not> shouldBeStack); Some es })"

section \<open>Operands\<close>

definition addRegToValue :: "emuvalue \<Rightarrow> emustate \<Rightarrow> reg \<Rightarrow> nat \<Rightarrow> emuvalue option" where
  "addRegToValue v es r scale =
     (if rt r = RT_GP64 then
        Some (v\<lparr>ev_state := (ev_state v)\<lparr>cState :=
                  combineState (cState (ev_state v)) (cState (reg_state es (ri r))) False\<rparr>,
                ev_val := ev_val v + of_nat scale * es_reg es (ri r)\<rparr>)
      else if rt r = RT_IP then do {
        c_assert (scale = 1);
        Some (v\<lparr>ev_val := ev_val v + regIP es\<rparr>) }
      else None)"

definition getOpAddr :: "emustate \<Rightarrow> operand \<Rightarrow> emuvalue option" where
  "getOpAddr es p = do {
     c_assert (opIsInd p);
     c_assert (oseg p = OSO_None);
     let v = \<lparr>ev_val = oval p, ev_type = VT_64, ev_state = initMetaState CS_STATIC\<rparr>;
     v \<leftarrow> (if rt (oreg p) \<noteq> RT_None then addRegToValue v es (oreg p) 1 else Some v);
     (if oscale p > 0 then addRegToValue v es (oireg p) (oscale p) else Some v) }"

definition getRegOpValue :: "emustate \<Rightarrow> operand \<Rightarrow> valtype \<Rightarrow> (u64 \<Rightarrow> u64) \<Rightarrow> emuvalue option" where
  "getRegOpValue es p t tr = do {
     c_assert (regValType (oreg p) = t);
     Some \<lparr>ev_val = tr (es_reg es (ri (oreg p))), ev_type = t, ev_state = reg_state es (ri (oreg p))\<rparr> }"

text \<open>\<open>m\<close> and \<open>fs\<close> are the memory of the process.\<close>

definition getOpValue :: "mem \<Rightarrow> mem \<Rightarrow> emustate \<Rightarrow> operand \<Rightarrow> emuvalue option" where
  "getOpValue m fs es p =
     (case otype p of
        OT_Imm8 \<Rightarrow> Some (staticEmuValue (oval p) VT_8)
      | OT_Imm16 \<Rightarrow> Some (staticEmuValue (oval p) VT_16)
      | OT_Imm32 \<Rightarrow> Some (staticEmuValue (oval p) VT_32)
      | OT_Imm64 \<Rightarrow> Some (staticEmuValue (oval p) VT_64)
      | OT_Reg8 \<Rightarrow> getRegOpValue es p VT_8 trunc8
      | OT_Reg16 \<Rightarrow> getRegOpValue es p VT_16 trunc16
      | OT_Reg32 \<Rightarrow> getRegOpValue es p VT_32 trunc32
      | OT_Reg64 \<Rightarrow> getRegOpValue es p VT_64 (\<lambda>v. v)
      | _ \<Rightarrow>
          if otype p \<in> {OT_Ind8, OT_Ind32, OT_Ind64} then do {
            t \<leftarrow> opValType p;
            (if oseg p \<noteq> OSO_None then do {
               q \<leftarrow> copyOperand op0 p;
               addr \<leftarrow> getOpAddr es (q\<lparr>oseg := OSO_None\<rparr>);
               getSegMemValue fs addr t (oseg p) }
             else do {
               addr \<leftarrow> getOpAddr es p;
               getMemValue m addr es t False }) }
          else None)"

definition setOpState :: "metastate \<Rightarrow> emustate \<Rightarrow> operand \<Rightarrow> emustate option" where
  "setOpState ms es p =
     (if otype p \<in> {OT_Reg8, OT_Reg16, OT_Reg32, OT_Reg64} then
        Some (es\<lparr>reg_state := (reg_state es)(ri (oreg p) := ms)\<rparr>)
      else if otype p \<in> {OT_Ind32, OT_Ind64} then do {
        addr \<leftarrow> getOpAddr es p;
        t \<leftarrow> opValType p;
        setMemState es addr t ms False }
      else None)"

definition setRegOpValue :: "emuvalue \<Rightarrow> emustate \<Rightarrow> operand \<Rightarrow> valtype \<Rightarrow> (u64 \<Rightarrow> u64) \<Rightarrow> emustate option" where
  "setRegOpValue v es p t tr = do {
     c_assert (regValType (oreg p) = t);
     Some (es\<lparr>es_reg := (es_reg es)(ri (oreg p) := tr (ev_val v))\<rparr>) }"

definition setOpValue :: "emuvalue \<Rightarrow> mem \<Rightarrow> emustate \<Rightarrow> operand \<Rightarrow> (mem \<times> emustate) option" where
  "setOpValue v m es p = do {
     t \<leftarrow> opValType p;
     c_assert (ev_type v = t);
     (case otype p of
        OT_Reg8 \<Rightarrow> do { es \<leftarrow> setRegOpValue v es p VT_8 trunc8; Some (m, es) }
      | OT_Reg16 \<Rightarrow> do { es \<leftarrow> setRegOpValue v es p VT_16 trunc16; Some (m, es) }
      | OT_Reg32 \<Rightarrow> do { es \<leftarrow> setRegOpValue v es p VT_32 trunc32; Some (m, es) }
      | OT_Reg64 \<Rightarrow> do { es \<leftarrow> setRegOpValue v es p VT_64 (\<lambda>v. v); Some (m, es) }
      | _ \<Rightarrow>
          if otype p \<in> {OT_Ind32, OT_Ind64} then do {
            addr \<leftarrow> getOpAddr es p;
            setMemValue m v addr es t False }
          else None) }"

definition opStateIsTracked :: "emustate \<Rightarrow> operand \<Rightarrow> bool option" where
  "opStateIsTracked es p = do {
     c_assert (\<not> opIsImm p);
     g \<leftarrow> opIsGPReg p;
     (if g then Some True
      else do {
        addr \<leftarrow> getOpAddr es p;
        (case getStackOffset es addr of
           None \<Rightarrow> Some False
         | Some off \<Rightarrow> Some (msIsStatic (ev_state off))) }) }"

text \<open>Known registers of a memory operand go into its displacement.\<close>

definition applyStaticToInd :: "operand \<Rightarrow> emustate \<Rightarrow> operand option" where
  "applyStaticToInd p es =
     (if \<not> opIsInd p then Some p
      else do {
        let p = (if rt (oreg p) = RT_GP64 \<and> msIsStatic (reg_state es (ri (oreg p)))
                 then p\<lparr>oval := oval p + es_reg es (ri (oreg p)), oreg := (oreg p)\<lparr>rt := RT_None\<rparr>\<rparr>
                 else p);
        let p = (if rt (oreg p) = RT_IP \<and> msIsStatic (regIP_state es)
                 then p\<lparr>oval := oval p + regIP es, oreg := (oreg p)\<lparr>rt := RT_None\<rparr>\<rparr>
                 else p);
        (if oscale p > 0 then do {
           c_assert (rt (oireg p) = RT_GP64);
           Some (if msIsStatic (reg_state es (ri (oireg p)))
                 then p\<lparr>oval := oval p + of_nat (oscale p) * es_reg es (ri (oireg p)), oscale := 0\<rparr>
                 else p) }
         else Some p) })"

lemmas [emu_defs] = vtSize_def getRegOpValue_def setRegOpValue_def readMem_def

end
