(* ===== verification/Printer.thy ===== *)
theory Printer
  imports Common
begin

text \<open>
  Texts for registers, addresses, operands and instructions (\<open>src/printer.c\<close>). The code
  builds them in static buffers of fixed size; here they are strings of any length. A function
  configuration only serves to find the labelled memory ranges of its capture configuration,
  so these are passed instead: \<open>None\<close> stands for a null \<open>FunctionConfig\<close>.
\<close>

section \<open>Registers\<close>

text \<open>The names by index; \<open>regNameI\<close> fails for an index without name.\<close>

definition regNames :: "regtype \<Rightarrow> string list" where
  "regNames t = (case t of
       RT_GP8 \<Rightarrow> [''al'', ''cl'', ''dl'', ''bl'', ''spl'', ''bpl'', ''sil'', ''dil'', ''r8b'',
         ''r9b'', ''r10b'', ''r11b'', ''r12b'', ''r13b'', ''r14b'', ''r15b'']
     | RT_GP8Leg \<Rightarrow> [''al'', ''cl'', ''dl'', ''bl'', ''ah'', ''ch'', ''dh'', ''bh'', ''r8b'', ''r9b'',
         ''r10b'', ''r11b'', ''r12b'', ''r13b'', ''r14b'', ''r15b'']
     | RT_GP16 \<Rightarrow> [''ax'', ''cx'', ''dx'', ''bx'', ''sp'', ''bp'', ''si'', ''di'', ''r8w'', ''r9w'',
         ''r10w'', ''r11w'', ''r12w'', ''r13w'', ''r14w'', ''r15w'']
     | RT_GP32 \<Rightarrow> [''eax'', ''ecx'', ''edx'', ''ebx'', ''esp'', ''ebp'', ''esi'', ''edi'', ''r8d'',
         ''r9d'', ''r10d'', ''r11d'', ''r12d'', ''r13d'', ''r14d'', ''r15d'']
     | RT_GP64 \<Rightarrow> [''rax'', ''rcx'', ''rdx'', ''rbx'', ''rsp'', ''rbp'', ''rsi'', ''rdi'', ''r8'',
         ''r9'', ''r10'', ''r11'', ''r12'', ''r13'', ''r14'', ''r15'']
     | RT_MMX \<Rightarrow> [''mm0'', ''mm1'', ''mm2'', ''mm3'', ''mm4'', ''mm5'', ''mm6'', ''mm7'']
     | RT_XMM \<Rightarrow> [''xmm0'', ''xmm1'', ''xmm2'', ''xmm3'', ''xmm4'', ''xmm5'', ''xmm6'', ''xmm7'',
         ''xmm8'', ''xmm9'', ''xmm10'', ''xmm11'', ''xmm12'', ''xmm13'', ''xmm14'',
         ''xmm15'']
     | RT_YMM \<Rightarrow> [''ymm0'', ''ymm1'', ''ymm2'', ''ymm3'', ''ymm4'', ''ymm5'', ''ymm6'', ''ymm7'',
         ''ymm8'', ''ymm9'', ''ymm10'', ''ymm11'', ''ymm12'', ''ymm13'', ''ymm14'',
         ''ymm15'']
     | RT_ZMM \<Rightarrow> [''zmm0'', ''zmm1'', ''zmm2'', ''zmm3'', ''zmm4'', ''zmm5'', ''zmm6'', ''zmm7'',
         ''zmm8'', ''zmm9'', ''zmm10'', ''zmm11'', ''zmm12'', ''zmm13'', ''zmm14'',
         ''zmm15'', ''zmm16'', ''zmm17'', ''zmm18'', ''zmm19'', ''zmm20'', ''zmm21'',
         ''zmm22'', ''zmm23'', ''zmm24'', ''zmm25'', ''zmm26'', ''zmm27'', ''zmm28'',
         ''zmm29'', ''zmm30'', ''zmm31'']
     | _ \<Rightarrow> [])"

definition regNameI :: "regtype \<Rightarrow> regindex \<Rightarrow> string option" where
  "regNameI t i =
     (if t = RT_IP then Some ''rip''
      else do { c_assert (i < length (regNames t)); Some (regNames t ! i) })"

definition regName :: "reg \<Rightarrow> string option" where
  "regName r = regNameI (rt r) (ri r)"

section \<open>Addresses and operands\<close>

text \<open>A label for an address, from the first range that has a name and holds the address.\<close>

primrec rangeLabel :: "u64 \<Rightarrow> memrangeconfig list \<Rightarrow> string option" where
  "rangeLabel a [] = None"
| "rangeLabel a (m # ms) =
     (case mr_name m of
        None \<Rightarrow> rangeLabel a ms
      | Some n \<Rightarrow>
          if a = mr_start m then Some n
          else if mr_start m < a \<and> a < mr_start m + of_int (mr_size m)
          then Some (n @ ''+'' @ int_digits (sint (a - mr_start m)))
          else rangeLabel a ms)"

definition prettyAddress :: "u64 \<Rightarrow> memrangeconfig list option \<Rightarrow> string" where
  "prettyAddress a rs =
     (case Option.bind rs (rangeLabel a) of Some s \<Rightarrow> s | None \<Rightarrow> ''0x'' @ hex64 a)"

text \<open>Immediates: the value is extended to the width of the instruction.\<close>

definition imm8Text :: "valtype \<Rightarrow> u64 \<Rightarrow> u64 option" where
  "imm8Text t v = do {
     c_assert (v < 2 ^ 8);
     (if t = VT_None \<or> t = VT_8 then Some v
      else if t = VT_16 \<or> t = VT_32 then Some (if v > 0x7F then v + 0xFFFFFF00 else v)
      else if t = VT_64 then Some (if v > 0x7F then v + 0xFFFFFFFFFFFFFF00 else v)
      else None) }"

definition imm16Text :: "valtype \<Rightarrow> u64 \<Rightarrow> u64 option" where
  "imm16Text t v = do {
     c_assert (v < 2 ^ 16);
     (if t = VT_32 then Some (if v > 0x7FFF then v + 0xFFFF0000 else v)
      else if t = VT_64 then Some (if v > 0x7FFF then v + 0xFFFFFFFFFFFF0000 else v)
      else if t = VT_16 \<or> t = VT_None then Some v
      else None) }"

definition imm32Text :: "valtype \<Rightarrow> u64 \<Rightarrow> u64 option" where
  "imm32Text t v = do {
     c_assert (v < 2 ^ 32);
     (if t = VT_None \<or> t = VT_32 then Some v
      else if t = VT_64 then Some (if v > 0x7FFFFFFF then v + 0xFFFFFFFF00000000 else v)
      else None) }"

definition indText :: "operand \<Rightarrow> instr \<Rightarrow> memrangeconfig list option \<Rightarrow> string option" where
  "indText p i rs = do {
     let seg = (case oseg p of OSO_None \<Rightarrow> [] | OSO_UseFS \<Rightarrow> ''%fs:'' | OSO_UseGS \<Rightarrow> ''%gs:'');
     let v = (if oscale p = 0 \<and> rt (oreg p) = RT_IP then oval p + iaddr i + of_nat (ilen i)
              else oval p);
     let disp = (if v = 0 then []
                 else if bit v 63 then ''-0x'' @ hex64 (NOT v + 1)
                 else prettyAddress v rs);
     let pre = seg @ disp;
     (if oscale p = 0 \<or> rt (oireg p) = RT_None then
        (if rt (oreg p) \<noteq> RT_None then do {
           r \<leftarrow> regName (oreg p);
           Some (pre @ ''(%'' @ r @ '')'') }
         else Some (if pre = [] then ''0x0'' else pre))
      else do {
        x \<leftarrow> regName (oireg p);
        (if rt (oreg p) = RT_None
         then Some (pre @ ''(,%'' @ x @ '','' @ nat_digits (oscale p) @ '')'')
         else do {
           r \<leftarrow> regName (oreg p);
           Some (pre @ ''(%'' @ r @ '',%'' @ x @ '','' @ nat_digits (oscale p) @ '')'') }) }) }"

definition op2string :: "operand \<Rightarrow> instr \<Rightarrow> memrangeconfig list option \<Rightarrow> string option" where
  "op2string p i rs =
     (case otype p of
        OT_Imm8 \<Rightarrow> do { v \<leftarrow> imm8Text (ivtype i) (oval p); Some (''$0x'' @ hex64 v) }
      | OT_Imm16 \<Rightarrow> do { v \<leftarrow> imm16Text (ivtype i) (oval p); Some (''$0x'' @ hex64 v) }
      | OT_Imm32 \<Rightarrow> do { v \<leftarrow> imm32Text (ivtype i) (oval p); Some (''$'' @ prettyAddress v rs) }
      | OT_Imm64 \<Rightarrow> Some (''$'' @ prettyAddress (oval p) rs)
      | OT_None \<Rightarrow> None
      | OT_MAX \<Rightarrow> None
      | _ \<Rightarrow>
          if opIsInd p \<or> otype p = OT_Ind512 then indText p i rs
          else do { r \<leftarrow> regName (oreg p); Some (CHR ''%'' # r) })"

section \<open>Instructions\<close>

text \<open>Names and operand counts.\<close>

definition jccName :: "cond \<Rightarrow> string \<times> nat" where
  "jccName k = (case k of
         CC_O \<Rightarrow> (''jo'', 1) | CC_NO \<Rightarrow> (''jno'', 1) | CC_C \<Rightarrow> (''jb'', 1) | CC_NC \<Rightarrow> (''jae'', 1)
       | CC_Z \<Rightarrow> (''je'', 1) | CC_NZ \<Rightarrow> (''jne'', 1) | CC_BE \<Rightarrow> (''jbe'', 1) | CC_A \<Rightarrow> (''ja'', 1)
       | CC_S \<Rightarrow> (''js'', 1) | CC_NS \<Rightarrow> (''jns'', 1) | CC_P \<Rightarrow> (''jp'', 1) | CC_NP \<Rightarrow> (''jnp'', 1)
       | CC_L \<Rightarrow> (''jl'', 1) | CC_GE \<Rightarrow> (''jge'', 1) | CC_LE \<Rightarrow> (''jle'', 1) | CC_G \<Rightarrow> (''jg'', 1))"

definition cmovName :: "cond \<Rightarrow> string \<times> nat" where
  "cmovName k = (case k of
         CC_O \<Rightarrow> (''cmovo'', 2) | CC_NO \<Rightarrow> (''cmovno'', 2) | CC_C \<Rightarrow> (''cmovc'', 2)
       | CC_NC \<Rightarrow> (''cmovnc'', 2) | CC_Z \<Rightarrow> (''cmovz'', 2) | CC_NZ \<Rightarrow> (''cmovnz'', 2)
       | CC_BE \<Rightarrow> (''cmovbe'', 2) | CC_A \<Rightarrow> (''cmova'', 2) | CC_S \<Rightarrow> (''cmovs'', 2)
       | CC_NS \<Rightarrow> (''cmovns'', 2) | CC_P \<Rightarrow> (''cmovp'', 2) | CC_NP \<Rightarrow> (''cmovnp'', 2)
       | CC_L \<Rightarrow> (''cmovl'', 2) | CC_GE \<Rightarrow> (''cmovge'', 2) | CC_LE \<Rightarrow> (''cmovle'', 2)
       | CC_G \<Rightarrow> (''cmovg'', 2))"

definition setccName :: "cond \<Rightarrow> string \<times> nat" where
  "setccName k = (case k of
         CC_O \<Rightarrow> (''seto'', 1) | CC_NO \<Rightarrow> (''setno'', 1) | CC_C \<Rightarrow> (''setb'', 1)
       | CC_NC \<Rightarrow> (''setae'', 1) | CC_Z \<Rightarrow> (''sete'', 1) | CC_NZ \<Rightarrow> (''setne'', 1)
       | CC_BE \<Rightarrow> (''setbe'', 1) | CC_A \<Rightarrow> (''seta'', 1) | CC_S \<Rightarrow> (''sets'', 1)
       | CC_NS \<Rightarrow> (''setns'', 1) | CC_P \<Rightarrow> (''setp'', 1) | CC_NP \<Rightarrow> (''setnp'', 1)
       | CC_L \<Rightarrow> (''setl'', 1) | CC_GE \<Rightarrow> (''setge'', 1) | CC_LE \<Rightarrow> (''setle'', 1)
       | CC_G \<Rightarrow> (''setg'', 1))"

definition ssemovName :: "ssemov \<Rightarrow> string \<times> nat" where
  "ssemovName k = (case k of
         S_PXOR \<Rightarrow> (''pxor'', 2) | S_PADDQ \<Rightarrow> (''paddq'', 2) | S_MOVSS \<Rightarrow> (''movss'', 2)
       | S_MOVSD \<Rightarrow> (''movsd'', 2) | S_MOVUPS \<Rightarrow> (''movups'', 2) | S_MOVUPD \<Rightarrow> (''movupd'', 2)
       | S_MOVAPS \<Rightarrow> (''movaps'', 2) | S_MOVAPD \<Rightarrow> (''movapd'', 2) | S_MOVDQU \<Rightarrow> (''movdqu'', 2)
       | S_MOVDQA \<Rightarrow> (''movdqa'', 2) | S_MOVLPD \<Rightarrow> (''movlpd'', 2) | S_MOVLPS \<Rightarrow> (''movlps'', 2)
       | S_MOVHPD \<Rightarrow> (''movhpd'', 2) | S_MOVHPS \<Rightarrow> (''movhps'', 2) | S_PCMPEQB \<Rightarrow> (''pcmpeqb'', 2)
       | S_PCMPEQW \<Rightarrow> (''pcmpeqw'', 2) | S_PCMPEQD \<Rightarrow> (''pcmpeqd'', 2)
       | S_PMINUB \<Rightarrow> (''pminub'', 2) | S_PMOVMSKB \<Rightarrow> (''pmovmskb'', 2)
       | S_UNPCKLPD \<Rightarrow> (''unpcklpd'', 2) | S_UNPCKLPS \<Rightarrow> (''unpcklps'', 2)
       | S_UNPCKHPD \<Rightarrow> (''unpckhpd'', 2) | S_UNPCKHPS \<Rightarrow> (''unpckhps'', 2))"

definition ssefpName :: "ssefp \<Rightarrow> string \<times> nat" where
  "ssefpName k = (case k of
         F_ADDSS \<Rightarrow> (''addss'', 2) | F_ADDSD \<Rightarrow> (''addsd'', 2) | F_ADDPS \<Rightarrow> (''addps'', 2)
       | F_ADDPD \<Rightarrow> (''addpd'', 2) | F_ADDSUBPS \<Rightarrow> (''addsubps'', 2)
       | F_ADDSUBPD \<Rightarrow> (''addsubpd'', 2) | F_SUBSS \<Rightarrow> (''subss'', 2) | F_SUBSD \<Rightarrow> (''subsd'', 2)
       | F_SUBPS \<Rightarrow> (''subps'', 2) | F_SUBPD \<Rightarrow> (''subpd'', 2) | F_HADDPS \<Rightarrow> (''haddps'', 2)
       | F_HADDPD \<Rightarrow> (''haddpd'', 2) | F_HSUBPS \<Rightarrow> (''hsubps'', 2) | F_HSUBPD \<Rightarrow> (''hsubpd'', 2)
       | F_MULSS \<Rightarrow> (''mulss'', 2) | F_MULSD \<Rightarrow> (''mulsd'', 2) | F_MULPS \<Rightarrow> (''mulps'', 2)
       | F_MULPD \<Rightarrow> (''mulpd'', 2) | F_DIVSS \<Rightarrow> (''divss'', 2) | F_DIVSD \<Rightarrow> (''divsd'', 2)
       | F_DIVPD \<Rightarrow> (''divpd'', 2) | F_DIVPS \<Rightarrow> (''divps'', 2) | F_MAXSS \<Rightarrow> (''maxss'', 2)
       | F_MAXSD \<Rightarrow> (''maxsd'', 2) | F_MAXPD \<Rightarrow> (''maxpd'', 2) | F_MAXPS \<Rightarrow> (''maxps'', 2)
       | F_MINSS \<Rightarrow> (''minss'', 2) | F_MINSD \<Rightarrow> (''minsd'', 2) | F_MINPD \<Rightarrow> (''minpd'', 2)
       | F_MINPS \<Rightarrow> (''minps'', 2) | F_SQRTSS \<Rightarrow> (''sqrtss'', 2) | F_SQRTSD \<Rightarrow> (''sqrtsd'', 2)
       | F_SQRTPD \<Rightarrow> (''sqrtpd'', 2) | F_SQRTPS \<Rightarrow> (''sqrtps'', 2) | F_RCPSS \<Rightarrow> (''rcpss'', 2)
       | F_RCPPS \<Rightarrow> (''rcpps'', 2) | F_RSQRTSS \<Rightarrow> (''rsqrtss'', 2) | F_RSQRTPS \<Rightarrow> (''rsqrtps'', 2)
       | F_XORPS \<Rightarrow> (''xorps'', 2) | F_XORPD \<Rightarrow> (''xorpd'', 2) | F_ORPS \<Rightarrow> (''orps'', 2)
       | F_ORPD \<Rightarrow> (''orpd'', 2) | F_ANDPS \<Rightarrow> (''andps'', 2) | F_ANDPD \<Rightarrow> (''andpd'', 2)
       | F_ANDNPS \<Rightarrow> (''andnps'', 2) | F_ANDNPD \<Rightarrow> (''andnpd'', 2) | F_COMISS \<Rightarrow> (''comiss'', 2)
       | F_COMISD \<Rightarrow> (''comisd'', 2) | F_UCOMISS \<Rightarrow> (''ucomiss'', 2)
       | F_UCOMISD \<Rightarrow> (''ucomisd'', 2))"

definition avxName :: "avxop \<Rightarrow> string \<times> nat" where
  "avxName k = (case k of
         A_VMOVSS \<Rightarrow> (''vmovss'', 2) | A_VMOVSD \<Rightarrow> (''vmovsd'', 2) | A_VMOVUPS \<Rightarrow> (''vmovups'', 2)
       | A_VMOVUPD \<Rightarrow> (''vmovupd'', 2) | A_VMOVAPS \<Rightarrow> (''vmovaps'', 2)
       | A_VMOVAPD \<Rightarrow> (''vmovapd'', 2) | A_VMOVDQU \<Rightarrow> (''vmovdqu'', 2)
       | A_VMOVDQA \<Rightarrow> (''vmovdqa'', 2) | A_VMOVNTDQ \<Rightarrow> (''vmovntdq'', 2)
       | A_VADDSS \<Rightarrow> (''vaddss'', 3) | A_VADDSD \<Rightarrow> (''vaddsd'', 3) | A_VADDPS \<Rightarrow> (''vaddps'', 3)
       | A_VADDPD \<Rightarrow> (''vaddpd'', 3) | A_VMULSS \<Rightarrow> (''vmulss'', 3) | A_VMULSD \<Rightarrow> (''vmulsd'', 3)
       | A_VMULPS \<Rightarrow> (''vmulps'', 3) | A_VMULPD \<Rightarrow> (''vmulpd'', 3) | A_VXORPS \<Rightarrow> (''vxorps'', 3)
       | A_VXORPD \<Rightarrow> (''vxorpd'', 3) | A_VZEROALL \<Rightarrow> (''vzeroall'', 0)
       | A_VZEROUPPER \<Rightarrow> (''vzeroupper'', 0))"

definition instrName :: "instrtype \<Rightarrow> string \<times> nat" where
  "instrName it = (case it of
         IT_HINT_CALL \<Rightarrow> (''H-call'', 0) | IT_HINT_RET \<Rightarrow> (''H-ret'', 0) | IT_NOP \<Rightarrow> (''nop'', 0)
       | IT_RET \<Rightarrow> (''ret'', 0) | IT_LEAVE \<Rightarrow> (''leave'', 0) | IT_CLTQ \<Rightarrow> (''cltq'', 0)
       | IT_CWTL \<Rightarrow> (''cwtl'', 0) | IT_CQTO \<Rightarrow> (''cqto'', 0) | IT_PUSH \<Rightarrow> (''push'', 1)
       | IT_PUSHF \<Rightarrow> (''pushf'', 1) | IT_PUSHFQ \<Rightarrow> (''pushfq'', 1) | IT_POP \<Rightarrow> (''pop'', 1)
       | IT_POPF \<Rightarrow> (''popf'', 1) | IT_POPFQ \<Rightarrow> (''popfq'', 1) | IT_CALL \<Rightarrow> (''call'', 1)
       | IT_JMP \<Rightarrow> (''jmp'', 1) | IT_JMPI \<Rightarrow> (''jmp*'', 1) | IT_MOV \<Rightarrow> (''mov'', 2)
       | IT_MOVSX \<Rightarrow> (''movsx'', 2) | IT_MOVD \<Rightarrow> (''movd'', 2) | IT_MOVQ \<Rightarrow> (''movq'', 2)
       | IT_MOVZX \<Rightarrow> (''movzx'', 2) | IT_NEG \<Rightarrow> (''neg'', 1) | IT_NOT \<Rightarrow> (''not'', 1)
       | IT_INC \<Rightarrow> (''inc'', 1) | IT_DEC \<Rightarrow> (''dec'', 1) | IT_ADD \<Rightarrow> (''add'', 2)
       | IT_ADC \<Rightarrow> (''adc'', 2) | IT_SUB \<Rightarrow> (''sub'', 2) | IT_SBB \<Rightarrow> (''sbb'', 2)
       | IT_IMUL \<Rightarrow> (''imul'', 2) | IT_IDIV1 \<Rightarrow> (''idiv'', 1) | IT_MUL \<Rightarrow> (''mul'', 1)
       | IT_DIV \<Rightarrow> (''div'', 1) | IT_AND \<Rightarrow> (''and'', 2) | IT_OR \<Rightarrow> (''or'', 2)
       | IT_XOR \<Rightarrow> (''xor'', 2) | IT_SHL \<Rightarrow> (''shl'', 2) | IT_SHR \<Rightarrow> (''shr'', 2)
       | IT_SAR \<Rightarrow> (''sar'', 2) | IT_LEA \<Rightarrow> (''lea'', 2) | IT_CMP \<Rightarrow> (''cmp'', 2)
       | IT_TEST \<Rightarrow> (''test'', 2) | IT_BSF \<Rightarrow> (''bsf'', 2)
     | IT_J k \<Rightarrow> jccName k | IT_CMOV k \<Rightarrow> cmovName k | IT_SET k \<Rightarrow> setccName k
     | IT_SSEMOV k \<Rightarrow> ssemovName k | IT_SSEFP k \<Rightarrow> ssefpName k | IT_AVX k \<Rightarrow> avxName k
     | _ \<Rightarrow> (''<Invalid>'', 0))"

definition opTypeVisible :: "operand \<Rightarrow> bool" where
  "opTypeVisible p \<longleftrightarrow> otype p \<in> {OT_Reg8, OT_Reg16, OT_Reg32, OT_Reg64, OT_Reg128, OT_Reg256}"

text \<open>The value type that the name is to show, or \<open>VT_None\<close>.\<close>

definition shownType :: "instr \<Rightarrow> valtype option" where
  "shownType i = do {
     let conv = (iform i = OF_2 \<and> (itype i = IT_MOVSX \<or> itype i = IT_MOVZX)
                 \<and> \<not> opTypeVisible (isrc i));
     let visible =
       (iform i = OF_1 \<and> opTypeVisible (idst i))
       \<or> (iform i = OF_2 \<and> \<not> conv \<and> (opTypeVisible (idst i) \<or> opTypeVisible (isrc i)))
       \<or> (iform i = OF_3 \<and> (opTypeVisible (idst i) \<or> opTypeVisible (isrc i) \<or> opTypeVisible (isrc2 i)))
       \<or> ivtype i = VT_Implicit;
     vt \<leftarrow> (if conv then opValType (isrc i) else Some (ivtype i));
     vt \<leftarrow> (if vt = VT_None \<and> iform i \<in> {OF_1, OF_2, OF_3} then opValType (idst i) else Some vt);
     Some (if visible then VT_None else vt) }"

definition typeSuffix :: "valtype \<Rightarrow> char option option" where
  "typeSuffix vt = (case vt of VT_None \<Rightarrow> Some None | VT_8 \<Rightarrow> Some (Some (CHR ''b''))
     | VT_16 \<Rightarrow> Some (Some (CHR ''w'')) | VT_32 \<Rightarrow> Some (Some (CHR ''l''))
     | VT_64 \<Rightarrow> Some (Some (CHR ''q'')) | VT_Implicit \<Rightarrow> Some None | _ \<Rightarrow> None)"

definition padRight :: "nat \<Rightarrow> string \<Rightarrow> string" where
  "padRight n s = s @ replicate (n - length s) (CHR '' '')"

definition padLeft :: "nat \<Rightarrow> string \<Rightarrow> string" where
  "padLeft n s = replicate (n - length s) (CHR '' '') @ s"

definition instr2string :: "instr \<Rightarrow> bool \<Rightarrow> memrangeconfig list option \<Rightarrow> string option" where
  "instr2string i align rs = do {
     let n = fst (instrName (itype i));
     let text = (if align then padRight 7 n else n);
     vt \<leftarrow> shownType i;
     suffix \<leftarrow> typeSuffix vt;
     let text = (case suffix of None \<Rightarrow> text
       | Some ch \<Rightarrow> if length n < length text then text[length n := ch] else text @ [ch]);
     (case iform i of
        OF_0 \<Rightarrow> do {
          c_assert (otype (idst i) = OT_None \<and> otype (isrc i) = OT_None \<and> otype (isrc2 i) = OT_None);
          Some text }
      | OF_1 \<Rightarrow> do {
          c_assert (otype (idst i) \<noteq> OT_None \<and> otype (isrc i) = OT_None \<and> otype (isrc2 i) = OT_None);
          d \<leftarrow> op2string (idst i) i rs;
          Some (text @ '' '' @ d) }
      | OF_2 \<Rightarrow> do {
          c_assert (otype (idst i) \<noteq> OT_None \<and> otype (isrc i) \<noteq> OT_None \<and> otype (isrc2 i) = OT_None);
          s \<leftarrow> op2string (isrc i) i rs;
          d \<leftarrow> op2string (idst i) i rs;
          Some (text @ '' '' @ s @ '','' @ d) }
      | OF_3 \<Rightarrow> do {
          c_assert (otype (idst i) \<noteq> OT_None \<and> otype (isrc i) \<noteq> OT_None \<and> otype (isrc2 i) \<noteq> OT_None);
          s2 \<leftarrow> op2string (isrc2 i) i rs;
          s \<leftarrow> op2string (isrc i) i rs;
          d \<leftarrow> op2string (idst i) i rs;
          Some (text @ '' '' @ s2 @ '','' @ s @ '','' @ d) }
      | _ \<Rightarrow> None) }"

section \<open>Listings\<close>

definition bytes2string :: "mem \<Rightarrow> instr \<Rightarrow> nat \<Rightarrow> nat \<Rightarrow> string" where
  "bytes2string m i start count =
     (let n = min count (ilen i - start) in
      concat (map (\<lambda>j. CHR '' '' # hex2 (uint (m (iaddr i + of_nat (start + j))))) [0..<n])
      @ replicate (3 * (count - n)) (CHR '' ''))"

abbreviation "NL \<equiv> [char_of (10 :: nat)]"

text \<open>The lines for an instruction: 7 bytes in the first, the others behind it.\<close>

definition decodedLine :: "mem \<Rightarrow> bool \<Rightarrow> memrangeconfig list option \<Rightarrow> instr \<Rightarrow> string option" where
  "decodedLine m printBytes rs i = do {
     t \<leftarrow> instr2string i True rs;
     let more = (\<lambda>k. if printBytes \<and> ilen i > k
       then ''  '' @ padLeft 18 (prettyAddress (iaddr i + of_nat k) rs) @ '': '' @ bytes2string m i k 7 @ NL
       else []);
     Some (''  '' @ padLeft 18 (prettyAddress (iaddr i) rs) @ '': ''
       @ (if printBytes then bytes2string m i 0 7 @ '' '' else []) @ '' '' @ t @ NL
       @ more 7 @ more 14) }"

primrec decodedLines :: "mem \<Rightarrow> bool \<Rightarrow> memrangeconfig list option \<Rightarrow> instr list \<Rightarrow> string option" where
  "decodedLines m pb rs [] = Some []"
| "decodedLines m pb rs (i # is) = do {
     t \<leftarrow> decodedLine m pb rs i;
     ts \<leftarrow> decodedLines m pb rs is;
     Some (t @ ts) }"

text \<open>The ranges that the function configuration of a block leads to.\<close>

definition dbbRanges :: "rewriter \<Rightarrow> dbb \<Rightarrow> memrangeconfig list option" where
  "dbbRanges r b = (if dbb_fc b = None then None else map_option range_configs (r_cc r))"

definition dbrew_print_decoded :: "rewriter \<Rightarrow> dbb \<Rightarrow> bool \<Rightarrow> string option" where
  "dbrew_print_decoded r b pb =
     decodedLines (r_mem r) pb (dbbRanges r b) (take (dbb_count b) (drop (dbb_instr b) (decInstr r)))"

primrec blockLines :: "rewriter \<Rightarrow> bool \<Rightarrow> dbb list \<Rightarrow> string option" where
  "blockLines r pb [] = Some []"
| "blockLines r pb (b # bs) = do {
     t \<leftarrow> dbrew_print_decoded r b pb;
     ts \<leftarrow> blockLines r pb bs;
     Some (''BB '' @ prettyAddress (dbb_addr b) (dbbRanges r b) @ '' (''
       @ nat_digits (dbb_count b) @ '' instructions):'' @ NL @ t @ ts) }"

definition printDecodedBBs :: "rewriter \<Rightarrow> bool \<Rightarrow> string option" where
  "printDecodedBBs r printBytes = blockLines r printBytes (decBB r)"

section \<open>Facts\<close>

lemma distinct_regNames: "distinct (regNames t)"
  by (cases t) (simp_all add: regNames_def)

text \<open>An address without a label shows its digits.\<close>

lemma prettyAddress_plain: "prettyAddress a None = ''0x'' @ hex64 a"
  by (simp add: prettyAddress_def)

end
