(* ===== verification/Capture.thy ===== *)
theory Capture
  imports EmuMem Config Printer
begin

text \<open>
  Capturing instructions (\<open>resetCapturing\<close> to \<open>captureJcc\<close> of \<open>src/emulate.c\<close>): the
  captured basic blocks (CBBs) of the rewriter, keyed by a code address and the ID of a saved
  state, the stack of blocks that wait to be processed, and for each kind of instruction what
  is captured of it, given the capture states of its operands.

  A function that changes \<open>*res\<close> returns it. The local \<open>Instr i\<close> of a capture function starts
  as zeroed instruction. \<open>es\<close> is always the emulator state of the rewriter, \<open>c->r->es\<close>.
\<close>

section \<open>Captured basic blocks\<close>

definition resetCapturing :: "rewriter \<Rightarrow> rewriter option" where
  "resetCapturing r = do {
     c_assert (cap_alloc r);
     Some (r\<lparr>capBB := [], capInstr := [], currentCapBB := None, capStack := [], savedState := []\<rparr>) }"

primrec findCBB :: "u64 \<Rightarrow> int \<Rightarrow> cbb list \<Rightarrow> nat option" where
  "findCBB f k [] = None"
| "findCBB f k (b # bs) =
     (if dec_addr b = f \<and> esID b = k then Some 0 else map_option Suc (findCBB f k bs))"

definition findCaptureBB :: "rewriter \<Rightarrow> u64 \<Rightarrow> int \<Rightarrow> nat option" where
  "findCaptureBB r f k = findCBB f k (capBB r)"

definition newCBB :: "u64 \<Rightarrow> int \<Rightarrow> nat option \<Rightarrow> cbb" where
  "newCBB f k fc = \<lparr>dec_addr = f, esID = k, cbb_fc = fc, cbb_count = 0, cbb_instr = None,
     nextBranch = None, nextFallThrough = None, endType = IT_None, preferBranch = False,
     cbb_size = -1, addr1 = 0, addr2 = 0, genJcc8 = False, genJump = False\<rparr>"

text \<open>\<open>getCaptureBB\<close>: the block for an address and a state, a new one if there is none.\<close>

definition getCaptureBB :: "rctx \<Rightarrow> u64 \<Rightarrow> int \<Rightarrow> (nat option \<times> rctx) option" where
  "getCaptureBB c f k =
     (let r = rc_r c in
      case findCaptureBB r f k of
        Some b \<Rightarrow> Some (Some b, c)
      | None \<Rightarrow>
          if length (capBB r) \<ge> capBBCapacity r
          then Some (None, with_error ET_BufferOverflow EM_Rewriter (Some ''Too many captured blocks'') c)
          else do {
            (fc, r) \<leftarrow> config_find_function r f;
            Some (Some (length (capBB r)), with_r (r\<lparr>capBB := capBB r @ [newCBB f k fc]\<rparr>) c) })"

definition updCBB :: "nat \<Rightarrow> (cbb \<Rightarrow> cbb) \<Rightarrow> rctx \<Rightarrow> rctx" where
  "updCBB b g c = with_r ((rc_r c)\<lparr>capBB := (capBB (rc_r c))[b := g (capBB (rc_r c) ! b)]\<rparr>) c"

definition pushCaptureBB :: "rctx \<Rightarrow> nat \<Rightarrow> rctx" where
  "pushCaptureBB c b =
     (if length (capStack (rc_r c)) \<ge> CAPTURESTACK_LEN
      then with_error ET_BufferOverflow EM_Rewriter (Some ''Too many blocks on capture stack'') c
      else with_r ((rc_r c)\<lparr>capStack := b # capStack (rc_r c)\<rparr>) c)"

definition popCaptureBB :: "rewriter \<Rightarrow> (nat \<times> rewriter) option" where
  "popCaptureBB r = do {
     b \<leftarrow> currentCapBB r;
     c_assert (capStack r \<noteq> [] \<and> hd (capStack r) = b);
     Some (b, r\<lparr>capStack := tl (capStack r), currentCapBB := None\<rparr>) }"

text \<open>\<open>newCapInstr\<close>: the index of a new slot, whose content is not initialised.\<close>

definition newCapInstr :: "rctx \<Rightarrow> nat option \<times> rctx" where
  "newCapInstr c =
     (let r = rc_r c in
      if length (capInstr r) \<ge> capInstrCapacity r
      then (None, with_error ET_BufferOverflow EM_Capture (Some ''Too many captured instructions'') c)
      else (Some (length (capInstr r)), with_r (r\<lparr>capInstr := capInstr r @ [instr0]\<rparr>) c))"

definition putCapInstr :: "nat \<Rightarrow> instr \<Rightarrow> rctx \<Rightarrow> rctx" where
  "putCapInstr k i c = with_r ((rc_r c)\<lparr>capInstr := (capInstr (rc_r c))[k := i]\<rparr>) c"

text \<open>\<open>capture\<close>: append a copy of an instruction to the current block, if there is one.\<close>

definition capture :: "rctx \<Rightarrow> instr \<Rightarrow> rctx option" where
  "capture c i =
     (case currentCapBB (rc_r c) of
        None \<Rightarrow> Some c
      | Some b \<Rightarrow>
          (let (slot, c) = newCapInstr c in
           if rc_e c \<noteq> None then Some c
           else do {
             k \<leftarrow> slot;
             c_assert (cbb_instr (capBB (rc_r c) ! b) = None
                         \<longrightarrow> cbb_count (capBB (rc_r c) ! b) = 0);
             j \<leftarrow> copyInstr (capInstr (rc_r c) ! k) i;
             Some (updCBB b (\<lambda>b. b\<lparr>cbb_instr := (if cbb_instr b = None then Some k else cbb_instr b),
               cbb_count := cbb_count b + 1\<rparr>) (putCapInstr k j c)) }))"

primrec captureAll :: "rctx \<Rightarrow> instr list \<Rightarrow> rctx option" where
  "captureAll c [] = Some c"
| "captureAll c (i # is) = do { c \<leftarrow> capture c i; captureAll c is }"

text \<open>\<open>createCBBfromDBB\<close>: a captured block with the instructions of a decoded one.\<close>

definition createCBBfromDBB :: "rewriter \<Rightarrow> dbb \<Rightarrow> (nat option \<times> rewriter) option" where
  "createCBBfromDBB r src = do {
     let c = \<lparr>rc_r = r, rc_exit = 0, rc_e = None\<rparr>;
     (b, c) \<leftarrow> getCaptureBB c (dbb_addr src) (-1);
     let c = with_r ((rc_r c)\<lparr>currentCapBB := b\<rparr>) c;
     c \<leftarrow> captureAll c (take (dbb_count src) (drop (dbb_instr src) (decInstr r)));
     Some (b, (rc_r c)\<lparr>currentCapBB := None\<rparr>) }"

section \<open>Capturing by kind of instruction\<close>

definition opVal :: "rctx \<Rightarrow> emustate \<Rightarrow> operand \<Rightarrow> emuvalue option" where
  "opVal c es p = getOpValue (r_mem (rc_r c)) (r_fsmem (rc_r c)) es p"

text \<open>Build a binary instruction, put known registers into its memory operands as asked for,
  and capture it.\<close>

definition capBinary ::
  "rctx \<Rightarrow> emustate \<Rightarrow> instrtype \<Rightarrow> valtype \<Rightarrow> operand \<Rightarrow> operand \<Rightarrow> bool \<Rightarrow> bool \<Rightarrow> rctx option" where
  "capBinary c es it vt dst src applyDst applySrc = do {
     i \<leftarrow> initBinaryInstr instr0 it vt dst src;
     d \<leftarrow> (if applyDst then applyStaticToInd (idst i) es else Some (idst i));
     s \<leftarrow> (if applySrc then applyStaticToInd (isrc i) es else Some (isrc i));
     capture c (i\<lparr>idst := d, isrc := s\<rparr>) }"

text \<open>Capture the load of a known value.\<close>

definition capLoad :: "rctx \<Rightarrow> emustate \<Rightarrow> valtype \<Rightarrow> operand \<Rightarrow> u64 \<Rightarrow> bool \<Rightarrow> rctx option" where
  "capLoad c es vt dst v applyDst = do {
     im \<leftarrow> getImmOp vt v;
     capBinary c es IT_MOV vt dst im applyDst False }"

definition captureMov :: "rctx \<Rightarrow> instr \<Rightarrow> emustate \<Rightarrow> emuvalue \<Rightarrow> rctx option" where
  "captureMov c orig es res =
     (if cState (ev_state res) = CS_DEAD then Some c
      else if msIsStatic (ev_state res) then do {
        t \<leftarrow> opStateIsTracked es (idst orig);
        (if t then Some c
         else do {
           im \<leftarrow> getImmOp (ev_type res) (ev_val res);
           capBinary c es (itype orig) (ivtype orig) (idst orig) im True True }) }
      else capBinary c es (itype orig) (ivtype orig) (idst orig) (isrc orig) True True)"

definition captureCMov ::
  "rctx \<Rightarrow> instr \<Rightarrow> emustate \<Rightarrow> emuvalue \<Rightarrow> metastate \<Rightarrow> bool \<Rightarrow> (emuvalue \<times> rctx) option" where
  "captureCMov c orig es res cs cond = do {
     c_assert (opIsReg (idst orig));
     (if msIsStatic cs then
        (if cond then do {
           i \<leftarrow> initBinaryInstr instr0 IT_MOV (ivtype orig) (idst orig) (isrc orig);
           c \<leftarrow> captureMov c i es res;
           Some (res, c) }
         else Some (res, c))
      else if cState (ev_state res) = CS_DEAD then Some (res, c)
      else do {
        (res, c) \<leftarrow>
          (if msIsStatic (ev_state res) then do {
             im \<leftarrow> getImmOp (ev_type res) (ev_val res);
             c \<leftarrow> capBinary c es IT_MOV (ev_type res) (isrc orig) im False True;
             Some (res\<lparr>ev_state := initMetaState CS_DYNAMIC\<rparr>, c) }
           else Some (res, c));
        c \<leftarrow> capBinary c es (itype orig) (ivtype orig) (idst orig) (isrc orig) False True;
        Some (res, c) }) }"

text \<open>Update a register that \<open>idiv\<close> uses implicitly.\<close>

definition loadKnownReg :: "rctx \<Rightarrow> emustate \<Rightarrow> valtype \<Rightarrow> regindex \<Rightarrow> rctx option" where
  "loadKnownReg c es vt k =
     (if msIsStatic (reg_state es k) then do {
        rg \<leftarrow> getReg (getGPRegType vt) k;
        p \<leftarrow> getRegOp rg;
        capLoad c es vt p (es_reg es k) False }
      else Some c)"

definition captureIDiv :: "rctx \<Rightarrow> instr \<Rightarrow> capturestate \<Rightarrow> emustate \<Rightarrow> rctx option" where
  "captureIDiv c orig resCState es =
     (if csIsStatic resCState then Some c
      else do {
        v \<leftarrow> opVal c es (idst orig);
        (if msIsStatic (ev_state v) \<and> ev_val v = 1 then Some c
         else do {
           c \<leftarrow> (if msIsStatic (ev_state v) then capLoad c es (ev_type v) (idst orig) (ev_val v) True
                 else Some c);
           c \<leftarrow> loadKnownReg c es (ev_type v) RI_A;
           c \<leftarrow> loadKnownReg c es (ev_type v) RI_D;
           i \<leftarrow> initUnaryInstr instr0 (itype orig) (idst orig);
           d \<leftarrow> applyStaticToInd (idst i) es;
           capture c (i\<lparr>idst := d\<rparr>) }) })"

text \<open>Is the result of an instruction at this call depth to become unknown? The array has
  \<open>CC_MAXCALLDEPTH\<close> entries; reading behind them is \<open>None\<close>.\<close>

definition forceUnknown :: "rctx \<Rightarrow> emustate \<Rightarrow> bool option" where
  "forceUnknown c es = do {
     cc \<leftarrow> r_cc (rc_r c);
     c_assert (0 \<le> depth es \<and> depth es < int CC_MAXCALLDEPTH);
     Some (force_unknown cc ! nat (depth es)) }"

text \<open>Operations that change nothing with this known source operand.\<close>

definition neutralSrc :: "instrtype \<Rightarrow> u64 \<Rightarrow> bool" where
  "neutralSrc it v \<longleftrightarrow> (it = IT_ADD \<and> v = 0) \<or> (it = IT_SHL \<and> v = 0) \<or> (it = IT_SHR \<and> v = 0)
     \<or> (it = IT_SAR \<and> v = 0) \<or> (it = IT_OR \<and> v = 0) \<or> (it = IT_AND \<and> v = -1)
     \<or> (it = IT_IMUL \<and> v = 1)"

text \<open>The part of \<open>captureBinaryOp\<close> for the source, when the result is not known.\<close>

definition captureBinarySrc :: "rctx \<Rightarrow> instr \<Rightarrow> emustate \<Rightarrow> emuvalue \<Rightarrow> rctx option" where
  "captureBinarySrc c orig es res = do {
     v \<leftarrow> opVal c es (isrc orig);
     (if msIsStatic (ev_state v) then
        (if neutralSrc (itype orig) (ev_val v) then Some c
         else do {
           im \<leftarrow> getImmOp (ev_type v) (ev_val v);
           capBinary c es (itype orig) (ev_type res) (idst orig) im True True })
      else capBinary c es (itype orig) (ev_type res) (idst orig) (isrc orig) True True) }"

definition captureBinaryOp ::
  "rctx \<Rightarrow> instr \<Rightarrow> emustate \<Rightarrow> emuvalue \<Rightarrow> (emuvalue \<times> rctx) option" where
  "captureBinaryOp c orig es res =
     (if cState (ev_state res) = CS_DEAD then Some (res, c)
      else if msIsStatic (ev_state res) then do {
        f \<leftarrow> forceUnknown c es;
        t \<leftarrow> (if f then Some False else opStateIsTracked es (idst orig));
        let res = (if f then res\<lparr>ev_state := initMetaState CS_DYNAMIC\<rparr> else res);
        (if t then Some (res, c)
         else do {
           c \<leftarrow> capLoad c es (ev_type res) (idst orig) (ev_val res) True;
           Some (res, c) }) }
      else do {
        v \<leftarrow> opVal c es (idst orig);
        t \<leftarrow> opStateIsTracked es (idst orig);
        (if t \<and> msIsStatic (ev_state v) then
           (if itype orig = IT_ADD \<and> ev_val v = 0 \<or> itype orig = IT_IMUL \<and> ev_val v = 1
            then do {
              c \<leftarrow> capBinary c es IT_MOV (ev_type v) (idst orig) (isrc orig) True True;
              Some (res, c) }
            else do {
              c \<leftarrow> capLoad c es (ev_type v) (idst orig) (ev_val v) False;
              c \<leftarrow> captureBinarySrc c orig es res;
              Some (res, c) })
         else do {
           c \<leftarrow> captureBinarySrc c orig es res;
           Some (res, c) }) })"

text \<open>The known result of an instruction that is to become unknown is loaded.\<close>

definition captureKnown :: "rctx \<Rightarrow> instr \<Rightarrow> emustate \<Rightarrow> emuvalue \<Rightarrow> (emuvalue \<times> rctx) option" where
  "captureKnown c orig es res = do {
     f \<leftarrow> forceUnknown c es;
     (if f then do {
        c \<leftarrow> capLoad c es (ev_type res) (idst orig) (ev_val res) False;
        Some (res\<lparr>ev_state := initMetaState CS_DYNAMIC\<rparr>, c) }
      else Some (res, c)) }"

definition captureUnaryOp ::
  "rctx \<Rightarrow> instr \<Rightarrow> emustate \<Rightarrow> emuvalue \<Rightarrow> (emuvalue \<times> rctx) option" where
  "captureUnaryOp c orig es res =
     (if msIsStatic (ev_state res) then captureKnown c orig es res
      else do {
        i \<leftarrow> initUnaryInstr instr0 (itype orig) (idst orig);
        d \<leftarrow> applyStaticToInd (idst i) es;
        c \<leftarrow> capture c (i\<lparr>idst := d\<rparr>);
        Some (res, c) })"

definition captureLea ::
  "rctx \<Rightarrow> instr \<Rightarrow> emustate \<Rightarrow> emuvalue \<Rightarrow> (emuvalue \<times> rctx) option" where
  "captureLea c orig es res = do {
     c_assert (opIsReg (idst orig));
     (if msIsStatic (ev_state res) then captureKnown c orig es res
      else do {
        c \<leftarrow> capBinary c es IT_LEA (ivtype orig) (idst orig) (isrc orig) False True;
        Some (res, c) }) }"

definition captureCmp :: "rctx \<Rightarrow> instr \<Rightarrow> emustate \<Rightarrow> capturestate \<Rightarrow> rctx option" where
  "captureCmp c orig es cs =
     (if csIsStatic cs then Some c
      else do {
        v \<leftarrow> opVal c es (idst orig);
        c \<leftarrow> (if msIsStatic (ev_state v) then capLoad c es (ev_type v) (idst orig) (ev_val v) False
              else Some c);
        v \<leftarrow> opVal c es (isrc orig);
        p \<leftarrow> (if msIsStatic (ev_state v) then getImmOp (ev_type v) (ev_val v) else Some (isrc orig));
        capBinary c es IT_CMP (ivtype orig) (idst orig) p True True })"

definition captureTest :: "rctx \<Rightarrow> instr \<Rightarrow> emustate \<Rightarrow> capturestate \<Rightarrow> rctx option" where
  "captureTest c orig es cs =
     (if csIsStatic cs then Some c
      else capBinary c es IT_TEST (ivtype orig) (idst orig) (isrc orig) True True)"

definition captureRet :: "rctx \<Rightarrow> instr \<Rightarrow> emustate \<Rightarrow> rctx option" where
  "captureRet c orig es = do {
     cc \<leftarrow> r_cc (rc_r c);
     c \<leftarrow> (if \<not> hasReturnFP cc then do {
             rg \<leftarrow> getReg (getGPRegType VT_64) RI_A;
             v \<leftarrow> getRegValue es rg VT_64;
             (if msIsStatic (ev_state v) then do {
                p \<leftarrow> getRegOp rg;
                capLoad c es VT_64 p (ev_val v) False }
              else Some c) }
           else Some c);
     capture c orig }"

section \<open>Instructions that are passed through\<close>

definition processPassThrough :: "instr \<Rightarrow> emustate \<Rightarrow> emustate option" where
  "processPassThrough i es = do {
     c_assert (ptLen i > 0);
     (if ptSChange i = SC_None then Some es
      else do {
        c_assert (otype (idst i) = OT_Reg32 \<or> otype (idst i) = OT_Reg64);
        g \<leftarrow> opIsGPReg (idst i);
        Some (if g then es\<lparr>reg_state := (reg_state es)(ri (oreg (idst i)) := initMetaState CS_DYNAMIC)\<rparr>
              else es) }) }"

text \<open>\<open>captureVec\<close>: the encoding of all instructions it is called for is \<open>OE_RM\<close>.\<close>

definition captureVec :: "rctx \<Rightarrow> instr \<Rightarrow> emustate \<Rightarrow> rctx option" where
  "captureVec c orig es = do {
     c_assert (itype orig \<in> {IT_ADDSS, IT_ADDSD, IT_ADDPS, IT_ADDPD});
     let i = (initSimpleInstr instr0 (itype orig))\<lparr>ivtype := ivtype orig, iform := iform orig\<rparr>;
     c_assert (opIsReg (isrc orig) \<or> opIsInd (isrc orig));
     c_assert (opIsReg (idst orig));
     d \<leftarrow> copyOperand (idst i) (idst orig);
     s \<leftarrow> copyOperand (isrc i) (isrc orig);
     s \<leftarrow> applyStaticToInd s es;
     capture c (i\<lparr>idst := d, isrc := s\<rparr>) }"

definition capturePassThrough :: "rctx \<Rightarrow> instr \<Rightarrow> emustate \<Rightarrow> (emustate \<times> rctx) option" where
  "capturePassThrough c orig es = do {
     es \<leftarrow> processPassThrough orig es;
     let i = (initSimpleInstr instr0 (itype orig))\<lparr>ivtype := ivtype orig, ptLen := ptLen orig,
       ptEnc := ptEnc orig, ptPSet := ptPSet orig, ptVexP := ptVexP orig,
       ptOpc := take (ptLen orig) (ptOpc orig) @ drop (ptLen orig) (ptOpc instr0)\<rparr>;
     i \<leftarrow> (case ptEnc orig of
        OE_None \<Rightarrow> Some i
      | OE_MR \<Rightarrow> do {
          c_assert (opIsReg (idst orig) \<or> opIsInd (idst orig));
          c_assert (opIsReg (isrc orig));
          d \<leftarrow> copyOperand (idst i) (idst orig);
          s \<leftarrow> copyOperand (isrc i) (isrc orig);
          d \<leftarrow> applyStaticToInd d es;
          Some (i\<lparr>iform := OF_2, idst := d, isrc := s\<rparr>) }
      | OE_RVM \<Rightarrow> do {
          c_assert (opIsReg (idst orig));
          c_assert (opIsReg (isrc orig));
          c_assert (opIsReg (isrc2 orig) \<or> opIsInd (isrc2 orig));
          d \<leftarrow> copyOperand (idst i) (idst orig);
          s \<leftarrow> copyOperand (isrc i) (isrc orig);
          s2 \<leftarrow> copyOperand (isrc2 i) (isrc2 orig);
          s2 \<leftarrow> applyStaticToInd s2 es;
          Some (i\<lparr>iform := OF_3, idst := d, isrc := s, isrc2 := s2\<rparr>) }
      | OE_RM \<Rightarrow> do {
          c_assert (opIsReg (idst orig));
          c_assert (opIsReg (isrc orig) \<or> opIsInd (isrc orig));
          d \<leftarrow> copyOperand (idst i) (idst orig);
          s \<leftarrow> copyOperand (isrc i) (isrc orig);
          s \<leftarrow> applyStaticToInd s es;
          Some (i\<lparr>iform := OF_2, idst := d, isrc := s\<rparr>) }
      | _ \<Rightarrow> None);
     c \<leftarrow> capture c i;
     Some (es, c) }"

section \<open>Ending a block at a conditional jump\<close>

definition captureJcc :: "rctx \<Rightarrow> instrtype \<Rightarrow> u64 \<Rightarrow> u64 \<Rightarrow> rctx option" where
  "captureJcc c it branchTarget fallthroughTarget = do {
     cc \<leftarrow> r_cc (rc_r c);
     (if branches_known cc then Some c
      else do {
        (b, r) \<leftarrow> popCaptureBB (rc_r c);
        let c = updCBB b (\<lambda>b. b\<lparr>endType := it, preferBranch := branchTarget < fallthroughTarget\<rparr>)
                  (with_r r c);
        (k, c) \<leftarrow> saveEmuState c;
        (ft, c) \<leftarrow> getCaptureBB c fallthroughTarget k;
        (br, c) \<leftarrow> getCaptureBB c branchTarget k;
        (if rc_e c \<noteq> None then Some c
         else do {
           let c = updCBB b (\<lambda>b. b\<lparr>nextFallThrough := ft, nextBranch := br\<rparr>) c;
           f \<leftarrow> ft;
           t \<leftarrow> br;
           let c = (if branchTarget < fallthroughTarget then pushCaptureBB (pushCaptureBB c f) t
                    else pushCaptureBB (pushCaptureBB c t) f);
           (if rc_e c \<noteq> None then Some c
            else do {
              c_assert (currentCapBB (rc_r c) = None);
              Some c }) }) }) }"

end
