(* ===== verification/Emulate.thy ===== *)
theory Emulate
  imports Capture
begin

text \<open>
  The emulation of instructions (\<open>setEmulatorError\<close> to \<open>processKnownTargets\<close> of
  \<open>src/emulate.c\<close>). Each instruction is emulated on the current values, whether they are known
  or not, and captured as far as its effect is not known.

  An unsupported instruction sets the error of the context; a failing assertion is \<open>None\<close>.
  Signed overflow, which C leaves open, wraps around. \<open>processInstr\<close> calls itself for the
  parts of \<open>call\<close> and \<open>leave\<close>; the model calls the function for the part.
\<close>

section \<open>Helpers\<close>

definition setEmulatorError :: "rctx \<Rightarrow> instr \<Rightarrow> errortype \<Rightarrow> string option \<Rightarrow> rctx option" where
  "setEmulatorError c i e d = do {
     d \<leftarrow> (case d of
        Some s \<Rightarrow> Some (Some s)
      | None \<Rightarrow>
          if e = ET_UnsupportedInstr then do {
            t \<leftarrow> instr2string i False None;
            Some (Some (''Instruction not implemented for '' @ t)) }
          else if e = ET_UnsupportedOperands then do {
            t \<leftarrow> instr2string i False None;
            Some (Some (''Operand types not implemented for '' @ t)) }
          else Some None);
     Some (with_error e EM_Emulator d c) }"

definition put_es :: "emustate \<Rightarrow> rctx \<Rightarrow> rctx" where
  "put_es es c = with_r ((rc_r c)\<lparr>r_es := Some es\<rparr>) c"

definition put_mem :: "mem \<Rightarrow> rctx \<Rightarrow> rctx" where
  "put_mem m c = with_r ((rc_r c)\<lparr>r_mem := m\<rparr>) c"

text \<open>Store a value and its state in the destination operand.\<close>

definition setDst :: "rctx \<Rightarrow> emustate \<Rightarrow> emuvalue \<Rightarrow> operand \<Rightarrow> rctx option" where
  "setDst c es v p = do {
     (m, es) \<leftarrow> setOpValue v (r_mem (rc_r c)) es p;
     es \<leftarrow> setOpState (ev_state v) es p;
     Some (put_es es (put_mem m c)) }"

text \<open>Capture, then store.\<close>

definition finishBinary :: "rctx \<Rightarrow> instr \<Rightarrow> emustate \<Rightarrow> emuvalue \<Rightarrow> rctx option" where
  "finishBinary c i es res = do {
     (res, c) \<leftarrow> captureBinaryOp c i es res;
     setDst c es res (idst i) }"

definition finishUnary :: "rctx \<Rightarrow> instr \<Rightarrow> emustate \<Rightarrow> emuvalue \<Rightarrow> rctx option" where
  "finishUnary c i es res = do {
     (res, c) \<leftarrow> captureUnaryOp c i es res;
     setDst c es res (idst i) }"

definition emuVal :: "u64 \<Rightarrow> valtype \<Rightarrow> capturestate \<Rightarrow> emuvalue" where
  "emuVal v t cs = \<lparr>ev_val = v, ev_type = t, ev_state = initMetaState cs\<rparr>"

text \<open>An 8 bit immediate is extended to the width of the destination.\<close>

definition extendImm8 :: "instr \<Rightarrow> valtype \<Rightarrow> emuvalue \<Rightarrow> emuvalue" where
  "extendImm8 i vt v =
     (if otype (isrc i) = OT_Imm8 then v\<lparr>ev_val := sext8 (ev_val v), ev_type := vt\<rparr> else v)"

definition extendImm32 :: "instr \<Rightarrow> valtype \<Rightarrow> emuvalue \<Rightarrow> emuvalue" where
  "extendImm32 i vt v =
     (if otype (isrc i) = OT_Imm32 \<and> vt = VT_64
      then v\<lparr>ev_val := sext32 (ev_val v), ev_type := vt\<rparr> else v)"

section \<open>Arithmetic\<close>

definition emuAdd :: "rctx \<Rightarrow> instr \<Rightarrow> rctx option" where
  "emuAdd c i = do {
     es \<leftarrow> r_es (rc_r c);
     v1 \<leftarrow> opVal c es (idst i);
     v2 \<leftarrow> opVal c es (isrc i);
     vt \<leftarrow> opValType (idst i);
     let v2 = extendImm8 i vt v2;
     es \<leftarrow> setFlagsAdd es v1 v2;
     let c = put_es es c;
     let cs = combineState (cState (ev_state v1)) (cState (ev_state v2)) False;
     (if vt = VT_32 then finishBinary c i es (emuVal (trunc32 (ev_val v1 + ev_val v2)) vt cs)
      else if vt = VT_64 then finishBinary c i es (emuVal (ev_val v1 + ev_val v2) vt cs)
      else setEmulatorError c i ET_UnsupportedOperands None) }"

definition emuSub :: "rctx \<Rightarrow> instr \<Rightarrow> rctx option" where
  "emuSub c i = do {
     es \<leftarrow> r_es (rc_r c);
     v1 \<leftarrow> opVal c es (idst i);
     v2 \<leftarrow> opVal c es (isrc i);
     vt \<leftarrow> opValType (idst i);
     let v2 = extendImm32 i vt (extendImm8 i vt v2);
     (_, es) \<leftarrow> setFlagsSub es v1 v2;
     let c = put_es es c;
     let cs = combineState (cState (ev_state v1)) (cState (ev_state v2)) False;
     (if vt = VT_32 then finishBinary c i es (emuVal (trunc32 (ev_val v1 - ev_val v2)) vt cs)
      else if vt = VT_64 then finishBinary c i es (emuVal (ev_val v1 - ev_val v2) vt cs)
      else setEmulatorError c i ET_UnsupportedOperands None) }"

definition emuCmp :: "rctx \<Rightarrow> instr \<Rightarrow> rctx option" where
  "emuCmp c i = do {
     es \<leftarrow> r_es (rc_r c);
     v1 \<leftarrow> opVal c es (idst i);
     v2 \<leftarrow> opVal c es (isrc i);
     vt \<leftarrow> opValType (idst i);
     let v2 = extendImm8 i vt v2;
     (cs, es) \<leftarrow> setFlagsSub es v1 v2;
     captureCmp (put_es es c) i es cs }"

definition emuTest :: "rctx \<Rightarrow> instr \<Rightarrow> rctx option" where
  "emuTest c i = do {
     es \<leftarrow> r_es (rc_r c);
     v1 \<leftarrow> opVal c es (idst i);
     v2 \<leftarrow> opVal c es (isrc i);
     c_assert (ev_type v1 = ev_type v2);
     (cs, es) \<leftarrow> setFlagsBit es IT_AND v1 v2 False;
     captureTest (put_es es c) i es cs }"

definition emuBitOp :: "rctx \<Rightarrow> instr \<Rightarrow> rctx option" where
  "emuBitOp c i = do {
     es \<leftarrow> r_es (rc_r c);
     v1 \<leftarrow> opVal c es (idst i);
     v2 \<leftarrow> opVal c es (isrc i);
     c_assert (ev_type v1 = ev_type v2);
     same \<leftarrow> opIsEqual (idst i) (isrc i);
     (cs, es) \<leftarrow> setFlagsBit es (itype i) v1 v2 same;
     v \<leftarrow> bitOp (itype i) (ev_val v1) (ev_val v2);
     finishBinary (put_es es c) i es (emuVal v (ev_type v1) cs) }"

text \<open>\<open>inc\<close>, \<open>dec\<close>: \<open>g\<close> is the operation on 64 bit.\<close>

definition emuIncDec :: "(u64 \<Rightarrow> u64) \<Rightarrow> rctx \<Rightarrow> instr \<Rightarrow> rctx option" where
  "emuIncDec g c i = do {
     es \<leftarrow> r_es (rc_r c);
     v1 \<leftarrow> opVal c es (idst i);
     let cs = cState (ev_state v1);
     (if otype (idst i) \<in> {OT_Reg32, OT_Ind32}
      then finishUnary c i es (emuVal (trunc32 (g (ev_val v1))) (ev_type v1) cs)
      else if otype (idst i) \<in> {OT_Reg64, OT_Ind64}
      then finishUnary c i es (emuVal (g (ev_val v1)) (ev_type v1) cs)
      else setEmulatorError c i ET_UnsupportedOperands None) }"

definition emuNeg :: "rctx \<Rightarrow> instr \<Rightarrow> rctx option" where
  "emuNeg c i = do {
     es \<leftarrow> r_es (rc_r c);
     v1 \<leftarrow> opVal c es (idst i);
     (if otype (idst i) \<in> {OT_Reg32, OT_Ind32}
      then finishUnary c i es (v1\<lparr>ev_val := trunc32 (- ev_val v1)\<rparr>)
      else if otype (idst i) \<in> {OT_Reg64, OT_Ind64}
      then finishUnary c i es (v1\<lparr>ev_val := - ev_val v1\<rparr>)
      else setEmulatorError c i ET_UnsupportedOperands None) }"

definition emuImul :: "rctx \<Rightarrow> instr \<Rightarrow> rctx option" where
  "emuImul c i = do {
     es \<leftarrow> r_es (rc_r c);
     c_assert (iform i = OF_2 \<or> iform i = OF_3);
     v1 \<leftarrow> opVal c es (if iform i = OF_2 then idst i else isrc i);
     v2 \<leftarrow> opVal c es (if iform i = OF_2 then isrc i else isrc2 i);
     g \<leftarrow> opIsGPReg (idst i);
     c_assert g;
     c_assert (ev_type v1 = ev_type v2);
     let cs = (if msIsStatic (ev_state v1) \<and> ev_val v1 = 0 \<or> msIsStatic (ev_state v2) \<and> ev_val v2 = 0
               then CS_STATIC
               else combineState (cState (ev_state v1)) (cState (ev_state v2)) False);
     (if otype (isrc i) \<in> {OT_Reg32, OT_Ind32}
      then finishBinary c i es (emuVal (sext32 (ev_val v1 * ev_val v2)) VT_32 cs)
      else if otype (isrc i) \<in> {OT_Reg64, OT_Ind64}
      then finishBinary c i es (emuVal (ev_val v1 * ev_val v2) VT_64 cs)
      else setEmulatorError c i ET_UnsupportedOperands None) }"

text \<open>The division is unsigned in the code.\<close>

definition emuIdiv :: "rctx \<Rightarrow> instr \<Rightarrow> rctx option" where
  "emuIdiv c i = do {
     es \<leftarrow> r_es (rc_r c);
     v1 \<leftarrow> opVal c es (idst i);
     c_assert (ev_val v1 \<noteq> 0);
     let cs = combineState (cState (reg_state es RI_D)) (cState (reg_state es RI_A)) True;
     let cs = combineState cs (cState (ev_state v1)) False;
     let put = (\<lambda>q m. do {
       c \<leftarrow> captureIDiv c i cs es;
       Some (put_es (es\<lparr>es_reg := (es_reg es)(RI_A := q, RI_D := m),
         reg_state := (reg_state es)(RI_D := initMetaState cs, RI_A := initMetaState cs)\<rparr>) c) });
     (if otype (idst i) \<in> {OT_Reg32, OT_Ind32} then do {
        let v = push_bit 32 (es_reg es RI_D) + trunc32 (es_reg es RI_A);
        let w = sext32 (ev_val v1);
        c_assert (v div w < 2 ^ 31);
        put (v div w) (v mod w) }
      else if otype (idst i) \<in> {OT_Reg64, OT_Ind64}
      then put (es_reg es RI_A div ev_val v1) (es_reg es RI_A mod ev_val v1)
      else setEmulatorError c i ET_UnsupportedOperands None) }"

text \<open>Shifts. The count is cut to the bits of the width.\<close>

definition shiftOf :: "instrtype \<Rightarrow> (u64 \<Rightarrow> u64) \<Rightarrow> nat \<Rightarrow> u64 \<Rightarrow> u64 option" where
  "shiftOf it sext n v = (case it of IT_SHL \<Rightarrow> Some (push_bit n v) | IT_SHR \<Rightarrow> Some (drop_bit n v)
     | IT_SAR \<Rightarrow> Some (signed_drop_bit n (sext v)) | _ \<Rightarrow> None)"

definition shiftVal :: "instrtype \<Rightarrow> valtype \<Rightarrow> u64 \<Rightarrow> u64 \<Rightarrow> u64 option option" where
  "shiftVal it vt v k =
     (if vt = VT_8 then do { x \<leftarrow> shiftOf it sext8 (unat (k AND 7)) v; Some (Some (trunc8 x)) }
      else if vt = VT_16 then do { x \<leftarrow> shiftOf it sext16 (unat (k AND 15)) v; Some (Some (trunc16 x)) }
      else if vt = VT_32 then do { x \<leftarrow> shiftOf it sext32 (unat (k AND 31)) v; Some (Some (trunc32 x)) }
      else if vt = VT_64 then do { x \<leftarrow> shiftOf it (\<lambda>v. v) (unat (k AND 63)) v; Some (Some x) }
      else Some None)"

definition emuShift :: "rctx \<Rightarrow> instr \<Rightarrow> rctx option" where
  "emuShift c i = do {
     es \<leftarrow> r_es (rc_r c);
     v1 \<leftarrow> opVal c es (idst i);
     v2 \<leftarrow> opVal c es (isrc i);
     vt \<leftarrow> opValType (idst i);
     let cs = combineState (cState (ev_state v1)) (cState (ev_state v2)) False;
     v \<leftarrow> shiftVal (itype i) vt (ev_val v1) (ev_val v2);
     (case v of
        Some v \<Rightarrow> finishBinary c i es (emuVal v vt cs)
      | None \<Rightarrow> setEmulatorError c i ET_UnsupportedOperands None) }"

section \<open>Conversions\<close>

definition captureUnlessStatic :: "rctx \<Rightarrow> metastate \<Rightarrow> instr \<Rightarrow> rctx option" where
  "captureUnlessStatic c ms i = (if \<not> msIsStatic ms then capture c i else Some c)"

text \<open>\<open>cltq\<close> and \<open>cwtl\<close>, with the extension of the accumulator.\<close>

definition emuExtendA :: "(u64 \<Rightarrow> u64) \<Rightarrow> rctx \<Rightarrow> instr \<Rightarrow> rctx option" where
  "emuExtendA g c i = do {
     es \<leftarrow> r_es (rc_r c);
     let es = es\<lparr>es_reg := (es_reg es)(RI_A := g (es_reg es RI_A))\<rparr>;
     captureUnlessStatic (put_es es c) (reg_state es RI_A) i }"

definition emuCqto :: "rctx \<Rightarrow> instr \<Rightarrow> rctx option" where
  "emuCqto c i = do {
     es \<leftarrow> r_es (rc_r c);
     let put = (\<lambda>v.
       let es = es\<lparr>es_reg := (es_reg es)(RI_D := v), reg_state := (reg_state es)(RI_D := reg_state es RI_A)\<rparr>
       in captureUnlessStatic (put_es es c) (reg_state es RI_A) i);
     (case ivtype i of
        VT_64 \<Rightarrow> put (if bit (es_reg es RI_A) 30 then 0xFFFFFFFF else 0)
      | VT_128 \<Rightarrow> put (if bit (es_reg es RI_A) 62 then -1 else 0)
      | _ \<Rightarrow> setEmulatorError c i ET_UnsupportedOperands None) }"

text \<open>The conversion of a moved value to the destination's type; \<open>Some None\<close> is an unsupported
  source.\<close>

definition movConvert :: "optype \<Rightarrow> valtype \<Rightarrow> emuvalue \<Rightarrow> emuvalue option option" where
  "movConvert t dst v =
     (if t \<in> {OT_Reg8, OT_Ind8, OT_Imm8} then do {
        c_assert (dst \<in> {VT_8, VT_16, VT_32, VT_64});
        Some (Some (if dst = VT_8 then v else v\<lparr>ev_val := sext8 (ev_val v), ev_type := dst\<rparr>)) }
      else if t \<in> {OT_Reg16, OT_Ind16, OT_Imm16} then do {
        c_assert (dst \<in> {VT_16, VT_32, VT_64});
        Some (Some (if dst = VT_16 then v else v\<lparr>ev_val := sext16 (ev_val v), ev_type := dst\<rparr>)) }
      else if t \<in> {OT_Reg32, OT_Ind32, OT_Imm32} then do {
        c_assert (dst = VT_32 \<or> dst = VT_64);
        Some (Some (if dst = VT_32 then v else v\<lparr>ev_val := sext32 (ev_val v), ev_type := VT_64\<rparr>)) }
      else if t \<in> {OT_Reg64, OT_Ind64, OT_Imm64} then do {
        c_assert (dst = VT_64);
        Some (Some v) }
      else Some None)"

definition emuMov :: "rctx \<Rightarrow> instr \<Rightarrow> rctx option" where
  "emuMov c i = do {
     es \<leftarrow> r_es (rc_r c);
     t \<leftarrow> opValType (idst i);
     v \<leftarrow> opVal c es (isrc i);
     v \<leftarrow> movConvert (otype (isrc i)) t v;
     (case v of
        Some v \<Rightarrow> do {
          c \<leftarrow> captureMov c i es v;
          setDst c es v (idst i) }
      | None \<Rightarrow> setEmulatorError c i ET_UnsupportedOperands None) }"

text \<open>Conditional moves: the flag and whether it is negated. Others are not supported.\<close>

definition cmovCond :: "cond \<Rightarrow> (flagtype \<times> bool) option" where
  "cmovCond k = (case k of CC_Z \<Rightarrow> Some (FT_Zero, True) | CC_NZ \<Rightarrow> Some (FT_Zero, False)
     | CC_C \<Rightarrow> Some (FT_Carry, True) | CC_NC \<Rightarrow> Some (FT_Carry, False)
     | CC_O \<Rightarrow> Some (FT_Overflow, True) | CC_NO \<Rightarrow> Some (FT_Overflow, False)
     | CC_S \<Rightarrow> Some (FT_Sign, True) | CC_NS \<Rightarrow> Some (FT_Sign, False) | _ \<Rightarrow> None)"

definition emuCMov :: "flagtype \<Rightarrow> bool \<Rightarrow> rctx \<Rightarrow> instr \<Rightarrow> rctx option" where
  "emuCMov f pos c i = do {
     es \<leftarrow> r_es (rc_r c);
     let cond = (es_flag es f = pos);
     s \<leftarrow> opValType (isrc i);
     d \<leftarrow> opValType (idst i);
     c_assert (s = d);
     v \<leftarrow> opVal c es (isrc i);
     (v, c) \<leftarrow> captureCMov c i es v (flag_state es f) cond;
     (if cond then setDst c es v (idst i) else Some c) }"

definition emuLea :: "rctx \<Rightarrow> instr \<Rightarrow> rctx option" where
  "emuLea c i = do {
     es \<leftarrow> r_es (rc_r c);
     c_assert (otype (idst i) = OT_Reg32 \<or> otype (idst i) = OT_Reg64);
     c_assert (opIsInd (isrc i));
     v \<leftarrow> getOpAddr es (isrc i);
     let v = (if otype (idst i) = OT_Reg32 then v\<lparr>ev_val := trunc32 (ev_val v), ev_type := VT_32\<rparr> else v);
     (v, c) \<leftarrow> captureLea c i es v;
     setDst c es v (idst i) }"

section \<open>Stack\<close>

definition emuPopT :: "valtype \<Rightarrow> u64 \<Rightarrow> rctx \<Rightarrow> instr \<Rightarrow> rctx option" where
  "emuPopT t n c i = do {
     es \<leftarrow> r_es (rc_r c);
     let addr = emuValue (es_reg es RI_SP) VT_64 (reg_state es RI_SP);
     v \<leftarrow> getMemValue (r_mem (rc_r c)) addr es t True;
     (m, es) \<leftarrow> setOpValue v (r_mem (rc_r c)) es (idst i);
     es \<leftarrow> setOpState (ev_state v) es (idst i);
     let es = es\<lparr>es_reg := (es_reg es)(RI_SP := es_reg es RI_SP + n)\<rparr>;
     captureUnlessStatic (put_es es (put_mem m c)) (ev_state v) i }"

definition emuPop :: "rctx \<Rightarrow> instr \<Rightarrow> rctx option" where
  "emuPop c i =
     (if otype (idst i) = OT_Reg16 then emuPopT VT_16 2 c i
      else if otype (idst i) = OT_Reg64 then emuPopT VT_64 8 c i
      else setEmulatorError c i ET_UnsupportedOperands None)"

text \<open>The value that a push stores: known immediates are extended.\<close>

definition pushConvert :: "valtype \<Rightarrow> emuvalue \<Rightarrow> emuvalue option" where
  "pushConvert t v =
     (if t = VT_16 then Some v
      else do {
        x \<leftarrow> (case ev_type v of VT_8 \<Rightarrow> Some (sext8 (ev_val v)) | VT_32 \<Rightarrow> Some (sext32 (ev_val v))
              | VT_64 \<Rightarrow> Some (ev_val v) | _ \<Rightarrow> None);
        Some (v\<lparr>ev_val := x, ev_type := VT_64\<rparr>) })"

definition emuPushT :: "valtype \<Rightarrow> u64 \<Rightarrow> rctx \<Rightarrow> instr \<Rightarrow> rctx option" where
  "emuPushT t n c i = do {
     es \<leftarrow> r_es (rc_r c);
     let es = es\<lparr>es_reg := (es_reg es)(RI_SP := es_reg es RI_SP - n)\<rparr>;
     let addr = emuValue (es_reg es RI_SP) VT_64 (reg_state es RI_SP);
     v \<leftarrow> opVal c es (idst i);
     v \<leftarrow> pushConvert t v;
     (m, es) \<leftarrow> setMemValue (r_mem (rc_r c)) v addr es t True;
     es \<leftarrow> setMemState es addr t (ev_state v) True;
     captureUnlessStatic (put_es es (put_mem m c)) (ev_state v) i }"

definition emuPush :: "rctx \<Rightarrow> instr \<Rightarrow> rctx option" where
  "emuPush c i =
     (if otype (idst i) \<in> {OT_Ind16, OT_Reg16, OT_Imm16} then emuPushT VT_16 2 c i
      else if otype (idst i) \<in> {OT_Ind64, OT_Reg64, OT_Imm64, OT_Imm8, OT_Imm32} then emuPushT VT_64 8 c i
      else setEmulatorError c i ET_UnsupportedOperands None)"

definition emuLeave :: "rctx \<Rightarrow> rctx option" where
  "emuLeave c = do {
     bp \<leftarrow> Option.bind (getReg RT_GP64 RI_BP) getRegOp;
     sp \<leftarrow> Option.bind (getReg RT_GP64 RI_SP) getRegOp;
     i \<leftarrow> initBinaryInstr instr0 IT_MOV VT_None sp bp;
     c \<leftarrow> emuMov c i;
     (if rc_e c \<noteq> None then Some c
      else do {
        i \<leftarrow> initUnaryInstr instr0 IT_POP bp;
        emuPop c i }) }"

section \<open>Control flow\<close>

text \<open>The flags that a conditional jump tests, and whether it is taken.\<close>

definition jccFlags :: "cond \<Rightarrow> flagtype list" where
  "jccFlags k = (case k of
       CC_O \<Rightarrow> [FT_Overflow] | CC_NO \<Rightarrow> [FT_Overflow] | CC_C \<Rightarrow> [FT_Carry] | CC_NC \<Rightarrow> [FT_Carry]
     | CC_Z \<Rightarrow> [FT_Zero] | CC_NZ \<Rightarrow> [FT_Zero] | CC_BE \<Rightarrow> [FT_Carry, FT_Zero] | CC_A \<Rightarrow> [FT_Carry, FT_Zero]
     | CC_S \<Rightarrow> [FT_Sign] | CC_NS \<Rightarrow> [FT_Sign] | CC_P \<Rightarrow> [FT_Parity] | CC_NP \<Rightarrow> [FT_Parity]
     | CC_L \<Rightarrow> [FT_Sign, FT_Overflow] | CC_GE \<Rightarrow> [FT_Sign, FT_Overflow]
     | CC_LE \<Rightarrow> [FT_Zero, FT_Sign] | CC_G \<Rightarrow> [FT_Zero, FT_Sign])"

definition jccTaken :: "cond \<Rightarrow> (flagtype \<Rightarrow> bool) \<Rightarrow> bool" where
  "jccTaken k f = (case k of
       CC_O \<Rightarrow> f FT_Overflow | CC_NO \<Rightarrow> \<not> f FT_Overflow | CC_C \<Rightarrow> f FT_Carry | CC_NC \<Rightarrow> \<not> f FT_Carry
     | CC_Z \<Rightarrow> f FT_Zero | CC_NZ \<Rightarrow> \<not> f FT_Zero
     | CC_BE \<Rightarrow> f FT_Carry \<or> f FT_Zero | CC_A \<Rightarrow> \<not> f FT_Carry \<and> \<not> f FT_Zero
     | CC_S \<Rightarrow> f FT_Sign | CC_NS \<Rightarrow> \<not> f FT_Sign | CC_P \<Rightarrow> f FT_Parity | CC_NP \<Rightarrow> \<not> f FT_Parity
     | CC_L \<Rightarrow> f FT_Sign \<noteq> f FT_Overflow | CC_GE \<Rightarrow> f FT_Sign = f FT_Overflow
     | CC_LE \<Rightarrow> f FT_Zero \<or> f FT_Sign | CC_G \<Rightarrow> \<not> f FT_Zero \<and> \<not> f FT_Sign)"

text \<open>The jump that ends the captured block.\<close>

definition jccCaptured :: "cond \<Rightarrow> instrtype" where
  "jccCaptured k = (case k of CC_BE \<Rightarrow> IT_JLE | CC_A \<Rightarrow> IT_JG | _ \<Rightarrow> IT_J k)"

definition nextAddr :: "instr \<Rightarrow> u64" where
  "nextAddr i = iaddr i + of_nat (ilen i)"

definition emuJcc :: "cond \<Rightarrow> rctx \<Rightarrow> instr \<Rightarrow> rctx option" where
  "emuJcc k c i = do {
     es \<leftarrow> r_es (rc_r c);
     c \<leftarrow> (if \<exists>f \<in> set (jccFlags k). msIsDynamic (flag_state es f)
           then captureJcc c (jccCaptured k) (oval (idst i)) (nextAddr i) else Some c);
     Some (c\<lparr>rc_exit := (if jccTaken k (es_flag es) then oval (idst i) else nextAddr i)\<rparr>) }"

definition emuJmp :: "rctx \<Rightarrow> instr \<Rightarrow> rctx option" where
  "emuJmp c i =
     (if otype (idst i) \<noteq> OT_Imm64 then setEmulatorError c i ET_UnsupportedOperands None
      else Some (c\<lparr>rc_exit := oval (idst i)\<rparr>))"

definition emuJmpi :: "rctx \<Rightarrow> instr \<Rightarrow> rctx option" where
  "emuJmpi c i = do {
     es \<leftarrow> r_es (rc_r c);
     v \<leftarrow> opVal c es (idst i);
     (if otype (idst i) \<noteq> OT_Reg64 \<and> otype (idst i) \<noteq> OT_Ind64
      then setEmulatorError c i ET_UnsupportedOperands None
      else do {
        st \<leftarrow> (if otype (idst i) = OT_Ind64 then do {
                 a \<leftarrow> getOpAddr es (idst i);
                 Some (msIsStatic (ev_state a) \<or> msIsStatic (ev_state v)) }
               else Some (msIsStatic (ev_state v)));
        (if \<not> st then setEmulatorError c i ET_BufferOverflow (Some ''Call to unknown target not supported'')
         else Some (c\<lparr>rc_exit := ev_val v\<rparr>)) }) }"

definition emuCall :: "rctx \<Rightarrow> instr \<Rightarrow> rctx option" where
  "emuCall c i = do {
     es \<leftarrow> r_es (rc_r c);
     v \<leftarrow> opVal c es (idst i);
     (if depth es \<ge> MAX_CALLDEPTH
      then setEmulatorError c i ET_BufferOverflow (Some ''Call depth too deep'')
      else if \<not> msIsStatic (ev_state v)
      then setEmulatorError c i ET_UnsupportedOperands (Some ''Call to unknown target not supported'')
      else do {
        im \<leftarrow> getImmOp VT_64 (nextAddr i);
        p \<leftarrow> copyOperand op0 im;
        push \<leftarrow> initUnaryInstr instr0 IT_PUSH p;
        c \<leftarrow> emuPush c push;
        (if rc_e c \<noteq> None then Some c
         else do {
           es \<leftarrow> r_es (rc_r c);
           c_assert (0 \<le> depth es);
           let c = put_es (es\<lparr>ret_stack := (ret_stack es)[nat (depth es) := oval p],
             depth := depth es + 1\<rparr>) c;
           c \<leftarrow> (if addInliningHints (rc_r c) then capture c (initSimpleInstr instr0 IT_HINT_CALL)
                 else Some c);
           Some (c\<lparr>rc_exit := ev_val v\<rparr>) }) }) }"

text \<open>The registers that a call does not preserve.\<close>

definition callerSave :: "regindex list" where
  "callerSave = [RI_DI, RI_SI, RI_D, RI_C, RI_8, RI_9, RI_10, RI_11]"

definition emulateRet :: "rctx \<Rightarrow> instr \<Rightarrow> rctx option" where
  "emulateRet c i = do {
     es \<leftarrow> r_es (rc_r c);
     let es = es\<lparr>reg_state := (\<lambda>k. if k \<in> set callerSave then initMetaState CS_DEAD else reg_state es k)\<rparr>;
     let c = put_es es c;
     c \<leftarrow> (if addInliningHints (rc_r c) then capture c (initSimpleInstr instr0 IT_HINT_RET) else Some c);
     let es = es\<lparr>depth := depth es - 1\<rparr>;
     let c = put_es es c;
     (if depth es \<ge> 0 then do {
        let addr = emuValue (es_reg es RI_SP) VT_64 (reg_state es RI_SP);
        v \<leftarrow> getMemValue (r_mem (rc_r c)) addr es VT_64 True;
        let es = es\<lparr>es_reg := (es_reg es)(RI_SP := es_reg es RI_SP + 8)\<rparr>;
        let c = put_es es c;
        (if ev_val v \<noteq> ret_stack es ! nat (depth es)
         then setEmulatorError c i ET_BadOperands (Some ''Return address modified'')
         else Some (c\<lparr>rc_exit := ret_stack es ! nat (depth es)\<rparr>)) }
      else Some c) }"

section \<open>One instruction\<close>

definition processInstr :: "rctx \<Rightarrow> instr \<Rightarrow> rctx option" where
  "processInstr c i =
     (if ptLen i > 0 then do {
        es \<leftarrow> r_es (rc_r c);
        (es, c) \<leftarrow> capturePassThrough c i es;
        Some (put_es es c) }
      else (case itype i of
        IT_ADD \<Rightarrow> emuAdd c i
      | IT_CALL \<Rightarrow> emuCall c i
      | IT_CLTQ \<Rightarrow> emuExtendA sext32 c i
      | IT_CWTL \<Rightarrow> emuExtendA sext16 c i
      | IT_CQTO \<Rightarrow> emuCqto c i
      | IT_CMOV k \<Rightarrow> (case cmovCond k of Some (f, pos) \<Rightarrow> emuCMov f pos c i
          | None \<Rightarrow> setEmulatorError c i ET_UnsupportedInstr None)
      | IT_CMP \<Rightarrow> emuCmp c i
      | IT_DEC \<Rightarrow> emuIncDec (\<lambda>v. v - 1) c i
      | IT_IMUL \<Rightarrow> emuImul c i
      | IT_IDIV1 \<Rightarrow> emuIdiv c i
      | IT_INC \<Rightarrow> emuIncDec (\<lambda>v. v + 1) c i
      | IT_J k \<Rightarrow> emuJcc k c i
      | IT_JMP \<Rightarrow> emuJmp c i
      | IT_JMPI \<Rightarrow> emuJmpi c i
      | IT_LEA \<Rightarrow> emuLea c i
      | IT_LEAVE \<Rightarrow> emuLeave c
      | IT_MOV \<Rightarrow> emuMov c i
      | IT_MOVSX \<Rightarrow> emuMov c i
      | IT_NOP \<Rightarrow> Some c
      | IT_NEG \<Rightarrow> emuNeg c i
      | IT_POP \<Rightarrow> emuPop c i
      | IT_PUSH \<Rightarrow> emuPush c i
      | IT_RET \<Rightarrow> emulateRet c i
      | IT_SHL \<Rightarrow> emuShift c i
      | IT_SHR \<Rightarrow> emuShift c i
      | IT_SAR \<Rightarrow> emuShift c i
      | IT_SUB \<Rightarrow> emuSub c i
      | IT_TEST \<Rightarrow> emuTest c i
      | IT_XOR \<Rightarrow> emuBitOp c i
      | IT_OR \<Rightarrow> emuBitOp c i
      | IT_AND \<Rightarrow> emuBitOp c i
      | IT_SSEFP k \<Rightarrow>
          if k \<in> {F_ADDSS, F_ADDSD, F_ADDPS, F_ADDPD}
          then do { es \<leftarrow> r_es (rc_r c); captureVec c i es }
          else setEmulatorError c i ET_UnsupportedInstr None
      | _ \<Rightarrow> setEmulatorError c i ET_UnsupportedInstr None))"

section \<open>Known functions\<close>

text \<open>The addresses of the functions that the emulator knows.\<close>

record knownfuncs =
  kf_makeDynamic :: u64
  kf_makeStatic :: u64
  kf_apply4_R8V8 :: u64
  kf_apply4_R8V8V8 :: u64
  kf_apply4_R8P8 :: u64

text \<open>\<open>processKnownTargets\<close>; the vector calls go to \<open>handleVectorCall\<close>, which comes later in
  the development and is passed as \<open>hvc\<close>.\<close>

definition processKnownTargets ::
  "knownfuncs \<Rightarrow> (rctx \<Rightarrow> u64 \<Rightarrow> (u64 \<times> rctx) option) \<Rightarrow> rctx \<Rightarrow> u64 \<Rightarrow> (u64 \<times> rctx) option" where
  "processKnownTargets kf hvc c f = do {
     es \<leftarrow> r_es (rc_r c);
     (es, c) \<leftarrow>
       (if f = kf_makeDynamic kf \<and> msIsStatic (reg_state es RI_DI) then do {
          p \<leftarrow> Option.bind (getReg RT_GP64 RI_DI) getRegOp;
          c \<leftarrow> capLoad c es VT_64 p (es_reg es RI_DI) False;
          Some (es\<lparr>reg_state := (reg_state es)(RI_DI := initMetaState CS_DYNAMIC)\<rparr>, c) }
        else Some (es, c));
     let es = (if f = kf_makeStatic kf
               then es\<lparr>reg_state := (reg_state es)(RI_DI := initMetaState CS_STATIC2)\<rparr> else es);
     let c = put_es es c;
     (if f \<in> {kf_apply4_R8V8 kf, kf_apply4_R8V8V8 kf, kf_apply4_R8P8 kf} then hvc c f
      else Some (f, c)) }"

lemmas [emu_defs] = put_es_def put_mem_def emuVal_def opVal_def

end
