(* ===== verification/CaptureSound.thy ===== *)
theory CaptureSound
  imports Machine Emulate
begin

text \<open>
  Capturing is a partial evaluation: run the original instruction on registers \<open>M\<close>, and what
  was captured of it on registers \<open>R\<close> that may have anything in the registers that the emulator
  knows. If \<open>M\<close> has the known values in these, and \<open>R\<close> the values of \<open>M\<close> in the unknown ones,
  the same holds afterwards, for the new state of the emulator.
\<close>

section \<open>The relation\<close>

definition residual :: "emustate \<Rightarrow> regs \<Rightarrow> regs \<Rightarrow> bool" where
  "residual es M R \<longleftrightarrow> (\<forall>k. (msIsStatic (reg_state es k) \<longrightarrow> M k = es_reg es k)
     \<and> (\<not> msIsStatic (reg_state es k) \<and> cState (reg_state es k) \<noteq> CS_DEAD \<longrightarrow> R k = M k))"

lemma residual_known: "residual es M R \<Longrightarrow> msIsStatic (reg_state es k) \<Longrightarrow> M k = es_reg es k"
  and residual_unknown: "residual es M R \<Longrightarrow> \<not> msIsStatic (reg_state es k)
    \<Longrightarrow> cState (reg_state es k) \<noteq> CS_DEAD \<Longrightarrow> R k = M k"
  by (simp_all add: residual_def)

section \<open>Captured instructions\<close>

text \<open>What capturing changes: instructions \<open>js\<close> were added, and the block they belong to.\<close>

definition captured :: "rctx \<Rightarrow> rctx \<Rightarrow> instr list \<Rightarrow> bool" where
  "captured c c' js \<longleftrightarrow> capInstr (rc_r c') = capInstr (rc_r c) @ js
     \<and> currentCapBB (rc_r c') = currentCapBB (rc_r c) \<and> r_es (rc_r c') = r_es (rc_r c)
     \<and> r_mem (rc_r c') = r_mem (rc_r c) \<and> r_fsmem (rc_r c') = r_fsmem (rc_r c)
     \<and> r_cc (rc_r c') = r_cc (rc_r c) \<and> rc_e c = rc_e c' \<and> rc_exit c' = rc_exit c"

lemma captured_refl [simp]: "captured c c []"
  by (simp add: captured_def)

lemma captured_trans: "captured c c' xs \<Longrightarrow> captured c' c'' ys \<Longrightarrow> captured c c'' (xs @ ys)"
  by (simp add: captured_def)

lemma newCapInstr_room:
  assumes "rc_e (snd (newCapInstr c)) = None"
  shows "newCapInstr c = (Some (length (capInstr (rc_r c))),
      with_r ((rc_r c)\<lparr>capInstr := capInstr (rc_r c) @ [instr0]\<rparr>) c)" and "rc_e c = None"
  using assms by (auto simp: newCapInstr_def with_error_def with_r_def Let_def split: if_splits)

lemma capture_sticky: "capture c i = Some c' \<Longrightarrow> rc_e c' = None \<Longrightarrow> rc_e c = None"
  by (cases "rc_e (snd (newCapInstr c)) = None")
    (auto simp: capture_def case_prod_unfold dest: newCapInstr_room(2) split: option.splits if_splits)

lemma capture_one:
  assumes "capture c i = Some c'" and "rc_e c' = None" and b: "currentCapBB (rc_r c) = Some b"
  shows "\<exists>j. captured c c' [j] \<and> copyInstr instr0 i = Some j"
proof -
  have "rc_e (snd (newCapInstr c)) = None"
    using assms by (auto simp: capture_def case_prod_unfold Let_def split: if_splits)
  note n = newCapInstr_room [OF this]
  show ?thesis
    using assms(1) n(2)
    by (auto simp: capture_def b n(1) bind_eq_Some_conv captured_def with_r_def updCBB_def
        putCapInstr_def Let_def nth_append list_update_append)
qed

lemma captured_None: "currentCapBB (rc_r c) \<noteq> None \<Longrightarrow> captured c c' js \<Longrightarrow> currentCapBB (rc_r c') \<noteq> None"
  by (simp add: captured_def)

text \<open>A captured copy does what the instruction does.\<close>

lemma op_kinds:
  "opIsReg p \<Longrightarrow> \<not> opIsImm p" "opIsReg p \<Longrightarrow> \<not> opIsInd p" "opIsImm p \<Longrightarrow> \<not> opIsInd p"
  by (auto simp: opIsReg_def opIsImm_def opIsInd_def)

text \<open>The members of two operands that matter for their kind are the same.\<close>

definition sameParts :: "operand \<Rightarrow> operand \<Rightarrow> bool" where
  "sameParts p q \<longleftrightarrow> otype q = otype p \<and> (opIsReg p \<longrightarrow> oreg q = oreg p) \<and> (opIsImm p \<longrightarrow> oval q = oval p)
     \<and> (opIsInd p \<longrightarrow> oreg q = oreg p \<and> oval q = oval p \<and> oseg q = oseg p \<and> oscale q = oscale p
          \<and> (oscale p > 0 \<longrightarrow> oireg q = oireg p))"

lemma sameParts_copy:
  assumes "copyOperand d p = Some q"
  shows "sameParts p q"
proof (cases "opIsImm p")
  case True
  then show ?thesis using assms op_kinds [of p]
    by (auto simp: copyOperand_def sameParts_def c_assert_bind split: if_splits)
next
  case False
  then show ?thesis using assms op_kinds [of p]
    by (cases "opIsReg p"; cases "oscale p > 0")
      (auto simp: copyOperand_def sameParts_def c_assert_bind split: if_splits)
qed

text \<open>Operands that the reference semantics does not tell apart.\<close>

definition sameSource :: "operand \<Rightarrow> operand \<Rightarrow> bool" where
  "sameSource p q \<longleftrightarrow> (\<forall>g it vt. srcVal g it vt q = srcVal g it vt p) \<and> (\<forall>g. addrOf g q = addrOf g p)
     \<and> wideOf q = wideOf p \<and> (opIsReg p \<longrightarrow> oreg q = oreg p)"

lemma sameSource_refl [simp]: "sameSource p p"
  by (simp add: sameSource_def)

lemma sameSource_trans: "sameSource p q \<Longrightarrow> sameSource q r \<Longrightarrow> opIsReg q = opIsReg p \<Longrightarrow> sameSource p r"
  by (simp add: sameSource_def)

lemma notReg: "\<not> opIsReg p \<Longrightarrow> otype p \<noteq> OT_Reg8 \<and> otype p \<noteq> OT_Reg16 \<and> otype p \<noteq> OT_Reg32 \<and> otype p \<noteq> OT_Reg64"
  and notImm: "\<not> opIsImm p \<Longrightarrow> otype p \<noteq> OT_Imm8 \<and> otype p \<noteq> OT_Imm32 \<and> otype p \<noteq> OT_Imm64"
  by (auto simp: opIsReg_def opIsImm_def)

lemma sameParts_otype: "sameParts p q \<Longrightarrow> otype q = otype p"
  and sameParts_oreg: "sameParts p q \<Longrightarrow> opIsReg p \<Longrightarrow> oreg q = oreg p"
  and sameParts_oval: "sameParts p q \<Longrightarrow> opIsImm p \<Longrightarrow> oval q = oval p"
  by (simp_all add: sameParts_def)

lemma sameParts_wideReg: "sameParts p q \<Longrightarrow> wideReg vt q = wideReg vt p"
  by (cases "opIsReg p") (simp_all add: wideReg_def sameParts_otype sameParts_oreg notReg)

lemma sameParts_lowByteReg: "sameParts p q \<Longrightarrow> lowByteReg q = lowByteReg p"
  by (cases "opIsReg p") (simp_all add: lowByteReg_def sameParts_otype sameParts_oreg notReg)

lemma sameParts_immSrc: "sameParts p q \<Longrightarrow> immSrc vt q = immSrc vt p"
  by (cases "opIsImm p") (simp_all add: immSrc_def sameParts_otype sameParts_oval notImm)

lemma opIsInd_otype: "otype q = otype p \<Longrightarrow> opIsInd q = opIsInd p"
  by (simp add: opIsInd_def)

lemma sameParts_addrOf:
  assumes "sameParts p q"
  shows "addrOf g q = addrOf g p"
proof -
  have "opIsInd q = opIsInd p" by (rule opIsInd_otype [OF sameParts_otype [OF assms]])
  then show ?thesis using assms
    by (cases "opIsInd p"; cases "oscale p > 0") (simp_all add: addrOf_def sameParts_def)
qed

lemma wideReg_isReg: "wideReg vt p \<Longrightarrow> opIsReg p"
  and lowByteReg_isReg: "lowByteReg p \<Longrightarrow> opIsReg p"
  by (auto simp: wideReg_def lowByteReg_def opIsReg_def)

lemma sameParts_srcVal:
  assumes "sameParts p q"
  shows "srcVal g it vt q = srcVal g it vt p"
proof -
  note same = sameParts_otype [OF assms] sameParts_wideReg [OF assms] sameParts_lowByteReg [OF assms]
    sameParts_immSrc [OF assms]
  show ?thesis
  proof (cases "opIsReg p")
    case True
    then have "otype p \<noteq> OT_Imm8" using op_kinds(1) [OF True] notImm by blast
    then show ?thesis
      by (simp add: srcVal_def countSrc_def signedSrc_def plainSrc_def same sameParts_oreg [OF assms True])
  next
    case False
    then have "\<not> wideReg w p" "\<not> lowByteReg p" "otype p \<noteq> OT_Reg16" for w
      using wideReg_isReg lowByteReg_isReg notReg by blast+
    moreover have "otype p = OT_Imm8 \<Longrightarrow> oval q = oval p"
      using sameParts_oval [OF assms] by (simp add: opIsImm_def)
    ultimately show ?thesis
      by (simp add: srcVal_def countSrc_def signedSrc_def plainSrc_def same)
  qed
qed

lemma sameSource_parts: "sameParts p q \<Longrightarrow> sameSource p q"
  unfolding sameSource_def
  by (simp add: sameParts_srcVal sameParts_addrOf wideOf_def sameParts_wideReg) (simp add: sameParts_def)

lemmas sameSource_copy = sameSource_parts [OF sameParts_copy]

lemma sameSource_binExec: "sameSource p p' \<Longrightarrow> sameSource q q' \<Longrightarrow> opIsReg p \<Longrightarrow> binExec it p' q' g = binExec it p q g"
  and sameSource_leaExec: "sameSource p p' \<Longrightarrow> sameSource q q' \<Longrightarrow> opIsReg p \<Longrightarrow> leaExec p' q' g = leaExec p q g"
  and sameSource_unExec: "sameSource p p' \<Longrightarrow> opIsReg p \<Longrightarrow> unExec it p' g = unExec it p g"
  by (simp_all add: binExec_def leaExec_def unExec_def sameSource_def putReg_def)

lemma copyInstr_parts:
  assumes "copyInstr d i = Some j"
  shows "iform j = iform i" "itype j = itype i" "ptLen j = ptLen i"
    "iform i \<in> {OF_1, OF_2, OF_3} \<Longrightarrow> sameParts (idst i) (idst j)"
    "iform i \<in> {OF_2, OF_3} \<Longrightarrow> sameParts (isrc i) (isrc j)"
proof -
  obtain s2 s1 d0 where f: "iform i \<in> {OF_0, OF_1, OF_2, OF_3}"
    and s: "iform i \<in> {OF_2, OF_3} \<longrightarrow> copyOperand ((isrc d)\<lparr>otype := OT_None\<rparr>) (isrc i) = Some s1"
    and d: "iform i \<in> {OF_1, OF_2, OF_3} \<longrightarrow> copyOperand ((idst d)\<lparr>otype := OT_None\<rparr>) (idst i) = Some d0"
    and j: "iform j = iform i \<and> itype j = itype i \<and> ptLen j = ptLen i \<and> isrc j = s1 \<and> idst j = d0"
    using assms unfolding copyInstr_def Let_def
    by (clarsimp simp: bind_eq_Some_conv) (cases "0 < ptLen i"; fastforce split: if_splits)
  show "iform j = iform i" "itype j = itype i" "ptLen j = ptLen i" using j by simp_all
  show "iform i \<in> {OF_1, OF_2, OF_3} \<Longrightarrow> sameParts (idst i) (idst j)"
    "iform i \<in> {OF_2, OF_3} \<Longrightarrow> sameParts (isrc i) (isrc j)"
    using s d j sameParts_copy by blast+
qed

lemma initBinaryInstr_parts:
  assumes "initBinaryInstr d it vt p q = Some i"
  shows "iform i = OF_2" "itype i = it" "ptLen i = 0" "sameParts p (idst i)" "sameParts q (isrc i)"
  using assms by (auto simp: initBinaryInstr_def initSimpleInstr_def bind_eq_Some_conv Let_def
      intro: sameParts_copy split: if_splits)

lemma initUnaryInstr_parts:
  assumes "initUnaryInstr d it p = Some i"
  shows "iform i = OF_1" "itype i = it" "ptLen i = 0" "sameParts p (idst i)"
  using assms by (auto simp: initUnaryInstr_def initSimpleInstr_def bind_eq_Some_conv Let_def
      intro: sameParts_copy)

lemma sameParts_trans: "sameParts p q \<Longrightarrow> sameParts q r \<Longrightarrow> sameParts p r"
proof -
  assume a: "sameParts p q" "sameParts q r"
  then have "opIsReg q = opIsReg p" "opIsImm q = opIsImm p" "opIsInd q = opIsInd p"
    by (simp_all add: sameParts_def opIsReg_def opIsImm_def opIsInd_def)
  then show ?thesis using a by (auto simp: sameParts_def)
qed

lemma applyStatic_other: "\<not> opIsInd p \<Longrightarrow> applyStaticToInd p es = Some p"
  by (simp add: applyStaticToInd_def)

lemma sameParts_isInd: "sameParts p q \<Longrightarrow> opIsInd q = opIsInd p"
  by (rule opIsInd_otype [OF sameParts_otype])

lemma capBinary_one:
  assumes "capBinary c es it vt p q ad as = Some c'" and "rc_e c' = None"
    and "currentCapBB (rc_r c) \<noteq> None" and p: "\<not> opIsInd p"
  shows "\<exists>j q0 q1. captured c c' [j] \<and> iform j = OF_2 \<and> itype j = it \<and> ptLen j = 0
    \<and> sameParts p (idst j) \<and> sameParts q q0 \<and> sameParts q1 (isrc j)
    \<and> (if as then applyStaticToInd q0 es else Some q0) = Some q1"
proof -
  obtain i d s where i: "initBinaryInstr instr0 it vt p q = Some i"
    and d: "(if ad then applyStaticToInd (idst i) es else Some (idst i)) = Some d"
    and s: "(if as then applyStaticToInd (isrc i) es else Some (isrc i)) = Some s"
    and c: "capture c (i\<lparr>idst := d, isrc := s\<rparr>) = Some c'"
    using assms(1) unfolding capBinary_def bind_eq_Some_conv by blast
  note i' = initBinaryInstr_parts [OF i]
  have d': "d = idst i"
    using d p sameParts_isInd [OF i'(4)] by (simp add: applyStatic_other split: if_splits)
  obtain b where "currentCapBB (rc_r c) = Some b" using assms(3) by blast
  then obtain j where j: "captured c c' [j]" "copyInstr instr0 (i\<lparr>idst := d, isrc := s\<rparr>) = Some j"
    using capture_one [OF c assms(2)] by blast
  have "sameParts p (idst j)"
    using copyInstr_parts(4) [OF j(2)] i' d' sameParts_trans by simp
  then show ?thesis
    using j(1) copyInstr_parts [OF j(2)] i' s by (intro exI [of _ j] exI [of _ "isrc i"] exI [of _ s]) simp
qed

text \<open>The operations that write their first operand.\<close>

definition writesDst :: "instrtype \<Rightarrow> bool" where
  "writesDst it \<longleftrightarrow> it \<notin> {IT_LEA, IT_CMP, IT_TEST}"

lemma capBinary_exec:
  assumes "capBinary c es it vt p q ad as = Some c'" and "rc_e c' = None"
    and "currentCapBB (rc_r c) \<noteq> None" and "opIsReg p" and "\<not> opIsInd q" and "writesDst it"
  shows "\<exists>js. captured c c' js \<and> (\<forall>g. regExecs js g = binExec it p q g)"
proof -
  obtain j q0 q1 where j: "captured c c' [j]" "iform j = OF_2" "itype j = it" "ptLen j = 0"
    and p: "sameParts p (idst j)" and q: "sameParts q q0" "sameParts q1 (isrc j)"
    and ap: "(if as then applyStaticToInd q0 es else Some q0) = Some q1"
    using capBinary_one [OF assms(1-3)] op_kinds(2) [OF assms(4)] by blast
  have "q1 = q0" using ap sameParts_isInd [OF q(1)] assms(5) by (simp add: applyStatic_other split: if_splits)
  then have "sameParts q (isrc j)" using q sameParts_trans by blast
  then have "regExec j g = binExec it p q g" for g
    using j assms(4,6) sameSource_binExec [OF sameSource_parts [OF p] sameSource_parts]
    by (simp add: regExec_def writesDst_def)
  then show ?thesis using j(1) by (intro exI [of _ "[j]"]) (simp add: bind_eq_Some_conv cong: option.case_cong)
qed

section \<open>Running what was captured\<close>

text \<open>From \<open>c\<close> to \<open>c'\<close>, instructions were captured that take \<open>R\<close> to \<open>R'\<close>.\<close>

definition runs :: "rctx \<Rightarrow> rctx \<Rightarrow> regs \<Rightarrow> regs \<Rightarrow> bool" where
  "runs c c' R R' \<longleftrightarrow> (\<exists>js. captured c c' js \<and> regExecs js R = Some R')"

lemma runs_refl [simp, intro]: "runs c c R R"
  unfolding runs_def by (intro exI [of _ "[]"]) simp

lemma runs_trans: "runs c c' R R' \<Longrightarrow> runs c' c'' R' R'' \<Longrightarrow> runs c c'' R R''"
  unfolding runs_def by (metis captured_trans regExecs_append bind.bind_lunit)

lemma runs_block: "runs c c' R R' \<Longrightarrow> currentCapBB (rc_r c') = currentCapBB (rc_r c)"
  and runs_es: "runs c c' R R' \<Longrightarrow> r_es (rc_r c') = r_es (rc_r c)"
  and runs_error: "runs c c' R R' \<Longrightarrow> rc_e c' = rc_e c"
  and runs_mem: "runs c c' R R' \<Longrightarrow> r_mem (rc_r c') = r_mem (rc_r c)"
  by (auto simp: runs_def captured_def)

text \<open>Values of operands do not change by capturing.\<close>

lemma runs_opVal: "runs c c' R R' \<Longrightarrow> opVal c' es p = opVal c es p"
  by (auto simp: runs_def captured_def opVal_def)

lemma capBinary_sticky:
  "capBinary c es it vt p q ad as = Some c' \<Longrightarrow> rc_e c' = None \<Longrightarrow> rc_e c = None"
  by (auto simp: capBinary_def bind_eq_Some_conv dest: capture_sticky)

lemma capBinary_runs:
  assumes "capBinary c es it vt p q ad as = Some c'" and "rc_e c' = None"
    and "currentCapBB (rc_r c) \<noteq> None" and "opIsReg p" and "\<not> opIsInd q" and "writesDst it"
    and "binExec it p q R = Some R'"
  shows "runs c c' R R'"
  using capBinary_exec [OF assms(1-6)] assms(7) unfolding runs_def by metis

lemma getImmOp_parts:
  assumes "getImmOp vt v = Some im"
  shows "\<not> opIsInd im" "\<not> opIsReg im" "oval im = v" "getImmOpType vt = Some (otype im)"
  using assms by (auto simp: getImmOp_def getImmOpType_def opIsInd_def opIsReg_def split: valtype.splits)

lemma wideReg_type: "wideReg vt p \<Longrightarrow> vt = VT_32 \<or> vt = VT_64"
  by (auto simp: wideReg_def)

lemma plainSrc_imm:
  assumes "getImmOp vt v = Some im" and "vt = VT_32 \<or> vt = VT_64"
  shows "plainSrc g vt im = Some (cutTo vt v)"
proof -
  have "\<not> wideReg vt im" using getImmOp_parts(2) [OF assms(1)] wideReg_isReg by blast
  then show ?thesis
    using assms by (auto simp: plainSrc_def immSrc_def getImmOp_def cutTo_sext cutTo_def)
qed

lemma binExec_load:
  assumes "getImmOp vt v = Some im" and "wideReg vt p"
  shows "binExec IT_MOV p im g = Some (g(ri (oreg p) := cutTo vt v))"
  using assms plainSrc_imm [OF assms(1) wideReg_type [OF assms(2)], of g] wideOf_Some [of p vt]
  by (simp add: binExec_def srcVal_def binFn_def putReg_def)

lemma capLoad_runs:
  assumes "capLoad c es vt p v a = Some c'" and "rc_e c' = None"
    and "currentCapBB (rc_r c) \<noteq> None" and "wideReg vt p"
  shows "runs c c' R (R(ri (oreg p) := cutTo vt v))" "rc_e c = None"
proof -
  obtain im where im: "getImmOp vt v = Some im" and b: "capBinary c es IT_MOV vt p im a False = Some c'"
    using assms(1) by (auto simp: capLoad_def bind_eq_Some_conv)
  show "runs c c' R (R(ri (oreg p) := cutTo vt v))"
    by (rule capBinary_runs [OF b assms(2,3) wideReg_isReg [OF assms(4)] getImmOp_parts(1) [OF im] _ binExec_load [OF im assms(4)]])
      (simp add: writesDst_def)
  show "rc_e c = None" by (rule capBinary_sticky [OF b assms(2)])
qed

section \<open>Values and writes of the emulator\<close>

lemma opVal_wide:
  assumes "opVal c es p = Some v" and "wideReg vt p"
  shows "ev_val v = cutTo vt (es_reg es (ri (oreg p)))" "ev_type v = vt" "ev_state v = reg_state es (ri (oreg p))"
  using assms by (auto simp: opVal_def getOpValue_def getRegOpValue_def wideReg_def cutTo_def
      bind_eq_Some_conv)

lemma opVal_imm:
  assumes "opVal c es p = Some v" and "opIsImm p"
  shows "ev_val v = oval p" "ev_state v = initMetaState CS_STATIC" "getImmOpType (ev_type v) = Some (otype p)"
  using assms by (auto simp: opVal_def getOpValue_def opIsImm_def staticEmuValue_def getImmOpType_def)

text \<open>The state after a register operand was set.\<close>

definition regSet :: "valtype \<Rightarrow> operand \<Rightarrow> emuvalue \<Rightarrow> emustate \<Rightarrow> emustate" where
  "regSet vt p v es = es\<lparr>es_reg := (es_reg es)(ri (oreg p) := cutTo vt (ev_val v)),
     reg_state := (reg_state es)(ri (oreg p) := ev_state v)\<rparr>"

lemma setDst_wide:
  assumes "setDst c es v p = Some c'" and "wideReg vt p"
  shows "c' = put_es (regSet vt p v es) c" "ev_type v = vt"
  using assms unfolding wideReg_def
  by (elim conjE disjE; clarsimp simp: setDst_def setOpValue_def setOpState_def setRegOpValue_def
      opValType_def bind_eq_Some_conv cutTo_def regSet_def put_es_def put_mem_def with_r_def)+

text \<open>A write keeps the relation if the values agree as far as they are known or used.\<close>

lemma residual_regSet:
  assumes "residual es M R"
    and "msIsStatic (ev_state v) \<Longrightarrow> cutTo vt (ev_val v) = cutTo vt x"
    and "\<not> msIsStatic (ev_state v) \<Longrightarrow> cState (ev_state v) \<noteq> CS_DEAD \<Longrightarrow> R' (ri (oreg p)) = cutTo vt x"
    and "\<And>k. k \<noteq> ri (oreg p) \<Longrightarrow> R' k = R k"
  shows "residual (regSet vt p v es) (putReg vt p x M) R'"
  using assms by (auto simp: residual_def regSet_def putReg_def)

lemma srcVal_cong:
  assumes "opIsReg p \<Longrightarrow> g (ri (oreg p)) = h (ri (oreg p))"
  shows "srcVal g it vt p = srcVal h it vt p"
proof (cases "opIsReg p")
  case True
  then show ?thesis using assms by (auto simp: srcVal_def countSrc_def signedSrc_def plainSrc_def)
next
  case False
  then have "\<not> wideReg w p" "\<not> lowByteReg p" "otype p \<noteq> OT_Reg16" for w
    using wideReg_isReg lowByteReg_isReg notReg by blast+
  then show ?thesis by (simp add: srcVal_def countSrc_def signedSrc_def plainSrc_def)
qed

lemma binExec_wide:
  assumes "wideReg vt p"
  shows "binExec it p q g = do {
    b \<leftarrow> srcVal g it vt q;
    x \<leftarrow> binFn it vt (cutTo vt (g (ri (oreg p)))) b;
    Some (g(ri (oreg p) := cutTo vt x)) }"
  using assms wideOf_Some [of p vt] by (simp add: binExec_def putReg_def)

section \<open>Binary operations\<close>

abbreviation "arithTypes \<equiv> {IT_ADD, IT_SUB, IT_IMUL, IT_AND, IT_OR, IT_XOR, IT_SHL, IT_SHR, IT_SAR}"

text \<open>A source operand of an operation: an immediate, or a register that is read as a whole or
  as count of a shift.\<close>

definition gpSource :: "instrtype \<Rightarrow> valtype \<Rightarrow> operand \<Rightarrow> bool" where
  "gpSource it vt p \<longleftrightarrow> (\<exists>g b. srcVal g it vt p = Some b)"

text \<open>The immediate that stands for a known source.\<close>

lemma knownSource:
  assumes v: "opVal c es p = Some v" "msIsStatic (ev_state v)" and r: "residual es M R"
    and b: "srcVal M it vt p = Some b" and it: "it \<in> arithTypes" and vt: "vt = VT_32 \<or> vt = VT_64"
    and im: "getImmOp (ev_type v) (ev_val v) = Some im"
  shows "srcVal g it vt im = Some b"
proof (cases "opIsImm p")
  case True
  have i: "opIsImm im" "otype im = otype p" "oval im = oval p"
    using opVal_imm [OF v(1) True] getImmOp_parts(3,4) [OF im] True by (simp_all add: opIsImm_def)
  then have "sameParts p im" using op_kinds [of p] True by (auto simp: sameParts_def)
  then have "srcVal g it vt im = srcVal g it vt p" by (rule sameParts_srcVal)
  moreover have "srcVal g it vt p = srcVal M it vt p"
    using op_kinds(1) [of p] True by (intro srcVal_cong) blast
  ultimately show ?thesis using b by simp
next
  case False
  then have imm: "immSrc w p = None" "otype p \<noteq> OT_Imm8" for w using notImm [OF False] by (simp_all add: immSrc_def)
  show ?thesis
  proof (cases "it \<in> shiftTypes")
    case True
    then have l: "lowByteReg p" "ri (oreg p) = RI_C" "b = trunc8 (M RI_C)"
      using b imm by (auto simp: srcVal_def countSrc_def split: if_splits)
    then have "ev_val v = trunc8 (es_reg es RI_C)" "ev_type v = VT_8" "ev_state v = reg_state es RI_C"
      using v(1) by (auto simp: opVal_def getOpValue_def getRegOpValue_def lowByteReg_def bind_eq_Some_conv)
    then show ?thesis using True im l(3) residual_known [OF r] v(2)
      by (auto simp: srcVal_def countSrc_def getImmOp_def)
  next
    case False
    then have w: "wideReg vt p" "b = cutTo vt (M (ri (oreg p)))"
      using b it imm by (auto simp: srcVal_def plainSrc_def split: if_splits)
    note vv = opVal_wide [OF v(1) w(1)]
    have "plainSrc g vt im = Some (cutTo vt (ev_val v))"
      using plainSrc_imm [of vt "ev_val v" im g] im vv(2) vt by simp
    then show ?thesis using False it vv v(2) w residual_known [OF r, of "ri (oreg p)"]
      by (auto simp: srcVal_def)
  qed
qed

text \<open>A source that changes nothing. 32 bit operations would clear the high half of the
  destination.\<close>

lemma neutralSource:
  assumes v: "opVal c es p = Some v" "msIsStatic (ev_state v)" and r: "residual es M R"
    and b: "srcVal M it VT_64 p = Some b" and it: "it \<in> arithTypes"
    and n: "neutralSrc it (ev_val v)"
  shows "binFn it VT_64 a b = Some a"
proof -
  have "b = sext8 (ev_val v) \<or> b = sext32 (ev_val v) \<or> b = ev_val v"
  proof (cases "opIsImm p")
    case True
    then have "\<not> wideReg VT_64 p" "\<not> lowByteReg p" using op_kinds wideReg_isReg lowByteReg_isReg by blast+
    then show ?thesis using b opVal_imm [OF v(1) True] it
      by (auto simp: srcVal_def plainSrc_def immSrc_def countSrc_def cutTo_sext split: if_splits)
  next
    case False
    then have imm: "immSrc w p = None" "otype p \<noteq> OT_Imm8" for w using notImm [OF False] by (simp_all add: immSrc_def)
    show ?thesis
    proof (cases "it \<in> shiftTypes")
      case True
      then have l: "lowByteReg p" "ri (oreg p) = RI_C" "b = trunc8 (M RI_C)"
        using b imm by (auto simp: srcVal_def countSrc_def split: if_splits)
      then have "ev_val v = trunc8 (es_reg es RI_C)" "ev_state v = reg_state es RI_C"
        using v(1) by (auto simp: opVal_def getOpValue_def getRegOpValue_def lowByteReg_def bind_eq_Some_conv)
      then show ?thesis using l(3) residual_known [OF r] v(2) by auto
    next
      case False
      then have w: "wideReg VT_64 p" "b = cutTo VT_64 (M (ri (oreg p)))"
        using b it imm by (auto simp: srcVal_def plainSrc_def split: if_splits)
      then show ?thesis using opVal_wide [OF v(1) w(1)] residual_known [OF r, of "ri (oreg p)"] v(2)
        by auto
    qed
  qed
  moreover have "sext8 x = x \<and> sext32 x = x" if "x = 0 \<or> x = 1 \<or> x = -1" for x :: u64
    using that by (elim disjE) (simp_all add: sext_self)
  moreover have "ev_val v = 0 \<or> ev_val v = 1 \<or> ev_val v = -1" using n unfolding neutralSrc_def by blast
  ultimately have "b = ev_val v" by metis
  then show ?thesis using n unfolding neutralSrc_def
    by (elim disjE conjE) (simp_all add: binFn_def shiftCount_def)
qed

lemma captureBinarySrc_runs:
  assumes c: "captureBinarySrc c i es res = Some c'" "rc_e c' = None" "currentCapBB (rc_r c) \<noteq> None"
    and i: "itype i \<in> arithTypes" "wideReg vt (idst i)" "ev_type res = vt"
    and r: "residual es M R0" and v: "opVal c es (isrc i) = Some v"
    and b: "srcVal M (itype i) vt (isrc i) = Some b"
    and n: "msIsStatic (ev_state v) \<and> neutralSrc (itype i) (ev_val v) \<Longrightarrow> vt = VT_64"
    and src: "\<not> msIsStatic (ev_state v) \<Longrightarrow> srcVal R (itype i) vt (isrc i) = Some b"
    and x: "binFn (itype i) vt (cutTo vt (R (ri (oreg (idst i))))) b = Some x"
  shows "\<exists>R'. runs c c' R R' \<and> R' = R(ri (oreg (idst i)) := cutTo vt x)"
proof -
  have p: "opIsReg (idst i)" and lea: "writesDst (itype i)" using wideReg_isReg [OF i(2)] i(1) by (auto simp: writesDst_def)
  have vt: "vt = VT_32 \<or> vt = VT_64" by (rule wideReg_type [OF i(2)])
  have ind: "\<not> opIsInd (isrc i)"
    using b op_kinds [of "isrc i"] wideReg_isReg [of vt "isrc i"] wideReg_isReg [of VT_32 "isrc i"]
      lowByteReg_isReg [of "isrc i"] i(1)
    by (auto simp: srcVal_def countSrc_def plainSrc_def immSrc_def opIsInd_def split: if_splits)
  let ?R = "R(ri (oreg (idst i)) := cutTo vt x)"
  consider "msIsStatic (ev_state v)" "neutralSrc (itype i) (ev_val v)"
    | "msIsStatic (ev_state v)" "\<not> neutralSrc (itype i) (ev_val v)" | "\<not> msIsStatic (ev_state v)" by blast
  then show ?thesis
  proof cases
    case 1
    then have c': "c' = c" using c(1) v by (simp add: captureBinarySrc_def)
    have vt64: "vt = VT_64" using n 1 by blast
    have "x = R (ri (oreg (idst i)))"
      using neutralSource [OF v 1(1) r b [unfolded vt64] i(1) 1(2)] x by (simp add: vt64 cutTo_sext)
    then show ?thesis by (simp add: c' vt64 cutTo_sext)
  next
    case 2
    obtain im where im: "getImmOp (ev_type v) (ev_val v) = Some im"
      and k: "capBinary c es (itype i) (ev_type res) (idst i) im True True = Some c'"
      using c(1) v 2 by (auto simp: captureBinarySrc_def bind_eq_Some_conv)
    have "binExec (itype i) (idst i) im R = Some ?R"
      using x knownSource [OF v 2(1) r b i(1) vt im] by (simp add: binExec_wide [OF i(2)])
    then show ?thesis
      using capBinary_runs [OF k c(2,3) p getImmOp_parts(1) [OF im] lea] by blast
  next
    case 3
    have k: "capBinary c es (itype i) (ev_type res) (idst i) (isrc i) True True = Some c'"
      using c(1) v 3 by (simp add: captureBinarySrc_def)
    have "binExec (itype i) (idst i) (isrc i) R = Some ?R"
      using x src [OF 3] by (simp add: binExec_wide [OF i(2)])
    then show ?thesis using capBinary_runs [OF k c(2,3) p ind lea] by blast
  qed
qed

lemma captureBinarySrc_sticky:
  "captureBinarySrc c i es res = Some c' \<Longrightarrow> rc_e c' = None \<Longrightarrow> rc_e c = None"
  by (auto simp: captureBinarySrc_def bind_eq_Some_conv dest: capBinary_sticky split: if_splits)

lemma opStateIsTracked_wide:
  assumes "wideReg vt p"
  shows "opStateIsTracked es p = Some True"
  using assms op_kinds(1) [OF wideReg_isReg [OF assms]]
  by (auto simp: opStateIsTracked_def opIsGPReg_def regIsGP_def regTypeIsGP_def wideReg_def opIsReg_def)

text \<open>What the emulator knows about an operation: the states of its operands and result.\<close>

definition opStates :: "rctx \<Rightarrow> emustate \<Rightarrow> instr \<Rightarrow> emuvalue \<Rightarrow> bool" where
  "opStates c es i res \<longleftrightarrow> (\<forall>v1 v2. opVal c es (idst i) = Some v1 \<longrightarrow> opVal c es (isrc i) = Some v2 \<longrightarrow>
     \<not> msIsStatic (ev_state res) \<longrightarrow> cState (ev_state res) \<noteq> CS_DEAD \<longrightarrow>
       cState (ev_state v1) \<noteq> CS_DEAD \<and> cState (ev_state v2) \<noteq> CS_DEAD
       \<and> \<not> (msIsStatic (ev_state v1) \<and> msIsStatic (ev_state v2)))"

text \<open>An operation of 32 bits whose source is known to change nothing: the code captures
  nothing for it, although the processor clears the high half of the destination.\<close>

definition dropsClear :: "rctx \<Rightarrow> emustate \<Rightarrow> instr \<Rightarrow> bool" where
  "dropsClear c es i \<longleftrightarrow> (\<exists>v. opVal c es (isrc i) = Some v \<and> msIsStatic (ev_state v)
     \<and> neutralSrc (itype i) (ev_val v)) \<and> otype (idst i) \<noteq> OT_Reg64"

lemma source_state:
  assumes "opVal c es p = Some v" and "srcVal M it vt p = Some b" and "opIsReg p"
  shows "ev_state v = reg_state es (ri (oreg p))"
  using assms op_kinds(1) [OF assms(3)]
  by (auto simp: opVal_def getOpValue_def getRegOpValue_def opIsReg_def bind_eq_Some_conv
      srcVal_def countSrc_def signedSrc_def plainSrc_def immSrc_def lowByteReg_def wideReg_def split: if_splits)

lemma source_unknown:
  assumes v: "opVal c es p = Some v" and r: "residual es M R" and b: "srcVal M it vt p = Some b"
    and u: "\<not> msIsStatic (ev_state v)" "cState (ev_state v) \<noteq> CS_DEAD"
  shows "srcVal R it vt p = Some b" "opIsReg p \<Longrightarrow> R (ri (oreg p)) = M (ri (oreg p))"
proof -
  show 1: "opIsReg p \<Longrightarrow> R (ri (oreg p)) = M (ri (oreg p))"
    using source_state [OF v b] residual_unknown [OF r] u by simp
  show "srcVal R it vt p = Some b" using srcVal_cong [of p R M it vt] 1 b by simp
qed

lemma captureBinaryOp_sound:
  assumes c: "captureBinaryOp c i es res = Some (res', c')" "rc_e c' = None" "currentCapBB (rc_r c) \<noteq> None"
    and i: "itype i \<in> arithTypes" "wideReg vt (idst i)" "ev_type res = vt"
    and r: "residual es M R" and v1: "opVal c es (idst i) = Some v1" and v2: "opVal c es (isrc i) = Some v2"
    and b: "srcVal M (itype i) vt (isrc i) = Some b" and n: "\<not> dropsClear c es i"
    and x: "binFn (itype i) vt (cutTo vt (M (ri (oreg (idst i))))) b = Some x"
    and st: "opStates c es i res" and known: "msIsStatic (ev_state res) \<Longrightarrow> cutTo vt (ev_val res) = cutTo vt x"
  shows "ev_val res' = ev_val res \<and> ev_type res' = vt \<and> (\<exists>R'. runs c c' R R' \<and> (\<forall>k. k \<noteq> ri (oreg (idst i)) \<longrightarrow> R' k = R k)
    \<and> (msIsStatic (ev_state res') \<longrightarrow> cutTo vt (ev_val res') = cutTo vt x)
    \<and> (\<not> msIsStatic (ev_state res') \<and> cState (ev_state res') \<noteq> CS_DEAD \<longrightarrow> R' (ri (oreg (idst i))) = cutTo vt x))"
proof -
  let ?k = "ri (oreg (idst i))"
  have p: "opIsReg (idst i)" and lea: "writesDst IT_MOV" using wideReg_isReg [OF i(2)] by (auto simp: writesDst_def)
  note tr = opStateIsTracked_wide [OF i(2)]
  note val1 = opVal_wide [OF v1 i(2)]
  have ind: "\<not> opIsInd (isrc i)"
    using b op_kinds [of "isrc i"] wideReg_isReg [of vt "isrc i"] wideReg_isReg [of VT_32 "isrc i"]
      lowByteReg_isReg [of "isrc i"] i(1)
    by (auto simp: srcVal_def countSrc_def plainSrc_def immSrc_def opIsInd_def split: if_splits)
  have n64: "vt = VT_64" if "msIsStatic (ev_state v2) \<and> neutralSrc (itype i) (ev_val v2)"
    using n that v2 i(2) by (auto simp: dropsClear_def wideReg_def)
  consider (dead) "cState (ev_state res) = CS_DEAD" | (known) "msIsStatic (ev_state res)" "cState (ev_state res) \<noteq> CS_DEAD"
    | (unk) "\<not> msIsStatic (ev_state res)" "cState (ev_state res) \<noteq> CS_DEAD" by blast
  then show ?thesis
  proof cases
    case dead
    then have "res' = res" "c' = c" using c(1) by (simp_all add: captureBinaryOp_def)
    then show ?thesis using dead i(3) by (auto simp: msIsStatic_def csIsStatic_def)
  next
    case known
    obtain f where f: "forceUnknown c es = Some f" using c(1) known by (auto simp: captureBinaryOp_def bind_eq_Some_conv)
    show ?thesis
    proof (cases f)
      case False
      then have "res' = res" "c' = c" using c(1) known f tr by (simp_all add: captureBinaryOp_def)
      then show ?thesis using known assms(14) i(3) by (auto simp: cutTo_def)
    next
      case True
      then have "capLoad c es vt (idst i) (ev_val res) True = Some c'"
        and res': "res' = res\<lparr>ev_state := initMetaState CS_DYNAMIC\<rparr>"
        using c(1) known f i(3) by (auto simp: captureBinaryOp_def bind_eq_Some_conv)
      from capLoad_runs(1) [OF this(1) c(2,3) i(2), of R] show ?thesis
        using known assms(14) i(3) by (intro conjI exI [of _ "R(?k := cutTo vt (ev_val res))"])
          (simp_all add: res' msIsStatic_def csIsStatic_def initMetaState_def)
    qed
  next
    case unk
    have states: "cState (ev_state v1) \<noteq> CS_DEAD" "cState (ev_state v2) \<noteq> CS_DEAD"
      "\<not> (msIsStatic (ev_state v1) \<and> msIsStatic (ev_state v2))"
      using st unk v1 v2 unfolding opStates_def by blast+
    have src: "srcVal R (itype i) vt (isrc i) = Some b" if "\<not> msIsStatic (ev_state v2)"
      using source_unknown(1) [OF v2 r b that states(2)] .
    have res': "res' = res"
      using c(1) unk v1 tr by (auto simp: captureBinaryOp_def bind_eq_Some_conv split: if_splits)
    have "\<exists>R'. runs c c' R R' \<and> R' = R(?k := cutTo vt x)"
    proof (cases "msIsStatic (ev_state v1)")
      case False
      then have "captureBinarySrc c i es res = Some c'"
        using c(1) unk v1 tr by (auto simp: captureBinaryOp_def bind_eq_Some_conv)
      moreover have "R ?k = M ?k" using residual_unknown [OF r, of ?k] val1(3) False states(1) by simp
      ultimately show ?thesis
        using captureBinarySrc_runs [OF _ c(2,3) i r v2 b n64 src] x by simp
    next
      case st1: True
      then have ns: "\<not> msIsStatic (ev_state v2)" using states(3) by blast
      have k1: "ev_val v1 = cutTo vt (M ?k)"
        using val1 residual_known [OF r, of ?k] st1 by simp
      let ?triv = "itype i = IT_ADD \<and> ev_val v1 = 0 \<or> itype i = IT_IMUL \<and> ev_val v1 = 1"
      show ?thesis
      proof (cases ?triv)
        case True
        then have m: "capBinary c es IT_MOV vt (idst i) (isrc i) True True = Some c'"
          using c(1) unk v1 tr st1 val1(2) by (auto simp: captureBinaryOp_def bind_eq_Some_conv)
        have "x = b" using x True k1 by (auto simp: binFn_def)
        moreover have "srcVal R IT_MOV vt (isrc i) = Some b"
          using src [OF ns] True by (auto simp: srcVal_def)
        ultimately have "binExec IT_MOV (idst i) (isrc i) R = Some (R(?k := cutTo vt x))"
          by (simp add: binExec_wide [OF i(2)] binFn_def)
        then show ?thesis using capBinary_runs [OF m c(2,3) p ind lea] by blast
      next
        case False
        then obtain c1 where l: "capLoad c es vt (idst i) (ev_val v1) False = Some c1"
          and s: "captureBinarySrc c1 i es res = Some c'"
          using c(1) unk v1 tr st1 val1(2) by (auto simp: captureBinaryOp_def bind_eq_Some_conv)
        let ?R = "R(?k := cutTo vt (ev_val v1))"
        have e1: "rc_e c1 = None" by (rule captureBinarySrc_sticky [OF s c(2)])
        have run1: "runs c c1 R ?R" by (rule capLoad_runs(1) [OF l e1 c(3) i(2)])
        have "opIsReg (isrc i) \<Longrightarrow> ri (oreg (isrc i)) \<noteq> ?k"
          using source_state [OF v2 b] val1(3) st1 ns by metis
        then have "srcVal ?R (itype i) vt (isrc i) = Some b"
          using src [OF ns] by (subst srcVal_cong [where h = R]) auto
        then have "\<exists>R'. runs c1 c' ?R R' \<and> R' = ?R(?k := cutTo vt x)"
          using captureBinarySrc_runs [where R = ?R and v = v2 and b = b and x = x, OF s c(2) _ i r]
            runs_opVal [OF run1] runs_block [OF run1] c(3) v2 b ns x k1 by simp
        then show ?thesis using runs_trans [OF run1] by auto
      qed
    qed
    then show ?thesis using res' unk i(3) by auto
  qed
qed

text \<open>The outcome of an instruction: what was captured keeps the relation.\<close>

definition keeps :: "rctx \<Rightarrow> rctx \<Rightarrow> regs \<Rightarrow> regs \<Rightarrow> bool" where
  "keeps c c' M' R \<longleftrightarrow> (\<exists>es' js R'. r_es (rc_r c') = Some es'
     \<and> capInstr (rc_r c') = capInstr (rc_r c) @ js \<and> currentCapBB (rc_r c') = currentCapBB (rc_r c)
     \<and> regExecs js R = Some R' \<and> residual es' M' R')"

lemma keeps_runs:
  assumes "runs c c1 R R'" and "residual es' M' R'"
  shows "keeps c (put_es es' c1) M' R"
  using assms unfolding keeps_def runs_def captured_def
  by (auto simp: put_es_def with_r_def)

text \<open>States with the same registers.\<close>

definition sameRegs :: "emustate \<Rightarrow> emustate \<Rightarrow> bool" where
  "sameRegs es es' \<longleftrightarrow> es_reg es' = es_reg es \<and> reg_state es' = reg_state es"

lemma residual_sameRegs: "sameRegs es es' \<Longrightarrow> residual es' M R = residual es M R"
  by (simp add: sameRegs_def residual_def)

lemma opVal_sameRegs:
  assumes "sameRegs es es'" and "\<not> opIsInd p"
  shows "opVal (put_es es' c) es' p = opVal c es p"
  using assms by (auto simp: opVal_def getOpValue_def getRegOpValue_def sameRegs_def opIsInd_def split: optype.split)

lemma put_es_simps [simp]: "currentCapBB (rc_r (put_es es c)) = currentCapBB (rc_r c)"
  "capInstr (rc_r (put_es es c)) = capInstr (rc_r c)" "rc_e (put_es es c) = rc_e c"
  "r_es (rc_r (put_es es c)) = Some es"
  by (simp_all add: put_es_def with_r_def)

lemma keeps_put_es [simp]: "keeps (put_es es c) c' M' R = keeps c c' M' R"
  by (simp add: keeps_def)

lemma source_notInd:
  assumes "srcVal M it vt p = Some b"
  shows "\<not> opIsInd p"
proof (cases "opIsReg p \<or> opIsImm p")
  case True
  then show ?thesis using op_kinds [of p] by blast
next
  case False
  then have "\<not> wideReg w p" "\<not> lowByteReg p" "otype p \<noteq> OT_Reg16" "otype p \<noteq> OT_Imm8"
    "otype p \<noteq> OT_Imm32" "otype p \<noteq> OT_Imm64" for w
    using wideReg_isReg lowByteReg_isReg notReg notImm by blast+
  then show ?thesis using assms by (auto simp: srcVal_def countSrc_def signedSrc_def plainSrc_def immSrc_def split: if_splits)
qed

lemma finishBinary_sound:
  assumes f: "finishBinary (put_es es1 c) i es1 res = Some c'" "rc_e c' = None" "currentCapBB (rc_r c) \<noteq> None"
    and s: "sameRegs es es1" and i: "itype i \<in> arithTypes" "wideReg vt (idst i)" "ev_type res = vt"
    and r: "residual es M R" and v1: "opVal c es (idst i) = Some v1" and v2: "opVal c es (isrc i) = Some v2"
    and n: "\<not> dropsClear c es i" and m: "binExec (itype i) (idst i) (isrc i) M = Some M'"
    and st: "opStates c es i res"
    and known: "\<And>b x. srcVal M (itype i) vt (isrc i) = Some b \<Longrightarrow>
      binFn (itype i) vt (cutTo vt (M (ri (oreg (idst i))))) b = Some x \<Longrightarrow>
      msIsStatic (ev_state res) \<Longrightarrow> cutTo vt (ev_val res) = cutTo vt x"
  shows "keeps c c' M' R"
proof -
  let ?c = "put_es es1 c"
  obtain res' c1 where b: "captureBinaryOp ?c i es1 res = Some (res', c1)" and d: "setDst c1 es1 res' (idst i) = Some c'"
    using f(1) by (auto simp: finishBinary_def bind_eq_Some_conv)
  note d' = setDst_wide [OF d i(2)]
  obtain y x where yx: "srcVal M (itype i) vt (isrc i) = Some y"
    "binFn (itype i) vt (cutTo vt (M (ri (oreg (idst i))))) y = Some x" "M' = putReg vt (idst i) x M"
    using m by (auto simp: binExec_def bind_eq_Some_conv i(2) wideOf_Some [THEN iffD2, OF i(2)])
  have ind: "\<not> opIsInd (isrc i)" "\<not> opIsInd (idst i)"
    using source_notInd [OF yx(1)] op_kinds(2) [OF wideReg_isReg [OF i(2)]] by blast+
  have ov: "opVal ?c es1 (idst i) = opVal c es (idst i)" "opVal ?c es1 (isrc i) = opVal c es (isrc i)"
    using opVal_sameRegs [OF s] ind by blast+
  have e: "rc_e c1 = None" using f(2) d'(1) by simp
  have "residual es1 M R" using r residual_sameRegs [OF s] by simp
  moreover have "\<not> dropsClear ?c es1 i" using n by (simp add: dropsClear_def ov)
  moreover have "opStates ?c es1 i res" using st by (simp add: opStates_def ov)
  ultimately obtain R' where "runs ?c c1 R R'" and k: "\<forall>k. k \<noteq> ri (oreg (idst i)) \<longrightarrow> R' k = R k"
    "msIsStatic (ev_state res') \<longrightarrow> cutTo vt (ev_val res') = cutTo vt x"
    "\<not> msIsStatic (ev_state res') \<and> cState (ev_state res') \<noteq> CS_DEAD \<longrightarrow> R' (ri (oreg (idst i))) = cutTo vt x"
    using captureBinaryOp_sound [OF b e _ i _ _ _ yx(1) _ yx(2) _ known [OF yx(1,2)], of R v1 v2] f(3) v1 v2 ov
    by auto
  moreover have "residual (regSet vt (idst i) res' es1) M' R'"
    unfolding yx(3) using k by (intro residual_regSet [OF \<open>residual es1 M R\<close>]) auto
  ultimately have "keeps ?c c' M' R" unfolding d'(1) by (intro keeps_runs)
  then show ?thesis by simp
qed

section \<open>The operations\<close>

lemma combine_states:
  assumes "cState (ev_state res) = combineState (cState (ev_state v1)) (cState (ev_state v2)) False"
  shows "msIsStatic (ev_state res) \<longleftrightarrow> msIsStatic (ev_state v1) \<and> msIsStatic (ev_state v2)"
    "cState (ev_state res) = CS_DEAD \<longleftrightarrow> cState (ev_state v1) = CS_DEAD \<or> cState (ev_state v2) = CS_DEAD"
  using assms by (auto simp: combineState_def msIsStatic_def csIsStatic_def split: if_splits)

lemma opStates_combine:
  assumes "opVal c es (idst i) = Some v1" and "opVal c es (isrc i) = Some v2"
    and "cState (ev_state res) = combineState (cState (ev_state v1)) (cState (ev_state v2)) False"
  shows "opStates c es i res"
  using combine_states [OF assms(3)] assms(1,2) by (auto simp: opStates_def)

text \<open>The value of a known source, as the operations extend it.\<close>

definition sourceVal :: "emuvalue \<Rightarrow> valtype \<Rightarrow> operand \<Rightarrow> u64" where
  "sourceVal v vt p = (if otype p = OT_Imm8 then sext8 (ev_val v)
     else if otype p = OT_Imm32 then sext32 (ev_val v) else ev_val v)"

lemma sourceVal_known:
  assumes v: "opVal c es p = Some v" "msIsStatic (ev_state v)" and r: "residual es M R"
    and b: "plainSrc M vt p = Some b"
  shows "cutTo vt (sourceVal v vt p) = b"
proof (cases "opIsImm p")
  case True
  then have "\<not> wideReg vt p" using op_kinds(1) wideReg_isReg by blast
  then show ?thesis using b opVal_imm [OF v(1) True]
    by (auto simp: plainSrc_def immSrc_def sourceVal_def cutTo_def split: if_splits)
next
  case False
  then have "immSrc vt p = None" "otype p \<noteq> OT_Imm8" "otype p \<noteq> OT_Imm32" using notImm [OF False] by (simp_all add: immSrc_def)
  moreover from this have w: "wideReg vt p" using b by (auto simp: plainSrc_def split: if_splits)
  ultimately show ?thesis
    using b opVal_wide [OF v(1) w] residual_known [OF r, of "ri (oreg p)"] v(2)
    by (auto simp: plainSrc_def sourceVal_def)
qed

lemma setFlags_sameRegs:
  "setFlagsAdd es v1 v2 = Some es' \<Longrightarrow> sameRegs es es'"
  "setFlagsSub es v1 v2 = Some (st, es') \<Longrightarrow> sameRegs es es'"
  "setFlagsBit es it v1 v2 sm = Some (st, es') \<Longrightarrow> sameRegs es es'"
  by (auto simp: setFlagsAdd_def setFlagsSub_def setFlagsBit_def bind_eq_Some_conv sameRegs_def
      setFlagsState_def putFlags_def Let_def)

lemma ext_source:
  assumes v: "opVal c es (isrc i) = Some v" and w: "w = extendImm8 i vt v \<or> w = extendImm32 i vt (extendImm8 i vt v)"
    and t: "ev_type w = vt"
  shows "cutTo vt (ev_val w) = cutTo vt (sourceVal v vt (isrc i))" "ev_state w = ev_state v"
proof -
  show "ev_state w = ev_state v" using w by (auto simp: extendImm8_def extendImm32_def)
  show "cutTo vt (ev_val w) = cutTo vt (sourceVal v vt (isrc i))"
  proof (cases "otype (isrc i) = OT_Imm32")
    case True
    then have "ev_type v = VT_32" using opVal_imm(3) [OF v] by (auto simp: opIsImm_def getImmOpType_def split: valtype.splits)
    then show ?thesis using w t True
      by (auto simp: extendImm8_def extendImm32_def sourceVal_def cutTo_sext split: if_splits)
  next
    case False
    then show ?thesis using w by (auto simp: extendImm8_def extendImm32_def sourceVal_def)
  qed
qed

lemma plainArith: "it \<in> {IT_ADD, IT_SUB, IT_IMUL, IT_AND, IT_OR, IT_XOR} \<Longrightarrow> srcVal g it vt p = plainSrc g vt p"
  by (auto simp: srcVal_def)

lemma cutTo_ops:
  "cutTo vt (cutTo vt a + cutTo vt b) = cutTo vt (a + b)" "cutTo vt (cutTo vt a - cutTo vt b) = cutTo vt (a - b)"
  "cutTo vt (cutTo vt a * cutTo vt b) = cutTo vt (a * b)"
  by (simp_all add: cutTo_def trunc32_ops)

lemma cutTo_bitops:
  "cutTo vt (a AND b) = cutTo vt a AND cutTo vt b" "cutTo vt (a OR b) = cutTo vt a OR cutTo vt b"
  "cutTo vt (a XOR b) = cutTo vt a XOR cutTo vt b"
  by (simp_all add: cutTo_def trunc32_bitops)

lemma opValType_wide: "wideReg vt p \<Longrightarrow> opValType p = Some vt"
  by (auto simp: wideReg_def opValType_def)

lemma emuVal_simps [simp]:
  "ev_val (emuVal v t cs) = v" "ev_type (emuVal v t cs) = t" "cState (ev_state (emuVal v t cs)) = cs"
  by (simp_all add: emuVal_def initMetaState_def)

text \<open>The known operands of an operation.\<close>

lemma known_operands:
  assumes r: "residual es M R" and v1: "opVal c es p = Some v1" "wideReg vt p" "msIsStatic (ev_state v1)"
  shows "ev_val v1 = cutTo vt (M (ri (oreg p)))"
  using opVal_wide [OF v1(1,2)] v1(3) residual_known [OF r] by simp

lemma known_source:
  assumes r: "residual es M R" and v: "opVal c es (isrc i) = Some v"
    and w: "w = extendImm8 i vt v \<or> w = extendImm32 i vt (extendImm8 i vt v)" "ev_type w = vt"
    and st: "msIsStatic (ev_state w)" and b: "plainSrc M vt (isrc i) = Some b"
  shows "cutTo vt (ev_val w) = b"
proof -
  have "ev_state w = ev_state v" by (rule ext_source(2) [OF v w])
  then show ?thesis using ext_source(1) [OF v w] sourceVal_known [OF v _ r b] st by simp
qed

lemma combined_sound:
  assumes fin: "finishBinary (put_es es1 c) i es1
      (emuVal val vt (combineState (cState (ev_state v1)) (cState (ev_state v2)) False)) = Some c'"
    and e: "rc_e c' = None" "currentCapBB (rc_r c) \<noteq> None" and s: "sameRegs es es1"
    and i: "itype i \<in> arithTypes" and vt: "wideReg vt (idst i)" and r: "residual es M R"
    and v1: "opVal c es (idst i) = Some v1" and v2: "opVal c es (isrc i) = Some v2"
    and n: "\<not> dropsClear c es i" and m: "binExec (itype i) (idst i) (isrc i) M = Some M'"
    and known: "\<And>b x. srcVal M (itype i) vt (isrc i) = Some b \<Longrightarrow> binFn (itype i) vt (ev_val v1) b = Some x \<Longrightarrow>
      msIsStatic (ev_state v2) \<Longrightarrow> cutTo vt (ev_val v1) = ev_val v1 \<Longrightarrow> cutTo vt val = cutTo vt x"
  shows "keeps c c' M' R"
proof (rule finishBinary_sound [OF fin e s i vt _ r v1 v2 n m])
  let ?res = "emuVal val vt (combineState (cState (ev_state v1)) (cState (ev_state v2)) False)"
  show "opStates c es i ?res" by (rule opStates_combine [OF v1 v2]) simp
  fix b x assume b: "srcVal M (itype i) vt (isrc i) = Some b" "msIsStatic (ev_state ?res)"
    and x: "binFn (itype i) vt (cutTo vt (M (ri (oreg (idst i))))) b = Some x"
  have "msIsStatic (ev_state v1)" "msIsStatic (ev_state v2)" using combine_states(1) [of ?res v1 v2] b(2) by simp_all
  moreover from this have "ev_val v1 = cutTo vt (M (ri (oreg (idst i))))" using known_operands [OF r v1 vt] by simp
  ultimately show "cutTo vt (ev_val ?res) = cutTo vt x" using known [OF b(1)] x by simp
qed simp

lemma emuAddSub_sound:
  assumes e: "rc_e c' = None" "currentCapBB (rc_r c) \<noteq> None" "r_es (rc_r c) = Some es"
    and i: "itype i = IT_ADD \<and> emuAdd c i = Some c' \<or> itype i = IT_SUB \<and> emuSub c i = Some c'"
    and r: "residual es M R" and n: "\<not> dropsClear c es i"
    and m: "binExec (itype i) (idst i) (isrc i) M = Some M'"
  shows "keeps c c' M' R"
proof -
  obtain vt where vt: "wideReg vt (idst i)" using m by (auto simp: binExec_def bind_eq_Some_conv wideOf_Some)
  let ?op = "\<lambda>a b. if itype i = IT_ADD then a + b else a - b"
  obtain v1 v2 w es1 where v1: "opVal c es (idst i) = Some v1" and v2: "opVal c es (isrc i) = Some v2"
    and w: "w = extendImm8 i vt v2 \<or> w = extendImm32 i vt (extendImm8 i vt v2)"
    and f: "sameRegs es es1" "ev_type w = ev_type v1"
    and fin: "finishBinary (put_es es1 c) i es1 (emuVal (cutTo vt (?op (ev_val v1) (ev_val w))) vt
      (combineState (cState (ev_state v1)) (cState (ev_state w)) False)) = Some c'"
    using i
  proof (elim disjE conjE)
    assume a: "itype i = IT_ADD" "emuAdd c i = Some c'"
    obtain v1 v2 es1 where "opVal c es (idst i) = Some v1" "opVal c es (isrc i) = Some v2"
      "setFlagsAdd es v1 (extendImm8 i vt v2) = Some es1"
      "finishBinary (put_es es1 c) i es1 (emuVal (cutTo vt (ev_val v1 + ev_val (extendImm8 i vt v2))) vt
        (combineState (cState (ev_state v1)) (cState (ev_state (extendImm8 i vt v2))) False)) = Some c'"
      using a(2) e(3) wideReg_type [OF vt]
      by (auto simp: emuAdd_def bind_eq_Some_conv opValType_wide [OF vt] Let_def cutTo_def)
    then show thesis using that [of v1 v2 "extendImm8 i vt v2" es1] a(1) setFlags_sameRegs(1)
      by (auto simp: setFlagsAdd_def c_assert_bind Let_def split: if_splits)
  next
    assume a: "itype i = IT_SUB" "emuSub c i = Some c'"
    let ?w = "\<lambda>v2. extendImm32 i vt (extendImm8 i vt v2)"
    obtain v1 v2 st es1 where "opVal c es (idst i) = Some v1" "opVal c es (isrc i) = Some v2"
      "setFlagsSub es v1 (?w v2) = Some (st, es1)"
      "finishBinary (put_es es1 c) i es1 (emuVal (cutTo vt (ev_val v1 - ev_val (?w v2))) vt
        (combineState (cState (ev_state v1)) (cState (ev_state (?w v2))) False)) = Some c'"
      using a(2) e(3) wideReg_type [OF vt]
      by (auto simp: emuSub_def bind_eq_Some_conv opValType_wide [OF vt] Let_def cutTo_def)
    then show thesis using that [of v1 v2 "?w v2" es1] a(1) setFlags_sameRegs(2)
      by (auto simp: setFlagsSub_def c_assert_bind Let_def split: if_splits)
  qed
  have t: "ev_type w = vt" using f(2) opVal_wide(2) [OF v1 vt] by simp
  have st: "ev_state w = ev_state v2" by (rule ext_source(2) [OF v2 w t])
  have it: "itype i \<in> {IT_ADD, IT_SUB}" using i by blast
  show ?thesis
  proof (rule combined_sound [OF fin [unfolded st] e(1,2) f(1) _ vt r v1 v2 n m])
    fix b x assume b: "srcVal M (itype i) vt (isrc i) = Some b" and x: "binFn (itype i) vt (ev_val v1) b = Some x"
      and s: "msIsStatic (ev_state v2)" and c: "cutTo vt (ev_val v1) = ev_val v1"
    have "b = cutTo vt (ev_val w)" using known_source [OF r v2 w t] st s b it plainArith by force
    then show "cutTo vt (cutTo vt (?op (ev_val v1) (ev_val w))) = cutTo vt x"
      using x it cutTo_ops(1,2) [of vt "ev_val v1" "ev_val w"] c by (auto simp: binFn_def)
  qed (use it in auto)
qed

lemma emuImul_sound:
  assumes e: "emuImul c i = Some c'" "rc_e c' = None" "currentCapBB (rc_r c) \<noteq> None" "r_es (rc_r c) = Some es"
    and i: "itype i = IT_IMUL" "iform i = OF_2" and r: "residual es M R" and n: "\<not> dropsClear c es i"
    and m: "binExec (itype i) (idst i) (isrc i) M = Some M'"
  shows "keeps c c' M' R"
proof -
  obtain vt b where vt: "wideReg vt (idst i)" and b: "plainSrc M vt (isrc i) = Some b"
    using m i(1) by (auto simp: binExec_def bind_eq_Some_conv wideOf_Some srcVal_def)
  obtain v1 v2 where v1: "opVal c es (idst i) = Some v1" and v2: "opVal c es (isrc i) = Some v2"
    and t: "ev_type v1 = ev_type v2"
    using e(1,4) i(2) by (auto simp: emuImul_def bind_eq_Some_conv)
  have tv: "ev_type v1 = vt" by (rule opVal_wide(2) [OF v1 vt])
  have no8: "otype (isrc i) \<noteq> OT_Imm8" "vt = VT_64 \<Longrightarrow> otype (isrc i) \<noteq> OT_Imm32"
    using t tv wideReg_type [OF vt] opVal_imm(3) [OF v2]
    by (auto simp: opIsImm_def getImmOpType_def split: valtype.splits)
  have val2: "cutTo vt (ev_val v2) = b" if "msIsStatic (ev_state v2)"
    using sourceVal_known [OF v2 that r b] no8 wideReg_type [OF vt]
    by (auto simp: sourceVal_def cutTo_sext split: if_splits)
  let ?cs = "if msIsStatic (ev_state v1) \<and> ev_val v1 = 0 \<or> msIsStatic (ev_state v2) \<and> ev_val v2 = 0
    then CS_STATIC else combineState (cState (ev_state v1)) (cState (ev_state v2)) False"
  obtain val where fin: "finishBinary c i es (emuVal val vt ?cs) = Some c'"
    and val: "cutTo vt val = cutTo vt (ev_val v1 * ev_val v2)"
  proof -
    have "otype (isrc i) \<in> {OT_Reg32, OT_Ind32} \<or> otype (isrc i) \<in> {OT_Reg64, OT_Ind64}"
      using e(1,2,4) i(2) v1 v2 by (auto simp: emuImul_def setEmulatorError_def with_error_def bind_eq_Some_conv split: if_splits)
    moreover have "otype (isrc i) \<noteq> OT_Ind32" "otype (isrc i) \<noteq> OT_Ind64"
      using source_notInd [of M IT_IMUL vt "isrc i" b] b by (auto simp: srcVal_def opIsInd_def)
    ultimately have "vt = VT_32 \<and> otype (isrc i) = OT_Reg32 \<or> vt = VT_64 \<and> otype (isrc i) = OT_Reg64"
      using b by (auto simp: plainSrc_def immSrc_def wideReg_def split: if_splits)
    then show thesis using e(1,4) i(2) v1 v2 tv that
      by (elim disjE conjE) (auto simp: emuImul_def bind_eq_Some_conv Let_def cutTo_sext)
  qed
  have "put_es es c = c" using e(4) by (simp add: put_es_def with_r_def)
  then have fin': "finishBinary (put_es es c) i es (emuVal val vt ?cs) = Some c'" using fin by simp
  show ?thesis
  proof (rule finishBinary_sound [OF fin' e(2,3) _ _ vt _ r v1 v2 n m])
    show "sameRegs es es" by (simp add: sameRegs_def)
    show "opStates c es i (emuVal val vt ?cs)"
    proof (cases "?cs = CS_STATIC")
      case True
      then show ?thesis by (simp only: opStates_def emuVal_def initMetaState_def msIsStatic_def csIsStatic_def) simp
    next
      case False
      then show ?thesis by (intro opStates_combine [OF v1 v2]) (auto split: if_splits)
    qed
    fix b' x assume "srcVal M (itype i) vt (isrc i) = Some b'" and s: "msIsStatic (ev_state (emuVal val vt ?cs))"
      and x: "binFn (itype i) vt (cutTo vt (M (ri (oreg (idst i))))) b' = Some x"
    then have x': "x = cutTo vt (M (ri (oreg (idst i)))) * b" using b i(1) by (auto simp: binFn_def srcVal_def)
    have k1: "ev_val v1 = cutTo vt (M (ri (oreg (idst i))))" if "msIsStatic (ev_state v1)"
      by (rule known_operands [OF r v1 vt that])
    consider "msIsStatic (ev_state v1)" "ev_val v1 = 0" | "msIsStatic (ev_state v2)" "ev_val v2 = 0"
      | "msIsStatic (ev_state v1)" "msIsStatic (ev_state v2)"
      using s combine_states(1) [of "emuVal val vt ?cs" v1 v2] by (auto split: if_splits)
    then show "cutTo vt (ev_val (emuVal val vt ?cs)) = cutTo vt x"
    proof cases
      case 1
      then have "cutTo vt (M (ri (oreg (idst i)))) = 0" using k1 by simp
      then show ?thesis using 1(2) by (simp add: val x')
    next
      case 2
      then have "b = 0" using val2 by (simp add: cutTo_0)
      then show ?thesis using 2(2) by (simp add: val x')
    next
      case 3
      then show ?thesis using k1 val2 cutTo_ops(3) [of vt "ev_val v1" "ev_val v2"]
        by (simp add: val x')
    qed
  qed (simp_all add: i)
qed

text \<open>The kinds of operands of a bitwise operation.\<close>

lemma emuBitOp_sound:
  assumes e: "emuBitOp c i = Some c'" "rc_e c' = None" "currentCapBB (rc_r c) \<noteq> None" "r_es (rc_r c) = Some es"
    and i: "itype i \<in> {IT_AND, IT_OR, IT_XOR}" and r: "residual es M R" and n: "\<not> dropsClear c es i"
    and m: "binExec (itype i) (idst i) (isrc i) M = Some M'"
  shows "keeps c c' M' R"
proof -
  obtain vt b where vt: "wideReg vt (idst i)" and b: "plainSrc M vt (isrc i) = Some b"
    using m i by (auto simp: binExec_def bind_eq_Some_conv wideOf_Some srcVal_def)
  obtain v1 v2 sm cs es1 val where v1: "opVal c es (idst i) = Some v1" and v2: "opVal c es (isrc i) = Some v2"
    and t: "ev_type v1 = ev_type v2" and sm: "opIsEqual (idst i) (isrc i) = Some sm"
    and f: "setFlagsBit es (itype i) v1 v2 sm = Some (cs, es1)" and bop: "bitOp (itype i) (ev_val v1) (ev_val v2) = Some val"
    and fin: "finishBinary (put_es es1 c) i es1 (emuVal val (ev_type v1) cs) = Some c'"
    using e(1,4) by (auto simp: emuBitOp_def bind_eq_Some_conv)
  have tv: "ev_type v1 = vt" by (rule opVal_wide(2) [OF v1 vt])
  have no8: "otype (isrc i) \<noteq> OT_Imm8" "vt = VT_64 \<Longrightarrow> otype (isrc i) \<noteq> OT_Imm32"
    using t tv wideReg_type [OF vt] opVal_imm(3) [OF v2]
    by (auto simp: opIsImm_def getImmOpType_def split: valtype.splits)
  have val2: "cutTo vt (ev_val v2) = b" if "msIsStatic (ev_state v2)"
    using sourceVal_known [OF v2 that r b] no8 wideReg_type [OF vt]
    by (auto simp: sourceVal_def cutTo_sext split: if_splits)
  have val1: "ev_val v1 = cutTo vt (M (ri (oreg (idst i))))" if "msIsStatic (ev_state v1)"
    by (rule known_operands [OF r v1 vt that])
  let ?s = "combineState4Flags (cState (ev_state v1)) (cState (ev_state v2))"
  have cs: "cs = ?s \<or> cs = CS_STATIC \<and> (itype i = IT_XOR \<and> sm
      \<or> itype i = IT_AND \<and> (msIsStatic (ev_state v1) \<and> ev_val v1 = 0 \<or> msIsStatic (ev_state v2) \<and> ev_val v2 = 0))"
    using f by (auto simp: setFlagsBit_def bind_eq_Some_conv Let_def split: if_splits)
  have comb: "csIsStatic ?s \<longleftrightarrow> msIsStatic (ev_state v1) \<and> msIsStatic (ev_state v2)"
    "?s = CS_DEAD \<longleftrightarrow> cState (ev_state v1) = CS_DEAD \<or> cState (ev_state v2) = CS_DEAD"
    by (auto simp: combineState4Flags_def combineState_def msIsStatic_def csIsStatic_def Let_def split: if_splits)
  show ?thesis
  proof (rule finishBinary_sound [OF fin e(2,3) setFlags_sameRegs(3) [OF f] _ vt _ r v1 v2 n m])
    show "opStates c es i (emuVal val (ev_type v1) cs)"
      using cs comb v1 v2 by (auto simp: opStates_def emuVal_def initMetaState_def msIsStatic_def csIsStatic_def)
    fix b' x assume b': "srcVal M (itype i) vt (isrc i) = Some b'" and s: "msIsStatic (ev_state (emuVal val (ev_type v1) cs))"
      and x': "binFn (itype i) vt (cutTo vt (M (ri (oreg (idst i))))) b' = Some x"
    have x: "binFn (itype i) vt (cutTo vt (M (ri (oreg (idst i))))) b = Some x"
      using b b' x' i plainArith by auto
    have "csIsStatic cs" using s by (simp add: msIsStatic_def csIsStatic_def)
    then consider "msIsStatic (ev_state v1)" "msIsStatic (ev_state v2)" | "itype i = IT_XOR" "sm"
      | "itype i = IT_AND" "msIsStatic (ev_state v1)" "ev_val v1 = 0"
      | "itype i = IT_AND" "msIsStatic (ev_state v2)" "ev_val v2 = 0"
      using cs comb(1) by auto
    then show "cutTo vt (ev_val (emuVal val (ev_type v1) cs)) = cutTo vt x"
    proof cases
      case 1
      then show ?thesis using x bop i val1 val2
        by (auto simp: binFn_def bitOp_def cutTo_bitops)
    next
      case 2
      then have eq: "opIsReg (isrc i)" "oreg (isrc i) = oreg (idst i)"
        using sm wideReg_isReg [OF vt] by (auto simp: opIsEqual_def regIsEqual_def opIsReg_def split: if_splits)
      then have "b = cutTo vt (M (ri (oreg (idst i))))" "ev_val v2 = ev_val v1"
        using b op_kinds(1) [OF eq(1)] notImm v1 v2 opVal_wide(1) [OF v1 vt] opVal_wide(1) [OF v2, of vt]
        by (auto simp: plainSrc_def immSrc_def split: if_splits)
      then show ?thesis using x bop 2(1) by (auto simp: binFn_def bitOp_def)
    next
      case 3
      then have "cutTo vt (M (ri (oreg (idst i)))) = 0" using val1 by simp
      then show ?thesis using 3 x bop by (auto simp: binFn_def bitOp_def)
    next
      case 4
      then have "b = 0" using val2 by (simp add: cutTo_0)
      then show ?thesis using 4 x bop by (auto simp: binFn_def bitOp_def)
    qed
  qed (use i tv in auto)
qed

lemma emuShift_sound:
  assumes e: "emuShift c i = Some c'" "rc_e c' = None" "currentCapBB (rc_r c) \<noteq> None" "r_es (rc_r c) = Some es"
    and i: "itype i \<in> shiftTypes" and r: "residual es M R" and n: "\<not> dropsClear c es i"
    and m: "binExec (itype i) (idst i) (isrc i) M = Some M'"
  shows "keeps c c' M' R"
proof -
  obtain vt b where vt: "wideReg vt (idst i)" and b: "countSrc M (isrc i) = Some b"
    using m i by (auto simp: binExec_def bind_eq_Some_conv wideOf_Some srcVal_def)
  obtain v1 v2 where v1: "opVal c es (idst i) = Some v1" and v2: "opVal c es (isrc i) = Some v2"
    using e(1,4) by (auto simp: emuShift_def bind_eq_Some_conv)
  obtain y where y: "shiftOf (itype i) (if vt = VT_32 then sext32 else (\<lambda>v. v)) (shiftCount vt (ev_val v2)) (ev_val v1) = Some y"
    and fin: "finishBinary c i es (emuVal (cutTo vt y) vt (combineState (cState (ev_state v1)) (cState (ev_state v2)) False)) = Some c'"
    using e(1,4) v1 v2 wideReg_type [OF vt]
    by (auto simp: emuShift_def opValType_wide [OF vt] shiftVal_def shiftCount_def cutTo_def bind_eq_Some_conv Let_def)
  have "put_es es c = c" using e(4) by (simp add: put_es_def with_r_def)
  then have fin': "finishBinary (put_es es c) i es (emuVal (cutTo vt y) vt
      (combineState (cState (ev_state v1)) (cState (ev_state v2)) False)) = Some c'" using fin by simp
  show ?thesis
  proof (rule combined_sound [OF fin' e(2,3) _ _ vt r v1 v2 n m])
    show "sameRegs es es" by (simp add: sameRegs_def)
    show "itype i \<in> arithTypes" using i by auto
    fix b' x assume b': "srcVal M (itype i) vt (isrc i) = Some b'" and x: "binFn (itype i) vt (ev_val v1) b' = Some x"
      and s: "msIsStatic (ev_state v2)"
    have "b' = b" using b b' i by (auto simp: srcVal_def)
    moreover have "ev_val v2 = b"
    proof (cases "otype (isrc i) = OT_Imm8")
      case True
      then show ?thesis using b opVal_imm(1) [OF v2] by (simp add: countSrc_def opIsImm_def)
    next
      case False
      then have "lowByteReg (isrc i)" "ri (oreg (isrc i)) = RI_C" "b = trunc8 (M RI_C)"
        using b by (auto simp: countSrc_def split: if_splits)
      moreover from this have "ev_val v2 = trunc8 (es_reg es RI_C)" "ev_state v2 = reg_state es RI_C"
        using v2 by (auto simp: opVal_def getOpValue_def getRegOpValue_def lowByteReg_def bind_eq_Some_conv)
      ultimately show ?thesis using residual_known [OF r] s by auto
    qed
    ultimately show "cutTo vt (cutTo vt y) = cutTo vt x"
      using x y i by (auto simp: binFn_def shiftOf_def)
  qed
qed

section \<open>Moves, unary operations and addresses\<close>

lemma movConvert_value:
  assumes v: "opVal c es p = Some v" and w: "movConvert (otype p) vt v = Some (Some w)"
    and it: "it = IT_MOV \<or> it = IT_MOVSX" and b: "srcVal M it vt p = Some b" and vt: "vt = VT_32 \<or> vt = VT_64"
    and r: "residual es M R"
  shows "ev_state w = ev_state v" "msIsStatic (ev_state v) \<Longrightarrow> cutTo vt (ev_val w) = cutTo vt b"
proof -
  show "ev_state w = ev_state v"
    using w by (auto simp: movConvert_def c_assert_bind split: if_splits)
  assume st: "msIsStatic (ev_state v)"
  consider (plain) "it = IT_MOV" "plainSrc M vt p = Some b" | (signed) "signedSrc M p = Some b"
    using it b by (auto simp: srcVal_def)
  then show "cutTo vt (ev_val w) = cutTo vt b"
  proof cases
    case plain
    have "cutTo vt (ev_val w) = cutTo vt (sourceVal v vt p)"
    proof -
      consider "wideReg vt p" | "otype p = OT_Imm8" | "otype p = OT_Imm32" | "otype p = OT_Imm64" "vt = VT_64"
        using plain(2) by (auto simp: plainSrc_def immSrc_def split: if_splits)
      then show ?thesis
        using w vt by cases (auto simp: movConvert_def sourceVal_def c_assert_bind cutTo_sext wideReg_def split: if_splits)
    qed
    then show ?thesis using sourceVal_known [OF v st r plain(2)] by (metis cutTo_cutTo)
  next
    case signed
    have reg: "opIsReg p" using signed lowByteReg_isReg wideReg_isReg
      by (auto simp: signedSrc_def opIsReg_def split: if_splits)
    have m: "M (ri (oreg p)) = es_reg es (ri (oreg p))"
      using residual_known [OF r] st source_state [OF v b reg] by simp
    have "ev_val v = (if otype p = OT_Reg8 then trunc8 (es_reg es (ri (oreg p)))
        else if otype p = OT_Reg16 then trunc16 (es_reg es (ri (oreg p))) else trunc32 (es_reg es (ri (oreg p))))"
      using v signed by (auto simp: signedSrc_def opVal_def getOpValue_def getRegOpValue_def lowByteReg_def wideReg_def
          bind_eq_Some_conv split: if_splits)
    then show ?thesis using w signed vt m
      by (auto simp: signedSrc_def movConvert_def c_assert_bind lowByteReg_def wideReg_def cutTo_sext split: if_splits)
  qed
qed

lemma source_types:
  assumes "srcVal M it vt p = Some b"
  shows "otype p \<in> {OT_Reg8, OT_Reg16, OT_Reg32, OT_Reg64, OT_Imm8, OT_Imm32, OT_Imm64}"
proof -
  have "lowByteReg q \<Longrightarrow> otype q = OT_Reg8" "wideReg w q \<Longrightarrow> otype q = OT_Reg32 \<or> otype q = OT_Reg64" for q w
    by (auto simp: lowByteReg_def wideReg_def)
  then show ?thesis using assms
    by (simp add: srcVal_def countSrc_def signedSrc_def plainSrc_def immSrc_def split: if_splits) blast+
qed

lemma movConvert_supported:
  assumes "t \<in> {OT_Reg8, OT_Reg16, OT_Reg32, OT_Reg64, OT_Imm8, OT_Imm32, OT_Imm64}"
    and "movConvert t vt v = Some u"
  shows "\<exists>w. u = Some w"
  using assms unfolding insert_iff empty_iff
  by (elim disjE; auto simp: movConvert_def c_assert_bind split: if_splits)

lemma emuMov_sound:
  assumes e: "emuMov c i = Some c'" "rc_e c' = None" "currentCapBB (rc_r c) \<noteq> None" "r_es (rc_r c) = Some es"
    and i: "itype i = IT_MOV \<or> itype i = IT_MOVSX" and r: "residual es M R"
    and m: "binExec (itype i) (idst i) (isrc i) M = Some M'"
  shows "keeps c c' M' R"
proof -
  let ?k = "ri (oreg (idst i))"
  obtain vt b where vt: "wideReg vt (idst i)" and b: "srcVal M (itype i) vt (isrc i) = Some b"
    and M': "M' = putReg vt (idst i) b M"
    using m i by (auto simp: binExec_def bind_eq_Some_conv wideOf_Some binFn_def)
  have vt': "vt = VT_32 \<or> vt = VT_64" by (rule wideReg_type [OF vt])
  obtain v u where v: "opVal c es (isrc i) = Some v" and u: "movConvert (otype (isrc i)) vt v = Some u"
    using e(1,4) by (auto simp: emuMov_def bind_eq_Some_conv opValType_wide [OF vt])
  then obtain w where w: "movConvert (otype (isrc i)) vt v = Some (Some w)"
    using movConvert_supported [OF source_types [OF b] u] by blast
  obtain c1 where cap: "captureMov c i es w = Some c1" and d: "setDst c1 es w (idst i) = Some c'"
    using e(1,4) v w by (auto simp: emuMov_def bind_eq_Some_conv opValType_wide [OF vt])
  note d' = setDst_wide [OF d vt]
  have e1: "rc_e c1 = None" using e(2) d'(1) by simp
  note mv = movConvert_value [OF v w i b vt' r]
  consider (dead) "cState (ev_state w) = CS_DEAD" | (known) "msIsStatic (ev_state w)" "cState (ev_state w) \<noteq> CS_DEAD"
    | (unk) "\<not> msIsStatic (ev_state w)" "cState (ev_state w) \<noteq> CS_DEAD" by blast
  then have "\<exists>R'. runs c c1 R R' \<and> (\<forall>k. k \<noteq> ?k \<longrightarrow> R' k = R k)
      \<and> (\<not> msIsStatic (ev_state w) \<and> cState (ev_state w) \<noteq> CS_DEAD \<longrightarrow> R' ?k = cutTo vt b)"
  proof cases
    case dead
    then have "c1 = c" using cap by (simp add: captureMov_def)
    then show ?thesis using dead by auto
  next
    case known
    then have "c1 = c" using cap opStateIsTracked_wide [OF vt] by (simp add: captureMov_def)
    then show ?thesis using known by auto
  next
    case unk
    then have k: "capBinary c es (itype i) (ivtype i) (idst i) (isrc i) True True = Some c1"
      using cap by (simp add: captureMov_def)
    have "srcVal R (itype i) vt (isrc i) = Some b"
      using source_unknown(1) [OF v r b] unk mv(1) by simp
    then have "binExec (itype i) (idst i) (isrc i) R = Some (R(?k := cutTo vt b))"
      using i by (auto simp: binExec_wide [OF vt] binFn_def)
    then have "runs c c1 R (R(?k := cutTo vt b))"
      using capBinary_runs [OF k e1 e(3) wideReg_isReg [OF vt] source_notInd [OF b]] i by (auto simp: writesDst_def)
    then show ?thesis by auto
  qed
  then obtain R' where R': "runs c c1 R R'" "\<forall>k. k \<noteq> ?k \<longrightarrow> R' k = R k"
    "\<not> msIsStatic (ev_state w) \<and> cState (ev_state w) \<noteq> CS_DEAD \<longrightarrow> R' ?k = cutTo vt b" by blast
  have "residual (regSet vt (idst i) w es) M' R'"
    unfolding M' using R'(2,3) mv by (intro residual_regSet [OF r]) auto
  then show ?thesis unfolding d'(1) using keeps_runs [OF R'(1)] by blast
qed

lemma captureKnown_runs:
  assumes c: "captureKnown c i es res = Some (res', c')" "rc_e c' = None" "currentCapBB (rc_r c) \<noteq> None"
    and vt: "wideReg vt (idst i)" "ev_type res = vt" and st: "msIsStatic (ev_state res)"
  shows "ev_val res' = ev_val res \<and> (\<exists>R'. runs c c' R R' \<and> (\<forall>k. k \<noteq> ri (oreg (idst i)) \<longrightarrow> R' k = R k)
    \<and> (\<not> msIsStatic (ev_state res') \<longrightarrow> R' (ri (oreg (idst i))) = cutTo vt (ev_val res)))"
proof -
  obtain f where f: "forceUnknown c es = Some f" using c(1) by (auto simp: captureKnown_def bind_eq_Some_conv)
  show ?thesis
  proof (cases f)
    case True
    then have "capLoad c es vt (idst i) (ev_val res) False = Some c'" and res': "ev_val res' = ev_val res"
      using c(1) f vt(2) by (auto simp: captureKnown_def bind_eq_Some_conv)
    from capLoad_runs(1) [OF this(1) c(2,3) vt(1), of R] res' show ?thesis
      by (intro conjI exI [of _ "R(ri (oreg (idst i)) := cutTo vt (ev_val res))"]) auto
  next
    case False
    then have "res' = res" "c' = c" using c(1) f by (auto simp: captureKnown_def)
    then show ?thesis using st by auto
  qed
qed

lemma capture_runs:
  assumes c: "capture c i = Some c'" "rc_e c' = None" "currentCapBB (rc_r c) \<noteq> None"
    and x: "\<And>j. copyInstr instr0 i = Some j \<Longrightarrow> regExec j R = Some R'"
  shows "runs c c' R R'"
proof -
  obtain b where "currentCapBB (rc_r c) = Some b" using c(3) by blast
  then obtain j where "captured c c' [j]" "copyInstr instr0 i = Some j" using capture_one [OF c(1,2)] by blast
  then show ?thesis unfolding runs_def using x by (intro exI [of _ "[j]"]) simp
qed

end
