(* ===== verification/FlagsSpec.thy ===== *)
theory FlagsSpec
  imports EmuFlags
begin

text \<open>
  The flags of a subtraction, as the emulator computes them from a chain of borrow bits, against
  the definition of the flags: carry is an unsigned comparison, overflow a signed difference out
  of range, parity the number of bits in the low byte. For additions the emulator uses the same
  chain of borrow bits, which is not the chain of carry bits.
\<close>

section \<open>Borrow bits\<close>

text \<open>A bit of a difference is the exclusive or of the bits and of the borrow from below.\<close>

lemma take_bit_Suc_int:
  "take_bit (Suc k) (a :: int) = take_bit k a + 2 ^ k * of_bool (bit a k)"
  using take_bit_Suc_from_most [of k a] by simp

lemma take_bit_range: "0 \<le> take_bit k (a :: int)" "take_bit k (a :: int) < 2 ^ k"
  by simp_all

lemma borrow_Suc:
  "take_bit (Suc k) (a :: int) < take_bit (Suc k) b
    \<longleftrightarrow> \<not> bit a k \<and> bit b k \<or> (bit a k = bit b k) \<and> take_bit k a < take_bit k b"
  by (cases "bit a k"; cases "bit b k"; simp add: take_bit_Suc_int;
      use take_bit_range [of k a] take_bit_range [of k b] in linarith)

lemma bit_diff_int:
  "bit (a - b :: int) k \<longleftrightarrow> (bit a k \<noteq> bit b k) \<noteq> (take_bit k a < take_bit k b)"
proof -
  let ?p = "(2 :: int) ^ k"
  have eq: "a - b = ?p * (a div ?p - b div ?p) + (take_bit k a - take_bit k b)"
    by (simp add: take_bit_eq_mod algebra_simps)
  have div: "(a - b) div ?p = a div ?p - b div ?p + (take_bit k a - take_bit k b) div ?p"
    by (subst eq) simp
  have "(take_bit k a - take_bit k b) div ?p = - of_bool (take_bit k a < take_bit k b)"
  proof (cases "take_bit k a < take_bit k b")
    case True
    then have "(take_bit k a - take_bit k b) div ?p = -1"
      by (intro int_div_pos_eq [where r = "take_bit k a - take_bit k b + ?p"];
          use take_bit_range [of k a] take_bit_range [of k b] in linarith)
    then show ?thesis using True by simp
  next
    case False
    then have "(take_bit k a - take_bit k b) div ?p = 0"
      by (intro div_pos_pos_trivial; use take_bit_range [of k a] take_bit_range [of k b] in linarith)
    then show ?thesis using False by simp
  qed
  then show ?thesis by (auto simp: bit_iff_odd div)
qed

lemma bit_diff_word:
  fixes d s :: u64
  assumes "k < 64"
  shows "bit (d - s) k \<longleftrightarrow> (bit d k \<noteq> bit s k) \<noteq> (take_bit k (uint d) < take_bit k (uint s))"
proof -
  have "bit (d - s) k \<longleftrightarrow> bit (uint d - uint s) k"
    using assms bit_uint_iff [of "d - s" k] by (simp add: uint_word_arith_bintrs bit_take_bit_iff)
  then show ?thesis by (simp add: bit_diff_int bit_uint_iff assms)
qed

text \<open>The chain that the code computes from a difference.\<close>

lemma borrow_chain:
  fixes d s :: u64
  assumes "k < 64"
  shows "bit (((d - s) AND (NOT d OR s)) OR (NOT d AND s)) k
    \<longleftrightarrow> take_bit (Suc k) (uint d) < take_bit (Suc k) (uint s)"
  using assms by (auto simp: bit_simps bit_diff_word borrow_Suc bit_uint_iff)

section \<open>Parity\<close>

definition evenBits :: "int \<Rightarrow> bool" where
  "evenBits v \<longleftrightarrow> even (card {k. k < 8 \<and> bit v k})"

primrec oddCount :: "nat \<Rightarrow> nat \<Rightarrow> bool" where
  "oddCount 0 x = False"
| "oddCount (Suc n) x = (oddCount n x \<noteq> bit x n)"

lemma oddCount_card: "oddCount n x \<longleftrightarrow> odd (card {k. k < n \<and> bit x k})"
proof (induction n)
  case 0
  then show ?case by simp
next
  case (Suc n)
  have "{k. k < Suc n \<and> bit x k} = (if bit x n then insert n {k. k < n \<and> bit x k} else {k. k < n \<and> bit x k})"
    by (auto simp: less_Suc_eq)
  then show ?case using Suc by simp
qed

lemma oddCount_add: "oddCount (m + n) x \<longleftrightarrow> (oddCount m x \<noteq> oddCount n (drop_bit m x))"
  by (induction n) (auto simp: bit_drop_bit_eq)

lemma oddCount_take: "n \<le> m \<Longrightarrow> oddCount n (take_bit m x) = oddCount n x"
  by (induction n) (simp_all add: bit_take_bit_iff)

lemma oddCount_5: "oddCount 5 x = (((((bit x 0) \<noteq> bit x 1) \<noteq> bit x 2) \<noteq> bit x 3) \<noteq> bit x 4)"
  and oddCount_3: "oddCount 3 x = (((bit x 0) \<noteq> bit x 1) \<noteq> bit x 2)"
  by (simp_all add: numeral_eq_Suc)

lemma upt_8: "[0..<8] = [0, 1, 2, 3, 4, 5, 6, 7]"
  by (simp add: upt_conv_Cons eval_nat_numeral)

lemma upt_32: "[0..<32] = [0, 1, 2, 3, 4, 5, 6, 7, 8, 9, 10, 11, 12, 13, 14, 15,
    16, 17, 18, 19, 20, 21, 22, 23, 24, 25, 26, 27, 28, 29, 30, 31]"
  by (simp add: upt_conv_Cons eval_nat_numeral)

lemma parity_row: "list_all (\<lambda>m. bit (0x96696996 :: u32) m \<longleftrightarrow> oddCount 5 m) [0..<32]"
  "list_all (\<lambda>m. bit (0x69969669 :: u32) m \<longleftrightarrow> \<not> oddCount 5 m) [0..<32]"
  by (simp_all add: upt_32 oddCount_5 bit_0)

lemma parity_rows:
  "list_all (\<lambda>a. parity_tab ! a = (if oddCount 3 a then 0x69969669 else 0x96696996)) [0..<8]"
  by (simp add: parity_tab_def upt_8 oddCount_3 bit_0)

lemma PARITY_even:
  assumes "x < 256"
  shows "PARITY x \<longleftrightarrow> evenBits (int x)"
proof -
  have a: "x div 32 < 8" using assms by simp
  have "oddCount 8 x \<longleftrightarrow> (oddCount 3 (x div 32) \<noteq> oddCount 5 (x mod 32))"
    using oddCount_add [of 5 3 x] oddCount_take [of 5 5 x]
    by (auto simp: drop_bit_eq_div take_bit_eq_mod)
  moreover have "PARITY x \<longleftrightarrow> (oddCount 3 (x div 32) \<longleftrightarrow> oddCount 5 (x mod 32))"
    using parity_rows parity_row a by (simp add: PARITY_def list_all_iff)
  moreover have "evenBits (int x) \<longleftrightarrow> \<not> oddCount 8 x"
    by (simp add: evenBits_def oddCount_card bit_of_nat_iff_bit)
  ultimately show ?thesis by simp
qed

lemma low_byte: "r AND 0xFF = take_bit 8 (r :: u64)"
  by (simp add: take_bit_eq_mask mask_eq_exp_minus_1)

lemma parity64_even: "parity64 r \<longleftrightarrow> evenBits (uint r)"
proof -
  have "unat (take_bit 8 r) = take_bit 8 (unat r)"
    by (rule bit_eqI) (auto simp: bit_simps)
  moreover have "take_bit 8 (unat r) < 256" by (simp add: take_bit_eq_mod)
  ultimately have "parity64 r \<longleftrightarrow> evenBits (int (take_bit 8 (unat r)))"
    by (simp only: parity64_def PARITY_even low_byte)
  then show ?thesis
    by (simp add: evenBits_def bit_simps bit_of_nat_iff_bit cong: conj_cong)
qed

section \<open>Signed values\<close>

text \<open>The value of the low \<open>n + 1\<close> bits, read with a sign.\<close>

definition signed :: "nat \<Rightarrow> int \<Rightarrow> int" where
  "signed n v = signed_take_bit n v"

lemma borrow_overflow:
  fixes a b :: int
  assumes "0 \<le> a" "a < 2 ^ Suc n" "0 \<le> b" "b < 2 ^ Suc n"
  shows "(take_bit (Suc n) a < take_bit (Suc n) b) \<noteq> (take_bit n a < take_bit n b)
    \<longleftrightarrow> signed n a - signed n b < - (2 ^ n) \<or> 2 ^ n \<le> signed n a - signed n b"
proof -
  have s: "signed n v = take_bit n v - 2 ^ n * of_bool (bit v n)" for v
    by (simp add: signed_def signed_take_bit_eq_take_bit_minus take_bit_Suc_int)
  show ?thesis unfolding borrow_Suc s
    by (cases "bit a n"; cases "bit b n"; simp;
        use take_bit_range [of n a] take_bit_range [of n b] in linarith)
qed

section \<open>The flags of a subtraction\<close>



section \<open>The flags of an addition\<close>

text \<open>Zero, sign and parity are those of the sum. Carry and overflow are not: the code uses the
  borrow chain of a difference on the sum.\<close>

lemma setFlagsAdd_carry_wrong:
  "\<exists>es'. setFlagsAdd es (emuValue 0 VT_8 st1) (emuValue 0x80 VT_8 st2) = Some es'
    \<and> es_flag es' FT_Carry \<and> (0 :: int) + 0x80 < 2 ^ 8"
  by (simp add: setFlagsAdd_def emuValue_def topBit_def putFlags_def Let_def)

end
