(* ===== verification/EmulateSound.thy ===== *)
theory EmulateSound
  imports CaptureSound FlagsSpec
begin

text \<open>
  The soundness of emulating and capturing one instruction, and a sequence of instructions, on
  general purpose registers, for every instruction that the reference semantics covers.
\<close>

section \<open>Unary operations\<close>

lemma captureUnaryOp_runs:
  assumes c: "captureUnaryOp c i es res = Some (res', c')" "rc_e c' = None" "currentCapBB (rc_r c) \<noteq> None"
    and vt: "wideReg vt (idst i)" "ev_type res = vt" and x: "unExec (itype i) (idst i) M = Some (putReg vt (idst i) x M)"
    and u: "unFn (itype i) (cutTo vt (M (ri (oreg (idst i))))) = Some x"
    and st: "\<not> msIsStatic (ev_state res) \<Longrightarrow> cState (ev_state res) \<noteq> CS_DEAD \<Longrightarrow> R (ri (oreg (idst i))) = M (ri (oreg (idst i)))"
    and known: "msIsStatic (ev_state res) \<Longrightarrow> cutTo vt (ev_val res) = cutTo vt x"
  shows "\<exists>R'. runs c c' R R' \<and> (\<forall>k. k \<noteq> ri (oreg (idst i)) \<longrightarrow> R' k = R k)
    \<and> (msIsStatic (ev_state res') \<longrightarrow> cutTo vt (ev_val res') = cutTo vt x)
    \<and> (\<not> msIsStatic (ev_state res') \<and> cState (ev_state res') \<noteq> CS_DEAD \<longrightarrow> R' (ri (oreg (idst i))) = cutTo vt x)"
proof (cases "msIsStatic (ev_state res)")
  case True
  then have "captureKnown c i es res = Some (res', c')" using c(1) by (simp add: captureUnaryOp_def)
  from captureKnown_runs [OF this c(2,3) vt True, of R] known [OF True] show ?thesis by metis
next
  case False
  let ?k = "ri (oreg (idst i))"
  obtain j d where j: "initUnaryInstr instr0 (itype i) (idst i) = Some j" "applyStaticToInd (idst j) es = Some d"
    and cap: "capture c (j\<lparr>idst := d\<rparr>) = Some c'" and res': "res' = res"
    using c(1) False by (auto simp: captureUnaryOp_def bind_eq_Some_conv)
  note jp = initUnaryInstr_parts [OF j(1)]
  have reg: "opIsReg (idst i)" by (rule wideReg_isReg [OF vt(1)])
  have d: "d = idst j"
    using j(2) sameParts_isInd [OF jp(4)] op_kinds(2) [OF reg] by (simp add: applyStatic_other)
  have un: "unFn (itype i) a \<noteq> None" for a using u by (auto simp: unFn_def split: instrtype.splits)
  obtain y where y: "unFn (itype i) (cutTo vt (R ?k)) = Some y" using un by blast
  have "runs c c' R (R(?k := cutTo vt y))"
  proof (rule capture_runs [OF cap c(2,3)])
    fix j' assume j': "copyInstr instr0 (j\<lparr>idst := d\<rparr>) = Some j'"
    note jp' = copyInstr_parts [OF j']
    have "sameParts (idst i) (idst j')" using jp'(4) jp d sameParts_trans by simp
    then have "unExec (itype i) (idst j') R = unExec (itype i) (idst i) R"
      by (intro sameSource_unExec [OF sameSource_parts _ ] reg)
    then show "regExec j' R = Some (R(?k := cutTo vt y))"
      using jp'(1-3) jp y wideOf_Some [of "idst i" vt] vt(1) by (simp add: regExec_def unExec_def putReg_def)
  qed
  moreover have "y = x" if "cState (ev_state res) \<noteq> CS_DEAD" using st [OF False that] y u by simp
  ultimately show ?thesis using res' False by auto
qed

lemma finishUnary_sound:
  assumes f: "finishUnary c i es res = Some c'" "rc_e c' = None" "currentCapBB (rc_r c) \<noteq> None"
    and vt: "wideReg vt (idst i)" "ev_type res = vt" and r: "residual es M R"
    and x: "unExec (itype i) (idst i) M = Some M'" and v: "opVal c es (idst i) = Some v"
    and st: "cState (ev_state res) = cState (ev_state v)"
    and known: "\<And>x. unFn (itype i) (ev_val v) = Some x \<Longrightarrow> cutTo vt (ev_val v) = ev_val v \<Longrightarrow> cutTo vt (ev_val res) = cutTo vt x"
  shows "keeps c c' M' R"
proof -
  let ?k = "ri (oreg (idst i))"
  obtain res' c1 where b: "captureUnaryOp c i es res = Some (res', c1)" and d: "setDst c1 es res' (idst i) = Some c'"
    using f(1) by (auto simp: finishUnary_def bind_eq_Some_conv)
  note d' = setDst_wide [OF d vt(1)] and val = opVal_wide [OF v vt(1)]
  obtain y where y: "unFn (itype i) (cutTo vt (M ?k)) = Some y" "M' = putReg vt (idst i) y M"
    using x by (auto simp: unExec_def bind_eq_Some_conv wideOf_Some [THEN iffD2, OF vt(1)])
  have same: "msIsStatic (ev_state res) = msIsStatic (reg_state es ?k)" "cState (ev_state res) = cState (reg_state es ?k)"
    using st val(3) by (simp_all add: msIsStatic_def)
  obtain R' where R': "runs c c1 R R'" "\<forall>k. k \<noteq> ?k \<longrightarrow> R' k = R k"
    "msIsStatic (ev_state res') \<longrightarrow> cutTo vt (ev_val res') = cutTo vt y"
    "\<not> msIsStatic (ev_state res') \<and> cState (ev_state res') \<noteq> CS_DEAD \<longrightarrow> R' ?k = cutTo vt y"
  proof -
    have e: "rc_e c1 = None" using f(2) d'(1) by simp
    have k: "cutTo vt (ev_val res) = cutTo vt y" if "msIsStatic (ev_state res)"
      using known [of y] y(1) val(1) residual_known [OF r, of ?k] same that by simp
    from captureUnaryOp_runs [OF b e f(3) vt x [unfolded y(2)] y(1) _ k, of R] that
    show thesis using residual_unknown [OF r, of ?k] same by auto
  qed
  have "residual (regSet vt (idst i) res' es) M' R'"
    unfolding y(2) using R' by (intro residual_regSet [OF r]) auto
  then show ?thesis unfolding d'(1) using keeps_runs [OF R'(1)] by blast
qed

lemma emuUnary_sound:
  assumes i: "itype i = IT_INC \<and> emuIncDec (\<lambda>v. v + 1) c i = Some c' \<or> itype i = IT_DEC \<and> emuIncDec (\<lambda>v. v - 1) c i = Some c'
      \<or> itype i = IT_NEG \<and> emuNeg c i = Some c'"
    and e: "rc_e c' = None" "currentCapBB (rc_r c) \<noteq> None" "r_es (rc_r c) = Some es"
    and r: "residual es M R" and x: "unExec (itype i) (idst i) M = Some M'"
  shows "keeps c c' M' R"
proof -
  obtain vt where vt: "wideReg vt (idst i)" using x by (auto simp: unExec_def bind_eq_Some_conv wideOf_Some)
  then have t: "vt = VT_32 \<and> otype (idst i) = OT_Reg32 \<or> vt = VT_64 \<and> otype (idst i) = OT_Reg64"
    by (auto simp: wideReg_def)
  obtain v where v: "opVal c es (idst i) = Some v"
    using i e(3) by (auto simp: emuIncDec_def emuNeg_def bind_eq_Some_conv)
  note val = opVal_wide [OF v vt]
  obtain res where f: "finishUnary c i es res = Some c'" and res: "ev_type res = vt" "cState (ev_state res) = cState (ev_state v)"
    "\<forall>x. unFn (itype i) (ev_val v) = Some x \<longrightarrow> cutTo vt (ev_val res) = cutTo vt x"
  proof -
    have g: "\<exists>res. finishUnary c i es res = Some c' \<and> ev_type res = vt \<and> cState (ev_state res) = cState (ev_state v)
        \<and> cutTo vt (ev_val res) = cutTo vt (g (ev_val v))" if "emuIncDec g c i = Some c'" for g
      using that t v e(3) val(2)
      by (elim disjE conjE) (force simp: emuIncDec_def cutTo_sext Let_def)+
    have n: "\<exists>res. finishUnary c i es res = Some c' \<and> ev_type res = vt \<and> cState (ev_state res) = cState (ev_state v)
        \<and> cutTo vt (ev_val res) = cutTo vt (- ev_val v)" if "emuNeg c i = Some c'"
      using that t v e(3) val(2)
      by (elim disjE conjE) (force simp: emuNeg_def cutTo_sext Let_def)+
    from i show thesis
    proof (elim disjE conjE)
      assume "itype i = IT_INC" "emuIncDec (\<lambda>v. v + 1) c i = Some c'"
      with g [OF this(2)] that show thesis by (auto simp: unFn_def)
    next
      assume "itype i = IT_DEC" "emuIncDec (\<lambda>v. v - 1) c i = Some c'"
      with g [OF this(2)] that show thesis by (auto simp: unFn_def)
    next
      assume "itype i = IT_NEG" "emuNeg c i = Some c'"
      with n that show thesis by (auto simp: unFn_def)
    qed
  qed
  show ?thesis
    by (rule finishUnary_sound [OF f e(1,2) vt res(1) r x v res(2)]) (use res(3) in blast)
qed

section \<open>Addresses\<close>

text \<open>The capture state of an address: that of the registers it is built from.\<close>

definition addrRegs :: "operand \<Rightarrow> regindex set" where
  "addrRegs p = (if rt (oreg p) = RT_GP64 then {ri (oreg p)} else {})
     \<union> (if oscale p > 0 then {ri (oireg p)} else {})"

lemma combine_two:
  "csIsStatic (combineState a b False) \<longleftrightarrow> csIsStatic a \<and> csIsStatic b"
  "combineState a b False = CS_DEAD \<longleftrightarrow> a = CS_DEAD \<or> b = CS_DEAD"
  by (auto simp: combineState_def csIsStatic_def split: if_splits)

lemma msIsStatic_cs: "msIsStatic m = csIsStatic (cState m)"
  by (simp add: msIsStatic_def csIsStatic_def)

lemma csIsStatic_STATIC: "csIsStatic CS_STATIC"
  by (simp add: csIsStatic_def)

lemma getOpAddr_state:
  assumes g: "getOpAddr es p = Some v" and a: "addrOf M p = Some a"
  shows "msIsStatic (ev_state v) \<longleftrightarrow> (\<forall>k \<in> addrRegs p. msIsStatic (reg_state es k))"
    "cState (ev_state v) = CS_DEAD \<longleftrightarrow> (\<exists>k \<in> addrRegs p. cState (reg_state es k) = CS_DEAD)"
    "ev_type v = VT_64"
    "\<lbrakk>\<And>k. k \<in> addrRegs p \<Longrightarrow> M k = es_reg es k\<rbrakk> \<Longrightarrow> ev_val v = a"
proof -
  have b: "rt (oreg p) = RT_None \<or> rt (oreg p) = RT_GP64" and i: "oscale p > 0 \<longrightarrow> rt (oireg p) = RT_GP64"
    and av: "a = oval p + (if rt (oreg p) = RT_GP64 then M (ri (oreg p)) else 0)
            + of_nat (oscale p) * (if oscale p > 0 then M (ri (oireg p)) else 0)"
    using a by (auto simp: addrOf_def gpBase_def split: if_splits)
  from b have "(msIsStatic (ev_state v) \<longleftrightarrow> (\<forall>k \<in> addrRegs p. msIsStatic (reg_state es k)))
    \<and> (cState (ev_state v) = CS_DEAD \<longleftrightarrow> (\<exists>k \<in> addrRegs p. cState (reg_state es k) = CS_DEAD)) \<and> ev_type v = VT_64
    \<and> ((\<forall>k \<in> addrRegs p. M k = es_reg es k) \<longrightarrow> ev_val v = a)"
    using g i av
    by (elim disjE; cases "oscale p > 0")
      (auto simp: getOpAddr_def bind_eq_Some_conv addRegToValue_def addrRegs_def msIsStatic_cs
        combine_two initMetaState_def csIsStatic_STATIC)
  then show "msIsStatic (ev_state v) \<longleftrightarrow> (\<forall>k \<in> addrRegs p. msIsStatic (reg_state es k))"
    "cState (ev_state v) = CS_DEAD \<longleftrightarrow> (\<exists>k \<in> addrRegs p. cState (reg_state es k) = CS_DEAD)" "ev_type v = VT_64"
    "\<lbrakk>\<And>k. k \<in> addrRegs p \<Longrightarrow> M k = es_reg es k\<rbrakk> \<Longrightarrow> ev_val v = a" by blast+
qed

lemma addrRegs_same: "sameParts p q \<Longrightarrow> opIsInd p \<Longrightarrow> addrRegs q = addrRegs p"
  by (auto simp: addrRegs_def sameParts_def)

text \<open>Putting known registers into the displacement keeps the address.\<close>

lemma applyStatic_parts:
  assumes q: "applyStaticToInd q es = Some q1" and ind: "opIsInd q"
    and b: "rt (oreg q) = RT_None \<or> rt (oreg q) = RT_GP64"
  defines "sb \<equiv> rt (oreg q) = RT_GP64 \<and> msIsStatic (reg_state es (ri (oreg q)))"
    and "sx \<equiv> oscale q > 0 \<and> msIsStatic (reg_state es (ri (oireg q)))"
  shows "otype q1 = otype q" "oseg q1 = oseg q" "rt (oreg q1) = (if sb then RT_None else rt (oreg q))"
    "ri (oreg q1) = ri (oreg q)" "oscale q1 = (if sx then 0 else oscale q)" "oireg q1 = oireg q"
    "oval q1 = oval q + (if sb then es_reg es (ri (oreg q)) else 0)
       + (if sx then of_nat (oscale q) * es_reg es (ri (oireg q)) else 0)"
  using b q ind unfolding sb_def sx_def applyStaticToInd_def
  by (elim disjE; cases "msIsStatic (reg_state es (ri (oreg q)))"; cases "msIsStatic (reg_state es (ri (oireg q)))";
      cases "oscale q > 0"; simp add: c_assert_bind split: if_splits; force)+

lemma applyStatic_addr:
  assumes q: "applyStaticToInd q es = Some q1" and a: "addrOf M q = Some a" and r: "residual es M R"
    and live: "\<And>k. k \<in> addrRegs q \<Longrightarrow> cState (reg_state es k) \<noteq> CS_DEAD"
  shows "addrOf R q1 = Some a"
proof -
  have ind: "opIsInd q" and seg: "oseg q = OSO_None" and b: "rt (oreg q) = RT_None \<or> rt (oreg q) = RT_GP64"
    and i: "oscale q > 0 \<longrightarrow> rt (oireg q) = RT_GP64"
    and av: "a = oval q + (if rt (oreg q) = RT_GP64 then M (ri (oreg q)) else 0)
            + of_nat (oscale q) * (if oscale q > 0 then M (ri (oireg q)) else 0)"
    using a by (auto simp: addrOf_def gpBase_def split: if_splits)
  note parts = applyStatic_parts [OF q ind b]
  have reg: "M k = (if msIsStatic (reg_state es k) then es_reg es k else R k)" if "k \<in> addrRegs q" for k
    using residual_known [OF r] residual_unknown [OF r] live [OF that] by simp
  have base: "(if rt (oreg q) = RT_GP64 then M (ri (oreg q)) else 0)
    = (if rt (oreg q) = RT_GP64 \<and> msIsStatic (reg_state es (ri (oreg q))) then es_reg es (ri (oreg q)) else 0)
      + (if rt (oreg q1) = RT_GP64 then R (ri (oreg q1)) else 0)"
    using reg [of "ri (oreg q)"] parts(3,4) by (auto simp: addrRegs_def)
  have index: "of_nat (oscale q) * (if oscale q > 0 then M (ri (oireg q)) else 0)
    = (if oscale q > 0 \<and> msIsStatic (reg_state es (ri (oireg q))) then of_nat (oscale q) * es_reg es (ri (oireg q)) else 0)
      + of_nat (oscale q1) * (if oscale q1 > 0 then R (ri (oireg q1)) else 0)"
    using reg [of "ri (oireg q)"] parts(5,6) by (auto simp: addrRegs_def)
  have "a = oval q1 + (if rt (oreg q1) = RT_GP64 then R (ri (oreg q1)) else 0)
      + of_nat (oscale q1) * (if oscale q1 > 0 then R (ri (oireg q1)) else 0)"
    unfolding av base index parts(7) by (simp only: ac_simps)
  moreover have "opIsInd q1" using opIsInd_otype [OF parts(1)] ind by simp
  moreover have "gpBase (oreg q1)" "oscale q1 > 0 \<longrightarrow> rt (oireg q1) = RT_GP64"
    using parts(3,5,6) b i by (auto simp: gpBase_def)
  ultimately show ?thesis by (simp add: addrOf_def parts(2) seg)
qed

section \<open>Lea, comparisons and sign extension\<close>

lemma regSet_cut: "regSet vt p (v\<lparr>ev_val := cutTo vt (ev_val v)\<rparr>) es = regSet vt p v es"
  by (simp add: regSet_def)

lemma emuLea_sound:
  assumes e: "emuLea c i = Some c'" "rc_e c' = None" "currentCapBB (rc_r c) \<noteq> None" "r_es (rc_r c) = Some es"
    and i: "itype i = IT_LEA" and r: "residual es M R" and m: "leaExec (idst i) (isrc i) M = Some M'"
  shows "keeps c c' M' R"
proof -
  let ?k = "ri (oreg (idst i))"
  obtain vt a where vt: "wideReg vt (idst i)" and a: "addrOf M (isrc i) = Some a" and M': "M' = putReg vt (idst i) a M"
    using m by (auto simp: leaExec_def bind_eq_Some_conv wideOf_Some)
  have ind: "opIsInd (isrc i)" using a by (simp add: addrOf_def split: if_splits)
  obtain v where v: "getOpAddr es (isrc i) = Some v" using e(1,4) by (auto simp: emuLea_def bind_eq_Some_conv)
  note st = getOpAddr_state [OF v a]
  let ?w = "if otype (idst i) = OT_Reg32 then v\<lparr>ev_val := trunc32 (ev_val v), ev_type := VT_32\<rparr> else v"
  have w: "ev_type ?w = vt" "ev_state ?w = ev_state v" "cutTo vt (ev_val ?w) = cutTo vt (ev_val v)"
    using vt st(3) by (auto simp: wideReg_def cutTo_sext)
  obtain res c1 where cap: "captureLea c i es ?w = Some (res, c1)" and d: "setDst c1 es res (idst i) = Some c'"
    using e(1,4) v by (auto simp: emuLea_def bind_eq_Some_conv Let_def split: if_splits)
  note d' = setDst_wide [OF d vt]
  have e1: "rc_e c1 = None" using e(2) d'(1) by simp
  have "\<exists>R'. runs c c1 R R' \<and> (\<forall>k. k \<noteq> ?k \<longrightarrow> R' k = R k)
      \<and> (msIsStatic (ev_state res) \<longrightarrow> cutTo vt (ev_val res) = cutTo vt a)
      \<and> (\<not> msIsStatic (ev_state res) \<and> cState (ev_state res) \<noteq> CS_DEAD \<longrightarrow> R' ?k = cutTo vt a)"
  proof (cases "msIsStatic (ev_state ?w)")
    case True
    then have known: "captureKnown c i es ?w = Some (res, c1)" using cap by (auto simp: captureLea_def bind_eq_Some_conv)
    have "cutTo vt (ev_val ?w) = cutTo vt a"
      using st(4) residual_known [OF r] True w(2,3) st(1) by simp
    then show ?thesis using captureKnown_runs [OF known e1 e(3) vt w(1) True, of R] by metis
  next
    case False
    then have k: "capBinary c es IT_LEA (ivtype i) (idst i) (isrc i) False True = Some c1" and res: "res = ?w"
      using cap by (auto simp: captureLea_def bind_eq_Some_conv)
    obtain j q0 q1 where j: "captured c c1 [j]" "iform j = OF_2" "itype j = IT_LEA" "ptLen j = 0"
      "sameParts (idst i) (idst j)" "sameParts (isrc i) q0" "sameParts q1 (isrc j)" "applyStaticToInd q0 es = Some q1"
      using capBinary_one [OF k e1 e(3) op_kinds(2) [OF wideReg_isReg [OF vt]]] by auto
    have a0: "addrOf g q0 = addrOf g (isrc i)" for g by (rule sameParts_addrOf [OF j(6)])
    have "cState (ev_state ?w) \<noteq> CS_DEAD \<Longrightarrow> addrOf R (isrc j) = Some a"
      using applyStatic_addr [OF j(8) _ r, of a] a0 a addrRegs_same [OF j(6) ind] st(2) w(2)
        sameParts_addrOf [OF j(7), of R] by auto
    moreover obtain y where y: "addrOf R (isrc j) = Some y"
    proof -
      have "opIsInd q0" using sameParts_isInd [OF j(6)] ind by simp
      moreover have "rt (oreg q0) = RT_None \<or> rt (oreg q0) = RT_GP64" "oscale q0 > 0 \<longrightarrow> rt (oireg q0) = RT_GP64"
        "oseg q0 = OSO_None"
        using a0 [of M] a by (auto simp: addrOf_def gpBase_def split: if_splits)
      ultimately have "addrOf R q1 \<noteq> None"
        using applyStatic_parts [OF j(8)] opIsInd_otype [of q1 q0] by (auto simp: addrOf_def gpBase_def)
      then show thesis using that sameParts_addrOf [OF j(7), of R] by auto
    qed
    moreover have "regExec j R = Some (R(?k := cutTo vt y))"
    proof -
      have "wideOf (idst j) = Some vt" "oreg (idst j) = oreg (idst i)"
        using sameParts_wideReg [OF j(5), of vt] vt sameParts_oreg [OF j(5) wideReg_isReg [OF vt]] by (simp_all add: wideOf_Some)
      then show ?thesis using j y by (simp add: regExec_def leaExec_def putReg_def)
    qed
    then have "runs c c1 R (R(?k := cutTo vt y))"
      using j(1) unfolding runs_def by (intro exI [of _ "[j]"]) simp
    ultimately show ?thesis using False res by auto
  qed
  then obtain R' where R': "runs c c1 R R'" "\<forall>k. k \<noteq> ?k \<longrightarrow> R' k = R k"
    "msIsStatic (ev_state res) \<longrightarrow> cutTo vt (ev_val res) = cutTo vt a"
    "\<not> msIsStatic (ev_state res) \<and> cState (ev_state res) \<noteq> CS_DEAD \<longrightarrow> R' ?k = cutTo vt a" by blast
  have "residual (regSet vt (idst i) res es) M' R'"
    unfolding M' using R' by (intro residual_regSet [OF r]) auto
  then show ?thesis unfolding d'(1) using keeps_runs [OF R'(1)] by blast
qed

lemma emuCltq_sound:
  assumes e: "emuExtendA sext32 c i = Some c'" "rc_e c' = None" "currentCapBB (rc_r c) \<noteq> None" "r_es (rc_r c) = Some es"
    and i: "itype i = IT_CLTQ" "iform i = OF_0" "ptLen i = 0" and r: "residual es M R"
  shows "keeps c c' (M(RI_A := sext32 (M RI_A))) R"
proof -
  let ?es = "es\<lparr>es_reg := (es_reg es)(RI_A := sext32 (es_reg es RI_A))\<rparr>"
  have cap: "captureUnlessStatic (put_es ?es c) (reg_state es RI_A) i = Some c'"
    using e(1,4) by (simp add: emuExtendA_def)
  define R' where "R' = (if msIsStatic (reg_state es RI_A) then R else R(RI_A := sext32 (R RI_A)))"
  have "runs (put_es ?es c) c' R R'"
  proof (cases "msIsStatic (reg_state es RI_A)")
    case True
    then show ?thesis using cap by (auto simp: captureUnlessStatic_def R'_def)
  next
    case False
    then have "capture (put_es ?es c) i = Some c'" using cap by (simp add: captureUnlessStatic_def)
    then show ?thesis
    proof (rule capture_runs [OF _ e(2)])
      show "currentCapBB (rc_r (put_es ?es c)) \<noteq> None" using e(3) by simp
      fix j assume "copyInstr instr0 i = Some j"
      then show "regExec j R = Some R'" using copyInstr_parts(1-3) i False by (simp add: regExec_def R'_def)
    qed
  qed
  moreover have "residual ?es (M(RI_A := sext32 (M RI_A))) R'"
    using r by (auto simp: residual_def R'_def)
  ultimately show ?thesis
    unfolding keeps_def runs_def captured_def by auto
qed

text \<open>Comparisons load at most registers that are known.\<close>

lemma plainSrc_defined: "plainSrc g vt p = Some b \<Longrightarrow> \<exists>b'. plainSrc h vt p = Some b'"
  by (auto simp: plainSrc_def)

lemma capBinary_test:
  assumes c: "capBinary c es it vt p q ad as = Some c'" "rc_e c' = None" "currentCapBB (rc_r c) \<noteq> None"
    and it: "it = IT_CMP \<or> it = IT_TEST" and w: "wideReg u p" and b: "plainSrc M u q = Some b"
  shows "runs c c' R R"
proof -
  have ind: "\<not> opIsInd q" using source_notInd [of M IT_CMP u q b] b by (simp add: srcVal_def)
  obtain j q0 q1 where j: "captured c c' [j]" "iform j = OF_2" "itype j = it" "ptLen j = 0"
    and pp: "sameParts p (idst j)" and qq: "sameParts q q0" "sameParts q1 (isrc j)"
    and ap: "(if as then applyStaticToInd q0 es else Some q0) = Some q1"
    using capBinary_one [OF c op_kinds(2) [OF wideReg_isReg [OF w]]] by blast
  have "q1 = q0" using ap sameParts_isInd [OF qq(1)] ind by (simp add: applyStatic_other split: if_splits)
  then have "sameParts q (isrc j)" using qq sameParts_trans by blast
  then have "srcVal R IT_CMP u (isrc j) = srcVal R IT_CMP u q" by (rule sameParts_srcVal)
  then have "plainSrc R u (isrc j) = plainSrc R u q" by (simp add: srcVal_def)
  then obtain b' where "plainSrc R u (isrc j) = Some b'" using plainSrc_defined [OF b] by metis
  moreover have "wideOf (idst j) = Some u" using sameParts_wideReg [OF pp, of u] w by (simp add: wideOf_Some)
  ultimately have "regExec j R = Some R" using j(2-4) it by (auto simp: regExec_def testExec_def)
  then show ?thesis using j(1) unfolding runs_def by (intro exI [of _ "[j]"]) simp
qed

lemma residual_known_change:
  "residual es M R \<Longrightarrow> (\<And>k. \<not> msIsStatic (reg_state es k) \<Longrightarrow> R' k = R k) \<Longrightarrow> residual es M R'"
  by (simp add: residual_def)

lemma keeps_same:
  assumes "runs (put_es es1 c) c' R R'" and "residual es1 M R'"
  shows "keeps c c' M R"
  using assms unfolding keeps_def runs_def captured_def by auto

lemma captureCmp_runs:
  assumes c: "captureCmp c i es cs = Some c'" "rc_e c' = None" "currentCapBB (rc_r c) \<noteq> None"
    and w: "wideReg vt (idst i)" and b: "plainSrc M vt (isrc i) = Some b" and r: "residual es M R"
    and v2: "opVal c es (isrc i) = Some v2"
    and t: "ev_type v2 = vt \<or> otype (isrc i) = OT_Imm8"
  shows "\<exists>R'. runs c c' R R' \<and> residual es M R'"
proof (cases "csIsStatic cs")
  case True
  then show ?thesis using c(1) r by (auto simp: captureCmp_def)
next
  case False
  obtain v1 c1 p where v1: "opVal c es (idst i) = Some v1"
    and l: "(if msIsStatic (ev_state v1) then capLoad c es (ev_type v1) (idst i) (ev_val v1) False else Some c) = Some c1"
    and p: "(if msIsStatic (ev_state v2) then getImmOp (ev_type v2) (ev_val v2) else Some (isrc i)) = Some p"
    and k: "capBinary c1 es IT_CMP (ivtype i) (idst i) p True True = Some c'"
  proof -
    obtain v1 c1 where v1: "opVal c es (idst i) = Some v1"
      and l: "(if msIsStatic (ev_state v1) then capLoad c es (ev_type v1) (idst i) (ev_val v1) False else Some c) = Some c1"
      and k: "(do { v \<leftarrow> opVal c1 es (isrc i);
        p \<leftarrow> (if msIsStatic (ev_state v) then getImmOp (ev_type v) (ev_val v) else Some (isrc i));
        capBinary c1 es IT_CMP (ivtype i) (idst i) p True True }) = Some c'"
      using c(1) False by (auto simp: captureCmp_def bind_eq_Some_conv)
    have e1: "rc_e c1 = None" using k c(2) by (auto simp: bind_eq_Some_conv dest: capBinary_sticky split: if_splits)
    have "opVal c1 es (isrc i) = opVal c es (isrc i)"
    proof (cases "msIsStatic (ev_state v1)")
      case True
      then have "capLoad c es vt (idst i) (ev_val v1) False = Some c1" using l opVal_wide(2) [OF v1 w] by simp
      then show ?thesis using runs_opVal [OF capLoad_runs(1) [OF _ e1 c(3) w]] by blast
    qed (use l in simp)
    then show thesis using k v2 that [OF v1 l] by (auto simp: bind_eq_Some_conv)
  qed
  have e1: "rc_e c1 = None" by (rule capBinary_sticky [OF k c(2)])
  obtain b' where b': "plainSrc M vt p = Some b'"
  proof (cases "msIsStatic (ev_state v2)")
    case True
    then have im: "getImmOp (ev_type v2) (ev_val v2) = Some p" using p by simp
    have "otype p = OT_Imm8 \<or> getImmOp vt (ev_val v2) = Some p"
      using t im opVal_imm(3) [OF v2] by (auto simp: opIsImm_def getImmOp_def getImmOpType_def split: valtype.splits)
    then show thesis
    proof
      assume "otype p = OT_Imm8"
      then have "plainSrc M vt p \<noteq> None" by (simp add: plainSrc_def immSrc_def)
      then show thesis using that by blast
    next
      assume "getImmOp vt (ev_val v2) = Some p"
      from plainSrc_imm [OF this wideReg_type [OF w]] show thesis by (rule that)
    qed
  qed (use p b that in simp)
  show ?thesis
  proof (cases "msIsStatic (ev_state v1)")
    case True
    let ?R = "R(ri (oreg (idst i)) := cutTo vt (ev_val v1))"
    have "capLoad c es vt (idst i) (ev_val v1) False = Some c1" using l True opVal_wide(2) [OF v1 w] by simp
    then have r1: "runs c c1 R ?R" by (rule capLoad_runs(1) [OF _ e1 c(3) w])
    moreover have "runs c1 c' ?R ?R"
      using capBinary_test [OF k c(2) _ _ w b'] runs_block [OF r1] c(3) by simp
    moreover have "residual es M ?R"
      using True opVal_wide(3) [OF v1 w] by (intro residual_known_change [OF r]) auto
    ultimately show ?thesis using runs_trans by blast
  next
    case False
    then show ?thesis using l capBinary_test [OF k c(2) _ _ w b'] c(3) r by auto
  qed
qed

lemma emuCmp_sound:
  assumes e: "emuCmp c i = Some c'" "rc_e c' = None" "currentCapBB (rc_r c) \<noteq> None" "r_es (rc_r c) = Some es"
    and r: "residual es M R" and m: "testExec (idst i) (isrc i) M = Some M'"
  shows "keeps c c' M' R"
proof -
  obtain vt b where w: "wideReg vt (idst i)" and b: "plainSrc M vt (isrc i) = Some b" and M': "M' = M"
    using m by (auto simp: testExec_def bind_eq_Some_conv wideOf_Some)
  obtain v1 v2 cs es1 where v1: "opVal c es (idst i) = Some v1" and v2: "opVal c es (isrc i) = Some v2"
    and f: "setFlagsSub es v1 (extendImm8 i vt v2) = Some (cs, es1)" and cap: "captureCmp (put_es es1 c) i es1 cs = Some c'"
    using e(1,4) by (auto simp: emuCmp_def bind_eq_Some_conv opValType_wide [OF w])
  note s = setFlags_sameRegs(2) [OF f]
  have "ev_type (extendImm8 i vt v2) = vt"
    using f opVal_wide(2) [OF v1 w] by (auto simp: setFlagsSub_def c_assert_bind Let_def split: if_splits)
  then have t: "ev_type v2 = vt \<or> otype (isrc i) = OT_Imm8" by (auto simp: extendImm8_def split: if_splits)
  have "\<not> opIsInd (isrc i)" using source_notInd [of M IT_CMP vt "isrc i" b] b by (simp add: srcVal_def)
  then have v2': "opVal (put_es es1 c) es1 (isrc i) = Some v2" using opVal_sameRegs [OF s] v2 by simp
  have "\<exists>R'. runs (put_es es1 c) c' R R' \<and> residual es1 M R'"
    using captureCmp_runs [OF cap e(2) _ w b _ v2' t] e(3) r residual_sameRegs [OF s] by simp
  then show ?thesis using keeps_same M' by blast
qed

lemma emuTest_sound:
  assumes e: "emuTest c i = Some c'" "rc_e c' = None" "currentCapBB (rc_r c) \<noteq> None" "r_es (rc_r c) = Some es"
    and r: "residual es M R" and m: "testExec (idst i) (isrc i) M = Some M'"
  shows "keeps c c' M' R"
proof -
  obtain vt b where w: "wideReg vt (idst i)" and b: "plainSrc M vt (isrc i) = Some b" and M': "M' = M"
    using m by (auto simp: testExec_def bind_eq_Some_conv wideOf_Some)
  obtain v1 v2 cs es1 where f: "setFlagsBit es IT_AND v1 v2 False = Some (cs, es1)"
    and cap: "captureTest (put_es es1 c) i es1 cs = Some c'"
    using e(1,4) by (auto simp: emuTest_def bind_eq_Some_conv)
  note s = setFlags_sameRegs(3) [OF f]
  have "runs (put_es es1 c) c' R R"
  proof (cases "csIsStatic cs")
    case True
    then show ?thesis using cap by (auto simp: captureTest_def)
  next
    case False
    then have "capBinary (put_es es1 c) es1 IT_TEST (ivtype i) (idst i) (isrc i) True True = Some c'"
      using cap by (simp add: captureTest_def)
    then show ?thesis using capBinary_test [OF _ e(2) _ _ w b] e(3) by simp
  qed
  moreover have "residual es1 M R" using r residual_sameRegs [OF s] by simp
  ultimately show ?thesis using keeps_same M' by blast
qed

section \<open>All instructions\<close>

text \<open>An instruction that the reference semantics covers is one of these.\<close>

lemma binFn_types: "binFn it vt a b = Some x \<Longrightarrow> it \<in> arithTypes \<or> it = IT_MOV \<or> it = IT_MOVSX"
  by (cases it) (auto simp: binFn_def split: cond.splits)

lemma unFn_types: "unFn it a = Some x \<Longrightarrow> it = IT_INC \<or> it = IT_DEC \<or> it = IT_NEG"
  by (auto simp: unFn_def split: instrtype.splits)

lemma binary_sound:
  assumes p: "processInstr c i = Some c'" "rc_e c' = None" "currentCapBB (rc_r c) \<noteq> None" "r_es (rc_r c) = Some es"
    and pt: "ptLen i = 0" and f: "iform i = OF_2" and r: "residual es M R" and n: "\<not> dropsClear c es i"
    and m: "binExec (itype i) (idst i) (isrc i) M = Some M'"
  shows "keeps c c' M' R"
proof -
  have "itype i \<in> arithTypes \<or> itype i = IT_MOV \<or> itype i = IT_MOVSX"
    using m by (auto simp: binExec_def bind_eq_Some_conv dest: binFn_types)
  then consider "itype i = IT_ADD \<or> itype i = IT_SUB" | "itype i = IT_IMUL" | "itype i \<in> {IT_AND, IT_OR, IT_XOR}"
    | "itype i \<in> shiftTypes" | "itype i = IT_MOV \<or> itype i = IT_MOVSX" by blast
  then show ?thesis
  proof cases
    case 1
    then have "itype i = IT_ADD \<and> emuAdd c i = Some c' \<or> itype i = IT_SUB \<and> emuSub c i = Some c'"
      using p(1) pt by (auto simp: processInstr_def)
    then show ?thesis by (rule emuAddSub_sound [OF p(2-4) _ r n m])
  next
    case 2
    then have "emuImul c i = Some c'" using p(1) pt by (simp add: processInstr_def)
    then show ?thesis by (rule emuImul_sound [OF _ p(2-4) 2 f r n m])
  next
    case 3
    then have "emuBitOp c i = Some c'" using p(1) pt by (auto simp: processInstr_def)
    then show ?thesis by (rule emuBitOp_sound [OF _ p(2-4) 3 r n m])
  next
    case 4
    then have "emuShift c i = Some c'" using p(1) pt by (auto simp: processInstr_def)
    then show ?thesis by (rule emuShift_sound [OF _ p(2-4) 4 r n m])
  next
    case 5
    then have "emuMov c i = Some c'" using p(1) pt by (auto simp: processInstr_def)
    then show ?thesis by (rule emuMov_sound [OF _ p(2-4) 5 r m])
  qed
qed

lemma instruction_sound:
  assumes p: "processInstr c i = Some c'" "rc_e c' = None" "currentCapBB (rc_r c) \<noteq> None" "r_es (rc_r c) = Some es"
    and r: "residual es M R" and n: "\<not> dropsClear c es i" and m: "regExec i M = Some M'"
  shows "keeps c c' M' R"
proof -
  have pt: "ptLen i = 0" using m by (simp add: regExec_def split: if_splits)
  consider (simple) "iform i = OF_0" | (unary) "iform i = OF_1" "unExec (itype i) (idst i) M = Some M'"
    | (lea) "itype i = IT_LEA" "leaExec (idst i) (isrc i) M = Some M'"
    | (test) "itype i = IT_CMP \<or> itype i = IT_TEST" "testExec (idst i) (isrc i) M = Some M'"
    | (binary) "iform i = OF_2" "binExec (itype i) (idst i) (isrc i) M = Some M'"
    using m pt by (auto simp: regExec_def split: operandform.splits if_splits)
  then show ?thesis
  proof cases
    case simple
    then have "itype i = IT_CLTQ \<and> M' = M(RI_A := sext32 (M RI_A)) \<or> itype i = IT_NOP \<and> M' = M"
      using m pt by (auto simp: regExec_def split: instrtype.splits)
    then show ?thesis
    proof (elim disjE conjE)
      assume a: "itype i = IT_CLTQ" "M' = M(RI_A := sext32 (M RI_A))"
      then have "emuExtendA sext32 c i = Some c'" using p(1) pt by (simp add: processInstr_def)
      from emuCltq_sound [OF this p(2-4) a(1) simple pt r] show ?thesis by (simp add: a(2))
    next
      assume a: "itype i = IT_NOP" "M' = M"
      then have "c' = c" using p(1) pt by (simp add: processInstr_def)
      then show ?thesis using a(2) p(4) r by (auto simp: keeps_def intro: exI [of _ "[]"])
    qed
  next
    case unary
    then have "itype i = IT_INC \<or> itype i = IT_DEC \<or> itype i = IT_NEG"
      by (auto simp: unExec_def bind_eq_Some_conv dest: unFn_types)
    then have "itype i = IT_INC \<and> emuIncDec (\<lambda>v. v + 1) c i = Some c' \<or> itype i = IT_DEC \<and> emuIncDec (\<lambda>v. v - 1) c i = Some c'
        \<or> itype i = IT_NEG \<and> emuNeg c i = Some c'"
      using p(1) pt by (auto simp: processInstr_def)
    then show ?thesis by (rule emuUnary_sound [OF _ p(2-4) r unary(2)])
  next
    case lea
    then have "emuLea c i = Some c'" using p(1) pt by (simp add: processInstr_def)
    then show ?thesis by (rule emuLea_sound [OF _ p(2-4) lea(1) r lea(2)])
  next
    case test
    then have "emuCmp c i = Some c' \<or> emuTest c i = Some c'" using p(1) pt by (auto simp: processInstr_def)
    then show ?thesis using emuCmp_sound [OF _ p(2-4) r test(2)] emuTest_sound [OF _ p(2-4) r test(2)] by blast
  next
    case binary
    show ?thesis by (rule binary_sound [OF p pt binary(1) r n binary(2)])
  qed
qed

section \<open>Sequences of instructions\<close>

text \<open>Emulate instructions one after the other, and no one of them is an operation whose effect
  on a high half is dropped.\<close>

primrec processAll :: "instr list \<Rightarrow> rctx \<Rightarrow> rctx option" where
  "processAll [] c = Some c"
| "processAll (i # is) c = do {
     c \<leftarrow> processInstr c i;
     (if rc_e c \<noteq> None then None else processAll is c) }"

primrec noDrops :: "instr list \<Rightarrow> rctx \<Rightarrow> bool" where
  "noDrops [] c = True"
| "noDrops (i # is) c = ((\<forall>es. r_es (rc_r c) = Some es \<longrightarrow> \<not> dropsClear c es i)
     \<and> (case processInstr c i of None \<Rightarrow> True | Some c \<Rightarrow> noDrops is c))"

lemma keeps_trans:
  assumes "keeps c c1 M1 R" and "\<And>es R1. r_es (rc_r c1) = Some es \<Longrightarrow> residual es M1 R1 \<Longrightarrow> keeps c1 c2 M2 R1"
  shows "keeps c c2 M2 R"
proof -
  obtain es1 js R1 where 1: "r_es (rc_r c1) = Some es1" "capInstr (rc_r c1) = capInstr (rc_r c) @ js"
    "currentCapBB (rc_r c1) = currentCapBB (rc_r c)" "regExecs js R = Some R1" "residual es1 M1 R1"
    using assms(1) unfolding keeps_def by blast
  obtain es2 ks R2 where 2: "r_es (rc_r c2) = Some es2" "capInstr (rc_r c2) = capInstr (rc_r c1) @ ks"
    "currentCapBB (rc_r c2) = currentCapBB (rc_r c1)" "regExecs ks R1 = Some R2" "residual es2 M2 R2"
    using assms(2) [OF 1(1,5)] unfolding keeps_def by blast
  show ?thesis unfolding keeps_def
    using 1 2 by (intro exI [of _ es2] exI [of _ "js @ ks"] exI [of _ R2]) (simp add: regExecs_append)
qed

lemma sequence_sound:
  "processAll is c = Some c' \<Longrightarrow> noDrops is c \<Longrightarrow> currentCapBB (rc_r c) \<noteq> None \<Longrightarrow> r_es (rc_r c) = Some es
    \<Longrightarrow> residual es M R \<Longrightarrow> regExecs is M = Some M' \<Longrightarrow> keeps c c' M' R"
proof (induction "is" arbitrary: c es M R)
  case Nil
  then show ?case by (auto simp: keeps_def intro: exI [of _ "[]"])
next
  case (Cons i "is")
  obtain c1 where c1: "processInstr c i = Some c1" "rc_e c1 = None" "processAll is c1 = Some c'"
    using Cons.prems(1) by (auto simp: bind_eq_Some_conv split: if_splits)
  obtain M1 where M1: "regExec i M = Some M1" "regExecs is M1 = Some M'"
    using Cons.prems(6) by (auto simp: bind_eq_Some_conv)
  have k: "keeps c c1 M1 R"
    using instruction_sound [OF c1(1,2) Cons.prems(3-5) _ M1(1)] Cons.prems(2,4) by simp
  then have "currentCapBB (rc_r c1) \<noteq> None" using Cons.prems(3) by (auto simp: keeps_def)
  moreover have "noDrops is c1" using Cons.prems(2) c1(1) by simp
  ultimately show ?case using Cons.IH [OF c1(3) _ _ _ _ M1(2)] by (intro keeps_trans [OF k]) blast
qed

end
