(* ===== verification/Engine.thy ===== *)
theory Engine
  imports Emulate Decode Generate
begin

text \<open>
  The rewriting engine (\<open>src/engine.c\<close>): tracing a function with the emulator until all paths
  are captured, the copy pass over captured instructions, and the generation of code for the
  captured blocks, which are laid out, moved together and linked by jumps. At the end the
  interface of \<open>src/dbrew.c\<close>.

  What the process provides is the parameter \<open>w\<close>, a \<open>world\<close>: the opcode tables, the address of
  a code region that \<open>mmap\<close> would return, the address of the emulated stack, the addresses of
  the functions that the emulator knows, and the handler of vector calls. The loops that may
  run forever are partial functions, for which \<open>None\<close> is also the result of not ending.
\<close>

section \<open>Tracing\<close>

record world =
  w_tables :: "dechandler opctables"
  w_mmap :: "u64 option"
  w_stack :: u64
  w_known :: knownfuncs
  w_vector :: "rctx \<Rightarrow> u64 \<Rightarrow> (u64 \<times> rctx) option"

definition parReg :: "regindex list" where
  "parReg = [RI_DI, RI_SI, RI_D, RI_C, RI_8, RI_9]"

text \<open>Put parameter \<open>k\<close> into its register, with the configured state and a name.\<close>

definition setPar :: "nat \<Rightarrow> u64 \<Rightarrow> rewriter \<Rightarrow> rewriter option" where
  "setPar k v r = do {
     es \<leftarrow> r_es r;
     c_assert (k < length parReg);
     let ms = (case r_cc r of Some cc \<Rightarrow> (if k < CC_MAXPARAM then par_state cc ! k else initMetaState CS_DYNAMIC)
               | None \<Rightarrow> initMetaState CS_DYNAMIC);
     (n, pool) \<leftarrow> expr_newPar (ePool r) (int k) (case r_cc r of Some cc \<Rightarrow> par_name cc ! k | None \<Rightarrow> None);
     Some (r\<lparr>ePool := Some pool,
       r_es := Some (es\<lparr>es_reg := (es_reg es)(parReg ! k := v),
         reg_state := (reg_state es)(parReg ! k := ms\<lparr>parDep := Some n\<rparr>)\<rparr>)\<rparr>) }"

primrec setPars :: "nat \<Rightarrow> u64 list \<Rightarrow> rewriter \<Rightarrow> rewriter option" where
  "setPars k [] r = Some r"
| "setPars k (v # vs) r = do { r \<leftarrow> setPar k v r; setPars (Suc k) vs r }"

text \<open>What a turn over the instructions of a decoded block ends with: an error, or the next
  address and the last instruction.\<close>

datatype (plugins only: code size) bbend = BBError error rewriter | BBNext rctx u64 instr

primrec runInstrs :: "world \<Rightarrow> instr list \<Rightarrow> rctx \<Rightarrow> bbend option" where
  "runInstrs w [] c = None"
| "runInstrs w (i # is) c = do {
     es \<leftarrow> r_es (rc_r c);
     let c = (put_es (es\<lparr>regIP := nextAddr i\<rparr>) c)\<lparr>rc_exit := 0\<rparr>;
     c \<leftarrow> processInstr c i;
     (case rc_e c of
        Some e \<Rightarrow> do { c_assert (isErrorSet e); Some (BBError e ((rc_r c)\<lparr>capBB := []\<rparr>)) }
      | None \<Rightarrow> do {
          c_assert (rc_exit c \<noteq> 0 \<longrightarrow> is = []);
          (next, c) \<leftarrow> processKnownTargets (w_known w) (w_vector w) c (rc_exit c);
          (if next \<noteq> 0 then Some (BBNext c next i)
           else if is = [] then Some (BBNext c (nextAddr i) i)
           else runInstrs w is c) }) }"

text \<open>Go to the next block that is not processed yet; \<open>None\<close> inside: all paths are captured.\<close>

definition openCBB :: "rctx \<Rightarrow> u64 \<Rightarrow> (rctx \<times> u64) option option" where
  "openCBB c bb_addr =
     (if currentCapBB (rc_r c) \<noteq> None then Some (Some (c, bb_addr))
      else
        (let r = rc_r c;
             st = dropWhile (\<lambda>b. endType (capBB r ! b) \<noteq> IT_None) (capStack r);
             r = r\<lparr>capStack := st\<rparr>
         in case st of
              [] \<Rightarrow> Some None
            | b # _ \<Rightarrow> do {
                c_assert (cbb_count (capBB r ! b) = 0);
                r \<leftarrow> restoreEmuState r (esID (capBB r ! b));
                Some (Some (with_r (r\<lparr>currentCapBB := Some b\<rparr>) c, dec_addr (capBB r ! b))) }))"

text \<open>After a block: finish the path when the traced function has returned. The first component
  says that capturing the return failed.\<close>

definition closePath :: "rctx \<Rightarrow> instr \<Rightarrow> (bool \<times> rctx) option" where
  "closePath c i = do {
     es \<leftarrow> r_es (rc_r c);
     (if depth es < 0 then do {
        c_assert (itype i = IT_RET);
        c \<leftarrow> captureRet c i es;
        (if rc_e c \<noteq> None then Some (True, c)
         else do {
           (b, r) \<leftarrow> popCaptureBB (rc_r c);
           Some (False, updCBB b (\<lambda>b. b\<lparr>endType := IT_RET\<rparr>) (with_r r c)) }) }
      else Some (False, c)) }"

partial_function (option) traceLoop ::
  "world \<Rightarrow> rctx \<Rightarrow> u64 \<Rightarrow> (error option \<times> rewriter) option" where
  "traceLoop w c bb_addr = do {
     op \<leftarrow> openCBB c bb_addr;
     (case op of
        None \<Rightarrow> Some (None, (rc_r c)\<lparr>capStack := []\<rparr>)
      | Some (c, bb_addr) \<Rightarrow> do {
          (b, _, r) \<leftarrow> dbrew_decode (w_tables w) (w_mmap w) (rc_r c) bb_addr;
          b \<leftarrow> b;
          let is = take (dbb_count (decBB r ! b)) (drop (dbb_instr (decBB r ! b)) (decInstr r));
          e \<leftarrow> runInstrs w is (with_r r c);
          (case e of
             BBError e r \<Rightarrow> Some (Some e, r)
           | BBNext c next i \<Rightarrow> do {
               (failed, c) \<leftarrow> closePath c i;
               (if failed then Some (rc_e c, rc_r c) else traceLoop w c next) }) }) }"

definition emulateAndCapture :: "world \<Rightarrow> rewriter \<Rightarrow> u64 list \<Rightarrow> (error option \<times> rewriter) option" where
  "emulateAndCapture w r par = do {
     let es = resetEmuState (w_stack w) (case r_es r of Some es \<Rightarrow> es | None \<Rightarrow> allocEmuState 1024);
     let r = r\<lparr>r_es := Some es\<rparr>;
     r \<leftarrow> resetCapturing r;
     let r = r\<lparr>r_cs := map_option (cs_used_update (\<lambda>_. 0)) (r_cs r)\<rparr>;
     r \<leftarrow> setPars 0 par r;
     es \<leftarrow> r_es r;
     let es = es\<lparr>es_reg := (es_reg es)(RI_SP := stackStart es + of_nat (stackSize es)),
       reg_state := (reg_state es)(RI_SP := initMetaState CS_STACKRELATIVE)\<rparr>;
     let c = \<lparr>rc_r = r\<lparr>r_es := Some es\<rparr>, rc_exit = 0, rc_e = None\<rparr>;
     (k, c) \<leftarrow> saveEmuState c;
     (b, c) \<leftarrow> (if k \<ge> 0 then getCaptureBB c (r_func (rc_r c)) k else Some (None, c));
     (if rc_e c \<noteq> None then Some (rc_e c, rc_r c)
      else do {
        c_assert (b = Some 0);
        let c = pushCaptureBB c 0;
        (if rc_e c \<noteq> None then Some (rc_e c, rc_r c)
         else do {
           c_assert (length (capStack (rc_r c)) = 1);
           let c = with_r ((rc_r c)\<lparr>currentCapBB := Some 0\<rparr>) c;
           c \<leftarrow> (if addInliningHints (rc_r c) then capture c (initSimpleInstr instr0 IT_HINT_CALL)
                 else Some c);
           (if rc_e c \<noteq> None then Some (rc_e c, rc_r c)
            else traceLoop w c (dec_addr (capBB (rc_r c) ! 0))) }) }) }"

text \<open>\<open>vEmulateAndCapture\<close>; the variable arguments are a list.\<close>

definition vEmulateAndCapture :: "world \<Rightarrow> rewriter \<Rightarrow> u64 list \<Rightarrow> (error option \<times> rewriter) option" where
  "vEmulateAndCapture w r args = do {
     cc \<leftarrow> r_cc r;
     (if parCount cc = -1
      then Some (Some (mkError ET_InvalidRequest EM_Rewriter (Some ''number of parameters not set'')), r)
      else if parCount cc > 6
      then Some (Some (mkError ET_InvalidRequest EM_Rewriter
             (Some ''number of parameters >6 not supported'')), r)
      else do {
        c_assert (nat (parCount cc) \<le> length args);
        emulateAndCapture w r (take (nat (parCount cc)) args) }) }"

section \<open>The copy pass\<close>

text \<open>\<open>optPassCopy\<close>: the index of the first copy, or none when there are no instructions or no
  room. The block's instructions start at \<open>start\<close>.\<close>

primrec copyInstrs :: "nat \<Rightarrow> nat \<Rightarrow> rctx \<Rightarrow> (bool \<times> rctx) option" where
  "copyInstrs 0 k c = Some (True, c)"
| "copyInstrs (Suc n) k c =
     (case newCapInstr c of
        (None, c) \<Rightarrow> Some (False, c)
      | (Some slot, c) \<Rightarrow> do {
          i \<leftarrow> copyInstr (capInstr (rc_r c) ! slot) (capInstr (rc_r c) ! k);
          copyInstrs n (Suc k) (putCapInstr slot i c) })"

definition optPassCopy :: "rctx \<Rightarrow> cbb \<Rightarrow> (nat option \<times> rctx) option" where
  "optPassCopy c b =
     (if cbb_count b = 0 then Some (None, c)
      else do {
        start \<leftarrow> cbb_instr b;
        let first = length (capInstr (rc_r c));
        (fine, c) \<leftarrow> copyInstrs (cbb_count b) start c;
        Some (if fine then Some first else None, c) })"

definition optPass :: "rctx \<Rightarrow> nat \<Rightarrow> rctx option" where
  "optPass c b =
     (if doCopyPass (rc_r c) then do {
        (first, c) \<leftarrow> optPassCopy c (capBB (rc_r c) ! b);
        Some (case first of Some k \<Rightarrow> updCBB b (\<lambda>b. b\<lparr>cbb_instr := Some k\<rparr>) c | None \<Rightarrow> c) }
      else Some c)"

primrec optPasses :: "nat list \<Rightarrow> rctx \<Rightarrow> rctx option" where
  "optPasses [] c = Some c"
| "optPasses (b # bs) c = do {
     c \<leftarrow> optPass c b;
     (if rc_e c \<noteq> None then Some c else optPasses bs c) }"

definition runOptsOnCaptured :: "rctx \<Rightarrow> rctx option" where
  "runOptsOnCaptured c = optPasses [0..<length (capBB (rc_r c))] c"

section \<open>Generating code for the captured blocks\<close>

definition useCS :: "int \<Rightarrow> rctx \<Rightarrow> rctx option" where
  "useCS n c = do {
     cs \<leftarrow> r_cs (rc_r c);
     (_, cs) \<leftarrow> useCodeStorage cs n;
     Some (with_r ((rc_r c)\<lparr>r_cs := Some cs\<rparr>) c) }"

text \<open>Pass 1: generate the blocks reachable from the first one, with room for jumps behind
  each.\<close>

partial_function (option) genPass1 :: "rctx \<Rightarrow> rctx option" where
  "genPass1 c =
     (case capStack (rc_r c) of
        [] \<Rightarrow> Some c
      | b # st \<Rightarrow>
          (let c = with_r ((rc_r c)\<lparr>capStack := st\<rparr>) c in
           if cbb_size (capBB (rc_r c) ! b) \<ge> 0 then genPass1 c
           else do {
             c_assert (length (genOrder (rc_r c)) < GENORDER_MAX);
             (e, r) \<leftarrow> generate ((rc_r c)\<lparr>genOrder := genOrder (rc_r c) @ [b]\<rparr>) b;
             (case e of
                Some e \<Rightarrow> do {
                  c_assert (isErrorSet e);
                  Some (c\<lparr>rc_r := r\<lparr>generatedCodeAddr := 0, generatedCodeSize := 0\<rparr>,
                          rc_e := Some (error.truncate e)\<rparr>) }
              | None \<Rightarrow> do {
                  let c = with_r r c;
                  c \<leftarrow> (if instrIsJcc (endType (capBB r ! b)) then do {
                          t \<leftarrow> nextBranch (capBB r ! b);
                          f \<leftarrow> nextFallThrough (capBB r ! b);
                          Some (pushCaptureBB (pushCaptureBB c t) f) }
                        else Some c);
                  (if rc_e c \<noteq> None then Some c
                   else do { c \<leftarrow> useCS 26 c; genPass1 c }) }) }))"

text \<open>Copy bytes one after the other; source and target may overlap.\<close>

primrec copyBytes :: "nat \<Rightarrow> u64 \<Rightarrow> u64 \<Rightarrow> mem \<Rightarrow> mem" where
  "copyBytes 0 src dst m = m"
| "copyBytes (Suc n) src dst m = copyBytes n (src + 1) (dst + 1) (m(dst := m src))"

text \<open>A 64 bit difference as C \<open>int\<close>.\<close>

definition asInt :: "u64 \<Rightarrow> int" where
  "asInt v = sint (ucast v :: u32)"

text \<open>Where block \<open>b\<close> is moved to, and which jumps it needs; \<open>next\<close> is the block behind it.\<close>

definition placeBlock :: "nat \<Rightarrow> nat option \<Rightarrow> u64 \<times> rctx \<Rightarrow> (u64 \<times> rctx) option" where
  "placeBlock b next s = (case s of (buf1, c) \<Rightarrow> do {
     let c = updCBB b (\<lambda>x. x\<lparr>addr2 := buf1\<rparr>) c;
     let x = capBB (rc_r c) ! b;
     let buf1 = buf1 + of_int (cbb_size x);
     c \<leftarrow> (if cbb_size x > 0 then do {
             c_assert (cbb_count x > 0);
             c_assert (addr2 x \<le> addr1 x);
             Some (with_r ((rc_r c)\<lparr>r_mem := copyBytes (nat (cbb_size x)) (addr1 x) (addr2 x)
               (r_mem (rc_r c))\<rparr>) c) }
           else Some c);
     (if \<not> instrIsJcc (endType x) then Some (buf1, c)
      else do {
        t \<leftarrow> nextBranch x;
        let diff = asInt (addr1 (capBB (rc_r c) ! t) - (addr1 x + of_int (cbb_size x)));
        let short = (genJcc8 x \<or> -120 < diff \<and> diff < 120);
        let jump = (genJump x \<or> nextFallThrough x \<noteq> next);
        Some (buf1 + (if short then 2 else 6) + (if nextFallThrough x \<noteq> next then 5 else 0),
          updCBB b (\<lambda>x. x\<lparr>genJcc8 := short, genJump := jump\<rparr>) c) }) })"

primrec genPass2 :: "nat list \<Rightarrow> u64 \<times> rctx \<Rightarrow> (u64 \<times> rctx) option" where
  "genPass2 [] s = Some s"
| "genPass2 (b # bs) s = do {
     s \<leftarrow> placeBlock b (case bs of [] \<Rightarrow> None | n # _ \<Rightarrow> Some n) s;
     genPass2 bs s }"

text \<open>The number of the condition in the opcode of a jump.\<close>

definition jccNumber :: "instrtype \<Rightarrow> nat option" where
  "jccNumber it = (case it of IT_J k \<Rightarrow>
       (case k of CC_O \<Rightarrow> Some 0 | CC_NO \<Rightarrow> Some 1 | CC_C \<Rightarrow> Some 2 | CC_NC \<Rightarrow> Some 3
        | CC_Z \<Rightarrow> Some 4 | CC_NZ \<Rightarrow> Some 5 | CC_BE \<Rightarrow> Some 6 | CC_A \<Rightarrow> Some 7
        | CC_S \<Rightarrow> Some 8 | CC_NS \<Rightarrow> Some 9 | CC_P \<Rightarrow> Some 10 | CC_NP \<Rightarrow> Some 11
        | CC_L \<Rightarrow> Some 12 | CC_GE \<Rightarrow> Some 13 | CC_LE \<Rightarrow> Some 14 | CC_G \<Rightarrow> Some 15)
     | _ \<Rightarrow> None)"

text \<open>The jumps behind a block that ends at address \<open>a\<close>.\<close>

definition jccBytes :: "cbb \<Rightarrow> u64 \<Rightarrow> u64 \<Rightarrow> u8 list option" where
  "jccBytes x target a = do {
     n \<leftarrow> jccNumber (endType x);
     (if genJcc8 x then do {
        let diff = asInt (target - (a + 2));
        c_assert (-128 < diff \<and> diff < 127);
        Some [0x70 + of_nat n, of_int diff] }
      else Some ([0x0F, 0x80 + of_nat n] @ le32 (target - (a + 6)))) }"

definition jumpBytes :: "cbb \<Rightarrow> u64 \<Rightarrow> u64 \<Rightarrow> u8 list" where
  "jumpBytes x target a = (if genJump x then 0xE9 # le32 (target - (a + 5)) else [])"

definition linkBlock :: "nat \<Rightarrow> rctx \<Rightarrow> rctx option" where
  "linkBlock b c =
     (let x = capBB (rc_r c) ! b in
      if \<not> instrIsJcc (endType x) then Some c
      else do {
        let a = addr2 x + of_int (cbb_size x);
        t \<leftarrow> nextBranch x;
        bs \<leftarrow> jccBytes x (addr2 (capBB (rc_r c) ! t)) a;
        let a' = a + of_nat (length bs);
        f \<leftarrow> (if genJump x then nextFallThrough x else Some b);
        let js = jumpBytes x (addr2 (capBB (rc_r c) ! f)) a';
        Some (with_r ((rc_r c)\<lparr>r_mem := store_bytes (store_bytes (r_mem (rc_r c)) a bs) a' js\<rparr>) c) })"

primrec genPass3 :: "nat list \<Rightarrow> rctx \<Rightarrow> rctx option" where
  "genPass3 [] c = Some c"
| "genPass3 (b # bs) c = do { c \<leftarrow> linkBlock b c; genPass3 bs c }"

definition generateBinaryFromCaptured :: "rctx \<Rightarrow> rctx option" where
  "generateBinaryFromCaptured c = do {
     cs \<leftarrow> r_cs (rc_r c);
     buf0 \<leftarrow> reserveCodeStorage cs 0;
     let off = uint (buf0 AND 63);
     c \<leftarrow> (if off > 0 then useCS (64 - off) c else Some c);
     cs \<leftarrow> r_cs (rc_r c);
     buf0 \<leftarrow> reserveCodeStorage cs 0;
     let usedPass0 = cs_used cs;
     let genOrder0 = length (genOrder (rc_r c));
     c_assert (capStack (rc_r c) = []);
     c_assert (capBB (rc_r c) \<noteq> []);
     c \<leftarrow> genPass1 (pushCaptureBB c 0);
     (if rc_e c \<noteq> None then Some c
      else do {
        c_assert (length (genOrder (rc_r c)) < GENORDER_MAX);
        (buf1, c) \<leftarrow> genPass2 (drop genOrder0 (genOrder (rc_r c))) (buf0, c);
        cs \<leftarrow> r_cs (rc_r c);
        let cs = cs\<lparr>cs_used := usedPass0 + uint (buf1 - buf0)\<rparr>;
        let c = with_r ((rc_r c)\<lparr>r_cs := Some cs\<rparr>) c;
        c \<leftarrow> genPass3 (genOrder (rc_r c)) c;
        c_assert (cs_used cs > 0);
        Some (case genOrder (rc_r c) of
            [] \<Rightarrow> with_r ((rc_r c)\<lparr>generatedCodeAddr := 0, generatedCodeSize := 0\<rparr>) c
          | b # _ \<Rightarrow> with_r ((rc_r c)\<lparr>generatedCodeAddr := addr2 (capBB (rc_r c) ! b),
              generatedCodeSize := cs_used cs - asInt (addr2 (capBB (rc_r c) ! b) - cs_buf cs)\<rparr>) c) }) }"

end
