(* ===== verification/Layout.thy ===== *)
theory Layout
  imports Engine
begin

text \<open>
  Where the generated blocks end up: the second pass of the code generation moves them together,
  the third fills the room behind them with jumps. The blocks' code arrives unchanged, nothing
  overlaps, distances only shrink, and the third pass writes exactly the jumps that the blocks
  need.
\<close>

section \<open>Moving bytes\<close>

lemma uint_plus_of_nat:
  assumes "uint (a :: u64) + int n < 2 ^ 64"
  shows "uint (a + of_nat n) = uint a + int n"
proof -
  have "int n < 2 ^ 64" using assms uint_ge_0 [of a] by linarith
  then have "n < 2 ^ 64" by simp
  then have "uint (of_nat n :: u64) = int n" by (simp add: unsigned_of_nat take_bit_eq_mod)
  then show ?thesis using assms iffD1 [OF uint_add_lem, of a "of_nat n"] by simp
qed

lemma uint_plus_of_int:
  "0 \<le> k \<Longrightarrow> uint (a :: u64) + k < 2 ^ 64 \<Longrightarrow> uint (a + of_int k) = uint a + k"
  using uint_plus_of_nat [of a "nat k"] by simp

text \<open>Copying downwards, byte by byte from the start, is right although the regions may overlap.\<close>

lemma copyBytes_at:
  assumes "uint dst \<le> uint src" and "uint src + int n \<le> 2 ^ 64"
  shows "copyBytes n src dst m p
    = (if uint dst \<le> uint p \<and> uint p < uint dst + int n then m (src + (p - dst)) else m p)"
  using assms
proof (induction n arbitrary: src dst m)
  case 0
  then show ?case by auto
next
  case (Suc n)
  show ?case
  proof (cases "n = 0")
    case True
    moreover have "uint dst \<le> uint p \<and> uint p < uint dst + 1 \<longleftrightarrow> p = dst" by (auto simp: word_uint_eq_iff)
    ultimately show ?thesis by auto
  next
    case False
    have u: "uint (src + 1) = uint src + 1" "uint (dst + 1) = uint dst + 1"
      using uint_plus_of_nat [of src 1] uint_plus_of_nat [of dst 1] Suc.prems False by simp_all
    have a: "src + 1 + (p - (dst + 1)) = src + (p - dst)" by simp
    have ne: "src + (p - dst) \<noteq> dst" if "uint dst < uint p" "uint p < uint dst + 1 + int n"
    proof -
      have "uint (p - dst) = uint p - uint dst" using that(1) iffD1 [OF uint_sub_lem, of dst p] by simp
      then have "uint (src + (p - dst)) = uint src + (uint p - uint dst)"
        using that Suc.prems iffD1 [OF uint_add_lem, of src "p - dst"] by simp
      then have "uint dst < uint (src + (p - dst))" using that Suc.prems(1) by linarith
      then show ?thesis by (metis order_less_irrefl)
    qed
    have "copyBytes (Suc n) src dst m p = copyBytes n (src + 1) (dst + 1) (m(dst := m src)) p" by simp
    also have "\<dots> = (if uint (dst + 1) \<le> uint p \<and> uint p < uint (dst + 1) + int n
        then (m(dst := m src)) (src + 1 + (p - (dst + 1))) else (m(dst := m src)) p)"
      by (rule Suc.IH) (use Suc.prems in \<open>simp_all add: u\<close>)
    finally have c: "copyBytes (Suc n) src dst m p = (if uint dst + 1 \<le> uint p \<and> uint p < uint dst + 1 + int n
        then (m(dst := m src)) (src + (p - dst)) else (m(dst := m src)) p)" unfolding a u .
    show ?thesis
    proof (cases "p = dst")
      case True
      then show ?thesis unfolding c by simp
    next
      case False
      then have "uint p \<noteq> uint dst" by (simp add: word_uint_eq_iff)
      then show ?thesis using False ne unfolding c by auto
    qed
  qed
qed

text \<open>Stored bytes stand where they were stored, and nothing else changes.\<close>

lemma store_bytes_at:
  assumes "uint a + int (length bs) \<le> 2 ^ 64"
  shows "bytes_at (store_bytes m a bs) a bs"
  using assms
proof (induction bs arbitrary: m a)
  case Nil
  then show ?case by simp
next
  case (Cons b bs)
  show ?case
  proof (cases bs)
    case Nil
    then show ?thesis by simp
  next
    case (Cons b' bs')
    have u: "uint (a + 1) = uint a + 1"
      using uint_plus_of_nat [of a 1] Cons.prems local.Cons by simp
    have "store_bytes (m(a := b)) (a + 1) bs a = b"
    proof (subst store_bytes_outside)
      fix i assume "i < length bs"
      then have "uint (a + 1 + of_nat i) = uint a + 1 + int i"
        using uint_plus_of_nat [of "a + 1" i] u Cons.prems by simp
      then show "a \<noteq> a + 1 + of_nat i" by (metis add.assoc less_add_one linorder_not_less of_nat_0_le_iff zle_iff_zadd)
    qed simp
    then show ?thesis using Cons.IH [of "a + 1" "m(a := b)"] u Cons.prems by (simp del: fun_upd_apply)
  qed
qed

lemma store_bytes_outside_region:
  assumes "uint a + int (length bs) \<le> 2 ^ 64" and "uint p < uint a \<or> uint a + int (length bs) \<le> uint p"
  shows "store_bytes m a bs p = m p"
proof (rule store_bytes_outside)
  fix i assume "i < length bs"
  then have "uint (a + of_nat i) = uint a + int i" using uint_plus_of_nat [of a i] assms(1) by simp
  then show "p \<noteq> a + of_nat i" using assms(2) \<open>i < length bs\<close> by auto
qed

lemma bytes_at_cong:
  assumes "bytes_at m a bs" and "uint a + int (length bs) \<le> 2 ^ 64"
    and "\<And>p. uint a \<le> uint p \<Longrightarrow> uint p < uint a + int (length bs) \<Longrightarrow> m' p = m p"
  shows "bytes_at m' a bs"
  using assms
proof (induction bs arbitrary: a)
  case (Cons b bs)
  show ?case
  proof (cases bs)
    case Nil
    then show ?thesis using Cons.prems(1) Cons.prems(3) [of a] by simp
  next
    case (Cons b' bs')
    have u: "uint (a + 1) = uint a + 1"
      using uint_plus_of_nat [of a 1] Cons.prems(2) local.Cons by simp
    then show ?thesis using Cons.IH [of "a + 1"] Cons.prems by simp
  qed
qed simp

section \<open>Placing a block\<close>

abbreviation blk :: "rctx \<Rightarrow> nat \<Rightarrow> cbb" where
  "blk c b \<equiv> capBB (rc_r c) ! b"

text \<open>The room for the jumps behind a block.\<close>

definition jumpRoom :: "cbb \<Rightarrow> int" where
  "jumpRoom x = (if instrIsJcc (endType x) then (if genJcc8 x then 2 else 6) + (if genJump x then 5 else 0) else 0)"

lemma jumpRoom_bounds: "0 \<le> jumpRoom x" "jumpRoom x \<le> 11"
  by (simp_all add: jumpRoom_def)

text \<open>The distance from the end of a block to its branch target, as the code was generated.\<close>

definition branchDist :: "cbb list \<Rightarrow> cbb \<Rightarrow> nat \<Rightarrow> int" where
  "branchDist bs x t = asInt (addr1 (bs ! t) - (addr1 x + of_int (cbb_size x)))"

text \<open>A block as it was, but for its place and the kind of its jumps.\<close>

definition movedTo :: "cbb \<Rightarrow> u64 \<Rightarrow> cbb \<Rightarrow> bool" where
  "movedTo x p y \<longleftrightarrow> (\<exists>s j. y = x\<lparr>addr2 := p, genJcc8 := s, genJump := j\<rparr>)"

lemma movedTo_sel:
  assumes "movedTo x p y"
  shows "addr2 y = p" "addr1 y = addr1 x" "cbb_size y = cbb_size x" "endType y = endType x" "cbb_count y = cbb_count x"
    "nextBranch y = nextBranch x" "nextFallThrough y = nextFallThrough x"
  using assms by (auto simp: movedTo_def)

definition jumpsChosen :: "cbb list \<Rightarrow> cbb \<Rightarrow> nat option \<Rightarrow> cbb \<Rightarrow> bool" where
  "jumpsChosen bs x next y \<longleftrightarrow> (instrIsJcc (endType x) \<longrightarrow> (\<exists>t. nextBranch x = Some t
     \<and> (genJcc8 y \<longleftrightarrow> -120 < branchDist bs x t \<and> branchDist bs x t < 120)
     \<and> (genJump y \<longleftrightarrow> nextFallThrough x \<noteq> next)))"

text \<open>The code of a block is copied to its place.\<close>

definition moveCode :: "cbb \<Rightarrow> u64 \<Rightarrow> mem \<Rightarrow> mem" where
  "moveCode x p m = (if cbb_size x > 0 then copyBytes (nat (cbb_size x)) (addr1 x) p m else m)"

definition freshJumps :: "cbb \<Rightarrow> bool" where
  "freshJumps x \<longleftrightarrow> \<not> genJcc8 x \<and> \<not> genJump x"

lemma placeBlock_result:
  assumes run: "placeBlock b next (buf, c) = Some (buf', c')" and b: "b < length (capBB (rc_r c))"
    and size: "0 \<le> cbb_size (blk c b)" and f: "freshJumps (blk c b)"
    and le: "uint buf + cbb_size (blk c b) + 11 < 2 ^ 64"
  obtains y where "movedTo (blk c b) buf y" "jumpsChosen (capBB (rc_r c)) (blk c b) next y"
    "c' = with_r ((rc_r c)\<lparr>r_mem := moveCode (blk c b) buf (r_mem (rc_r c)), capBB := (capBB (rc_r c))[b := y]\<rparr>) c"
    "uint buf' = uint buf + cbb_size (blk c b) + jumpRoom y"
proof -
  let ?x = "blk c b" and ?r = "rc_r c"
  let ?y = "?x\<lparr>addr2 := buf\<rparr>"
  let ?c1 = "updCBB b (\<lambda>x. x\<lparr>addr2 := buf\<rparr>) c"
  let ?c2 = "with_r (?r\<lparr>r_mem := moveCode ?x buf (r_mem ?r), capBB := (capBB ?r)[b := ?y]\<rparr>) c"
  have x1: "blk ?c1 b = ?y" using b by (simp add: updCBB_def with_r_def)
  have u: "uint (buf + of_int (cbb_size ?x)) = uint buf + cbb_size ?x"
    by (rule uint_plus_of_int) (use size le in simp_all)
  have body: "do {
     c \<leftarrow> (if cbb_size ?x > 0 then do {
             c_assert (cbb_count ?x > 0);
             c_assert (buf \<le> addr1 ?x);
             Some (with_r ((rc_r ?c1)\<lparr>r_mem := copyBytes (nat (cbb_size ?x)) (addr1 ?x) buf (r_mem (rc_r ?c1))\<rparr>) ?c1) }
           else Some ?c1);
     (if \<not> instrIsJcc (endType ?x) then Some (buf + of_int (cbb_size ?x), c)
      else do {
        t \<leftarrow> nextBranch ?x;
        let diff = asInt (addr1 (blk c t) - (addr1 ?x + of_int (cbb_size ?x)));
        let short = (genJcc8 ?x \<or> -120 < diff \<and> diff < 120);
        let jump = (genJump ?x \<or> nextFallThrough ?x \<noteq> next);
        Some (buf + of_int (cbb_size ?x) + (if short then 2 else 6) + (if nextFallThrough ?x \<noteq> next then 5 else 0),
          updCBB b (\<lambda>x. x\<lparr>genJcc8 := short, genJump := jump\<rparr>) c) }) } = Some (buf', c')"
    using run unfolding placeBlock_def Let_def prod.case x1 by (simp cong: if_cong)
  have "(if cbb_size ?x > 0 then do {
             c_assert (cbb_count ?x > 0);
             c_assert (buf \<le> addr1 ?x);
             Some (with_r ((rc_r ?c1)\<lparr>r_mem := copyBytes (nat (cbb_size ?x)) (addr1 ?x) buf (r_mem (rc_r ?c1))\<rparr>) ?c1) }
           else Some ?c1) \<in> {None, Some ?c2}"
    by (auto simp: moveCode_def updCBB_def with_r_def c_assert_bind)
  then have body2: "(if \<not> instrIsJcc (endType ?x) then Some (buf + of_int (cbb_size ?x), ?c2)
      else do {
        t \<leftarrow> nextBranch ?x;
        let diff = asInt (addr1 (blk ?c2 t) - (addr1 ?x + of_int (cbb_size ?x)));
        let short = (genJcc8 ?x \<or> -120 < diff \<and> diff < 120);
        let jump = (genJump ?x \<or> nextFallThrough ?x \<noteq> next);
        Some (buf + of_int (cbb_size ?x) + (if short then 2 else 6) + (if nextFallThrough ?x \<noteq> next then 5 else 0),
          updCBB b (\<lambda>x. x\<lparr>genJcc8 := short, genJump := jump\<rparr>) ?c2) }) = Some (buf', c')"
    using body by auto
  have a: "capBB (rc_r ?c2) = (capBB ?r)[b := ?y]" "addr1 (blk ?c2 t) = addr1 (capBB ?r ! t)" for t
    using b by (simp_all add: with_r_def nth_list_update)
  show thesis
  proof (cases "instrIsJcc (endType ?x)")
    case False
    then have "buf' = buf + of_int (cbb_size ?x)" "c' = ?c2" using body2 by simp_all
    moreover have "movedTo ?x buf ?y"
      unfolding movedTo_def by (rule exI [of _ "genJcc8 ?x"], rule exI [of _ "genJump ?x"]) simp
    ultimately show thesis using False u
      by (intro that [of ?y]) (simp_all add: jumpsChosen_def jumpRoom_def)
  next
    case True
    then obtain t where t: "nextBranch ?x = Some t"
      and e: "(let diff = asInt (addr1 (blk ?c2 t) - (addr1 ?x + of_int (cbb_size ?x)));
         short = (genJcc8 ?x \<or> -120 < diff \<and> diff < 120);
         jump = (genJump ?x \<or> nextFallThrough ?x \<noteq> next)
       in Some (buf + of_int (cbb_size ?x) + (if short then 2 else 6) + (if nextFallThrough ?x \<noteq> next then 5 else 0),
          updCBB b (\<lambda>x. x\<lparr>genJcc8 := short, genJump := jump\<rparr>) ?c2)) = Some (buf', c')"
      using body2 by (auto simp: bind_eq_Some_conv Let_def)
    define s where "s = (-120 < branchDist (capBB ?r) ?x t \<and> branchDist (capBB ?r) ?x t < 120)"
    define j where "j = (nextFallThrough ?x \<noteq> next)"
    have b': "buf' = buf + of_int (cbb_size ?x) + (if s then 2 else 6) + (if j then 5 else 0)"
      and c': "c' = updCBB b (\<lambda>x. x\<lparr>genJcc8 := s, genJump := j\<rparr>) ?c2"
      using e f unfolding Let_def a(2) s_def j_def branchDist_def freshJumps_def by auto
    have "buf' = buf + of_int (cbb_size ?x) + of_int ((if s then 2 else 6) + (if j then 5 else 0))"
      by (simp add: b')
    then have "uint buf' = uint (buf + of_int (cbb_size ?x)) + ((if s then 2 else 6) + (if j then 5 else 0))"
      using uint_plus_of_int [of "(if s then 2 else 6) + (if j then 5 else 0)" "buf + of_int (cbb_size ?x)"] le
      unfolding u by (auto split: if_splits)
    then show thesis using t True b c' unfolding u
      by (intro that [of "?x\<lparr>addr2 := buf, genJcc8 := s, genJump := j\<rparr>"])
        (auto simp: movedTo_def jumpsChosen_def jumpRoom_def s_def j_def updCBB_def with_r_def)
  qed
qed

section \<open>The second pass\<close>

text \<open>The blocks as the first pass leaves them: one behind the other, each followed by room for its
  jumps, in pages that do not wrap around.\<close>

definition apart :: "cbb list \<Rightarrow> nat \<Rightarrow> nat \<Rightarrow> bool" where
  "apart bs a b \<longleftrightarrow> uint (addr1 (bs ! a)) + cbb_size (bs ! a) + 26 \<le> uint (addr1 (bs ! b))"

definition laidOut :: "cbb list \<Rightarrow> nat list \<Rightarrow> bool" where
  "laidOut bs os \<longleftrightarrow> distinct os \<and> set os \<subseteq> {..<length bs} \<and> sorted_wrt (apart bs) os
     \<and> (\<forall>b \<in> set os. 0 \<le> cbb_size (bs ! b) \<and> freshJumps (bs ! b) \<and> uint (addr1 (bs ! b)) + cbb_size (bs ! b) + 26 \<le> 2 ^ 64)"

text \<open>The address behind a placed block and its jumps.\<close>

definition endOf :: "cbb \<Rightarrow> int" where
  "endOf y = uint (addr2 y) + cbb_size y + jumpRoom y"

text \<open>How far a block was moved down.\<close>

definition moved :: "cbb \<Rightarrow> int" where
  "moved y = uint (addr1 y) - uint (addr2 y)"

definition packed :: "cbb list \<Rightarrow> nat \<Rightarrow> nat \<Rightarrow> bool" where
  "packed bs a b \<longleftrightarrow> endOf (bs ! a) \<le> uint (addr2 (bs ! b)) \<and> moved (bs ! a) \<le> moved (bs ! b)"

fun linked :: "cbb list \<Rightarrow> cbb list \<Rightarrow> nat list \<Rightarrow> bool" where
  "linked bs bs' [] = True"
| "linked bs bs' [b] = jumpsChosen bs (bs ! b) None (bs' ! b)"
| "linked bs bs' (b # n # os) = (jumpsChosen bs (bs ! b) (Some n) (bs' ! b)
     \<and> uint (addr2 (bs' ! n)) = endOf (bs' ! b) \<and> linked bs bs' (n # os))"

lemma linked_cong:
  "(\<And>t. addr1 (as ! t) = addr1 (bs ! t)) \<Longrightarrow> (\<And>b. b \<in> set os \<Longrightarrow> as ! b = bs ! b) \<Longrightarrow> linked as bs' os = linked bs bs' os"
  by (induction bs bs' os rule: linked.induct) (simp_all add: jumpsChosen_def branchDist_def)

text \<open>What the pass makes of the blocks \<open>os\<close> from an address on.\<close>

definition placed :: "nat list \<Rightarrow> u64 \<Rightarrow> rctx \<Rightarrow> u64 \<Rightarrow> rctx \<Rightarrow> bool" where
  "placed os buf c buf' c' \<longleftrightarrow>
     c' = with_r ((rc_r c)\<lparr>r_mem := r_mem (rc_r c'), capBB := capBB (rc_r c')\<rparr>) c
     \<and> length (capBB (rc_r c')) = length (capBB (rc_r c))
     \<and> (\<forall>b. b \<notin> set os \<longrightarrow> blk c' b = blk c b)
     \<and> (\<forall>b \<in> set os. movedTo (blk c b) (addr2 (blk c' b)) (blk c' b)
          \<and> uint buf \<le> uint (addr2 (blk c' b)) \<and> endOf (blk c' b) \<le> uint buf'
          \<and> (\<forall>i < nat (cbb_size (blk c b)). r_mem (rc_r c') (addr2 (blk c' b) + of_nat i) = r_mem (rc_r c) (addr1 (blk c b) + of_nat i)))
     \<and> sorted_wrt (packed (capBB (rc_r c'))) os
     \<and> linked (capBB (rc_r c)) (capBB (rc_r c')) os
     \<and> (\<forall>p. uint p < uint buf \<longrightarrow> r_mem (rc_r c') p = r_mem (rc_r c) p)
     \<and> uint buf \<le> uint buf' \<and> (os \<noteq> [] \<longrightarrow> addr2 (blk c' (hd os)) = buf)"

lemma genPass2_placed:
  assumes "genPass2 os (buf, c) = Some (buf', c')" and "laidOut (capBB (rc_r c)) os"
    and "\<forall>b \<in> set os. k \<le> uint (addr1 (blk c b)) - uint buf" and "0 \<le> k"
  shows "placed os buf c buf' c' \<and> (\<forall>b \<in> set os. k \<le> moved (blk c' b))"
  using assms
proof (induction os arbitrary: buf c k)
  case Nil
  then show ?case by (simp add: placed_def with_r_def)
next
  case (Cons b os)
  let ?bs = "capBB (rc_r c)" and ?x = "blk c b"
  let ?next = "case os of [] \<Rightarrow> None | n # _ \<Rightarrow> Some n"
  obtain buf1 c1 where pl: "placeBlock b ?next (buf, c) = Some (buf1, c1)" and rest: "genPass2 os (buf1, c1) = Some (buf', c')"
    using Cons.prems(1) by (auto simp: bind_eq_Some_conv)
  have lo: "b \<notin> set os" "b < length ?bs" "0 \<le> cbb_size ?x" "freshJumps ?x" "uint (addr1 ?x) + cbb_size ?x + 26 \<le> 2 ^ 64"
      "\<forall>a \<in> set os. apart ?bs b a"
    using Cons.prems(2) by (simp_all add: laidOut_def)
  have kb: "k \<le> uint (addr1 ?x) - uint buf" "uint buf \<le> uint (addr1 ?x)" using Cons.prems(3,4) by simp_all
  obtain y where y: "movedTo ?x buf y" "jumpsChosen ?bs ?x ?next y"
    and c1: "c1 = with_r ((rc_r c)\<lparr>r_mem := moveCode ?x buf (r_mem (rc_r c)), capBB := ?bs[b := y]\<rparr>) c"
    and b1: "uint buf1 = uint buf + cbb_size ?x + jumpRoom y"
    by (rule placeBlock_result [OF pl lo(2,3,4)]) (use lo(5) kb in simp)
  note ys = movedTo_sel [OF y(1)]
  have bs1: "capBB (rc_r c1) = ?bs[b := y]" "r_mem (rc_r c1) = moveCode ?x buf (r_mem (rc_r c))"
    by (simp_all add: c1 with_r_def)
  have other: "blk c1 a = blk c a" if "a \<noteq> b" for a using that by (simp add: bs1)
  have oth: "blk c1 a = blk c a" if "a \<in> set os" for a using that lo(1) by (intro other) auto
  have a1: "addr1 (capBB (rc_r c1) ! t) = addr1 (?bs ! t)" for t
    using lo(2) by (cases "t = b") (simp_all add: bs1 ys)
  have lo1: "laidOut (capBB (rc_r c1)) os"
  proof -
    have "sorted_wrt (apart (capBB (rc_r c1))) os"
      by (rule sorted_wrt_mono_rel [of os "apart ?bs"]) (use oth Cons.prems(2) in \<open>simp_all add: apart_def laidOut_def\<close>)
    then show ?thesis using Cons.prems(2) oth by (auto simp: laidOut_def bs1(1))
  qed
  have "uint (addr1 ?x) - uint buf \<le> uint (addr1 (blk c1 a)) - uint buf1" if "a \<in> set os" for a
    using lo(6) that oth [OF that] b1 jumpRoom_bounds(2) [of y] by (auto simp: apart_def)
  with Cons.IH [OF rest lo1, of "uint (addr1 ?x) - uint buf"] kb(2)
  have ih: "placed os buf1 c1 buf' c'" and mv: "\<And>a. a \<in> set os \<Longrightarrow> uint (addr1 ?x) - uint buf \<le> moved (blk c' a)"
    by simp_all
  note P = ih [unfolded placed_def]
  have cb: "blk c' b = y" using P lo(1,2) by (auto simp: bs1)
  have my: "moved y = uint (addr1 ?x) - uint buf" by (simp add: moved_def ys)
  have ey: "endOf y = uint buf1" by (simp add: endOf_def ys b1)
  have le1: "uint buf \<le> uint buf1" using b1 lo(3) jumpRoom_bounds(1) [of y] by simp
  have at: "r_mem (rc_r c1) (q + of_nat i) = r_mem (rc_r c) (q + of_nat i)"
    if "uint buf + cbb_size ?x \<le> uint q" "uint q + int i < 2 ^ 64" for q i
    using that lo(3,5) kb(2) uint_plus_of_nat [of q i]
    by (auto simp: bs1 moveCode_def copyBytes_at)
  have code: "r_mem (rc_r c1) (buf + of_nat i) = r_mem (rc_r c) (addr1 ?x + of_nat i)" if "i < nat (cbb_size ?x)" for i
    using that lo(5) kb(2) uint_plus_of_nat [of buf i] by (auto simp: bs1 moveCode_def copyBytes_at)
  have below: "r_mem (rc_r c1) p = r_mem (rc_r c) p" if "uint p < uint buf" for p
    using that lo(5) kb(2) by (auto simp: bs1 moveCode_def copyBytes_at)
  have "c' = with_r ((rc_r c)\<lparr>r_mem := r_mem (rc_r c'), capBB := capBB (rc_r c')\<rparr>) c"
    using P by (subst P [THEN conjunct1]) (simp add: c1 with_r_def)
  moreover have "\<forall>a. a \<notin> set (b # os) \<longrightarrow> blk c' a = blk c a" using P other by auto
  moreover have "\<forall>a \<in> set (b # os). movedTo (blk c a) (addr2 (blk c' a)) (blk c' a)
      \<and> uint buf \<le> uint (addr2 (blk c' a)) \<and> endOf (blk c' a) \<le> uint buf'
      \<and> (\<forall>i < nat (cbb_size (blk c a)). r_mem (rc_r c') (addr2 (blk c' a) + of_nat i) = r_mem (rc_r c) (addr1 (blk c a) + of_nat i))"
    (is "\<forall>a \<in> _. ?good a")
  proof
    fix a assume "a \<in> set (b # os)"
    then show "?good a"
    proof (cases "a = b")
      case True
      have "r_mem (rc_r c') (buf + of_nat i) = r_mem (rc_r c) (addr1 ?x + of_nat i)" if "i < nat (cbb_size ?x)" for i
      proof -
        have "uint (buf + of_nat i) < uint buf1"
          using that uint_plus_of_nat [of buf i] lo(5) kb(2) b1 jumpRoom_bounds(1) [of y] by simp
        then show ?thesis using P code [OF that] by simp
      qed
      then show ?thesis using True cb y(1) ys(1) ey P by simp
    next
      case False
      then have a: "a \<in> set os" using \<open>a \<in> set (b # os)\<close> by simp
      have far: "uint (addr1 ?x) + cbb_size ?x + 26 \<le> uint (addr1 (blk c a))"
        and top: "uint (addr1 (blk c a)) + cbb_size (blk c a) + 26 \<le> 2 ^ 64"
        using a lo(6) Cons.prems(2) by (auto simp: apart_def laidOut_def)
      have "r_mem (rc_r c1) (addr1 (blk c a) + of_nat i) = r_mem (rc_r c) (addr1 (blk c a) + of_nat i)"
        if "i < nat (cbb_size (blk c a))" for i
        by (rule at) (use that far top kb(2) in simp_all)
      moreover have "movedTo (blk c1 a) (addr2 (blk c' a)) (blk c' a)" "uint buf1 \<le> uint (addr2 (blk c' a))"
        "endOf (blk c' a) \<le> uint buf'"
        "\<forall>i < nat (cbb_size (blk c1 a)). r_mem (rc_r c') (addr2 (blk c' a) + of_nat i) = r_mem (rc_r c1) (addr1 (blk c1 a) + of_nat i)"
        using P a by blast+
      ultimately show ?thesis using oth [OF a] le1 by simp
    qed
  qed
  moreover have "sorted_wrt (packed (capBB (rc_r c'))) (b # os)"
    using P mv my ey by (auto simp: packed_def cb)
  moreover have "linked ?bs (capBB (rc_r c')) (b # os)"
  proof -
    have l: "linked ?bs (capBB (rc_r c')) os"
      using P linked_cong [OF a1 oth, of os "capBB (rc_r c')"] by simp
    show ?thesis
    proof (cases os)
      case Nil
      then show ?thesis using y(2) cb by simp
    next
      case (Cons n ns)
      then have "addr2 (blk c' n) = buf1" using P by simp
      then show ?thesis using Cons l y(2) cb ey by simp
    qed
  qed
  moreover have "\<forall>p. uint p < uint buf \<longrightarrow> r_mem (rc_r c') p = r_mem (rc_r c) p"
    using P below le1 by auto
  moreover have "length (capBB (rc_r c')) = length ?bs" using P by (simp add: bs1)
  moreover have "uint buf \<le> uint buf'" using P le1 by simp
  moreover have "addr2 (blk c' b) = buf" by (simp add: cb ys)
  moreover have "k \<le> moved (blk c' a)" if "a \<in> set (b # os)" for a
    using that mv [of a] my kb(1) cb by auto
  ultimately show ?case unfolding placed_def by simp
qed

section \<open>The third pass\<close>

text \<open>The bytes of the jumps behind a placed block.\<close>

definition jumpCode :: "cbb list \<Rightarrow> cbb \<Rightarrow> u8 list option" where
  "jumpCode bs x =
     (if \<not> instrIsJcc (endType x) then Some []
      else do {
        let a = addr2 x + of_int (cbb_size x);
        t \<leftarrow> nextBranch x;
        js \<leftarrow> jccBytes x (addr2 (bs ! t)) a;
        f \<leftarrow> (if genJump x then nextFallThrough x else Some 0);
        Some (js @ jumpBytes x (addr2 (bs ! f)) (a + of_nat (length js))) })"

lemma jccBytes_length: "jccBytes x t a = Some bs \<Longrightarrow> length bs = (if genJcc8 x then 2 else 6)"
  by (cases "genJcc8 x") (auto simp: jccBytes_def bind_eq_Some_conv Let_def)

lemma jumpBytes_length: "length (jumpBytes x t a) = (if genJump x then 5 else 0)"
  by (simp add: jumpBytes_def)

lemma jumpCode_length: "jumpCode bs x = Some js \<Longrightarrow> int (length js) = jumpRoom x"
  by (auto simp: jumpCode_def jumpRoom_def Let_def bind_eq_Some_conv jumpBytes_length split: if_split_asm
      dest!: jccBytes_length)

lemma store_bytes_append: "store_bytes m a (xs @ ys) = store_bytes (store_bytes m a xs) (a + of_nat (length xs)) ys"
  by (induction xs arbitrary: m a) (simp_all add: add.assoc)

lemma linkBlock_jumpCode:
  assumes "linkBlock b c = Some c'"
  shows "\<exists>js. jumpCode (capBB (rc_r c)) (blk c b) = Some js
    \<and> c' = with_r ((rc_r c)\<lparr>r_mem := store_bytes (r_mem (rc_r c)) (addr2 (blk c b) + of_int (cbb_size (blk c b))) js\<rparr>) c"
proof (cases "instrIsJcc (endType (blk c b))")
  case False
  then show ?thesis using assms by (simp add: linkBlock_def jumpCode_def with_r_def)
next
  case True
  then show ?thesis using assms
    by (cases "genJump (blk c b)")
      (auto simp: linkBlock_def jumpCode_def Let_def bind_eq_Some_conv store_bytes_append jumpBytes_def)
qed

definition jumpsAt :: "cbb list \<Rightarrow> mem \<Rightarrow> cbb \<Rightarrow> bool" where
  "jumpsAt bs m x \<longleftrightarrow> (\<exists>js. jumpCode bs x = Some js \<and> bytes_at m (addr2 x + of_int (cbb_size x)) js)"

text \<open>The bytes that belong to the jumps of a block.\<close>

definition jumpArea :: "cbb \<Rightarrow> int set" where
  "jumpArea x = {uint (addr2 x) + cbb_size x..<endOf x}"

lemma genPass3_jumps:
  assumes "genPass3 os c = Some c'" and "\<forall>b \<in> set os. 0 \<le> cbb_size (blk c b) \<and> endOf (blk c b) < 2 ^ 64"
    and "sorted_wrt (\<lambda>a b. endOf (blk c a) \<le> uint (addr2 (blk c b))) os"
  shows "c' = with_r ((rc_r c)\<lparr>r_mem := r_mem (rc_r c')\<rparr>) c
    \<and> (\<forall>b \<in> set os. jumpsAt (capBB (rc_r c)) (r_mem (rc_r c')) (blk c b))
    \<and> (\<forall>p. (\<forall>b \<in> set os. uint p \<notin> jumpArea (blk c b)) \<longrightarrow> r_mem (rc_r c') p = r_mem (rc_r c) p)"
  using assms
proof (induction os arbitrary: c)
  case Nil
  then show ?case by (simp add: with_r_def)
next
  case (Cons b os)
  let ?x = "blk c b" and ?bs = "capBB (rc_r c)"
  obtain c1 where l: "linkBlock b c = Some c1" and rest: "genPass3 os c1 = Some c'"
    using Cons.prems(1) by (auto simp: bind_eq_Some_conv)
  obtain js where js: "jumpCode ?bs ?x = Some js"
    and c1: "c1 = with_r ((rc_r c)\<lparr>r_mem := store_bytes (r_mem (rc_r c)) (addr2 ?x + of_int (cbb_size ?x)) js\<rparr>) c"
    using linkBlock_jumpCode [OF l] by blast
  have bs: "capBB (rc_r c1) = ?bs"
    "r_mem (rc_r c1) = store_bytes (r_mem (rc_r c)) (addr2 ?x + of_int (cbb_size ?x)) js"
    by (simp_all add: c1 with_r_def)
  have len: "int (length js) = jumpRoom ?x" by (rule jumpCode_length [OF js])
  have u: "uint (addr2 ?x + of_int (cbb_size ?x)) = uint (addr2 ?x) + cbb_size ?x"
    by (rule uint_plus_of_int) (use Cons.prems(2) len in \<open>simp_all add: endOf_def\<close>)
  have fit: "uint (addr2 ?x + of_int (cbb_size ?x)) + int (length js) \<le> 2 ^ 64"
    using Cons.prems(2) by (simp add: u len endOf_def)
  have ih: "c' = with_r ((rc_r c1)\<lparr>r_mem := r_mem (rc_r c')\<rparr>) c1"
      "\<forall>a \<in> set os. jumpsAt ?bs (r_mem (rc_r c')) (blk c a)"
      "\<forall>p. (\<forall>a \<in> set os. uint p \<notin> jumpArea (blk c a)) \<longrightarrow> r_mem (rc_r c') p = r_mem (rc_r c1) p"
    using Cons.IH [OF rest] Cons.prems(2,3) unfolding bs by simp_all
  have "bytes_at (r_mem (rc_r c')) (addr2 ?x + of_int (cbb_size ?x)) js"
  proof (rule bytes_at_cong [OF store_bytes_at [OF fit] fit])
    fix p :: u64 assume p: "uint (addr2 ?x + of_int (cbb_size ?x)) \<le> uint p" "uint p < uint (addr2 ?x + of_int (cbb_size ?x)) + int (length js)"
    have "uint p \<notin> jumpArea (blk c a)" if "a \<in> set os" for a
    proof -
      have "endOf ?x \<le> uint (addr2 (blk c a))" "0 \<le> cbb_size (blk c a)" using that Cons.prems(2,3) by simp_all
      then show ?thesis using p by (simp add: jumpArea_def u len endOf_def)
    qed
    then show "r_mem (rc_r c') p = store_bytes (r_mem (rc_r c)) (addr2 ?x + of_int (cbb_size ?x)) js p"
      using ih(3) bs(2) by simp
  qed
  moreover have "r_mem (rc_r c') p = r_mem (rc_r c) p" if "\<forall>a \<in> set (b # os). uint p \<notin> jumpArea (blk c a)" for p
  proof -
    have "uint p < uint (addr2 ?x + of_int (cbb_size ?x)) \<or> uint (addr2 ?x + of_int (cbb_size ?x)) + int (length js) \<le> uint p"
      using that by (auto simp: jumpArea_def u len endOf_def)
    then show ?thesis using ih(3) that bs(2) store_bytes_outside_region [OF fit] by simp
  qed
  moreover have "c' = with_r ((rc_r c)\<lparr>r_mem := r_mem (rc_r c')\<rparr>) c"
    by (subst ih(1)) (simp add: c1 with_r_def)
  ultimately show ?case using ih(2) js by (auto simp: jumpsAt_def)
qed

end
