(* ===== verification/Vector.thy ===== *)
theory Vector
  imports Capture
begin

text \<open>
  Vectorization (\<open>src/vector.c\<close>, with \<open>expandedVectorVariant\<close> of \<open>src/snippets.c\<close>): the
  variant of a vector call for a vector size, and the pass that turns scalar additions of a
  captured function into vector additions.

  The registers' types are set up once and never change while instructions are rewritten.
\<close>

section \<open>Variants of vector calls\<close>

text \<open>The addresses of the vector API and of its variants for 16 and 32 bytes; \<open>sn_avx\<close> says
  whether the library was compiled for AVX.\<close>

record snippets =
  sn_R8V8 :: u64
  sn_R8V8V8 :: u64
  sn_R8P8 :: u64
  sn_R8V8_X2 :: u64
  sn_R8V8V8_X2 :: u64
  sn_R8P8_X2 :: u64
  sn_R8V8_X4 :: u64
  sn_R8V8V8_X4 :: u64
  sn_R8P8_X4 :: u64
  sn_avx :: bool

definition maxVectorBytes :: "snippets \<Rightarrow> nat" where
  "maxVectorBytes sn = (if sn_avx sn then 32 else 16)"

definition expandedVectorVariant :: "snippets \<Rightarrow> u64 \<Rightarrow> nat \<Rightarrow> (u64 \<times> vectorizereq) option" where
  "expandedVectorVariant sn f s =
     (if s = 16 then
        (if f = sn_R8V8 sn then Some (sn_R8V8_X2 sn, VR_DoubleX2_RV)
         else if f = sn_R8V8V8 sn then Some (sn_R8V8V8_X2 sn, VR_DoubleX2_RVV)
         else if f = sn_R8P8 sn then Some (sn_R8P8_X2 sn, VR_DoubleX2_RP)
         else None)
      else if sn_avx sn \<and> s = 32 then
        (if f = sn_R8V8 sn then Some (sn_R8V8_X4 sn, VR_DoubleX4_RV)
         else if f = sn_R8V8V8 sn then Some (sn_R8V8V8_X4 sn, VR_DoubleX4_RVV)
         else if f = sn_R8P8 sn then Some (sn_R8P8_X4 sn, VR_DoubleX4_RP)
         else None)
      else None)"

section \<open>The vectorization pass\<close>

datatype (plugins only: code size) vecregtype =
    VRT_Invalid | VRT_Unknown | VRT_Double | VRT_DoubleX2 | VRT_DoubleX4
  | VRT_PtrDoubleX2 | VRT_PtrDoubleX4

text \<open>The type of an operand: that of its vector register, if it is one.\<close>

definition vecOpType :: "(nat \<Rightarrow> vecregtype) \<Rightarrow> operand \<Rightarrow> vecregtype option" where
  "vecOpType vrt p = do {
     v \<leftarrow> opIsVReg p;
     k \<leftarrow> (if v then regVIndex (oreg p) else Some RI_None);
     Some (if k \<noteq> RI_None then vrt k else VRT_Unknown) }"

definition scalarOnly :: "vecregtype \<Rightarrow> vecregtype \<Rightarrow> bool" where
  "scalarOnly t1 t2 \<longleftrightarrow> t1 \<notin> {VRT_DoubleX2, VRT_DoubleX4} \<and> t2 \<notin> {VRT_DoubleX2, VRT_DoubleX4}"

text \<open>\<open>doVec\<close>: the vector form of an instruction, written to slot \<open>k\<close>.\<close>

definition doVec :: "(nat \<Rightarrow> vecregtype) \<Rightarrow> rctx \<Rightarrow> nat \<Rightarrow> instr \<Rightarrow> rctx option" where
  "doVec vrt c k src = do {
     i \<leftarrow> copyInstr (capInstr (rc_r c) ! k) src;
     (if itype src = IT_ADDSD then do {
        t1 \<leftarrow> vecOpType vrt (idst src);
        t2 \<leftarrow> vecOpType vrt (isrc src);
        (if t1 = VRT_DoubleX2 \<and> t2 = VRT_DoubleX2 then Some (putCapInstr k (i\<lparr>itype := IT_ADDPD\<rparr>) c)
         else do { c_assert (scalarOnly t1 t2); Some (putCapInstr k i c) }) }
      else if itype src = IT_VADDSD then do {
        t1 \<leftarrow> vecOpType vrt (idst src);
        t2 \<leftarrow> vecOpType vrt (isrc src);
        (if t1 = VRT_DoubleX2 \<and> t2 = VRT_DoubleX2 then do {
           i \<leftarrow> attachPassthrough (i\<lparr>itype := IT_VADDPD, ptLen := 0\<rparr>) VEX_128 PS_66 OE_RVM SC_None 0x0F 0x58 (-1);
           Some (putCapInstr k i c) }
         else if t1 = VRT_DoubleX4 \<and> t2 = VRT_DoubleX4 then do {
           i \<leftarrow> attachPassthrough (i\<lparr>itype := IT_VADDPD, ptLen := 0\<rparr>) VEX_256 PS_66 OE_RVM SC_None 0x0F 0x58 (-1);
           Some (putCapInstr k i c) }
         else do { c_assert (scalarOnly t1 t2); Some (putCapInstr k i c) }) }
      else if itype src \<in> {IT_HINT_CALL, IT_HINT_RET, IT_RET} then Some (putCapInstr k i c)
      else Some (with_error ET_UnsupportedInstr EM_Rewriter
             (Some ''Cannot handle instruction for vector expansion'') (putCapInstr k i c))) }"

text \<open>The loop over the instructions from slot \<open>k\<close>; no slot left ends the pass.\<close>

primrec vecInstrs :: "(nat \<Rightarrow> vecregtype) \<Rightarrow> nat \<Rightarrow> nat \<Rightarrow> rctx \<Rightarrow> (bool \<times> rctx) option" where
  "vecInstrs vrt 0 k c = Some (True, c)"
| "vecInstrs vrt (Suc n) k c =
     (case newCapInstr c of
        (None, c) \<Rightarrow> Some (False, c)
      | (Some slot, c) \<Rightarrow> do {
          c \<leftarrow> doVec vrt c slot (capInstr (rc_r c) ! k);
          vecInstrs vrt n (Suc k) c })"

definition vecPass :: "(nat \<Rightarrow> vecregtype) \<Rightarrow> rctx \<Rightarrow> nat \<Rightarrow> rctx option" where
  "vecPass vrt c b =
     (let x = capBB (rc_r c) ! b in
      if cbb_count x = 0 then Some c
      else do {
        start \<leftarrow> cbb_instr x;
        let first = length (capInstr (rc_r c));
        (fine, c) \<leftarrow> vecInstrs vrt (cbb_count x) start c;
        Some (if fine then updCBB b (\<lambda>b. b\<lparr>cbb_instr := Some first\<rparr>) c else c) })"

text \<open>The types of the registers at the start, and the expected type of the result.\<close>

definition vecTypes :: "vectorizereq \<Rightarrow> ((nat \<Rightarrow> vecregtype) \<times> vecregtype) option" where
  "vecTypes v =
     (let u = (\<lambda>_. VRT_Unknown) in
      case v of
        VR_None \<Rightarrow> None
      | VR_DoubleX2_RV \<Rightarrow> Some (u(0 := VRT_DoubleX2), VRT_DoubleX2)
      | VR_DoubleX2_RVV \<Rightarrow> Some (u(0 := VRT_DoubleX2, 1 := VRT_DoubleX2), VRT_DoubleX2)
      | VR_DoubleX2_RP \<Rightarrow> Some (u(0 := VRT_PtrDoubleX2), VRT_DoubleX2)
      | VR_DoubleX4_RV \<Rightarrow> Some (u(0 := VRT_DoubleX4), VRT_DoubleX4)
      | VR_DoubleX4_RVV \<Rightarrow> Some (u(0 := VRT_DoubleX4, 1 := VRT_DoubleX4), VRT_DoubleX4)
      | VR_DoubleX4_RP \<Rightarrow> Some (u(0 := VRT_PtrDoubleX4), VRT_DoubleX4))"

definition runVectorization :: "rctx \<Rightarrow> rctx option" where
  "runVectorization c = do {
     (vrt, ret) \<leftarrow> vecTypes (vreq (rc_r c));
     c_assert (length (capBB (rc_r c)) = 1);
     c \<leftarrow> vecPass vrt c 0;
     (if rc_e c \<noteq> None then Some c
      else do { c_assert (vrt 0 = ret); Some c }) }"

end
