(* ===== verification/Dbrew.thy ===== *)
theory Dbrew
  imports Engine Vector
begin

text \<open>
  The interface of the library (\<open>src/dbrew.c\<close>) and the texts of errors
  (\<open>src/error.c\<close>), which need the blocks of the rewriter.

  The default rewriter of the code is a global variable; the functions that use it take it as
  argument here. Variable arguments are a list.
\<close>

section \<open>Names of blocks and texts of errors\<close>

definition cbb_prettyName :: "rewriter \<Rightarrow> cbb \<Rightarrow> string option" where
  "cbb_prettyName r b = do {
     base \<leftarrow> (case cbb_fc b of
        None \<Rightarrow> Some (''0x'' @ hex64 (dec_addr b))
      | Some k \<Rightarrow> do {
          cc \<leftarrow> r_cc r;
          let m = mrc_at cc k;
          (if mr_start m > dec_addr b then Some (''0x'' @ hex64 (dec_addr b))
           else do {
             n \<leftarrow> mr_name m;
             Some (if mr_start m = dec_addr b then n
                   else n @ ''+'' @ hex64 (dec_addr b - mr_start m)) }) });
     Some (base @ (if esID b \<ge> 0 then ''|'' @ int_digits (esID b) else [])) }"

definition decodeErrorContext :: "rewriter \<Rightarrow> decodeerror \<Rightarrow> string option" where
  "decodeErrorContext r e = do {
     c_assert (em e = EM_Decoder);
     k \<leftarrow> de_dbb e;
     let b = decBB r ! k;
     Some (''decoding BB '' @ prettyAddress (dbb_addr b) (dbbRanges r b) @ ''+'' @ int_digits (de_offset e)) }"

definition generateErrorContext :: "rewriter \<Rightarrow> generateerror \<Rightarrow> string option" where
  "generateErrorContext r e = do {
     c_assert (em e = EM_Generator);
     k \<leftarrow> ge_cbb e;
     let b = capBB r ! k;
     n \<leftarrow> cbb_prettyName r b;
     (if ge_offset e < 0 then Some (''in BB ('' @ n @ '')'')
      else do {
        s \<leftarrow> cbb_instr b;
        t \<leftarrow> instr2string (capInstr r ! (s + nat (ge_offset e))) False None;
        Some (''instr '' @ int_digits (ge_offset e) @ '' '' @ [CHR 0x27] @ t @ [CHR 0x27] @ '' in BB ('' @ n @ '')'') }) }"

section \<open>Set-up\<close>

definition dbrew_new :: "mem \<Rightarrow> mem \<Rightarrow> rewriter" where
  "dbrew_new m fs = allocRewriter m fs"

text \<open>Freeing the arrays: they are allocated anew, and emptied, by \<open>initRewriter\<close>.\<close>

definition dbrew_set_decoding_capacity :: "rewriter \<Rightarrow> nat \<Rightarrow> nat \<Rightarrow> rewriter" where
  "dbrew_set_decoding_capacity r instrCapacity bbCapacity =
     r\<lparr>decInstrCapacity := instrCapacity, decBBCapacity := bbCapacity, dec_alloc := False\<rparr>"

definition dbrew_set_capture_capacity :: "rewriter \<Rightarrow> nat \<Rightarrow> nat \<Rightarrow> nat \<Rightarrow> rewriter" where
  "dbrew_set_capture_capacity r instrCapacity bbCapacity codeCapacity =
     r\<lparr>capInstrCapacity := instrCapacity, capBBCapacity := bbCapacity, cap_alloc := False,
       r_cs := None, capCodeCapacity := codeCapacity\<rparr>"

definition dbrew_set_function :: "world \<Rightarrow> rewriter \<Rightarrow> u64 \<Rightarrow> rewriter option" where
  "dbrew_set_function w r f = do {
     r \<leftarrow> initRewriter (w_mmap w) (r\<lparr>r_func := f\<rparr>);
     Some (freeEmuState (dbrew_config_reset r)) }"

definition dbrew_set_vectorsize :: "snippets \<Rightarrow> rewriter \<Rightarrow> nat \<Rightarrow> (nat \<times> rewriter) option" where
  "dbrew_set_vectorsize sn r s = do {
     let s = min s (maxVectorBytes sn);
     c_assert (s = 16 \<or> s = 32);
     Some (s, r\<lparr>vectorsize := s\<rparr>) }"

section \<open>Rewriting\<close>

text \<open>From captured instructions to code, with the optional vectorization: the error, if any.\<close>

definition finishRewrite :: "bool \<Rightarrow> rewriter \<Rightarrow> (error option \<times> rewriter) option" where
  "finishRewrite vec r = do {
     let c = \<lparr>rc_r = r, rc_exit = 0, rc_e = None\<rparr>;
     c \<leftarrow> (if vec \<and> vreq r \<noteq> VR_None then runVectorization c else Some c);
     c \<leftarrow> (if rc_e c = None then runOptsOnCaptured c else Some c);
     c \<leftarrow> (if rc_e c = None then generateBinaryFromCaptured c else Some c);
     Some (rc_e c, rc_r c) }"

definition dbrew_emulate :: "world \<Rightarrow> rewriter \<Rightarrow> u64 list \<Rightarrow> (u64 \<times> rewriter) option" where
  "dbrew_emulate w r args = do {
     (_, r) \<leftarrow> vEmulateAndCapture w r args;
     es \<leftarrow> r_es r;
     Some (es_reg es RI_A, r) }"

text \<open>The address of the new code, or of the original function on an error.\<close>

definition dbrew_rewrite :: "world \<Rightarrow> rewriter \<Rightarrow> u64 list \<Rightarrow> (u64 \<times> rewriter) option" where
  "dbrew_rewrite w r args = do {
     (e, r) \<leftarrow> vEmulateAndCapture w r args;
     (e, r) \<leftarrow> (if e = None then finishRewrite True r else Some (e, r));
     let r = (if e \<noteq> None then r\<lparr>generatedCodeAddr := r_func r\<rparr> else r);
     Some (generatedCodeAddr r, r) }"

text \<open>\<open>dbrew_rewrite_func\<close> with the default rewriter \<open>r\<close>.\<close>

definition dbrew_rewrite_func :: "world \<Rightarrow> rewriter \<Rightarrow> u64 \<Rightarrow> u64 list \<Rightarrow> (u64 \<times> rewriter) option" where
  "dbrew_rewrite_func w r f args = do {
     r \<leftarrow> dbrew_set_function w r f;
     (e, r) \<leftarrow> vEmulateAndCapture w r args;
     (e, r) \<leftarrow> (if e = None then finishRewrite False r else Some (e, r));
     Some (if e \<noteq> None then f else generatedCodeAddr r, r) }"

section \<open>Decoding and printing\<close>

partial_function (option) decodeFrom :: "world \<Rightarrow> u64 \<Rightarrow> nat \<Rightarrow> nat \<Rightarrow> rewriter \<Rightarrow> rewriter option" where
  "decodeFrom w f count decoded r =
     (if decoded < count then do {
        (b, _, r) \<leftarrow> dbrew_decode (w_tables w) (w_mmap w) r (f + of_nat decoded);
        b \<leftarrow> b;
        decodeFrom w f count (decoded + dbb_size (decBB r ! b)) r }
      else Some r)"

definition dbrew_decode_print :: "world \<Rightarrow> rewriter \<Rightarrow> u64 \<Rightarrow> nat \<Rightarrow> bool \<Rightarrow> (string \<times> rewriter) option" where
  "dbrew_decode_print w r f count printBytes = do {
     r \<leftarrow> decodeFrom w f count 0 (r\<lparr>decBB := []\<rparr>);
     t \<leftarrow> printDecodedBBs r printBytes;
     Some (t, r) }"

end
