(* ===== verification/VectorCall.thy ===== *)
theory VectorCall
  imports Dbrew
begin

text \<open>
  Vector calls met by the emulator (\<open>handleVectorCall\<close> and \<open>convertToVector\<close> of
  \<open>src/vector.c\<close>): a call of the vector API with a kernel function is redirected to a variant
  for the vector size, and the kernel is rewritten by a rewriter of its own. As the code is
  called from inside the tracing and starts another tracing, the recursion is on the depth of
  such nested rewritings: \<open>vectorWorld n\<close> allows \<open>n\<close> of them inside each other.
\<close>

section \<open>Converting a kernel\<close>

text \<open>
  What the process gives to the rewriter of a kernel: the region for its code, its emulated
  stack, and the integer arguments that its \<open>dbrew_rewrite\<close> reads. The code passes it two
  doubles, which are not where integer arguments are read from, so that these are arbitrary.
\<close>

record vectorenv =
  ve_snippets :: snippets
  ve_mmap :: "vectorizereq \<Rightarrow> u64 \<Rightarrow> u64 option"
  ve_stack :: "vectorizereq \<Rightarrow> u64 \<Rightarrow> u64"
  ve_args :: "vectorizereq \<Rightarrow> u64 \<Rightarrow> u64 list"

definition vecParCount :: "vectorizereq \<Rightarrow> int option" where
  "vecParCount v = (case v of
     VR_DoubleX2_RV \<Rightarrow> Some 1 | VR_DoubleX2_RVV \<Rightarrow> Some 2 | VR_DoubleX2_RP \<Rightarrow> Some 1
   | VR_DoubleX4_RV \<Rightarrow> Some 1 | VR_DoubleX4_RVV \<Rightarrow> Some 2 | VR_DoubleX4_RP \<Rightarrow> Some 1
   | VR_None \<Rightarrow> None)"

text \<open>The address of a variant made before.\<close>

primrec findVariant :: "vectorizereq \<Rightarrow> u64 \<Rightarrow> (vectorizereq \<times> u64 \<times> u64) list \<Rightarrow> u64 option" where
  "findVariant v f [] = None"
| "findVariant v f (x # xs) = (case x of (v', f', g) \<Rightarrow>
     if v' = v \<and> f' = f then Some g else findVariant v f xs)"

text \<open>The rewriter of the kernel starts with the related rewriters of \<open>r\<close>; afterwards it and
  those it made itself are related to \<open>r\<close>. The memory of the process is shared.\<close>

definition convertToVector ::
  "vectorenv \<Rightarrow> world \<Rightarrow> rewriter \<Rightarrow> u64 \<Rightarrow> vectorizereq \<Rightarrow> (u64 \<times> rewriter) option" where
  "convertToVector ve w r f v =
     (case findVariant v f (r_next r) of
        Some g \<Rightarrow> do { c_assert (g \<noteq> 0); Some (g, r) }
      | None \<Rightarrow> do {
          let w = w\<lparr>w_mmap := ve_mmap ve v f, w_stack := ve_stack ve v f\<rparr>;
          let rr = (dbrew_new (r_mem r) (r_fsmem r))\<lparr>r_next := r_next r\<rparr>;
          rr \<leftarrow> dbrew_set_function w rr f;
          n \<leftarrow> vecParCount v;
          rr \<leftarrow> dbrew_config_returnfp (rr\<lparr>vreq := v\<rparr>);
          rr \<leftarrow> dbrew_config_parcount rr n;
          (g, rr) \<leftarrow> dbrew_rewrite w rr (ve_args ve v f);
          Some (g, r\<lparr>r_mem := r_mem rr, r_next := (v, f, g) # r_next rr\<rparr>) })"

text \<open>The target that replaces \<open>f\<close>: the variant, with the converted kernel in \<open>rdi\<close>, or \<open>f\<close>
  when the kernel was not rewritten.\<close>

definition handleVectorCall :: "vectorenv \<Rightarrow> world \<Rightarrow> rctx \<Rightarrow> u64 \<Rightarrow> (u64 \<times> rctx) option" where
  "handleVectorCall ve w c f = do {
     (rf, v) \<leftarrow> expandedVectorVariant (ve_snippets ve) f (vectorsize (rc_r c));
     es \<leftarrow> r_es (rc_r c);
     let func = es_reg es RI_DI;
     (vfunc, r) \<leftarrow> convertToVector ve w (rc_r c) func v;
     let c = with_r r c;
     (if vfunc = func then Some (f, c)
      else Some (rf, put_es (es\<lparr>es_reg := (es_reg es)(RI_DI := vfunc)\<rparr>) c)) }"

text \<open>The world in which vector calls are handled.\<close>

primrec vectorWorld :: "vectorenv \<Rightarrow> nat \<Rightarrow> world \<Rightarrow> world" where
  "vectorWorld ve 0 w = w\<lparr>w_vector := \<lambda>_ _. None\<rparr>"
| "vectorWorld ve (Suc n) w = w\<lparr>w_vector := handleVectorCall ve (vectorWorld ve n w)\<rparr>"

lemma vectorWorld_simps [simp]:
  "w_tables (vectorWorld ve n w) = w_tables w" "w_mmap (vectorWorld ve n w) = w_mmap w"
  "w_stack (vectorWorld ve n w) = w_stack w" "w_known (vectorWorld ve n w) = w_known w"
  by (induction n) simp_all

text \<open>The rewriter that meets the call keeps everything but its registers, the shared memory and
  the list of related rewriters.\<close>

lemma convertToVector_frame:
  "convertToVector ve w r f v = Some (g, r') \<Longrightarrow> r' = r\<lparr>r_mem := r_mem r', r_next := r_next r'\<rparr>"
  by (auto simp: convertToVector_def bind_eq_Some_conv Let_def split: option.splits prod.splits)

lemma handleVectorCall_frame:
  assumes "handleVectorCall ve w c f = Some (x, c')"
  shows "rc_e c' = rc_e c \<and> rc_exit c' = rc_exit c
    \<and> rc_r c' = (rc_r c)\<lparr>r_mem := r_mem (rc_r c'), r_next := r_next (rc_r c'), r_es := r_es (rc_r c')\<rparr>"
proof -
  obtain g v vf r es where cv: "convertToVector ve w (rc_r c) g v = Some (vf, r)"
    and c': "c' = (if vf = g then with_r r c else put_es (es\<lparr>es_reg := (es_reg es)(RI_DI := vf)\<rparr>) (with_r r c))"
    using assms unfolding handleVectorCall_def by (auto simp: bind_eq_Some_conv Let_def split: if_splits)
  have "r = (rc_r c)\<lparr>r_mem := r_mem r, r_next := r_next r\<rparr>" by (rule convertToVector_frame [OF cv])
  then obtain m ns where r: "r = (rc_r c)\<lparr>r_mem := m, r_next := ns\<rparr>" by blast
  show ?thesis by (simp add: c' r with_r_def put_es_def)
qed

end
