(* ===== verification/CaptureProtocol.thy ===== *)
theory CaptureProtocol
  imports Emulate
begin

text \<open>
  How the emulator uses the captured blocks. An instruction changes them only by capturing
  instructions into the current block and by ending this block at a conditional jump; the
  locale \<open>capture_protocol\<close> says what a property has to withstand for this, and shows that then
  every emulated instruction keeps it.
\<close>

section \<open>The protocol\<close>

text \<open>Two rewriters with the same captured blocks, saved states and capacities.\<close>

definition sameCap :: "rewriter \<Rightarrow> rewriter \<Rightarrow> bool" where
  "sameCap r r' \<longleftrightarrow> dec_alloc r' = dec_alloc r \<and> capInstr r' = capInstr r \<and> capBB r' = capBB r \<and> capStack r' = capStack r
     \<and> savedState r' = savedState r \<and> currentCapBB r' = currentCapBB r
     \<and> capInstrCapacity r' = capInstrCapacity r \<and> capBBCapacity r' = capBBCapacity r
     \<and> r_func r' = r_func r \<and> genOrder r' = genOrder r \<and> r_cs r' = r_cs r"

lemma sameCap_refl [simp]: "sameCap r r"
  by (simp add: sameCap_def)

lemma sameCap_put [simp]:
  "sameCap (rc_r c) (rc_r (put_es es c))" "sameCap (rc_r c) (rc_r (put_mem m c))"
  "sameCap (rc_r c) (rc_r (with_error t k d c))"
  by (simp_all add: sameCap_def put_es_def put_mem_def with_r_def with_error_def)

lemma rc_e_put [simp]: "rc_e (put_es es c) = rc_e c" "rc_e (put_mem m c) = rc_e c" "rc_e (with_r r c) = rc_e c"
  by (simp_all add: put_es_def put_mem_def with_r_def)

lemma jccCaptured_isJcc: "instrIsJcc (jccCaptured k)"
  by (cases k) (simp_all add: jccCaptured_def instrIsJcc_def)

locale capture_protocol =
  fixes P :: "rctx \<Rightarrow> bool"
  assumes frame: "P c \<Longrightarrow> sameCap (rc_r c) (rc_r c') \<Longrightarrow> (rc_e c' = None \<longrightarrow> rc_e c = None) \<Longrightarrow> P c'"
    and capture: "P c \<Longrightarrow> capture c i = Some c' \<Longrightarrow> P c'"
    and jump: "P c \<Longrightarrow> instrIsJcc it \<Longrightarrow> captureJcc c it t f = Some c' \<Longrightarrow> P c'"
begin

lemma put_es: "P c \<Longrightarrow> P (put_es es c)"
  by (erule frame) simp_all

lemma put_mem: "P c \<Longrightarrow> P (put_mem m c)"
  by (erule frame) simp_all

lemma exit: "P c \<Longrightarrow> P (c\<lparr>rc_exit := x\<rparr>)"
  by (erule frame) simp_all

lemma setEmulatorError: "P c \<Longrightarrow> setEmulatorError c i e d = Some c' \<Longrightarrow> P c'"
  by (erule frame) (auto simp: setEmulatorError_def bind_eq_Some_conv with_error_def sameCap_def)

lemma setDst: "P c \<Longrightarrow> setDst c es v p = Some c' \<Longrightarrow> P c'"
  by (auto simp: setDst_def bind_eq_Some_conv intro: put_es put_mem)

lemma capBinary: "P c \<Longrightarrow> capBinary c es it vt p q a b = Some c' \<Longrightarrow> P c'"
  by (auto simp: capBinary_def bind_eq_Some_conv intro: capture)

lemma capLoad: "P c \<Longrightarrow> capLoad c es vt p v a = Some c' \<Longrightarrow> P c'"
  by (auto simp: capLoad_def bind_eq_Some_conv intro: capBinary)

lemma captureMov: "P c \<Longrightarrow> captureMov c i es v = Some c' \<Longrightarrow> P c'"
  by (auto simp: captureMov_def bind_eq_Some_conv split: if_splits intro: capBinary)

lemma captureBinarySrc: "P c \<Longrightarrow> captureBinarySrc c i es v = Some c' \<Longrightarrow> P c'"
  by (auto simp: captureBinarySrc_def bind_eq_Some_conv split: if_splits intro: capBinary)

lemma captureKnown: "P c \<Longrightarrow> captureKnown c i es v = Some (v', c') \<Longrightarrow> P c'"
  by (auto simp: captureKnown_def bind_eq_Some_conv split: if_splits intro: capLoad)

lemma captureBinaryOp: "P c \<Longrightarrow> captureBinaryOp c i es v = Some (v', c') \<Longrightarrow> P c'"
  by (auto simp: captureBinaryOp_def bind_eq_Some_conv split: if_splits
      intro: capBinary capLoad captureBinarySrc)

lemma captureUnaryOp: "P c \<Longrightarrow> captureUnaryOp c i es v = Some (v', c') \<Longrightarrow> P c'"
  by (auto simp: captureUnaryOp_def bind_eq_Some_conv split: if_splits intro: captureKnown capture)

lemma captureLea: "P c \<Longrightarrow> captureLea c i es v = Some (v', c') \<Longrightarrow> P c'"
  by (auto simp: captureLea_def bind_eq_Some_conv split: if_splits intro: captureKnown capBinary)

lemma captureCmp: "P c \<Longrightarrow> captureCmp c i es s = Some c' \<Longrightarrow> P c'"
  by (auto simp: captureCmp_def bind_eq_Some_conv split: if_splits intro: capLoad capBinary)

lemma captureTest: "P c \<Longrightarrow> captureTest c i es s = Some c' \<Longrightarrow> P c'"
  by (auto simp: captureTest_def split: if_splits intro: capBinary)

lemma captureRet: "P c \<Longrightarrow> captureRet c i es = Some c' \<Longrightarrow> P c'"
  by (auto simp: captureRet_def bind_eq_Some_conv split: if_splits intro: capture capLoad)

lemma captureVec: "P c \<Longrightarrow> captureVec c i es = Some c' \<Longrightarrow> P c'"
  by (auto simp: captureVec_def bind_eq_Some_conv Let_def intro: capture)

lemma captureCMov: "P c \<Longrightarrow> captureCMov c i es v s b = Some (v', c') \<Longrightarrow> P c'"
  by (auto simp: captureCMov_def bind_eq_Some_conv split: if_splits intro: captureMov capBinary)

lemma loadKnownReg: "P c \<Longrightarrow> loadKnownReg c es vt k = Some c' \<Longrightarrow> P c'"
  by (auto simp: loadKnownReg_def bind_eq_Some_conv split: if_splits intro: capLoad)

lemma captureIDiv: "P c \<Longrightarrow> captureIDiv c i s es = Some c' \<Longrightarrow> P c'"
  by (auto simp: captureIDiv_def bind_eq_Some_conv split: if_splits)
    (meson capture capLoad loadKnownReg)+

lemma capturePassThrough: "P c \<Longrightarrow> capturePassThrough c i es = Some (es', c') \<Longrightarrow> P c'"
  by (auto simp: capturePassThrough_def bind_eq_Some_conv Let_def intro: capture)

lemma captureUnlessStatic: "P c \<Longrightarrow> captureUnlessStatic c s i = Some c' \<Longrightarrow> P c'"
  by (auto simp: captureUnlessStatic_def split: if_splits intro: capture)

lemma finishBinary: "P c \<Longrightarrow> finishBinary c i es v = Some c' \<Longrightarrow> P c'"
  by (auto simp: finishBinary_def bind_eq_Some_conv intro: setDst captureBinaryOp)

lemma finishUnary: "P c \<Longrightarrow> finishUnary c i es v = Some c' \<Longrightarrow> P c'"
  by (auto simp: finishUnary_def bind_eq_Some_conv intro: setDst captureUnaryOp)

text \<open>The handlers of the instructions.\<close>

lemma emuAdd: "P c \<Longrightarrow> emuAdd c i = Some c' \<Longrightarrow> P c'"
  by (auto simp: emuAdd_def bind_eq_Some_conv Let_def split: if_splits intro: finishBinary setEmulatorError put_es)

lemma emuSub: "P c \<Longrightarrow> emuSub c i = Some c' \<Longrightarrow> P c'"
  by (auto simp: emuSub_def bind_eq_Some_conv Let_def split: if_splits intro: finishBinary setEmulatorError put_es)

lemma emuCmp: "P c \<Longrightarrow> emuCmp c i = Some c' \<Longrightarrow> P c'"
  by (auto simp: emuCmp_def bind_eq_Some_conv Let_def intro: captureCmp put_es)

lemma emuTest: "P c \<Longrightarrow> emuTest c i = Some c' \<Longrightarrow> P c'"
  by (auto simp: emuTest_def bind_eq_Some_conv Let_def intro: captureTest put_es)

lemma emuBitOp: "P c \<Longrightarrow> emuBitOp c i = Some c' \<Longrightarrow> P c'"
  by (auto simp: emuBitOp_def bind_eq_Some_conv Let_def intro: finishBinary put_es)

lemma emuIncDec: "P c \<Longrightarrow> emuIncDec g c i = Some c' \<Longrightarrow> P c'"
  by (auto simp: emuIncDec_def bind_eq_Some_conv Let_def split: if_splits intro: finishUnary setEmulatorError)

lemma emuNeg: "P c \<Longrightarrow> emuNeg c i = Some c' \<Longrightarrow> P c'"
  by (auto simp: emuNeg_def bind_eq_Some_conv Let_def split: if_splits intro: finishUnary setEmulatorError)

lemma emuImul: "P c \<Longrightarrow> emuImul c i = Some c' \<Longrightarrow> P c'"
  unfolding emuImul_def bind_eq_Some_conv Let_def c_assert_eq_Some
  by (elim exE conjE) (metis finishBinary setEmulatorError)

lemma emuIdiv: "P c \<Longrightarrow> emuIdiv c i = Some c' \<Longrightarrow> P c'"
  unfolding emuIdiv_def bind_eq_Some_conv Let_def c_assert_eq_Some
  by (elim exE conjE) (auto split: if_split_asm simp: bind_eq_Some_conv intro: captureIDiv setEmulatorError put_es)

lemma emuShift: "P c \<Longrightarrow> emuShift c i = Some c' \<Longrightarrow> P c'"
  by (auto simp: emuShift_def bind_eq_Some_conv Let_def split: option.splits intro: finishBinary setEmulatorError)

lemma emuExtendA: "P c \<Longrightarrow> emuExtendA g c i = Some c' \<Longrightarrow> P c'"
  by (auto simp: emuExtendA_def bind_eq_Some_conv Let_def intro: captureUnlessStatic put_es)

lemma emuCqto: "P c \<Longrightarrow> emuCqto c i = Some c' \<Longrightarrow> P c'"
  by (cases "ivtype i")
    (auto simp: emuCqto_def bind_eq_Some_conv Let_def intro: captureUnlessStatic put_es setEmulatorError)

lemma emuMov: "P c \<Longrightarrow> emuMov c i = Some c' \<Longrightarrow> P c'"
  by (auto simp: emuMov_def bind_eq_Some_conv split: option.splits intro: setEmulatorError)
    (meson setDst captureMov)

lemma emuCMov: "P c \<Longrightarrow> emuCMov f b c i = Some c' \<Longrightarrow> P c'"
  by (auto simp: emuCMov_def bind_eq_Some_conv Let_def split: if_splits intro: setDst captureCMov)

lemma emuLea: "P c \<Longrightarrow> emuLea c i = Some c' \<Longrightarrow> P c'"
  by (auto simp: emuLea_def bind_eq_Some_conv Let_def split: if_splits intro: setDst captureLea)

lemma emuPopT: "P c \<Longrightarrow> emuPopT t n c i = Some c' \<Longrightarrow> P c'"
  by (auto simp: emuPopT_def bind_eq_Some_conv Let_def intro: captureUnlessStatic put_es put_mem)

lemma emuPop: "P c \<Longrightarrow> emuPop c i = Some c' \<Longrightarrow> P c'"
  by (auto simp: emuPop_def split: if_splits intro: emuPopT setEmulatorError)

lemma emuPushT: "P c \<Longrightarrow> emuPushT t n c i = Some c' \<Longrightarrow> P c'"
  by (auto simp: emuPushT_def bind_eq_Some_conv Let_def intro: captureUnlessStatic put_es put_mem)

lemma emuPush: "P c \<Longrightarrow> emuPush c i = Some c' \<Longrightarrow> P c'"
  unfolding emuPush_def by (metis emuPushT setEmulatorError)

lemma emuLeave: "P c \<Longrightarrow> emuLeave c = Some c' \<Longrightarrow> P c'"
  by (auto simp: emuLeave_def bind_eq_Some_conv split: if_splits intro: emuMov emuPop)

text \<open>The hints that mark inlined calls.\<close>

lemma hint: "P c \<Longrightarrow> (if b then capture c h else Some c) = Some c' \<Longrightarrow> P c'"
  by (auto split: if_splits intro: capture)

lemma emuJcc: "P c \<Longrightarrow> emuJcc k c i = Some c' \<Longrightarrow> P c'"
proof -
  assume c: "P c" and "emuJcc k c i = Some c'"
  then obtain es :: emustate and c1 where
    "(if \<exists>f \<in> set (jccFlags k). msIsDynamic (flag_state es f)
      then captureJcc c (jccCaptured k) (oval (idst i)) (nextAddr i) else Some c) = Some c1"
    and c': "c1\<lparr>rc_exit := (if jccTaken k (es_flag es) then oval (idst i) else nextAddr i)\<rparr> = c'"
    unfolding emuJcc_def bind_eq_Some_conv option.inject by (elim exE conjE) (rule that)
  then have "P c1" using c jump [OF c jccCaptured_isJcc] by (auto split: if_splits)
  then show "P c'" unfolding c' [symmetric] by (rule exit)
qed

lemma emuJmp: "P c \<Longrightarrow> emuJmp c i = Some c' \<Longrightarrow> P c'"
  by (auto simp: emuJmp_def split: if_splits intro: exit setEmulatorError)

lemma emuJmpi: "P c \<Longrightarrow> emuJmpi c i = Some c' \<Longrightarrow> P c'"
  by (auto simp: emuJmpi_def bind_eq_Some_conv split: if_splits intro: exit setEmulatorError)

lemma emuCall: "P c \<Longrightarrow> emuCall c i = Some c' \<Longrightarrow> P c'"
  by (auto simp: emuCall_def bind_eq_Some_conv Let_def split: if_splits
      intro: exit setEmulatorError emuPush put_es)
    (rule exit [OF capture [OF put_es [OF emuPush]]], assumption+)

lemma emulateRet: "P c \<Longrightarrow> emulateRet c i = Some c' \<Longrightarrow> P c'"
  unfolding emulateRet_def bind_eq_Some_conv Let_def
  by (elim exE conjE; drule hint [OF put_es], assumption)
    (auto simp: bind_eq_Some_conv split: if_split_asm dest: setEmulatorError [OF put_es [OF put_es]]
      intro: exit put_es)

text \<open>Every instruction keeps the property.\<close>

lemmas handlers = emuAdd emuSub emuCmp emuTest emuBitOp emuIncDec emuNeg emuImul emuIdiv emuShift
  emuExtendA emuCqto emuMov emuCMov emuLea emuPop emuPush emuLeave emuJcc emuJmp emuJmpi emuCall
  emulateRet setEmulatorError

lemma processInstr: "P c \<Longrightarrow> processInstr c i = Some c' \<Longrightarrow> P c'"
proof (cases "ptLen i > 0")
  case True
  assume "P c" "processInstr c i = Some c'"
  then show "P c'" using True
    by (auto simp: processInstr_def bind_eq_Some_conv intro: put_es capturePassThrough)
next
  case False
  assume c: "P c" and e: "processInstr c i = Some c'"
  note e' = e [unfolded processInstr_def if_not_P [OF False]]
  show "P c'"
    by (insert e', cases "itype i"; simp only: instrtype.case; (erule handlers [OF c])?)
      (insert c, auto simp: bind_eq_Some_conv split: option.splits if_split_asm
        intro: captureVec [OF c] handlers [OF c])
qed

lemma processKnownTargets:
  assumes c: "P c" and h: "\<And>c f x c'. P c \<Longrightarrow> hvc c f = Some (x, c') \<Longrightarrow> P c'"
    and e: "processKnownTargets kf hvc c f = Some (x, c')"
  shows "P c'"
proof -
  obtain es :: emustate and es1 c1 where
    l: "(if f = kf_makeDynamic kf \<and> msIsStatic (reg_state es RI_DI) then do {
          p \<leftarrow> Option.bind (getReg RT_GP64 RI_DI) getRegOp;
          c \<leftarrow> capLoad c es VT_64 p (es_reg es RI_DI) False;
          Some (es\<lparr>reg_state := (reg_state es)(RI_DI := initMetaState CS_DYNAMIC)\<rparr>, c) }
        else Some (es, c)) = Some (es1, c1)"
    and x: "(let es = (if f = kf_makeStatic kf
               then es1\<lparr>reg_state := (reg_state es1)(RI_DI := initMetaState CS_STATIC2)\<rparr> else es1);
        c = put_es es c1
      in if f \<in> {kf_apply4_R8V8 kf, kf_apply4_R8V8V8 kf, kf_apply4_R8P8 kf} then hvc c f
         else Some (f, c)) = Some (x, c')"
    using e unfolding processKnownTargets_def bind_eq_Some_conv split_paired_Ex split_conv
    by (elim exE conjE) (rule that)
  have "P c1" using l c by (auto simp: bind_eq_Some_conv split: if_splits intro: capLoad [OF c])
  then have p: "P (put_es es' c1)" for es' by (rule put_es)
  then have "hvc (put_es es' c1) g = Some (y, c2) \<Longrightarrow> P c2" for es' g y c2 by (rule h)
  then show ?thesis using x p by (auto simp: Let_def split: if_split_asm)
qed

end

end
