(* ===== verification/DecodeBlock.thy ===== *)
theory DecodeBlock
  imports DecodeLookup
begin

text \<open>
  What \<open>dbrew_decode\<close> does to the decode buffers: a new block is appended with the instructions
  that follow each other in memory from its address, the blocks before it stay as they are, and
  decoding an address again gives the same block without changing anything.
\<close>

section \<open>Blocks\<close>

definition blockInstrs :: "rewriter \<Rightarrow> nat \<Rightarrow> instr list" where
  "blockInstrs r k = take (dbb_count (decBB r ! k)) (drop (dbb_instr (decBB r ! k)) (decInstr r))"

text \<open>The invariant of the buffers: blocks refer to instructions in the buffer, and no two
  blocks have the same address.\<close>

definition decOk :: "rewriter \<Rightarrow> bool" where
  "decOk r \<longleftrightarrow> dec_alloc r \<and> length (decInstr r) \<le> decInstrCapacity r \<and> length (decBB r) \<le> decBBCapacity r
     \<and> (\<forall>b \<in> set (decBB r). dbb_instr b + dbb_count b \<le> length (decInstr r))
     \<and> distinct (map dbb_addr (decBB r))"

lemma findDBB_Some:
  "findDBB f bs = Some k \<Longrightarrow> k < length bs \<and> dbb_addr (bs ! k) = f"
  by (induction bs arbitrary: k) (auto split: if_splits)

lemma findDBB_None: "findDBB f bs = None \<longleftrightarrow> f \<notin> dbb_addr ` set bs"
  by (induction bs) auto

lemma findDBB_snoc: "findDBB f bs = None \<Longrightarrow> dbb_addr x = f \<Longrightarrow> findDBB f (bs @ [x]) = Some (length bs)"
  by (induction bs) (auto split: if_splits)

text \<open>The rewriter after a new block was decoded.\<close>

lemma dbrew_decode_new:
  assumes tb: "initDecodeTables = Some tb" and a: "dec_alloc r" and n: "findDBB f (decBB r) = None"
    and d: "dbrew_decode tb mm r f = Some (b, e, r')" and f: "f \<noteq> 0"
  obtains js x where "b = Some (length (decBB r))" and "length (decBB r) < decBBCapacity r"
    and "r' = r\<lparr>r_cc := Some (fst (cc_get r)), decInstr := decInstr r @ js, decBB := decBB r @ [x]\<rparr>"
    and "dbb_addr x = f" and "dbb_instr x = length (decInstr r)" and "dbb_count x = length js"
    and "length (decInstr r) \<le> decInstrCapacity r \<Longrightarrow> length (decInstr r) + length js \<le> decInstrCapacity r"
    and "js \<noteq> []" and "iaddr (hd js) = f"
    and "e = None \<Longrightarrow> instr_chain f js (f + of_nat (dbb_size x))"
proof -
  obtain fc where r1: "config_find_function r f = Some (fc, r\<lparr>r_cc := Some (fst (cc_get r))\<rparr>)"
    using config_find_function_total config_find_function_frame by metis
  let ?x = "\<lparr>dbb_addr = f, dbb_fc = fc, dbb_size = 0, dbb_count = 0, dbb_instr = length (decInstr r)\<rparr>"
  let ?r1 = "r\<lparr>r_cc := Some (fst (cc_get r))\<rparr>"
  let ?r2 = "?r1\<lparr>decBB := decBB ?r1 @ [?x]\<rparr>"
  obtain c where room: "length (decBB r) < decBBCapacity r"
    and c: "decodeLoop tb (initDContext ?r2 (length (decBB r)) f) = Some c"
    and old: "length (decInstr r) < length (decInstr (d_r c))" "iaddr (decInstr (d_r c) ! length (decInstr r)) = f"
    and b: "b = Some (length (decBB r))" and e: "e = (if isErrorSet (d_err c) then Some (d_err c) else None)"
    and r': "r' = (d_r c)\<lparr>decBB := (decBB (d_r c))[length (decBB r) := (decBB (d_r c) ! length (decBB r))
        \<lparr>dbb_count := length (decInstr (d_r c)) - length (decInstr r), dbb_size := d_off c\<rparr>]\<rparr>"
    using d f a n r1 by (auto simp: dbrew_decode_def bind_eq_Some_conv Let_def)
  obtain "is" where br: "block_result (initDContext ?r2 (length (decBB r)) f) c is"
    using decodeLoop_result [OF tb c] by blast
  then have dr: "d_r c = ?r2\<lparr>decInstr := decInstr r @ is\<rparr>"
    and cap: "length (decInstr r) \<le> decInstrCapacity r \<Longrightarrow> length (decInstr r) + length is \<le> decInstrCapacity r"
    and ch: "\<not> isErrorSet (d_err c) \<Longrightarrow> instr_chain f is (f + of_nat (d_off c))"
    by (auto simp: block_result_def initDContext_def dctx0_def)
  let ?y = "?x\<lparr>dbb_count := length is, dbb_size := d_off c\<rparr>"
  show thesis
  proof (rule that [where js = "is" and x = ?y])
    show "r' = r\<lparr>r_cc := Some (fst (cc_get r)), decInstr := decInstr r @ is, decBB := decBB r @ [?y]\<rparr>"
      using r' dr by simp
    show "is \<noteq> []" using old(1) dr by auto
    then show "iaddr (hd is) = f" using old(2) dr by (simp add: nth_append hd_conv_nth)
    show "e = None \<Longrightarrow> instr_chain f is (f + of_nat (dbb_size ?y))" using e ch by (simp split: if_splits)
  qed (use b room cap in simp_all)
qed

lemma dbrew_decode_known:
  assumes "dec_alloc r" "f \<noteq> 0" "findDBB f (decBB r) = Some k"
  shows "dbrew_decode tb mm r f = Some (Some k, None, r)"
  using assms by (simp add: dbrew_decode_def)

lemma instr_chain_nonempty: "instr_chain a js b \<Longrightarrow> js \<noteq> [] \<Longrightarrow> iaddr (hd js) = a"
  by (cases js) auto

section \<open>A block to decode\<close>

text \<open>A rewriter whose memory is full of \<open>ret\<close>.\<close>

definition retRewriter :: rewriter where
  "retRewriter = (allocRewriter (\<lambda>_. 0xC3) (\<lambda>_. 0))\<lparr>dec_alloc := True, decInstrCapacity := 10, decBBCapacity := 2\<rparr>"

lemma ret_row:
  assumes tb: "initDecodeTables = Some tb"
  shows "lookupOpc tb (TAB, 0xC3, OT_Single, 0) = Some (IT_RET, VT_None, addSInstr, Some reqExit, None)"
  by (rule lookup_TAB [OF tb], simp add: rowsTAB)

lemma ret_prefixes:
  assumes "d_mem c (d_ptr c) = 0xC3" "\<not> isErrorSet (d_err c)"
  shows "decodePrefixes c = Some (startInstr c)"
proof -
  have "decodePrefixLoop (startInstr c) = Some (startInstr c)"
    by (rule decodePrefixLoop_bytes [of "[]" _ _ "0xC3"]) (use assms in \<open>simp_all add: startInstr_def opcodeByte_def\<close>)
  then show ?thesis using assms(2) by (simp add: decodePrefixes_def isErrorSet_def)
qed

definition retInstr :: "u64 \<Rightarrow> instr" where
  "retInstr a = instr0\<lparr>iaddr := a, ilen := 1, itype := IT_RET, ivtype := VT_None, iform := OF_0\<rparr>"

lemma ret_step:
  assumes tb: "initDecodeTables = Some tb" and m: "d_mem c (d_ptr c) = 0xC3" and ne: "\<not> isErrorSet (d_err c)"
    and room: "decInstrCount c < decInstrCapacity (d_r c)"
  shows "\<exists>c'. decodeStep tb c = Some c' \<and> \<not> isErrorSet (d_err c') \<and> d_exit c'
    \<and> d_r c' = (d_r c)\<lparr>decInstr := decInstr (d_r c) @ [retInstr (d_ptr c)]\<rparr>"
proof -
  let ?c = "startInstr c"
  have v: "d_vex ?c = VEX_No" "d_mem ?c (d_ptr ?c) = of_nat 0xC3" using m by (simp_all add: startInstr_def)
  have "decodeOpcode tb ?c = processOpc tb (opcTables tb TAB 0xC3) ((skip_bytes 1 ?c)\<lparr>opc1 := 0xC3\<rparr>)"
    using decodeOpcode_one [OF v] by simp
  then have "decodeStep tb c = runHandlers addSInstr (Some reqExit) None (withEntry IT_RET VT_None ((skip_bytes 1 ?c)\<lparr>opc1 := 0xC3\<rparr>))"
    by (simp add: decodeStep_def ret_prefixes [OF m ne] processOpc_single [OF ret_row [OF tb]])
  then show ?thesis using ne room
    by (simp add: runHandlers_def withEntry_def addSInstr_def addS_ii_def reqExit_def addSimple_def
        nextInstrForDContext_def nextInstr_def isErrorSet_def skip_bytes_def setDecInstr_def startInstr_def Let_def
        retInstr_def instr0_def)
qed

lemma ret_decodes_at:
  assumes tb: "initDecodeTables = Some tb" and m: "r_mem r (f) = 0xC3" and f: "f \<noteq> 0"
    and r: "dec_alloc r" "decBB r = []" "decInstr r = []" "0 < decBBCapacity r" "0 < decInstrCapacity r"
  shows "\<exists>x. dbrew_decode tb mm r f = Some (Some 0, None, r\<lparr>r_cc := Some (fst (cc_get r)),
      decInstr := [retInstr f], decBB := [x]\<rparr>) \<and> dbb_instr x = 0 \<and> dbb_count x = 1"
proof -
  obtain fc where fc: "config_find_function r f = Some (fc, r\<lparr>r_cc := Some (fst (cc_get r))\<rparr>)"
    using config_find_function_total config_find_function_frame by metis
  let ?c = "initDContext (r\<lparr>r_cc := Some (fst (cc_get r)),
      decBB := [\<lparr>dbb_addr = f, dbb_fc = fc, dbb_size = 0, dbb_count = 0, dbb_instr = 0\<rparr>]\<rparr>) 0 f"
  have "d_mem ?c (d_ptr ?c) = 0xC3" "\<not> isErrorSet (d_err ?c)" "decInstrCount ?c < decInstrCapacity (d_r ?c)" "\<not> d_exit ?c"
    using m r by (simp_all add: initDContext_def dctx0_def isErrorSet_def)
  moreover obtain c' where c': "decodeStep tb ?c = Some c'" "\<not> isErrorSet (d_err c')" "d_exit c'"
    "d_r c' = (d_r ?c)\<lparr>decInstr := decInstr (d_r ?c) @ [retInstr (d_ptr ?c)]\<rparr>"
    using ret_step [OF tb] calculation by blast
  ultimately have l: "decodeLoop tb ?c = Some c'" by (simp add: decodeLoop.simps [of tb ?c] decodeLoop.simps [of tb c'])
  have "d_r c' = r\<lparr>r_cc := Some (fst (cc_get r)), decInstr := [retInstr f],
      decBB := [\<lparr>dbb_addr = f, dbb_fc = fc, dbb_size = 0, dbb_count = 0, dbb_instr = 0\<rparr>]\<rparr>"
    using c'(4) r by (simp add: initDContext_def dctx0_def)
  then show ?thesis using f r c'(2) l
    by (intro exI [of _ "\<lparr>dbb_addr = f, dbb_fc = fc, dbb_size = d_off c', dbb_count = 1, dbb_instr = 0\<rparr>"])
      (simp add: dbrew_decode_def fc Let_def retInstr_def)
qed

lemma ret_decodes:
  assumes tb: "initDecodeTables = Some tb"
  shows "\<exists>r'. dbrew_decode tb mm retRewriter 16 = Some (Some 0, None, r')"
  using ret_decodes_at [OF tb, of retRewriter 16] by (auto simp: retRewriter_def allocRewriter_def)

section \<open>The properties\<close>

text \<open>C18. Decoding a block that was not decoded before appends one block and its instructions:
  they lie one behind the other in memory from the start of the block to its end, and all
  blocks and instructions decoded before are unchanged.\<close>

theorem decoded_block_contiguous:
  assumes "initDecodeTables = Some tb" and "decOk r" and "f \<noteq> 0" and "f \<notin> dbb_addr ` set (decBB r)"
    and "dbrew_decode tb mm r f = Some (b, None, r')"
  shows "decOk r' \<and> b = Some (length (decBB r)) \<and> length (decBB r') = Suc (length (decBB r))
    \<and> take (length (decBB r)) (decBB r') = decBB r
    \<and> take (length (decInstr r)) (decInstr r') = decInstr r
    \<and> (let x = decBB r' ! length (decBB r); js = blockInstrs r' (length (decBB r)) in
        dbb_addr x = f \<and> js \<noteq> [] \<and> instr_chain f js (f + of_nat (dbb_size x)))"
proof -
  have n: "findDBB f (decBB r) = None" and al: "dec_alloc r" using assms(2,4) by (simp_all add: findDBB_None decOk_def)
  obtain js x where b: "b = Some (length (decBB r))" "length (decBB r) < decBBCapacity r"
    and r': "r' = r\<lparr>r_cc := Some (fst (cc_get r)), decInstr := decInstr r @ js, decBB := decBB r @ [x]\<rparr>"
    and x: "dbb_addr x = f" "dbb_instr x = length (decInstr r)" "dbb_count x = length js"
    and cap: "length (decInstr r) \<le> decInstrCapacity r \<Longrightarrow> length (decInstr r) + length js \<le> decInstrCapacity r"
    and js: "js \<noteq> []" "iaddr (hd js) = f" "instr_chain f js (f + of_nat (dbb_size x))"
    using dbrew_decode_new [OF assms(1) al n assms(5,3)] by metis
  have "decOk r'" using assms(2,4) b(2) x cap by (auto simp: decOk_def r')
  moreover have "blockInstrs r' (length (decBB r)) = js" by (simp add: blockInstrs_def r' x)
  ultimately show ?thesis using b(1) x js by (simp add: r' Let_def)
qed

theorem decoded_block_contiguous_witness:
  "\<exists>tb r'. initDecodeTables = Some tb \<and> dbrew_decode tb None retRewriter 16 = Some (Some 0, None, r')
    \<and> decOk r' \<and> iaddr (hd (blockInstrs r' 0)) = 16"
proof -
  obtain tb where tb: "initDecodeTables = Some tb" using initDecodeTables_total by blast
  obtain r' where d: "dbrew_decode tb None retRewriter 16 = Some (Some 0, None, r')" using ret_decodes [OF tb] by blast
  have "decOk retRewriter" "16 \<notin> dbb_addr ` set (decBB retRewriter)" "length (decBB retRewriter) = 0"
    by (simp_all add: decOk_def retRewriter_def allocRewriter_def)
  with decoded_block_contiguous [OF tb this(1) _ this(2) d] tb d instr_chain_nonempty
  show ?thesis by (auto simp: Let_def)
qed

text \<open>C19. Decoding the same address again gives the same block and changes nothing.\<close>

theorem decode_again:
  assumes "initDecodeTables = Some tb" and "decOk r" and "f \<noteq> 0"
    and "dbrew_decode tb mm r f = Some (b, e, r')"
  shows "\<exists>k. b = Some k \<and> dbb_addr (decBB r' ! k) = f \<and> dbrew_decode tb mm r' f = Some (Some k, None, r')"
proof (cases "findDBB f (decBB r)")
  case None
  have al: "dec_alloc r" using assms(2) by (simp add: decOk_def)
  obtain js x where b: "b = Some (length (decBB r))"
    and r': "r' = r\<lparr>r_cc := Some (fst (cc_get r)), decInstr := decInstr r @ js, decBB := decBB r @ [x]\<rparr>"
    and x: "dbb_addr x = f"
    using dbrew_decode_new [OF assms(1) al None assms(4,3)] by metis
  have "findDBB f (decBB r @ [x]) = Some (length (decBB r))"
    using None x findDBB_snoc by simp
  then have "findDBB f (decBB r') = Some (length (decBB r))" "dec_alloc r'" using al by (simp_all add: r')
  from dbrew_decode_known [OF this(2) assms(3) this(1)] show ?thesis using b x by (simp add: r')
next
  case (Some k)
  have al: "dec_alloc r" using assms(2) by (simp add: decOk_def)
  note known = dbrew_decode_known [OF al assms(3) Some]
  then have "b = Some k" "r' = r" using assms(4) by simp_all
  then show ?thesis using known findDBB_Some [OF Some] by simp
qed

theorem decode_again_witness:
  "\<exists>tb r'. initDecodeTables = Some tb \<and> dbrew_decode tb None retRewriter 16 = Some (Some 0, None, r')
    \<and> dbrew_decode tb None r' 16 = Some (Some 0, None, r')"
proof -
  obtain tb where tb: "initDecodeTables = Some tb" using initDecodeTables_total by blast
  obtain r' where d: "dbrew_decode tb None retRewriter 16 = Some (Some 0, None, r')" using ret_decodes [OF tb] by blast
  have "decOk retRewriter" by (simp add: decOk_def retRewriter_def allocRewriter_def)
  from decode_again [OF tb this _ d] tb d show ?thesis by auto
qed

end
