(* ===== verification/EngineProtocol.thy ===== *)
theory EngineProtocol
  imports VectorCall CaptureProtocol DecodeBlock
begin

text \<open>
  How the tracing loop uses the captured blocks: it opens the block on top of the capture stack,
  decodes, emulates, and closes the block at a return. The locale \<open>engine_protocol\<close> extends the
  protocol of the emulator by these steps, and shows what the whole of \<open>emulateAndCapture\<close> then
  ends with.
\<close>

section \<open>The surroundings of the blocks\<close>

text \<open>Vector calls keep the captured blocks.\<close>

definition vectorKeeps :: "world \<Rightarrow> bool" where
  "vectorKeeps w \<longleftrightarrow> (\<forall>c f x c'. w_vector w c f = Some (x, c')
     \<longrightarrow> sameCap (rc_r c) (rc_r c') \<and> rc_e c' = rc_e c)"

lemma vectorKeeps_vectorWorld: "vectorKeeps (vectorWorld ve n w)"
proof (cases n)
  case 0
  then show ?thesis by (simp add: vectorKeeps_def)
next
  case (Suc m)
  have "sameCap (rc_r c) (rc_r c') \<and> rc_e c' = rc_e c"
    if "handleVectorCall ve v c f = Some (x, c')" for v c f x c'
  proof -
    note h = handleVectorCall_frame [OF that]
    from h have "rc_r c' = (rc_r c)\<lparr>r_mem := r_mem (rc_r c'), r_next := r_next (rc_r c'), r_es := r_es (rc_r c')\<rparr>"
      by (elim conjE)
    then obtain mm ns es where "rc_r c' = (rc_r c)\<lparr>r_mem := mm, r_next := ns, r_es := es\<rparr>" by blast
    then show ?thesis using h by (simp add: sameCap_def)
  qed
  then show ?thesis using Suc by (simp add: vectorKeeps_def)
qed

lemma sameCap_trans: "sameCap r1 r2 \<Longrightarrow> sameCap r2 r3 \<Longrightarrow> sameCap r1 r3"
  by (simp add: sameCap_def)

lemma sameCap_restore: "restoreEmuState r k = Some r' \<Longrightarrow> sameCap r r'"
  by (auto simp: restoreEmuState_def bind_eq_Some_conv sameCap_def)

text \<open>Decoding keeps the captured blocks when the decode buffers exist.\<close>

lemma sameCap_decode:
  assumes "initDecodeTables = Some tb" and "dec_alloc r" and "dbrew_decode tb mm r f = Some (b, e, r')"
  shows "sameCap r r'"
proof (cases "f = 0")
  case True
  then show ?thesis using assms(3) by (simp add: dbrew_decode_def)
next
  case False
  show ?thesis
  proof (cases "findDBB f (decBB r)")
    case None
    then obtain js x where "r' = r\<lparr>r_cc := Some (fst (cc_get r)), decInstr := decInstr r @ js, decBB := decBB r @ [x]\<rparr>"
      using dbrew_decode_new [OF assms(1,2) None assms(3) False] by metis
    then show ?thesis by (simp add: sameCap_def)
  next
    case (Some k)
    then show ?thesis using dbrew_decode_known [OF assms(2) False Some] assms(3) by simp
  qed
qed

lemma assertEnd: "(if q then Some x else do { c_assert p; Some x }) = Some y \<Longrightarrow> y = x"
  by (auto simp: bind_eq_Some_conv split: if_splits)

text \<open>The ways in which an instruction is captured: there is no current block, no room, an error
  from before, or it is stored behind all others.\<close>

lemma capture_cases:
  assumes "capture c i = Some c'"
  obtains (none) "currentCapBB (rc_r c) = None" "c' = c"
  | (full) b where "currentCapBB (rc_r c) = Some b" "rc_r c' = rc_r c" "rc_e c' \<noteq> None"
  | (stale) b where "currentCapBB (rc_r c) = Some b" "length (capInstr (rc_r c)) < capInstrCapacity (rc_r c)"
      "rc_e c \<noteq> None" "rc_e c' = rc_e c" "rc_r c' = (rc_r c)\<lparr>capInstr := capInstr (rc_r c) @ [instr0]\<rparr>"
  | (stored) b j where "currentCapBB (rc_r c) = Some b" "length (capInstr (rc_r c)) < capInstrCapacity (rc_r c)"
      "rc_e c = None" "rc_e c' = None"
      "cbb_instr (capBB (rc_r c) ! b) = None \<Longrightarrow> cbb_count (capBB (rc_r c) ! b) = 0"
      "rc_r c' = (rc_r c)\<lparr>capInstr := capInstr (rc_r c) @ [j], capBB := (capBB (rc_r c))[b := (capBB (rc_r c) ! b)
         \<lparr>cbb_instr := (if cbb_instr (capBB (rc_r c) ! b) = None then Some (length (capInstr (rc_r c)))
                       else cbb_instr (capBB (rc_r c) ! b)), cbb_count := cbb_count (capBB (rc_r c) ! b) + 1\<rparr>]\<rparr>"
proof (cases "currentCapBB (rc_r c)")
  case None
  then have "c' = c" using assms by (simp add: capture_def)
  then show thesis by (rule none [OF None])
next
  case (Some b)
  show thesis
  proof (cases "length (capInstr (rc_r c)) < capInstrCapacity (rc_r c)")
    case False
    then have "c' = with_error ET_BufferOverflow EM_Capture (Some ''Too many captured instructions'') c"
      using assms Some by (simp add: capture_def newCapInstr_def with_error_def)
    then show thesis by (intro full [OF Some]) (simp_all add: with_error_def)
  next
    case True
    show thesis
    proof (cases "rc_e c = None")
      case False
      then have "c' = with_r ((rc_r c)\<lparr>capInstr := capInstr (rc_r c) @ [instr0]\<rparr>) c"
        using assms Some True False by (simp add: capture_def newCapInstr_def with_r_def Let_def)
      then show thesis by (intro stale [OF Some True False]) (simp_all add: with_r_def)
    next
      case e: True
      let ?n = "length (capInstr (rc_r c))" and ?c1 = "with_r ((rc_r c)\<lparr>capInstr := capInstr (rc_r c) @ [instr0]\<rparr>) c"
      have ne: "\<not> capInstrCapacity (rc_r c) \<le> ?n" "\<not> rc_e ?c1 \<noteq> None" using True e by simp_all
      have "do {
          c_assert (cbb_instr (capBB (rc_r ?c1) ! b) = None \<longrightarrow> cbb_count (capBB (rc_r ?c1) ! b) = 0);
          j \<leftarrow> copyInstr (capInstr (rc_r ?c1) ! ?n) i;
          Some (updCBB b (\<lambda>b. b\<lparr>cbb_instr := (if cbb_instr b = None then Some ?n else cbb_instr b),
            cbb_count := cbb_count b + 1\<rparr>) (putCapInstr ?n j ?c1)) } = Some c'"
        using assms unfolding capture_def newCapInstr_def Let_def Some option.case if_not_P [OF ne(1)]
          split_conv if_not_P [OF ne(2)] Option.bind.bind_lunit .
      then obtain j where n: "cbb_instr (capBB (rc_r ?c1) ! b) = None \<longrightarrow> cbb_count (capBB (rc_r ?c1) ! b) = 0"
        and c': "updCBB b (\<lambda>b. b\<lparr>cbb_instr := (if cbb_instr b = None then Some ?n else cbb_instr b),
            cbb_count := cbb_count b + 1\<rparr>) (putCapInstr ?n j ?c1) = c'"
        unfolding bind_eq_Some_conv c_assert_eq_Some option.inject by (elim exE conjE) (rule that)
      show thesis by (rule stored [OF Some True e, where j = j])
        (use n e in \<open>simp_all add: c' [symmetric] with_r_def putCapInstr_def updCBB_def\<close>)
    qed
  qed
qed

text \<open>The ways in which a block ends at a conditional jump.\<close>

lemma captureJcc_cases:
  assumes "captureJcc c it t f = Some c'"
  obtains (known) "c' = c"
  | (fail) b r k c1 ft c2 br where "popCaptureBB (rc_r c) = Some (b, r)"
      "saveEmuState (updCBB b (\<lambda>x. x\<lparr>endType := it, preferBranch := t < f\<rparr>) (with_r r c)) = Some (k, c1)"
      "getCaptureBB c1 f k = Some (ft, c2)" "getCaptureBB c2 t k = Some (br, c')" "rc_e c' \<noteq> None"
  | (split) b r k c1 ft c2 br c3 c4 where "popCaptureBB (rc_r c) = Some (b, r)"
      "saveEmuState (updCBB b (\<lambda>x. x\<lparr>endType := it, preferBranch := t < f\<rparr>) (with_r r c)) = Some (k, c1)"
      "getCaptureBB c1 f k = Some (Some ft, c2)" "getCaptureBB c2 t k = Some (Some br, c3)" "rc_e c3 = None"
      "c4 = updCBB b (\<lambda>x. x\<lparr>nextFallThrough := Some ft, nextBranch := Some br\<rparr>) c3"
      "c' = (if t < f then pushCaptureBB (pushCaptureBB c4 ft) br else pushCaptureBB (pushCaptureBB c4 br) ft)"
proof -
  obtain cc where cc: "r_cc (rc_r c) = Some cc" using assms by (auto simp: captureJcc_def bind_eq_Some_conv)
  show thesis
  proof (cases "branches_known cc")
    case True
    then show thesis using known assms cc by (simp add: captureJcc_def)
  next
    case False
    obtain b r k c1 ft c2 br c3 where pop: "popCaptureBB (rc_r c) = Some (b, r)"
      and sv: "saveEmuState (updCBB b (\<lambda>x. x\<lparr>endType := it, preferBranch := t < f\<rparr>) (with_r r c)) = Some (k, c1)"
      and g: "getCaptureBB c1 f k = Some (ft, c2)" "getCaptureBB c2 t k = Some (br, c3)"
      and e: "(if rc_e c3 \<noteq> None then Some c3
         else do {
           let c = updCBB b (\<lambda>b. b\<lparr>nextFallThrough := ft, nextBranch := br\<rparr>) c3;
           f' \<leftarrow> ft;
           t' \<leftarrow> br;
           let c = (if t < f then pushCaptureBB (pushCaptureBB c f') t'
                    else pushCaptureBB (pushCaptureBB c t') f');
           (if rc_e c \<noteq> None then Some c
            else do {
              c_assert (currentCapBB (rc_r c) = None);
              Some c }) }) = Some c'"
      using assms [unfolded captureJcc_def cc Option.bind.bind_lunit if_not_P [OF False]]
      unfolding bind_eq_Some_conv split_paired_Ex split_conv Let_def by (elim exE conjE) (rule that, assumption+, simp only: Let_def)
    show thesis
    proof (cases "rc_e c3 = None")
      case True
      then obtain f' t' where ft: "ft = Some f'" "br = Some t'" using e by (cases ft; cases br) simp_all
      let ?c4 = "updCBB b (\<lambda>x. x\<lparr>nextFallThrough := Some f', nextBranch := Some t'\<rparr>) c3"
      let ?c5 = "if t < f then pushCaptureBB (pushCaptureBB ?c4 f') t' else pushCaptureBB (pushCaptureBB ?c4 t') f'"
      have "(if rc_e ?c5 \<noteq> None then Some ?c5
          else do { c_assert (currentCapBB (rc_r ?c5) = None); Some ?c5 }) = Some c'"
        using e unfolding ft Let_def Option.bind.bind_lunit by (simp only: True simp_thms if_False)
      then have "c' = ?c5" by (rule assertEnd)
      then show thesis using g unfolding ft by (intro split [OF pop sv _ _ True refl])
    qed (use e fail [OF pop sv g(1)] g in auto)
  qed
qed

lemma saveEmuState_error: "saveEmuState c = Some (k, c') \<Longrightarrow> rc_e c \<noteq> None \<Longrightarrow> rc_e c' \<noteq> None"
  by (auto simp: saveEmuState_def with_error_def with_r_def bind_eq_Some_conv Let_def split: option.splits if_splits)

lemma getCaptureBB_error: "getCaptureBB c f k = Some (b, c') \<Longrightarrow> rc_e c \<noteq> None \<Longrightarrow> rc_e c' \<noteq> None"
  by (auto simp: getCaptureBB_def with_error_def with_r_def bind_eq_Some_conv Let_def split: option.splits if_splits)

lemma pushCaptureBB_error: "rc_e c \<noteq> None \<Longrightarrow> rc_e (pushCaptureBB c b) \<noteq> None"
  by (simp add: pushCaptureBB_def with_error_def)

lemma rc_e_updCBB [simp]: "rc_e (updCBB b g c) = rc_e c"
  by (simp add: updCBB_def)

text \<open>An error stays set while an instruction is emulated.\<close>

interpretation err: capture_protocol "\<lambda>c. rc_e c \<noteq> None"
proof unfold_locales
  fix c i c'
  assume e: "rc_e c \<noteq> None" and "capture c i = Some c'"
  from this(2) show "rc_e c' \<noteq> None"
    by (cases rule: capture_cases) (use e in simp_all)
next
  fix c it t f c'
  assume e: "rc_e c \<noteq> None" and "captureJcc c it t f = Some c'"
  from this(2) show "rc_e c' \<noteq> None"
  proof (cases rule: captureJcc_cases)
    case (split b r k c1 ft c2 br c3 c4)
    have "rc_e c3 \<noteq> None"
      by (rule getCaptureBB_error [OF split(4) getCaptureBB_error [OF split(3) saveEmuState_error [OF split(2)]]])
        (simp add: e)
    then show ?thesis using split(5) by simp
  qed (use e in auto)
qed auto

text \<open>An error that a known function's call causes leaves a block open, so that the next
  instruction reports it.\<close>

definition errorOpen :: "rctx \<Rightarrow> bool" where
  "errorOpen c \<longleftrightarrow> (rc_e c \<noteq> None \<longrightarrow> currentCapBB (rc_r c) \<noteq> None)"

lemma capture_errorOpen:
  assumes "errorOpen c" "capture c i = Some c'"
  shows "errorOpen c'"
  using assms(2) by (cases rule: capture_cases) (use assms(1) in \<open>simp_all add: errorOpen_def\<close>)

lemma capLoad_errorOpen: "errorOpen c \<Longrightarrow> capLoad c es vt p v a = Some c' \<Longrightarrow> errorOpen c'"
  by (auto simp: capLoad_def capBinary_def bind_eq_Some_conv intro: capture_errorOpen)

lemma processKnownTargets_errorOpen:
  assumes c: "errorOpen c" and w: "vectorKeeps w"
    and e: "processKnownTargets kf (w_vector w) c f = Some (x, c')"
  shows "errorOpen c'"
proof -
  obtain es :: emustate and es1 c1 where
    l: "(if f = kf_makeDynamic kf \<and> msIsStatic (reg_state es RI_DI) then do {
          p \<leftarrow> Option.bind (getReg RT_GP64 RI_DI) getRegOp;
          c \<leftarrow> capLoad c es VT_64 p (es_reg es RI_DI) False;
          Some (es\<lparr>reg_state := (reg_state es)(RI_DI := initMetaState CS_DYNAMIC)\<rparr>, c) }
        else Some (es, c)) = Some (es1, c1)"
    and x: "(let es = (if f = kf_makeStatic kf
               then es1\<lparr>reg_state := (reg_state es1)(RI_DI := initMetaState CS_STATIC2)\<rparr> else es1);
        c = put_es es c1
      in if f \<in> {kf_apply4_R8V8 kf, kf_apply4_R8V8V8 kf, kf_apply4_R8P8 kf} then w_vector w c f
         else Some (f, c)) = Some (x, c')"
    using e unfolding processKnownTargets_def bind_eq_Some_conv split_paired_Ex split_conv
    by (elim exE conjE) (rule that)
  have "errorOpen c1" using l c by (auto simp: bind_eq_Some_conv split: if_splits intro: capLoad_errorOpen)
  then have p: "errorOpen (put_es es' c1)" for es' by (simp add: errorOpen_def put_es_def with_r_def)
  moreover have "errorOpen d'" if "w_vector w d g = Some (y, d')" "errorOpen d" for d g y d'
    using w that by (auto simp: vectorKeeps_def errorOpen_def sameCap_def)
  ultimately show ?thesis using x by (auto simp: Let_def split: if_split_asm)
qed

text \<open>The ways in which a state is saved, a block is looked up, and one is put on the stack.\<close>

lemma findState_less: "findState es ss = Some k \<Longrightarrow> k < length ss"
  by (induction ss arbitrary: k) (auto split: if_splits)

lemma saveEmuState_cases:
  assumes "saveEmuState c = Some (k, c')"
  obtains (found) "0 \<le> k" "k < int (length (savedState (rc_r c)))" "c' = c"
  | (full) "k = -1" "rc_r c' = rc_r c" "rc_e c' \<noteq> None"
  | (new) s where "k = int (length (savedState (rc_r c)))" "length (savedState (rc_r c)) < SAVEDSTATE_MAX"
      "c' = with_r ((rc_r c)\<lparr>savedState := savedState (rc_r c) @ [s]\<rparr>) c"
proof -
  obtain es where es: "r_es (rc_r c) = Some es" using assms by (auto simp: saveEmuState_def bind_eq_Some_conv)
  show thesis
  proof (cases "findState es (savedState (rc_r c))")
    case (Some j)
    then have "k = int j" "c' = c" using assms es by (simp_all add: saveEmuState_def)
    then show thesis using found findState_less [OF Some] by simp
  next
    case None
    show thesis
    proof (cases "length (savedState (rc_r c)) < SAVEDSTATE_MAX")
      case True
      then obtain s where "cloneEmuState es = Some s" "k = int (length (savedState (rc_r c)))"
        "c' = with_r ((rc_r c)\<lparr>savedState := savedState (rc_r c) @ [s]\<rparr>) c"
        using assms es None by (auto simp: saveEmuState_def bind_eq_Some_conv Let_def)
      then show thesis using new True by blast
    next
      case False
      then have "k = -1" "rc_r c' = rc_r c" "rc_e c' \<noteq> None"
        using assms es None by (auto simp: saveEmuState_def with_error_def)
      then show thesis by (rule full)
    qed
  qed
qed

lemma getCaptureBB_cases:
  assumes "getCaptureBB c f k = Some (b, c')"
  obtains (found) j where "findCBB f k (capBB (rc_r c)) = Some j" "b = Some j" "c' = c"
  | (full) "b = None" "rc_r c' = rc_r c" "rc_e c' \<noteq> None"
  | (new) fc where "findCBB f k (capBB (rc_r c)) = None" "length (capBB (rc_r c)) < capBBCapacity (rc_r c)"
      "b = Some (length (capBB (rc_r c)))" "rc_e c' = rc_e c"
      "rc_r c' = (rc_r c)\<lparr>r_cc := Some (fst (cc_get (rc_r c))), capBB := capBB (rc_r c) @ [newCBB f k fc]\<rparr>"
proof (cases "findCBB f k (capBB (rc_r c))")
  case (Some j)
  then have "b = Some j" "c' = c" using assms by (simp_all add: getCaptureBB_def findCaptureBB_def)
  then show thesis by (rule found [OF Some])
next
  case None
  show thesis
  proof (cases "length (capBB (rc_r c)) < capBBCapacity (rc_r c)")
    case False
    then have "b = None" "rc_r c' = rc_r c" "rc_e c' \<noteq> None"
      using assms None by (auto simp: getCaptureBB_def findCaptureBB_def Let_def with_error_def)
    then show thesis by (rule full)
  next
    case True
    obtain fc where "config_find_function (rc_r c) f = Some (fc, (rc_r c)\<lparr>r_cc := Some (fst (cc_get (rc_r c)))\<rparr>)"
      using config_find_function_total config_find_function_frame by metis
    then have "b = Some (length (capBB (rc_r c)))" "c' = with_r ((rc_r c)
        \<lparr>r_cc := Some (fst (cc_get (rc_r c))), capBB := capBB (rc_r c) @ [newCBB f k fc]\<rparr>) c"
      using assms None True by (simp_all add: getCaptureBB_def findCaptureBB_def Let_def)
    then show thesis by (intro new [OF None True]) (simp_all add: with_r_def)
  qed
qed

lemma pushCaptureBB_cases:
  obtains (full) "rc_r (pushCaptureBB c b) = rc_r c" "rc_e (pushCaptureBB c b) \<noteq> None"
  | (room) "length (capStack (rc_r c)) < CAPTURESTACK_LEN" "rc_e (pushCaptureBB c b) = rc_e c"
      "rc_r (pushCaptureBB c b) = (rc_r c)\<lparr>capStack := b # capStack (rc_r c)\<rparr>"
  by (cases "length (capStack (rc_r c)) < CAPTURESTACK_LEN")
    (simp_all add: pushCaptureBB_def with_error_def with_r_def)

lemma popCaptureBB_eq:
  "popCaptureBB r = Some (b, r') \<Longrightarrow> currentCapBB r = Some b \<and> capStack r = b # tl (capStack r)
     \<and> r' = r\<lparr>capStack := tl (capStack r), currentCapBB := None\<rparr>"
  by (cases "capStack r") (auto simp: popCaptureBB_def bind_eq_Some_conv)

lemma setPar_sameCap: "setPar k v r = Some r' \<Longrightarrow> sameCap r r'"
  by (auto simp: setPar_def bind_eq_Some_conv Let_def sameCap_def split: option.splits)

lemma setPars_sameCap: "setPars k vs r = Some r' \<Longrightarrow> sameCap r r'"
proof (induction vs arbitrary: k r)
  case (Cons v vs)
  then obtain r1 where "setPar k v r = Some r1" "setPars (Suc k) vs r1 = Some r'" by (auto simp: bind_eq_Some_conv)
  then show ?case using sameCap_trans [OF setPar_sameCap Cons.IH] by blast
qed simp

text \<open>The block that is opened: the first on the stack that is not finished.\<close>

lemma openCBB_new:
  assumes "openCBB c a = Some (Some (c', a'))" and n: "currentCapBB (rc_r c) = None"
  obtains pre b st es where "capStack (rc_r c) = pre @ b # st" "\<forall>x \<in> set pre. endType (capBB (rc_r c) ! x) \<noteq> IT_None"
    "endType (capBB (rc_r c) ! b) = IT_None" "rc_e c' = rc_e c" "a' = dec_addr (capBB (rc_r c) ! b)"
    "rc_r c' = (rc_r c)\<lparr>capStack := b # st, currentCapBB := Some b, r_es := es\<rparr>"
proof -
  let ?q = "\<lambda>b. endType (capBB (rc_r c) ! b) \<noteq> IT_None"
  obtain b st where st: "dropWhile ?q (capStack (rc_r c)) = b # st"
    using assms by (auto simp: openCBB_def Let_def split: list.splits)
  obtain r where r: "restoreEmuState ((rc_r c)\<lparr>capStack := b # st\<rparr>) (esID (capBB (rc_r c) ! b)) = Some r"
    and c': "c' = with_r (r\<lparr>currentCapBB := Some b\<rparr>) c" "a' = dec_addr (capBB r ! b)"
    using assms st by (auto simp: openCBB_def Let_def bind_eq_Some_conv)
  obtain es where es: "r = (rc_r c)\<lparr>capStack := b # st, r_es := es\<rparr>"
    using r by (auto simp: restoreEmuState_def bind_eq_Some_conv)
  show thesis
  proof (rule that)
    show "capStack (rc_r c) = takeWhile ?q (capStack (rc_r c)) @ b # st" using st by (metis takeWhile_dropWhile_id)
    show "endType (capBB (rc_r c) ! b) = IT_None" using st hd_dropWhile [of ?q "capStack (rc_r c)"] by auto
    show "rc_r c' = (rc_r c)\<lparr>capStack := b # st, currentCapBB := Some b, r_es := es\<rparr>"
      by (simp add: c' es with_r_def)
  qed (auto simp: c' es dest: set_takeWhileD)
qed

section \<open>The protocol of the tracing\<close>

text \<open>The rewriter when the tracing starts: one block, open and without instructions.\<close>

definition startCap :: "rewriter \<Rightarrow> bool" where
  "startCap r \<longleftrightarrow> dec_alloc r \<and> capInstr r = [] \<and> (\<exists>fc. capBB r = [newCBB (r_func r) 0 fc]) \<and> 0 < capBBCapacity r
     \<and> capStack r = [0] \<and> currentCapBB r = Some 0 \<and> length (savedState r) = 1"

text \<open>What the tracing takes over from the rewriter \<open>r0\<close>, with an empty code storage.\<close>

definition outside :: "rewriter \<Rightarrow> rewriter \<Rightarrow> bool" where
  "outside r0 r \<longleftrightarrow> r_func r = r_func r0 \<and> genOrder r = genOrder r0
     \<and> r_cs r = map_option (cs_used_update (\<lambda>_. 0)) (r_cs r0)"

text \<open>The rewriter when all is traced: no block is open, and none on the stack is unfinished.\<close>

definition endCap :: "rewriter \<Rightarrow> bool" where
  "endCap r \<longleftrightarrow> currentCapBB r = None \<and> (\<forall>b \<in> set (capStack r). endType (capBB r ! b) \<noteq> IT_None)"

text \<open>Nothing is captured.\<close>

definition emptyCap :: "rewriter \<Rightarrow> bool" where
  "emptyCap r \<longleftrightarrow> capInstr r = [] \<and> capBB r = [] \<and> capStack r = [] \<and> length (savedState r) \<le> 1"

locale engine_protocol = capture_protocol +
  fixes r0 :: rewriter
  assumes start: "startCap (rc_r c) \<Longrightarrow> outside r0 (rc_r c) \<Longrightarrow> rc_e c = None \<Longrightarrow> P c"
    and decodes: "P c \<Longrightarrow> dec_alloc (rc_r c)"
    and opened: "P c \<Longrightarrow> rc_e c = None \<Longrightarrow> currentCapBB (rc_r c) = None
      \<Longrightarrow> openCBB c a = Some (Some (c', a')) \<Longrightarrow> P c'"
    and returned: "P c \<Longrightarrow> rc_e c = None \<Longrightarrow> popCaptureBB (rc_r c) = Some (b, r)
      \<Longrightarrow> P (updCBB b (\<lambda>x. x\<lparr>endType := IT_RET\<rparr>) (with_r r c))"
begin

lemma openCBB:
  assumes "P c" "errorOpen c" "openCBB c a = Some (Some (c', a'))"
  shows "P c' \<and> errorOpen c'"
proof (cases "currentCapBB (rc_r c)")
  case None
  then have "rc_e c = None" using assms(2) by (simp add: errorOpen_def)
  moreover have "rc_e c' = rc_e c"
    using assms(3) None by (auto simp: openCBB_def Let_def bind_eq_Some_conv with_r_def split: list.splits)
  ultimately show ?thesis using opened [OF assms(1) _ None assms(3)] by (simp add: errorOpen_def)
next
  case (Some b)
  then show ?thesis using assms by (simp add: openCBB_def)
qed

lemma runInstrs:
  assumes w: "vectorKeeps w"
  shows "P c \<Longrightarrow> runInstrs w js c = Some x \<Longrightarrow> (case x of
     BBError e r \<Rightarrow> \<exists>c'. P c' \<and> rc_e c' = Some e \<and> r = (rc_r c')\<lparr>capBB := []\<rparr>
   | BBNext c' n i \<Rightarrow> P c' \<and> errorOpen c')"
proof (induction js arbitrary: c)
  case Nil
  then show ?case by simp
next
  case (Cons i js)
  obtain es c1 where c1: "processInstr ((put_es (es\<lparr>regIP := nextAddr i\<rparr>) c)\<lparr>rc_exit := 0\<rparr>) i = Some c1"
    and k: "(case rc_e c1 of
        Some e \<Rightarrow> do { c_assert (isErrorSet e); Some (BBError e ((rc_r c1)\<lparr>capBB := []\<rparr>)) }
      | None \<Rightarrow> do {
          c_assert (rc_exit c1 \<noteq> 0 \<longrightarrow> js = []);
          (next, c) \<leftarrow> processKnownTargets (w_known w) (w_vector w) c1 (rc_exit c1);
          (if next \<noteq> 0 then Some (BBNext c next i)
           else if js = [] then Some (BBNext c (nextAddr i) i)
           else runInstrs w js c) }) = Some x"
    using Cons.prems(2) unfolding runInstrs.simps bind_eq_Some_conv [of "r_es _"] Let_def
      bind_eq_Some_conv [of "processInstr _ _"] by (elim exE conjE) (rule that)
  have p1: "P c1" by (rule processInstr [OF exit [OF put_es [OF Cons.prems(1)]] c1])
  show ?case
  proof (cases "rc_e c1")
    case (Some e)
    then have "x = BBError e ((rc_r c1)\<lparr>capBB := []\<rparr>)" using k by (simp add: bind_eq_Some_conv)
    then show ?thesis using p1 Some by auto
  next
    case None
    obtain "next" c2 where c2: "processKnownTargets (w_known w) (w_vector w) c1 (rc_exit c1) = Some (next, c2)"
      and k2: "(if next \<noteq> 0 then Some (BBNext c2 next i)
           else if js = [] then Some (BBNext c2 (nextAddr i) i)
           else runInstrs w js c2) = Some x"
      using k None by (auto simp: bind_eq_Some_conv)
    have "P c2"
      by (rule processKnownTargets [OF p1 _ c2]) (use w in \<open>auto simp: vectorKeeps_def elim!: frame\<close>)
    moreover have "errorOpen c2"
      by (rule processKnownTargets_errorOpen [OF _ w c2]) (simp add: errorOpen_def None)
    ultimately show ?thesis using k2 Cons.IH [of c2] by (auto split: if_split_asm)
  qed
qed

lemma closePath:
  assumes p: "P c" and e: "errorOpen c" and k: "closePath c i = Some (x, c')"
  shows "P c' \<and> (if x then rc_e c' \<noteq> None else errorOpen c')"
proof -
  obtain es where "(if depth es < 0 then do {
        c_assert (itype i = IT_RET);
        c \<leftarrow> captureRet c i es;
        (if rc_e c \<noteq> None then Some (True, c)
         else do {
           (b, r) \<leftarrow> popCaptureBB (rc_r c);
           Some (False, updCBB b (\<lambda>b. b\<lparr>endType := IT_RET\<rparr>) (with_r r c)) }) }
      else Some (False, c)) = Some (x, c')"
    using k unfolding closePath_def bind_eq_Some_conv [of "r_es _"] by (elim exE conjE) (rule that)
  then consider "x = False" "c' = c" | c1 where "captureRet c i es = Some c1" "rc_e c1 \<noteq> None" "x = True" "c' = c1"
    | c1 b r where "captureRet c i es = Some c1" "rc_e c1 = None" "popCaptureBB (rc_r c1) = Some (b, r)"
      "x = False" "c' = updCBB b (\<lambda>b. b\<lparr>endType := IT_RET\<rparr>) (with_r r c1)"
    by (auto simp: bind_eq_Some_conv simp del: not_None_eq split: if_split_asm)
  then show ?thesis
  proof cases
    case 1
    then show ?thesis using p e by simp
  next
    case 2
    then show ?thesis using captureRet [OF p] by simp
  next
    case (3 c1 b r)
    have "P c'" unfolding 3(5) by (rule returned [OF captureRet [OF p 3(1)] 3(2,3)])
    then show ?thesis using 3 by (simp add: errorOpen_def)
  qed
qed

text \<open>What the loop ends with.\<close>

definition loopEnd :: "error option \<Rightarrow> rewriter \<Rightarrow> bool" where
  "loopEnd e r \<longleftrightarrow> (\<exists>c. P c \<and> rc_e c = e \<and> (case e of
       None \<Rightarrow> endCap (rc_r c) \<and> r = (rc_r c)\<lparr>capStack := []\<rparr>
     | Some _ \<Rightarrow> r = rc_r c \<or> r = (rc_r c)\<lparr>capBB := []\<rparr>))"

lemma loopEnd_None:
  "loopEnd None r \<longleftrightarrow> (\<exists>c. P c \<and> rc_e c = None \<and> endCap (rc_r c) \<and> r = (rc_r c)\<lparr>capStack := []\<rparr>)"
  unfolding loopEnd_def option.case ..

lemma loopEnd_Some:
  "loopEnd (Some e) r \<longleftrightarrow> (\<exists>c. P c \<and> rc_e c = Some e \<and> (r = rc_r c \<or> r = (rc_r c)\<lparr>capBB := []\<rparr>))"
  unfolding loopEnd_def option.case ..

lemma loopEnd_cases:
  assumes "loopEnd e r"
  obtains c where "P c" "r = rc_r c \<or> r = (rc_r c)\<lparr>capStack := []\<rparr> \<or> r = (rc_r c)\<lparr>capBB := []\<rparr>"
proof (cases e)
  case None
  then show thesis using assms that loopEnd_None [of r] by blast
next
  case (Some x)
  then show thesis using assms that loopEnd_Some [of x r] by blast
qed

lemma openCBB_None:
  assumes "openCBB c a = Some None" "errorOpen c"
  shows "rc_e c = None \<and> endCap (rc_r c)"
proof -
  have "currentCapBB (rc_r c) = None" using assms(1) by (simp add: openCBB_def split: if_splits)
  moreover from this have "dropWhile (\<lambda>b. endType (capBB (rc_r c) ! b) \<noteq> IT_None) (capStack (rc_r c)) = []"
    using assms(1) by (simp add: openCBB_def Let_def bind_eq_Some_conv split: list.splits)
  ultimately show ?thesis using assms(2) by (simp add: endCap_def errorOpen_def dropWhile_eq_Nil_conv)
qed

lemma traceLoop:
  assumes tb: "initDecodeTables = Some (w_tables w)" and w: "vectorKeeps w"
    and run: "traceLoop w c a = Some x" and c: "P c" "errorOpen c"
  shows "loopEnd (fst x) (snd x)"
proof -
  have "w = w \<longrightarrow> P c \<longrightarrow> errorOpen c \<longrightarrow> loopEnd (fst x) (snd x)"
  proof (rule traceLoop.raw_induct [OF _ run, where P = "\<lambda>v c a x. v = w \<longrightarrow> P c \<longrightarrow> errorOpen c \<longrightarrow> loopEnd (fst x) (snd x)"],
      intro impI)
    fix loop v and c :: rctx and a x
    assume IH: "\<And>v c a x. loop v c a = Some x \<Longrightarrow> v = w \<longrightarrow> P c \<longrightarrow> errorOpen c \<longrightarrow> loopEnd (fst x) (snd x)"
      and v: "v = w" and p: "P c" "errorOpen c"
      and body: "do {
          op \<leftarrow> openCBB c a;
          (case op of
             None \<Rightarrow> Some (None, (rc_r c)\<lparr>capStack := []\<rparr>)
           | Some (c, bb_addr) \<Rightarrow> do {
               (b, _, r) \<leftarrow> dbrew_decode (w_tables v) (w_mmap v) (rc_r c) bb_addr;
               b \<leftarrow> b;
               let is = take (dbb_count (decBB r ! b)) (drop (dbb_instr (decBB r ! b)) (decInstr r));
               e \<leftarrow> runInstrs v is (with_r r c);
               (case e of
                  BBError e r \<Rightarrow> Some (Some e, r)
                | BBNext c next i \<Rightarrow> do {
                    (failed, c) \<leftarrow> closePath c i;
                    (if failed then Some (rc_e c, rc_r c) else loop v c next) }) }) } = Some x"
    show "loopEnd (fst x) (snd x)"
    proof (cases "openCBB c a")
      case None
      then show ?thesis using body by simp
    next
      case (Some op)
      show ?thesis
      proof (cases op)
        case None
        then have x: "x = (None, (rc_r c)\<lparr>capStack := []\<rparr>)" using body Some by simp
        then show ?thesis using openCBB_None [OF _ p(2)] Some None p(1) by (auto simp: loopEnd_def)
      next
        case op: (Some ca)
        obtain c1 a1 where ca: "ca = (c1, a1)" by (cases ca)
        have p1: "P c1 \<and> errorOpen c1" using openCBB [OF p] Some op ca by simp
        obtain b d r k e where dec: "dbrew_decode (w_tables w) (w_mmap w) (rc_r c1) a1 = Some (b, d, r)"
          and e: "runInstrs w (take (dbb_count (decBB r ! k)) (drop (dbb_instr (decBB r ! k)) (decInstr r))) (with_r r c1) = Some e"
          and x: "(case e of
                  BBError e r \<Rightarrow> Some (Some e, r)
                | BBNext c next i \<Rightarrow> do {
                    (failed, c) \<leftarrow> closePath c i;
                    (if failed then Some (rc_e c, rc_r c) else loop w c next) }) = Some x"
          using body unfolding Some op ca v by (auto simp: bind_eq_Some_conv [of "dbrew_decode _ _ _ _"] Let_def
              bind_eq_Some_conv [of "runInstrs _ _ _"] bind_eq_Some_conv [of "_ :: nat option"])
        have "sameCap (rc_r c1) r" by (rule sameCap_decode [OF tb _ dec]) (simp add: p1 decodes)
        then have p2: "P (with_r r c1)" using p1 by (auto elim!: frame simp: with_r_def)
        note q = runInstrs [OF w p2 e]
        show ?thesis
        proof (cases e)
          case (BBError e' r')
          then show ?thesis using x q by (auto simp: loopEnd_def)
        next
          case (BBNext c2 n i)
          obtain failed c3 where c3: "closePath c2 i = Some (failed, c3)"
            and y: "(if failed then Some (rc_e c3, rc_r c3) else loop w c3 n) = Some x"
            using x BBNext by (auto simp: bind_eq_Some_conv)
          have p3: "P c3 \<and> (if failed then rc_e c3 \<noteq> None else errorOpen c3)"
            by (rule closePath [OF _ _ c3]) (use q BBNext in simp_all)
          show ?thesis
          proof (cases failed)
            case True
            then have "x = (rc_e c3, rc_r c3)" using y by simp
            then show ?thesis using p3 True by (auto simp: loopEnd_def)
          next
            case False
            then show ?thesis using y IH [of w c3 n x] p3 by simp
          qed
        qed
      qed
    qed
  qed
  then show ?thesis using c by simp
qed

text \<open>The whole of \<open>emulateAndCapture\<close>: the tracing ends, or nothing was captured.\<close>

lemma emulateAndCapture:
  assumes tb: "initDecodeTables = Some (w_tables w)" and w: "vectorKeeps w" and d: "dec_alloc r0"
    and run: "emulateAndCapture w r0 par = Some (e, r')"
  shows "loopEnd e r' \<or> e \<noteq> None \<and> emptyCap r' \<and> outside r0 r'"
proof -
  obtain r1 r2 es k c1 where reset: "resetCapturing (r0\<lparr>r_es := Some (resetEmuState (w_stack w) (case r_es r0 of Some es \<Rightarrow> es | None \<Rightarrow> allocEmuState 1024))\<rparr>) = Some r1"
    and pars: "setPars 0 par (r1\<lparr>r_cs := map_option (cs_used_update (\<lambda>_. 0)) (r_cs r1)\<rparr>) = Some r2"
    and sv: "saveEmuState \<lparr>rc_r = r2\<lparr>r_es := Some es\<rparr>, rc_exit = 0, rc_e = None\<rparr> = Some (k, c1)"
    and k2: "do {
     (b, c) \<leftarrow> (if k \<ge> 0 then getCaptureBB c1 (r_func (rc_r c1)) k else Some (None, c1));
     (if rc_e c \<noteq> None then Some (rc_e c, rc_r c)
      else do {
        c_assert (b = Some 0);
        let c = pushCaptureBB c 0;
        (if rc_e c \<noteq> None then Some (rc_e c, rc_r c)
         else do {
           c_assert (length (capStack (rc_r c)) = 1);
           let c = with_r ((rc_r c)\<lparr>currentCapBB := Some 0\<rparr>) c;
           c \<leftarrow> (if addInliningHints (rc_r c) then capture c (initSimpleInstr instr0 IT_HINT_CALL)
                 else Some c);
           (if rc_e c \<noteq> None then Some (rc_e c, rc_r c)
            else traceLoop w c (dec_addr (capBB (rc_r c) ! 0))) }) }) } = Some (e, r')"
    using run unfolding emulateAndCapture_def Let_def bind_eq_Some_conv [of "resetCapturing _"] bind_eq_Some_conv [of "setPars _ _ _"]
      bind_eq_Some_conv [of "r_es _"] bind_eq_Some_conv [of "saveEmuState _"] split_paired_Ex split_conv
    by (elim exE conjE) (rule that, assumption+, simp only: Let_def)
  have r1: "emptyCap r1" "savedState r1 = []" "currentCapBB r1 = None" "dec_alloc r1"
      "outside r0 (r1\<lparr>r_cs := map_option (cs_used_update (\<lambda>_. 0)) (r_cs r1)\<rparr>)"
    using reset d by (auto simp: resetCapturing_def emptyCap_def outside_def bind_eq_Some_conv)
  have r2: "emptyCap r2" "savedState r2 = []" "currentCapBB r2 = None" "dec_alloc r2" "outside r0 r2"
    using setPars_sameCap [OF pars] r1 by (simp_all add: sameCap_def emptyCap_def outside_def)
  have "\<exists>s. k = 0 \<and> rc_r c1 = r2\<lparr>r_es := Some es, savedState := [s]\<rparr> \<and> rc_e c1 = None"
    using sv
  proof (cases rule: saveEmuState_cases)
    case full
    then show ?thesis using sv r2(2) by (auto simp: saveEmuState_def bind_eq_Some_conv Let_def)
  next
    case found
    then have False by (simp add: r2(2))
    then show ?thesis ..
  next
    case (new s)
    then show ?thesis by (intro exI [of _ s]) (simp add: r2(2) with_r_def)
  qed
  then obtain s where k: "k = 0" and c1: "rc_r c1 = r2\<lparr>r_es := Some es, savedState := [s]\<rparr>" "rc_e c1 = None"
    by blast
  obtain b c2 where bb: "getCaptureBB c1 (r_func (rc_r c1)) 0 = Some (b, c2)"
    and k3: "(if rc_e c2 \<noteq> None then Some (rc_e c2, rc_r c2)
      else do {
        c_assert (b = Some 0);
        let c = pushCaptureBB c2 0;
        (if rc_e c \<noteq> None then Some (rc_e c, rc_r c)
         else do {
           c_assert (length (capStack (rc_r c)) = 1);
           let c = with_r ((rc_r c)\<lparr>currentCapBB := Some 0\<rparr>) c;
           c \<leftarrow> (if addInliningHints (rc_r c) then capture c (initSimpleInstr instr0 IT_HINT_CALL)
                 else Some c);
           (if rc_e c \<noteq> None then Some (rc_e c, rc_r c)
            else traceLoop w c (dec_addr (capBB (rc_r c) ! 0))) }) }) = Some (e, r')"
    using k2 unfolding k by (auto simp: bind_eq_Some_conv [of "getCaptureBB _ _ _"])
  show ?thesis
    using bb
  proof (cases rule: getCaptureBB_cases)
    case (found j)
    then show ?thesis using r2 c1 by (simp add: emptyCap_def)
  next
    case full
    then have "e = rc_e c2" "r' = rc_r c1" using k3 by simp_all
    then show ?thesis using full(3) r2(1,5) c1(1) by (simp add: emptyCap_def outside_def)
  next
    case (new fc)
    define c3 where "c3 = with_r ((rc_r (pushCaptureBB c2 0))\<lparr>currentCapBB := Some 0\<rparr>) (pushCaptureBB c2 0)"
    have st: "startCap (rc_r c3)" and out: "outside r0 (rc_r c3)" and e3: "rc_e c3 = None" and e2: "rc_e (pushCaptureBB c2 0) = None"
      using new r2 c1 by (auto simp: c3_def startCap_def outside_def emptyCap_def pushCaptureBB_def with_r_def)
    obtain c4 where c4: "(if addInliningHints (rc_r c3) then capture c3 (initSimpleInstr instr0 IT_HINT_CALL)
                 else Some c3) = Some c4"
      and k4: "(if rc_e c4 \<noteq> None then Some (rc_e c4, rc_r c4)
            else traceLoop w c4 (dec_addr (capBB (rc_r c4) ! 0))) = Some (e, r')"
      using k3 new(4) c1(2) e2 unfolding Let_def c3_def [symmetric]
      by (simp only: not_None_eq simp_thms if_False bind_eq_Some_conv [of "if _ then _ else _"]
        bind_eq_Some_conv [of "c_assert _"] option.distinct) blast
    have p: "P c4" by (rule hint [OF start [OF st out e3] c4])
    show ?thesis
    proof (cases "rc_e c4 = None")
      case True
      have "traceLoop w c4 (dec_addr (capBB (rc_r c4) ! 0)) = Some (e, r')" using k4 True by simp
      from traceLoop [OF tb w this p] show ?thesis by (simp add: errorOpen_def True)
    next
      case False
      then show ?thesis using k4 p by (auto simp: loopEnd_def)
    qed
  qed
qed

end

end
