(* ===== verification/TraceExample.thy ===== *)
theory TraceExample
  imports EngineProtocol
begin

text \<open>
  A complete run of the tracing: the function consists of a return. It is the input of the
  witnesses of the properties of traced functions.
\<close>

section \<open>The rewriter\<close>

definition traceWorld :: "dechandler opctables \<Rightarrow> world" where
  "traceWorld tb = \<lparr>w_tables = tb, w_mmap = Some 0x100000, w_stack = 0x200000,
     w_known = \<lparr>kf_makeDynamic = 1, kf_makeStatic = 2, kf_apply4_R8V8 = 3, kf_apply4_R8V8V8 = 4, kf_apply4_R8P8 = 5\<rparr>,
     w_vector = \<lambda>_ _. None\<rparr>"

definition traceEnv :: vectorenv where
  "traceEnv = \<lparr>ve_snippets = \<lparr>sn_R8V8 = 3, sn_R8V8V8 = 4, sn_R8P8 = 5, sn_R8V8_X2 = 6, sn_R8V8V8_X2 = 7, sn_R8P8_X2 = 8,
       sn_R8V8_X4 = 9, sn_R8V8V8_X4 = 10, sn_R8P8_X4 = 11, sn_avx = True\<rparr>,
     ve_mmap = \<lambda>_ _. None, ve_stack = \<lambda>_ _. 0, ve_args = \<lambda>_ _. []\<rparr>"

definition traceRewriter :: rewriter where
  "traceRewriter = retRewriter\<lparr>cap_alloc := True, capInstrCapacity := 4, capBBCapacity := 2, r_func := 16,
     r_cc := Some (cc_init\<lparr>parCount := 0\<rparr>), r_es := Some (allocEmuState 8), addInliningHints := False,
     r_cs := Some \<lparr>cs_size = 3000, cs_fullsize = 4096, cs_used = 0, cs_buf = 0x100000\<rparr>\<rparr>"

definition traceState :: emustate where
  "traceState = (let es = resetEmuState 0x200000 (allocEmuState 8) in
     es\<lparr>es_reg := (es_reg es)(RI_SP := stackStart es + of_nat (stackSize es)),
       reg_state := (reg_state es)(RI_SP := initMetaState CS_STACKRELATIVE)\<rparr>)"

lemma traceState_stack: "stackSize traceState = 8" "stackState traceState = replicate 8 (initMetaState CS_DEAD)"
    "stackStart traceState = 0x200000" "stackTop traceState = 0x200008" "stackAccessed traceState = 0x200008"
    "depth traceState = 0"
  by (simp_all add: traceState_def resetEmuState_def allocEmuState_def Let_def)

lemma traceState_clones: "\<exists>s. cloneEmuState traceState = Some s"
  by (simp add: cloneEmuState_def copyEmuState_def copyStack_def traceState_stack allocEmuState_def Let_def)

definition traceStart :: "emustate \<Rightarrow> rctx" where
  "traceStart s = \<lparr>rc_r = traceRewriter\<lparr>r_es := Some traceState, savedState := [s],
     capBB := [newCBB 16 0 None], capStack := [0], currentCapBB := Some 0\<rparr>, rc_exit = 0, rc_e = None\<rparr>"

lemma traceRewriter_sel: "cap_alloc traceRewriter" "dec_alloc traceRewriter" "capInstr traceRewriter = []"
    "capBB traceRewriter = []" "currentCapBB traceRewriter = None" "capStack traceRewriter = []"
    "savedState traceRewriter = []" "capBBCapacity traceRewriter = 2" "capInstrCapacity traceRewriter = 4"
    "r_func traceRewriter = 16" "r_es traceRewriter = Some (allocEmuState 8)" "\<not> addInliningHints traceRewriter"
    "r_cc traceRewriter = Some (cc_init\<lparr>parCount := 0\<rparr>)" "decBB traceRewriter = []" "decInstr traceRewriter = []"
    "decBBCapacity traceRewriter = 2" "decInstrCapacity traceRewriter = 10" "r_mem traceRewriter = (\<lambda>_. 0xC3)"
  by (simp_all add: traceRewriter_def retRewriter_def allocRewriter_def)

lemma traceRewriter_reset:
  "resetCapturing (traceRewriter\<lparr>r_es := e\<rparr>) = Some (traceRewriter\<lparr>r_es := e\<rparr>)"
  "traceRewriter\<lparr>r_es := e, r_cs := map_option (cs_used_update (\<lambda>_. 0)) (r_cs traceRewriter)\<rparr> = traceRewriter\<lparr>r_es := e\<rparr>"
  by (simp_all add: resetCapturing_def traceRewriter_def retRewriter_def allocRewriter_def)

lemma trace_starts:
  assumes "cloneEmuState traceState = Some s"
  shows "emulateAndCapture (vectorWorld ve n (traceWorld tb)) traceRewriter []
    = traceLoop (vectorWorld ve n (traceWorld tb)) (traceStart s) 16"
proof -
  have f: "config_find_function (traceRewriter\<lparr>r_es := Some traceState, savedState := [s]\<rparr>) 16
     = Some (None, traceRewriter\<lparr>r_es := Some traceState, savedState := [s]\<rparr>)"
    by (simp add: config_find_function_def traceRewriter_def retRewriter_def allocRewriter_def cc_get_def cc_init_def mrc_find_def Let_def)
  have e: "(let es = resetEmuState 0x200000 (allocEmuState 8) in
     es\<lparr>es_reg := (es_reg es)(RI_SP := stackStart es + of_nat (stackSize es)),
       reg_state := (reg_state es)(RI_SP := initMetaState CS_STACKRELATIVE)\<rparr>) = traceState"
    by (simp add: traceState_def)
  have sv: "saveEmuState \<lparr>rc_r = traceRewriter\<lparr>r_es := Some traceState\<rparr>, rc_exit = 0, rc_e = None\<rparr>
    = Some (0, \<lparr>rc_r = traceRewriter\<lparr>r_es := Some traceState, savedState := [s]\<rparr>, rc_exit = 0, rc_e = None\<rparr>)"
    using assms by (simp add: saveEmuState_def traceRewriter_sel with_r_def)
  show ?thesis unfolding emulateAndCapture_def
    by (simp add: traceRewriter_sel traceRewriter_reset traceWorld_def e [unfolded Let_def] sv getCaptureBB_def findCaptureBB_def
        f with_r_def pushCaptureBB_def traceStart_def newCBB_def Let_def)
qed

text \<open>The state after the return.\<close>

definition returnedState :: emustate where
  "returnedState = traceState\<lparr>regIP := 17,
     reg_state := (\<lambda>k. if k \<in> set callerSave then initMetaState CS_DEAD else reg_state traceState k), depth := -1\<rparr>"

definition traceDecoded :: "emustate \<Rightarrow> dbb \<Rightarrow> emustate \<Rightarrow> rctx" where
  "traceDecoded s x es = \<lparr>rc_r = (rc_r (traceStart s))\<lparr>decInstr := [retInstr 16], decBB := [x], r_es := Some es\<rparr>,
     rc_exit = 0, rc_e = None\<rparr>"

lemma ret_emulates:
  "processInstr (traceDecoded s x (traceState\<lparr>regIP := 17\<rparr>)) (retInstr 16) = Some (traceDecoded s x returnedState)"
  by (simp add: processInstr_def retInstr_def instr0_def emulateRet_def traceDecoded_def traceStart_def traceRewriter_sel
      put_es_def with_r_def traceState_stack returnedState_def Let_def cong: if_cong)

lemma ret_runs:
  "runInstrs (vectorWorld ve n (traceWorld tb)) [retInstr 16] (traceDecoded s x traceState)
    = Some (BBNext (traceDecoded s x returnedState) 17 (retInstr 16))"
proof -
  have "put_es (traceState\<lparr>regIP := nextAddr (retInstr 16)\<rparr>) (traceDecoded s x traceState)\<lparr>rc_exit := 0\<rparr>
      = traceDecoded s x (traceState\<lparr>regIP := 17\<rparr>)"
    by (simp add: traceDecoded_def put_es_def with_r_def nextAddr_def retInstr_def instr0_def)
  moreover have "nextAddr (retInstr 16) = 17" by (simp add: nextAddr_def retInstr_def instr0_def)
  moreover have "r_es (rc_r (traceDecoded s x es)) = Some es" "rc_e (traceDecoded s x es) = None"
      "rc_exit (traceDecoded s x es) = 0" "put_es es (traceDecoded s x es) = traceDecoded s x es" for es
    by (simp_all add: traceDecoded_def put_es_def with_r_def)
  ultimately show ?thesis
    by (simp add: ret_emulates processKnownTargets_def traceWorld_def Let_def)
qed

lemma ret_captures:
  "captureRet (traceDecoded s x returnedState) (retInstr 16) returnedState = Some
     \<lparr>rc_r = (rc_r (traceDecoded s x returnedState))\<lparr>capInstr := [retInstr 16],
        capBB := [(newCBB 16 0 None)\<lparr>cbb_instr := Some 0, cbb_count := 1\<rparr>]\<rparr>, rc_exit = 0, rc_e = None\<rparr>"
proof -
  have j: "copyInstr instr0 (retInstr 16) = Some (retInstr 16)"
    by (simp add: copyInstr_def retInstr_def instr0_def op0_def)
  have "reg_state returnedState RI_A = initMetaState CS_DEAD"
    by (simp add: returnedState_def traceState_def resetEmuState_def calleeSave_def callerSave_def Let_def)
  moreover have "getReg (getGPRegType VT_64) RI_A = Some \<lparr>rt = RT_GP64, ri = RI_A\<rparr>" by code_simp
  moreover have "regIsGP \<lparr>rt = RT_GP64, ri = RI_A\<rparr> = Some True" "regValType \<lparr>rt = RT_GP64, ri = RI_A\<rparr> = VT_64"
    by code_simp+
  ultimately have v: "\<exists>v. getRegValue returnedState \<lparr>rt = RT_GP64, ri = RI_A\<rparr> VT_64 = Some v \<and> \<not> msIsStatic (ev_state v)"
    and g: "getReg (getGPRegType VT_64) RI_A = Some \<lparr>rt = RT_GP64, ri = RI_A\<rparr>"
    by (simp_all add: getRegValue_def emu_defs)
  then show ?thesis
    by (auto simp add: captureRet_def traceDecoded_def traceStart_def traceRewriter_sel cc_init_def capture_def
       newCapInstr_def with_r_def j putCapInstr_def updCBB_def newCBB_def)
qed

definition traceEnd :: "emustate \<Rightarrow> dbb \<Rightarrow> rctx" where
  "traceEnd s x = \<lparr>rc_r = (rc_r (traceDecoded s x returnedState))\<lparr>capInstr := [retInstr 16], capBB := [(newCBB 16 0 None)
        \<lparr>cbb_instr := Some 0, cbb_count := 1, endType := IT_RET\<rparr>], capStack := [], currentCapBB := None\<rparr>,
     rc_exit = 0, rc_e = None\<rparr>"

lemma ret_closes: "closePath (traceDecoded s x returnedState) (retInstr 16) = Some (False, traceEnd s x)"
proof -
  have "r_es (rc_r (traceDecoded s x returnedState)) = Some returnedState" "depth returnedState = -1"
      "itype (retInstr 16) = IT_RET" "capStack (rc_r (traceDecoded s x returnedState)) = [0]"
      "currentCapBB (rc_r (traceDecoded s x returnedState)) = Some 0"
    by (simp_all add: traceDecoded_def traceStart_def returnedState_def retInstr_def)
  then show ?thesis
    by (simp add: closePath_def ret_captures popCaptureBB_def updCBB_def with_r_def traceEnd_def)
qed

text \<open>The whole run.\<close>

lemma trace_runs:
  assumes tb: "initDecodeTables = Some tb"
  shows "\<exists>r' s x. emulateAndCapture (vectorWorld ve n (traceWorld tb)) traceRewriter [] = Some (None, r')
    \<and> r' = rc_r (traceEnd s x)"
proof -
  let ?w = "vectorWorld ve n (traceWorld tb)"
  obtain s where s: "cloneEmuState traceState = Some s" using traceState_clones by blast
  let ?r = "rc_r (traceStart s)"
  obtain x where x: "dbrew_decode tb (w_mmap ?w) ?r 16 = Some (Some 0, None, ?r\<lparr>r_cc := Some (fst (cc_get ?r)),
      decInstr := [retInstr 16], decBB := [x]\<rparr>)" "dbb_instr x = 0" "dbb_count x = 1"
    using ret_decodes_at [OF tb, of ?r 16] by (auto simp: traceStart_def traceRewriter_sel)
  have "?r\<lparr>r_cc := Some (fst (cc_get ?r)), decInstr := [retInstr 16], decBB := [x]\<rparr>
      = ?r\<lparr>decInstr := [retInstr 16], decBB := [x]\<rparr>"
    by (simp add: traceStart_def cc_get_def traceRewriter_def)
  then have d: "dbrew_decode (w_tables ?w) (w_mmap ?w) ?r 16 = Some (Some 0, None, ?r\<lparr>decInstr := [retInstr 16], decBB := [x]\<rparr>)"
    using x(1) by (simp add: traceWorld_def)
  have "with_r (?r\<lparr>decInstr := [retInstr 16], decBB := [x]\<rparr>) (traceStart s) = traceDecoded s x traceState"
    by (simp add: traceDecoded_def traceStart_def with_r_def)
  moreover have o: "openCBB (traceStart s) 16 = Some (Some (traceStart s, 16))"
    by (simp add: openCBB_def traceStart_def)
  ultimately have "traceLoop ?w (traceStart s) 16 = traceLoop ?w (traceEnd s x) 17"
    using d x(2,3) ret_runs [of ve n tb s x] ret_closes [of s x] o
    by (simp add: traceLoop.simps [of _ "traceStart s"] Let_def del: runInstrs.simps vectorWorld_simps)
  also have "\<dots> = Some (None, rc_r (traceEnd s x))"
    by (simp add: traceLoop.simps [of _ "traceEnd s x"] openCBB_def)
      (simp add: traceEnd_def)
  finally have "emulateAndCapture ?w traceRewriter [] = Some (None, rc_r (traceEnd s x))"
    using trace_starts [OF s] by simp
  then show ?thesis by blast
qed

lemma traceEnd_sel: "capBB (rc_r (traceEnd s x)) = [(newCBB 16 0 None)\<lparr>cbb_instr := Some 0, cbb_count := 1, endType := IT_RET\<rparr>]"
    "capInstr (rc_r (traceEnd s x)) = [retInstr 16]"
  by (simp_all add: traceEnd_def)

end
