(* ===== verification/CaptureInvariant.thy ===== *)
theory CaptureInvariant
  imports TraceExample
begin

text \<open>
  The invariants of the captured blocks: the bounds of the arrays, and the shape of the graph of
  blocks. Both are instances of the protocol of the tracing.
\<close>

section \<open>Bounds\<close>

definition capBounds :: "rewriter \<Rightarrow> bool" where
  "capBounds r \<longleftrightarrow> dec_alloc r \<and> length (capInstr r) \<le> capInstrCapacity r \<and> length (capBB r) \<le> capBBCapacity r
     \<and> length (capStack r) \<le> CAPTURESTACK_LEN \<and> length (savedState r) \<le> SAVEDSTATE_MAX"

lemma bounds_save:
  assumes "saveEmuState c = Some (k, c')" "capBounds (rc_r c)" shows "capBounds (rc_r c')"
  using assms(1) by (cases rule: saveEmuState_cases) (use assms(2) in \<open>auto simp: capBounds_def with_r_def\<close>)

lemma bounds_get:
  assumes "getCaptureBB c f k = Some (b, c')" "capBounds (rc_r c)" shows "capBounds (rc_r c')"
  using assms(1) by (cases rule: getCaptureBB_cases) (use assms(2) in \<open>auto simp: capBounds_def\<close>)

lemma bounds_push: "capBounds (rc_r c) \<Longrightarrow> capBounds (rc_r (pushCaptureBB c b))"
  by (rule pushCaptureBB_cases [of c b]) (auto simp: capBounds_def)

lemma bounds_with_r [simp]: "capBounds (rc_r (with_r r c)) = capBounds r"
  by (simp add: with_r_def)

lemma bounds_upd [simp]: "capBounds (rc_r (updCBB b g c)) = capBounds (rc_r c)"
  by (simp add: capBounds_def updCBB_def with_r_def)

lemma bounds_pop: "popCaptureBB r = Some (b, r') \<Longrightarrow> capBounds r \<Longrightarrow> capBounds r'"
  by (drule popCaptureBB_eq) (auto simp: capBounds_def)

interpretation bounds: engine_protocol "\<lambda>c. capBounds (rc_r c)" r0 for r0
proof unfold_locales
  fix c i c'
  assume p: "capBounds (rc_r c)" and "capture c i = Some c'"
  from this(2) show "capBounds (rc_r c')"
    by (cases rule: capture_cases) (use p in \<open>auto simp: capBounds_def\<close>)
next
  fix c it t f c'
  assume p: "capBounds (rc_r c)" and "captureJcc c it t f = Some c'"
  note step = bounds_get bounds_save bounds_push
  have popped: "capBounds (rc_r (updCBB b g (with_r r c)))" if "popCaptureBB (rc_r c) = Some (b, r)" for b r g
    using bounds_pop [OF that p] by simp
  from \<open>captureJcc c it t f = Some c'\<close> show "capBounds (rc_r c')"
  proof (cases rule: captureJcc_cases)
    case (fail b r k c1 ft c2 br)
    then show ?thesis by (blast intro: bounds_get bounds_save popped)
  next
    case (split b r k c1 ft c2 br c3 c4)
    have "capBounds (rc_r c3)"
      by (rule bounds_get [OF split(4) bounds_get [OF split(3) bounds_save [OF split(2) popped [OF split(1)]]]])
    then show ?thesis unfolding split(6,7) by (auto intro!: bounds_push)
  qed (use p in simp)
next
  fix c c' :: rctx and a a'
  assume p: "capBounds (rc_r c)" and n: "currentCapBB (rc_r c) = None" and "openCBB c a = Some (Some (c', a'))"
  from openCBB_new [OF this(3,2)] obtain pre b st es where "capStack (rc_r c) = pre @ b # st"
    "rc_r c' = (rc_r c)\<lparr>capStack := b # st, currentCapBB := Some b, r_es := es\<rparr>" by metis
  then show "capBounds (rc_r c')" using p by (simp add: capBounds_def)
next
  fix c :: rctx and b r
  assume "capBounds (rc_r c)" and "popCaptureBB (rc_r c) = Some (b, r)"
  then show "capBounds (rc_r (updCBB b (\<lambda>x. x\<lparr>endType := IT_RET\<rparr>) (with_r r c)))"
    using bounds_pop by simp
qed (auto simp: capBounds_def sameCap_def startCap_def)

section \<open>The graph of blocks\<close>

text \<open>A finished block ends with a return, or with a conditional jump to two captured blocks that
  continue with the same state.\<close>

definition finishedBlock :: "rewriter \<Rightarrow> cbb \<Rightarrow> bool" where
  "finishedBlock r x \<longleftrightarrow> endType x = IT_RET \<or>
     instrIsJcc (endType x) \<and> (\<exists>t f. nextBranch x = Some t \<and> nextFallThrough x = Some f
       \<and> t < length (capBB r) \<and> f < length (capBB r) \<and> esID (capBB r ! t) = esID (capBB r ! f))"

text \<open>The instructions of a block are a part of the buffer, and its state is saved.\<close>

definition blockOk :: "rewriter \<Rightarrow> cbb \<Rightarrow> bool" where
  "blockOk r x \<longleftrightarrow> (cbb_instr x = None \<longrightarrow> cbb_count x = 0)
     \<and> (\<forall>k. cbb_instr x = Some k \<longrightarrow> 0 < cbb_count x \<and> k + cbb_count x \<le> length (capInstr r))
     \<and> 0 \<le> esID x \<and> esID x < int (length (savedState r))"

definition blockKey :: "cbb \<Rightarrow> u64 \<times> int" where
  "blockKey x = (dec_addr x, esID x)"

text \<open>The slots of the instruction buffer that belong to a block.\<close>

definition blockSlots :: "cbb \<Rightarrow> nat set" where
  "blockSlots x = (case cbb_instr x of None \<Rightarrow> {} | Some k \<Rightarrow> {k..<k + cbb_count x})"

definition separateBlocks :: "cbb list \<Rightarrow> bool" where
  "separateBlocks bs \<longleftrightarrow> (\<forall>a < length bs. \<forall>b < length bs. a \<noteq> b \<longrightarrow> blockSlots (bs ! a) \<inter> blockSlots (bs ! b) = {})"

text \<open>The open block is the top of the stack, and its instructions are the last ones.\<close>

definition openOk :: "rewriter \<Rightarrow> nat \<Rightarrow> bool" where
  "openOk r b \<longleftrightarrow> b < length (capBB r) \<and> endType (capBB r ! b) = IT_None \<and> (\<exists>st. capStack r = b # st)
     \<and> (\<forall>k. cbb_instr (capBB r ! b) = Some k \<longrightarrow> k + cbb_count (capBB r ! b) = length (capInstr r))"

text \<open>The invariant; while a block is split, the blocks in \<open>A\<close> need not be finished yet, and those
  in \<open>B\<close> are not on the stack yet.\<close>

definition capShape :: "nat set \<Rightarrow> nat set \<Rightarrow> rewriter \<Rightarrow> bool" where
  "capShape A B r \<longleftrightarrow> dec_alloc r \<and> capBB r \<noteq> [] \<and> distinct (map blockKey (capBB r)) \<and> (\<forall>x \<in> set (capBB r). blockOk r x)
     \<and> separateBlocks (capBB r)
     \<and> (\<forall>b < length (capBB r). b \<notin> A \<longrightarrow> endType (capBB r ! b) \<noteq> IT_None \<longrightarrow> finishedBlock r (capBB r ! b))
     \<and> (\<forall>b < length (capBB r). b \<notin> B \<longrightarrow> endType (capBB r ! b) = IT_None \<longrightarrow> b \<in> set (capStack r))
     \<and> (\<forall>b < length (capBB r). endType (capBB r ! b) = IT_None \<longrightarrow> currentCapBB r \<noteq> Some b
          \<longrightarrow> cbb_instr (capBB r ! b) = None)
     \<and> set (capStack r) \<subseteq> {..<length (capBB r)}
     \<and> (\<forall>b. currentCapBB r = Some b \<longrightarrow> openOk r b)"

lemma blockSlots_le: "blockOk r x \<Longrightarrow> blockSlots x \<subseteq> {..<length (capInstr r)}"
  by (auto simp: blockOk_def blockSlots_def split: option.splits)

lemma shape_frame:
  assumes "sameCap r r'" "capShape A B r"
  shows "capShape A B r'"
proof -
  have "finishedBlock r' = finishedBlock r" "blockOk r' = blockOk r" "openOk r' = openOk r"
    using assms(1) by (simp_all add: sameCap_def fun_eq_iff finishedBlock_def blockOk_def openOk_def)
  then show ?thesis using assms by (simp add: capShape_def sameCap_def)
qed

lemma shape_capture:
  assumes p: "rc_e c = None \<longrightarrow> capShape {} {} (rc_r c)" and "capture c i = Some c'"
  shows "rc_e c' = None \<longrightarrow> capShape {} {} (rc_r c')"
  using assms(2)
proof (cases rule: capture_cases)
  case (stored b j)
  let ?r = "rc_r c" and ?n = "length (capInstr (rc_r c))"
  define x where "x = capBB ?r ! b"
  define y where "y = x\<lparr>cbb_instr := (if cbb_instr x = None then Some ?n else cbb_instr x), cbb_count := cbb_count x + 1\<rparr>"
  note sh = p [rule_format, OF stored(3), unfolded capShape_def]
  have b: "openOk ?r b" "b < length (capBB ?r)" "x \<in> set (capBB ?r)" "blockOk ?r x"
    using sh stored(1) by (auto simp: openOk_def x_def)
  have y: "blockKey y = blockKey x" "endType y = endType x" "nextBranch y = nextBranch x"
    "nextFallThrough y = nextFallThrough x" "esID y = esID x"
    by (simp_all add: y_def blockKey_def)
  have last: "\<forall>k. cbb_instr y = Some k \<longrightarrow> k + cbb_count y = Suc ?n" "cbb_instr y \<noteq> None"
    using b(1,4) stored(5) by (auto simp: y_def openOk_def blockOk_def x_def)
  have slots: "blockSlots y = insert ?n (blockSlots x)"
    using b(1,4) by (auto simp: blockSlots_def openOk_def blockOk_def y_def x_def split: option.splits)
  have r': "capBB (rc_r c') = (capBB ?r)[b := y]" "capInstr (rc_r c') = capInstr ?r @ [j]"
    "capStack (rc_r c') = capStack ?r" "savedState (rc_r c') = savedState ?r" "dec_alloc (rc_r c') = dec_alloc ?r"
    "currentCapBB (rc_r c') = currentCapBB ?r"
    by (simp_all add: stored(6) y_def x_def)
  have old: "blockOk ?r z \<Longrightarrow> blockOk (rc_r c') z" for z by (auto simp: blockOk_def r')
  have "blockOk (rc_r c') y" using b(4) last by (auto simp: blockOk_def r' y_def)
  then have "\<forall>z \<in> set (capBB (rc_r c')). blockOk (rc_r c') z"
    using sh old set_update_subset_insert [of "capBB ?r" b y] unfolding r'(1) by blast
  moreover have "separateBlocks (capBB (rc_r c'))"
  proof -
    have "?n \<notin> blockSlots (capBB ?r ! a)" if "a < length (capBB ?r)" for a
      using sh blockSlots_le [of ?r "capBB ?r ! a"] that by auto
    moreover have "blockSlots (capBB ?r ! a) \<inter> blockSlots (capBB ?r ! d) = {}"
      if "a < length (capBB ?r)" "d < length (capBB ?r)" "a \<noteq> d" for a d
      using sh that unfolding separateBlocks_def by blast
    ultimately show ?thesis using b(2) unfolding r' separateBlocks_def
      by (simp add: nth_list_update slots x_def)
  qed
  moreover have "map blockKey (capBB (rc_r c')) = map blockKey (capBB ?r)"
    by (simp add: r' map_update y list_update_same_conv b(2) x_def)
  moreover have "finishedBlock ?r z \<Longrightarrow> finishedBlock (rc_r c') z" for z
    using b(2) y by (auto simp: finishedBlock_def r' nth_list_update x_def)
  moreover have "finishedBlock (rc_r c') y = finishedBlock (rc_r c') x" by (simp add: finishedBlock_def y)
  moreover have "openOk (rc_r c') b" using b(1,2) last y by (auto simp: openOk_def r' x_def)
  ultimately show ?thesis using sh b(2) stored(1) y
    by (auto simp: capShape_def r' nth_list_update x_def [symmetric] split: if_splits)
qed (use p in auto)

text \<open>The steps in which a block is split or finished.\<close>

lemma shape_pop:
  assumes pop: "popCaptureBB (rc_r c) = Some (b, r)" and sh: "capShape {} {} (rc_r c)"
    and g: "\<And>x. blockKey (g x) = blockKey x" "\<And>x. cbb_instr (g x) = cbb_instr x" "\<And>x. cbb_count (g x) = cbb_count x"
      "\<And>x. endType (g x) \<noteq> IT_None"
  defines "r' \<equiv> rc_r (updCBB b g (with_r r c))"
  shows "capShape {b} {} r'" "b < length (capBB r')" "currentCapBB r' = None" "capBB r' ! b = g (capBB (rc_r c) ! b)"
proof -
  let ?r = "rc_r c"
  have o: "openOk ?r b" "b < length (capBB ?r)" and st: "capStack ?r = b # tl (capStack ?r)"
    using popCaptureBB_eq [OF pop] sh by (auto simp: capShape_def openOk_def)
  have r': "capBB r' = (capBB ?r)[b := g (capBB ?r ! b)]" "capInstr r' = capInstr ?r"
    "capStack r' = tl (capStack ?r)" "savedState r' = savedState ?r" "dec_alloc r' = dec_alloc ?r"
    "currentCapBB r' = None"
    using popCaptureBB_eq [OF pop] by (simp_all add: r'_def updCBB_def with_r_def)
  have "\<And>x. esID (g x) = esID x" using g(1) by (simp add: blockKey_def)
  note g = g this
  have "blockOk r' = blockOk ?r" by (simp add: blockOk_def r' fun_eq_iff)
  moreover have "blockOk ?r (g x) = blockOk ?r x" for x by (simp add: blockOk_def g)
  moreover have "blockSlots (g x) = blockSlots x" for x by (simp add: blockSlots_def g split: option.split)
  moreover have "finishedBlock ?r x \<Longrightarrow> finishedBlock r' x" for x
    using o(2) by (auto simp: finishedBlock_def r' nth_list_update g)
  ultimately have "(\<forall>x \<in> set (capBB r'). blockOk r' x)" "separateBlocks (capBB r')"
    "\<forall>a < length (capBB r'). a \<notin> {b} \<longrightarrow> endType (capBB r' ! a) \<noteq> IT_None \<longrightarrow> finishedBlock r' (capBB r' ! a)"
    using sh o(2) set_update_subset_insert [of "capBB ?r" b "g (capBB ?r ! b)"]
    by (auto simp: capShape_def separateBlocks_def r' nth_list_update)
  moreover have "map blockKey (capBB r') = map blockKey (capBB ?r)"
    by (simp add: r' map_update g list_update_same_conv o(2))
  moreover have "a \<in> set (tl (capStack ?r))" if "a \<in> set (capStack ?r)" "a \<noteq> b" for a
    using that st by (cases "capStack ?r") auto
  moreover have "set (tl (capStack ?r)) \<subseteq> set (capStack ?r)" by (cases "capStack ?r") auto
  moreover have "currentCapBB ?r = Some b" using popCaptureBB_eq [OF pop] by simp
  ultimately show "capShape {b} {} r'" using sh o(2) g(4)
    by (auto simp: capShape_def r' nth_list_update)
qed (use popCaptureBB_eq [OF pop] sh in \<open>auto simp: r'_def updCBB_def with_r_def capShape_def openOk_def\<close>)

lemma shape_finish:
  "capShape {b} B r \<Longrightarrow> finishedBlock r (capBB r ! b) \<Longrightarrow> capShape {} B r"
  by (auto simp: capShape_def)

lemma shape_save:
  assumes "saveEmuState c = Some (k, c')" "capShape A B (rc_r c)"
  shows "capShape A B (rc_r c') \<and> capBB (rc_r c') = capBB (rc_r c) \<and> currentCapBB (rc_r c') = currentCapBB (rc_r c)
    \<and> (rc_e c' = None \<longrightarrow> 0 \<le> k \<and> k < int (length (savedState (rc_r c'))))"
  using assms(1)
proof (cases rule: saveEmuState_cases)
  case (new s)
  let ?r = "(rc_r c)\<lparr>savedState := savedState (rc_r c) @ [s]\<rparr>"
  have "finishedBlock ?r = finishedBlock (rc_r c)" "openOk ?r = openOk (rc_r c)"
    by (simp_all add: fun_eq_iff finishedBlock_def openOk_def)
  moreover have "blockOk (rc_r c) x \<Longrightarrow> blockOk ?r x" for x by (auto simp: blockOk_def)
  ultimately have "capShape A B ?r" using assms(2) by (simp add: capShape_def)
  then show ?thesis using new by (simp add: with_r_def)
qed (use assms(2) in auto)

lemma findCBB_SomeD: "findCBB f k bs = Some j \<Longrightarrow> j < length bs \<and> blockKey (bs ! j) = (f, k)"
  by (induction bs arbitrary: j) (auto simp: blockKey_def split: if_splits)

lemma findCBB_NoneD: "findCBB f k bs = None \<Longrightarrow> (f, k) \<notin> blockKey ` set bs"
  by (induction bs) (auto simp: blockKey_def split: if_splits)

lemma shape_get:
  assumes get: "getCaptureBB c f k = Some (Some j, c')" and sh: "capShape A B (rc_r c)"
    and k: "0 \<le> k" "k < int (length (savedState (rc_r c)))" and A: "A \<subseteq> {..<length (capBB (rc_r c))}"
  shows "capShape A (insert j B) (rc_r c') \<and> currentCapBB (rc_r c') = currentCapBB (rc_r c)
    \<and> savedState (rc_r c') = savedState (rc_r c) \<and> j < length (capBB (rc_r c')) \<and> esID (capBB (rc_r c') ! j) = k
    \<and> (\<exists>bs. capBB (rc_r c') = capBB (rc_r c) @ bs)"
  using get
proof (cases rule: getCaptureBB_cases)
  case (found i)
  then have "capShape A (insert j B) (rc_r c)" using sh by (auto simp: capShape_def)
  then show ?thesis using found findCBB_SomeD [OF found(1)] by (simp add: blockKey_def)
next
  case full
  then show ?thesis by simp
next
  case (new fc)
  let ?r = "rc_r c" and ?r' = "rc_r c'" and ?x = "newCBB f k fc"
  have x: "blockKey ?x = (f, k)" "blockSlots ?x = {}" "endType ?x = IT_None" "cbb_instr ?x = None" "blockOk ?r' ?x"
    using k by (simp_all add: newCBB_def blockKey_def blockSlots_def blockOk_def new(5))
  have j: "j = length (capBB ?r)" using new(3) by simp
  have "blockOk ?r' = blockOk ?r" by (simp add: blockOk_def new(5) fun_eq_iff)
  moreover have "openOk ?r b \<Longrightarrow> openOk ?r' b" for b by (auto simp: openOk_def new(5) nth_append)
  moreover have "finishedBlock ?r y \<Longrightarrow> finishedBlock ?r' y" for y
    by (auto simp: finishedBlock_def new(5) nth_append)
  moreover have "separateBlocks (capBB ?r @ [?x])"
    using sh x(2) by (auto simp: capShape_def separateBlocks_def nth_append less_Suc_eq)
  moreover have "distinct (map blockKey (capBB ?r @ [?x]))"
    using sh findCBB_NoneD [OF new(1)] by (auto simp: capShape_def x(1))
  ultimately have "capShape A (insert j B) ?r'"
    using sh x j A by (auto simp: capShape_def new(5) nth_append less_Suc_eq)
  then show ?thesis using x(1) by (simp add: new(5) j blockKey_def)
qed

lemma shape_push:
  assumes "capShape A B (rc_r c)" "j < length (capBB (rc_r c))" "currentCapBB (rc_r c) = None"
    and "rc_e (pushCaptureBB c j) = None"
  shows "capShape A (B - {j}) (rc_r (pushCaptureBB c j)) \<and> capBB (rc_r (pushCaptureBB c j)) = capBB (rc_r c)
    \<and> currentCapBB (rc_r (pushCaptureBB c j)) = None \<and> rc_e c = None"
proof (rule pushCaptureBB_cases [of c j])
  assume r: "rc_r (pushCaptureBB c j) = (rc_r c)\<lparr>capStack := j # capStack (rc_r c)\<rparr>" and e: "rc_e (pushCaptureBB c j) = rc_e c"
  have "finishedBlock (rc_r (pushCaptureBB c j)) = finishedBlock (rc_r c)" "blockOk (rc_r (pushCaptureBB c j)) = blockOk (rc_r c)"
    by (simp_all add: fun_eq_iff finishedBlock_def blockOk_def r)
  then show ?thesis using assms e by (auto simp: capShape_def r)
qed (use assms in simp)

lemma shape_push2:
  assumes "capShape A {i, j} (rc_r c)" "i < length (capBB (rc_r c))" "j < length (capBB (rc_r c))"
    "currentCapBB (rc_r c) = None" "rc_e (pushCaptureBB (pushCaptureBB c i) j) = None"
  shows "capShape A {} (rc_r (pushCaptureBB (pushCaptureBB c i) j))"
proof -
  have e: "rc_e (pushCaptureBB c i) = None"
    using pushCaptureBB_error [of "pushCaptureBB c i" j] assms(5) by blast
  note p = shape_push [OF assms(1,2,4) e]
  have s: "capShape A ({i, j} - {i} - {j}) (rc_r (pushCaptureBB (pushCaptureBB c i) j))"
    using shape_push [of A "{i, j} - {i}" "pushCaptureBB c i" j] p assms(3,5) by simp
  have "{i, j} - {i} - {j} = {}" by blast
  then show ?thesis using s by (simp only:)
qed

text \<open>Linking a block to its successors.\<close>

lemma shape_links:
  assumes sh: "capShape {b} B r" and b: "b < length (capBB r)"
    and y: "blockKey y = blockKey (capBB r ! b)" "cbb_instr y = cbb_instr (capBB r ! b)"
      "cbb_count y = cbb_count (capBB r ! b)" "endType y = endType (capBB r ! b)"
  shows "capShape {b} B (r\<lparr>capBB := (capBB r)[b := y]\<rparr>)"
proof -
  let ?r = "r\<lparr>capBB := (capBB r)[b := y]\<rparr>"
  have id: "esID y = esID (capBB r ! b)" using y(1) by (simp add: blockKey_def)
  have "blockOk ?r = blockOk r" by (simp add: blockOk_def fun_eq_iff)
  moreover have "blockOk r y = blockOk r (capBB r ! b)" by (simp add: blockOk_def y id)
  moreover have "blockSlots y = blockSlots (capBB r ! b)" by (simp add: blockSlots_def y split: option.split)
  moreover have "finishedBlock r x \<Longrightarrow> finishedBlock ?r x" for x
    using b by (auto simp: finishedBlock_def nth_list_update id)
  moreover have "openOk r a \<Longrightarrow> openOk ?r a" for a using b by (auto simp: openOk_def nth_list_update y)
  moreover have "map blockKey ((capBB r)[b := y]) = map blockKey (capBB r)"
    by (simp add: map_update y list_update_same_conv b)
  moreover have "set ((capBB r)[b := y]) \<subseteq> insert y (set (capBB r))" by (rule set_update_subset_insert)
  ultimately show ?thesis using sh b y(2,4)
    by (auto simp: capShape_def separateBlocks_def nth_list_update)
qed

lemma shape_jump:
  assumes p: "rc_e c = None \<longrightarrow> capShape {} {} (rc_r c)" and it: "instrIsJcc it" and "captureJcc c it t f = Some c'"
  shows "rc_e c' = None \<longrightarrow> capShape {} {} (rc_r c')"
  using assms(3)
proof (cases rule: captureJcc_cases)
  case (split b r k c1 ft c2 br c3 c4)
  let ?c0 = "updCBB b (\<lambda>x. x\<lparr>endType := it, preferBranch := t < f\<rparr>) (with_r r c)"
  have e2: "rc_e c2 = None" using getCaptureBB_error [OF split(4)] split(5) by blast
  have e1: "rc_e c1 = None" using getCaptureBB_error [OF split(3)] e2 by blast
  have e0: "rc_e c = None" using saveEmuState_error [OF split(2)] e1 by (cases "rc_e c") auto
  have "it \<noteq> IT_None" using it by (auto simp: instrIsJcc_def)
  then have s0: "capShape {b} {} (rc_r ?c0)" "b < length (capBB (rc_r ?c0))" "currentCapBB (rc_r ?c0) = None"
      "endType (capBB (rc_r ?c0) ! b) = it"
    using p e0 shape_pop [OF split(1), where g = "\<lambda>x. x\<lparr>endType := it, preferBranch := t < f\<rparr>"]
    by (simp_all add: blockKey_def)
  have s1: "capShape {b} {} (rc_r c1)" "b < length (capBB (rc_r c1))" "currentCapBB (rc_r c1) = None"
      "endType (capBB (rc_r c1) ! b) = it" "0 \<le> k" "k < int (length (savedState (rc_r c1)))"
    using shape_save [OF split(2) s0(1)] s0 e1 by simp_all
  have s2: "capShape {b} {ft} (rc_r c2)" "currentCapBB (rc_r c2) = None" "savedState (rc_r c2) = savedState (rc_r c1)"
      "ft < length (capBB (rc_r c2))" "esID (capBB (rc_r c2) ! ft) = k"
      "endType (capBB (rc_r c2) ! b) = it" "b < length (capBB (rc_r c2))"
    using shape_get [OF split(3) s1(1,5,6)] s1 by (auto simp: nth_append)
  have s3: "capShape {b} {br, ft} (rc_r c3)" "currentCapBB (rc_r c3) = None"
      "br < length (capBB (rc_r c3))" "esID (capBB (rc_r c3) ! br) = k"
      "ft < length (capBB (rc_r c3))" "esID (capBB (rc_r c3) ! ft) = k"
      "endType (capBB (rc_r c3) ! b) = it" "b < length (capBB (rc_r c3))"
    using shape_get [OF split(4) s2(1) s1(5)] s1(6) s2 by (auto simp: nth_append)
  have s4: "capShape {} {br, ft} (rc_r c4)" "currentCapBB (rc_r c4) = None" "br < length (capBB (rc_r c4))"
      "ft < length (capBB (rc_r c4))"
  proof -
    let ?y = "(capBB (rc_r c3) ! b)\<lparr>nextFallThrough := Some ft, nextBranch := Some br\<rparr>"
    have r4: "rc_r c4 = (rc_r c3)\<lparr>capBB := (capBB (rc_r c3))[b := ?y]\<rparr>"
      by (simp add: split(6) updCBB_def with_r_def)
    show "capShape {} {br, ft} (rc_r c4)"
    proof (rule shape_finish [where b = b])
      show "capShape {b} {br, ft} (rc_r c4)" unfolding r4
        by (rule shape_links [OF s3(1) s3(8)]) (simp_all add: blockKey_def)
      show "finishedBlock (rc_r c4) (capBB (rc_r c4) ! b)"
        using it s3 by (simp add: finishedBlock_def r4 nth_list_update)
    qed
  qed (use s3 in \<open>simp_all add: split(6) updCBB_def with_r_def\<close>)
  show ?thesis
  proof
    assume "rc_e c' = None"
    then show "capShape {} {} (rc_r c')"
      using shape_push2 [OF s4(1,3,4,2)] shape_push2 [OF s4(1) [folded insert_commute [of ft br "{}"]] s4(4,3,2)]
      unfolding split(7) by (auto split: if_splits)
  qed
qed (use p in auto)

text \<open>Opening a block.\<close>

lemma shape_open:
  assumes sh: "capShape {} {} r" and st: "capStack r = pre @ b # st"
    and pre: "\<forall>x \<in> set pre. endType (capBB r ! x) \<noteq> IT_None" and b: "endType (capBB r ! b) = IT_None"
    and n: "currentCapBB r = None"
  shows "capShape {} {} (r\<lparr>capStack := b # st, currentCapBB := Some b, r_es := es\<rparr>)"
proof -
  let ?r = "r\<lparr>capStack := b # st, currentCapBB := Some b, r_es := es\<rparr>"
  have "finishedBlock ?r = finishedBlock r" "blockOk ?r = blockOk r"
    by (simp_all add: fun_eq_iff finishedBlock_def blockOk_def)
  moreover have bl: "b < length (capBB r)" using sh st by (auto simp: capShape_def)
  moreover from this have "openOk ?r b" using sh b n by (simp add: openOk_def capShape_def)
  ultimately show ?thesis using sh st pre b n by (auto simp: capShape_def)
qed

text \<open>The bounds hold always, the shape as long as there is no error.\<close>

definition capInv :: "rctx \<Rightarrow> bool" where
  "capInv c \<longleftrightarrow> capBounds (rc_r c) \<and> (rc_e c = None \<longrightarrow> capShape {} {} (rc_r c))"

interpretation shape: engine_protocol capInv r0 for r0
proof unfold_locales
  fix c c' :: rctx
  assume "capInv c" "sameCap (rc_r c) (rc_r c')" "rc_e c' = None \<longrightarrow> rc_e c = None"
  then show "capInv c'" using shape_frame [of "rc_r c" "rc_r c'" "{}" "{}"] bounds.frame [of c c'] unfolding capInv_def by metis
next
  fix c i c'
  assume "capInv c" "capture c i = Some c'"
  then show "capInv c'" using bounds.capture [of c i c'] shape_capture [of c i c'] unfolding capInv_def by metis
next
  fix c it t f c'
  assume "capInv c" "instrIsJcc it" "captureJcc c it t f = Some c'"
  then show "capInv c'" using bounds.jump [of c it t f c'] shape_jump [of c it t f c'] unfolding capInv_def by metis
next
  fix c :: rctx
  assume s: "startCap (rc_r c)" and o: "outside r0 (rc_r c)" and e: "rc_e c = None"
  then show "capInv c" using bounds.start [OF s o e] unfolding capInv_def
    by (auto simp: startCap_def capShape_def blockOk_def separateBlocks_def openOk_def newCBB_def)
next
  fix c :: rctx
  assume "capInv c"
  then show "dec_alloc (rc_r c)" by (simp add: capInv_def capBounds_def)
next
  fix c c' :: rctx and a a'
  assume c: "capInv c" and e: "rc_e c = None" and n: "currentCapBB (rc_r c) = None"
    and o: "openCBB c a = Some (Some (c', a'))"
  obtain pre b st es where "capStack (rc_r c) = pre @ b # st" "\<forall>x \<in> set pre. endType (capBB (rc_r c) ! x) \<noteq> IT_None"
    "endType (capBB (rc_r c) ! b) = IT_None"
    "rc_r c' = (rc_r c)\<lparr>capStack := b # st, currentCapBB := Some b, r_es := es\<rparr>"
    using openCBB_new [OF o n] by metis
  then show "capInv c'" using shape_open [OF _ _ _ _ n] bounds.opened [OF _ e n o] c e by (simp add: capInv_def)
next
  fix c :: rctx and b r
  assume c: "capInv c" and e: "rc_e c = None" and p: "popCaptureBB (rc_r c) = Some (b, r)"
  let ?c = "updCBB b (\<lambda>x. x\<lparr>endType := IT_RET\<rparr>) (with_r r c)"
  have "capShape {b} {} (rc_r ?c)" "capBB (rc_r ?c) ! b = (capBB (rc_r c) ! b)\<lparr>endType := IT_RET\<rparr>"
    using shape_pop [OF p, where g = "\<lambda>x. x\<lparr>endType := IT_RET\<rparr>"] c e by (simp_all add: capInv_def blockKey_def)
  then have "capShape {} {} (rc_r ?c)" by (intro shape_finish [where b = b]) (simp_all add: finishedBlock_def)
  then show "capInv ?c" using bounds.returned [OF _ e p] c by (simp add: capInv_def)
qed

section \<open>The properties\<close>

text \<open>C17. The arrays of captured instructions, blocks, open paths and saved states never exceed their
  capacities, whether the tracing succeeds or ends with an error.\<close>

theorem capture_bounded:
  assumes "initDecodeTables = Some (w_tables w)" and "dec_alloc r"
    and "emulateAndCapture (vectorWorld ve n w) r par = Some (e, r')"
  shows "length (capInstr r') \<le> capInstrCapacity r' \<and> length (capBB r') \<le> capBBCapacity r'
    \<and> length (capStack r') \<le> CAPTURESTACK_LEN \<and> length (savedState r') \<le> SAVEDSTATE_MAX"
proof -
  have "bounds.loopEnd e r' \<or> e \<noteq> None \<and> emptyCap r'"
    using bounds.emulateAndCapture [OF _ vectorKeeps_vectorWorld assms(2,3)] assms(1) by auto
  then have "capBounds (r'\<lparr>dec_alloc := True\<rparr>)"
  proof
    assume "bounds.loopEnd e r'"
    then obtain c :: rctx where "capBounds (rc_r c)" "r' = rc_r c \<or> r' = (rc_r c)\<lparr>capStack := []\<rparr> \<or> r' = (rc_r c)\<lparr>capBB := []\<rparr>"
      by (rule bounds.loopEnd_cases)
    then show ?thesis by (elim disjE) (simp_all add: capBounds_def)
  qed (auto simp: emptyCap_def capBounds_def)
  then show ?thesis by (simp add: capBounds_def)
qed

theorem capture_bounded_witness:
  "\<exists>tb r'. initDecodeTables = Some tb
    \<and> emulateAndCapture (vectorWorld traceEnv 1 (traceWorld tb)) traceRewriter [] = Some (None, r')
    \<and> length (capInstr r') \<le> capInstrCapacity r'"
proof -
  obtain tb where tb: "initDecodeTables = Some tb" using initDecodeTables_total by blast
  have w: "initDecodeTables = Some (w_tables (traceWorld tb))" by (simp add: tb traceWorld_def)
  obtain r' where "emulateAndCapture (vectorWorld traceEnv 1 (traceWorld tb)) traceRewriter [] = Some (None, r')"
    using trace_runs [OF tb] by blast
  then show ?thesis using tb capture_bounded [OF w traceRewriter_sel(2)] by blast
qed

lemma shape_closed:
  assumes "initDecodeTables = Some (w_tables w)" and "dec_alloc r"
    and "emulateAndCapture (vectorWorld ve n w) r par = Some (None, r')"
  shows "capBB r' \<noteq> [] \<and> (\<forall>x \<in> set (capBB r'). finishedBlock r' x \<and> blockOk r' x) \<and> distinct (map blockKey (capBB r'))
    \<and> separateBlocks (capBB r') \<and> capStack r' = [] \<and> currentCapBB r' = None"
proof -
  have "shape.loopEnd None r'"
    using shape.emulateAndCapture [OF _ vectorKeeps_vectorWorld assms(2,3)] assms(1) by simp
  then obtain c :: rctx where c: "capShape {} {} (rc_r c)" "endCap (rc_r c)" and r': "r' = (rc_r c)\<lparr>capStack := []\<rparr>"
    unfolding shape.loopEnd_None capInv_def by metis
  have "endType (capBB (rc_r c) ! b) \<noteq> IT_None" if "b < length (capBB (rc_r c))" for b
    using c that by (auto simp: capShape_def endCap_def)
  then have "\<forall>x \<in> set (capBB (rc_r c)). finishedBlock (rc_r c) x"
    using c(1) by (auto simp: capShape_def in_set_conv_nth)
  moreover have "finishedBlock r' = finishedBlock (rc_r c)" "blockOk r' = blockOk (rc_r c)"
    by (simp_all add: fun_eq_iff finishedBlock_def blockOk_def r')
  ultimately show ?thesis using c by (simp add: r' capShape_def endCap_def)
qed

text \<open>C3. When the tracing succeeds, all paths are captured: there is a block, every block ends with a return or with a conditional jump to two captured blocks of the
  same state, no two blocks stand for the same address and state, and the instructions of the
  blocks are disjoint parts of the instruction buffer.\<close>

theorem captured_blocks_closed:
  assumes "initDecodeTables = Some (w_tables w)" and "dec_alloc r"
    and "emulateAndCapture (vectorWorld ve n w) r par = Some (None, r')"
  shows "capBB r' \<noteq> [] \<and> (\<forall>x \<in> set (capBB r'). finishedBlock r' x \<and> blockOk r' x) \<and> distinct (map blockKey (capBB r'))
    \<and> separateBlocks (capBB r') \<and> capStack r' = [] \<and> currentCapBB r' = None"
  by (rule shape_closed [OF assms])

theorem captured_blocks_closed_witness:
  "\<exists>tb r' x. initDecodeTables = Some tb
    \<and> emulateAndCapture (vectorWorld traceEnv 1 (traceWorld tb)) traceRewriter [] = Some (None, r')
    \<and> capBB r' = [x] \<and> endType x = IT_RET \<and> finishedBlock r' x \<and> blockOk r' x"
proof -
  obtain tb where tb: "initDecodeTables = Some tb" using initDecodeTables_total by blast
  have w: "initDecodeTables = Some (w_tables (traceWorld tb))" by (simp add: tb traceWorld_def)
  obtain r' s y where r': "emulateAndCapture (vectorWorld traceEnv 1 (traceWorld tb)) traceRewriter [] = Some (None, r')"
    "r' = rc_r (traceEnd s y)"
    using trace_runs [OF tb] by blast
  obtain x where x: "capBB r' = [x]" "endType x = IT_RET" by (simp add: r'(2) traceEnd_sel)
  have "finishedBlock r' x" "blockOk r' x"
    using captured_blocks_closed [OF w traceRewriter_sel(2) r'(1)] x(1) by simp_all
  then show ?thesis using tb r'(1) x by blast
qed

end
