(* ===== verification/GenBlocks.thy ===== *)
theory GenBlocks
  imports Layout CaptureInvariant
begin

text \<open>
  The first pass of the code generation: what \<open>generate\<close> does for one block, and what the pass
  over all reachable blocks leaves behind. The code of each block is the concatenation of the
  codes of its instructions, the blocks lie one behind the other in the code storage with room
  for the jumps, and every successor of a generated block is generated.
\<close>

section \<open>One block\<close>

definition capturedInstrs :: "instr list \<Rightarrow> cbb \<Rightarrow> instr list" where
  "capturedInstrs is x = (case cbb_instr x of None \<Rightarrow> [] | Some k \<Rightarrow> take (cbb_count x) (drop k is))"

text \<open>The bytes of a list of instructions.\<close>

definition codeOf :: "instr list \<Rightarrow> u8 list \<Rightarrow> bool" where
  "codeOf is bs \<longleftrightarrow> (\<exists>bss. map genInstrStep is = map (\<lambda>b. Some (StepBytes b)) bss \<and> bs = concat bss)"

lemma generateLoop_code:
  assumes "generateLoop k is m cs = Some (is', m', cs', None)"
  shows "\<exists>bss. map genInstrStep is = map (\<lambda>b. Some (StepBytes b)) bss \<and> map ilen is' = map length bss
    \<and> m' = store_bytes m (cs_buf cs + of_int (cs_used cs)) (concat bss)
    \<and> cs' = cs\<lparr>cs_used := cs_used cs + int (length (concat bss))\<rparr>
    \<and> (cs_used cs \<le> cs_fullsize cs \<longrightarrow> cs_used cs + int (length (concat bss)) \<le> cs_fullsize cs)
    \<and> (is' \<noteq> [] \<longrightarrow> iaddr (hd is') = cs_buf cs + of_int (cs_used cs)) \<and> length is' = length is"
  using assms
proof (induction "is" arbitrary: k m cs is')
  case Nil
  then show ?case by (intro exI [of _ "[]"]) simp
next
  case (Cons i "is")
  obtain buf st where buf: "reserveCodeStorage cs 15 = Some buf" and st: "genInstrStep i = Some st"
    and e: "(case st of
        StepErr e d \<Rightarrow> Some (i # is, m, cs, Some (k, e, d))
      | StepBytes bs \<Rightarrow> do {
          (_, cs) \<leftarrow> useCodeStorage cs (int (length bs));
          (is', m, cs, err) \<leftarrow> generateLoop (Suc k) is (store_bytes m buf bs) cs;
          Some (i\<lparr>iaddr := buf, ilen := length bs\<rparr> # is', m, cs, err) }) = Some (is', m', cs', None)"
    using Cons.prems by (auto simp: bind_eq_Some_conv)
  obtain bs where bs: "st = StepBytes bs" using e by (cases st) simp_all
  have b: "buf = cs_buf cs + of_int (cs_used cs)" using buf by (simp add: reserveCodeStorage_def split: if_splits)
  let ?cs = "cs\<lparr>cs_used := cs_used cs + int (length bs)\<rparr>"
  obtain is1 where room: "int (length bs) \<le> cs_fullsize cs - cs_used cs"
    and l: "generateLoop (Suc k) is (store_bytes m buf bs) ?cs = Some (is1, m', cs', None)"
    and is': "is' = i\<lparr>iaddr := buf, ilen := length bs\<rparr> # is1"
    using e bs by (auto simp: useCodeStorage_def bind_eq_Some_conv Let_def)
  from Cons.IH [OF l] obtain bss where ih: "map genInstrStep is = map (\<lambda>b. Some (StepBytes b)) bss"
    "map ilen is1 = map length bss" "length is1 = length is"
    "m' = store_bytes (store_bytes m buf bs) (cs_buf cs + of_int (cs_used cs + int (length bs))) (concat bss)"
    "cs' = ?cs\<lparr>cs_used := cs_used cs + int (length bs) + int (length (concat bss))\<rparr>"
    "cs_used cs + int (length bs) + int (length (concat bss)) \<le> cs_fullsize cs"
    using room by auto
  show ?case
    by (rule exI [of _ "bs # bss"]) (use ih st bs room is' in \<open>simp add: b store_bytes_append add.assoc\<close>)
qed

text \<open>The instructions of a block depend on its slots only.\<close>

lemma capturedInstrs_cong:
  assumes "\<forall>i \<in> blockSlots x. js ! i = is ! i" and "length js = length is"
    and "\<forall>k. cbb_instr x = Some k \<longrightarrow> k + cbb_count x \<le> length is"
  shows "capturedInstrs js x = capturedInstrs is x"
proof (cases "cbb_instr x")
  case (Some k)
  then show ?thesis using assms
    by (auto simp: capturedInstrs_def blockSlots_def intro!: nth_equalityI)
qed (simp add: capturedInstrs_def)

text \<open>The result of \<open>generate\<close> without an error.\<close>

definition generated :: "nat \<Rightarrow> u8 list \<Rightarrow> codestorage \<Rightarrow> instr list \<Rightarrow> rewriter \<Rightarrow> rewriter" where
  "generated b bs cs js r = r\<lparr>r_mem := store_bytes (r_mem r) (cs_buf cs + of_int (cs_used cs)) bs, capInstr := js,
     r_cs := Some (cs\<lparr>cs_used := cs_used cs + int (length bs)\<rparr>),
     capBB := (capBB r)[b := (capBB r ! b)\<lparr>cbb_size := int (length bs), addr1 := cs_buf cs + of_int (cs_used cs)\<rparr>]\<rparr>"

lemma generate_block:
  assumes gen: "generate r b = Some (None, r')" and ok: "blockOk r (capBB r ! b)"
  obtains cs bs js where "r_cs r = Some cs" "codeOf (capturedInstrs (capInstr r) (capBB r ! b)) bs"
    "r' = generated b bs cs js r"
    "cs_used cs \<le> cs_fullsize cs \<Longrightarrow> cs_used cs + int (length bs) \<le> cs_fullsize cs"
    "length js = length (capInstr r)" "\<And>i. i \<notin> blockSlots (capBB r ! b) \<Longrightarrow> js ! i = capInstr r ! i"
    "cbb_count (capBB r ! b) = 0 \<Longrightarrow> bs = []"
proof -
  let ?x = "capBB r ! b"
  obtain cs where cs: "r_cs r = Some cs" using gen by (auto simp: generate_def split: option.splits)
  obtain start buf0 is' m cs' err where start: "(if cbb_count ?x = 0 then Some 0 else cbb_instr ?x) = Some start"
    and buf0: "reserveCodeStorage cs 0 = Some buf0"
    and l0: "generateLoop 0 (take (cbb_count ?x) (drop start (capInstr r))) (r_mem r) cs = Some (is', m, cs', err)"
    and e: "(let r = r\<lparr>r_mem := m, capInstr := take start (capInstr r) @ is' @ drop (start + cbb_count ?x) (capInstr r)\<rparr> in
          case err of
             Some (k, e, d) \<Rightarrow>
               Some (Some (genError e d (Some b) (int k)),
                 r\<lparr>r_cs := Some (cs'\<lparr>cs_used := cs_used cs\<rparr>),
                   capBB := (capBB r)[b := ?x\<lparr>cbb_size := -1\<rparr>]\<rparr>)
           | None \<Rightarrow>
               Some (None,
                 r\<lparr>r_cs := Some cs',
                   capBB := (capBB r)[b := ?x
                     \<lparr>cbb_size := int (sum_list (map ilen is')),
                      addr1 := (if cbb_count ?x = 0 then buf0 else iaddr (hd is'))\<rparr>]\<rparr>)) = Some (None, r')"
    using gen unfolding generate_def cs option.case Let_def bind_eq_Some_conv split_paired_Ex split_conv
    by (elim exE conjE) (rule that, assumption+, simp only: Let_def)
  let ?is = "take (cbb_count ?x) (drop start (capInstr r))"
  have is0: "?is = capturedInstrs (capInstr r) ?x"
    using start ok by (auto simp: capturedInstrs_def blockOk_def split: option.splits if_splits)
  have fits: "start + cbb_count ?x \<le> length (capInstr r)" "cbb_count ?x \<noteq> 0 \<Longrightarrow> blockSlots ?x = {start..<start + cbb_count ?x}"
    using start ok by (auto simp: blockOk_def blockSlots_def split: if_splits)
  have "err = None" using e by (cases err) (auto simp: Let_def)
  then have l: "generateLoop 0 ?is (r_mem r) cs = Some (is', m, cs', None)"
    and r': "r' = r\<lparr>r_mem := m, capInstr := take start (capInstr r) @ is' @ drop (start + cbb_count ?x) (capInstr r),
        r_cs := Some cs', capBB := (capBB r)[b := ?x\<lparr>cbb_size := int (sum_list (map ilen is')),
          addr1 := (if cbb_count ?x = 0 then buf0 else iaddr (hd is'))\<rparr>]\<rparr>"
    using l0 e by (simp_all add: Let_def)
  from generateLoop_code [OF l] obtain bss where bss: "map genInstrStep ?is = map (\<lambda>b. Some (StepBytes b)) bss"
    "map ilen is' = map length bss" "m = store_bytes (r_mem r) (cs_buf cs + of_int (cs_used cs)) (concat bss)"
    "cs' = cs\<lparr>cs_used := cs_used cs + int (length (concat bss))\<rparr>"
    "cs_used cs \<le> cs_fullsize cs \<longrightarrow> cs_used cs + int (length (concat bss)) \<le> cs_fullsize cs"
    "is' \<noteq> [] \<longrightarrow> iaddr (hd is') = cs_buf cs + of_int (cs_used cs)" "length is' = length ?is"
    by blast
  let ?js = "take start (capInstr r) @ is' @ drop (start + cbb_count ?x) (capInstr r)"
  have len: "length is' = cbb_count ?x" using bss(7) fits(1) by simp
  have sum: "sum_list (map ilen is') = length (concat bss)" by (simp add: bss(2) length_concat)
  have "buf0 = cs_buf cs + of_int (cs_used cs)" using buf0 by (simp add: reserveCodeStorage_def split: if_splits)
  then have addr: "(if cbb_count ?x = 0 then buf0 else iaddr (hd is')) = cs_buf cs + of_int (cs_used cs)"
    using bss(6) len by (cases is') auto
  show thesis
  proof (rule that [OF cs, of "concat bss" ?js])
    show "codeOf (capturedInstrs (capInstr r) ?x) (concat bss)" using bss(1) is0 by (auto simp: codeOf_def)
    show "r' = generated b (concat bss) cs ?js r" unfolding r' generated_def addr sum bss(3,4) ..
    show "length ?js = length (capInstr r)" using len fits(1) by simp
    show "?js ! i = capInstr r ! i" if "i \<notin> blockSlots ?x" for i
      using that fits len by (cases "cbb_count ?x = 0") (auto simp: nth_append)
    show "concat bss = []" if "cbb_count ?x = 0" using that bss(1) by simp
  qed (use bss(5) in simp)
qed

section \<open>The first pass\<close>

text \<open>The captured blocks form a closed graph, and no code was generated for them yet.\<close>

definition closedGraph :: "rewriter \<Rightarrow> bool" where
  "closedGraph r \<longleftrightarrow> capBB r \<noteq> [] \<and> (\<forall>x \<in> set (capBB r). finishedBlock r x \<and> blockOk r x) \<and> separateBlocks (capBB r)"

definition freshBlocks :: "rewriter \<Rightarrow> bool" where
  "freshBlocks r \<longleftrightarrow> (\<forall>x \<in> set (capBB r). cbb_size x < 0 \<and> freshJumps x)"

text \<open>A block with its place and size.\<close>

definition sizedAs :: "cbb \<Rightarrow> cbb \<Rightarrow> bool" where
  "sizedAs x y \<longleftrightarrow> y = x\<lparr>cbb_size := cbb_size y, addr1 := addr1 y\<rparr>"

lemma sizedAs_sel:
  assumes "sizedAs x y"
  shows "endType y = endType x" "cbb_count y = cbb_count x" "cbb_instr y = cbb_instr x" "nextBranch y = nextBranch x"
    "nextFallThrough y = nextFallThrough x" "esID y = esID x" "freshJumps y = freshJumps x" "blockSlots y = blockSlots x"
proof -
  obtain s a where "y = x\<lparr>cbb_size := s, addr1 := a\<rparr>" using assms unfolding sizedAs_def by blast
  then show "endType y = endType x" "cbb_count y = cbb_count x" "cbb_instr y = cbb_instr x" "nextBranch y = nextBranch x"
    "nextFallThrough y = nextFallThrough x" "esID y = esID x" "freshJumps y = freshJumps x" "blockSlots y = blockSlots x"
    by (simp_all add: freshJumps_def blockSlots_def split: option.split)
qed

lemma sizedAs_refl [simp]: "sizedAs x x"
  by (simp add: sizedAs_def)

lemma sizedAs_upd:
  assumes "sizedAs x y" shows "sizedAs x (y\<lparr>cbb_size := s, addr1 := a\<rparr>)"
proof -
  obtain s' a' where "y = x\<lparr>cbb_size := s', addr1 := a'\<rparr>" using assms unfolding sizedAs_def by blast
  then show ?thesis by (simp add: sizedAs_def)
qed

text \<open>The code of block \<open>b\<close> stands at its first place.\<close>

definition codeAt :: "rewriter \<Rightarrow> rewriter \<Rightarrow> nat \<Rightarrow> bool" where
  "codeAt r0 r b \<longleftrightarrow> (\<exists>bs. codeOf (capturedInstrs (capInstr r0) (capBB r0 ! b)) bs
     \<and> cbb_size (capBB r ! b) = int (length bs) \<and> bytes_at (r_mem r) (addr1 (capBB r ! b)) bs)"

text \<open>The successors of a block are among some blocks.\<close>

definition succsIn :: "nat set \<Rightarrow> cbb \<Rightarrow> bool" where
  "succsIn B x \<longleftrightarrow> (instrIsJcc (endType x) \<longrightarrow>
     (\<exists>t f. nextBranch x = Some t \<and> nextFallThrough x = Some f \<and> t \<in> B \<and> f \<in> B))"

text \<open>The fields that the generation of the blocks leaves alone.\<close>

definition genBase :: "rewriter \<Rightarrow> rewriter" where
  "genBase r = r\<lparr>r_mem := (\<lambda>_. 0), capInstr := [], r_cs := None, capBB := [], capStack := [], genOrder := []\<rparr>"

lemma genBase_upd [simp]:
  "genBase (r\<lparr>r_mem := m\<rparr>) = genBase r" "genBase (r\<lparr>capInstr := is\<rparr>) = genBase r" "genBase (r\<lparr>r_cs := cs\<rparr>) = genBase r"
  "genBase (r\<lparr>capBB := bs\<rparr>) = genBase r" "genBase (r\<lparr>capStack := st\<rparr>) = genBase r" "genBase (r\<lparr>genOrder := os\<rparr>) = genBase r"
  by (simp_all add: genBase_def)

lemma genBase_savedState: "genBase r = genBase r' \<Longrightarrow> savedState r = savedState r'"
  by (drule arg_cong [of _ _ savedState]) (simp add: genBase_def)

text \<open>The loop invariant: \<open>r0\<close> is the rewriter before the pass, \<open>cs\<close> the code storage now.\<close>

definition pass1Inv :: "rewriter \<Rightarrow> codestorage \<Rightarrow> codestorage \<Rightarrow> rewriter \<Rightarrow> bool" where
  "pass1Inv r0 cs0 cs r \<longleftrightarrow>
     genBase r = genBase r0 \<and> r_cs r = Some cs
     \<and> csInv cs \<and> cs_buf cs = cs_buf cs0 \<and> cs_fullsize cs = cs_fullsize cs0 \<and> cs_used cs0 \<le> cs_used cs
     \<and> laidOut (capBB r) (genOrder r)
     \<and> (\<forall>b \<in> set (genOrder r). uint (cs_buf cs0) + cs_used cs0 \<le> uint (addr1 (capBB r ! b))
          \<and> uint (addr1 (capBB r ! b)) + cbb_size (capBB r ! b) + 26 \<le> uint (cs_buf cs0) + cs_used cs)
     \<and> length (capBB r) = length (capBB r0) \<and> length (capInstr r) = length (capInstr r0)
     \<and> (\<forall>b < length (capBB r0). (b \<in> set (genOrder r) \<longleftrightarrow> 0 \<le> cbb_size (capBB r ! b)) \<and> sizedAs (capBB r0 ! b) (capBB r ! b))
     \<and> (\<forall>b < length (capBB r0). b \<notin> set (genOrder r) \<longrightarrow>
          capturedInstrs (capInstr r) (capBB r ! b) = capturedInstrs (capInstr r0) (capBB r0 ! b))
     \<and> (\<forall>b \<in> set (genOrder r). codeAt r0 r b)
     \<and> (\<forall>b \<in> set (genOrder r). succsIn (set (genOrder r) \<union> set (capStack r)) (capBB r ! b))
     \<and> set (capStack r) \<subseteq> {..<length (capBB r0)}
     \<and> (if genOrder r = [] then capStack r = [0] else hd (genOrder r) = 0)"

lemma pass1_skip:
  assumes "pass1Inv r0 cs0 cs r" and "capStack r = b # st" and "0 \<le> cbb_size (capBB r ! b)"
  shows "pass1Inv r0 cs0 cs (r\<lparr>capStack := st\<rparr>)"
proof -
  have b: "b \<in> set (genOrder r)" using assms by (auto simp: pass1Inv_def)
  then have "set (genOrder r) \<union> set (capStack r) = set (genOrder r) \<union> set st" using assms(2) by auto
  moreover have "codeAt r0 (r\<lparr>capStack := st\<rparr>) = codeAt r0 r" by (simp add: codeAt_def fun_eq_iff)
  moreover have "genOrder r \<noteq> []" using b by auto
  ultimately show ?thesis using assms(1,2) unfolding pass1Inv_def by simp
qed

lemma pass1_blockOk:
  assumes "pass1Inv r0 cs0 cs r" and "closedGraph r0" and "b < length (capBB r0)"
  shows "blockOk (r\<lparr>capStack := st, genOrder := os\<rparr>) (capBB r ! b)" "sizedAs (capBB r0 ! b) (capBB r ! b)"
proof -
  show sz: "sizedAs (capBB r0 ! b) (capBB r ! b)" using assms by (simp add: pass1Inv_def)
  have "blockOk r0 (capBB r0 ! b)" using assms(2,3) by (simp add: closedGraph_def)
  then show "blockOk (r\<lparr>capStack := st, genOrder := os\<rparr>) (capBB r ! b)"
    using assms(1) sizedAs_sel [OF sz] genBase_savedState [of r r0] by (simp add: blockOk_def pass1Inv_def)
qed

lemma generate_frame:
  assumes "generate r b = Some (None, r')" and "blockOk r (capBB r ! b)" and "b < length (capBB r)"
  shows "capStack r' = capStack r" "endType (capBB r' ! b) = endType (capBB r ! b)"
    "nextBranch (capBB r' ! b) = nextBranch (capBB r ! b)" "nextFallThrough (capBB r' ! b) = nextFallThrough (capBB r ! b)"
    "length (capBB r') = length (capBB r)"
proof -
  obtain cs bs js where "r' = generated b bs cs js r" using generate_block [OF assms(1,2)] by metis
  then show "capStack r' = capStack r" "endType (capBB r' ! b) = endType (capBB r ! b)"
    "nextBranch (capBB r' ! b) = nextBranch (capBB r ! b)" "nextFallThrough (capBB r' ! b) = nextFallThrough (capBB r ! b)"
    "length (capBB r') = length (capBB r)"
    using assms(3) by (simp_all add: generated_def)
qed

text \<open>One more block.\<close>

lemma pass1_block:
  assumes inv: "pass1Inv r0 cs0 cs r" and st: "capStack r = b # st" and neg: "cbb_size (capBB r ! b) < 0"
    and graph: "closedGraph r0" "freshBlocks r0"
    and gen: "generate (r\<lparr>capStack := st, genOrder := genOrder r @ [b]\<rparr>) b = Some (None, r1)"
    and cs1: "r_cs r1 = Some cs1" and use26: "useCodeStorage cs1 26 = Some (p, cs2)"
    and succs: "succsIn (set st') (capBB r1 ! b)" "set st \<subseteq> set st'" "set st' \<subseteq> {..<length (capBB r0)}"
  shows "pass1Inv r0 cs0 cs2 (r1\<lparr>capStack := st', r_cs := Some cs2\<rparr>)"
proof -
  note I = inv [unfolded pass1Inv_def]
  let ?a = "r\<lparr>capStack := st, genOrder := genOrder r @ [b]\<rparr>" and ?x = "capBB r ! b"
  let ?addr = "cs_buf cs + of_int (cs_used cs)"
  have b: "b < length (capBB r)" "b \<notin> set (genOrder r)" "sizedAs (capBB r0 ! b) ?x"
    using I st neg by auto
  have x0: "blockOk r0 (capBB r0 ! b)" "freshJumps (capBB r0 ! b)"
    using graph b(1) I by (auto simp: closedGraph_def freshBlocks_def)
  have "blockOk ?a (capBB ?a ! b)" using pass1_blockOk [OF inv graph(1)] b(1) I by simp
  then obtain cs' bs js where cs': "r_cs ?a = Some cs'" and code: "codeOf (capturedInstrs (capInstr ?a) (capBB ?a ! b)) bs"
    and r1: "r1 = generated b bs cs' js ?a"
    and js: "length js = length (capInstr ?a)" "\<And>i. i \<notin> blockSlots (capBB ?a ! b) \<Longrightarrow> js ! i = capInstr ?a ! i"
    using generate_block [OF gen] by metis
  have [simp]: "cs' = cs" using cs' I by simp
  let ?y = "?x\<lparr>cbb_size := int (length bs), addr1 := ?addr\<rparr>"
  let ?r = "r1\<lparr>capStack := st', r_cs := Some cs2\<rparr>"
  have r: "capBB ?r = (capBB r)[b := ?y]" "capInstr ?r = js" "r_mem ?r = store_bytes (r_mem r) ?addr bs"
    "capStack ?r = st'" "genOrder ?r = genOrder r @ [b]" "r_cs ?r = Some cs2" "genBase ?r = genBase r"
    by (simp_all add: r1 generated_def)
  have cs2: "cs2 = cs\<lparr>cs_used := cs_used cs + int (length bs) + 26\<rparr>" "cs_used cs + int (length bs) + 26 \<le> cs_fullsize cs"
    using cs1 use26 by (auto simp: r1 generated_def useCodeStorage_def bind_eq_Some_conv Let_def)
  have top: "0 \<le> cs_used cs" "uint (cs_buf cs) + cs_used cs + int (length bs) + 26 \<le> 2 ^ 64"
    using I cs2(2) by (auto simp: csInv_def)
  have u: "uint ?addr = uint (cs_buf cs) + cs_used cs"
    by (rule uint_plus_of_int) (use top in simp_all)
  have ys: "sizedAs (capBB r0 ! b) ?y" by (rule sizedAs_upd [OF b(3)])
  have other: "capBB ?r ! a = capBB r ! a" if "a \<noteq> b" for a using that by (simp add: r(1))
  have here: "capBB ?r ! b = ?y" using b(1) by (simp add: r(1))
  have old: "capBB ?r ! a = capBB r ! a" if "a \<in> set (genOrder r)" for a using that b(2) by (intro other) auto
  have fit: "uint ?addr + int (length bs) \<le> 2 ^ 64" using top u by simp
  have "laidOut (capBB ?r) (genOrder r @ [b])"
  proof -
    have "sorted_wrt (apart (capBB ?r)) (genOrder r)"
      by (rule sorted_wrt_mono_rel [of _ "apart (capBB r)"]) (use old I in \<open>simp_all add: apart_def laidOut_def\<close>)
    moreover have "apart (capBB ?r) a b" if "a \<in> set (genOrder r)" for a
      using that I old [OF that] here u by (auto simp: apart_def)
    ultimately show ?thesis
      using I b old here u top sizedAs_sel(7) [OF ys] x0(2)
      by (auto simp: laidOut_def sorted_wrt_append r(1))
  qed
  moreover have "\<forall>a \<in> set (genOrder r @ [b]). uint (cs_buf cs0) + cs_used cs0 \<le> uint (addr1 (capBB ?r ! a))
      \<and> uint (addr1 (capBB ?r ! a)) + cbb_size (capBB ?r ! a) + 26 \<le> uint (cs_buf cs0) + cs_used cs2"
  proof
    fix a assume a: "a \<in> set (genOrder r @ [b])"
    show "uint (cs_buf cs0) + cs_used cs0 \<le> uint (addr1 (capBB ?r ! a))
      \<and> uint (addr1 (capBB ?r ! a)) + cbb_size (capBB ?r ! a) + 26 \<le> uint (cs_buf cs0) + cs_used cs2"
    proof (cases "a = b")
      case True
      then show ?thesis using I here u by (simp add: cs2)
    next
      case False
      then have "a \<in> set (genOrder r)" using a by simp
      then have "uint (cs_buf cs0) + cs_used cs0 \<le> uint (addr1 (capBB r ! a))"
        "uint (addr1 (capBB r ! a)) + cbb_size (capBB r ! a) + 26 \<le> uint (cs_buf cs0) + cs_used cs" using I by auto
      then show ?thesis using other [OF False] by (simp add: cs2)
    qed
  qed
  moreover have "\<forall>a < length (capBB r0). (a \<in> set (genOrder r @ [b]) \<longleftrightarrow> 0 \<le> cbb_size (capBB ?r ! a))
      \<and> sizedAs (capBB r0 ! a) (capBB ?r ! a)"
  proof (intro allI impI)
    fix a assume a: "a < length (capBB r0)"
    show "(a \<in> set (genOrder r @ [b]) \<longleftrightarrow> 0 \<le> cbb_size (capBB ?r ! a)) \<and> sizedAs (capBB r0 ! a) (capBB ?r ! a)"
    proof (cases "a = b")
      case True
      then show ?thesis using here ys by simp
    next
      case False
      then show ?thesis using I a other [OF False] by (simp add: r(1))
    qed
  qed
  moreover have "\<forall>a < length (capBB r0). a \<notin> set (genOrder r @ [b]) \<longrightarrow>
      capturedInstrs (capInstr ?r) (capBB ?r ! a) = capturedInstrs (capInstr r0) (capBB r0 ! a)"
  proof (intro allI impI)
    fix a assume a: "a < length (capBB r0)" "a \<notin> set (genOrder r @ [b])"
    then have al: "a < length (capBB r0)" "a \<noteq> b" "sizedAs (capBB r0 ! a) (capBB r ! a)"
      "capturedInstrs (capInstr r) (capBB r ! a) = capturedInstrs (capInstr r0) (capBB r0 ! a)"
      using I by (simp_all add: r(1))
    have "blockSlots (capBB r ! a) \<inter> blockSlots ?x = {}"
      using graph(1) al(1,2) b(1) I sizedAs_sel(8) [OF al(3)] sizedAs_sel(8) [OF b(3)]
      by (auto simp: closedGraph_def separateBlocks_def)
    moreover have "blockOk r0 (capBB r0 ! a)" using graph(1) al(1) by (simp add: closedGraph_def)
    ultimately have "capturedInstrs js (capBB r ! a) = capturedInstrs (capInstr r) (capBB r ! a)"
      using js I sizedAs_sel [OF al(3)] by (intro capturedInstrs_cong) (auto simp: blockOk_def)
    then show "capturedInstrs (capInstr ?r) (capBB ?r ! a) = capturedInstrs (capInstr r0) (capBB r0 ! a)"
      unfolding other [OF al(2)] r(2) using al(4) by simp
  qed
  moreover have "\<forall>a \<in> set (genOrder r @ [b]). codeAt r0 ?r a"
  proof
    fix a assume a: "a \<in> set (genOrder r @ [b])"
    show "codeAt r0 ?r a"
    proof (cases "a = b")
      case True
      have "capturedInstrs (capInstr r) ?x = capturedInstrs (capInstr r0) (capBB r0 ! b)" using I b by (metis (full_types))
      then show ?thesis using True code store_bytes_at [OF fit] here by (auto simp: codeAt_def r(3))
    next
      case False
      then have a: "a \<in> set (genOrder r)" using a by simp
      then obtain as where as: "codeOf (capturedInstrs (capInstr r0) (capBB r0 ! a)) as"
        "cbb_size (capBB r ! a) = int (length as)" "bytes_at (r_mem r) (addr1 (capBB r ! a)) as"
        using I unfolding codeAt_def by blast
      have le: "uint (addr1 (capBB r ! a)) + int (length as) + 26 \<le> uint ?addr"
        using I a as(2) unfolding u by fastforce
      have "bytes_at (store_bytes (r_mem r) ?addr bs) (addr1 (capBB r ! a)) as"
      proof (rule bytes_at_cong [OF as(3)])
        show "uint (addr1 (capBB r ! a)) + int (length as) \<le> 2 ^ 64" using le fit by simp
        fix p :: u64 assume "uint p < uint (addr1 (capBB r ! a)) + int (length as)"
        then show "store_bytes (r_mem r) ?addr bs p = r_mem r p"
          using le by (intro store_bytes_outside_region [OF fit]) simp
      qed
      then show ?thesis using as unfolding codeAt_def other [OF False] r(3) by blast
    qed
  qed
  moreover have "\<forall>a \<in> set (genOrder r @ [b]). succsIn (set (genOrder r @ [b]) \<union> set st') (capBB ?r ! a)"
  proof
    fix a assume a: "a \<in> set (genOrder r @ [b])"
    show "succsIn (set (genOrder r @ [b]) \<union> set st') (capBB ?r ! a)"
    proof (cases "a = b")
      case True
      then show ?thesis using succs(1) by (auto simp: succsIn_def r1)
    next
      case False
      then have "succsIn (set (genOrder r) \<union> set (b # st)) (capBB r ! a)" using I a st by auto
      then show ?thesis using other [OF False] succs(2) by (auto simp: succsIn_def)
    qed
  qed
  moreover have "hd (genOrder r @ [b]) = 0" using I st by (cases "genOrder r") auto
  moreover have "genBase ?r = genBase r0" "csInv cs2" "cs_buf cs2 = cs_buf cs0" "cs_fullsize cs2 = cs_fullsize cs0"
    "cs_used cs0 \<le> cs_used cs2" "length (capBB ?r) = length (capBB r0)" "length (capInstr ?r) = length (capInstr r0)"
    using I cs2(2) js(1) top(1) unfolding r by (auto simp: cs2(1) csInv_def)
  moreover have "(if genOrder r @ [b] = [] then st' = [0] else hd (genOrder r @ [b]) = 0)" using calculation(7) by simp
  ultimately show ?thesis using succs(3) unfolding pass1Inv_def r(4,5,6) by (intro conjI) (rule refl | assumption)+
qed

text \<open>The successors of a generated block are put on the stack.\<close>

definition pushSuccs :: "cbb \<Rightarrow> rctx \<Rightarrow> rctx option" where
  "pushSuccs x c = (if instrIsJcc (endType x) then do {
       t \<leftarrow> nextBranch x;
       f \<leftarrow> nextFallThrough x;
       Some (pushCaptureBB (pushCaptureBB c t) f) }
     else Some c)"

lemma pushSuccs_cases:
  assumes "pushSuccs x c = Some c'"
  obtains (fail) "rc_e c' \<noteq> None"
  | (pushed) st' where "rc_e c' = rc_e c" "rc_r c' = (rc_r c)\<lparr>capStack := st'\<rparr>"
      "set (capStack (rc_r c)) \<subseteq> set st'" "succsIn (set st') x"
      "set st' \<subseteq> set (capStack (rc_r c)) \<union> (if instrIsJcc (endType x) then {the (nextBranch x), the (nextFallThrough x)} else {})"
proof (cases "instrIsJcc (endType x)")
  case False
  then show thesis using assms by (intro pushed [of "capStack (rc_r c)"]) (auto simp: pushSuccs_def succsIn_def)
next
  case True
  then obtain t f where tf: "nextBranch x = Some t" "nextFallThrough x = Some f"
    and c': "c' = pushCaptureBB (pushCaptureBB c t) f"
    using assms by (auto simp: pushSuccs_def bind_eq_Some_conv)
  show thesis
  proof (rule pushCaptureBB_cases [of c t])
    assume 1: "rc_r (pushCaptureBB c t) = (rc_r c)\<lparr>capStack := t # capStack (rc_r c)\<rparr>" "rc_e (pushCaptureBB c t) = rc_e c"
    show thesis
    proof (rule pushCaptureBB_cases [of "pushCaptureBB c t" f])
      assume 2: "rc_r (pushCaptureBB (pushCaptureBB c t) f)
          = (rc_r (pushCaptureBB c t))\<lparr>capStack := f # capStack (rc_r (pushCaptureBB c t))\<rparr>"
        "rc_e (pushCaptureBB (pushCaptureBB c t) f) = rc_e (pushCaptureBB c t)"
      show thesis
        by (rule pushed [of "f # t # capStack (rc_r c)"]) (use 1 2 c' tf True in \<open>auto simp: succsIn_def\<close>)
    qed (use fail c' in simp)
  qed (use fail c' pushCaptureBB_error in simp)
qed

lemma with_r_eq: "with_r r c = c' \<Longrightarrow> c' = with_r (rc_r c') c"
  by (auto simp: with_r_def)

lemma with_r_with_r [simp]: "with_r r (with_r r' c) = with_r r c"
  by (simp add: with_r_def)

lemma with_r_trans: "c2 = with_r (rc_r c2) c1 \<Longrightarrow> c1 = with_r (rc_r c1) c \<Longrightarrow> c2 = with_r (rc_r c2) c"
  by (metis with_r_with_r)

lemma pushCaptureBB_frame:
  assumes "rc_e (pushCaptureBB c b) = None" shows "pushCaptureBB c b = with_r (rc_r (pushCaptureBB c b)) c"
  using assms by (simp add: pushCaptureBB_def with_error_def with_r_def split: if_splits)

lemma pushSuccs_frame:
  assumes run: "pushSuccs x c = Some c'" and e: "rc_e c' = None"
  shows "c' = with_r (rc_r c') c"
proof (cases "instrIsJcc (endType x)")
  case True
  then obtain t f where c': "c' = pushCaptureBB (pushCaptureBB c t) f"
    using run by (auto simp: pushSuccs_def bind_eq_Some_conv)
  then have "rc_e (pushCaptureBB c t) = None" using pushCaptureBB_error e by blast
  then show ?thesis using with_r_trans pushCaptureBB_frame e unfolding c' by blast
qed (use run in \<open>simp add: pushSuccs_def with_r_def\<close>)

lemma genPass1_unfold:
  assumes "(case capStack (rc_r c) of
        [] \<Rightarrow> Some c
      | b # st \<Rightarrow>
          (let c = with_r ((rc_r c)\<lparr>capStack := st\<rparr>) c in
           if cbb_size (capBB (rc_r c) ! b) \<ge> 0 then g c
           else do {
             c_assert (length (genOrder (rc_r c)) < GENORDER_MAX);
             (e, r) \<leftarrow> generate ((rc_r c)\<lparr>genOrder := genOrder (rc_r c) @ [b]\<rparr>) b;
             (case e of
                Some e \<Rightarrow> do {
                  c_assert (isErrorSet e);
                  Some (c\<lparr>rc_r := r\<lparr>generatedCodeAddr := 0, generatedCodeSize := 0\<rparr>,
                          rc_e := Some (error.truncate e)\<rparr>) }
              | None \<Rightarrow> do {
                  let c = with_r r c;
                  c \<leftarrow> (if instrIsJcc (endType (capBB r ! b)) then do {
                          t \<leftarrow> nextBranch (capBB r ! b);
                          f \<leftarrow> nextFallThrough (capBB r ! b);
                          Some (pushCaptureBB (pushCaptureBB c t) f) }
                        else Some c);
                  (if rc_e c \<noteq> None then Some c
                   else do { c \<leftarrow> useCS 26 c; g c }) }) })) = Some c'"
  obtains (stop) "capStack (rc_r c) = []" "c' = c"
  | (fail) "rc_e c' \<noteq> None"
  | (skip) b st where "capStack (rc_r c) = b # st" "0 \<le> cbb_size (blk c b)" "g (with_r ((rc_r c)\<lparr>capStack := st\<rparr>) c) = Some c'"
  | (block) b st r1 c2 c3 where "capStack (rc_r c) = b # st" "cbb_size (blk c b) < 0"
      "length (genOrder (rc_r c)) < GENORDER_MAX"
      "generate ((rc_r c)\<lparr>capStack := st, genOrder := genOrder (rc_r c) @ [b]\<rparr>) b = Some (None, r1)"
      "pushSuccs (capBB r1 ! b) (with_r r1 c) = Some c2" "rc_e c2 = None" "useCS 26 c2 = Some c3" "g c3 = Some c'"
proof (cases "capStack (rc_r c)")
  case Nil
  then have "c' = c" using assms unfolding Nil by simp
  with Nil show thesis by (rule stop)
next
  case (Cons b st)
  show thesis
  proof (cases "0 \<le> cbb_size (blk c b)")
    case True
    then show thesis using assms Cons skip by (simp add: with_r_def)
  next
    case False
    define K where "K e r1 = (case e of
                Some e \<Rightarrow> do {
                  c_assert (isErrorSet e);
                  Some (c\<lparr>rc_r := r1\<lparr>generatedCodeAddr := 0, generatedCodeSize := 0\<rparr>,
                          rc_e := Some (error.truncate e)\<rparr>) }
              | None \<Rightarrow> do {
                  c \<leftarrow> pushSuccs (capBB r1 ! b) (with_r r1 c);
                  (if rc_e c \<noteq> None then Some c
                   else do { c \<leftarrow> useCS 26 c; g c }) })" for e :: "generateerror option" and r1 :: rewriter
    let ?X = "(rc_r c)\<lparr>capStack := st, genOrder := genOrder (rc_r c) @ [b]\<rparr>"
    have "do { c_assert (length (genOrder (rc_r c)) < GENORDER_MAX); (e, r1) \<leftarrow> generate ?X b; K e r1 } = Some c'"
      using assms False unfolding Cons list.case Let_def K_def pushSuccs_def
      by (simp add: with_r_def cong: if_cong option.case_cong)
    then obtain e r1 where gen: "generate ?X b = Some (e, r1)"
      and n: "length (genOrder (rc_r c)) < GENORDER_MAX" and rest: "K e r1 = Some c'"
      by (auto simp: bind_eq_Some_conv)
    note rest = rest [unfolded K_def]
    show thesis
    proof (cases e)
      case (Some e)
      then show thesis using rest by (intro fail) (auto simp: bind_eq_Some_conv)
    next
      case None
      then obtain c2 where c2: "pushSuccs (capBB r1 ! b) (with_r r1 c) = Some c2"
        and e2: "(if rc_e c2 \<noteq> None then Some c2 else do { c \<leftarrow> useCS 26 c2; g c }) = Some c'"
        using rest by (auto simp: bind_eq_Some_conv)
      show thesis
      proof (cases "rc_e c2")
        case None
        then obtain c3 where "useCS 26 c2 = Some c3" "g c3 = Some c'" using e2 by (auto simp: bind_eq_Some_conv)
        then show thesis using block [OF Cons _ n _ c2] gen False None \<open>e = None\<close> by simp
      qed (use fail e2 in simp)
    qed
  qed
qed

text \<open>The whole pass.\<close>

lemma genPass1_inv:
  fixes c c' :: rctx
  assumes run: "genPass1 c = Some c'" and graph: "closedGraph r0" "freshBlocks r0"
    and start: "pass1Inv r0 cs0 cs (rc_r c)" "rc_e c = None"
  shows "rc_e c' = None \<longrightarrow> (\<exists>cs'. pass1Inv r0 cs0 cs' (rc_r c')) \<and> capStack (rc_r c') = [] \<and> c' = with_r (rc_r c') c"
proof -
  have "\<forall>cs. pass1Inv r0 cs0 cs (rc_r c) \<longrightarrow> rc_e c = None \<longrightarrow> rc_e c' = None \<longrightarrow>
      (\<exists>cs'. pass1Inv r0 cs0 cs' (rc_r c')) \<and> capStack (rc_r c') = [] \<and> c' = with_r (rc_r c') c"
  proof (rule genPass1.raw_induct [OF _ run], intro allI impI)
    fix g :: "rctx \<Rightarrow> rctx option" and c c' :: rctx and cs
    assume IH: "\<And>d d'. g d = Some d' \<Longrightarrow> \<forall>cs. pass1Inv r0 cs0 cs (rc_r d) \<longrightarrow> rc_e d = None \<longrightarrow> rc_e d' = None \<longrightarrow>
      (\<exists>cs'. pass1Inv r0 cs0 cs' (rc_r d')) \<and> capStack (rc_r d') = [] \<and> d' = with_r (rc_r d') d"
      and inv: "pass1Inv r0 cs0 cs (rc_r c)" and e: "rc_e c = None" "rc_e c' = None"
    let ?goal = "(\<exists>cs'. pass1Inv r0 cs0 cs' (rc_r c')) \<and> capStack (rc_r c') = [] \<and> c' = with_r (rc_r c') c"
    assume "(case capStack (rc_r c) of
        [] \<Rightarrow> Some c
      | b # st \<Rightarrow>
          (let c = with_r ((rc_r c)\<lparr>capStack := st\<rparr>) c in
           if cbb_size (capBB (rc_r c) ! b) \<ge> 0 then g c
           else do {
             c_assert (length (genOrder (rc_r c)) < GENORDER_MAX);
             (e, r) \<leftarrow> generate ((rc_r c)\<lparr>genOrder := genOrder (rc_r c) @ [b]\<rparr>) b;
             (case e of
                Some e \<Rightarrow> do {
                  c_assert (isErrorSet e);
                  Some (c\<lparr>rc_r := r\<lparr>generatedCodeAddr := 0, generatedCodeSize := 0\<rparr>,
                          rc_e := Some (error.truncate e)\<rparr>) }
              | None \<Rightarrow> do {
                  let c = with_r r c;
                  c \<leftarrow> (if instrIsJcc (endType (capBB r ! b)) then do {
                          t \<leftarrow> nextBranch (capBB r ! b);
                          f \<leftarrow> nextFallThrough (capBB r ! b);
                          Some (pushCaptureBB (pushCaptureBB c t) f) }
                        else Some c);
                  (if rc_e c \<noteq> None then Some c
                   else do { c \<leftarrow> useCS 26 c; g c }) }) })) = Some c'"
    then show ?goal
    proof (cases rule: genPass1_unfold)
      case stop
      then show ?thesis using inv by (auto simp: with_r_def)
    next
      case fail
      then show ?thesis using e(2) by simp
    next
      case (skip b st)
      let ?d = "with_r ((rc_r c)\<lparr>capStack := st\<rparr>) c"
      have "pass1Inv r0 cs0 cs (rc_r ?d)" using pass1_skip [OF inv skip(1,2)] by (simp add: with_r_def)
      then show ?thesis using IH [OF skip(3)] e by (auto simp: with_r_def)
    next
      case (block b st r1 c2 c3)
      obtain cs1 p cs2 where cs: "r_cs (rc_r c2) = Some cs1" "useCodeStorage cs1 26 = Some (p, cs2)"
        and c3: "c3 = with_r ((rc_r c2)\<lparr>r_cs := Some cs2\<rparr>) c2"
        using block(7) by (auto simp: useCS_def bind_eq_Some_conv)
      from block(5) show ?thesis
      proof (cases rule: pushSuccs_cases)
        case fail
        then show ?thesis using block(6) by simp
      next
        case (pushed st')
        have b: "b < length (capBB r0)" "length (capBB (rc_r c)) = length (capBB r0)" "set st \<subseteq> {..<length (capBB r0)}"
          using inv block(1) by (auto simp: pass1Inv_def)
        note ok = pass1_blockOk [OF inv graph(1) b(1)]
        note fr = generate_frame [OF block(4), simplified, OF ok(1)]
        have len: "capStack r1 = st" "endType (capBB r1 ! b) = endType (capBB r0 ! b)"
            "nextBranch (capBB r1 ! b) = nextBranch (capBB r0 ! b)"
            "nextFallThrough (capBB r1 ! b) = nextFallThrough (capBB r0 ! b)"
          using fr b sizedAs_sel [OF ok(2)] by simp_all
        have fin: "finishedBlock r0 (capBB r0 ! b)" using graph(1) b(1) by (simp add: closedGraph_def)
        have sub: "set st' \<subseteq> {..<length (capBB r0)}"
          using pushed(5) b(3) fin by (auto simp: len with_r_def finishedBlock_def instrIsJcc_def split: if_splits)
        have "pass1Inv r0 cs0 cs2 (r1\<lparr>capStack := st', r_cs := Some cs2\<rparr>)"
          by (rule pass1_block [OF inv block(1,2) graph block(4) _ cs(2) pushed(4) _ sub])
            (use cs(1) pushed(2,3) len in \<open>simp_all add: with_r_def\<close>)
        then have "pass1Inv r0 cs0 cs2 (rc_r c3)" using pushed(2) by (simp add: c3 with_r_def)
        moreover have f: "c2 = with_r (rc_r c2) c"
          using pushSuccs_frame [OF block(5,6)] with_r_trans [OF _ with_r_eq [OF refl]] by (metis with_r_with_r)
        then have fr3: "c3 = with_r (rc_r c3) c" unfolding c3 by (metis with_r_eq with_r_with_r)
        moreover have "rc_e c3 = None" using block(6) by (simp add: c3 with_r_def)
        ultimately show ?thesis using IH [OF block(8)] e(2) with_r_trans [OF _ fr3] by blast
      qed
    qed
  qed
  then show ?thesis using start by blast
qed

end
