(* ===== verification/JumpRoundTrip.thy ===== *)
theory JumpRoundTrip
  imports GenRoundTrip Engine
begin

text \<open>
  The jumps with which the engine links the generated blocks decode to jumps to the address they
  were made for: a conditional jump with a displacement of one or four bytes, and a jump with
  four.
\<close>

section \<open>Displacements\<close>

text \<open>The target can be reached by a displacement of four bytes from an address.\<close>

definition near :: "u64 \<Rightarrow> u64 \<Rightarrow> bool" where
  "near t a \<longleftrightarrow> - (2 ^ 31) \<le> sint (t - a) \<and> sint (t - a) < 2 ^ 31"

lemma asInt_near: "near t a \<Longrightarrow> asInt (t - a) = sint (t - a)"
  using sint_ucast_self [where 'b = 32, of "t - a"] by (simp add: near_def asInt_def)

lemma rel8_target:
  assumes "near t a" and "-128 \<le> asInt (t - a)" "asInt (t - a) < 128"
  shows "a + sext8 (ucast (of_int (asInt (t - a)) :: u8)) = t"
proof -
  have "(of_int (asInt (t - a)) :: u8) = ucast (t - a)"
    unfolding asInt_near [OF assms(1)] by transfer (simp add: take_bit_signed_take_bit)
  moreover have "sext8 (ucast (ucast (t - a) :: u8)) = sext8 (t - a)" 
    using sext_trunc(1) [of "t - a"] by (simp add: trunc8_def)
  moreover have "sext8 (t - a) = t - a" using assms by (intro sext_self) (simp_all add: asInt_near)
  ultimately show ?thesis by simp
qed

lemma rel32_target: "near t a \<Longrightarrow> a + sext32 (trunc32 (t - a)) = t"
  using sext_self(3) [of "t - a"] by (simp add: near_def)

section \<open>Decoding\<close>

text \<open>An opcode without prefixes.\<close>

lemma plain_prefixes:
  assumes "opcodeByte (d_mem d (d_ptr d))" and "\<not> isErrorSet (d_err d)"
  shows "decodePrefixes d = Some (startInstr d)"
proof -
  have "decodePrefixLoop (startInstr d) = Some (startInstr d)"
    by (rule decodePrefixLoop_bytes [of "[]" _ _ "d_mem d (d_ptr d)"]) (use assms in \<open>simp_all add: startInstr_def\<close>)
  then show ?thesis using assms(2) by (simp add: decodePrefixes_def isErrorSet_def)
qed

definition jumpTo :: "instrtype \<Rightarrow> u64 \<Rightarrow> instr \<Rightarrow> bool" where
  "jumpTo it t i \<longleftrightarrow> itype i = it \<and> iform i = OF_1 \<and> otype (idst i) = OT_Imm64 \<and> oval (idst i) = t"

lemma jccNumber_cases:
  assumes "jccNumber it = Some n"
  obtains k where "it = IT_J k" "n < 16" "cond_list ! n = k" "jcc_list ! n = IT_J k"
  using assms by (auto simp: jccNumber_def cond_list_def jcc_list_def split: instrtype.splits cond.splits)

lemma jcc_rows:
  assumes tb: "initDecodeTables = Some tb" and n: "jccNumber it = Some n"
  shows "lookupOpc tb (TAB, 0x70 + n, OT_Single, 0) = Some (IT_None, VT_Def, decode_70, None, None)"
    and "lookupOpc tb (TAB_0F, 0x80 + n, OT_Single, 0) = Some (IT_None, VT_Def, decode0F_80, None, None)"
proof -
  obtain k where k: "it = IT_J k" by (rule jccNumber_cases [OF n])
  show "lookupOpc tb (TAB, 0x70 + n, OT_Single, 0) = Some (IT_None, VT_Def, decode_70, None, None)"
    using n by (intro lookup_TAB [OF tb]; cases k) (auto simp: jccNumber_def k rowsTAB)
  show "lookupOpc tb (TAB_0F, 0x80 + n, OT_Single, 0) = Some (IT_None, VT_Def, decode0F_80, None, None)"
    using n by (intro lookup_0F [OF tb]; cases k) (auto simp: jccNumber_def k rows0F)
qed

lemma jmp_row:
  assumes tb: "initDecodeTables = Some tb"
  shows "lookupOpc tb (TAB, 0xE9, OT_Single, 0) = Some (IT_None, VT_Def, decode_E9, None, None)"
  by (rule lookup_TAB [OF tb], simp add: rowsTAB)

text \<open>Appending the jump.\<close>

lemma addU_ii_implicit:
  assumes r: "roomy c" and p: "otype p = OT_Imm64"
  shows "\<exists>i c'. do { c \<leftarrow> addU_ii it p c; setIIvtype VT_Implicit c } = Some c'
     \<and> newInstr c c' i \<and> jumpTo it (oval p) i"
proof -
  have a: "copyOperand op0 p = Some (op0\<lparr>otype := OT_Imm64, oval := oval p\<rparr>)"
    using p by (simp add: copyOperand_def opIsImm_def)
  let ?i = "(freshInstr c)\<lparr>itype := it, iform := OF_1, idst := op0\<lparr>otype := OT_Imm64, oval := oval p\<rparr>, ivtype := VT_Implicit\<rparr>"
  have "do { c \<leftarrow> addU_ii it p c; setIIvtype VT_Implicit c }
      = Some (c\<lparr>d_ii := Some (decInstrCount c), d_r := (d_r c)\<lparr>decInstr := decInstr (d_r c) @ [?i]\<rparr>\<rparr>)"
    using a by (simp add: addU_ii_def addUnaryOp_def nextInstrForDContext_room [OF r] setDecInstr_last setIIvtype_def)
      (simp add: setDecInstr_def)
  moreover have "newInstr c (c\<lparr>d_ii := Some (decInstrCount c), d_r := (d_r c)\<lparr>decInstr := decInstr (d_r c) @ [?i]\<rparr>\<rparr>) ?i"
    by (simp add: newInstr_def)
  moreover have "jumpTo it (oval p) ?i" by (simp add: jumpTo_def)
  ultimately show ?thesis by blast
qed

lemma newInstr_exit: "newInstr c c' i \<Longrightarrow> newInstr c (c'\<lparr>d_exit := x\<rparr>) i"
  by (simp add: newInstr_def)

text \<open>A context between the operands and the end of an instruction of \<open>n\<close> bytes at \<open>d\<close>.\<close>

definition jumpRead :: "dctx \<Rightarrow> nat \<Rightarrow> u64 \<Rightarrow> dctx \<Rightarrow> bool" where
  "jumpRead d n t c \<longleftrightarrow> d_r c = d_r d \<and> d_err c = d_err d \<and> d_f c = d_f d \<and> d_off c = d_off d + n
     \<and> d_iaddr c = d_ptr d \<and> otype (o1 c) = OT_Imm64 \<and> oval (o1 c) = t"

lemma jcc_appends:
  assumes rd: "ready d" and c: "jumpRead d n t c" and n: "n < 2 ^ 64"
    and st: "decodeStep tb d = do { c \<leftarrow> addU_ii it (o1 c) c; c \<leftarrow> setIIvtype VT_Implicit c; Some (c\<lparr>d_exit := True\<rparr>) }"
  shows "decodesAs tb d n (jumpTo it t)"
proof -
  have "roomy c" using rd c by (simp add: ready_def roomy_def jumpRead_def)
  moreover have "otype (o1 c) = OT_Imm64" using c by (simp add: jumpRead_def)
  ultimately obtain i c' where c': "do { c \<leftarrow> addU_ii it (o1 c) c; setIIvtype VT_Implicit c } = Some c'"
      and i: "newInstr c c' i" "jumpTo it (oval (o1 c)) i" using addU_ii_implicit by blast
  have "decodeStep tb d = do { c \<leftarrow> do { c \<leftarrow> addU_ii it (o1 c) c; setIIvtype VT_Implicit c }; Some (c\<lparr>d_exit := True\<rparr>) }"
    unfolding st by (simp add: bind_assoc)
  then have "decodeStep tb d = Some (c'\<lparr>d_exit := True\<rparr>)" by (simp add: c')
  then show ?thesis using c i(2) n
    by (intro decodesAs_new [OF _ newInstr_exit [OF i(1)], where n = n]) (simp_all add: jumpRead_def)
qed

lemma jmp_appends:
  assumes rd: "ready d" and c: "jumpRead d n t c" and n: "n < 2 ^ 64"
    and st: "decodeStep tb d = do { c \<leftarrow> addU it (o1 c) c; Some (c\<lparr>d_exit := True\<rparr>) }"
  shows "decodesAs tb d n (jumpTo it t)"
proof -
  have "roomy c" using rd c by (simp add: ready_def roomy_def jumpRead_def)
  moreover have "copyOperand op0 (o1 c) = Some (op0\<lparr>otype := OT_Imm64, oval := t\<rparr>)"
    using c by (simp add: copyOperand_def opIsImm_def jumpRead_def)
  ultimately obtain c' i where c': "addU it (o1 c) c = Some c'" "newInstr c c' i"
      "unInstr it (op0\<lparr>otype := OT_Imm64, oval := t\<rparr>) i" using addU_new by blast
  then have "decodeStep tb d = Some (c'\<lparr>d_exit := True\<rparr>)" by (simp add: st)
  moreover have "jumpTo it t i" using c'(3) by (simp add: unInstr_def jumpTo_def)
  ultimately show ?thesis using c n
    by (intro decodesAs_new [OF _ newInstr_exit [OF c'(2)], where n = n]) (simp_all add: jumpRead_def)
qed

text \<open>The three forms of a jump.\<close>

lemma opcode_context:
  assumes rd: "ready d" and m: "d_mem d (d_ptr d) = of_nat k" and k: "k < 256" "k \<noteq> 0x0F" "opcodeByte (of_nat k)"
    and look: "lookupOpc tb (TAB, k, OT_Single, 0) = Some (it, vt, h, None, None)"
  shows "\<exists>c. decodeStep tb d = h c \<and> d_r c = d_r d \<and> d_err c = d_err d \<and> d_f c = d_f d \<and> d_off c = d_off d + 1
    \<and> d_iaddr c = d_ptr d \<and> opc1 c = int k"
proof -
  let ?c = "startInstr d" and ?e = "withEntry it vt ((skip_bytes 1 (startInstr d))\<lparr>opc1 := int k\<rparr>)"
  have v: "d_vex ?c = VEX_No" "d_mem ?c (d_ptr ?c) = of_nat k" using m by (simp_all add: startInstr_def)
  have "decodePrefixes d = Some ?c" by (rule plain_prefixes) (use m rd k in \<open>simp_all add: ready_def\<close>)
  moreover have "decodeOpcode tb ?c = h ?e"
    using decodeOpcode_one [OF v k(1,2), of tb] processOpc_single [OF look] by (simp add: runHandlers_one)
  ultimately have "decodeStep tb d = h ?e" by (simp add: decodeStep_def)
  moreover have "d_r ?e = d_r d \<and> d_err ?e = d_err d \<and> d_f ?e = d_f d \<and> d_off ?e = d_off d + 1
    \<and> d_iaddr ?e = d_ptr d \<and> opc1 ?e = int k"
    by (simp add: withEntry_def skip_bytes_def startInstr_def)
  ultimately show ?thesis by blast
qed

lemma opcode_context2:
  assumes rd: "ready d" and m: "d_mem d (d_ptr d) = 0x0F" "d_mem d (d_ptr d + 1) = of_nat k" and k: "k < 256"
    and look: "lookupOpc tb (TAB_0F, k, OT_Single, 0) = Some (it, vt, h, None, None)"
  shows "\<exists>c. decodeStep tb d = h c \<and> d_r c = d_r d \<and> d_err c = d_err d \<and> d_f c = d_f d \<and> d_off c = d_off d + 2
    \<and> d_iaddr c = d_ptr d \<and> opc2 c = int k"
proof -
  let ?c = "startInstr d"
  let ?e = "withEntry it vt ((skip_bytes 1 ((skip_bytes 1 ?c)\<lparr>opc1 := 0x0F\<rparr>))\<lparr>opc2 := int k\<rparr>)"
  have v: "d_vex ?c = VEX_No" "d_mem ?c (d_ptr ?c) = 0x0F" "d_mem ?c (d_ptr ?c + 1) = of_nat k"
    using m by (simp_all add: startInstr_def)
  have "decodePrefixes d = Some ?c" by (rule plain_prefixes) (use m rd in \<open>simp_all add: ready_def opcodeByte_def\<close>)
  moreover have "decodeOpcode tb ?c = h ?e"
    using decodeOpcode_two [OF v k, of tb] processOpc_single [OF look] by (simp add: runHandlers_one)
  ultimately have "decodeStep tb d = h ?e" by (simp add: decodeStep_def)
  moreover have "d_r ?e = d_r d \<and> d_err ?e = d_err d \<and> d_f ?e = d_f d \<and> d_off ?e = d_off d + 2
    \<and> d_iaddr ?e = d_ptr d \<and> opc2 ?e = int k"
    by (simp add: withEntry_def skip_bytes_def startInstr_def)
  ultimately show ?thesis by blast
qed

lemma jcc8_decodes:
  assumes tb: "initDecodeTables = Some tb" and rd: "ready d" and n: "jccNumber it = Some n"
    and m: "bytes_at (d_mem d) (d_ptr d) [0x70 + of_nat n, b]"
    and t: "d_ptr d + 2 + sext8 (ucast b) = t"
  shows "decodesAs tb d 2 (jumpTo it t)"
proof -
  obtain k where k: "it = IT_J k" "n < 16" "cond_list ! n = k" by (rule jccNumber_cases [OF n])
  have op: "opcodeByte (of_nat (0x70 + n))" using n by (cases k) (auto simp: jccNumber_def k(1) opcodeByte_def)
  obtain c0 where st: "decodeStep tb d = decode_70 c0" and c0: "d_r c0 = d_r d" "d_err c0 = d_err d" "d_f c0 = d_f d"
      "d_off c0 = d_off d + 1" "d_iaddr c0 = d_ptr d" "opc1 c0 = int (0x70 + n)"
    using opcode_context [OF rd _ _ _ op jcc_rows(1) [OF tb n]] m k(2) by auto
  let ?c1 = "(rel8_o1 c0)\<lparr>d_it := it\<rparr>"
  have p: "d_ptr c0 = d_ptr d + 1" "d_mem c0 = d_mem d" by (simp_all add: c0)
  have "oval (o1 (rel8_o1 c0)) = d_ptr c0 + 1 + sext8 (rd8 (d_mem c0) (d_ptr c0))"
    by (simp add: rel8_o1_def skip_bytes_def)
  also have "\<dots> = t" using m t unfolding p by (simp add: rd8_def ac_simps)
  finally have "jumpRead d 2 t ?c1" by (simp add: jumpRead_def rel8_o1_def skip_bytes_def c0)
  moreover have "opcCond 0x70 (opc1 (rel8_o1 c0)) = Some k"
    using k(2,3) by (simp add: opcCond_def rel8_o1_def skip_bytes_def c0)
  then have s: "decodeStep tb d = do { c \<leftarrow> addU_ii it (o1 ?c1) ?c1; c \<leftarrow> setIIvtype VT_Implicit c; Some (c\<lparr>d_exit := True\<rparr>) }"
    by (simp add: st decode_70_def Let_def k(1))
  ultimately show ?thesis by (intro jcc_appends [OF rd _ _ s]) simp_all
qed

lemma jcc32_decodes:
  assumes tb: "initDecodeTables = Some tb" and rd: "ready d" and n: "jccNumber it = Some n"
    and m: "bytes_at (d_mem d) (d_ptr d) ([0x0F, 0x80 + of_nat n] @ le32 v)"
    and t: "d_ptr d + 6 + sext32 (trunc32 v) = t"
  shows "decodesAs tb d 6 (jumpTo it t)"
proof -
  obtain k where k: "it = IT_J k" "n < 16" "cond_list ! n = k" "jcc_list ! n = it"
    by (rule jccNumber_cases [OF n]) blast
  obtain c0 where st: "decodeStep tb d = decode0F_80 c0" and c0: "d_r c0 = d_r d" "d_err c0 = d_err d" "d_f c0 = d_f d"
      "d_off c0 = d_off d + 2" "d_iaddr c0 = d_ptr d" "opc2 c0 = int (0x80 + n)"
    using opcode_context2 [OF rd _ _ _ jcc_rows(2) [OF tb n]] m k(2) by auto
  let ?c1 = "(rel32_o1 c0)\<lparr>d_it := it\<rparr>"
  have p: "d_ptr c0 = d_ptr d + 2" "d_mem c0 = d_mem d" by (simp_all add: c0)
  have b: "rd32 (d_mem c0) (d_ptr c0) = trunc32 v"
    unfolding p by (rule rd32_bytes_at) (use m in \<open>simp add: ac_simps\<close>)
  have "oval (o1 (rel32_o1 c0)) = d_ptr c0 + 4 + sext32 (rd32 (d_mem c0) (d_ptr c0))"
    by (simp add: rel32_o1_def skip_bytes_def)
  also have "\<dots> = t" using t unfolding b unfolding p by (simp add: ac_simps)
  finally have "jumpRead d 6 t ?c1" by (simp add: jumpRead_def rel32_o1_def skip_bytes_def c0)
  moreover have "opcCond 0x80 (opc2 (rel32_o1 c0)) = Some k"
    using k(2,3) by (simp add: opcCond_def rel32_o1_def skip_bytes_def c0)
  moreover have "jcc_list ! nat (opc2 (rel32_o1 c0) mod 16) = it"
  proof -
    have "(0x80 + n) mod 16 = n" using k(2) by presburger
    then have "nat (int (0x80 + n) mod 16) = n" by (metis nat_int of_nat_numeral zmod_int)
    then show ?thesis using k(4) by (simp add: rel32_o1_def skip_bytes_def c0)
  qed
  ultimately have s: "jumpRead d 6 t ?c1" "decodeStep tb d = do { c \<leftarrow> addU_ii it (o1 ?c1) ?c1;
      c \<leftarrow> setIIvtype VT_Implicit c; Some (c\<lparr>d_exit := True\<rparr>) }"
    by (simp_all add: st decode0F_80_def Let_def)
  show ?thesis by (rule jcc_appends [OF rd s(1) _ s(2)]) simp
qed

lemma jmp_decodes:
  assumes tb: "initDecodeTables = Some tb" and rd: "ready d"
    and m: "bytes_at (d_mem d) (d_ptr d) (0xE9 # le32 v)" and t: "d_ptr d + 5 + sext32 (trunc32 v) = t"
  shows "decodesAs tb d 5 (jumpTo IT_JMP t)"
proof -
  obtain c0 where st: "decodeStep tb d = decode_E9 c0" and c0: "d_r c0 = d_r d" "d_err c0 = d_err d" "d_f c0 = d_f d"
      "d_off c0 = d_off d + 1" "d_iaddr c0 = d_ptr d"
    using opcode_context [OF rd _ _ _ _ jmp_row [OF tb]] m by (auto simp: opcodeByte_def)
  have p: "d_ptr c0 = d_ptr d + 1" "d_mem c0 = d_mem d" by (simp_all add: c0)
  have b: "rd32 (d_mem c0) (d_ptr c0) = trunc32 v"
    unfolding p by (rule rd32_bytes_at) (use m in \<open>simp add: ac_simps\<close>)
  have "oval (o1 (rel32_o1 c0)) = d_ptr c0 + 4 + sext32 (rd32 (d_mem c0) (d_ptr c0))"
    by (simp add: rel32_o1_def skip_bytes_def)
  also have "\<dots> = t" using t unfolding b unfolding p by (simp add: ac_simps)
  finally have "jumpRead d 5 t (rel32_o1 c0)" by (simp add: jumpRead_def rel32_o1_def skip_bytes_def c0)
  then show ?thesis by (rule jmp_appends [OF rd]) (simp_all add: st decode_E9_def Let_def)
qed

section \<open>The linker's jumps\<close>

lemma jccBytes_decodes:
  assumes tb: "initDecodeTables = Some tb" and bs: "jccBytes x t a = Some bs"
    and nr: "near t (a + of_nat (length bs))"
    and rd: "ready d" and m: "d_ptr d = a" "bytes_at (d_mem d) a bs"
  shows "decodesAs tb d (length bs) (jumpTo (endType x) t)"
proof -
  obtain n where n: "jccNumber (endType x) = Some n" using bs by (auto simp: jccBytes_def bind_eq_Some_conv)
  show ?thesis
  proof (cases "genJcc8 x")
    case True
    then have b: "bs = [0x70 + of_nat n, of_int (asInt (t - (a + 2)))]"
      and r: "-128 < asInt (t - (a + 2))" "asInt (t - (a + 2)) < 127"
      using bs n by (auto simp: jccBytes_def bind_eq_Some_conv Let_def)
    have "d_ptr d + 2 + sext8 (ucast (of_int (asInt (t - (a + 2))) :: u8)) = t"
      unfolding m(1) by (rule rel8_target) (use nr r in \<open>simp_all add: b\<close>)
    from jcc8_decodes [OF tb rd n _ this] m show ?thesis by (simp add: b numeral_2_eq_2 [symmetric])
  next
    case False
    then have b: "bs = [0x0F, 0x80 + of_nat n] @ le32 (t - (a + 6))"
      using bs n by (simp add: jccBytes_def)
    have "d_ptr d + 6 + sext32 (trunc32 (t - (a + 6))) = t"
      unfolding m(1) by (rule rel32_target) (use nr in \<open>simp add: b\<close>)
    from jcc32_decodes [OF tb rd n _ this] m show ?thesis by (simp add: b)
  qed
qed

lemma jumpBytes_decodes:
  assumes tb: "initDecodeTables = Some tb" and g: "genJump x" and nr: "near t (a + 5)"
    and rd: "ready d" and m: "d_ptr d = a" "bytes_at (d_mem d) a (jumpBytes x t a)"
  shows "decodesAs tb d 5 (jumpTo IT_JMP t)"
proof -
  have "d_ptr d + 5 + sext32 (trunc32 (t - (a + 5))) = t" unfolding m(1) by (rule rel32_target [OF nr])
  from jmp_decodes [OF tb rd _ this] m g show ?thesis by (simp add: jumpBytes_def)
qed

end
