(* ===== verification/LinkedCode.thy ===== *)
theory LinkedCode
  imports GenBlocks JumpRoundTrip
begin

text \<open>
  The three passes together: the generated code. Every generated block consists of the codes of
  its captured instructions, followed by jumps that lead to the code of its successors.
\<close>

section \<open>Close addresses\<close>

lemma sub_close:
  assumes "\<bar>uint t - uint a\<bar> < 2 ^ 31"
  shows "sint (t - a :: u64) = uint t - uint a" and "near t a" and "asInt (t - a) = uint t - uint a"
proof -
  have "t - a = word_of_int (uint t - uint a)" by simp
  then have "sint (t - a) = signed_take_bit 63 (uint t - uint a)" by (simp only: sint_sbintrunc') simp
  also have "\<dots> = uint t - uint a" using assms by (intro signed_take_bit_int_eq_self) auto
  finally show s: "sint (t - a) = uint t - uint a" .
  then show n: "near t a" using assms by (auto simp: near_def)
  show "asInt (t - a) = uint t - uint a" using asInt_near [OF n] s by simp
qed

lemma bytes_at_nth: "bytes_at m a bs \<longleftrightarrow> (\<forall>i < length bs. m (a + of_nat i) = bs ! i)"
proof (induction bs arbitrary: a)
  case (Cons b bs)
  have "(\<forall>i < Suc (length bs). m (a + of_nat i) = (b # bs) ! i)
      \<longleftrightarrow> m a = b \<and> (\<forall>i < length bs. m (a + 1 + of_nat i) = bs ! i)"
    by (subst All_less_Suc2) (simp add: ac_simps)
  then show ?case using Cons by simp
qed simp

section \<open>The passes of a run\<close>

lemma useCS_result:
  assumes "useCS n c = Some c'" and "r_cs (rc_r c) = Some cs" and "csInv cs" and "0 \<le> n"
  shows "c' = with_r ((rc_r c)\<lparr>r_cs := Some (cs\<lparr>cs_used := cs_used cs + n\<rparr>)\<rparr>) c"
    and "csInv (cs\<lparr>cs_used := cs_used cs + n\<rparr>)"
  using assms by (auto simp: useCS_def useCodeStorage_def bind_eq_Some_conv csInv_def Let_def)

text \<open>What follows the first pass: the other passes, and the address and size of the code.\<close>

definition laterPasses :: "codestorage \<Rightarrow> u64 \<Rightarrow> nat \<Rightarrow> rctx \<Rightarrow> rctx option" where
  "laterPasses cs0 p k c = do {
     c_assert (length (genOrder (rc_r c)) < GENORDER_MAX);
     (buf1, c) \<leftarrow> genPass2 (drop k (genOrder (rc_r c))) (p, c);
     cs \<leftarrow> r_cs (rc_r c);
     let cs = cs\<lparr>cs_used := cs_used cs0 + uint (buf1 - p)\<rparr>;
     let c = with_r ((rc_r c)\<lparr>r_cs := Some cs\<rparr>) c;
     c \<leftarrow> genPass3 (genOrder (rc_r c)) c;
     c_assert (cs_used cs > 0);
     Some (case genOrder (rc_r c) of
         [] \<Rightarrow> with_r ((rc_r c)\<lparr>generatedCodeAddr := 0, generatedCodeSize := 0\<rparr>) c
       | b # _ \<Rightarrow> with_r ((rc_r c)\<lparr>generatedCodeAddr := addr2 (capBB (rc_r c) ! b),
           generatedCodeSize := cs_used cs - asInt (addr2 (capBB (rc_r c) ! b) - cs_buf cs)\<rparr>) c) }"

lemma generateBinary_steps:
  assumes "generateBinaryFromCaptured c = Some c'"
  obtains cs p0 ca cs0 p1 c1 where "r_cs (rc_r c) = Some cs" "reserveCodeStorage cs 0 = Some p0"
    "(if uint (p0 AND 63) > 0 then useCS (64 - uint (p0 AND 63)) c else Some c) = Some ca"
    "r_cs (rc_r ca) = Some cs0" "reserveCodeStorage cs0 0 = Some p1" "capStack (rc_r ca) = []"
    "genPass1 (pushCaptureBB ca 0) = Some c1"
    "(if rc_e c1 \<noteq> None then Some c1 else laterPasses cs0 p1 (length (genOrder (rc_r ca))) c1) = Some c'"
  using assms unfolding generateBinaryFromCaptured_def laterPasses_def Let_def
  by (auto simp: bind_eq_Some_conv [of "reserveCodeStorage _ _"] bind_eq_Some_conv [of "if _ then _ else _"]
      bind_eq_Some_conv [of "r_cs _"] bind_eq_Some_conv [of "c_assert (_ = [])"] bind_eq_Some_conv [of "c_assert (_ \<noteq> [])"]
      bind_eq_Some_conv [of "genPass1 _"])

lemma laterPasses_steps:
  assumes "laterPasses cs0 p k c1 = Some c'"
  obtains buf1 c2 cs3 c3 where "genPass2 (drop k (genOrder (rc_r c1))) (p, c1) = Some (buf1, c2)"
    "genPass3 (genOrder (rc_r c2)) (with_r ((rc_r c2)\<lparr>r_cs := Some cs3\<rparr>) c2) = Some c3"
    "genOrder (rc_r c') = genOrder (rc_r c3)" "capBB (rc_r c') = capBB (rc_r c3)" "r_mem (rc_r c') = r_mem (rc_r c3)"
    "r_func (rc_r c') = r_func (rc_r c3)"
    "genOrder (rc_r c3) \<noteq> [] \<Longrightarrow> generatedCodeAddr (rc_r c') = addr2 (blk c3 (hd (genOrder (rc_r c3))))"
proof -
  obtain buf1 c2 cs2 where c2: "genPass2 (drop k (genOrder (rc_r c1))) (p, c1) = Some (buf1, c2)" and cs2: "r_cs (rc_r c2) = Some cs2"
    and rest: "(let cs = cs2\<lparr>cs_used := cs_used cs0 + uint (buf1 - p)\<rparr>;
        c = with_r ((rc_r c2)\<lparr>r_cs := Some cs\<rparr>) c2
      in do {
        c \<leftarrow> genPass3 (genOrder (rc_r c)) c;
        c_assert (cs_used cs > 0);
        Some (case genOrder (rc_r c) of
            [] \<Rightarrow> with_r ((rc_r c)\<lparr>generatedCodeAddr := 0, generatedCodeSize := 0\<rparr>) c
          | b # _ \<Rightarrow> with_r ((rc_r c)\<lparr>generatedCodeAddr := addr2 (capBB (rc_r c) ! b),
              generatedCodeSize := cs_used cs - asInt (addr2 (capBB (rc_r c) ! b) - cs_buf cs)\<rparr>) c) }) = Some c'"
    using assms unfolding laterPasses_def
    by (auto simp: bind_eq_Some_conv [of "genPass2 _ _"] bind_eq_Some_conv [of "r_cs _"] bind_eq_Some_conv [of "c_assert _"])
  let ?cs3 = "cs2\<lparr>cs_used := cs_used cs0 + uint (buf1 - p)\<rparr>"
  obtain c3 where c3: "genPass3 (genOrder (rc_r c2)) (with_r ((rc_r c2)\<lparr>r_cs := Some ?cs3\<rparr>) c2) = Some c3"
    and c': "c' = (case genOrder (rc_r c3) of
            [] \<Rightarrow> with_r ((rc_r c3)\<lparr>generatedCodeAddr := 0, generatedCodeSize := 0\<rparr>) c3
          | b # _ \<Rightarrow> with_r ((rc_r c3)\<lparr>generatedCodeAddr := addr2 (capBB (rc_r c3) ! b),
              generatedCodeSize := cs_used ?cs3 - asInt (addr2 (capBB (rc_r c3) ! b) - cs_buf ?cs3)\<rparr>) c3)"
    using rest by (auto simp: Let_def bind_eq_Some_conv with_r_def)
  show thesis by (rule that [OF c2 c3]) (auto simp: c' with_r_def split: list.split)
qed

lemma generateBinary_passes:
  assumes run: "generateBinaryFromCaptured c = Some c'" and e: "rc_e c' = None"
    and cs: "r_cs (rc_r c) = Some cs" "csInv cs" and os: "genOrder (rc_r c) = []"
  obtains cs0 c0 c1 where "csInv cs0" "cs_fullsize cs0 = cs_fullsize cs"
    "c0 = with_r ((rc_r c)\<lparr>r_cs := Some cs0\<rparr>) c" "capStack (rc_r c) = []"
    "genPass1 (pushCaptureBB c0 0) = Some c1" "rc_e c1 = None"
    "laterPasses cs0 (cs_buf cs0 + of_int (cs_used cs0)) 0 c1 = Some c'"
  using run
proof (rule generateBinary_steps)
  fix cs' p0 ca cs0 p1 c1
  assume 1: "r_cs (rc_r c) = Some cs'" "reserveCodeStorage cs' 0 = Some p0"
    "(if uint (p0 AND 63) > 0 then useCS (64 - uint (p0 AND 63)) c else Some c) = Some ca"
    "r_cs (rc_r ca) = Some cs0" "reserveCodeStorage cs0 0 = Some p1" "capStack (rc_r ca) = []"
    and c1: "genPass1 (pushCaptureBB ca 0) = Some c1"
    and rest: "(if rc_e c1 \<noteq> None then Some c1 else laterPasses cs0 p1 (length (genOrder (rc_r ca))) c1) = Some c'"
  have "uint (p0 AND 63) = take_bit 6 (uint p0)" by (simp add: uint_and take_bit_eq_mask mask_eq_exp_minus_1)
  then have off: "uint (p0 AND 63) < 64" using take_bit_int_less_exp [of 6 "uint p0"] by simp
  have "ca = with_r ((rc_r c)\<lparr>r_cs := Some cs0\<rparr>) c \<and> csInv cs0 \<and> cs_fullsize cs0 = cs_fullsize cs"
  proof (cases "uint (p0 AND 63) > 0")
    case True
    then have u: "useCS (64 - uint (p0 AND 63)) c = Some ca" using 1(3) by simp
    show ?thesis using useCS_result [OF u cs] off 1(4) by (auto simp: with_r_def)
  next
    case False
    then have "ca = c" using 1(3) by simp
    then show ?thesis using cs 1(4) by (simp add: with_r_def)
  qed
  then have ca: "ca = with_r ((rc_r c)\<lparr>r_cs := Some cs0\<rparr>) c" "csInv cs0" "cs_fullsize cs0 = cs_fullsize cs" by blast+
  have sel: "genOrder (rc_r ca) = []" "capStack (rc_r c) = []" using os 1(6) by (simp_all add: ca(1) with_r_def)
  have p1: "p1 = cs_buf cs0 + of_int (cs_used cs0)" using 1(5) by (simp add: reserveCodeStorage_def split: if_splits)
  have e1: "rc_e c1 = None" using rest e by (cases "rc_e c1") auto
  show thesis by (rule that [OF ca(2,3,1) sel(2) c1 e1]) (use rest e1 sel(1) p1 in simp)
qed

section \<open>The generated code\<close>

text \<open>The code at \<open>a\<close> goes to \<open>t\<close> if the condition of \<open>it\<close> holds, and to \<open>f\<close> otherwise.\<close>

definition decodesFrom :: "dechandler opctables \<Rightarrow> mem \<Rightarrow> u64 \<Rightarrow> nat \<Rightarrow> (instr \<Rightarrow> bool) \<Rightarrow> bool" where
  "decodesFrom tb m a n P \<longleftrightarrow> (\<forall>d. ready d \<longrightarrow> d_mem d = m \<longrightarrow> d_ptr d = a \<longrightarrow> decodesAs tb d n P)"

definition branchesTo :: "dechandler opctables \<Rightarrow> mem \<Rightarrow> u64 \<Rightarrow> instrtype \<Rightarrow> u64 \<Rightarrow> u64 \<Rightarrow> bool" where
  "branchesTo tb m a it t f \<longleftrightarrow> (\<exists>n. decodesFrom tb m a n (jumpTo it t)
     \<and> (a + of_nat n = f \<or> decodesFrom tb m (a + of_nat n) 5 (jumpTo IT_JMP f)))"

text \<open>Block \<open>b\<close> of \<open>r\<close> is translated in \<open>r'\<close>, and its successors are among the blocks \<open>B\<close>.\<close>

definition linkedBlock :: "dechandler opctables \<Rightarrow> rewriter \<Rightarrow> rewriter \<Rightarrow> nat set \<Rightarrow> nat \<Rightarrow> bool" where
  "linkedBlock tb r r' B b \<longleftrightarrow> (\<exists>bs. codeOf (capturedInstrs (capInstr r) (capBB r ! b)) bs
     \<and> bytes_at (r_mem r') (addr2 (capBB r' ! b)) bs
     \<and> (instrIsJcc (endType (capBB r ! b)) \<longrightarrow>
         (\<exists>t f. nextBranch (capBB r ! b) = Some t \<and> nextFallThrough (capBB r ! b) = Some f \<and> t \<in> B \<and> f \<in> B
            \<and> branchesTo tb (r_mem r') (addr2 (capBB r' ! b) + of_nat (length bs)) (endType (capBB r ! b))
                (addr2 (capBB r' ! t)) (addr2 (capBB r' ! f)))))"

lemma jumpsAt_branches:
  assumes tb: "initDecodeTables = Some tb" and x: "instrIsJcc (endType x)" "nextBranch x = Some t" "nextFallThrough x = Some f"
    and js: "jumpsAt bs m x"
    and close: "\<And>k. k \<le> 11 \<Longrightarrow> near (addr2 (bs ! t)) (addr2 x + of_int (cbb_size x) + of_nat k)"
      "\<And>k. k \<le> 11 \<Longrightarrow> near (addr2 (bs ! f)) (addr2 x + of_int (cbb_size x) + of_nat k)"
    and thru: "\<not> genJump x \<Longrightarrow> addr2 (bs ! f) = addr2 x + of_int (cbb_size x + jumpRoom x)"
  shows "branchesTo tb m (addr2 x + of_int (cbb_size x)) (endType x) (addr2 (bs ! t)) (addr2 (bs ! f))"
proof -
  let ?a = "addr2 x + of_int (cbb_size x)"
  obtain j g where j: "jccBytes x (addr2 (bs ! t)) ?a = Some j"
    and g: "(if genJump x then nextFallThrough x else Some 0) = Some g"
    and at: "bytes_at m ?a (j @ jumpBytes x (addr2 (bs ! g)) (?a + of_nat (length j)))"
    using js x by (auto simp: jumpsAt_def jumpCode_def Let_def bind_eq_Some_conv)
  let ?b = "?a + of_nat (length j)"
  have len: "length j = (if genJcc8 x then 2 else 6)" by (rule jccBytes_length [OF j])
  have a: "bytes_at m ?a j" "bytes_at m ?b (jumpBytes x (addr2 (bs ! g)) ?b)" using at by (simp_all add: bytes_at_append)
  have "decodesFrom tb m ?a (length j) (jumpTo (endType x) (addr2 (bs ! t)))"
    unfolding decodesFrom_def using jccBytes_decodes [OF tb j close(1)] a(1) len by simp
  moreover have "?b = addr2 (bs ! f) \<or> decodesFrom tb m ?b 5 (jumpTo IT_JMP (addr2 (bs ! f)))"
  proof (cases "genJump x")
    case True
    then have "g = f" using g x by simp
    have "near (addr2 (bs ! f)) (?b + 5)" using close(2) [of "length j + 5"] len by (simp add: ac_simps)
    then show ?thesis unfolding decodesFrom_def using jumpBytes_decodes [OF tb True] a(2) \<open>g = f\<close> by blast
  next
    case False
    then show ?thesis using thru len x(1) by (simp add: jumpRoom_def)
  qed
  ultimately show ?thesis unfolding branchesTo_def by blast
qed

lemma linked_thru:
  assumes "linked bs bs' os" and "b \<in> set os" and "instrIsJcc (endType (bs ! b))" and "\<not> genJump (bs' ! b)"
    and "nextFallThrough (bs ! b) = Some f"
  shows "uint (addr2 (bs' ! f)) = endOf (bs' ! b)"
  using assms by (induction bs bs' os rule: linked.induct) (auto simp: jumpsChosen_def)

lemma sorted_wrt_pair: "sorted_wrt R xs \<Longrightarrow> a \<in> set xs \<Longrightarrow> b \<in> set xs \<Longrightarrow> a = b \<or> R a b \<or> R b a"
  by (induction xs) auto

text \<open>What the first pass leaves, and what the other two make of it.\<close>

lemma pass1_complete:
  assumes inv: "pass1Inv r0 cs0 cs r" and st: "capStack r = []" and b: "b \<in> set (genOrder r)"
  shows "b < length (capBB r)" "sizedAs (capBB r0 ! b) (capBB r ! b)" "codeAt r0 r b" "0 \<le> cbb_size (capBB r ! b)"
    "succsIn (set (genOrder r)) (capBB r ! b)"
    "uint (cs_buf cs0) + cs_used cs0 \<le> uint (addr1 (capBB r ! b))"
    "uint (addr1 (capBB r ! b)) + cbb_size (capBB r ! b) + 26 \<le> uint (cs_buf cs0) + cs_fullsize cs0"
proof -
  note I = inv [unfolded pass1Inv_def]
  show b': "b < length (capBB r)" using I b by (auto simp: laidOut_def)
  show "uint (addr1 (capBB r ! b)) + cbb_size (capBB r ! b) + 26 \<le> uint (cs_buf cs0) + cs_fullsize cs0"
    using I b by (fastforce simp: csInv_def)
  show "sizedAs (capBB r0 ! b) (capBB r ! b)" "codeAt r0 r b" "0 \<le> cbb_size (capBB r ! b)"
    "succsIn (set (genOrder r)) (capBB r ! b)"
    "uint (cs_buf cs0) + cs_used cs0 \<le> uint (addr1 (capBB r ! b))"
    using I b b' st by auto
qed

lemma linked_blocks:
  assumes inv: "pass1Inv r0 cs0 cs1 (rc_r c1)" and st: "capStack (rc_r c1) = []" and os: "os = genOrder (rc_r c1)"
    and cs0: "csInv cs0" "cs_fullsize cs0 < 2 ^ 31" and tb: "initDecodeTables = Some tb"
    and p2: "genPass2 os (cs_buf cs0 + of_int (cs_used cs0), c1) = Some (buf1, c2)"
    and p3: "genPass3 os (with_r ((rc_r c2)\<lparr>r_cs := cs3\<rparr>) c2) = Some c3" and b: "b \<in> set os"
  shows "linkedBlock tb r0 (rc_r c3) (set os) b"
proof -
  let ?buf = "cs_buf cs0 + of_int (cs_used cs0)" and ?bs = "capBB (rc_r c1)" and ?bs' = "capBB (rc_r c2)"
  note C = pass1_complete [OF inv st, folded os]
  have top: "0 \<le> cs_used cs0" "uint (cs_buf cs0) + cs_fullsize cs0 \<le> 2 ^ 64" using cs0(1) by (auto simp: csInv_def)
  have "0 \<le> cbb_size (?bs ! b)" "uint (cs_buf cs0) + cs_used cs0 + cbb_size (?bs ! b) + 26 \<le> 2 ^ 64"
    using C(4,6,7) [OF b] top by simp_all
  then have buf: "uint ?buf = uint (cs_buf cs0) + cs_used cs0"
    using top by (intro uint_plus_of_int) simp_all
  have lo: "laidOut ?bs os" using inv os by (simp add: pass1Inv_def)
  have "placed os ?buf c1 buf1 c2 \<and> (\<forall>b \<in> set os. 0 \<le> moved (blk c2 b))"
    by (rule genPass2_placed [OF p2 lo, of 0]) (use C(6) buf in auto)
  then have P: "placed os ?buf c1 buf1 c2" and mv: "\<And>a. a \<in> set os \<Longrightarrow> 0 \<le> moved (blk c2 a)" by blast+
  note P = P [unfolded placed_def]
  have mt: "movedTo (?bs ! a) (addr2 (?bs' ! a)) (?bs' ! a)" if "a \<in> set os" for a using P that by blast
  note ms = movedTo_sel [OF mt]
  have inside: "uint (cs_buf cs0) \<le> uint (addr2 (?bs' ! a))" "uint (addr2 (?bs' ! a)) + cbb_size (?bs' ! a) + 26 \<le> uint (cs_buf cs0) + cs_fullsize cs0"
      "0 \<le> cbb_size (?bs' ! a)" "endOf (?bs' ! a) < 2 ^ 64"
    if "a \<in> set os" for a
    using P that buf top C(4,7) [OF that] mv [OF that] ms(2,3) [OF that] jumpRoom_bounds(2) [of "?bs' ! a"]
    by (auto simp: moved_def endOf_def)
  have sorted: "sorted_wrt (\<lambda>a b. endOf (?bs' ! a) \<le> uint (addr2 (?bs' ! b))) os"
    by (rule sorted_wrt_mono_rel [of os "packed ?bs'"]) (use P in \<open>simp_all add: packed_def\<close>)
  let ?c2 = "with_r ((rc_r c2)\<lparr>r_cs := cs3\<rparr>) c2"
  have c2: "capBB (rc_r ?c2) = ?bs'" "r_mem (rc_r ?c2) = r_mem (rc_r c2)" by (simp_all add: with_r_def)
  have J: "c3 = with_r ((rc_r ?c2)\<lparr>r_mem := r_mem (rc_r c3)\<rparr>) ?c2"
    "\<And>a. a \<in> set os \<Longrightarrow> jumpsAt ?bs' (r_mem (rc_r c3)) (?bs' ! a)"
    "\<And>p. \<forall>a \<in> set os. uint p \<notin> jumpArea (?bs' ! a) \<Longrightarrow> r_mem (rc_r c3) p = r_mem (rc_r c2) p"
    using genPass3_jumps [OF p3] inside(3,4) sorted unfolding c2 by blast+
  have bs3: "capBB (rc_r c3) = ?bs'" by (subst J(1)) (simp add: with_r_def)
  obtain bs where bs: "codeOf (capturedInstrs (capInstr r0) (capBB r0 ! b)) bs" "cbb_size (?bs ! b) = int (length bs)"
    "bytes_at (r_mem (rc_r c1)) (addr1 (?bs ! b)) bs" using C(3) [OF b] unfolding codeAt_def by blast
  let ?x = "?bs' ! b"
  have size: "cbb_size ?x = int (length bs)" using ms(3) [OF b] bs(2) by simp
  have at: "bytes_at (r_mem (rc_r c3)) (addr2 ?x) bs" unfolding bytes_at_nth
  proof (intro allI impI)
    fix i assume i: "i < length bs"
    have u: "uint (addr2 ?x + of_nat i) = uint (addr2 ?x) + int i"
      by (rule uint_plus_of_nat) (use i size inside(2) [OF b] top in simp)
    have "uint (addr2 ?x + of_nat i) \<notin> jumpArea (?bs' ! a)" if "a \<in> set os" for a
      using sorted_wrt_pair [OF sorted that b] i size inside(3) [OF that] jumpRoom_bounds(1) [of ?x]
      by (auto simp: jumpArea_def u endOf_def)
    then have "r_mem (rc_r c3) (addr2 ?x + of_nat i) = r_mem (rc_r c2) (addr2 ?x + of_nat i)" using J(3) by blast
    also have "\<dots> = r_mem (rc_r c1) (addr1 (?bs ! b) + of_nat i)" using P b bs(2) i by auto
    finally show "r_mem (rc_r c3) (addr2 ?x + of_nat i) = bs ! i" using bs(3) i by (simp add: bytes_at_nth)
  qed
  have sz: "endType (?bs ! b) = endType (capBB r0 ! b)" "nextBranch (?bs ! b) = nextBranch (capBB r0 ! b)"
    "nextFallThrough (?bs ! b) = nextFallThrough (capBB r0 ! b)" using sizedAs_sel [OF C(2) [OF b]] by simp_all
  have br: "\<exists>t f. nextBranch (capBB r0 ! b) = Some t \<and> nextFallThrough (capBB r0 ! b) = Some f \<and> t \<in> set os \<and> f \<in> set os
      \<and> branchesTo tb (r_mem (rc_r c3)) (addr2 ?x + of_int (cbb_size ?x)) (endType ?x) (addr2 (?bs' ! t)) (addr2 (?bs' ! f))"
    if jcc: "instrIsJcc (endType (capBB r0 ! b))"
  proof -
    obtain t f where tf: "nextBranch (capBB r0 ! b) = Some t" "nextFallThrough (capBB r0 ! b) = Some f" "t \<in> set os" "f \<in> set os"
      using C(5) [OF b] jcc sz by (auto simp: succsIn_def)
    have near: "near (addr2 (?bs' ! s)) (addr2 ?x + of_int (cbb_size ?x) + of_nat k)" if "k \<le> 11" "s \<in> set os" for k s
    proof -
      have e: "addr2 ?x + of_int (cbb_size ?x) + of_nat k = addr2 ?x + of_int (cbb_size ?x + int k)" by simp
      have u: "uint (addr2 ?x + of_int (cbb_size ?x + int k)) = uint (addr2 ?x) + (cbb_size ?x + int k)"
        by (rule uint_plus_of_int) (use that(1) inside(2,3) [OF b] top in simp_all)
      show ?thesis unfolding e
        by (rule sub_close(2), unfold u) (use inside(1-3) [OF that(2)] inside(1-3) [OF b] that(1) cs0(2) in simp)
    qed
    have thru: "addr2 (?bs' ! f) = addr2 ?x + of_int (cbb_size ?x + jumpRoom ?x)" if "\<not> genJump ?x"
    proof -
      have "uint (addr2 (?bs' ! f)) = endOf ?x"
        using P that tf(2) sz jcc by (intro linked_thru [of ?bs ?bs', OF _ b]) simp_all
      also have "\<dots> = uint (addr2 ?x + of_int (cbb_size ?x + jumpRoom ?x))"
        using inside(3,4) [OF b] jumpRoom_bounds [of ?x]
        by (subst uint_plus_of_int) (simp_all add: endOf_def)
      finally show ?thesis by (simp add: word_uint_eq_iff)
    qed
    have "branchesTo tb (r_mem (rc_r c3)) (addr2 ?x + of_int (cbb_size ?x)) (endType ?x) (addr2 (?bs' ! t)) (addr2 (?bs' ! f))"
      by (rule jumpsAt_branches [OF tb _ _ _ J(2) [OF b]])
        (use ms(4,6,7) [OF b] sz jcc tf near thru in simp_all)
    then show ?thesis using tf by blast
  qed
  show ?thesis unfolding linkedBlock_def bs3
    using bs(1) at br size ms(4) [OF b] sz by (intro exI [of _ bs]) simp
qed

text \<open>The second and the third pass change the memory, the blocks and the code storage only.\<close>

lemma genBase_sel:
  assumes "genBase r = genBase r'"
  shows "savedState r = savedState r'" "r_func r = r_func r'"
  using arg_cong [OF assms, of savedState] arg_cong [OF assms, of r_func] by (simp_all add: genBase_def)

lemma genPass2_frame:
  "genPass2 os s = Some s' \<Longrightarrow> genBase (rc_r (snd s')) = genBase (rc_r (snd s)) \<and> genOrder (rc_r (snd s')) = genOrder (rc_r (snd s))"
proof (induction os arbitrary: s)
  case (Cons b os)
  obtain s1 where 1: "placeBlock b (case os of [] \<Rightarrow> None | n # _ \<Rightarrow> Some n) s = Some s1" and 2: "genPass2 os s1 = Some s'"
    using Cons.prems by (auto simp: bind_eq_Some_conv)
  have "genBase (rc_r (snd s1)) = genBase (rc_r (snd s)) \<and> genOrder (rc_r (snd s1)) = genOrder (rc_r (snd s))"
    using 1 by (cases s) (auto simp: placeBlock_def Let_def bind_eq_Some_conv updCBB_def with_r_def split: if_splits)
  then show ?case using Cons.IH [OF 2] by simp
qed simp

lemma genPass3_frame:
  "genPass3 os c = Some c' \<Longrightarrow> genBase (rc_r c') = genBase (rc_r c) \<and> genOrder (rc_r c') = genOrder (rc_r c)"
proof (induction os arbitrary: c)
  case (Cons b os)
  obtain c1 where 1: "linkBlock b c = Some c1" and 2: "genPass3 os c1 = Some c'"
    using Cons.prems by (auto simp: bind_eq_Some_conv)
  have "genBase (rc_r c1) = genBase (rc_r c) \<and> genOrder (rc_r c1) = genOrder (rc_r c)"
    using linkBlock_jumpCode [OF 1] by (auto simp: with_r_def)
  then show ?case using Cons.IH [OF 2] by simp
qed simp

lemma generated_code_linked':
  assumes run: "generateBinaryFromCaptured c = Some c'" and e: "rc_e c = None" "rc_e c' = None"
    and graph: "closedGraph (rc_r c)" "freshBlocks (rc_r c)" "genOrder (rc_r c) = []"
    and cs: "r_cs (rc_r c) = Some cs" "csInv cs" "cs_fullsize cs < 2 ^ 31"
    and tb: "initDecodeTables = Some tb"
  shows "0 \<in> set (genOrder (rc_r c')) \<and> generatedCodeAddr (rc_r c') = addr2 (capBB (rc_r c') ! 0)
    \<and> (\<forall>b \<in> set (genOrder (rc_r c')). linkedBlock tb (rc_r c) (rc_r c') (set (genOrder (rc_r c'))) b)"
proof -
  obtain cs0 c0 c1 where Q: "csInv cs0" "cs_fullsize cs0 = cs_fullsize cs"
    "c0 = with_r ((rc_r c)\<lparr>r_cs := Some cs0\<rparr>) c" "capStack (rc_r c) = []"
    "genPass1 (pushCaptureBB c0 0) = Some c1" "rc_e c1 = None"
    "laterPasses cs0 (cs_buf cs0 + of_int (cs_used cs0)) 0 c1 = Some c'"
    using generateBinary_passes [OF run e(2) cs(1,2) graph(3)] by metis
  obtain buf1 c2 cs3 c3 where R: "genPass2 (genOrder (rc_r c1)) (cs_buf cs0 + of_int (cs_used cs0), c1) = Some (buf1, c2)"
    "genPass3 (genOrder (rc_r c2)) (with_r ((rc_r c2)\<lparr>r_cs := Some cs3\<rparr>) c2) = Some c3"
    "genOrder (rc_r c') = genOrder (rc_r c3)" "capBB (rc_r c') = capBB (rc_r c3)" "r_mem (rc_r c') = r_mem (rc_r c3)"
    "genOrder (rc_r c3) \<noteq> [] \<Longrightarrow> generatedCodeAddr (rc_r c') = addr2 (blk c3 (hd (genOrder (rc_r c3))))"
    using laterPasses_steps [OF Q(7)] unfolding drop_0 by metis
  note P = Q(1-6) R
  let ?r0 = "(rc_r c)\<lparr>r_cs := Some cs0\<rparr>"
  have start: "rc_r (pushCaptureBB c0 0) = ?r0\<lparr>capStack := [0]\<rparr>" "rc_e (pushCaptureBB c0 0) = None"
    using P(3,4) e(1) by (simp_all add: pushCaptureBB_def with_r_def)
  have g: "closedGraph ?r0" "freshBlocks ?r0"
    using graph(1,2) by (simp_all add: closedGraph_def freshBlocks_def finishedBlock_def blockOk_def)
  have "\<not> 0 \<le> cbb_size (blk c b)" if "b < length (capBB (rc_r c))" for b
    using graph(2) nth_mem [OF that] by (auto simp: freshBlocks_def)
  then have "pass1Inv ?r0 cs0 cs0 (?r0\<lparr>capStack := [0]\<rparr>)"
    using P(1) graph by (auto simp: pass1Inv_def laidOut_def closedGraph_def freshBlocks_def)
  then obtain cs1 where inv: "pass1Inv ?r0 cs0 cs1 (rc_r c1)" and st: "capStack (rc_r c1) = []"
    using genPass1_inv [OF P(5) g, of cs0 cs0] start P(6) by auto
  have os: "genOrder (rc_r c1) \<noteq> []" "hd (genOrder (rc_r c1)) = 0"
    using inv st by (auto simp: pass1Inv_def split: if_splits)
  have same: "genOrder (rc_r c2) = genOrder (rc_r c1)" "genOrder (rc_r c3) = genOrder (rc_r c2)"
    using genPass2_frame [OF P(7)] genPass3_frame [OF P(8)] by (simp_all add: with_r_def)
  have l: "linkedBlock tb ?r0 (rc_r c3) (set (genOrder (rc_r c1))) b" if "b \<in> set (genOrder (rc_r c1))" for b
    by (rule linked_blocks [OF inv st refl P(1) _ tb P(7) P(8) [unfolded same(1)] that]) (use P(2) cs(3) in simp)
  have "linkedBlock tb ?r0 (rc_r c3) B b = linkedBlock tb (rc_r c) (rc_r c') B b" for B b
    by (simp add: linkedBlock_def P(10,11))
  then show ?thesis using l os P(9,12) hd_in_set [OF os(1)] by (simp add: same P(10))
qed

text \<open>C4. When the code generation ends without an error, every generated block \<open>b\<close> has its code
  at its address: the codes of its captured instructions in their order, and behind them jumps
  that decode to jumps to the addresses of its successors (a conditional jump for the branch
  target, and for the fall through a jump unless its code follows directly). The successors
  are generated too, and the code of block 0 is where the rewritten function starts.\<close>

theorem generated_code_linked:
  assumes run: "generateBinaryFromCaptured c = Some c'" and e: "rc_e c = None" "rc_e c' = None"
    and graph: "closedGraph (rc_r c)" "freshBlocks (rc_r c)" "genOrder (rc_r c) = []"
    and cs: "r_cs (rc_r c) = Some cs" "csInv cs" "cs_fullsize cs < 2 ^ 31"
    and tb: "initDecodeTables = Some tb"
  shows "0 \<in> set (genOrder (rc_r c')) \<and> generatedCodeAddr (rc_r c') = addr2 (capBB (rc_r c') ! 0)
    \<and> (\<forall>b \<in> set (genOrder (rc_r c')). linkedBlock tb (rc_r c) (rc_r c') (set (genOrder (rc_r c'))) b)"
  by (rule generated_code_linked' [OF assms])

text \<open>Three blocks: the first ends with a conditional jump to the other two.\<close>

definition linkStart :: rctx where
  "linkStart = \<lparr>rc_r = traceRewriter
      \<lparr>capBB := [(newCBB 16 0 None)\<lparr>endType := IT_JZ, nextBranch := Some 1, nextFallThrough := Some 2\<rparr>,
         (newCBB 20 0 None)\<lparr>endType := IT_RET, cbb_instr := Some 0, cbb_count := 1\<rparr>,
         (newCBB 24 0 None)\<lparr>endType := IT_RET, cbb_instr := Some 1, cbb_count := 1\<rparr>],
       capInstr := [retInstr 20, retInstr 24], savedState := [allocEmuState 8]\<rparr>, rc_exit = 0, rc_e = None\<rparr>"

lemma ret_bytes: "genInstrStep (retInstr a) = Some (StepBytes [0xC3])"
  by (simp add: genInstrStep_def initGContext_def retInstr_def instr0_def genByType_def genRet_def Let_def)

lemma link_runs:
  "\<exists>c'. generateBinaryFromCaptured linkStart = Some c' \<and> rc_e c' = None \<and> genOrder (rc_r c') = [0, 2, 1]"
  by (simp add: generateBinaryFromCaptured_def linkStart_def traceRewriter_def retRewriter_def allocRewriter_def
      reserveCodeStorage_def pushCaptureBB_def with_r_def newCBB_def genPass1.simps generate_def Let_def ret_bytes useCS_def
      useCodeStorage_def instrIsJcc_def placeBlock_def updCBB_def asInt_def linkBlock_def jccBytes_def jccNumber_def jumpBytes_def)

lemma link_graph: "closedGraph (rc_r linkStart)" "freshBlocks (rc_r linkStart)"
  by (auto simp: closedGraph_def freshBlocks_def finishedBlock_def blockOk_def separateBlocks_def blockSlots_def linkStart_def newCBB_def
      freshJumps_def instrIsJcc_def nth_Cons' less_Suc_eq)

theorem generated_code_linked_witness:
  "\<exists>tb c'. initDecodeTables = Some tb \<and> generateBinaryFromCaptured linkStart = Some c'
    \<and> generatedCodeAddr (rc_r c') = addr2 (capBB (rc_r c') ! 0)
    \<and> (\<forall>b \<in> {0, 2, 1}. linkedBlock tb (rc_r linkStart) (rc_r c') {0, 2, 1} b)"
proof -
  obtain tb where tb: "initDecodeTables = Some tb" using initDecodeTables_total by blast
  obtain c' where c': "generateBinaryFromCaptured linkStart = Some c'" "rc_e c' = None" "genOrder (rc_r c') = [0, 2, 1]"
    using link_runs by blast
  have s: "rc_e linkStart = None" "genOrder (rc_r linkStart) = []"
    "r_cs (rc_r linkStart) = Some \<lparr>cs_size = 3000, cs_fullsize = 4096, cs_used = 0, cs_buf = 0x100000\<rparr>"
    by (simp_all add: linkStart_def traceRewriter_def retRewriter_def allocRewriter_def)
  show ?thesis
    using generated_code_linked [OF c'(1) s(1) c'(2) link_graph s(2,3) _ _ tb] tb c'(1) by (auto simp: c'(3) csInv_def)
qed

end
