(* ===== verification/Passes.thy ===== *)
theory Passes
  imports LinkedCode
begin

text \<open>
  The passes over the captured blocks before the code generation: copying and vectorizing a
  block appends its new instructions to the buffer and redirects the block to them. The graph of
  the blocks stays closed. With this, the whole of \<open>dbrew_rewrite\<close>: either it returns the original
  function, or the address of linked code for the blocks that the tracing captured.
\<close>

section \<open>Redirecting a block\<close>

definition redirect :: "nat \<Rightarrow> instr list \<Rightarrow> rewriter \<Rightarrow> rewriter" where
  "redirect b js r = r\<lparr>capInstr := capInstr r @ js,
     capBB := (capBB r)[b := (capBB r ! b)\<lparr>cbb_instr := Some (length (capInstr r))\<rparr>]\<rparr>"

lemma redirect_graph:
  assumes g: "closedGraph r" and b: "b < length (capBB r)" and n: "cbb_count (capBB r ! b) = length js" "js \<noteq> []"
  shows "closedGraph (redirect b js r)"
proof -
  let ?x = "capBB r ! b" and ?r = "redirect b js r"
  let ?y = "?x\<lparr>cbb_instr := Some (length (capInstr r))\<rparr>"
  have bs: "capBB ?r = (capBB r)[b := ?y]" by (simp add: redirect_def)
  have y: "blockOk ?r ?y" "blockSlots ?y = {length (capInstr r)..<length (capInstr r) + length js}"
    using g b n nth_mem [OF b] by (auto simp: blockOk_def blockSlots_def closedGraph_def redirect_def)
  have ok: "blockOk r x \<Longrightarrow> blockOk ?r x" for x by (auto simp: blockOk_def redirect_def)
  have fin: "finishedBlock r x \<Longrightarrow> finishedBlock ?r x" for x
    using b by (auto simp: finishedBlock_def redirect_def nth_list_update)
  have "finishedBlock r ?x" using g b by (simp add: closedGraph_def)
  then have "finishedBlock ?r ?y" using b by (auto simp: finishedBlock_def redirect_def nth_list_update)
  then have all: "\<forall>x \<in> set (capBB ?r). finishedBlock ?r x \<and> blockOk ?r x"
    using g ok fin y(1) set_update_subset_insert [of "capBB r" b ?y] unfolding bs closedGraph_def by blast
  have "blockSlots (capBB r ! a) \<subseteq> {..<length (capInstr r)}" if "a < length (capBB r)" for a
    using g that by (intro blockSlots_le) (simp add: closedGraph_def)
  then have "separateBlocks (capBB ?r)"
    using g b unfolding separateBlocks_def bs closedGraph_def
    by (auto simp: nth_list_update y(2)) (metis lessThan_iff linorder_not_less subsetD)+
  then show ?thesis using g all bs by (simp add: closedGraph_def)
qed

lemma redirect_fresh: "freshBlocks r \<Longrightarrow> b < length (capBB r) \<Longrightarrow> freshBlocks (redirect b js r)"
  using set_update_subset_insert [of "capBB r" b] nth_mem [of b "capBB r"]
  by (fastforce simp: freshBlocks_def redirect_def freshJumps_def)

lemma redirect_instrs:
  assumes g: "closedGraph r" and b: "b < length (capBB r)" and n: "cbb_count (capBB r ! b) = length js"
    and a: "a < length (capBB r)"
  shows "capturedInstrs (capInstr (redirect b js r)) (capBB (redirect b js r) ! a)
    = (if a = b then js else capturedInstrs (capInstr r) (capBB r ! a))"
proof -
  have "\<forall>k. cbb_instr (capBB r ! a) = Some k \<longrightarrow> k + cbb_count (capBB r ! a) \<le> length (capInstr r)"
    using g a by (auto simp: closedGraph_def blockOk_def)
  then show ?thesis using b n by (auto simp: redirect_def capturedInstrs_def split: option.split)
qed

section \<open>The new instructions\<close>

text \<open>The loops of the passes append instructions and change nothing else.\<close>

definition appended :: "instr list \<Rightarrow> rctx \<Rightarrow> rctx \<Rightarrow> bool" where
  "appended js c c' \<longleftrightarrow> rc_r c' = (rc_r c)\<lparr>capInstr := capInstr (rc_r c) @ js\<rparr>"

lemma appended_refl: "appended [] c c"
  by (simp add: appended_def)

lemma appended_trans: "appended js c1 c2 \<Longrightarrow> appended ks c2 c3 \<Longrightarrow> appended (js @ ks) c1 c3"
  by (simp add: appended_def)

lemma newCapInstr_cases:
  obtains (full) c' where "newCapInstr c = (None, c')" "rc_r c' = rc_r c" "rc_e c' \<noteq> None"
  | (room) c' where "newCapInstr c = (Some (length (capInstr (rc_r c))), c')" "rc_e c' = rc_e c"
      "rc_r c' = (rc_r c)\<lparr>capInstr := capInstr (rc_r c) @ [instr0]\<rparr>"
  by (cases "length (capInstr (rc_r c)) \<ge> capInstrCapacity (rc_r c)")
    (simp_all add: newCapInstr_def Let_def with_error_def with_r_def)

lemma appended_put:
  assumes "rc_r c1 = (rc_r c)\<lparr>capInstr := capInstr (rc_r c) @ [instr0]\<rparr>"
  shows "appended [i] c (putCapInstr (length (capInstr (rc_r c))) i c1)"
  using assms by (simp add: appended_def putCapInstr_def with_r_def)

definition isCopy :: "instr \<Rightarrow> instr \<Rightarrow> bool" where
  "isCopy i j \<longleftrightarrow> copyInstr instr0 i = Some j"

lemma copyInstrs_appends:
  assumes "copyInstrs n k c = Some (fine, c')" and "k + n \<le> length (capInstr (rc_r c))"
  shows "\<exists>js. appended js c c' \<and> (if fine then length js = n \<and> rc_e c' = rc_e c
      \<and> list_all2 isCopy (take n (drop k (capInstr (rc_r c)))) js else rc_e c' \<noteq> None)"
  using assms
proof (induction n arbitrary: k c)
  case 0
  then show ?case using appended_refl by fastforce
next
  case (Suc n)
  let ?is = "capInstr (rc_r c)"
  show ?case
  proof (cases rule: newCapInstr_cases [of c])
    case (full c1)
    then have "c' = c1" "\<not> fine" using Suc.prems(1) by simp_all
    then show ?thesis using full by (intro exI [of _ "[]"]) (simp add: appended_def)
  next
    case (room c1)
    obtain i where i: "copyInstr instr0 (?is ! k) = Some i"
      and rest: "copyInstrs n (Suc k) (putCapInstr (length ?is) i c1) = Some (fine, c')"
      using Suc.prems room by (auto simp: bind_eq_Some_conv nth_append)
    let ?d = "putCapInstr (length ?is) i c1"
    have d: "appended [i] c ?d" by (rule appended_put [OF room(3)])
    then have dis: "capInstr (rc_r ?d) = ?is @ [i]" by (simp add: appended_def)
    have de: "rc_e ?d = rc_e c" using room(2) by (simp add: putCapInstr_def)
    obtain js where js: "appended js ?d c'" "if fine then length js = n \<and> rc_e c' = rc_e ?d
        \<and> list_all2 isCopy (take n (drop (Suc k) (?is @ [i]))) js else rc_e c' \<noteq> None"
      using Suc.IH [OF rest] Suc.prems(2) unfolding dis by auto
    have "take (Suc n) (drop k ?is) = (?is ! k) # take n (drop (Suc k) (?is @ [i]))"
      using Suc.prems(2) Cons_nth_drop_Suc [of k ?is, symmetric] by simp
    then show ?thesis using appended_trans [OF d js(1)] js(2) i de
      by (intro exI [of _ "[i] @ js"]) (simp add: isCopy_def split: if_splits)
  qed
qed

lemma doVec_put: "doVec vrt c k i = Some c' \<Longrightarrow> \<exists>j. rc_r c' = rc_r (putCapInstr k j c)
    \<and> (rc_e c' = rc_e c \<or> rc_e c' \<noteq> None)"
  by (auto simp: doVec_def bind_eq_Some_conv putCapInstr_def with_error_def split: if_splits)

lemma vecInstrs_appends:
  assumes "vecInstrs vrt n k c = Some (fine, c')"
  shows "\<exists>js. appended js c c' \<and> (if fine then length js = n else rc_e c' \<noteq> None) \<and> (rc_e c' = None \<longrightarrow> rc_e c = None)"
  using assms
proof (induction n arbitrary: k c)
  case 0
  then show ?case using appended_refl by fastforce
next
  case (Suc n)
  let ?is = "capInstr (rc_r c)"
  show ?case
  proof (cases rule: newCapInstr_cases [of c])
    case (full c1)
    then have "c' = c1" "\<not> fine" using Suc.prems(1) by simp_all
    then show ?thesis using full by (intro exI [of _ "[]"]) (auto simp: appended_def)
  next
    case (room c1)
    obtain d where d: "doVec vrt c1 (length ?is) (capInstr (rc_r c1) ! k) = Some d"
      and rest: "vecInstrs vrt n (Suc k) d = Some (fine, c')"
      using Suc.prems room by (auto simp: bind_eq_Some_conv)
    obtain j where j: "rc_r d = rc_r (putCapInstr (length ?is) j c1)" "rc_e d = rc_e c1 \<or> rc_e d \<noteq> None"
      using doVec_put [OF d] by blast
    have a: "appended [j] c d" using appended_put [OF room(3), of j] unfolding appended_def j(1) .
    have e: "rc_e d = None \<longrightarrow> rc_e c = None" using j(2) room(2) by metis
    obtain js where js: "appended js d c'" "if fine then length js = n else rc_e c' \<noteq> None" "rc_e c' = None \<longrightarrow> rc_e d = None"
      using Suc.IH [OF rest] by (elim exE conjE) (rule that)
    have "appended ([j] @ js) c c'" by (rule appended_trans [OF a js(1)])
    moreover have "if fine then length ([j] @ js) = Suc n else rc_e c' \<noteq> None" using js(2) by simp
    ultimately show ?thesis using js(3) e by metis
  qed
qed

section \<open>The passes\<close>

text \<open>The blocks \<open>b\<close> of the rewriters \<open>r\<close> and \<open>r'\<close> agree, and the graph is as good as before.\<close>

definition sameGraph :: "rewriter \<Rightarrow> rewriter \<Rightarrow> bool" where
  "sameGraph r r' \<longleftrightarrow> r_func r' = r_func r \<and> genOrder r' = genOrder r \<and> r_cs r' = r_cs r
     \<and> map (cbb_instr_update (\<lambda>_. None)) (capBB r') = map (cbb_instr_update (\<lambda>_. None)) (capBB r)"

lemma sameGraph_refl [simp]: "sameGraph r r"
  by (simp add: sameGraph_def)

lemma sameGraph_trans: "sameGraph r1 r2 \<Longrightarrow> sameGraph r2 r3 \<Longrightarrow> sameGraph r1 r3"
  by (simp add: sameGraph_def)

lemma sameGraph_length: "sameGraph r r' \<Longrightarrow> length (capBB r') = length (capBB r)"
  unfolding sameGraph_def by (metis length_map)

lemma sameGraph_appended: "appended js c c' \<Longrightarrow> sameGraph (rc_r c) (rc_r c')"
  by (simp add: appended_def sameGraph_def)

lemma sameGraph_redirect: "b < length (capBB r) \<Longrightarrow> sameGraph r (redirect b js r)"
  by (simp add: sameGraph_def redirect_def map_update list_update_same_conv)

text \<open>What a pass does to block \<open>b\<close>: nothing, or it redirects it to as many new instructions.\<close>

definition blockPass :: "(instr list \<Rightarrow> instr list \<Rightarrow> bool) \<Rightarrow> nat \<Rightarrow> rctx \<Rightarrow> rctx \<Rightarrow> bool" where
  "blockPass R b c c' \<longleftrightarrow> sameGraph (rc_r c) (rc_r c') \<and> (rc_e c' = None \<longrightarrow> rc_e c = None) \<and> (rc_e c' = None \<longrightarrow>
     rc_r c' = rc_r c \<or> (\<exists>js. js \<noteq> [] \<and> length js = cbb_count (blk c b) \<and> rc_r c' = redirect b js (rc_r c)
       \<and> R (capturedInstrs (capInstr (rc_r c)) (blk c b)) js))"

lemma blockPass_error: "appended js c c' \<Longrightarrow> rc_e c' \<noteq> None \<Longrightarrow> blockPass R b c c'"
  by (auto simp: blockPass_def intro: sameGraph_appended)

lemma blockPass_done:
  assumes "rc_r c' = redirect b js (rc_r c)" and "rc_e c' = None \<longrightarrow> rc_e c = None" and "b < length (capBB (rc_r c))"
    and "cbb_count (blk c b) \<noteq> 0" and "length js = cbb_count (blk c b)" and "R (capturedInstrs (capInstr (rc_r c)) (blk c b)) js"
  shows "blockPass R b c c'"
proof -
  have "js \<noteq> []" using assms(4,5) by auto
  then show ?thesis using assms sameGraph_redirect [OF assms(3)] unfolding blockPass_def assms(1) by blast
qed

lemma optPass_block:
  assumes "optPass c b = Some c'" and g: "closedGraph (rc_r c)" and b: "b < length (capBB (rc_r c))"
  shows "blockPass (list_all2 isCopy) b c c'"
proof (cases "doCopyPass (rc_r c) \<and> cbb_count (blk c b) \<noteq> 0")
  case False
  then have "c' = c" using assms(1) by (auto simp: optPass_def optPassCopy_def split: if_splits)
  then show ?thesis by (simp add: blockPass_def)
next
  case True
  let ?x = "blk c b" and ?r = "rc_r c"
  obtain start fine c1 where x: "cbb_instr ?x = Some start" and cp: "copyInstrs (cbb_count ?x) start c = Some (fine, c1)"
    and c': "c' = (if fine then updCBB b (\<lambda>b. b\<lparr>cbb_instr := Some (length (capInstr ?r))\<rparr>) c1 else c1)"
    using assms(1) True by (auto simp: optPass_def optPassCopy_def bind_eq_Some_conv Let_def split: if_splits)
  have "start + cbb_count ?x \<le> length (capInstr ?r)" using g b x by (simp add: closedGraph_def blockOk_def)
  with copyInstrs_appends [OF cp] obtain js where js: "appended js c c1" "if fine then length js = cbb_count ?x \<and> rc_e c1 = rc_e c
      \<and> list_all2 isCopy (take (cbb_count ?x) (drop start (capInstr ?r))) js else rc_e c1 \<noteq> None" by blast
  show ?thesis
  proof (cases fine)
    case False
    then show ?thesis using blockPass_error [of js c c'] js c' by simp
  next
    case fine: True
    then have r: "rc_r c' = redirect b js ?r" using js(1) c'
      by (simp add: appended_def updCBB_def with_r_def redirect_def)
    moreover have "rc_e c' = rc_e c" using fine c' js(2) by simp
    moreover have "take (cbb_count ?x) (drop start (capInstr ?r)) = capturedInstrs (capInstr ?r) ?x"
      by (simp add: capturedInstrs_def x)
    ultimately show ?thesis using js(2) fine True b by (intro blockPass_done [where js = js]) simp_all
  qed
qed

lemma vecPass_block:
  assumes "vecPass vrt c b = Some c'" and b: "b < length (capBB (rc_r c))"
  shows "blockPass (\<lambda>_ _. True) b c c'"
proof (cases "cbb_count (blk c b) = 0")
  case True
  then have "c' = c" using assms(1) by (simp add: vecPass_def)
  then show ?thesis by (simp add: blockPass_def)
next
  case False
  let ?x = "blk c b" and ?r = "rc_r c"
  obtain start fine c1 where cp: "vecInstrs vrt (cbb_count ?x) start c = Some (fine, c1)"
    and c': "c' = (if fine then updCBB b (\<lambda>b. b\<lparr>cbb_instr := Some (length (capInstr ?r))\<rparr>) c1 else c1)"
    using assms(1) False by (auto simp: vecPass_def bind_eq_Some_conv Let_def)
  obtain js where js: "appended js c c1" "if fine then length js = cbb_count ?x else rc_e c1 \<noteq> None"
      "rc_e c1 = None \<longrightarrow> rc_e c = None" using vecInstrs_appends [OF cp] by (elim exE conjE) (rule that)
  show ?thesis
  proof (cases fine)
    case False
    then show ?thesis using blockPass_error [of js c c'] js c' by simp
  next
    case True
    then have r: "rc_r c' = redirect b js ?r" using js(1) c'
      by (simp add: appended_def updCBB_def with_r_def redirect_def)
    moreover have "rc_e c' = rc_e c1" using True c' by simp
    ultimately show ?thesis using js(2,3) True False b by (intro blockPass_done [where js = js]) simp_all
  qed
qed

lemma blockPass_graph:
  assumes p: "blockPass R b c c'" and e: "rc_e c' = None" and g: "closedGraph (rc_r c)" and b: "b < length (capBB (rc_r c))"
  shows "closedGraph (rc_r c')" "freshBlocks (rc_r c) \<Longrightarrow> freshBlocks (rc_r c')"
  using p e redirect_graph [OF g b] redirect_fresh [OF _ b] g by (auto simp: blockPass_def)

lemma blockPass_instrs:
  assumes p: "blockPass R b c c'" and e: "rc_e c' = None" and g: "closedGraph (rc_r c)" and b: "b < length (capBB (rc_r c))"
    and a: "a < length (capBB (rc_r c))"
  defines "is \<equiv> capturedInstrs (capInstr (rc_r c)) (blk c a)" and "js \<equiv> capturedInstrs (capInstr (rc_r c')) (blk c' a)"
  shows "js = is \<or> a = b \<and> R is js"
  using p e redirect_instrs [OF g b _ a] by (auto simp: blockPass_def is_def js_def split: if_splits)

lemma optPasses_graph:
  assumes "optPasses bs c = Some c'" and "rc_e c' = None" and "closedGraph (rc_r c)" and "distinct bs"
    and "set bs \<subseteq> {..<length (capBB (rc_r c))}"
  shows "closedGraph (rc_r c') \<and> (freshBlocks (rc_r c) \<longrightarrow> freshBlocks (rc_r c')) \<and> rc_e c = None
    \<and> (\<forall>a < length (capBB (rc_r c)).
        capturedInstrs (capInstr (rc_r c')) (blk c' a) = capturedInstrs (capInstr (rc_r c)) (blk c a)
        \<or> a \<in> set bs \<and> list_all2 isCopy (capturedInstrs (capInstr (rc_r c)) (blk c a)) (capturedInstrs (capInstr (rc_r c')) (blk c' a)))"
  using assms
proof (induction bs arbitrary: c)
  case Nil
  then show ?case by simp
next
  case (Cons b bs)
  obtain c1 where c1: "optPass c b = Some c1" and rest: "(if rc_e c1 \<noteq> None then Some c1 else optPasses bs c1) = Some c'"
    using Cons.prems(1) by (auto simp: bind_eq_Some_conv)
  have e1: "rc_e c1 = None" using rest Cons.prems(2) by (cases "rc_e c1") auto
  have b: "b < length (capBB (rc_r c))" using Cons.prems(5) by simp
  note p = optPass_block [OF c1 Cons.prems(3) b]
  have len: "length (capBB (rc_r c1)) = length (capBB (rc_r c))"
    using p sameGraph_length by (simp add: blockPass_def)
  note g1 = blockPass_graph [OF p e1 Cons.prems(3) b] and i1 = blockPass_instrs [OF p e1 Cons.prems(3) b]
  have ih: "closedGraph (rc_r c')" "freshBlocks (rc_r c1) \<longrightarrow> freshBlocks (rc_r c')"
    "\<And>a. a < length (capBB (rc_r c)) \<Longrightarrow>
        capturedInstrs (capInstr (rc_r c')) (blk c' a) = capturedInstrs (capInstr (rc_r c1)) (blk c1 a)
        \<or> a \<in> set bs \<and> list_all2 isCopy (capturedInstrs (capInstr (rc_r c1)) (blk c1 a)) (capturedInstrs (capInstr (rc_r c')) (blk c' a))"
    using Cons.IH [of c1] rest e1 Cons.prems(2,4,5) g1(1) len by auto
  have "rc_e c = None" using p e1 unfolding blockPass_def by metis
  moreover have "capturedInstrs (capInstr (rc_r c')) (blk c' a) = capturedInstrs (capInstr (rc_r c)) (blk c a)
        \<or> a \<in> set (b # bs) \<and> list_all2 isCopy (capturedInstrs (capInstr (rc_r c)) (blk c a)) (capturedInstrs (capInstr (rc_r c')) (blk c' a))"
    if "a < length (capBB (rc_r c))" for a
    using ih(3) [OF that] i1 [OF that] Cons.prems(4) by auto
  ultimately show ?case using ih(1,2) g1(2) by blast
qed

lemma optPasses_same:
  assumes "optPasses bs c = Some c'" and "closedGraph (rc_r c)" and "set bs \<subseteq> {..<length (capBB (rc_r c))}"
  shows "sameGraph (rc_r c) (rc_r c')"
  using assms
proof (induction bs arbitrary: c)
  case (Cons b bs)
  obtain c1 where c1: "optPass c b = Some c1" and rest: "(if rc_e c1 \<noteq> None then Some c1 else optPasses bs c1) = Some c'"
    using Cons.prems(1) by (auto simp: bind_eq_Some_conv)
  have b: "b < length (capBB (rc_r c))" using Cons.prems(3) by simp
  note p = optPass_block [OF c1 Cons.prems(2) b]
  have s: "sameGraph (rc_r c) (rc_r c1)" using p by (simp add: blockPass_def)
  show ?case
  proof (cases "rc_e c1")
    case None
    have "sameGraph (rc_r c1) (rc_r c')"
      by (rule Cons.IH) (use rest None Cons.prems(3) blockPass_graph(1) [OF p None Cons.prems(2) b] sameGraph_length [OF s] in simp_all)
    then show ?thesis by (rule sameGraph_trans [OF s])
  qed (use rest s in simp)
qed simp


text \<open>The copy pass over the three blocks of the example.\<close>

lemma copyInstr_ret: "copyInstr instr0 (retInstr a) = Some (retInstr a)"
  by (simp add: copyInstr_def retInstr_def instr0_def op0_def)

lemma copies_run: "\<exists>c'. runOptsOnCaptured (linkStart\<lparr>rc_r := (rc_r linkStart)\<lparr>doCopyPass := True\<rparr>\<rparr>) = Some c' \<and> rc_e c' = None"
  by (simp add: runOptsOnCaptured_def linkStart_def optPass_def optPassCopy_def newCBB_def copyInstr_ret newCapInstr_def
      putCapInstr_def updCBB_def with_r_def traceRewriter_sel upt_rec)


end
