(* ===== verification/Rewrite.thy ===== *)
theory Rewrite
  imports Passes
begin

text \<open>
  The whole of \<open>dbrew_rewrite\<close>. What the tracing keeps of the rewriter, and that the captured
  blocks carry no code yet, is one more instance of the protocol of the tracing. Together with the
  closed graph of blocks, the passes and the linked code this says what a call returns.
\<close>

section \<open>What the tracing keeps\<close>

definition kept :: "rewriter \<Rightarrow> rewriter \<Rightarrow> bool" where
  "kept r0 r \<longleftrightarrow> dec_alloc r \<and> outside r0 r \<and> freshBlocks r \<and> capBB r \<noteq> [] \<and> dec_addr (capBB r ! 0) = r_func r0"

lemma kept_update:
  assumes k: "kept r0 r"
    and y: "dec_addr y = dec_addr (capBB r ! b)" "cbb_size y = cbb_size (capBB r ! b)" "freshJumps y = freshJumps (capBB r ! b)"
  shows "kept r0 (r\<lparr>capBB := (capBB r)[b := y]\<rparr>)"
proof (cases "b < length (capBB r)")
  case b: True
  have "cbb_size y < 0 \<and> freshJumps y" using k nth_mem [OF b] by (simp add: kept_def freshBlocks_def y(2,3))
  then have "freshBlocks (r\<lparr>capBB := (capBB r)[b := y]\<rparr>)"
    using k set_update_subset_insert [of "capBB r" b y] by (auto simp: kept_def freshBlocks_def)
  then show ?thesis using k b y(1) by (auto simp: kept_def outside_def nth_list_update)
next
  case False
  then show ?thesis using k by (simp add: list_update_beyond)
qed

lemma kept_frame: "sameCap r r' \<Longrightarrow> kept r0 r \<Longrightarrow> kept r0 r'"
  by (simp add: sameCap_def kept_def outside_def freshBlocks_def)

lemma kept_save:
  assumes "saveEmuState c = Some (k, c')" "kept r0 (rc_r c)" shows "kept r0 (rc_r c')"
  using assms(1) by (cases rule: saveEmuState_cases) (use assms(2) in \<open>auto simp: kept_def outside_def freshBlocks_def with_r_def\<close>)

lemma kept_get:
  assumes "getCaptureBB c f k = Some (b, c')" "kept r0 (rc_r c)" shows "kept r0 (rc_r c')"
  using assms(1) by (cases rule: getCaptureBB_cases)
    (use assms(2) in \<open>auto simp: kept_def outside_def freshBlocks_def freshJumps_def newCBB_def nth_append\<close>)

lemma kept_push: "kept r0 (rc_r c) \<Longrightarrow> kept r0 (rc_r (pushCaptureBB c b))"
  by (rule pushCaptureBB_cases [of c b]) (auto simp: kept_def outside_def freshBlocks_def)

lemma kept_pop: "popCaptureBB r = Some (b, r') \<Longrightarrow> kept r0 r \<Longrightarrow> kept r0 r'"
  by (drule popCaptureBB_eq) (auto simp: kept_def outside_def freshBlocks_def)

lemma kept_updCBB:
  assumes "kept r0 (rc_r c)" and "\<And>x. dec_addr (g x) = dec_addr x" "\<And>x. cbb_size (g x) = cbb_size x"
    "\<And>x. freshJumps (g x) = freshJumps x"
  shows "kept r0 (rc_r (updCBB b g c))"
  using kept_update [OF assms(1), of "g (blk c b)" b] assms(2-4) by (simp add: updCBB_def with_r_def)

lemma kept_instrs: "kept r0 r \<Longrightarrow> kept r0 (r\<lparr>capInstr := is\<rparr>)"
  by (simp add: kept_def outside_def freshBlocks_def)

lemma kept_with_r [simp]: "kept r0 (rc_r (with_r r c)) = kept r0 r"
  by (simp add: with_r_def)

interpretation kept: engine_protocol "\<lambda>c. kept r0 (rc_r c)" r0 for r0
proof unfold_locales
  fix c c' :: rctx
  assume "kept r0 (rc_r c)" "sameCap (rc_r c) (rc_r c')"
  then show "kept r0 (rc_r c')" using kept_frame by blast
next
  fix c i c'
  assume k: "kept r0 (rc_r c)" and "capture c i = Some c'"
  from this(2) show "kept r0 (rc_r c')"
  proof (cases rule: capture_cases)
    case (stored b j)
    let ?r = "(rc_r c)\<lparr>capInstr := capInstr (rc_r c) @ [j]\<rparr>"
    show ?thesis using kept_update [OF kept_instrs [OF k]] by (simp add: stored(6) freshJumps_def)
  qed (use k kept_instrs in auto)
next
  fix c it t f c'
  assume k: "kept r0 (rc_r c)" and "captureJcc c it t f = Some c'"
  have popped: "kept r0 (rc_r (updCBB b (\<lambda>x. x\<lparr>endType := it, preferBranch := t < f\<rparr>) (with_r r c)))"
    if "popCaptureBB (rc_r c) = Some (b, r)" for b r
    using kept_pop [OF that k] by (intro kept_updCBB) (simp_all add: freshJumps_def)
  from \<open>captureJcc c it t f = Some c'\<close> show "kept r0 (rc_r c')"
  proof (cases rule: captureJcc_cases)
    case (fail b r k c1 ft c2 br)
    then show ?thesis using kept_get [OF fail(4) kept_get [OF fail(3) kept_save [OF fail(2) popped [OF fail(1)]]]] by simp
  next
    case (split b r k c1 ft c2 br c3 c4)
    have "kept r0 (rc_r c3)"
      by (rule kept_get [OF split(4) kept_get [OF split(3) kept_save [OF split(2) popped [OF split(1)]]]])
    then have "kept r0 (rc_r c4)" unfolding split(6) by (intro kept_updCBB) (simp_all add: freshJumps_def)
    then show ?thesis unfolding split(7) by (auto intro!: kept_push)
  qed (use k in simp)
next
  fix c :: rctx
  assume "startCap (rc_r c)" "outside r0 (rc_r c)"
  then show "kept r0 (rc_r c)" by (auto simp: startCap_def kept_def freshBlocks_def freshJumps_def newCBB_def outside_def)
next
  fix c :: rctx
  assume "kept r0 (rc_r c)"
  then show "dec_alloc (rc_r c)" by (simp add: kept_def)
next
  fix c c' :: rctx and a a'
  assume k: "kept r0 (rc_r c)" and n: "currentCapBB (rc_r c) = None" and "openCBB c a = Some (Some (c', a'))"
  from openCBB_new [OF this(3,2)] obtain pre b st es where
    "rc_r c' = (rc_r c)\<lparr>capStack := b # st, currentCapBB := Some b, r_es := es\<rparr>" by metis
  then show "kept r0 (rc_r c')" using k by (simp add: kept_def outside_def freshBlocks_def)
next
  fix c :: rctx and b r
  assume "kept r0 (rc_r c)" and "popCaptureBB (rc_r c) = Some (b, r)"
  then show "kept r0 (rc_r (updCBB b (\<lambda>x. x\<lparr>endType := IT_RET\<rparr>) (with_r r c)))"
    using kept_pop by (intro kept_updCBB) (simp_all add: freshJumps_def)
qed

text \<open>The result of the tracing.\<close>

lemma traced_outside:
  assumes "initDecodeTables = Some (w_tables w)" and "dec_alloc r" and "emulateAndCapture (vectorWorld ve n w) r par = Some (e, r')"
  shows "outside r r'" and "e = None \<Longrightarrow> kept r r'"
proof -
  have *: "kept.loopEnd r e r' \<or> e \<noteq> None \<and> emptyCap r' \<and> outside r r'"
    using kept.emulateAndCapture [OF _ vectorKeeps_vectorWorld assms(2,3)] assms(1) by simp
  then show "outside r r'"
  proof
    assume "kept.loopEnd r e r'"
    then obtain c :: rctx where "kept r (rc_r c)" "r' = rc_r c \<or> r' = (rc_r c)\<lparr>capStack := []\<rparr> \<or> r' = (rc_r c)\<lparr>capBB := []\<rparr>"
      by (rule kept.loopEnd_cases)
    then show ?thesis by (elim disjE) (simp_all add: kept_def outside_def)
  qed simp
  assume e: "e = None"
  then have "kept.loopEnd r None r'" using * by blast
  then obtain c :: rctx where "kept r (rc_r c)" "r' = (rc_r c)\<lparr>capStack := []\<rparr>"
    unfolding kept.loopEnd_None by metis
  then show "kept r r'" by (simp add: kept_def outside_def freshBlocks_def)
qed

section \<open>The address of the function is kept\<close>

lemma generate_func: "generate r b = Some (e, r') \<Longrightarrow> r_func r' = r_func r"
  by (auto simp: generate_def bind_eq_Some_conv Let_def split: option.splits)

lemma pushCaptureBB_func: "r_func (rc_r (pushCaptureBB c b)) = r_func (rc_r c)"
  by (rule pushCaptureBB_cases [of c b]) simp_all

lemma useCS_func: "useCS n c = Some c' \<Longrightarrow> r_func (rc_r c') = r_func (rc_r c)"
  by (auto simp: useCS_def bind_eq_Some_conv with_r_def)

lemma genPass1_func:
  assumes "genPass1 c = Some c'" shows "r_func (rc_r c') = r_func (rc_r c)"
proof (rule genPass1.raw_induct [OF _ assms])
  fix g :: "rctx \<Rightarrow> rctx option" and c c' :: rctx
  assume IH: "\<And>d d'. g d = Some d' \<Longrightarrow> r_func (rc_r d') = r_func (rc_r d)"
  assume "(case capStack (rc_r c) of
        [] \<Rightarrow> Some c
      | b # st \<Rightarrow>
          (let c = with_r ((rc_r c)\<lparr>capStack := st\<rparr>) c in
           if cbb_size (capBB (rc_r c) ! b) \<ge> 0 then g c
           else do {
             c_assert (length (genOrder (rc_r c)) < GENORDER_MAX);
             (e, r) \<leftarrow> generate ((rc_r c)\<lparr>genOrder := genOrder (rc_r c) @ [b]\<rparr>) b;
             (case e of
                Some e \<Rightarrow> do {
                  c_assert (isErrorSet e);
                  Some (c\<lparr>rc_r := r\<lparr>generatedCodeAddr := 0, generatedCodeSize := 0\<rparr>,
                          rc_e := Some (error.truncate e)\<rparr>) }
              | None \<Rightarrow> do {
                  let c = with_r r c;
                  c \<leftarrow> (if instrIsJcc (endType (capBB r ! b)) then do {
                          t \<leftarrow> nextBranch (capBB r ! b);
                          f \<leftarrow> nextFallThrough (capBB r ! b);
                          Some (pushCaptureBB (pushCaptureBB c t) f) }
                        else Some c);
                  (if rc_e c \<noteq> None then Some c
                   else do { c \<leftarrow> useCS 26 c; g c }) }) })) = Some c'"
  then show "r_func (rc_r c') = r_func (rc_r c)"
    by (auto simp: Let_def bind_eq_Some_conv with_r_def pushCaptureBB_func dest!: generate_func useCS_func IH
        split: list.splits option.splits if_splits)
qed

lemmas genPass2_func = genPass2_frame [THEN conjunct1, THEN genBase_sel(2)]
lemmas genPass3_func = genPass3_frame [THEN conjunct1, THEN genBase_sel(2)]

lemma generateBinary_func:
  assumes "generateBinaryFromCaptured c = Some c'" shows "r_func (rc_r c') = r_func (rc_r c)"
  using assms
proof (rule generateBinary_steps)
  fix cs p0 ca cs0 p1 c1
  assume ca: "(if uint (p0 AND 63) > 0 then useCS (64 - uint (p0 AND 63)) c else Some c) = Some ca"
    and c1: "genPass1 (pushCaptureBB ca 0) = Some c1"
    and rest: "(if rc_e c1 \<noteq> None then Some c1 else laterPasses cs0 p1 (length (genOrder (rc_r ca))) c1) = Some c'"
  have f: "r_func (rc_r c1) = r_func (rc_r c)"
    using ca genPass1_func [OF c1] by (auto simp: pushCaptureBB_func dest: useCS_func split: if_splits)
  show ?thesis
  proof (cases "rc_e c1")
    case None
    then have "laterPasses cs0 p1 (length (genOrder (rc_r ca))) c1 = Some c'" using rest by simp
    then show ?thesis
      by (rule laterPasses_steps) (use f in \<open>auto dest!: genPass2_func genPass3_func simp: with_r_def\<close>)
  qed (use rest f in simp)
qed

section \<open>Finishing\<close>

text \<open>What the tracing hands over: a closed graph of blocks without code.\<close>

definition traced :: "rewriter \<Rightarrow> rewriter \<Rightarrow> bool" where
  "traced r0 r \<longleftrightarrow> kept r0 r \<and> closedGraph r"

lemma sameGraph_addr:
  assumes "sameGraph r r'" and "capBB r \<noteq> []"
  shows "dec_addr (capBB r' ! 0) = dec_addr (capBB r ! 0)"
proof -
  have m: "map (cbb_instr_update (\<lambda>_. None)) (capBB r') = map (cbb_instr_update (\<lambda>_. None)) (capBB r)"
    using assms(1) by (simp add: sameGraph_def)
  then have "capBB r' \<noteq> []" using assms(2) by auto
  then have "cbb_instr_update (\<lambda>_. None) (capBB r' ! 0) = cbb_instr_update (\<lambda>_. None) (capBB r ! 0)"
    using m assms(2) by (metis length_greater_0_conv nth_map)
  from arg_cong [OF this, of dec_addr] show ?thesis by simp
qed

lemma runVectorization_graph:
  assumes run: "runVectorization c = Some c'" and g: "closedGraph (rc_r c)"
  shows "sameGraph (rc_r c) (rc_r c')" "rc_e c' = None \<Longrightarrow> closedGraph (rc_r c')"
    "rc_e c' = None \<Longrightarrow> freshBlocks (rc_r c) \<Longrightarrow> freshBlocks (rc_r c')"
proof -
  obtain vrt where l: "length (capBB (rc_r c)) = 1" and v: "vecPass vrt c 0 = Some c'"
    using run by (auto simp: runVectorization_def bind_eq_Some_conv split: if_splits)
  have b: "0 < length (capBB (rc_r c))" by (simp add: l)
  note p = vecPass_block [OF v b]
  show "sameGraph (rc_r c) (rc_r c')" using p by (simp add: blockPass_def)
  show "rc_e c' = None \<Longrightarrow> closedGraph (rc_r c')" "rc_e c' = None \<Longrightarrow> freshBlocks (rc_r c) \<Longrightarrow> freshBlocks (rc_r c')"
    using blockPass_graph [OF p _ g b] by simp_all
qed

lemma runOpts_graph:
  assumes run: "runOptsOnCaptured c = Some c'" and g: "closedGraph (rc_r c)"
  shows "sameGraph (rc_r c) (rc_r c')" "rc_e c' = None \<Longrightarrow> closedGraph (rc_r c')"
    "rc_e c' = None \<Longrightarrow> freshBlocks (rc_r c) \<Longrightarrow> freshBlocks (rc_r c')"
proof -
  have o: "optPasses [0..<length (capBB (rc_r c))] c = Some c'" using run by (simp add: runOptsOnCaptured_def)
  have s: "set [0..<length (capBB (rc_r c))] \<subseteq> {..<length (capBB (rc_r c))}" by auto
  show "sameGraph (rc_r c) (rc_r c')" by (rule optPasses_same [OF o g s])
  show "rc_e c' = None \<Longrightarrow> closedGraph (rc_r c')" "rc_e c' = None \<Longrightarrow> freshBlocks (rc_r c) \<Longrightarrow> freshBlocks (rc_r c')"
    using optPasses_graph [OF o _ g distinct_upt s] by blast+
qed

text \<open>The steps of \<open>finishRewrite\<close>: after each one, an error stops.\<close>

lemma finishRewrite_steps:
  assumes run: "finishRewrite vec r = Some (e, r')" and g: "closedGraph r" "freshBlocks r"
  obtains (stopped) "e \<noteq> None" "r_func r' = r_func r"
  | (generated) c c' where "sameGraph r (rc_r c)" "closedGraph (rc_r c)" "freshBlocks (rc_r c)" "rc_e c = None"
      "generateBinaryFromCaptured c = Some c'" "e = rc_e c'" "r' = rc_r c'" "r_func r' = r_func r"
proof -
  let ?c = "\<lparr>rc_r = r, rc_exit = 0, rc_e = None\<rparr>"
  obtain c1 c2 c3 where c1: "(if vec \<and> vreq r \<noteq> VR_None then runVectorization ?c else Some ?c) = Some c1"
    and c2: "(if rc_e c1 = None then runOptsOnCaptured c1 else Some c1) = Some c2"
    and c3: "(if rc_e c2 = None then generateBinaryFromCaptured c2 else Some c2) = Some c3"
    and e: "e = rc_e c3" "r' = rc_r c3"
    using run by (auto simp: finishRewrite_def bind_eq_Some_conv Let_def)
  have s1: "sameGraph r (rc_r c1)" "rc_e c1 = None \<Longrightarrow> closedGraph (rc_r c1) \<and> freshBlocks (rc_r c1)"
    using c1 runVectorization_graph [of ?c c1] g by (auto split: if_splits)
  have s2: "sameGraph r (rc_r c2) \<and> (rc_e c2 = None \<longrightarrow> closedGraph (rc_r c2) \<and> freshBlocks (rc_r c2))"
  proof (cases "rc_e c1")
    case None
    then have o: "runOptsOnCaptured c1 = Some c2" and g1: "closedGraph (rc_r c1)" "freshBlocks (rc_r c1)"
      using c2 s1(2) by simp_all
    show ?thesis using runOpts_graph [OF o g1(1)] g1(2) sameGraph_trans [OF s1(1)] by simp
  qed (use c2 s1(1) in simp)
  show thesis
  proof (cases "rc_e c2")
    case None
    then have "generateBinaryFromCaptured c2 = Some c3" using c3 by simp
    then show thesis using generated [of c2 c3] s2 None e generateBinary_func by (simp add: sameGraph_def)
  next
    case (Some e')
    then show thesis using stopped c3 e s2(1) by (simp add: sameGraph_def)
  qed
qed

lemma vEmulate_steps:
  assumes "vEmulateAndCapture w r args = Some (e, r')"
  shows "e \<noteq> None \<and> r' = r \<or> (\<exists>ps. emulateAndCapture w r ps = Some (e, r'))"
  using assms by (auto simp: vEmulateAndCapture_def bind_eq_Some_conv split: if_splits)

lemma traced_result:
  assumes tb: "initDecodeTables = Some (w_tables w)" and d: "dec_alloc r"
    and run: "vEmulateAndCapture (vectorWorld ve n w) r args = Some (e, r')"
  shows "r_func r' = r_func r" and "e = None \<Longrightarrow> traced r r'"
proof -
  show "r_func r' = r_func r"
    using vEmulate_steps [OF run] traced_outside(1) [OF tb d] by (auto simp: outside_def)
  assume e: "e = None"
  then obtain ps where "emulateAndCapture (vectorWorld ve n w) r ps = Some (None, r')"
    using vEmulate_steps [OF run] by auto
  then show "traced r r'" using traced_outside(2) [OF tb d] shape_closed [OF tb d]
    by (auto simp: traced_def closedGraph_def)
qed

section \<open>The properties\<close>

text \<open>The steps of \<open>dbrew_rewrite\<close>.\<close>

lemma dbrew_rewrite_steps:
  assumes run: "dbrew_rewrite w r args = Some (a, r')"
  obtains (tracing) e r1 where "vEmulateAndCapture w r args = Some (Some e, r1)" "a = r_func r1"
      "r' = r1\<lparr>generatedCodeAddr := r_func r1\<rparr>"
  | (finishing) e r1 r2 where "vEmulateAndCapture w r args = Some (None, r1)" "finishRewrite True r1 = Some (Some e, r2)"
      "a = r_func r2" "r' = r2\<lparr>generatedCodeAddr := r_func r2\<rparr>"
  | (fine) r1 where "vEmulateAndCapture w r args = Some (None, r1)" "finishRewrite True r1 = Some (None, r')"
      "a = generatedCodeAddr r'"
proof -
  obtain e r1 where 1: "vEmulateAndCapture w r args = Some (e, r1)" using run by (auto simp: dbrew_rewrite_def bind_eq_Some_conv)
  show thesis
  proof (cases e)
    case (Some e')
    then have "a = r_func r1" "r' = r1\<lparr>generatedCodeAddr := r_func r1\<rparr>" using run 1 by (auto simp: dbrew_rewrite_def)
    then show thesis using tracing 1 Some by blast
  next
    case None
    then obtain e2 r2 where 2: "finishRewrite True r1 = Some (e2, r2)"
      using run 1 by (auto simp: dbrew_rewrite_def bind_eq_Some_conv)
    show thesis
    proof (cases e2)
      case (Some e)
      then have "a = r_func r2" "r' = r2\<lparr>generatedCodeAddr := r_func r2\<rparr>" using run 1 2 None by (auto simp: dbrew_rewrite_def)
      then show thesis using finishing 1 2 None Some by blast
    next
      case None
      then have "a = generatedCodeAddr r'" "r' = r2" using run 1 2 \<open>e = None\<close> by (auto simp: dbrew_rewrite_def)
      then show thesis using fine 1 2 None \<open>e = None\<close> by blast
    qed
  qed
qed

text \<open>C7. A rewriting that fails, in the tracing or in the passes and the code generation behind
  it, returns the address of the original function, and the rewriter says so too.\<close>

theorem rewrite_error_original:
  assumes tb: "initDecodeTables = Some (w_tables w)" and d: "dec_alloc r"
    and run: "dbrew_rewrite (vectorWorld ve n w) r args = Some (a, r')"
    and fails: "vEmulateAndCapture (vectorWorld ve n w) r args = Some (e1, r1)"
      "e1 \<noteq> None \<or> (\<exists>e r2. finishRewrite True r1 = Some (Some e, r2))"
  shows "a = r_func r \<and> generatedCodeAddr r' = r_func r \<and> r_func r' = r_func r"
  using run
proof (cases rule: dbrew_rewrite_steps)
  case (tracing e r1)
  then show ?thesis using traced_result(1) [OF tb d tracing(1)] by simp
next
  case (finishing e r1 r2)
  have t: "traced r r1" "r_func r1 = r_func r" using traced_result [OF tb d finishing(1)] by simp_all
  have "r_func r2 = r_func r1"
    by (rule finishRewrite_steps [OF finishing(2)]) (use t(1) in \<open>auto simp: traced_def kept_def\<close>)
  then show ?thesis using finishing t(2) by simp
next
  case (fine r1)
  then show ?thesis using fails by auto
qed

text \<open>A rewriter without the number of parameters.\<close>

lemma unconfigured_fails:
  assumes "r = traceRewriter\<lparr>r_cc := Some cc_init\<rparr>"
  shows "\<exists>e. vEmulateAndCapture w r args = Some (Some e, r)"
    "dbrew_rewrite w r args = Some (16, r\<lparr>generatedCodeAddr := 16\<rparr>)" "dec_alloc r" "r_func r = 16"
  by (simp_all add: assms vEmulateAndCapture_def dbrew_rewrite_def cc_init_def traceRewriter_sel)

theorem rewrite_error_original_witness:
  "\<exists>tb. initDecodeTables = Some tb
    \<and> r_func (snd (the (dbrew_rewrite (vectorWorld traceEnv 1 (traceWorld tb)) (traceRewriter\<lparr>r_cc := Some cc_init\<rparr>) []))) = 16"
proof -
  obtain tb where tb: "initDecodeTables = Some tb" using initDecodeTables_total by blast
  then have w: "initDecodeTables = Some (w_tables (traceWorld tb))" by (simp add: traceWorld_def)
  let ?w = "vectorWorld traceEnv 1 (traceWorld tb)" and ?r = "traceRewriter\<lparr>r_cc := Some cc_init\<rparr>"
  note f = unconfigured_fails [of ?r, OF refl]
  obtain e where e: "vEmulateAndCapture ?w ?r [] = Some (Some e, ?r)" using f(1) by blast
  have "r_func (?r\<lparr>generatedCodeAddr := 16\<rparr>) = 16"
    using rewrite_error_original [OF w f(3) f(2) e] f(4) by simp
  then show ?thesis using tb f(2) by auto
qed


text \<open>The complete rewriting of a function that consists of a return.\<close>

lemma trace_finishes:
  "\<exists>r'. finishRewrite True (rc_r (traceEnd s x)) = Some (None, r') \<and> generatedCodeAddr r' = 0x100000 \<and> genOrder r' = [0]"
  by (simp add: finishRewrite_def runOptsOnCaptured_def traceEnd_def traceDecoded_def traceStart_def traceRewriter_def retRewriter_def
      allocRewriter_def optPass_def optPassCopy_def newCBB_def copyInstr_ret newCapInstr_def putCapInstr_def updCBB_def with_r_def
      upt_rec Let_def generateBinaryFromCaptured_def reserveCodeStorage_def pushCaptureBB_def genPass1.simps generate_def ret_bytes
      useCS_def useCodeStorage_def instrIsJcc_def placeBlock_def asInt_def linkBlock_def)


end
