(* ===== verification/LLCommon.thy ===== *)
theory LLCommon
  imports Printer
begin

text \<open>
  The data of the LLVM backend (\<open>llvm/include/*.h\<close>): the state of a module, functions, basic
  blocks and register files. Pointers to functions and basic blocks are indexes into lists that
  only grow; a register file is a member of its block.

  LLVM itself is not part of the program. Its C interface is the parameter \<open>L\<close>, an \<open>llvm\<close>:
  a record of functions over four unknown types, the values \<open>'v\<close>, the types \<open>'t\<close>, the LLVM basic
  blocks \<open>'b\<close> and the state of everything behind the interface \<open>'w\<close> (context, module, position
  of the builder, execution engine). The instruction builders and the commands that return nothing
  are enumerated by the datatypes \<open>build\<close> and \<open>cmd\<close>, whose constructors carry the arguments
  of the calls. Null pointers are \<open>None\<close>, and \<open>None\<close> as the result of a function is a
  \<open>warn_if_reached\<close>, a failed assertion or a null pointer that is used.
\<close>

section \<open>The C interface of LLVM\<close>

datatype 't lltype =
    LLVMIntType nat | LLVMFloatType | LLVMDoubleType | LLVMVoidType
  | LLVMVectorType 't nat | LLVMPointerType 't nat | LLVMArrayType 't nat
  | LLVMFunctionType 't "'t list"

datatype (plugins only: code size) typekind =
    LLVMIntegerTypeKind | LLVMPointerTypeKind | LLVMFloatTypeKind | LLVMDoubleTypeKind
  | LLVMVoidTypeKind | LLVMVectorTypeKind | LLVMOtherTypeKind

text \<open>Constants, which are unique in a context.\<close>

datatype ('v, 't) llconst =
    LLVMConstInt 't u64 | LLVMConstNull 't | LLVMGetUndef 't | LLVMConstVector "'v list"
  | LLVMConstAllOnes 't | LLVMConstNot 'v | LLVMConstZExtOrBitCast 'v 't
  | LLVMConstPointerNull 't | LLVMConstBitCast 'v 't | LLVMConstArray 't "'v list"
  | LLVMMDString string | LLVMMDNode

text \<open>The builders of instructions; the casts and the binary operators are grouped.\<close>

datatype (plugins only: code size) llcast =
    LTrunc | LZExt | LSExt | LIntToPtr | LPtrToInt | LBitCast | LPointerCast
  | LTruncOrBitCast | LZExtOrBitCast | LSExtOrBitCast

datatype (plugins only: code size) llop =
    LAdd | LSub | LMul | LAnd | LOr | LXor | LShl | LLShr | LAShr | LFAdd | LFSub | LFMul | LFDiv

datatype (plugins only: code size) llpred =
    LLVMIntEQ | LLVMIntNE | LLVMIntULT | LLVMIntULE | LLVMIntSLT | LLVMIntSLE

datatype ('v, 't, 'b) build =
    BuildBin llop 'v 'v | BuildCast llcast 'v 't | BuildICmp llpred 'v 'v
  | BuildNot 'v | BuildNeg 'v | BuildSelect 'v 'v 'v
  | BuildExtractElement 'v 'v | BuildInsertElement 'v 'v 'v | BuildShuffleVector 'v 'v 'v
  | BuildExtractValue 'v nat | BuildGEP 'v "'v list" | BuildLoad 'v | BuildStore 'v 'v
  | BuildArrayAlloca 't 'v | BuildPhi 't | BuildCall 'v "'v list"
  | BuildBr 'b | BuildCondBr 'v 'b 'b | BuildRet 'v | BuildRetVoid

datatype (plugins only: code size) llintrinsic =
    LL_INTRINSIC_DO_NOTHING | LL_INTRINSIC_CTPOP | LL_INTRINSIC_SADD_WITH_OVERFLOW
  | LL_INTRINSIC_SSUB_WITH_OVERFLOW | LL_INTRINSIC_SMUL_WITH_OVERFLOW

datatype (plugins only: code size) linkage = LLVMPrivateLinkage | LLVMExternalLinkage

text \<open>Calls that only change what is behind the interface.\<close>

datatype ('v, 't, 'b) cmd =
    LLVMPositionBuilderAtEnd 'b | LLVMPositionBuilderBefore 'v
  | LLVMSetMetadata 'v string 'v | LLVMSetAlignment 'v nat
  | LLVMAddIncoming 'v "'v list" "'b list" | LLVMRemoveBasicBlockFromParent 'b
  | LLVMAddGlobalMapping 'v u64 | LLVMSetLinkage 'v linkage
  | LLVMAddAttributeAtIndex 'v int string | LLVMSetGlobalConstant 'v bool
  | LLVMSetInitializer 'v 'v | EnableFastMath 'v | LLVMSetTarget string

text \<open>The passes of the optimizer that \<open>ll_engine_optimize\<close> puts into a pass manager.\<close>

datatype (plugins only: code size) llpass =
    LLVMAlwaysInlinerPass | LLVMEarlyCSEPass | LLVMGVNPass | LLVMInstructionCombiningPass
  | LLVMStandardPasses int bool | LLVMStripSymbolsPass | LLVMStripDeadPrototypesPass

record ('v, 't, 'b, 'w) llvm =
  llType :: "'t lltype \<Rightarrow> 't"
  llConst :: "('v, 't) llconst \<Rightarrow> 'v"
  llBuild :: "('v, 't, 'b) build \<Rightarrow> 'w \<Rightarrow> 'v \<times> 'w"
  llCmd :: "('v, 't, 'b) cmd \<Rightarrow> 'w \<Rightarrow> 'w"
  llTypeOf :: "'v \<Rightarrow> 't"
  llTypeKind :: "'t \<Rightarrow> typekind"
  llIntTypeWidth :: "'t \<Rightarrow> nat"
  llVectorSize :: "'t \<Rightarrow> nat"
  llElementType :: "'t \<Rightarrow> 't"
  llReturnType :: "'t \<Rightarrow> 't"
  llParamTypes :: "'t \<Rightarrow> 't list"
  llIsConstant :: "'v \<Rightarrow> bool"
  llIsNull :: "'v \<Rightarrow> bool"
  llIsConstantInt :: "'v \<Rightarrow> bool"
  llZExtValue :: "'v \<Rightarrow> u64"
  llParams :: "'v \<Rightarrow> 'v list"
  llTerminator :: "'b \<Rightarrow> 'w \<Rightarrow> 'v option"
  llAppendBlock :: "'v \<Rightarrow> 'w \<Rightarrow> 'b \<times> 'w"
  llAddFunction :: "string option \<Rightarrow> 't \<Rightarrow> 'w \<Rightarrow> 'v \<times> 'w"
  llAddGlobal :: "'t \<Rightarrow> string \<Rightarrow> 'w \<Rightarrow> 'v \<times> 'w"
  llNamedFunction :: "string \<Rightarrow> 'w \<Rightarrow> 'v option"
  llModuleFunctions :: "'w \<Rightarrow> 'v list"
  llIsDeclaration :: "'v \<Rightarrow> 'w \<Rightarrow> bool"
  llSymbol :: "string \<Rightarrow> bool"
  llIntrinsic :: "llintrinsic \<Rightarrow> 't list \<Rightarrow> 'w \<Rightarrow> 'v \<times> 'w"
  llVerify :: "'v \<Rightarrow> 'w \<Rightarrow> bool"
  llPointer :: "'v \<Rightarrow> 'w \<Rightarrow> u64 \<times> 'w"
  llModuleCreate :: "string \<Rightarrow> 'w"
  llParseBitcode :: "string \<Rightarrow> 'w option"
  llCreateMCJIT :: "'w \<Rightarrow> 'w option"
  llUnrollMD :: "'v"
  llRunPasses :: "llpass list \<Rightarrow> 'w \<Rightarrow> 'w"
  llMemory :: "u64 \<Rightarrow> u64"
  llMalloc :: "'v option"

text \<open>
  \<open>llMemory\<close> is the memory that \<open>ll_function_specialize\<close> reads and \<open>llMalloc\<close> what a member of
  a structure holds that \<open>malloc\<close> returned and nothing was stored in. The functions of
  \<open>llsupport.cc\<close>, C++ code on the C++ interface of LLVM, are part of the record:
  \<open>llIntrinsic\<close>, \<open>llIsConstantInt\<close>, \<open>llCreateMCJIT\<close>, \<open>llUnrollMD\<close>, \<open>EnableFastMath\<close> and the
  attribute names of \<open>LLVMAddAttributeAtIndex\<close>.
\<close>

section \<open>Register files\<close>

datatype (plugins only: code size) rflag =
    RFLAG_ZF | RFLAG_SF | RFLAG_PF | RFLAG_CF | RFLAG_OF | RFLAG_AF

definition rflags :: "rflag list" where
  "rflags = [RFLAG_ZF, RFLAG_SF, RFLAG_PF, RFLAG_CF, RFLAG_OF, RFLAG_AF]"

abbreviation "LL_VECTOR_REGISTER_SIZE \<equiv> (128 :: nat)"

datatype (plugins only: code size) facet =
    FACET_PTR | FACET_I8 | FACET_I8H | FACET_I16 | FACET_I32 | FACET_I64 | FACET_I128 | FACET_I256
  | FACET_F32 | FACET_F64 | FACET_V2F32 | FACET_V16I8 | FACET_V8I16 | FACET_V4I32 | FACET_V2I64
  | FACET_V4F32 | FACET_V2F64

abbreviation "FACET_IVEC \<equiv> FACET_I128"

text \<open>The values below \<open>FACET_COUNT\<close>, for the loops over all facets.\<close>

definition facets :: "facet list" where
  "facets = [FACET_PTR, FACET_I8, FACET_I8H, FACET_I16, FACET_I32, FACET_I64, FACET_I128,
     FACET_I256, FACET_F32, FACET_F64, FACET_V2F32, FACET_V16I8, FACET_V8I16, FACET_V4I32,
     FACET_V2I64, FACET_V4F32, FACET_V2F64]"

lemma set_facets [simp]: "f \<in> set facets"
  by (cases f) (simp_all add: facets_def)

lemma set_rflags [simp]: "f \<in> set rflags"
  by (cases f) (simp_all add: rflags_def)

text \<open>The registers of a register file; the code has an array for the first two.\<close>

datatype llregister = GpRegister nat | SseRegister nat | IpRegister

record 'v llflagcache =
  fc_valid :: bool
  fc_operand1 :: "'v option"
  fc_operand2 :: "'v option"
  fc_result :: "'v option"

record 'v llregfile =
  rf_regs :: "llregister \<Rightarrow> facet \<Rightarrow> 'v option"
  rf_flags :: "rflag \<Rightarrow> 'v option"
  rf_cache :: "'v llflagcache"

section \<open>Basic blocks, functions and the module\<close>

record ('v, 'b) llblock =
  lb_address :: u64
  lb_instrCount :: nat
  lb_instrs :: "instr list"
  lb_nextBranch :: "nat option"
  lb_nextFallThrough :: "nat option"
  lb_predsAllocated :: nat
  lb_preds :: "nat list"
  lb_llvmBB :: "'b option"
  lb_endType :: "instrtype option"
  lb_regfile :: "'v llregfile"
  lb_phis :: "llregister \<Rightarrow> facet \<Rightarrow> 'v option"
  lb_phiFlags :: "rflag \<Rightarrow> 'v option"

text \<open>
  \<open>lb_endType\<close> is \<open>dbrewBB->endType\<close>, the only member of the captured block that the code reads
  later. \<open>lb_instrs\<close> are the instructions from the pointer \<open>instrs\<close> on, of which the first
  \<open>lb_instrCount\<close> belong to the block; the length of \<open>lb_preds\<close> is \<open>predCount\<close>.
\<close>

datatype (plugins only: code size) llfunctionkind =
    LL_FUNCTION_DECLARATION | LL_FUNCTION_DEFINITION | LL_FUNCTION_SPECIALIZATION
  | LL_FUNCTION_EXTERNAL

record 'v llfunction =
  lf_name :: "string option"
  lf_address :: u64
  lf_llvm :: "'v option"
  lf_kind :: llfunctionkind
  lf_stackSize :: nat
  lf_bbsAllocated :: nat
  lf_bbs :: "nat list"
  lf_initialBB :: nat

record llconfig =
  cfg_name :: "string option"
  cfg_stackSize :: nat
  cfg_signature :: u64
  cfg_private :: bool
  cfg_disableInstrDedup :: bool

record ('v, 'b, 'w) llstate =
  ll_world :: 'w
  ll_functions :: "'v llfunction list"
  ll_functionsAllocated :: nat
  ll_blocks :: "('v, 'b) llblock list"
  ll_emptyMD :: 'v
  ll_unrollMD :: 'v
  ll_currentFunction :: nat
  ll_currentBB :: nat
  ll_globalOffsetBase :: u64
  ll_globalBase :: "'v option"
  enableUnsafePointerOptimizations :: bool
  enableOverflowIntrinsics :: bool
  enableFastMath :: bool
  enableFullLoopUnroll :: bool

section \<open>Calling LLVM\<close>

text \<open>The calls of the interface on the state of the module.\<close>

definition llb :: "('v, 't, 'b, 'w) llvm \<Rightarrow> ('v, 't, 'b) build \<Rightarrow> ('v, 'b, 'w) llstate
    \<Rightarrow> 'v \<times> ('v, 'b, 'w) llstate" where
  "llb L i s = (let (v, w) = llBuild L i (ll_world s) in (v, s\<lparr>ll_world := w\<rparr>))"

definition llc :: "('v, 't, 'b, 'w) llvm \<Rightarrow> ('v, 't, 'b) cmd \<Rightarrow> ('v, 'b, 'w) llstate
    \<Rightarrow> ('v, 'b, 'w) llstate" where
  "llc L c s = s\<lparr>ll_world := llCmd L c (ll_world s)\<rparr>"

definition ll_support_get_intrinsic :: "('v, 't, 'b, 'w) llvm \<Rightarrow> llintrinsic \<Rightarrow> 't list
    \<Rightarrow> ('v, 'b, 'w) llstate \<Rightarrow> 'v \<times> ('v, 'b, 'w) llstate" where
  "ll_support_get_intrinsic L i ts s =
     (let (v, w) = llIntrinsic L i ts (ll_world s) in (v, s\<lparr>ll_world := w\<rparr>))"

text \<open>Types and constants the code uses everywhere.\<close>

definition llInt :: "('v, 't, 'b, 'w) llvm \<Rightarrow> nat \<Rightarrow> 't" where
  "llInt L n = llType L (LLVMIntType n)"

definition llPtr8 :: "('v, 't, 'b, 'w) llvm \<Rightarrow> 't" where
  "llPtr8 L = llType L (LLVMPointerType (llInt L 8) 0)"

definition llConstInt :: "('v, 't, 'b, 'w) llvm \<Rightarrow> 't \<Rightarrow> u64 \<Rightarrow> 'v" where
  "llConstInt L t n = llConst L (LLVMConstInt t n)"

definition llUndef :: "('v, 't, 'b, 'w) llvm \<Rightarrow> 't \<Rightarrow> 'v" where
  "llUndef L t = llConst L (LLVMGetUndef t)"

text \<open>A vector constant of 32-bit indexes, as the masks of shuffles are.\<close>

definition llMask :: "('v, 't, 'b, 'w) llvm \<Rightarrow> nat list \<Rightarrow> 'v" where
  "llMask L is = llConst L (LLVMConstVector (map (\<lambda>i. llConstInt L (llInt L 32) (of_nat i)) is))"

text \<open>The members of the current block and of its register file.\<close>

definition llBlock :: "('v, 'b, 'w) llstate \<Rightarrow> nat \<Rightarrow> ('v, 'b) llblock" where
  "llBlock s b = ll_blocks s ! b"

definition updBlock :: "nat \<Rightarrow> (('v, 'b) llblock \<Rightarrow> ('v, 'b) llblock) \<Rightarrow> ('v, 'b, 'w) llstate
    \<Rightarrow> ('v, 'b, 'w) llstate" where
  "updBlock b f s = s\<lparr>ll_blocks := (ll_blocks s)[b := f (ll_blocks s ! b)]\<rparr>"

definition updRegfile :: "nat \<Rightarrow> ('v llregfile \<Rightarrow> 'v llregfile) \<Rightarrow> ('v, 'b, 'w) llstate
    \<Rightarrow> ('v, 'b, 'w) llstate" where
  "updRegfile b f = updBlock b (\<lambda>x. x\<lparr>lb_regfile := f (lb_regfile x)\<rparr>)"

abbreviation llRegfile :: "('v, 'b, 'w) llstate \<Rightarrow> nat \<Rightarrow> 'v llregfile" where
  "llRegfile s b \<equiv> lb_regfile (llBlock s b)"

text \<open>A loop of the code that may trap.\<close>

primrec llFold :: "('a \<Rightarrow> 's \<Rightarrow> 's option) \<Rightarrow> 'a list \<Rightarrow> 's \<Rightarrow> 's option" where
  "llFold f [] s = Some s"
| "llFold f (x # xs) s = do { s \<leftarrow> f x s; llFold f xs s }"

lemma llFold_append: "llFold f (xs @ ys) s = do { s \<leftarrow> llFold f xs s; llFold f ys s }"
  by (induction xs arbitrary: s) (auto simp: Option.bind_assoc)

text \<open>A loop of which every step succeeds and keeps an invariant succeeds and keeps it.\<close>

lemma llFold_ok:
  assumes "\<And>x s. x \<in> set xs \<Longrightarrow> P s \<Longrightarrow> \<exists>s'. f x s = Some s' \<and> P s'" and "P s"
  shows "\<exists>s'. llFold f xs s = Some s' \<and> P s'"
  using assms
proof (induction xs arbitrary: s)
  case Nil
  then show ?case by simp
next
  case (Cons x xs)
  then obtain s' where "f x s = Some s'" "P s'" by (metis list.set_intros(1))
  with Cons show ?case by auto
qed

end
