(* ===== verification/LLRegFile.thy ===== *)
theory LLRegFile
  imports LLCommon
begin

text \<open>
  The register file of a basic block (\<open>llvm/src/llregfile.c\<close>): every architectural register has
  one slot per facet, a view of the register as a value of one LLVM type. A facet that is missing
  is computed from the native one, 64 bits for general purpose registers and 128 bits for vector
  registers, and remembered.
\<close>

section \<open>Facets\<close>

definition ll_register_facet_type :: "('v, 't, 'b, 'w) llvm \<Rightarrow> facet \<Rightarrow> 't" where
  "ll_register_facet_type L f =
     (let f32 = llType L LLVMFloatType; f64 = llType L LLVMDoubleType;
          vec = (\<lambda>t n. llType L (LLVMVectorType t n))
      in case f of
        FACET_I8 \<Rightarrow> llInt L 8 | FACET_I8H \<Rightarrow> llInt L 8 | FACET_I16 \<Rightarrow> llInt L 16
      | FACET_I32 \<Rightarrow> llInt L 32 | FACET_I64 \<Rightarrow> llInt L 64
      | FACET_I128 \<Rightarrow> llInt L 128 | FACET_I256 \<Rightarrow> llInt L 256
      | FACET_F32 \<Rightarrow> f32 | FACET_F64 \<Rightarrow> f64
      | FACET_V16I8 \<Rightarrow> vec (llInt L 8) 16 | FACET_V8I16 \<Rightarrow> vec (llInt L 16) 8
      | FACET_V4I32 \<Rightarrow> vec (llInt L 32) 4 | FACET_V2I64 \<Rightarrow> vec (llInt L 64) 2
      | FACET_V2F32 \<Rightarrow> vec f32 2 | FACET_V4F32 \<Rightarrow> vec f32 4 | FACET_V2F64 \<Rightarrow> vec f64 2
      | FACET_PTR \<Rightarrow> llPtr8 L)"

text \<open>The register names are only used for metadata. The facets that name the whole register are
  the last case.\<close>

definition regNameOf :: "regtype \<Rightarrow> regindex \<Rightarrow> string option" where
  "regNameOf t i = do { r \<leftarrow> getReg t i; regName r }"

definition ll_register_name_for_facet :: "facet \<Rightarrow> reg \<Rightarrow> string option" where
  "ll_register_name_for_facet f r = do {
     gp \<leftarrow> regIsGP r;
     v \<leftarrow> (if gp then Some False else regIsV r);
     (if gp then
        (case f of
           FACET_I8 \<Rightarrow> regNameOf RT_GP8 (ri r)
         | FACET_I8H \<Rightarrow> (if rt r = RT_GP8Leg then regName r
                         else if ri r < 4 then regNameOf RT_GP8Leg (ri r + 4)
                         else Some ''XXX'')
         | FACET_I16 \<Rightarrow> regNameOf RT_GP16 (ri r)
         | FACET_I32 \<Rightarrow> regNameOf RT_GP32 (ri r)
         | _ \<Rightarrow> regNameOf RT_GP64 (ri r))
      else if v then
        (case f of FACET_I256 \<Rightarrow> regNameOf RT_YMM (ri r) | _ \<Rightarrow> regNameOf RT_XMM (ri r))
      else regName r) }"

section \<open>The register file\<close>

text \<open>Nothing but \<open>flagCache.valid\<close> is initialised.\<close>

definition ll_regfile_new :: "('v, 't, 'b, 'w) llvm \<Rightarrow> 'v llregfile" where
  "ll_regfile_new L =
     \<lparr>rf_regs = (\<lambda>_ _. llMalloc L), rf_flags = (\<lambda>_. llMalloc L),
      rf_cache = \<lparr>fc_valid = False, fc_operand1 = llMalloc L, fc_operand2 = llMalloc L,
        fc_result = llMalloc L\<rparr>\<rparr>"

definition ll_regfile_get_ptr :: "reg \<Rightarrow> llregister option" where
  "ll_regfile_get_ptr r =
     (case rt r of
        RT_GP8 \<Rightarrow> Some (GpRegister (ri r)) | RT_GP16 \<Rightarrow> Some (GpRegister (ri r))
      | RT_GP32 \<Rightarrow> Some (GpRegister (ri r)) | RT_GP64 \<Rightarrow> Some (GpRegister (ri r))
      | RT_GP8Leg \<Rightarrow> (if 4 \<le> ri r \<and> ri r < 8 then Some (GpRegister (ri r - 4))
                     else Some (GpRegister (ri r)))
      | RT_XMM \<Rightarrow> Some (SseRegister (ri r)) | RT_YMM \<Rightarrow> Some (SseRegister (ri r))
      | RT_IP \<Rightarrow> Some IpRegister
      | _ \<Rightarrow> None)"

abbreviation llFacet :: "('v, 'b, 'w) llstate \<Rightarrow> nat \<Rightarrow> llregister \<Rightarrow> facet \<Rightarrow> 'v option" where
  "llFacet s b l f \<equiv> rf_regs (llRegfile s b) l f"

definition setFacet :: "nat \<Rightarrow> llregister \<Rightarrow> facet \<Rightarrow> 'v option \<Rightarrow> ('v, 'b, 'w) llstate
    \<Rightarrow> ('v, 'b, 'w) llstate" where
  "setFacet b l f v = updRegfile b (\<lambda>rf. rf\<lparr>rf_regs := (rf_regs rf)(l := (rf_regs rf l)(f := v))\<rparr>)"

definition setRegister :: "nat \<Rightarrow> llregister \<Rightarrow> (facet \<Rightarrow> 'v option) \<Rightarrow> ('v, 'b, 'w) llstate
    \<Rightarrow> ('v, 'b, 'w) llstate" where
  "setRegister b l v = updRegfile b (\<lambda>rf. rf\<lparr>rf_regs := (rf_regs rf)(l := v)\<rparr>)"

text \<open>The missing values are inserted before the terminator, if the block has one.\<close>

definition positionBuilder :: "('v, 't, 'b, 'w) llvm \<Rightarrow> nat \<Rightarrow> ('v, 'b, 'w) llstate
    \<Rightarrow> ('v, 'b, 'w) llstate option" where
  "positionBuilder L b s = do {
     bb \<leftarrow> lb_llvmBB (llBlock s b);
     Some (case llTerminator L bb (ll_world s) of
       Some t \<Rightarrow> llc L (LLVMPositionBuilderBefore t) s | None \<Rightarrow> s) }"

text \<open>The facets of a general purpose register or of the instruction pointer.\<close>

definition facetOfGp :: "('v, 't, 'b, 'w) llvm \<Rightarrow> nat \<Rightarrow> llregister \<Rightarrow> facet \<Rightarrow> ('v, 'b, 'w) llstate
    \<Rightarrow> ('v \<times> ('v, 'b, 'w) llstate) option" where
  "facetOfGp L b l f s =
     (case f of
        FACET_PTR \<Rightarrow> do {
          n \<leftarrow> llFacet s b l FACET_I64;
          Some (llb L (BuildCast LIntToPtr n (llPtr8 L)) s) }
      | FACET_I8 \<Rightarrow> do {
          n \<leftarrow> llFacet s b l FACET_I64;
          Some (llb L (BuildCast LTrunc n (ll_register_facet_type L f)) s) }
      | FACET_I16 \<Rightarrow> do {
          n \<leftarrow> llFacet s b l FACET_I64;
          Some (llb L (BuildCast LTrunc n (ll_register_facet_type L f)) s) }
      | FACET_I32 \<Rightarrow> do {
          n \<leftarrow> llFacet s b l FACET_I64;
          Some (llb L (BuildCast LTrunc n (ll_register_facet_type L f)) s) }
      | FACET_I8H \<Rightarrow> do {
          n \<leftarrow> llFacet s b l FACET_I64;
          let (v, s) = llb L (BuildBin LLShr n (llConstInt L (llTypeOf L n) 8)) s;
          Some (llb L (BuildCast LTrunc v (llInt L 8)) s) }
      | _ \<Rightarrow> Some (llUndef L (ll_register_facet_type L f), s))"

text \<open>A vector facet: the native value as a vector, and of it the lowest elements.\<close>

definition facetOfVector :: "('v, 't, 'b, 'w) llvm \<Rightarrow> nat \<Rightarrow> llregister \<Rightarrow> facet \<Rightarrow> nat
    \<Rightarrow> ('v, 'b, 'w) llstate \<Rightarrow> ('v \<times> ('v, 'b, 'w) llstate) option" where
  "facetOfVector L b l f targetBits s = do {
     n \<leftarrow> llFacet s b l FACET_IVEC;
     let t = ll_register_facet_type L f;
     let targetCount = llVectorSize L t;
     let nativeCount = targetCount * LL_VECTOR_REGISTER_SIZE div targetBits;
     let nativeType = llType L (LLVMVectorType (llElementType L t) nativeCount);
     let (v, s) = llb L (BuildCast LBitCast n nativeType) s;
     Some (if targetCount < nativeCount
       then llb L (BuildShuffleVector v (llUndef L nativeType) (llMask L [0..<targetCount])) s
       else (v, s)) }"

text \<open>The facet of the vector whose first element is a scalar facet.\<close>

definition vectorFacet :: "facet \<Rightarrow> facet option" where
  "vectorFacet f = (case f of FACET_I8 \<Rightarrow> Some FACET_V16I8 | FACET_I16 \<Rightarrow> Some FACET_V8I16
     | FACET_I32 \<Rightarrow> Some FACET_V4I32 | FACET_I64 \<Rightarrow> Some FACET_V2I64
     | FACET_F32 \<Rightarrow> Some FACET_V4F32 | FACET_F64 \<Rightarrow> Some FACET_V2F64 | _ \<Rightarrow> None)"

lemma vectorFacet_vector: "vectorFacet f = Some g \<Longrightarrow> vectorFacet g = None"
  by (cases f) (auto simp: vectorFacet_def)

function ll_regfile_get :: "('v, 't, 'b, 'w) llvm \<Rightarrow> nat \<Rightarrow> facet \<Rightarrow> reg \<Rightarrow> ('v, 'b, 'w) llstate
    \<Rightarrow> ('v \<times> ('v, 'b, 'w) llstate) option" where
  "ll_regfile_get L b f r s = do {
     l \<leftarrow> ll_regfile_get_ptr r;
     (case llFacet s b l f of
        Some v \<Rightarrow> do { c_assert (llTypeOf L v = ll_register_facet_type L f); Some (v, s) }
      | None \<Rightarrow> do {
          s \<leftarrow> positionBuilder L b s;
          gp \<leftarrow> regIsGP r;
          (v, s) \<leftarrow>
            (if gp \<or> rt r = RT_IP then facetOfGp L b l f s
             else do {
               vr \<leftarrow> regIsV r;
               c_assert vr;
               (case vectorFacet f of
                  Some g \<Rightarrow> do {
                    (v, s) \<leftarrow> ll_regfile_get L b g r s;
                    Some (llb L (BuildExtractElement v (llConstInt L (llInt L 32) 0)) s) }
                | None \<Rightarrow>
                    (if f = FACET_V2F32 then facetOfVector L b l f 64 s
                     else if f \<in> {FACET_V16I8, FACET_V8I16, FACET_V4I32, FACET_V2I64, FACET_V4F32,
                                  FACET_V2F64} then facetOfVector L b l f 128 s
                     else if f = FACET_I128 then do {
                       n \<leftarrow> llFacet s b l FACET_IVEC;
                       Some (llb L (BuildCast LTruncOrBitCast n (llInt L 128)) s) }
                     else Some (llUndef L (ll_register_facet_type L f), s))) });
          c_assert (llTypeOf L v = ll_register_facet_type L f);
          Some (v, setFacet b l f (Some v) s) }) }"
  by auto
termination
  by (relation "measure (\<lambda>(L, b, f, r, s). if vectorFacet f = None then 0 else 1)")
     (auto dest: vectorFacet_vector)

declare ll_regfile_get.simps [simp del]

definition ll_regfile_clear :: "('v, 't, 'b, 'w) llvm \<Rightarrow> nat \<Rightarrow> reg \<Rightarrow> ('v, 'b, 'w) llstate
    \<Rightarrow> ('v, 'b, 'w) llstate option" where
  "ll_regfile_clear L b r s = do {
     l \<leftarrow> ll_regfile_get_ptr r;
     Some (setRegister b l (\<lambda>f. Some (llUndef L (ll_register_facet_type L f))) s) }"

definition ll_regfile_zero :: "('v, 't, 'b, 'w) llvm \<Rightarrow> nat \<Rightarrow> reg \<Rightarrow> ('v, 'b, 'w) llstate
    \<Rightarrow> ('v, 'b, 'w) llstate option" where
  "ll_regfile_zero L b r s = do {
     l \<leftarrow> ll_regfile_get_ptr r;
     Some (setRegister b l (\<lambda>f. Some (llConst L (LLVMConstNull (ll_register_facet_type L f)))) s) }"

definition ll_regfile_rename :: "nat \<Rightarrow> reg \<Rightarrow> reg \<Rightarrow> ('v, 'b, 'w) llstate
    \<Rightarrow> ('v, 'b, 'w) llstate option" where
  "ll_regfile_rename b r current s = do {
     l1 \<leftarrow> ll_regfile_get_ptr r;
     l2 \<leftarrow> ll_regfile_get_ptr current;
     Some (setRegister b l1 (llFacet s b l2) s) }"

text \<open>
  With \<open>clearOthers\<close> only the native facet may be set, or the pointer of a general purpose
  register, whose 64-bit value is then built from it.
\<close>

definition ll_regfile_set :: "('v, 't, 'b, 'w) llvm \<Rightarrow> nat \<Rightarrow> facet \<Rightarrow> reg \<Rightarrow> 'v \<Rightarrow> bool
    \<Rightarrow> ('v, 'b, 'w) llstate \<Rightarrow> ('v, 'b, 'w) llstate option" where
  "ll_regfile_set L b f r v clearOthers s = do {
     s \<leftarrow> (if llIsConstant L v then Some s else do {
            n \<leftarrow> ll_register_name_for_facet f r;
            Some (llc L (LLVMSetMetadata v (''asm.reg.'' @ n) (ll_emptyMD s)) s) });
     c_assert (llTypeOf L v = ll_register_facet_type L f);
     l \<leftarrow> ll_regfile_get_ptr r;
     s \<leftarrow> (if clearOthers then do {
            let s = setRegister b l (\<lambda>_. None) s;
            gp \<leftarrow> regIsGP r;
            (if gp \<and> f \<noteq> FACET_I64 then do {
               c_assert (f = FACET_PTR);
               let (n, s) = llb L (BuildCast LPtrToInt v (llInt L 64)) s;
               Some (setFacet b l FACET_I64 (Some n) s) }
             else do {
               vr \<leftarrow> regIsV r;
               c_assert (\<not> (vr \<and> f \<noteq> FACET_IVEC));
               Some s }) }
          else Some s);
     Some (setFacet b l f (Some v) s) }"

definition ll_regfile_get_flag :: "nat \<Rightarrow> rflag \<Rightarrow> ('v, 'b, 'w) llstate \<Rightarrow> 'v option" where
  "ll_regfile_get_flag b f s = rf_flags (llRegfile s b) f"

definition ll_regfile_set_flag :: "nat \<Rightarrow> rflag \<Rightarrow> 'v \<Rightarrow> ('v, 'b, 'w) llstate
    \<Rightarrow> ('v, 'b, 'w) llstate" where
  "ll_regfile_set_flag b f v =
     updRegfile b (\<lambda>rf. rf\<lparr>rf_flags := (rf_flags rf)(f := Some v)\<rparr>)"

text \<open>The flag cache is read and written through the pointer this returns.\<close>

definition ll_regfile_get_flag_cache :: "nat \<Rightarrow> ('v, 'b, 'w) llstate \<Rightarrow> 'v llflagcache" where
  "ll_regfile_get_flag_cache b s = rf_cache (llRegfile s b)"

definition setFlagCache :: "nat \<Rightarrow> ('v llflagcache \<Rightarrow> 'v llflagcache) \<Rightarrow> ('v, 'b, 'w) llstate
    \<Rightarrow> ('v, 'b, 'w) llstate" where
  "setFlagCache b f = updRegfile b (\<lambda>rf. rf\<lparr>rf_cache := f (rf_cache rf)\<rparr>)"

section \<open>The current block\<close>

text \<open>
  The accessors of \<open>llbasicblock.c\<close> pass their arguments on to the register file; the macros
  \<open>ll_get_register\<close>, \<open>ll_set_register\<close>, \<open>ll_clear_register\<close>, \<open>ll_get_flag\<close> and
  \<open>ll_set_flag\<close> of \<open>llbasicblock-internal.h\<close> apply them to the current block.
\<close>

definition ll_get_register :: "('v, 't, 'b, 'w) llvm \<Rightarrow> reg \<Rightarrow> facet \<Rightarrow> ('v, 'b, 'w) llstate
    \<Rightarrow> ('v \<times> ('v, 'b, 'w) llstate) option" where
  "ll_get_register L r f s = ll_regfile_get L (ll_currentBB s) f r s"

definition ll_clear_register :: "('v, 't, 'b, 'w) llvm \<Rightarrow> reg \<Rightarrow> ('v, 'b, 'w) llstate
    \<Rightarrow> ('v, 'b, 'w) llstate option" where
  "ll_clear_register L r s = ll_regfile_clear L (ll_currentBB s) r s"

definition ll_set_register :: "('v, 't, 'b, 'w) llvm \<Rightarrow> reg \<Rightarrow> facet \<Rightarrow> 'v \<Rightarrow> bool
    \<Rightarrow> ('v, 'b, 'w) llstate \<Rightarrow> ('v, 'b, 'w) llstate option" where
  "ll_set_register L r f v clear s = ll_regfile_set L (ll_currentBB s) f r v clear s"

definition ll_get_flag :: "rflag \<Rightarrow> ('v, 'b, 'w) llstate \<Rightarrow> 'v option" where
  "ll_get_flag f s = ll_regfile_get_flag (ll_currentBB s) f s"

definition ll_set_flag :: "rflag \<Rightarrow> 'v \<Rightarrow> ('v, 'b, 'w) llstate \<Rightarrow> ('v, 'b, 'w) llstate" where
  "ll_set_flag f v s = ll_regfile_set_flag (ll_currentBB s) f v s"

end
