(* ===== verification/LLFlags.thy ===== *)
theory LLFlags
  imports LLRegFile
begin

text \<open>
  The computation of the x86 flags as LLVM values (\<open>llvm/src/llflags.c\<close>). After a subtraction
  the flag cache holds the operands, so that a condition is one comparison of them.
\<close>

section \<open>Helpers\<close>

definition i1 :: "('v, 't, 'b, 'w) llvm \<Rightarrow> 't" where
  "i1 L = llInt L 1"

text \<open>Constants of the type of a value.\<close>

definition constLike :: "('v, 't, 'b, 'w) llvm \<Rightarrow> 'v \<Rightarrow> u64 \<Rightarrow> 'v" where
  "constLike L v n = llConstInt L (llTypeOf L v) n"

text \<open>\<open>LLVMSetMetadata\<close> of the value of a flag, read back from the register file.\<close>

definition markFlag :: "('v, 't, 'b, 'w) llvm \<Rightarrow> string \<Rightarrow> rflag \<Rightarrow> ('v, 'b, 'w) llstate
    \<Rightarrow> ('v, 'b, 'w) llstate option" where
  "markFlag L k f s = do {
     v \<leftarrow> ll_get_flag f s;
     Some (llc L (LLVMSetMetadata v (''asm.flag.'' @ k) (ll_emptyMD s)) s) }"

section \<open>Conditions\<close>

text \<open>
  The difference of the instruction type and its base is the number of the condition code; its
  half selects the condition and an odd number negates it.
\<close>

definition condCode :: "cond \<Rightarrow> nat" where
  "condCode c = (case c of CC_O \<Rightarrow> 0 | CC_NO \<Rightarrow> 1 | CC_C \<Rightarrow> 2 | CC_NC \<Rightarrow> 3 | CC_Z \<Rightarrow> 4 | CC_NZ \<Rightarrow> 5
     | CC_BE \<Rightarrow> 6 | CC_A \<Rightarrow> 7 | CC_S \<Rightarrow> 8 | CC_NS \<Rightarrow> 9 | CC_P \<Rightarrow> 10 | CC_NP \<Rightarrow> 11 | CC_L \<Rightarrow> 12
     | CC_GE \<Rightarrow> 13 | CC_LE \<Rightarrow> 14 | CC_G \<Rightarrow> 15)"

text \<open>A comparison of the cached operands.\<close>

definition cachedCompare :: "('v, 't, 'b, 'w) llvm \<Rightarrow> llpred \<Rightarrow> 'v llflagcache
    \<Rightarrow> ('v, 'b, 'w) llstate \<Rightarrow> ('v \<times> ('v, 'b, 'w) llstate) option" where
  "cachedCompare L p fc s = do {
     a \<leftarrow> fc_operand1 fc;
     b \<leftarrow> fc_operand2 fc;
     Some (llb L (BuildICmp p a b) s) }"

definition ll_flags_condition :: "('v, 't, 'b, 'w) llvm \<Rightarrow> cond \<Rightarrow> ('v, 'b, 'w) llstate
    \<Rightarrow> ('v \<times> ('v, 'b, 'w) llstate) option" where
  "ll_flags_condition L c s = do {
     let conditionType = condCode c div 2;
     let negate = odd (condCode c);
     let fc = ll_regfile_get_flag_cache (ll_currentBB s) s;
     (v, s) \<leftarrow>
       (if conditionType = 0 then do { v \<leftarrow> ll_get_flag RFLAG_OF s; Some (v, s) }
        else if conditionType = 1 then do { v \<leftarrow> ll_get_flag RFLAG_CF s; Some (v, s) }
        else if conditionType = 2 then do { v \<leftarrow> ll_get_flag RFLAG_ZF s; Some (v, s) }
        else if conditionType = 3 then
          (if fc_valid fc then cachedCompare L LLVMIntULE fc s
           else do {
             cf \<leftarrow> ll_get_flag RFLAG_CF s;
             zf \<leftarrow> ll_get_flag RFLAG_ZF s;
             Some (llb L (BuildBin LOr cf zf) s) })
        else if conditionType = 4 then do { v \<leftarrow> ll_get_flag RFLAG_SF s; Some (v, s) }
        else if conditionType = 5 then do { v \<leftarrow> ll_get_flag RFLAG_PF s; Some (v, s) }
        else if conditionType = 6 then
          (if fc_valid fc then cachedCompare L LLVMIntSLT fc s
           else do {
             sf \<leftarrow> ll_get_flag RFLAG_SF s;
             ov \<leftarrow> ll_get_flag RFLAG_OF s;
             Some (llb L (BuildICmp LLVMIntNE sf ov) s) })
        else
          (if fc_valid fc then cachedCompare L LLVMIntSLE fc s
           else do {
             sf \<leftarrow> ll_get_flag RFLAG_SF s;
             ov \<leftarrow> ll_get_flag RFLAG_OF s;
             zf \<leftarrow> ll_get_flag RFLAG_ZF s;
             let (v, s) = llb L (BuildICmp LLVMIntNE sf ov) s;
             Some (llb L (BuildBin LOr v zf) s) }));
     Some (if negate then llb L (BuildNot v) s else (v, s)) }"

section \<open>Single flags\<close>

definition ll_flags_set_af :: "('v, 't, 'b, 'w) llvm \<Rightarrow> 'v \<Rightarrow> 'v \<Rightarrow> 'v \<Rightarrow> ('v, 'b, 'w) llstate
    \<Rightarrow> ('v, 'b, 'w) llstate option" where
  "ll_flags_set_af L result lhs rhs s = do {
     let (xor1, s) = llb L (BuildBin LXor lhs result) s;
     let (xor2, s) = llb L (BuildBin LXor xor1 rhs) s;
     let (and1, s) = llb L (BuildBin LAnd xor2 (constLike L result 16)) s;
     let (v, s) = llb L (BuildICmp LLVMIntNE and1 (constLike L result 0)) s;
     markFlag L ''af'' RFLAG_AF (ll_set_flag RFLAG_AF v s) }"

definition ll_flags_set_zf :: "('v, 't, 'b, 'w) llvm \<Rightarrow> 'v \<Rightarrow> ('v, 'b, 'w) llstate
    \<Rightarrow> ('v, 'b, 'w) llstate option" where
  "ll_flags_set_zf L result s = do {
     let (v, s) = llb L (BuildICmp LLVMIntEQ result (constLike L result 0)) s;
     markFlag L ''zf'' RFLAG_ZF (ll_set_flag RFLAG_ZF v s) }"

definition ll_flags_set_sf :: "('v, 't, 'b, 'w) llvm \<Rightarrow> 'v \<Rightarrow> ('v, 'b, 'w) llstate
    \<Rightarrow> ('v, 'b, 'w) llstate option" where
  "ll_flags_set_sf L result s = do {
     let (v, s) = llb L (BuildICmp LLVMIntSLT result (constLike L result 0)) s;
     markFlag L ''sf'' RFLAG_SF (ll_set_flag RFLAG_SF v s) }"

text \<open>The second member of the result of an intrinsic with overflow.\<close>

definition overflowIntrinsic :: "('v, 't, 'b, 'w) llvm \<Rightarrow> llintrinsic \<Rightarrow> 't \<Rightarrow> 'v \<Rightarrow> 'v
    \<Rightarrow> ('v, 'b, 'w) llstate \<Rightarrow> 'v \<times> ('v, 'b, 'w) llstate" where
  "overflowIntrinsic L i t lhs rhs s =
     (let (fn, s) = ll_support_get_intrinsic L i [t] s;
          (packed, s) = llb L (BuildCall fn [lhs, rhs]) s
      in llb L (BuildExtractValue packed 1) s)"

text \<open>The sign bit of a value, the end of the computations without intrinsics.\<close>

definition signBit :: "('v, 't, 'b, 'w) llvm \<Rightarrow> 't \<Rightarrow> 'v \<Rightarrow> ('v, 'b, 'w) llstate
    \<Rightarrow> 'v \<times> ('v, 'b, 'w) llstate" where
  "signBit L intType v s =
     (let (overflow, s) =
            llb L (BuildBin LLShr v (llConstInt L intType (of_nat (llIntTypeWidth L intType - 1)))) s
      in llb L (BuildCast LTrunc overflow (i1 L)) s)"

definition ll_flags_set_of_sub :: "('v, 't, 'b, 'w) llvm \<Rightarrow> 'v \<Rightarrow> 'v \<Rightarrow> 'v
    \<Rightarrow> ('v, 'b, 'w) llstate \<Rightarrow> ('v, 'b, 'w) llstate option" where
  "ll_flags_set_of_sub L result lhs rhs s = do {
     let intType = llTypeOf L result;
     let (v, s) =
       (if enableOverflowIntrinsics s
        then overflowIntrinsic L LL_INTRINSIC_SSUB_WITH_OVERFLOW intType lhs rhs s
        else
          (let (xor1, s) = llb L (BuildBin LXor lhs result) s;
               (xor2, s) = llb L (BuildBin LXor lhs rhs) s;
               (both, s) = llb L (BuildBin LAnd xor1 xor2) s
           in signBit L intType both s));
     markFlag L ''of'' RFLAG_OF (ll_set_flag RFLAG_OF v s) }"

definition ll_flags_set_cf_sub :: "('v, 't, 'b, 'w) llvm \<Rightarrow> 'v \<Rightarrow> 'v \<Rightarrow> ('v, 'b, 'w) llstate
    \<Rightarrow> ('v, 'b, 'w) llstate option" where
  "ll_flags_set_cf_sub L lhs rhs s = do {
     let (v, s) = llb L (BuildICmp LLVMIntULT lhs rhs) s;
     markFlag L ''cf'' RFLAG_CF (ll_set_flag RFLAG_CF v s) }"

definition ll_flags_set_of_add :: "('v, 't, 'b, 'w) llvm \<Rightarrow> 'v \<Rightarrow> 'v \<Rightarrow> 'v
    \<Rightarrow> ('v, 'b, 'w) llstate \<Rightarrow> ('v, 'b, 'w) llstate option" where
  "ll_flags_set_of_add L result lhs rhs s = do {
     let intType = llTypeOf L result;
     let (v, s) =
       (if enableOverflowIntrinsics s
        then overflowIntrinsic L LL_INTRINSIC_SADD_WITH_OVERFLOW intType lhs rhs s
        else
          (let (xor1, s) = llb L (BuildBin LXor lhs result) s;
               (xor2, s) = llb L (BuildBin LXor lhs rhs) s;
               (same, s) = llb L (BuildNot xor2) s;
               (both, s) = llb L (BuildBin LAnd xor1 same) s
           in signBit L intType both s));
     markFlag L ''of'' RFLAG_OF (ll_set_flag RFLAG_OF v s) }"

definition ll_flags_set_cf_add :: "('v, 't, 'b, 'w) llvm \<Rightarrow> 'v \<Rightarrow> 'v \<Rightarrow> ('v, 'b, 'w) llstate
    \<Rightarrow> ('v, 'b, 'w) llstate option" where
  "ll_flags_set_cf_add L result lhs s = do {
     let (v, s) = llb L (BuildICmp LLVMIntULT result lhs) s;
     markFlag L ''cf'' RFLAG_CF (ll_set_flag RFLAG_CF v s) }"

definition ll_flags_set_of_imul :: "('v, 't, 'b, 'w) llvm \<Rightarrow> 'v \<Rightarrow> 'v \<Rightarrow> 'v
    \<Rightarrow> ('v, 'b, 'w) llstate \<Rightarrow> ('v, 'b, 'w) llstate" where
  "ll_flags_set_of_imul L result lhs rhs s =
     (let intType = llTypeOf L lhs;
          intLargeType = llInt L (llIntTypeWidth L intType * 2);
          (v, s) =
            (if enableOverflowIntrinsics s
             then overflowIntrinsic L LL_INTRINSIC_SMUL_WITH_OVERFLOW intType lhs rhs s
             else
               (let (longResult, shortResult, s) =
                      (if llTypeOf L result \<noteq> intLargeType then
                         (let (a, s) = llb L (BuildCast LSExt lhs intLargeType) s;
                              (b, s) = llb L (BuildCast LSExt rhs intLargeType) s;
                              (p, s) = llb L (BuildBin LMul a b) s
                          in (p, result, s))
                       else
                         (let (q, s) = llb L (BuildCast LTrunc result intType) s
                          in (result, q, s)));
                    (wide, s) = llb L (BuildCast LSExt shortResult intLargeType) s
                in llb L (BuildICmp LLVMIntNE longResult wide) s));
          s = ll_set_flag RFLAG_CF v (ll_set_flag RFLAG_OF v s)
      in llc L (LLVMSetMetadata v ''asm.flag.of'' (ll_emptyMD s)) s)"

definition ll_flags_set_pf :: "('v, 't, 'b, 'w) llvm \<Rightarrow> 'v \<Rightarrow> ('v, 'b, 'w) llstate
    \<Rightarrow> ('v, 'b, 'w) llstate option" where
  "ll_flags_set_pf L result s = do {
     let (ctpop, s) = ll_support_get_intrinsic L LL_INTRINSIC_CTPOP [llInt L 8] s;
     let (arg, s) = llb L (BuildCast LTruncOrBitCast result (llInt L 8)) s;
     let (count, s) = llb L (BuildCall ctpop [arg]) s;
     let (bit, s) = llb L (BuildCast LTruncOrBitCast count (i1 L)) s;
     let (v, s) = llb L (BuildNot bit) s;
     markFlag L ''pf'' RFLAG_PF (ll_set_flag RFLAG_PF v s) }"

section \<open>The flags of an operation\<close>

definition invalidateCache :: "('v, 'b, 'w) llstate \<Rightarrow> ('v, 'b, 'w) llstate" where
  "invalidateCache s = setFlagCache (ll_currentBB s) (\<lambda>fc. fc\<lparr>fc_valid := False\<rparr>) s"

definition ll_flags_set_sub :: "('v, 't, 'b, 'w) llvm \<Rightarrow> 'v \<Rightarrow> 'v \<Rightarrow> 'v \<Rightarrow> ('v, 'b, 'w) llstate
    \<Rightarrow> ('v, 'b, 'w) llstate option" where
  "ll_flags_set_sub L result lhs rhs s = do {
     s \<leftarrow> ll_flags_set_af L result lhs rhs s;
     s \<leftarrow> ll_flags_set_zf L result s;
     s \<leftarrow> ll_flags_set_sf L result s;
     s \<leftarrow> ll_flags_set_cf_sub L lhs rhs s;
     s \<leftarrow> ll_flags_set_of_sub L result lhs rhs s;
     s \<leftarrow> ll_flags_set_pf L result s;
     Some (setFlagCache (ll_currentBB s) (\<lambda>_. \<lparr>fc_valid = True, fc_operand1 = Some lhs,
       fc_operand2 = Some rhs, fc_result = Some result\<rparr>) s) }"

definition ll_flags_set_add :: "('v, 't, 'b, 'w) llvm \<Rightarrow> 'v \<Rightarrow> 'v \<Rightarrow> 'v \<Rightarrow> ('v, 'b, 'w) llstate
    \<Rightarrow> ('v, 'b, 'w) llstate option" where
  "ll_flags_set_add L result lhs rhs s = do {
     s \<leftarrow> ll_flags_set_af L result lhs rhs s;
     s \<leftarrow> ll_flags_set_zf L result s;
     s \<leftarrow> ll_flags_set_sf L result s;
     s \<leftarrow> ll_flags_set_cf_add L result lhs s;
     s \<leftarrow> ll_flags_set_of_add L result lhs rhs s;
     s \<leftarrow> ll_flags_set_pf L result s;
     Some (invalidateCache s) }"

text \<open>The operands of the bitwise operations and of the shifts are not used.\<close>

definition ll_flags_set_bit :: "('v, 't, 'b, 'w) llvm \<Rightarrow> 'v \<Rightarrow> ('v, 'b, 'w) llstate
    \<Rightarrow> ('v, 'b, 'w) llstate option" where
  "ll_flags_set_bit L result s = do {
     let s = ll_set_flag RFLAG_AF (llUndef L (i1 L)) s;
     let s = ll_set_flag RFLAG_CF (llConstInt L (i1 L) 0) s;
     let s = ll_set_flag RFLAG_OF (llConstInt L (i1 L) 0) s;
     s \<leftarrow> ll_flags_set_zf L result s;
     s \<leftarrow> ll_flags_set_sf L result s;
     s \<leftarrow> ll_flags_set_pf L result s;
     Some (invalidateCache s) }"

definition ll_flags_set_inc :: "('v, 't, 'b, 'w) llvm \<Rightarrow> 'v \<Rightarrow> 'v \<Rightarrow> ('v, 'b, 'w) llstate
    \<Rightarrow> ('v, 'b, 'w) llstate option" where
  "ll_flags_set_inc L result lhs s = do {
     let rhs = constLike L lhs 1;
     s \<leftarrow> ll_flags_set_af L result lhs rhs s;
     s \<leftarrow> ll_flags_set_zf L result s;
     s \<leftarrow> ll_flags_set_sf L result s;
     s \<leftarrow> ll_flags_set_of_add L result lhs rhs s;
     s \<leftarrow> ll_flags_set_pf L result s;
     Some (invalidateCache s) }"

definition ll_flags_set_dec :: "('v, 't, 'b, 'w) llvm \<Rightarrow> 'v \<Rightarrow> 'v \<Rightarrow> ('v, 'b, 'w) llstate
    \<Rightarrow> ('v, 'b, 'w) llstate option" where
  "ll_flags_set_dec L result lhs s = do {
     let rhs = constLike L lhs 1;
     s \<leftarrow> ll_flags_set_af L result lhs rhs s;
     s \<leftarrow> ll_flags_set_zf L result s;
     s \<leftarrow> ll_flags_set_sf L result s;
     s \<leftarrow> ll_flags_set_of_sub L result lhs rhs s;
     s \<leftarrow> ll_flags_set_pf L result s;
     Some (invalidateCache s) }"

definition ll_flags_invalidate :: "('v, 't, 'b, 'w) llvm \<Rightarrow> ('v, 'b, 'w) llstate
    \<Rightarrow> ('v, 'b, 'w) llstate" where
  "ll_flags_invalidate L s =
     invalidateCache (foldl (\<lambda>s f. ll_set_flag f (llUndef L (i1 L)) s) s
       [RFLAG_AF, RFLAG_CF, RFLAG_OF, RFLAG_SF, RFLAG_ZF, RFLAG_PF])"

definition ll_flags_set_shl :: "('v, 't, 'b, 'w) llvm \<Rightarrow> 'v \<Rightarrow> ('v, 'b, 'w) llstate
    \<Rightarrow> ('v, 'b, 'w) llstate option" where
  "ll_flags_set_shl L result s = do {
     let s = ll_flags_invalidate L s;
     s \<leftarrow> ll_flags_set_zf L result s;
     s \<leftarrow> ll_flags_set_sf L result s;
     ll_flags_set_pf L result s }"

definition ll_flags_set_shr :: "('v, 't, 'b, 'w) llvm \<Rightarrow> 'v \<Rightarrow> ('v, 'b, 'w) llstate
    \<Rightarrow> ('v, 'b, 'w) llstate option" where
  "ll_flags_set_shr L result s = do {
     let s = ll_flags_invalidate L s;
     s \<leftarrow> ll_flags_set_zf L result s;
     s \<leftarrow> ll_flags_set_sf L result s;
     ll_flags_set_pf L result s }"

definition ll_flags_set_sar :: "('v, 't, 'b, 'w) llvm \<Rightarrow> 'v \<Rightarrow> ('v, 'b, 'w) llstate
    \<Rightarrow> ('v, 'b, 'w) llstate option" where
  "ll_flags_set_sar L result s = do {
     let s = ll_flags_invalidate L s;
     s \<leftarrow> ll_flags_set_zf L result s;
     s \<leftarrow> ll_flags_set_sf L result s;
     ll_flags_set_pf L result s }"

end
