(* ===== verification/LLOperand.thy ===== *)
theory LLOperand
  imports LLRegFile
begin

text \<open>
  Loading and storing the operands of x86 instructions as LLVM values
  (\<open>llvm/src/lloperand.c\<close>).
\<close>

section \<open>Data types and facets\<close>

datatype (plugins only: code size) operanddatatype =
    OP_SI | OP_SI32 | OP_SI64 | OP_VI8 | OP_VI32 | OP_VI64 | OP_SF32 | OP_SF64 | OP_VF32 | OP_VF64

datatype (plugins only: code size) alignment = ALIGN_MAXIMUM | ALIGN_1 | ALIGN_2 | ALIGN_4 | ALIGN_8

datatype (plugins only: code size) partialregisterhandling =
    REG_DEFAULT | REG_ZERO_UPPER_SSE | REG_ZERO_UPPER_AVX | REG_KEEP_UPPER

definition alignBytes :: "alignment \<Rightarrow> nat \<Rightarrow> nat" where
  "alignBytes a operandWidth = (case a of ALIGN_MAXIMUM \<Rightarrow> operandWidth div 8 | ALIGN_1 \<Rightarrow> 1
     | ALIGN_2 \<Rightarrow> 2 | ALIGN_4 \<Rightarrow> 4 | ALIGN_8 \<Rightarrow> 8)"

definition ll_operand_get_type_length :: "operanddatatype \<Rightarrow> operand \<Rightarrow> nat option" where
  "ll_operand_get_type_length t p =
     (if t \<in> {OP_SI, OP_VI8, OP_VI64, OP_VI32, OP_VF32, OP_VF64} then opTypeWidth p
      else if t \<in> {OP_SI32, OP_SF32} then Some 32 else Some 64)"

text \<open>One of the registers \<open>ah\<close>, \<open>ch\<close>, \<open>dh\<close> and \<open>bh\<close>.\<close>

definition highByte :: "reg \<Rightarrow> bool" where
  "highByte r \<longleftrightarrow> rt r = RT_GP8Leg \<and> 4 \<le> ri r \<and> ri r < 8"

definition ll_operand_get_facet :: "operanddatatype \<Rightarrow> operand \<Rightarrow> facet option" where
  "ll_operand_get_facet t p = do {
     bits \<leftarrow> opTypeWidth p;
     (case t of
        OP_SI \<Rightarrow>
          (if bits = 8 then Some (if highByte (oreg p) then FACET_I8H else FACET_I8)
           else if bits = 16 then Some FACET_I16
           else if bits = 32 then Some FACET_I32
           else if bits = 64 then Some FACET_I64
           else None)
      | OP_SI32 \<Rightarrow> Some FACET_I32
      | OP_SI64 \<Rightarrow> Some FACET_I64
      | OP_VI8 \<Rightarrow> (if bits = 128 then Some FACET_V16I8 else None)
      | OP_VI32 \<Rightarrow> (if bits = 128 then Some FACET_V4I32 else None)
      | OP_VI64 \<Rightarrow> (if bits = 128 then Some FACET_V2I64 else None)
      | OP_VF32 \<Rightarrow> (if bits = 64 then Some FACET_V2F32
                   else if bits = 128 then Some FACET_V4F32 else None)
      | OP_VF64 \<Rightarrow> (if bits = 128 then Some FACET_V2F64 else None)
      | OP_SF32 \<Rightarrow> Some FACET_F32
      | OP_SF64 \<Rightarrow> Some FACET_F64) }"

text \<open>A vector type, for a width that is a multiple of the width of an element.\<close>

definition vecOf :: "('v, 't, 'b, 'w) llvm \<Rightarrow> 't \<Rightarrow> nat \<Rightarrow> nat \<Rightarrow> 't option" where
  "vecOf L t n bits = do {
     c_assert (bits mod n = 0);
     Some (llType L (LLVMVectorType t (bits div n))) }"

definition ll_operand_get_type :: "('v, 't, 'b, 'w) llvm \<Rightarrow> operanddatatype \<Rightarrow> nat \<Rightarrow> 't option" where
  "ll_operand_get_type L t bits =
     (case t of
        OP_SI \<Rightarrow> Some (llInt L bits)
      | OP_SI32 \<Rightarrow> Some (llInt L 32)
      | OP_SI64 \<Rightarrow> Some (llInt L 64)
      | OP_VI8 \<Rightarrow> vecOf L (llInt L 8) 8 bits
      | OP_VI64 \<Rightarrow> vecOf L (llInt L 64) 64 bits
      | OP_VI32 \<Rightarrow> vecOf L (llInt L 32) 32 bits
      | OP_SF32 \<Rightarrow> Some (llType L LLVMFloatType)
      | OP_SF64 \<Rightarrow> Some (llType L LLVMDoubleType)
      | OP_VF32 \<Rightarrow> vecOf L (llType L LLVMFloatType) 32 bits
      | OP_VF64 \<Rightarrow> vecOf L (llType L LLVMDoubleType) 64 bits)"

section \<open>Storing registers\<close>

text \<open>
  A 32-bit value is zero extended, a shorter one replaces its bits of the old value. The
  value is also remembered as a facet of the register.
\<close>

definition ll_operand_store_gp :: "('v, 't, 'b, 'w) llvm \<Rightarrow> 'v \<Rightarrow> operanddatatype \<Rightarrow> operand
    \<Rightarrow> ('v, 'b, 'w) llstate \<Rightarrow> ('v, 'b, 'w) llstate option" where
  "ll_operand_store_gp L v t p s = do {
     operandWidth \<leftarrow> ll_operand_get_type_length t p;
     let i64 = llInt L 64;
     let r = oreg p;
     let (v, s) = llb L (BuildCast LSExtOrBitCast v (llInt L operandWidth)) s;
     let (value64, s) = llb L (BuildCast LZExtOrBitCast v i64) s;
     (result, s) \<leftarrow>
       (if rt r = RT_GP32 \<or> rt r = RT_GP64 then Some (value64, s)
        else do {
          (mask, value64, s) \<leftarrow>
            (if highByte r then
               (let (x, s) = llb L (BuildBin LShl value64 (llConstInt L i64 8)) s
                in Some (0xff00 :: u64, x, s))
             else if rt r = RT_GP8 \<or> rt r = RT_GP8Leg then Some (0xff, value64, s)
             else if rt r = RT_GP16 then Some (0xffff, value64, s)
             else None);
          (current, s) \<leftarrow> ll_get_register L r FACET_I64 s;
          let (masked, s) = llb L (BuildBin LAnd current (llConstInt L i64 (NOT mask))) s;
          Some (llb L (BuildBin LOr masked value64) s) });
     s \<leftarrow> ll_set_register L r FACET_I64 result True s;
     s \<leftarrow> (if rt r = RT_GP32 then ll_set_register L r FACET_I32 v False s else Some s);
     s \<leftarrow> (if rt r = RT_GP16 then ll_set_register L r FACET_I16 v False s else Some s);
     s \<leftarrow> (if rt r = RT_GP8 then ll_set_register L r FACET_I8 v False s else Some s);
     (if rt r = RT_GP8Leg then ll_set_register L r FACET_I8H v False s else Some s) }"

text \<open>A vector register: the value becomes the lowest elements of the native value.\<close>

definition ll_operand_store_vreg :: "('v, 't, 'b, 'w) llvm \<Rightarrow> 'v \<Rightarrow> operanddatatype \<Rightarrow> operand
    \<Rightarrow> partialregisterhandling \<Rightarrow> ('v, 'b, 'w) llstate \<Rightarrow> ('v, 'b, 'w) llstate option" where
  "ll_operand_store_vreg L v t p zeroHandling s = do {
     operandWidth \<leftarrow> ll_operand_get_type_length t p;
     vr \<leftarrow> opIsVReg p;
     c_assert vr;
     let iVec = llInt L LL_VECTOR_REGISTER_SIZE;
     (current, s) \<leftarrow> ll_get_register L (oreg p) FACET_IVEC s;
     let (current, s) =
       (if zeroHandling = REG_ZERO_UPPER_AVX then (llConst L (LLVMConstNull iVec), s)
        else if zeroHandling = REG_ZERO_UPPER_SSE then
          (let ones = llConst L (LLVMConstAllOnes (llInt L 128));
               mask = llConst L (LLVMConstNot (llConst L (LLVMConstZExtOrBitCast ones iVec)))
           in llb L (BuildBin LAnd current mask) s)
        else (current, s));
     let valueType = llTypeOf L v;
     let valueIsVector = (llTypeKind L valueType = LLVMVectorTypeKind);
     let elementCount = (if valueIsVector then llVectorSize L valueType else 1);
     let totalCount = elementCount * LL_VECTOR_REGISTER_SIZE div operandWidth;
     (if valueIsVector then do {
        let vectorType = llType L (LLVMVectorType (llElementType L valueType) totalCount);
        let (vectorCurrent, s) = llb L (BuildCast LBitCast current vectorType) s;
        let mask = llMask L (map (\<lambda>i. if i < elementCount then i else elementCount) [0..<totalCount]);
        let (enlarged, s) = llb L (BuildShuffleVector v (llUndef L valueType) mask) s;
        let mask = llMask L (map (\<lambda>i. if i < elementCount then i else totalCount + i) [0..<totalCount]);
        let (result, s) = llb L (BuildShuffleVector enlarged vectorCurrent mask) s;
        let (result, s) = llb L (BuildCast LBitCast result iVec) s;
        ll_set_register L (oreg p) FACET_IVEC result True s }
      else do {
        let vectorType = llType L (LLVMVectorType valueType totalCount);
        let (vectorCurrent, s) = llb L (BuildCast LBitCast current vectorType) s;
        let (result, s) = llb L (BuildInsertElement vectorCurrent v (llConstInt L (llInt L 64) 0)) s;
        let (result, s) = llb L (BuildCast LBitCast result iVec) s;
        ll_set_register L (oreg p) FACET_IVEC result True s }) }"

section \<open>Addresses\<close>

text \<open>The first constant address becomes the base of all others, a global variable.\<close>

definition ll_get_const_pointer :: "('v, 't, 'b, 'w) llvm \<Rightarrow> u64 \<Rightarrow> ('v, 'b, 'w) llstate
    \<Rightarrow> ('v \<times> ('v, 'b, 'w) llstate) option" where
  "ll_get_const_pointer L ptr s =
     (if ptr = 0 then Some (llConst L (LLVMConstPointerNull (llPtr8 L)), s)
      else do {
        let s = (if ll_globalOffsetBase s = 0 then
            (let (g, w) = llAddGlobal L (llInt L 8) ''__ll_global_base__'' (ll_world s)
             in llc L (LLVMAddGlobalMapping g ptr)
                  (s\<lparr>ll_globalOffsetBase := ptr, ll_globalBase := Some g, ll_world := w\<rparr>))
          else s);
        g \<leftarrow> ll_globalBase s;
        let off = llConstInt L (llInt L 64) (ptr - ll_globalOffsetBase s);
        Some (llb L (BuildGEP g [off]) s) })"

definition addrSpace :: "opsegoverride \<Rightarrow> nat" where
  "addrSpace g = (case g of OSO_None \<Rightarrow> 0 | OSO_UseGS \<Rightarrow> 256 | OSO_UseFS \<Rightarrow> 257)"

text \<open>A pointer to integers as wide as the scale of an operand says.\<close>

definition scaleType :: "('v, 't, 'b, 'w) llvm \<Rightarrow> operand \<Rightarrow> 't" where
  "scaleType L p = llType L (LLVMPointerType (llInt L (oscale p * 8)) 0)"

definition baseAddress :: "('v, 't, 'b, 'w) llvm \<Rightarrow> operand \<Rightarrow> ('v, 'b, 'w) llstate
    \<Rightarrow> ('v \<times> ('v, 'b, 'w) llstate) option" where
  "baseAddress L p s =
     (if rt (oreg p) \<noteq> RT_None then do {
        (result, s) \<leftarrow> ll_get_register L (oreg p) FACET_PTR s;
        (if llIsConstant L result then do {
           (result, s) \<leftarrow> ll_get_register L (oreg p) FACET_I64 s;
           c_assert (llIsConstant L result);
           ll_get_const_pointer L (llZExtValue L result + oval p) s }
         else if oval p \<noteq> 0 then
           (let off = llConstInt L (llInt L 64) (oval p)
            in if oscale p \<noteq> 0 \<and> oval p mod of_nat (oscale p) = 0 then
                 (let (result, s) = llb L (BuildCast LPointerCast result (scaleType L p)) s;
                      off = llConstInt L (llInt L 64) (oval p div of_nat (oscale p))
                  in Some (llb L (BuildGEP result [off]) s))
               else Some (llb L (BuildGEP result [off]) s))
         else Some (result, s)) }
      else ll_get_const_pointer L (oval p) s)"

definition ll_operand_get_address :: "('v, 't, 'b, 'w) llvm \<Rightarrow> operanddatatype \<Rightarrow> operand
    \<Rightarrow> ('v, 'b, 'w) llstate \<Rightarrow> ('v \<times> ('v, 'b, 'w) llstate) option" where
  "ll_operand_get_address L t p s = do {
     bits \<leftarrow> ll_operand_get_type_length t p;
     ty \<leftarrow> ll_operand_get_type L t bits;
     let pointerType = llType L (LLVMPointerType ty (addrSpace (oseg p)));
     (result, s) \<leftarrow> baseAddress L p s;
     (result, s) \<leftarrow>
       (if oscale p \<noteq> 0 then do {
          (off, s) \<leftarrow> ll_get_register L (oireg p) FACET_I64 s;
          (if llIsNull L result then
             (let (off, s) = llb L (BuildBin LMul off
                      (llConstInt L (llInt L 64) (of_nat (oscale p)))) s
              in Some (llb L (BuildCast LIntToPtr off pointerType) s))
           else
             (let st = (if oscale p * 8 = bits then pointerType else scaleType L p);
                  (result, s) = llb L (BuildCast LPointerCast result st) s
              in Some (llb L (BuildGEP result [off]) s))) }
        else Some (result, s));
     Some (llb L (BuildCast LPointerCast result pointerType) s) }"

section \<open>Loading and storing\<close>

definition ll_operand_load :: "('v, 't, 'b, 'w) llvm \<Rightarrow> operanddatatype \<Rightarrow> alignment \<Rightarrow> operand
    \<Rightarrow> ('v, 'b, 'w) llstate \<Rightarrow> ('v \<times> ('v, 'b, 'w) llstate) option" where
  "ll_operand_load L t a p s = do {
     operandWidth \<leftarrow> ll_operand_get_type_length t p;
     (if opIsImm p then do {
        ty \<leftarrow> ll_operand_get_type L t operandWidth;
        Some (llConstInt L ty (oval p), s) }
      else if opIsReg p then do {
        f \<leftarrow> ll_operand_get_facet t p;
        ll_get_register L (oreg p) f s }
      else if opIsInd p then do {
        (address, s) \<leftarrow> ll_operand_get_address L t p s;
        let (result, s) = llb L (BuildLoad address) s;
        Some (result, llc L (LLVMSetAlignment result (alignBytes a operandWidth)) s) }
      else None) }"

definition ll_operand_store :: "('v, 't, 'b, 'w) llvm \<Rightarrow> operanddatatype \<Rightarrow> alignment \<Rightarrow> operand
    \<Rightarrow> partialregisterhandling \<Rightarrow> 'v \<Rightarrow> ('v, 'b, 'w) llstate \<Rightarrow> ('v, 'b, 'w) llstate option" where
  "ll_operand_store L t a p zeroHandling v s =
     (if opIsReg p then
        (if zeroHandling = REG_DEFAULT then do {
           gp \<leftarrow> opIsGPReg p;
           c_assert gp;
           ll_operand_store_gp L v t p s }
         else do {
           vr \<leftarrow> opIsVReg p;
           c_assert vr;
           ll_operand_store_vreg L v t p zeroHandling s })
      else if opIsInd p then do {
        operandWidth \<leftarrow> ll_operand_get_type_length t p;
        (address, s) \<leftarrow> ll_operand_get_address L t p s;
        let ty = llElementType L (llTypeOf L address);
        let (result, s) = llb L (BuildCast LBitCast v ty) s;
        let (store, s) = llb L (BuildStore result address) s;
        Some (llc L (LLVMSetAlignment store (alignBytes a operandWidth)) s) }
      else None)"

section \<open>Arguments of calls\<close>

definition argRegisters :: "regindex list" where
  "argRegisters = [RI_DI, RI_SI, RI_D, RI_C, RI_8, RI_9]"

primrec constructArgs :: "('v, 't, 'b, 'w) llvm \<Rightarrow> nat \<Rightarrow> 't list \<Rightarrow> ('v, 'b, 'w) llstate
    \<Rightarrow> ('v list \<times> ('v, 'b, 'w) llstate) option" where
  "constructArgs L k [] s = Some ([], s)"
| "constructArgs L k (t # ts) s = do {
     c_assert (llTypeKind L t = LLVMIntegerTypeKind \<or> llTypeKind L t = LLVMPointerTypeKind);
     c_assert (k < 6);
     r \<leftarrow> getReg RT_GP64 (argRegisters ! k);
     (v, s) \<leftarrow> ll_get_register L r FACET_I64 s;
     let (a, s) = (if llTypeKind L t = LLVMIntegerTypeKind
       then llb L (BuildCast LTruncOrBitCast v t) s else llb L (BuildCast LIntToPtr v t) s);
     (as, s) \<leftarrow> constructArgs L (Suc k) ts s;
     Some (a # as, s) }"

definition ll_operand_construct_args :: "('v, 't, 'b, 'w) llvm \<Rightarrow> 't \<Rightarrow> ('v, 'b, 'w) llstate
    \<Rightarrow> ('v list \<times> ('v, 'b, 'w) llstate) option" where
  "ll_operand_construct_args L fnType s = constructArgs L 0 (llParamTypes L fnType) s"

end
