(* ===== verification/LLInstruction.thy ===== *)
theory LLInstruction
  imports LLFlags LLOperand
begin

text \<open>
  The translation of x86 instructions to LLVM (\<open>llvm/src/llinstruction*.c\<close>), one function per
  group of instructions and the table \<open>descriptors\<close> that selects it. All act on the current
  block. The SSE functions that overwrite the type of an operand change the instruction itself,
  so that they return it.
\<close>

section \<open>General purpose instructions\<close>

definition opSize :: "('v, 't, 'b, 'w) llvm \<Rightarrow> operand \<Rightarrow> 't option" where
  "opSize L p = do { n \<leftarrow> opTypeWidth p; Some (llInt L n) }"

definition ll_instruction_movgp :: "('v, 't, 'b, 'w) llvm \<Rightarrow> instr \<Rightarrow> ('v, 'b, 'w) llstate
    \<Rightarrow> ('v, 'b, 'w) llstate option" where
  "ll_instruction_movgp L i s = do {
     dstGp \<leftarrow> opIsGPReg (idst i);
     srcGp \<leftarrow> (if dstGp then opIsGPReg (isrc i) else Some False);
     dstWide \<leftarrow> (if srcGp then map_option (\<lambda>n. n = 64) (opTypeWidth (idst i)) else Some False);
     wide \<leftarrow> (if dstWide then map_option (\<lambda>n. n = 64) (opTypeWidth (isrc i)) else Some False);
     (if wide then ll_regfile_rename (ll_currentBB s) (oreg (idst i)) (oreg (isrc i)) s
      else do {
        ty \<leftarrow> opSize L (idst i);
        (v, s) \<leftarrow> ll_operand_load L OP_SI ALIGN_MAXIMUM (isrc i) s;
        let (v, s) = (if itype i = IT_MOVZX then llb L (BuildCast LZExtOrBitCast v ty) s
          else if itype i = IT_MOVSX then llb L (BuildCast LSExtOrBitCast v ty) s else (v, s));
        ll_operand_store L OP_SI ALIGN_MAXIMUM (idst i) REG_DEFAULT v s }) }"

text \<open>The operands of most operations: the source is sign extended to the destination.\<close>

definition loadOperands :: "('v, 't, 'b, 'w) llvm \<Rightarrow> operand \<Rightarrow> operand \<Rightarrow> ('v, 'b, 'w) llstate
    \<Rightarrow> ('v \<times> 'v \<times> ('v, 'b, 'w) llstate) option" where
  "loadOperands L p q s = do {
     (a, s) \<leftarrow> ll_operand_load L OP_SI ALIGN_MAXIMUM p s;
     (b, s) \<leftarrow> ll_operand_load L OP_SI ALIGN_MAXIMUM q s;
     let (b, s) = llb L (BuildCast LSExtOrBitCast b (llTypeOf L a)) s;
     Some (a, b, s) }"

text \<open>A 64-bit sum in a register is also a pointer: the old pointer, advanced.\<close>

definition storeWithPointer :: "('v, 't, 'b, 'w) llvm \<Rightarrow> operand \<Rightarrow> 'v \<Rightarrow> 'v \<Rightarrow> ('v, 'b, 'w) llstate
    \<Rightarrow> ('v, 'b, 'w) llstate option" where
  "storeWithPointer L p result off s = do {
     (ptr, s) \<leftarrow> ll_get_register L (oreg p) FACET_PTR s;
     let (gep, s) = llb L (BuildGEP ptr [off]) s;
     s \<leftarrow> ll_set_register L (oreg p) FACET_I64 result True s;
     ll_set_register L (oreg p) FACET_PTR gep False s }"

definition ll_instruction_add :: "('v, 't, 'b, 'w) llvm \<Rightarrow> instr \<Rightarrow> ('v, 'b, 'w) llstate
    \<Rightarrow> ('v, 'b, 'w) llstate option" where
  "ll_instruction_add L i s = do {
     (a, b, s) \<leftarrow> loadOperands L (idst i) (isrc i) s;
     let (result, s) = llb L (BuildBin LAdd a b) s;
     s \<leftarrow> (if llIntTypeWidth L (llTypeOf L a) = 64 \<and> opIsReg (idst i)
           then storeWithPointer L (idst i) result b s
           else ll_operand_store L OP_SI ALIGN_MAXIMUM (idst i) REG_DEFAULT result s);
     ll_flags_set_add L result a b s }"

definition ll_instruction_sub :: "('v, 't, 'b, 'w) llvm \<Rightarrow> instr \<Rightarrow> ('v, 'b, 'w) llstate
    \<Rightarrow> ('v, 'b, 'w) llstate option" where
  "ll_instruction_sub L i s = do {
     (a, b, s) \<leftarrow> loadOperands L (idst i) (isrc i) s;
     let (result, s) = llb L (BuildBin LSub a b) s;
     s \<leftarrow> (if llIntTypeWidth L (llTypeOf L a) = 64 \<and> opIsReg (idst i) then
             (let (sub, s) = llb L (BuildNeg b) s in storeWithPointer L (idst i) result sub s)
           else ll_operand_store L OP_SI ALIGN_MAXIMUM (idst i) REG_DEFAULT result s);
     ll_flags_set_sub L result a b s }"

definition ll_instruction_cmp :: "('v, 't, 'b, 'w) llvm \<Rightarrow> instr \<Rightarrow> ('v, 'b, 'w) llstate
    \<Rightarrow> ('v, 'b, 'w) llstate option" where
  "ll_instruction_cmp L i s = do {
     (a, b, s) \<leftarrow> loadOperands L (idst i) (isrc i) s;
     let (result, s) = llb L (BuildBin LSub a b) s;
     ll_flags_set_sub L result a b s }"

definition ll_instruction_test :: "('v, 't, 'b, 'w) llvm \<Rightarrow> instr \<Rightarrow> ('v, 'b, 'w) llstate
    \<Rightarrow> ('v, 'b, 'w) llstate option" where
  "ll_instruction_test L i s = do {
     (a, b, s) \<leftarrow> loadOperands L (idst i) (isrc i) s;
     let (result, s) = llb L (BuildBin LAnd a b) s;
     ll_flags_set_bit L result s }"

definition ll_instruction_notneg :: "('v, 't, 'b, 'w) llvm \<Rightarrow> instr \<Rightarrow> ('v, 'b, 'w) llstate
    \<Rightarrow> ('v, 'b, 'w) llstate option" where
  "ll_instruction_notneg L i s = do {
     (a, s) \<leftarrow> ll_operand_load L OP_SI ALIGN_MAXIMUM (idst i) s;
     (result, s) \<leftarrow>
       (if itype i = IT_NEG then do {
          let (result, s) = llb L (BuildNeg a) s;
          let zero = llConst L (LLVMConstNull (llTypeOf L a));
          let (cf, s) = llb L (BuildICmp LLVMIntNE a zero) s;
          let s = ll_set_flag RFLAG_CF cf (ll_flags_invalidate L s);
          s \<leftarrow> ll_flags_set_pf L result s;
          s \<leftarrow> ll_flags_set_zf L result s;
          s \<leftarrow> ll_flags_set_sf L result s;
          s \<leftarrow> ll_flags_set_af L result zero a s;
          s \<leftarrow> ll_flags_set_of_sub L result zero a s;
          Some (result, s) }
        else Some (llb L (BuildNot a) s));
     ll_operand_store L OP_SI ALIGN_MAXIMUM (idst i) REG_DEFAULT result s }"

definition ll_instruction_incdec :: "('v, 't, 'b, 'w) llvm \<Rightarrow> instr \<Rightarrow> ('v, 'b, 'w) llstate
    \<Rightarrow> ('v, 'b, 'w) llstate option" where
  "ll_instruction_incdec L i s = do {
     (a, s) \<leftarrow> ll_operand_load L OP_SI ALIGN_MAXIMUM (idst i) s;
     let one = constLike L a 1;
     (result, s) \<leftarrow>
       (if itype i = IT_INC then do {
          let (result, s) = llb L (BuildBin LAdd a one) s;
          s \<leftarrow> ll_flags_set_inc L result a s;
          Some (result, s) }
        else do {
          let (result, s) = llb L (BuildBin LSub a one) s;
          s \<leftarrow> ll_flags_set_dec L result a s;
          Some (result, s) });
     ll_operand_store L OP_SI ALIGN_MAXIMUM (idst i) REG_DEFAULT result s }"

text \<open>
  The count of a shift has the type of the shifted value and is masked like on x86. Without one
  of the three types the null result is stored, which crashes.
\<close>

definition ll_instruction_shift :: "('v, 't, 'b, 'w) llvm \<Rightarrow> instr \<Rightarrow> ('v, 'b, 'w) llstate
    \<Rightarrow> ('v, 'b, 'w) llstate option" where
  "ll_instruction_shift L i s = do {
     (a, s) \<leftarrow> ll_operand_load L OP_SI ALIGN_MAXIMUM (idst i) s;
     (b, s) \<leftarrow>
       (if iform i = OF_1 then Some (constLike L a 1, s)
        else do {
          (b, s) \<leftarrow> ll_operand_load L OP_SI ALIGN_MAXIMUM (isrc i) s;
          let (b, s) = llb L (BuildCast LZExtOrBitCast b (llTypeOf L a)) s;
          let maskValue = (if llIntTypeWidth L (llTypeOf L a) \<noteq> 64 then 0x1f else 0x3f);
          Some (llb L (BuildBin LAnd b (constLike L a maskValue)) s) });
     (result, s) \<leftarrow>
       (if itype i = IT_SHL then do {
          let (result, s) = llb L (BuildBin LShl a b) s;
          s \<leftarrow> ll_flags_set_shl L result s;
          Some (result, s) }
        else if itype i = IT_SHR then do {
          let (result, s) = llb L (BuildBin LLShr a b) s;
          s \<leftarrow> ll_flags_set_shr L result s;
          Some (result, s) }
        else if itype i = IT_SAR then do {
          let (result, s) = llb L (BuildBin LAShr a b) s;
          s \<leftarrow> ll_flags_set_sar L result s;
          Some (result, s) }
        else None);
     ll_operand_store L OP_SI ALIGN_MAXIMUM (idst i) REG_DEFAULT result s }"

text \<open>The register \<open>a\<close> or \<open>d\<close> as an operand of the size of the destination.\<close>

definition sizedReg :: "operand \<Rightarrow> regindex \<Rightarrow> operand option" where
  "sizedReg p k = do {
     vt \<leftarrow> opValType p;
     r \<leftarrow> getReg (getGPRegType vt) k;
     getRegOp r }"

definition mulOneOperand :: "('v, 't, 'b, 'w) llvm \<Rightarrow> instr \<Rightarrow> ('v, 'b, 'w) llstate
    \<Rightarrow> ('v, 'b, 'w) llstate option" where
  "mulOneOperand L i s = do {
     n \<leftarrow> opTypeWidth (idst i);
     let ext = (if itype i = IT_IMUL then LSExt else LZExt);
     let shift = (if itype i = IT_IMUL then LAShr else LLShr);
     let half = llInt L n;
     let full = llInt L (n * 2);
     regOp \<leftarrow> sizedReg (idst i) RI_A;
     (a, s) \<leftarrow> ll_operand_load L OP_SI ALIGN_MAXIMUM (idst i) s;
     (b, s) \<leftarrow> ll_operand_load L OP_SI ALIGN_MAXIMUM regOp s;
     let (largeA, s) = llb L (BuildCast ext a full) s;
     let (largeB, s) = llb L (BuildCast ext b full) s;
     let (result, s) = llb L (BuildBin LMul largeA largeB) s;
     let (resultA, s) = llb L (BuildCast LTrunc result half) s;
     let (resultD, s) = llb L (BuildBin shift result (llConstInt L full (of_nat n))) s;
     let (resultD, s) = llb L (BuildCast LTrunc resultD half) s;
     s \<leftarrow>
       (if n = 8 then do {
          r \<leftarrow> getReg RT_GP16 RI_A;
          p \<leftarrow> getRegOp r;
          ll_operand_store L OP_SI ALIGN_MAXIMUM p REG_DEFAULT result s }
        else do {
          p \<leftarrow> sizedReg (idst i) RI_A;
          s \<leftarrow> ll_operand_store L OP_SI ALIGN_MAXIMUM p REG_DEFAULT resultA s;
          p \<leftarrow> sizedReg (idst i) RI_D;
          ll_operand_store L OP_SI ALIGN_MAXIMUM p REG_DEFAULT resultD s });
     (if itype i = IT_MUL then
        (let (ov, s) = llb L (BuildICmp LLVMIntNE resultD (llConst L (LLVMConstNull half))) s
         in Some (ll_set_flag RFLAG_CF ov (ll_set_flag RFLAG_OF ov s)))
      else do {
        s \<leftarrow> ll_flags_set_sf L resultA s;
        Some (ll_flags_set_of_imul L result a b s) }) }"

definition mulOperands :: "('v, 't, 'b, 'w) llvm \<Rightarrow> operand \<Rightarrow> operand \<Rightarrow> operand
    \<Rightarrow> ('v, 'b, 'w) llstate \<Rightarrow> ('v, 'b, 'w) llstate option" where
  "mulOperands L dst p q s = do {
     (a, b, s) \<leftarrow> loadOperands L p q s;
     let (result, s) = llb L (BuildBin LMul a b) s;
     s \<leftarrow> ll_operand_store L OP_SI ALIGN_MAXIMUM dst REG_DEFAULT result s;
     s \<leftarrow> ll_flags_set_sf L result s;
     Some (ll_flags_set_of_imul L result a b s) }"

definition ll_instruction_mul :: "('v, 't, 'b, 'w) llvm \<Rightarrow> instr \<Rightarrow> ('v, 'b, 'w) llstate
    \<Rightarrow> ('v, 'b, 'w) llstate option" where
  "ll_instruction_mul L i s =
     (let s = ll_flags_invalidate L s
      in case iform i of
        OF_1 \<Rightarrow> mulOneOperand L i s
      | OF_2 \<Rightarrow> mulOperands L (idst i) (idst i) (isrc i) s
      | OF_3 \<Rightarrow> mulOperands L (idst i) (isrc i) (isrc2 i) s
      | _ \<Rightarrow> None)"

text \<open>The address that \<open>lea\<close> computes, as an integer.\<close>

definition leaBase :: "('v, 't, 'b, 'w) llvm \<Rightarrow> operand \<Rightarrow> ('v, 'b, 'w) llstate
    \<Rightarrow> ('v \<times> ('v, 'b, 'w) llstate) option" where
  "leaBase L p s = do {
     let i64 = llInt L 64;
     let base = llConstInt L i64 (oval p);
     (base, s) \<leftarrow>
       (if rt (oreg p) \<noteq> RT_None then do {
          (r, s) \<leftarrow> ll_get_register L (oreg p) FACET_I64 s;
          Some (llb L (BuildBin LAdd base r) s) }
        else Some (base, s));
     (if oscale p \<noteq> 0 then do {
        (off, s) \<leftarrow> ll_get_register L (oireg p) FACET_I64 s;
        let (off, s) = llb L (BuildBin LMul off (llConstInt L i64 (of_nat (oscale p)))) s;
        Some (llb L (BuildBin LAdd base off) s) }
      else Some (base, s)) }"

definition ll_instruction_lea :: "('v, 't, 'b, 'w) llvm \<Rightarrow> instr \<Rightarrow> ('v, 'b, 'w) llstate
    \<Rightarrow> ('v, 'b, 'w) llstate option" where
  "ll_instruction_lea L i s = do {
     targetType \<leftarrow> opSize L (idst i);
     c_assert (opIsInd (isrc i));
     c_assert (opIsReg (idst i));
     (result, s) \<leftarrow> ll_operand_get_address L OP_SI (isrc i) s;
     let (result, s) = llb L (BuildCast LPointerCast result (llPtr8 L)) s;
     (base, s) \<leftarrow> leaBase L (isrc i) s;
     let (base, s) = llb L (BuildCast LTruncOrBitCast base targetType) s;
     s \<leftarrow> ll_operand_store L OP_SI ALIGN_MAXIMUM (idst i) REG_DEFAULT base s;
     (if rt (oreg (idst i)) = RT_GP64
      then ll_set_register L (oreg (idst i)) FACET_PTR result False s else Some s) }"

definition ll_instruction_cmov :: "('v, 't, 'b, 'w) llvm \<Rightarrow> cond \<Rightarrow> instr \<Rightarrow> ('v, 'b, 'w) llstate
    \<Rightarrow> ('v, 'b, 'w) llstate option" where
  "ll_instruction_cmov L c i s = do {
     (cnd, s) \<leftarrow> ll_flags_condition L c s;
     (a, s) \<leftarrow> ll_operand_load L OP_SI ALIGN_MAXIMUM (isrc i) s;
     (b, s) \<leftarrow> ll_operand_load L OP_SI ALIGN_MAXIMUM (idst i) s;
     let (result, s) = llb L (BuildSelect cnd a b) s;
     ll_operand_store L OP_SI ALIGN_MAXIMUM (idst i) REG_DEFAULT result s }"

definition ll_instruction_setcc :: "('v, 't, 'b, 'w) llvm \<Rightarrow> cond \<Rightarrow> instr \<Rightarrow> ('v, 'b, 'w) llstate
    \<Rightarrow> ('v, 'b, 'w) llstate option" where
  "ll_instruction_setcc L c i s = do {
     (cnd, s) \<leftarrow> ll_flags_condition L c s;
     let (result, s) = llb L (BuildCast LZExtOrBitCast cnd (llInt L 8)) s;
     ll_operand_store L OP_SI ALIGN_MAXIMUM (idst i) REG_DEFAULT result s }"

definition ll_instruction_cdqe :: "('v, 't, 'b, 'w) llvm \<Rightarrow> ('v, 'b, 'w) llstate
    \<Rightarrow> ('v, 'b, 'w) llstate option" where
  "ll_instruction_cdqe L s = do {
     r \<leftarrow> getReg RT_GP32 RI_A;
     p \<leftarrow> getRegOp r;
     (a, s) \<leftarrow> ll_operand_load L OP_SI ALIGN_MAXIMUM p s;
     r \<leftarrow> getReg RT_GP64 RI_A;
     p \<leftarrow> getRegOp r;
     ll_operand_store L OP_SI ALIGN_MAXIMUM p REG_DEFAULT a s }"

section \<open>Stack instructions\<close>

text \<open>The flags that have a place in the flag register, with their bit.\<close>

definition flagBits :: "(rflag \<times> nat) list" where
  "flagBits = [(RFLAG_CF, 0), (RFLAG_PF, 2), (RFLAG_AF, 4), (RFLAG_ZF, 6), (RFLAG_SF, 7),
     (RFLAG_OF, 11)]"

definition addFlag :: "('v, 't, 'b, 'w) llvm \<Rightarrow> 't \<Rightarrow> rflag \<times> nat \<Rightarrow> 'v \<times> ('v, 'b, 'w) llstate
    \<Rightarrow> ('v \<times> ('v, 'b, 'w) llstate) option" where
  "addFlag L intType fb vs = do {
     let (v, s) = vs;
     x \<leftarrow> ll_get_flag (fst fb) s;
     let (flag, s) = llb L (BuildCast LZExt x intType) s;
     let (flag, s) = llb L (BuildBin LShl flag (llConstInt L intType (of_nat (snd fb)))) s;
     Some (llb L (BuildBin LOr v flag) s) }"

definition ll_instruction_get_flags :: "('v, 't, 'b, 'w) llvm \<Rightarrow> bool \<Rightarrow> ('v, 'b, 'w) llstate
    \<Rightarrow> ('v \<times> ('v, 'b, 'w) llstate) option" where
  "ll_instruction_get_flags L fullSized s =
     (let intType = llInt L (if fullSized then 64 else 16)
      in llFold (addFlag L intType) flagBits (llConst L (LLVMConstNull intType), s))"

definition ll_instruction_stack :: "('v, 't, 'b, 'w) llvm \<Rightarrow> instr \<Rightarrow> ('v, 'b, 'w) llstate
    \<Rightarrow> ('v, 'b, 'w) llstate option" where
  "ll_instruction_stack L i s = do {
     let i64 = llInt L 64;
     spr \<leftarrow> getReg RT_GP64 (if itype i = IT_LEAVE then RI_BP else RI_SP);
     (spReg, s) \<leftarrow> ll_get_register L spr FACET_PTR s;
     let (sp, s) = llb L (BuildCast LPointerCast spReg (llType L (LLVMPointerType i64 0))) s;
     (newSp, s) \<leftarrow>
       (if itype i = IT_PUSH \<or> itype i = IT_PUSHFQ then do {
          let (newSp, s) = llb L (BuildGEP sp [llConstInt L i64 (-1)]) s;
          (v, s) \<leftarrow> (if itype i = IT_PUSH then ll_operand_load L OP_SI ALIGN_MAXIMUM (idst i) s
                    else ll_instruction_get_flags L True s);
          let (v, s) = llb L (BuildCast LSExtOrBitCast v i64) s;
          let (_, s) = llb L (BuildStore v newSp) s;
          Some (newSp, s) }
        else if itype i = IT_POP \<or> itype i = IT_LEAVE then do {
          p \<leftarrow> (if itype i = IT_LEAVE then do { r \<leftarrow> getReg RT_GP64 RI_BP; getRegOp r }
                else Some (idst i));
          let (v, s) = llb L (BuildLoad sp) s;
          s \<leftarrow> ll_operand_store L OP_SI ALIGN_MAXIMUM p REG_DEFAULT v s;
          Some (llb L (BuildGEP sp [llConstInt L i64 1]) s) }
        else None);
     let (newSpReg, s) = llb L (BuildCast LPointerCast newSp (llPtr8 L)) s;
     let s = llc L (LLVMSetMetadata newSpReg ''asm.reg.rsp'' (ll_emptyMD s)) s;
     rsp \<leftarrow> getReg RT_GP64 RI_SP;
     ll_set_register L rsp FACET_PTR newSpReg True s }"

end
