(* ===== verification/LLTranslate.thy ===== *)
theory LLTranslate
  imports LLInstruction
begin

text \<open>
  The translation of SSE instructions, calls and returns (\<open>llvm/src/llinstruction-sse.c\<close>,
  \<open>llinstruction-callret.c\<close>) and the table of \<open>llvm/src/llinstruction.c\<close> that selects the
  function for an instruction type.
\<close>

section \<open>SSE instructions\<close>

text \<open>Load one operand and store it in the other.\<close>

definition llMove :: "('v, 't, 'b, 'w) llvm \<Rightarrow> operanddatatype \<Rightarrow> alignment \<Rightarrow> partialregisterhandling
    \<Rightarrow> instr \<Rightarrow> ('v, 'b, 'w) llstate \<Rightarrow> ('v, 'b, 'w) llstate option" where
  "llMove L t a prh i s = do {
     (v, s) \<leftarrow> ll_operand_load L t a (isrc i) s;
     ll_operand_store L t a (idst i) prh v s }"

definition ll_instruction_movq :: "('v, 't, 'b, 'w) llvm \<Rightarrow> instr \<Rightarrow> ('v, 'b, 'w) llstate
    \<Rightarrow> ('v, 'b, 'w) llstate option" where
  "ll_instruction_movq L i s = do {
     let t = (if itype i = IT_MOVQ then OP_SI64 else OP_SI32);
     (v, s) \<leftarrow> ll_operand_load L t ALIGN_MAXIMUM (isrc i) s;
     vr \<leftarrow> opIsVReg (idst i);
     ll_operand_store L t ALIGN_MAXIMUM (idst i)
       (if vr then REG_ZERO_UPPER_SSE else REG_DEFAULT) v s }"

definition ll_instruction_movs :: "('v, 't, 'b, 'w) llvm \<Rightarrow> instr \<Rightarrow> ('v, 'b, 'w) llstate
    \<Rightarrow> ('v, 'b, 'w) llstate option" where
  "ll_instruction_movs L i s =
     llMove L (if itype i = IT_MOVSS then OP_SF32 else OP_SF64) ALIGN_MAXIMUM
       (if opIsInd (isrc i) then REG_ZERO_UPPER_SSE else REG_KEEP_UPPER) i s"

definition ll_instruction_movp :: "('v, 't, 'b, 'w) llvm \<Rightarrow> instr \<Rightarrow> ('v, 'b, 'w) llstate
    \<Rightarrow> ('v, 'b, 'w) llstate option" where
  "ll_instruction_movp L i s =
     llMove L (if itype i = IT_MOVAPS \<or> itype i = IT_MOVUPS then OP_VF32 else OP_VF64)
       (if itype i = IT_MOVAPS \<or> itype i = IT_MOVAPD then ALIGN_MAXIMUM else ALIGN_8)
       REG_KEEP_UPPER i s"

definition ll_instruction_movdq :: "('v, 't, 'b, 'w) llvm \<Rightarrow> instr \<Rightarrow> ('v, 'b, 'w) llstate
    \<Rightarrow> ('v, 'b, 'w) llstate option" where
  "ll_instruction_movdq L i s =
     llMove L OP_VI64 (if itype i = IT_MOVDQA then ALIGN_MAXIMUM else ALIGN_8) REG_KEEP_UPPER i s"

definition ll_instruction_movlp :: "('v, 't, 'b, 'w) llvm \<Rightarrow> instr \<Rightarrow> ('v, 'b, 'w) llstate
    \<Rightarrow> (instr \<times> ('v, 'b, 'w) llstate) option" where
  "ll_instruction_movlp L i s = do {
     vr \<leftarrow> opIsVReg (isrc i);
     let i = (if vr then i\<lparr>isrc := (isrc i)\<lparr>otype := OT_Reg64\<rparr>\<rparr> else i);
     s \<leftarrow> llMove L (if itype i = IT_MOVLPS then OP_VF32 else OP_SF64) ALIGN_MAXIMUM
           REG_KEEP_UPPER i s;
     Some (i, s) }"

definition overwriteDst :: "instr \<Rightarrow> valtype \<Rightarrow> instr option" where
  "overwriteDst i vt = do { p \<leftarrow> opOverwriteType (idst i) vt; Some (i\<lparr>idst := p\<rparr>) }"

definition overwriteSrc :: "instr \<Rightarrow> valtype \<Rightarrow> instr option" where
  "overwriteSrc i vt = do { p \<leftarrow> opOverwriteType (isrc i) vt; Some (i\<lparr>isrc := p\<rparr>) }"

definition ll_instruction_movhps :: "('v, 't, 'b, 'w) llvm \<Rightarrow> instr \<Rightarrow> ('v, 'b, 'w) llstate
    \<Rightarrow> (instr \<times> ('v, 'b, 'w) llstate) option" where
  "ll_instruction_movhps L i s = do {
     vr \<leftarrow> opIsVReg (idst i);
     (if vr then do {
        i \<leftarrow> overwriteDst i VT_128;
        i \<leftarrow> overwriteSrc i VT_128;
        (a, s) \<leftarrow> ll_operand_load L OP_VF32 ALIGN_MAXIMUM (idst i) s;
        (b, s) \<leftarrow> ll_operand_load L OP_VF32 ALIGN_MAXIMUM (isrc i) s;
        let (v, s) = llb L (BuildShuffleVector a b (llMask L [0, 1, 4, 5])) s;
        s \<leftarrow> ll_operand_store L OP_VF32 ALIGN_MAXIMUM (idst i) REG_KEEP_UPPER v s;
        Some (i, s) }
      else do {
        i \<leftarrow> overwriteDst i VT_64;
        (a, s) \<leftarrow> ll_operand_load L OP_VF32 ALIGN_MAXIMUM (isrc i) s;
        let (v, s) = llb L (BuildShuffleVector a (llUndef L (llTypeOf L a)) (llMask L [2, 3])) s;
        s \<leftarrow> ll_operand_store L OP_VF32 ALIGN_MAXIMUM (idst i) REG_KEEP_UPPER v s;
        Some (i, s) }) }"

definition ll_instruction_movhpd :: "('v, 't, 'b, 'w) llvm \<Rightarrow> instr \<Rightarrow> ('v, 'b, 'w) llstate
    \<Rightarrow> (instr \<times> ('v, 'b, 'w) llstate) option" where
  "ll_instruction_movhpd L i s = do {
     let one = llConstInt L (llInt L 32) 1;
     vr \<leftarrow> opIsVReg (idst i);
     (if vr then do {
        i \<leftarrow> overwriteDst i VT_128;
        (a, s) \<leftarrow> ll_operand_load L OP_VF64 ALIGN_MAXIMUM (idst i) s;
        (b, s) \<leftarrow> ll_operand_load L OP_SF64 ALIGN_MAXIMUM (isrc i) s;
        let (v, s) = llb L (BuildInsertElement a b one) s;
        s \<leftarrow> ll_operand_store L OP_VF64 ALIGN_MAXIMUM (idst i) REG_KEEP_UPPER v s;
        Some (i, s) }
      else do {
        i \<leftarrow> overwriteSrc i VT_128;
        (a, s) \<leftarrow> ll_operand_load L OP_VF64 ALIGN_MAXIMUM (isrc i) s;
        let (v, s) = llb L (BuildExtractElement a one) s;
        s \<leftarrow> ll_operand_store L OP_SF64 ALIGN_MAXIMUM (idst i) REG_KEEP_UPPER v s;
        Some (i, s) }) }"

definition ll_instruction_unpckl :: "('v, 't, 'b, 'w) llvm \<Rightarrow> instr \<Rightarrow> ('v, 'b, 'w) llstate
    \<Rightarrow> (instr \<times> ('v, 'b, 'w) llstate) option" where
  "ll_instruction_unpckl L i s = do {
     let t = (if itype i = IT_UNPCKLPS then OP_VF32 else OP_VF64);
     i \<leftarrow> overwriteSrc i VT_128;
     let mask = (if itype i = IT_UNPCKLPS then llMask L [0, 4, 1, 5] else llMask L [0, 2]);
     (a, s) \<leftarrow> ll_operand_load L t ALIGN_MAXIMUM (idst i) s;
     (b, s) \<leftarrow> ll_operand_load L t ALIGN_MAXIMUM (isrc i) s;
     let (v, s) = llb L (BuildShuffleVector a b mask) s;
     s \<leftarrow> ll_operand_store L t ALIGN_MAXIMUM (idst i) REG_KEEP_UPPER v s;
     Some (i, s) }"

section \<open>Calls and returns\<close>

text \<open>The address that a call goes to, if it is known; \<open>0\<close> otherwise.\<close>

definition callAddress :: "('v, 't, 'b, 'w) llvm \<Rightarrow> operand \<Rightarrow> ('v, 'b, 'w) llstate
    \<Rightarrow> (u64 \<times> ('v, 'b, 'w) llstate) option" where
  "callAddress L p s =
     (if otype p = OT_Imm64 then Some (oval p, s)
      else do {
        gp \<leftarrow> opIsGPReg p;
        (if gp \<and> rt (oreg p) = RT_GP64 then do {
           (v, s) \<leftarrow> ll_get_register L (oreg p) FACET_I64 s;
           Some (if llIsConstantInt L v then llZExtValue L v else 0, s) }
         else Some (0, s)) })"

text \<open>The last function with an address.\<close>

definition findFunction :: "u64 \<Rightarrow> 'v llfunction list \<Rightarrow> 'v llfunction option" where
  "findFunction a fs = (case rev (filter (\<lambda>f. lf_address f = a) fs) of [] \<Rightarrow> None | f # _ \<Rightarrow> Some f)"

definition clobberedRegisters :: "regindex list" where
  "clobberedRegisters = [RI_C, RI_D, RI_SI, RI_DI, RI_8, RI_9, RI_10, RI_11]"

definition clearGp :: "('v, 't, 'b, 'w) llvm \<Rightarrow> regindex \<Rightarrow> ('v, 'b, 'w) llstate
    \<Rightarrow> ('v, 'b, 'w) llstate option" where
  "clearGp L k s = do { r \<leftarrow> getReg RT_GP64 k; ll_clear_register L r s }"

definition ll_instruction_call :: "('v, 't, 'b, 'w) llvm \<Rightarrow> instr \<Rightarrow> ('v, 'b, 'w) llstate
    \<Rightarrow> ('v, 'b, 'w) llstate option" where
  "ll_instruction_call L i s = do {
     let i64 = llInt L 64;
     (address, s) \<leftarrow> callAddress L (idst i) s;
     c_assert (address \<noteq> 0);
     (case findFunction address (ll_functions s) of
        None \<Rightarrow> Some s
      | Some f \<Rightarrow> do {
          fn \<leftarrow> lf_llvm f;
          let s = llc L (LLVMAddAttributeAtIndex fn (-1) ''inlinehint'') s;
          let fnType = llElementType L (llTypeOf L fn);
          (args, s) \<leftarrow> ll_operand_construct_args L fnType s;
          let (result, s) = llb L (BuildCall fn args) s;
          let (result, s) =
            (if llTypeKind L (llTypeOf L result) = LLVMPointerTypeKind
             then llb L (BuildCast LPtrToInt result i64) s else (result, s));
          c_assert (llTypeOf L result = i64);
          ra \<leftarrow> getReg RT_GP64 RI_A;
          s \<leftarrow> ll_set_register L ra FACET_I64 result True s;
          llFold (clearGp L) clobberedRegisters s }) }"

definition ll_instruction_ret :: "('v, 't, 'b, 'w) llvm \<Rightarrow> ('v, 'b, 'w) llstate
    \<Rightarrow> ('v, 'b, 'w) llstate option" where
  "ll_instruction_ret L s = do {
     fn \<leftarrow> lf_llvm (ll_functions s ! ll_currentFunction s);
     let k = llTypeKind L (llReturnType L (llElementType L (llTypeOf L fn)));
     ra \<leftarrow> getReg RT_GP64 RI_A;
     xmm0 \<leftarrow> getReg RT_XMM 0;
     (if k = LLVMVoidTypeKind then (let (_, s) = llb L BuildRetVoid s in Some s)
      else do {
        (v, s) \<leftarrow>
          (if k = LLVMPointerTypeKind then ll_get_register L ra FACET_PTR s
           else if k = LLVMIntegerTypeKind then ll_get_register L ra FACET_I64 s
           else if k = LLVMFloatTypeKind then ll_get_register L xmm0 FACET_F32 s
           else if k = LLVMDoubleTypeKind then ll_get_register L xmm0 FACET_F64 s
           else None);
        let (_, s) = llb L (BuildRet v) s;
        Some s }) }"

section \<open>The table of instructions\<close>

datatype (plugins only: code size) llhandler =
    H_call | H_ret | H_stack | H_movgp | H_add | H_sub | H_cmp | H_lea | H_notneg | H_incdec
  | H_test | H_mul | H_shift | H_cdqe | H_cmov cond | H_setcc cond
  | H_movq | H_movs | H_movp | H_movdq | H_movlp | H_movhps | H_movhpd | H_unpckl

text \<open>
  A binary operation: data type, handling of partial registers, operator, whether the flags of a
  bitwise operation are set, and whether fast math may apply.
\<close>

datatype (plugins only: code size) conversiondescriptor =
    CT_NOT_IMPLEMENTED | CT_NOP | CT_FUNCTION llhandler
  | CT_BINARY_LLVM operanddatatype partialregisterhandling llop bool bool

definition cdFp :: "operanddatatype \<Rightarrow> llop \<Rightarrow> bool \<Rightarrow> conversiondescriptor" where
  "cdFp t op fm = CT_BINARY_LLVM t REG_KEEP_UPPER op False fm"

definition cdInt :: "llop \<Rightarrow> conversiondescriptor" where
  "cdInt op = CT_BINARY_LLVM OP_SI REG_DEFAULT op True False"

definition ssemovDescriptor :: "ssemov \<Rightarrow> conversiondescriptor" where
  "ssemovDescriptor m = (case m of
       S_MOVSS \<Rightarrow> CT_FUNCTION H_movs | S_MOVSD \<Rightarrow> CT_FUNCTION H_movs
     | S_MOVUPS \<Rightarrow> CT_FUNCTION H_movp | S_MOVUPD \<Rightarrow> CT_FUNCTION H_movp
     | S_MOVAPS \<Rightarrow> CT_FUNCTION H_movp | S_MOVAPD \<Rightarrow> CT_FUNCTION H_movp
     | S_MOVDQU \<Rightarrow> CT_FUNCTION H_movdq | S_MOVDQA \<Rightarrow> CT_FUNCTION H_movdq
     | S_MOVLPS \<Rightarrow> CT_FUNCTION H_movlp | S_MOVLPD \<Rightarrow> CT_FUNCTION H_movlp
     | S_MOVHPS \<Rightarrow> CT_FUNCTION H_movhps | S_MOVHPD \<Rightarrow> CT_FUNCTION H_movhpd
     | S_UNPCKLPS \<Rightarrow> CT_FUNCTION H_unpckl | S_UNPCKLPD \<Rightarrow> CT_FUNCTION H_unpckl
     | S_PXOR \<Rightarrow> cdFp OP_VI64 LXor False
     | _ \<Rightarrow> CT_NOT_IMPLEMENTED)"

definition ssefpDescriptor :: "ssefp \<Rightarrow> conversiondescriptor" where
  "ssefpDescriptor m = (case m of
       F_ADDSS \<Rightarrow> cdFp OP_SF32 LFAdd True | F_ADDSD \<Rightarrow> cdFp OP_SF64 LFAdd True
     | F_ADDPS \<Rightarrow> cdFp OP_VF32 LFAdd True | F_ADDPD \<Rightarrow> cdFp OP_VF64 LFAdd True
     | F_SUBSS \<Rightarrow> cdFp OP_SF32 LFSub True | F_SUBSD \<Rightarrow> cdFp OP_SF64 LFSub True
     | F_SUBPS \<Rightarrow> cdFp OP_VF32 LFSub True | F_SUBPD \<Rightarrow> cdFp OP_VF64 LFSub True
     | F_MULSS \<Rightarrow> cdFp OP_SF32 LFMul True | F_MULSD \<Rightarrow> cdFp OP_SF64 LFMul True
     | F_MULPS \<Rightarrow> cdFp OP_VF32 LFMul True | F_MULPD \<Rightarrow> cdFp OP_VF64 LFMul True
     | F_DIVSS \<Rightarrow> cdFp OP_SF32 LFDiv True | F_DIVSD \<Rightarrow> cdFp OP_SF64 LFDiv True
     | F_DIVPS \<Rightarrow> cdFp OP_VF32 LFDiv True | F_DIVPD \<Rightarrow> cdFp OP_VF64 LFDiv True
     | F_ORPS \<Rightarrow> cdFp OP_VI32 LOr False | F_ORPD \<Rightarrow> cdFp OP_VI64 LOr False
     | F_ANDPS \<Rightarrow> cdFp OP_VI32 LAnd False | F_ANDPD \<Rightarrow> cdFp OP_VI64 LAnd False
     | F_XORPS \<Rightarrow> cdFp OP_VI32 LXor False | F_XORPD \<Rightarrow> cdFp OP_VI64 LXor False
     | _ \<Rightarrow> CT_NOT_IMPLEMENTED)"

definition descriptors :: "instrtype \<Rightarrow> conversiondescriptor" where
  "descriptors it = (case it of
       IT_HINT_CALL \<Rightarrow> CT_NOP | IT_HINT_RET \<Rightarrow> CT_NOP | IT_NOP \<Rightarrow> CT_NOP
     | IT_CALL \<Rightarrow> CT_FUNCTION H_call | IT_RET \<Rightarrow> CT_FUNCTION H_ret
     | IT_PUSH \<Rightarrow> CT_FUNCTION H_stack | IT_PUSHFQ \<Rightarrow> CT_FUNCTION H_stack
     | IT_POP \<Rightarrow> CT_FUNCTION H_stack | IT_LEAVE \<Rightarrow> CT_FUNCTION H_stack
     | IT_MOV \<Rightarrow> CT_FUNCTION H_movgp | IT_MOVZX \<Rightarrow> CT_FUNCTION H_movgp
     | IT_MOVSX \<Rightarrow> CT_FUNCTION H_movgp
     | IT_ADD \<Rightarrow> CT_FUNCTION H_add | IT_SUB \<Rightarrow> CT_FUNCTION H_sub | IT_CMP \<Rightarrow> CT_FUNCTION H_cmp
     | IT_LEA \<Rightarrow> CT_FUNCTION H_lea
     | IT_NOT \<Rightarrow> CT_FUNCTION H_notneg | IT_NEG \<Rightarrow> CT_FUNCTION H_notneg
     | IT_INC \<Rightarrow> CT_FUNCTION H_incdec | IT_DEC \<Rightarrow> CT_FUNCTION H_incdec
     | IT_AND \<Rightarrow> cdInt LAnd | IT_OR \<Rightarrow> cdInt LOr | IT_XOR \<Rightarrow> cdInt LXor
     | IT_TEST \<Rightarrow> CT_FUNCTION H_test
     | IT_IMUL \<Rightarrow> CT_FUNCTION H_mul | IT_MUL \<Rightarrow> CT_FUNCTION H_mul
     | IT_SHL \<Rightarrow> CT_FUNCTION H_shift | IT_SHR \<Rightarrow> CT_FUNCTION H_shift | IT_SAR \<Rightarrow> CT_FUNCTION H_shift
     | IT_CLTQ \<Rightarrow> CT_FUNCTION H_cdqe
     | IT_CMOV c \<Rightarrow> CT_FUNCTION (H_cmov c) | IT_SET c \<Rightarrow> CT_FUNCTION (H_setcc c)
     | IT_MOVD \<Rightarrow> CT_FUNCTION H_movq | IT_MOVQ \<Rightarrow> CT_FUNCTION H_movq
     | IT_SSEMOV m \<Rightarrow> ssemovDescriptor m
     | IT_SSEFP m \<Rightarrow> ssefpDescriptor m
     | IT_JMP \<Rightarrow> CT_NOP | IT_J c \<Rightarrow> CT_NOP
     | _ \<Rightarrow> CT_NOT_IMPLEMENTED)"

definition llHandle :: "('v, 't, 'b, 'w) llvm \<Rightarrow> llhandler \<Rightarrow> instr \<Rightarrow> ('v, 'b, 'w) llstate
    \<Rightarrow> (instr \<times> ('v, 'b, 'w) llstate) option" where
  "llHandle L h i s =
     (let keep = map_option (\<lambda>s. (i, s))
      in case h of
        H_call \<Rightarrow> keep (ll_instruction_call L i s) | H_ret \<Rightarrow> keep (ll_instruction_ret L s)
      | H_stack \<Rightarrow> keep (ll_instruction_stack L i s) | H_movgp \<Rightarrow> keep (ll_instruction_movgp L i s)
      | H_add \<Rightarrow> keep (ll_instruction_add L i s) | H_sub \<Rightarrow> keep (ll_instruction_sub L i s)
      | H_cmp \<Rightarrow> keep (ll_instruction_cmp L i s) | H_lea \<Rightarrow> keep (ll_instruction_lea L i s)
      | H_notneg \<Rightarrow> keep (ll_instruction_notneg L i s)
      | H_incdec \<Rightarrow> keep (ll_instruction_incdec L i s)
      | H_test \<Rightarrow> keep (ll_instruction_test L i s) | H_mul \<Rightarrow> keep (ll_instruction_mul L i s)
      | H_shift \<Rightarrow> keep (ll_instruction_shift L i s) | H_cdqe \<Rightarrow> keep (ll_instruction_cdqe L s)
      | H_cmov c \<Rightarrow> keep (ll_instruction_cmov L c i s)
      | H_setcc c \<Rightarrow> keep (ll_instruction_setcc L c i s)
      | H_movq \<Rightarrow> keep (ll_instruction_movq L i s) | H_movs \<Rightarrow> keep (ll_instruction_movs L i s)
      | H_movp \<Rightarrow> keep (ll_instruction_movp L i s) | H_movdq \<Rightarrow> keep (ll_instruction_movdq L i s)
      | H_movlp \<Rightarrow> ll_instruction_movlp L i s | H_movhps \<Rightarrow> ll_instruction_movhps L i s
      | H_movhpd \<Rightarrow> ll_instruction_movhpd L i s | H_unpckl \<Rightarrow> ll_instruction_unpckl L i s)"

text \<open>A binary operation of the table.\<close>

definition llBinary :: "('v, 't, 'b, 'w) llvm \<Rightarrow> operanddatatype \<Rightarrow> partialregisterhandling \<Rightarrow> llop
    \<Rightarrow> bool \<Rightarrow> bool \<Rightarrow> instr \<Rightarrow> ('v, 'b, 'w) llstate \<Rightarrow> ('v, 'b, 'w) llstate option" where
  "llBinary L t prh op flags fastMath i s = do {
     (a, s) \<leftarrow> ll_operand_load L t ALIGN_MAXIMUM (idst i) s;
     (b, s) \<leftarrow> ll_operand_load L t ALIGN_MAXIMUM (isrc i) s;
     let (b, s) = (if llTypeOf L b \<noteq> llTypeOf L a
       then llb L (BuildCast LSExtOrBitCast b (llTypeOf L a)) s else (b, s));
     let (result, s) = llb L (BuildBin op a b) s;
     let s = (if fastMath \<and> enableFastMath s then llc L (EnableFastMath result) s else s);
     s \<leftarrow> (if flags then ll_flags_set_bit L result s else Some s);
     ll_operand_store L t ALIGN_MAXIMUM (idst i) prh result s }"

text \<open>
  Before every instruction the instruction pointer is set to the address behind it, and a call
  without effect carries its text.
\<close>

definition ll_generate_instruction :: "('v, 't, 'b, 'w) llvm \<Rightarrow> instr \<Rightarrow> ('v, 'b, 'w) llstate
    \<Rightarrow> (instr \<times> ('v, 'b, 'w) llstate) option" where
  "ll_generate_instruction L i s = do {
     let rip = llConstInt L (llInt L 64) (iaddr i + of_nat (ilen i));
     rIp \<leftarrow> getReg RT_IP 0;
     s \<leftarrow> ll_set_register L rIp FACET_I64 rip True s;
     let (doNothing, s) = ll_support_get_intrinsic L LL_INTRINSIC_DO_NOTHING [] s;
     instructionName \<leftarrow> instr2string i False None;
     let (mdCall, s) = llb L (BuildCall doNothing []) s;
     let s = llc L (LLVMSetMetadata mdCall ''asm.instr''
       (llConst L (LLVMMDString instructionName))) s;
     (case descriptors (itype i) of
        CT_FUNCTION h \<Rightarrow> llHandle L h i s
      | CT_BINARY_LLVM t prh op flags fastMath \<Rightarrow>
          map_option (\<lambda>s. (i, s)) (llBinary L t prh op flags fastMath i s)
      | CT_NOT_IMPLEMENTED \<Rightarrow> None
      | CT_NOP \<Rightarrow> Some (i, s)) }"

end
