(* ===== verification/LLBlock.thy ===== *)
theory LLBlock
  imports LLTranslate
begin

text \<open>
  Basic blocks and functions of the LLVM backend (\<open>llvm/src/llbasicblock.c\<close> and
  \<open>llvm/src/llfunction.c\<close>): the block graph with its predecessor lists, the generation of the
  LLVM code of a block, the phi nodes and the functions of a module. The release of memory is
  left out.
\<close>

section \<open>Blocks\<close>

text \<open>A new block is the next index.\<close>

definition newBlock :: "('v, 't, 'b, 'w) llvm \<Rightarrow> u64 \<Rightarrow> ('v, 'b) llblock" where
  "newBlock L a =
     \<lparr>lb_address = a, lb_instrCount = 0, lb_instrs = [], lb_nextBranch = None,
      lb_nextFallThrough = None, lb_predsAllocated = 0, lb_preds = [], lb_llvmBB = None,
      lb_endType = None, lb_regfile = ll_regfile_new L, lb_phis = (\<lambda>_ _. llMalloc L),
      lb_phiFlags = (\<lambda>_. llMalloc L)\<rparr>"

definition allocBlock :: "('v, 'b) llblock \<Rightarrow> ('v, 'b, 'w) llstate \<Rightarrow> nat \<times> ('v, 'b, 'w) llstate" where
  "allocBlock bb s = (length (ll_blocks s), s\<lparr>ll_blocks := ll_blocks s @ [bb]\<rparr>)"

definition ll_basic_block_new :: "('v, 't, 'b, 'w) llvm \<Rightarrow> u64 \<Rightarrow> ('v, 'b, 'w) llstate
    \<Rightarrow> nat \<times> ('v, 'b, 'w) llstate" where
  "ll_basic_block_new L a s = allocBlock (newBlock L a) s"

text \<open>From a decoded block, given by its address and instructions, or from a captured block.\<close>

definition ll_basic_block_new_from_dbb :: "('v, 't, 'b, 'w) llvm \<Rightarrow> u64 \<times> instr list
    \<Rightarrow> ('v, 'b, 'w) llstate \<Rightarrow> nat \<times> ('v, 'b, 'w) llstate" where
  "ll_basic_block_new_from_dbb L d s =
     allocBlock ((newBlock L (fst d))\<lparr>lb_instrs := snd d, lb_instrCount := length (snd d)\<rparr>) s"

definition ll_basic_block_new_from_cbb :: "('v, 't, 'b, 'w) llvm \<Rightarrow> cbb \<Rightarrow> instr list
    \<Rightarrow> ('v, 'b, 'w) llstate \<Rightarrow> nat \<times> ('v, 'b, 'w) llstate" where
  "ll_basic_block_new_from_cbb L c is s =
     allocBlock ((newBlock L (dec_addr c))\<lparr>lb_instrs := is, lb_instrCount := cbb_count c,
       lb_endType := Some (endType c)\<rparr>) s"

definition ll_basic_block_declare :: "('v, 't, 'b, 'w) llvm \<Rightarrow> nat \<Rightarrow> ('v, 'b, 'w) llstate
    \<Rightarrow> ('v, 'b, 'w) llstate option" where
  "ll_basic_block_declare L b s =
     (case lb_llvmBB (llBlock s b) of
        Some _ \<Rightarrow> Some s
      | None \<Rightarrow> do {
          fn \<leftarrow> lf_llvm (ll_functions s ! ll_currentFunction s);
          let (bb, w) = llAppendBlock L fn (ll_world s);
          Some (updBlock b (\<lambda>x. x\<lparr>lb_llvmBB := Some bb\<rparr>) (s\<lparr>ll_world := w\<rparr>)) })"

text \<open>The growth of an array: 10 elements at first, then twice as many.\<close>

definition grow :: "nat \<Rightarrow> nat \<Rightarrow> nat" where
  "grow allocated count =
     (if allocated = 0 then 10 else if allocated = count then allocated * 2 else allocated)"

definition ll_basic_block_add_predecessor :: "nat \<Rightarrow> nat \<Rightarrow> ('v, 'b, 'w) llstate
    \<Rightarrow> ('v, 'b, 'w) llstate" where
  "ll_basic_block_add_predecessor b pred =
     updBlock b (\<lambda>x. x\<lparr>lb_predsAllocated := grow (lb_predsAllocated x) (length (lb_preds x)),
       lb_preds := lb_preds x @ [pred]\<rparr>)"

text \<open>The index of the instruction at an address, from index \<open>j\<close> on.\<close>

primrec findAddr :: "u64 \<Rightarrow> nat \<Rightarrow> instr list \<Rightarrow> nat option" where
  "findAddr a j [] = None"
| "findAddr a j (i # is) = (if iaddr i = a then Some j else findAddr a (Suc j) is)"

abbreviation blockInstrs :: "('v, 'b) llblock \<Rightarrow> instr list" where
  "blockInstrs x \<equiv> take (lb_instrCount x) (lb_instrs x)"

definition ll_basic_block_find_address :: "nat \<Rightarrow> u64 \<Rightarrow> ('v, 'b, 'w) llstate \<Rightarrow> nat option" where
  "ll_basic_block_find_address b a s = findAddr a 0 (blockInstrs (llBlock s b))"

definition ll_basic_block_add_branches :: "nat \<Rightarrow> nat option \<Rightarrow> nat option \<Rightarrow> ('v, 'b, 'w) llstate
    \<Rightarrow> ('v, 'b, 'w) llstate" where
  "ll_basic_block_add_branches b branch fallThrough s =
     (let s = (case branch of None \<Rightarrow> s
            | Some n \<Rightarrow> updBlock b (\<lambda>x. x\<lparr>lb_nextBranch := Some n\<rparr>)
                (ll_basic_block_add_predecessor n b s))
      in case fallThrough of None \<Rightarrow> s
         | Some n \<Rightarrow> updBlock b (\<lambda>x. x\<lparr>lb_nextFallThrough := Some n\<rparr>)
             (ll_basic_block_add_predecessor n b s))"

definition ll_basic_block_truncate :: "nat \<Rightarrow> nat \<Rightarrow> ('v, 'b, 'w) llstate
    \<Rightarrow> ('v, 'b, 'w) llstate" where
  "ll_basic_block_truncate b splitIndex =
     updBlock b (\<lambda>x. x\<lparr>lb_instrCount := splitIndex, lb_nextFallThrough := None,
       lb_nextBranch := None\<rparr>)"

section \<open>The blocks of a function\<close>

definition updFunction :: "nat \<Rightarrow> ('v llfunction \<Rightarrow> 'v llfunction) \<Rightarrow> ('v, 'b, 'w) llstate
    \<Rightarrow> ('v, 'b, 'w) llstate" where
  "updFunction f g s = s\<lparr>ll_functions := (ll_functions s)[f := g (ll_functions s ! f)]\<rparr>"

abbreviation llFunction :: "('v, 'b, 'w) llstate \<Rightarrow> nat \<Rightarrow> 'v llfunction" where
  "llFunction s f \<equiv> ll_functions s ! f"

text \<open>The first block of a function gets the prologue as predecessor.\<close>

definition ll_function_add_basic_block :: "nat \<Rightarrow> nat \<Rightarrow> ('v, 'b, 'w) llstate
    \<Rightarrow> ('v, 'b, 'w) llstate option" where
  "ll_function_add_basic_block f b s = do {
     let fn = llFunction s f;
     c_assert (lf_kind fn = LL_FUNCTION_DEFINITION);
     let s = (if lf_bbsAllocated fn = 0
       then ll_basic_block_add_predecessor b (lf_initialBB fn) s else s);
     Some (updFunction f (\<lambda>x. x\<lparr>lf_bbsAllocated := grow (lf_bbsAllocated x) (length (lf_bbs x)),
       lf_bbs := lf_bbs x @ [b]\<rparr>) s) }"

text \<open>Blocks that had \<open>b\<close> as predecessor get the split off block instead.\<close>

definition renamePred :: "nat \<Rightarrow> nat \<Rightarrow> ('v, 'b) llblock \<Rightarrow> ('v, 'b) llblock" where
  "renamePred b n x = x\<lparr>lb_preds := map (\<lambda>p. if p = b then n else p) (lb_preds x)\<rparr>"

definition ll_basic_block_split :: "('v, 't, 'b, 'w) llvm \<Rightarrow> nat \<Rightarrow> nat \<Rightarrow> ('v, 'b, 'w) llstate
    \<Rightarrow> (nat \<times> ('v, 'b, 'w) llstate) option" where
  "ll_basic_block_split L b splitIndex s = do {
     let x = llBlock s b;
     let y = (newBlock L (iaddr (lb_instrs x ! splitIndex)))
       \<lparr>lb_instrs := drop splitIndex (lb_instrs x), lb_instrCount := lb_instrCount x - splitIndex,
        lb_nextBranch := lb_nextBranch x, lb_nextFallThrough := lb_nextFallThrough x\<rparr>;
     let (n, s) = allocBlock y s;
     let s = updBlock b (\<lambda>x. x\<lparr>lb_instrCount := splitIndex, lb_nextFallThrough := Some n,
       lb_nextBranch := None\<rparr>) s;
     let s = fold (\<lambda>k. updBlock k (renamePred b n)) (lf_bbs (llFunction s (ll_currentFunction s))) s;
     let s = ll_basic_block_add_predecessor n b s;
     s \<leftarrow> ll_function_add_basic_block (ll_currentFunction s) n s;
     Some (n, s) }"

section \<open>The LLVM code of a block\<close>

text \<open>Phi nodes for all facets of a register, for all flags.\<close>

definition phiFacet :: "('v, 't, 'b, 'w) llvm \<Rightarrow> nat \<Rightarrow> reg \<Rightarrow> facet \<Rightarrow> ('v, 'b, 'w) llstate
    \<Rightarrow> ('v, 'b, 'w) llstate option" where
  "phiFacet L b r f s = do {
     let (phi, s) = llb L (BuildPhi (ll_register_facet_type L f)) s;
     s \<leftarrow> ll_regfile_set L b f r phi False s;
     l \<leftarrow> ll_regfile_get_ptr r;
     Some (updBlock b (\<lambda>x. x\<lparr>lb_phis := (lb_phis x)(l := (lb_phis x l)(f := Some phi))\<rparr>) s) }"

definition phiRegister :: "('v, 't, 'b, 'w) llvm \<Rightarrow> nat \<Rightarrow> regtype \<Rightarrow> nat \<Rightarrow> ('v, 'b, 'w) llstate
    \<Rightarrow> ('v, 'b, 'w) llstate option" where
  "phiRegister L b t k s = do { r \<leftarrow> getReg t k; llFold (phiFacet L b r) facets s }"

definition phiFlag :: "('v, 't, 'b, 'w) llvm \<Rightarrow> nat \<Rightarrow> rflag \<Rightarrow> ('v, 'b, 'w) llstate
    \<Rightarrow> ('v, 'b, 'w) llstate" where
  "phiFlag L b f s =
     (let (phi, s) = llb L (BuildPhi (i1 L)) s
      in updBlock b (\<lambda>x. x\<lparr>lb_phiFlags := (lb_phiFlags x)(f := Some phi)\<rparr>)
           (ll_regfile_set_flag b f phi s))"

text \<open>An instruction of the block; the translation may change its operand types.\<close>

definition blockInstr :: "('v, 't, 'b, 'w) llvm \<Rightarrow> nat \<Rightarrow> nat \<Rightarrow> ('v, 'b, 'w) llstate
    \<Rightarrow> ('v, 'b, 'w) llstate option" where
  "blockInstr L b k s = do {
     (i, s) \<leftarrow> ll_generate_instruction L (lb_instrs (llBlock s b) ! k) s;
     Some (updBlock b (\<lambda>x. x\<lparr>lb_instrs := (lb_instrs x)[k := i]\<rparr>) s) }"

definition blockEndType :: "('v, 'b) llblock \<Rightarrow> instrtype" where
  "blockEndType x =
     (case lb_endType x of
        Some t \<Rightarrow> t
      | None \<Rightarrow> (if lb_instrCount x \<noteq> 0 then itype (lb_instrs x ! (lb_instrCount x - 1))
                 else IT_None))"

definition llvmOf :: "('v, 'b, 'w) llstate \<Rightarrow> nat option \<Rightarrow> 'b option" where
  "llvmOf s b = do { b \<leftarrow> b; lb_llvmBB (llBlock s b) }"

text \<open>The branch at the end of a block, if there is one.\<close>

definition endBranch :: "('v, 't, 'b, 'w) llvm \<Rightarrow> nat \<Rightarrow> ('v, 'b, 'w) llstate
    \<Rightarrow> ('v option \<times> ('v, 'b, 'w) llstate) option" where
  "endBranch L b s =
     (let x = llBlock s b; t = blockEndType x
      in case t of
        IT_J c \<Rightarrow> do {
          (cnd, s) \<leftarrow> ll_flags_condition L c s;
          bb1 \<leftarrow> llvmOf s (lb_nextBranch x);
          bb2 \<leftarrow> llvmOf s (lb_nextFallThrough x);
          let (br, s) = llb L (BuildCondBr cnd bb1 bb2) s;
          Some (Some br, s) }
      | IT_JMP \<Rightarrow> do {
          bb \<leftarrow> llvmOf s (lb_nextBranch x);
          let (br, s) = llb L (BuildBr bb) s;
          Some (Some br, s) }
      | _ \<Rightarrow>
          (if t = IT_RET \<or> t = IT_Invalid then Some (None, s)
           else do {
             bb \<leftarrow> llvmOf s (lb_nextFallThrough x);
             let (br, s) = llb L (BuildBr bb) s;
             Some (Some br, s) }))"

definition ll_basic_block_build_ir :: "('v, 't, 'b, 'w) llvm \<Rightarrow> nat \<Rightarrow> ('v, 'b, 'w) llstate
    \<Rightarrow> ('v, 'b, 'w) llstate option" where
  "ll_basic_block_build_ir L b s =
     (if lb_preds (llBlock s b) = [] then do {
        bb \<leftarrow> lb_llvmBB (llBlock s b);
        Some (llc L (LLVMRemoveBasicBlockFromParent bb) s) }
      else do {
        let s = s\<lparr>ll_currentBB := b\<rparr>;
        bb \<leftarrow> lb_llvmBB (llBlock s b);
        let s = llc L (LLVMPositionBuilderAtEnd bb) s;
        s \<leftarrow> llFold (phiRegister L b RT_GP64) [0..<RI_GPMax] s;
        s \<leftarrow> llFold (phiRegister L b RT_XMM) [0..<RI_XMMMax] s;
        let s = fold (phiFlag L b) rflags s;
        s \<leftarrow> llFold (blockInstr L b) [0..<lb_instrCount (llBlock s b)] s;
        (branch, s) \<leftarrow> endBranch L b s;
        Some (case branch of
          Some br \<Rightarrow> (if enableFullLoopUnroll s
            then llc L (LLVMSetMetadata br ''llvm.loop'' (ll_unrollMD s)) s else s)
        | None \<Rightarrow> s) })"

text \<open>The values of a register in the predecessors, in their order, and their LLVM blocks.\<close>

primrec predValues :: "('v, 't, 'b, 'w) llvm \<Rightarrow> reg \<Rightarrow> facet \<Rightarrow> nat list \<Rightarrow> ('v, 'b, 'w) llstate
    \<Rightarrow> ('v list \<times> ('v, 'b, 'w) llstate) option" where
  "predValues L r f [] s = Some ([], s)"
| "predValues L r f (p # ps) s = do {
     (v, s) \<leftarrow> ll_regfile_get L p f r s;
     (vs, s) \<leftarrow> predValues L r f ps s;
     Some (v # vs, s) }"

fun sequenceOpt :: "'a option list \<Rightarrow> 'a list option" where
  "sequenceOpt [] = Some []"
| "sequenceOpt (x # xs) = do { x \<leftarrow> x; xs \<leftarrow> sequenceOpt xs; Some (x # xs) }"

definition predBlocks :: "('v, 'b, 'w) llstate \<Rightarrow> nat list \<Rightarrow> 'b list option" where
  "predBlocks s ps = sequenceOpt (map (\<lambda>p. lb_llvmBB (llBlock s p)) ps)"

definition fillFacet :: "('v, 't, 'b, 'w) llvm \<Rightarrow> nat \<Rightarrow> reg \<Rightarrow> facet \<Rightarrow> ('v, 'b, 'w) llstate
    \<Rightarrow> ('v, 'b, 'w) llstate option" where
  "fillFacet L b r f s = do {
     let ps = lb_preds (llBlock s b);
     bbs \<leftarrow> predBlocks s ps;
     (vs, s) \<leftarrow> predValues L r f ps s;
     l \<leftarrow> ll_regfile_get_ptr r;
     phi \<leftarrow> lb_phis (llBlock s b) l f;
     Some (llc L (LLVMAddIncoming phi vs bbs) s) }"

definition fillRegister :: "('v, 't, 'b, 'w) llvm \<Rightarrow> nat \<Rightarrow> regtype \<Rightarrow> nat \<Rightarrow> ('v, 'b, 'w) llstate
    \<Rightarrow> ('v, 'b, 'w) llstate option" where
  "fillRegister L b t k s = do { r \<leftarrow> getReg t k; llFold (fillFacet L b r) facets s }"

definition fillFlag :: "('v, 't, 'b, 'w) llvm \<Rightarrow> nat \<Rightarrow> rflag \<Rightarrow> ('v, 'b, 'w) llstate
    \<Rightarrow> ('v, 'b, 'w) llstate option" where
  "fillFlag L b f s = do {
     let ps = lb_preds (llBlock s b);
     bbs \<leftarrow> predBlocks s ps;
     vs \<leftarrow> sequenceOpt (map (\<lambda>p. ll_regfile_get_flag p f s) ps);
     phi \<leftarrow> lb_phiFlags (llBlock s b) f;
     Some (llc L (LLVMAddIncoming phi vs bbs) s) }"

definition ll_basic_block_fill_phis :: "('v, 't, 'b, 'w) llvm \<Rightarrow> nat \<Rightarrow> ('v, 'b, 'w) llstate
    \<Rightarrow> ('v, 'b, 'w) llstate option" where
  "ll_basic_block_fill_phis L b s =
     (if lb_preds (llBlock s b) = [] then Some s
      else do {
        s \<leftarrow> llFold (fillRegister L b RT_GP64) [0..<RI_GPMax] s;
        s \<leftarrow> llFold (fillRegister L b RT_XMM) [0..<RI_XMMMax] s;
        llFold (fillFlag L b) rflags s })"

end
