(* ===== verification/LLFunction.thy ===== *)
theory LLFunction
  imports LLBlock
begin

text \<open>
  The functions of a module (\<open>llvm/src/llfunction.c\<close>): declarations with packed signatures,
  definitions with their prologue, wrapped and specialized functions, and the generation of the
  code of a function.
\<close>

section \<open>Allocation\<close>

text \<open>What is not set here is set later or, like the block list of a declaration, not used.\<close>

definition ll_function_new :: "llfunctionkind \<Rightarrow> u64 \<Rightarrow> ('v, 'b, 'w) llstate
    \<Rightarrow> nat \<times> ('v, 'b, 'w) llstate" where
  "ll_function_new k a s =
     (let n = length (ll_functions s);
          f = \<lparr>lf_name = None, lf_address = a, lf_llvm = None, lf_kind = k, lf_stackSize = 0,
               lf_bbsAllocated = 0, lf_bbs = [], lf_initialBB = 0\<rparr>
      in (n, s\<lparr>ll_functionsAllocated := grow (ll_functionsAllocated s) n,
               ll_functions := ll_functions s @ [f]\<rparr>))"

section \<open>Signatures\<close>

text \<open>
  A signature is packed into groups of three bits: the number of parameters, the type of the
  result and the types of the parameters. The code 1 is no value for the result and a pointer
  without aliases for a parameter.
\<close>

definition packedDigit :: "u64 \<Rightarrow> nat \<Rightarrow> nat" where
  "packedDigit p k = unat (drop_bit (3 * k) p AND 7)"

definition signatureType :: "('v, 't, 'b, 'w) llvm \<Rightarrow> bool \<Rightarrow> nat \<Rightarrow> 't option" where
  "signatureType L isResult raw =
     (if raw = 0 then Some (llPtr8 L)
      else if raw = 1 then
        Some (if isResult then llType L LLVMVoidType else llPtr8 L)
      else if raw = 2 then Some (llInt L 64)
      else if raw = 6 then Some (llType L LLVMFloatType)
      else if raw = 7 then Some (llType L LLVMDoubleType)
      else None)"

definition signatureTypes :: "('v, 't, 'b, 'w) llvm \<Rightarrow> u64 \<Rightarrow> 't list option" where
  "signatureTypes L p =
     sequenceOpt (map (\<lambda>i. signatureType L (i = 0) (packedDigit p (Suc i)))
       [0..<Suc (packedDigit p 0)])"

text \<open>The parameters that are marked as free of aliases.\<close>

definition noaliasParams :: "u64 \<Rightarrow> nat list" where
  "noaliasParams p =
     filter (\<lambda>i. packedDigit p (Suc (Suc i)) = 1) [0..<packedDigit p 0]"

definition ll_function_declare_llvm :: "('v, 't, 'b, 'w) llvm \<Rightarrow> u64 \<Rightarrow> string option
    \<Rightarrow> ('v, 'b, 'w) llstate \<Rightarrow> ('v \<times> ('v, 'b, 'w) llstate) option" where
  "ll_function_declare_llvm L p name s = do {
     types \<leftarrow> signatureTypes L p;
     let fnType = llType L (LLVMFunctionType (hd types) (tl types));
     let (fn, w) = llAddFunction L name fnType (ll_world s);
     let s = s\<lparr>ll_world := w\<rparr>;
     Some (fn, fold (\<lambda>i. llc L (LLVMAddAttributeAtIndex fn (int i + 1) ''noalias''))
                 (noaliasParams p) s) }"

definition ll_function_declare :: "('v, 't, 'b, 'w) llvm \<Rightarrow> u64 \<Rightarrow> u64 \<Rightarrow> string option
    \<Rightarrow> ('v, 'b, 'w) llstate \<Rightarrow> (nat \<times> ('v, 'b, 'w) llstate) option" where
  "ll_function_declare L address p name s = do {
     let (f, s) = ll_function_new LL_FUNCTION_DECLARATION address s;
     let s = updFunction f (\<lambda>x. x\<lparr>lf_name := name\<rparr>) s;
     (fn, s) \<leftarrow> ll_function_declare_llvm L p name s;
     let s = updFunction f (\<lambda>x. x\<lparr>lf_llvm := Some fn\<rparr>) s;
     let isIntrinsic = (case name of None \<Rightarrow> False
       | Some n \<Rightarrow> 5 < length n \<and> take 5 n = ''llvm.'');
     let isSymbol = (case name of None \<Rightarrow> False | Some n \<Rightarrow> llSymbol L n);
     Some (f, if \<not> isIntrinsic \<and> \<not> isSymbol then llc L (LLVMAddGlobalMapping fn address) s
              else s) }"

section \<open>Definitions\<close>

definition undefRegister :: "('v, 't, 'b, 'w) llvm \<Rightarrow> regtype \<Rightarrow> facet \<Rightarrow> nat \<Rightarrow> ('v, 'b, 'w) llstate
    \<Rightarrow> ('v, 'b, 'w) llstate option" where
  "undefRegister L t f k s = do {
     r \<leftarrow> getReg t k;
     ll_set_register L r f (llUndef L (ll_register_facet_type L f)) True s }"

text \<open>
  Put the parameters of a function into their registers, like \<open>argRegisters\<close> for integers and
  pointers and the vector registers in turn for floating point values.
\<close>

primrec initParams :: "('v, 't, 'b, 'w) llvm \<Rightarrow> nat \<Rightarrow> nat \<Rightarrow> 'v list \<Rightarrow> ('v, 'b, 'w) llstate
    \<Rightarrow> ('v, 'b, 'w) llstate option" where
  "initParams L gp fp [] s = Some s"
| "initParams L gp fp (v # vs) s =
     (let k = llTypeKind L (llTypeOf L v)
      in if k = LLVMPointerTypeKind then do {
           let (x, s) = llb L (BuildCast LPtrToInt v (llInt L 64)) s;
           c_assert (gp < length argRegisters);
           r \<leftarrow> getReg RT_GP64 (argRegisters ! gp);
           p \<leftarrow> getRegOp r;
           s \<leftarrow> ll_operand_store L OP_SI ALIGN_MAXIMUM p REG_DEFAULT x s;
           initParams L (Suc gp) fp vs s }
         else if k = LLVMIntegerTypeKind then do {
           c_assert (gp < length argRegisters);
           r \<leftarrow> getReg RT_GP64 (argRegisters ! gp);
           p \<leftarrow> getRegOp r;
           s \<leftarrow> ll_operand_store L OP_SI ALIGN_MAXIMUM p REG_DEFAULT v s;
           initParams L (Suc gp) fp vs s }
         else if k = LLVMFloatTypeKind then do {
           r \<leftarrow> getReg RT_XMM fp;
           p \<leftarrow> getRegOp r;
           s \<leftarrow> ll_operand_store L OP_SF32 ALIGN_MAXIMUM p REG_ZERO_UPPER_SSE v s;
           initParams L gp (Suc fp) vs s }
         else if k = LLVMDoubleTypeKind then do {
           r \<leftarrow> getReg RT_XMM fp;
           p \<leftarrow> getRegOp r;
           s \<leftarrow> ll_operand_store L OP_SF64 ALIGN_MAXIMUM p REG_ZERO_UPPER_SSE v s;
           initParams L gp (Suc fp) vs s }
         else None)"

text \<open>The stack of the function is an array on its real stack.\<close>

definition setupStack :: "('v, 't, 'b, 'w) llvm \<Rightarrow> nat \<Rightarrow> ('v, 'b, 'w) llstate
    \<Rightarrow> ('v, 'b, 'w) llstate option" where
  "setupStack L n s = do {
     let stackSize = llConstInt L (llInt L 64) (of_nat n);
     let (stack, s) = llb L (BuildArrayAlloca (llInt L 8) stackSize) s;
     let (sp, s) = llb L (BuildGEP stack [stackSize]) s;
     r \<leftarrow> getReg RT_GP64 RI_SP;
     s \<leftarrow> ll_set_register L r FACET_PTR sp True s;
     Some (llc L (LLVMSetAlignment stack 16) s) }"

definition ll_function_new_definition :: "('v, 't, 'b, 'w) llvm \<Rightarrow> u64 \<Rightarrow> llconfig
    \<Rightarrow> ('v, 'b, 'w) llstate \<Rightarrow> (nat \<times> ('v, 'b, 'w) llstate) option" where
  "ll_function_new_definition L address config s = do {
     let (f, s) = ll_function_new LL_FUNCTION_DEFINITION address s;
     let s = updFunction f (\<lambda>x. x\<lparr>lf_name := cfg_name config, lf_stackSize := cfg_stackSize config\<rparr>) s;
     let s = s\<lparr>ll_currentFunction := f\<rparr>;
     (fn, s) \<leftarrow> ll_function_declare_llvm L (cfg_signature config) (cfg_name config) s;
     let s = updFunction f (\<lambda>x. x\<lparr>lf_llvm := Some fn\<rparr>) s;
     let s = (if cfg_private config then llc L (LLVMSetLinkage fn LLVMPrivateLinkage) s else s);
     let (b, s) = ll_basic_block_new L address s;
     s \<leftarrow> ll_basic_block_declare L b s;
     let s = s\<lparr>ll_currentBB := b\<rparr>;
     bb \<leftarrow> lb_llvmBB (llBlock s b);
     let s = llc L (LLVMPositionBuilderAtEnd bb) s;
     s \<leftarrow> llFold (undefRegister L RT_GP64 FACET_I64) [0..<RI_GPMax] s;
     s \<leftarrow> llFold (undefRegister L RT_XMM FACET_IVEC) [0..<RI_XMMMax] s;
     let s = fold (\<lambda>f. ll_regfile_set_flag b f (llUndef L (i1 L))) rflags s;
     s \<leftarrow> initParams L 0 0 (llParams L fn) s;
     s \<leftarrow> setupStack L (cfg_stackSize config) s;
     Some (f, updFunction f (\<lambda>x. x\<lparr>lf_initialBB := b\<rparr>) s) }"

section \<open>Other functions\<close>

definition ll_function_wrap_external :: "('v, 't, 'b, 'w) llvm \<Rightarrow> string \<Rightarrow> ('v, 'b, 'w) llstate
    \<Rightarrow> nat option \<times> ('v, 'b, 'w) llstate" where
  "ll_function_wrap_external L name s =
     (case llNamedFunction L name (ll_world s) of
        None \<Rightarrow> (None, s)
      | Some fn \<Rightarrow>
          (let s = llc L (LLVMSetLinkage fn LLVMExternalLinkage) s;
               (f, s) = ll_function_new LL_FUNCTION_EXTERNAL 0 s
           in (Some f, updFunction f (\<lambda>x. x\<lparr>lf_name := Some name, lf_llvm := Some fn\<rparr>) s)))"

text \<open>The constant that a parameter is fixed to: a copy of a memory region or the value.\<close>

definition fixedValue :: "('v, 't, 'b, 'w) llvm \<Rightarrow> 't \<Rightarrow> u64 \<Rightarrow> nat \<Rightarrow> ('v, 'b, 'w) llstate
    \<Rightarrow> 'v \<times> ('v, 'b, 'w) llstate" where
  "fixedValue L t v n s =
     (let i64 = llInt L 64
      in if n \<noteq> 0 \<and> n < 0x100000 then
           (let arrayType = llType L (LLVMArrayType i64 (n div 8));
                qwords = map (\<lambda>i. llConstInt L i64 (llMemory L (v + of_nat (8 * i)))) [0..<n div 8];
                (g, w) = llAddGlobal L arrayType ''globalParam0'' (ll_world s);
                s = llc L (LLVMSetGlobalConstant g True) (s\<lparr>ll_world := w\<rparr>);
                s = llc L (LLVMSetLinkage g LLVMPrivateLinkage) s;
                s = llc L (LLVMSetInitializer g (llConst L (LLVMConstArray arrayType qwords))) s
            in llb L (BuildCast LPointerCast g t) s)
         else (llConst L (LLVMConstBitCast (llConstInt L i64 v) t), s))"

definition ll_function_specialize :: "('v, 't, 'b, 'w) llvm \<Rightarrow> nat \<Rightarrow> nat \<Rightarrow> u64 \<Rightarrow> nat
    \<Rightarrow> ('v, 'b, 'w) llstate \<Rightarrow> (nat \<times> ('v, 'b, 'w) llstate) option" where
  "ll_function_specialize L base index v n s = do {
     let (f, s) = ll_function_new LL_FUNCTION_SPECIALIZATION 0 s;
     let s = updFunction f (\<lambda>x. x\<lparr>lf_name := lf_name (llFunction s base)\<rparr>) s;
     baseFn \<leftarrow> lf_llvm (llFunction s base);
     let fnType = llElementType L (llTypeOf L baseFn);
     let paramTypes = llParamTypes L fnType;
     let s = llc L (LLVMAddAttributeAtIndex baseFn (-1) ''alwaysinline'') s;
     c_assert (index < length paramTypes);
     let (fn, w) = llAddFunction L (lf_name (llFunction s f)) fnType (ll_world s);
     let s = updFunction f (\<lambda>x. x\<lparr>lf_llvm := Some fn\<rparr>) (s\<lparr>ll_world := w\<rparr>);
     let (fixed, s) = fixedValue L (paramTypes ! index) v n s;
     let args = map (\<lambda>i. if i = index then fixed else llParams L fn ! i) [0..<length paramTypes];
     let (bb, w) = llAppendBlock L fn (ll_world s);
     let s = llc L (LLVMPositionBuilderAtEnd bb) (s\<lparr>ll_world := w\<rparr>);
     let (r, s) = llb L (BuildCall baseFn args) s;
     let (_, s) = llb L (if llTypeKind L (llReturnType L fnType) \<noteq> LLVMVoidTypeKind
                         then BuildRet r else BuildRetVoid) s;
     Some (f, s) }"

text \<open>The code of a function, and whether LLVM finds an error in it.\<close>

definition ll_function_build_ir :: "('v, 't, 'b, 'w) llvm \<Rightarrow> nat \<Rightarrow> ('v, 'b, 'w) llstate
    \<Rightarrow> (bool \<times> ('v, 'b, 'w) llstate) option" where
  "ll_function_build_ir L f s = do {
     let bbs = lf_bbs (llFunction s f);
     s \<leftarrow>
       (if lf_kind (llFunction s f) = LL_FUNCTION_DEFINITION then do {
          let s = s\<lparr>ll_currentFunction := f\<rparr>;
          s \<leftarrow> llFold (ll_basic_block_declare L) bbs s;
          bb \<leftarrow> lb_llvmBB (llBlock s (lf_initialBB (llFunction s f)));
          let s = llc L (LLVMPositionBuilderAtEnd bb) s;
          c_assert (bbs \<noteq> []);
          first \<leftarrow> lb_llvmBB (llBlock s (hd bbs));
          let (_, s) = llb L (BuildBr first) s;
          s \<leftarrow> llFold (ll_basic_block_build_ir L) bbs s;
          llFold (ll_basic_block_fill_phis L) bbs s }
        else Some s);
     fn \<leftarrow> lf_llvm (llFunction s f);
     Some (llVerify L fn (ll_world s), s) }"

definition ll_function_get_pointer :: "('v, 't, 'b, 'w) llvm \<Rightarrow> nat \<Rightarrow> ('v, 'b, 'w) llstate
    \<Rightarrow> (u64 \<times> ('v, 'b, 'w) llstate) option" where
  "ll_function_get_pointer L f s = do {
     fn \<leftarrow> lf_llvm (llFunction s f);
     let (a, w) = llPointer L fn (ll_world s);
     Some (a, s\<lparr>ll_world := w\<rparr>) }"

end
