(* ===== verification/LLDecoder.thy ===== *)
theory LLDecoder
  imports LLFunction
begin

text \<open>
  Decoding a function into LLVM basic blocks (\<open>llvm/src/lldecoder.c\<close>). The decoder is an
  argument: for an address it gives the address and the instructions of a block. Both variants
  call themselves for the successors of a block; they are partial functions, as they need not
  end on code that never repeats.
\<close>

section \<open>Without sharing of instructions\<close>

text \<open>The first block of the function that starts with the instruction at an address.\<close>

primrec findStart :: "u64 \<Rightarrow> nat list \<Rightarrow> ('v, 'b, 'w) llstate \<Rightarrow> nat option" where
  "findStart a [] s = None"
| "findStart a (b # bs) s =
     (if ll_basic_block_find_address b a s = Some 0 then Some b else findStart a bs s)"

definition llBbs :: "('v, 'b, 'w) llstate \<Rightarrow> nat list" where
  "llBbs s = lf_bbs (llFunction s (ll_currentFunction s))"

text \<open>Does a block fall through, or branch, to another block?\<close>

definition fallsThrough :: "instrtype \<Rightarrow> bool" where
  "fallsThrough t \<longleftrightarrow> instrIsJcc t \<or> t = IT_CALL"

definition branches :: "instrtype \<Rightarrow> bool" where
  "branches t \<longleftrightarrow> t = IT_JMP \<or> instrIsJcc t"

partial_function (option) ll_decode_basic_block_naive ::
    "('v, 't, 'b, 'w) llvm \<Rightarrow> (u64 \<Rightarrow> u64 \<times> instr list) \<Rightarrow> u64 \<Rightarrow> ('v, 'b, 'w) llstate
      \<Rightarrow> (nat \<times> ('v, 'b, 'w) llstate) option" where
  "ll_decode_basic_block_naive L decodeFunc address s =
     (case findStart address (llBbs s) s of
        Some b \<Rightarrow> Some (b, s)
      | None \<Rightarrow> do {
          let dbb = decodeFunc address;
          let (b, s) = ll_basic_block_new_from_dbb L dbb s;
          s \<leftarrow> ll_function_add_basic_block (ll_currentFunction s) b s;
          c_assert (snd dbb \<noteq> []);
          let lastInstr = last (snd dbb);
          (fallThrough, s) \<leftarrow>
            (if fallsThrough (itype lastInstr) then do {
               (x, s) \<leftarrow> ll_decode_basic_block_naive L decodeFunc
                 (iaddr lastInstr + of_nat (ilen lastInstr)) s;
               Some (Some x, s) }
             else Some (None, s));
          (next, s) \<leftarrow>
            (if branches (itype lastInstr) then do {
               (x, s) \<leftarrow> ll_decode_basic_block_naive L decodeFunc (oval (idst lastInstr)) s;
               Some (Some x, s) }
             else Some (None, s));
          Some (b, ll_basic_block_add_branches b next fallThrough s) })"

section \<open>With every instruction in one block\<close>

text \<open>
  The first block of the function with an instruction, other than \<open>b\<close>, and its index. A new
  block whose end stands in another block already is cut; if the other block has more instructions
  up to there than the new one, the subtraction wraps around in the code, and the model traps.
\<close>

primrec findInstr :: "nat option \<Rightarrow> u64 \<Rightarrow> nat list \<Rightarrow> ('v, 'b, 'w) llstate
    \<Rightarrow> (nat \<times> nat) option" where
  "findInstr b a [] s = None"
| "findInstr b a (x # xs) s =
     (case ll_basic_block_find_address x a s of
        Some k \<Rightarrow> (if b \<noteq> Some x then Some (x, k) else findInstr b a xs s)
      | None \<Rightarrow> findInstr b a xs s)"

text \<open>The blocks of the function with an instruction; there has to be exactly one.\<close>

definition holders :: "u64 \<Rightarrow> ('v, 'b, 'w) llstate \<Rightarrow> nat list" where
  "holders a s = filter (\<lambda>x. ll_basic_block_find_address x a s \<noteq> None) (llBbs s)"

definition theHolder :: "u64 \<Rightarrow> ('v, 'b, 'w) llstate \<Rightarrow> nat option" where
  "theHolder a s = (case holders a s of [x] \<Rightarrow> Some x | _ \<Rightarrow> None)"

partial_function (option) ll_decode_basic_block_dedup ::
    "('v, 't, 'b, 'w) llvm \<Rightarrow> (u64 \<Rightarrow> u64 \<times> instr list) \<Rightarrow> u64 \<Rightarrow> ('v, 'b, 'w) llstate
      \<Rightarrow> (nat \<times> ('v, 'b, 'w) llstate) option" where
  "ll_decode_basic_block_dedup L decodeFunc address s =
     (case findInstr None address (llBbs s) s of
        Some (x, k) \<Rightarrow> (if k = 0 then Some (x, s) else ll_basic_block_split L x k s)
      | None \<Rightarrow> do {
          let dbb = decodeFunc address;
          let (b, s) = ll_basic_block_new_from_dbb L dbb s;
          s \<leftarrow> ll_function_add_basic_block (ll_currentFunction s) b s;
          c_assert (snd dbb \<noteq> []);
          let lastInstr = last (snd dbb);
          (case findInstr (Some b) (iaddr lastInstr) (llBbs s) s of
             Some (x, k) \<Rightarrow> do {
               c_assert (k + 1 \<le> length (snd dbb));
               let s = ll_basic_block_truncate b (length (snd dbb) - (k + 1)) s;
               Some (b, ll_basic_block_add_branches b None (Some x) s) }
           | None \<Rightarrow> do {
               (fallThrough, s) \<leftarrow>
                 (if fallsThrough (itype lastInstr) then do {
                    (x, s) \<leftarrow> ll_decode_basic_block_dedup L decodeFunc
                      (iaddr lastInstr + of_nat (ilen lastInstr)) s;
                    Some (Some x, s) }
                  else Some (None, s));
               (next, s) \<leftarrow>
                 (if branches (itype lastInstr) then do {
                    (x, s) \<leftarrow> ll_decode_basic_block_dedup L decodeFunc (oval (idst lastInstr)) s;
                    Some (Some x, s) }
                  else Some (None, s));
               endOfBB \<leftarrow> theHolder (iaddr lastInstr) s;
               Some (b, ll_basic_block_add_branches endOfBB next fallThrough s) }) })"

section \<open>A function\<close>

text \<open>\<open>None\<close> as the function is the null pointer returned for code that LLVM rejects.\<close>

definition ll_decode_function :: "('v, 't, 'b, 'w) llvm \<Rightarrow> (u64 \<Rightarrow> u64 \<times> instr list) \<Rightarrow> u64
    \<Rightarrow> llconfig \<Rightarrow> ('v, 'b, 'w) llstate \<Rightarrow> (nat option \<times> ('v, 'b, 'w) llstate) option" where
  "ll_decode_function L decodeFunc address config s = do {
     (f, s) \<leftarrow> ll_function_new_definition L address config s;
     let s = s\<lparr>ll_currentFunction := f\<rparr>;
     (_, s) \<leftarrow> (if cfg_disableInstrDedup config
               then ll_decode_basic_block_naive L decodeFunc address s
               else ll_decode_basic_block_dedup L decodeFunc address s);
     (error, s) \<leftarrow> ll_function_build_ir L f s;
     Some (if error then None else Some f, s) }"

end
