(* ===== verification/LLEngine.thy ===== *)
theory LLEngine
  imports LLDecoder Engine
begin

text \<open>
  The module state of the LLVM backend and its use as a code generator for captured blocks
  (\<open>llvm/src/llengine.c\<close>). Printing and the release of memory are left out.
\<close>

section \<open>Modules\<close>

text \<open>\<open>calloc\<close> and \<open>ll_state_init_common\<close> on a context with a module; \<open>None\<close> is the failure to
  set up the execution engine.\<close>

definition ll_state_init_common :: "('v, 't, 'b, 'w) llvm \<Rightarrow> 'w \<Rightarrow> ('v, 'b, 'w) llstate option" where
  "ll_state_init_common L w = do {
     w \<leftarrow> llCreateMCJIT L (llCmd L (LLVMSetTarget ''x86_64-pc-linux-gnu'') w);
     Some \<lparr>ll_world = w, ll_functions = [], ll_functionsAllocated = 0, ll_blocks = [],
       ll_emptyMD = llConst L LLVMMDNode, ll_unrollMD = llUnrollMD L, ll_currentFunction = 0,
       ll_currentBB = 0, ll_globalOffsetBase = 0, ll_globalBase = None,
       enableUnsafePointerOptimizations = False, enableOverflowIntrinsics = False,
       enableFastMath = False, enableFullLoopUnroll = False\<rparr> }"

definition ll_engine_init :: "('v, 't, 'b, 'w) llvm \<Rightarrow> ('v, 'b, 'w) llstate option" where
  "ll_engine_init L = ll_state_init_common L (llModuleCreate L ''<llengine>'')"

text \<open>Functions with a body become private.\<close>

definition privateLinkage :: "('v, 't, 'b, 'w) llvm \<Rightarrow> 'v \<Rightarrow> 'w \<Rightarrow> 'w" where
  "privateLinkage L fn w =
     (if \<not> llIsDeclaration L fn w then llCmd L (LLVMSetLinkage fn LLVMPrivateLinkage) w else w)"

definition ll_engine_init_from_bc_file :: "('v, 't, 'b, 'w) llvm \<Rightarrow> string
    \<Rightarrow> ('v, 'b, 'w) llstate option" where
  "ll_engine_init_from_bc_file L fileName = do {
     w \<leftarrow> llParseBitcode L fileName;
     ll_state_init_common L (fold (privateLinkage L) (llModuleFunctions L w) w) }"

definition ll_engine_enable_overflow_intrinsics :: "('v, 'b, 'w) llstate \<Rightarrow> bool
    \<Rightarrow> ('v, 'b, 'w) llstate" where
  "ll_engine_enable_overflow_intrinsics s b = s\<lparr>enableOverflowIntrinsics := b\<rparr>"

definition ll_engine_enable_fast_math :: "('v, 'b, 'w) llstate \<Rightarrow> bool \<Rightarrow> ('v, 'b, 'w) llstate" where
  "ll_engine_enable_fast_math s b = s\<lparr>enableFastMath := b\<rparr>"

definition ll_engine_enable_full_loop_unroll :: "('v, 'b, 'w) llstate \<Rightarrow> bool
    \<Rightarrow> ('v, 'b, 'w) llstate" where
  "ll_engine_enable_full_loop_unroll s b = s\<lparr>enableFullLoopUnroll := b\<rparr>"

text \<open>The passes in their order; they run twice.\<close>

definition llPasses :: "int \<Rightarrow> llpass list" where
  "llPasses level =
     [LLVMAlwaysInlinerPass]
     @ (if 1 \<le> level then [LLVMEarlyCSEPass, LLVMGVNPass, LLVMInstructionCombiningPass] else [])
     @ [LLVMStandardPasses level (3 \<le> level), LLVMStripSymbolsPass, LLVMStripDeadPrototypesPass]"

definition ll_engine_optimize :: "('v, 't, 'b, 'w) llvm \<Rightarrow> int \<Rightarrow> ('v, 'b, 'w) llstate
    \<Rightarrow> ('v, 'b, 'w) llstate" where
  "ll_engine_optimize L level s =
     s\<lparr>ll_world := llRunPasses L (llPasses level) (llRunPasses L (llPasses level) (ll_world s))\<rparr>"

section \<open>The code generator\<close>

text \<open>Six pointer parameters and a 64-bit result.\<close>

definition backendConfig :: llconfig where
  "backendConfig = \<lparr>cfg_name = Some ''__dbrew__'', cfg_stackSize = 128, cfg_signature = 0x16,
     cfg_private = False, cfg_disableInstrDedup = False\<rparr>"

text \<open>The instructions from \<open>cbb->instr\<close> on; the pointer of an empty block is not used.\<close>

definition cbbInstrs :: "rewriter \<Rightarrow> cbb \<Rightarrow> instr list" where
  "cbbInstrs r c = (case cbb_instr c of None \<Rightarrow> [] | Some k \<Rightarrow> drop k (capInstr r))"

text \<open>One LLVM block per captured block; the list holds \<open>generatorData\<close> of the blocks.\<close>

primrec addBlocks :: "('v, 't, 'b, 'w) llvm \<Rightarrow> rewriter \<Rightarrow> nat \<Rightarrow> cbb list \<Rightarrow> ('v, 'b, 'w) llstate
    \<Rightarrow> (nat list \<times> ('v, 'b, 'w) llstate) option" where
  "addBlocks L r f [] s = Some ([], s)"
| "addBlocks L r f (c # cs) s = do {
     let (b, s) = ll_basic_block_new_from_cbb L c (cbbInstrs r c) s;
     s \<leftarrow> ll_function_add_basic_block f b s;
     (bs, s) \<leftarrow> addBlocks L r f cs s;
     Some (b # bs, s) }"

definition linkLLBlock :: "nat list \<Rightarrow> cbb \<times> nat \<Rightarrow> ('v, 'b, 'w) llstate \<Rightarrow> ('v, 'b, 'w) llstate" where
  "linkLLBlock generatorData cb s =
     ll_basic_block_add_branches (snd cb) (map_option (\<lambda>n. generatorData ! n) (nextBranch (fst cb)))
       (map_option (\<lambda>n. generatorData ! n) (nextFallThrough (fst cb))) s"

definition dbrew_llvm_backend :: "('v, 't, 'b, 'w) llvm \<Rightarrow> rewriter
    \<Rightarrow> (rewriter \<times> ('v, 'b, 'w) llstate) option" where
  "dbrew_llvm_backend L r = do {
     s \<leftarrow> ll_engine_init L;
     (f, s) \<leftarrow> ll_function_new_definition L (r_func r) backendConfig s;
     (bs, s) \<leftarrow> addBlocks L r f (capBB r) s;
     let s = fold (linkLLBlock bs) (zip (capBB r) bs) s;
     (error, s) \<leftarrow> ll_function_build_ir L f s;
     c_assert (\<not> error);
     let s = ll_engine_optimize L 3 s;
     (a, s) \<leftarrow> ll_function_get_pointer L f s;
     Some (r\<lparr>generatedCodeAddr := a, generatedCodeSize := 0\<rparr>, s) }"

text \<open>The error of the tracing is not looked at.\<close>

definition dbrew_llvm_rewrite :: "('v, 't, 'b, 'w) llvm \<Rightarrow> world \<Rightarrow> rewriter \<Rightarrow> u64 list
    \<Rightarrow> (u64 \<times> rewriter) option" where
  "dbrew_llvm_rewrite L w r args = do {
     (_, r) \<leftarrow> vEmulateAndCapture w r args;
     (r, _) \<leftarrow> dbrew_llvm_backend L r;
     Some (generatedCodeAddr r, r) }"

end
