(* ===== verification/LLTyping.thy ===== *)
theory LLTyping
  imports LLEngine
begin

text \<open>
  What the C interface of LLVM promises about types, and what the backend makes of it: all values
  in a register file have the types of their facets, every register can be read in every facet,
  and no function that works on a register file traps.
\<close>

section \<open>Results and their properties\<close>

text \<open>A computation returns, and its result has a property.\<close>

definition llOk :: "'a option \<Rightarrow> ('a \<Rightarrow> bool) \<Rightarrow> bool" where
  "llOk m Q \<longleftrightarrow> (\<exists>x. m = Some x \<and> Q x)"

lemma llOk_simps [simp]:
  "llOk (Some x) Q = Q x" "llOk None Q = False" "llOk (c_assert b) P = (b \<and> P ())"
  by (auto simp: llOk_def c_assert_def)

lemma llOk_bind: "llOk (Option.bind m f) Q = llOk m (\<lambda>x. llOk (f x) Q)"
  by (cases m) (auto simp: llOk_def)

lemma llOk_map: "llOk (map_option f m) Q = llOk m (\<lambda>x. Q (f x))"
  by (cases m) (auto simp: llOk_def)

lemma llOk_mono: "llOk m P \<Longrightarrow> (\<And>x. P x \<Longrightarrow> Q x) \<Longrightarrow> llOk m Q"
  by (auto simp: llOk_def)

lemma llOk_pair: "llOk m (\<lambda>x. Q (fst x) (snd x)) \<Longrightarrow> llOk m (\<lambda>(a, b). Q a b)"
  by (auto simp: llOk_def split_def)

lemma llOkE:
  assumes "llOk m Q" obtains x where "m = Some x" "Q x"
  using assms by (auto simp: llOk_def)

section \<open>The types of values\<close>

fun buildType :: "('v, 't, 'b, 'w) llvm \<Rightarrow> ('v, 't, 'b) build \<Rightarrow> 't option" where
  "buildType L (BuildBin op a b) = Some (llTypeOf L a)"
| "buildType L (BuildCast c v t) = Some t"
| "buildType L (BuildICmp p a b) = Some (llInt L 1)"
| "buildType L (BuildNot v) = Some (llTypeOf L v)"
| "buildType L (BuildNeg v) = Some (llTypeOf L v)"
| "buildType L (BuildSelect c a b) = Some (llTypeOf L a)"
| "buildType L (BuildExtractElement v k) = Some (llElementType L (llTypeOf L v))"
| "buildType L (BuildInsertElement v x k) = Some (llTypeOf L v)"
| "buildType L (BuildShuffleVector a b m) =
     Some (llType L (LLVMVectorType (llElementType L (llTypeOf L a)) (llVectorSize L (llTypeOf L m))))"
| "buildType L (BuildGEP p is) = (if length is = 1 then Some (llTypeOf L p) else None)"
| "buildType L (BuildLoad p) = Some (llElementType L (llTypeOf L p))"
| "buildType L (BuildArrayAlloca t n) = Some (llType L (LLVMPointerType t 0))"
| "buildType L (BuildPhi t) = Some t"
| "buildType L _ = None"

fun constType :: "('v, 't, 'b, 'w) llvm \<Rightarrow> ('v, 't) llconst \<Rightarrow> 't option" where
  "constType L (LLVMConstInt t n) = Some t"
| "constType L (LLVMConstNull t) = Some t"
| "constType L (LLVMGetUndef t) = Some t"
| "constType L (LLVMConstVector vs) =
     (if vs = [] then None else Some (llType L (LLVMVectorType (llTypeOf L (hd vs)) (length vs))))"
| "constType L (LLVMConstAllOnes t) = Some t"
| "constType L (LLVMConstNot v) = Some (llTypeOf L v)"
| "constType L (LLVMConstZExtOrBitCast v t) = Some t"
| "constType L (LLVMConstPointerNull t) = Some t"
| "constType L (LLVMConstBitCast v t) = Some t"
| "constType L _ = None"

text \<open>
  The documented behaviour: the types of instructions, of constants, and of the parts of types;
  the builder folds operations on constants, and a cast, an address or a product is constant only
  if its operands are.
\<close>

definition llResults :: "('v, 't, 'b, 'w) llvm \<Rightarrow> bool" where
  "llResults L \<longleftrightarrow>
     (\<forall>i w t. buildType L i = Some t \<longrightarrow> llTypeOf L (fst (llBuild L i w)) = t)
     \<and> (\<forall>c t. constType L c = Some t \<longrightarrow> llTypeOf L (llConst L c) = t)"

definition llTypes :: "('v, 't, 'b, 'w) llvm \<Rightarrow> bool" where
  "llTypes L \<longleftrightarrow>
     (\<forall>t n. llElementType L (llType L (LLVMVectorType t n)) = t
        \<and> llVectorSize L (llType L (LLVMVectorType t n)) = n
        \<and> llTypeKind L (llType L (LLVMVectorType t n)) = LLVMVectorTypeKind
        \<and> llElementType L (llType L (LLVMPointerType t n)) = t
        \<and> llTypeKind L (llType L (LLVMPointerType t n)) = LLVMPointerTypeKind)
     \<and> (\<forall>n. llIntTypeWidth L (llInt L n) = n \<and> llTypeKind L (llInt L n) = LLVMIntegerTypeKind)
     \<and> llTypeKind L (llType L LLVMFloatType) = LLVMFloatTypeKind
     \<and> llTypeKind L (llType L LLVMDoubleType) = LLVMDoubleTypeKind"

definition llConstants :: "('v, 't, 'b, 'w) llvm \<Rightarrow> bool" where
  "llConstants L \<longleftrightarrow>
     (\<forall>c. llIsConstant L (llConst L c))
     \<and> (\<forall>c v t w. llIsConstant L (fst (llBuild L (BuildCast c v t) w)) = llIsConstant L v)
     \<and> (\<forall>p x w. llIsConstant L (fst (llBuild L (BuildGEP p [x]) w))
          \<longrightarrow> llIsConstant L p \<and> llIsConstant L x)
     \<and> (\<forall>op a b w. llIsConstant L a \<and> llIsConstant L b
          \<longrightarrow> llIsConstant L (fst (llBuild L (BuildBin op a b) w)))
     \<and> (\<forall>a b w. llIsConstant L (fst (llBuild L (BuildBin LMul a b) w)) \<longrightarrow> llIsConstant L a)
     \<and> (\<forall>a w. llIsConstant L (fst (llBuild L (BuildNeg a) w)) = llIsConstant L a)
     \<and> (\<forall>v. llIsNull L v \<longrightarrow> llIsConstant L v)
     \<and> (\<forall>t w. \<not> llIsConstant L (fst (llBuild L (BuildPhi t) w)))"

definition llTyping :: "('v, 't, 'b, 'w) llvm \<Rightarrow> bool" where
  "llTyping L \<longleftrightarrow> llResults L \<and> llTypes L \<and> llConstants L"

lemma fst_llb: "fst (llb L i s) = fst (llBuild L i (ll_world s))"
  by (simp add: llb_def split: prod.splits)

lemma llTyping_build:
  assumes "llTyping L" "buildType L i = Some t" shows "llTypeOf L (fst (llb L i s)) = t"
  using assms by (simp add: llTyping_def llResults_def fst_llb)

lemma llTyping_const: "llTyping L \<Longrightarrow> constType L c = Some t \<Longrightarrow> llTypeOf L (llConst L c) = t"
  by (simp add: llTyping_def llResults_def)

lemma llTyping_types:
  assumes "llTyping L"
  shows "llElementType L (llType L (LLVMVectorType t n)) = t"
    "llVectorSize L (llType L (LLVMVectorType t n)) = n"
    "llTypeKind L (llType L (LLVMVectorType t n)) = LLVMVectorTypeKind"
    "llElementType L (llType L (LLVMPointerType t n)) = t"
    "llTypeKind L (llType L (LLVMPointerType t n)) = LLVMPointerTypeKind"
    "llIntTypeWidth L (llInt L n) = n" "llTypeKind L (llInt L n) = LLVMIntegerTypeKind"
    "llTypeKind L (llType L LLVMFloatType) = LLVMFloatTypeKind"
    "llTypeKind L (llType L LLVMDoubleType) = LLVMDoubleTypeKind"
  using assms by (simp_all add: llTyping_def llTypes_def)

lemma llTyping_consts:
  assumes "llTyping L"
  shows "llTypeOf L (llConstInt L ty k) = ty" "llTypeOf L (llUndef L ty) = ty"
    "llTypeOf L (llConst L (LLVMConstNull ty)) = ty"
    "llTypeOf L (llConst L (LLVMConstPointerNull ty)) = ty"
    "ns \<noteq> [] \<Longrightarrow> llTypeOf L (llMask L ns) = llType L (LLVMVectorType (llInt L 32) (length ns))"
proof -
  show i: "llTypeOf L (llConstInt L ty k) = ty" for ty k
    using llTyping_const [OF assms, of "LLVMConstInt ty k" ty] by (simp add: llConstInt_def)
  show "llTypeOf L (llUndef L ty) = ty"
    using llTyping_const [OF assms, of "LLVMGetUndef ty" ty] by (simp add: llUndef_def)
  show "llTypeOf L (llConst L (LLVMConstNull ty)) = ty"
    using llTyping_const [OF assms, of "LLVMConstNull ty" ty] by simp
  show "llTypeOf L (llConst L (LLVMConstPointerNull ty)) = ty"
    using llTyping_const [OF assms, of "LLVMConstPointerNull ty" ty] by simp
  let ?vs = "map (\<lambda>i. llConstInt L (llInt L 32) (of_nat i)) ns"
  show "llTypeOf L (llMask L ns) = llType L (LLVMVectorType (llInt L 32) (length ns))" if "ns \<noteq> []"
    using llTyping_const [OF assms, of "LLVMConstVector ?vs"
        "llType L (LLVMVectorType (llTypeOf L (hd ?vs)) (length ?vs))"] that
    by (simp add: llMask_def hd_map i)
qed

lemma llConstantsD:
  assumes "llTyping L"
  shows "\<forall>c. llIsConstant L (llConst L c)"
    "\<forall>c v t w. llIsConstant L (fst (llBuild L (BuildCast c v t) w)) = llIsConstant L v"
    "\<forall>p x w. llIsConstant L (fst (llBuild L (BuildGEP p [x]) w))
       \<longrightarrow> llIsConstant L p \<and> llIsConstant L x"
    "\<forall>op a b w. llIsConstant L a \<and> llIsConstant L b
       \<longrightarrow> llIsConstant L (fst (llBuild L (BuildBin op a b) w))"
    "\<forall>a b w. llIsConstant L (fst (llBuild L (BuildBin LMul a b) w)) \<longrightarrow> llIsConstant L a"
    "\<forall>a w. llIsConstant L (fst (llBuild L (BuildNeg a) w)) = llIsConstant L a"
    "\<forall>v. llIsNull L v \<longrightarrow> llIsConstant L v"
    "\<forall>t w. \<not> llIsConstant L (fst (llBuild L (BuildPhi t) w))"
proof -
  have "llConstants L" using assms by (simp add: llTyping_def)
  note c = this [unfolded llConstants_def]
  note d = c [THEN conjunct2] 
  note e = d [THEN conjunct2, THEN conjunct2]
  note f = e [THEN conjunct2, THEN conjunct2]
  show "\<forall>c. llIsConstant L (llConst L c)" by (rule c [THEN conjunct1])
  show "\<forall>c v t w. llIsConstant L (fst (llBuild L (BuildCast c v t) w)) = llIsConstant L v"
    by (rule d [THEN conjunct1])
  show "\<forall>p x w. llIsConstant L (fst (llBuild L (BuildGEP p [x]) w))
       \<longrightarrow> llIsConstant L p \<and> llIsConstant L x" by (rule d [THEN conjunct2, THEN conjunct1])
  show "\<forall>op a b w. llIsConstant L a \<and> llIsConstant L b
       \<longrightarrow> llIsConstant L (fst (llBuild L (BuildBin op a b) w))" by (rule e [THEN conjunct1])
  show "\<forall>a b w. llIsConstant L (fst (llBuild L (BuildBin LMul a b) w)) \<longrightarrow> llIsConstant L a"
    by (rule e [THEN conjunct2, THEN conjunct1])
  show "\<forall>a w. llIsConstant L (fst (llBuild L (BuildNeg a) w)) = llIsConstant L a"
    by (rule f [THEN conjunct1])
  show "\<forall>v. llIsNull L v \<longrightarrow> llIsConstant L v" by (rule f [THEN conjunct2, THEN conjunct1])
  show "\<forall>t w. \<not> llIsConstant L (fst (llBuild L (BuildPhi t) w))"
    by (rule f [THEN conjunct2, THEN conjunct2])
qed

lemma llTyping_constant:
  assumes "llTyping L"
  shows "llIsConstant L (llConst L c)" "llIsConstant L (llConstInt L t n)" "llIsConstant L (llUndef L t)"
    "llIsConstant L (fst (llb L (BuildCast k v t) s)) = llIsConstant L v"
    "llIsConstant L (fst (llb L (BuildGEP p [x]) s)) \<Longrightarrow> llIsConstant L p \<and> llIsConstant L x"
    "llIsConstant L a \<Longrightarrow> llIsConstant L b \<Longrightarrow> llIsConstant L (fst (llb L (BuildBin op a b) s))"
    "llIsConstant L (fst (llb L (BuildNeg a) s)) = llIsConstant L a"
    "llIsConstant L (fst (llb L (BuildBin LMul a b) s)) \<Longrightarrow> llIsConstant L a"
    "llIsNull L v \<Longrightarrow> llIsConstant L v"
    "\<not> llIsConstant L (fst (llb L (BuildPhi t) s))"
proof -
  show "llIsConstant L (llConst L c)" for c using llConstantsD(1) [OF assms] by blast
  then show "llIsConstant L (llConstInt L t n)" "llIsConstant L (llUndef L t)"
    by (simp_all only: llConstInt_def llUndef_def)
  show "llIsConstant L (fst (llb L (BuildCast k v t) s)) = llIsConstant L v"
    using llConstantsD(2) [OF assms] unfolding fst_llb by blast
  show "llIsConstant L (fst (llb L (BuildGEP p [x]) s)) \<Longrightarrow> llIsConstant L p \<and> llIsConstant L x"
    using llConstantsD(3) [OF assms] unfolding fst_llb by blast
  show "llIsConstant L a \<Longrightarrow> llIsConstant L b \<Longrightarrow> llIsConstant L (fst (llb L (BuildBin op a b) s))"
    using llConstantsD(4) [OF assms] unfolding fst_llb by blast
  show "llIsConstant L (fst (llb L (BuildNeg a) s)) = llIsConstant L a"
    using llConstantsD(6) [OF assms] unfolding fst_llb by blast
  show "llIsConstant L (fst (llb L (BuildBin LMul a b) s)) \<Longrightarrow> llIsConstant L a"
    using llConstantsD(5) [OF assms] unfolding fst_llb by blast
  show "llIsNull L v \<Longrightarrow> llIsConstant L v"
    using llConstantsD(7) [OF assms] unfolding fst_llb by blast
  show "\<not> llIsConstant L (fst (llb L (BuildPhi t) s))"
    using llConstantsD(8) [OF assms] unfolding fst_llb by blast
qed

section \<open>Well-formed register files\<close>

text \<open>
  The facet that all others are computed from. It is there in a well-formed register file, all
  facets have their types, and a register whose pointer is constant has a constant value.
\<close>

fun nativeFacet :: "llregister \<Rightarrow> facet" where
  "nativeFacet (SseRegister k) = FACET_IVEC"
| "nativeFacet _ = FACET_I64"

definition locOk :: "('v, 't, 'b, 'w) llvm \<Rightarrow> (facet \<Rightarrow> 'v option) \<Rightarrow> llregister \<Rightarrow> bool" where
  "locOk L fs l \<longleftrightarrow>
     (\<forall>f v. fs f = Some v \<longrightarrow> llTypeOf L v = ll_register_facet_type L f)
     \<and> fs (nativeFacet l) \<noteq> None
     \<and> (nativeFacet l = FACET_I64 \<longrightarrow> (\<forall>v. fs FACET_PTR = Some v \<longrightarrow> llIsConstant L v
          \<longrightarrow> (\<exists>n. fs FACET_I64 = Some n \<and> llIsConstant L n)))"

definition llFlagsOk :: "'v llregfile \<Rightarrow> bool" where
  "llFlagsOk rf \<longleftrightarrow> (\<forall>f. rf_flags rf f \<noteq> None)
     \<and> (fc_valid (rf_cache rf) \<longrightarrow>
          fc_operand1 (rf_cache rf) \<noteq> None \<and> fc_operand2 (rf_cache rf) \<noteq> None)"

text \<open>The registers that exist; the instruction pointer (\<open>ip\<close>) only after it was set.\<close>

fun isLoc :: "bool \<Rightarrow> llregister \<Rightarrow> bool" where
  "isLoc ip (GpRegister k) = (k < 16)"
| "isLoc ip (SseRegister k) = (k < 16)"
| "isLoc ip IpRegister = ip"

definition regsOk :: "('v, 't, 'b, 'w) llvm \<Rightarrow> bool \<Rightarrow> 'v llregfile \<Rightarrow> bool" where
  "regsOk L ip rf \<longleftrightarrow> (\<forall>l. isLoc ip l \<longrightarrow> locOk L (rf_regs rf l) l)"

definition blkOk :: "('v, 't, 'b, 'w) llvm \<Rightarrow> bool \<Rightarrow> nat \<Rightarrow> ('v, 'b, 'w) llstate \<Rightarrow> bool" where
  "blkOk L ip b s \<longleftrightarrow> b < length (ll_blocks s) \<and> lb_llvmBB (llBlock s b) \<noteq> None
     \<and> regsOk L ip (llRegfile s b) \<and> llFlagsOk (llRegfile s b)"

text \<open>A register that an instruction may name.\<close>

definition usableReg :: "bool \<Rightarrow> reg \<Rightarrow> bool" where
  "usableReg ip r \<longleftrightarrow>
     (rt r = RT_GP8Leg \<and> ri r < 8)
     \<or> (rt r \<in> {RT_GP8, RT_GP16, RT_GP32, RT_GP64, RT_XMM, RT_YMM} \<and> ri r < 16)
     \<or> (ip \<and> r = \<lparr>rt = RT_IP, ri = 0\<rparr>)"

lemma usableReg_ptr:
  assumes "usableReg ip r"
  shows "\<exists>l. ll_regfile_get_ptr r = Some l \<and> isLoc ip l"
  using assms by (auto simp: usableReg_def ll_regfile_get_ptr_def)

section \<open>What the functions leave alone\<close>

text \<open>Everything of a block but its register file.\<close>

definition blockShape :: "('v, 'b) llblock \<Rightarrow> ('v, 'b) llblock" where
  "blockShape x = x\<lparr>lb_regfile := \<lparr>rf_regs = \<lambda>_ _. None, rf_flags = \<lambda>_. None, rf_cache =
     \<lparr>fc_valid = False, fc_operand1 = None, fc_operand2 = None, fc_result = None\<rparr>\<rparr>\<rparr>"

text \<open>Once there is a base address, there is the variable at it.\<close>

definition globalOk :: "('v, 'b, 'w) llstate \<Rightarrow> bool" where
  "globalOk s \<longleftrightarrow> (ll_globalOffsetBase s \<noteq> 0 \<longrightarrow> ll_globalBase s \<noteq> None)"

definition llKept :: "('v, 'b, 'w) llstate \<Rightarrow> ('v, 'b, 'w) llstate \<Rightarrow> bool" where
  "llKept s s' \<longleftrightarrow> ll_currentBB s' = ll_currentBB s \<and> ll_currentFunction s' = ll_currentFunction s
     \<and> ll_functions s' = ll_functions s
     \<and> map blockShape (ll_blocks s') = map blockShape (ll_blocks s)
     \<and> (globalOk s \<longrightarrow> globalOk s')"

lemma kept_refl [simp]: "llKept s s"
  by (simp add: llKept_def)

lemma kept_trans [trans]: "llKept s s' \<Longrightarrow> llKept s' s'' \<Longrightarrow> llKept s s''"
  by (simp add: llKept_def)

lemma kept_length: "llKept s s' \<Longrightarrow> length (ll_blocks s') = length (ll_blocks s)"
  by (metis llKept_def length_map)

lemma kept_shape:
  assumes "llKept s s'" "b < length (ll_blocks s)"
  shows "blockShape (llBlock s' b) = blockShape (llBlock s b)"
  using assms kept_length [OF assms(1)] unfolding llKept_def llBlock_def by (metis nth_map)

lemma updBlock_blocks:
  "length (ll_blocks (updBlock b f s)) = length (ll_blocks s)"
  "b < length (ll_blocks s) \<Longrightarrow> llBlock (updBlock b f s) b = f (llBlock s b)"
  "c \<noteq> b \<Longrightarrow> llBlock (updBlock b f s) c = llBlock s c"
  by (simp_all add: updBlock_def llBlock_def)

lemma kept_updBlock:
  assumes "\<And>x. blockShape (f x) = blockShape x"
  shows "llKept s (updBlock b f s)"
  by (auto simp: llKept_def updBlock_def globalOk_def map_update assms list_update_id) (metis list_update_beyond list_update_id map_update not_less nth_map)

lemma llb_frame [simp]:
  "ll_blocks (snd (llb L i s)) = ll_blocks s" "ll_currentBB (snd (llb L i s)) = ll_currentBB s"
  "ll_functions (snd (llb L i s)) = ll_functions s"
  "ll_currentFunction (snd (llb L i s)) = ll_currentFunction s"
  "ll_emptyMD (snd (llb L i s)) = ll_emptyMD s" "globalOk (snd (llb L i s)) = globalOk s"
  by (simp_all add: llb_def globalOk_def split: prod.splits)

lemma llc_frame [simp]:
  "ll_blocks (llc L i s) = ll_blocks s" "ll_currentBB (llc L i s) = ll_currentBB s"
  "ll_functions (llc L i s) = ll_functions s"
  "ll_currentFunction (llc L i s) = ll_currentFunction s" "globalOk (llc L i s) = globalOk s"
  by (simp_all add: llc_def globalOk_def)

end
