(* ===== verification/LLRegTyping.thy ===== *)
theory LLRegTyping
  imports LLTyping
begin

text \<open>
  The operations of the register file never trap on a well-formed register file, keep it
  well-formed, and hand out values of the type of the facet.
\<close>

section \<open>Updates of register files\<close>

lemma regfile_upd [simp]:
  assumes "b < length (ll_blocks s)"
  shows "llRegfile (updRegfile b f s) b = f (llRegfile s b)"
  using assms by (simp add: updRegfile_def updBlock_blocks)

lemma regfile_upd_other [simp]: "c \<noteq> b \<Longrightarrow> llBlock (updRegfile b f s) c = llBlock s c"
  by (simp add: updRegfile_def updBlock_blocks)

lemma regfile_upd_llvm [simp]: "lb_llvmBB (llBlock (updRegfile b f s) c) = lb_llvmBB (llBlock s c)"
  by (cases "c = b"; cases "b < length (ll_blocks s)")
     (auto simp: updRegfile_def updBlock_def llBlock_def list_update_beyond)

lemma length_upd [simp]: "length (ll_blocks (updRegfile b f s)) = length (ll_blocks s)"
  by (simp add: updRegfile_def updBlock_def)

lemma kept_updRegfile [simp]: "llKept s (updRegfile b f s)"
  unfolding updRegfile_def by (rule kept_updBlock) (simp add: blockShape_def)

lemma updRegfile_frame [simp]:
  "ll_world (updRegfile b f s) = ll_world s" "ll_currentBB (updRegfile b f s) = ll_currentBB s"
  "ll_functions (updRegfile b f s) = ll_functions s"
  "globalOk (updRegfile b f s) = globalOk s"
  by (simp_all add: updRegfile_def updBlock_def globalOk_def)

lemma kept_llb [simp]: "llKept s (snd (llb L i s))" "llKept s (llc L c s)"
  by (simp_all add: llKept_def)

lemma blkOk_kept_world:
  assumes "blkOk L ip b s" "ll_blocks s' = ll_blocks s" shows "blkOk L ip b s'"
  using assms by (simp add: blkOk_def llBlock_def)

lemma blkOk_llb [simp]: "blkOk L ip b (snd (llb L i s)) = blkOk L ip b s"
  "blkOk L ip b (llc L c s) = blkOk L ip b s"
  by (simp_all add: blkOk_def llBlock_def)

lemma locOk_upd:
  assumes "locOk L fs l" "llTypeOf L v = ll_register_facet_type L f"
    and "nativeFacet l = FACET_I64 \<Longrightarrow> f = FACET_PTR \<Longrightarrow> llIsConstant L v
           \<Longrightarrow> \<exists>n. fs FACET_I64 = Some n \<and> llIsConstant L n"
    and "nativeFacet l = FACET_I64 \<Longrightarrow> f = FACET_I64 \<Longrightarrow> fs FACET_PTR = None \<or> llIsConstant L v"
  shows "locOk L (fs(f := Some v)) l"
  using assms unfolding locOk_def by (cases f) auto

text \<open>Replace one register of a well-formed file.\<close>

lemma blkOk_setRegister:
  assumes "blkOk L ip b s" "locOk L fs l"
  shows "blkOk L ip b (setRegister b l fs s)"
  using assms by (auto simp: blkOk_def regsOk_def llFlagsOk_def setRegister_def)

lemma setFacet_setRegister:
  "b < length (ll_blocks s) \<Longrightarrow> setFacet b l f v s = setRegister b l ((llFacet s b l)(f := v)) s"
  by (simp add: setFacet_def setRegister_def updRegfile_def updBlock_def llBlock_def)

lemma blkOk_setFacet:
  assumes "blkOk L ip b s" "locOk L ((llFacet s b l)(f := Some v)) l"
  shows "blkOk L ip b (setFacet b l f (Some v) s)"
  using assms blkOk_setRegister [OF assms] by (simp add: setFacet_setRegister blkOk_def)

lemma blkOk_loc:
  assumes "blkOk L ip b s" "isLoc ip l" shows "locOk L (llFacet s b l) l"
  using assms by (simp add: blkOk_def regsOk_def)

text \<open>Values are added to the file of one block, nothing else changes.\<close>

definition grows :: "nat \<Rightarrow> ('v, 'b, 'w) llstate \<Rightarrow> ('v, 'b, 'w) llstate \<Rightarrow> bool" where
  "grows b s s' \<longleftrightarrow> llKept s s'
     \<and> (\<forall>l f v. llFacet s b l f = Some v \<longrightarrow> llFacet s' b l f = Some v)
     \<and> rf_flags (llRegfile s' b) = rf_flags (llRegfile s b)
     \<and> rf_cache (llRegfile s' b) = rf_cache (llRegfile s b)
     \<and> (\<forall>c. c \<noteq> b \<longrightarrow> llBlock s' c = llBlock s c)"

lemma grows_refl [simp]: "grows b s s"
  by (simp add: grows_def)

lemma grows_trans: "grows b s s' \<Longrightarrow> grows b s' s'' \<Longrightarrow> grows b s s''"
  unfolding grows_def using kept_trans by auto

lemma grows_kept: "grows b s s' \<Longrightarrow> llKept s s'"
  by (simp add: grows_def)

lemma grows_world: "ll_blocks s' = ll_blocks s \<Longrightarrow> llKept s s' \<Longrightarrow> grows b s s'"
  by (simp add: grows_def llBlock_def)

lemma grows_llb [simp]: "grows b s (snd (llb L i s))" "grows b s (llc L c s)"
  by (simp_all add: grows_def llBlock_def)

lemma grows_setFacet:
  assumes "b < length (ll_blocks s)" "llFacet s b l f = None"
  shows "grows b s (setFacet b l f (Some v) s)"
  using assms by (auto simp: grows_def setFacet_def)

section \<open>Reading a register\<close>

lemma facet_types:
  assumes "llTyping L"
  shows "llElementType L (ll_register_facet_type L FACET_V16I8) = ll_register_facet_type L FACET_I8"
    "llElementType L (ll_register_facet_type L FACET_V8I16) = ll_register_facet_type L FACET_I16"
    "llElementType L (ll_register_facet_type L FACET_V4I32) = ll_register_facet_type L FACET_I32"
    "llElementType L (ll_register_facet_type L FACET_V2I64) = ll_register_facet_type L FACET_I64"
    "llElementType L (ll_register_facet_type L FACET_V4F32) = ll_register_facet_type L FACET_F32"
    "llElementType L (ll_register_facet_type L FACET_V2F64) = ll_register_facet_type L FACET_F64"
  by (simp_all add: ll_register_facet_type_def llTyping_types [OF assms] Let_def)

lemma vectorFacet_type:
  assumes "llTyping L" "vectorFacet f = Some g"
  shows "llElementType L (ll_register_facet_type L g) = ll_register_facet_type L f"
  using assms(2) by (cases f) (auto simp: vectorFacet_def facet_types [OF assms(1)])

text \<open>The value of a missing facet: its type, and where it comes from if it is a pointer.\<close>

lemma facetOfGp_ok:
  assumes T: "llTyping L" and n: "llFacet s b l FACET_I64 = Some n"
    and t: "llTypeOf L n = llInt L 64" and f: "f \<noteq> FACET_I64"
  shows "llOk (facetOfGp L b l f s) (\<lambda>(v, s'). llTypeOf L v = ll_register_facet_type L f
    \<and> ll_blocks s' = ll_blocks s \<and> llKept s s' \<and> (f = FACET_PTR \<longrightarrow> llIsConstant L v = llIsConstant L n))"
proof -
  note c = llTyping_build [OF T, of "BuildCast k v t" for k v t, simplified]
  show ?thesis
    using n f
    by (cases f; simp add: facetOfGp_def case_prod_unfold c llTyping_consts(1,2) [OF T]
        llTyping_constant(4) [OF T] ll_register_facet_type_def Let_def
        kept_trans [OF kept_llb(1) kept_llb(1)])
qed

lemma facetOfVector_ok:
  assumes T: "llTyping L" and n: "llFacet s b l FACET_IVEC = Some n"
    and f: "(f = FACET_V2F32 \<and> bits = 64)
      \<or> (f \<in> {FACET_V16I8, FACET_V8I16, FACET_V4I32, FACET_V2I64, FACET_V4F32, FACET_V2F64} \<and> bits = 128)"
  shows "llOk (facetOfVector L b l f bits s) (\<lambda>(v, s'). llTypeOf L v = ll_register_facet_type L f
    \<and> ll_blocks s' = ll_blocks s \<and> llKept s s')"
proof -
  note c = llTyping_build [OF T, of "BuildCast k v t" for k v t, simplified]
    llTyping_build [OF T, of "BuildShuffleVector a b m" for a b m, simplified]
  show ?thesis
    using n f
    by (elim disjE conjE insertE emptyE; simp add: facetOfVector_def case_prod_unfold c
        llTyping_consts(2,5) [OF T] llTyping_types [OF T] ll_register_facet_type_def Let_def
        kept_trans [OF kept_llb(1) kept_llb(1)])
qed

lemma positionBuilder_ok:
  assumes "lb_llvmBB (llBlock s b) \<noteq> None"
  shows "llOk (positionBuilder L b s) (\<lambda>s'. ll_blocks s' = ll_blocks s \<and> llKept s s')"
  using assms by (auto simp: positionBuilder_def split: option.splits)

text \<open>A value of the right type is stored as a missing facet.\<close>

lemma addFacet_ok:
  assumes b: "blkOk L ip b s1" "isLoc ip l" "grows b s s1"
    and f: "llFacet s b l f = None" "nativeFacet l = FACET_I64 \<Longrightarrow> f \<noteq> FACET_I64"
    and v: "llTypeOf L v = ll_register_facet_type L f"
      "nativeFacet l = FACET_I64 \<Longrightarrow> f = FACET_PTR \<Longrightarrow> llIsConstant L v
         \<Longrightarrow> \<exists>n. llFacet s1 b l FACET_I64 = Some n \<and> llIsConstant L n"
  shows "blkOk L ip b (setFacet b l f (Some v) s1)" "grows b s (setFacet b l f (Some v) s1)"
    "llFacet (setFacet b l f (Some v) s1) b l f = Some v"
proof -
  have len: "b < length (ll_blocks s1)" using b(1) by (simp add: blkOk_def)
  have "locOk L ((llFacet s1 b l)(f := Some v)) l"
    using blkOk_loc [OF b(1,2)] v f(2) by (intro locOk_upd) auto
  then show "blkOk L ip b (setFacet b l f (Some v) s1)" by (rule blkOk_setFacet [OF b(1)])
  show "grows b s (setFacet b l f (Some v) s1)"
    using b(3) f(1) len by (auto simp: grows_def setFacet_def intro: kept_trans)
  show "llFacet (setFacet b l f (Some v) s1) b l f = Some v" by (simp add: setFacet_def len)
qed

lemma usableReg_cases:
  assumes "usableReg ip r"
  obtains (gp) k where "ll_regfile_get_ptr r = Some (GpRegister k)" "k < 16" "regIsGP r = Some True"
      "regIsV r = Some False" "rt r \<noteq> RT_IP"
  | (ip) "ll_regfile_get_ptr r = Some IpRegister" "ip" "regIsGP r = Some False" "regIsV r = Some False"
      "rt r = RT_IP"
  | (v) k where "ll_regfile_get_ptr r = Some (SseRegister k)" "k < 16" "regIsGP r = Some False"
      "regIsV r = Some True" "rt r \<noteq> RT_IP"
proof -
  have "(\<exists>k. ll_regfile_get_ptr r = Some (GpRegister k) \<and> k < 16) \<and> regIsGP r = Some True
       \<and> regIsV r = Some False \<and> rt r \<noteq> RT_IP
    \<or> ll_regfile_get_ptr r = Some IpRegister \<and> ip \<and> regIsGP r = Some False \<and> regIsV r = Some False
       \<and> rt r = RT_IP
    \<or> (\<exists>k. ll_regfile_get_ptr r = Some (SseRegister k) \<and> k < 16) \<and> regIsGP r = Some False
       \<and> regIsV r = Some True \<and> rt r \<noteq> RT_IP"
    using assms
    by (auto simp: usableReg_def ll_regfile_get_ptr_def regIsGP_def regIsV_def regTypeIsGP_def)
  then show thesis using gp ip v by blast
qed

text \<open>The result of reading a facet.\<close>

definition gotFacet :: "('v, 't, 'b, 'w) llvm \<Rightarrow> bool \<Rightarrow> nat \<Rightarrow> facet \<Rightarrow> llregister
    \<Rightarrow> ('v, 'b, 'w) llstate \<Rightarrow> 'v \<times> ('v, 'b, 'w) llstate \<Rightarrow> bool" where
  "gotFacet L ip b f l s vs \<longleftrightarrow> llTypeOf L (fst vs) = ll_register_facet_type L f
     \<and> blkOk L ip b (snd vs) \<and> grows b s (snd vs) \<and> llFacet (snd vs) b l f = Some (fst vs)"

lemma get_present:
  assumes "blkOk L ip b s" "isLoc ip l" "ll_regfile_get_ptr r = Some l" "llFacet s b l f = Some v"
  shows "llOk (ll_regfile_get L b f r s) (gotFacet L ip b f l s)"
  using assms blkOk_loc [OF assms(1,2)]
  by (subst ll_regfile_get.simps) (simp add: gotFacet_def locOk_def)

text \<open>A missing facet whose value \<open>m\<close> computes.\<close>

lemma get_missing:
  assumes b: "blkOk L ip b s" "isLoc ip l" "llFacet s b l f = None"
    and m: "\<And>s1. ll_blocks s1 = ll_blocks s \<Longrightarrow> llKept s s1 \<Longrightarrow> llOk (m s1) (\<lambda>(v, s2).
        llTypeOf L v = ll_register_facet_type L f \<and> ll_blocks s2 = ll_blocks s1 \<and> llKept s1 s2
        \<and> (nativeFacet l = FACET_I64 \<longrightarrow> f = FACET_PTR \<longrightarrow> llIsConstant L v
            \<longrightarrow> (\<exists>n. llFacet s b l FACET_I64 = Some n \<and> llIsConstant L n)))"
  shows "llOk (do {
      s \<leftarrow> positionBuilder L b s;
      (v, s) \<leftarrow> m s;
      c_assert (llTypeOf L v = ll_register_facet_type L f);
      Some (v, setFacet b l f (Some v) s) }) (gotFacet L ip b f l s)"
proof -
  obtain s1 where s1: "positionBuilder L b s = Some s1" "ll_blocks s1 = ll_blocks s" "llKept s s1"
    using positionBuilder_ok [of s b L] b(1) by (auto simp: blkOk_def elim: llOkE)
  obtain v s2 where s2: "m s1 = Some (v, s2)" "llTypeOf L v = ll_register_facet_type L f"
      "ll_blocks s2 = ll_blocks s" "llKept s1 s2"
      "nativeFacet l = FACET_I64 \<Longrightarrow> f = FACET_PTR \<Longrightarrow> llIsConstant L v
        \<Longrightarrow> \<exists>n. llFacet s2 b l FACET_I64 = Some n \<and> llIsConstant L n"
    using m [OF s1(2,3)] s1(2) by (auto simp: llBlock_def elim!: llOkE)
  have f: "nativeFacet l = FACET_I64 \<Longrightarrow> f \<noteq> FACET_I64"
    using blkOk_loc [OF b(1,2)] b(3) by (auto simp: locOk_def)
  note a = addFacet_ok [OF blkOk_kept_world [OF b(1) s2(3)] b(2)
      grows_world [OF s2(3) kept_trans [OF s1(3) s2(4)]] b(3) f s2(2,5)]
  have "gotFacet L ip b f l s (v, setFacet b l f (Some v) s2)"
    unfolding gotFacet_def fst_conv snd_conv by (intro conjI s2(2) a) simp_all
  then show ?thesis by (simp add: s1(1) s2(1,2))
qed

lemma get_gp:
  assumes T: "llTyping L" and b: "blkOk L ip b s" "isLoc ip l" "nativeFacet l = FACET_I64"
    and r: "ll_regfile_get_ptr r = Some l" "regIsGP r = Some g" "g \<or> rt r = RT_IP"
  shows "llOk (ll_regfile_get L b f r s) (gotFacet L ip b f l s)"
proof (cases "llFacet s b l f")
  case None
  obtain n where n: "llFacet s b l FACET_I64 = Some n" "llTypeOf L n = llInt L 64"
    using blkOk_loc [OF b(1,2)] b(3) unfolding locOk_def
    by (auto simp: ll_register_facet_type_def Let_def)
  have f: "f \<noteq> FACET_I64" using None n(1) by auto
  have "llOk (facetOfGp L b l f s1) (\<lambda>(v, s2).
        llTypeOf L v = ll_register_facet_type L f \<and> ll_blocks s2 = ll_blocks s1 \<and> llKept s1 s2
        \<and> (nativeFacet l = FACET_I64 \<longrightarrow> f = FACET_PTR \<longrightarrow> llIsConstant L v
            \<longrightarrow> (\<exists>n. llFacet s b l FACET_I64 = Some n \<and> llIsConstant L n)))"
    if "ll_blocks s1 = ll_blocks s" for s1
    using n that by (intro llOk_mono [OF facetOfGp_ok [OF T, of s1 b l n f]]) (auto simp: f llBlock_def)
  from get_missing [OF b(1,2) None this] show ?thesis
    by (subst ll_regfile_get.simps) (simp add: r None)
qed (use get_present [OF b(1,2) r(1)] in simp)

lemma get_vector:
  assumes T: "llTyping L" and b: "blkOk L ip b s" "k < 16" and f: "vectorFacet f = None"
    and r: "ll_regfile_get_ptr r = Some (SseRegister k)" "regIsGP r = Some False"
      "regIsV r = Some True" "rt r \<noteq> RT_IP"
  shows "llOk (ll_regfile_get L b f r s) (gotFacet L ip b f (SseRegister k) s)"
proof (cases "llFacet s b (SseRegister k) f")
  case None
  let ?l = "SseRegister k"
  have l: "isLoc ip ?l" using b(2) by simp
  obtain n where n: "llFacet s b ?l FACET_IVEC = Some n"
    using blkOk_loc [OF b(1) l] by (auto simp: locOk_def)
  have f1: "f \<noteq> FACET_I128" using None n by auto
  let ?m = "\<lambda>s. if f = FACET_V2F32 then facetOfVector L b ?l f 64 s
      else if f \<in> {FACET_V16I8, FACET_V8I16, FACET_V4I32, FACET_V2I64, FACET_V4F32, FACET_V2F64}
        then facetOfVector L b ?l f 128 s
      else if f = FACET_I128 then do {
        n \<leftarrow> llFacet s b ?l FACET_IVEC;
        Some (llb L (BuildCast LTruncOrBitCast n (llInt L 128)) s) }
      else Some (llUndef L (ll_register_facet_type L f), s)"
  have "llOk (?m s1) (\<lambda>(v, s2).
        llTypeOf L v = ll_register_facet_type L f \<and> ll_blocks s2 = ll_blocks s1 \<and> llKept s1 s2
        \<and> (nativeFacet ?l = FACET_I64 \<longrightarrow> f = FACET_PTR \<longrightarrow> llIsConstant L v
            \<longrightarrow> (\<exists>n. llFacet s b ?l FACET_I64 = Some n \<and> llIsConstant L n)))"
    if "ll_blocks s1 = ll_blocks s" for s1
  proof -
    have n1: "llFacet s1 b ?l FACET_IVEC = Some n" using n that by (simp add: llBlock_def)
    show ?thesis
      using facetOfVector_ok [OF T n1, of f 64] facetOfVector_ok [OF T n1, of f 128]
      by (auto simp: llTyping_consts(2) [OF T] f1 elim!: llOk_mono)
  qed
  from get_missing [OF b(1) l None this] show ?thesis
    by (subst ll_regfile_get.simps) (simp add: r None f)
qed (use get_present [OF b(1) _ r(1)] b(2) in simp)

text \<open>All facets of all registers can be read.\<close>

lemma get_ok:
  assumes T: "llTyping L" and b: "blkOk L ip b s" and r: "usableReg ip r"
    and l: "ll_regfile_get_ptr r = Some l"
  shows "llOk (ll_regfile_get L b f r s) (gotFacet L ip b f l s)"
  using r
proof (cases rule: usableReg_cases)
  case (gp k)
  then show ?thesis using get_gp [OF T b, of l r True f] l by simp
next
  case ip
  then show ?thesis using get_gp [OF T b, of l r False f] l by simp
next
  case (v k)
  have lk: "l = SseRegister k" using l v(1) by simp
  show ?thesis
  proof (cases "vectorFacet f")
    case None
    then show ?thesis using get_vector [OF T b v(2) None v(1) v(3-5)] lk by simp
  next
    case (Some g)
    show ?thesis
    proof (cases "llFacet s b l f")
      case missing: None
      have loc: "isLoc ip l" using lk v(2) by simp
      obtain s1 where s1: "positionBuilder L b s = Some s1" "ll_blocks s1 = ll_blocks s" "llKept s s1"
        using positionBuilder_ok [of s b L] b by (auto simp: blkOk_def elim: llOkE)
      have b1: "blkOk L ip b s1" by (rule blkOk_kept_world [OF b s1(2)])
      obtain w s2 where s2: "ll_regfile_get L b g r s1 = Some (w, s2)"
        "llTypeOf L w = ll_register_facet_type L g" "blkOk L ip b s2" "grows b s1 s2"
        using get_vector [OF T b1 v(2) vectorFacet_vector [OF Some] v(1) v(3-5)] lk
        by (auto simp: gotFacet_def elim!: llOkE)
      let ?v = "fst (llb L (BuildExtractElement w (llConstInt L (llInt L 32) 0)) s2)"
      let ?s3 = "snd (llb L (BuildExtractElement w (llConstInt L (llInt L 32) 0)) s2)"
      have t: "llTypeOf L ?v = ll_register_facet_type L f"
        using llTyping_build [OF T, of "BuildExtractElement w (llConstInt L (llInt L 32) 0)"]
          vectorFacet_type [OF T Some] s2(2) by simp
      have g: "grows b s ?s3"
        using grows_world [OF s1(2,3)] s2(4) grows_llb(1) grows_trans by metis
      have e: "ll_regfile_get L b f r s = Some (?v, setFacet b l f (Some ?v) ?s3)"
        by (subst ll_regfile_get.simps)
          (simp add: l missing s1(1) v(3-5) Some s2(1) case_prod_unfold t)
      have b3: "blkOk L ip b ?s3" using s2(3) by simp
      note a = addFacet_ok [OF b3 loc g missing _ t]
      have "gotFacet L ip b f l s (?v, setFacet b l f (Some ?v) ?s3)"
        unfolding gotFacet_def fst_conv snd_conv by (intro conjI t a) (simp_all add: lk)
      then show ?thesis by (simp add: e)
    qed (use get_present [OF b _ l] lk v(2) in simp)
  qed
qed

section \<open>Writing a register\<close>

text \<open>Only block \<open>b\<close> changes, and it stays well-formed.\<close>

definition stepOk :: "('v, 't, 'b, 'w) llvm \<Rightarrow> bool \<Rightarrow> nat \<Rightarrow> ('v, 'b, 'w) llstate
    \<Rightarrow> ('v, 'b, 'w) llstate \<Rightarrow> bool" where
  "stepOk L ip b s s' \<longleftrightarrow> blkOk L ip b s' \<and> llKept s s' \<and> (\<forall>c. c \<noteq> b \<longrightarrow> llBlock s' c = llBlock s c)"

lemma stepOk_refl: "blkOk L ip b s \<Longrightarrow> stepOk L ip b s s"
  by (simp add: stepOk_def)

lemma stepOk_trans [trans]: "stepOk L ip b s s' \<Longrightarrow> stepOk L ip b s' s'' \<Longrightarrow> stepOk L ip b s s''"
  unfolding stepOk_def using kept_trans by auto

lemma stepOk_blkOk: "stepOk L ip b s s' \<Longrightarrow> blkOk L ip b s'"
  by (simp add: stepOk_def)

lemma stepOk_current: "stepOk L ip b s s' \<Longrightarrow> ll_currentBB s' = ll_currentBB s"
  by (simp add: stepOk_def llKept_def)

lemma stepOk_llb: "blkOk L ip b s \<Longrightarrow> stepOk L ip b s (snd (llb L i s))"
  "blkOk L ip b s \<Longrightarrow> stepOk L ip b s (llc L c s)"
  by (simp_all add: stepOk_def llBlock_def)

lemma gotFacet_step: "gotFacet L ip b f l s vs \<Longrightarrow> stepOk L ip b s (snd vs)"
  by (simp add: gotFacet_def stepOk_def grows_def)

lemma gp_names: "i < 16 \<Longrightarrow> regNameOf RT_GP8 i \<noteq> None" "i < 16 \<Longrightarrow> regNameOf RT_GP16 i \<noteq> None"
  "i < 16 \<Longrightarrow> regNameOf RT_GP32 i \<noteq> None" "i < 16 \<Longrightarrow> regNameOf RT_GP64 i \<noteq> None"
  "i < 16 \<Longrightarrow> regNameOf RT_XMM i \<noteq> None" "i < 16 \<Longrightarrow> regNameOf RT_YMM i \<noteq> None"
  "i < 8 \<Longrightarrow> regNameOf RT_GP8Leg i \<noteq> None"
  by (simp_all add: regNameOf_def getReg_def regName_def regNameI_def regNames_def c_assert_def)

lemma regNameOf_self: "regNameOf (rt r) (ri r) \<noteq> None \<Longrightarrow> regName r \<noteq> None"
  by (auto simp: regNameOf_def regName_def getReg_def c_assert_def bind_eq_Some_conv split: if_splits)

lemma facet_name:
  assumes "usableReg ip r" shows "ll_register_name_for_facet f r \<noteq> None"
  using assms
proof (cases rule: usableReg_cases)
  case (gp k)
  have i: "ri r < 16" "rt r = RT_GP8Leg \<Longrightarrow> ri r < 8" using assms gp by (auto simp: usableReg_def)
  have "rt r = RT_GP8Leg \<Longrightarrow> regName r \<noteq> None" using gp_names(7) [OF i(2)] regNameOf_self by metis
  moreover have "ri r < 4 \<Longrightarrow> regNameOf RT_GP8Leg (ri r + 4) \<noteq> None" by (rule gp_names) simp
  ultimately show ?thesis
    using gp_names(1-4) [OF i(1)] gp(3)
    by (cases f) (auto simp: ll_register_name_for_facet_def)
next
  case ip
  then show ?thesis by (simp add: ll_register_name_for_facet_def regName_def regNameI_def)
next
  case (v k)
  have i: "ri r < 16" using assms v by (auto simp: usableReg_def)
  show ?thesis
    using gp_names(5,6) [OF i] v by (cases f) (auto simp: ll_register_name_for_facet_def)
qed

lemma set_name_ok:
  assumes "usableReg ip r" "blkOk L ip b s"
  shows "llOk (if llIsConstant L v then Some s else do {
      n \<leftarrow> ll_register_name_for_facet f r;
      Some (llc L (LLVMSetMetadata v (''asm.reg.'' @ n) (ll_emptyMD s)) s) })
    (\<lambda>s'. ll_blocks s' = ll_blocks s \<and> llKept s s')"
  using facet_name [OF assms(1), of f] by auto

lemma setRegister_step:
  assumes "blkOk L ip b s" "ll_blocks s1 = ll_blocks s" "llKept s s1" "locOk L fs l"
  shows "stepOk L ip b s (setRegister b l fs s1)"
proof -
  have "blkOk L ip b (setRegister b l fs s1)"
    by (rule blkOk_setRegister [OF blkOk_kept_world [OF assms(1,2)] assms(4)])
  moreover have "llKept s (setRegister b l fs s1)"
    unfolding setRegister_def by (rule kept_trans [OF assms(3) kept_updRegfile])
  ultimately show ?thesis
    by (simp add: stepOk_def setRegister_def llBlock_def [of s1] llBlock_def [of s] assms(2))
qed

lemma setFacet_twice:
  "b < length (ll_blocks s) \<Longrightarrow> setFacet b l f v (setRegister b l fs s) = setRegister b l (fs(f := v)) s"
  by (simp add: setFacet_def setRegister_def updRegfile_def updBlock_def)

text \<open>Set the native facet and forget the others.\<close>

lemma set_native_ok:
  assumes T: "llTyping L" and b: "blkOk L ip b s" and r: "usableReg ip r" "ll_regfile_get_ptr r = Some l"
    and v: "llTypeOf L v = ll_register_facet_type L (nativeFacet l)"
  shows "llOk (ll_regfile_set L b (nativeFacet l) r v True s) (\<lambda>s'. stepOk L ip b s s'
    \<and> llFacet s' b l = (\<lambda>_. None)(nativeFacet l := Some v))"
proof -
  obtain s1 where s1: "(if llIsConstant L v then Some s else do {
      n \<leftarrow> ll_register_name_for_facet (nativeFacet l) r;
      Some (llc L (LLVMSetMetadata v (''asm.reg.'' @ n) (ll_emptyMD s)) s) }) = Some s1"
      "ll_blocks s1 = ll_blocks s" "llKept s s1"
    by (rule llOkE [OF set_name_ok [OF r(1) b]]) blast
  let ?fs = "(\<lambda>_. None)(nativeFacet l := Some v)"
  have len: "b < length (ll_blocks s1)" using b s1(2) by (simp add: blkOk_def)
  have "locOk L ?fs l" using v by (auto simp: locOk_def)
  then have step: "stepOk L ip b s (setRegister b l ?fs s1)"
    by (rule setRegister_step [OF b s1(2,3)])
  have at: "llFacet (setRegister b l ?fs s1) b l = ?fs"
    using len by (simp add: setRegister_def fun_eq_iff)
  have "ll_regfile_set L b (nativeFacet l) r v True s = Some (setRegister b l ?fs s1)"
    unfolding ll_regfile_set_def s1(1) using r(1) r(2) v
    by (cases rule: usableReg_cases) (auto simp: setFacet_twice [OF len])
  then show ?thesis using step at by simp
qed

text \<open>Set the pointer of a general purpose register and with it its value.\<close>

lemma set_pointer_ok:
  assumes T: "llTyping L" and b: "blkOk L ip b s" and r: "rt r = RT_GP64" "ri r < 16"
    and v: "llTypeOf L v = llPtr8 L"
  shows "llOk (ll_regfile_set L b FACET_PTR r v True s) (\<lambda>s'. stepOk L ip b s s')"
proof -
  let ?l = "GpRegister (ri r)"
  have u: "usableReg ip r" using r by (simp add: usableReg_def)
  have l: "ll_regfile_get_ptr r = Some ?l" by (simp add: ll_regfile_get_ptr_def r)
  obtain s1 where s1: "(if llIsConstant L v then Some s else do {
      n \<leftarrow> ll_register_name_for_facet FACET_PTR r;
      Some (llc L (LLVMSetMetadata v (''asm.reg.'' @ n) (ll_emptyMD s)) s) }) = Some s1"
      "ll_blocks s1 = ll_blocks s" "llKept s s1"
    by (rule llOkE [OF set_name_ok [OF u b]]) blast
  let ?i = "BuildCast LPtrToInt v (llInt L 64)" and ?s1 = "setRegister b ?l (\<lambda>_. None) s1"
  let ?n = "fst (llb L ?i ?s1)" and ?w = "snd (llb L ?i ?s1)"
  let ?fs = "((\<lambda>_. None)(FACET_I64 := Some ?n, FACET_PTR := Some v))"
  have len: "b < length (ll_blocks s1)" using b s1(2) by (simp add: blkOk_def)
  have t: "ll_register_facet_type L FACET_PTR = llPtr8 L" "ll_register_facet_type L FACET_I64 = llInt L 64"
    by (simp_all add: ll_register_facet_type_def Let_def)
  have "locOk L ?fs ?l"
    using v llTyping_build [OF T, of ?i "llInt L 64"] llTyping_constant(4) [OF T]
    by (auto simp: locOk_def t)
  then have step: "stepOk L ip b s (setRegister b ?l ?fs (snd (llb L ?i s1)))"
    by (intro setRegister_step [OF b]) (simp_all add: s1(2) kept_trans [OF s1(3)])
  have e: "?w = setRegister b ?l (\<lambda>_. None) (snd (llb L ?i s1))"
    by (simp add: llb_def setRegister_def updRegfile_def updBlock_def split: prod.splits)
  have "ll_regfile_set L b FACET_PTR r v True s = Some (setRegister b ?l ?fs (snd (llb L ?i s1)))"
    by (simp add: ll_regfile_set_def s1(1) v t l regIsGP_def regTypeIsGP_def r case_prod_unfold)
       (simp add: e setFacet_twice len)
  then show ?thesis using step by simp
qed

text \<open>Add a facet.\<close>

lemma set_facet_ok:
  assumes T: "llTyping L" and b: "blkOk L ip b s" and r: "usableReg ip r" "ll_regfile_get_ptr r = Some l"
    and v: "llTypeOf L v = ll_register_facet_type L f"
      "nativeFacet l = FACET_I64 \<Longrightarrow> f \<noteq> FACET_I64"
      "nativeFacet l = FACET_I64 \<Longrightarrow> f = FACET_PTR \<Longrightarrow> llIsConstant L v
         \<Longrightarrow> \<exists>n. llFacet s b l FACET_I64 = Some n \<and> llIsConstant L n"
  shows "llOk (ll_regfile_set L b f r v False s) (\<lambda>s'. stepOk L ip b s s')"
proof -
  obtain s1 where s1: "(if llIsConstant L v then Some s else do {
      n \<leftarrow> ll_register_name_for_facet f r;
      Some (llc L (LLVMSetMetadata v (''asm.reg.'' @ n) (ll_emptyMD s)) s) }) = Some s1"
      "ll_blocks s1 = ll_blocks s" "llKept s s1"
    by (rule llOkE [OF set_name_ok [OF r(1) b]]) blast
  have len: "b < length (ll_blocks s1)" using b s1(2) by (simp add: blkOk_def)
  have loc: "isLoc ip l" using usableReg_ptr [OF r(1)] r(2) by auto
  have "locOk L ((llFacet s b l)(f := Some v)) l"
    using blkOk_loc [OF b loc] v by (intro locOk_upd) auto
  then have "stepOk L ip b s (setRegister b l ((llFacet s b l)(f := Some v)) s1)"
    by (rule setRegister_step [OF b s1(2,3)])
  then show ?thesis
    by (simp add: ll_regfile_set_def s1(1) v(1) r(2) setFacet_setRegister len)
       (simp add: llBlock_def s1(2))
qed

lemma locOk_constant:
  assumes "llTyping L" "\<And>f. llTypeOf L (c f) = ll_register_facet_type L f" "\<And>f. llIsConstant L (c f)"
  shows "locOk L (\<lambda>f. Some (c f)) l"
  using assms by (auto simp: locOk_def)

lemma clear_ok:
  assumes T: "llTyping L" and b: "blkOk L ip b s" and r: "usableReg ip r"
  shows "llOk (ll_regfile_clear L b r s) (stepOk L ip b s)"
    "llOk (ll_regfile_zero L b r s) (stepOk L ip b s)"
proof -
  obtain l where l: "ll_regfile_get_ptr r = Some l" using usableReg_ptr [OF r] by auto
  have "locOk L (\<lambda>f. Some (llUndef L (ll_register_facet_type L f))) l"
    "locOk L (\<lambda>f. Some (llConst L (LLVMConstNull (ll_register_facet_type L f)))) l"
    using llTyping_constant(1,3) [OF T] llTyping_consts(2,3) [OF T]
    by (auto intro!: locOk_constant [OF T])
  then show "llOk (ll_regfile_clear L b r s) (stepOk L ip b s)"
    "llOk (ll_regfile_zero L b r s) (stepOk L ip b s)"
    using setRegister_step [OF b] l by (auto simp: ll_regfile_clear_def ll_regfile_zero_def)
qed

lemma rename_ok:
  assumes b: "blkOk L ip b s" and r: "usableReg ip r" "usableReg ip c" "ll_regfile_get_ptr r = Some l"
    "ll_regfile_get_ptr c = Some l'" "nativeFacet l = nativeFacet l'"
  shows "llOk (ll_regfile_rename b r c s) (stepOk L ip b s)"
proof -
  have "locOk L (llFacet s b l') l'"
    using blkOk_loc [OF b] usableReg_ptr [OF r(2)] r(4) by auto
  then have "locOk L (llFacet s b l') l" using r(5) by (simp add: locOk_def)
  then show ?thesis using setRegister_step [OF b] r(3,4) by (simp add: ll_regfile_rename_def)
qed

section \<open>Flags\<close>

lemma blkOk_flag:
  assumes "blkOk L ip b s" shows "stepOk L ip b s (ll_regfile_set_flag b f v s)"
  using assms by (auto simp: ll_regfile_set_flag_def stepOk_def blkOk_def llFlagsOk_def regsOk_def)

lemma blkOk_cache:
  assumes "blkOk L ip b s"
    "fc_valid (g (rf_cache (llRegfile s b))) \<Longrightarrow> fc_operand1 (g (rf_cache (llRegfile s b))) \<noteq> None
       \<and> fc_operand2 (g (rf_cache (llRegfile s b))) \<noteq> None"
  shows "stepOk L ip b s (setFlagCache b g s)"
  using assms by (auto simp: setFlagCache_def stepOk_def blkOk_def llFlagsOk_def regsOk_def)

end
