(* ===== verification/LLOpTyping.thy ===== *)
theory LLOpTyping
  imports LLRegTyping
begin

text \<open>
  Flags, operands and instructions on a well-formed register file: none of the functions traps,
  and the register file of the current block stays well-formed.
\<close>

section \<open>Sequences of steps\<close>

text \<open>The current block is \<open>b\<close> and well-formed.\<close>

definition curOk :: "('v, 't, 'b, 'w) llvm \<Rightarrow> bool \<Rightarrow> nat \<Rightarrow> ('v, 'b, 'w) llstate \<Rightarrow> bool" where
  "curOk L ip b s \<longleftrightarrow> blkOk L ip b s \<and> ll_currentBB s = b \<and> globalOk s"

lemma curOk_blk: "curOk L ip b s \<Longrightarrow> blkOk L ip b s" "curOk L ip b s \<Longrightarrow> ll_currentBB s = b"
  by (simp_all add: curOk_def)

lemma curOk_step: "curOk L ip b s \<Longrightarrow> stepOk L ip b s s' \<Longrightarrow> curOk L ip b s'"
  by (simp add: curOk_def stepOk_def llKept_def)

lemma curOk_llb [simp]: "curOk L ip b (snd (llb L i s)) = curOk L ip b s"
  "curOk L ip b (llc L c s) = curOk L ip b s"
  by (simp_all add: curOk_def)

lemma stepOk_llb_left [simp]: "stepOk L ip b (snd (llb L i s)) s' = stepOk L ip b s s'"
  "stepOk L ip b (llc L c s) s' = stepOk L ip b s s'"
  by (simp_all add: stepOk_def llKept_def llBlock_def)

lemma stepOk_llb_right [simp]: "stepOk L ip b s (snd (llb L i s')) = stepOk L ip b s s'"
  "stepOk L ip b s (llc L c s') = stepOk L ip b s s'"
  by (simp_all add: stepOk_def llKept_def llBlock_def)

lemma stepOk_same [simp]: "curOk L ip b s \<Longrightarrow> stepOk L ip b s s"
  by (simp add: curOk_def stepOk_refl)

text \<open>A value with a property, and a step that only adds values to the register file.\<close>

lemma grows_llb_left [simp]: "grows b (snd (llb L i s)) s' = grows b s s'" "grows b (llc L c s) s' = grows b s s'"
  by (simp_all add: grows_def llKept_def llBlock_def)

lemma grows_llb_right [simp]: "grows b s (snd (llb L i s')) = grows b s s'" "grows b s (llc L c s') = grows b s s'"
  by (simp_all add: grows_def llKept_def llBlock_def)

definition valOk :: "('v, 't, 'b, 'w) llvm \<Rightarrow> bool \<Rightarrow> nat \<Rightarrow> ('v, 'b, 'w) llstate
    \<Rightarrow> ('a \<Rightarrow> bool) \<Rightarrow> 'a \<times> ('v, 'b, 'w) llstate \<Rightarrow> bool" where
  "valOk L ip b s P x \<longleftrightarrow> P (fst x) \<and> stepOk L ip b s (snd x) \<and> grows b s (snd x)"

lemma valOk_pair [simp]: "valOk L ip b s P (v, s') \<longleftrightarrow> P v \<and> stepOk L ip b s s' \<and> grows b s s'"
  by (simp add: valOk_def)

lemma valOk_before [simp]: "valOk L ip b (snd (llb L i s)) P = valOk L ip b s P"
  "valOk L ip b (llc L c s) P = valOk L ip b s P"
  by (simp_all add: valOk_def fun_eq_iff)

abbreviation hasType :: "('v, 't, 'b, 'w) llvm \<Rightarrow> 't \<Rightarrow> 'v \<Rightarrow> bool" where
  "hasType L t v \<equiv> llTypeOf L v = t"

text \<open>Sequential composition, for steps and for steps with a value.\<close>

lemma seq_step:
  assumes "curOk L ip b s" "llOk m (stepOk L ip b s)"
    "\<And>s1. curOk L ip b s1 \<Longrightarrow> llOk (f s1) (stepOk L ip b s1)"
  shows "llOk (Option.bind m f) (stepOk L ip b s)"
proof -
  obtain s1 where s1: "m = Some s1" "stepOk L ip b s s1" using assms(2) by (rule llOkE)
  from assms(3) [OF curOk_step [OF assms(1) s1(2)]] show ?thesis
    unfolding s1(1) by (auto elim!: llOk_mono intro: stepOk_trans [OF s1(2)])
qed

lemma seq_val:
  assumes "curOk L ip b s" "llOk m (valOk L ip b s P)"
    "\<And>v s1. curOk L ip b s1 \<Longrightarrow> P v \<Longrightarrow> llOk (f (v, s1)) (stepOk L ip b s1)"
  shows "llOk (Option.bind m f) (stepOk L ip b s)"
proof -
  obtain v s1 where s1: "m = Some (v, s1)" "P v" "stepOk L ip b s s1"
    using assms(2) by (cases m) auto
  from assms(3) [OF curOk_step [OF assms(1) s1(3)] s1(2)] show ?thesis
    unfolding s1(1) by (auto elim!: llOk_mono intro: stepOk_trans [OF s1(3)])
qed

lemma seq_val_val:
  assumes "curOk L ip b s" "llOk m (valOk L ip b s P)"
    "\<And>v s1. curOk L ip b s1 \<Longrightarrow> P v \<Longrightarrow> llOk (f (v, s1)) (valOk L ip b s1 Q)"
  shows "llOk (Option.bind m f) (valOk L ip b s Q)"
proof -
  obtain v s1 where s1: "m = Some (v, s1)" "P v" "stepOk L ip b s s1" "grows b s s1"
    using assms(2) by (cases m) auto
  from assms(3) [OF curOk_step [OF assms(1) s1(3)] s1(2)] show ?thesis
    unfolding s1(1)
    by (auto simp: valOk_def elim!: llOk_mono intro: stepOk_trans [OF s1(3)] grows_trans [OF s1(4)])
qed

lemma llOk_after: "stepOk L ip b s s1 \<Longrightarrow> llOk m (stepOk L ip b s1) \<Longrightarrow> llOk m (stepOk L ip b s)"
  by (auto elim!: llOk_mono intro: stepOk_trans)

section \<open>Flags\<close>

lemma flag_ok:
  assumes "curOk L ip b s"
  shows "llOk (markFlag L k f (ll_set_flag f v s)) (stepOk L ip b s)"
proof -
  have b: "blkOk L ip b s" "ll_currentBB s = b" using assms by (simp_all add: curOk_def)
  then have "ll_get_flag f (ll_set_flag f v s) = Some v"
    by (simp add: ll_get_flag_def ll_set_flag_def ll_regfile_get_flag_def ll_regfile_set_flag_def blkOk_def)
  then show ?thesis using blkOk_flag [OF b(1), of f v] b(2) by (simp add: markFlag_def ll_set_flag_def)
qed

lemma set_flag_step: "curOk L ip b s \<Longrightarrow> stepOk L ip b s (ll_set_flag f v s)"
  by (simp add: curOk_def ll_set_flag_def blkOk_flag)

lemma get_flag_ok:
  assumes "curOk L ip b s" shows "\<exists>v. ll_get_flag f s = Some v"
  using assms by (auto simp: curOk_def blkOk_def llFlagsOk_def ll_get_flag_def ll_regfile_get_flag_def)

lemma intrinsic_frame [simp]:
  "ll_blocks (snd (ll_support_get_intrinsic L i ts s)) = ll_blocks s"
  "ll_currentBB (snd (ll_support_get_intrinsic L i ts s)) = ll_currentBB s"
  "ll_functions (snd (ll_support_get_intrinsic L i ts s)) = ll_functions s"
  "ll_currentFunction (snd (ll_support_get_intrinsic L i ts s)) = ll_currentFunction s"
  "globalOk (snd (ll_support_get_intrinsic L i ts s)) = globalOk s"
  by (simp_all add: ll_support_get_intrinsic_def globalOk_def split: prod.splits)

lemma intrinsic_step [simp]:
  "stepOk L ip b (snd (ll_support_get_intrinsic L i ts s)) s' = stepOk L ip b s s'"
  "curOk L ip b (snd (ll_support_get_intrinsic L i ts s)) = curOk L ip b s"
  by (simp_all add: stepOk_def llKept_def curOk_def blkOk_def llBlock_def)

lemma stepOk_before [simp]: "stepOk L ip b (snd (llb L i s)) = stepOk L ip b s"
  "stepOk L ip b (llc L c s) = stepOk L ip b s"
  "stepOk L ip b (snd (ll_support_get_intrinsic L k ts s)) = stepOk L ip b s"
  by (simp_all add: fun_eq_iff)

lemma flag_ok':
  assumes "curOk L ip b s1" "stepOk L ip b s1 = stepOk L ip b s"
  shows "llOk (markFlag L k f (ll_set_flag f v s1)) (stepOk L ip b s)"
  using flag_ok [OF assms(1)] assms(2) by simp

lemma overflow_frame [simp]:
  "stepOk L ip b (snd (overflowIntrinsic L i t x y s)) = stepOk L ip b s"
  "curOk L ip b (snd (overflowIntrinsic L i t x y s)) = curOk L ip b s"
  "stepOk L ip b (snd (signBit L t x s)) = stepOk L ip b s"
  "curOk L ip b (snd (signBit L t x s)) = curOk L ip b s"
  by (simp_all add: overflowIntrinsic_def signBit_def case_prod_unfold Let_def)

lemma single_flags_ok:
  assumes "curOk L ip b s"
  shows "llOk (ll_flags_set_af L x y z s) (stepOk L ip b s)"
    "llOk (ll_flags_set_zf L x s) (stepOk L ip b s)"
    "llOk (ll_flags_set_sf L x s) (stepOk L ip b s)"
    "llOk (ll_flags_set_cf_sub L x y s) (stepOk L ip b s)"
    "llOk (ll_flags_set_cf_add L x y s) (stepOk L ip b s)"
    "llOk (ll_flags_set_pf L x s) (stepOk L ip b s)"
    "llOk (ll_flags_set_of_sub L x y z s) (stepOk L ip b s)"
    "llOk (ll_flags_set_of_add L x y z s) (stepOk L ip b s)"
  unfolding ll_flags_set_af_def ll_flags_set_zf_def ll_flags_set_sf_def ll_flags_set_cf_sub_def
    ll_flags_set_cf_add_def ll_flags_set_pf_def ll_flags_set_of_sub_def ll_flags_set_of_add_def
    Let_def case_prod_unfold
  by (rule flag_ok'; use assms in simp)+

lemma cache_ok:
  assumes "curOk L ip b s"
  shows "stepOk L ip b s (invalidateCache s)"
    "stepOk L ip b s (setFlagCache (ll_currentBB s) (\<lambda>_. \<lparr>fc_valid = True, fc_operand1 = Some x,
       fc_operand2 = Some y, fc_result = Some z\<rparr>) s)"
  using assms by (auto simp: curOk_def invalidateCache_def intro!: blkOk_cache)

lemma flags_invalidate_ok:
  assumes "curOk L ip b s" shows "stepOk L ip b s (ll_flags_invalidate L s)"
proof -
  have "stepOk L ip b s (foldl (\<lambda>s f. ll_set_flag f (llUndef L (i1 L)) s) s fs)" for fs
    using assms
  proof (induction fs arbitrary: s)
    case (Cons f fs)
    have 1: "stepOk L ip b s (ll_set_flag f (llUndef L (i1 L)) s)" by (rule set_flag_step [OF Cons.prems])
    show ?case using stepOk_trans [OF 1 Cons.IH [OF curOk_step [OF Cons.prems 1]]] by simp
  qed simp
  from this cache_ok(1) [OF curOk_step [OF assms this]] show ?thesis
    unfolding ll_flags_invalidate_def by (rule stepOk_trans)
qed

lemma flags_ok:
  assumes "curOk L ip b s"
  shows "llOk (ll_flags_set_sub L x y z s) (stepOk L ip b s)"
    "llOk (ll_flags_set_add L x y z s) (stepOk L ip b s)"
    "llOk (ll_flags_set_inc L x y s) (stepOk L ip b s)"
    "llOk (ll_flags_set_dec L x y s) (stepOk L ip b s)"
  unfolding ll_flags_set_sub_def ll_flags_set_add_def ll_flags_set_inc_def ll_flags_set_dec_def Let_def
  using assms by (intro seq_step single_flags_ok; simp add: cache_ok)+

lemma flags_ok_invalid:
  assumes "curOk L ip b s"
  shows "llOk (ll_flags_set_shl L x s) (stepOk L ip b s)"
    "llOk (ll_flags_set_shr L x s) (stepOk L ip b s)"
    "llOk (ll_flags_set_sar L x s) (stepOk L ip b s)"
    "llOk (ll_flags_set_bit L x s) (stepOk L ip b s)"
proof -
  let ?s1 = "ll_flags_invalidate L s"
  have c1: "curOk L ip b ?s1" by (rule curOk_step [OF assms flags_invalidate_ok [OF assms]])
  have "llOk (do { s \<leftarrow> ll_flags_set_zf L x ?s1; s \<leftarrow> ll_flags_set_sf L x s; ll_flags_set_pf L x s })
      (stepOk L ip b ?s1)"
    using c1 by (intro seq_step single_flags_ok)
  from llOk_after [OF flags_invalidate_ok [OF assms] this]
  show "llOk (ll_flags_set_shl L x s) (stepOk L ip b s)"
    "llOk (ll_flags_set_shr L x s) (stepOk L ip b s)"
    "llOk (ll_flags_set_sar L x s) (stepOk L ip b s)"
    by (simp_all add: ll_flags_set_shl_def ll_flags_set_shr_def ll_flags_set_sar_def Let_def)
  let ?s2 = "ll_set_flag RFLAG_OF (llConstInt L (i1 L) 0) (ll_set_flag RFLAG_CF (llConstInt L (i1 L) 0)
    (ll_set_flag RFLAG_AF (llUndef L (i1 L)) s))"
  have s2: "stepOk L ip b s ?s2"
    by (metis assms curOk_step set_flag_step stepOk_trans)
  have "llOk (do { s \<leftarrow> ll_flags_set_zf L x ?s2; s \<leftarrow> ll_flags_set_sf L x s; s \<leftarrow> ll_flags_set_pf L x s;
      Some (invalidateCache s) }) (stepOk L ip b ?s2)"
    using curOk_step [OF assms s2] by (intro seq_step single_flags_ok) (simp_all add: cache_ok)
  from llOk_after [OF s2 this]
  show "llOk (ll_flags_set_bit L x s) (stepOk L ip b s)" by (simp add: ll_flags_set_bit_def Let_def)
qed

lemma imul_flags_ok:
  assumes "curOk L ip b s" shows "stepOk L ip b s (ll_flags_set_of_imul L x y z s)"
proof -
  have *: "stepOk L ip b s (llc L c (ll_set_flag RFLAG_CF v (ll_set_flag RFLAG_OF v s1)))"
    if "curOk L ip b s1" "stepOk L ip b s1 = stepOk L ip b s" for v s1 c
    using that by (metis curOk_step set_flag_step stepOk_llb_right(2) stepOk_trans)
  show ?thesis
    unfolding ll_flags_set_of_imul_def Let_def case_prod_unfold
    by (rule *; use assms in simp)
qed

text \<open>The condition is a value: a flag, or a comparison or disjunction.\<close>

lemma condition_ok:
  assumes "curOk L ip b s"
  shows "llOk (ll_flags_condition L c s) (valOk L ip b s (\<lambda>_. True))"
proof -
  have f: "\<exists>v. ll_get_flag f s = Some v" for f using get_flag_ok [OF assms] .
  obtain o1 c1 z1 s1 p1 where flags: "ll_get_flag RFLAG_OF s = Some o1" "ll_get_flag RFLAG_CF s = Some c1"
    "ll_get_flag RFLAG_ZF s = Some z1" "ll_get_flag RFLAG_SF s = Some s1" "ll_get_flag RFLAG_PF s = Some p1"
    using f by metis
  let ?fc = "ll_regfile_get_flag_cache (ll_currentBB s) s"
  have "fc_valid ?fc \<Longrightarrow> \<exists>x y. fc_operand1 ?fc = Some x \<and> fc_operand2 ?fc = Some y"
    using assms by (auto simp: curOk_def blkOk_def llFlagsOk_def ll_regfile_get_flag_cache_def)
  then show ?thesis
    using assms
    by (cases c; cases "fc_valid ?fc")
      (auto simp: ll_flags_condition_def condCode_def flags cachedCompare_def Let_def valOk_def
        case_prod_unfold)
qed

end
