(* ===== verification/LLOperandTyping.thy ===== *)
theory LLOperandTyping
  imports LLOpTyping
begin

text \<open>Loading and storing operands never traps, and a loaded value has the type asked for.\<close>

section \<open>Registers of the current block\<close>

lemma get_register_ok:
  assumes "llTyping L" "curOk L ip b s" "usableReg ip r"
  shows "llOk (ll_get_register L r f s) (valOk L ip b s (hasType L (ll_register_facet_type L f)))"
proof -
  obtain l where l: "ll_regfile_get_ptr r = Some l" using usableReg_ptr [OF assms(3)] by auto
  have "gotFacet L ip b f l s x \<Longrightarrow> valOk L ip b s (hasType L (ll_register_facet_type L f)) x" for x
    using gotFacet_step [of L ip b f l s x] by (simp add: gotFacet_def valOk_def)
  then show ?thesis
    using get_ok [OF assms(1) curOk_blk(1) [OF assms(2)] assms(3) l, of f] curOk_blk(2) [OF assms(2)]
    by (simp add: ll_get_register_def llOk_mono)
qed

lemma regsize [simp]: "ll_register_facet_type L FACET_I64 = llInt L 64"
  "ll_register_facet_type L FACET_PTR = llPtr8 L" "ll_register_facet_type L FACET_I8 = llInt L 8"
  "ll_register_facet_type L FACET_I8H = llInt L 8" "ll_register_facet_type L FACET_I16 = llInt L 16"
  "ll_register_facet_type L FACET_I32 = llInt L 32" "ll_register_facet_type L FACET_I128 = llInt L 128"
  by (simp_all add: ll_register_facet_type_def Let_def)

definition llGpReg :: "reg \<Rightarrow> bool" where
  "llGpReg r \<longleftrightarrow> regTypeIsGP (rt r) \<and> usableReg False r"

lemma gpReg_usable: "llGpReg r \<Longrightarrow> usableReg ip r"
  by (auto simp: llGpReg_def usableReg_def)

lemma gpReg_ptr:
  assumes "llGpReg r"
  shows "\<exists>k. ll_regfile_get_ptr r = Some (GpRegister k) \<and> k < 16 \<and> regIsGP r = Some True"
  using assms
  by (auto simp: llGpReg_def usableReg_def regTypeIsGP_def ll_regfile_get_ptr_def regIsGP_def)

lemma set_i64_ok:
  assumes "llTyping L" "curOk L ip b s" "llGpReg r" "llTypeOf L v = llInt L 64"
  shows "llOk (ll_set_register L r FACET_I64 v True s) (\<lambda>s'. stepOk L ip b s s'
    \<and> (\<forall>l. ll_regfile_get_ptr r = Some l \<longrightarrow> llFacet s' b l = (\<lambda>_. None)(FACET_I64 := Some v)))"
proof -
  obtain k where k: "ll_regfile_get_ptr r = Some (GpRegister k)" using gpReg_ptr [OF assms(3)] by auto
  show ?thesis
    using set_native_ok [OF assms(1) curOk_blk(1) [OF assms(2)] gpReg_usable [OF assms(3)] k, of v]
      curOk_blk(2) [OF assms(2)] assms(4) k
    by (simp add: ll_set_register_def)
qed

lemma add_facet_ok:
  assumes "llTyping L" "curOk L ip b s" "llGpReg r" "llTypeOf L v = ll_register_facet_type L f"
    "f \<noteq> FACET_I64" "f \<noteq> FACET_PTR"
  shows "llOk (ll_set_register L r f v False s) (stepOk L ip b s)"
proof -
  obtain k where k: "ll_regfile_get_ptr r = Some (GpRegister k)" using gpReg_ptr [OF assms(3)] by auto
  show ?thesis
    using set_facet_ok [OF assms(1) curOk_blk(1) [OF assms(2)] gpReg_usable [OF assms(3)] k assms(4)]
      curOk_blk(2) [OF assms(2)] assms(5,6)
    by (simp add: ll_set_register_def)
qed

section \<open>Addresses\<close>

text \<open>The registers of an address exist.\<close>

definition addrOk :: "bool \<Rightarrow> operand \<Rightarrow> bool" where
  "addrOk ip p \<longleftrightarrow>
     (rt (oreg p) \<noteq> RT_None \<longrightarrow> llGpReg (oreg p) \<or> (ip \<and> oreg p = \<lparr>rt = RT_IP, ri = 0\<rparr>))
     \<and> (oscale p \<noteq> 0 \<longrightarrow> llGpReg (oireg p))"

lemma ip_usable: "ip \<Longrightarrow> usableReg ip \<lparr>rt = RT_IP, ri = 0\<rparr>"
  by (simp add: usableReg_def)

lemma const_pointer_ok:
  assumes "curOk L ip b s"
  shows "llOk (ll_get_const_pointer L a s) (valOk L ip b s (\<lambda>_. True))"
proof (cases "a = 0 \<or> ll_globalOffsetBase s \<noteq> 0")
  case True
  then show ?thesis
    using assms by (auto simp: ll_get_const_pointer_def Let_def curOk_def globalOk_def valOk_def stepOk_refl)
next
  case False
  obtain g w where g: "llAddGlobal L (llInt L 8) ''__ll_global_base__'' (ll_world s) = (g, w)" by fastforce
  let ?s = "s\<lparr>ll_globalOffsetBase := a, ll_globalBase := Some g, ll_world := w\<rparr>"
  have "stepOk L ip b s ?s"
    using assms by (auto simp: stepOk_def llKept_def curOk_def blkOk_def globalOk_def llBlock_def)
  moreover from this have "grows b s ?s" by (intro grows_world) (auto simp: stepOk_def)
  ultimately have "stepOk L ip b s (snd (llb L i (llc L c ?s)))" "grows b s (snd (llb L i (llc L c ?s)))" for i c
    by simp_all
  moreover have "ll_globalBase (llc L c ?s) = Some g" for c by (simp add: llc_def)
  ultimately show ?thesis
    using False g by (simp add: ll_get_const_pointer_def Let_def valOk_def)
qed

text \<open>The value of a register is constant. It is read from the native facet, which reading other
  facets leaves alone.\<close>

definition regConst :: "('v, 't, 'b, 'w) llvm \<Rightarrow> nat \<Rightarrow> reg \<Rightarrow> ('v, 'b, 'w) llstate \<Rightarrow> bool" where
  "regConst L b r s \<longleftrightarrow> (\<exists>l n. ll_regfile_get_ptr r = Some l \<and> llFacet s b l FACET_I64 = Some n
     \<and> llIsConstant L n)"

definition wordReg :: "bool \<Rightarrow> reg \<Rightarrow> bool" where
  "wordReg ip r \<longleftrightarrow> usableReg ip r \<and> (\<exists>l. ll_regfile_get_ptr r = Some l \<and> nativeFacet l = FACET_I64)"

lemma wordReg_usable: "wordReg ip r \<Longrightarrow> usableReg ip r"
  by (simp add: wordReg_def)

lemma wordReg_gp: "llGpReg r \<Longrightarrow> wordReg ip r"
  using gpReg_usable gpReg_ptr [of r] by (auto simp: wordReg_def)

lemma wordReg_ip: "ip \<Longrightarrow> wordReg ip \<lparr>rt = RT_IP, ri = 0\<rparr>"
  using ip_usable by (simp add: wordReg_def ll_regfile_get_ptr_def)

lemma wordReg_addr: "addrOk ip p \<Longrightarrow> rt (oreg p) \<noteq> RT_None \<Longrightarrow> wordReg ip (oreg p)"
  "addrOk ip p \<Longrightarrow> oscale p \<noteq> 0 \<Longrightarrow> wordReg ip (oireg p)"
  using wordReg_gp wordReg_ip by (auto simp: addrOk_def)

lemma regConst_grows:
  assumes "curOk L ip b s" "wordReg ip r" "grows b s s1"
  shows "regConst L b r s1 = regConst L b r s"
proof -
  obtain l where l: "ll_regfile_get_ptr r = Some l" "nativeFacet l = FACET_I64"
    using assms(2) by (auto simp: wordReg_def)
  then have "isLoc ip l" using assms(2) usableReg_ptr [of ip r] by (auto simp: wordReg_def)
  then obtain n where "llFacet s b l FACET_I64 = Some n"
    using blkOk_loc [OF curOk_blk(1) [OF assms(1)], of l] l(2) unfolding locOk_def by fastforce
  then show ?thesis using assms(3) l(1) by (auto simp: regConst_def grows_def)
qed

lemma get_i64_ok:
  assumes T: "llTyping L" and c: "curOk L ip b s" and r: "wordReg ip r"
  shows "llOk (ll_get_register L r FACET_I64 s) (valOk L ip b s
    (\<lambda>v. hasType L (llInt L 64) v \<and> llIsConstant L v = regConst L b r s))"
proof -
  obtain l where l: "ll_regfile_get_ptr r = Some l" using r by (auto simp: wordReg_def)
  have g: "llOk (ll_regfile_get L b FACET_I64 r s) (gotFacet L ip b FACET_I64 l s)"
    by (rule get_ok [OF T curOk_blk(1) [OF c] wordReg_usable [OF r] l])
  have "gotFacet L ip b FACET_I64 l s x
      \<Longrightarrow> valOk L ip b s (\<lambda>v. hasType L (llInt L 64) v \<and> llIsConstant L v = regConst L b r s) x" for x
    using regConst_grows [OF c r, of "snd x"] gotFacet_step [of L ip b FACET_I64 l s x] l
    by (auto simp: gotFacet_def valOk_def regConst_def)
  then show ?thesis using g curOk_blk(2) [OF c] by (auto simp: ll_get_register_def elim!: llOk_mono)
qed

lemma get_ptr_ok:
  assumes T: "llTyping L" and c: "curOk L ip b s" and r: "wordReg ip r"
  shows "llOk (ll_get_register L r FACET_PTR s) (valOk L ip b s
    (\<lambda>v. hasType L (llPtr8 L) v \<and> (llIsConstant L v \<longrightarrow> regConst L b r s)))"
proof -
  obtain l where l: "ll_regfile_get_ptr r = Some l" "nativeFacet l = FACET_I64"
    using r by (auto simp: wordReg_def)
  have loc: "isLoc ip l" using usableReg_ptr [OF wordReg_usable [OF r]] l(1) by auto
  have g: "llOk (ll_regfile_get L b FACET_PTR r s) (gotFacet L ip b FACET_PTR l s)"
    by (rule get_ok [OF T curOk_blk(1) [OF c] wordReg_usable [OF r] l(1)])
  have "gotFacet L ip b FACET_PTR l s x
      \<Longrightarrow> valOk L ip b s (\<lambda>v. hasType L (llPtr8 L) v \<and> (llIsConstant L v \<longrightarrow> regConst L b r s)) x" for x
    using regConst_grows [OF c r, of "snd x"] gotFacet_step [of L ip b FACET_PTR l s x]
      blkOk_loc [of L ip b "snd x", OF _ loc] l
    by (auto simp: gotFacet_def valOk_def regConst_def locOk_def)
  then show ?thesis using g curOk_blk(2) [OF c] by (auto simp: ll_get_register_def elim!: llOk_mono)
qed

lemma baseAddress_ok:
  assumes T: "llTyping L" and c: "curOk L ip b s" and a: "addrOk ip p"
  shows "llOk (baseAddress L p s) (valOk L ip b s
    (\<lambda>v. llIsConstant L v \<longrightarrow> rt (oreg p) \<noteq> RT_None \<longrightarrow> regConst L b (oreg p) s))"
proof (cases "rt (oreg p) = RT_None")
  case True
  then show ?thesis
    using const_pointer_ok [OF c] by (auto simp: baseAddress_def valOk_def elim!: llOk_mono)
next
  case False
  note r = wordReg_addr(1) [OF a False]
  let ?P = "\<lambda>v. llIsConstant L v \<longrightarrow> regConst L b (oreg p) s"
  note k = llTyping_constant [OF T]
  have "llOk (if llIsConstant L v then do {
         (result, s) \<leftarrow> ll_get_register L (oreg p) FACET_I64 s1;
         c_assert (llIsConstant L result);
         ll_get_const_pointer L (llZExtValue L result + oval p) s }
       else if oval p \<noteq> 0 then
         (let off = llConstInt L (llInt L 64) (oval p)
          in if oscale p \<noteq> 0 \<and> oval p mod of_nat (oscale p) = 0 then
               (let (result, s) = llb L (BuildCast LPointerCast v (scaleType L p)) s1;
                    off = llConstInt L (llInt L 64) (oval p div of_nat (oscale p))
                in Some (llb L (BuildGEP result [off]) s))
             else Some (llb L (BuildGEP v [off]) s1))
       else Some (v, s1)) (valOk L ip b s1 ?P)"
    if c1: "curOk L ip b s1" and g: "grows b s s1" and v: "llIsConstant L v \<longrightarrow> regConst L b (oreg p) s" for v s1
  proof (cases "llIsConstant L v")
    case True
    have r1: "regConst L b (oreg p) s1" using v True regConst_grows [OF c r g] by simp
    have "llOk (do {
         (result, s) \<leftarrow> ll_get_register L (oreg p) FACET_I64 s1;
         c_assert (llIsConstant L result);
         ll_get_const_pointer L (llZExtValue L result + oval p) s }) (valOk L ip b s1 ?P)"
      by (rule seq_val_val [OF c1 get_i64_ok [OF T c1 r]])
        (use r1 v True const_pointer_ok in \<open>auto simp: valOk_def elim!: llOk_mono\<close>)
    then show ?thesis using True by simp
  next
    case False
    then have "\<not> llIsConstant L (fst (llb L (BuildGEP v [x]) s'))"
      "\<not> llIsConstant L (fst (llb L (BuildGEP (fst (llb L (BuildCast LPointerCast v ty) s1)) [x]) s'))"
      for x s' ty using k(4,5) by blast+
    then show ?thesis using c1 False by (simp add: case_prod_unfold Let_def valOk_def)
  qed
  note rest = this
  obtain v s1 where v: "ll_get_register L (oreg p) FACET_PTR s = Some (v, s1)" "stepOk L ip b s s1"
      "grows b s s1" "llIsConstant L v \<longrightarrow> regConst L b (oreg p) s"
    using get_ptr_ok [OF T c r] by (elim llOkE) (auto simp: valOk_def)
  have "llOk (baseAddress L p s) (valOk L ip b s1 ?P)"
    using rest [OF curOk_step [OF c v(2)] v(3,4)] by (simp add: baseAddress_def False v(1))
  then show ?thesis
    using v(2,3) by (auto simp: valOk_def elim!: llOk_mono intro: stepOk_trans grows_trans)
qed

text \<open>The type of a memory access exists.\<close>

definition typeFits :: "operanddatatype \<Rightarrow> nat \<Rightarrow> bool" where
  "typeFits t n \<longleftrightarrow> (t = OP_VI8 \<longrightarrow> n mod 8 = 0) \<and> (t = OP_VI32 \<or> t = OP_VF32 \<longrightarrow> n mod 32 = 0)
     \<and> (t = OP_VI64 \<or> t = OP_VF64 \<longrightarrow> n mod 64 = 0)"

lemma typeFits_type: "typeFits t n \<Longrightarrow> \<exists>ty. ll_operand_get_type L t n = Some ty"
  by (cases t) (auto simp: typeFits_def ll_operand_get_type_def vecOf_def)

text \<open>The index of an address is added.\<close>

text \<open>An address is constant only if the registers in it are.\<close>

definition addrConst :: "('v, 't, 'b, 'w) llvm \<Rightarrow> nat \<Rightarrow> operand \<Rightarrow> ('v, 'b, 'w) llstate \<Rightarrow> bool" where
  "addrConst L b p s \<longleftrightarrow> (rt (oreg p) \<noteq> RT_None \<longrightarrow> regConst L b (oreg p) s)
     \<and> (oscale p \<noteq> 0 \<longrightarrow> regConst L b (oireg p) s)"

lemma scaled_ok:
  assumes T: "llTyping L" and c: "curOk L ip b s" and a: "addrOk ip p"
  shows "llOk (if oscale p \<noteq> 0 then do {
      (off, s) \<leftarrow> ll_get_register L (oireg p) FACET_I64 s;
      (if llIsNull L v then
         (let (off, s) = llb L (BuildBin LMul off (llConstInt L (llInt L 64) (of_nat (oscale p)))) s
          in Some (llb L (BuildCast LIntToPtr off pt) s))
       else
         (let st = (if oscale p * 8 = n then pt else scaleType L p);
              (result, s) = llb L (BuildCast LPointerCast v st) s
          in Some (llb L (BuildGEP result [off]) s))) }
    else Some (v, s)) (valOk L ip b s
      (\<lambda>x. llIsConstant L x \<longrightarrow> (llIsNull L v \<or> llIsConstant L v) \<and> (oscale p \<noteq> 0 \<longrightarrow> regConst L b (oireg p) s)))"
proof (cases "oscale p = 0")
  case False
  note k = llTyping_constant [OF T]
  define Q where "Q = (\<lambda>x. llIsConstant L x
    \<longrightarrow> (llIsNull L v \<or> llIsConstant L v) \<and> (oscale p \<noteq> 0 \<longrightarrow> regConst L b (oireg p) s))"
  have gep: "valOk L ip b s1 Q (llb L (BuildGEP (fst (llb L (BuildCast LPointerCast v ty) s1)) [x]) s2)"
    if "curOk L ip b s1" "s2 = snd (llb L (BuildCast LPointerCast v ty) s1)" "llIsConstant L x = regConst L b (oireg p) s"
    for ty s1 x s2
    using k(5) [of "fst (llb L (BuildCast LPointerCast v ty) s1)" x s2] that by (simp add: valOk_def k(4) Q_def)
  have mul: "valOk L ip b s1 Q (llb L (BuildCast LIntToPtr (fst (llb L (BuildBin LMul x y) s1)) pt) s2)"
    if "llIsNull L v" "curOk L ip b s1" "s2 = snd (llb L (BuildBin LMul x y) s1)"
      "llIsConstant L x = regConst L b (oireg p) s" for x y s1 s2
    using k(8) [of x y s1] that by (simp add: valOk_def k(4) Q_def)
  show ?thesis
    unfolding if_P [OF False] Q_def [symmetric]
    by (rule seq_val_val [OF c get_i64_ok [OF T c wordReg_addr(2) [OF a False]]])
       (use False in \<open>auto simp: case_prod_unfold Let_def gep mul\<close>)
qed (use c in simp)

lemma get_address_ok:
  assumes T: "llTyping L" and c: "curOk L ip b s" and a: "addrOk ip p"
    and n: "ll_operand_get_type_length t p = Some n" "ll_operand_get_type L t n = Some ty"
  shows "llOk (ll_operand_get_address L t p s)
    (valOk L ip b s (\<lambda>v. hasType L (llType L (LLVMPointerType ty (addrSpace (oseg p)))) v
      \<and> (llIsConstant L v \<longrightarrow> addrConst L b p s)))"
proof -
  note ct = llTyping_build [OF T, of "BuildCast k v t" for k v t, simplified]
  note k = llTyping_constant(4) [OF T]
  let ?P = "\<lambda>pt v. hasType L pt v \<and> (llIsConstant L v \<longrightarrow> addrConst L b p s)"
  have tail: "llOk (do {
      (result, s) \<leftarrow>
       (if oscale p \<noteq> 0 then do {
          (off, s) \<leftarrow> ll_get_register L (oireg p) FACET_I64 s1;
          (if llIsNull L v then
             (let (off, s) = llb L (BuildBin LMul off
                      (llConstInt L (llInt L 64) (of_nat (oscale p)))) s
              in Some (llb L (BuildCast LIntToPtr off pt) s))
           else
             (let st = (if oscale p * 8 = n then pt else scaleType L p);
                  (result, s) = llb L (BuildCast LPointerCast v st) s
              in Some (llb L (BuildGEP result [off]) s))) }
        else Some (v, s1));
      Some (llb L (BuildCast LPointerCast result pt) s) }) (valOk L ip b s1 (?P pt))"
    if c1: "curOk L ip b s1" and g: "grows b s s1" 
      and v: "llIsNull L v \<or> llIsConstant L v \<longrightarrow> rt (oreg p) \<noteq> RT_None \<longrightarrow> regConst L b (oreg p) s" for v s1 pt
    by (rule seq_val_val [OF c1 scaled_ok [OF T c1 a]])
      (use v regConst_grows [OF c wordReg_addr(2) [OF a] g] in \<open>auto simp: ct k valOk_def addrConst_def\<close>)
  obtain v s1 where v: "baseAddress L p s = Some (v, s1)" "stepOk L ip b s s1" "grows b s s1"
      "llIsConstant L v \<longrightarrow> rt (oreg p) \<noteq> RT_None \<longrightarrow> regConst L b (oreg p) s"
    using baseAddress_ok [OF T c a] by (elim llOkE) (auto simp: valOk_def)
  have "llIsNull L v \<or> llIsConstant L v \<longrightarrow> rt (oreg p) \<noteq> RT_None \<longrightarrow> regConst L b (oreg p) s"
    using v(4) llTyping_constant(9) [OF T] by blast
  from tail [OF curOk_step [OF c v(2)] v(3) this, of "llType L (LLVMPointerType ty (addrSpace (oseg p)))"]
  have "llOk (ll_operand_get_address L t p s)
      (valOk L ip b s1 (?P (llType L (LLVMPointerType ty (addrSpace (oseg p))))))"
    by (simp add: ll_operand_get_address_def n v(1) Let_def)
  then show ?thesis
    using v(2,3) by (auto simp: valOk_def elim!: llOk_mono intro: stepOk_trans grows_trans)
qed

section \<open>Loading\<close>

text \<open>An operand that can be loaded as a value of a data type.\<close>

definition readable :: "bool \<Rightarrow> operanddatatype \<Rightarrow> operand \<Rightarrow> bool" where
  "readable ip t p \<longleftrightarrow>
     (case ll_operand_get_type_length t p of None \<Rightarrow> False
      | Some n \<Rightarrow> (opIsImm p \<and> typeFits t n)
          \<or> (opIsReg p \<and> usableReg False (oreg p) \<and> ll_operand_get_facet t p \<noteq> None)
          \<or> (opIsInd p \<and> addrOk ip p \<and> typeFits t n))"

lemma operand_kinds: "opIsReg p \<Longrightarrow> \<not> opIsImm p" "opIsInd p \<Longrightarrow> \<not> opIsImm p" "opIsInd p \<Longrightarrow> \<not> opIsReg p"
  by (auto simp: opIsImm_def opIsReg_def opIsInd_def)

lemma usable_mono: "usableReg False r \<Longrightarrow> usableReg ip r"
  by (auto simp: usableReg_def)

lemma facet_si_type:
  assumes "ll_operand_get_facet OP_SI p = Some f" "opTypeWidth p = Some n"
  shows "ll_register_facet_type L f = llInt L n"
  using assms by (auto simp: ll_operand_get_facet_def split: if_splits)

lemma load_ok:
  assumes T: "llTyping L" and c: "curOk L ip b s" and p: "readable ip t p"
  shows "llOk (ll_operand_load L t a p s) (valOk L ip b s (\<lambda>v. t = OP_SI
    \<longrightarrow> (\<exists>n. opTypeWidth p = Some n \<and> hasType L (llInt L n) v)))"
proof -
  obtain n where n: "ll_operand_get_type_length t p = Some n"
    using p by (auto simp: readable_def split: option.splits)
  have si: "t = OP_SI \<Longrightarrow> opTypeWidth p = Some n" using n by (simp add: ll_operand_get_type_length_def)
  have ty_si: "ll_operand_get_type L t n = Some ty \<Longrightarrow> t = OP_SI \<Longrightarrow> ty = llInt L n" for ty
    by (simp add: ll_operand_get_type_def)
  have fin: "llOk m (valOk L ip b s (\<lambda>v. t = OP_SI \<longrightarrow> (\<exists>n. opTypeWidth p = Some n \<and> hasType L (llInt L n) v)))"
    if "llOk m (valOk L ip b s (hasType L ty))" "ll_operand_get_type L t n = Some ty" for m ty
    using that(1) by (rule llOk_mono) (use si ty_si [OF that(2)] in \<open>simp add: valOk_def\<close>)
  consider (imm) "opIsImm p" "typeFits t n"
    | (reg) f where "\<not> opIsImm p" "opIsReg p" "usableReg ip (oreg p)" "ll_operand_get_facet t p = Some f"
    | (ind) "\<not> opIsImm p" "\<not> opIsReg p" "opIsInd p" "addrOk ip p" "typeFits t n"
    using p n usable_mono [of "oreg p" ip] operand_kinds [of p] unfolding readable_def by auto
  then show ?thesis
  proof cases
    case imm
    obtain ty where ty: "ll_operand_get_type L t n = Some ty" using typeFits_type [OF imm(2), of L] by (rule exE)
    have "ll_operand_load L t a p s = Some (llConstInt L ty (oval p), s)"
      by (simp add: ll_operand_load_def n imm(1) ty)
    moreover have "hasType L ty (llConstInt L ty (oval p))" by (rule llTyping_consts(1) [OF T])
    ultimately have "llOk (ll_operand_load L t a p s) (valOk L ip b s (hasType L ty))"
      using c by (simp add: valOk_def)
    then show ?thesis using ty by (rule fin)
  next
    case reg
    have "valOk L ip b s (hasType L (ll_register_facet_type L f)) x
        \<Longrightarrow> valOk L ip b s (\<lambda>v. t = OP_SI \<longrightarrow> (\<exists>n. opTypeWidth p = Some n \<and> hasType L (llInt L n) v)) x" for x
      using reg(4) si facet_si_type [of p f n L] by (auto simp: valOk_def)
    then show ?thesis
      using llOk_mono [OF get_register_ok [OF T c reg(3), of f]] reg n by (simp add: ll_operand_load_def)
  next
    case ind
    obtain ty where ty: "ll_operand_get_type L t n = Some ty" using typeFits_type [OF ind(5), of L] by (rule exE)
    have ld: "hasType L (llType L (LLVMPointerType ty k)) v
        \<Longrightarrow> llTypeOf L (fst (llb L (BuildLoad v) s1)) = ty" for v k s1
      using llTyping_build [OF T, of "BuildLoad v"] llTyping_types(4) [OF T] by simp
    have "llOk (do {
        (address, s) \<leftarrow> ll_operand_get_address L t p s;
        let (result, s) = llb L (BuildLoad address) s;
        Some (result, llc L (LLVMSetAlignment result (alignBytes a n)) s) })
      (valOk L ip b s (hasType L ty))"
      by (rule seq_val_val [OF c get_address_ok [OF T c ind(4) n ty]], erule conjE)
        (simp add: case_prod_unfold Let_def valOk_def ld)
    then have "llOk (ll_operand_load L t a p s) (valOk L ip b s (hasType L ty))"
      using ind n by (simp add: ll_operand_load_def)
    then show ?thesis using ty by (rule fin)
  qed
qed

lemma load_si_ok:
  assumes "llTyping L" "curOk L ip b s" "readable ip OP_SI p" "opTypeWidth p = Some n"
  shows "llOk (ll_operand_load L OP_SI a p s) (valOk L ip b s (hasType L (llInt L n)))"
  using load_ok [OF assms(1-3), of a] by (rule llOk_mono) (use assms(4) in \<open>auto simp: valOk_def\<close>)

section \<open>Storing\<close>

definition regBits :: "regtype \<Rightarrow> nat" where
  "regBits t = (case t of RT_GP8Leg \<Rightarrow> 8 | RT_GP8 \<Rightarrow> 8 | RT_GP16 \<Rightarrow> 16 | RT_GP32 \<Rightarrow> 32 | _ \<Rightarrow> 64)"

text \<open>An operand that a value of a data type can be stored in.\<close>

definition writable :: "bool \<Rightarrow> operanddatatype \<Rightarrow> partialregisterhandling \<Rightarrow> operand \<Rightarrow> bool" where
  "writable ip t prh p \<longleftrightarrow>
     (case ll_operand_get_type_length t p of None \<Rightarrow> False
      | Some n \<Rightarrow>
          (opIsReg p \<and> (if prh = REG_DEFAULT then llGpReg (oreg p) \<and> n = regBits (rt (oreg p))
             else rt (oreg p) \<in> {RT_XMM, RT_YMM} \<and> ri (oreg p) < 16))
          \<or> (opIsInd p \<and> addrOk ip p \<and> typeFits t n))"

lemma llGp_types: "llGpReg r \<Longrightarrow> rt r \<in> {RT_GP8Leg, RT_GP8, RT_GP16, RT_GP32, RT_GP64}"
  by (auto simp: llGpReg_def regTypeIsGP_def)

lemma store_gp_ok:
  assumes T: "llTyping L" and c: "curOk L ip b s" and r: "llGpReg (oreg p)"
    and n: "ll_operand_get_type_length t p = Some (regBits (rt (oreg p)))"
  shows "llOk (ll_operand_store_gp L v t p s) (stepOk L ip b s)"
proof -
  note ct = llTyping_build [OF T, of "BuildCast k v t" for k v t, simplified]
  note bt = llTyping_build [OF T, of "BuildBin k v t" for k v t, simplified]
  let ?r = "oreg p" and ?i64 = "llInt L 64"
  have merge: "llOk (do {
      (current, s) \<leftarrow> ll_get_register L ?r FACET_I64 s1;
      let (masked, s) = llb L (BuildBin LAnd current m) s;
      Some (llb L (BuildBin LOr masked x) s) }) (valOk L ip b s1 (hasType L ?i64))"
    if "curOk L ip b s1" for s1 m x
    by (rule seq_val_val [OF that get_register_ok [OF T that gpReg_usable [OF r]]])
      (simp add: case_prod_unfold valOk_def bt Let_def)
  have finish: "llOk (do {
      s \<leftarrow> ll_set_register L ?r FACET_I64 result True s1;
      s \<leftarrow> (if rt ?r = RT_GP32 then ll_set_register L ?r FACET_I32 v1 False s else Some s);
      s \<leftarrow> (if rt ?r = RT_GP16 then ll_set_register L ?r FACET_I16 v1 False s else Some s);
      s \<leftarrow> (if rt ?r = RT_GP8 then ll_set_register L ?r FACET_I8 v1 False s else Some s);
      (if rt ?r = RT_GP8Leg then ll_set_register L ?r FACET_I8H v1 False s else Some s) })
    (stepOk L ip b s1)"
    if "curOk L ip b s1" "hasType L ?i64 result" "hasType L (llInt L (regBits (rt ?r))) v1" for s1 result v1
  proof (intro seq_step)
    show "llOk (ll_set_register L ?r FACET_I64 result True s1) (stepOk L ip b s1)"
      using set_i64_ok [OF T that(1) r that(2)] by (rule llOk_mono) simp
  qed (use that in \<open>auto simp: regBits_def intro!: add_facet_ok [OF T _ r]\<close>)
  let ?w = "regBits (rt ?r)"
  have "llOk (do {
      (result, s) \<leftarrow>
       (if rt ?r = RT_GP32 \<or> rt ?r = RT_GP64 then Some (value64, s1)
        else do {
          (mask, value64, s) \<leftarrow>
            (if highByte ?r then
               (let (x, s) = llb L (BuildBin LShl value64 (llConstInt L ?i64 8)) s1
                in Some (0xff00 :: u64, x, s))
             else if rt ?r = RT_GP8 \<or> rt ?r = RT_GP8Leg then Some (0xff, value64, s1)
             else if rt ?r = RT_GP16 then Some (0xffff, value64, s1)
             else None);
          (current, s) \<leftarrow> ll_get_register L ?r FACET_I64 s;
          let (masked, s) = llb L (BuildBin LAnd current (llConstInt L ?i64 (NOT mask))) s;
          Some (llb L (BuildBin LOr masked value64) s) });
      s \<leftarrow> ll_set_register L ?r FACET_I64 result True s;
      s \<leftarrow> (if rt ?r = RT_GP32 then ll_set_register L ?r FACET_I32 v1 False s else Some s);
      s \<leftarrow> (if rt ?r = RT_GP16 then ll_set_register L ?r FACET_I16 v1 False s else Some s);
      s \<leftarrow> (if rt ?r = RT_GP8 then ll_set_register L ?r FACET_I8 v1 False s else Some s);
      (if rt ?r = RT_GP8Leg then ll_set_register L ?r FACET_I8H v1 False s else Some s) })
    (stepOk L ip b s1)" (is "llOk (Option.bind ?m ?f) _")
    if c1: "curOk L ip b s1" and v: "hasType L (llInt L ?w) v1" "hasType L ?i64 value64" for s1 v1 value64
  proof (rule seq_val [OF c1])
    show "llOk ?m (valOk L ip b s1 (hasType L ?i64))"
    proof (cases "rt ?r = RT_GP32 \<or> rt ?r = RT_GP64")
      case True
      then show ?thesis using c1 v(2) by auto
    next
      case False
      let ?x = "llb L (BuildBin LShl value64 (llConstInt L ?i64 8)) s1"
      have "llOk (do {
          (current, s) \<leftarrow> ll_get_register L ?r FACET_I64 (snd ?x);
          let (masked, s) = llb L (BuildBin LAnd current m) s;
          Some (llb L (BuildBin LOr masked x) s) }) (valOk L ip b s1 (hasType L ?i64))" for m x
        using merge [of "snd ?x" m x] c1 by (simp add: valOk_def)
      then show ?thesis
        using llGp_types [OF r] False merge [OF c1] by (auto simp: case_prod_unfold)
    qed
  qed (use v in \<open>simp add: finish\<close>)
  from this [of "snd (llb L (BuildCast LZExtOrBitCast v1 ?i64) (snd (llb L (BuildCast LSExtOrBitCast v (llInt L ?w)) s)))" for v1]
  show ?thesis
    using c by (simp add: ll_operand_store_gp_def n Let_def case_prod_unfold ct)
qed

lemma set_ivec_ok:
  assumes "llTyping L" "curOk L ip b s" "rt r \<in> {RT_XMM, RT_YMM}" "ri r < 16" "llTypeOf L v = llInt L 128"
  shows "llOk (ll_set_register L r FACET_IVEC v True s) (stepOk L ip b s)"
proof -
  have u: "usableReg ip r" "ll_regfile_get_ptr r = Some (SseRegister (ri r))"
    using assms(3,4) by (auto simp: usableReg_def ll_regfile_get_ptr_def)
  show ?thesis
    using set_native_ok [OF assms(1) curOk_blk(1) [OF assms(2)] u, of v] curOk_blk(2) [OF assms(2)] assms(5)
    by (auto simp: ll_set_register_def elim!: llOk_mono)
qed

lemma store_vreg_ok:
  assumes T: "llTyping L" and c: "curOk L ip b s" and r: "opIsReg p" "rt (oreg p) \<in> {RT_XMM, RT_YMM}"
      "ri (oreg p) < 16"
    and n: "ll_operand_get_type_length t p = Some n"
  shows "llOk (ll_operand_store_vreg L v t p prh s) (stepOk L ip b s)"
proof -
  note ct = llTyping_build [OF T, of "BuildCast k v t" for k v t, simplified]
  have u: "usableReg ip (oreg p)" using r by (auto simp: usableReg_def)
  have vr: "opIsVReg p = Some True" using r by (auto simp: opIsVReg_def regIsV_def)
  have set: "llOk (ll_set_register L (oreg p) FACET_IVEC (fst (llb L (BuildCast LBitCast x (llInt L 128)) s'))
      True (snd (llb L (BuildCast LBitCast x (llInt L 128)) s'))) (stepOk L ip b s1)"
    if "curOk L ip b s1" "stepOk L ip b s1 s'" for x s' s1
  proof -
    have "curOk L ip b (snd (llb L (BuildCast LBitCast x (llInt L 128)) s'))"
      using curOk_step [OF that] by simp
    from set_ivec_ok [OF T this r(2,3) ct] show ?thesis using that(2) by (auto intro: llOk_after)
  qed
  show ?thesis
    unfolding ll_operand_store_vreg_def n vr
    by (simp only: Option.bind.bind_lunit c_assert_True Let_def, rule seq_val [OF c get_register_ok [OF T c u]])
      (simp add: case_prod_unfold Let_def set)
qed

lemma store_ok:
  assumes T: "llTyping L" and c: "curOk L ip b s" and p: "writable ip t prh p"
  shows "llOk (ll_operand_store L t a p prh v s) (stepOk L ip b s)"
proof -
  obtain n where n: "ll_operand_get_type_length t p = Some n"
    using p by (auto simp: writable_def split: option.splits)
  consider (gp) "opIsReg p" "prh = REG_DEFAULT" "llGpReg (oreg p)" "n = regBits (rt (oreg p))"
    | (vr) "opIsReg p" "prh \<noteq> REG_DEFAULT" "rt (oreg p) \<in> {RT_XMM, RT_YMM}" "ri (oreg p) < 16"
    | (ind) "\<not> opIsReg p" "opIsInd p" "addrOk ip p" "typeFits t n"
    using p n operand_kinds(3) [of p] by (auto simp: writable_def split: if_splits)
  then show ?thesis
  proof cases
    case gp
    have "opIsGPReg p = Some True" using gp(1) gpReg_ptr [OF gp(3)] by (auto simp: opIsGPReg_def)
    then show ?thesis using gp store_gp_ok [OF T c gp(3), of t v] n by (simp add: ll_operand_store_def)
  next
    case vr
    have "opIsVReg p = Some True" using vr(1,3,4) by (auto simp: opIsVReg_def regIsV_def)
    then show ?thesis
      using vr store_vreg_ok [OF T c vr(1,3,4) n, of v prh] by (simp add: ll_operand_store_def)
  next
    case ind
    obtain ty where ty: "ll_operand_get_type L t n = Some ty" using typeFits_type [OF ind(4), of L] by (rule exE)
    have "llOk (do {
        (address, s) \<leftarrow> ll_operand_get_address L t p s;
        let ty = llElementType L (llTypeOf L address);
        let (result, s) = llb L (BuildCast LBitCast v ty) s;
        let (store, s) = llb L (BuildStore result address) s;
        Some (llc L (LLVMSetAlignment store (alignBytes a n)) s) }) (stepOk L ip b s)"
      by (rule seq_val [OF c get_address_ok [OF T c ind(3) n ty]], erule conjE)
        (simp add: case_prod_unfold Let_def)
    then show ?thesis using ind(1,2) n by (simp add: ll_operand_store_def)
  qed
qed

end
