(* ===== verification/LLInstrTyping.thy ===== *)
theory LLInstrTyping
  imports LLOperandTyping
begin

text \<open>
  The translation of an instruction: when its operands are such that the code supports them, the
  translation never traps, and the register file of the current block stays well-formed.
\<close>

section \<open>Steps after steps\<close>

text \<open>The rules for the parts of a translation, in a form that fits in after other steps.\<close>

lemma later:
  assumes "\<And>s. curOk L ip b s \<Longrightarrow> llOk (m s) (stepOk L ip b s)"
    and "curOk L ip b s" "stepOk L ip b s s1"
  shows "llOk (m s1) (stepOk L ip b s)"
  using assms(1) [OF curOk_step [OF assms(2,3)]] assms(3) by (auto intro: llOk_after)

lemma later_flags:
  assumes "curOk L ip b s" "stepOk L ip b s s1"
  shows "llOk (ll_flags_set_sub L x y z s1) (stepOk L ip b s)"
    "llOk (ll_flags_set_add L x y z s1) (stepOk L ip b s)"
    "llOk (ll_flags_set_inc L x y s1) (stepOk L ip b s)"
    "llOk (ll_flags_set_dec L x y s1) (stepOk L ip b s)"
    "llOk (ll_flags_set_shl L x s1) (stepOk L ip b s)"
    "llOk (ll_flags_set_shr L x s1) (stepOk L ip b s)"
    "llOk (ll_flags_set_sar L x s1) (stepOk L ip b s)"
    "llOk (ll_flags_set_bit L x s1) (stepOk L ip b s)"
  using flags_ok [OF curOk_step [OF assms]] flags_ok_invalid [OF curOk_step [OF assms]] assms(2)
  by (blast intro: llOk_after)+

lemma later_store:
  assumes "llTyping L" "writable ip t prh p" "curOk L ip b s" "stepOk L ip b s s1"
  shows "llOk (ll_operand_store L t a p prh v s1) (stepOk L ip b s)"
  by (rule later [OF store_ok [OF assms(1) _ assms(2)] assms(3,4)])

text \<open>The width of an operand, and whether it is a general purpose operand.\<close>

definition scalar :: "operand \<Rightarrow> nat \<Rightarrow> bool" where
  "scalar p n \<longleftrightarrow> opTypeWidth p = Some n \<and> readable True OP_SI p"

definition target :: "operand \<Rightarrow> nat \<Rightarrow> bool" where
  "target p n \<longleftrightarrow> scalar p n \<and> writable True OP_SI REG_DEFAULT p"

lemma loadOperands_ok:
  assumes T: "llTyping L" and c: "curOk L True b s" and p: "scalar p n" "scalar q m"
  obtains x y s1 where "loadOperands L p q s = Some (x, y, s1)" "hasType L (llInt L n) x"
    "hasType L (llInt L n) y" "stepOk L True b s s1" "curOk L True b s1"
proof -
  have n: "opTypeWidth p = Some n" "readable True OP_SI p" "opTypeWidth q = Some m" "readable True OP_SI q"
    using p by (simp_all add: scalar_def)
  obtain x s1 where x: "ll_operand_load L OP_SI ALIGN_MAXIMUM p s = Some (x, s1)" "hasType L (llInt L n) x"
      "stepOk L True b s s1"
    using load_si_ok [OF T c n(2,1), of ALIGN_MAXIMUM] by (elim llOkE) (auto simp: valOk_def)
  have c1: "curOk L True b s1" by (rule curOk_step [OF c x(3)])
  obtain y s2 where y: "ll_operand_load L OP_SI ALIGN_MAXIMUM q s1 = Some (y, s2)" "stepOk L True b s1 s2"
    using load_si_ok [OF T c1 n(4,3), of ALIGN_MAXIMUM] by (elim llOkE) (auto simp: valOk_def)
  have s2: "stepOk L True b s s2" by (rule stepOk_trans [OF x(3) y(2)])
  show ?thesis
  proof
    show "loadOperands L p q s = Some (x, fst (llb L (BuildCast LSExtOrBitCast y (llTypeOf L x)) s2),
        snd (llb L (BuildCast LSExtOrBitCast y (llTypeOf L x)) s2))"
      by (simp add: loadOperands_def x(1) y(1) Let_def split: prod.splits)
  qed (use x(2) s2 curOk_step [OF c s2] llTyping_build [OF T, of "BuildCast LSExtOrBitCast y (llTypeOf L x)" "llTypeOf L x" s2] in simp_all)
qed

section \<open>General purpose instructions\<close>

lemma scalar_reg64:
  assumes "target p 64" "opIsReg p"
  shows "llGpReg (oreg p)" "rt (oreg p) = RT_GP64" "ll_operand_get_facet OP_SI p = Some FACET_I64"
proof -
  have w: "opTypeWidth p = Some 64" using assms(1) by (simp add: target_def scalar_def)
  then have "ll_operand_get_type_length OP_SI p = Some 64" by (simp add: ll_operand_get_type_length_def)
  then have g: "llGpReg (oreg p)" "regBits (rt (oreg p)) = 64"
    using assms operand_kinds(3) [of p] by (auto simp: target_def writable_def)
  then show "llGpReg (oreg p)" "rt (oreg p) = RT_GP64" using llGp_types [OF g(1)] by (auto simp: regBits_def)
  show "ll_operand_get_facet OP_SI p = Some FACET_I64" using w by (simp add: ll_operand_get_facet_def)
qed

text \<open>A 64-bit register as the destination: the loaded value is constant if the register is.\<close>

lemma loadOperands_reg64:
  assumes T: "llTyping L" and c: "curOk L True b s" and p: "target p 64" "opIsReg p" "scalar q m"
  obtains x y s1 where "loadOperands L p q s = Some (x, y, s1)" "hasType L (llInt L 64) x"
    "stepOk L True b s s1" "curOk L True b s1" "llIsConstant L x = regConst L b (oreg p) s1"
proof -
  note r = scalar_reg64 [OF p(1,2)]
  have q: "opTypeWidth q = Some m" "readable True OP_SI q" using p(3) by (simp_all add: scalar_def)
  have "ll_operand_load L OP_SI ALIGN_MAXIMUM p s = ll_get_register L (oreg p) FACET_I64 s"
    using p(1,2) operand_kinds(1) [of p] r(3)
    by (simp add: ll_operand_load_def target_def scalar_def ll_operand_get_type_length_def)
  then obtain x s1 where x: "ll_operand_load L OP_SI ALIGN_MAXIMUM p s = Some (x, s1)"
      "hasType L (llInt L 64) x" "stepOk L True b s s1" "grows b s s1"
      "llIsConstant L x = regConst L b (oreg p) s"
    using get_i64_ok [OF T c wordReg_gp [OF r(1)]] by (elim llOkE) (auto simp: valOk_def)
  have c1: "curOk L True b s1" by (rule curOk_step [OF c x(3)])
  obtain y s2 where y: "ll_operand_load L OP_SI ALIGN_MAXIMUM q s1 = Some (y, s2)" "stepOk L True b s1 s2"
      "grows b s1 s2"
    using load_si_ok [OF T c1 q(2,1), of ALIGN_MAXIMUM] by (elim llOkE) (auto simp: valOk_def)
  have s2: "stepOk L True b s s2" "grows b s s2" by (rule stepOk_trans [OF x(3) y(2)], rule grows_trans [OF x(4) y(3)])
  have "regConst L b (oreg p) s2 = regConst L b (oreg p) s"
    by (rule regConst_grows [OF c wordReg_gp [OF r(1)] s2(2)])
  show ?thesis
  proof
    show "loadOperands L p q s = Some (x, fst (llb L (BuildCast LSExtOrBitCast y (llTypeOf L x)) s2),
        snd (llb L (BuildCast LSExtOrBitCast y (llTypeOf L x)) s2))"
      by (simp add: loadOperands_def x(1) y(1) Let_def split: prod.splits)
    show "llIsConstant L x = regConst L b (oreg p) (snd (llb L (BuildCast LSExtOrBitCast y (llTypeOf L x)) s2))"
      using x(5) \<open>regConst L b (oreg p) s2 = regConst L b (oreg p) s\<close> by (simp add: regConst_def llBlock_def)
  qed (use x(2) s2 curOk_step [OF c s2(1)] in simp_all)
qed

lemma storeWithPointer_ok:
  assumes T: "llTyping L" and c: "curOk L True b s" and r: "llGpReg (oreg p)"
    and v: "hasType L (llInt L 64) result"
      "regConst L b (oreg p) s \<Longrightarrow> llIsConstant L off \<Longrightarrow> llIsConstant L result"
  shows "llOk (storeWithPointer L p result off s) (stepOk L True b s)"
proof -
  obtain k where k: "ll_regfile_get_ptr (oreg p) = Some (GpRegister k)" using gpReg_ptr [OF r] by auto
  obtain ptr s1 where p1: "ll_get_register L (oreg p) FACET_PTR s = Some (ptr, s1)" "hasType L (llPtr8 L) ptr"
      "llIsConstant L ptr \<Longrightarrow> regConst L b (oreg p) s" "stepOk L True b s s1"
    using get_ptr_ok [OF T c wordReg_gp [OF r]] by (elim llOkE) (auto simp: valOk_def)
  let ?g = "llb L (BuildGEP ptr [off]) s1"
  have c2: "curOk L True b (snd ?g)" using curOk_step [OF c p1(4)] by simp
  have g: "hasType L (llPtr8 L) (fst ?g)" "llIsConstant L (fst ?g) \<Longrightarrow> llIsConstant L result"
    using llTyping_build [OF T, of "BuildGEP ptr [off]" "llPtr8 L" s1] p1(2,3)
      llTyping_constant(5) [OF T, of ptr off s1] v(2) by auto
  obtain s3 where s3: "ll_set_register L (oreg p) FACET_I64 result True (snd ?g) = Some s3"
      "stepOk L True b (snd ?g) s3" "llFacet s3 b (GpRegister k) FACET_I64 = Some result"
    using set_i64_ok [OF T c2 r v(1)] k by (elim llOkE) auto
  have c3: "curOk L True b s3" by (rule curOk_step [OF c2 s3(2)])
  have "llOk (ll_set_register L (oreg p) FACET_PTR (fst ?g) False s3) (stepOk L True b s3)"
    using set_facet_ok [OF T curOk_blk(1) [OF c3] gpReg_usable [OF r] k, of "fst ?g" FACET_PTR] g s3(3)
      curOk_blk(2) [OF c3] by (simp add: ll_set_register_def)
  moreover have "stepOk L True b s s3" using stepOk_trans [OF p1(4)] s3(2) by simp
  ultimately show ?thesis
    by (simp add: storeWithPointer_def p1(1) s3(1) Let_def case_prod_unfold llOk_after)
qed

lemma add_sub_ok:
  assumes T: "llTyping L" and c: "curOk L True b s" and p: "target (idst i) n" "scalar (isrc i) m"
  shows "llOk (ll_instruction_add L i s) (stepOk L True b s)"
    "llOk (ll_instruction_sub L i s) (stepOk L True b s)"
proof -
  note bt = llTyping_build [OF T, of "BuildBin k v t" for k v t, simplified]
  note k = llTyping_constant [OF T]
  have p': "scalar (idst i) n" "writable True OP_SI REG_DEFAULT (idst i)" using p(1) by (simp_all add: target_def)
  have "llOk (ll_instruction_add L i s) (stepOk L True b s) \<and> llOk (ll_instruction_sub L i s) (stepOk L True b s)"
  proof (cases "n = 64 \<and> opIsReg (idst i)")
    case True
    then obtain x y s1 where l: "loadOperands L (idst i) (isrc i) s = Some (x, y, s1)" "hasType L (llInt L 64) x"
        "stepOk L True b s s1" "curOk L True b s1" "llIsConstant L x = regConst L b (oreg (idst i)) s1"
      using loadOperands_reg64 [OF T c _ _ p(2)] p(1) by blast
    note r = scalar_reg64(1) [of "idst i"]
    have rc: "regConst L b (oreg (idst i)) (snd (llb L j s1)) = regConst L b (oreg (idst i)) s1" for j s1
      by (simp add: regConst_def llBlock_def)
    have store: "llOk (do { s \<leftarrow> storeWithPointer L (idst i) result off s2; flags s }) (stepOk L True b s1)"
      if "curOk L True b s2" "stepOk L True b s2 = stepOk L True b s1" "hasType L (llInt L 64) result"
        "regConst L b (oreg (idst i)) s2 \<Longrightarrow> llIsConstant L off \<Longrightarrow> llIsConstant L result"
        "\<And>s. curOk L True b s \<Longrightarrow> llOk (flags s) (stepOk L True b s)" for result off s2 flags
    proof -
      have "llOk (do { s \<leftarrow> storeWithPointer L (idst i) result off s2; flags s }) (stepOk L True b s2)"
        using True p(1) that storeWithPointer_ok [OF T that(1) r that(3,4)] by (intro seq_step) auto
      then show ?thesis using that(2) by simp
    qed
    have "llOk (ll_instruction_add L i s) (stepOk L True b s1)"
      unfolding ll_instruction_add_def l(1)
      using True l(2,4,5) llTyping_types(6) [OF T]
      by (simp add: case_prod_unfold Let_def) (rule store; simp add: bt rc k(6) flags_ok)
    moreover have "llOk (ll_instruction_sub L i s) (stepOk L True b s1)"
      unfolding ll_instruction_sub_def l(1)
      using True l(2,4,5) llTyping_types(6) [OF T]
      by (simp add: case_prod_unfold Let_def) (rule store; simp add: bt rc k(6,7) flags_ok)
    ultimately show ?thesis using l(3) by (blast intro: llOk_after)
  next
    case False
    obtain x y s1 where l: "loadOperands L (idst i) (isrc i) s = Some (x, y, s1)" "hasType L (llInt L n) x"
        "stepOk L True b s s1" "curOk L True b s1"
      by (rule loadOperands_ok [OF T c p'(1) p(2)])
    have ne: "(llIntTypeWidth L (llTypeOf L x) = 64 \<and> opIsReg (idst i)) = False"
      using False l(2) llTyping_types(6) [OF T, of n] by auto
    have store: "llOk (do { s \<leftarrow> ll_operand_store L OP_SI a (idst i) REG_DEFAULT result s2; flags s }) (stepOk L True b s1)"
      if "curOk L True b s2" "stepOk L True b s2 = stepOk L True b s1"
        "\<And>s. curOk L True b s \<Longrightarrow> llOk (flags s) (stepOk L True b s)" for result a s2 flags
      using seq_step [OF that(1) store_ok [OF T that(1) p'(2)] that(3)] that(2) by simp
    have "llOk (ll_instruction_add L i s) (stepOk L True b s1)"
      unfolding ll_instruction_add_def l(1)
      using l(4) by (simp add: case_prod_unfold Let_def ne) (rule store; simp add: flags_ok)
    moreover have "llOk (ll_instruction_sub L i s) (stepOk L True b s1)"
      unfolding ll_instruction_sub_def l(1)
      using l(4) by (simp add: case_prod_unfold Let_def ne) (rule store; simp add: flags_ok)
    ultimately show ?thesis using l(3) by (blast intro: llOk_after)
  qed
  then show "llOk (ll_instruction_add L i s) (stepOk L True b s)"
    "llOk (ll_instruction_sub L i s) (stepOk L True b s)" by simp_all
qed

lemma load_scalar:
  assumes "llTyping L" "curOk L True b s" "scalar p n"
  shows "llOk (ll_operand_load L OP_SI a p s) (valOk L True b s (hasType L (llInt L n)))"
  using load_si_ok assms by (auto simp: scalar_def)

lemma target_scalar: "target p n \<Longrightarrow> scalar p n" "target p n \<Longrightarrow> writable True OP_SI REG_DEFAULT p"
  by (simp_all add: target_def)

lemma cmp_test_ok:
  assumes T: "llTyping L" and c: "curOk L True b s" and p: "scalar (idst i) n" "scalar (isrc i) m"
  shows "llOk (ll_instruction_cmp L i s) (stepOk L True b s)"
    "llOk (ll_instruction_test L i s) (stepOk L True b s)"
proof -
  obtain x y s1 where l: "loadOperands L (idst i) (isrc i) s = Some (x, y, s1)" "stepOk L True b s s1" "curOk L True b s1"
    by (rule loadOperands_ok [OF T c p])
  have "llOk (ll_instruction_cmp L i s) (stepOk L True b s1)" "llOk (ll_instruction_test L i s) (stepOk L True b s1)"
    using l(1,3) by (simp_all add: ll_instruction_cmp_def ll_instruction_test_def case_prod_unfold Let_def later_flags)
  then show "llOk (ll_instruction_cmp L i s) (stepOk L True b s)" "llOk (ll_instruction_test L i s) (stepOk L True b s)"
    using l(2) by (auto intro: llOk_after)
qed

lemma scalar_reg: "scalar p n \<Longrightarrow> opIsReg p \<Longrightarrow> usableReg False (oreg p)"
  using operand_kinds by (auto simp: scalar_def readable_def split: option.splits)

lemma gp_defined:
  assumes "scalar p n" shows "\<exists>g. opIsGPReg p = Some g \<and> (g \<longrightarrow> opIsReg p \<and> llGpReg (oreg p))"
proof (cases "opIsReg p")
  case True
  have "usableReg False (oreg p)" by (rule scalar_reg [OF assms True])
  then have "regTypeIsGP (rt (oreg p)) \<Longrightarrow> ri (oreg p) < 16"
    by (auto simp: usableReg_def regTypeIsGP_def)
  then show ?thesis
    using \<open>usableReg False (oreg p)\<close> True by (auto simp: opIsGPReg_def regIsGP_def llGpReg_def)
qed (auto simp: opIsGPReg_def)

lemma mov_ok:
  assumes T: "llTyping L" and c: "curOk L True b s" and p: "target (idst i) n" "scalar (isrc i) m"
  shows "llOk (ll_instruction_movgp L i s) (stepOk L True b s)"
proof -
  obtain g where g: "opIsGPReg (idst i) = Some g" "g \<longrightarrow> llGpReg (oreg (idst i))"
    using gp_defined [OF target_scalar(1) [OF p(1)]] by auto
  obtain h where h: "opIsGPReg (isrc i) = Some h" "h \<longrightarrow> llGpReg (oreg (isrc i))"
    using gp_defined [OF p(2)] by auto
  have w: "opTypeWidth (idst i) = Some n" "opTypeWidth (isrc i) = Some m"
    using p by (simp_all add: target_def scalar_def)
  have "llOk (ll_regfile_rename (ll_currentBB s) (oreg (idst i)) (oreg (isrc i)) s) (stepOk L True b s)"
    if gp: "llGpReg (oreg (idst i))" "llGpReg (oreg (isrc i))"
  proof -
    obtain k l where "ll_regfile_get_ptr (oreg (idst i)) = Some (GpRegister k)"
        "ll_regfile_get_ptr (oreg (isrc i)) = Some (GpRegister l)"
      using gpReg_ptr [OF gp(1)] gpReg_ptr [OF gp(2)] by auto
    from rename_ok [OF curOk_blk(1) [OF c] gpReg_usable [OF gp(1)] gpReg_usable [OF gp(2)] this]
    show ?thesis using curOk_blk(2) [OF c] by simp
  qed
  moreover have "llOk (do {
        ty \<leftarrow> opSize L (idst i);
        (v, s) \<leftarrow> ll_operand_load L OP_SI ALIGN_MAXIMUM (isrc i) s;
        let (v, s) = (if itype i = IT_MOVZX then llb L (BuildCast LZExtOrBitCast v ty) s
          else if itype i = IT_MOVSX then llb L (BuildCast LSExtOrBitCast v ty) s else (v, s));
        ll_operand_store L OP_SI ALIGN_MAXIMUM (idst i) REG_DEFAULT v s }) (stepOk L True b s)"
    by (simp only: opSize_def w Option.bind.bind_lunit, rule seq_val [OF c load_scalar [OF T c p(2)]])
       (simp add: case_prod_unfold Let_def later_store [OF T target_scalar(2) [OF p(1)]])
  ultimately show ?thesis
    using g h by (simp add: ll_instruction_movgp_def w)
qed

lemma notneg_ok:
  assumes T: "llTyping L" and c: "curOk L True b s" and p: "target (idst i) n"
  shows "llOk (ll_instruction_notneg L i s) (stepOk L True b s)"
proof -
  have neg: "llOk (do {
        s \<leftarrow> ll_flags_set_pf L r s2;
        s \<leftarrow> ll_flags_set_zf L r s;
        s \<leftarrow> ll_flags_set_sf L r s;
        s \<leftarrow> ll_flags_set_af L r z x s;
        s \<leftarrow> ll_flags_set_of_sub L r z x s;
        ll_operand_store L OP_SI ALIGN_MAXIMUM (idst i) REG_DEFAULT r s }) (stepOk L True b s1)"
    if "curOk L True b s1" "s2 = ll_set_flag RFLAG_CF cf (ll_flags_invalidate L s3)"
       "curOk L True b s3" "stepOk L True b s3 = stepOk L True b s1" for r z x s1 s2 s3 cf
  proof -
    have "stepOk L True b s3 s2"
      using stepOk_trans [OF flags_invalidate_ok [OF that(3)]
          set_flag_step [OF curOk_step [OF that(3) flags_invalidate_ok [OF that(3)]]]] that(2) by simp
    moreover from this have "curOk L True b s2" by (rule curOk_step [OF that(3)])
    then have "llOk (do {
        s \<leftarrow> ll_flags_set_pf L r s2;
        s \<leftarrow> ll_flags_set_zf L r s;
        s \<leftarrow> ll_flags_set_sf L r s;
        s \<leftarrow> ll_flags_set_af L r z x s;
        s \<leftarrow> ll_flags_set_of_sub L r z x s;
        ll_operand_store L OP_SI ALIGN_MAXIMUM (idst i) REG_DEFAULT r s }) (stepOk L True b s2)"
      by (intro seq_step single_flags_ok store_ok [OF T _ target_scalar(2) [OF p]])
    ultimately show ?thesis using llOk_after [of L True b s3 s2] that(4) by simp
  qed
  show ?thesis
    unfolding ll_instruction_notneg_def
    by (rule seq_val [OF c load_scalar [OF T c target_scalar(1) [OF p]]])
      (cases "itype i = IT_NEG"; simp add: case_prod_unfold Let_def Option.bind_assoc
        later_store [OF T target_scalar(2) [OF p]] neg [OF _ refl])
qed

lemma incdec_ok:
  assumes T: "llTyping L" and c: "curOk L True b s" and p: "target (idst i) n"
  shows "llOk (ll_instruction_incdec L i s) (stepOk L True b s)"
proof -
  have store: "llOk (do { s \<leftarrow> m; ll_operand_store L OP_SI a (idst i) REG_DEFAULT r s }) (stepOk L True b s1)"
    if "curOk L True b s1" "llOk m (stepOk L True b s1)" for m r a s1
    by (rule seq_step [OF that store_ok [OF T _ target_scalar(2) [OF p]]])
  show ?thesis
    unfolding ll_instruction_incdec_def Let_def
    by (rule seq_val [OF c load_scalar [OF T c target_scalar(1) [OF p]]])
      (cases "itype i = IT_INC"; simp add: case_prod_unfold Let_def Option.bind_assoc store later_flags)
qed

lemma shift_ok:
  assumes T: "llTyping L" and c: "curOk L True b s" and p: "target (idst i) n"
    and q: "iform i \<noteq> OF_1 \<Longrightarrow> scalar (isrc i) m" and t: "itype i \<in> {IT_SHL, IT_SHR, IT_SAR}"
  shows "llOk (ll_instruction_shift L i s) (stepOk L True b s)"
proof -
  have count: "llOk (if iform i = OF_1 then Some (constLike L x 1, s1)
        else do {
          (y, s) \<leftarrow> ll_operand_load L OP_SI ALIGN_MAXIMUM (isrc i) s1;
          let (y, s) = llb L (BuildCast LZExtOrBitCast y (llTypeOf L x)) s;
          let maskValue = (if llIntTypeWidth L (llTypeOf L x) \<noteq> 64 then 0x1f else 0x3f);
          Some (llb L (BuildBin LAnd y (constLike L x maskValue)) s) }) (valOk L True b s1 (\<lambda>_. True))"
    if "curOk L True b s1" for x s1
  proof (cases "iform i = OF_1")
    case False
    show ?thesis unfolding if_not_P [OF False]
      by (rule seq_val_val [OF that load_scalar [OF T that q [OF False]]])
        (simp add: case_prod_unfold Let_def valOk_def)
  qed (use that in simp)
  have store: "llOk (do { s \<leftarrow> m; ll_operand_store L OP_SI a (idst i) REG_DEFAULT r s }) (stepOk L True b s1)"
    if "curOk L True b s1" "llOk m (stepOk L True b s1)" for m r a s1
    by (rule seq_step [OF that store_ok [OF T _ target_scalar(2) [OF p]]])
  show ?thesis
    unfolding ll_instruction_shift_def
    apply (rule seq_val [OF c load_scalar [OF T c target_scalar(1) [OF p]]])
    apply (unfold split)
    apply (rule seq_val, assumption, rule count, assumption)
    using t by (auto simp: case_prod_unfold Let_def Option.bind_assoc store later_flags)
qed

lemma cmov_setcc_ok:
  assumes T: "llTyping L" and c: "curOk L True b s" and p: "target (idst i) n"
  shows "scalar (isrc i) m \<Longrightarrow> llOk (ll_instruction_cmov L cc i s) (stepOk L True b s)"
    "llOk (ll_instruction_setcc L cc i s) (stepOk L True b s)"
proof -
  note store = later_store [OF T target_scalar(2) [OF p]]
  show "llOk (ll_instruction_setcc L cc i s) (stepOk L True b s)"
    unfolding ll_instruction_setcc_def
    by (rule seq_val [OF c condition_ok [OF c]]) (simp add: case_prod_unfold Let_def store)
  assume q: "scalar (isrc i) m"
  show "llOk (ll_instruction_cmov L cc i s) (stepOk L True b s)"
    unfolding ll_instruction_cmov_def
    apply (rule seq_val [OF c condition_ok [OF c]])
    apply (unfold split)
    apply (rule seq_val, assumption, rule load_scalar [OF T _ q], assumption)
    apply (unfold split)
    apply (rule seq_val, assumption, rule load_scalar [OF T _ target_scalar(1) [OF p]], assumption)
    by (simp add: case_prod_unfold Let_def store)
qed

text \<open>The operands that the translation makes of general purpose registers.\<close>

lemma gpTarget:
  assumes "t \<in> {RT_GP8, RT_GP16, RT_GP32, RT_GP64}" "k < 16"
  shows "\<exists>p. getReg t k = Some \<lparr>rt = t, ri = k\<rparr> \<and> getRegOp \<lparr>rt = t, ri = k\<rparr> = Some p
    \<and> target p (regBits t) \<and> opIsReg p \<and> oreg p = \<lparr>rt = t, ri = k\<rparr>"
  using assms
  by (auto simp: getReg_def getRegOp_def setRegOp_def regIsGP_def regTypeIsGP_def regValType_def
      regValTypeT_def getGPRegOpType_def target_def scalar_def readable_def writable_def regBits_def
      opTypeWidth_def opValType_def ll_operand_get_type_length_def opIsReg_def opIsImm_def opIsInd_def
      usableReg_def llGpReg_def ll_operand_get_facet_def)

lemma sizedReg_ok:
  assumes "opTypeWidth p = Some n" "n \<in> {8, 16, 32, 64}" "k < 16"
  shows "\<exists>q. sizedReg p k = Some q \<and> target q n"
proof -
  obtain vt where vt: "opValType p = Some vt" "vt \<in> {VT_8, VT_16, VT_32, VT_64}"
      "n = regBits (getGPRegType vt)" "getGPRegType vt \<in> {RT_GP8, RT_GP16, RT_GP32, RT_GP64}"
    using assms(1,2) by (auto simp: opTypeWidth_def regBits_def getGPRegType_def split: Option.bind_split_asm valtype.splits)
  show ?thesis using gpTarget [OF vt(4) assms(3)] vt(1,3) by (auto simp: sizedReg_def)
qed

lemma flag_steps:
  assumes "curOk L True b s"
  shows "stepOk L True b s (ll_set_flag f v (ll_set_flag g w s))"
  using set_flag_step [OF assms, of g w] set_flag_step [OF curOk_step [OF assms set_flag_step [OF assms]]]
  by (rule stepOk_trans)

lemma mulOperands_ok:
  assumes T: "llTyping L" and c: "curOk L True b s" and p: "target d k" "scalar p n" "scalar q m"
  shows "llOk (mulOperands L d p q s) (stepOk L True b s)"
proof -
  obtain x y s1 where l: "loadOperands L p q s = Some (x, y, s1)" "stepOk L True b s s1" "curOk L True b s1"
    by (rule loadOperands_ok [OF T c p(2,3)])
  have "llOk (do {
      s \<leftarrow> ll_operand_store L OP_SI ALIGN_MAXIMUM d REG_DEFAULT r s2;
      s \<leftarrow> ll_flags_set_sf L r s;
      Some (ll_flags_set_of_imul L r x y s) }) (stepOk L True b s2)" if "curOk L True b s2" for r s2
    using that by (intro seq_step store_ok [OF T _ target_scalar(2) [OF p(1)]] single_flags_ok)
      (simp_all add: imul_flags_ok)
  from this [of "snd (llb L (BuildBin LMul x y) s1)"]
  have "llOk (mulOperands L d p q s) (stepOk L True b s1)"
    using l(1,3) by (simp add: mulOperands_def case_prod_unfold Let_def)
  with l(2) show ?thesis by (rule llOk_after)
qed

lemma mulOneOperand_ok:
  assumes T: "llTyping L" and c: "curOk L True b s" and p: "scalar (idst i) n" "n \<in> {8, 16, 32, 64}"
  shows "llOk (mulOneOperand L i s) (stepOk L True b s)"
proof -
  have w: "opTypeWidth (idst i) = Some n" using p(1) by (simp add: scalar_def)
  obtain pa where pa: "sizedReg (idst i) RI_A = Some pa" "target pa n" using sizedReg_ok [OF w p(2), of RI_A] by auto
  obtain pd where pd: "sizedReg (idst i) RI_D = Some pd" "target pd n" using sizedReg_ok [OF w p(2), of RI_D] by auto
  obtain ax where ax: "getReg RT_GP16 RI_A = Some \<lparr>rt = RT_GP16, ri = RI_A\<rparr>"
      "getRegOp \<lparr>rt = RT_GP16, ri = RI_A\<rparr> = Some ax" "target ax 16"
    using gpTarget [of RT_GP16 RI_A] by (auto simp: regBits_def)
  have stores: "llOk (do {
      s \<leftarrow>
       (if n = 8 then ll_operand_store L OP_SI ALIGN_MAXIMUM ax REG_DEFAULT r s2
        else do {
          s \<leftarrow> ll_operand_store L OP_SI ALIGN_MAXIMUM pa REG_DEFAULT ra s2;
          ll_operand_store L OP_SI ALIGN_MAXIMUM pd REG_DEFAULT rd s });
      (if itype i = IT_MUL then
        (let (ov, s) = llb L (BuildICmp LLVMIntNE rd z) s
         in Some (ll_set_flag RFLAG_CF ov (ll_set_flag RFLAG_OF ov s)))
      else do {
        s \<leftarrow> ll_flags_set_sf L ra s;
        Some (ll_flags_set_of_imul L r x y s) }) }) (stepOk L True b s1)"
    if c2: "curOk L True b s2" and same: "stepOk L True b s2 = stepOk L True b s1" for r ra rd z x y s1 s2
  proof -
    have "llOk (if n = 8 then ll_operand_store L OP_SI ALIGN_MAXIMUM ax REG_DEFAULT r s2
        else do {
          s \<leftarrow> ll_operand_store L OP_SI ALIGN_MAXIMUM pa REG_DEFAULT ra s2;
          ll_operand_store L OP_SI ALIGN_MAXIMUM pd REG_DEFAULT rd s }) (stepOk L True b s2)"
      using c2 pa(2) pd(2) ax(3) by (auto intro!: seq_step store_ok [OF T] dest: target_scalar(2))
    moreover have "llOk (if itype i = IT_MUL then
        (let (ov, s) = llb L (BuildICmp LLVMIntNE rd z) s
         in Some (ll_set_flag RFLAG_CF ov (ll_set_flag RFLAG_OF ov s)))
      else do {
        s \<leftarrow> ll_flags_set_sf L ra s;
        Some (ll_flags_set_of_imul L r x y s) }) (stepOk L True b s)" if "curOk L True b s" for s
    proof (cases "itype i = IT_MUL")
      case True
      then show ?thesis
        using that flag_steps [of L b "snd (llb L (BuildICmp LLVMIntNE rd z) s)"]
        by (simp add: case_prod_unfold Let_def)
    next
      case False
      have "llOk (do { s \<leftarrow> ll_flags_set_sf L ra s; Some (ll_flags_set_of_imul L r x y s) }) (stepOk L True b s)"
        using that by (intro seq_step single_flags_ok) (simp_all add: imul_flags_ok)
      then show ?thesis using False by simp
    qed
    ultimately show ?thesis unfolding same [symmetric] by (intro seq_step c2)
  qed
  show ?thesis
    unfolding mulOneOperand_def
    apply (simp only: w pa pd ax Option.bind.bind_lunit Let_def)
    apply (rule seq_val [OF c load_scalar [OF T c p(1)]])
    apply (unfold split)
    apply (rule seq_val, assumption, rule load_scalar [OF T _ target_scalar(1) [OF pa(2)]], assumption)
    apply (simp only: case_prod_unfold Let_def fst_conv snd_conv)
    by (rule stores [unfolded case_prod_unfold Let_def]; simp)
qed

lemma cdqe_ok:
  assumes T: "llTyping L" and c: "curOk L True b s"
  shows "llOk (ll_instruction_cdqe L s) (stepOk L True b s)"
proof -
  obtain p where p: "getReg RT_GP32 RI_A = Some \<lparr>rt = RT_GP32, ri = RI_A\<rparr>"
      "getRegOp \<lparr>rt = RT_GP32, ri = RI_A\<rparr> = Some p" "target p 32"
    using gpTarget [of RT_GP32 RI_A] by (auto simp: regBits_def)
  obtain q where q: "getReg RT_GP64 RI_A = Some \<lparr>rt = RT_GP64, ri = RI_A\<rparr>"
      "getRegOp \<lparr>rt = RT_GP64, ri = RI_A\<rparr> = Some q" "target q 64"
    using gpTarget [of RT_GP64 RI_A] by (auto simp: regBits_def)
  show ?thesis
    unfolding ll_instruction_cdqe_def
    by (simp only: p q Option.bind.bind_lunit, rule seq_val [OF c load_scalar [OF T c target_scalar(1) [OF p(3)]]])
       (simp add: later_store [OF T target_scalar(2) [OF q(3)]])
qed

end
