(* ===== verification/LLTransTyping.thy ===== *)
theory LLTransTyping
  imports LLInstrTyping
begin

text \<open>
  The remaining instructions, and the result for all of them: an executable condition on an
  instruction under which \<open>ll_generate_instruction\<close> never traps.
\<close>

section \<open>Multiplication and addresses\<close>

lemma readable_scalar: "readable True OP_SI p \<Longrightarrow> \<exists>n. scalar p n"
  by (auto simp: scalar_def readable_def ll_operand_get_type_length_def split: option.splits)

lemma mul_ok:
  assumes T: "llTyping L" and c: "curOk L True b s" and d: "scalar (idst i) n"
    and f: "(iform i = OF_1 \<and> n \<in> {8, 16, 32, 64}) \<or> (iform i = OF_2 \<and> target (idst i) n \<and> scalar (isrc i) m)
      \<or> (iform i = OF_3 \<and> target (idst i) n \<and> scalar (isrc i) m \<and> scalar (isrc2 i) k)"
  shows "llOk (ll_instruction_mul L i s) (stepOk L True b s)"
proof -
  let ?s1 = "ll_flags_invalidate L s"
  have s1: "stepOk L True b s ?s1" by (rule flags_invalidate_ok [OF c])
  have c1: "curOk L True b ?s1" by (rule curOk_step [OF c s1])
  have "llOk (ll_instruction_mul L i s) (stepOk L True b ?s1)"
    using f mulOneOperand_ok [OF T c1 d] mulOperands_ok [OF T c1, of "idst i"] d
    by (auto simp: ll_instruction_mul_def Let_def)
  with s1 show ?thesis by (rule llOk_after)
qed

text \<open>Sequential composition that keeps what is known of the state before.\<close>

lemma seq_grow:
  assumes "curOk L ip b s" "llOk m (valOk L ip b s P)"
    "\<And>v s1. curOk L ip b s1 \<Longrightarrow> stepOk L ip b s s1 \<Longrightarrow> grows b s s1 \<Longrightarrow> P v \<Longrightarrow> llOk (f (v, s1)) Q"
  shows "llOk (Option.bind m f) Q"
proof -
  obtain v s1 where s1: "m = Some (v, s1)" "P v" "stepOk L ip b s s1" "grows b s s1"
    using assms(2) by (cases m) auto
  show ?thesis using assms(3) [OF curOk_step [OF assms(1) s1(3)] s1(3,4,2)] unfolding s1(1) by simp
qed

lemma leaBase_ok:
  assumes T: "llTyping L" and c: "curOk L ip b s" and a: "addrOk ip p"
  shows "llOk (leaBase L p s) (valOk L ip b s (\<lambda>v. addrConst L b p s \<longrightarrow> llIsConstant L v))"
proof -
  note k = llTyping_constant [OF T]
  have base: "llOk (if rt (oreg p) \<noteq> RT_None then do {
          (r, s) \<leftarrow> ll_get_register L (oreg p) FACET_I64 s;
          Some (llb L (BuildBin LAdd x r) s) }
        else Some (x, s)) (valOk L ip b s (\<lambda>v. llIsConstant L x \<longrightarrow> addrConst L b p s \<longrightarrow> llIsConstant L v))" for x
  proof (cases "rt (oreg p) = RT_None")
    case False
    show ?thesis unfolding if_P [OF False]
      by (rule seq_grow [OF c get_i64_ok [OF T c wordReg_addr(1) [OF a False]]])
        (use False k(6) [of x] in \<open>auto simp: addrConst_def valOk_def\<close>)
  qed (use c in simp)
  have index: "llOk (if oscale p \<noteq> 0 then do {
        (off, s) \<leftarrow> ll_get_register L (oireg p) FACET_I64 s1;
        let (off, s) = llb L (BuildBin LMul off m) s;
        Some (llb L (BuildBin LAdd x off) s) }
      else Some (x, s1)) (valOk L ip b s (\<lambda>v. addrConst L b p s \<longrightarrow> llIsConstant L v))"
    if c1: "curOk L ip b s1" and s1: "stepOk L ip b s s1" "grows b s s1"
      and x: "addrConst L b p s \<longrightarrow> llIsConstant L x" and m: "llIsConstant L m" for x m s1
  proof (cases "oscale p = 0")
    case False
    have g: "regConst L b (oireg p) s1 = regConst L b (oireg p) s"
      by (rule regConst_grows [OF c wordReg_addr(2) [OF a False] s1(2)])
    show ?thesis unfolding if_P [OF False]
    proof (rule seq_grow [OF c1 get_i64_ok [OF T c1 wordReg_addr(2) [OF a False]]])
      fix v s2 assume v: "curOk L ip b s2" "stepOk L ip b s1 s2" "grows b s1 s2"
        "hasType L (llInt L 64) v \<and> llIsConstant L v = regConst L b (oireg p) s1"
      let ?o = "llb L (BuildBin LMul v m) s2"
      have "addrConst L b p s \<Longrightarrow> llIsConstant L (fst (llb L (BuildBin LAdd x (fst ?o)) (snd ?o)))"
        using k(6) [of v m LMul s2] k(6) [of x "fst ?o" LAdd "snd ?o"] v(4) g x m False
        by (auto simp: addrConst_def)
      moreover have "stepOk L ip b s s2" "grows b s s2"
        by (rule stepOk_trans [OF s1(1) v(2)], rule grows_trans [OF s1(2) v(3)])
      ultimately show "llOk (case (v, s2) of (off, s) \<Rightarrow> let (off, s) = llb L (BuildBin LMul off m) s
          in Some (llb L (BuildBin LAdd x off) s)) (valOk L ip b s (\<lambda>v. addrConst L b p s \<longrightarrow> llIsConstant L v))"
        by (simp add: case_prod_unfold Let_def valOk_def)
    qed
  qed (use that in simp)
  show ?thesis
    unfolding leaBase_def Let_def
    by (rule seq_grow [OF c base]) (unfold split, rule index [unfolded Let_def], simp_all add: k(2))
qed

text \<open>A 64-bit register that is overwritten with a constant is constant.\<close>

lemma store64_ok:
  assumes T: "llTyping L" and c: "curOk L True b s" and p: "target p 64" "opIsReg p"
  shows "llOk (ll_operand_store L OP_SI a p REG_DEFAULT v s)
    (\<lambda>s'. stepOk L True b s s' \<and> (llIsConstant L v \<longrightarrow> regConst L b (oreg p) s'))"
proof -
  note r = scalar_reg64 [OF p]
  note ct = llTyping_build [OF T, of "BuildCast k v t" for k v t, simplified]
  obtain k where k: "ll_regfile_get_ptr (oreg p) = Some (GpRegister k)" using gpReg_ptr [OF r(1)] by auto
  have n: "ll_operand_get_type_length OP_SI p = Some 64" "opIsGPReg p = Some True"
    using p gpReg_ptr [OF r(1)] by (auto simp: target_def scalar_def ll_operand_get_type_length_def opIsGPReg_def)
  let ?v1 = "llb L (BuildCast LSExtOrBitCast v (llInt L 64)) s"
  let ?v2 = "llb L (BuildCast LZExtOrBitCast (fst ?v1) (llInt L 64)) (snd ?v1)"
  have "llIsConstant L (fst ?v2) = llIsConstant L v" by (simp only: llTyping_constant(4) [OF T])
  moreover have "ll_operand_store L OP_SI a p REG_DEFAULT v s
      = ll_set_register L (oreg p) FACET_I64 (fst ?v2) True (snd ?v2)"
    using p(2) n r(2)
    by (simp add: ll_operand_store_def ll_operand_store_gp_def Let_def case_prod_unfold)
  moreover have "llOk (ll_set_register L (oreg p) FACET_I64 (fst ?v2) True (snd ?v2))
      (\<lambda>s'. stepOk L True b (snd ?v2) s'
        \<and> (\<forall>l. ll_regfile_get_ptr (oreg p) = Some l \<longrightarrow> llFacet s' b l = (\<lambda>_. None)(FACET_I64 := Some (fst ?v2))))"
    using c by (intro set_i64_ok [OF T _ r(1)]) (simp_all add: ct)
  ultimately show ?thesis using k by (auto simp: regConst_def elim!: llOk_mono)
qed

lemma lea_ok:
  assumes T: "llTyping L" and c: "curOk L True b s" and d: "target (idst i) n" "opIsReg (idst i)"
    and p: "scalar (isrc i) m" "opIsInd (isrc i)"
  shows "llOk (ll_instruction_lea L i s) (stepOk L True b s)"
proof -
  note k = llTyping_constant [OF T]
  have w: "opTypeWidth (idst i) = Some n" "opTypeWidth (isrc i) = Some m" "addrOk True (isrc i)"
    using d p operand_kinds(2,3) [OF p(2)] by (auto simp: target_def scalar_def readable_def split: option.splits)
  have l: "ll_operand_get_type_length OP_SI (isrc i) = Some m" "ll_operand_get_type L OP_SI m = Some (llInt L m)"
    using w(2) by (simp_all add: ll_operand_get_type_length_def ll_operand_get_type_def)
  have finish: "llOk (do {
      s \<leftarrow> ll_operand_store L OP_SI ALIGN_MAXIMUM (idst i) REG_DEFAULT x s1;
      (if rt (oreg (idst i)) = RT_GP64
       then ll_set_register L (oreg (idst i)) FACET_PTR result False s else Some s) }) (stepOk L True b s1)"
    if c1: "curOk L True b s1" and r: "hasType L (llPtr8 L) result"
      "llIsConstant L result \<Longrightarrow> llIsConstant L x" for x result s1
  proof (cases "rt (oreg (idst i)) = RT_GP64")
    case True
    have g: "llGpReg (oreg (idst i))" "n = 64"
      using d(1) d(2) True w(1) operand_kinds(3) [of "idst i"]
      by (auto simp: target_def writable_def ll_operand_get_type_length_def regBits_def)
    obtain s2 where s2: "ll_operand_store L OP_SI ALIGN_MAXIMUM (idst i) REG_DEFAULT x s1 = Some s2"
        "stepOk L True b s1 s2" "llIsConstant L x \<longrightarrow> regConst L b (oreg (idst i)) s2"
      using store64_ok [OF T c1 d(1) [unfolded g(2)] d(2), of ALIGN_MAXIMUM x] by (elim llOkE) auto
    have c2: "curOk L True b s2" by (rule curOk_step [OF c1 s2(2)])
    obtain j where j: "ll_regfile_get_ptr (oreg (idst i)) = Some (GpRegister j)" using gpReg_ptr [OF g(1)] by auto
    have "llOk (ll_set_register L (oreg (idst i)) FACET_PTR result False s2) (stepOk L True b s2)"
      using set_facet_ok [OF T curOk_blk(1) [OF c2] gpReg_usable [OF g(1)] j, of result FACET_PTR] r s2(3)
        curOk_blk(2) [OF c2] j by (simp add: ll_set_register_def regConst_def)
    then show ?thesis using True s2(1) llOk_after [OF s2(2)] by simp
  next
    case False
    then show ?thesis using store_ok [OF T c1 target_scalar(2) [OF d(1)]] by simp
  qed
  have rest: "llOk (do {
      (base, s) \<leftarrow> leaBase L (isrc i) s1;
      let (base, s) = llb L (BuildCast LTruncOrBitCast base t) s;
      s \<leftarrow> ll_operand_store L OP_SI ALIGN_MAXIMUM (idst i) REG_DEFAULT base s;
      (if rt (oreg (idst i)) = RT_GP64
       then ll_set_register L (oreg (idst i)) FACET_PTR result False s else Some s) }) (stepOk L True b s1)"
    if c1: "curOk L True b s1" and r: "hasType L (llPtr8 L) result"
      "llIsConstant L result \<Longrightarrow> addrConst L b (isrc i) s1" for result s1 t
  proof (rule seq_grow [OF c1 leaBase_ok [OF T c1 w(3)]])
    fix v s2 assume s2: "curOk L True b s2" "stepOk L True b s1 s2"
      "addrConst L b (isrc i) s1 \<longrightarrow> llIsConstant L v"
    let ?b = "llb L (BuildCast LTruncOrBitCast v t) s2"
    have "curOk L True b (snd ?b)" "llIsConstant L result \<Longrightarrow> llIsConstant L (fst ?b)"
      using s2(1,3) r(2) k(4) [of LTruncOrBitCast v t s2] by simp_all
    from llOk_after [OF _ finish [OF this(1) r(1) this(2)], of s1] s2(2)
    show "llOk (case (v, s2) of (base, s) \<Rightarrow> let (base, s) = llb L (BuildCast LTruncOrBitCast base t) s
      in do { s \<leftarrow> ll_operand_store L OP_SI ALIGN_MAXIMUM (idst i) REG_DEFAULT base s;
         (if rt (oreg (idst i)) = RT_GP64
          then ll_set_register L (oreg (idst i)) FACET_PTR result False s else Some s) }) (stepOk L True b s1)"
      by (simp add: case_prod_unfold Let_def)
  qed
  have const: "addrConst L b (isrc i) (snd (llb L x s1)) = addrConst L b (isrc i) s"
    if g: "grows b s s1" for x s1
    using regConst_grows [OF c wordReg_addr(1) [OF w(3)] g] regConst_grows [OF c wordReg_addr(2) [OF w(3)] g]
    by (auto simp: addrConst_def regConst_def llBlock_def)
  note ct = llTyping_build [OF T, of "BuildCast k v t" for k v t, simplified]
  show ?thesis
    unfolding ll_instruction_lea_def opSize_def w(1)
    apply (simp only: Option.bind.bind_lunit d(2) p(2) c_assert_True)
    apply (rule seq_grow [OF c get_address_ok [OF T c w(3) l]])
    apply (unfold split)
    subgoal for v s1
      using llOk_after [OF _ rest, of s "snd (llb L (BuildCast LPointerCast v (llPtr8 L)) s1)"
          "fst (llb L (BuildCast LPointerCast v (llPtr8 L)) s1)" "llInt L n"]
      by (simp add: case_prod_unfold Let_def ct const k(4))
    done
qed

section \<open>The stack\<close>

lemma gp64_reg: "k < 16 \<Longrightarrow> getReg RT_GP64 k = Some \<lparr>rt = RT_GP64, ri = k\<rparr>"
  by (simp add: getReg_def)

lemma addFlag_ok:
  assumes "curOk L True b s"
  shows "llOk (addFlag L t fb (v, s)) (valOk L True b s (\<lambda>_. True))"
  using get_flag_ok [OF assms, of "fst fb"] assms
  by (auto simp: addFlag_def case_prod_unfold Let_def valOk_def)

lemma get_flags_ok:
  assumes "curOk L True b s"
  shows "llOk (ll_instruction_get_flags L full s) (valOk L True b s (\<lambda>_. True))"
proof -
  have "llOk (llFold (addFlag L t) fs (v, s)) (valOk L True b s (\<lambda>_. True))" for t fs v
    using assms
  proof (induction fs arbitrary: v s)
    case (Cons f fs)
    show ?case unfolding llFold.simps
      by (rule seq_val_val [OF Cons.prems addFlag_ok [OF Cons.prems]]) (rule Cons.IH)
  qed simp
  then show ?thesis by (simp add: ll_instruction_get_flags_def Let_def)
qed

lemma stack_ok:
  assumes T: "llTyping L" and c: "curOk L True b s"
    and p: "itype i = IT_PUSH \<and> scalar (idst i) n \<or> itype i = IT_POP \<and> target (idst i) n
      \<or> itype i = IT_PUSHFQ \<or> itype i = IT_LEAVE"
  shows "llOk (ll_instruction_stack L i s) (stepOk L True b s)"
proof -
  note ct = llTyping_build [OF T, of "BuildCast k v t" for k v t, simplified]
  let ?spi = "if itype i = IT_LEAVE then RI_BP else RI_SP"
  have spr: "getReg RT_GP64 ?spi = Some \<lparr>rt = RT_GP64, ri = ?spi\<rparr>"
    "getReg RT_GP64 RI_SP = Some \<lparr>rt = RT_GP64, ri = RI_SP\<rparr>" by (rule gp64_reg, simp)+
  have u: "usableReg True \<lparr>rt = RT_GP64, ri = ?spi\<rparr>" by (simp add: usableReg_def)
  obtain q where q: "getReg RT_GP64 RI_BP = Some \<lparr>rt = RT_GP64, ri = RI_BP\<rparr>"
      "getRegOp \<lparr>rt = RT_GP64, ri = RI_BP\<rparr> = Some q" "target q 64"
    using gpTarget [of RT_GP64 RI_BP] by (auto simp: regBits_def)
  have finish: "llOk (do {
      let (newSpReg, s) = llb L (BuildCast LPointerCast newSp (llPtr8 L)) s1;
      let s = llc L (LLVMSetMetadata newSpReg ''asm.reg.rsp'' (ll_emptyMD s)) s;
      rsp \<leftarrow> getReg RT_GP64 RI_SP;
      ll_set_register L rsp FACET_PTR newSpReg True s }) (stepOk L True b s1)"
    if c1: "curOk L True b s1" for newSp s1
  proof -
    let ?p = "llb L (BuildCast LPointerCast newSp (llPtr8 L)) s1"
    let ?s2 = "llc L (LLVMSetMetadata (fst ?p) ''asm.reg.rsp'' (ll_emptyMD (snd ?p))) (snd ?p)"
    have "curOk L True b ?s2" using c1 by simp
    from set_pointer_ok [OF T curOk_blk(1) [OF this], of "\<lparr>rt = RT_GP64, ri = RI_SP\<rparr>" "fst ?p"] curOk_blk(2) [OF this]
    show ?thesis by (simp add: spr(2) case_prod_unfold Let_def ct ll_set_register_def)
  qed
  have finish': "llOk (do {
      let (newSpReg, s) = llb L (BuildCast LPointerCast newSp (llPtr8 L)) s2;
      let s = llc L (LLVMSetMetadata newSpReg ''asm.reg.rsp'' (ll_emptyMD s)) s;
      rsp \<leftarrow> getReg RT_GP64 RI_SP;
      ll_set_register L rsp FACET_PTR newSpReg True s }) (stepOk L True b s1)"
    if "curOk L True b s2" "stepOk L True b s2 = stepOk L True b s1" for newSp s1 s2
    using finish [OF that(1)] that(2) by simp
  have push: "llOk (if itype i = IT_PUSH then ll_operand_load L OP_SI ALIGN_MAXIMUM (idst i) s2
                else ll_instruction_get_flags L True s2) (valOk L True b s1 (\<lambda>_. True))"
    if "curOk L True b s2" "itype i = IT_PUSH \<or> itype i = IT_PUSHFQ"
      "stepOk L True b s2 = stepOk L True b s1" "grows b s2 = grows b s1" for s1 s2
  proof -
    have "llOk (if itype i = IT_PUSH then ll_operand_load L OP_SI ALIGN_MAXIMUM (idst i) s2
                else ll_instruction_get_flags L True s2) (valOk L True b s2 (\<lambda>_. True))"
      using p that(2) load_scalar [OF T that(1), of "idst i" n ALIGN_MAXIMUM] get_flags_ok [OF that(1), of True]
      by (auto simp: valOk_def elim!: llOk_mono)
    then show ?thesis by (rule llOk_mono) (use that(3,4) in \<open>simp add: valOk_def\<close>)
  qed
  have pop: "llOk (do {
      q \<leftarrow> (if itype i = IT_LEAVE then do { r \<leftarrow> getReg RT_GP64 RI_BP; getRegOp r } else Some (idst i));
      s \<leftarrow> ll_operand_store L OP_SI ALIGN_MAXIMUM q REG_DEFAULT v s2;
      let (newSp, s) = llb L g s;
      let (newSpReg, s) = llb L (BuildCast LPointerCast newSp (llPtr8 L)) s;
      let s = llc L (LLVMSetMetadata newSpReg ''asm.reg.rsp'' (ll_emptyMD s)) s;
      rsp \<leftarrow> getReg RT_GP64 RI_SP;
      ll_set_register L rsp FACET_PTR newSpReg True s }) (stepOk L True b s1)"
    if "itype i = IT_POP \<or> itype i = IT_LEAVE" "curOk L True b s2" "stepOk L True b s2 = stepOk L True b s1" for v g s1 s2
  proof -
    let ?q = "if itype i = IT_LEAVE then q else idst i"
    have "writable True OP_SI REG_DEFAULT ?q" using p that(1) q(3) by (auto dest: target_scalar(2))
    from seq_step [OF that(2) store_ok [OF T that(2) this, of ALIGN_MAXIMUM v], where f = "\<lambda>s. do {
        let (newSp, s) = llb L g s;
        let (newSpReg, s) = llb L (BuildCast LPointerCast newSp (llPtr8 L)) s;
        let s = llc L (LLVMSetMetadata newSpReg ''asm.reg.rsp'' (ll_emptyMD s)) s;
        rsp \<leftarrow> getReg RT_GP64 RI_SP;
        ll_set_register L rsp FACET_PTR newSpReg True s }"]
      finish [of "snd (llb L g s)" "fst (llb L g s)" for s]
    show ?thesis using that(3) q(1,2) by (cases "itype i = IT_LEAVE"; simp add: case_prod_unfold Let_def)
  qed
  show ?thesis
  proof (cases "itype i = IT_PUSH \<or> itype i = IT_PUSHFQ")
    case True
    then have ne: "itype i \<noteq> IT_LEAVE" "itype i \<noteq> IT_POP" by auto
    show ?thesis
      unfolding ll_instruction_stack_def
      apply (simp only: spr(1) Let_def Option.bind.bind_lunit)
      apply (rule seq_val [OF c get_register_ok [OF T c u]])
      apply (simp only: case_prod_unfold fst_conv snd_conv if_P [OF True])
      apply (simp only: Option.bind_assoc Option.bind.bind_lunit fst_conv snd_conv)
      apply (rule seq_val, assumption, rule push [OF _ True], simp, simp, simp add: fun_eq_iff)
      apply (simp only: case_prod_unfold Let_def fst_conv snd_conv)
      by (rule finish' [unfolded Let_def case_prod_unfold]; simp)
  next
    case False
    then have t: "itype i = IT_POP \<or> itype i = IT_LEAVE" using p by auto
    show ?thesis
      unfolding ll_instruction_stack_def
      apply (simp only: spr(1) Let_def Option.bind.bind_lunit)
      apply (rule seq_val [OF c get_register_ok [OF T c u]])
      apply (simp only: case_prod_unfold fst_conv snd_conv if_not_P [OF False] if_P [OF t] Option.bind_assoc Option.bind.bind_lunit)
      by (rule pop [OF t, unfolded Let_def case_prod_unfold]; simp)
  qed
qed

section \<open>Vector instructions and the table\<close>

lemma load_any:
  assumes "llTyping L" "curOk L True b s" "readable True t p"
  shows "llOk (ll_operand_load L t a p s) (valOk L True b s (\<lambda>_. True))"
  using load_ok [OF assms, of a] by (rule llOk_mono) (simp add: valOk_def)

lemma move_ok:
  assumes T: "llTyping L" and c: "curOk L True b s" and p: "readable True t p" "writable True t prh q"
  shows "llOk (do { (v, s) \<leftarrow> ll_operand_load L t a p s; ll_operand_store L t a' q prh v s }) (stepOk L True b s)"
  by (rule seq_val [OF c load_any [OF T c p(1)]]) (simp add: store_ok [OF T _ p(2)])

text \<open>Load one or two operands, build a value of them, store it.\<close>

lemma load_build_ok:
  assumes T: "llTyping L" and c: "curOk L True b s" and p: "readable True t p" "writable True t' prh q"
  shows "llOk (do {
      (v, s) \<leftarrow> ll_operand_load L t a p s;
      let (x, s) = llb L (f v) s;
      ll_operand_store L t' a' q prh x s }) (stepOk L True b s)"
  by (rule seq_val [OF c load_any [OF T c p(1)]])
    (simp add: case_prod_unfold Let_def later_store [OF T p(2)])

lemma load_load_build_ok:
  assumes T: "llTyping L" and c: "curOk L True b s"
    and p: "readable True t1 p1" "readable True t2 p2" "writable True t prh q"
  shows "llOk (do {
      (v, s) \<leftarrow> ll_operand_load L t1 a1 p1 s;
      (w, s) \<leftarrow> ll_operand_load L t2 a2 p2 s;
      let (x, s) = llb L (f v w) s;
      ll_operand_store L t a q prh x s }) (stepOk L True b s)"
  by (rule seq_val [OF c load_any [OF T c p(1)]]) (unfold split, rule load_build_ok [OF T _ p(2,3)])

text \<open>An instruction is returned with the state.\<close>

abbreviation stepInstr :: "('v, 't, 'b, 'w) llvm \<Rightarrow> nat \<Rightarrow> ('v, 'b, 'w) llstate
    \<Rightarrow> instr \<times> ('v, 'b, 'w) llstate \<Rightarrow> bool" where
  "stepInstr L b s \<equiv> (\<lambda>x. stepOk L True b s (snd x))"

lemma with_instr:
  assumes "llOk m (stepOk L True b s)" shows "llOk (do { s \<leftarrow> m; Some (i, s) }) (stepInstr L b s)"
  using assms by (cases m) auto

definition retOk :: "('v, 't, 'b, 'w) llvm \<Rightarrow> ('v, 'b, 'w) llstate \<Rightarrow> bool" where
  "retOk L s \<longleftrightarrow> (case lf_llvm (ll_functions s ! ll_currentFunction s) of None \<Rightarrow> False
     | Some fn \<Rightarrow> llTypeKind L (llReturnType L (llElementType L (llTypeOf L fn)))
         \<in> {LLVMVoidTypeKind, LLVMPointerTypeKind, LLVMIntegerTypeKind, LLVMFloatTypeKind, LLVMDoubleTypeKind})"

lemma ret_ok:
  assumes T: "llTyping L" and c: "curOk L True b s" and r: "retOk L s"
  shows "llOk (ll_instruction_ret L s) (stepOk L True b s)"
proof -
  obtain fn where fn: "lf_llvm (ll_functions s ! ll_currentFunction s) = Some fn"
      "llTypeKind L (llReturnType L (llElementType L (llTypeOf L fn)))
         \<in> {LLVMVoidTypeKind, LLVMPointerTypeKind, LLVMIntegerTypeKind, LLVMFloatTypeKind, LLVMDoubleTypeKind}"
    using r by (auto simp: retOk_def split: option.splits)
  have regs: "getReg RT_GP64 RI_A = Some \<lparr>rt = RT_GP64, ri = RI_A\<rparr>" "getReg RT_XMM 0 = Some \<lparr>rt = RT_XMM, ri = 0\<rparr>"
    "usableReg True \<lparr>rt = RT_GP64, ri = RI_A\<rparr>" "usableReg True \<lparr>rt = RT_XMM, ri = 0\<rparr>"
    by (simp_all add: getReg_def usableReg_def)
  have "llOk (do { (v, s) \<leftarrow> ll_get_register L g f s; let (_, s) = llb L (BuildRet v) s; Some s }) (stepOk L True b s)"
    if "usableReg True g" for g f
    by (rule seq_val [OF c get_register_ok [OF T c that]]) (simp add: case_prod_unfold Let_def)
  from this [OF regs(3)] this [OF regs(4)]
  show ?thesis using fn(2) c by (auto simp: ll_instruction_ret_def fn(1) regs Let_def case_prod_unfold)
qed

lemma binary_ok:
  assumes T: "llTyping L" and c: "curOk L True b s"
    and p: "readable True t (idst i)" "readable True t (isrc i)" "writable True t prh (idst i)"
  shows "llOk (llBinary L t prh op flags fm i s) (stepOk L True b s)"
proof -
  have tail: "llOk (do { s \<leftarrow> (if flags then ll_flags_set_bit L r s2 else Some s2);
      ll_operand_store L t ALIGN_MAXIMUM (idst i) prh r s }) (stepOk L True b s1)"
    if "curOk L True b s2" "stepOk L True b s2 = stepOk L True b s1" for r s1 s2
  proof -
    have "llOk (do { s \<leftarrow> (if flags then ll_flags_set_bit L r s2 else Some s2);
      ll_operand_store L t ALIGN_MAXIMUM (idst i) prh r s }) (stepOk L True b s2)"
      by (rule seq_step [OF that(1) _ store_ok [OF T _ p(3)]]) (simp_all add: that(1) flags_ok_invalid)
    then show ?thesis using that(2) by simp
  qed
  show ?thesis
    unfolding llBinary_def
    apply (rule seq_val [OF c load_any [OF T c p(1)]])
    apply (unfold split)
    apply (rule seq_val, assumption, rule load_any [OF T _ p(2)], assumption)
    apply (simp only: case_prod_unfold Let_def fst_conv snd_conv)
    by (rule tail; simp)
qed

text \<open>
  The instructions that the backend can translate: the operands have the widths that their
  facets exist for, and the destination is not an immediate. Calls are left out.
\<close>

definition gpRead :: "operand \<Rightarrow> bool" where
  "gpRead p \<longleftrightarrow> readable True OP_SI p"

definition gpWrite :: "operand \<Rightarrow> bool" where
  "gpWrite p \<longleftrightarrow> readable True OP_SI p \<and> writable True OP_SI REG_DEFAULT p"

definition moveOk :: "operanddatatype \<Rightarrow> partialregisterhandling \<Rightarrow> instr \<Rightarrow> bool" where
  "moveOk t prh i \<longleftrightarrow> readable True t (isrc i) \<and> writable True t prh (idst i)"

definition movhpsOk :: "instr \<Rightarrow> bool option" where
  "movhpsOk i = do {
     vr \<leftarrow> opIsVReg (idst i);
     (if vr then do {
        i \<leftarrow> overwriteDst i VT_128;
        i \<leftarrow> overwriteSrc i VT_128;
        Some (readable True OP_VF32 (idst i) \<and> moveOk OP_VF32 REG_KEEP_UPPER i) }
      else do {
        i \<leftarrow> overwriteDst i VT_64;
        Some (moveOk OP_VF32 REG_KEEP_UPPER i) }) }"

definition movhpdOk :: "instr \<Rightarrow> bool option" where
  "movhpdOk i = do {
     vr \<leftarrow> opIsVReg (idst i);
     (if vr then do {
        i \<leftarrow> overwriteDst i VT_128;
        Some (readable True OP_VF64 (idst i) \<and> readable True OP_SF64 (isrc i)
          \<and> writable True OP_VF64 REG_KEEP_UPPER (idst i)) }
      else do {
        i \<leftarrow> overwriteSrc i VT_128;
        Some (readable True OP_VF64 (isrc i) \<and> writable True OP_SF64 REG_KEEP_UPPER (idst i)) }) }"

definition unpcklOk :: "instr \<Rightarrow> bool option" where
  "unpcklOk i = do {
     let t = (if itype i = IT_UNPCKLPS then OP_VF32 else OP_VF64);
     i \<leftarrow> overwriteSrc i VT_128;
     Some (readable True t (idst i) \<and> moveOk t REG_KEEP_UPPER i) }"

definition handlerOk :: "llhandler \<Rightarrow> instr \<Rightarrow> bool" where
  "handlerOk h i \<longleftrightarrow>
     (let dst = idst i; src = isrc i
      in case h of
        H_call \<Rightarrow> False
      | H_ret \<Rightarrow> True
      | H_stack \<Rightarrow> (itype i = IT_PUSH \<and> gpRead dst) \<or> (itype i = IT_POP \<and> gpWrite dst)
          \<or> itype i = IT_PUSHFQ \<or> itype i = IT_LEAVE
      | H_movgp \<Rightarrow> gpWrite dst \<and> gpRead src
      | H_add \<Rightarrow> gpWrite dst \<and> gpRead src
      | H_sub \<Rightarrow> gpWrite dst \<and> gpRead src
      | H_cmp \<Rightarrow> gpRead dst \<and> gpRead src
      | H_test \<Rightarrow> gpRead dst \<and> gpRead src
      | H_lea \<Rightarrow> gpWrite dst \<and> opIsReg dst \<and> gpRead src \<and> opIsInd src
      | H_notneg \<Rightarrow> gpWrite dst
      | H_incdec \<Rightarrow> gpWrite dst
      | H_mul \<Rightarrow>
          (case iform i of
             OF_1 \<Rightarrow> gpRead dst \<and> opTypeWidth dst \<in> {Some 8, Some 16, Some 32, Some 64}
           | OF_2 \<Rightarrow> gpWrite dst \<and> gpRead src
           | OF_3 \<Rightarrow> gpWrite dst \<and> gpRead src \<and> gpRead (isrc2 i)
           | _ \<Rightarrow> False)
      | H_shift \<Rightarrow> gpWrite dst \<and> (iform i \<noteq> OF_1 \<longrightarrow> gpRead src)
      | H_cdqe \<Rightarrow> True
      | H_cmov c \<Rightarrow> gpWrite dst \<and> gpRead src
      | H_setcc c \<Rightarrow> gpWrite dst
      | H_movq \<Rightarrow>
          (case opIsVReg dst of None \<Rightarrow> False
           | Some v \<Rightarrow> moveOk (if itype i = IT_MOVQ then OP_SI64 else OP_SI32)
               (if v then REG_ZERO_UPPER_SSE else REG_DEFAULT) i)
      | H_movs \<Rightarrow> moveOk (if itype i = IT_MOVSS then OP_SF32 else OP_SF64)
          (if opIsInd src then REG_ZERO_UPPER_SSE else REG_KEEP_UPPER) i
      | H_movp \<Rightarrow> moveOk (if itype i = IT_MOVAPS \<or> itype i = IT_MOVUPS then OP_VF32 else OP_VF64)
          REG_KEEP_UPPER i
      | H_movdq \<Rightarrow> moveOk OP_VI64 REG_KEEP_UPPER i
      | H_movlp \<Rightarrow>
          (case opIsVReg src of None \<Rightarrow> False
           | Some v \<Rightarrow> moveOk (if itype i = IT_MOVLPS then OP_VF32 else OP_SF64) REG_KEEP_UPPER
               (if v then i\<lparr>isrc := src\<lparr>otype := OT_Reg64\<rparr>\<rparr> else i))
      | H_movhps \<Rightarrow> movhpsOk i = Some True
      | H_movhpd \<Rightarrow> movhpdOk i = Some True
      | H_unpckl \<Rightarrow> unpcklOk i = Some True)"

definition llSupported :: "instr \<Rightarrow> bool" where
  "llSupported i \<longleftrightarrow>
     (case descriptors (itype i) of
        CT_NOT_IMPLEMENTED \<Rightarrow> False
      | CT_NOP \<Rightarrow> True
      | CT_FUNCTION h \<Rightarrow> handlerOk h i
      | CT_BINARY_LLVM t prh op flags fm \<Rightarrow>
          readable True t (idst i) \<and> readable True t (isrc i) \<and> writable True t prh (idst i))"

lemma gpRead_scalar: "gpRead p \<Longrightarrow> \<exists>n. scalar p n" "gpWrite p \<Longrightarrow> \<exists>n. target p n"
  using readable_scalar by (auto simp: gpRead_def gpWrite_def target_def)

lemma sse_moves_ok:
  assumes T: "llTyping L" and c: "curOk L True b s"
  shows "handlerOk H_movq i \<Longrightarrow> llOk (ll_instruction_movq L i s) (stepOk L True b s)"
    "handlerOk H_movs i \<Longrightarrow> llOk (ll_instruction_movs L i s) (stepOk L True b s)"
    "handlerOk H_movp i \<Longrightarrow> llOk (ll_instruction_movp L i s) (stepOk L True b s)"
    "handlerOk H_movdq i \<Longrightarrow> llOk (ll_instruction_movdq L i s) (stepOk L True b s)"
    "handlerOk H_movlp i \<Longrightarrow> llOk (ll_instruction_movlp L i s) (stepInstr L b s)"
proof -
  note m = move_ok [OF T c]
  note defs = handlerOk_def moveOk_def llMove_def Let_def
  show "handlerOk H_movq i \<Longrightarrow> llOk (ll_instruction_movq L i s) (stepOk L True b s)"
    using m by (cases "opIsVReg (idst i)") (simp_all add: defs ll_instruction_movq_def)
  show "handlerOk H_movs i \<Longrightarrow> llOk (ll_instruction_movs L i s) (stepOk L True b s)"
    using m by (simp add: defs ll_instruction_movs_def)
  show "handlerOk H_movp i \<Longrightarrow> llOk (ll_instruction_movp L i s) (stepOk L True b s)"
    using m by (simp add: defs ll_instruction_movp_def)
  show "handlerOk H_movdq i \<Longrightarrow> llOk (ll_instruction_movdq L i s) (stepOk L True b s)"
    using m by (simp add: defs ll_instruction_movdq_def)
  show "handlerOk H_movlp i \<Longrightarrow> llOk (ll_instruction_movlp L i s) (stepInstr L b s)"
    using with_instr [OF m]
    by (cases "opIsVReg (isrc i)") (auto simp: defs ll_instruction_movlp_def split: if_splits)
qed

lemma overwrite_types [simp]:
  "overwriteDst i vt = Some j \<Longrightarrow> itype j = itype i" "overwriteSrc i vt = Some j \<Longrightarrow> itype j = itype i"
  by (auto simp: overwriteDst_def overwriteSrc_def bind_eq_Some_conv)

lemma sse_high_ok:
  assumes T: "llTyping L" and c: "curOk L True b s"
  shows "movhpsOk i = Some True \<Longrightarrow> llOk (ll_instruction_movhps L i s) (stepInstr L b s)"
    "movhpdOk i = Some True \<Longrightarrow> llOk (ll_instruction_movhpd L i s) (stepInstr L b s)"
    "unpcklOk i = Some True \<Longrightarrow> llOk (ll_instruction_unpckl L i s) (stepInstr L b s)"
proof -
  note one = with_instr [OF load_build_ok [OF T c], unfolded Let_def case_prod_unfold]
  note two = with_instr [OF load_load_build_ok [OF T c], unfolded Let_def case_prod_unfold]
  note defs = moveOk_def bind_eq_Some_conv Option.bind_assoc case_prod_unfold Let_def
  show "movhpsOk i = Some True \<Longrightarrow> llOk (ll_instruction_movhps L i s) (stepInstr L b s)"
    using one two
    by (auto simp: movhpsOk_def ll_instruction_movhps_def defs split: if_splits)
  show "movhpdOk i = Some True \<Longrightarrow> llOk (ll_instruction_movhpd L i s) (stepInstr L b s)"
    using one two
    by (auto simp: movhpdOk_def ll_instruction_movhpd_def defs split: if_splits)
  show "unpcklOk i = Some True \<Longrightarrow> llOk (ll_instruction_unpckl L i s) (stepInstr L b s)"
    using two
    by (auto simp: unpcklOk_def ll_instruction_unpckl_def defs split: if_splits)
qed

lemma keep_ok: "llOk m (stepOk L True b s) \<Longrightarrow> llOk (map_option (\<lambda>s. (i, s)) m) (stepInstr L b s)"
  by (simp add: llOk_map)

lemma shift_descriptor: "descriptors t = CT_FUNCTION H_shift \<Longrightarrow> t \<in> {IT_SHL, IT_SHR, IT_SAR}"
  by (cases t) (simp_all add: descriptors_def ssemovDescriptor_def ssefpDescriptor_def cdFp_def cdInt_def
      split: ssemov.splits ssefp.splits)

lemma ret_descriptor: "descriptors t = CT_FUNCTION H_ret \<Longrightarrow> t = IT_RET"
  by (cases t) (simp_all add: descriptors_def ssemovDescriptor_def ssefpDescriptor_def cdFp_def cdInt_def
      split: ssemov.splits ssefp.splits)

lemma handler_ok:
  assumes T: "llTyping L" and c: "curOk L True b s" and r: "h = H_ret \<Longrightarrow> retOk L s" and i: "descriptors (itype i) = CT_FUNCTION h"
    and h: "handlerOk h i"
  shows "llOk (llHandle L h i s) (stepInstr L b s)"
proof -
  note defs = handlerOk_def Let_def llHandle_def
  note add_sub = add_sub_ok [OF T c] and cmp_test = cmp_test_ok [OF T c] and cc = cmov_setcc_ok [OF T c]
  show ?thesis
  proof (cases h)
    case H_call then show ?thesis using h by (simp add: defs)
  next
    case H_ret then show ?thesis using ret_ok [OF T c r] by (simp add: llHandle_def keep_ok)
  next
    case H_stack
    then show ?thesis using h stack_ok [OF T c, of i] gpRead_scalar [of "idst i"]
      by (auto simp: defs intro!: keep_ok)
  next
    case H_movgp
    then show ?thesis using h mov_ok [OF T c] gpRead_scalar by (fastforce simp: defs intro!: keep_ok)
  next
    case H_add
    then show ?thesis using h add_sub(1) gpRead_scalar by (fastforce simp: defs intro!: keep_ok)
  next
    case H_sub
    then show ?thesis using h add_sub(2) gpRead_scalar by (fastforce simp: defs intro!: keep_ok)
  next
    case H_cmp
    then show ?thesis using h cmp_test(1) gpRead_scalar by (fastforce simp: defs intro!: keep_ok)
  next
    case H_test
    then show ?thesis using h cmp_test(2) gpRead_scalar by (fastforce simp: defs intro!: keep_ok)
  next
    case H_lea
    then show ?thesis using h lea_ok [OF T c] gpRead_scalar by (fastforce simp: defs intro!: keep_ok)
  next
    case H_notneg
    then show ?thesis using h notneg_ok [OF T c] gpRead_scalar by (fastforce simp: defs intro!: keep_ok)
  next
    case H_incdec
    then show ?thesis using h incdec_ok [OF T c] gpRead_scalar by (fastforce simp: defs intro!: keep_ok)
  next
    case H_mul
    then have m: "handlerOk H_mul i" using h by simp
    obtain n where n: "scalar (idst i) n"
      using m gpRead_scalar [of "idst i"] target_scalar(1) [of "idst i"]
      by (cases "iform i") (auto simp: handlerOk_def Let_def)
    have w: "gpWrite (idst i) \<Longrightarrow> target (idst i) n"
      using gpRead_scalar(2) [of "idst i"] n by (auto simp: target_def scalar_def)
    have "opTypeWidth (idst i) = Some n" using n by (simp add: scalar_def)
    then have "(iform i = OF_1 \<and> n \<in> {8, 16, 32, 64})
      \<or> (iform i = OF_2 \<and> target (idst i) n \<and> gpRead (isrc i))
      \<or> (iform i = OF_3 \<and> target (idst i) n \<and> gpRead (isrc i) \<and> gpRead (isrc2 i))"
      using m w by (cases "iform i") (auto simp: handlerOk_def Let_def)
    then have "llOk (ll_instruction_mul L i s) (stepOk L True b s)"
      using mul_ok [OF T c n] gpRead_scalar(1) [of "isrc i"] gpRead_scalar(1) [of "isrc2 i"] by blast
    then show ?thesis using H_mul by (simp add: llHandle_def keep_ok)
  next
    case H_shift
    then have m: "gpWrite (idst i)" "iform i \<noteq> OF_1 \<longrightarrow> gpRead (isrc i)" using h by (simp_all add: defs)
    have "itype i \<in> {IT_SHL, IT_SHR, IT_SAR}" using i H_shift by (intro shift_descriptor) simp
    from shift_ok [OF T c _ _ this] show ?thesis
      using m gpRead_scalar(2) [of "idst i"] gpRead_scalar(1) [of "isrc i"] H_shift
      by (cases "iform i = OF_1") (auto simp: llHandle_def intro!: keep_ok)
  next
    case H_cdqe
    then show ?thesis using cdqe_ok [OF T c] by (simp add: llHandle_def keep_ok)
  next
    case (H_cmov cnd)
    then show ?thesis using h cc(1) gpRead_scalar by (fastforce simp: defs intro!: keep_ok)
  next
    case (H_setcc cnd)
    then show ?thesis using h cc(2) gpRead_scalar by (fastforce simp: defs intro!: keep_ok)
  next
    case H_movhps
    then show ?thesis using h sse_high_ok [OF T c] by (simp add: defs)
  next
    case H_movhpd
    then show ?thesis using h sse_high_ok [OF T c] by (simp add: defs)
  next
    case H_unpckl
    then show ?thesis using h sse_high_ok [OF T c] by (simp add: defs)
  qed (use h sse_moves_ok [OF T c] in \<open>simp_all add: llHandle_def keep_ok\<close>)
qed

section \<open>All instructions\<close>

text \<open>Before the first instruction the instruction pointer need not be set.\<close>

lemma set_ip_ok:
  assumes T: "llTyping L" and c: "curOk L ip b s" and v: "hasType L (llInt L 64) v"
  shows "llOk (ll_set_register L \<lparr>rt = RT_IP, ri = 0\<rparr> FACET_I64 v True s) (\<lambda>s'. curOk L True b s' \<and> llKept s s'
    \<and> (\<forall>c. c \<noteq> b \<longrightarrow> llBlock s' c = llBlock s c))"
proof -
  let ?r = "\<lparr>rt = RT_IP, ri = 0\<rparr>"
  have r: "regIsGP ?r = Some False" "regIsV ?r = Some False" "ll_regfile_get_ptr ?r = Some IpRegister"
    by (simp_all add: regIsGP_def regTypeIsGP_def regIsV_def ll_regfile_get_ptr_def)
  obtain nm where nm: "ll_register_name_for_facet FACET_I64 ?r = Some nm"
    using facet_name [of True ?r FACET_I64] by (auto simp: usableReg_def)
  have b: "b < length (ll_blocks s)" "ll_currentBB s = b" using c by (simp_all add: curOk_def blkOk_def)
  define s1 where "s1 = (if llIsConstant L v then s else llc L (LLVMSetMetadata v (''asm.reg.'' @ nm) (ll_emptyMD s)) s)"
  have s1: "curOk L ip b s1" "llKept s s1" "ll_blocks s1 = ll_blocks s" using c by (simp_all add: s1_def)
  have "ll_set_register L ?r FACET_I64 v True s
      = Some (setRegister b IpRegister ((\<lambda>_. None)(FACET_I64 := Some v)) s1)"
    using b s1(3) by (simp add: ll_set_register_def ll_regfile_set_def r nm v s1_def setFacet_twice)
  moreover have step: "stepOk L ip b s (setRegister b IpRegister ((\<lambda>_. None)(FACET_I64 := Some v)) s1)"
    using v by (intro setRegister_step [OF curOk_blk(1) [OF c] s1(3,2)]) (auto simp: locOk_def)
  moreover have "curOk L True b (setRegister b IpRegister ((\<lambda>_. None)(FACET_I64 := Some v)) s1)" (is "curOk _ _ _ ?s'")
  proof -
    have c': "curOk L ip b ?s'" by (rule curOk_step [OF c step])
    have "locOk L (llFacet ?s' b l) l" if "isLoc True l" for l
    proof (cases "l = IpRegister")
      case True
      then show ?thesis using v b(1) s1(3) by (auto simp: setRegister_def locOk_def)
    next
      case False
      then have "isLoc ip l" using that by (cases l) auto
      then show ?thesis by (rule blkOk_loc [OF curOk_blk(1) [OF c']])
    qed
    then show ?thesis using c' by (simp add: curOk_def blkOk_def regsOk_def)
  qed
  ultimately show ?thesis by (simp add: stepOk_def)
qed

text \<open>The instruction has a text.\<close>

definition printable :: "instr \<Rightarrow> bool" where
  "printable i \<longleftrightarrow> instr2string i False None \<noteq> None"

definition translated :: "('v, 't, 'b, 'w) llvm \<Rightarrow> nat \<Rightarrow> ('v, 'b, 'w) llstate
    \<Rightarrow> ('v, 'b, 'w) llstate \<Rightarrow> bool" where
  "translated L b s s' \<longleftrightarrow> curOk L True b s' \<and> llKept s s' \<and> (\<forall>c. c \<noteq> b \<longrightarrow> llBlock s' c = llBlock s c)"

lemma intrinsic_after [simp]:
  "stepOk L ip b s (snd (ll_support_get_intrinsic L k ts s')) = stepOk L ip b s s'"
  by (simp add: stepOk_def llKept_def blkOk_def llBlock_def)

lemma generate_ok:
  assumes T: "llTyping L" and c: "curOk L ip b s" and i: "llSupported i" "printable i"
    and r: "itype i = IT_RET \<Longrightarrow> retOk L s"
  shows "llOk (ll_generate_instruction L i s) (\<lambda>x. translated L b s (snd x))"
proof -
  let ?rip = "llConstInt L (llInt L 64) (iaddr i + of_nat (ilen i))"
  have ipr: "getReg RT_IP 0 = Some \<lparr>rt = RT_IP, ri = 0\<rparr>" by (simp add: getReg_def)
  obtain s1 where s1: "ll_set_register L \<lparr>rt = RT_IP, ri = 0\<rparr> FACET_I64 ?rip True s = Some s1"
      "translated L b s s1"
    using set_ip_ok [OF T c llTyping_consts(1) [OF T], of "iaddr i + of_nat (ilen i)"]
    by (elim llOkE) (auto simp: translated_def)
  obtain nm where nm: "instr2string i False None = Some nm" using i(2) by (auto simp: printable_def)
  let ?d = "ll_support_get_intrinsic L LL_INTRINSIC_DO_NOTHING [] s1"
  let ?m = "llb L (BuildCall (fst ?d) []) (snd ?d)"
  let ?s2 = "llc L (LLVMSetMetadata (fst ?m) ''asm.instr'' (llConst L (LLVMMDString nm))) (snd ?m)"
  have c2: "curOk L True b ?s2" using s1(2) by (simp add: translated_def)
  have nop: "stepOk L True b s1 ?s2" using s1(2) by (simp add: translated_def)
  have r2: "retOk L ?s2 = retOk L s" using s1(2) by (simp add: retOk_def translated_def llKept_def)
  have "llOk (case descriptors (itype i) of
        CT_FUNCTION h \<Rightarrow> llHandle L h i ?s2
      | CT_BINARY_LLVM t prh op flags fastMath \<Rightarrow>
          map_option (\<lambda>s. (i, s)) (llBinary L t prh op flags fastMath i ?s2)
      | CT_NOT_IMPLEMENTED \<Rightarrow> None
      | CT_NOP \<Rightarrow> Some (i, ?s2)) (stepInstr L b s1)"
  proof (cases "descriptors (itype i)")
    case (CT_FUNCTION h)
    have "llOk (llHandle L h i ?s2) (stepInstr L b ?s2)"
      using i(1) CT_FUNCTION r r2
      by (intro handler_ok [OF T c2]) (auto simp: llSupported_def ret_descriptor)
    then show ?thesis using CT_FUNCTION by simp
  next
    case (CT_BINARY_LLVM t prh op flags fm)
    then have "llOk (llBinary L t prh op flags fm i ?s2) (stepOk L True b ?s2)"
      using i(1) by (intro binary_ok [OF T c2]) (simp_all add: llSupported_def)
    then show ?thesis using CT_BINARY_LLVM by (simp add: llOk_map)
  qed (use i(1) nop in \<open>simp_all add: llSupported_def\<close>)
  then have "llOk (ll_generate_instruction L i s) (stepInstr L b s1)"
    by (simp add: ll_generate_instruction_def ipr s1(1) nm case_prod_unfold Let_def)
  then show ?thesis
  proof (rule llOk_mono)
    fix x assume x: "stepInstr L b s1 x"
    have "curOk L True b s1" "llKept s s1" "\<forall>c. c \<noteq> b \<longrightarrow> llBlock s1 c = llBlock s c"
      using s1(2) by (simp_all add: translated_def)
    then show "translated L b s (snd x)"
      using curOk_step [of L True b s1 "snd x"] kept_trans [of s s1 "snd x"] x by (simp add: translated_def stepOk_def)
  qed
qed

end
