(* ===== verification/LLBlockTyping.thy ===== *)
theory LLBlockTyping
  imports LLTransTyping
begin

text \<open>
  Basic blocks: generating the code of a block first makes a phi node for every facet of every
  register, so that its register file is well-formed whatever it was, then translates the
  instructions, and ends with a branch. At the end the phi nodes get the values of the predecessors.
\<close>

lemma llBlock_world [simp]: "llBlock (snd (llb L i s)) c = llBlock s c" "llBlock (llc L k s) c = llBlock s c"
  by (simp_all add: llBlock_def)

section \<open>Phi nodes\<close>

text \<open>What making phi nodes changes: registers, flags and phi nodes of one block.\<close>

definition phiShape :: "('v, 'b) llblock \<Rightarrow> ('v, 'b) llblock" where
  "phiShape x = (blockShape x)\<lparr>lb_phis := \<lambda>_ _. None, lb_phiFlags := \<lambda>_. None\<rparr>"

definition phiRel :: "nat \<Rightarrow> ('v, 'b, 'w) llstate \<Rightarrow> ('v, 'b, 'w) llstate \<Rightarrow> bool" where
  "phiRel b s s' \<longleftrightarrow> ll_functions s' = ll_functions s \<and> ll_currentFunction s' = ll_currentFunction s
     \<and> ll_currentBB s' = ll_currentBB s \<and> length (ll_blocks s') = length (ll_blocks s)
     \<and> (globalOk s \<longrightarrow> globalOk s') \<and> (\<forall>c. c \<noteq> b \<longrightarrow> llBlock s' c = llBlock s c)
     \<and> phiShape (llBlock s' b) = phiShape (llBlock s b)
     \<and> rf_cache (llRegfile s' b) = rf_cache (llRegfile s b)"

lemma phiRel_refl: "phiRel b s s"
  by (simp add: phiRel_def)

lemma phiRel_trans: "phiRel b s s' \<Longrightarrow> phiRel b s' s'' \<Longrightarrow> phiRel b s s''"
  by (simp add: phiRel_def)

text \<open>Facets with a phi node of their type.\<close>

definition phisSet :: "('v, 't, 'b, 'w) llvm \<Rightarrow> nat \<Rightarrow> (llregister \<times> facet) set \<Rightarrow> ('v, 'b, 'w) llstate \<Rightarrow> bool" where
  "phisSet L b K s \<longleftrightarrow> (\<forall>(l, f) \<in> K. lb_phis (llBlock s b) l f \<noteq> None
     \<and> (\<exists>v. llFacet s b l f = Some v \<and> llTypeOf L v = ll_register_facet_type L f \<and> \<not> llIsConstant L v))"

definition phiStep :: "('v, 't, 'b, 'w) llvm \<Rightarrow> nat \<Rightarrow> (llregister \<times> facet) set \<Rightarrow> ('v, 'b, 'w) llstate
    \<Rightarrow> ('v, 'b, 'w) llstate \<Rightarrow> bool" where
  "phiStep L b A s s' \<longleftrightarrow> phiRel b s s' \<and> (\<forall>K. phisSet L b K s \<longrightarrow> phisSet L b (K \<union> A) s')"

lemma phiStep_trans: "phiStep L b A s s' \<Longrightarrow> phiStep L b B s' s'' \<Longrightarrow> phiStep L b (A \<union> B) s s''"
  unfolding phiStep_def using phiRel_trans by (metis Un_assoc)

lemma phiStep_len: "phiStep L b A s s' \<Longrightarrow> b < length (ll_blocks s) \<Longrightarrow> b < length (ll_blocks s')"
  by (simp add: phiStep_def phiRel_def)

lemma phiFacet_ok:
  assumes T: "llTyping L" and b: "b < length (ll_blocks s)" and r: "usableReg False r" "ll_regfile_get_ptr r = Some l"
  shows "llOk (phiFacet L b r f s) (phiStep L b {(l, f)} s)"
proof -
  let ?p = "llb L (BuildPhi (ll_register_facet_type L f)) s"
  have t: "llTypeOf L (fst ?p) = ll_register_facet_type L f"
    using llTyping_build [OF T, of "BuildPhi (ll_register_facet_type L f)"] by simp
  have nc: "\<not> llIsConstant L (fst ?p)" by (rule llTyping_constant(10) [OF T])
  obtain nm where nm: "ll_register_name_for_facet f r = Some nm" using facet_name [OF r(1)] by auto
  let ?s1 = "llc L (LLVMSetMetadata (fst ?p) (''asm.reg.'' @ nm) (ll_emptyMD s)) (snd ?p)"
  let ?s2 = "updBlock b (\<lambda>x. x\<lparr>lb_phis := (lb_phis x)(l := (lb_phis x l)(f := Some (fst ?p)))\<rparr>)
    (setFacet b l f (Some (fst ?p)) ?s1)"
  have "phiFacet L b r f s = Some ?s2"
    using nc t by (simp add: phiFacet_def case_prod_unfold Let_def ll_regfile_set_def nm r(2))
  moreover have "phiRel b s ?s2"
    using b unfolding phiRel_def
    by (auto simp: setFacet_def updRegfile_def updBlock_blocks phiShape_def blockShape_def)
      (auto simp: updBlock_def globalOk_def llBlock_def llb_def llc_def split: prod.splits)
  moreover have "phisSet L b K s \<Longrightarrow> phisSet L b (K \<union> {(l, f)}) ?s2" for K
    using b t nc by (auto simp: phisSet_def setFacet_def updRegfile_def updBlock_blocks)
  ultimately show ?thesis by (simp add: phiStep_def)
qed

text \<open>A loop over steps that make phi nodes.\<close>

lemma phiFold_ok:
  assumes "\<And>x s. x \<in> set xs \<Longrightarrow> b < length (ll_blocks s) \<Longrightarrow> llOk (g x s) (phiStep L b (A x) s)"
    and "b < length (ll_blocks s)"
  shows "llOk (llFold g xs s) (phiStep L b (\<Union>x \<in> set xs. A x) s)"
  using assms
proof (induction xs arbitrary: s)
  case Nil
  then show ?case by (simp add: phiStep_def phiRel_refl)
next
  case (Cons x xs)
  obtain s1 where s1: "g x s = Some s1" "phiStep L b (A x) s s1"
    using Cons.prems(1) [of x s] Cons.prems(2) by (auto elim: llOkE)
  have "llOk (llFold g xs s1) (phiStep L b (\<Union>x \<in> set xs. A x) s1)"
    by (rule Cons.IH) (use Cons.prems phiStep_len [OF s1(2)] in auto)
  then show ?case
    using s1(1) by (auto elim!: llOk_mono intro: phiStep_trans [OF s1(2)])
qed

lemma phiRegister_ok:
  assumes T: "llTyping L" and b: "b < length (ll_blocks s)" and k: "k < 16"
  shows "llOk (phiRegister L b RT_GP64 k s) (phiStep L b ({GpRegister k} \<times> UNIV) s)"
    "llOk (phiRegister L b RT_XMM k s) (phiStep L b ({SseRegister k} \<times> UNIV) s)"
proof -
  have regs: "getReg RT_GP64 k = Some \<lparr>rt = RT_GP64, ri = k\<rparr>" "getReg RT_XMM k = Some \<lparr>rt = RT_XMM, ri = k\<rparr>"
    using k by (simp_all add: getReg_def)
  have u: "usableReg False \<lparr>rt = RT_GP64, ri = k\<rparr>" "usableReg False \<lparr>rt = RT_XMM, ri = k\<rparr>"
    "ll_regfile_get_ptr \<lparr>rt = RT_GP64, ri = k\<rparr> = Some (GpRegister k)"
    "ll_regfile_get_ptr \<lparr>rt = RT_XMM, ri = k\<rparr> = Some (SseRegister k)"
    using k by (simp_all add: usableReg_def ll_regfile_get_ptr_def)
  have all: "(\<Union>f \<in> set facets. {(l, f)}) = {l} \<times> UNIV" for l :: llregister by auto
  show "llOk (phiRegister L b RT_GP64 k s) (phiStep L b ({GpRegister k} \<times> UNIV) s)"
    using phiFold_ok [of facets b "phiFacet L b \<lparr>rt = RT_GP64, ri = k\<rparr>" L "\<lambda>f. {(GpRegister k, f)}" s]
      phiFacet_ok [OF T _ u(1,3)] b by (simp add: phiRegister_def regs all)
  show "llOk (phiRegister L b RT_XMM k s) (phiStep L b ({SseRegister k} \<times> UNIV) s)"
    using phiFold_ok [of facets b "phiFacet L b \<lparr>rt = RT_XMM, ri = k\<rparr>" L "\<lambda>f. {(SseRegister k, f)}" s]
      phiFacet_ok [OF T _ u(2,4)] b by (simp add: phiRegister_def regs all)
qed

text \<open>The phi nodes of the flags.\<close>

definition flagsSet :: "nat \<Rightarrow> rflag set \<Rightarrow> ('v, 'b, 'w) llstate \<Rightarrow> bool" where
  "flagsSet b F s \<longleftrightarrow> (\<forall>f \<in> F. rf_flags (llRegfile s b) f \<noteq> None \<and> lb_phiFlags (llBlock s b) f \<noteq> None)"

lemma phiFlag_ok:
  assumes "b < length (ll_blocks s)"
  shows "phiRel b s (phiFlag L b f s)"
    "flagsSet b F s \<Longrightarrow> flagsSet b (insert f F) (phiFlag L b f s)"
    "phisSet L b K s \<Longrightarrow> phisSet L b K (phiFlag L b f s)"
    "b < length (ll_blocks (phiFlag L b f s))"
proof -
  have eq: "phiFlag L b f s = updBlock b (\<lambda>x. x\<lparr>lb_regfile := (lb_regfile x)\<lparr>rf_flags := (rf_flags (lb_regfile x))
       (f := Some (fst (llb L (BuildPhi (i1 L)) s)))\<rparr>, lb_phiFlags := (lb_phiFlags x)
       (f := Some (fst (llb L (BuildPhi (i1 L)) s)))\<rparr>) (snd (llb L (BuildPhi (i1 L)) s))"
    using assms by (simp add: phiFlag_def case_prod_unfold Let_def ll_regfile_set_flag_def updRegfile_def updBlock_def)
  show "phiRel b s (phiFlag L b f s)"
    using assms unfolding phiRel_def eq
    by (auto simp: updBlock_blocks phiShape_def blockShape_def)
      (auto simp: updBlock_def globalOk_def llb_def split: prod.splits)
  show "flagsSet b F s \<Longrightarrow> flagsSet b (insert f F) (phiFlag L b f s)"
    "phisSet L b K s \<Longrightarrow> phisSet L b K (phiFlag L b f s)" "b < length (ll_blocks (phiFlag L b f s))"
    using assms unfolding eq by (auto simp: flagsSet_def phisSet_def updBlock_blocks)
qed

lemma phiFlags_ok:
  assumes "b < length (ll_blocks s)"
  shows "phiRel b s (fold (phiFlag L b) fs s) \<and> (flagsSet b F s \<longrightarrow> flagsSet b (F \<union> set fs) (fold (phiFlag L b) fs s))
    \<and> (phisSet L b K s \<longrightarrow> phisSet L b K (fold (phiFlag L b) fs s))"
  using assms
proof (induction fs arbitrary: s F)
  case (Cons f fs)
  let ?s1 = "phiFlag L b f s"
  note one = phiFlag_ok [OF Cons.prems, where L = L and f = f]
  note ih = Cons.IH [OF one(4), where F = "insert f F"]
  have "phiRel b s (fold (phiFlag L b) fs ?s1)" using ih phiRel_trans [OF one(1)] by blast
  then show ?case using ih one(2) [where F = F] one(3) [where K = K] by auto
qed (simp add: phiRel_refl)

text \<open>All locations that get phi nodes.\<close>

abbreviation phiLocs :: "(llregister \<times> facet) set" where
  "phiLocs \<equiv> {l. isLoc False l} \<times> UNIV"

lemma phiLocs_eq: "(\<Union>k \<in> set [0..<16]. {GpRegister k} \<times> UNIV) \<union> (\<Union>k \<in> set [0..<16]. {SseRegister k} \<times> UNIV) = phiLocs"
proof -
  have "isLoc False l \<longleftrightarrow> (\<exists>k < 16. l = GpRegister k \<or> l = SseRegister k)" for l by (cases l) auto
  then show ?thesis by auto
qed

lemma phis_blkOk:
  assumes "b < length (ll_blocks s)" "lb_llvmBB (llBlock s b) \<noteq> None" "phisSet L b phiLocs s"
    "flagsSet b UNIV s" "\<not> fc_valid (rf_cache (llRegfile s b))"
  shows "blkOk L False b s"
proof -
  have "locOk L (llFacet s b l) l" if "isLoc False l" for l
  proof -
    have "\<exists>v. llFacet s b l f = Some v \<and> llTypeOf L v = ll_register_facet_type L f \<and> \<not> llIsConstant L v" for f
      using assms(3) that by (auto simp: phisSet_def)
    then show ?thesis unfolding locOk_def by (metis option.distinct(1) option.inject)
  qed
  then show ?thesis using assms by (auto simp: blkOk_def regsOk_def llFlagsOk_def flagsSet_def)
qed

text \<open>After the phi nodes the block is well-formed, and all phi nodes are there.\<close>

definition phisAll :: "nat \<Rightarrow> ('v, 'b, 'w) llstate \<Rightarrow> bool" where
  "phisAll b s \<longleftrightarrow> (\<forall>l f. isLoc False l \<longrightarrow> lb_phis (llBlock s b) l f \<noteq> None)
     \<and> (\<forall>f. lb_phiFlags (llBlock s b) f \<noteq> None)"

lemma make_phis_ok:
  assumes T: "llTyping L" and b: "b < length (ll_blocks s)" "lb_llvmBB (llBlock s b) \<noteq> None"
    "\<not> fc_valid (rf_cache (llRegfile s b))"
  shows "llOk (do {
      s \<leftarrow> llFold (phiRegister L b RT_GP64) [0..<RI_GPMax] s;
      s \<leftarrow> llFold (phiRegister L b RT_XMM) [0..<RI_XMMMax] s;
      Some (fold (phiFlag L b) rflags s) }) (\<lambda>s'. phiRel b s s' \<and> blkOk L False b s' \<and> phisAll b s')"
proof -
  obtain s1 where s1: "llFold (phiRegister L b RT_GP64) [0..<RI_GPMax] s = Some s1"
      "phiStep L b (\<Union>k \<in> set [0..<16]. {GpRegister k} \<times> UNIV) s s1"
    using phiFold_ok [of "[0..<16]" b "phiRegister L b RT_GP64" L "\<lambda>k. {GpRegister k} \<times> UNIV" s]
      phiRegister_ok(1) [OF T] b(1) by (auto elim: llOkE)
  have b1: "b < length (ll_blocks s1)" by (rule phiStep_len [OF s1(2) b(1)])
  obtain s2 where s2: "llFold (phiRegister L b RT_XMM) [0..<RI_XMMMax] s1 = Some s2"
      "phiStep L b (\<Union>k \<in> set [0..<16]. {SseRegister k} \<times> UNIV) s1 s2"
    using phiFold_ok [of "[0..<16]" b "phiRegister L b RT_XMM" L "\<lambda>k. {SseRegister k} \<times> UNIV" s1]
      phiRegister_ok(2) [OF T] b1 by (auto elim: llOkE)
  have b2: "b < length (ll_blocks s2)" by (rule phiStep_len [OF s2(2) b1])
  have "phiStep L b phiLocs s s2" using phiStep_trans [OF s1(2) s2(2)] unfolding phiLocs_eq .
  then have "phiRel b s s2" "phisSet L b phiLocs s2"
    unfolding phiStep_def by (auto dest: spec [of _ "{}"] simp: phisSet_def)
  let ?s3 = "fold (phiFlag L b) rflags s2"
  have s3: "phiRel b s2 ?s3" "flagsSet b (set rflags) ?s3" "phisSet L b phiLocs ?s3"
    using phiFlags_ok [OF b2, of L rflags "{}" phiLocs] \<open>phisSet L b phiLocs s2\<close> by (auto simp: flagsSet_def)
  have r: "phiRel b s ?s3" by (rule phiRel_trans [OF \<open>phiRel b s s2\<close> s3(1)])
  have f: "flagsSet b UNIV ?s3" using s3(2) by (simp add: flagsSet_def)
  have "lb_llvmBB (phiShape (llBlock ?s3 b)) = lb_llvmBB (phiShape (llBlock s b))" using r by (simp add: phiRel_def)
  then have "lb_llvmBB (llBlock ?s3 b) \<noteq> None" using b(2) by (simp add: phiShape_def blockShape_def)
  then have "blkOk L False b ?s3"
    using r b s3(3) f by (intro phis_blkOk) (simp_all add: phiRel_def)
  moreover have "phisAll b ?s3" using s3(3) f by (auto simp: phisAll_def phisSet_def flagsSet_def)
  ultimately show ?thesis using r s1(1) s2(1) by simp
qed

section \<open>The code of a block\<close>

text \<open>What a step on the current block leaves alone, seen from outside.\<close>

definition outShape :: "('v, 'b) llblock \<Rightarrow> nat \<times> nat list \<times> 'b option \<times> nat option \<times> nat option \<times> instrtype option" where
  "outShape x = (lb_instrCount x, lb_preds x, lb_llvmBB x, lb_nextBranch x, lb_nextFallThrough x, lb_endType x)"

definition blockRel :: "nat \<Rightarrow> ('v, 'b, 'w) llstate \<Rightarrow> ('v, 'b, 'w) llstate \<Rightarrow> bool" where
  "blockRel b s s' \<longleftrightarrow> ll_functions s' = ll_functions s \<and> ll_currentFunction s' = ll_currentFunction s
     \<and> length (ll_blocks s') = length (ll_blocks s)
     \<and> (globalOk s \<longrightarrow> globalOk s') \<and> (\<forall>c. c \<noteq> b \<longrightarrow> llBlock s' c = llBlock s c)
     \<and> outShape (llBlock s' b) = outShape (llBlock s b)"

lemma blockRel_trans: "blockRel b s s' \<Longrightarrow> blockRel b s' s'' \<Longrightarrow> blockRel b s s''"
  by (simp add: blockRel_def)

lemma blockRel_shape: "blockRel b s s' \<Longrightarrow> outShape (llBlock s' c) = outShape (llBlock s c)"
  by (cases "c = b") (simp_all add: blockRel_def)

lemma shape_out: "blockShape x = blockShape y \<Longrightarrow> outShape x = outShape y \<and> lb_instrs x = lb_instrs y
    \<and> lb_phis x = lb_phis y \<and> lb_phiFlags x = lb_phiFlags y"
proof -
  assume a: "blockShape x = blockShape y"
  have "outShape (blockShape x) = outShape x" "lb_instrs (blockShape x) = lb_instrs x"
    "lb_phis (blockShape x) = lb_phis x" "lb_phiFlags (blockShape x) = lb_phiFlags x" for x :: "('v, 'b) llblock"
    by (simp_all add: blockShape_def outShape_def)
  then show ?thesis using a by metis
qed

lemma phiShape_out: "phiShape x = phiShape y \<Longrightarrow> outShape x = outShape y \<and> lb_instrs x = lb_instrs y"
proof -
  assume a: "phiShape x = phiShape y"
  have "outShape (phiShape x) = outShape x" "lb_instrs (phiShape x) = lb_instrs x" for x :: "('v, 'b) llblock"
    by (simp_all add: phiShape_def blockShape_def outShape_def)
  then show ?thesis using a by metis
qed

lemma phiRel_block: "phiRel b s s' \<Longrightarrow> blockRel b s s'"
  using phiShape_out by (auto simp: phiRel_def blockRel_def)

lemma kept_block:
  assumes "llKept s s'" "\<forall>c. c \<noteq> b \<longrightarrow> llBlock s' c = llBlock s c" "b < length (ll_blocks s)"
  shows "blockRel b s s' \<and> lb_instrs (llBlock s' b) = lb_instrs (llBlock s b)
    \<and> lb_phis (llBlock s' b) = lb_phis (llBlock s b) \<and> lb_phiFlags (llBlock s' b) = lb_phiFlags (llBlock s b)"
  using assms(1,2) shape_out [OF kept_shape [OF assms(1,3)]] kept_length [OF assms(1)]
  by (auto simp: blockRel_def llKept_def)

text \<open>Instructions that the backend can translate.\<close>

definition instrOk :: "('v, 't, 'b, 'w) llvm \<Rightarrow> ('v, 'b, 'w) llstate \<Rightarrow> instr \<Rightarrow> bool" where
  "instrOk L s i \<longleftrightarrow> llSupported i \<and> printable i \<and> (itype i = IT_RET \<longrightarrow> retOk L s)"

lemma instrOk_rel: "blockRel b s s' \<Longrightarrow> instrOk L s' i = instrOk L s i"
  by (simp add: instrOk_def retOk_def blockRel_def)

text \<open>The translation may change the operand types of an instruction but not its type.\<close>

lemma sse_itype:
  "ll_instruction_movlp L i s = Some (j, s') \<Longrightarrow> itype j = itype i"
  "ll_instruction_movhps L i s = Some (j, s') \<Longrightarrow> itype j = itype i"
  "ll_instruction_movhpd L i s = Some (j, s') \<Longrightarrow> itype j = itype i"
  "ll_instruction_unpckl L i s = Some (j, s') \<Longrightarrow> itype j = itype i"
  unfolding ll_instruction_movlp_def ll_instruction_movhps_def ll_instruction_movhpd_def ll_instruction_unpckl_def
  by (auto simp: bind_eq_Some_conv Let_def case_prod_unfold split: if_splits)

lemma handle_itype: "llHandle L h i s = Some (j, s') \<Longrightarrow> itype j = itype i"
  by (cases h) (auto simp: llHandle_def dest: sse_itype)

lemma generate_itype: "ll_generate_instruction L i s = Some (j, s') \<Longrightarrow> itype j = itype i"
  by (cases "descriptors (itype i)") (auto simp: ll_generate_instruction_def bind_eq_Some_conv Let_def
      case_prod_unfold dest: handle_itype)

lemma map_replaced:
  assumes "f y = f (xs ! k)" shows "map f (xs[k := y]) = map f xs"
proof (cases "k < length xs")
  case True
  then have "(map f xs)[k := f y] = map f xs" using list_update_id [of "map f xs" k] assms by simp
  then show ?thesis by (simp add: map_update)
qed (simp add: list_update_beyond)

lemma blockInstr_ok:
  assumes T: "llTyping L" and c: "curOk L ip b s" and i: "instrOk L s (lb_instrs (llBlock s b) ! k)"
  shows "llOk (blockInstr L b k s) (\<lambda>s'. curOk L True b s' \<and> blockRel b s s'
    \<and> lb_phis (llBlock s' b) = lb_phis (llBlock s b) \<and> lb_phiFlags (llBlock s' b) = lb_phiFlags (llBlock s b)
    \<and> map itype (lb_instrs (llBlock s' b)) = map itype (lb_instrs (llBlock s b))
    \<and> (\<forall>j. j \<noteq> k \<longrightarrow> lb_instrs (llBlock s' b) ! j = lb_instrs (llBlock s b) ! j))"
proof -
  obtain j s1 where s1: "ll_generate_instruction L (lb_instrs (llBlock s b) ! k) s = Some (j, s1)" "translated L b s s1"
    using generate_ok [OF T c, of "lb_instrs (llBlock s b) ! k"] i by (auto simp: instrOk_def elim!: llOkE)
  have b: "b < length (ll_blocks s)" using c by (simp add: curOk_def blkOk_def)
  have k: "blockRel b s s1" "lb_instrs (llBlock s1 b) = lb_instrs (llBlock s b)"
      "lb_phis (llBlock s1 b) = lb_phis (llBlock s b)" "lb_phiFlags (llBlock s1 b) = lb_phiFlags (llBlock s b)"
    using kept_block [of s s1 b] s1(2) b by (auto simp: translated_def)
  have b1: "b < length (ll_blocks s1)" using k(1) b by (simp add: blockRel_def)
  let ?s2 = "updBlock b (\<lambda>x. x\<lparr>lb_instrs := (lb_instrs x)[k := j]\<rparr>) s1"
  have "curOk L True b ?s2"
    using s1(2) b1 by (simp add: translated_def curOk_def blkOk_def updBlock_blocks) (simp add: updBlock_def globalOk_def)
  moreover have "blockRel b s1 ?s2"
    using b1 by (simp add: blockRel_def updBlock_blocks outShape_def) (simp add: updBlock_def globalOk_def)
  then have "blockRel b s ?s2" by (rule blockRel_trans [OF k(1)])
  ultimately show ?thesis
    using k b1 map_replaced [OF generate_itype [OF s1(1)]]
    by (simp add: blockInstr_def s1(1) updBlock_blocks)
qed

lemma blockInstrs_ok:
  assumes "llTyping L" and "curOk L ip b s" and "distinct ks"
    and "\<forall>k \<in> set ks. instrOk L s (lb_instrs (llBlock s b) ! k)"
  shows "llOk (llFold (blockInstr L b) ks s) (\<lambda>s'. \<exists>ip. curOk L ip b s' \<and> blockRel b s s'
    \<and> lb_phis (llBlock s' b) = lb_phis (llBlock s b) \<and> lb_phiFlags (llBlock s' b) = lb_phiFlags (llBlock s b)
    \<and> map itype (lb_instrs (llBlock s' b)) = map itype (lb_instrs (llBlock s b)))"
  using assms(2-4)
proof (induction ks arbitrary: ip s)
  case Nil
  then show ?case by (auto simp: blockRel_def)
next
  case (Cons k ks)
  obtain s1 where s1: "blockInstr L b k s = Some s1" "curOk L True b s1" "blockRel b s s1"
      "lb_phis (llBlock s1 b) = lb_phis (llBlock s b)" "lb_phiFlags (llBlock s1 b) = lb_phiFlags (llBlock s b)"
      "map itype (lb_instrs (llBlock s1 b)) = map itype (lb_instrs (llBlock s b))"
      "\<forall>j. j \<noteq> k \<longrightarrow> lb_instrs (llBlock s1 b) ! j = lb_instrs (llBlock s b) ! j"
    using blockInstr_ok [OF assms(1) Cons.prems(1), of k] Cons.prems(3) by (auto elim: llOkE)
  have "\<forall>k' \<in> set ks. instrOk L s1 (lb_instrs (llBlock s1 b) ! k')"
  proof
    fix k' assume k': "k' \<in> set ks"
    then have "k' \<noteq> k" using Cons.prems(2) by auto
    then show "instrOk L s1 (lb_instrs (llBlock s1 b) ! k')"
      using Cons.prems(3) k' s1(7) instrOk_rel [OF s1(3), of L] by simp
  qed
  from Cons.IH [OF s1(2) _ this] Cons.prems(2) show ?case
    using s1(1,4,5,6) blockRel_trans [OF s1(3)] by (auto elim!: llOk_mono)
qed

text \<open>The targets of the branch at the end exist.\<close>

definition endOk :: "('v, 'b, 'w) llstate \<Rightarrow> ('v, 'b) llblock \<Rightarrow> instrtype \<Rightarrow> bool" where
  "endOk s x t \<longleftrightarrow> (case t of
       IT_J c \<Rightarrow> llvmOf s (lb_nextBranch x) \<noteq> None \<and> llvmOf s (lb_nextFallThrough x) \<noteq> None
     | IT_JMP \<Rightarrow> llvmOf s (lb_nextBranch x) \<noteq> None
     | _ \<Rightarrow> t = IT_RET \<or> t = IT_Invalid \<or> llvmOf s (lb_nextFallThrough x) \<noteq> None)"

lemma llvmOf_rel: "blockRel b s s' \<Longrightarrow> llvmOf s' x = llvmOf s x"
  using blockRel_shape [of b s s'] by (cases x) (auto simp: llvmOf_def outShape_def)

lemma stepOk_rel: "stepOk L ip b s s' \<Longrightarrow> b < length (ll_blocks s) \<Longrightarrow> blockRel b s s'"
  using kept_block [of s s' b] by (simp add: stepOk_def)

lemma endBranch_ok:
  assumes c: "curOk L ip b s" and e: "endOk s (llBlock s b) (blockEndType (llBlock s b))"
  shows "llOk (endBranch L b s) (\<lambda>x. stepOk L ip b s (snd x))"
proof (cases "\<exists>cc. blockEndType (llBlock s b) = IT_J cc")
  case True
  then obtain cc where t: "blockEndType (llBlock s b) = IT_J cc" by (rule exE)
  obtain v s1 where v: "ll_flags_condition L cc s = Some (v, s1)" "stepOk L ip b s s1"
    using condition_ok [OF c, of cc] by (elim llOkE) (auto simp: valOk_def)
  have "llvmOf s1 x = llvmOf s x" for x
    using stepOk_rel [OF v(2)] c by (intro llvmOf_rel) (simp add: curOk_def blkOk_def)
  then show ?thesis
    using e v by (auto simp: endBranch_def t endOk_def case_prod_unfold Let_def)
next
  case False
  then show ?thesis
    using e c by (cases "blockEndType (llBlock s b)") (auto simp: endBranch_def endOk_def case_prod_unfold Let_def)
qed

lemma blkOk_mono: "blkOk L True b s \<Longrightarrow> blkOk L False b s"
proof -
  have "isLoc False l \<Longrightarrow> isLoc True l" for l by (cases l) auto
  then show "blkOk L True b s \<Longrightarrow> blkOk L False b s" by (auto simp: blkOk_def regsOk_def)
qed

text \<open>A block whose code can be generated: it has a predecessor, what its instructions and its
  branch need is there, and nothing was generated for it yet.\<close>

definition blockReady :: "('v, 't, 'b, 'w) llvm \<Rightarrow> ('v, 'b, 'w) llstate \<Rightarrow> nat \<Rightarrow> bool" where
  "blockReady L s b \<longleftrightarrow> \<not> fc_valid (rf_cache (llRegfile s b))
     \<and> lb_instrCount (llBlock s b) \<le> length (lb_instrs (llBlock s b))
     \<and> (\<forall>i \<in> set (blockInstrs (llBlock s b)). instrOk L s i)
     \<and> endOk s (llBlock s b) (blockEndType (llBlock s b))"

lemma endType_map:
  assumes "map itype (lb_instrs y) = map itype (lb_instrs x)" "outShape y = outShape x"
    "lb_instrCount x \<le> length (lb_instrs x)"
  shows "blockEndType y = blockEndType x" "endOk s y t = endOk s x t"
proof -
  have l: "length (lb_instrs y) = length (lb_instrs x)" using assms(1) by (metis length_map)
  have "itype (lb_instrs y ! k) = itype (lb_instrs x ! k)" if "k < length (lb_instrs x)" for k
    using assms(1) that l by (metis nth_map)
  then show "blockEndType y = blockEndType x"
    using assms(2,3) by (auto simp: blockEndType_def outShape_def split: option.splits)
  show "endOk s y t = endOk s x t"
    using assms(2) by (simp add: endOk_def outShape_def split: instrtype.splits)
qed

lemma block_build_ok:
  assumes T: "llTyping L" and b: "b < length (ll_blocks s)" "lb_llvmBB (llBlock s b) \<noteq> None" "globalOk s"
    and p: "lb_preds (llBlock s b) \<noteq> []" and r: "blockReady L s b"
  shows "llOk (ll_basic_block_build_ir L b s) (\<lambda>s'. blockRel b s s' \<and> blkOk L False b s' \<and> phisAll b s')"
proof -
  obtain bb where bb: "lb_llvmBB (llBlock s b) = Some bb" using b(2) by auto
  let ?s1 = "llc L (LLVMPositionBuilderAtEnd bb) (s\<lparr>ll_currentBB := b\<rparr>)"
  have s1: "b < length (ll_blocks ?s1)" "llBlock ?s1 = llBlock s" "ll_currentBB ?s1 = b" "globalOk ?s1" "blockRel b s ?s1"
    using b by (simp_all add: fun_eq_iff llBlock_def blockRel_def globalOk_def llc_def)
  obtain s2 s3 s4 where s2: "llFold (phiRegister L b RT_GP64) [0..<RI_GPMax] ?s1 = Some s2"
      "llFold (phiRegister L b RT_XMM) [0..<RI_XMMMax] s2 = Some s3" "s4 = fold (phiFlag L b) rflags s3"
      and s4: "phiRel b ?s1 s4" "blkOk L False b s4" "phisAll b s4"
    using make_phis_ok [OF T s1(1)] r b(2) s1(2) unfolding blockReady_def
    by (auto simp: llOk_def bind_eq_Some_conv)
  have c4: "curOk L False b s4" using s4(1,2) s1(3,4) by (simp add: curOk_def phiRel_def)
  have o4: "outShape (llBlock s4 b) = outShape (llBlock s b)" "lb_instrs (llBlock s4 b) = lb_instrs (llBlock s b)"
    using s4(1) phiShape_out s1(2) by (auto simp: phiRel_def)
  have rel4: "blockRel b s s4" by (rule blockRel_trans [OF s1(5) phiRel_block [OF s4(1)]])
  have cnt: "lb_instrCount (llBlock s4 b) = lb_instrCount (llBlock s b)" using o4(1) by (simp add: outShape_def)
  have "\<forall>k \<in> set [0..<lb_instrCount (llBlock s4 b)]. instrOk L s4 (lb_instrs (llBlock s4 b) ! k)"
  proof
    fix k assume "k \<in> set [0..<lb_instrCount (llBlock s4 b)]"
    then have "lb_instrs (llBlock s b) ! k \<in> set (blockInstrs (llBlock s b))"
      using r cnt by (auto simp: blockReady_def in_set_conv_nth intro!: exI [of _ k])
    then show "instrOk L s4 (lb_instrs (llBlock s4 b) ! k)"
      using r o4(2) instrOk_rel [OF rel4, of L] by (simp add: blockReady_def)
  qed
  from blockInstrs_ok [OF T c4 _ this]
  obtain s5 ip where s5: "llFold (blockInstr L b) [0..<lb_instrCount (llBlock s4 b)] s4 = Some s5" "curOk L ip b s5"
      "blockRel b s4 s5" "lb_phis (llBlock s5 b) = lb_phis (llBlock s4 b)"
      "lb_phiFlags (llBlock s5 b) = lb_phiFlags (llBlock s4 b)"
      "map itype (lb_instrs (llBlock s5 b)) = map itype (lb_instrs (llBlock s4 b))"
    by (auto elim: llOkE)
  have rel5: "blockRel b s s5" by (rule blockRel_trans [OF rel4 s5(3)])
  have "endOk s5 (llBlock s5 b) (blockEndType (llBlock s5 b)) = endOk s5 (llBlock s b) (blockEndType (llBlock s b))"
    using endType_map [of "llBlock s5 b" "llBlock s b"] s5(6) o4(2) blockRel_shape [OF rel5] r
    by (simp add: blockReady_def)
  then have "endOk s5 (llBlock s5 b) (blockEndType (llBlock s5 b))"
    using r llvmOf_rel [OF rel5] by (simp add: blockReady_def endOk_def split: instrtype.splits)
  from endBranch_ok [OF s5(2) this]
  obtain br s6 where s6: "endBranch L b s5 = Some (br, s6)" "stepOk L ip b s5 s6" by (auto elim: llOkE)
  define s7 where "s7 = (case br of Some x \<Rightarrow> if enableFullLoopUnroll s6
      then llc L (LLVMSetMetadata x ''llvm.loop'' (ll_unrollMD s6)) s6 else s6 | None \<Rightarrow> s6)"
  have s7: "stepOk L ip b s5 s7" using s6(2) by (auto simp: s7_def split: option.splits)
  have b5: "b < length (ll_blocks s5)" using s5(2) by (simp add: curOk_def blkOk_def)
  have "ll_basic_block_build_ir L b s = Some s7"
    using p bb s2 s5(1) s6(1) s1(2) by (simp add: ll_basic_block_build_ir_def Let_def s7_def llBlock_def cong: option.case_cong)
  moreover have "blockRel b s s7" by (rule blockRel_trans [OF rel5 stepOk_rel [OF s7 b5]])
  moreover have "blkOk L False b s7" using s7 blkOk_mono [of L b s7] by (cases ip) (simp_all add: stepOk_def)
  moreover have "phisAll b s7"
    using s4(3) s5(4,5) kept_block [of s5 s7 b] s7 b5 by (auto simp: phisAll_def stepOk_def)
  ultimately show ?thesis by simp
qed

end
