(* ===== verification/LLFunctionTyping.thy ===== *)
theory LLFunctionTyping
  imports LLBlockTyping
begin

text \<open>
  Functions: when every block that has a predecessor can be translated and every predecessor has
  one itself, generating the code of the function ends with a result.
\<close>

section \<open>Filling the phi nodes\<close>

text \<open>The predecessors are well-formed; reading their registers changes nothing else.\<close>

definition predsOk :: "('v, 't, 'b, 'w) llvm \<Rightarrow> nat list \<Rightarrow> ('v, 'b, 'w) llstate \<Rightarrow> bool" where
  "predsOk L qs s \<longleftrightarrow> (\<forall>p \<in> set qs. blkOk L False p s)"

definition fillRel :: "('v, 't, 'b, 'w) llvm \<Rightarrow> ('v, 'b, 'w) llstate \<Rightarrow> ('v, 'b, 'w) llstate \<Rightarrow> bool" where
  "fillRel L s s' \<longleftrightarrow> llKept s s' \<and> (\<forall>p. blkOk L False p s \<longrightarrow> blkOk L False p s')"

lemma fillRel_refl [simp]: "fillRel L s s" "fillRel L s (llc L c s') = fillRel L s s'"
  by (simp_all add: fillRel_def llKept_def)

lemma fillRel_trans: "fillRel L s s' \<Longrightarrow> fillRel L s' s'' \<Longrightarrow> fillRel L s s''"
  unfolding fillRel_def using kept_trans by blast

lemma fillRel_preds: "fillRel L s s' \<Longrightarrow> predsOk L qs s \<Longrightarrow> predsOk L qs s'"
  by (simp add: fillRel_def predsOk_def)

lemma step_fillRel: "stepOk L False p s s' \<Longrightarrow> fillRel L s s'"
proof -
  assume a: "stepOk L False p s s'"
  have "blkOk L False q s'" if "blkOk L False q s" for q
  proof (cases "q = p")
    case False
    then show ?thesis using a that kept_length [of s s'] by (simp add: stepOk_def blkOk_def)
  qed (use a in \<open>simp add: stepOk_def\<close>)
  then show ?thesis using a by (simp add: fillRel_def stepOk_def)
qed

lemma predValues_ok:
  assumes T: "llTyping L" and r: "usableReg False r" and p: "predsOk L qs s"
  shows "llOk (predValues L r f qs s) (\<lambda>x. fillRel L s (snd x))"
  using p
proof (induction qs arbitrary: s)
  case (Cons p qs)
  obtain l where l: "ll_regfile_get_ptr r = Some l" using usableReg_ptr [OF r] by auto
  have "blkOk L False p s" using Cons.prems by (simp add: predsOk_def)
  from get_ok [OF T this r l, of f]
  obtain v s1 where v: "ll_regfile_get L p f r s = Some (v, s1)" "gotFacet L False p f l s (v, s1)"
    by (elim llOkE) auto
  have s1: "fillRel L s s1" using step_fillRel gotFacet_step [OF v(2)] by simp
  then have "predsOk L qs s1" using Cons.prems by (simp add: predsOk_def fillRel_def)
  from Cons.IH [OF this] obtain vs s2 where s2: "predValues L r f qs s1 = Some (vs, s2)" "fillRel L s1 s2"
    by (auto elim!: llOkE)
  then show ?case using v(1) fillRel_trans [OF s1 s2(2)] by simp
qed simp

lemma sequenceOpt_ok: "list_all (\<lambda>x. x \<noteq> None) xs \<Longrightarrow> \<exists>ys. sequenceOpt xs = Some ys"
  by (induction xs) auto

lemma predBlocks_ok: "predsOk L qs s \<Longrightarrow> \<exists>bbs. predBlocks s qs = Some bbs"
  unfolding predBlocks_def by (rule sequenceOpt_ok) (auto simp: predsOk_def blkOk_def list_all_iff)

lemma kept_block_parts:
  assumes "fillRel L s s'" "b < length (ll_blocks s)"
  shows "lb_preds (llBlock s' b) = lb_preds (llBlock s b)" "phisAll b s' = phisAll b s"
    "b < length (ll_blocks s')"
  using assms shape_out [OF kept_shape [of s s' b]] kept_length [of s s']
  by (auto simp: fillRel_def outShape_def phisAll_def)

text \<open>The block whose phi nodes are filled.\<close>

definition fillReady :: "('v, 't, 'b, 'w) llvm \<Rightarrow> nat \<Rightarrow> ('v, 'b, 'w) llstate \<Rightarrow> bool" where
  "fillReady L b s \<longleftrightarrow> b < length (ll_blocks s) \<and> phisAll b s \<and> predsOk L (lb_preds (llBlock s b)) s"

lemma fillReady_rel: "fillRel L s s' \<Longrightarrow> fillReady L b s \<Longrightarrow> fillReady L b s'"
  using kept_block_parts [of L s s' b] fillRel_preds [of L s s'] by (simp add: fillReady_def)

lemma fillFacet_ok:
  assumes T: "llTyping L" and r: "usableReg False r" "ll_regfile_get_ptr r = Some l" "isLoc False l"
    and b: "fillReady L b s"
  shows "llOk (fillFacet L b r f s) (fillRel L s)"
proof -
  obtain bbs where bbs: "predBlocks s (lb_preds (llBlock s b)) = Some bbs"
    using predBlocks_ok b by (fastforce simp: fillReady_def)
  obtain vs s1 where s1: "predValues L r f (lb_preds (llBlock s b)) s = Some (vs, s1)" "fillRel L s s1"
    using predValues_ok [OF T r(1), of "lb_preds (llBlock s b)" s f] b by (auto simp: fillReady_def elim!: llOkE)
  have "phisAll b s1" using kept_block_parts(2) [OF s1(2)] b by (simp add: fillReady_def)
  then have "lb_phis (llBlock s1 b) l f \<noteq> None" using r(3) unfolding phisAll_def by blast
  then obtain phi where "lb_phis (llBlock s1 b) l f = Some phi" by auto
  then show ?thesis using s1 by (simp add: fillFacet_def Let_def bbs r(2))
qed

text \<open>A loop over steps that fill phi nodes.\<close>

lemma fillFold_ok:
  assumes "\<And>x s. x \<in> set xs \<Longrightarrow> fillReady L b s \<Longrightarrow> llOk (g x s) (fillRel L s)" and "fillReady L b s"
  shows "llOk (llFold g xs s) (fillRel L s)"
  using assms
proof (induction xs arbitrary: s)
  case (Cons x xs)
  obtain s1 where s1: "g x s = Some s1" "fillRel L s s1"
    using Cons.prems by (auto elim!: llOkE [of "g x s" "fillRel L s"])
  have "llOk (llFold g xs s1) (fillRel L s1)"
    by (rule Cons.IH) (use Cons.prems fillReady_rel [OF s1(2)] in auto)
  then show ?case using s1 by (auto elim!: llOk_mono intro: fillRel_trans)
qed simp

lemma fillRegister_ok:
  assumes T: "llTyping L" and b: "fillReady L b s" and k: "k < 16"
  shows "llOk (fillRegister L b RT_GP64 k s) (fillRel L s)" "llOk (fillRegister L b RT_XMM k s) (fillRel L s)"
proof -
  have regs: "getReg RT_GP64 k = Some \<lparr>rt = RT_GP64, ri = k\<rparr>" "getReg RT_XMM k = Some \<lparr>rt = RT_XMM, ri = k\<rparr>"
    using k by (simp_all add: getReg_def)
  have u: "usableReg False \<lparr>rt = RT_GP64, ri = k\<rparr>" "usableReg False \<lparr>rt = RT_XMM, ri = k\<rparr>"
    "ll_regfile_get_ptr \<lparr>rt = RT_GP64, ri = k\<rparr> = Some (GpRegister k)"
    "ll_regfile_get_ptr \<lparr>rt = RT_XMM, ri = k\<rparr> = Some (SseRegister k)"
    "isLoc False (GpRegister k)" "isLoc False (SseRegister k)"
    using k by (simp_all add: usableReg_def ll_regfile_get_ptr_def)
  show "llOk (fillRegister L b RT_GP64 k s) (fillRel L s)"
    using fillFold_ok [OF fillFacet_ok [OF T u(1,3,5)] b] by (simp add: fillRegister_def regs)
  show "llOk (fillRegister L b RT_XMM k s) (fillRel L s)"
    using fillFold_ok [OF fillFacet_ok [OF T u(2,4,6)] b] by (simp add: fillRegister_def regs)
qed

lemma fillFlag_ok:
  assumes b: "fillReady L b s"
  shows "llOk (fillFlag L b f s) (fillRel L s)"
proof -
  obtain bbs where bbs: "predBlocks s (lb_preds (llBlock s b)) = Some bbs"
    using predBlocks_ok b by (fastforce simp: fillReady_def)
  have "\<exists>vs. sequenceOpt (map (\<lambda>p. ll_regfile_get_flag p f s) (lb_preds (llBlock s b))) = Some vs"
    using b by (intro sequenceOpt_ok)
      (auto simp: fillReady_def predsOk_def blkOk_def llFlagsOk_def ll_regfile_get_flag_def list_all_iff)
  moreover have "lb_phiFlags (llBlock s b) f \<noteq> None" using b unfolding fillReady_def phisAll_def by blast
  moreover from this obtain phi where "lb_phiFlags (llBlock s b) f = Some phi" by auto
  ultimately show ?thesis by (auto simp: fillFlag_def Let_def bbs)
qed

lemma fill_phis_ok:
  assumes T: "llTyping L" and b: "lb_preds (llBlock s b) \<noteq> [] \<longrightarrow> fillReady L b s"
  shows "llOk (ll_basic_block_fill_phis L b s) (fillRel L s)"
proof (cases "lb_preds (llBlock s b) = []")
  case False
  then have r: "fillReady L b s" using b by simp
  obtain s1 where s1: "llFold (fillRegister L b RT_GP64) [0..<RI_GPMax] s = Some s1" "fillRel L s s1"
    using fillFold_ok [of "[0..<16]" L b "fillRegister L b RT_GP64" s] fillRegister_ok(1) [OF T] r
    by (auto elim!: llOkE)
  have r1: "fillReady L b s1" by (rule fillReady_rel [OF s1(2) r])
  obtain s2 where s2: "llFold (fillRegister L b RT_XMM) [0..<RI_XMMMax] s1 = Some s2" "fillRel L s1 s2"
    using fillFold_ok [of "[0..<16]" L b "fillRegister L b RT_XMM" s1] fillRegister_ok(2) [OF T] r1
    by (auto elim!: llOkE)
  have r2: "fillReady L b s2" by (rule fillReady_rel [OF s2(2) r1])
  have "llOk (llFold (fillFlag L b) rflags s2) (fillRel L s2)"
    by (rule fillFold_ok [OF fillFlag_ok r2])
  then show ?thesis
    using False s1(1) s2(1) fillRel_trans [OF fillRel_trans [OF s1(2) s2(2)]]
    by (auto simp: ll_basic_block_fill_phis_def elim!: llOk_mono)
qed (simp add: ll_basic_block_fill_phis_def)

section \<open>The code of a function\<close>

text \<open>What the generation of the code of a function leaves alone.\<close>

definition funRel :: "('v, 'b, 'w) llstate \<Rightarrow> ('v, 'b, 'w) llstate \<Rightarrow> bool" where
  "funRel s s' \<longleftrightarrow> ll_functions s' = ll_functions s \<and> ll_currentFunction s' = ll_currentFunction s
     \<and> length (ll_blocks s') = length (ll_blocks s) \<and> (globalOk s \<longrightarrow> globalOk s')
     \<and> (\<forall>c. outShape (llBlock s' c) = outShape (llBlock s c))"

lemma funRel_block: "blockRel b s s' \<Longrightarrow> funRel s s'"
  using blockRel_shape [of b s s'] by (simp add: funRel_def blockRel_def)

lemma funRel_trans: "funRel s s' \<Longrightarrow> funRel s' s'' \<Longrightarrow> funRel s s''"
  by (simp add: funRel_def)

text \<open>All blocks get their LLVM blocks.\<close>

definition declared :: "('v, 'b, 'w) llstate \<Rightarrow> ('v, 'b, 'w) llstate \<Rightarrow> bool" where
  "declared s s' \<longleftrightarrow> ll_functions s' = ll_functions s \<and> ll_currentFunction s' = ll_currentFunction s
     \<and> length (ll_blocks s') = length (ll_blocks s) \<and> globalOk s' = globalOk s
     \<and> (\<forall>c. (llBlock s' c)\<lparr>lb_llvmBB := None\<rparr> = (llBlock s c)\<lparr>lb_llvmBB := None\<rparr>
          \<and> (lb_llvmBB (llBlock s c) \<noteq> None \<longrightarrow> llBlock s' c = llBlock s c))"

lemma declared_trans: "declared s s' \<Longrightarrow> declared s' s'' \<Longrightarrow> declared s s''"
  by (simp add: declared_def)

lemma declare_ok:
  assumes "lf_llvm (ll_functions s ! ll_currentFunction s) \<noteq> None" "b < length (ll_blocks s)"
  shows "llOk (ll_basic_block_declare L b s) (\<lambda>s'. declared s s' \<and> lb_llvmBB (llBlock s' b) \<noteq> None)"
proof (cases "lb_llvmBB (llBlock s b)")
  case None
  obtain fn where fn: "lf_llvm (ll_functions s ! ll_currentFunction s) = Some fn" using assms(1) by auto
  obtain bb w where bb: "llAppendBlock L fn (ll_world s) = (bb, w)" by fastforce
  let ?s' = "updBlock b (\<lambda>x. x\<lparr>lb_llvmBB := Some bb\<rparr>) (s\<lparr>ll_world := w\<rparr>)"
  have blk: "llBlock ?s' c = (if c = b then (llBlock s b)\<lparr>lb_llvmBB := Some bb\<rparr> else llBlock s c)" for c
    using assms(2) by (simp add: updBlock_def llBlock_def)
  have "declared s ?s'"
    using None unfolding declared_def blk by (auto simp: updBlock_def globalOk_def)
  then show ?thesis using None fn bb blk by (simp add: ll_basic_block_declare_def)
qed (simp add: ll_basic_block_declare_def declared_def)

lemma declares_ok:
  assumes "lf_llvm (ll_functions s ! ll_currentFunction s) \<noteq> None" "\<forall>b \<in> set bs. b < length (ll_blocks s)"
  shows "llOk (llFold (ll_basic_block_declare L) bs s) (\<lambda>s'. declared s s'
    \<and> (\<forall>b \<in> set bs. lb_llvmBB (llBlock s' b) \<noteq> None))"
  using assms
proof (induction bs arbitrary: s)
  case Nil
  then show ?case by (simp add: declared_def)
next
  case (Cons b bs)
  obtain s1 where s1: "ll_basic_block_declare L b s = Some s1" "declared s s1" "lb_llvmBB (llBlock s1 b) \<noteq> None"
    using declare_ok [of s b L] Cons.prems by (auto elim!: llOkE)
  have "llOk (llFold (ll_basic_block_declare L) bs s1) (\<lambda>s'. declared s1 s'
    \<and> (\<forall>b \<in> set bs. lb_llvmBB (llBlock s' b) \<noteq> None))"
    by (rule Cons.IH) (use Cons.prems s1(2) in \<open>auto simp: declared_def\<close>)
  then obtain s2 where s2: "llFold (ll_basic_block_declare L) bs s1 = Some s2" "declared s1 s2"
      "\<forall>b \<in> set bs. lb_llvmBB (llBlock s2 b) \<noteq> None" by (auto elim!: llOkE)
  have "llBlock s2 b = llBlock s1 b" using s2(2) s1(3) unfolding declared_def by blast
  then show ?case using s1 s2 declared_trans [OF s1(2) s2(2)] by simp
qed

text \<open>The code of the blocks, one after the other.\<close>

definition blockBuildable :: "('v, 't, 'b, 'w) llvm \<Rightarrow> ('v, 'b, 'w) llstate \<Rightarrow> nat \<Rightarrow> bool" where
  "blockBuildable L s b \<longleftrightarrow> b < length (ll_blocks s) \<and> lb_llvmBB (llBlock s b) \<noteq> None
     \<and> (lb_preds (llBlock s b) \<noteq> [] \<longrightarrow> blockReady L s b)"

lemma buildable_rel:
  assumes "blockRel c s s'" "b \<noteq> c" "blockBuildable L s b" shows "blockBuildable L s' b"
proof -
  have "llBlock s' b = llBlock s b" "length (ll_blocks s') = length (ll_blocks s)"
    using assms(1,2) by (simp_all add: blockRel_def)
  moreover have "endOk s' x t = endOk s x t" for x t
    using llvmOf_rel [OF assms(1)] by (simp add: endOk_def split: instrtype.splits)
  ultimately show ?thesis
    using assms(3) instrOk_rel [OF assms(1), of L] by (simp add: blockBuildable_def blockReady_def)
qed

lemma build_any_ok:
  assumes T: "llTyping L" and g: "globalOk s" and b: "blockBuildable L s b"
  shows "llOk (ll_basic_block_build_ir L b s) (\<lambda>s'. blockRel b s s'
    \<and> (lb_preds (llBlock s b) \<noteq> [] \<longrightarrow> blkOk L False b s' \<and> phisAll b s'))"
proof (cases "lb_preds (llBlock s b) = []")
  case True
  then show ?thesis
    using b by (auto simp: ll_basic_block_build_ir_def blockBuildable_def blockRel_def)
next
  case False
  then show ?thesis
    using block_build_ok [OF T _ _ g False] b by (auto simp: blockBuildable_def elim!: llOk_mono)
qed

lemma builds_ok:
  assumes T: "llTyping L" and "globalOk s" "distinct bs" "\<forall>b \<in> set bs. blockBuildable L s b"
  shows "llOk (llFold (ll_basic_block_build_ir L) bs s) (\<lambda>s'. funRel s s'
    \<and> (\<forall>c. c \<notin> set bs \<longrightarrow> llBlock s' c = llBlock s c)
    \<and> (\<forall>b \<in> set bs. lb_preds (llBlock s b) \<noteq> [] \<longrightarrow> blkOk L False b s' \<and> phisAll b s'))"
  using assms(2-4)
proof (induction bs arbitrary: s)
  case Nil
  then show ?case by (simp add: funRel_def)
next
  case (Cons b bs)
  obtain s1 where s1: "ll_basic_block_build_ir L b s = Some s1" "blockRel b s s1"
      "lb_preds (llBlock s b) \<noteq> [] \<longrightarrow> blkOk L False b s1 \<and> phisAll b s1"
    using build_any_ok [OF T Cons.prems(1), of b] Cons.prems(3) by (auto elim!: llOkE)
  have "globalOk s1" using s1(2) Cons.prems(1) by (simp add: blockRel_def)
  moreover have "\<forall>c \<in> set bs. blockBuildable L s1 c"
  proof
    fix c assume c: "c \<in> set bs"
    then have "c \<noteq> b" using Cons.prems(2) by auto
    then show "blockBuildable L s1 c" using Cons.prems(3) c by (intro buildable_rel [OF s1(2)]) auto
  qed
  ultimately obtain s2 where s2: "llFold (ll_basic_block_build_ir L) bs s1 = Some s2" "funRel s1 s2"
      "\<forall>c. c \<notin> set bs \<longrightarrow> llBlock s2 c = llBlock s1 c"
      "\<forall>c \<in> set bs. lb_preds (llBlock s1 c) \<noteq> [] \<longrightarrow> blkOk L False c s2 \<and> phisAll c s2"
    using Cons.IH [of s1] Cons.prems(2) by (auto elim!: llOkE)
  have same: "llBlock s2 b = llBlock s1 b" using s2(3) Cons.prems(2) by simp
  have len: "length (ll_blocks s2) = length (ll_blocks s1)" using s2(2) by (simp add: funRel_def)
  have "lb_preds (llBlock s1 c) = lb_preds (llBlock s c)" for c
    using blockRel_shape [OF s1(2), of c] by (simp add: outShape_def)
  then show ?case
    using s1(1,3) s2(1,3,4) funRel_trans [OF funRel_block [OF s1(2)] s2(2)] s1(2) same len
    by (auto simp: blkOk_def phisAll_def blockRel_def)
qed

lemma fills_ok:
  assumes T: "llTyping L" and b: "\<forall>b \<in> set bs. lb_preds (llBlock s b) \<noteq> [] \<longrightarrow> fillReady L b s"
    and l: "\<forall>b \<in> set bs. b < length (ll_blocks s)"
  shows "llOk (llFold (ll_basic_block_fill_phis L) bs s) (fillRel L s)"
  using b l
proof (induction bs arbitrary: s)
  case (Cons b bs)
  obtain s1 where s1: "ll_basic_block_fill_phis L b s = Some s1" "fillRel L s s1"
    using fill_phis_ok [OF T, of s b] Cons.prems(1) by (auto elim!: llOkE)
  have "llOk (llFold (ll_basic_block_fill_phis L) bs s1) (fillRel L s1)"
    by (rule Cons.IH) (use Cons.prems kept_block_parts [OF s1(2)] fillReady_rel [OF s1(2)] in auto)
  then show ?case using s1 by (auto elim!: llOk_mono intro: fillRel_trans)
qed simp

section \<open>Functions that can be translated\<close>

definition inBlocks :: "nat list \<Rightarrow> nat option \<Rightarrow> bool" where
  "inBlocks bs n \<longleftrightarrow> (case n of None \<Rightarrow> False | Some b \<Rightarrow> b \<in> set bs)"

text \<open>The successors that the last instruction of a block needs are blocks of the function.\<close>

definition targetsIn :: "nat list \<Rightarrow> ('v, 'b) llblock \<Rightarrow> bool" where
  "targetsIn bs x \<longleftrightarrow> (case blockEndType x of
       IT_J c \<Rightarrow> inBlocks bs (lb_nextBranch x) \<and> inBlocks bs (lb_nextFallThrough x)
     | IT_JMP \<Rightarrow> inBlocks bs (lb_nextBranch x)
     | t \<Rightarrow> t = IT_RET \<or> t = IT_Invalid \<or> inBlocks bs (lb_nextFallThrough x))"

lemma targetsIn_bb: "targetsIn bs (x\<lparr>lb_llvmBB := y\<rparr>) = targetsIn bs x"
proof -
  have "blockEndType (x\<lparr>lb_llvmBB := y\<rparr>) = blockEndType x" by (simp add: blockEndType_def split: option.split)
  then show ?thesis by (cases "blockEndType x") (simp_all add: targetsIn_def)
qed

text \<open>A block that control can reach has a predecessor, and only such predecessors.\<close>

definition reachedBlock :: "('v, 'b, 'w) llstate \<Rightarrow> nat list \<Rightarrow> nat \<Rightarrow> nat \<Rightarrow> bool" where
  "reachedBlock s bs init b \<longleftrightarrow>
     (let x = llBlock s b
      in \<not> fc_valid (rf_cache (lb_regfile x)) \<and> lb_instrCount x \<le> length (lb_instrs x)
       \<and> (\<forall>i \<in> set (blockInstrs x). llSupported i \<and> printable i) \<and> targetsIn bs x
       \<and> (\<forall>p \<in> set (lb_preds x). p = init \<or> p \<in> set bs \<and> lb_preds (llBlock s p) \<noteq> []))"

definition functionReady :: "('v, 't, 'b, 'w) llvm \<Rightarrow> nat \<Rightarrow> ('v, 'b, 'w) llstate \<Rightarrow> bool" where
  "functionReady L f s \<longleftrightarrow>
     (let fn = llFunction s f; bs = lf_bbs fn; init = lf_initialBB fn
      in lf_kind fn = LL_FUNCTION_DEFINITION \<and> retOk L (s\<lparr>ll_currentFunction := f\<rparr>) \<and> globalOk s
       \<and> bs \<noteq> [] \<and> distinct bs \<and> (\<forall>b \<in> set bs. b < length (ll_blocks s))
       \<and> init \<notin> set bs \<and> blkOk L False init s
       \<and> (\<forall>b \<in> set bs. lb_preds (llBlock s b) \<noteq> [] \<longrightarrow> reachedBlock s bs init b))"

lemma targets_endOk:
  assumes "targetsIn bs x" "\<forall>b \<in> set bs. lb_llvmBB (llBlock s b) \<noteq> None"
  shows "endOk s x (blockEndType x)"
proof -
  have "inBlocks bs n \<Longrightarrow> llvmOf s n \<noteq> None" for n
    using assms(2) by (cases n) (auto simp: inBlocks_def llvmOf_def)
  then show ?thesis
    using assms(1) by (cases "blockEndType x") (auto simp: targetsIn_def endOk_def)
qed

lemma build_function_ok:
  assumes T: "llTyping L" and r: "functionReady L f s"
  shows "llOk (ll_function_build_ir L f s) (\<lambda>x. (\<exists>fn. lf_llvm (llFunction s f) = Some fn \<and> fst x = llVerify L fn (ll_world (snd x)))
    \<and> (\<forall>b \<in> set (lf_bbs (llFunction s f)). lb_preds (llBlock s b) \<noteq> [] \<longrightarrow> blkOk L False b (snd x))
    \<and> ll_functions (snd x) = ll_functions s)"
proof -
  define bs where "bs = lf_bbs (llFunction s f)"
  define init where "init = lf_initialBB (llFunction s f)"
  have kind: "lf_kind (llFunction s f) = LL_FUNCTION_DEFINITION" "retOk L (s\<lparr>ll_currentFunction := f\<rparr>)" "globalOk s"
    and bs: "bs \<noteq> []" "distinct bs" "\<forall>b \<in> set bs. b < length (ll_blocks s)"
    and init: "init \<notin> set bs" "blkOk L False init s"
    and reached: "\<forall>b \<in> set bs. lb_preds (llBlock s b) \<noteq> [] \<longrightarrow> reachedBlock s bs init b"
    using r by (simp_all add: functionReady_def Let_def bs_def init_def)
  obtain fn where fn: "lf_llvm (llFunction s f) = Some fn"
    using kind(2) by (auto simp: retOk_def split: option.splits)
  let ?s0 = "s\<lparr>ll_currentFunction := f\<rparr>"
  have b0: "llBlock ?s0 = llBlock s" by (simp add: fun_eq_iff llBlock_def)
  obtain s1 where s1: "llFold (ll_basic_block_declare L) bs ?s0 = Some s1" "declared ?s0 s1"
      "\<forall>b \<in> set bs. lb_llvmBB (llBlock s1 b) \<noteq> None"
    using declares_ok [of ?s0 bs L] fn bs(3) by (auto elim!: llOkE)
  have d: "ll_functions s1 = ll_functions s" "ll_currentFunction s1 = f" "length (ll_blocks s1) = length (ll_blocks s)"
      "globalOk s1" "(llBlock s1 c)\<lparr>lb_llvmBB := None\<rparr> = (llBlock s c)\<lparr>lb_llvmBB := None\<rparr>" for c
    using s1(2) kind(3) b0 by (simp_all add: declared_def globalOk_def)
  have i1: "llBlock s1 init = llBlock s init"
    using s1(2) init(2) b0 unfolding declared_def blkOk_def by metis
  have parts: "lb_preds (llBlock s1 c) = lb_preds (llBlock s c)" "lb_regfile (llBlock s1 c) = lb_regfile (llBlock s c)"
    "lb_instrs (llBlock s1 c) = lb_instrs (llBlock s c)" "lb_instrCount (llBlock s1 c) = lb_instrCount (llBlock s c)"
    "targetsIn bs (llBlock s1 c) = targetsIn bs (llBlock s c)" for c
  proof -
    obtain x where "llBlock s1 c = (llBlock s c)\<lparr>lb_llvmBB := x\<rparr>"
      using d(5) [of c] llblock.surjective [of "llBlock s1 c"] llblock.surjective [of "llBlock s c"]
      by (metis llblock.update_convs(8))
    then show "lb_preds (llBlock s1 c) = lb_preds (llBlock s c)" "lb_regfile (llBlock s1 c) = lb_regfile (llBlock s c)"
      "lb_instrs (llBlock s1 c) = lb_instrs (llBlock s c)" "lb_instrCount (llBlock s1 c) = lb_instrCount (llBlock s c)"
      "targetsIn bs (llBlock s1 c) = targetsIn bs (llBlock s c)"
      by (simp_all add: targetsIn_bb)
  qed
  have retOk1: "retOk L s1" using kind(2) d(1,2) by (simp add: retOk_def)
  obtain bb where bb: "lb_llvmBB (llBlock s1 init) = Some bb" using init(2) i1 by (auto simp: blkOk_def)
  obtain b1 where b1: "lb_llvmBB (llBlock s1 (hd bs)) = Some b1" using s1(3) bs(1) by (cases bs) auto
  let ?s2 = "snd (llb L (BuildBr b1) (llc L (LLVMPositionBuilderAtEnd bb) s1))"
  have "blockBuildable L ?s2 b" if "b \<in> set bs" for b
  proof -
    have "blockReady L ?s2 b" if "lb_preds (llBlock s1 b) \<noteq> []"
    proof -
      have rb: "reachedBlock s bs init b" using reached that \<open>b \<in> set bs\<close> parts(1) by simp
      have "endOk ?s2 (llBlock s1 b) (blockEndType (llBlock s1 b))"
        using rb parts(5) s1(3) by (intro targets_endOk) (simp_all add: reachedBlock_def Let_def)
      moreover have "retOk L ?s2" using retOk1 by (simp add: retOk_def)
      ultimately show ?thesis
        using rb parts(2-4) [of b] by (simp add: blockReady_def reachedBlock_def Let_def instrOk_def)
    qed
    then show ?thesis using that bs(3) s1(3) d(3) by (simp add: blockBuildable_def)
  qed
  then obtain s3 where s3: "llFold (ll_basic_block_build_ir L) bs ?s2 = Some s3" "funRel ?s2 s3"
      "\<forall>c. c \<notin> set bs \<longrightarrow> llBlock s3 c = llBlock s1 c"
      "\<forall>b \<in> set bs. lb_preds (llBlock s b) \<noteq> [] \<longrightarrow> blkOk L False b s3 \<and> phisAll b s3"
    using builds_ok [OF T _ bs(2), of ?s2] d(4) parts(1) by (auto elim!: llOkE)
  have len: "length (ll_blocks s3) = length (ll_blocks s)" using s3(2) d(3) by (simp add: funRel_def)
  have p3: "lb_preds (llBlock s3 c) = lb_preds (llBlock s c)" for c
    using s3(2) parts(1) by (simp add: funRel_def outShape_def)
  have "llBlock s3 init = llBlock s init" using s3(3) init(1) i1 by simp
  then have init3: "blkOk L False init s3" using init(2) len by (simp add: blkOk_def)
  have "\<forall>b \<in> set bs. lb_preds (llBlock s3 b) \<noteq> [] \<longrightarrow> fillReady L b s3"
  proof (intro ballI impI)
    fix b assume b: "b \<in> set bs" "lb_preds (llBlock s3 b) \<noteq> []"
    then have "reachedBlock s bs init b" using reached p3 by simp
    then have "predsOk L (lb_preds (llBlock s3 b)) s3"
      using init3 s3(4) p3 by (auto simp: predsOk_def reachedBlock_def Let_def)
    then show "fillReady L b s3" using b s3(4) p3 bs(3) len by (simp add: fillReady_def)
  qed
  from fills_ok [OF T this] obtain s4 where s4: "llFold (ll_basic_block_fill_phis L) bs s3 = Some s4" "fillRel L s3 s4"
    using bs(3) len by (auto elim!: llOkE)
  have "\<forall>b \<in> set bs. lb_preds (llBlock s b) \<noteq> [] \<longrightarrow> blkOk L False b s4"
    using s3(4) s4(2) by (simp add: fillRel_def)
  moreover have fs: "ll_functions s4 = ll_functions s"
    using s4(2) s3(2) d(1) by (simp add: fillRel_def llKept_def funRel_def)
  moreover have "ll_function_build_ir L f s = Some (llVerify L fn (ll_world s4), s4)"
    using kind(1) bs(1) d(1) bb b1 s1(1) s3(1) s4(1) fs fn
    by (simp add: ll_function_build_ir_def Let_def case_prod_unfold bs_def [symmetric] init_def [symmetric] llBlock_world)
  ultimately show ?thesis using fn by (simp add: bs_def)
qed

end
