(* ===== verification/LLFlagsSpec.thy ===== *)
theory LLFlagsSpec
  imports LLOpTyping
begin

text \<open>
  The flags of a subtraction as LLVM values: whatever a conditional instruction reads after it,
  from the cache of the operands or from the flags, is the condition of the processor.
\<close>

unbundle bit_operations_syntax

section \<open>The meaning of values\<close>

text \<open>An integer of a width as a signed one.\<close>

definition signedOf :: "nat \<Rightarrow> int \<Rightarrow> int" where
  "signedOf n x = (if x < 2 ^ (n - 1) then x else x - 2 ^ n)"

definition parityBits :: "int \<Rightarrow> int" where
  "parityBits x = int (length (filter (\<lambda>k. bit x k) [0..<8]))"

fun comparison :: "llpred \<Rightarrow> nat \<Rightarrow> int \<Rightarrow> int \<Rightarrow> bool" where
  "comparison LLVMIntEQ n x y = (x = y)"
| "comparison LLVMIntNE n x y = (x \<noteq> y)"
| "comparison LLVMIntULT n x y = (x < y)"
| "comparison LLVMIntULE n x y = (x \<le> y)"
| "comparison LLVMIntSLT n x y = (signedOf n x < signedOf n y)"
| "comparison LLVMIntSLE n x y = (signedOf n x \<le> signedOf n y)"

text \<open>
  What the documentation of LLVM says of the integer instructions that the flags are computed with.
  \<open>iv\<close> is the unsigned value that a value has at run time.
\<close>

definition llIntegers :: "('v, 't, 'b, 'w) llvm \<Rightarrow> ('v \<Rightarrow> int) \<Rightarrow> bool" where
  "llIntegers L iv \<longleftrightarrow>
     (\<forall>v n. llTypeOf L v = llInt L n \<longrightarrow> 0 \<le> iv v \<and> iv v < 2 ^ n)
     \<and> (\<forall>n k. iv (llConstInt L (llInt L n) k) = uint k mod 2 ^ n)
     \<and> (\<forall>n p a b w. llTypeOf L a = llInt L n \<and> llTypeOf L b = llInt L n
          \<longrightarrow> iv (fst (llBuild L (BuildICmp p a b) w)) = of_bool (comparison p n (iv a) (iv b)))
     \<and> (\<forall>n a b w. llTypeOf L a = llInt L n \<and> llTypeOf L b = llInt L n
          \<longrightarrow> iv (fst (llBuild L (BuildBin LAnd a b) w)) = iv a AND iv b
            \<and> iv (fst (llBuild L (BuildBin LOr a b) w)) = iv a OR iv b
            \<and> iv (fst (llBuild L (BuildBin LXor a b) w)) = iv a XOR iv b
            \<and> iv (fst (llBuild L (BuildBin LLShr a b) w)) = iv a div 2 ^ nat (iv b))
     \<and> (\<forall>a w. llTypeOf L a = llInt L 1 \<longrightarrow> iv (fst (llBuild L (BuildNot a) w)) = 1 - iv a)
     \<and> (\<forall>n m a w. llTypeOf L a = llInt L n \<and> m \<le> n
          \<longrightarrow> iv (fst (llBuild L (BuildCast LTrunc a (llInt L m)) w)) = iv a mod 2 ^ m
            \<and> iv (fst (llBuild L (BuildCast LTruncOrBitCast a (llInt L m)) w)) = iv a mod 2 ^ m)
     \<and> (\<forall>a w w'. llTypeOf L a = llInt L 8
          \<longrightarrow> (let c = fst (llBuild L (BuildCall (fst (llIntrinsic L LL_INTRINSIC_CTPOP [llInt L 8] w)) [a]) w')
             in llTypeOf L c = llInt L 8 \<and> iv c = parityBits (iv a)))"

lemma llIntegersD:
  assumes "llIntegers L iv"
  shows "llTypeOf L v = llInt L n \<Longrightarrow> 0 \<le> iv v \<and> iv v < 2 ^ n"
    "iv (llConstInt L (llInt L n) k) = uint k mod 2 ^ n"
    "llTypeOf L a = llInt L n \<Longrightarrow> llTypeOf L b = llInt L n
      \<Longrightarrow> iv (fst (llb L (BuildICmp p a b) s)) = of_bool (comparison p n (iv a) (iv b))"
    "llTypeOf L a = llInt L n \<Longrightarrow> llTypeOf L b = llInt L n
      \<Longrightarrow> iv (fst (llb L (BuildBin LAnd a b) s)) = iv a AND iv b"
    "llTypeOf L a = llInt L n \<Longrightarrow> llTypeOf L b = llInt L n
      \<Longrightarrow> iv (fst (llb L (BuildBin LOr a b) s)) = iv a OR iv b"
    "llTypeOf L a = llInt L n \<Longrightarrow> llTypeOf L b = llInt L n
      \<Longrightarrow> iv (fst (llb L (BuildBin LXor a b) s)) = iv a XOR iv b"
    "llTypeOf L a = llInt L n \<Longrightarrow> llTypeOf L b = llInt L n
      \<Longrightarrow> iv (fst (llb L (BuildBin LLShr a b) s)) = iv a div 2 ^ nat (iv b)"
    "llTypeOf L a = llInt L 1 \<Longrightarrow> iv (fst (llb L (BuildNot a) s)) = 1 - iv a"
    "llTypeOf L a = llInt L n \<Longrightarrow> m \<le> n \<Longrightarrow> iv (fst (llb L (BuildCast LTrunc a (llInt L m)) s)) = iv a mod 2 ^ m"
    "llTypeOf L a = llInt L n \<Longrightarrow> m \<le> n
      \<Longrightarrow> iv (fst (llb L (BuildCast LTruncOrBitCast a (llInt L m)) s)) = iv a mod 2 ^ m"
    "llTypeOf L a = llInt L 8 \<Longrightarrow> fn = fst (ll_support_get_intrinsic L LL_INTRINSIC_CTPOP [llInt L 8] s')
      \<Longrightarrow> llTypeOf L (fst (llb L (BuildCall fn [a]) s)) = llInt L 8
        \<and> iv (fst (llb L (BuildCall fn [a]) s)) = parityBits (iv a)"
proof -
  note h = assms [unfolded llIntegers_def Let_def]
  note h4 = h [THEN conjunct2, THEN conjunct2, THEN conjunct2]
  note h6 = h4 [THEN conjunct2, THEN conjunct2]
  have icmp: "iv (fst (llBuild L (BuildICmp p a b) w)) = of_bool (comparison p n (iv a) (iv b))"
    and bin: "iv (fst (llBuild L (BuildBin LAnd a b) w)) = iv a AND iv b
      \<and> iv (fst (llBuild L (BuildBin LOr a b) w)) = iv a OR iv b
      \<and> iv (fst (llBuild L (BuildBin LXor a b) w)) = iv a XOR iv b
      \<and> iv (fst (llBuild L (BuildBin LLShr a b) w)) = iv a div 2 ^ nat (iv b)"
    if "llTypeOf L a = llInt L n \<and> llTypeOf L b = llInt L n" for p a b n w
    by (rule h [THEN conjunct2, THEN conjunct2, THEN conjunct1, rule_format, OF that],
        rule h4 [THEN conjunct1, rule_format, OF that])
  have trunc: "iv (fst (llBuild L (BuildCast LTrunc a (llInt L m)) w)) = iv a mod 2 ^ m
      \<and> iv (fst (llBuild L (BuildCast LTruncOrBitCast a (llInt L m)) w)) = iv a mod 2 ^ m"
    if "llTypeOf L a = llInt L n \<and> m \<le> n" for a n m w
    by (rule h6 [THEN conjunct1, rule_format, OF that])
  show "llTypeOf L v = llInt L n \<Longrightarrow> 0 \<le> iv v \<and> iv v < 2 ^ n" using h [THEN conjunct1] by simp
  show "iv (llConstInt L (llInt L n) k) = uint k mod 2 ^ n" by (rule h [THEN conjunct2, THEN conjunct1, rule_format])
  show "llTypeOf L a = llInt L n \<Longrightarrow> llTypeOf L b = llInt L n
      \<Longrightarrow> iv (fst (llb L (BuildICmp p a b) s)) = of_bool (comparison p n (iv a) (iv b))"
    "llTypeOf L a = llInt L n \<Longrightarrow> llTypeOf L b = llInt L n \<Longrightarrow> iv (fst (llb L (BuildBin LAnd a b) s)) = iv a AND iv b"
    "llTypeOf L a = llInt L n \<Longrightarrow> llTypeOf L b = llInt L n \<Longrightarrow> iv (fst (llb L (BuildBin LOr a b) s)) = iv a OR iv b"
    "llTypeOf L a = llInt L n \<Longrightarrow> llTypeOf L b = llInt L n \<Longrightarrow> iv (fst (llb L (BuildBin LXor a b) s)) = iv a XOR iv b"
    "llTypeOf L a = llInt L n \<Longrightarrow> llTypeOf L b = llInt L n
      \<Longrightarrow> iv (fst (llb L (BuildBin LLShr a b) s)) = iv a div 2 ^ nat (iv b)"
    "llTypeOf L a = llInt L n \<Longrightarrow> m \<le> n \<Longrightarrow> iv (fst (llb L (BuildCast LTrunc a (llInt L m)) s)) = iv a mod 2 ^ m"
    "llTypeOf L a = llInt L n \<Longrightarrow> m \<le> n
      \<Longrightarrow> iv (fst (llb L (BuildCast LTruncOrBitCast a (llInt L m)) s)) = iv a mod 2 ^ m"
    by (simp_all add: fst_llb icmp [of a n] bin [of a n] trunc [of a n])
  show "llTypeOf L a = llInt L 1 \<Longrightarrow> iv (fst (llb L (BuildNot a) s)) = 1 - iv a"
    unfolding fst_llb by (rule h4 [THEN conjunct2, THEN conjunct1, rule_format])
  have "fst (ll_support_get_intrinsic L i ts s') = fst (llIntrinsic L i ts (ll_world s'))" for i ts
    by (simp add: ll_support_get_intrinsic_def split: prod.splits)
  then show "llTypeOf L (fst (llb L (BuildCall fn [a]) s)) = llInt L 8
      \<and> iv (fst (llb L (BuildCall fn [a]) s)) = parityBits (iv a)"
    if "llTypeOf L a = llInt L 8" "fn = fst (ll_support_get_intrinsic L LL_INTRINSIC_CTPOP [llInt L 8] s')"
    using that h6 [THEN conjunct2, rule_format] by (simp add: fst_llb)
qed

section \<open>The arithmetic\<close>

text \<open>The conditions of the processor after a comparison of two unsigned values of \<open>n\<close> bits.\<close>

definition subOverflow :: "nat \<Rightarrow> int \<Rightarrow> int \<Rightarrow> bool" where
  "subOverflow n x y \<longleftrightarrow> signedOf n x - signedOf n y < - (2 ^ (n - 1)) \<or> 2 ^ (n - 1) \<le> signedOf n x - signedOf n y"

definition subCondition :: "cond \<Rightarrow> nat \<Rightarrow> int \<Rightarrow> int \<Rightarrow> bool" where
  "subCondition c n x y = (case c of
       CC_O \<Rightarrow> subOverflow n x y | CC_NO \<Rightarrow> \<not> subOverflow n x y
     | CC_C \<Rightarrow> x < y | CC_NC \<Rightarrow> y \<le> x
     | CC_Z \<Rightarrow> x = y | CC_NZ \<Rightarrow> x \<noteq> y
     | CC_BE \<Rightarrow> x \<le> y | CC_A \<Rightarrow> y < x
     | CC_S \<Rightarrow> signedOf n ((x - y) mod 2 ^ n) < 0 | CC_NS \<Rightarrow> 0 \<le> signedOf n ((x - y) mod 2 ^ n)
     | CC_P \<Rightarrow> even (parityBits ((x - y) mod 256)) | CC_NP \<Rightarrow> odd (parityBits ((x - y) mod 256))
     | CC_L \<Rightarrow> signedOf n x < signedOf n y | CC_GE \<Rightarrow> signedOf n y \<le> signedOf n x
     | CC_LE \<Rightarrow> signedOf n x \<le> signedOf n y | CC_G \<Rightarrow> signedOf n y < signedOf n x)"

lemma double_power: "0 < n \<Longrightarrow> (2 :: int) ^ n = 2 * 2 ^ (n - 1)"
  by (cases n) simp_all

lemma top_bit:
  assumes "0 < n" "0 \<le> x" "x < 2 ^ n"
  shows "bit (x :: int) (n - 1) \<longleftrightarrow> 2 ^ (n - 1) \<le> x"
proof -
  let ?p = "(2 :: int) ^ (n - 1)"
  have p: "0 < ?p" by simp
  have "x < 2 * ?p" using assms(3) double_power [OF assms(1)] by simp
  show ?thesis
  proof (cases "?p \<le> x")
    case True
    have "x div ?p = 1" using True \<open>x < 2 * ?p\<close> by (intro int_div_pos_eq [where r = "x - ?p"]) auto
    then show ?thesis using True by (simp add: bit_iff_odd)
  next
    case False
    then show ?thesis using assms(2) by (simp add: bit_iff_odd)
  qed
qed

lemma mod_sub:
  assumes "0 \<le> x" "x < m" "0 \<le> y" "y < (m :: int)"
  shows "(x - y) mod m = (if y \<le> x then x - y else x - y + m)"
proof (cases "y \<le> x")
  case False
  have "(x - y) mod m = (x - y + m) mod m" by simp
  also have "\<dots> = x - y + m" using assms False by (intro mod_pos_pos_trivial) auto
  finally show ?thesis using False by simp
qed (use assms in simp)

lemma sub_signs:
  fixes x y p :: int
  assumes "0 < p" "0 \<le> x" "x < 2 * p" "0 \<le> y" "y < 2 * p"
  defines "r \<equiv> if y \<le> x then x - y else x - y + 2 * p"
    and "sx \<equiv> if x < p then x else x - 2 * p" and "sy \<equiv> if y < p then y else y - 2 * p"
  shows "((p \<le> x) \<noteq> (p \<le> r) \<and> (p \<le> x) \<noteq> (p \<le> y)) = (sx - sy < - p \<or> p \<le> sx - sy)"
    "(sx < sy) = (((if r < p then r else r - 2 * p) < 0) \<noteq> (sx - sy < - p \<or> p \<le> sx - sy))"
  using assms(1-5) unfolding r_def sx_def sy_def by (cases "y \<le> x"; cases "x < p"; cases "y < p"; auto)+

lemma overflow_bit:
  assumes n: "0 < n" and x: "0 \<le> x" "x < 2 ^ n" and y: "0 \<le> y" "y < 2 ^ n"
    and r: "r = (x - y) mod 2 ^ n"
  shows "((x XOR r) AND (x XOR y)) div 2 ^ (n - 1) mod 2 = of_bool (subOverflow n x y)"
proof -
  have r': "0 \<le> r" "r < 2 ^ n" using r by simp_all
  have "((x XOR r) AND (x XOR y)) div 2 ^ (n - 1) mod 2 = of_bool (bit ((x XOR r) AND (x XOR y)) (n - 1))"
    by (simp add: bit_iff_odd mod_2_eq_odd)
  also have "bit ((x XOR r) AND (x XOR y)) (n - 1) \<longleftrightarrow> subOverflow n x y"
    unfolding bit_and_iff bit_xor_iff top_bit [OF n x] top_bit [OF n y] top_bit [OF n r']
    unfolding r mod_sub [OF x y] subOverflow_def signedOf_def unfolding double_power [OF n]
    by (rule sub_signs(1)) (use x y double_power [OF n] in simp_all)
  finally show ?thesis .
qed

text \<open>Less means that sign and overflow flag differ.\<close>

lemma less_flags:
  assumes n: "0 < n" and x: "0 \<le> x" "x < 2 ^ n" and y: "0 \<le> y" "y < 2 ^ n"
  shows "signedOf n x < signedOf n y \<longleftrightarrow> (signedOf n ((x - y) mod 2 ^ n) < 0) \<noteq> subOverflow n x y"
  unfolding mod_sub [OF x y] subOverflow_def signedOf_def
  unfolding double_power [OF n]
  by (rule sub_signs(2)) (use x y double_power [OF n] in simp_all)

lemma sub_zero:
  assumes "0 \<le> x" "x < 2 ^ n" "0 \<le> y" "y < 2 ^ n"
  shows "(x - y) mod 2 ^ n = 0 \<longleftrightarrow> x = (y :: int)"
  using assms by (simp add: mod_sub)

lemma signed_inj:
  assumes "0 \<le> x" "x < 2 ^ n" "0 \<le> y" "y < 2 ^ n" "0 < n"
  shows "signedOf n x = signedOf n y \<longleftrightarrow> x = y"
  using assms double_power [OF assms(5)] by (auto simp: signedOf_def)

section \<open>The flags as values\<close>

text \<open>A value of one bit that stands for a truth value.\<close>

definition boolVal :: "('v, 't, 'b, 'w) llvm \<Rightarrow> ('v \<Rightarrow> int) \<Rightarrow> bool \<Rightarrow> 'v \<Rightarrow> bool" where
  "boolVal L iv Q v \<longleftrightarrow> llTypeOf L v = i1 L \<and> iv v = of_bool Q"

text \<open>A step that sets one flag of block \<open>b\<close>.\<close>

definition flagStep :: "nat \<Rightarrow> rflag \<Rightarrow> ('v \<Rightarrow> bool) \<Rightarrow> ('v, 'b, 'w) llstate \<Rightarrow> ('v, 'b, 'w) llstate \<Rightarrow> bool" where
  "flagStep b f P s s' \<longleftrightarrow> (\<exists>v. P v \<and> rf_flags (llRegfile s' b) = (rf_flags (llRegfile s b))(f := Some v))
     \<and> length (ll_blocks s') = length (ll_blocks s) \<and> ll_currentBB s' = ll_currentBB s
     \<and> enableOverflowIntrinsics s' = enableOverflowIntrinsics s"

abbreviation readyFor :: "nat \<Rightarrow> ('v, 'b, 'w) llstate \<Rightarrow> bool" where
  "readyFor b s \<equiv> ll_currentBB s = b \<and> b < length (ll_blocks s) \<and> \<not> enableOverflowIntrinsics s"

lemma overflow_frame' [simp]:
  "enableOverflowIntrinsics (snd (llb L i s)) = enableOverflowIntrinsics s"
  "enableOverflowIntrinsics (llc L c s) = enableOverflowIntrinsics s"
  "enableOverflowIntrinsics (snd (ll_support_get_intrinsic L k ts s)) = enableOverflowIntrinsics s"
  by (simp_all add: llb_def llc_def ll_support_get_intrinsic_def split: prod.splits)

lemma flagStep_before [simp]:
  "flagStep b f P (snd (llb L i s)) = flagStep b f P s"
  "flagStep b f P (snd (ll_support_get_intrinsic L k ts s)) = flagStep b f P s"
  by (simp_all add: fun_eq_iff flagStep_def llBlock_def)

lemma mark_step:
  assumes "readyFor b s" "P v"
  shows "llOk (markFlag L k f (ll_set_flag f v s)) (flagStep b f P s)"
proof -
  have "ll_get_flag f (ll_set_flag f v s) = Some v"
    using assms(1) by (simp add: ll_get_flag_def ll_set_flag_def ll_regfile_get_flag_def ll_regfile_set_flag_def)
  moreover have "flagStep b f P s (llc L c (ll_set_flag f v s))" for c
    using assms by (auto simp: flagStep_def ll_set_flag_def ll_regfile_set_flag_def updRegfile_def updBlock_def llBlock_def)
  ultimately show ?thesis by (simp add: markFlag_def)
qed

lemma mark_step':
  assumes "readyFor b s1" "P v" "flagStep b f P s1 = flagStep b f P s"
  shows "llOk (markFlag L k f (ll_set_flag f v s1)) (flagStep b f P s)"
  using mark_step [OF assms(1), of P v L k f] assms(2,3) by simp

text \<open>The operands of a subtraction and its result.\<close>

definition subValues :: "('v, 't, 'b, 'w) llvm \<Rightarrow> ('v \<Rightarrow> int) \<Rightarrow> nat \<Rightarrow> 'v \<Rightarrow> 'v \<Rightarrow> 'v \<Rightarrow> bool" where
  "subValues L iv n r x y \<longleftrightarrow> 8 \<le> n \<and> n \<le> 64 \<and> llTypeOf L r = llInt L n \<and> llTypeOf L x = llInt L n
     \<and> llTypeOf L y = llInt L n \<and> iv r = (iv x - iv y) mod 2 ^ n"

lemma flag_values:
  assumes T: "llTyping L" and I: "llIntegers L iv" and V: "subValues L iv n r x y" and s: "readyFor b s"
  shows "llOk (ll_flags_set_af L r x y s) (flagStep b RFLAG_AF (\<lambda>_. True) s)"
    "llOk (ll_flags_set_zf L r s) (flagStep b RFLAG_ZF (boolVal L iv (iv x = iv y)) s)"
    "llOk (ll_flags_set_sf L r s) (flagStep b RFLAG_SF (boolVal L iv (signedOf n ((iv x - iv y) mod 2 ^ n) < 0)) s)"
    "llOk (ll_flags_set_cf_sub L x y s) (flagStep b RFLAG_CF (boolVal L iv (iv x < iv y)) s)"
    "llOk (ll_flags_set_of_sub L r x y s) (flagStep b RFLAG_OF (boolVal L iv (subOverflow n (iv x) (iv y))) s)"
    "llOk (ll_flags_set_pf L r s) (flagStep b RFLAG_PF (boolVal L iv (even (parityBits ((iv x - iv y) mod 256)))) s)"
proof -
  note i = llIntegersD [OF I]
  have n: "8 \<le> n" "n \<le> 64" and t: "llTypeOf L r = llInt L n" "llTypeOf L x = llInt L n" "llTypeOf L y = llInt L n"
    and r: "iv r = (iv x - iv y) mod 2 ^ n" using V by (simp_all add: subValues_def)
  note rx = i(1) [OF t(2)] and ry = i(1) [OF t(3)]
  have c0: "llTypeOf L (constLike L r k) = llInt L n" "iv (constLike L r 0) = 0" for k
    using i(2) [of n 0] by (simp_all add: constLike_def t llTyping_consts [OF T])
  note ct = llTyping_build [OF T, of "BuildCast k v t" for k v t, simplified]
  note bt = llTyping_build [OF T, of "BuildBin k v t" for k v t, simplified]
  note it = llTyping_build [OF T, of "BuildICmp k v t" for k v t, simplified]
  note nt = llTyping_build [OF T, of "BuildNot v" for v, simplified]
  show "llOk (ll_flags_set_af L r x y s) (flagStep b RFLAG_AF (\<lambda>_. True) s)"
    unfolding ll_flags_set_af_def Let_def case_prod_unfold by (rule mark_step'; use s in simp)
  show "llOk (ll_flags_set_zf L r s) (flagStep b RFLAG_ZF (boolVal L iv (iv x = iv y)) s)"
    unfolding ll_flags_set_zf_def Let_def case_prod_unfold
    by (rule mark_step'; use s rx ry in
        \<open>simp add: boolVal_def i1_def it i(3) [OF t(1) c0(1)] c0(2) r sub_zero\<close>)
  show "llOk (ll_flags_set_sf L r s) (flagStep b RFLAG_SF (boolVal L iv (signedOf n ((iv x - iv y) mod 2 ^ n) < 0)) s)"
    unfolding ll_flags_set_sf_def Let_def case_prod_unfold
    by (rule mark_step'; use s rx ry in
        \<open>simp add: boolVal_def i1_def it i(3) [OF t(1) c0(1)] c0(2) r signedOf_def [of n 0]\<close>)
  show "llOk (ll_flags_set_cf_sub L x y s) (flagStep b RFLAG_CF (boolVal L iv (iv x < iv y)) s)"
    unfolding ll_flags_set_cf_sub_def Let_def case_prod_unfold
    by (rule mark_step'; use s in \<open>simp add: boolVal_def i1_def it i(3) [OF t(2,3)]\<close>)
  show "llOk (ll_flags_set_of_sub L r x y s) (flagStep b RFLAG_OF (boolVal L iv (subOverflow n (iv x) (iv y))) s)"
  proof -
    let ?w = "llConstInt L (llInt L n) (of_nat (n - 1))"
    let ?x1 = "llb L (BuildBin LXor x r) s"
    let ?x2 = "llb L (BuildBin LXor x y) (snd ?x1)"
    let ?a = "llb L (BuildBin LAnd (fst ?x1) (fst ?x2)) (snd ?x2)"
    let ?h = "llb L (BuildBin LLShr (fst ?a) ?w) (snd ?a)"
    let ?v = "llb L (BuildCast LTrunc (fst ?h) (i1 L)) (snd ?h)"
    have types: "llTypeOf L (fst ?x1) = llInt L n" "llTypeOf L (fst ?x2) = llInt L n" "llTypeOf L (fst ?a) = llInt L n"
      "llTypeOf L (fst ?h) = llInt L n" "llTypeOf L ?w = llInt L n"
      by (simp_all add: bt t llTyping_consts [OF T])
    have "n - 1 < 2 ^ n" using less_exp [of n] by linarith
    then have "int (n - 1) < int (2 ^ n)" by (rule of_nat_less_iff [THEN iffD2])
    then have "int (n - 1) < 2 ^ n" unfolding of_nat_power by simp
    then have "iv ?w = int (n - 1)"
    proof -
      have "unat (of_nat (n - 1) :: u64) = n - 1" using n unfolding unat_of_nat by (intro mod_less) simp
      then have "uint (of_nat (n - 1) :: u64) = int (n - 1)" by (simp only: uint_nat)
      then show ?thesis
        using i(2) [of n "of_nat (n - 1)"] mod_pos_pos_trivial [OF _ \<open>int (n - 1) < 2 ^ n\<close>] by (simp only: of_nat_0_le_iff)
    qed
    then have "iv (fst ?h) = ((iv x XOR iv r) AND (iv x XOR iv y)) div 2 ^ (n - 1)"
      using i(6) [OF t(2,1)] i(6) [OF t(2,3)] i(4) [OF types(1,2)] i(7) [OF types(3,5)] by simp
    then have "iv (fst ?v) = of_bool (subOverflow n (iv x) (iv y))"
      using i(9) [OF types(4), of 1] n overflow_bit [of n "iv x" "iv y" "iv r"] rx ry r by (simp add: i1_def)
    then have "boolVal L iv (subOverflow n (iv x) (iv y)) (fst ?v)" by (simp add: boolVal_def ct)
    then show ?thesis
      using s unfolding ll_flags_set_of_sub_def signBit_def
      by (simp add: Let_def case_prod_unfold t llTyping_types(6) [OF T] mark_step')
  qed
  show "llOk (ll_flags_set_pf L r s) (flagStep b RFLAG_PF (boolVal L iv (even (parityBits ((iv x - iv y) mod 256)))) s)"
  proof -
    let ?f = "ll_support_get_intrinsic L LL_INTRINSIC_CTPOP [llInt L 8] s"
    let ?a = "llb L (BuildCast LTruncOrBitCast r (llInt L 8)) (snd ?f)"
    let ?c = "llb L (BuildCall (fst ?f) [fst ?a]) (snd ?a)"
    let ?b = "llb L (BuildCast LTruncOrBitCast (fst ?c) (i1 L)) (snd ?c)"
    let ?v = "llb L (BuildNot (fst ?b)) (snd ?b)"
    have "llTypeOf L (fst ?a) = llInt L 8" by (simp add: ct)
    from i(11) [OF this refl, of s "snd ?a"]
    have c: "llTypeOf L (fst ?c) = llInt L 8" "iv (fst ?c) = parityBits (iv (fst ?a))" by simp_all
    have "(2 :: int) ^ 8 dvd 2 ^ n" using n(1) by (rule le_imp_power_dvd)
    then have "iv (fst ?a) = (iv x - iv y) mod 2 ^ 8"
      by (simp only: i(10) [OF t(1) n(1)] r mod_mod_cancel)
    then have "iv (fst ?a) = (iv x - iv y) mod 256" by simp
    moreover have "iv (fst ?b) = iv (fst ?c) mod 2" using i(10) [OF c(1), of 1] by (simp add: i1_def)
    ultimately have "iv (fst ?v) = of_bool (even (parityBits ((iv x - iv y) mod 256)))"
      using i(8) [of "fst ?b" "snd ?b"] c(2) by (simp add: ct i1_def mod_2_eq_odd)
    then have "boolVal L iv (even (parityBits ((iv x - iv y) mod 256))) (fst ?v)"
      by (simp add: boolVal_def nt ct)
    then show ?thesis
      using s unfolding ll_flags_set_pf_def by (simp add: Let_def case_prod_unfold mark_step')
  qed
qed

text \<open>What the block knows after a subtraction.\<close>

definition subFlags :: "('v, 't, 'b, 'w) llvm \<Rightarrow> ('v \<Rightarrow> int) \<Rightarrow> nat \<Rightarrow> 'v \<Rightarrow> 'v \<Rightarrow> 'v llregfile \<Rightarrow> bool" where
  "subFlags L iv n x y rf \<longleftrightarrow>
     (\<exists>v. rf_flags rf RFLAG_ZF = Some v \<and> boolVal L iv (iv x = iv y) v)
     \<and> (\<exists>v. rf_flags rf RFLAG_SF = Some v \<and> boolVal L iv (signedOf n ((iv x - iv y) mod 2 ^ n) < 0) v)
     \<and> (\<exists>v. rf_flags rf RFLAG_CF = Some v \<and> boolVal L iv (iv x < iv y) v)
     \<and> (\<exists>v. rf_flags rf RFLAG_OF = Some v \<and> boolVal L iv (subOverflow n (iv x) (iv y)) v)
     \<and> (\<exists>v. rf_flags rf RFLAG_PF = Some v \<and> boolVal L iv (even (parityBits ((iv x - iv y) mod 256))) v)
     \<and> (fc_valid (rf_cache rf) \<longrightarrow> fc_operand1 (rf_cache rf) = Some x \<and> fc_operand2 (rf_cache rf) = Some y)"

lemma flagStep_ready: "flagStep b f P s s' \<Longrightarrow> readyFor b s \<Longrightarrow> readyFor b s'"
  by (simp add: flagStep_def)

lemma set_sub_flags:
  assumes T: "llTyping L" and I: "llIntegers L iv" and V: "subValues L iv n r x y" and s: "readyFor b s"
  shows "\<exists>s'. ll_flags_set_sub L r x y s = Some s' \<and> readyFor b s' \<and> fc_valid (rf_cache (llRegfile s' b))
    \<and> subFlags L iv n x y (llRegfile s' b)"
proof -
  note v = flag_values [OF T I V]
  obtain s1 where s1: "ll_flags_set_af L r x y s = Some s1" "flagStep b RFLAG_AF (\<lambda>_. True) s s1"
    using v(1) [OF s] by (rule llOkE)
  note r1 = flagStep_ready [OF s1(2) s]
  obtain s2 where s2: "ll_flags_set_zf L r s1 = Some s2" "flagStep b RFLAG_ZF (boolVal L iv (iv x = iv y)) s1 s2"
    using v(2) [OF r1] by (rule llOkE)
  note r2 = flagStep_ready [OF s2(2) r1]
  obtain s3 where s3: "ll_flags_set_sf L r s2 = Some s3"
      "flagStep b RFLAG_SF (boolVal L iv (signedOf n ((iv x - iv y) mod 2 ^ n) < 0)) s2 s3"
    using v(3) [OF r2] by (rule llOkE)
  note r3 = flagStep_ready [OF s3(2) r2]
  obtain s4 where s4: "ll_flags_set_cf_sub L x y s3 = Some s4" "flagStep b RFLAG_CF (boolVal L iv (iv x < iv y)) s3 s4"
    using v(4) [OF r3] by (rule llOkE)
  note r4 = flagStep_ready [OF s4(2) r3]
  obtain s5 where s5: "ll_flags_set_of_sub L r x y s4 = Some s5"
      "flagStep b RFLAG_OF (boolVal L iv (subOverflow n (iv x) (iv y))) s4 s5"
    using v(5) [OF r4] by (rule llOkE)
  note r5 = flagStep_ready [OF s5(2) r4]
  obtain s6 where s6: "ll_flags_set_pf L r s5 = Some s6"
      "flagStep b RFLAG_PF (boolVal L iv (even (parityBits ((iv x - iv y) mod 256)))) s5 s6"
    using v(6) [OF r5] by (rule llOkE)
  note r6 = flagStep_ready [OF s6(2) r5]
  have "subFlags L iv n x y ((llRegfile s6 b)\<lparr>rf_cache := \<lparr>fc_valid = True, fc_operand1 = Some x,
       fc_operand2 = Some y, fc_result = Some r\<rparr>\<rparr>)"
    using s2(2) s3(2) s4(2) s5(2) s6(2) by (auto simp: flagStep_def subFlags_def)
  then show ?thesis
    using r6 by (simp add: ll_flags_set_sub_def s1(1) s2(1) s3(1) s4(1) s5(1) s6(1) Let_def setFlagCache_def
        updRegfile_def updBlock_def llBlock_def)
qed

lemma condition_sub:
  assumes T: "llTyping L" and I: "llIntegers L iv" and V: "subValues L iv n r x y" and s: "readyFor b s"
    and f: "subFlags L iv n x y (llRegfile s b)"
  shows "\<exists>v s'. ll_flags_condition L c s = Some (v, s') \<and> boolVal L iv (subCondition c n (iv x) (iv y)) v"
proof -
  note i = llIntegersD [OF I]
  have n: "8 \<le> n" "n \<le> 64" and t: "llTypeOf L r = llInt L n" "llTypeOf L x = llInt L n" "llTypeOf L y = llInt L n"
    using V by (simp_all add: subValues_def)
  note rx = i(1) [OF t(2)] and ry = i(1) [OF t(3)]
  note bt = llTyping_build [OF T, of "BuildBin k v t" for k v t, simplified]
  note it = llTyping_build [OF T, of "BuildICmp k v t" for k v t, simplified]
  note nt = llTyping_build [OF T, of "BuildNot v" for v, simplified]
  obtain z sf cf ov pf where flags: "ll_get_flag RFLAG_ZF s = Some z" "ll_get_flag RFLAG_SF s = Some sf"
      "ll_get_flag RFLAG_CF s = Some cf" "ll_get_flag RFLAG_OF s = Some ov" "ll_get_flag RFLAG_PF s = Some pf"
    and vals: "boolVal L iv (iv x = iv y) z" "boolVal L iv (signedOf n ((iv x - iv y) mod 2 ^ n) < 0) sf"
      "boolVal L iv (iv x < iv y) cf" "boolVal L iv (subOverflow n (iv x) (iv y)) ov"
      "boolVal L iv (even (parityBits ((iv x - iv y) mod 256))) pf"
    using f s by (auto simp: subFlags_def ll_get_flag_def ll_regfile_get_flag_def)
  have neg: "boolVal L iv (\<not> Q) (fst (llb L (BuildNot v) s'))" if "boolVal L iv Q v" for Q v s'
    using that i(8) [of v s'] by (simp add: boolVal_def i1_def nt)
  have cmp: "boolVal L iv (comparison p n (iv x) (iv y)) (fst (llb L (BuildICmp p x y) s'))" for p s'
    using i(3) [OF t(2,3)] by (simp add: boolVal_def i1_def it)
  have ne: "boolVal L iv (P \<noteq> Q) (fst (llb L (BuildICmp LLVMIntNE v w) s'))"
    if "boolVal L iv P v" "boolVal L iv Q w" for P Q v w s'
    using that i(3) [of v 1 w] by (simp add: boolVal_def i1_def it)
  have disj: "boolVal L iv (P \<or> Q) (fst (llb L (BuildBin LOr v w) s'))"
    if "boolVal L iv P v" "boolVal L iv Q w" for P Q v w s'
    using that i(5) [of v 1 w] by (simp add: boolVal_def i1_def bt)
  have less: "(signedOf n ((iv x - iv y) mod 2 ^ n) < 0) \<noteq> subOverflow n (iv x) (iv y)
      \<longleftrightarrow> signedOf n (iv x) < signedOf n (iv y)"
    using less_flags [of n "iv x" "iv y"] n rx ry by simp
  have eq: "iv x = iv y \<longleftrightarrow> signedOf n (iv x) = signedOf n (iv y)"
    using signed_inj [of "iv x" n "iv y"] n rx ry by simp
  let ?fc = "ll_regfile_get_flag_cache (ll_currentBB s) s"
  have fc: "fc_valid ?fc \<Longrightarrow> fc_operand1 ?fc = Some x \<and> fc_operand2 ?fc = Some y"
    using f s by (simp add: subFlags_def ll_regfile_get_flag_cache_def)
  note be = disj [OF vals(3) vals(1), unfolded le_less [symmetric]]
  note lt = ne [OF vals(2) vals(4), unfolded less]
  note le = disj [OF lt vals(1), unfolded eq le_less [symmetric]]
  note pos = vals be lt le cmp [of LLVMIntULE, simplified] cmp [of LLVMIntSLT, simplified] cmp [of LLVMIntSLE, simplified]
  note negs = pos [THEN neg, unfolded not_less not_le]
  note defs = ll_flags_condition_def condCode_def flags Let_def case_prod_unfold cachedCompare_def subCondition_def
  have "llOk (ll_flags_condition L c s) (\<lambda>w. boolVal L iv (subCondition c n (iv x) (iv y)) (fst w))"
  proof (cases "fc_valid ?fc")
    case True
    then show ?thesis
      by (cases c) (simp_all add: defs fc pos negs)
  next
    case False
    then show ?thesis
      by (cases c) (simp_all add: defs pos negs)
  qed
  then show ?thesis by (elim llOkE) auto
qed

end
