(* ===== verification/LLInstance.thy ===== *)
theory LLInstance
  imports LLFlagsSpec
begin

text \<open>
  An instance of the C interface of LLVM for the witnesses: types are terms, a value is its type,
  whether it is constant, and a number that the integer operations compute with. Blocks are
  numbers, and what is behind the interface is the number of blocks.
\<close>

unbundle bit_operations_syntax

section \<open>Types and values\<close>

datatype (plugins only: code size) xtype =
    XInt nat | XFloat | XDouble | XVoid | XVector xtype nat | XPointer xtype nat | XArray xtype nat
  | XFunction xtype "xtype list"

datatype (plugins only: code size) xvalue = XV (xtypeOf: xtype) (xconst: bool) (xnum: int)

fun xType :: "xtype lltype \<Rightarrow> xtype" where
  "xType (LLVMIntType n) = XInt n"
| "xType LLVMFloatType = XFloat"
| "xType LLVMDoubleType = XDouble"
| "xType LLVMVoidType = XVoid"
| "xType (LLVMVectorType t n) = XVector t n"
| "xType (LLVMPointerType t n) = XPointer t n"
| "xType (LLVMArrayType t n) = XArray t n"
| "xType (LLVMFunctionType t ts) = XFunction t ts"

fun xKind :: "xtype \<Rightarrow> typekind" where
  "xKind (XInt n) = LLVMIntegerTypeKind"
| "xKind XFloat = LLVMFloatTypeKind"
| "xKind XDouble = LLVMDoubleTypeKind"
| "xKind XVoid = LLVMVoidTypeKind"
| "xKind (XVector t n) = LLVMVectorTypeKind"
| "xKind (XPointer t n) = LLVMPointerTypeKind"
| "xKind _ = LLVMOtherTypeKind"

fun xElement :: "xtype \<Rightarrow> xtype" where
  "xElement (XVector t n) = t"
| "xElement (XPointer t n) = t"
| "xElement (XArray t n) = t"
| "xElement t = t"

fun xSize :: "xtype \<Rightarrow> nat" where
  "xSize (XVector t n) = n"
| "xSize _ = 0"

fun xWidth :: "xtype \<Rightarrow> nat" where
  "xWidth (XInt n) = n"
| "xWidth _ = 0"

fun xReturn :: "xtype \<Rightarrow> xtype" where
  "xReturn (XFunction t ts) = t"
| "xReturn t = t"

fun xParams :: "xtype \<Rightarrow> xtype list" where
  "xParams (XFunction t ts) = ts"
| "xParams _ = []"

section \<open>Operations\<close>

text \<open>The unsigned integer of a value.\<close>

definition xval :: "xvalue \<Rightarrow> int" where
  "xval v = take_bit (xWidth (xtypeOf v)) (xnum v)"

fun xBin :: "llop \<Rightarrow> nat \<Rightarrow> int \<Rightarrow> int \<Rightarrow> int" where
  "xBin LAdd n x y = (x + y) mod 2 ^ n"
| "xBin LSub n x y = (x - y) mod 2 ^ n"
| "xBin LMul n x y = (x * y) mod 2 ^ n"
| "xBin LAnd n x y = x AND y"
| "xBin LOr n x y = x OR y"
| "xBin LXor n x y = x XOR y"
| "xBin LShl n x y = (x * 2 ^ nat y) mod 2 ^ n"
| "xBin LLShr n x y = x div 2 ^ nat y"
| "xBin LAShr n x y = (signedOf n x div 2 ^ nat y) mod 2 ^ n"
| "xBin _ n x y = 0"

fun xCast :: "llcast \<Rightarrow> nat \<Rightarrow> nat \<Rightarrow> int \<Rightarrow> int" where
  "xCast LSExt n m x = signedOf n x mod 2 ^ m"
| "xCast LSExtOrBitCast n m x = signedOf n x mod 2 ^ m"
| "xCast _ n m x = x mod 2 ^ m"

abbreviation xwidthOf :: "xvalue \<Rightarrow> nat" where
  "xwidthOf v \<equiv> xWidth (xtypeOf v)"

fun xBuild :: "(xvalue, xtype, nat) build \<Rightarrow> xvalue" where
  "xBuild (BuildBin op a b) = XV (xtypeOf a) (xconst a \<and> xconst b) (xBin op (xwidthOf a) (xval a) (xval b))"
| "xBuild (BuildCast c v t) = XV t (xconst v) (xCast c (xwidthOf v) (xWidth t) (xval v))"
| "xBuild (BuildICmp p a b) = XV (XInt 1) (xconst a \<and> xconst b) (of_bool (comparison p (xwidthOf a) (xval a) (xval b)))"
| "xBuild (BuildNot v) = XV (xtypeOf v) (xconst v) (2 ^ xwidthOf v - 1 - xval v)"
| "xBuild (BuildNeg v) = XV (xtypeOf v) (xconst v) ((- xval v) mod 2 ^ xwidthOf v)"
| "xBuild (BuildSelect c a b) = XV (xtypeOf a) False (if xnum c \<noteq> 0 then xnum a else xnum b)"
| "xBuild (BuildExtractElement v k) = XV (xElement (xtypeOf v)) False 0"
| "xBuild (BuildInsertElement v x k) = XV (xtypeOf v) False 0"
| "xBuild (BuildShuffleVector a b m) = XV (XVector (xElement (xtypeOf a)) (xSize (xtypeOf m))) False 0"
| "xBuild (BuildExtractValue v k) = XV XVoid False 0"
| "xBuild (BuildGEP p is) = XV (xtypeOf p) (xconst p \<and> list_all xconst is) 0"
| "xBuild (BuildLoad p) = XV (xElement (xtypeOf p)) False 0"
| "xBuild (BuildStore v p) = XV XVoid False 0"
| "xBuild (BuildArrayAlloca t n) = XV (XPointer t 0) False 0"
| "xBuild (BuildPhi t) = XV t False 0"
| "xBuild (BuildCall f as) = XV (xReturn (xElement (xtypeOf f))) False
     (if xnum f = 1 then parityBits (case as of [] \<Rightarrow> 0 | a # _ \<Rightarrow> xval a) else 0)"
| "xBuild _ = XV XVoid False 0"

fun xConst :: "(xvalue, xtype) llconst \<Rightarrow> xvalue" where
  "xConst (LLVMConstInt t n) = XV t True (uint n mod 2 ^ xWidth t)"
| "xConst (LLVMConstNull t) = XV t True 0"
| "xConst (LLVMGetUndef t) = XV t True 0"
| "xConst (LLVMConstVector vs) =
     XV (XVector (case vs of [] \<Rightarrow> XVoid | v # _ \<Rightarrow> xtypeOf v) (length vs)) True 0"
| "xConst (LLVMConstAllOnes t) = XV t True (2 ^ xWidth t - 1)"
| "xConst (LLVMConstNot v) = XV (xtypeOf v) True (2 ^ xwidthOf v - 1 - xnum v)"
| "xConst (LLVMConstZExtOrBitCast v t) = XV t True (xnum v)"
| "xConst (LLVMConstPointerNull t) = XV t True 0"
| "xConst (LLVMConstBitCast v t) = XV t True (xnum v)"
| "xConst _ = XV XVoid True 0"

definition xllvm :: "(xvalue, xtype, nat, nat) llvm" where
  "xllvm = \<lparr>llType = xType, llConst = xConst, llBuild = (\<lambda>i w. (xBuild i, w)), llCmd = (\<lambda>_ w. w),
     llTypeOf = xtypeOf, llTypeKind = xKind, llIntTypeWidth = xWidth, llVectorSize = xSize,
     llElementType = xElement, llReturnType = xReturn, llParamTypes = xParams,
     llIsConstant = xconst, llIsNull = (\<lambda>v. xconst v \<and> xnum v = 0), llIsConstantInt = xconst,
     llZExtValue = (\<lambda>v. of_int (xnum v)),
     llParams = (\<lambda>f. map (\<lambda>t. XV t False 0) (xParams (xElement (xtypeOf f)))),
     llTerminator = (\<lambda>_ _. None), llAppendBlock = (\<lambda>_ w. (w, Suc w)),
     llAddFunction = (\<lambda>_ t w. (XV (XPointer t 0) False 0, w)),
     llAddGlobal = (\<lambda>t _ w. (XV (XPointer t 0) False 0, w)),
     llNamedFunction = (\<lambda>_ _. None), llModuleFunctions = (\<lambda>_. []), llIsDeclaration = (\<lambda>_ _. True),
     llSymbol = (\<lambda>_. False),
     llIntrinsic = (\<lambda>k _ w. (XV (XPointer (XFunction (XInt 8) [XInt 8]) 0) False
       (if k = LL_INTRINSIC_CTPOP then 1 else 0), w)),
     llVerify = (\<lambda>_ _. False), llPointer = (\<lambda>_ w. (0x1000, w)), llModuleCreate = (\<lambda>_. 0),
     llParseBitcode = (\<lambda>_. None), llCreateMCJIT = Some, llUnrollMD = XV XVoid True 0,
     llRunPasses = (\<lambda>_ w. w), llMemory = (\<lambda>_. 0), llMalloc = None\<rparr>"

lemma xllvm_simps [simp]:
  "llType xllvm = xType" "llConst xllvm = xConst" "llBuild xllvm i w = (xBuild i, w)"
  "llCmd xllvm c w = w" "llTypeOf xllvm = xtypeOf" "llTypeKind xllvm = xKind"
  "llIntTypeWidth xllvm = xWidth" "llVectorSize xllvm = xSize" "llElementType xllvm = xElement"
  "llReturnType xllvm = xReturn" "llIsConstant xllvm = xconst"
  "llIsNull xllvm v = (xconst v \<and> xnum v = 0)" "llTerminator xllvm bb w = None"
  "llIntrinsic xllvm k ts w = (XV (XPointer (XFunction (XInt 8) [XInt 8]) 0) False
     (if k = LL_INTRINSIC_CTPOP then 1 else 0), w)"
  by (simp_all add: xllvm_def)

section \<open>The instance does what is documented\<close>

lemma xBuild_type: "buildType xllvm i = Some t \<Longrightarrow> xtypeOf (xBuild i) = t"
  by (cases i) (auto simp: llInt_def split: if_splits)

lemma xConst_type: "constType xllvm c = Some t \<Longrightarrow> xtypeOf (xConst c) = t"
  by (cases c) (auto split: if_splits list.splits)

lemma xConst_const: "xconst (xConst c)"
  by (cases c) auto

lemma xllvm_typing: "llTyping xllvm"
  by (simp add: llTyping_def llResults_def llTypes_def llConstants_def xBuild_type xConst_type xConst_const llInt_def)

lemma parityBits_bound: "0 \<le> parityBits x" "parityBits x \<le> 8"
  using length_filter_le [of "bit x" "[0..<8]"] by (simp_all add: parityBits_def)

lemma xval_int: "xtypeOf v = XInt n \<Longrightarrow> 0 \<le> xval v \<and> xval v < 2 ^ n"
  by (simp add: xval_def)

lemma xllvm_integers: "llIntegers xllvm xval"
proof -
  have shift: "take_bit n (take_bit n x div 2 ^ k) = take_bit n x div 2 ^ k" for n k and x :: int
    by (simp flip: drop_bit_eq_div add: drop_bit_take_bit)
  have one: "take_bit 1 (1 - take_bit 1 x) = 1 - take_bit 1 x" for x :: int
    by (simp add: take_bit_eq_mod mod_2_eq_odd)
  have mod_take_bit: "take_bit m (take_bit n x mod 2 ^ m) = take_bit n x mod 2 ^ m" for m n and x :: int
    by (simp flip: take_bit_eq_mod)
  have const: "take_bit n (x mod 2 ^ n) = x mod 2 ^ n" for n and x :: int
    by (simp flip: take_bit_eq_mod)
  have eight: "take_bit 8 (parityBits x) = parityBits x" for x
    using parityBits_bound [of x] by (simp add: take_bit_eq_mod)
  show ?thesis
    unfolding llIntegers_def
    by (simp add: llInt_def llConstInt_def Let_def xval_int)
      (simp add: xval_def shift eight one mod_take_bit const)
qed

end
