(* ===== verification/LLTheorems.thy ===== *)
theory LLTheorems
  imports LLFunctionTyping LLInstance
begin

text \<open>
  The properties of the LLVM backend at the level of registers and instructions, with witnesses
  on the instance of the interface of LLVM.
\<close>

section \<open>A block for the witnesses\<close>

text \<open>Every register has only its native value; the flags are constants.\<close>

definition xRegfile :: "xvalue llregfile" where
  "xRegfile =
     \<lparr>rf_regs = (\<lambda>l. (\<lambda>_. None)(nativeFacet l := Some (XV (ll_register_facet_type xllvm (nativeFacet l)) False 7))),
      rf_flags = (\<lambda>_. Some (XV (XInt 1) True 0)),
      rf_cache = \<lparr>fc_valid = False, fc_operand1 = None, fc_operand2 = None, fc_result = None\<rparr>\<rparr>"

definition xBlock :: "instr list \<Rightarrow> nat list \<Rightarrow> 'b option \<Rightarrow> xvalue llregfile \<Rightarrow> (xvalue, 'b) llblock" where
  "xBlock is preds bb rf =
     \<lparr>lb_address = 0x1000, lb_instrCount = length is, lb_instrs = is, lb_nextBranch = None,
      lb_nextFallThrough = None, lb_predsAllocated = 10, lb_preds = preds, lb_llvmBB = bb,
      lb_endType = None, lb_regfile = rf, lb_phis = (\<lambda>_ _. None), lb_phiFlags = (\<lambda>_. None)\<rparr>"

definition xState :: "(xvalue, nat) llblock list \<Rightarrow> (xvalue, nat, nat) llstate" where
  "xState bbs =
     \<lparr>ll_world = 5,
      ll_functions = [\<lparr>lf_name = None, lf_address = 0x1000,
        lf_llvm = Some (XV (XPointer (XFunction (XInt 64) []) 0) False 0), lf_kind = LL_FUNCTION_DEFINITION,
        lf_stackSize = 128, lf_bbsAllocated = 10, lf_bbs = [1], lf_initialBB = 0\<rparr>],
      ll_functionsAllocated = 10, ll_blocks = bbs, ll_emptyMD = XV XVoid True 0,
      ll_unrollMD = XV XVoid True 0, ll_currentFunction = 0, ll_currentBB = 0,
      ll_globalOffsetBase = 0, ll_globalBase = None, enableUnsafePointerOptimizations = False,
      enableOverflowIntrinsics = False, enableFastMath = False, enableFullLoopUnroll = False\<rparr>"

abbreviation "xStart \<equiv> xState [xBlock [] [] (Some 0) xRegfile]"

lemma xState_head_ok: "blkOk xllvm ip 0 (xState (xBlock [] [] (Some 0) xRegfile # bbs))"
proof -
  have "locOk xllvm (rf_regs xRegfile l) l" for l by (simp add: locOk_def xRegfile_def)
  then show ?thesis
    by (simp add: blkOk_def xState_def xBlock_def llBlock_def regsOk_def llFlagsOk_def) (simp add: xRegfile_def)
qed

lemma xStart_ok: "blkOk xllvm ip 0 xStart" "curOk xllvm ip 0 xStart"
proof -
  show "blkOk xllvm ip 0 xStart" by (rule xState_head_ok)
  then show "curOk xllvm ip 0 xStart" by (simp add: curOk_def xState_def globalOk_def)
qed

section \<open>Registers\<close>

text \<open>C14. Reading a register of a well-formed block in any facet gives a value of the type of the
  facet. The block stays well-formed, the values that it had before are the same, other blocks
  are not touched, and a second read gives the same value without generating anything.\<close>

theorem register_facets_typed:
  assumes "llTyping L" and "blkOk L ip b s" and "usableReg ip r"
  shows "\<exists>v s'. ll_regfile_get L b f r s = Some (v, s') \<and> llTypeOf L v = ll_register_facet_type L f
    \<and> blkOk L ip b s' \<and> (\<forall>l g w. llFacet s b l g = Some w \<longrightarrow> llFacet s' b l g = Some w)
    \<and> (\<forall>c. c \<noteq> b \<longrightarrow> llBlock s' c = llBlock s c)
    \<and> ll_regfile_get L b f r s' = Some (v, s')"
proof -
  obtain l where l: "ll_regfile_get_ptr r = Some l" "isLoc ip l" using usableReg_ptr [OF assms(3)] by auto
  obtain v s' where v: "ll_regfile_get L b f r s = Some (v, s')" "gotFacet L ip b f l s (v, s')"
    using get_ok [OF assms l(1), of f] by (elim llOkE) auto
  have "ll_regfile_get L b f r s' = Some (v, s')"
    using v(2) l(1) by (subst ll_regfile_get.simps) (simp add: gotFacet_def)
  then show ?thesis using v by (auto simp: gotFacet_def grows_def)
qed

lemma register_facets_typed_witness:
  "\<exists>v s'. ll_regfile_get xllvm 0 FACET_I8H \<lparr>rt = RT_GP64, ri = RI_A\<rparr> xStart = Some (v, s')
    \<and> xtypeOf v = XInt 8 \<and> blkOk xllvm False 0 s'"
proof -
  have "usableReg False \<lparr>rt = RT_GP64, ri = RI_A\<rparr>" by (simp add: usableReg_def)
  from register_facets_typed [OF xllvm_typing xStart_ok(1) this, of FACET_I8H] show ?thesis
    by (auto simp: ll_register_facet_type_def llInt_def)
qed

section \<open>Instructions\<close>

text \<open>C6. Translating an instruction that the backend supports never traps. The register file of the
  current block stays well-formed and then has the instruction pointer, and neither other blocks
  nor functions are touched.\<close>

theorem supported_instruction_translated:
  assumes "llTyping L" and "curOk L ip b s" and "llSupported i" and "printable i"
    and "itype i = IT_RET \<longrightarrow> retOk L s"
  shows "\<exists>j s'. ll_generate_instruction L i s = Some (j, s') \<and> curOk L True b s'
    \<and> (\<forall>c. c \<noteq> b \<longrightarrow> llBlock s' c = llBlock s c) \<and> ll_functions s' = ll_functions s"
  using generate_ok [OF assms(1-4)] assms(5) by (auto elim!: llOkE simp: translated_def llKept_def)

abbreviation "xAdd \<equiv> instr0\<lparr>itype := IT_ADD, ivtype := VT_64, iform := OF_2, iaddr := 0x1000, ilen := 3,
  idst := op0\<lparr>otype := OT_Reg64, oreg := \<lparr>rt = RT_GP64, ri = RI_A\<rparr>\<rparr>,
  isrc := op0\<lparr>otype := OT_Ind64, oreg := \<lparr>rt = RT_GP64, ri = RI_DI\<rparr>, oval := 8\<rparr>\<rparr>"

lemma xAdd_ok: "llSupported xAdd" "printable xAdd"
  by code_simp+

lemma supported_instruction_translated_witness:
  "\<exists>j s'. ll_generate_instruction xllvm xAdd xStart = Some (j, s') \<and> curOk xllvm True 0 s'"
  using supported_instruction_translated [OF xllvm_typing xStart_ok(2) xAdd_ok] by auto

section \<open>Conditions\<close>

text \<open>C13. After a subtraction or comparison every condition that a conditional jump, move or set
  computes is the condition of the processor on the operands, and it is the same whether it is
  computed from the cached operands or from the single flags.\<close>

theorem conditions_after_sub:
  assumes "llTyping L" and "llIntegers L iv" and "subValues L iv n r x y"
    and "ll_currentBB s < length (ll_blocks s)" and "\<not> enableOverflowIntrinsics s"
  shows "\<exists>s1. ll_flags_set_sub L r x y s = Some s1
    \<and> (\<forall>c. (\<exists>v s2. ll_flags_condition L c s1 = Some (v, s2) \<and> iv v = of_bool (subCondition c n (iv x) (iv y)))
       \<and> (\<exists>v s2. ll_flags_condition L c (invalidateCache s1) = Some (v, s2)
          \<and> iv v = of_bool (subCondition c n (iv x) (iv y))))"
proof -
  obtain s1 where s1: "ll_flags_set_sub L r x y s = Some s1" "readyFor (ll_currentBB s) s1"
      "subFlags L iv n x y (llRegfile s1 (ll_currentBB s))"
    using set_sub_flags [OF assms(1-3), where s = s and b = "ll_currentBB s"] assms(4,5) by auto
  have "readyFor (ll_currentBB s) (invalidateCache s1)"
    "subFlags L iv n x y (llRegfile (invalidateCache s1) (ll_currentBB s))"
    using s1(2,3) by (simp_all add: invalidateCache_def setFlagCache_def updRegfile_def updBlock_def llBlock_def subFlags_def)
  from condition_sub [OF assms(1-3) this] condition_sub [OF assms(1-3) s1(2,3)]
  show ?thesis using s1(1) by (fastforce simp: boolVal_def)
qed


lemma conditions_after_sub_witness:
  "\<exists>s1. ll_flags_set_sub xllvm (XV (XInt 8) False 254) (XV (XInt 8) False 3) (XV (XInt 8) False 5) xStart = Some s1
    \<and> (\<exists>v s2. ll_flags_condition xllvm CC_L s1 = Some (v, s2) \<and> xval v = 1)"
proof -
  have "subValues xllvm xval 8 (XV (XInt 8) False 254) (XV (XInt 8) False 3) (XV (XInt 8) False 5)"
    by (simp add: subValues_def llInt_def xval_def take_bit_eq_mod)
  moreover have "ll_currentBB xStart < length (ll_blocks xStart)" "\<not> enableOverflowIntrinsics xStart"
    by (simp_all add: xState_def)
  ultimately
  obtain s1 v s2 where "ll_flags_set_sub xllvm (XV (XInt 8) False 254) (XV (XInt 8) False 3) (XV (XInt 8) False 5) xStart = Some s1"
      "ll_flags_condition xllvm CC_L s1 = Some (v, s2)"
      "xval v = of_bool (subCondition CC_L 8 (xval (XV (XInt 8) False 3)) (xval (XV (XInt 8) False 5)))"
    using conditions_after_sub [OF xllvm_typing xllvm_integers] by metis
  moreover have "subCondition CC_L 8 (xval (XV (XInt 8) False 3)) (xval (XV (XInt 8) False 5))"
    by (simp add: subCondition_def xval_def take_bit_eq_mod signedOf_def)
  ultimately show ?thesis by auto
qed

section \<open>Functions\<close>

text \<open>C5. Generating the code of a function whose reachable blocks have only supported instructions
  and existing successors ends with the verdict of LLVM's verifier, and then every block that has a
  predecessor has a complete register file.\<close>

theorem function_code_generated:
  assumes "llTyping L" and "functionReady L f s"
  shows "\<exists>fn s'. lf_llvm (llFunction s f) = Some fn \<and> ll_function_build_ir L f s = Some (llVerify L fn (ll_world s'), s')
    \<and> (\<forall>b \<in> set (lf_bbs (llFunction s f)). lb_preds (llBlock s b) \<noteq> [] \<longrightarrow> blkOk L False b s')
    \<and> ll_functions s' = ll_functions s"
  using build_function_ok [OF assms] by (auto elim!: llOkE)

abbreviation "xRet \<equiv> instr0\<lparr>itype := IT_RET, iform := OF_0, iaddr := 0x1003, ilen := 1\<rparr>"

abbreviation "xFunction \<equiv> xState [xBlock [] [] (Some 0) xRegfile, xBlock [xAdd, xRet] [0] None xRegfile]"

lemma xFunction_ready: "functionReady xllvm 0 xFunction"
proof -
  have r: "llSupported xRet" "printable xRet" by code_simp+
  have b: "blkOk xllvm False 0 xFunction"
    by (rule xState_head_ok)
  have "reachedBlock xFunction [1] 0 1"
    using xAdd_ok r
    by (simp add: reachedBlock_def xState_def llBlock_def xBlock_def targetsIn_def blockEndType_def)
       (simp add: xRegfile_def)
  moreover have "retOk xllvm (xFunction\<lparr>ll_currentFunction := 0\<rparr>)" by (simp add: retOk_def xState_def)
  moreover have f: "lf_kind (llFunction xFunction 0) = LL_FUNCTION_DEFINITION" "lf_bbs (llFunction xFunction 0) = [1]"
    "lf_initialBB (llFunction xFunction 0) = 0" "globalOk xFunction" "length (ll_blocks xFunction) = 2"
    by (simp_all add: xState_def globalOk_def)
  ultimately show ?thesis
    using b unfolding functionReady_def Let_def f by simp
qed

lemma function_code_generated_witness:
  "\<exists>s'. ll_function_build_ir xllvm 0 xFunction = Some (False, s') \<and> blkOk xllvm False 1 s'"
proof -
  obtain fn s' where "ll_function_build_ir xllvm 0 xFunction = Some (llVerify xllvm fn (ll_world s'), s')"
      "\<forall>b \<in> set (lf_bbs (llFunction xFunction 0)). lb_preds (llBlock xFunction b) \<noteq> [] \<longrightarrow> blkOk xllvm False b s'"
    using function_code_generated [OF xllvm_typing xFunction_ready] by blast
  then show ?thesis by (simp add: xllvm_def) (simp add: xState_def xBlock_def llBlock_def)
qed

end
