(* ===== verification/Spec2Isabelle.thy ===== *)
theory Spec2Isabelle
  imports MoveRoundTrip CaptureTheorems Rewrite LLTheorems
begin

text \<open>
  DBrew is a C library that rewrites compiled functions at run time. It decodes the x86-64 code
  of a function, runs it in an emulator that knows some of its arguments, captures those
  instructions whose operands are not known, and generates new code from the captured blocks,
  either by its own code generator or by LLVM. This development models the library (\<open>src/\<close>,
  with the headers \<open>include/\<close>) and its LLVM backend (\<open>llvm/\<close>), and proves what makes the
  parts correct.

  How the parts work together. \<open>dbrew_rewrite\<close> resets the configuration-dependent state
  (\<open>vEmulateAndCapture\<close>) and runs the tracing loop: it decodes a block (\<open>dbrew_decode\<close>), emulates
  its instructions (\<open>processInstr\<close>), which captures instructions into the current block
  (\<open>capture\<close>), ends the block at a conditional jump whose condition is not known, saves the
  emulator state for both targets and goes on with the block on top of the stack of open paths.
  Then passes copy and vectorize the captured blocks, and three passes generate, move and link
  the code. The LLVM backend takes the captured blocks, or blocks that its own decoder finds,
  and translates them to LLVM instructions. All state hangs off the structure \<open>Rewriter\<close>
  (\<open>include/priv/common.h\<close>), here the record \<open>rewriter\<close>, which every operation takes and
  returns; the state of the LLVM backend is the record \<open>llstate\<close>.

  Conventions. A function of the code that may fail an assertion, reach an \<open>assert(0)\<close> or use a
  null pointer returns an \<open>option\<close>, with \<open>None\<close> for the abort; errors that the code reports are
  values (\<open>error\<close>) in the state. Integers have their widths (\<open>u8\<close> to \<open>u64\<close> are words);
  register indexes and array indexes are naturals. Pointers into arrays of the rewriter are
  indexes; bytes are read from a map from addresses to bytes (\<open>Prelude\<close>).

  \<^bold>\<open>Theories that model code\<close>
  \<^item> \<open>Prelude\<close>: words, the abort monad, memory, facts on lists and options used everywhere.
    \<open>Digits\<close>: the formats of \<open>printf\<close> that the code uses.
  \<^item> \<open>InstrTypes\<close>, \<open>Instr\<close>: the types of \<open>include/priv/instr.h\<close> and \<open>src/instr.c\<close>.
  \<^item> \<open>Common\<close>: \<open>include/priv/common.h\<close> and the error records of \<open>src/error.c\<close>.
    \<open>Buffers\<close>: the code storage of \<open>src/buffers.c\<close>. \<open>Config\<close>: \<open>src/config.c\<close>.
  \<^item> \<open>OpcodeTable\<close>, \<open>DecodeContext\<close>, \<open>DecodeHandlers\<close>, \<open>DecodeTables\<close>, \<open>Decode\<close>: \<open>src/decode.c\<close>,
    from the tables of opcode entries, the decode context and the handlers to the contents of the
    tables and \<open>dbrew_decode\<close>.
  \<^item> \<open>GenPrim\<close>, \<open>Generate\<close>: the encodings and the generator functions of \<open>src/generate.c\<close>.
  \<^item> \<open>EmuState\<close>, \<open>EmuFlags\<close>, \<open>EmuMem\<close>, \<open>Capture\<close>, \<open>Emulate\<close>: \<open>src/emulate.c\<close>: states and their
    comparison, flags, access to operands, the capture functions, and \<open>processInstr\<close>.
  \<^item> \<open>Expr\<close>: the expressions of \<open>src/expr.c\<close>. \<open>Printer\<close>: \<open>src/printer.c\<close>.
  \<^item> \<open>Engine\<close>: the tracing loop, the passes and the code generation of \<open>src/engine.c\<close>.
    \<open>Vector\<close>, \<open>VectorCall\<close>: \<open>src/vector.c\<close> and \<open>expandedVectorVariant\<close> of \<open>src/snippets.c\<close>.
    \<open>Dbrew\<close>: the entry points of \<open>src/dbrew.c\<close>.
  \<^item> \<open>LLCommon\<close>: the data of the LLVM backend and the C interface of LLVM.
    \<open>LLRegFile\<close>, \<open>LLFlags\<close>, \<open>LLOperand\<close>: \<open>llregfile.c\<close>, \<open>llflags.c\<close>, \<open>lloperand.c\<close>.
    \<open>LLInstruction\<close>, \<open>LLTranslate\<close>: \<open>llinstruction*.c\<close>. \<open>LLBlock\<close>, \<open>LLFunction\<close>:
    \<open>llbasicblock.c\<close>, \<open>llfunction.c\<close>. \<open>LLDecoder\<close>, \<open>LLEngine\<close>: \<open>lldecoder.c\<close>, \<open>llengine.c\<close>.

  \<^bold>\<open>Theories that prove\<close>
  \<^item> \<open>ModRM\<close>, \<open>PrefixRoundTrip\<close>, \<open>RoundTrip\<close>, \<open>DecodeLookup\<close>, \<open>GenRoundTrip\<close>, \<open>MoveRoundTrip\<close> and
    \<open>JumpRoundTrip\<close>: what the generator writes for an instruction is what the decoder reads as
    this instruction; first for operands and prefixes, then for groups of instruction types.
  \<^item> \<open>DecodeProgress\<close>, \<open>DecodeLoop\<close>, \<open>DecodeBlock\<close>: every table entry is a parsing step or appends
    an instruction, so the decoder ends; what a decoded block is.
  \<^item> \<open>FlagsSpec\<close>: the emulator's flags of a subtraction are those of the processor.
  \<^item> \<open>CaptureProtocol\<close>, \<open>EngineProtocol\<close>: the interfaces between the emulator and the captured
    blocks, and between the tracing loop and both, as the locales \<open>capture_protocol\<close> and
    \<open>engine_protocol\<close>: a property that survives capturing an instruction, closing and opening a
    block holds of everything the tracing produces. \<open>CaptureInvariant\<close> and \<open>Rewrite\<close> interpret
    them: bounds of the arrays, the shape of the graph of blocks, what is left unchanged.
  \<^item> \<open>Machine\<close>, \<open>CaptureSound\<close>, \<open>EmulateSound\<close>, \<open>CaptureTheorems\<close>: a reference semantics of
    instructions on registers; emulating and capturing is a partial evaluation with respect to it.
  \<^item> \<open>GenBlocks\<close>, \<open>Layout\<close>, \<open>LinkedCode\<close>: the three passes of the code generation produce linked
    code for all blocks. \<open>Passes\<close>, \<open>Rewrite\<close>: the passes before, and the whole of
    \<open>dbrew_rewrite\<close>. \<open>TraceExample\<close>: a complete run, for the witnesses.
  \<^item> \<open>LLTyping\<close>, \<open>LLRegTyping\<close>, \<open>LLOpTyping\<close>, \<open>LLOperandTyping\<close>, \<open>LLInstrTyping\<close>,
    \<open>LLTransTyping\<close>: the values that the LLVM backend keeps for a register have the types of their
    facets, from reading and writing registers and operands to the translation of every supported
    instruction. \<open>LLBlockTyping\<close>, \<open>LLFunctionTyping\<close>: phi nodes, blocks and functions; code is
    generated for every function of supported instructions.
  \<^item> \<open>LLFlagsSpec\<close>: the conditions that the LLVM backend computes after a subtraction are those of
    the processor. \<open>LLInstance\<close>: an interface of LLVM that satisfies the hypotheses, for the
    witnesses. \<open>LLTheorems\<close>: the properties of the backend.
  Locales stand where a client relies on laws: \<open>handler_table\<close> (lookup after install, interpreted
  on the opcode tables), \<open>bump_allocator\<close> (the code storage), \<open>capture_protocol\<close> and
  \<open>engine_protocol\<close>.

  \<^bold>\<open>Parameters, bounds and fuel\<close>
  \<^item> The record \<open>world\<close> (\<open>Engine\<close>) is what the process gives: the filled opcode tables, the address
    that \<open>mmap\<close> returns, the address of the emulated stack, the addresses of the functions that
    the emulator knows, and the handler of vector calls.
  \<^item> The decoding loop has the free slots of the decode buffer as fuel: every turn takes one, which
    \<open>decode_loop_ends\<close> proves. The tracing loop may run forever, like that of the code; it is a
    \<open>partial_function\<close>, and theorems about its results have the result as a hypothesis.
  \<^item> Rewriting a kernel inside of a rewriting recurses through \<open>vectorWorld n\<close>, where \<open>n\<close> bounds
    the depth of nested vector calls; the theorems hold for every \<open>world\<close>, so for every depth.
  \<^item> The C interface of LLVM is the record \<open>llvm\<close> of functions over unknown types of values,
    types and blocks. The hypothesis \<open>llTyping\<close> states what its documentation says of the types
    of instructions and of constant folding; \<open>llIntegers\<close> states what it says of the
    values of integer instructions. \<open>LLInstance\<close> satisfies both.

  \<^bold>\<open>Not modelled\<close>
  \<^item> Output: the \<open>print\<close> and \<open>log\<close> functions except the texts themselves (\<open>Printer\<close>, \<open>Expr\<close> and
    the error texts are modelled), hence the verbosity setters, and the printing of emulator states.
  \<^item> Release of memory (\<open>freeRewriter\<close>, \<open>cc_free\<close>, \<open>expr_freePool\<close>, \<open>ll_*_dispose\<close>).
  \<^item> \<open>llsupport.cc\<close>, C++ code that only calls the C++ interface of LLVM; it belongs to the
    parameter \<open>llvm\<close>.
  \<^item> The programs under \<open>examples/\<close> and \<open>tests/\<close>, and the vector kernels of \<open>snippets.c\<close>, which are
    not called by the library but are code that it rewrites.
  \<^item> The limits of the static text buffers, and reading bytes behind the mapped code.
\<close>

section \<open>Generated code decodes to the captured instruction\<close>

text \<open>Registers and immediates of the witnesses.\<close>

abbreviation "regOp32 k \<equiv> op0\<lparr>otype := OT_Reg32, oreg := \<lparr>rt = RT_GP32, ri = k\<rparr>\<rparr>"
abbreviation "immOp32 v \<equiv> op0\<lparr>otype := OT_Imm32, oval := v\<rparr>"
abbreviation "immOp8 v \<equiv> op0\<lparr>otype := OT_Imm8, oval := v\<rparr>"
abbreviation "binaryInstr it d s \<equiv> instr0\<lparr>itype := it, ivtype := VT_32, iform := OF_2, idst := d, isrc := s\<rparr>"
abbreviation "unaryInstr it d \<equiv> instr0\<lparr>itype := it, iform := OF_1, idst := d\<rparr>"

lemma gpReg_regOp32: "k < 16 \<Longrightarrow> gpReg VT_32 (regOp32 k)"
  by (simp add: gpReg_def gpVT_def getGPRegOpType_def getGPRegType_def)









end
